(* ===== verification/Axis_Prelude.thy ===== *)
theory Axis_Prelude
  imports Complex_Main "HOL-Library.AList" "HOL-Library.List_Lexorder" "HOL-Library.Char_ord"
    "HOL-Library.Product_Lexorder"
begin

text \<open>
  What every component of the control plane shares: JSON values and Python dictionaries, the
  operations of a service as state transformers that may raise, the relational reads and writes
  that the SQLAlchemy statements of the repository perform, the parts of Python's standard library
  that the code calls (\<^verbatim>\<open>str.strip\<close>, \<^verbatim>\<open>str(int)\<close>, \<^verbatim>\<open>str(UUID)\<close>, \<^verbatim>\<open>timedelta\<close>), and the
  generic lemmas and rule collections that the component proofs use.
\<close>

named_theorems op_simps \<open>equations that execute an operation\<close>
named_theorems op_keeps \<open>rules that show that an operation keeps a state predicate\<close>
named_theorems row_simps \<open>what the row constructors and row updates put in each column\<close>

section \<open>Names for the model's types\<close>

text \<open>A UUID is its integer value; a timestamp is a number of microseconds since the epoch (the
  resolution of \<^verbatim>\<open>datetime\<close>); a finite \<^verbatim>\<open>float\<close> is the rational it denotes.\<close>

type_synonym uuid = nat
type_synonym timestamp = int
type_synonym pyfloat = rat

section \<open>JSON values and dictionaries\<close>

datatype json =
    JNull
  | JBool bool
  | JInt int
  | JFloat pyfloat
  | JStr string
  | JList "json list"
  | JObj "(string \<times> json) list"

type_synonym dict = "(string \<times> json) list"

text \<open>\<^verbatim>\<open>d.get(key)\<close>: an absent key reads as \<^verbatim>\<open>None\<close>.\<close>

definition dget :: "dict \<Rightarrow> string \<Rightarrow> json" where
  "dget d k = (case map_of d k of None \<Rightarrow> JNull | Some v \<Rightarrow> v)"

text \<open>\<^verbatim>\<open>d[key] = value\<close>: in place for a known key, at the end for a new one.\<close>

definition dset :: "string \<Rightarrow> json \<Rightarrow> dict \<Rightarrow> dict" where
  "dset k v d = AList.update k v d"

text \<open>\<^verbatim>\<open>{**d, **e}\<close>.\<close>

definition dmerge :: "dict \<Rightarrow> dict \<Rightarrow> dict" where
  "dmerge d e = fold (\<lambda>(k, v). dset k v) e d"

definition jopt :: "('a \<Rightarrow> json) \<Rightarrow> 'a option \<Rightarrow> json" where
  "jopt f x = (case x of None \<Rightarrow> JNull | Some y \<Rightarrow> f y)"

definition jstrs :: "string list \<Rightarrow> json" where
  "jstrs xs = JList (map JStr xs)"

lemma map_of_dset [simp]: "map_of (dset k v d) = (map_of d)(k \<mapsto> v)"
  by (simp add: dset_def update_conv')

lemma dget_dset [simp]: "dget (dset k v d) l = (if l = k then v else dget d l)"
  by (simp add: dget_def)

text \<open>\<^verbatim>\<open>==\<close> on JSON values: dictionaries compare without regard to the order of their keys, and
  booleans, integers and floats compare as numbers.\<close>

definition json_num :: "json \<Rightarrow> rat option" where
  "json_num j = (case j of JBool b \<Rightarrow> Some (if b then 1 else 0) | JInt n \<Rightarrow> Some (of_int n)
     | JFloat x \<Rightarrow> Some x | _ \<Rightarrow> None)"

function (sequential) json_eq :: "json \<Rightarrow> json \<Rightarrow> bool" where
  "json_eq (JList xs) (JList ys) =
     (length xs = length ys \<and> list_all (\<lambda>(x, y). json_eq x y) (zip xs ys))"
| "json_eq (JObj xs) (JObj ys) =
     (length xs = length ys \<and>
      list_all (\<lambda>(k, v). case map_of ys k of None \<Rightarrow> False | Some w \<Rightarrow> json_eq v w) xs)"
| "json_eq a b =
     (case (json_num a, json_num b) of
        (Some x, Some y) \<Rightarrow> x = y
      | (None, None) \<Rightarrow> a = b
      | _ \<Rightarrow> False)"
  by pat_completeness auto
termination
proof (relation "measure (\<lambda>(a, b). size a)", goal_cases)
  case (2 xs ys z x y)
  then have "x \<in> set xs" by (auto dest: set_zip_leftD)
  then show ?case
    using size_list_estimation' [of x xs "size x" size] by simp
next
  case (3 xs ys z k v w)
  then have "(k, v) \<in> set xs" by simp
  then show ?case
    using size_list_estimation' [of "(k, v)" xs "size v" "size_prod (\<lambda>x. 0) size"] by simp
qed simp

text \<open>\<^verbatim>\<open>bool(value)\<close> of a JSON value.\<close>

definition truthy :: "json \<Rightarrow> bool" where
  "truthy j \<longleftrightarrow> (case j of JNull \<Rightarrow> False | JBool b \<Rightarrow> b | JInt n \<Rightarrow> n \<noteq> 0 | JFloat x \<Rightarrow> x \<noteq> 0
     | JStr s \<Rightarrow> s \<noteq> [] | JList xs \<Rightarrow> xs \<noteq> [] | JObj d \<Rightarrow> d \<noteq> [])"

section \<open>Operations: state transformers that may raise\<close>

text \<open>
  A Python function that reads and writes the session and may raise is a function from the state
  to a result and the state it leaves behind. The state is kept on both outcomes, because an
  exception does not undo what was flushed before it: only \<open>session_scope\<close> does.
\<close>

type_synonym ('s, 'e, 'a) op = "'s \<Rightarrow> ('e + 'a) \<times> 's"

definition return_op :: "'a \<Rightarrow> ('s, 'e, 'a) op" where
  "return_op x s = (Inr x, s)"

definition raise_op :: "'e \<Rightarrow> ('s, 'e, 'a) op" where
  "raise_op e s = (Inl e, s)"

definition bind_op :: "('s, 'e, 'a) op \<Rightarrow> ('a \<Rightarrow> ('s, 'e, 'b) op) \<Rightarrow> ('s, 'e, 'b) op" where
  "bind_op m f s = (case m s of (Inl e, t) \<Rightarrow> (Inl e, t) | (Inr x, t) \<Rightarrow> f x t)"

definition get_op :: "('s \<Rightarrow> 'a) \<Rightarrow> ('s, 'e, 'a) op" where
  "get_op f s = (Inr (f s), s)"

definition put_op :: "('s \<Rightarrow> 's) \<Rightarrow> ('s, 'e, unit) op" where
  "put_op f s = (Inr (), f s)"

text \<open>\<^verbatim>\<open>except E as exc: raise F from exc\<close>, also used to embed one component's errors in
  another's.\<close>

definition lift_error :: "('e \<Rightarrow> 'f) \<Rightarrow> ('s, 'e, 'a) op \<Rightarrow> ('s, 'f, 'a) op" where
  "lift_error g m s = (case m s of (Inl e, t) \<Rightarrow> (Inl (g e), t) | (Inr x, t) \<Rightarrow> (Inr x, t))"

text \<open>A result that was computed without touching the state.\<close>

definition of_result :: "'e + 'a \<Rightarrow> ('s, 'e, 'a) op" where
  "of_result r s = (r, s)"

lemma return_op_apply [op_simps, simp]: "return_op x s = (Inr x, s)"
  by (simp add: return_op_def)

lemma raise_op_apply [op_simps, simp]: "raise_op e s = (Inl e, s)"
  by (simp add: raise_op_def)

lemma get_op_apply [op_simps, simp]: "get_op f s = (Inr (f s), s)"
  by (simp add: get_op_def)

lemma put_op_apply [op_simps, simp]: "put_op f s = (Inr (), f s)"
  by (simp add: put_op_def)

lemma of_result_apply [op_simps, simp]: "of_result r s = (r, s)"
  by (simp add: of_result_def)

lemma bind_op_Inr [simp]: "m s = (Inr x, t) \<Longrightarrow> bind_op m f s = f x t"
  by (simp add: bind_op_def)

lemma bind_op_Inl [simp]: "m s = (Inl e, t) \<Longrightarrow> bind_op m f s = (Inl e, t)"
  by (simp add: bind_op_def)

lemma bind_op_split:
  "P (bind_op m f s) \<longleftrightarrow>
     (\<forall>e t. m s = (Inl e, t) \<longrightarrow> P (Inl e, t)) \<and> (\<forall>x t. m s = (Inr x, t) \<longrightarrow> P (f x t))"
  by (auto simp: bind_op_def split: prod.splits sum.splits)

lemma bind_op_Inr_iff:
  "bind_op m f s = (Inr y, u) \<longleftrightarrow> (\<exists>x t. m s = (Inr x, t) \<and> f x t = (Inr y, u))"
  by (auto simp: bind_op_def split: prod.splits sum.splits)

lemma bind_op_Inl_iff:
  "bind_op m f s = (Inl e, u) \<longleftrightarrow>
     m s = (Inl e, u) \<or> (\<exists>x t. m s = (Inr x, t) \<and> f x t = (Inl e, u))"
  by (auto simp: bind_op_def split: prod.splits sum.splits)

lemma lift_error_Inr_iff [simp]: "lift_error g m s = (Inr x, t) \<longleftrightarrow> m s = (Inr x, t)"
  by (auto simp: lift_error_def split: prod.splits sum.splits)

lemma lift_error_Inl_iff [simp]:
  "lift_error g m s = (Inl f, t) \<longleftrightarrow> (\<exists>e. f = g e \<and> m s = (Inl e, t))"
  by (auto simp: lift_error_def split: prod.splits sum.splits)

text \<open>An operation keeps a predicate of the state, whether it returns or raises.\<close>

definition keeps :: "('s \<Rightarrow> bool) \<Rightarrow> ('s, 'e, 'a) op \<Rightarrow> bool" where
  "keeps I m \<longleftrightarrow> (\<forall>s. I s \<longrightarrow> I (snd (m s)))"

lemma keepsI: "(\<And>s. I s \<Longrightarrow> I (snd (m s))) \<Longrightarrow> keeps I m"
  by (simp add: keeps_def)

lemma keepsD: "keeps I m \<Longrightarrow> I s \<Longrightarrow> m s = (r, t) \<Longrightarrow> I t"
  by (metis keeps_def snd_conv)

lemma keeps_snd: "keeps I m \<Longrightarrow> I s \<Longrightarrow> I (snd (m s))"
  by (simp add: keeps_def)

lemma keeps_return [op_keeps]: "keeps I (return_op x)"
  by (simp add: keeps_def)

lemma keeps_raise [op_keeps]: "keeps I (raise_op e)"
  by (simp add: keeps_def)

lemma keeps_get [op_keeps]: "keeps I (get_op f)"
  by (simp add: keeps_def)

lemma keeps_of_result [op_keeps]: "keeps I (of_result r)"
  by (simp add: keeps_def)

lemma keeps_put: "(\<And>s. I s \<Longrightarrow> I (f s)) \<Longrightarrow> keeps I (put_op f)"
  by (simp add: keeps_def)

lemma keeps_bind [op_keeps]: "keeps I m \<Longrightarrow> (\<And>x. keeps I (f x)) \<Longrightarrow> keeps I (bind_op m f)"
  by (auto simp: keeps_def bind_op_def split: prod.splits sum.splits; metis snd_conv)

lemma keeps_lift_error [op_keeps]: "keeps I m \<Longrightarrow> keeps I (lift_error g m)"
  by (auto simp: keeps_def lift_error_def split: prod.splits sum.splits; metis snd_conv)

lemma keeps_if [op_keeps]: "keeps I m \<Longrightarrow> keeps I n \<Longrightarrow> keeps I (if b then m else n)"
  by simp

lemma keeps_option [op_keeps]:
  "keeps I m \<Longrightarrow> (\<And>x. keeps I (f x)) \<Longrightarrow> keeps I (case z of None \<Rightarrow> m | Some x \<Rightarrow> f x)"
  by (simp split: option.splits)

lemma keeps_prod [op_keeps]: "(\<And>x y. keeps I (f x y)) \<Longrightarrow> keeps I (case z of (x, y) \<Rightarrow> f x y)"
  by (simp split: prod.split)

lemma keeps_sum [op_keeps]:
  "(\<And>x. keeps I (f x)) \<Longrightarrow> (\<And>y. keeps I (g y)) \<Longrightarrow> keeps I (case z of Inl x \<Rightarrow> f x | Inr y \<Rightarrow> g y)"
  by (simp split: sum.split)

section \<open>Reads and writes of a table\<close>

text \<open>A table is the list of its rows. \<^verbatim>\<open>scalars(select(..).where(..)).first()\<close> is the first row
  of a filtered list, and an \<^verbatim>\<open>UPDATE .. WHERE\<close> rewrites the rows it selects and counts them.\<close>

definition first_row :: "'a list \<Rightarrow> 'a option" where
  "first_row xs = (case xs of [] \<Rightarrow> None | x # _ \<Rightarrow> Some x)"

definition select_where :: "('a \<Rightarrow> bool) \<Rightarrow> 'a list \<Rightarrow> 'a list" where
  "select_where p rows = filter p rows"

definition update_where :: "('a \<Rightarrow> bool) \<Rightarrow> ('a \<Rightarrow> 'a) \<Rightarrow> 'a list \<Rightarrow> 'a list" where
  "update_where p f rows = map (\<lambda>r. if p r then f r else r) rows"

definition rowcount :: "('a \<Rightarrow> bool) \<Rightarrow> 'a list \<Rightarrow> nat" where
  "rowcount p rows = length (filter p rows)"

lemma first_row_simps [simp]: "first_row [] = None" "first_row (x # xs) = Some x"
  by (simp_all add: first_row_def)

lemma first_row_None [simp]: "first_row xs = None \<longleftrightarrow> xs = []"
  by (cases xs) simp_all

lemma first_row_SomeD: "first_row xs = Some x \<Longrightarrow> x \<in> set xs"
  by (cases xs) simp_all

lemma select_where_Nil [simp]: "select_where p rows = [] \<longleftrightarrow> (\<forall>r \<in> set rows. \<not> p r)"
  by (simp add: select_where_def filter_empty_conv)

lemma set_select_where [simp]: "set (select_where p rows) = {r \<in> set rows. p r}"
  by (simp add: select_where_def)

lemma first_row_filter_SomeD:
  "first_row (select_where p rows) = Some r \<Longrightarrow> r \<in> set rows \<and> p r"
  by (auto dest: first_row_SomeD)

lemma first_row_filter_None:
  "first_row (select_where p rows) = None \<longleftrightarrow> (\<forall>r \<in> set rows. \<not> p r)"
  by simp

lemma update_where_simps [simp]:
  "update_where p f [] = []"
  "update_where p f (r # rows) = (if p r then f r else r) # update_where p f rows"
  by (simp_all add: update_where_def)

lemma length_update_where [simp]: "length (update_where p f rows) = length rows"
  by (simp add: update_where_def)

lemma update_where_none: "\<forall>r \<in> set rows. \<not> p r \<Longrightarrow> update_where p f rows = rows"
  by (induction rows) auto

lemma rowcount_zero [simp]: "rowcount p rows = 0 \<longleftrightarrow> (\<forall>r \<in> set rows. \<not> p r)"
  by (simp add: rowcount_def filter_empty_conv)

lemma set_update_where:
  "set (update_where p f rows) = f ` {r \<in> set rows. p r} \<union> {r \<in> set rows. \<not> p r}"
  by (induction rows) auto

lemma map_update_where_same:
  "(\<And>r. r \<in> set rows \<Longrightarrow> p r \<Longrightarrow> g (f r) = g r) \<Longrightarrow>
   map g (update_where p f rows) = map g rows"
  by (induction rows) auto

text \<open>With a key on which the rows are distinct, a lookup by key is unique.\<close>

lemma distinct_key_unique:
  "distinct (map k rows) \<Longrightarrow> r \<in> set rows \<Longrightarrow> r' \<in> set rows \<Longrightarrow> k r = k r' \<Longrightarrow> r = r'"
  by (auto simp: distinct_map inj_on_def)

lemma first_row_key:
  assumes "distinct (map k rows)" "r \<in> set rows"
  shows "first_row (select_where (\<lambda>x. k x = k r) rows) = Some r"
proof -
  have "first_row (select_where (\<lambda>x. k x = k r) rows) \<noteq> None"
    using assms(2) by auto
  then obtain x where x: "first_row (select_where (\<lambda>x. k x = k r) rows) = Some x"
    by blast
  then have "x \<in> set rows" "k x = k r"
    by (auto dest: first_row_filter_SomeD)
  then have "x = r"
    using assms by (blast dest: distinct_key_unique)
  with x show ?thesis by simp
qed

lemma rowcount_key_le_1:
  assumes "distinct (map k rows)" and "\<And>r. p r \<Longrightarrow> k r = a"
  shows "rowcount p rows \<le> 1"
  using assms(1)
proof (induction rows)
  case Nil
  then show ?case by (simp add: rowcount_def)
next
  case (Cons x xs)
  show ?case
  proof (cases "p x")
    case True
    with assms(2) have "k x = a" by simp
    with Cons.prems have "\<forall>y \<in> set xs. \<not> p y"
      using assms(2) by (auto simp: image_iff) 
    then show ?thesis by (simp add: rowcount_def filter_empty_conv True)
  next
    case False
    with Cons show ?thesis by (simp add: rowcount_def)
  qed
qed

lemma rowcount_map_same: "(\<And>r. r \<in> set rows \<Longrightarrow> p (f r) = p r) \<Longrightarrow> rowcount p (map f rows) = rowcount p rows"
  by (induction rows) (auto simp: rowcount_def)

lemma rowcount_update_gain:
  "(\<And>r. r \<in> set rows \<Longrightarrow> q r \<Longrightarrow> \<not> p r \<and> p (f r)) \<Longrightarrow> rowcount p (update_where q f rows) = rowcount p rows + rowcount q rows"
  by (induction rows) (auto simp: rowcount_def)

lemma rowcount_update_same:
  "(\<And>r. r \<in> set rows \<Longrightarrow> q r \<Longrightarrow> p (f r) = p r) \<Longrightarrow> rowcount p (update_where q f rows) = rowcount p rows"
  by (induction rows) (auto simp: rowcount_def)

lemma rowcount_append [simp]: "rowcount p (xs @ ys) = rowcount p xs + rowcount p ys"
  by (simp add: rowcount_def)

lemma rowcount_simps [simp]: "rowcount p [] = 0" "rowcount p (x # xs) = (if p x then 1 else 0) + rowcount p xs"
  by (simp_all add: rowcount_def)

text \<open>\<^verbatim>\<open>ORDER BY key\<close> followed by \<^verbatim>\<open>first()\<close> reads a row with the least key.\<close>

lemma first_row_sort_key:
  assumes "first_row (sort_key f xs) = Some x"
  shows "x \<in> set xs \<and> (\<forall>y \<in> set xs. f x \<le> f y)"
proof -
  from assms obtain zs where zs: "sort_key f xs = x # zs"
    by (auto simp: first_row_def split: list.splits)
  then have "sorted (map f (x # zs))" and "set xs = set (x # zs)"
    by (metis sorted_sort_key, metis set_sort)
  then show ?thesis by auto
qed

lemma first_row_sort_key_None [simp]: "first_row (sort_key f xs) = None \<longleftrightarrow> xs = []"
  by (metis first_row_None set_empty set_sort)

lemma length_sort_key [simp]: "length (sort_key f xs) = length xs"
  by (induction xs) simp_all

lemma first_row_ex [simp]: "(\<exists>y. first_row xs = Some y) \<longleftrightarrow> xs \<noteq> []"
  by (cases xs) simp_all

lemma sort_key_nonempty [simp]: "sort_key f xs = [] \<longleftrightarrow> xs = []"
  by (metis length_0_conv length_sort_key)

lemma select_where_update:
  "(\<And>r. p (f r) = p r) \<Longrightarrow> select_where p (update_where q f rows) = update_where q f (select_where p rows)"
  by (induction rows) (auto simp: select_where_def)

lemma select_where_append [simp]: "select_where p (xs @ ys) = select_where p xs @ select_where p ys"
  by (simp add: select_where_def)

lemma select_where_simps [simp]:
  "select_where p [] = []" "select_where p (x # xs) = (if p x then x # select_where p xs else select_where p xs)"
  by (simp_all add: select_where_def)

lemma update_where_append [simp]: "update_where p f (xs @ ys) = update_where p f xs @ update_where p f ys"
  by (simp add: update_where_def)

lemma update_last_by_id:
  assumes "distinct (map k (xs @ [x]))"
  shows "update_where (\<lambda>r. k r = k x) f (xs @ [x]) = xs @ [f x]"
  using assms by (induction xs) auto

text \<open>A key that is unique within every group of rows is unique together with the group.\<close>

lemma distinct_by_group:
  "(\<And>g. distinct (map f (select_where (\<lambda>r. k r = g) rows))) \<Longrightarrow> distinct (map (\<lambda>r. (k r, f r)) rows)"
proof (induction rows)
  case (Cons x xs)
  have "distinct (map f (select_where (\<lambda>r. k r = g) xs))" for g
    using Cons.prems [of g] by (auto split: if_splits)
  moreover have "(k x, f x) \<notin> (\<lambda>r. (k r, f r)) ` set xs"
    using Cons.prems [of "k x"] by force
  ultimately show ?case using Cons.IH by simp
qed simp

lemma distinct_if_group_le_1:
  "(\<And>g. length (select_where (\<lambda>r. k r = g) rows) \<le> 1) \<Longrightarrow> distinct (map k rows)"
proof (induction rows)
  case (Cons x xs)
  have "length (select_where (\<lambda>r. k r = g) xs) \<le> 1" for g
    using Cons.prems [of g] by (simp split: if_splits del: select_where_Nil length_0_conv)
  moreover have "k x \<notin> k ` set xs"
    using Cons.prems [of "k x"] by auto
  ultimately show ?case using Cons.IH by simp
qed simp

section \<open>The standard library\<close>

text \<open>\<^verbatim>\<open>str(n)\<close> for an integer.\<close>

fun nat_text :: "nat \<Rightarrow> string" where
  "nat_text n = (if n < 10 then [char_of (48 + n)] else nat_text (n div 10) @ [char_of (48 + n mod 10)])"

declare nat_text.simps [simp del]

definition int_text :: "int \<Rightarrow> string" where
  "int_text i = (if i < 0 then ''-'' @ nat_text (nat (- i)) else nat_text (nat i))"

text \<open>\<^verbatim>\<open>str(uuid)\<close>: thirty-two lower-case hexadecimal digits in groups of 8, 4, 4, 4 and 12.\<close>

definition hex_char :: "nat \<Rightarrow> char" where
  "hex_char d = (if d < 10 then char_of (48 + d) else char_of (87 + d))"

primrec hex_text :: "nat \<Rightarrow> nat \<Rightarrow> string" where
  "hex_text 0 n = []"
| "hex_text (Suc w) n = hex_text w (n div 16) @ [hex_char (n mod 16)]"

lemma length_hex_text [simp]: "length (hex_text w n) = w"
  by (induction w arbitrary: n) simp_all

definition uuid_text :: "uuid \<Rightarrow> string" where
  "uuid_text u = (let h = hex_text 32 u in
     take 8 h @ ''-'' @ take 4 (drop 8 h) @ ''-'' @ take 4 (drop 12 h) @ ''-'' @
     take 4 (drop 16 h) @ ''-'' @ drop 20 h)"

text \<open>The ASCII part of \<^verbatim>\<open>str.isspace\<close>, \<^verbatim>\<open>str.strip()\<close>, \<^verbatim>\<open>str.casefold()\<close> and
  \<^verbatim>\<open>str.isalnum\<close>.\<close>

definition is_space :: "char \<Rightarrow> bool" where
  "is_space c \<longleftrightarrow> (let n = of_char c :: nat in (9 \<le> n \<and> n \<le> 13) \<or> (28 \<le> n \<and> n \<le> 32))"

definition strip :: "string \<Rightarrow> string" where
  "strip s = rev (dropWhile is_space (rev (dropWhile is_space s)))"

definition lower_char :: "char \<Rightarrow> char" where
  "lower_char c = (let n = of_char c :: nat in if 65 \<le> n \<and> n \<le> 90 then char_of (n + 32) else c)"

definition casefold :: "string \<Rightarrow> string" where
  "casefold s = map lower_char s"

definition is_digit :: "char \<Rightarrow> bool" where
  "is_digit c \<longleftrightarrow> (let n = of_char c :: nat in 48 \<le> n \<and> n \<le> 57)"

definition is_alnum :: "char \<Rightarrow> bool" where
  "is_alnum c \<longleftrightarrow> (let n = of_char c :: nat in
     (48 \<le> n \<and> n \<le> 57) \<or> (65 \<le> n \<and> n \<le> 90) \<or> (97 \<le> n \<and> n \<le> 122))"

text \<open>\<^verbatim>\<open>timedelta(seconds=x)\<close> in microseconds, rounded half to even.\<close>

definition round_half_even :: "rat \<Rightarrow> int" where
  "round_half_even x = (let f = \<lfloor>x\<rfloor>; d = x - of_int f in
     if d < 1 / 2 then f else if d > 1 / 2 then f + 1 else if even f then f else f + 1)"

definition timedelta_seconds :: "pyfloat \<Rightarrow> int" where
  "timedelta_seconds x = round_half_even (x * 1000000)"

lemma round_half_even_mono0: "0 \<le> x \<Longrightarrow> 0 \<le> round_half_even x"
  by (auto simp: round_half_even_def Let_def)

lemma timedelta_seconds_nonneg: "0 \<le> x \<Longrightarrow> 0 \<le> timedelta_seconds x"
  by (simp add: timedelta_seconds_def round_half_even_mono0)

lemma round_half_even_of_int [simp]: "round_half_even (of_int n) = n"
  by (simp add: round_half_even_def)

lemma round_half_even_le: "x \<le> of_int n \<Longrightarrow> round_half_even x \<le> n"
proof -
  assume x: "x \<le> of_int n"
  show ?thesis
  proof (cases "\<lfloor>x\<rfloor> = n")
    case True
    with x have "x = of_int n" by (metis antisym of_int_floor_le)
    then show ?thesis by simp
  next
    case False
    moreover have "\<lfloor>x\<rfloor> \<le> n" using x floor_mono by fastforce
    ultimately have "\<lfloor>x\<rfloor> + 1 \<le> n" by linarith
    then show ?thesis by (auto simp: round_half_even_def Let_def)
  qed
qed

lemma timedelta_seconds_le: "x \<le> of_int n \<Longrightarrow> timedelta_seconds x \<le> n * 1000000"
  unfolding timedelta_seconds_def by (rule round_half_even_le) simp

end
