(* ===== verification/Permissions.thy ===== *)
theory Permissions
  imports Axis_Prelude
begin

text \<open>
  Scope checks (\<^verbatim>\<open>axis_api/permissions.py\<close>): the decision over required and relationship scopes,
  the separation-of-duties rule, and the one gate that every governed read or write of a tenant goes
  through. The functions are pure; a denial that the code raises is the left of a sum.
\<close>

section \<open>Data\<close>

record permission_request =
  pq_tenant_id :: string
  pq_actor_id :: string
  pq_actor_scopes :: "string list"
  pq_required_scopes :: "string list"
  pq_relationship_scopes :: "string list"
  pq_attributes :: dict

record permission_decision =
  allowed :: bool
  reason :: string

text \<open>\<^verbatim>\<open>PermissionDecision.model_dump()\<close>.\<close>

definition permission_decision_dump :: "permission_decision \<Rightarrow> json" where
  "permission_decision_dump d = JObj [(''allowed'', JBool (allowed d)), (''reason'', JStr (reason d))]"

record scope_principal =
  sp_tenant_id :: string
  sp_actor_id :: string
  sp_scopes :: "string list"

text \<open>The two ways a scope gate fails: the denial it raises, and the pydantic refusal of a request
  with an empty tenant or actor id.\<close>

datatype scope_error =
    ScopeAuthorizationError permission_decision "string list" string
  | PermissionRequestInvalid

definition TENANT_MISMATCH_REASON :: string where
  "TENANT_MISMATCH_REASON = ''tenant_mismatch''"

definition SELF_DECISION_DENIED_REASON :: string where
  "SELF_DECISION_DENIED_REASON = ''separation_of_duties_self_decision''"

section \<open>Operations\<close>

text \<open>A loop over the scopes that returns at the first one the actor lacks.\<close>

fun first_missing :: "string list \<Rightarrow> string list \<Rightarrow> string option" where
  "first_missing granted [] = None"
| "first_missing granted (scope # rest) =
     (if scope \<notin> set granted then Some scope else first_missing granted rest)"

definition evaluate_permission :: "permission_request \<Rightarrow> permission_decision" where
  "evaluate_permission request =
     (case first_missing (pq_actor_scopes request) (pq_required_scopes request) of
        Some scope \<Rightarrow> \<lparr>allowed = False, reason = ''missing_scope:'' @ scope\<rparr>
      | None \<Rightarrow>
          (case first_missing (pq_actor_scopes request) (pq_relationship_scopes request) of
             Some scope \<Rightarrow> \<lparr>allowed = False, reason = ''missing_relationship_scope:'' @ scope\<rparr>
           | None \<Rightarrow> \<lparr>allowed = True, reason = ''allowed''\<rparr>))"

definition separation_of_duties_denial :: "string \<Rightarrow> string option \<Rightarrow> permission_decision option" where
  "separation_of_duties_denial decision_actor_id requested_by =
     (case requested_by of
        None \<Rightarrow> None
      | Some r \<Rightarrow>
          if r \<noteq> [] \<and> decision_actor_id = r
          then Some \<lparr>allowed = False, reason = SELF_DECISION_DENIED_REASON\<rparr> else None)"

text \<open>\<^verbatim>\<open>PermissionRequest(..)\<close>: the model refuses an empty tenant or actor id.\<close>

definition permission_request_valid :: "permission_request \<Rightarrow> bool" where
  "permission_request_valid request \<longleftrightarrow> pq_tenant_id request \<noteq> [] \<and> pq_actor_id request \<noteq> []"

definition evaluate_principal ::
  "string \<Rightarrow> string \<Rightarrow> string list \<Rightarrow> string list \<Rightarrow> dict \<Rightarrow> string \<Rightarrow> scope_error + permission_decision"
where
  "evaluate_principal tenant_id actor_id actor_scopes required_scopes attributes message =
     (let request = \<lparr>pq_tenant_id = tenant_id, pq_actor_id = actor_id,
                     pq_actor_scopes = actor_scopes, pq_required_scopes = required_scopes,
                     pq_relationship_scopes = [], pq_attributes = attributes\<rparr>
      in if \<not> permission_request_valid request then Inl PermissionRequestInvalid
         else let decision = evaluate_permission request
              in if \<not> allowed decision
                 then Inl (ScopeAuthorizationError decision required_scopes message)
                 else Inr decision)"

definition authorize_principal_scopes ::
  "string \<Rightarrow> scope_principal option \<Rightarrow> string list \<Rightarrow> dict \<Rightarrow> string \<Rightarrow> string \<Rightarrow>
   string option \<Rightarrow> string list option \<Rightarrow> bool \<Rightarrow> scope_error + permission_decision"
where
  "authorize_principal_scopes tenant_id the_principal required_scopes attributes message
     tenant_mismatch_message actor_fallback_id scope_fallback bind_tenant =
     (case the_principal of
        Some p \<Rightarrow>
          if bind_tenant \<and> sp_tenant_id p \<noteq> tenant_id
          then Inl (ScopeAuthorizationError \<lparr>allowed = False, reason = TENANT_MISMATCH_REASON\<rparr>
                     required_scopes tenant_mismatch_message)
          else evaluate_principal tenant_id (sp_actor_id p) (sp_scopes p) required_scopes
                 attributes message
      | None \<Rightarrow>
          (case scope_fallback of
             Some scopes \<Rightarrow>
               evaluate_principal tenant_id
                 (case actor_fallback_id of
                    None \<Rightarrow> ''anonymous-operator''
                  | Some a \<Rightarrow> if a = [] then ''anonymous-operator'' else a)
                 scopes required_scopes attributes message
           | None \<Rightarrow> Inr \<lparr>allowed = True, reason = ''unauthenticated_demo_allowed''\<rparr>))"

section \<open>Lemmas\<close>

lemma first_missing_None [simp]: "first_missing granted req = None \<longleftrightarrow> set req \<subseteq> set granted"
  by (induction req) auto

lemma first_missing_eq: "first_missing granted req = first_row (filter (\<lambda>s. s \<notin> set granted) req)"
  by (induction req) auto

lemma first_missing_SomeD:
  "first_missing granted req = Some scope \<Longrightarrow>
     scope \<in> set req \<and> scope \<notin> set granted \<and> scope = hd (filter (\<lambda>s. s \<notin> set granted) req)"
  by (induction req) (auto split: if_splits)

lemma first_missing_mono:
  "set granted \<subseteq> set granted' \<Longrightarrow> first_missing granted req = None \<Longrightarrow> first_missing granted' req = None"
  by auto

lemma evaluate_permission_allowed [simp]:
  "allowed (evaluate_permission request) \<longleftrightarrow>
     set (pq_required_scopes request) \<union> set (pq_relationship_scopes request)
       \<subseteq> set (pq_actor_scopes request)"
  by (auto simp: evaluate_permission_def split: option.splits dest!: first_missing_SomeD)

lemma evaluate_permission_reason_allowed:
  "allowed (evaluate_permission request) \<Longrightarrow> evaluate_permission request = \<lparr>allowed = True, reason = ''allowed''\<rparr>"
  by (auto simp: evaluate_permission_def split: option.splits dest!: first_missing_SomeD)

lemma separation_of_duties_None:
  "separation_of_duties_denial a (Some r) = None \<longleftrightarrow> r = [] \<or> a \<noteq> r"
  by (simp add: separation_of_duties_denial_def)

lemma separation_of_duties_Some_denies:
  "separation_of_duties_denial a r = Some d \<Longrightarrow> \<not> allowed d"
  by (auto simp: separation_of_duties_denial_def split: option.splits if_splits)

lemma evaluate_principal_Inr:
  "evaluate_principal t a scopes req attrs m = Inr d \<longleftrightarrow>
     t \<noteq> [] \<and> a \<noteq> [] \<and> set req \<subseteq> set scopes \<and> d = \<lparr>allowed = True, reason = ''allowed''\<rparr>"
  by (auto simp: evaluate_principal_def permission_request_valid_def Let_def
      dest: evaluate_permission_reason_allowed intro: evaluate_permission_reason_allowed)

section \<open>Properties\<close>

text \<open>A permission request is allowed exactly when the actor holds every required scope and every
  relationship scope, and a denial names the first scope that is missing, required scopes first.\<close>

lemma evaluate_permission_correct:
  "evaluate_permission request =
     (if set (pq_required_scopes request) \<subseteq> set (pq_actor_scopes request)
      then (if set (pq_relationship_scopes request) \<subseteq> set (pq_actor_scopes request)
            then \<lparr>allowed = True, reason = ''allowed''\<rparr>
            else \<lparr>allowed = False, reason = ''missing_relationship_scope:'' @
                   hd (filter (\<lambda>s. s \<notin> set (pq_actor_scopes request)) (pq_relationship_scopes request))\<rparr>)
      else \<lparr>allowed = False, reason = ''missing_scope:'' @
             hd (filter (\<lambda>s. s \<notin> set (pq_actor_scopes request)) (pq_required_scopes request))\<rparr>)"
  by (auto simp: evaluate_permission_def split: option.splits dest: first_missing_SomeD)

text \<open>C1. The scope gate keeps tenants apart: when it lets a verified principal through a tenant-bound
  operation, the principal belongs to that tenant and holds every required scope; and a
  principal of another tenant is refused with \<open>tenant_mismatch\<close> whatever scopes it holds.\<close>

theorem authorize_principal_scopes_tenant_isolation:
  "(authorize_principal_scopes t (Some p) req attrs m mm fa fs True = Inr d \<longleftrightarrow>
      sp_tenant_id p = t \<and> t \<noteq> [] \<and> sp_actor_id p \<noteq> [] \<and> set req \<subseteq> set (sp_scopes p) \<and>
      d = \<lparr>allowed = True, reason = ''allowed''\<rparr>)
   \<and> (sp_tenant_id p \<noteq> t \<longleftrightarrow>
      authorize_principal_scopes t (Some p) req attrs m mm fa fs True =
        Inl (ScopeAuthorizationError \<lparr>allowed = False, reason = TENANT_MISMATCH_REASON\<rparr> req mm))"
proof -
  have "evaluate_principal t a scopes req attrs m \<noteq>
      Inl (ScopeAuthorizationError \<lparr>allowed = False, reason = TENANT_MISMATCH_REASON\<rparr> req mm)" for a scopes
    by (auto simp: evaluate_principal_def evaluate_permission_def TENANT_MISMATCH_REASON_def Let_def
        split: option.splits)
  then show ?thesis
    by (auto simp: authorize_principal_scopes_def evaluate_principal_Inr)
qed

end
