(* ===== verification/Store.thy ===== *)
theory Store
  imports Permissions
begin

text \<open>
  The rows of the tables that the modelled services read and write (\<^verbatim>\<open>axis_api/models.py\<close>), the
  database as one record of tables, the two sources of non-determinism that the services draw from
  (the clock and \<^verbatim>\<open>uuid4\<close>), the transaction scope (\<^verbatim>\<open>axis_api/db.py\<close>) and the append-only audit
  ledger. A column is a field; a nullable column is an option. Dictionaries that the code decodes
  into a pydantic model on every read are kept decoded.
\<close>

section \<open>Rows\<close>

record audit_event =
  ae_id :: uuid
  ae_tenant_id :: string
  ae_actor_id :: string
  ae_event_type :: string
  ae_payload :: dict
  ae_created_at :: timestamp

record tenant =
  tn_id :: string
  tn_name :: string
  tn_description :: string
  tn_status :: string
  tn_created_by :: string
  tn_bootstrap_admin_actor_id :: "string option"
  tn_provision_idempotency_key :: "string option"
  tn_suspended_at :: "timestamp option"
  tn_suspended_by :: "string option"
  tn_suspension_reason :: "string option"
  tn_reactivated_at :: "timestamp option"
  tn_reactivated_by :: "string option"
  tn_audit_event_id :: "uuid option"
  tn_audit_event_type :: string
  tn_notes :: "string list"
  tn_vocabulary :: "json option"
  tn_created_at :: timestamp
  tn_updated_at :: timestamp

record tenant_quota =
  tq_id :: uuid
  tq_tenant_id :: string
  tq_quota_key :: string
  tq_quota_value :: int
  tq_updated_by :: string
  tq_audit_event_id :: "uuid option"
  tq_audit_event_type :: string
  tq_notes :: "string list"
  tq_created_at :: timestamp
  tq_updated_at :: timestamp

record actor =
  ac_id :: string
  ac_tenant_id :: string
  ac_display_name :: string
  ac_actor_type :: string
  ac_created_at :: timestamp

text \<open>\<^verbatim>\<open>PlatformPolicyRuleConditions\<close>, the decoded \<^verbatim>\<open>conditions\<close> column of a policy.\<close>

record rule_conditions =
  rc_action_domains :: "string list"
  rc_risk_levels :: "string list"
  rc_autonomy_levels :: "string list"
  rc_requested_amount_at_least :: "pyfloat option"

record platform_policy =
  pp_id :: uuid
  pp_tenant_id :: string
  pp_policy_id :: string
  pp_revision_number :: int
  pp_policy_version :: string
  pp_display_name :: string
  pp_description :: string
  pp_scope :: string
  pp_effect :: string
  pp_conditions :: rule_conditions
  pp_status :: string
  pp_created_by :: string
  pp_required_authoring_scope :: string
  pp_permission_decision :: permission_decision
  pp_audit_event_id :: "uuid option"
  pp_audit_event_type :: string
  pp_revises_revision_number :: "int option"
  pp_replaced_by_revision_number :: "int option"
  pp_revision_idempotency_key :: "string option"
  pp_notes :: "string list"
  pp_created_at :: timestamp
  pp_updated_at :: timestamp

record approval_record =
  ar_id :: uuid
  ar_tenant_id :: string
  ar_approval_id :: string
  ar_workflow_id :: "string option"
  ar_action_id :: string
  ar_requested_by :: string
  ar_owner_role :: string
  ar_status :: string
  ar_risk_level :: string
  ar_decision :: "string option"
  ar_decision_actor_id :: "string option"
  ar_decision_note :: "string option"
  ar_payload :: dict
  ar_created_at :: timestamp
  ar_updated_at :: timestamp
  ar_decided_at :: "timestamp option"

record outbox_row =
  ob_id :: uuid
  ob_tenant_id :: string
  ob_approval_id :: string
  ob_workflow_id :: string
  ob_signal_name :: string
  ob_schema_version :: string
  ob_decision :: string
  ob_decision_actor_id :: string
  ob_payload :: dict
  ob_status :: string
  ob_attempt_count :: int
  ob_available_at :: timestamp
  ob_claim_token :: "uuid option"
  ob_claimed_at :: "timestamp option"
  ob_lease_expires_at :: "timestamp option"
  ob_last_attempt_at :: "timestamp option"
  ob_delivered_at :: "timestamp option"
  ob_dead_lettered_at :: "timestamp option"
  ob_last_error :: "string option"
  ob_created_at :: timestamp
  ob_updated_at :: timestamp

record action_run =
  rn_id :: uuid
  rn_tenant_id :: string
  rn_action_id :: string
  rn_idempotency_key :: string
  rn_status :: string
  rn_execution_mode :: string
  rn_requested_by :: string
  rn_approval_id :: "string option"
  rn_workflow_id :: "string option"
  rn_payload :: dict
  rn_result_payload :: "dict option"
  rn_created_at :: timestamp
  rn_updated_at :: timestamp

record workflow_run =
  wr_id :: uuid
  wr_tenant_id :: string
  wr_workflow_id :: string
  wr_name :: string
  wr_domain :: string
  wr_state :: string
  wr_status :: string
  wr_owner_role :: string
  wr_runtime :: string
  wr_adapter :: string
  wr_autonomy_level :: string
  wr_started_at :: timestamp
  wr_eta :: string
  wr_blocker :: "string option"
  wr_objective :: string
  wr_current_step :: string
  wr_related_risk :: string
  wr_related_assets :: "string list"
  wr_inputs :: "string list"
  wr_proposed_outputs :: "string list"
  wr_pending_signals :: "dict list"
  wr_controls :: "string list"
  wr_audit_scope :: string
  wr_replay_ready :: bool
  wr_created_at :: timestamp
  wr_updated_at :: timestamp

record timeline_event =
  te_id :: uuid
  te_tenant_id :: string
  te_workflow_id :: string
  te_sequence :: int
  te_event :: string
  te_occurred_at :: timestamp
  te_actor :: string
  te_result :: string
  te_summary :: string
  te_created_at :: timestamp

record reference_record =
  dr_id :: uuid
  dr_tenant_id :: string
  dr_surface :: string
  dr_reference_id :: string
  dr_status :: string
  dr_source :: string
  dr_version :: string
  dr_payload :: json
  dr_created_at :: timestamp
  dr_updated_at :: timestamp

record browser_session =
  bs_id :: uuid
  bs_session_id_hash :: string
  bs_tenant_id :: string
  bs_actor_id :: string
  bs_status :: string
  bs_scopes :: "string list"
  bs_expires_at :: timestamp
  bs_absolute_expires_at :: "timestamp option"
  bs_last_seen_at :: "timestamp option"
  bs_refresh_token_ciphertext :: "string option"
  bs_refresh_count :: int
  bs_rotated_to_session_id_hash :: "string option"
  bs_user_agent :: "string option"
  bs_client_ip :: "string option"
  bs_device_label :: "string option"
  bs_created_audit_event_id :: "uuid option"
  bs_revoked_at :: "timestamp option"
  bs_revoked_by :: "string option"
  bs_revocation_reason :: "string option"
  bs_revoke_audit_event_id :: "uuid option"
  bs_created_at :: timestamp
  bs_updated_at :: timestamp

record usage_record =
  ur_id :: uuid
  ur_tenant_id :: string
  ur_metric_key :: string
  ur_period_start :: timestamp
  ur_period_window_seconds :: int
  ur_quantity :: int
  ur_dimensions :: dict
  ur_first_recorded_at :: timestamp
  ur_last_recorded_at :: timestamp
  ur_created_at :: timestamp
  ur_updated_at :: timestamp

record usage_event =
  ue_id :: uuid
  ue_tenant_id :: string
  ue_metric_key :: string
  ue_source_type :: string
  ue_source_id :: string
  ue_period_start :: timestamp
  ue_period_window_seconds :: int
  ue_quantity :: int
  ue_dimensions :: dict
  ue_occurred_at :: timestamp
  ue_recorded_at :: timestamp
  ue_projected_at :: "timestamp option"

record audit_legal_hold =
  ah_id :: uuid
  ah_tenant_id :: string
  ah_hold_id :: string
  ah_status :: string
  ah_reason :: string
  ah_event_type :: "string option"
  ah_actor_id :: "string option"
  ah_requested_by :: string
  ah_approved_by :: string
  ah_released_by :: "string option"
  ah_release_reason :: "string option"
  ah_audit_event_id :: "uuid option"
  ah_release_audit_event_id :: "uuid option"
  ah_notes :: "string list"
  ah_created_at :: timestamp
  ah_updated_at :: timestamp
  ah_released_at :: "timestamp option"

section \<open>The database\<close>

text \<open>\<open>clock_at n\<close> is the \<open>n\<close>-th reading of the clock and \<open>uuid_at n\<close> the \<open>n\<close>-th value that \<^verbatim>\<open>uuid4\<close>
  returns; the counters say how many were drawn so far.\<close>

record db =
  clock_at :: "nat \<Rightarrow> timestamp"
  clock_n :: nat
  uuid_at :: "nat \<Rightarrow> uuid"
  uuid_n :: nat
  audit_events :: "audit_event list"
  tenants :: "tenant list"
  tenant_quotas :: "tenant_quota list"
  actors :: "actor list"
  platform_policies :: "platform_policy list"
  approval_records :: "approval_record list"
  approval_decision_outbox :: "outbox_row list"
  action_runs :: "action_run list"
  workflow_runs :: "workflow_run list"
  workflow_timeline :: "timeline_event list"
  reference_records :: "reference_record list"
  browser_sessions :: "browser_session list"
  usage_records :: "usage_record list"
  usage_events :: "usage_event list"
  audit_legal_holds :: "audit_legal_hold list"

definition empty_db :: "(nat \<Rightarrow> timestamp) \<Rightarrow> (nat \<Rightarrow> uuid) \<Rightarrow> db" where
  "empty_db clock uuids =
     \<lparr>clock_at = clock, clock_n = 0, uuid_at = uuids, uuid_n = 0, audit_events = [], tenants = [],
      tenant_quotas = [], actors = [], platform_policies = [], approval_records = [],
      approval_decision_outbox = [], action_runs = [], workflow_runs = [], workflow_timeline = [],
      reference_records = [], browser_sessions = [], usage_records = [], usage_events = [],
      audit_legal_holds = []\<rparr>"

definition utc_now :: "(db, 'e, timestamp) op" where
  "utc_now s = (Inr (clock_at s (clock_n s)), s\<lparr>clock_n := Suc (clock_n s)\<rparr>)"

definition uuid4 :: "(db, 'e, uuid) op" where
  "uuid4 s = (Inr (uuid_at s (uuid_n s)), s\<lparr>uuid_n := Suc (uuid_n s)\<rparr>)"

text \<open>\<^verbatim>\<open>with session_scope(factory)\<close>: commit on return, roll back on an exception. The rolled back
  state keeps the draws from the clock and from \<^verbatim>\<open>uuid4\<close>, which no rollback undoes.\<close>

definition rollback :: "db \<Rightarrow> db \<Rightarrow> db" where
  "rollback s t = s\<lparr>clock_n := clock_n t, uuid_n := uuid_n t\<rparr>"

definition session_scope :: "(db, 'e, 'a) op \<Rightarrow> (db, 'e, 'a) op" where
  "session_scope m s = (case m s of (Inl e, t) \<Rightarrow> (Inl e, rollback s t) | (Inr x, t) \<Rightarrow> (Inr x, t))"

section \<open>The audit ledger\<close>

record audit_event_create =
  ac_event_tenant_id :: string
  ac_event_actor_id :: string
  ac_event_type :: string
  ac_event_payload :: dict

definition append_audit_event :: "audit_event_create \<Rightarrow> (db, 'e, audit_event) op" where
  "append_audit_event event =
     bind_op uuid4 (\<lambda>new_id.
     bind_op utc_now (\<lambda>now.
       let audit_event = \<lparr>ae_id = new_id, ae_tenant_id = ac_event_tenant_id event,
             ae_actor_id = ac_event_actor_id event, ae_event_type = ac_event_type event,
             ae_payload = ac_event_payload event, ae_created_at = now\<rparr>
       in bind_op (put_op (\<lambda>s. s\<lparr>audit_events := audit_events s @ [audit_event]\<rparr>)) (\<lambda>_.
          return_op audit_event)))"

text \<open>\<^verbatim>\<open>ORDER BY created_at DESC, id DESC LIMIT n\<close> over one tenant's ledger.\<close>

definition list_audit_events ::
  "string \<Rightarrow> string option \<Rightarrow> string option \<Rightarrow> nat \<Rightarrow> db \<Rightarrow> audit_event list"
where
  "list_audit_events tenant_id event_type actor_id limit s =
     take limit (sort_key (\<lambda>e. (- ae_created_at e, - int (ae_id e)))
       (select_where (\<lambda>e. ae_tenant_id e = tenant_id
          \<and> (case event_type of None \<Rightarrow> True | Some t \<Rightarrow> ae_event_type e = t)
          \<and> (case actor_id of None \<Rightarrow> True | Some a \<Rightarrow> ae_actor_id e = a)) (audit_events s)))"

section \<open>Lemmas\<close>

lemma utc_now_apply [op_simps, simp]:
  "utc_now s = (Inr (clock_at s (clock_n s)), s\<lparr>clock_n := Suc (clock_n s)\<rparr>)"
  by (simp add: utc_now_def)

lemma uuid4_apply [op_simps, simp]:
  "uuid4 s = (Inr (uuid_at s (uuid_n s)), s\<lparr>uuid_n := Suc (uuid_n s)\<rparr>)"
  by (simp add: uuid4_def)

text \<open>The row that an append writes in a given state, and the state it leaves.\<close>

definition new_audit_event :: "db \<Rightarrow> audit_event_create \<Rightarrow> audit_event" where
  "new_audit_event s event =
     \<lparr>ae_id = uuid_at s (uuid_n s), ae_tenant_id = ac_event_tenant_id event,
      ae_actor_id = ac_event_actor_id event, ae_event_type = ac_event_type event,
      ae_payload = ac_event_payload event, ae_created_at = clock_at s (clock_n s)\<rparr>"

definition with_audit_event :: "db \<Rightarrow> audit_event_create \<Rightarrow> db" where
  "with_audit_event s event =
     s\<lparr>uuid_n := Suc (uuid_n s), clock_n := Suc (clock_n s),
       audit_events := audit_events s @ [new_audit_event s event]\<rparr>"

lemma append_audit_event_apply [op_simps, simp]:
  "append_audit_event event s = (Inr (new_audit_event s event), with_audit_event s event)"
  by (simp add: append_audit_event_def bind_op_def new_audit_event_def with_audit_event_def Let_def)

lemma new_audit_event_sel [row_simps, simp]:
  "ae_id (new_audit_event s event) = uuid_at s (uuid_n s)"
  "ae_tenant_id (new_audit_event s event) = ac_event_tenant_id event"
  "ae_actor_id (new_audit_event s event) = ac_event_actor_id event"
  "ae_event_type (new_audit_event s event) = ac_event_type event"
  "ae_payload (new_audit_event s event) = ac_event_payload event"
  by (simp_all add: new_audit_event_def)

text \<open>An append touches the ledger and the draws only.\<close>

lemma with_audit_event_sel [simp]:
  "audit_events (with_audit_event s event) = audit_events s @ [new_audit_event s event]"
  "tenants (with_audit_event s event) = tenants s"
  "tenant_quotas (with_audit_event s event) = tenant_quotas s"
  "actors (with_audit_event s event) = actors s"
  "platform_policies (with_audit_event s event) = platform_policies s"
  "approval_records (with_audit_event s event) = approval_records s"
  "approval_decision_outbox (with_audit_event s event) = approval_decision_outbox s"
  "action_runs (with_audit_event s event) = action_runs s"
  "workflow_runs (with_audit_event s event) = workflow_runs s"
  "workflow_timeline (with_audit_event s event) = workflow_timeline s"
  "reference_records (with_audit_event s event) = reference_records s"
  "browser_sessions (with_audit_event s event) = browser_sessions s"
  "usage_records (with_audit_event s event) = usage_records s"
  "usage_events (with_audit_event s event) = usage_events s"
  "audit_legal_holds (with_audit_event s event) = audit_legal_holds s"
  "uuid_at (with_audit_event s event) = uuid_at s"
  "clock_at (with_audit_event s event) = clock_at s"
  "uuid_n (with_audit_event s event) = Suc (uuid_n s)"
  "clock_n (with_audit_event s event) = Suc (clock_n s)"
  by (simp_all add: with_audit_event_def)

lemma rollback_tables [simp]:
  "audit_events (rollback s t) = audit_events s"
  "tenants (rollback s t) = tenants s"
  "platform_policies (rollback s t) = platform_policies s"
  "approval_records (rollback s t) = approval_records s"
  "approval_decision_outbox (rollback s t) = approval_decision_outbox s"
  "browser_sessions (rollback s t) = browser_sessions s"
  "audit_legal_holds (rollback s t) = audit_legal_holds s"
  by (simp_all add: rollback_def)

text \<open>Two databases agree on their tables: they differ in the draws at most.\<close>

definition same_tables :: "db \<Rightarrow> db \<Rightarrow> bool" where
  "same_tables s t \<longleftrightarrow> t = s\<lparr>clock_n := clock_n t, uuid_n := uuid_n t\<rparr>"

lemma same_tables_refl [simp]: "same_tables s s"
  by (simp add: same_tables_def)

lemma session_scope_error_rolls_back:
  "session_scope m s = (Inl e, t) \<Longrightarrow> same_tables s t"
  by (auto simp: session_scope_def same_tables_def rollback_def split: prod.splits sum.splits)

text \<open>The ledger is append-only: an operation extends it and rewrites no event.\<close>

definition appends_audit :: "(db, 'e, 'a) op \<Rightarrow> bool" where
  "appends_audit m \<longleftrightarrow> (\<forall>s. \<exists>new. audit_events (snd (m s)) = audit_events s @ new)"

lemma appends_auditI: "(\<And>s. \<exists>new. audit_events (snd (m s)) = audit_events s @ new) \<Longrightarrow> appends_audit m"
  by (simp add: appends_audit_def)

lemma appends_audit_same: "(\<And>s. audit_events (snd (m s)) = audit_events s) \<Longrightarrow> appends_audit m"
  by (simp add: appends_audit_def)

lemma appends_audit_basic [op_keeps]:
  "appends_audit (return_op x)" "appends_audit (raise_op e)" "appends_audit (get_op f)"
  "appends_audit (of_result r)" "appends_audit utc_now" "appends_audit uuid4"
  by (simp_all add: appends_audit_same)

lemma appends_audit_event [op_keeps]: "appends_audit (append_audit_event event)"
  by (simp add: appends_audit_def)

lemma appends_audit_put: "(\<And>s. audit_events (f s) = audit_events s) \<Longrightarrow> appends_audit (put_op f)"
  by (simp add: appends_audit_same)

lemma appends_audit_bind [op_keeps]:
  assumes "appends_audit m" and "\<And>x. appends_audit (f x)"
  shows "appends_audit (bind_op m f)"
proof (rule appends_auditI)
  fix s
  obtain r t where m: "m s = (r, t)" by (cases "m s")
  with assms(1) obtain new where new: "audit_events t = audit_events s @ new"
    unfolding appends_audit_def by (metis snd_conv)
  show "\<exists>new. audit_events (snd (bind_op m f s)) = audit_events s @ new"
  proof (cases r)
    case (Inl e)
    with m new show ?thesis by (auto simp: bind_op_def)
  next
    case (Inr x)
    from assms(2) obtain new' where "audit_events (snd (f x t)) = audit_events t @ new'"
      unfolding appends_audit_def by blast
    with m new Inr show ?thesis by (auto simp: bind_op_def)
  qed
qed

lemma appends_audit_lift_error [op_keeps]: "appends_audit m \<Longrightarrow> appends_audit (lift_error g m)"
  by (auto simp: appends_audit_def lift_error_def split: prod.splits sum.splits; metis snd_conv)

lemma appends_audit_if [op_keeps]:
  "appends_audit m \<Longrightarrow> appends_audit n \<Longrightarrow> appends_audit (if b then m else n)"
  by simp

lemma appends_audit_option [op_keeps]:
  "appends_audit m \<Longrightarrow> (\<And>x. appends_audit (f x)) \<Longrightarrow>
   appends_audit (case z of None \<Rightarrow> m | Some x \<Rightarrow> f x)"
  by (simp split: option.splits)

text \<open>Identifiers drawn from \<^verbatim>\<open>uuid4\<close>: distinct, and among the values drawn so far.\<close>

definition ids_drawn :: "db \<Rightarrow> uuid list \<Rightarrow> bool" where
  "ids_drawn s ids \<longleftrightarrow> distinct ids \<and> set ids \<subseteq> uuid_at s ` {..<uuid_n s}"

lemma ids_drawn_mono:
  "ids_drawn s ids \<Longrightarrow> uuid_at t = uuid_at s \<Longrightarrow> uuid_n s \<le> uuid_n t \<Longrightarrow> ids_drawn t ids"
  by (fastforce simp: ids_drawn_def)

lemma ids_drawn_snoc:
  assumes "inj (uuid_at s)" "ids_drawn s ids" "uuid_at t = uuid_at s" "uuid_n s < uuid_n t"
  shows "ids_drawn t (ids @ [uuid_at s (uuid_n s)])"
proof -
  have "uuid_at s (uuid_n s) \<notin> uuid_at s ` {..<uuid_n s}"
    using assms(1) by (auto simp: inj_eq)
  then show ?thesis
    using assms by (fastforce simp: ids_drawn_def)
qed

end
