(* ===== verification/Workflow_Signals.thy ===== *)
theory Workflow_Signals
  imports Store
begin

text \<open>
  The contract between the control plane and the workflow engine (\<^verbatim>\<open>axis_api/workflow_runtime.py\<close>):
  the four signal requests and the payloads that they send and that they audit, the results of a
  signal, and the Temporal adapter with its shared client and its negative cache of failed connects.
  The engine itself is a parameter: what a connect and a signal come to is an argument.
\<close>

section \<open>Dates\<close>

text \<open>\<^verbatim>\<open>datetime.isoformat()\<close> of an aware UTC time.\<close>

definition is_leap :: "int \<Rightarrow> bool" where
  "is_leap y \<longleftrightarrow> y mod 4 = 0 \<and> (y mod 100 \<noteq> 0 \<or> y mod 400 = 0)"

definition month_lengths :: "int \<Rightarrow> int list" where
  "month_lengths y = [31, if is_leap y then 29 else 28, 31, 30, 31, 30, 31, 31, 30, 31, 30, 31]"

fun month_day :: "int \<Rightarrow> int list \<Rightarrow> int \<Rightarrow> int \<times> int" where
  "month_day m [] n = (m, n + 1)"
| "month_day m (len # rest) n = (if n < len then (m, n + 1) else month_day (m + 1) rest (n - len))"

definition ord2ymd :: "int \<Rightarrow> int \<times> int \<times> int" where
  "ord2ymd ordinal =
     (let n0 = ordinal - 1;
          n400 = n0 div 146097; n1 = n0 mod 146097;
          n100 = n1 div 36524; n2 = n1 mod 36524;
          n4 = n2 div 1461; n3 = n2 mod 1461;
          ny = n3 div 365; n = n3 mod 365;
          year = n400 * 400 + 1 + n100 * 100 + n4 * 4 + ny
      in if ny = 4 \<or> n100 = 4 then (year - 1, 12, 31)
         else (year, month_day 1 (month_lengths year) n))"

definition zero_pad :: "nat \<Rightarrow> int \<Rightarrow> string" where
  "zero_pad w n = (let t = int_text n in replicate (w - length t) CHR ''0'' @ t)"

definition isoformat :: "timestamp \<Rightarrow> string" where
  "isoformat t =
     (let days = t div 86400000000; r = t mod 86400000000;
          (y, m, d) = ord2ymd (days + 719163);
          secs = r div 1000000; us = r mod 1000000
      in zero_pad 4 y @ ''-'' @ zero_pad 2 m @ ''-'' @ zero_pad 2 d @ ''T'' @
         zero_pad 2 (secs div 3600) @ '':'' @ zero_pad 2 (secs div 60 mod 60) @ '':'' @
         zero_pad 2 (secs mod 60) @ (if us = 0 then [] else ''.'' @ zero_pad 6 us) @ ''+00:00'')"

section \<open>Signal requests\<close>

datatype approval_decision = APPROVE | REJECT | REQUEST_CHANGES

fun decision_value :: "approval_decision \<Rightarrow> string" where
  "decision_value APPROVE = ''approve''"
| "decision_value REJECT = ''reject''"
| "decision_value REQUEST_CHANGES = ''request_changes''"

definition APPROVAL_DECISION_SCHEMA_VERSION :: string where
  "APPROVAL_DECISION_SCHEMA_VERSION = ''axis.approval-decision.v1''"

definition APPROVAL_DECISION_SIGNAL_NAME :: string where
  "APPROVAL_DECISION_SIGNAL_NAME = ''approval_decided_v1''"

definition APPROVAL_DECISION_EVENT_NAMESPACE :: uuid where
  "APPROVAL_DECISION_EVENT_NAMESPACE = 0x1b8091ccfc945e86bc86f51629b07e0a"

record signal_request =
  sg_tenant_id :: string
  sg_workflow_id :: string
  sg_approval_id :: string
  sg_decision :: approval_decision
  sg_decision_event_id :: "uuid option"
  sg_actor_id :: "string option"
  sg_note :: "string option"
  sg_decided_at :: "timestamp option"
  sg_signal_name :: string

text \<open>The field constraints of \<^verbatim>\<open>WorkflowSignalRequest\<close> and its validator, which derives a stable event
  id from the identity of the decision. The name-based \<^verbatim>\<open>uuid5\<close> is a parameter.\<close>

definition signal_request_valid :: "signal_request \<Rightarrow> bool" where
  "signal_request_valid r \<longleftrightarrow>
     sg_tenant_id r \<noteq> [] \<and> sg_workflow_id r \<noteq> [] \<and> sg_approval_id r \<noteq> []
     \<and> sg_actor_id r \<noteq> Some [] \<and> sg_signal_name r \<noteq> []
     \<and> (case sg_note r of None \<Rightarrow> True | Some n \<Rightarrow> length n \<le> 600)"

definition populate_stable_decision_event_id ::
  "(uuid \<Rightarrow> string \<Rightarrow> uuid) \<Rightarrow> signal_request \<Rightarrow> signal_request"
where
  "populate_stable_decision_event_id uuid5 r =
     (case sg_decision_event_id r of
        Some _ \<Rightarrow> r
      | None \<Rightarrow> r\<lparr>sg_decision_event_id := Some (uuid5 APPROVAL_DECISION_EVENT_NAMESPACE
            (sg_tenant_id r @ [char_of (31 :: nat)] @ sg_workflow_id r @ [char_of (31 :: nat)] @ sg_approval_id r))\<rparr>)"

text \<open>\<^verbatim>\<open>WorkflowSignalRequest(..)\<close>; \<open>None\<close> is pydantic's \<^verbatim>\<open>ValidationError\<close>.\<close>

definition make_signal_request :: "(uuid \<Rightarrow> string \<Rightarrow> uuid) \<Rightarrow> signal_request \<Rightarrow> signal_request option" where
  "make_signal_request uuid5 r =
     (if signal_request_valid r then Some (populate_stable_decision_event_id uuid5 r) else None)"

definition approved :: "signal_request \<Rightarrow> bool" where
  "approved r \<longleftrightarrow> sg_decision r = APPROVE"

text \<open>\<^verbatim>\<open>str(None)\<close> is \<^verbatim>\<open>None\<close>.\<close>

definition opt_uuid_text :: "uuid option \<Rightarrow> string" where
  "opt_uuid_text u = (case u of None \<Rightarrow> ''None'' | Some x \<Rightarrow> uuid_text x)"

definition runtime_payload :: "signal_request \<Rightarrow> dict" where
  "runtime_payload r =
     [(''schema_version'', JStr APPROVAL_DECISION_SCHEMA_VERSION),
      (''decision_event_id'', JStr (opt_uuid_text (sg_decision_event_id r))),
      (''tenant_id'', JStr (sg_tenant_id r)),
      (''workflow_id'', JStr (sg_workflow_id r)),
      (''approval_id'', JStr (sg_approval_id r)),
      (''decision'', JStr (decision_value (sg_decision r))),
      (''approved'', JBool (approved r)),
      (''actor_id'', jopt JStr (sg_actor_id r)),
      (''note'', jopt JStr (sg_note r)),
      (''decided_at'', jopt (\<lambda>t. JStr (isoformat t)) (sg_decided_at r))]"

record action_signal_request =
  as_tenant_id :: string
  as_workflow_id :: string
  as_action_id :: string
  as_action_run_id :: uuid
  as_idempotency_key :: string
  as_approval_id :: "string option"
  as_execution_mode :: string
  as_signal_name :: string
  as_payload :: dict

definition action_runtime_payload :: "action_signal_request \<Rightarrow> dict" where
  "action_runtime_payload r =
     [(''tenant_id'', JStr (as_tenant_id r)), (''action_id'', JStr (as_action_id r)),
      (''action_run_id'', JStr (uuid_text (as_action_run_id r))),
      (''idempotency_key'', JStr (as_idempotency_key r)),
      (''approval_id'', jopt JStr (as_approval_id r)),
      (''execution_mode'', JStr (as_execution_mode r)), (''payload'', JObj (as_payload r))]"

text \<open>The audit payload names the fields of the action's payload and none of their values.\<close>

definition action_audit_payload :: "action_signal_request \<Rightarrow> dict" where
  "action_audit_payload r =
     [(''action_id'', JStr (as_action_id r)),
      (''action_run_id'', JStr (uuid_text (as_action_run_id r))),
      (''idempotency_key'', JStr (as_idempotency_key r)),
      (''approval_id'', jopt JStr (as_approval_id r)),
      (''execution_mode'', JStr (as_execution_mode r)),
      (''payload_field_names'', jstrs (sort (map fst (as_payload r))))]"

record import_signal_request =
  is_tenant_id :: string
  is_workflow_id :: string
  is_connector_id :: string
  is_import_id :: string
  is_idempotency_key :: string
  is_approval_id :: string
  is_import_mode :: string
  is_decision :: approval_decision
  is_proposal_ids :: "string list"
  is_graph_mutation_status :: string
  is_signal_name :: string

definition import_runtime_payload :: "import_signal_request \<Rightarrow> dict" where
  "import_runtime_payload r =
     [(''tenant_id'', JStr (is_tenant_id r)), (''connector_id'', JStr (is_connector_id r)),
      (''import_id'', JStr (is_import_id r)), (''idempotency_key'', JStr (is_idempotency_key r)),
      (''approval_id'', JStr (is_approval_id r)), (''import_mode'', JStr (is_import_mode r)),
      (''decision'', JStr (decision_value (is_decision r))),
      (''approved'', JBool (is_decision r = APPROVE)),
      (''proposal_ids'', jstrs (is_proposal_ids r)),
      (''graph_mutation_status'', JStr (is_graph_mutation_status r))]"

definition import_audit_payload :: "import_signal_request \<Rightarrow> dict" where
  "import_audit_payload r =
     [(''connector_id'', JStr (is_connector_id r)),
      (''import_id'', JStr (is_import_id r)), (''idempotency_key'', JStr (is_idempotency_key r)),
      (''approval_id'', JStr (is_approval_id r)), (''import_mode'', JStr (is_import_mode r)),
      (''decision'', JStr (decision_value (is_decision r))),
      (''approved'', JBool (is_decision r = APPROVE)),
      (''proposal_ids'', jstrs (is_proposal_ids r)),
      (''proposal_count'', JInt (int (length (is_proposal_ids r)))),
      (''graph_mutation_status'', JStr (is_graph_mutation_status r))]"

record export_signal_request =
  es_tenant_id :: string
  es_workflow_id :: string
  es_export_request_id :: string
  es_idempotency_key :: string
  es_approval_id :: string
  es_decision :: approval_decision
  es_connector_id :: "string option"
  es_snapshot_id :: "string option"
  es_requested_snapshot_count :: int
  es_export_status :: string
  es_storage_status :: string
  es_redaction_policy :: string
  es_signal_name :: string

definition export_runtime_payload :: "export_signal_request \<Rightarrow> dict" where
  "export_runtime_payload r =
     [(''tenant_id'', JStr (es_tenant_id r)), (''export_request_id'', JStr (es_export_request_id r)),
      (''idempotency_key'', JStr (es_idempotency_key r)), (''approval_id'', JStr (es_approval_id r)),
      (''decision'', JStr (decision_value (es_decision r))),
      (''approved'', JBool (es_decision r = APPROVE)),
      (''connector_id'', jopt JStr (es_connector_id r)), (''snapshot_id'', jopt JStr (es_snapshot_id r)),
      (''requested_snapshot_count'', JInt (es_requested_snapshot_count r)),
      (''export_status'', JStr (es_export_status r)), (''storage_status'', JStr (es_storage_status r)),
      (''redaction_policy'', JStr (es_redaction_policy r))]"

section \<open>Results\<close>

record signal_result =
  wsr_workflow_id :: string
  wsr_status :: string
  wsr_adapter :: string
  wsr_signal_name :: string
  wsr_payload :: dict

definition signal_result_dump :: "signal_result \<Rightarrow> json" where
  "signal_result_dump r = JObj
     [(''workflow_id'', JStr (wsr_workflow_id r)), (''status'', JStr (wsr_status r)),
      (''adapter'', JStr (wsr_adapter r)), (''signal_name'', JStr (wsr_signal_name r)),
      (''payload'', JObj (wsr_payload r))]"

datatype signal_error = WorkflowSignalError (signal_reason: string) (may_be_closed: bool)

definition temporal_adapter_name :: string where
  "temporal_adapter_name = ''axis-temporal-adapter''"

definition deferred_adapter_name :: string where
  "deferred_adapter_name = ''axis-deferred-workflow-adapter''"

definition deferred_signal_approval_decision :: "signal_request \<Rightarrow> signal_result" where
  "deferred_signal_approval_decision r =
     \<lparr>wsr_workflow_id = sg_workflow_id r, wsr_status = ''runtime_signal_deferred'',
      wsr_adapter = deferred_adapter_name, wsr_signal_name = sg_signal_name r,
      wsr_payload = runtime_payload r\<rparr>"

definition workflow_signal_failure_result :: "signal_request \<Rightarrow> string \<Rightarrow> signal_result" where
  "workflow_signal_failure_result r why =
     \<lparr>wsr_workflow_id = sg_workflow_id r, wsr_status = ''runtime_signal_unavailable'',
      wsr_adapter = temporal_adapter_name, wsr_signal_name = sg_signal_name r,
      wsr_payload = dset ''reason'' (JStr why) (runtime_payload r)\<rparr>"

section \<open>The Temporal adapter\<close>

text \<open>The client is shared, and its creation is serialized by a lock, so that the adapter is a state
  that one caller at a time changes. Times are readings of a monotonic clock in seconds.\<close>

record temporal_config =
  tc_signal_timeout_seconds :: pyfloat
  tc_connect_backoff_max_seconds :: pyfloat

record temporal_runtime =
  tr_connected :: bool
  tr_connect_failures :: nat
  tr_connect_retry_at :: "pyfloat option"

definition initial_runtime :: temporal_runtime where
  "initial_runtime = \<lparr>tr_connected = False, tr_connect_failures = 0, tr_connect_retry_at = None\<rparr>"

text \<open>What a connect comes to: a client, or an exception (a cancellation included) named by its
  class.\<close>

datatype connect_outcome = Connected | ConnectFailed string

datatype client_error = ConnectBackoff | ConnectError string

definition CONNECT_BACKOFF_BASE_SECONDS :: pyfloat where
  "CONNECT_BACKOFF_BASE_SECONDS = 1"

definition record_connect_failure :: "temporal_config \<Rightarrow> pyfloat \<Rightarrow> temporal_runtime \<Rightarrow> temporal_runtime" where
  "record_connect_failure config now tr =
     (let failures = tr_connect_failures tr + 1;
          delay = min (tc_connect_backoff_max_seconds config)
                    (CONNECT_BACKOFF_BASE_SECONDS * 2 ^ (failures - 1))
      in tr\<lparr>tr_connect_failures := failures, tr_connect_retry_at := Some (now + delay)\<rparr>)"

text \<open>\<open>asked_at\<close> is the reading of the clock at the check of the window and \<open>failed_at\<close> the one after a
  failed attempt.\<close>

definition client ::
  "temporal_config \<Rightarrow> pyfloat \<Rightarrow> pyfloat \<Rightarrow> connect_outcome \<Rightarrow> (temporal_runtime, client_error, unit) op"
where
  "client config asked_at failed_at outcome tr =
     (if tr_connected tr then (Inr (), tr)
      else if (case tr_connect_retry_at tr of None \<Rightarrow> False | Some retry_at \<Rightarrow> asked_at < retry_at)
      then (Inl ConnectBackoff, tr)
      else (case outcome of
              ConnectFailed e \<Rightarrow> (Inl (ConnectError e), record_connect_failure config failed_at tr)
            | Connected \<Rightarrow> (Inr (), tr\<lparr>tr_connected := True, tr_connect_failures := 0,
                             tr_connect_retry_at := None\<rparr>)))"

text \<open>What the RPC of a signal comes to once there is a client: an \<^verbatim>\<open>RPCError\<close> with its status, or
  another of the exceptions that the adapter converts (\<^verbatim>\<open>OSError\<close>, \<^verbatim>\<open>RuntimeError\<close>,
  \<^verbatim>\<open>TemporalError\<close>; a timeout is an \<^verbatim>\<open>OSError\<close>) by its class name. A failed connect is one of
  these too.\<close>

datatype rpc_outcome = RpcOk | RpcStatusError string | RpcOther string

definition client_error_class :: "client_error \<Rightarrow> string" where
  "client_error_class e = (case e of ConnectBackoff \<Rightarrow> ''TemporalConnectBackoffError'' | ConnectError c \<Rightarrow> c)"

definition temporal_signal_approval_decision ::
  "temporal_config \<Rightarrow> pyfloat \<Rightarrow> pyfloat \<Rightarrow> connect_outcome \<Rightarrow> rpc_outcome \<Rightarrow> signal_request \<Rightarrow>
   (temporal_runtime, signal_error, signal_result) op"
where
  "temporal_signal_approval_decision config asked_at failed_at connect rpc r =
     bind_op (lift_error (\<lambda>e. WorkflowSignalError (client_error_class e) False)
         (client config asked_at failed_at connect)) (\<lambda>_.
     case rpc of
       RpcStatusError status \<Rightarrow>
         raise_op (WorkflowSignalError ''RPCError'' (status \<in> {''NOT_FOUND'', ''FAILED_PRECONDITION''}))
     | RpcOther c \<Rightarrow> raise_op (WorkflowSignalError c False)
     | RpcOk \<Rightarrow> return_op
         \<lparr>wsr_workflow_id = sg_workflow_id r, wsr_status = ''approval_signaled'',
          wsr_adapter = temporal_adapter_name, wsr_signal_name = sg_signal_name r,
          wsr_payload = runtime_payload r\<rparr>)"

text \<open>The other three signals go through the same client and convert every error the same way. They add the trace
  headers of the caller to the payload (\<^verbatim>\<open>_with_trace_context\<close>: what OpenTelemetry's injector adds is the
  argument \<open>carrier\<close>, empty when telemetry is disabled).\<close>

definition with_trace_context :: "dict \<Rightarrow> dict \<Rightarrow> dict" where
  "with_trace_context carrier payload = dmerge payload carrier"

definition temporal_signal ::
  "temporal_config \<Rightarrow> pyfloat \<Rightarrow> pyfloat \<Rightarrow> connect_outcome \<Rightarrow> (string \<Rightarrow> string \<Rightarrow> dict \<Rightarrow> rpc_outcome) \<Rightarrow>
   string \<Rightarrow> string \<Rightarrow> dict \<Rightarrow> string \<Rightarrow> dict \<Rightarrow> (temporal_runtime, signal_error, signal_result) op"
where
  "temporal_signal config asked_at failed_at connect rpc workflow_id signal_name payload status audit =
     bind_op (lift_error (\<lambda>e. WorkflowSignalError (client_error_class e) False)
         (client config asked_at failed_at connect)) (\<lambda>_.
     case rpc workflow_id signal_name payload of
       RpcStatusError _ \<Rightarrow> raise_op (WorkflowSignalError ''RPCError'' False)
     | RpcOther c \<Rightarrow> raise_op (WorkflowSignalError c False)
     | RpcOk \<Rightarrow> return_op
         \<lparr>wsr_workflow_id = workflow_id, wsr_status = status, wsr_adapter = temporal_adapter_name,
          wsr_signal_name = signal_name, wsr_payload = audit\<rparr>)"

definition temporal_signal_action_run ::
  "temporal_config \<Rightarrow> pyfloat \<Rightarrow> pyfloat \<Rightarrow> connect_outcome \<Rightarrow> (string \<Rightarrow> string \<Rightarrow> dict \<Rightarrow> rpc_outcome) \<Rightarrow> dict \<Rightarrow>
   action_signal_request \<Rightarrow> (temporal_runtime, signal_error, signal_result) op"
where
  "temporal_signal_action_run config asked_at failed_at connect rpc carrier r =
     temporal_signal config asked_at failed_at connect rpc (as_workflow_id r) (as_signal_name r)
       (with_trace_context carrier (action_runtime_payload r)) ''action_signal_requested'' (action_audit_payload r)"

definition temporal_signal_connector_manual_import ::
  "temporal_config \<Rightarrow> pyfloat \<Rightarrow> pyfloat \<Rightarrow> connect_outcome \<Rightarrow> (string \<Rightarrow> string \<Rightarrow> dict \<Rightarrow> rpc_outcome) \<Rightarrow> dict \<Rightarrow>
   import_signal_request \<Rightarrow> (temporal_runtime, signal_error, signal_result) op"
where
  "temporal_signal_connector_manual_import config asked_at failed_at connect rpc carrier r =
     temporal_signal config asked_at failed_at connect rpc (is_workflow_id r) (is_signal_name r)
       (with_trace_context carrier (import_runtime_payload r)) ''manual_import_signal_requested'' (import_audit_payload r)"

definition temporal_signal_connector_evidence_snapshot_export ::
  "temporal_config \<Rightarrow> pyfloat \<Rightarrow> pyfloat \<Rightarrow> connect_outcome \<Rightarrow> (string \<Rightarrow> string \<Rightarrow> dict \<Rightarrow> rpc_outcome) \<Rightarrow> dict \<Rightarrow>
   export_signal_request \<Rightarrow> (temporal_runtime, signal_error, signal_result) op"
where
  "temporal_signal_connector_evidence_snapshot_export config asked_at failed_at connect rpc carrier r =
     temporal_signal config asked_at failed_at connect rpc (es_workflow_id r) (es_signal_name r)
       (with_trace_context carrier (export_runtime_payload r)) ''export_request_signal_requested'' (export_runtime_payload r)"

text \<open>Reading the result of a completed workflow: what the read comes to, once there is a client.\<close>

datatype result_outcome = ResultValue json | ResultTimeout | ResultError string

definition get_approval_decision_result ::
  "temporal_config \<Rightarrow> pyfloat \<Rightarrow> pyfloat \<Rightarrow> connect_outcome \<Rightarrow> result_outcome \<Rightarrow>
   (temporal_runtime, signal_error, dict option) op"
where
  "get_approval_decision_result config asked_at failed_at connect outcome =
     bind_op (lift_error (\<lambda>e. WorkflowSignalError (client_error_class e) False)
         (client config asked_at failed_at connect)) (\<lambda>_.
     case outcome of
       ResultTimeout \<Rightarrow> return_op None
     | ResultError c \<Rightarrow> raise_op (WorkflowSignalError c False)
     | ResultValue j \<Rightarrow> return_op (case j of JObj d \<Rightarrow> Some d | _ \<Rightarrow> None))"

definition deferred_result :: "string \<Rightarrow> string \<Rightarrow> dict \<Rightarrow> signal_result" where
  "deferred_result workflow_id signal_name audit =
     \<lparr>wsr_workflow_id = workflow_id, wsr_status = ''runtime_signal_deferred'',
      wsr_adapter = deferred_adapter_name, wsr_signal_name = signal_name, wsr_payload = audit\<rparr>"

definition deferred_signal_action_run :: "action_signal_request \<Rightarrow> signal_result" where
  "deferred_signal_action_run r = deferred_result (as_workflow_id r) (as_signal_name r) (action_audit_payload r)"

definition deferred_signal_connector_manual_import :: "import_signal_request \<Rightarrow> signal_result" where
  "deferred_signal_connector_manual_import r = deferred_result (is_workflow_id r) (is_signal_name r) (import_audit_payload r)"

definition deferred_signal_connector_evidence_snapshot_export :: "export_signal_request \<Rightarrow> signal_result" where
  "deferred_signal_connector_evidence_snapshot_export r =
     deferred_result (es_workflow_id r) (es_signal_name r) (export_runtime_payload r)"

section \<open>Lemmas\<close>

lemma decision_value_inject [simp]: "decision_value a = decision_value b \<longleftrightarrow> a = b"
  by (cases a; cases b) simp_all

section \<open>Properties\<close>

text \<open>The negative cache of failed connects: a failed attempt closes a window that ends after the
  smaller of the configured maximum and two to the number of earlier consecutive failures; a call inside the
  window fails at once, whatever a connect would have come to, and changes nothing; a call at its end
  or later attempts a connect again, and a success clears the cache.\<close>

lemma client_backoff:
  assumes "client config asked failed (ConnectFailed e) tr = (Inl (ConnectError e), tr')"
    and "until = failed + min (tc_connect_backoff_max_seconds config) (2 ^ tr_connect_failures tr)"
  shows "tr_connect_failures tr' = tr_connect_failures tr + 1
    \<and> (\<forall>now later outcome. now < until \<longrightarrow> client config now later outcome tr' = (Inl ConnectBackoff, tr'))
    \<and> (\<forall>now later e'. until \<le> now \<longrightarrow>
         fst (client config now later (ConnectFailed e') tr') = Inl (ConnectError e')
         \<and> client config now later Connected tr' =
             (Inr (), \<lparr>tr_connected = True, tr_connect_failures = 0, tr_connect_retry_at = None\<rparr>))"
proof -
  have "\<not> tr_connected tr" "tr' = record_connect_failure config failed tr"
    using assms(1) by (auto simp: client_def split: if_splits)
  then show ?thesis
    using assms(2) by (simp add: client_def Let_def record_connect_failure_def CONNECT_BACKOFF_BASE_SECONDS_def)
qed

lemma client_backoff_example:
  "let config = \<lparr>tc_signal_timeout_seconds = 2, tc_connect_backoff_max_seconds = 30\<rparr>;
       tr = \<lparr>tr_connected = False, tr_connect_failures = 1, tr_connect_retry_at = Some 1\<rparr>;
       tr' = \<lparr>tr_connected = False, tr_connect_failures = 2, tr_connect_retry_at = Some 3\<rparr>
   in client config 1 1 (ConnectFailed ''OSError'') tr = (Inl (ConnectError ''OSError''), tr')
    \<and> client config (5/2) 3 Connected tr' = (Inl ConnectBackoff, tr')"
proof -
  let ?config = "\<lparr>tc_signal_timeout_seconds = 2, tc_connect_backoff_max_seconds = 30\<rparr>"
  let ?tr = "\<lparr>tr_connected = False, tr_connect_failures = 1, tr_connect_retry_at = Some 1\<rparr>"
  let ?tr' = "\<lparr>tr_connected = False, tr_connect_failures = 2, tr_connect_retry_at = Some 3\<rparr>"
  have "client ?config 1 1 (ConnectFailed ''OSError'') ?tr = (Inl (ConnectError ''OSError''), ?tr')"
    by (simp add: client_def record_connect_failure_def Let_def CONNECT_BACKOFF_BASE_SECONDS_def)
  with client_backoff [OF this, of 3] show ?thesis by (simp add: Let_def)
qed

end
