(* ===== verification/Approval_Reference.thy ===== *)
theory Approval_Reference
  imports Workflow_Signals
begin

text \<open>
  The reference records that approvals are read from (\<^verbatim>\<open>axis_api/approval_reference.py\<close>,
  \<^verbatim>\<open>axis_api/action_reference.py\<close>, the tenant check of \<^verbatim>\<open>axis_api/manufacturing_metadata.py\<close>), the overlay
  of persisted decisions on the inbox, the decision history, and the amount that an action asks for
  (\<^verbatim>\<open>payload_requested_amount\<close> of \<^verbatim>\<open>axis_api/action_runs.py\<close>). Decoding a stored payload into its typed
  record is pydantic's; the decoders are parameters.
\<close>

section \<open>Typed records\<close>

record audit_preview =
  av_event :: string
  av_actor_role :: string
  av_scope :: string
  av_result :: string

definition audit_preview_dump :: "audit_preview \<Rightarrow> json" where
  "audit_preview_dump v = JObj
     [(''event'', JStr (av_event v)), (''actor_role'', JStr (av_actor_role v)),
      (''scope'', JStr (av_scope v)), (''result'', JStr (av_result v))]"

record decision_option =
  do_decision :: approval_decision
  do_label :: string
  do_consequence :: string

record inbox_item =
  ai_approval_id :: string
  ai_action :: string
  ai_risk_level :: string
  ai_status :: string
  ai_requested_by :: string
  ai_owner_role :: string
  ai_due :: string
  ai_workflow_id :: string
  ai_domain :: string
  ai_summary :: string
  ai_evidence :: "string list"
  ai_data_accessed :: "string list"
  ai_risks :: "string list"
  ai_alternatives :: "string list"
  ai_estimated_cost :: string
  ai_model_policy :: string
  ai_required_permission :: string
  ai_audit_event_preview :: audit_preview
  ai_decision_options :: "decision_option list"

record history_entry =
  he_approval_id :: string
  he_action :: string
  he_risk_level :: string
  he_decision :: string
  he_status :: string
  he_domain :: "string option"
  he_workflow_id :: "string option"
  he_decided_by :: "string option"
  he_decided_at :: "string option"
  he_rationale :: "string option"
  he_audit_event_id :: "string option"
  he_follow_through_status :: json

datatype overview_status = READY | WATCH | ACTION_REQUIRED

datatype provenance = REFERENCE_SCENARIO | LIVE | EMPTY

record approval_inbox =
  ix_tenant_id :: string
  ix_provenance :: provenance
  ix_queue_status :: overview_status
  ix_policy_notes :: "string list"
  ix_approvals :: "inbox_item list"
  ix_decision_history :: "history_entry list"

text \<open>The parts of a registry entry (\<^verbatim>\<open>ActionRegistryEntry\<close> with its definition and its policy) that approvals,
  action runs and the policy context read.\<close>

record action_entry =
  ax_action_id :: string
  ax_domain :: string
  ax_risk_level :: string
  ax_approval_mode :: string
  ax_input_schema :: dict
  ax_required_permissions :: "string list"
  ax_owner_role :: string
  ax_autonomy_ceiling :: string
  ax_execution_mode :: string
  ax_runtime_adapter :: string
  ax_audit_event_type :: string
  ax_idempotency_required :: bool
  ax_dry_run_supported :: bool
  ax_workflow_bindings :: "string list"
  ax_approval_refs :: "string list"

text \<open>\<^verbatim>\<open>ActionDefinition.requires_approval\<close>.\<close>

definition requires_approval :: "action_entry \<Rightarrow> bool" where
  "requires_approval action \<longleftrightarrow> ax_approval_mode action \<in> {''required'', ''conditional''}"

record action_registry =
  xr_tenant_id :: string
  xr_provenance :: provenance
  xr_schema_version :: string
  xr_actions :: "action_entry list"

datatype reference_error =
    ManufacturingTenantNotFound string
  | ApprovalReferenceRecordNotFound
  | ApprovalReferenceRecordInvalid
  | ActionReferenceRecordNotFound
  | ActionReferenceRecordInvalid

section \<open>Reads\<close>

definition get_tenant :: "string \<Rightarrow> db \<Rightarrow> tenant option" where
  "get_tenant tenant_id s = first_row (select_where (\<lambda>t. tn_id t = tenant_id) (tenants s))"

definition get_demo_reference_record :: "string \<Rightarrow> string \<Rightarrow> string \<Rightarrow> db \<Rightarrow> reference_record option" where
  "get_demo_reference_record tenant_id surface reference_id s =
     first_row (select_where (\<lambda>r. dr_tenant_id r = tenant_id \<and> dr_surface r = surface
        \<and> dr_reference_id r = reference_id \<and> dr_status r = ''active'') (reference_records s))"

definition has_demo_reference_records :: "string \<Rightarrow> db \<Rightarrow> bool" where
  "has_demo_reference_records tenant_id s \<longleftrightarrow>
     first_row (select_where (\<lambda>r. dr_tenant_id r = tenant_id \<and> dr_status r = ''active'')
       (reference_records s)) \<noteq> None"

text \<open>\<^verbatim>\<open>get_manufacturing_tenant_metadata\<close>, as far as it can fail: the display fields are not used here.\<close>

definition manufacturing_tenant_known :: "string \<Rightarrow> db \<Rightarrow> reference_error + unit" where
  "manufacturing_tenant_known tenant_id s =
     (case get_tenant tenant_id s of
        Some _ \<Rightarrow> Inr ()
      | None \<Rightarrow> if has_demo_reference_records tenant_id s then Inr ()
                else Inl (ManufacturingTenantNotFound tenant_id))"

definition get_approval_record :: "string \<Rightarrow> string \<Rightarrow> db \<Rightarrow> approval_record option" where
  "get_approval_record tenant_id approval_id s =
     first_row (select_where (\<lambda>r. ar_tenant_id r = tenant_id \<and> ar_approval_id r = approval_id) (approval_records s))"

definition list_approval_records :: "string \<Rightarrow> string option \<Rightarrow> nat \<Rightarrow> db \<Rightarrow> approval_record list" where
  "list_approval_records tenant_id status limit s =
     take limit (sort_key (\<lambda>r. - ar_created_at r)
       (select_where (\<lambda>r. ar_tenant_id r = tenant_id
          \<and> (case status of None \<Rightarrow> True | Some st \<Rightarrow> ar_status r = st)) (approval_records s)))"

definition list_action_runs_for_approval :: "string \<Rightarrow> string \<Rightarrow> string \<Rightarrow> db \<Rightarrow> action_run list" where
  "list_action_runs_for_approval tenant_id action_id approval_id s =
     sort_key (\<lambda>r. (- rn_updated_at r, - rn_created_at r))
       (select_where (\<lambda>r. rn_tenant_id r = tenant_id \<and> rn_action_id r = action_id
          \<and> rn_approval_id r = Some approval_id) (action_runs s))"

section \<open>The inbox\<close>

definition DECIDED_STATUS :: string where
  "DECIDED_STATUS = ''decided''"

definition HIGH_RISK_LEVEL :: string where
  "HIGH_RISK_LEVEL = ''high''"

definition derived_queue_status :: "inbox_item list \<Rightarrow> overview_status" where
  "derived_queue_status items =
     (let pending = filter (\<lambda>i. ai_status i \<noteq> DECIDED_STATUS) items
      in if \<exists>i \<in> set pending. ai_risk_level i = HIGH_RISK_LEVEL then ACTION_REQUIRED
         else if pending \<noteq> [] then WATCH else READY)"

definition history_of ::
  "(json \<Rightarrow> string) \<Rightarrow> inbox_item list \<Rightarrow> approval_record \<Rightarrow> history_entry"
where
  "history_of py_str items record =
     (let snapshot = (case dget (ar_payload record) ''decision_result'' of JObj d \<Rightarrow> d | _ \<Rightarrow> []);
          item = first_row (rev (select_where (\<lambda>i. ai_approval_id i = ar_approval_id record) items))
      in \<lparr>he_approval_id = ar_approval_id record,
          he_action = (case item of Some i \<Rightarrow> ai_action i | None \<Rightarrow> ar_action_id record),
          he_risk_level = (case item of Some i \<Rightarrow> ai_risk_level i | None \<Rightarrow> ar_risk_level record),
          he_decision =
            (if truthy (dget snapshot ''decision'') then py_str (dget snapshot ''decision'')
             else (case ar_decision record of Some d \<Rightarrow> d | None \<Rightarrow> [])),
          he_status = ar_status record,
          he_domain = map_option ai_domain item,
          he_workflow_id =
            (case item of
               Some i \<Rightarrow> if ai_workflow_id i \<noteq> [] then Some (ai_workflow_id i) else ar_workflow_id record
             | None \<Rightarrow> ar_workflow_id record),
          he_decided_by =
            (if dget snapshot ''actor_id'' \<noteq> JNull then Some (py_str (dget snapshot ''actor_id''))
             else ar_decision_actor_id record),
          he_decided_at = map_option isoformat (ar_decided_at record),
          he_rationale = ar_decision_note record,
          he_audit_event_id =
            (if dget snapshot ''audit_event_id'' \<noteq> JNull
             then Some (py_str (dget snapshot ''audit_event_id'')) else None),
          he_follow_through_status = dget snapshot ''workflow_signal_status''\<rparr>)"

text \<open>Newest first by the time of the decision (of the record where there is none), then by the time of
  the record; \<^verbatim>\<open>reverse=True\<close> keeps the order of equal keys.\<close>

definition build_decision_history ::
  "(json \<Rightarrow> string) \<Rightarrow> approval_record list \<Rightarrow> inbox_item list \<Rightarrow> history_entry list"
where
  "build_decision_history py_str records items =
     map (history_of py_str items)
       (sort_key (\<lambda>r. (- (case ar_decided_at r of Some t \<Rightarrow> t | None \<Rightarrow> ar_created_at r), - ar_created_at r)) records)"

definition reconcile_inbox_with_decision_records ::
  "(json \<Rightarrow> string) \<Rightarrow> string \<Rightarrow> approval_inbox \<Rightarrow> db \<Rightarrow> approval_inbox"
where
  "reconcile_inbox_with_decision_records py_str tenant_id inbox s =
     (let records = filter (\<lambda>r. ar_decision r \<noteq> None) (list_approval_records tenant_id None 100 s);
          decided_ids = map ar_approval_id records;
          reconciled = map (\<lambda>i. if ai_approval_id i \<in> set decided_ids then i\<lparr>ai_status := DECIDED_STATUS\<rparr> else i)
                         (ix_approvals inbox)
      in inbox\<lparr>ix_approvals := reconciled, ix_queue_status := derived_queue_status reconciled,
               ix_decision_history := build_decision_history py_str records reconciled\<rparr>)"

text \<open>What is decoded outside of the code, and \<^verbatim>\<open>str\<close> of a JSON value.\<close>

record reference_codecs =
  dc_inbox :: "json \<Rightarrow> approval_inbox option"
  dc_registry :: "json \<Rightarrow> action_registry option"
  dc_str :: "json \<Rightarrow> string"

definition MANUFACTURING_APPROVAL_INBOX_REFERENCE_ID :: string where
  "MANUFACTURING_APPROVAL_INBOX_REFERENCE_ID = ''manufacturing-approval-inbox''"

definition APPROVAL_INBOX_SURFACE :: string where
  "APPROVAL_INBOX_SURFACE = ''approvals''"

text \<open>\<open>Inr None\<close> is the empty inbox that the console shows for a tenant without a reference record.\<close>

definition get_persisted_manufacturing_approval_inbox ::
  "reference_codecs \<Rightarrow> string \<Rightarrow> db \<Rightarrow> reference_error + approval_inbox option"
where
  "get_persisted_manufacturing_approval_inbox cx tenant_id s =
     (case manufacturing_tenant_known tenant_id s of
        Inl e \<Rightarrow> Inl e
      | Inr _ \<Rightarrow>
          (case get_demo_reference_record tenant_id APPROVAL_INBOX_SURFACE
                  MANUFACTURING_APPROVAL_INBOX_REFERENCE_ID s of
             None \<Rightarrow> Inr None
           | Some record \<Rightarrow>
               (case dc_inbox cx (dr_payload record) of
                  None \<Rightarrow> Inl ApprovalReferenceRecordInvalid
                | Some inbox \<Rightarrow>
                    if ix_tenant_id inbox \<noteq> tenant_id then Inl ApprovalReferenceRecordInvalid
                    else Inr (Some ((reconcile_inbox_with_decision_records (dc_str cx) tenant_id inbox s)
                           \<lparr>ix_provenance := REFERENCE_SCENARIO\<rparr>)))))"

definition require_persisted_manufacturing_approval_inbox ::
  "reference_codecs \<Rightarrow> string \<Rightarrow> db \<Rightarrow> reference_error + approval_inbox"
where
  "require_persisted_manufacturing_approval_inbox cx tenant_id s =
     (case get_persisted_manufacturing_approval_inbox cx tenant_id s of
        Inl (ManufacturingTenantNotFound _) \<Rightarrow> Inl ApprovalReferenceRecordNotFound
      | Inl e \<Rightarrow> Inl e
      | Inr None \<Rightarrow> Inl ApprovalReferenceRecordNotFound
      | Inr (Some inbox) \<Rightarrow> Inr inbox)"

section \<open>The action registry\<close>

definition MANUFACTURING_ACTION_REGISTRY_REFERENCE_ID :: string where
  "MANUFACTURING_ACTION_REGISTRY_REFERENCE_ID = ''manufacturing-action-registry''"

definition ACTION_REGISTRY_SURFACE :: string where
  "ACTION_REGISTRY_SURFACE = ''actions''"

definition get_persisted_manufacturing_action_registry ::
  "reference_codecs \<Rightarrow> string \<Rightarrow> db \<Rightarrow> reference_error + action_registry option"
where
  "get_persisted_manufacturing_action_registry cx tenant_id s =
     (case manufacturing_tenant_known tenant_id s of
        Inl e \<Rightarrow> Inl e
      | Inr _ \<Rightarrow>
          (case get_demo_reference_record tenant_id ACTION_REGISTRY_SURFACE
                  MANUFACTURING_ACTION_REGISTRY_REFERENCE_ID s of
             None \<Rightarrow> Inr None
           | Some record \<Rightarrow>
               (case dc_registry cx (dr_payload record) of
                  None \<Rightarrow> Inl ActionReferenceRecordInvalid
                | Some registry \<Rightarrow>
                    if xr_tenant_id registry \<noteq> tenant_id then Inl ActionReferenceRecordInvalid
                    else Inr (Some (registry\<lparr>xr_provenance := REFERENCE_SCENARIO\<rparr>)))))"

definition require_persisted_manufacturing_action_registry ::
  "reference_codecs \<Rightarrow> string \<Rightarrow> db \<Rightarrow> reference_error + action_registry"
where
  "require_persisted_manufacturing_action_registry cx tenant_id s =
     (case get_persisted_manufacturing_action_registry cx tenant_id s of
        Inl (ManufacturingTenantNotFound _) \<Rightarrow> Inl ActionReferenceRecordNotFound
      | Inl e \<Rightarrow> Inl e
      | Inr None \<Rightarrow> Inl ActionReferenceRecordNotFound
      | Inr (Some registry) \<Rightarrow> Inr registry)"

text \<open>\<^verbatim>\<open>registry_action_entry\<close> with \<^verbatim>\<open>_find_action\<close>: a missing registry or action reads as \<^verbatim>\<open>None\<close>.\<close>

definition registry_action_entry :: "reference_codecs \<Rightarrow> string \<Rightarrow> string \<Rightarrow> db \<Rightarrow> action_entry option" where
  "registry_action_entry cx action_id tenant_id s =
     (case require_persisted_manufacturing_action_registry cx tenant_id s of
        Inl _ \<Rightarrow> None
      | Inr registry \<Rightarrow> first_row (select_where (\<lambda>a. ax_action_id a = action_id) (xr_actions registry)))"

section \<open>The requested amount\<close>

text \<open>\<^verbatim>\<open>float(n)\<close> of an integer: the nearest binary64 value, ties to even; \<open>None\<close> is the
  \<^verbatim>\<open>OverflowError\<close> of an integer that rounds beyond the largest finite value.\<close>

function bit_length :: "int \<Rightarrow> nat" where
  "bit_length n = (if n \<le> 0 then 0 else Suc (bit_length (n div 2)))"
  by pat_completeness auto
termination by (relation "measure nat") auto

declare bit_length.simps [simp del]

definition float_of_int :: "int \<Rightarrow> pyfloat option" where
  "float_of_int n =
     (let m = \<bar>n\<bar>; e = bit_length m - 53; q = round_half_even (of_int m / 2 ^ e); v = q * 2 ^ e
      in if 2 ^ 1024 \<le> v then None else Some (of_int (if n < 0 then - v else v)))"

text \<open>\<^verbatim>\<open>float(text)\<close> is a parameter: \<open>None\<close> for the \<^verbatim>\<open>ValueError\<close>, \<open>Some None\<close> for an infinity or NaN.\<close>

datatype amount_error = OverflowError

definition payload_requested_amount ::
  "(string \<Rightarrow> pyfloat option option) \<Rightarrow> dict \<Rightarrow> amount_error + pyfloat option \<times> bool"
where
  "payload_requested_amount float_of_text payload =
     (let checked = (\<lambda>x. if x < 0 then (None, True) else (Some x, False)) in
      case map_of payload ''requested_amount'' of
        None \<Rightarrow> Inr (None, False)
      | Some JNull \<Rightarrow> Inr (None, False)
      | Some (JBool _) \<Rightarrow> Inr (None, True)
      | Some (JInt n) \<Rightarrow> (case float_of_int n of None \<Rightarrow> Inl OverflowError | Some x \<Rightarrow> Inr (checked x))
      | Some (JFloat x) \<Rightarrow> Inr (checked x)
      | Some (JStr t) \<Rightarrow>
          (case float_of_text t of
             None \<Rightarrow> Inr (None, True)
           | Some None \<Rightarrow> Inr (None, True)
           | Some (Some x) \<Rightarrow> Inr (checked x))
      | Some _ \<Rightarrow> Inr (None, True))"

end
