(* ===== verification/Revision_Chain.thy ===== *)
theory Revision_Chain
  imports Axis_Prelude
begin

text \<open>
  Append-only revision histories. A governed document (a platform policy, a connector manifest) is
  never edited: revising it closes the newest revision and appends a new one. The theory states what
  such a history looks like and, as a locale over the columns involved, that the two writes of a
  revision keep it so.
\<close>

text \<open>Oldest first, numbered from \<open>n\<close> without gaps; every revision but the newest is closed and names
  its successor, and the newest is open.\<close>

fun chain_from ::
  "('r \<Rightarrow> int) \<Rightarrow> ('r \<Rightarrow> bool) \<Rightarrow> ('r \<Rightarrow> int option) \<Rightarrow> int \<Rightarrow> 'r list \<Rightarrow> bool"
where
  "chain_from number is_open successor n [] = True"
| "chain_from number is_open successor n [r] = (number r = n \<and> is_open r \<and> successor r = None)"
| "chain_from number is_open successor n (r # r' # rs) =
     (number r = n \<and> \<not> is_open r \<and> successor r = Some (n + 1) \<and>
      chain_from number is_open successor (n + 1) (r' # rs))"

locale revision_chain =
  fixes number :: "'r \<Rightarrow> int"
    and is_open :: "'r \<Rightarrow> bool"
    and successor :: "'r \<Rightarrow> int option"
    and close :: "int \<Rightarrow> 'r \<Rightarrow> 'r"
  assumes number_close: "number (close m r) = number r"
    and not_open_close: "\<not> is_open (close m r)"
    and successor_close: "successor (close m r) = Some m"
begin

lemma chain_numbers:
  "chain_from number is_open successor n rs \<Longrightarrow> map number rs = map (\<lambda>i. n + int i) [0..<length rs]"
proof (induction number is_open successor n rs rule: chain_from.induct)
  case (3 number is_open successor n r r' rs)
  then have "map number (r' # rs) = map (\<lambda>i. n + 1 + int i) [0..<length (r' # rs)]" by simp
  also have "\<dots> = map (\<lambda>i. n + int i) (map Suc [0..<length (r' # rs)])"
    by simp
  also have "map Suc [0..<length (r' # rs)] = [1..<Suc (length (r' # rs))]"
    by (simp add: map_Suc_upt)
  finally show ?case using 3 by (simp add: upt_conv_Cons del: upt_Suc)
qed simp_all

lemma chain_distinct: "chain_from number is_open successor n rs \<Longrightarrow> distinct (map number rs)"
  by (simp add: chain_numbers distinct_map inj_on_def)

lemma chain_last_greatest:
  assumes "chain_from number is_open successor n rs" "r \<in> set rs"
  shows "number r \<le> number (last rs)"
proof -
  have nums: "number (rs ! j) = n + int j" if "j < length rs" for j
    using that chain_numbers [OF assms(1)] by (metis (no_types, lifting) add_0 length_map nth_map nth_upt)
  from assms(2) obtain i where i: "i < length rs" "r = rs ! i" by (auto simp: in_set_conv_nth)
  then have "last rs = rs ! (length rs - 1)" by (intro last_conv_nth) auto
  with i nums [of i] nums [of "length rs - 1"] show ?thesis by auto
qed

lemma chain_last_open:
  "chain_from number is_open successor n rs \<Longrightarrow> rs \<noteq> [] \<Longrightarrow> is_open (last rs) \<and> successor (last rs) = None"
proof (induction rs arbitrary: n)
  case (Cons x xs)
  then show ?case by (cases xs) auto
qed simp

lemma chain_open_iff_last:
  "chain_from number is_open successor n rs \<Longrightarrow> r \<in> set rs \<Longrightarrow> is_open r \<longleftrightarrow> r = last rs"
proof (induction rs arbitrary: n)
  case (Cons x xs)
  show ?case
  proof (cases xs)
    case Nil
    with Cons show ?thesis by simp
  next
    case (Cons y ys)
    with Cons.prems have x: "\<not> is_open x" and rest: "chain_from number is_open successor (n + 1) xs"
      by auto
    moreover from rest Cons have "is_open (last xs)" using chain_last_open [of "n + 1" xs] by simp
    ultimately show ?thesis using Cons.prems Cons.IH [OF rest] Cons by auto
  qed
qed simp

lemma chain_open_filter:
  "chain_from number is_open successor n rs \<Longrightarrow> rs \<noteq> [] \<Longrightarrow> select_where is_open rs = [last rs]"
proof (induction rs arbitrary: n)
  case (Cons x xs)
  then show ?case by (cases xs) (auto simp: select_where_def)
qed simp

text \<open>The two writes of a revision: the newest revision is closed with the new number and the new
  revision is appended.\<close>

lemma chain_append:
  "chain_from number is_open successor n (rs @ [r]) \<Longrightarrow> number r' = number r + 1 \<Longrightarrow>
   is_open r' \<Longrightarrow> successor r' = None \<Longrightarrow>
   chain_from number is_open successor n (rs @ [close (number r') r, r'])"
proof (induction rs arbitrary: n)
  case Nil
  then show ?case by (simp add: number_close not_open_close successor_close)
next
  case (Cons x xs)
  then show ?case by (cases xs) (auto simp: number_close not_open_close successor_close)
qed

end

end
