(* ===== verification/Platform_Policies.thy ===== *)
theory Platform_Policies
  imports Store Revision_Chain
begin

text \<open>
  Platform policies (\<^verbatim>\<open>axis_api/platform_policies.py\<close> and the policy methods of
  \<^verbatim>\<open>axis_api/persistence.py\<close>): typed rule conditions and their validation, the append-only revisions of a
  policy, the deterministic evaluation of the active policies of a scope, and the enforcement point
  that turns a deny into an exception with an audit event behind it. The structural decoding of a
  JSON object into the fields of \<^verbatim>\<open>PlatformPolicyRuleConditions\<close> is done by pydantic and is the parameter
  \<open>decode\<close>; the validators of the class are modelled.
\<close>

section \<open>Data\<close>

datatype policy_scope = ACTION_EXECUTION | APPROVAL_REQUIREMENT | MODEL_INVOCATION | AGENT_RUN

fun scope_value :: "policy_scope \<Rightarrow> string" where
  "scope_value ACTION_EXECUTION = ''action_execution''"
| "scope_value APPROVAL_REQUIREMENT = ''approval_requirement''"
| "scope_value MODEL_INVOCATION = ''model_invocation''"
| "scope_value AGENT_RUN = ''agent_run''"

text \<open>\<^verbatim>\<open>PlatformPolicyScope(value)\<close>, \<open>None\<close> where the constructor raises.\<close>

definition scope_of :: "string \<Rightarrow> policy_scope option" where
  "scope_of v =
     find (\<lambda>sc. scope_value sc = v) [ACTION_EXECUTION, APPROVAL_REQUIREMENT, MODEL_INVOCATION, AGENT_RUN]"

datatype policy_effect = REQUIRE_APPROVAL | DENY | ALLOW_WITH_EVIDENCE

fun effect_value :: "policy_effect \<Rightarrow> string" where
  "effect_value REQUIRE_APPROVAL = ''require_approval''"
| "effect_value DENY = ''deny''"
| "effect_value ALLOW_WITH_EVIDENCE = ''allow_with_evidence''"

definition effect_of :: "string \<Rightarrow> policy_effect option" where
  "effect_of v = find (\<lambda>e. effect_value e = v) [REQUIRE_APPROVAL, DENY, ALLOW_WITH_EVIDENCE]"

definition REQUIRED_AUTHORING_SCOPE :: string where
  "REQUIRED_AUTHORING_SCOPE = ''platform:policy:author''"

definition REQUIRED_REVISE_SCOPE :: string where
  "REQUIRED_REVISE_SCOPE = ''platform:policy:revise''"

definition REQUIRED_EVALUATE_SCOPE :: string where
  "REQUIRED_EVALUATE_SCOPE = ''platform:policy:evaluate''"

definition AUTHORED_AUDIT_EVENT_TYPE :: string where
  "AUTHORED_AUDIT_EVENT_TYPE = ''platform.policy.authored''"

definition REVISED_AUDIT_EVENT_TYPE :: string where
  "REVISED_AUDIT_EVENT_TYPE = ''platform.policy.revised''"

definition ENFORCEMENT_DENIED_AUDIT_EVENT_TYPE :: string where
  "ENFORCEMENT_DENIED_AUDIT_EVENT_TYPE = ''platform.policy.enforcement.denied''"

definition SUPPORTED_AUTONOMY_LEVELS :: "string list" where
  "SUPPORTED_AUTONOMY_LEVELS = [''L0'', ''L1'', ''L2'', ''L3'', ''L4'']"

text \<open>The values of \<^verbatim>\<open>ActionRiskLevel\<close>.\<close>

definition SUPPORTED_RISK_LEVELS :: "string list" where
  "SUPPORTED_RISK_LEVELS = [''low'', ''medium'', ''high'', ''critical'']"

definition DEFAULT_ALLOW_EFFECT :: string where
  "DEFAULT_ALLOW_EFFECT = ''allow''"

definition PRECEDENCE_RULE :: string where
  "PRECEDENCE_RULE = ''effect_severity_then_policy_id''"

fun effect_precedence :: "policy_effect \<Rightarrow> int" where
  "effect_precedence DENY = 0"
| "effect_precedence REQUIRE_APPROVAL = 1"
| "effect_precedence ALLOW_WITH_EVIDENCE = 2"

record policy_context =
  px_action_id :: "string option"
  px_action_domain :: "string option"
  px_risk_level :: "string option"
  px_autonomy_level :: "string option"
  px_requested_amount :: "pyfloat option"
  px_requested_amount_malformed :: bool

definition policy_context_dump :: "policy_context \<Rightarrow> json" where
  "policy_context_dump c = JObj
     [(''action_id'', jopt JStr (px_action_id c)), (''action_domain'', jopt JStr (px_action_domain c)),
      (''risk_level'', jopt JStr (px_risk_level c)), (''autonomy_level'', jopt JStr (px_autonomy_level c)),
      (''requested_amount'', jopt JFloat (px_requested_amount c)),
      (''requested_amount_malformed'', JBool (px_requested_amount_malformed c))]"

definition rule_conditions_dump :: "rule_conditions \<Rightarrow> json" where
  "rule_conditions_dump c = JObj
     [(''action_domains'', jstrs (rc_action_domains c)), (''risk_levels'', jstrs (rc_risk_levels c)),
      (''autonomy_levels'', jstrs (rc_autonomy_levels c)),
      (''requested_amount_at_least'', jopt JFloat (rc_requested_amount_at_least c))]"

record policy_create_request =
  cq_tenant_id :: string
  cq_policy_id :: string
  cq_policy_version :: string
  cq_display_name :: string
  cq_description :: string
  cq_scope :: policy_scope
  cq_effect :: policy_effect
  cq_conditions :: json
  cq_created_by :: string
  cq_actor_scopes :: "string list"
  cq_notes :: "string list"

record policy_revise_request =
  rq_tenant_id :: string
  rq_policy_id :: string
  rq_policy_version :: string
  rq_display_name :: string
  rq_description :: string
  rq_effect :: policy_effect
  rq_conditions :: json
  rq_updated_by :: string
  rq_actor_scopes :: "string list"
  rq_idempotency_key :: string
  rq_notes :: "string list"

record policy_record =
  pv_tenant_id :: string
  pv_policy_id :: string
  pv_revision_number :: int
  pv_policy_version :: string
  pv_display_name :: string
  pv_description :: string
  pv_scope :: policy_scope
  pv_effect :: policy_effect
  pv_conditions :: rule_conditions
  pv_status :: string
  pv_created_by :: string
  pv_required_authoring_scope :: string
  pv_permission_decision :: permission_decision
  pv_audit_event_id :: "uuid option"
  pv_audit_event_type :: string
  pv_revises_revision_number :: "int option"
  pv_replaced_by_revision_number :: "int option"
  pv_revision_idempotency_key :: "string option"
  pv_idempotent_replay :: bool
  pv_notes :: "string list"
  pv_created_at :: timestamp

record policy_detail =
  dt_tenant_id :: string
  dt_policy_id :: string
  dt_current_revision :: policy_record
  dt_revisions :: "policy_record list"

record policy_registry =
  rg_tenant_id :: string
  rg_policy_count :: nat
  rg_active_policy_count :: nat
  rg_policies :: "policy_record list"
  rg_policy_notes :: "string list"

record policy_match =
  pm_policy_id :: string
  pm_revision_number :: int
  pm_policy_version :: string
  pm_effect :: policy_effect
  pm_matched_constraints :: dict

record policy_decision =
  pd_tenant_id :: string
  pd_scope :: policy_scope
  pd_effect :: string
  pd_matched :: bool
  pd_matched_policy_id :: "string option"
  pd_matched_revision_number :: "int option"
  pd_matched_policy_version :: "string option"
  pd_evaluated_policy_count :: nat
  pd_matched_policies :: "policy_match list"
  pd_precedence_rule :: string
  pd_evidence :: dict

definition policy_match_dump :: "policy_match \<Rightarrow> json" where
  "policy_match_dump m = JObj
     [(''policy_id'', JStr (pm_policy_id m)), (''revision_number'', JInt (pm_revision_number m)),
      (''policy_version'', JStr (pm_policy_version m)), (''effect'', JStr (effect_value (pm_effect m))),
      (''matched_constraints'', JObj (pm_matched_constraints m))]"

definition policy_decision_dump :: "policy_decision \<Rightarrow> json" where
  "policy_decision_dump d = JObj
     [(''tenant_id'', JStr (pd_tenant_id d)), (''scope'', JStr (scope_value (pd_scope d))),
      (''effect'', JStr (pd_effect d)), (''matched'', JBool (pd_matched d)),
      (''matched_policy_id'', jopt JStr (pd_matched_policy_id d)),
      (''matched_revision_number'', jopt JInt (pd_matched_revision_number d)),
      (''matched_policy_version'', jopt JStr (pd_matched_policy_version d)),
      (''evaluated_policy_count'', JInt (int (pd_evaluated_policy_count d))),
      (''matched_policies'', JList (map policy_match_dump (pd_matched_policies d))),
      (''precedence_rule'', JStr (pd_precedence_rule d)), (''evidence'', JObj (pd_evidence d))]"

datatype policy_error =
    PlatformPolicyValidationError string string
  | PlatformPolicyPermissionDenied string permission_decision
  | PlatformPolicyConflict string
  | PlatformPolicyRevisionConflict string string
  | PlatformPolicyNotFound
  | PlatformPolicyEnforcementDenied policy_decision uuid string
  | StoredPolicyInvalid

section \<open>Validation of rule conditions\<close>

text \<open>\<^verbatim>\<open>ge=0\<close> on the amount, then the three field validators and the model validator.\<close>

definition rule_conditions_valid :: "rule_conditions \<Rightarrow> bool" where
  "rule_conditions_valid c \<longleftrightarrow>
     (case rc_requested_amount_at_least c of None \<Rightarrow> True | Some a \<Rightarrow> 0 \<le> a)
     \<and> list_all (\<lambda>d. d \<noteq> [] \<and> d = strip d) (rc_action_domains c)
     \<and> list_all (\<lambda>r. r \<in> set SUPPORTED_RISK_LEVELS) (rc_risk_levels c)
     \<and> list_all (\<lambda>l. l \<in> set SUPPORTED_AUTONOMY_LEVELS) (rc_autonomy_levels c)
     \<and> \<not> (rc_action_domains c = [] \<and> rc_risk_levels c = [] \<and> rc_autonomy_levels c = []
          \<and> rc_requested_amount_at_least c = None)"

definition validate_rule_conditions ::
  "(json \<Rightarrow> rule_conditions option) \<Rightarrow> json \<Rightarrow> policy_error + rule_conditions"
where
  "validate_rule_conditions decode conditions =
     (case decode conditions of
        None \<Rightarrow> Inl (PlatformPolicyValidationError ''Platform policy rule conditions are malformed.''
             ''invalid_rule_conditions'')
      | Some c \<Rightarrow>
          if rule_conditions_valid c then Inr c
          else Inl (PlatformPolicyValidationError ''Platform policy rule conditions are malformed.''
             ''invalid_rule_conditions''))"

section \<open>The policy table\<close>

text \<open>\<^verbatim>\<open>create_platform_policy\<close>: the columns that the caller leaves to the database are overwritten.\<close>

definition create_platform_policy :: "platform_policy \<Rightarrow> (db, 'e, platform_policy) op" where
  "create_platform_policy new =
     bind_op uuid4 (\<lambda>new_id.
     bind_op utc_now (\<lambda>created.
     bind_op utc_now (\<lambda>updated.
       let policy = new\<lparr>pp_id := new_id, pp_created_at := created, pp_updated_at := updated\<rparr>
       in bind_op (put_op (\<lambda>s. s\<lparr>platform_policies := platform_policies s @ [policy]\<rparr>)) (\<lambda>_.
          return_op policy))))"

definition policy_rows :: "string \<Rightarrow> string \<Rightarrow> db \<Rightarrow> platform_policy list" where
  "policy_rows tenant_id policy_id s =
     select_where (\<lambda>p. pp_tenant_id p = tenant_id \<and> pp_policy_id p = policy_id) (platform_policies s)"

definition get_platform_policy :: "string \<Rightarrow> string \<Rightarrow> db \<Rightarrow> platform_policy option" where
  "get_platform_policy tenant_id policy_id s =
     first_row (sort_key (\<lambda>p. - pp_revision_number p) (policy_rows tenant_id policy_id s))"

definition get_platform_policy_by_revision_idempotency_key ::
  "string \<Rightarrow> string \<Rightarrow> db \<Rightarrow> platform_policy option"
where
  "get_platform_policy_by_revision_idempotency_key tenant_id idempotency_key s =
     first_row (select_where (\<lambda>p. pp_tenant_id p = tenant_id
        \<and> pp_revision_idempotency_key p = Some idempotency_key) (platform_policies s))"

definition supersede :: "int \<Rightarrow> timestamp \<Rightarrow> platform_policy \<Rightarrow> platform_policy" where
  "supersede new_revision now p =
     p\<lparr>pp_status := ''superseded'', pp_replaced_by_revision_number := Some new_revision,
       pp_updated_at := now\<rparr>"

definition append_platform_policy_revision ::
  "platform_policy \<Rightarrow> platform_policy \<Rightarrow> (db, 'e, platform_policy) op"
where
  "append_platform_policy_revision current_policy new =
     bind_op utc_now (\<lambda>now.
     bind_op (put_op (\<lambda>s. s\<lparr>platform_policies :=
         update_where (\<lambda>p. pp_id p = pp_id current_policy)
           (supersede (pp_revision_number new) now) (platform_policies s)\<rparr>)) (\<lambda>_.
     create_platform_policy new))"

definition list_platform_policies ::
  "string \<Rightarrow> string option \<Rightarrow> string option \<Rightarrow> nat \<Rightarrow> db \<Rightarrow> platform_policy list"
where
  "list_platform_policies tenant_id scope status limit s =
     take limit (sort_key (\<lambda>p. (pp_policy_id p, - pp_revision_number p))
       (select_where (\<lambda>p. pp_tenant_id p = tenant_id
          \<and> (case scope of None \<Rightarrow> True | Some sc \<Rightarrow> pp_scope p = sc)
          \<and> (case status of None \<Rightarrow> True | Some st \<Rightarrow> pp_status p = st)) (platform_policies s)))"

definition list_platform_policy_revisions :: "string \<Rightarrow> string \<Rightarrow> db \<Rightarrow> platform_policy list" where
  "list_platform_policy_revisions tenant_id policy_id s =
     sort_key pp_revision_number (policy_rows tenant_id policy_id s)"

definition list_active_platform_policies_for_scope :: "string \<Rightarrow> string \<Rightarrow> db \<Rightarrow> platform_policy list" where
  "list_active_platform_policies_for_scope tenant_id scope s =
     sort_key (\<lambda>p. (pp_policy_id p, - pp_revision_number p))
       (select_where (\<lambda>p. pp_tenant_id p = tenant_id \<and> pp_scope p = scope \<and> pp_status p = ''active'')
          (platform_policies s))"

section \<open>Reading a row back\<close>

definition policy_from_record :: "platform_policy \<Rightarrow> bool \<Rightarrow> policy_error + policy_record" where
  "policy_from_record p idempotent_replay =
     (case (scope_of (pp_scope p), effect_of (pp_effect p)) of
        (Some sc, Some ef) \<Rightarrow>
          if rule_conditions_valid (pp_conditions p)
          then Inr \<lparr>pv_tenant_id = pp_tenant_id p, pv_policy_id = pp_policy_id p,
            pv_revision_number = pp_revision_number p, pv_policy_version = pp_policy_version p,
            pv_display_name = pp_display_name p, pv_description = pp_description p,
            pv_scope = sc, pv_effect = ef, pv_conditions = pp_conditions p, pv_status = pp_status p,
            pv_created_by = pp_created_by p,
            pv_required_authoring_scope = pp_required_authoring_scope p,
            pv_permission_decision = pp_permission_decision p,
            pv_audit_event_id = pp_audit_event_id p, pv_audit_event_type = pp_audit_event_type p,
            pv_revises_revision_number = pp_revises_revision_number p,
            pv_replaced_by_revision_number = pp_replaced_by_revision_number p,
            pv_revision_idempotency_key = pp_revision_idempotency_key p,
            pv_idempotent_replay = idempotent_replay, pv_notes = pp_notes p,
            pv_created_at = pp_created_at p\<rparr>
          else Inl StoredPolicyInvalid
      | _ \<Rightarrow> Inl StoredPolicyInvalid)"

fun policies_from_records :: "platform_policy list \<Rightarrow> policy_error + policy_record list" where
  "policies_from_records [] = Inr []"
| "policies_from_records (p # ps) =
     (case policy_from_record p False of
        Inl e \<Rightarrow> Inl e
      | Inr v \<Rightarrow> (case policies_from_records ps of Inl e \<Rightarrow> Inl e | Inr vs \<Rightarrow> Inr (v # vs)))"

section \<open>Permissions of the policy surface\<close>

definition evaluate_policy_permission ::
  "string \<Rightarrow> string \<Rightarrow> string list \<Rightarrow> string \<Rightarrow> dict \<Rightarrow> policy_error + permission_decision"
where
  "evaluate_policy_permission tenant_id actor_id actor_scopes required attributes =
     (let decision = evaluate_permission
            \<lparr>pq_tenant_id = tenant_id, pq_actor_id = actor_id, pq_actor_scopes = actor_scopes,
             pq_required_scopes = [required], pq_relationship_scopes = [], pq_attributes = attributes\<rparr>
      in if allowed decision then Inr decision
         else Inl (PlatformPolicyPermissionDenied required decision))"

definition evaluate_authoring_permission :: "policy_create_request \<Rightarrow> policy_error + permission_decision" where
  "evaluate_authoring_permission request =
     evaluate_policy_permission (cq_tenant_id request) (cq_created_by request) (cq_actor_scopes request)
       REQUIRED_AUTHORING_SCOPE
       [(''policy_id'', JStr (cq_policy_id request)), (''scope'', JStr (scope_value (cq_scope request))),
        (''effect'', JStr (effect_value (cq_effect request)))]"

definition evaluate_revision_permission :: "policy_revise_request \<Rightarrow> policy_error + permission_decision" where
  "evaluate_revision_permission request =
     evaluate_policy_permission (rq_tenant_id request) (rq_updated_by request) (rq_actor_scopes request)
       REQUIRED_REVISE_SCOPE
       [(''policy_id'', JStr (rq_policy_id request)),
        (''effect'', JStr (effect_value (rq_effect request))),
        (''idempotency_key'', JStr (rq_idempotency_key request))]"

record policy_evaluation_request =
  eq_tenant_id :: string
  eq_actor_id :: string
  eq_actor_scopes :: "string list"
  eq_scope :: policy_scope
  eq_context :: policy_context

definition evaluate_evaluation_permission :: "policy_evaluation_request \<Rightarrow> policy_error + permission_decision" where
  "evaluate_evaluation_permission request =
     evaluate_policy_permission (eq_tenant_id request) (eq_actor_id request) (eq_actor_scopes request)
       REQUIRED_EVALUATE_SCOPE
       [(''scope'', JStr (scope_value (eq_scope request))),
        (''operation'', JStr ''evaluate_platform_policies'')]"

section \<open>Authoring and revising\<close>

definition build_platform_policy_registry ::
  "string \<Rightarrow> policy_scope option \<Rightarrow> string option \<Rightarrow> nat \<Rightarrow> db \<Rightarrow> policy_error + policy_registry"
where
  "build_platform_policy_registry tenant_id scope status limit s =
     (case policies_from_records
             (list_platform_policies tenant_id (map_option scope_value scope) status limit s) of
        Inl e \<Rightarrow> Inl e
      | Inr policies \<Rightarrow> Inr
          \<lparr>rg_tenant_id = tenant_id, rg_policy_count = length policies,
           rg_active_policy_count = length (filter (\<lambda>p. pv_status p = ''active'') policies),
           rg_policies = policies,
           rg_policy_notes =
             [''Platform policies govern action execution and approval requirements per tenant.'',
              ''Policy revisions are append-only and idempotent; superseded revisions stay readable.'',
              ''Policy evaluation is deterministic and never calls a model provider or external system.'',
              ''Deny decisions take precedence over approval requirements and evidence-only allowances.'']\<rparr>)"

text \<open>The audit event and the row that authoring writes.\<close>

definition authored_event ::
  "policy_create_request \<Rightarrow> rule_conditions \<Rightarrow> permission_decision \<Rightarrow> audit_event_create"
where
  "authored_event request conditions permission_decision =
         \<lparr>ac_event_tenant_id = cq_tenant_id request, ac_event_actor_id = cq_created_by request,
          ac_event_type = AUTHORED_AUDIT_EVENT_TYPE,
          ac_event_payload =
            [(''policy_id'', JStr (cq_policy_id request)),
             (''policy_version'', JStr (cq_policy_version request)),
             (''revision_number'', JInt 1),
             (''display_name'', JStr (cq_display_name request)),
             (''scope'', JStr (scope_value (cq_scope request))),
             (''effect'', JStr (effect_value (cq_effect request))),
             (''conditions'', rule_conditions_dump conditions),
             (''status'', JStr ''active''),
             (''required_authoring_scope'', JStr REQUIRED_AUTHORING_SCOPE),
             (''permission_decision'', permission_decision_dump permission_decision)]\<rparr>"

definition authored_policy ::
  "policy_create_request \<Rightarrow> rule_conditions \<Rightarrow> permission_decision \<Rightarrow> audit_event \<Rightarrow> platform_policy"
where
  "authored_policy request conditions permission_decision audit_event =
         \<lparr>pp_id = 0, pp_tenant_id = cq_tenant_id request, pp_policy_id = cq_policy_id request,
          pp_revision_number = 1, pp_policy_version = cq_policy_version request,
          pp_display_name = cq_display_name request, pp_description = cq_description request,
          pp_scope = scope_value (cq_scope request), pp_effect = effect_value (cq_effect request),
          pp_conditions = conditions, pp_status = ''active'', pp_created_by = cq_created_by request,
          pp_required_authoring_scope = REQUIRED_AUTHORING_SCOPE,
          pp_permission_decision = permission_decision,
          pp_audit_event_id = Some (ae_id audit_event),
          pp_audit_event_type = ae_event_type audit_event,
          pp_revises_revision_number = None, pp_replaced_by_revision_number = None,
          pp_revision_idempotency_key = None, pp_notes = cq_notes request,
          pp_created_at = 0, pp_updated_at = 0\<rparr>"

definition record_platform_policy ::
  "(json \<Rightarrow> rule_conditions option) \<Rightarrow> policy_create_request \<Rightarrow> (db, policy_error, policy_record) op"
where
  "record_platform_policy decode request =
     bind_op (of_result (validate_rule_conditions decode (cq_conditions request))) (\<lambda>conditions.
     bind_op (get_op (get_platform_policy (cq_tenant_id request) (cq_policy_id request))) (\<lambda>existing.
     case existing of
       Some p \<Rightarrow> raise_op (PlatformPolicyConflict (pp_policy_id p))
     | None \<Rightarrow>
     bind_op (of_result (evaluate_authoring_permission request)) (\<lambda>permission_decision.
     bind_op (append_audit_event (authored_event request conditions permission_decision)) (\<lambda>audit_event.
     bind_op (create_platform_policy
         (authored_policy request conditions permission_decision audit_event)) (\<lambda>policy.
     of_result (policy_from_record policy False))))))"

definition revision_matches_request ::
  "platform_policy \<Rightarrow> policy_revise_request \<Rightarrow> rule_conditions \<Rightarrow> bool"
where
  "revision_matches_request p request conditions \<longleftrightarrow>
     pp_policy_version p = rq_policy_version request
     \<and> pp_display_name p = rq_display_name request
     \<and> pp_description p = rq_description request
     \<and> pp_effect p = effect_value (rq_effect request)
     \<and> pp_conditions p = conditions
     \<and> pp_notes p = rq_notes request"

text \<open>The audit event and the row that a revision writes.\<close>

definition revised_event ::
  "platform_policy \<Rightarrow> policy_revise_request \<Rightarrow> rule_conditions \<Rightarrow> permission_decision \<Rightarrow> audit_event_create"
where
  "revised_event current_policy request conditions permission_decision =
     (let revision_number = pp_revision_number current_policy + 1 in
         \<lparr>ac_event_tenant_id = rq_tenant_id request, ac_event_actor_id = rq_updated_by request,
          ac_event_type = REVISED_AUDIT_EVENT_TYPE,
          ac_event_payload =
            [(''policy_id'', JStr (rq_policy_id request)),
             (''policy_version'', JStr (rq_policy_version request)),
             (''previous_policy_version'', JStr (pp_policy_version current_policy)),
             (''revision_number'', JInt revision_number),
             (''revises_revision_number'', JInt (pp_revision_number current_policy)),
             (''display_name'', JStr (rq_display_name request)),
             (''scope'', JStr (pp_scope current_policy)),
             (''effect'', JStr (effect_value (rq_effect request))),
             (''conditions'', rule_conditions_dump conditions),
             (''status'', JStr ''active''),
             (''idempotency_key'', JStr (rq_idempotency_key request)),
             (''required_revision_scope'', JStr REQUIRED_REVISE_SCOPE),
             (''permission_decision'', permission_decision_dump permission_decision)]\<rparr>)"

definition revised_policy ::
  "platform_policy \<Rightarrow> policy_revise_request \<Rightarrow> rule_conditions \<Rightarrow> permission_decision \<Rightarrow>
   audit_event \<Rightarrow> platform_policy"
where
  "revised_policy current_policy request conditions permission_decision audit_event =
     (let revision_number = pp_revision_number current_policy + 1 in
         \<lparr>pp_id = 0, pp_tenant_id = rq_tenant_id request, pp_policy_id = rq_policy_id request,
          pp_revision_number = revision_number, pp_policy_version = rq_policy_version request,
          pp_display_name = rq_display_name request, pp_description = rq_description request,
          pp_scope = pp_scope current_policy, pp_effect = effect_value (rq_effect request),
          pp_conditions = conditions, pp_status = ''active'', pp_created_by = rq_updated_by request,
          pp_required_authoring_scope = REQUIRED_REVISE_SCOPE,
          pp_permission_decision = permission_decision,
          pp_audit_event_id = Some (ae_id audit_event),
          pp_audit_event_type = ae_event_type audit_event,
          pp_revises_revision_number = Some (pp_revision_number current_policy),
          pp_replaced_by_revision_number = None,
          pp_revision_idempotency_key = Some (rq_idempotency_key request),
          pp_notes = rq_notes request, pp_created_at = 0, pp_updated_at = 0\<rparr>)"

definition revise_platform_policy ::
  "(json \<Rightarrow> rule_conditions option) \<Rightarrow> policy_revise_request \<Rightarrow> (db, policy_error, policy_record) op"
where
  "revise_platform_policy decode request =
     bind_op (of_result (validate_rule_conditions decode (rq_conditions request))) (\<lambda>conditions.
     bind_op (get_op (get_platform_policy_by_revision_idempotency_key
         (rq_tenant_id request) (rq_idempotency_key request))) (\<lambda>existing_replay.
     case existing_replay of
       Some p \<Rightarrow>
         if pp_policy_id p \<noteq> rq_policy_id request
            \<or> \<not> revision_matches_request p request conditions
         then raise_op (PlatformPolicyRevisionConflict (rq_policy_id request) (rq_idempotency_key request))
         else of_result (policy_from_record p True)
     | None \<Rightarrow>
     bind_op (get_op (get_platform_policy (rq_tenant_id request) (rq_policy_id request))) (\<lambda>found.
     case found of
       None \<Rightarrow> raise_op PlatformPolicyNotFound
     | Some current_policy \<Rightarrow>
     bind_op (of_result (evaluate_revision_permission request)) (\<lambda>permission_decision.
     bind_op (append_audit_event
         (revised_event current_policy request conditions permission_decision)) (\<lambda>audit_event.
     bind_op (append_platform_policy_revision current_policy
         (revised_policy current_policy request conditions permission_decision audit_event)) (\<lambda>revised_policy.
     of_result (policy_from_record revised_policy False)))))))"

definition get_platform_policy_detail :: "string \<Rightarrow> string \<Rightarrow> db \<Rightarrow> policy_error + policy_detail" where
  "get_platform_policy_detail tenant_id policy_id s =
     (let revisions = list_platform_policy_revisions tenant_id policy_id s
      in if revisions = [] then Inl PlatformPolicyNotFound
         else (case policies_from_records revisions of
                 Inl e \<Rightarrow> Inl e
               | Inr records \<Rightarrow> Inr
                   \<lparr>dt_tenant_id = tenant_id, dt_policy_id = policy_id,
                    dt_current_revision =
                      (case find (\<lambda>r. pv_status r = ''active'') (rev records) of
                         Some r \<Rightarrow> r | None \<Rightarrow> last records),
                    dt_revisions = records\<rparr>))"

section \<open>Evaluation and enforcement\<close>

text \<open>\<^verbatim>\<open>_conditions_match\<close>: \<open>None\<close> for the \<^verbatim>\<open>(False, {})\<close> of the code, otherwise the matched constraints,
  collected one condition after the other.\<close>

definition match_member ::
  "string \<Rightarrow> string list \<Rightarrow> string option \<Rightarrow> dict \<Rightarrow> dict option"
where
  "match_member key options v acc =
     (if options = [] then Some acc
      else case v of
             None \<Rightarrow> None
           | Some x \<Rightarrow> if x \<in> set options then Some (dset key (JStr x) acc) else None)"

definition match_amount :: "pyfloat option \<Rightarrow> policy_context \<Rightarrow> dict \<Rightarrow> dict option" where
  "match_amount threshold context acc =
     (case threshold of
        None \<Rightarrow> Some acc
      | Some a \<Rightarrow>
          if px_requested_amount_malformed context
          then Some (dset ''requested_amount_at_least'' (JFloat a)
                 (dset ''requested_amount_malformed'' (JBool True) acc))
          else (case px_requested_amount context of
                  None \<Rightarrow> None
                | Some x \<Rightarrow>
                    if x < a then None
                    else Some (dset ''requested_amount_at_least'' (JFloat a)
                           (dset ''requested_amount'' (JFloat x) acc))))"

definition conditions_match :: "rule_conditions \<Rightarrow> policy_context \<Rightarrow> dict option" where
  "conditions_match conditions context =
     Option.bind (match_member ''action_domain'' (rc_action_domains conditions) (px_action_domain context) []) (\<lambda>acc.
     Option.bind (match_member ''risk_level'' (rc_risk_levels conditions) (px_risk_level context) acc) (\<lambda>acc.
     Option.bind (match_member ''autonomy_level'' (rc_autonomy_levels conditions) (px_autonomy_level context) acc) (\<lambda>acc.
     match_amount (rc_requested_amount_at_least conditions) context acc)))"

fun policy_matches :: "policy_context \<Rightarrow> platform_policy list \<Rightarrow> policy_error + policy_match list" where
  "policy_matches context [] = Inr []"
| "policy_matches context (policy # rest) =
     (if \<not> rule_conditions_valid (pp_conditions policy) then Inl StoredPolicyInvalid
      else case conditions_match (pp_conditions policy) context of
             None \<Rightarrow> policy_matches context rest
           | Some matched_constraints \<Rightarrow>
               (case effect_of (pp_effect policy) of
                  None \<Rightarrow> Inl StoredPolicyInvalid
                | Some effect \<Rightarrow>
                    (case policy_matches context rest of
                       Inl e \<Rightarrow> Inl e
                     | Inr matches \<Rightarrow> Inr
                         (\<lparr>pm_policy_id = pp_policy_id policy,
                           pm_revision_number = pp_revision_number policy,
                           pm_policy_version = pp_policy_version policy, pm_effect = effect,
                           pm_matched_constraints = matched_constraints\<rparr> # matches))))"

definition match_key :: "policy_match \<Rightarrow> int \<times> string \<times> int" where
  "match_key m = (effect_precedence (pm_effect m), pm_policy_id m, - pm_revision_number m)"

definition evaluate_platform_policies ::
  "string \<Rightarrow> policy_scope \<Rightarrow> policy_context \<Rightarrow> db \<Rightarrow> policy_error + policy_decision"
where
  "evaluate_platform_policies tenant_id scope context s =
     (let policies = list_active_platform_policies_for_scope tenant_id (scope_value scope) s
      in case policy_matches context policies of
           Inl e \<Rightarrow> Inl e
         | Inr unsorted \<Rightarrow>
             (let matches = sort_key match_key unsorted; winning = first_row matches
              in Inr \<lparr>pd_tenant_id = tenant_id, pd_scope = scope,
                   pd_effect = (case winning of Some w \<Rightarrow> effect_value (pm_effect w) | None \<Rightarrow> DEFAULT_ALLOW_EFFECT),
                   pd_matched = (winning \<noteq> None),
                   pd_matched_policy_id = map_option pm_policy_id winning,
                   pd_matched_revision_number = map_option pm_revision_number winning,
                   pd_matched_policy_version = map_option pm_policy_version winning,
                   pd_evaluated_policy_count = length policies,
                   pd_matched_policies = matches,
                   pd_precedence_rule = PRECEDENCE_RULE,
                   pd_evidence =
                     [(''context'', policy_context_dump context),
                      (''matched_constraints'',
                         JObj (case winning of Some w \<Rightarrow> pm_matched_constraints w | None \<Rightarrow> [])),
                      (''default_effect'', JStr DEFAULT_ALLOW_EFFECT)]\<rparr>))"

definition evaluate_platform_policy_request ::
  "policy_evaluation_request \<Rightarrow> db \<Rightarrow> policy_error + policy_decision"
where
  "evaluate_platform_policy_request request s =
     (case evaluate_evaluation_permission request of
        Inl e \<Rightarrow> Inl e
      | Inr _ \<Rightarrow> evaluate_platform_policies (eq_tenant_id request) (eq_scope request) (eq_context request) s)"

definition fail_closed_deny_decision ::
  "string \<Rightarrow> policy_scope \<Rightarrow> policy_context \<Rightarrow> nat \<Rightarrow> db \<Rightarrow> policy_decision option"
where
  "fail_closed_deny_decision tenant_id scope context evaluated_policy_count s =
     (let deny_policies = filter (\<lambda>p. pp_effect p = effect_value DENY)
            (list_active_platform_policies_for_scope tenant_id (scope_value scope) s)
      in case deny_policies of
           [] \<Rightarrow> None
         | winning # _ \<Rightarrow>
             (let matched_constraints =
                    [(''fail_closed'', JBool True), (''reason'', JStr ''context_degraded'')]
              in Some \<lparr>pd_tenant_id = tenant_id, pd_scope = scope, pd_effect = effect_value DENY,
                   pd_matched = True, pd_matched_policy_id = Some (pp_policy_id winning),
                   pd_matched_revision_number = Some (pp_revision_number winning),
                   pd_matched_policy_version = Some (pp_policy_version winning),
                   pd_evaluated_policy_count = evaluated_policy_count,
                   pd_matched_policies =
                     [\<lparr>pm_policy_id = pp_policy_id winning,
                       pm_revision_number = pp_revision_number winning,
                       pm_policy_version = pp_policy_version winning, pm_effect = DENY,
                       pm_matched_constraints = matched_constraints\<rparr>],
                   pd_precedence_rule = PRECEDENCE_RULE,
                   pd_evidence =
                     [(''context'', policy_context_dump context),
                      (''matched_constraints'', JObj matched_constraints),
                      (''default_effect'', JStr DEFAULT_ALLOW_EFFECT),
                      (''fail_closed'', JBool True), (''reason'', JStr ''context_degraded'')]\<rparr>))"

definition enforced_decision ::
  "string \<Rightarrow> policy_scope \<Rightarrow> policy_context \<Rightarrow> bool \<Rightarrow> db \<Rightarrow> policy_error + policy_decision"
where
  "enforced_decision tenant_id scope context context_degraded s =
     (case evaluate_platform_policies tenant_id scope context s of
        Inl e \<Rightarrow> Inl e
      | Inr decision \<Rightarrow>
          if context_degraded \<and> pd_effect decision \<noteq> effect_value DENY
          then (case fail_closed_deny_decision tenant_id scope context
                       (pd_evaluated_policy_count decision) s of
                  Some fail_closed \<Rightarrow> Inr fail_closed
                | None \<Rightarrow> Inr decision)
          else Inr decision)"

definition enforcement_denied_event ::
  "string \<Rightarrow> string \<Rightarrow> string \<Rightarrow> dict \<Rightarrow> policy_decision \<Rightarrow> audit_event_create"
where
  "enforcement_denied_event tenant_id actor_id enforcement_point audit_payload decision =
           \<lparr>ac_event_tenant_id = tenant_id, ac_event_actor_id = actor_id,
            ac_event_type = ENFORCEMENT_DENIED_AUDIT_EVENT_TYPE,
            ac_event_payload = dmerge audit_payload
              [(''enforcement_point'', JStr enforcement_point),
               (''status'', JStr ''policy_denied''),
               (''policy_id'', jopt JStr (pd_matched_policy_id decision)),
               (''policy_revision_number'', jopt JInt (pd_matched_revision_number decision)),
               (''policy_version'', jopt JStr (pd_matched_policy_version decision)),
               (''policy_scope'', JStr (scope_value (pd_scope decision))),
               (''policy_effect'', JStr (pd_effect decision)),
               (''platform_policy_decision'', policy_decision_dump decision)]\<rparr>"

definition enforce_platform_policy_deny ::
  "string \<Rightarrow> string \<Rightarrow> policy_scope \<Rightarrow> policy_context \<Rightarrow> string \<Rightarrow> dict \<Rightarrow> bool \<Rightarrow>
   (db, policy_error, policy_decision) op"
where
  "enforce_platform_policy_deny tenant_id actor_id scope context enforcement_point audit_payload
     context_degraded =
     bind_op (get_op (enforced_decision tenant_id scope context context_degraded)) (\<lambda>evaluated.
     bind_op (of_result evaluated) (\<lambda>decision.
     if pd_effect decision \<noteq> effect_value DENY then return_op decision
     else
       bind_op (append_audit_event
           (enforcement_denied_event tenant_id actor_id enforcement_point audit_payload decision)) (\<lambda>audit_event.
       raise_op (PlatformPolicyEnforcementDenied decision (ae_id audit_event) (ae_event_type audit_event)))))"

section \<open>Lemmas\<close>

declare effect_value.simps [simp del] scope_value.simps [simp del]

lemma effect_of_value [simp]: "effect_of (effect_value e) = Some e"
  by (cases e) (simp_all add: effect_of_def effect_value.simps)

lemma scope_of_value [simp]: "scope_of (scope_value sc) = Some sc"
  by (cases sc) (simp_all add: scope_of_def scope_value.simps)

lemma effect_of_SomeD: "effect_of v = Some e \<Longrightarrow> v = effect_value e"
  by (auto simp: effect_of_def split: if_splits)

lemma effect_value_inject [simp]: "effect_value a = effect_value b \<longleftrightarrow> a = b"
  by (metis effect_of_value option.inject)

lemma default_effect_not_deny [simp]: "DEFAULT_ALLOW_EFFECT \<noteq> effect_value e"
  by (cases e) (simp_all add: DEFAULT_ALLOW_EFFECT_def effect_value.simps)

lemma effect_precedence_zero [simp]: "effect_precedence e \<le> 0 \<longleftrightarrow> e = DENY"
  by (cases e) simp_all

lemma effect_precedence_nonneg [simp]: "0 \<le> effect_precedence e"
  by (cases e) simp_all

lemma match_key_le_precedence:
  "match_key w \<le> match_key m \<Longrightarrow> effect_precedence (pm_effect w) \<le> effect_precedence (pm_effect m)"
  by (auto simp: match_key_def)

text \<open>A stored policy that every read decodes.\<close>

definition policy_readable :: "platform_policy \<Rightarrow> bool" where
  "policy_readable p \<longleftrightarrow> rule_conditions_valid (pp_conditions p) \<and> effect_of (pp_effect p) \<noteq> None
     \<and> scope_of (pp_scope p) \<noteq> None"

definition policy_applies :: "policy_context \<Rightarrow> platform_policy \<Rightarrow> bool" where
  "policy_applies context p \<longleftrightarrow> conditions_match (pp_conditions p) context \<noteq> None"

definition match_of :: "policy_context \<Rightarrow> platform_policy \<Rightarrow> policy_match" where
  "match_of context p =
     \<lparr>pm_policy_id = pp_policy_id p, pm_revision_number = pp_revision_number p,
      pm_policy_version = pp_policy_version p, pm_effect = the (effect_of (pp_effect p)),
      pm_matched_constraints = the (conditions_match (pp_conditions p) context)\<rparr>"

lemma policy_matches_readable:
  "list_all policy_readable ps \<Longrightarrow>
   policy_matches context ps = Inr (map (match_of context) (filter (policy_applies context) ps))"
  by (induction ps) (auto simp: policy_readable_def policy_applies_def match_of_def split: option.splits)

lemma policy_from_record_readable:
  "policy_readable p \<Longrightarrow> \<exists>v. policy_from_record p b = Inr v"
  by (auto simp: policy_readable_def policy_from_record_def)

definition active_policies :: "string \<Rightarrow> policy_scope \<Rightarrow> db \<Rightarrow> platform_policy list" where
  "active_policies tenant_id scope s = list_active_platform_policies_for_scope tenant_id (scope_value scope) s"

lemma set_active_policies:
  "p \<in> set (active_policies t sc s) \<longleftrightarrow>
     p \<in> set (platform_policies s) \<and> pp_tenant_id p = t \<and> pp_scope p = scope_value sc \<and> pp_status p = ''active''"
  by (auto simp: active_policies_def list_active_platform_policies_for_scope_def)

definition policies_readable :: "db \<Rightarrow> bool" where
  "policies_readable s \<longleftrightarrow> list_all policy_readable (platform_policies s)"

lemma evaluate_readable:
  assumes "policies_readable s"
  shows "evaluate_platform_policies t sc context s \<noteq> Inl e"
    and "evaluate_platform_policies t sc context s = Inr d \<Longrightarrow>
      pd_matched_policies d = sort_key match_key (map (match_of context)
        (filter (policy_applies context) (active_policies t sc s)))"
    and "evaluate_platform_policies t sc context s = Inr d \<Longrightarrow>
      pd_effect d = (case first_row (pd_matched_policies d) of
         Some w \<Rightarrow> effect_value (pm_effect w) | None \<Rightarrow> DEFAULT_ALLOW_EFFECT)"
proof -
  have "list_all policy_readable (list_active_platform_policies_for_scope t (scope_value sc) s)"
    using assms by (auto simp: policies_readable_def list_all_iff list_active_platform_policies_for_scope_def)
  then have *: "policy_matches context (list_active_platform_policies_for_scope t (scope_value sc) s) =
      Inr (map (match_of context) (filter (policy_applies context) (active_policies t sc s)))"
    by (simp add: policy_matches_readable active_policies_def)
  show "evaluate_platform_policies t sc context s \<noteq> Inl e"
    by (simp add: evaluate_platform_policies_def * Let_def)
  show "evaluate_platform_policies t sc context s = Inr d \<Longrightarrow>
      pd_matched_policies d = sort_key match_key (map (match_of context)
        (filter (policy_applies context) (active_policies t sc s)))"
    by (auto simp: evaluate_platform_policies_def * Let_def)
  show "evaluate_platform_policies t sc context s = Inr d \<Longrightarrow>
      pd_effect d = (case first_row (pd_matched_policies d) of
         Some w \<Rightarrow> effect_value (pm_effect w) | None \<Rightarrow> DEFAULT_ALLOW_EFFECT)"
    by (auto simp: evaluate_platform_policies_def * Let_def)
qed

text \<open>Deny wins.\<close>

lemma evaluate_deny_iff:
  assumes "policies_readable s"
  shows "(\<exists>d. evaluate_platform_policies t sc context s = Inr d \<and> pd_effect d = effect_value DENY) \<longleftrightarrow>
    (\<exists>p \<in> set (active_policies t sc s). policy_applies context p \<and> pp_effect p = effect_value DENY)"
proof -
  let ?ms = "map (match_of context) (filter (policy_applies context) (active_policies t sc s))"
  obtain d where d: "evaluate_platform_policies t sc context s = Inr d"
    using evaluate_readable(1) [OF assms] by (cases "evaluate_platform_policies t sc context s") auto
  have ms: "pd_matched_policies d = sort_key match_key ?ms"
    by (rule evaluate_readable(2) [OF assms d])
  have eff: "pd_effect d = (case first_row (sort_key match_key ?ms) of
         Some w \<Rightarrow> effect_value (pm_effect w) | None \<Rightarrow> DEFAULT_ALLOW_EFFECT)"
    using evaluate_readable(3) [OF assms d] ms by simp
  have rd: "effect_of (pp_effect p) = Some DENY \<longleftrightarrow> pp_effect p = effect_value DENY" for p
    by (metis effect_of_SomeD effect_of_value)
  have readable: "\<exists>e. effect_of (pp_effect p) = Some e" if "p \<in> set (active_policies t sc s)" for p
    using that assms by (auto simp: set_active_policies policies_readable_def policy_readable_def list_all_iff)
  have "pd_effect d = effect_value DENY \<longleftrightarrow> (\<exists>m \<in> set ?ms. pm_effect m = DENY)"
  proof (cases "first_row (sort_key match_key ?ms)")
    case None
    then show ?thesis using eff by simp
  next
    case (Some w)
    then have w: "w \<in> set ?ms" "\<forall>m \<in> set ?ms. match_key w \<le> match_key m"
      by (auto dest: first_row_sort_key)
    have "pm_effect w = DENY" if "m \<in> set ?ms" "pm_effect m = DENY" for m
      using w(2) that match_key_le_precedence by fastforce
    with w eff Some show ?thesis by auto
  qed
  also have "\<dots> \<longleftrightarrow> (\<exists>p \<in> set (active_policies t sc s). policy_applies context p \<and> pp_effect p = effect_value DENY)"
    using readable by (auto simp: match_of_def rd) (metis option.sel rd)
  finally show ?thesis using d by simp
qed

lemma conditions_match_amount_malformed:
  assumes "px_requested_amount_malformed context"
    and "conditions_match (c\<lparr>rc_requested_amount_at_least := None\<rparr>) context \<noteq> None"
  shows "conditions_match (c\<lparr>rc_requested_amount_at_least := Some a\<rparr>) context \<noteq> None"
  using assms by (auto simp: conditions_match_def match_amount_def split: option.splits bind_splits)

text \<open>A policy applies exactly when every condition it declares holds of the context.\<close>

lemma policy_applies_iff:
  "policy_applies context p \<longleftrightarrow>
     (rc_action_domains (pp_conditions p) = [] \<or> (\<exists>d \<in> set (rc_action_domains (pp_conditions p)). px_action_domain context = Some d))
   \<and> (rc_risk_levels (pp_conditions p) = [] \<or> (\<exists>d \<in> set (rc_risk_levels (pp_conditions p)). px_risk_level context = Some d))
   \<and> (rc_autonomy_levels (pp_conditions p) = [] \<or> (\<exists>d \<in> set (rc_autonomy_levels (pp_conditions p)). px_autonomy_level context = Some d))
   \<and> (\<forall>a. rc_requested_amount_at_least (pp_conditions p) = Some a \<longrightarrow>
        px_requested_amount_malformed context \<or> (\<exists>x. px_requested_amount context = Some x \<and> a \<le> x))"
proof -
  have mem: "match_member k opts v acc = None \<longleftrightarrow> opts \<noteq> [] \<and> \<not> (\<exists>d \<in> set opts. v = Some d)" for k opts v acc
    by (auto simp: match_member_def split: option.splits)
  have am: "match_amount th context acc = None \<longleftrightarrow>
      \<not> (\<forall>a. th = Some a \<longrightarrow> px_requested_amount_malformed context \<or> (\<exists>x. px_requested_amount context = Some x \<and> a \<le> x))" for th acc
    by (auto simp: match_amount_def split: option.splits)
  show ?thesis
    by (auto simp: policy_applies_def conditions_match_def bind_eq_None_conv mem am)
qed


section \<open>The writes of the policy table\<close>

definition filled_policy :: "db \<Rightarrow> platform_policy \<Rightarrow> platform_policy" where
  "filled_policy s new = new\<lparr>pp_id := uuid_at s (uuid_n s), pp_created_at := clock_at s (clock_n s),
     pp_updated_at := clock_at s (Suc (clock_n s))\<rparr>"

definition with_policy :: "db \<Rightarrow> platform_policy \<Rightarrow> db" where
  "with_policy s new = s\<lparr>uuid_n := Suc (uuid_n s), clock_n := clock_n s + 2,
     platform_policies := platform_policies s @ [filled_policy s new]\<rparr>"

lemma create_platform_policy_apply [simp]:
  "create_platform_policy new s = (Inr (filled_policy s new), with_policy s new)"
  by (simp add: create_platform_policy_def bind_op_def filled_policy_def with_policy_def Let_def)

definition with_superseded :: "db \<Rightarrow> platform_policy \<Rightarrow> int \<Rightarrow> db" where
  "with_superseded s current n = s\<lparr>clock_n := Suc (clock_n s), platform_policies :=
     update_where (\<lambda>p. pp_id p = pp_id current) (supersede n (clock_at s (clock_n s))) (platform_policies s)\<rparr>"

lemma append_platform_policy_revision_apply [simp]:
  "append_platform_policy_revision current new s =
     (let t = with_superseded s current (pp_revision_number new) in (Inr (filled_policy t new), with_policy t new))"
  by (simp add: append_platform_policy_revision_def bind_op_def with_superseded_def Let_def)

lemma filled_policy_sel [simp]:
  "pp_tenant_id (filled_policy s new) = pp_tenant_id new"
  "pp_policy_id (filled_policy s new) = pp_policy_id new"
  "pp_revision_number (filled_policy s new) = pp_revision_number new"
  "pp_status (filled_policy s new) = pp_status new"
  "pp_effect (filled_policy s new) = pp_effect new"
  "pp_scope (filled_policy s new) = pp_scope new"
  "pp_conditions (filled_policy s new) = pp_conditions new"
  "pp_replaced_by_revision_number (filled_policy s new) = pp_replaced_by_revision_number new"
  "pp_revision_idempotency_key (filled_policy s new) = pp_revision_idempotency_key new"
  "pp_id (filled_policy s new) = uuid_at s (uuid_n s)"
  "policy_readable (filled_policy s new) = policy_readable new"
  by (simp_all add: filled_policy_def policy_readable_def)

lemma supersede_sel [simp]:
  "pp_tenant_id (supersede n now p) = pp_tenant_id p"
  "pp_policy_id (supersede n now p) = pp_policy_id p"
  "pp_id (supersede n now p) = pp_id p"
  "pp_revision_number (supersede n now p) = pp_revision_number p"
  "pp_revision_idempotency_key (supersede n now p) = pp_revision_idempotency_key p"
  "pp_status (supersede n now p) = ''superseded''"
  "pp_replaced_by_revision_number (supersede n now p) = Some n"
  "policy_readable (supersede n now p) = policy_readable p"
  by (simp_all add: supersede_def policy_readable_def)

interpretation policy_chain: revision_chain pp_revision_number "\<lambda>p. pp_status p = ''active''"
  pp_replaced_by_revision_number "\<lambda>n. supersede n now" for now
  by unfold_locales simp_all

definition policy_chain_ok :: "platform_policy list \<Rightarrow> bool" where
  "policy_chain_ok rows = chain_from pp_revision_number (\<lambda>p. pp_status p = ''active'')
     pp_replaced_by_revision_number 1 rows"

definition revision_keys :: "platform_policy list \<Rightarrow> (string \<times> string option) list" where
  "revision_keys rows = map (\<lambda>p. (pp_tenant_id p, pp_revision_idempotency_key p))
     (select_where (\<lambda>p. pp_revision_idempotency_key p \<noteq> None) rows)"

lemma revision_keys_append [simp]:
  "revision_keys (rows @ [p]) = revision_keys rows @
     (if pp_revision_idempotency_key p = None then [] else [(pp_tenant_id p, pp_revision_idempotency_key p)])"
  by (simp add: revision_keys_def)

lemma revision_keys_supersede [simp]:
  "revision_keys (update_where q (supersede n now) rows) = revision_keys rows"
  by (simp add: revision_keys_def select_where_update map_update_where_same)

lemma revision_key_used_iff:
  "(t, Some key) \<in> set (revision_keys (platform_policies s)) \<longleftrightarrow>
     get_platform_policy_by_revision_idempotency_key t key s \<noteq> None"
  by (auto simp: revision_keys_def get_platform_policy_by_revision_idempotency_key_def)

definition policies_inv :: "db \<Rightarrow> bool" where
  "policies_inv s \<longleftrightarrow>
     policies_readable s \<and> inj (uuid_at s) \<and> ids_drawn s (map pp_id (platform_policies s))
     \<and> (\<forall>t pid. policy_chain_ok (policy_rows t pid s))
     \<and> distinct (revision_keys (platform_policies s))"

lemma policies_invI:
  "policies_readable s \<Longrightarrow> inj (uuid_at s) \<Longrightarrow> ids_drawn s (map pp_id (platform_policies s)) \<Longrightarrow>
   (\<And>t pid. policy_chain_ok (policy_rows t pid s)) \<Longrightarrow> distinct (revision_keys (platform_policies s)) \<Longrightarrow>
   policies_inv s"
  by (simp add: policies_inv_def)

lemma policies_invD:
  assumes "policies_inv s"
  shows "policies_readable s" "inj (uuid_at s)" "ids_drawn s (map pp_id (platform_policies s))"
    "policy_chain_ok (policy_rows t pid s)" "distinct (revision_keys (platform_policies s))"
    "distinct (map pp_id (platform_policies s))"
  using assms by (auto simp: policies_inv_def ids_drawn_def)

lemma policies_inv_cong:
  assumes "platform_policies t = platform_policies s" "uuid_at t = uuid_at s" "uuid_n s \<le> uuid_n t"
    and "policies_inv s"
  shows "policies_inv t"
  using assms ids_drawn_mono [of s _ t] by (simp add: policies_inv_def policies_readable_def policy_rows_def)

lemma policies_inv_audit [simp]: "policies_inv s \<Longrightarrow> policies_inv (with_audit_event s ev)"
  by (rule policies_inv_cong [of _ s]) simp_all

lemma get_platform_policy_last:
  assumes "policies_inv s" "get_platform_policy t pid s = Some p"
  shows "policy_rows t pid s \<noteq> []" "p = last (policy_rows t pid s)" "p \<in> set (platform_policies s)"
    "pp_tenant_id p = t" "pp_policy_id p = pid"
proof -
  let ?rows = "policy_rows t pid s"
  have chain: "chain_from pp_revision_number (\<lambda>p. pp_status p = ''active'') pp_replaced_by_revision_number 1 ?rows"
    using policies_invD(4) [OF assms(1)] by (simp add: policy_chain_ok_def)
  have p: "p \<in> set ?rows" "\<forall>q \<in> set ?rows. pp_revision_number q \<le> pp_revision_number p"
    using first_row_sort_key [OF assms(2) [unfolded get_platform_policy_def]] by auto
  then show ne: "?rows \<noteq> []" by auto
  have "pp_revision_number p = pp_revision_number (last ?rows)"
    using p ne policy_chain.chain_last_greatest [OF chain p(1)] by (simp add: antisym)
  then show "p = last ?rows"
    using policy_chain.chain_distinct [OF chain] p ne by (metis distinct_key_unique last_in_set)
  show "p \<in> set (platform_policies s)" "pp_tenant_id p = t" "pp_policy_id p = pid"
    using p by (auto simp: policy_rows_def)
qed

lemma get_platform_policy_None:
  "get_platform_policy t pid s = None \<longleftrightarrow> policy_rows t pid s = []"
  by (simp add: get_platform_policy_def)

lemma with_policy_sel [simp]:
  "uuid_at (with_policy s new) = uuid_at s" "uuid_n (with_policy s new) = Suc (uuid_n s)"
  "platform_policies (with_policy s new) = platform_policies s @ [filled_policy s new]"
  "audit_events (with_policy s new) = audit_events s"
  by (simp_all add: with_policy_def)

lemma with_superseded_sel [simp]:
  "uuid_at (with_superseded s c n) = uuid_at s" "uuid_n (with_superseded s c n) = uuid_n s"
  "audit_events (with_superseded s c n) = audit_events s"
  by (simp_all add: with_superseded_def)

lemma policy_rows_with_policy [simp]:
  "policy_rows t pid (with_policy s new) = policy_rows t pid s @
     (if pp_tenant_id new = t \<and> pp_policy_id new = pid then [filled_policy s new] else [])"
  by (simp add: policy_rows_def)

lemma policies_inv_create:
  assumes "policies_inv s" "policy_rows (pp_tenant_id new) (pp_policy_id new) s = []"
    and "pp_revision_number new = 1" "pp_status new = ''active''" "pp_replaced_by_revision_number new = None"
    and "policy_readable new" "pp_revision_idempotency_key new = None"
  shows "policies_inv (with_policy s new)"
proof (rule policies_invI)
  note inv = policies_invD [OF assms(1)]
  show "policies_readable (with_policy s new)"
    using inv(1) assms(6) by (simp add: policies_readable_def)
  show "inj (uuid_at (with_policy s new))" using inv(2) by simp
  show "ids_drawn (with_policy s new) (map pp_id (platform_policies (with_policy s new)))"
    using ids_drawn_snoc [OF inv(2,3), of "with_policy s new"] by simp
  show "policy_chain_ok (policy_rows t pid (with_policy s new))" for t pid
  proof (cases "pp_tenant_id new = t \<and> pp_policy_id new = pid")
    case True
    with assms(2) have "policy_rows t pid s = []" by simp
    with True assms(3-5) show ?thesis by (simp add: policy_chain_ok_def)
  next
    case False
    with inv(4) [of t pid] show ?thesis by auto
  qed
  show "distinct (revision_keys (platform_policies (with_policy s new)))"
    using inv(5) assms(7) by simp
qed

lemma policy_rows_with_superseded:
  assumes "policies_inv s" "get_platform_policy t pid s = Some p"
  shows "policy_rows t' pid' (with_superseded s p n) =
    (if t' = t \<and> pid' = pid
     then butlast (policy_rows t pid s) @ [supersede n (clock_at s (clock_n s)) p]
     else policy_rows t' pid' s)"
proof -
  note cur = get_platform_policy_last [OF assms]
  have eq: "policy_rows t' pid' (with_superseded s p n) =
      update_where (\<lambda>q. pp_id q = pp_id p) (supersede n (clock_at s (clock_n s))) (policy_rows t' pid' s)"
    by (simp add: policy_rows_def with_superseded_def select_where_update)
  have split: "policy_rows t pid s = butlast (policy_rows t pid s) @ [p]"
    using cur(1,2) by simp
  have "distinct (map pp_id (policy_rows t pid s))"
    using policies_invD(6) [OF assms(1)] by (simp add: policy_rows_def select_where_def distinct_map_filter)
  then have same: "update_where (\<lambda>q. pp_id q = pp_id p) f (policy_rows t pid s) =
      butlast (policy_rows t pid s) @ [f p]" for f
    using update_last_by_id [of pp_id "butlast (policy_rows t pid s)" p f] split by simp
  have "\<forall>q \<in> set (policy_rows t' pid' s). pp_id q \<noteq> pp_id p" if "\<not> (t' = t \<and> pid' = pid)"
    using that cur(3-5) policies_invD(6) [OF assms(1)]
    by (auto simp: policy_rows_def dest: distinct_key_unique)
  then show ?thesis
    using eq same by (auto simp: update_where_none)
qed

lemma policies_inv_revise:
  assumes inv: "policies_inv s" and cur: "get_platform_policy t pid s = Some p"
    and new: "pp_tenant_id new = t" "pp_policy_id new = pid" "pp_revision_number new = pp_revision_number p + 1"
      "pp_status new = ''active''" "pp_replaced_by_revision_number new = None" "policy_readable new"
      "pp_revision_idempotency_key new = Some key"
    and unused: "get_platform_policy_by_revision_idempotency_key t key s = None"
  shows "policies_inv (with_policy (with_superseded s p (pp_revision_number new)) new)"
    (is "policies_inv (with_policy ?s' new)")
proof (rule policies_invI)
  note inv' = policies_invD [OF inv]
  have pols: "set (platform_policies ?s') \<subseteq> set (platform_policies s) \<union>
      supersede (pp_revision_number new) (clock_at s (clock_n s)) ` set (platform_policies s)"
    and ids: "map pp_id (platform_policies ?s') = map pp_id (platform_policies s)"
    by (auto simp: with_superseded_def set_update_where map_update_where_same)
  show "policies_readable (with_policy ?s' new)"
    using inv'(1) new(6) subsetD [OF pols] by (fastforce simp: policies_readable_def list_all_iff)
  show "inj (uuid_at (with_policy ?s' new))" using inv'(2) by simp
  show "ids_drawn (with_policy ?s' new) (map pp_id (platform_policies (with_policy ?s' new)))"
    using ids_drawn_snoc [of s "map pp_id (platform_policies s)" "with_policy ?s' new"] inv'(2,3) ids by simp
  show "policy_chain_ok (policy_rows t' pid' (with_policy ?s' new))" for t' pid'
  proof (cases "t' = t \<and> pid' = pid")
    case True
    have "chain_from pp_revision_number (\<lambda>p. pp_status p = ''active'') pp_replaced_by_revision_number 1
        (butlast (policy_rows t pid s) @ [p])"
      using inv'(4) [of t pid] get_platform_policy_last(1,2) [OF inv cur] by (simp add: policy_chain_ok_def)
    from policy_chain.chain_append [OF this, of "filled_policy ?s' new" "clock_at s (clock_n s)"]
    show ?thesis
      using True new by (simp add: policy_rows_with_superseded [OF inv cur] policy_chain_ok_def)
  next
    case False
    then show ?thesis
      using inv'(4) new by (auto simp: policy_rows_with_superseded [OF inv cur])
  qed
  have "(t, Some key) \<notin> set (revision_keys (platform_policies s))"
    using unused by (simp add: revision_key_used_iff)
  then show "distinct (revision_keys (platform_policies (with_policy ?s' new)))"
    using new(1,7) inv'(5) by (simp add: with_superseded_def)
qed


lemma validate_rule_conditions_valid:
  "validate_rule_conditions decode j = Inr c \<Longrightarrow> rule_conditions_valid c"
  by (auto simp: validate_rule_conditions_def split: option.splits if_splits)

lemma policies_inv_policy_rows_audit [simp]: "policy_rows t pid (with_audit_event s ev) = policy_rows t pid s"
  by (simp add: policy_rows_def)

lemma get_platform_policy_audit [simp]:
  "get_platform_policy t pid (with_audit_event s ev) = get_platform_policy t pid s"
  "get_platform_policy_by_revision_idempotency_key t key (with_audit_event s ev) =
     get_platform_policy_by_revision_idempotency_key t key s"
  by (simp_all add: get_platform_policy_def get_platform_policy_by_revision_idempotency_key_def)

lemma evaluate_policy_permission_Inr:
  "evaluate_policy_permission t a scopes req attrs = Inr d \<longleftrightarrow>
     req \<in> set scopes \<and> d = \<lparr>allowed = True, reason = ''allowed''\<rparr>"
  by (auto simp: evaluate_policy_permission_def Let_def intro!: evaluate_permission_reason_allowed)

lemma authored_policy_sel [simp]:
  "pp_tenant_id (authored_policy request c d ev) = cq_tenant_id request"
  "pp_policy_id (authored_policy request c d ev) = cq_policy_id request"
  "pp_revision_number (authored_policy request c d ev) = 1"
  "pp_status (authored_policy request c d ev) = ''active''"
  "pp_replaced_by_revision_number (authored_policy request c d ev) = None"
  "pp_revision_idempotency_key (authored_policy request c d ev) = None"
  "policy_readable (authored_policy request c d ev) = rule_conditions_valid c"
  by (simp_all add: authored_policy_def policy_readable_def)

lemma revised_policy_sel [simp]:
  "pp_tenant_id (revised_policy p request c d ev) = rq_tenant_id request"
  "pp_policy_id (revised_policy p request c d ev) = rq_policy_id request"
  "pp_revision_number (revised_policy p request c d ev) = pp_revision_number p + 1"
  "pp_status (revised_policy p request c d ev) = ''active''"
  "pp_replaced_by_revision_number (revised_policy p request c d ev) = None"
  "pp_revision_idempotency_key (revised_policy p request c d ev) = Some (rq_idempotency_key request)"
  "pp_scope (revised_policy p request c d ev) = pp_scope p"
  "pp_effect (revised_policy p request c d ev) = effect_value (rq_effect request)"
  "pp_conditions (revised_policy p request c d ev) = c"
  by (simp_all add: revised_policy_def)

lemma record_platform_policy_eq:
  "record_platform_policy decode request s =
    (case validate_rule_conditions decode (cq_conditions request) of
       Inl e \<Rightarrow> (Inl e, s)
     | Inr c \<Rightarrow>
         (case get_platform_policy (cq_tenant_id request) (cq_policy_id request) s of
            Some p \<Rightarrow> (Inl (PlatformPolicyConflict (pp_policy_id p)), s)
          | None \<Rightarrow>
              (case evaluate_authoring_permission request of
                 Inl e \<Rightarrow> (Inl e, s)
               | Inr d \<Rightarrow>
                   let ev = authored_event request c d; s1 = with_audit_event s ev;
                       new = authored_policy request c d (new_audit_event s ev)
                   in (policy_from_record (filled_policy s1 new) False, with_policy s1 new))))"
  by (simp add: record_platform_policy_def Let_def bind_op_def split: sum.splits option.splits)

lemma revise_platform_policy_eq:
  "revise_platform_policy decode request s =
    (case validate_rule_conditions decode (rq_conditions request) of
       Inl e \<Rightarrow> (Inl e, s)
     | Inr c \<Rightarrow>
         (case get_platform_policy_by_revision_idempotency_key (rq_tenant_id request) (rq_idempotency_key request) s of
            Some p \<Rightarrow>
              (if pp_policy_id p \<noteq> rq_policy_id request \<or> \<not> revision_matches_request p request c
               then Inl (PlatformPolicyRevisionConflict (rq_policy_id request) (rq_idempotency_key request))
               else policy_from_record p True, s)
          | None \<Rightarrow>
         (case get_platform_policy (rq_tenant_id request) (rq_policy_id request) s of
            None \<Rightarrow> (Inl PlatformPolicyNotFound, s)
          | Some p \<Rightarrow>
              (case evaluate_revision_permission request of
                 Inl e \<Rightarrow> (Inl e, s)
               | Inr d \<Rightarrow>
                   let ev = revised_event p request c d; s1 = with_audit_event s ev;
                       new = revised_policy p request c d (new_audit_event s ev);
                       s2 = with_superseded s1 p (pp_revision_number p + 1)
                   in (policy_from_record (filled_policy s2 new) False, with_policy s2 new)))))"
  by (simp add: revise_platform_policy_def Let_def bind_op_def split: sum.splits option.splits)

lemma record_keeps_policies_inv:
  "policies_inv s \<Longrightarrow> policies_inv (snd (record_platform_policy decode request s))"
  by (auto simp: record_platform_policy_eq Let_def get_platform_policy_None
      split: sum.splits option.splits intro!: policies_inv_create dest: validate_rule_conditions_valid)

lemma revised_policy_readable:
  "policies_inv s \<Longrightarrow> get_platform_policy t pid s = Some p \<Longrightarrow> rule_conditions_valid c \<Longrightarrow>
   policy_readable (revised_policy p request c d ev)"
  using get_platform_policy_last(3) policies_invD(1)
  by (fastforce simp: policy_readable_def policies_readable_def list_all_iff)

lemma revise_keeps_policies_inv:
  assumes "policies_inv s"
  shows "policies_inv (snd (revise_platform_policy decode request s))"
proof -
  have "policies_inv (with_policy (with_superseded (with_audit_event s ev) p (pp_revision_number p + 1))
      (revised_policy p request c d ae))"
    if "get_platform_policy (rq_tenant_id request) (rq_policy_id request) s = Some p"
      "get_platform_policy_by_revision_idempotency_key (rq_tenant_id request) (rq_idempotency_key request) s = None"
      "rule_conditions_valid c" for ev p c d ae
    using policies_inv_revise [of "with_audit_event s ev" "rq_tenant_id request" "rq_policy_id request" p
        "revised_policy p request c d ae" "rq_idempotency_key request"]
      revised_policy_readable [OF assms that(1,3)] assms that by simp
  then show ?thesis
    using assms by (auto simp: revise_platform_policy_eq Let_def
      split: sum.splits option.splits dest: validate_rule_conditions_valid)
qed


lemma revision_key_row_found:
  assumes "get_platform_policy_by_revision_idempotency_key t key s = None"
    and "pp_tenant_id new = t" "pp_revision_idempotency_key new = Some key"
  shows "get_platform_policy_by_revision_idempotency_key t key (with_policy (with_superseded s p n) new) =
    Some (filled_policy (with_superseded s p n) new)"
proof -
  have "select_where (\<lambda>q. pp_tenant_id q = t \<and> pp_revision_idempotency_key q = Some key)
      (platform_policies (with_superseded s p n)) = []"
    using assms(1) by (simp add: get_platform_policy_by_revision_idempotency_key_def with_superseded_def
        select_where_update del: select_where_Nil)
  then show ?thesis
    using assms(2,3) by (simp add: get_platform_policy_by_revision_idempotency_key_def del: select_where_Nil)
qed

lemma policy_from_record_replay:
  "policy_from_record p b = Inr v \<Longrightarrow> policy_from_record p b' = Inr (v\<lparr>pv_idempotent_replay := b'\<rparr>)"
  by (auto simp: policy_from_record_def split: option.splits if_splits)

inductive policy_history :: "db \<Rightarrow> bool" where
  start: "inj uuids \<Longrightarrow> policy_history (empty_db clock uuids)"
| authored: "policy_history s \<Longrightarrow> policy_history (snd (record_platform_policy decode request s))"
| revised: "policy_history s \<Longrightarrow> policy_history (snd (revise_platform_policy decode revision s))"
| enforced: "policy_history s \<Longrightarrow>
     policy_history (snd (enforce_platform_policy_deny tenant_id actor_id scope context point payload degraded s))"

lemma enforce_platform_policy_deny_eq:
  "enforce_platform_policy_deny t a sc context point payload degraded s =
     (case enforced_decision t sc context degraded s of
        Inl e \<Rightarrow> (Inl e, s)
      | Inr d \<Rightarrow>
          if pd_effect d \<noteq> effect_value DENY then (Inr d, s)
          else let ev = enforcement_denied_event t a point payload d
               in (Inl (PlatformPolicyEnforcementDenied d (uuid_at s (uuid_n s)) ENFORCEMENT_DENIED_AUDIT_EVENT_TYPE),
                   with_audit_event s ev))"
  by (simp add: enforce_platform_policy_deny_def enforcement_denied_event_def Let_def bind_op_def split: sum.splits)

lemma policy_history_inv: "policy_history s \<Longrightarrow> policies_inv s"
proof (induction rule: policy_history.induct)
  case (start uuids clock)
  then show ?case
    by (simp add: policies_inv_def empty_db_def policies_readable_def ids_drawn_def policy_rows_def
        policy_chain_ok_def revision_keys_def)
next
  case (enforced s)
  then show ?case by (auto simp: enforce_platform_policy_deny_eq Let_def split: sum.splits)
qed (auto intro: record_keeps_policies_inv revise_keeps_policies_inv)

lemma fail_closed_Some_iff:
  "fail_closed_deny_decision t sc context n s = None \<longleftrightarrow>
     (\<forall>p \<in> set (active_policies t sc s). pp_effect p \<noteq> effect_value DENY)"
proof -
  have "fail_closed_deny_decision t sc context n s = None \<longleftrightarrow>
      filter (\<lambda>p. pp_effect p = effect_value DENY) (active_policies t sc s) = []"
    by (simp add: fail_closed_deny_decision_def active_policies_def Let_def split: list.split)
  then show ?thesis by (simp add: filter_empty_conv)
qed

lemma fail_closed_denies:
  "fail_closed_deny_decision t sc context n s = Some d \<Longrightarrow> pd_effect d = effect_value DENY"
  by (auto simp: fail_closed_deny_decision_def Let_def split: list.splits)

lemma enforced_deny_iff:
  assumes "policies_readable s"
  obtains d where "enforced_decision t sc context degraded s = Inr d"
    "pd_effect d = effect_value DENY \<longleftrightarrow>
       (\<exists>p \<in> set (active_policies t sc s). pp_effect p = effect_value DENY \<and> (degraded \<or> policy_applies context p))"
proof -
  obtain d where d: "evaluate_platform_policies t sc context s = Inr d"
    using evaluate_readable(1) [OF assms] by (cases "evaluate_platform_policies t sc context s") auto
  have deny: "pd_effect d = effect_value DENY \<longleftrightarrow>
      (\<exists>p \<in> set (active_policies t sc s). policy_applies context p \<and> pp_effect p = effect_value DENY)"
    using evaluate_deny_iff [OF assms] d by (metis Inr_inject)
  show thesis
  proof (cases "degraded \<and> pd_effect d \<noteq> effect_value DENY")
    case True
    show thesis
    proof (cases "fail_closed_deny_decision t sc context (pd_evaluated_policy_count d) s")
      case None
      show thesis
        by (rule that [of d])
          (use None None [unfolded fail_closed_Some_iff] True d in \<open>auto simp: enforced_decision_def\<close>)
    next
      case (Some f)
      have "\<exists>p \<in> set (active_policies t sc s). pp_effect p = effect_value DENY"
        using Some fail_closed_Some_iff [of t sc "context" "pd_evaluated_policy_count d" s] by auto
      then show thesis
        by (intro that [of f]) (use Some True d fail_closed_denies [OF Some] in \<open>auto simp: enforced_decision_def\<close>)
    qed
  next
    case False
    show thesis
      by (rule that [of d]) (use False d deny in \<open>auto simp: enforced_decision_def\<close>)
  qed
qed

text \<open>The unique constraints and the unique partial index of the table, with the rule that null keys do
  not collide.\<close>

definition platform_policy_constraints :: "platform_policy list \<Rightarrow> bool" where
  "platform_policy_constraints rows \<longleftrightarrow>
     distinct (map (\<lambda>p. (pp_tenant_id p, pp_policy_id p, pp_revision_number p)) rows)
     \<and> distinct (revision_keys rows)
     \<and> distinct (map (\<lambda>p. (pp_tenant_id p, pp_policy_id p))
          (select_where (\<lambda>p. pp_status p = ''active'') rows))"

lemma policies_inv_constraints:
  assumes "policies_inv s"
  shows "platform_policy_constraints (platform_policies s)"
proof -
  have chain: "chain_from pp_revision_number (\<lambda>p. pp_status p = ''active'') pp_replaced_by_revision_number 1
      (policy_rows t pid s)" for t pid
    using policies_invD(4) [OF assms] by (simp add: policy_chain_ok_def)
  have rows: "select_where (\<lambda>p. (pp_tenant_id p, pp_policy_id p) = g) (platform_policies s) =
      policy_rows (fst g) (snd g) s" for g
    by (cases g) (simp add: policy_rows_def)
  have "distinct (map (\<lambda>p. ((pp_tenant_id p, pp_policy_id p), pp_revision_number p)) (platform_policies s))"
    using policy_chain.chain_distinct [OF chain] by (intro distinct_by_group) (simp add: rows)
  then have "distinct (map (\<lambda>((a, b), c). (a, b, c))
      (map (\<lambda>p. ((pp_tenant_id p, pp_policy_id p), pp_revision_number p)) (platform_policies s)))"
    by (subst distinct_map) (auto simp: inj_on_def)
  moreover have least: "length (select_where (\<lambda>p. pp_status p = ''active'') (policy_rows t pid s)) \<le> 1" for t pid
    using policy_chain.chain_open_filter [OF chain [of t pid]] by (cases "policy_rows t pid s = []") auto
  have "distinct (map (\<lambda>p. (pp_tenant_id p, pp_policy_id p))
      (select_where (\<lambda>p. pp_status p = ''active'') (platform_policies s)))"
  proof (intro distinct_if_group_le_1)
    fix g
    have "select_where (\<lambda>p. (pp_tenant_id p, pp_policy_id p) = g)
        (select_where (\<lambda>p. pp_status p = ''active'') (platform_policies s)) =
      select_where (\<lambda>p. pp_status p = ''active'') (policy_rows (fst g) (snd g) s)"
      unfolding rows [symmetric] by (simp add: select_where_def conj_commute)
    with least show "length (select_where (\<lambda>p. (pp_tenant_id p, pp_policy_id p) = g)
        (select_where (\<lambda>p. pp_status p = ''active'') (platform_policies s))) \<le> 1" by simp
  qed
  ultimately show ?thesis
    using policies_invD(5) [OF assms] by (simp add: platform_policy_constraints_def comp_def)
qed

section \<open>A concrete registry\<close>

definition example_policy_request :: policy_create_request where
  "example_policy_request =
     \<lparr>cq_tenant_id = ''acme'', cq_policy_id = ''spend-cap'', cq_policy_version = ''1.0'',
      cq_display_name = ''Spend cap'', cq_description = ''No critical spend'', cq_scope = ACTION_EXECUTION,
      cq_effect = REQUIRE_APPROVAL, cq_conditions = JNull, cq_created_by = ''alice'',
      cq_actor_scopes = [REQUIRED_AUTHORING_SCOPE], cq_notes = []\<rparr>"

definition example_policy_revision :: policy_revise_request where
  "example_policy_revision =
     \<lparr>rq_tenant_id = ''acme'', rq_policy_id = ''spend-cap'', rq_policy_version = ''1.1'',
      rq_display_name = ''Spend cap'', rq_description = ''No critical spend at all'', rq_effect = DENY,
      rq_conditions = JNull, rq_updated_by = ''alice'', rq_actor_scopes = [REQUIRED_REVISE_SCOPE],
      rq_idempotency_key = ''rev-1'', rq_notes = []\<rparr>"

definition example_policy_decode :: "json \<Rightarrow> rule_conditions option" where
  "example_policy_decode j =
     Some \<lparr>rc_action_domains = [''finance''], rc_risk_levels = [], rc_autonomy_levels = [],
           rc_requested_amount_at_least = Some 1000\<rparr>"

definition example_policy_context :: policy_context where
  "example_policy_context =
     \<lparr>px_action_id = None, px_action_domain = Some ''finance'', px_risk_level = None, px_autonomy_level = None,
      px_requested_amount = None, px_requested_amount_malformed = True\<rparr>"

definition example_authored_db :: db where
  "example_authored_db =
     snd (record_platform_policy example_policy_decode example_policy_request (empty_db int (\<lambda>n. n)))"

definition example_policy_db :: db where
  "example_policy_db =
     snd (revise_platform_policy example_policy_decode example_policy_revision example_authored_db)"

lemma example_policy_history: "policy_history example_authored_db" "policy_history example_policy_db"
  unfolding example_policy_db_def example_authored_db_def
  by (intro policy_history.intros, simp)+

text \<open>The two revisions that the example writes.\<close>

definition example_conditions :: rule_conditions where
  "example_conditions = the (example_policy_decode JNull)"

definition example_decision :: permission_decision where
  "example_decision = \<lparr>allowed = True, reason = ''allowed''\<rparr>"

lemma example_conditions_valid:
  "validate_rule_conditions example_policy_decode j = Inr example_conditions" "rule_conditions_valid example_conditions"
  by (simp_all add: validate_rule_conditions_def example_conditions_def example_policy_decode_def
      rule_conditions_valid_def strip_def is_space_def)

lemma example_permissions:
  "evaluate_authoring_permission example_policy_request = Inr example_decision"
  "evaluate_revision_permission example_policy_revision = Inr example_decision"
  by (simp_all add: evaluate_authoring_permission_def evaluate_revision_permission_def
      evaluate_policy_permission_Inr example_policy_request_def example_policy_revision_def example_decision_def)

lemma example_authored_rows:
  "\<exists>t ev. platform_policies example_authored_db =
     [filled_policy t (authored_policy example_policy_request example_conditions example_decision ev)]"
  by (auto simp: example_authored_db_def record_platform_policy_eq example_conditions_valid example_permissions
      get_platform_policy_def policy_rows_def empty_db_def Let_def)

lemma example_revised_rows:
  "\<exists>t ev n now p. platform_policies example_policy_db = [supersede n now p,
     filled_policy t (revised_policy p example_policy_revision example_conditions example_decision ev)]
   \<and> pp_scope p = scope_value ACTION_EXECUTION \<and> pp_tenant_id p = ''acme'' \<and> pp_policy_id p = ''spend-cap''
   \<and> policy_readable p
   \<and> \<not> isl (fst (revise_platform_policy example_policy_decode example_policy_revision example_authored_db))"
proof -
  obtain t ev where rows: "platform_policies example_authored_db =
      [filled_policy t (authored_policy example_policy_request example_conditions example_decision ev)]"
    using example_authored_rows by blast
  let ?p = "filled_policy t (authored_policy example_policy_request example_conditions example_decision ev)"
  have p: "pp_tenant_id ?p = ''acme''" "pp_policy_id ?p = ''spend-cap''" "pp_scope ?p = scope_value ACTION_EXECUTION"
    "pp_revision_idempotency_key ?p = None" "policy_readable ?p"
    using example_conditions_valid(2) by (simp_all add: example_policy_request_def authored_policy_def policy_readable_def)
  have cur: "get_platform_policy ''acme'' ''spend-cap'' example_authored_db = Some ?p"
    using p by (simp add: get_platform_policy_def policy_rows_def rows)
  have unused: "get_platform_policy_by_revision_idempotency_key ''acme'' ''rev-1'' example_authored_db = None"
    using p by (simp add: get_platform_policy_by_revision_idempotency_key_def rows)
  have req: "rq_tenant_id example_policy_revision = ''acme''" "rq_policy_id example_policy_revision = ''spend-cap''"
    "rq_idempotency_key example_policy_revision = ''rev-1''"
    by (simp_all add: example_policy_revision_def)
  have readable: "policy_readable (revised_policy ?p example_policy_revision example_conditions example_decision ev')" for ev'
    using p(5) example_conditions_valid(2) by (simp add: policy_readable_def)
  let ?new = "\<lambda>ev'. revised_policy ?p example_policy_revision example_conditions example_decision ev'"
  define ev1 where "ev1 = revised_event ?p example_policy_revision example_conditions example_decision"
  define s2 where "s2 = with_superseded (with_audit_event example_authored_db ev1) ?p (pp_revision_number ?p + 1)"
  define ae where "ae = new_audit_event example_authored_db ev1"
  have run: "revise_platform_policy example_policy_decode example_policy_revision example_authored_db =
      (policy_from_record (filled_policy s2 (?new ae)) False, with_policy s2 (?new ae))"
    unfolding revise_platform_policy_eq example_conditions_valid(1) req cur unused example_permissions(2)
      ev1_def s2_def ae_def by (simp add: Let_def)
  obtain v where "policy_from_record (filled_policy s2 (?new ae)) False = Inr v"
    using policy_from_record_readable readable by (metis filled_policy_sel(11))
  then have "\<not> isl (fst (revise_platform_policy example_policy_decode example_policy_revision example_authored_db))"
    by (simp add: run)
  moreover have "platform_policies s2 = [supersede (pp_revision_number ?p + 1)
      (clock_at (with_audit_event example_authored_db ev1) (clock_n (with_audit_event example_authored_db ev1))) ?p]"
    by (simp add: s2_def with_superseded_def rows del: with_audit_event_sel(16,18))
  then have "platform_policies example_policy_db = [supersede (pp_revision_number ?p + 1)
      (clock_at (with_audit_event example_authored_db ev1) (clock_n (with_audit_event example_authored_db ev1))) ?p,
      filled_policy s2 (?new ae)]"
    by (simp add: example_policy_db_def run)
  ultimately show ?thesis using p by blast
qed

lemma example_policy_facts:
  "policies_readable example_policy_db
   \<and> (\<exists>p \<in> set (active_policies ''acme'' ACTION_EXECUTION example_policy_db).
        pp_effect p = effect_value DENY \<and> policy_applies example_policy_context p)
   \<and> length (policy_rows ''acme'' ''spend-cap'' example_policy_db) = 2
   \<and> \<not> isl (fst (revise_platform_policy example_policy_decode example_policy_revision example_authored_db))"
proof -
  obtain t ev n now p where rows: "platform_policies example_policy_db = [supersede n now p,
      filled_policy t (revised_policy p example_policy_revision example_conditions example_decision ev)]"
    and p: "pp_scope p = scope_value ACTION_EXECUTION" "pp_tenant_id p = ''acme''" "pp_policy_id p = ''spend-cap''"
    "policy_readable p"
    "\<not> isl (fst (revise_platform_policy example_policy_decode example_policy_revision example_authored_db))"
    using example_revised_rows by blast
  let ?new = "filled_policy t (revised_policy p example_policy_revision example_conditions example_decision ev)"
  have new: "pp_tenant_id ?new = ''acme''" "pp_policy_id ?new = ''spend-cap''" "pp_effect ?new = effect_value DENY"
    "pp_scope ?new = scope_value ACTION_EXECUTION" "pp_status ?new = ''active''" "pp_conditions ?new = example_conditions"
    "policy_readable ?new"
    using p example_conditions_valid(2) by (simp_all add: example_policy_revision_def policy_readable_def)
  have "policy_applies example_policy_context ?new"
    unfolding policy_applies_iff new(6)
    by (simp add: example_conditions_def example_policy_decode_def example_policy_context_def)
  moreover have "?new \<in> set (active_policies ''acme'' ACTION_EXECUTION example_policy_db)"
    unfolding set_active_policies using new by (simp add: rows)
  moreover have "policies_readable example_policy_db"
    using p(4) new(7) by (simp add: policies_readable_def rows)
  moreover have "length (policy_rows ''acme'' ''spend-cap'' example_policy_db) = 2"
    using p new by (simp add: policy_rows_def rows)
  ultimately show ?thesis using new(3) p(5) by blast
qed

section \<open>Properties\<close>

text \<open>C2. Evaluating the active policies of a scope is total on readable rows and picks the most severe
  match: when some active policy of the tenant and scope applies to the context, the decision carries the
  effect and the id of an applying policy that no applying policy precedes (deny before approval
  before evidence); when none applies, the decision is the unmatched default.\<close>

theorem evaluate_platform_policies_most_severe:
  assumes "policies_readable s"
  shows "\<exists>d. evaluate_platform_policies t sc context s = Inr d \<and>
    (if \<exists>p \<in> set (active_policies t sc s). policy_applies context p
     then \<exists>p \<in> set (active_policies t sc s). policy_applies context p \<and> pd_effect d = pp_effect p
        \<and> pd_matched_policy_id d = Some (pp_policy_id p)
        \<and> (\<forall>q \<in> set (active_policies t sc s). policy_applies context q \<longrightarrow>
             effect_precedence (the (effect_of (pp_effect p))) \<le> effect_precedence (the (effect_of (pp_effect q))))
     else pd_effect d = DEFAULT_ALLOW_EFFECT \<and> \<not> pd_matched d)"
proof -
  let ?ps = "filter (policy_applies context) (active_policies t sc s)"
  obtain d where d: "evaluate_platform_policies t sc context s = Inr d"
    using evaluate_readable(1) [OF assms] by (cases "evaluate_platform_policies t sc context s") auto
  have ms: "pd_matched_policies d = sort_key match_key (map (match_of context) ?ps)"
    by (rule evaluate_readable(2) [OF assms d])
  note eff = evaluate_readable(3) [OF assms d, unfolded ms]
  have wid: "pd_matched_policy_id d = map_option pm_policy_id (first_row (pd_matched_policies d))"
    "pd_matched d = (first_row (pd_matched_policies d) \<noteq> None)"
    using d by (auto simp: evaluate_platform_policies_def Let_def split: sum.splits)
  show ?thesis
  proof (cases "first_row (sort_key match_key (map (match_of context) ?ps))")
    case None
    then have "\<not> (\<exists>p \<in> set (active_policies t sc s). policy_applies context p)"
      by (simp add: filter_empty_conv)
    with None eff wid ms d show ?thesis by auto
  next
    case (Some w)
    from first_row_sort_key [OF this] obtain p where
      p: "p \<in> set ?ps" "w = match_of context p" and
      least: "\<forall>q \<in> set ?ps. match_key w \<le> match_key (match_of context q)"
      by auto
    have readable: "\<exists>e. effect_of (pp_effect q) = Some e" if "q \<in> set (active_policies t sc s)" for q
      using that assms by (auto simp: set_active_policies policies_readable_def policy_readable_def list_all_iff)
    have "effect_precedence (the (effect_of (pp_effect p))) \<le> effect_precedence (the (effect_of (pp_effect q)))"
      if "q \<in> set (active_policies t sc s)" "policy_applies context q" for q
      using least that p(2) match_key_le_precedence [of w "match_of context q"] by (simp add: match_of_def)
    moreover have "pd_effect d = pp_effect p"
      using eff Some p readable [of p] by (auto simp: match_of_def dest: effect_of_SomeD)
    moreover have "pd_matched_policy_id d = Some (pp_policy_id p)"
      using wid ms Some p by (simp add: match_of_def)
    ultimately show ?thesis using d p(1) by auto
  qed
qed

theorem evaluate_platform_policies_most_severe_witness:
  "policies_readable example_policy_db \<and>
   (\<exists>p \<in> set (active_policies ''acme'' ACTION_EXECUTION example_policy_db).
      policy_applies example_policy_context p) \<and>
   (\<exists>d. evaluate_platform_policies ''acme'' ACTION_EXECUTION example_policy_context example_policy_db = Inr d
      \<and> pd_matched_policy_id d \<noteq> None)"
proof -
  have ok: "policies_readable example_policy_db" using example_policy_facts by blast
  have ex: "\<exists>p \<in> set (active_policies ''acme'' ACTION_EXECUTION example_policy_db).
      policy_applies example_policy_context p" using example_policy_facts by blast
  from evaluate_platform_policies_most_severe [OF ok, of "''acme''" ACTION_EXECUTION example_policy_context] ok ex
  show ?thesis by auto
qed

text \<open>C3. In every database that authoring, revising and enforcement produce from an empty one, the
  revisions of a policy are numbered 1, 2, 3 and so on without a gap in the order they were written,
  exactly the newest is active and it is the one that a lookup returns, and the
  unique constraints of the table hold, so that no write of these operations can violate them.\<close>

theorem policy_revisions_append_only:
  assumes "policy_history s"
  shows "map pp_revision_number (policy_rows t pid s) = map (\<lambda>i. 1 + int i) [0..<length (policy_rows t pid s)]
    \<and> (policy_rows t pid s \<noteq> [] \<longrightarrow>
         get_platform_policy t pid s = Some (last (policy_rows t pid s))
         \<and> select_where (\<lambda>p. pp_status p = ''active'') (policy_rows t pid s) = [last (policy_rows t pid s)])
    \<and> platform_policy_constraints (platform_policies s)"
proof -
  have inv: "policies_inv s" using assms by (rule policy_history_inv)
  have chain: "chain_from pp_revision_number (\<lambda>p. pp_status p = ''active'') pp_replaced_by_revision_number 1
      (policy_rows t pid s)"
    using policies_invD(4) [OF inv] by (simp add: policy_chain_ok_def)
  have "select_where (\<lambda>p. pp_status p = ''active'') (policy_rows t pid s) = [last (policy_rows t pid s)]"
    if "policy_rows t pid s \<noteq> []"
    using policy_chain.chain_open_filter [OF chain that] .
  moreover have "get_platform_policy t pid s = Some (last (policy_rows t pid s))" if "policy_rows t pid s \<noteq> []"
    using that get_platform_policy_last(2) [OF inv] get_platform_policy_None by (metis not_None_eq)
  ultimately show ?thesis
    using policy_chain.chain_numbers [OF chain] policies_inv_constraints [OF inv] by blast
qed

theorem policy_revisions_append_only_witness:
  "policy_history example_policy_db \<and> length (policy_rows ''acme'' ''spend-cap'' example_policy_db) = 2
   \<and> map pp_revision_number (policy_rows ''acme'' ''spend-cap'' example_policy_db) = [1, 2]"
proof -
  have len: "length (policy_rows ''acme'' ''spend-cap'' example_policy_db) = 2" using example_policy_facts by blast
  from policy_revisions_append_only [OF example_policy_history(2), of "''acme''" "''spend-cap''"]
  show ?thesis
    using example_policy_history(2) by (simp add: len upt_rec)
qed

text \<open>A revision is idempotent: when a revision request returned, sending the same request again
  returns the same record, marked as a replay, and leaves the database as it is.\<close>

lemma revise_platform_policy_replay:
  assumes "revise_platform_policy decode request s = (Inr v, s')"
  shows "revise_platform_policy decode request s' = (Inr (v\<lparr>pv_idempotent_replay := True\<rparr>), s')"
proof -
  let ?t = "rq_tenant_id request" and ?key = "rq_idempotency_key request"
  from assms obtain c where c: "validate_rule_conditions decode (rq_conditions request) = Inr c"
    by (auto simp: revise_platform_policy_eq split: sum.splits)
  show ?thesis
  proof (cases "get_platform_policy_by_revision_idempotency_key ?t ?key s")
    case (Some p)
    with assms c have "s' = s" and row: "policy_from_record p True = Inr v"
      and "\<not> (pp_policy_id p \<noteq> rq_policy_id request \<or> \<not> revision_matches_request p request c)"
      by (auto simp: revise_platform_policy_eq split: if_splits)
    with Some c policy_from_record_replay [OF row, of True] show ?thesis
      by (simp add: revise_platform_policy_eq)
  next
    case None
    with assms c obtain p d ev where
      s': "s' = with_policy (with_superseded (with_audit_event s ev) p (pp_revision_number p + 1))
          (revised_policy p request c d (new_audit_event s ev))"
      and v: "policy_from_record (filled_policy (with_superseded (with_audit_event s ev) p (pp_revision_number p + 1))
          (revised_policy p request c d (new_audit_event s ev))) False = Inr v"
      by (auto simp: revise_platform_policy_eq Let_def split: sum.splits option.splits)
    let ?row = "filled_policy (with_superseded (with_audit_event s ev) p (pp_revision_number p + 1))
        (revised_policy p request c d (new_audit_event s ev))"
    have found: "get_platform_policy_by_revision_idempotency_key ?t ?key s' = Some ?row"
      unfolding s' by (rule revision_key_row_found) (use None in simp_all)
    have "revision_matches_request ?row request c" "pp_policy_id ?row = rq_policy_id request"
      by (simp_all add: revision_matches_request_def filled_policy_def revised_policy_def)
    with found c policy_from_record_replay [OF v, of True] show ?thesis
      unfolding revise_platform_policy_eq by simp
  qed
qed

theorem revise_platform_policy_replay_example:
  "\<exists>v. revise_platform_policy example_policy_decode example_policy_revision example_policy_db =
      (Inr (v\<lparr>pv_idempotent_replay := True\<rparr>), example_policy_db)"
proof -
  have "\<not> isl (fst (revise_platform_policy example_policy_decode example_policy_revision example_authored_db))"
    using example_policy_facts by blast
  then obtain v where "revise_platform_policy example_policy_decode example_policy_revision
      example_authored_db = (Inr v, example_policy_db)"
    unfolding example_policy_db_def by (metis isl_def obj_sumE prod.collapse)
  from revise_platform_policy_replay [OF this] show ?thesis by blast
qed

text \<open>C4. The enforcement point fails closed: when an active deny policy of the tenant and scope applies to
  the context, or the context is degraded and there is any active deny policy, the operation is
  refused and exactly one audit event that records the denial is appended; in every other case it is let
  through with a decision that is not a denial, and the database is unchanged.\<close>

theorem enforce_platform_policy_deny_fail_closed:
  assumes "policy_history s"
  shows "if \<exists>p \<in> set (active_policies t sc s). pp_effect p = effect_value DENY \<and> (degraded \<or> policy_applies context p)
    then \<exists>d. enforce_platform_policy_deny t a sc context point payload degraded s =
        (Inl (PlatformPolicyEnforcementDenied d (uuid_at s (uuid_n s)) ENFORCEMENT_DENIED_AUDIT_EVENT_TYPE),
         with_audit_event s (enforcement_denied_event t a point payload d))
    else \<exists>d. enforce_platform_policy_deny t a sc context point payload degraded s = (Inr d, s)
        \<and> pd_effect d \<noteq> effect_value DENY"
proof -
  have "policies_readable s" using assms policy_history_inv policies_invD(1) by blast
  then obtain d where d: "enforced_decision t sc context degraded s = Inr d"
    "pd_effect d = effect_value DENY \<longleftrightarrow>
       (\<exists>p \<in> set (active_policies t sc s). pp_effect p = effect_value DENY \<and> (degraded \<or> policy_applies context p))"
    by (rule enforced_deny_iff)
  show ?thesis
  proof (cases "pd_effect d = effect_value DENY")
    case True
    then have "enforce_platform_policy_deny t a sc context point payload degraded s =
        (Inl (PlatformPolicyEnforcementDenied d (uuid_at s (uuid_n s)) ENFORCEMENT_DENIED_AUDIT_EVENT_TYPE),
         with_audit_event s (enforcement_denied_event t a point payload d))"
      by (simp add: enforce_platform_policy_deny_eq Let_def d(1))
    with True d(2) show ?thesis by auto
  next
    case False
    then have "enforce_platform_policy_deny t a sc context point payload degraded s = (Inr d, s)"
      by (simp add: enforce_platform_policy_deny_eq d(1))
    with False d(2) show ?thesis by auto
  qed
qed


theorem enforce_platform_policy_deny_fail_closed_witness:
  "policy_history example_policy_db \<and>
   (\<exists>d. enforce_platform_policy_deny ''acme'' ''bob'' ACTION_EXECUTION example_policy_context ''action_run'' []
      False example_policy_db =
        (Inl (PlatformPolicyEnforcementDenied d (uuid_at example_policy_db (uuid_n example_policy_db))
           ENFORCEMENT_DENIED_AUDIT_EVENT_TYPE),
         with_audit_event example_policy_db (enforcement_denied_event ''acme'' ''bob'' ''action_run'' [] d)))"
proof -
  have "\<exists>p \<in> set (active_policies ''acme'' ACTION_EXECUTION example_policy_db).
      pp_effect p = effect_value DENY \<and> (False \<or> policy_applies example_policy_context p)" using example_policy_facts by blast
  with enforce_platform_policy_deny_fail_closed [OF example_policy_history(2), of "''acme''" ACTION_EXECUTION
      False example_policy_context "''bob''" "''action_run''" "[]"] example_policy_history(2)
  show ?thesis by simp
qed

end
