(* ===== verification/Fenced_Lease.thy ===== *)
theory Fenced_Lease
  imports Store
begin

text \<open>
  Leases with fencing tokens. A worker takes a row by stamping it with a token that was never used
  before, and gives it back by an update that is guarded by that token. The theory states the two writes
  on a list of rows and, as a locale over the columns involved, that a token which lost its row never
  matches a row again: a worker whose lease was taken over cannot finalize.
\<close>

section \<open>The writes\<close>

text \<open>The tokens that the rows carry.\<close>

definition row_tokens :: "('r \<Rightarrow> uuid option) \<Rightarrow> 'r list \<Rightarrow> uuid list" where
  "row_tokens token rows = concat (map (\<lambda>r. case token r of None \<Rightarrow> [] | Some t \<Rightarrow> [t]) rows)"

lemma set_row_tokens: "t \<in> set (row_tokens token rows) \<longleftrightarrow> (\<exists>r \<in> set rows. token r = Some t)"
  by (force simp: row_tokens_def split: option.splits)

lemma row_tokens_append [simp]: "row_tokens token (xs @ ys) = row_tokens token xs @ row_tokens token ys"
  by (simp add: row_tokens_def)

lemma row_tokens_simps [simp]:
  "row_tokens token [] = []"
  "row_tokens token (r # rs) = (case token r of None \<Rightarrow> [] | Some t \<Rightarrow> [t]) @ row_tokens token rs"
  by (simp_all add: row_tokens_def)

lemma row_tokens_unique:
  "distinct (row_tokens token rows) \<Longrightarrow> r \<in> set rows \<Longrightarrow> r' \<in> set rows \<Longrightarrow>
   token r = Some t \<Longrightarrow> token r' = Some t \<Longrightarrow> r = r'"
proof (induction rows)
  case (Cons x xs)
  have "\<And>y. y \<in> set xs \<Longrightarrow> token y = Some t \<Longrightarrow> token x \<noteq> Some t"
    using Cons.prems(1) by (auto simp: set_row_tokens)
  with Cons show ?case by (auto split: option.splits)
qed simp

text \<open>Taking the row with a key, and giving a row back under the guard of its token.\<close>

definition take_row :: "('r \<Rightarrow> uuid) \<Rightarrow> (uuid \<Rightarrow> 'r \<Rightarrow> 'r) \<Rightarrow> uuid \<Rightarrow> uuid \<Rightarrow> 'r list \<Rightarrow> 'r list" where
  "take_row key stamp k t rows = update_where (\<lambda>r. key r = k) (stamp t) rows"

definition fenced_match :: "('r \<Rightarrow> uuid) \<Rightarrow> ('r \<Rightarrow> uuid option) \<Rightarrow> ('r \<Rightarrow> bool) \<Rightarrow> uuid \<Rightarrow> uuid \<Rightarrow> 'r \<Rightarrow> bool" where
  "fenced_match key token leased k t r \<longleftrightarrow> key r = k \<and> token r = Some t \<and> leased r"

section \<open>The contract\<close>

locale fenced_lease =
  fixes key :: "'r \<Rightarrow> uuid"
    and token :: "'r \<Rightarrow> uuid option"
    and leased :: "'r \<Rightarrow> bool"
    and stamp :: "'a \<Rightarrow> uuid \<Rightarrow> 'r \<Rightarrow> 'r"
    and release :: "'b \<Rightarrow> 'r \<Rightarrow> 'r"
  assumes key_stamp: "key (stamp a t r) = key r"
    and token_stamp: "token (stamp a t r) = Some t"
    and key_release: "key (release b r) = key r"
    and token_release: "token (release b r) = None"
begin

lemma row_tokens_take:
  "set (row_tokens token (take_row key (stamp a) k t rows)) \<subseteq> insert t (set (row_tokens token rows))"
  by (induction rows) (auto simp: take_row_def token_stamp split: option.splits)

lemma distinct_take:
  assumes "distinct (map key rows)" "distinct (row_tokens token rows)" "t \<notin> set (row_tokens token rows)"
  shows "distinct (row_tokens token (take_row key (stamp a) k t rows))"
  using assms
proof (induction rows)
  case (Cons r rs)
  let ?rest = "take_row key (stamp a) k t rs"
  have rest: "distinct (row_tokens token ?rest)" using Cons by (auto split: option.splits)
  show ?case
  proof (cases "key r = k")
    case True
    with Cons.prems(1) have "\<forall>x \<in> set rs. key x \<noteq> k" by (auto simp: image_iff)
    then have "?rest = rs" by (simp add: take_row_def update_where_none)
    with True Cons.prems show ?thesis by (auto simp: take_row_def token_stamp split: option.splits)
  next
    case False
    then have eq: "take_row key (stamp a) k t (r # rs) = r # ?rest" by (simp add: take_row_def)
    show ?thesis
      using Cons.prems rest row_tokens_take [of a k t rs]
      unfolding eq by (cases "token r") (auto dest: subsetD)
  qed
qed (simp add: take_row_def)

lemma row_tokens_release:
  "set (row_tokens token (update_where (fenced_match key token leased k t) (release b) rows))
     \<subseteq> set (row_tokens token rows)"
  by (induction rows) (auto simp: token_release split: option.splits)

lemma distinct_release:
  assumes "distinct (row_tokens token rows)"
  shows "distinct (row_tokens token (update_where (fenced_match key token leased k t) (release b) rows))"
  using assms
proof (induction rows)
  case (Cons r rs)
  then show ?case
    using row_tokens_release [of k t b rs] by (cases "token r") (auto simp: token_release dest: subsetD)
qed simp

text \<open>A token that no row carries changes nothing.\<close>

lemma stale_release:
  assumes "t \<notin> set (row_tokens token rows)"
  shows "update_where (fenced_match key token leased k t) f rows = rows"
    and "rowcount (fenced_match key token leased k t) rows = 0"
  using assms by (auto simp: set_row_tokens fenced_match_def intro!: update_where_none)

text \<open>A release that matched gives up the token for good.\<close>

lemma release_drops:
  assumes "distinct (row_tokens token rows)" "rowcount (fenced_match key token leased k t) rows \<noteq> 0"
  shows "t \<notin> set (row_tokens token (update_where (fenced_match key token leased k t) (release b) rows))"
  using assms
proof (induction rows)
  case (Cons r rs)
  show ?case
  proof (cases "fenced_match key token leased k t r")
    case True
    then have "t \<notin> set (row_tokens token rs)" using Cons.prems(1) by (auto simp: fenced_match_def)
    with True show ?thesis
      using stale_release(1) [of t rs k "release b"] by (simp add: token_release)
  next
    case False
    then have rest: "rowcount (fenced_match key token leased k t) rs \<noteq> 0" using Cons.prems(2) by auto
    then have "t \<in> set (row_tokens token rs)" by (auto simp: set_row_tokens fenced_match_def)
    then have "token r \<noteq> Some t" using Cons.prems(1) by auto
    with False rest Cons show ?thesis by (auto split: option.splits)
  qed
qed simp

text \<open>A take over by a new token drops the old one.\<close>

lemma take_drops:
  assumes "distinct (map key rows)" "distinct (row_tokens token rows)"
    and "r \<in> set rows" "key r = k" "token r = Some old" "old \<noteq> t"
  shows "old \<notin> set (row_tokens token (take_row key (stamp a) k t rows))"
proof
  assume "old \<in> set (row_tokens token (take_row key (stamp a) k t rows))"
  then obtain x where "x \<in> set rows" "key x \<noteq> k" "token x = Some old"
    using assms(6) by (auto simp: set_row_tokens take_row_def set_update_where token_stamp)
  moreover have "x = r"
    using row_tokens_unique [OF assms(2) calculation(1) assms(3) calculation(3) assms(5)] .
  ultimately show False using assms(4) by simp
qed

text \<open>With distinct keys a release matches one row at most.\<close>

lemma release_at_most_one:
  "distinct (map key rows) \<Longrightarrow> rowcount (fenced_match key token leased k t) rows \<le> 1"
  by (rule rowcount_key_le_1 [where k = key and a = k]) (simp_all add: fenced_match_def)

end

end
