(* ===== verification/Approval_Outbox.thy ===== *)
theory Approval_Outbox
  imports Fenced_Lease Workflow_Signals "HOL-Library.Multiset"
begin

text \<open>
  Durable, at-least-once delivery of approval decisions (\<^verbatim>\<open>axis_api/approval_outbox.py\<close>, the outbox
  methods of \<^verbatim>\<open>axis_api/persistence.py\<close> and the constraints of the table in \<^verbatim>\<open>axis_api/models.py\<close>).
  A dispatcher claims due rows in one transaction, signals the workflow engine outside of any
  transaction, and finalizes each row in a transaction of its own that is fenced by the claim's token.
  The engine, the decoder of a stored payload and the random source are parameters. Transactions are
  atomic steps; what several dispatchers do at the same time is an interleaving of such steps.
\<close>

section \<open>Data\<close>

record outbox_settings =
  st_batch_size :: nat
  st_claim_timeout_seconds :: int
  st_max_attempts :: int
  st_retry_base_seconds :: int
  st_retry_max_seconds :: int

text \<open>The bounds that the settings model checks.\<close>

definition outbox_settings_valid :: "outbox_settings \<Rightarrow> pyfloat \<Rightarrow> bool" where
  "outbox_settings_valid st signal_timeout \<longleftrightarrow>
     1 \<le> st_batch_size st \<and> st_batch_size st \<le> 100
     \<and> 5 \<le> st_claim_timeout_seconds st \<and> st_claim_timeout_seconds st \<le> 3600
     \<and> 1 \<le> st_max_attempts st \<and> st_max_attempts st \<le> 100
     \<and> 1 \<le> st_retry_base_seconds st \<and> st_retry_base_seconds st \<le> 3600
     \<and> 1 \<le> st_retry_max_seconds st \<and> st_retry_max_seconds st \<le> 86400
     \<and> st_retry_base_seconds st \<le> st_retry_max_seconds st
     \<and> 0 < signal_timeout \<and> signal_timeout < of_int (st_claim_timeout_seconds st)"

record claimed_decision =
  cd_id :: uuid
  cd_tenant_id :: string
  cd_approval_id :: string
  cd_workflow_id :: string
  cd_signal_name :: string
  cd_schema_version :: string
  cd_decision :: string
  cd_decision_actor_id :: string
  cd_payload :: dict
  cd_attempt_count :: int
  cd_claim_token :: uuid

record run_result =
  rr_claimed :: nat
  rr_delivered :: nat
  rr_retried :: nat
  rr_dead_lettered :: nat
  rr_fenced :: nat

record delivery_status =
  ds_tenant_id :: string
  ds_approval_id :: string
  ds_decision_event_id :: uuid
  ds_workflow_id :: string
  ds_status :: string
  ds_attempt_count :: int
  ds_available_at :: timestamp
  ds_last_attempt_at :: "timestamp option"
  ds_delivered_at :: "timestamp option"
  ds_dead_lettered_at :: "timestamp option"
  ds_last_error_code :: "string option"

datatype delivery_outcome = Delivered | Retried | DeadLettered | Fenced

definition OUTBOX_ACTOR :: string where
  "OUTBOX_ACTOR = ''axis-approval-outbox''"

definition OUTBOX_DELIVERED_EVENT :: string where
  "OUTBOX_DELIVERED_EVENT = ''approval.decision.delivery.delivered''"

definition OUTBOX_DEAD_LETTER_EVENT :: string where
  "OUTBOX_DEAD_LETTER_EVENT = ''approval.decision.delivery.dead_lettered''"

definition SAFE_WORKFLOW_ERROR_CODES :: "string list" where
  "SAFE_WORKFLOW_ERROR_CODES =
     [''OSError'', ''RPCError'', ''RuntimeError'', ''TemporalConnectBackoffError'', ''TemporalError'',
      ''TimeoutError'', ''WorkflowFailureError'']"

section \<open>The constraints of the table\<close>

definition outbox_row_ok :: "outbox_row \<Rightarrow> bool" where
  "outbox_row_ok r \<longleftrightarrow>
     ob_status r \<in> {''pending'', ''dispatching'', ''delivered'', ''dead_letter''}
     \<and> 0 \<le> ob_attempt_count r
     \<and> (if ob_status r = ''dispatching''
        then ob_claim_token r \<noteq> None \<and> ob_claimed_at r \<noteq> None \<and> ob_lease_expires_at r \<noteq> None
        else ob_claim_token r = None \<and> ob_claimed_at r = None \<and> ob_lease_expires_at r = None)
     \<and> (if ob_status r = ''delivered'' then ob_delivered_at r \<noteq> None \<and> ob_dead_lettered_at r = None
        else ob_delivered_at r = None)
     \<and> (if ob_status r = ''dead_letter'' then ob_dead_lettered_at r \<noteq> None \<and> ob_delivered_at r = None
        else ob_dead_lettered_at r = None)"

definition outbox_constraints :: "outbox_row list \<Rightarrow> bool" where
  "outbox_constraints rows \<longleftrightarrow>
     distinct (map ob_id rows)
     \<and> distinct (map (\<lambda>r. (ob_tenant_id r, ob_approval_id r)) rows)
     \<and> list_all outbox_row_ok rows"

section \<open>The outbox table\<close>

text \<open>\<^verbatim>\<open>ApprovalDecisionOutboxCreate\<close>; the other columns take their defaults.\<close>

record outbox_create =
  oc_id :: uuid
  oc_tenant_id :: string
  oc_approval_id :: string
  oc_workflow_id :: string
  oc_signal_name :: string
  oc_schema_version :: string
  oc_decision :: string
  oc_decision_actor_id :: string
  oc_payload :: dict
  oc_available_at :: timestamp

definition new_outbox_row :: "outbox_create \<Rightarrow> timestamp \<Rightarrow> timestamp \<Rightarrow> outbox_row" where
  "new_outbox_row c created updated =
     \<lparr>ob_id = oc_id c, ob_tenant_id = oc_tenant_id c, ob_approval_id = oc_approval_id c,
      ob_workflow_id = oc_workflow_id c, ob_signal_name = oc_signal_name c,
      ob_schema_version = oc_schema_version c, ob_decision = oc_decision c,
      ob_decision_actor_id = oc_decision_actor_id c, ob_payload = oc_payload c,
      ob_status = ''pending'', ob_attempt_count = 0, ob_available_at = oc_available_at c,
      ob_claim_token = None, ob_claimed_at = None, ob_lease_expires_at = None,
      ob_last_attempt_at = None, ob_delivered_at = None, ob_dead_lettered_at = None,
      ob_last_error = None, ob_created_at = created, ob_updated_at = updated\<rparr>"

text \<open>The primary key and the unique constraint on tenant and approval refuse the insert.\<close>

definition create_approval_decision_outbox :: "outbox_create \<Rightarrow> (db, string, outbox_row) op" where
  "create_approval_decision_outbox c =
     bind_op (get_op (\<lambda>s. \<exists>r \<in> set (approval_decision_outbox s). ob_id r = oc_id c
         \<or> (ob_tenant_id r = oc_tenant_id c \<and> ob_approval_id r = oc_approval_id c))) (\<lambda>taken.
     if taken then raise_op ''uq_approval_decision_outbox_tenant_approval''
     else
       bind_op utc_now (\<lambda>created.
       bind_op utc_now (\<lambda>updated.
         let row = new_outbox_row c created updated
         in bind_op (put_op (\<lambda>s. s\<lparr>approval_decision_outbox := approval_decision_outbox s @ [row]\<rparr>)) (\<lambda>_.
            return_op row))))"

definition get_approval_decision_outbox :: "string \<Rightarrow> string \<Rightarrow> db \<Rightarrow> outbox_row option" where
  "get_approval_decision_outbox tenant_id approval_id s =
     first_row (select_where (\<lambda>r. ob_tenant_id r = tenant_id \<and> ob_approval_id r = approval_id)
       (approval_decision_outbox s))"

definition outbox_due :: "timestamp \<Rightarrow> outbox_row \<Rightarrow> bool" where
  "outbox_due now r \<longleftrightarrow>
     (ob_status r = ''pending'' \<and> ob_available_at r \<le> now)
     \<or> (ob_status r = ''dispatching''
        \<and> (case ob_lease_expires_at r of None \<Rightarrow> False | Some lease \<Rightarrow> lease \<le> now))"

definition outbox_batch :: "timestamp \<Rightarrow> nat \<Rightarrow> outbox_row list \<Rightarrow> outbox_row list" where
  "outbox_batch now limit rows =
     take limit (sort_key (\<lambda>r. (ob_available_at r, ob_created_at r, ob_id r))
       (select_where (outbox_due now) rows))"

definition claim_row :: "timestamp \<times> timestamp \<Rightarrow> uuid \<Rightarrow> outbox_row \<Rightarrow> outbox_row" where
  "claim_row = (\<lambda>(now, lease_expires_at) token r.
     r\<lparr>ob_status := ''dispatching'', ob_attempt_count := ob_attempt_count r + 1,
       ob_claim_token := Some token, ob_claimed_at := Some now,
       ob_lease_expires_at := Some lease_expires_at, ob_last_attempt_at := Some now,
       ob_updated_at := now\<rparr>)"

text \<open>The operations of the dispatcher do not raise: a failed delivery is an outcome.\<close>

type_synonym 'a outbox_op = "(db, unit, 'a) op"

text \<open>The loop over the selected rows draws one token per row.\<close>

fun claim_rows :: "timestamp \<times> timestamp \<Rightarrow> outbox_row list \<Rightarrow> (outbox_row list) outbox_op" where
  "claim_rows at_times [] = return_op []"
| "claim_rows at_times (row # rest) =
     bind_op uuid4 (\<lambda>token.
     bind_op (put_op (\<lambda>s. s\<lparr>approval_decision_outbox :=
         take_row ob_id (claim_row at_times) (ob_id row) token (approval_decision_outbox s)\<rparr>)) (\<lambda>_.
     bind_op (claim_rows at_times rest) (\<lambda>claimed.
     return_op (claim_row at_times token row # claimed))))"

definition claim_approval_decision_outbox ::
  "timestamp \<Rightarrow> timestamp \<Rightarrow> nat \<Rightarrow> (outbox_row list) outbox_op"
where
  "claim_approval_decision_outbox now lease_expires_at limit =
     bind_op (get_op (\<lambda>s. outbox_batch now limit (approval_decision_outbox s))) (\<lambda>rows.
     claim_rows (now, lease_expires_at) rows)"

abbreviation outbox_fence :: "uuid \<Rightarrow> uuid \<Rightarrow> outbox_row \<Rightarrow> bool" where
  "outbox_fence \<equiv> fenced_match ob_id ob_claim_token (\<lambda>r. ob_status r = ''dispatching'')"

text \<open>What the two finalizing updates write: a delivery at a time, or a retry or a dead letter.\<close>

datatype finalization =
    Complete (completed_at: timestamp)
  | Retry (retry_available_at: timestamp) (retry_updated_at: timestamp) (retry_error: string)
      (retry_dead_letter: bool)

fun finalize_row :: "finalization \<Rightarrow> outbox_row \<Rightarrow> outbox_row" where
  "finalize_row (Complete delivered_at) r =
     r\<lparr>ob_status := ''delivered'', ob_delivered_at := Some delivered_at, ob_dead_lettered_at := None,
       ob_claim_token := None, ob_claimed_at := None, ob_lease_expires_at := None,
       ob_last_error := None, ob_updated_at := delivered_at\<rparr>"
| "finalize_row (Retry available_at updated_at error dead_letter) r =
     r\<lparr>ob_status := (if dead_letter then ''dead_letter'' else ''pending''),
       ob_dead_lettered_at := (if dead_letter then Some updated_at else None),
       ob_available_at := available_at, ob_claim_token := None, ob_claimed_at := None,
       ob_lease_expires_at := None, ob_last_error := Some (take 200 error),
       ob_updated_at := updated_at\<rparr>"

definition finalize_outbox :: "uuid \<Rightarrow> uuid \<Rightarrow> finalization \<Rightarrow> bool outbox_op" where
  "finalize_outbox outbox_id claim_token f =
     bind_op (get_op (\<lambda>s. rowcount (outbox_fence outbox_id claim_token) (approval_decision_outbox s))) (\<lambda>n.
     bind_op (put_op (\<lambda>s. s\<lparr>approval_decision_outbox :=
         update_where (outbox_fence outbox_id claim_token) (finalize_row f) (approval_decision_outbox s)\<rparr>)) (\<lambda>_.
     return_op (n = 1)))"

definition complete_approval_decision_outbox :: "uuid \<Rightarrow> uuid \<Rightarrow> timestamp \<Rightarrow> bool outbox_op" where
  "complete_approval_decision_outbox outbox_id claim_token delivered_at =
     finalize_outbox outbox_id claim_token (Complete delivered_at)"

definition retry_approval_decision_outbox ::
  "uuid \<Rightarrow> uuid \<Rightarrow> timestamp \<Rightarrow> timestamp \<Rightarrow> string \<Rightarrow> bool \<Rightarrow> bool outbox_op"
where
  "retry_approval_decision_outbox outbox_id claim_token available_at updated_at error dead_letter =
     finalize_outbox outbox_id claim_token (Retry available_at updated_at error dead_letter)"

definition get_approval_decision_delivery_status :: "string \<Rightarrow> string \<Rightarrow> db \<Rightarrow> delivery_status option" where
  "get_approval_decision_delivery_status tenant_id approval_id s =
     (case get_approval_decision_outbox tenant_id approval_id s of
        None \<Rightarrow> None
      | Some row \<Rightarrow> Some
          \<lparr>ds_tenant_id = ob_tenant_id row, ds_approval_id = ob_approval_id row,
           ds_decision_event_id = ob_id row, ds_workflow_id = ob_workflow_id row,
           ds_status = ob_status row, ds_attempt_count = ob_attempt_count row,
           ds_available_at = ob_available_at row, ds_last_attempt_at = ob_last_attempt_at row,
           ds_delivered_at = ob_delivered_at row, ds_dead_lettered_at = ob_dead_lettered_at row,
           ds_last_error_code = ob_last_error row\<rparr>)"

section \<open>The dispatcher\<close>

text \<open>What is outside of the code: the decoder of a stored payload (\<open>Inl\<close> is the text of pydantic's
  \<^verbatim>\<open>ValidationError\<close>), what signalling the engine comes to for a claim, what reading the result of
  a workflow comes to (absent when the runtime has no reader), and the random source. The
  deadline that both external calls share may expire in either.\<close>

datatype signal_outcome = Signalled | SignalFailed signal_error | SignalDeadline

datatype read_outcome = ReadResult "dict option" | ReadFailed | ReadDeadline

record outbox_runtime =
  rt_decode :: "dict \<Rightarrow> string + signal_request"
  rt_signal :: "claimed_decision \<Rightarrow> signal_request \<Rightarrow> signal_outcome"
  rt_reader :: "(claimed_decision \<Rightarrow> read_outcome) option"
  rt_uniform :: "claimed_decision \<Rightarrow> pyfloat \<Rightarrow> pyfloat \<Rightarrow> pyfloat"

definition claimed_of_row :: "outbox_row \<Rightarrow> uuid \<Rightarrow> claimed_decision" where
  "claimed_of_row r token =
     \<lparr>cd_id = ob_id r, cd_tenant_id = ob_tenant_id r, cd_approval_id = ob_approval_id r,
      cd_workflow_id = ob_workflow_id r, cd_signal_name = ob_signal_name r,
      cd_schema_version = ob_schema_version r, cd_decision = ob_decision r,
      cd_decision_actor_id = ob_decision_actor_id r, cd_payload = ob_payload r,
      cd_attempt_count = ob_attempt_count r, cd_claim_token = token\<rparr>"

fun claimed_of_rows :: "outbox_row list \<Rightarrow> claimed_decision list" where
  "claimed_of_rows [] = []"
| "claimed_of_rows (r # rs) =
     (case ob_claim_token r of
        None \<Rightarrow> claimed_of_rows rs
      | Some token \<Rightarrow> claimed_of_row r token # claimed_of_rows rs)"

definition claim :: "outbox_settings \<Rightarrow> (claimed_decision list) outbox_op" where
  "claim st =
     bind_op utc_now (\<lambda>now.
     let lease_expires_at = now + timedelta_seconds (of_int (st_claim_timeout_seconds st)) in
     session_scope
       (bind_op (claim_approval_decision_outbox now lease_expires_at (st_batch_size st)) (\<lambda>rows.
        return_op (claimed_of_rows rows))))"

definition request_of :: "outbox_runtime \<Rightarrow> claimed_decision \<Rightarrow> string + signal_request" where
  "request_of rt row =
     (if cd_signal_name row \<noteq> APPROVAL_DECISION_SIGNAL_NAME
         \<or> cd_schema_version row \<noteq> APPROVAL_DECISION_SCHEMA_VERSION
      then Inl ''unsupported_contract''
      else case rt_decode rt (dset ''signal_name'' (JStr (cd_signal_name row)) (cd_payload row)) of
             Inl message \<Rightarrow> Inl message
           | Inr request \<Rightarrow>
               if sg_decision_event_id request \<noteq> Some (cd_id row)
                  \<or> sg_tenant_id request \<noteq> cd_tenant_id row
                  \<or> sg_workflow_id request \<noteq> cd_workflow_id row
                  \<or> sg_approval_id request \<noteq> cd_approval_id row
                  \<or> decision_value (sg_decision request) \<noteq> cd_decision row
                  \<or> sg_actor_id request \<noteq> Some (cd_decision_actor_id row)
               then Inl ''payload_row_mismatch'' else Inr request)"

text \<open>\<^verbatim>\<open>_error_code\<close> of a signal error and of a \<^verbatim>\<open>ValueError\<close> by its text (a \<^verbatim>\<open>ValidationError\<close> is one).\<close>

definition signal_error_code :: "signal_error \<Rightarrow> string" where
  "signal_error_code e =
     (if signal_reason e \<in> set SAFE_WORKFLOW_ERROR_CODES then signal_reason e else ''workflow_signal_error'')"

definition value_error_code :: "string \<Rightarrow> string" where
  "value_error_code message =
     (let sanitized = filter (\<lambda>c. is_alnum c \<or> c \<in> set ''._-'') message; code = take 80 sanitized
      in if message = [] then ''ValidationError'' else if code = [] then ''delivery_error'' else code)"

definition delivered_event :: "claimed_decision \<Rightarrow> audit_event_create" where
  "delivered_event row =
     \<lparr>ac_event_tenant_id = cd_tenant_id row, ac_event_actor_id = OUTBOX_ACTOR,
      ac_event_type = OUTBOX_DELIVERED_EVENT,
      ac_event_payload =
        [(''decision_event_id'', JStr (uuid_text (cd_id row))),
         (''approval_id'', JStr (cd_approval_id row)), (''workflow_id'', JStr (cd_workflow_id row)),
         (''attempt_count'', JInt (cd_attempt_count row))]\<rparr>"

definition dead_letter_event :: "claimed_decision \<Rightarrow> string \<Rightarrow> audit_event_create" where
  "dead_letter_event row error_code =
     \<lparr>ac_event_tenant_id = cd_tenant_id row, ac_event_actor_id = OUTBOX_ACTOR,
      ac_event_type = OUTBOX_DEAD_LETTER_EVENT,
      ac_event_payload =
        [(''decision_event_id'', JStr (uuid_text (cd_id row))),
         (''approval_id'', JStr (cd_approval_id row)), (''workflow_id'', JStr (cd_workflow_id row)),
         (''attempt_count'', JInt (cd_attempt_count row)), (''error_code'', JStr error_code)]\<rparr>"

definition finalize_success :: "claimed_decision \<Rightarrow> delivery_outcome outbox_op" where
  "finalize_success row =
     bind_op utc_now (\<lambda>now.
     bind_op (session_scope
       (bind_op (complete_approval_decision_outbox (cd_id row) (cd_claim_token row) now) (\<lambda>changed.
        if changed then bind_op (append_audit_event (delivered_event row)) (\<lambda>_. return_op changed)
        else return_op changed))) (\<lambda>changed.
     return_op (if changed then Delivered else Fenced)))"

definition retry_maximum :: "outbox_settings \<Rightarrow> int \<Rightarrow> int" where
  "retry_maximum st attempt_count =
     min (st_retry_max_seconds st) (st_retry_base_seconds st * 2 ^ nat (max 0 (attempt_count - 1)))"

definition retry_delay :: "outbox_settings \<Rightarrow> outbox_runtime \<Rightarrow> claimed_decision \<Rightarrow> int" where
  "retry_delay st rt row =
     timedelta_seconds (rt_uniform rt row 0 (of_int (retry_maximum st (cd_attempt_count row))))"

definition finalize_failure ::
  "outbox_settings \<Rightarrow> outbox_runtime \<Rightarrow> claimed_decision \<Rightarrow> string \<Rightarrow> bool \<Rightarrow> delivery_outcome outbox_op"
where
  "finalize_failure st rt row error_code permanent =
     bind_op utc_now (\<lambda>now.
     let exhausted = cd_attempt_count row \<ge> st_max_attempts st;
         dead_letter = (permanent \<or> exhausted);
         available_at = (if dead_letter then now else now + retry_delay st rt row)
     in bind_op (session_scope
          (bind_op (retry_approval_decision_outbox (cd_id row) (cd_claim_token row) available_at now
               error_code dead_letter) (\<lambda>changed.
           if changed \<and> dead_letter
           then bind_op (append_audit_event (dead_letter_event row error_code)) (\<lambda>_. return_op changed)
           else return_op changed))) (\<lambda>changed.
        return_op (if \<not> changed then Fenced else if dead_letter then DeadLettered else Retried)))"

datatype reconciliation = Matching | Conflicting | Unknown

text \<open>\<^verbatim>\<open>_reconcile\<close>; \<open>None\<close> is the shared deadline.\<close>

definition reconcile :: "outbox_runtime \<Rightarrow> claimed_decision \<Rightarrow> signal_request \<Rightarrow> reconciliation option" where
  "reconcile rt row request =
     (case rt_reader rt of
        None \<Rightarrow> Some Unknown
      | Some reader \<Rightarrow>
          (case reader row of
             ReadDeadline \<Rightarrow> None
           | ReadFailed \<Rightarrow> Some Unknown
           | ReadResult None \<Rightarrow> Some Unknown
           | ReadResult (Some result) \<Rightarrow>
               (case dget result ''decision'' of
                  JObj decision \<Rightarrow>
                    Some (if json_eq (JObj decision) (JObj (runtime_payload request))
                          then Matching else Conflicting)
                | _ \<Rightarrow> Some Conflicting)))"

datatype external_result = ExtDelivered | ExtReconciled reconciliation | ExtDeadline | ExtFailed signal_error

definition signal_or_reconcile :: "outbox_runtime \<Rightarrow> claimed_decision \<Rightarrow> signal_request \<Rightarrow> external_result" where
  "signal_or_reconcile rt row request =
     (case rt_signal rt row request of
        Signalled \<Rightarrow> ExtDelivered
      | SignalDeadline \<Rightarrow> ExtDeadline
      | SignalFailed e \<Rightarrow>
          if may_be_closed e
          then (case reconcile rt row request of
                  None \<Rightarrow> ExtDeadline
                | Some Unknown \<Rightarrow> ExtFailed e
                | Some r \<Rightarrow> ExtReconciled r)
          else ExtFailed e)"

definition deliver :: "outbox_settings \<Rightarrow> outbox_runtime \<Rightarrow> claimed_decision \<Rightarrow> delivery_outcome outbox_op" where
  "deliver st rt row =
     (case request_of rt row of
        Inl message \<Rightarrow> finalize_failure st rt row (value_error_code message) True
      | Inr request \<Rightarrow>
          (case signal_or_reconcile rt row request of
             ExtDeadline \<Rightarrow> finalize_failure st rt row ''TimeoutError'' False
           | ExtFailed e \<Rightarrow> finalize_failure st rt row (signal_error_code e) False
           | ExtReconciled Conflicting \<Rightarrow> finalize_failure st rt row ''completed_workflow_conflict'' True
           | ExtReconciled _ \<Rightarrow> finalize_success row
           | ExtDelivered \<Rightarrow> finalize_success row))"

fun deliver_batch ::
  "outbox_settings \<Rightarrow> outbox_runtime \<Rightarrow> claimed_decision list \<Rightarrow> (delivery_outcome list) outbox_op"
where
  "deliver_batch st rt [] = return_op []"
| "deliver_batch st rt (row # rest) =
     bind_op (deliver st rt row) (\<lambda>outcome.
     bind_op (deliver_batch st rt rest) (\<lambda>outcomes. return_op (outcome # outcomes)))"

text \<open>\<^verbatim>\<open>run_once\<close>. The deliveries of a batch run concurrently; \<open>schedule\<close> is the order in which their
  finalizing transactions commit.\<close>

definition run_once ::
  "outbox_settings \<Rightarrow> outbox_runtime \<Rightarrow> (claimed_decision list \<Rightarrow> claimed_decision list) \<Rightarrow> run_result outbox_op"
where
  "run_once st rt schedule =
     bind_op (claim st) (\<lambda>claimed.
     if claimed = []
     then return_op \<lparr>rr_claimed = 0, rr_delivered = 0, rr_retried = 0, rr_dead_lettered = 0, rr_fenced = 0\<rparr>
     else bind_op (deliver_batch st rt (schedule claimed)) (\<lambda>outcomes.
       return_op \<lparr>rr_claimed = length claimed, rr_delivered = count_list outcomes Delivered,
         rr_retried = count_list outcomes Retried, rr_dead_lettered = count_list outcomes DeadLettered,
         rr_fenced = count_list outcomes Fenced\<rparr>))"

section \<open>Lemmas\<close>

interpretation outbox_lease: fenced_lease ob_id ob_claim_token "\<lambda>r. ob_status r = ''dispatching''"
  claim_row finalize_row
proof
  fix f r
  show "ob_id (finalize_row f r) = ob_id r" "ob_claim_token (finalize_row f r) = None"
    by (cases f; simp)+
qed (simp_all add: claim_row_def split: prod.splits)

lemma claim_row_sel [simp]:
  "ob_id (claim_row a t r) = ob_id r" "ob_tenant_id (claim_row a t r) = ob_tenant_id r"
  "ob_approval_id (claim_row a t r) = ob_approval_id r" "ob_status (claim_row a t r) = ''dispatching''"
  "ob_attempt_count (claim_row a t r) = ob_attempt_count r + 1" "ob_claim_token (claim_row a t r) = Some t"
  "ob_lease_expires_at (claim_row a t r) = Some (snd a)"
  by (simp_all add: claim_row_def split: prod.splits)

lemma finalize_row_sel [simp]:
  "ob_id (finalize_row f r) = ob_id r" "ob_tenant_id (finalize_row f r) = ob_tenant_id r"
  "ob_approval_id (finalize_row f r) = ob_approval_id r" "ob_claim_token (finalize_row f r) = None"
  "ob_attempt_count (finalize_row f r) = ob_attempt_count r"
  by (cases f; simp)+

text \<open>A row that a claim may take.\<close>

definition claimable :: "outbox_row \<Rightarrow> bool" where
  "claimable r \<longleftrightarrow> ob_status r = ''pending'' \<or> ob_status r = ''dispatching''"

definition outbox_terminal :: "outbox_row \<Rightarrow> bool" where
  "outbox_terminal r \<longleftrightarrow> ob_status r = ''delivered'' \<or> ob_status r = ''dead_letter''"

lemma claim_row_ok: "outbox_row_ok r \<Longrightarrow> claimable r \<Longrightarrow> outbox_row_ok (claim_row a t r)"
  by (auto simp: outbox_row_ok_def claimable_def claim_row_def split: prod.splits)

lemma finalize_row_ok:
  "outbox_row_ok r \<Longrightarrow> ob_status r = ''dispatching'' \<Longrightarrow> outbox_row_ok (finalize_row f r)"
  by (cases f) (auto simp: outbox_row_ok_def)

lemma outbox_due_claimable: "outbox_due now r \<Longrightarrow> claimable r"
  by (auto simp: outbox_due_def claimable_def)

definition outbox_inv :: "db \<Rightarrow> bool" where
  "outbox_inv s \<longleftrightarrow> inj (uuid_at s) \<and> outbox_constraints (approval_decision_outbox s)
     \<and> ids_drawn s (row_tokens ob_claim_token (approval_decision_outbox s))"

lemma outbox_inv_distinct:
  assumes "outbox_inv s"
  shows "distinct (map ob_id (approval_decision_outbox s))" "distinct (row_tokens ob_claim_token (approval_decision_outbox s))"
    "r \<in> set (approval_decision_outbox s) \<Longrightarrow> outbox_row_ok r"
  using assms by (auto simp: outbox_inv_def outbox_constraints_def ids_drawn_def list_all_iff)

text \<open>One step of the claim loop.\<close>

definition claim_one :: "timestamp \<times> timestamp \<Rightarrow> outbox_row \<Rightarrow> db \<Rightarrow> db" where
  "claim_one a r s = s\<lparr>uuid_n := Suc (uuid_n s), approval_decision_outbox :=
     take_row ob_id (claim_row a) (ob_id r) (uuid_at s (uuid_n s)) (approval_decision_outbox s)\<rparr>"

lemma claim_rows_Cons_apply [simp]:
  "claim_rows a (r # rs) s =
     (case claim_rows a rs (claim_one a r s) of
        (Inl e, t) \<Rightarrow> (Inl e, t)
      | (Inr claimed, t) \<Rightarrow> (Inr (claim_row a (uuid_at s (uuid_n s)) r # claimed), t))"
  by (simp add: bind_op_def claim_one_def split: prod.splits sum.splits)

declare claim_rows.simps(2) [simp del]

lemma claim_one_inv:
  assumes "outbox_inv s" "r \<in> set (approval_decision_outbox s)" "claimable r"
  shows "outbox_inv (claim_one a r s)"
proof -
  let ?rows = "approval_decision_outbox s" and ?tok = "uuid_at s (uuid_n s)"
  let ?rows' = "take_row ob_id (claim_row a) (ob_id r) ?tok ?rows"
  have inj: "inj (uuid_at s)" and drawn: "ids_drawn s (row_tokens ob_claim_token ?rows)"
    and cons: "outbox_constraints ?rows"
    using assms(1) by (auto simp: outbox_inv_def)
  have fresh: "?tok \<notin> set (row_tokens ob_claim_token ?rows)"
    using inj drawn by (auto simp: ids_drawn_def inj_eq dest!: subsetD)
  have "distinct (row_tokens ob_claim_token ?rows')"
    using outbox_lease.distinct_take outbox_inv_distinct(1,2) [OF assms(1)] fresh by blast
  moreover have "set (row_tokens ob_claim_token ?rows') \<subseteq> uuid_at s ` {..<Suc (uuid_n s)}"
    using outbox_lease.row_tokens_take [of a "ob_id r" ?tok ?rows] drawn
    by (auto simp: ids_drawn_def lessThan_Suc)
  moreover have "outbox_constraints ?rows'"
  proof -
    have "x = r" if "x \<in> set ?rows" "ob_id x = ob_id r" for x
      using that assms(2) outbox_inv_distinct(1) [OF assms(1)] by (auto dest: distinct_key_unique)
    then have "list_all outbox_row_ok ?rows'"
      using cons assms(3) by (auto simp: outbox_constraints_def take_row_def list_all_iff set_update_where
          intro: claim_row_ok)
    then show ?thesis
      using cons by (simp add: outbox_constraints_def take_row_def map_update_where_same)
  qed
  ultimately show ?thesis
    using inj by (simp add: outbox_inv_def claim_one_def ids_drawn_def)
qed

text \<open>The table after a claim: the claimed rows in place of the rows with their ids.\<close>

definition merge_claimed :: "outbox_row list \<Rightarrow> outbox_row list \<Rightarrow> outbox_row list" where
  "merge_claimed claimed rows =
     map (\<lambda>r. case map_of (map (\<lambda>c. (ob_id c, c)) claimed) (ob_id r) of None \<Rightarrow> r | Some c \<Rightarrow> c) rows"

fun stamped :: "timestamp \<times> timestamp \<Rightarrow> (nat \<Rightarrow> uuid) \<Rightarrow> nat \<Rightarrow> outbox_row list \<Rightarrow> outbox_row list" where
  "stamped a u n [] = []"
| "stamped a u n (r # rs) = claim_row a (u n) r # stamped a u (Suc n) rs"

lemma stamped_ids [simp]: "map ob_id (stamped a u n rs) = map ob_id rs"
  by (induction rs arbitrary: n) simp_all

lemma stamped_id_set [simp]: "ob_id ` set (stamped a u n rs) = ob_id ` set rs"
  by (metis list.set_map stamped_ids)

lemma length_stamped [simp]: "length (stamped a u n rs) = length rs"
  by (induction rs arbitrary: n) simp_all

lemma claim_rows_spec:
  assumes "outbox_inv s" "distinct (map ob_id rs)"
    and "\<forall>r \<in> set rs. r \<in> set (approval_decision_outbox s) \<and> claimable r"
  shows "\<exists>s'. claim_rows a rs s = (Inr (stamped a (uuid_at s) (uuid_n s) rs), s') \<and> outbox_inv s'
     \<and> s' = s\<lparr>uuid_n := uuid_n s + length rs, approval_decision_outbox :=
         merge_claimed (stamped a (uuid_at s) (uuid_n s) rs) (approval_decision_outbox s)\<rparr>"
  using assms
proof (induction rs arbitrary: s)
  case Nil
  then show ?case by (simp add: merge_claimed_def)
next
  case (Cons r rs)
  let ?s1 = "claim_one a r s"
  have inv1: "outbox_inv ?s1" using Cons.prems by (intro claim_one_inv) simp_all
  have still: "\<forall>x \<in> set rs. x \<in> set (approval_decision_outbox ?s1) \<and> claimable x"
  proof
    fix x assume x: "x \<in> set rs"
    then have "ob_id x \<noteq> ob_id r" using Cons.prems(2) by (auto simp: image_iff)
    with x Cons.prems(3) show "x \<in> set (approval_decision_outbox ?s1) \<and> claimable x"
      by (auto simp: claim_one_def take_row_def set_update_where)
  qed
  from Cons.IH [OF inv1 _ still] Cons.prems(2) have
    IH: "claim_rows a rs ?s1 = (Inr (stamped a (uuid_at ?s1) (uuid_n ?s1) rs),
        ?s1\<lparr>uuid_n := uuid_n ?s1 + length rs, approval_decision_outbox :=
          merge_claimed (stamped a (uuid_at ?s1) (uuid_n ?s1) rs) (approval_decision_outbox ?s1)\<rparr>)"
    and inv': "outbox_inv (?s1\<lparr>uuid_n := uuid_n ?s1 + length rs, approval_decision_outbox :=
          merge_claimed (stamped a (uuid_at ?s1) (uuid_n ?s1) rs) (approval_decision_outbox ?s1)\<rparr>)"
    by auto
  let ?later = "stamped a (uuid_at s) (Suc (uuid_n s)) rs" and ?tok = "uuid_at s (uuid_n s)"
  have uniq: "x = r" if "x \<in> set (approval_decision_outbox s)" "ob_id x = ob_id r" for x
    using that Cons.prems(1,3) outbox_inv_distinct(1) by (metis distinct_key_unique list.set_intros(1))
  have none: "map_of (map (\<lambda>c. (ob_id c, c)) ?later) (ob_id r) = None"
    using Cons.prems(2) by (simp add: map_of_eq_None_iff image_image)
  have "merge_claimed ?later (take_row ob_id (claim_row a) (ob_id r) ?tok (approval_decision_outbox s)) =
      merge_claimed (claim_row a ?tok r # ?later) (approval_decision_outbox s)"
    using uniq none by (auto simp: merge_claimed_def take_row_def update_where_def)
  then show ?case
    using IH inv' by (simp add: claim_one_def)
qed


lemma outbox_batch_spec:
  assumes "outbox_inv s" and batch_def: "batch = outbox_batch now limit (approval_decision_outbox s)"
  shows "distinct (map ob_id batch)" "\<forall>r \<in> set batch. r \<in> set (approval_decision_outbox s) \<and> outbox_due now r"
    "length batch \<le> limit"
proof -
  let ?due = "select_where (outbox_due now) (approval_decision_outbox s)"
  let ?sorted = "sort_key (\<lambda>r. (ob_available_at r, ob_created_at r, ob_id r)) ?due"
  have "distinct (map ob_id ?due)"
    using outbox_inv_distinct(1) [OF assms(1)] by (simp add: select_where_def distinct_map_filter)
  then have "distinct (map ob_id ?sorted)" by (simp add: distinct_map)
  then show "distinct (map ob_id batch)"
    by (simp add: batch_def outbox_batch_def take_map [symmetric])
  show "\<forall>r \<in> set batch. r \<in> set (approval_decision_outbox s) \<and> outbox_due now r"
    by (auto simp: batch_def outbox_batch_def dest: in_set_takeD)
  show "length batch \<le> limit" by (simp add: batch_def outbox_batch_def)
qed

lemma claimed_of_rows_stamped:
  "claimed_of_rows (stamped a u n rs) = map2 (\<lambda>i r. claimed_of_row (claim_row a (u i) r) (u i)) [n..<n + length rs] rs"
proof (induction rs arbitrary: n)
  case (Cons r rs)
  then show ?case by (simp add: upt_conv_Cons del: upt_Suc)
qed simp

lemma outbox_inv_clock [simp]: "outbox_inv (s\<lparr>clock_n := n\<rparr>) = outbox_inv s"
  by (simp add: outbox_inv_def ids_drawn_def)

text \<open>What a claim does: the due rows, oldest first and at most a batch of them, each stamped with a
  token of its own.\<close>

lemma claim_spec:
  assumes "outbox_inv s" and now_def: "now = clock_at s (clock_n s)"
    and a_def: "a = (now, now + timedelta_seconds (of_int (st_claim_timeout_seconds st)))"
    and batch_def: "batch = outbox_batch now (st_batch_size st) (approval_decision_outbox s)"
  shows "claim st s = (Inr (claimed_of_rows (stamped a (uuid_at s) (uuid_n s) batch)),
      s\<lparr>clock_n := Suc (clock_n s), uuid_n := uuid_n s + length batch, approval_decision_outbox :=
        merge_claimed (stamped a (uuid_at s) (uuid_n s) batch) (approval_decision_outbox s)\<rparr>)"
    and "outbox_inv (snd (claim st s))"
proof -
  let ?s = "s\<lparr>clock_n := Suc (clock_n s)\<rparr>"
  have inv: "outbox_inv ?s" using assms(1) by simp
  have sel: "distinct (map ob_id batch)" "\<forall>r \<in> set batch. r \<in> set (approval_decision_outbox ?s) \<and> claimable r"
    using outbox_batch_spec(1,2) [OF assms(1) batch_def] outbox_due_claimable
    by (auto simp: batch_def)
  obtain s' where inv': "outbox_inv s'" and s': "s' = ?s\<lparr>uuid_n := uuid_n s + length batch,
      approval_decision_outbox := merge_claimed (stamped a (uuid_at s) (uuid_n s) batch) (approval_decision_outbox s)\<rparr>"
    using claim_rows_spec [OF inv sel, of a] by auto
  have rows: "claim_rows a batch ?s = (Inr (stamped a (uuid_at s) (uuid_n s) batch), s')"
    using claim_rows_spec [OF inv sel, of a] s' by auto
  have run: "claim st s = (Inr (claimed_of_rows (stamped a (uuid_at s) (uuid_n s) batch)), s')"
    using rows by (simp add: claim_def claim_approval_decision_outbox_def session_scope_def bind_op_def Let_def
        now_def [symmetric] a_def [symmetric] batch_def [symmetric])
  then show "claim st s = (Inr (claimed_of_rows (stamped a (uuid_at s) (uuid_n s) batch)),
      s\<lparr>clock_n := Suc (clock_n s), uuid_n := uuid_n s + length batch, approval_decision_outbox :=
        merge_claimed (stamped a (uuid_at s) (uuid_n s) batch) (approval_decision_outbox s)\<rparr>)"
    by (simp add: s')
  show "outbox_inv (snd (claim st s))" using run inv' by simp
qed

subsection \<open>Finalization\<close>

definition with_finalized :: "uuid \<Rightarrow> uuid \<Rightarrow> finalization \<Rightarrow> db \<Rightarrow> db" where
  "with_finalized k t f s = s\<lparr>approval_decision_outbox :=
     update_where (outbox_fence k t) (finalize_row f) (approval_decision_outbox s)\<rparr>"

definition fence_open :: "uuid \<Rightarrow> uuid \<Rightarrow> db \<Rightarrow> bool" where
  "fence_open k t s \<longleftrightarrow> rowcount (outbox_fence k t) (approval_decision_outbox s) = 1"

lemma finalize_outbox_apply [simp]:
  "finalize_outbox k t f s = (Inr (fence_open k t s), with_finalized k t f s)"
  by (simp add: finalize_outbox_def bind_op_def with_finalized_def fence_open_def)

lemma finalize_success_eq:
  "finalize_success row s =
     (let s1 = s\<lparr>clock_n := Suc (clock_n s)\<rparr>;
          s2 = with_finalized (cd_id row) (cd_claim_token row) (Complete (clock_at s (clock_n s))) s1
      in if fence_open (cd_id row) (cd_claim_token row) s
         then (Inr Delivered, with_audit_event s2 (delivered_event row)) else (Inr Fenced, s2))"
  by (simp add: finalize_success_def complete_approval_decision_outbox_def session_scope_def bind_op_def Let_def
      fence_open_def)

definition dead_letters :: "outbox_settings \<Rightarrow> claimed_decision \<Rightarrow> bool \<Rightarrow> bool" where
  "dead_letters st row permanent \<longleftrightarrow> permanent \<or> cd_attempt_count row \<ge> st_max_attempts st"

definition failure_of :: "outbox_settings \<Rightarrow> outbox_runtime \<Rightarrow> claimed_decision \<Rightarrow> string \<Rightarrow> bool \<Rightarrow> timestamp \<Rightarrow> finalization" where
  "failure_of st rt row code permanent now =
     Retry (if dead_letters st row permanent then now else now + retry_delay st rt row) now code
       (dead_letters st row permanent)"

lemma finalize_failure_eq:
  "finalize_failure st rt row code permanent s =
     (let s1 = s\<lparr>clock_n := Suc (clock_n s)\<rparr>;
          s2 = with_finalized (cd_id row) (cd_claim_token row)
                 (failure_of st rt row code permanent (clock_at s (clock_n s))) s1
      in if \<not> fence_open (cd_id row) (cd_claim_token row) s then (Inr Fenced, s2)
         else if dead_letters st row permanent
         then (Inr DeadLettered, with_audit_event s2 (dead_letter_event row code))
         else (Inr Retried, s2))"
  by (auto simp add: finalize_failure_def retry_approval_decision_outbox_def session_scope_def bind_op_def Let_def
      fence_open_def dead_letters_def failure_of_def)

lemma with_finalized_sel [simp]:
  "approval_decision_outbox (with_finalized k t f s) =
     update_where (outbox_fence k t) (finalize_row f) (approval_decision_outbox s)"
  "uuid_at (with_finalized k t f s) = uuid_at s" "uuid_n (with_finalized k t f s) = uuid_n s"
  "audit_events (with_finalized k t f s) = audit_events s"
  by (simp_all add: with_finalized_def)

lemma outbox_inv_cong:
  assumes "approval_decision_outbox t = approval_decision_outbox s" "uuid_at t = uuid_at s" "uuid_n s \<le> uuid_n t"
    and "outbox_inv s"
  shows "outbox_inv t"
  using assms ids_drawn_mono [of s _ t] by (simp add: outbox_inv_def)

lemma outbox_inv_audit [simp]: "outbox_inv s \<Longrightarrow> outbox_inv (with_audit_event s ev)"
  by (rule outbox_inv_cong [of _ s]) simp_all

lemma with_finalized_inv:
  assumes "outbox_inv s"
  shows "outbox_inv (with_finalized k t f s)"
proof -
  let ?rows = "approval_decision_outbox s"
  let ?rows' = "update_where (outbox_fence k t) (finalize_row f) ?rows"
  have "ids_drawn s (row_tokens ob_claim_token ?rows')"
    using outbox_lease.distinct_release [of ?rows k t f] outbox_lease.row_tokens_release [of k t f ?rows] assms
    by (auto simp: outbox_inv_def ids_drawn_def)
  moreover have "outbox_constraints ?rows'"
    using assms finalize_row_ok
    by (auto simp: outbox_inv_def outbox_constraints_def map_update_where_same list_all_iff set_update_where
        fenced_match_def)
  ultimately show ?thesis
    using assms by (simp add: outbox_inv_def ids_drawn_def)
qed

lemma finalize_success_inv: "outbox_inv s \<Longrightarrow> outbox_inv (snd (finalize_success row s))"
  by (auto simp: finalize_success_eq Let_def intro!: with_finalized_inv outbox_inv_audit)

lemma finalize_failure_inv: "outbox_inv s \<Longrightarrow> outbox_inv (snd (finalize_failure st rt row code permanent s))"
  by (auto simp: finalize_failure_eq Let_def intro!: with_finalized_inv outbox_inv_audit)

lemma fence_open_iff:
  assumes "outbox_inv s"
  shows "fence_open k t s \<longleftrightarrow>
    (\<exists>r \<in> set (approval_decision_outbox s). ob_id r = k \<and> ob_claim_token r = Some t \<and> ob_status r = ''dispatching'')"
proof -
  have "rowcount (outbox_fence k t) (approval_decision_outbox s) \<le> 1"
    using outbox_lease.release_at_most_one outbox_inv_distinct(1) [OF assms] by blast
  then have "fence_open k t s \<longleftrightarrow> rowcount (outbox_fence k t) (approval_decision_outbox s) \<noteq> 0"
    unfolding fence_open_def by presburger
  then show ?thesis by (auto simp: fenced_match_def)
qed

lemma fence_closed_stale:
  "t \<notin> set (row_tokens ob_claim_token (approval_decision_outbox s)) \<Longrightarrow>
     \<not> fence_open k t s \<and> with_finalized k t f s = s"
  by (simp add: fence_open_def with_finalized_def outbox_lease.stale_release)

section \<open>Interleavings of transactions\<close>

text \<open>One transaction of the system, as far as the outbox sees it: a decision is enqueued, some dispatcher claims, some dispatcher finalizes a claim it once
  made (or thinks it made) as a success or a failure, or something else happens that leaves the outbox alone.\<close>

inductive outbox_step :: "db \<Rightarrow> db \<Rightarrow> bool" where
  enqueued: "create_approval_decision_outbox c s = (Inr r, t) \<Longrightarrow> outbox_step s t"
| claimed: "claim st s = (Inr cs, t) \<Longrightarrow> outbox_step s t"
| succeeded: "finalize_success row s = (Inr out, t) \<Longrightarrow> outbox_step s t"
| failed: "finalize_failure st rt row code permanent s = (Inr out, t) \<Longrightarrow> outbox_step s t"
| elsewhere: "approval_decision_outbox t = approval_decision_outbox s \<Longrightarrow> uuid_at t = uuid_at s \<Longrightarrow>
     uuid_n s \<le> uuid_n t \<Longrightarrow> audit_events t = audit_events s @ new \<Longrightarrow>
     \<forall>e \<in> set new. ae_event_type e \<noteq> OUTBOX_DELIVERED_EVENT \<and> ae_event_type e \<noteq> OUTBOX_DEAD_LETTER_EVENT \<Longrightarrow>
     outbox_step s t"

definition outbox_reachable :: "db \<Rightarrow> bool" where
  "outbox_reachable s \<longleftrightarrow> (\<exists>clock uuids. inj uuids \<and> outbox_step\<^sup>*\<^sup>* (empty_db clock uuids) s)"

lemma create_outbox_apply:
  "create_approval_decision_outbox c s =
     (if \<exists>r \<in> set (approval_decision_outbox s). ob_id r = oc_id c
           \<or> (ob_tenant_id r = oc_tenant_id c \<and> ob_approval_id r = oc_approval_id c)
      then (Inl ''uq_approval_decision_outbox_tenant_approval'', s)
      else let row = new_outbox_row c (clock_at s (clock_n s)) (clock_at s (Suc (clock_n s)))
      in (Inr row, s\<lparr>clock_n := clock_n s + 2, approval_decision_outbox := approval_decision_outbox s @ [row]\<rparr>))"
  by (auto simp: create_approval_decision_outbox_def bind_op_def Let_def)

lemma new_outbox_row_sel [simp]:
  "ob_id (new_outbox_row c a b) = oc_id c" "ob_tenant_id (new_outbox_row c a b) = oc_tenant_id c"
  "ob_approval_id (new_outbox_row c a b) = oc_approval_id c" "ob_claim_token (new_outbox_row c a b) = None"
  "ob_status (new_outbox_row c a b) = ''pending''" "outbox_row_ok (new_outbox_row c a b)"
  by (simp_all add: new_outbox_row_def outbox_row_ok_def)

lemma outbox_step_inv: "outbox_step s t \<Longrightarrow> outbox_inv s \<Longrightarrow> outbox_inv t"
proof (induction rule: outbox_step.induct)
  case (enqueued c s r t)
  then show ?case
    by (auto simp: create_outbox_apply Let_def outbox_inv_def outbox_constraints_def ids_drawn_def split: if_splits) blast+
next
  case (claimed st s cs t)
  then show ?case using claim_spec(2) [OF claimed.prems refl refl refl, of st] by simp
next
  case (succeeded row s out t)
  then show ?case using finalize_success_inv [of s row] by simp
next
  case (failed st rt row code permanent s out t)
  then show ?case using finalize_failure_inv [of s st rt row code permanent] by simp
next
  case (elsewhere t s new)
  then show ?case using outbox_inv_cong by blast
qed

lemma outbox_steps_inv: "outbox_step\<^sup>*\<^sup>* s t \<Longrightarrow> outbox_inv s \<Longrightarrow> outbox_inv t"
  by (induction rule: rtranclp_induct) (auto intro: outbox_step_inv)

lemma outbox_reachable_inv: "outbox_reachable s \<Longrightarrow> outbox_inv s"
proof -
  assume "outbox_reachable s"
  then obtain clock uuids where "inj uuids" "outbox_step\<^sup>*\<^sup>* (empty_db clock uuids) s"
    by (auto simp: outbox_reachable_def)
  moreover have "outbox_inv (empty_db clock uuids)"
    using \<open>inj uuids\<close> by (simp add: outbox_inv_def empty_db_def outbox_constraints_def ids_drawn_def)
  ultimately show "outbox_inv s" by (blast intro: outbox_steps_inv)
qed


text \<open>A token that was drawn and that no row carries stays so.\<close>

definition stale :: "uuid \<Rightarrow> db \<Rightarrow> bool" where
  "stale t s \<longleftrightarrow> t \<in> uuid_at s ` {..<uuid_n s} \<and> t \<notin> set (row_tokens ob_claim_token (approval_decision_outbox s))"

lemma merge_claimed_mem:
  "x \<in> set (merge_claimed claimed rows) \<Longrightarrow>
     x \<in> set claimed \<or> x \<in> set rows \<and> ob_id x \<notin> ob_id ` set claimed"
  by (auto simp: merge_claimed_def image_image map_of_eq_None_iff split: option.splits dest!: map_of_SomeD)

lemma stamped_mem:
  "x \<in> set (stamped a u n rs) \<Longrightarrow> \<exists>i < length rs. x = claim_row a (u (n + i)) (rs ! i)"
proof (induction rs arbitrary: n)
  case (Cons r rs)
  then consider "x = claim_row a (u n) r" | "x \<in> set (stamped a u (Suc n) rs)" by auto
  then show ?case
  proof cases
    case 1
    then show ?thesis by (intro exI [of _ 0]) simp
  next
    case 2
    from Cons.IH [OF this] obtain i where "i < length rs" "x = claim_row a (u (Suc n + i)) (rs ! i)" by blast
    then show ?thesis by (intro exI [of _ "Suc i"]) simp
  qed
qed simp

lemma claim_tokens:
  assumes "outbox_inv s" "claim st s = (Inr cs, t)" "r \<in> set (approval_decision_outbox t)" "ob_claim_token r = Some tok"
  shows "tok \<in> set (row_tokens ob_claim_token (approval_decision_outbox s)) \<or> tok \<notin> uuid_at s ` {..<uuid_n s}"
proof -
  let ?now = "clock_at s (clock_n s)"
  let ?a = "(?now, ?now + timedelta_seconds (of_int (st_claim_timeout_seconds st)))"
  let ?batch = "outbox_batch ?now (st_batch_size st) (approval_decision_outbox s)"
  have t: "approval_decision_outbox t =
      merge_claimed (stamped ?a (uuid_at s) (uuid_n s) ?batch) (approval_decision_outbox s)"
    using claim_spec(1) [OF assms(1) refl refl refl, of st] assms(2) by auto
  from merge_claimed_mem [OF assms(3) [unfolded t]] show ?thesis
  proof
    assume "r \<in> set (stamped ?a (uuid_at s) (uuid_n s) ?batch)"
    then obtain i where "tok = uuid_at s (uuid_n s + i)" using stamped_mem assms(4) by fastforce
    moreover have "inj (uuid_at s)" using assms(1) by (simp add: outbox_inv_def)
    ultimately show ?thesis by (auto simp: inj_eq)
  next
    assume "r \<in> set (approval_decision_outbox s) \<and> ob_id r \<notin> ob_id ` set (stamped ?a (uuid_at s) (uuid_n s) ?batch)"
    then show ?thesis using assms(4) by (auto simp: set_row_tokens)
  qed
qed

lemma finalize_tokens:
  "set (row_tokens ob_claim_token (approval_decision_outbox (with_finalized k t f s)))
     \<subseteq> set (row_tokens ob_claim_token (approval_decision_outbox s))"
  using outbox_lease.row_tokens_release by simp

lemma finalize_success_outbox:
  "approval_decision_outbox (snd (finalize_success row s)) =
     approval_decision_outbox (with_finalized (cd_id row) (cd_claim_token row) (Complete (clock_at s (clock_n s))) s)"
  "uuid_at (snd (finalize_success row s)) = uuid_at s" "uuid_n s \<le> uuid_n (snd (finalize_success row s))"
  by (simp_all add: finalize_success_eq Let_def)

lemma finalize_failure_outbox:
  "approval_decision_outbox (snd (finalize_failure st rt row code permanent s)) =
     approval_decision_outbox (with_finalized (cd_id row) (cd_claim_token row)
       (failure_of st rt row code permanent (clock_at s (clock_n s))) s)"
  "uuid_at (snd (finalize_failure st rt row code permanent s)) = uuid_at s"
  "uuid_n s \<le> uuid_n (snd (finalize_failure st rt row code permanent s))"
  by (simp_all add: finalize_failure_eq Let_def)

lemma drawn_mono: "uuid_at t = uuid_at s \<Longrightarrow> uuid_n s \<le> uuid_n t \<Longrightarrow>
   x \<in> uuid_at s ` {..<uuid_n s} \<Longrightarrow> x \<in> uuid_at t ` {..<uuid_n t}"
  by fastforce

lemma stale_step:
  assumes "outbox_step s t" "outbox_inv s" "stale tok s"
  shows "stale tok t"
  using assms
proof (induction rule: outbox_step.induct)
  case (enqueued c s r t)
  then show ?case by (auto simp: create_outbox_apply Let_def stale_def split: if_splits)
next
  case (claimed st s cs t)
  have eq: "uuid_at t = uuid_at s" "uuid_n s \<le> uuid_n t"
    using claim_spec(1) [OF claimed.prems(1) refl refl refl, of st] claimed.hyps by auto
  have "tok \<notin> set (row_tokens ob_claim_token (approval_decision_outbox t))"
    using claim_tokens [OF claimed.prems(1) claimed.hyps] claimed.prems(2) by (auto simp: set_row_tokens stale_def)
  then show ?case using claimed.prems(2) drawn_mono [OF eq] by (simp add: stale_def)
next
  case (succeeded row s out t)
  then have "t = snd (finalize_success row s)" by simp
  then show ?case
    using succeeded.prems(2) finalize_success_outbox(1,2) [of row s] finalize_success_outbox(3) [of s row] finalize_tokens drawn_mono
    unfolding stale_def by (metis subsetD)
next
  case (failed st rt row code permanent s out t)
  then have "t = snd (finalize_failure st rt row code permanent s)" by simp
  then show ?case
    using failed.prems(2) finalize_failure_outbox(1,2) [of st rt row code permanent s]
      finalize_failure_outbox(3) [of s st rt row code permanent] finalize_tokens drawn_mono
    unfolding stale_def by (metis subsetD)
next
  case (elsewhere t s new)
  then show ?case using drawn_mono [of t s] by (simp add: stale_def)
qed

lemma stale_steps: "outbox_step\<^sup>*\<^sup>* s t \<Longrightarrow> outbox_inv s \<Longrightarrow> stale tok s \<Longrightarrow> stale tok t"
  by (induction rule: rtranclp_induct) (auto intro: stale_step outbox_steps_inv)

subsection \<open>Terminal rows\<close>

lemma finalize_keeps_terminal:
  "r \<in> set (approval_decision_outbox s) \<Longrightarrow> outbox_terminal r \<Longrightarrow>
   r \<in> set (approval_decision_outbox (with_finalized k t f s))"
  by (auto simp: set_update_where fenced_match_def outbox_terminal_def)

text \<open>What a claim makes of a row of the table.\<close>

lemma claim_table:
  assumes "outbox_inv s" "claim st s = (Inr cs, t)"
  obtains g where "approval_decision_outbox t = map g (approval_decision_outbox s)"
    "\<And>r. r \<in> set (approval_decision_outbox s) \<Longrightarrow>
       g r = r \<or> outbox_due (clock_at s (clock_n s)) r \<and> (\<exists>a tok. g r = claim_row a tok r)"
    "uuid_at t = uuid_at s" "uuid_n s \<le> uuid_n t" "audit_events t = audit_events s"
proof -
  let ?now = "clock_at s (clock_n s)"
  let ?a = "(?now, ?now + timedelta_seconds (of_int (st_claim_timeout_seconds st)))"
  let ?batch = "outbox_batch ?now (st_batch_size st) (approval_decision_outbox s)"
  let ?cl = "stamped ?a (uuid_at s) (uuid_n s) ?batch"
  let ?g = "\<lambda>r. case map_of (map (\<lambda>c. (ob_id c, c)) ?cl) (ob_id r) of None \<Rightarrow> r | Some c \<Rightarrow> c"
  have t: "t = s\<lparr>clock_n := Suc (clock_n s), uuid_n := uuid_n s + length ?batch,
      approval_decision_outbox := merge_claimed ?cl (approval_decision_outbox s)\<rparr>"
    using claim_spec(1) [OF assms(1) refl refl refl, of st] assms(2) by auto
  have "?g r = r \<or> outbox_due ?now r \<and> (\<exists>a tok. ?g r = claim_row a tok r)"
    if r: "r \<in> set (approval_decision_outbox s)" for r
  proof (cases "map_of (map (\<lambda>c. (ob_id c, c)) ?cl) (ob_id r)")
    case (Some c)
    then have c: "c \<in> set ?cl" "ob_id c = ob_id r" by (auto dest!: map_of_SomeD)
    then obtain i where i: "i < length ?batch" "c = claim_row ?a (uuid_at s (uuid_n s + i)) (?batch ! i)"
      using stamped_mem by blast
    then have b: "?batch ! i \<in> set (approval_decision_outbox s)" "outbox_due ?now (?batch ! i)"
      using outbox_batch_spec(2) [OF assms(1) refl] nth_mem by blast+
    then have "?batch ! i = r"
      using r c i outbox_inv_distinct(1) [OF assms(1)] by (auto dest: distinct_key_unique)
    with b i Some show ?thesis by auto
  qed simp
  moreover have "approval_decision_outbox t = map ?g (approval_decision_outbox s)"
    by (simp add: t merge_claimed_def)
  ultimately show thesis by (intro that [of ?g]) (simp_all add: t)
qed

lemma terminal_step:
  assumes "outbox_step s t" "outbox_inv s" "r \<in> set (approval_decision_outbox s)" "outbox_terminal r"
  shows "r \<in> set (approval_decision_outbox t)"
  using assms
proof (induction rule: outbox_step.induct)
  case (enqueued c s r' t)
  then show ?case by (auto simp: create_outbox_apply Let_def split: if_splits)
next
  case (claimed st s cs t)
  obtain g where t: "approval_decision_outbox t = map g (approval_decision_outbox s)"
    and g: "g r = r \<or> outbox_due (clock_at s (clock_n s)) r \<and> (\<exists>a tok. g r = claim_row a tok r)"
    using claim_table [OF claimed.prems(1) claimed.hyps] claimed.prems(2) by metis
  have "g r = r" using g claimed.prems(3) by (auto simp: outbox_due_def outbox_terminal_def)
  then show ?case using claimed.prems(2) by (metis list.set_map image_eqI t)
next
  case (succeeded row s out t)
  then show ?case using finalize_success_outbox(1) [of row s] finalize_keeps_terminal by (metis snd_conv)
next
  case (failed st rt row code permanent s out t)
  then show ?case using finalize_failure_outbox(1) [of st rt row code permanent s] finalize_keeps_terminal
    by (metis snd_conv)
next
  case (elsewhere t s new)
  then show ?case by simp
qed

lemma terminal_steps:
  "outbox_step\<^sup>*\<^sup>* s t \<Longrightarrow> outbox_inv s \<Longrightarrow> r \<in> set (approval_decision_outbox s) \<Longrightarrow> outbox_terminal r \<Longrightarrow>
   r \<in> set (approval_decision_outbox t)"
  by (induction rule: rtranclp_induct) (auto intro: terminal_step outbox_steps_inv)

subsection \<open>One audit event per terminal row\<close>

definition audited :: "db \<Rightarrow> bool" where
  "audited s \<longleftrightarrow>
     rowcount (\<lambda>e. ae_event_type e = OUTBOX_DELIVERED_EVENT) (audit_events s) =
       rowcount (\<lambda>r. ob_status r = ''delivered'') (approval_decision_outbox s)
   \<and> rowcount (\<lambda>e. ae_event_type e = OUTBOX_DEAD_LETTER_EVENT) (audit_events s) =
       rowcount (\<lambda>r. ob_status r = ''dead_letter'') (approval_decision_outbox s)"

lemma outbox_event_types [simp]:
  "OUTBOX_DELIVERED_EVENT \<noteq> OUTBOX_DEAD_LETTER_EVENT" "OUTBOX_DEAD_LETTER_EVENT \<noteq> OUTBOX_DELIVERED_EVENT"
  "ac_event_type (delivered_event row) = OUTBOX_DELIVERED_EVENT"
  "ac_event_type (dead_letter_event row code) = OUTBOX_DEAD_LETTER_EVENT"
  by (simp_all add: OUTBOX_DELIVERED_EVENT_def OUTBOX_DEAD_LETTER_EVENT_def delivered_event_def dead_letter_event_def)

lemma fence_rowcount:
  "outbox_inv s \<Longrightarrow> rowcount (outbox_fence k t) (approval_decision_outbox s) = (if fence_open k t s then 1 else 0)"
proof -
  assume "outbox_inv s"
  then have "rowcount (outbox_fence k t) (approval_decision_outbox s) \<le> 1"
    by (intro outbox_lease.release_at_most_one outbox_inv_distinct(1))
  then show ?thesis unfolding fence_open_def by presburger
qed

lemma rowcount_finalized:
  assumes "outbox_inv s" and that: "st = ''delivered'' \<or> st = ''dead_letter''"
  shows "rowcount (\<lambda>r. ob_status r = st) (approval_decision_outbox (with_finalized k t f s)) =
    rowcount (\<lambda>r. ob_status r = st) (approval_decision_outbox s) +
    (if fence_open k t s \<and> st \<noteq> ''dispatching'' \<and> (\<forall>r. ob_status (finalize_row f r) = st) then 1 else 0)"
proof -
  have uniform: "(\<forall>r. ob_status (finalize_row f r) = st) \<or> (\<forall>r. ob_status (finalize_row f r) \<noteq> st)"
    by (cases f) auto
  show ?thesis
  proof (cases "\<forall>r. ob_status (finalize_row f r) = st")
    case True
    have "rowcount (\<lambda>r. ob_status r = st) (update_where (outbox_fence k t) (finalize_row f) (approval_decision_outbox s)) =
        rowcount (\<lambda>r. ob_status r = st) (approval_decision_outbox s) + rowcount (outbox_fence k t) (approval_decision_outbox s)"
      by (rule rowcount_update_gain) (use True that in \<open>auto simp: fenced_match_def\<close>)
    with True that show ?thesis by (auto simp: fence_rowcount [OF assms(1)])
  next
    case False
    with uniform have "rowcount (\<lambda>r. ob_status r = st) (update_where (outbox_fence k t) (finalize_row f) (approval_decision_outbox s)) =
        rowcount (\<lambda>r. ob_status r = st) (approval_decision_outbox s)"
      by (intro rowcount_update_same) (use that in \<open>auto simp: fenced_match_def\<close>)
    with False show ?thesis by simp
  qed
qed


lemma outbox_inv_clock_step: "outbox_inv s \<Longrightarrow> outbox_inv (s\<lparr>clock_n := n\<rparr>)"
  by simp

lemma fence_open_clock [simp]: "fence_open k t (s\<lparr>clock_n := n\<rparr>) = fence_open k t s"
  by (simp add: fence_open_def)

lemma audited_success: "outbox_inv s \<Longrightarrow> audited s \<Longrightarrow> audited (snd (finalize_success row s))"
  using rowcount_finalized [OF outbox_inv_clock_step, of s "''delivered''"]
    rowcount_finalized [OF outbox_inv_clock_step, of s "''dead_letter''"]
  by (simp add: audited_def finalize_success_eq Let_def del: with_finalized_sel(1))

lemma audited_failure: "outbox_inv s \<Longrightarrow> audited s \<Longrightarrow> audited (snd (finalize_failure st rt row code permanent s))"
  using rowcount_finalized [OF outbox_inv_clock_step, of s "''delivered''"]
    rowcount_finalized [OF outbox_inv_clock_step, of s "''dead_letter''"]
  by (simp add: audited_def finalize_failure_eq failure_of_def Let_def del: with_finalized_sel(1))

lemma audited_step: "outbox_step s t \<Longrightarrow> outbox_inv s \<Longrightarrow> audited s \<Longrightarrow> audited t"
proof (induction rule: outbox_step.induct)
  case (enqueued c s r t)
  then show ?case by (auto simp: create_outbox_apply Let_def audited_def split: if_splits)
next
  case (claimed st s cs t)
  obtain g where t: "approval_decision_outbox t = map g (approval_decision_outbox s)"
    and g: "\<And>r. r \<in> set (approval_decision_outbox s) \<Longrightarrow>
       g r = r \<or> outbox_due (clock_at s (clock_n s)) r \<and> (\<exists>a tok. g r = claim_row a tok r)"
    and ev: "audit_events t = audit_events s"
    using claim_table [OF claimed.prems(1) claimed.hyps] by metis
  have "rowcount (\<lambda>r. ob_status r = v) (map g (approval_decision_outbox s)) =
      rowcount (\<lambda>r. ob_status r = v) (approval_decision_outbox s)" if "v = ''delivered'' \<or> v = ''dead_letter''" for v
    by (rule rowcount_map_same) (use g that in \<open>fastforce simp: outbox_due_def\<close>)
  then show ?case using claimed.prems(2) by (simp add: audited_def t ev)
next
  case (succeeded row s out t)
  then show ?case using audited_success [of s row] by simp
next
  case (failed st rt row code permanent s out t)
  then show ?case using audited_failure [of s st rt row code permanent] by simp
next
  case (elsewhere t s new)
  have "rowcount (\<lambda>e. ae_event_type e = OUTBOX_DELIVERED_EVENT) new = 0"
    "rowcount (\<lambda>e. ae_event_type e = OUTBOX_DEAD_LETTER_EVENT) new = 0"
    using elsewhere by auto
  then show ?case using elsewhere by (simp add: audited_def del: rowcount_zero)
qed

lemma reachable_audited:
  assumes "outbox_reachable s"
  shows "audited s"
proof -
  obtain clock uuids where inj: "inj uuids" and steps: "outbox_step\<^sup>*\<^sup>* (empty_db clock uuids) s"
    using assms by (auto simp: outbox_reachable_def)
  have inv: "outbox_inv (empty_db clock uuids)" "audited (empty_db clock uuids)"
    using inj by (simp_all add: outbox_inv_def empty_db_def outbox_constraints_def ids_drawn_def audited_def)
  from steps have "audited s \<and> outbox_inv s"
    by (induction rule: rtranclp_induct) (use inv in \<open>auto intro: audited_step outbox_step_inv\<close>)
  then show ?thesis ..
qed

subsection \<open>A batch\<close>

text \<open>A delivery finalizes its own row only.\<close>

lemma with_finalized_fence_other:
  "outbox_inv s \<Longrightarrow> k \<noteq> k' \<Longrightarrow> fence_open k' t' (with_finalized k t f s) = fence_open k' t' s"
  by (simp add: fence_open_iff with_finalized_inv set_update_where) (auto simp: fenced_match_def)

lemma fence_open_audit [simp]: "fence_open k t (with_audit_event s ev) = fence_open k t s"
  by (simp add: fence_open_def)

lemma deliver_cases:
  "deliver st rt row s = finalize_success row s \<or>
   (\<exists>code permanent. deliver st rt row s = finalize_failure st rt row code permanent s)"
  by (auto simp: deliver_def split: sum.splits external_result.splits reconciliation.splits)

lemma finalize_returns:
  "\<exists>out t. finalize_success row s = (Inr out, t)"
  "\<exists>out t. finalize_failure st rt row code permanent s = (Inr out, t)"
  by (simp_all add: finalize_success_eq finalize_failure_eq Let_def)

lemma deliver_spec:
  assumes "outbox_inv s"
  shows "\<exists>out t. deliver st rt row s = (Inr out, t) \<and> outbox_inv t
    \<and> (out = Fenced \<longleftrightarrow> \<not> fence_open (cd_id row) (cd_claim_token row) s)
    \<and> (\<forall>k' t'. k' \<noteq> cd_id row \<longrightarrow> fence_open k' t' t = fence_open k' t' s) \<and> outbox_step s t"
  using deliver_cases [of st rt row s]
proof (elim disjE exE)
  assume d: "deliver st rt row s = finalize_success row s"
  obtain out t where r: "finalize_success row s = (Inr out, t)" using finalize_returns(1) by blast
  then have "outbox_inv t" "outbox_step s t"
    using finalize_success_inv [OF assms, of row] outbox_step.succeeded by auto
  with r d assms show ?thesis
    by (auto simp: finalize_success_eq Let_def with_finalized_fence_other split: if_splits)
next
  fix code permanent
  assume d: "deliver st rt row s = finalize_failure st rt row code permanent s"
  obtain out t where r: "finalize_failure st rt row code permanent s = (Inr out, t)"
    using finalize_returns(2) by blast
  then have "outbox_inv t" "outbox_step s t"
    using finalize_failure_inv [OF assms, of st rt row code permanent] outbox_step.failed by auto
  with r d assms show ?thesis
    by (auto simp: finalize_failure_eq Let_def with_finalized_fence_other split: if_splits)
qed

lemma deliver_batch_spec:
  assumes "outbox_inv s" "distinct (map cd_id rows)"
    and "\<forall>row \<in> set rows. fence_open (cd_id row) (cd_claim_token row) s"
  shows "\<exists>outs t. deliver_batch st rt rows s = (Inr outs, t) \<and> outbox_inv t \<and> length outs = length rows
    \<and> Fenced \<notin> set outs \<and> outbox_step\<^sup>*\<^sup>* s t"
  using assms
proof (induction rows arbitrary: s)
  case (Cons row rows)
  obtain out s1 where d: "deliver st rt row s = (Inr out, s1)" "outbox_inv s1" "out \<noteq> Fenced" "outbox_step s s1"
    "\<forall>k' t'. k' \<noteq> cd_id row \<longrightarrow> fence_open k' t' s1 = fence_open k' t' s"
    using deliver_spec [OF Cons.prems(1), of st rt row] Cons.prems(3) by auto
  have "\<forall>r \<in> set rows. fence_open (cd_id r) (cd_claim_token r) s1"
    using d(5) Cons.prems(2,3) by (metis distinct.simps(2) image_eqI list.set_intros(2) list.set_map list.simps(9))
  from Cons.IH [OF d(2) _ this] Cons.prems(2) obtain outs t where
    "deliver_batch st rt rows s1 = (Inr outs, t)" "outbox_inv t" "length outs = length rows" "Fenced \<notin> set outs"
    "outbox_step\<^sup>*\<^sup>* s1 t" by auto
  with d show ?case by (auto simp: bind_op_def intro: converse_rtranclp_into_rtranclp)
qed simp

lemma outcome_counts:
  "length outs = count_list outs Delivered + count_list outs Retried + count_list outs DeadLettered + count_list outs Fenced"
proof (induction outs)
  case (Cons x xs)
  then show ?case by (cases x) simp_all
qed simp


subsection \<open>Claims\<close>

lemma claimed_of_rows_mem:
  "c \<in> set (claimed_of_rows rs) \<Longrightarrow> \<exists>r \<in> set rs. ob_claim_token r = Some (cd_claim_token c) \<and> c = claimed_of_row r (cd_claim_token c)"
  by (induction rs) (auto split: option.splits simp: claimed_of_row_def)

lemma claimed_of_rows_ids: "map cd_id (claimed_of_rows (stamped a u n rs)) = map ob_id rs"
  by (induction rs arbitrary: n) (simp_all add: claimed_of_row_def)

lemma claimed_of_rows_tokens: "map cd_claim_token (claimed_of_rows (stamped a u n rs)) = map u [n..<n + length rs]"
proof (induction rs arbitrary: n)
  case (Cons r rs)
  then show ?case by (simp add: claimed_of_row_def upt_conv_Cons del: upt_Suc)
qed simp

lemma merge_claimed_claimed:
  assumes "c \<in> set claimed" "distinct (map ob_id claimed)" "ob_id c \<in> ob_id ` set rows"
  shows "c \<in> set (merge_claimed claimed rows)"
proof -
  obtain r where r: "r \<in> set rows" "ob_id r = ob_id c" using assms(3) by auto
  have "map_of (map (\<lambda>c. (ob_id c, c)) claimed) (ob_id c) = Some c"
    using assms(1,2) by (intro map_of_is_SomeI) (auto simp: comp_def)
  then show ?thesis using r by (force simp: merge_claimed_def)
qed

lemma merge_claimed_other: "r \<in> set rows \<Longrightarrow> ob_id r \<notin> ob_id ` set claimed \<Longrightarrow> r \<in> set (merge_claimed claimed rows)"
proof -
  assume r: "r \<in> set rows" "ob_id r \<notin> ob_id ` set claimed"
  then have "map_of (map (\<lambda>c. (ob_id c, c)) claimed) (ob_id r) = None"
    by (simp add: map_of_eq_None_iff image_image)
  with r(1) show ?thesis by (force simp: merge_claimed_def)
qed

lemma claim_claims:
  assumes inv: "outbox_inv s" and run: "claim st s = (Inr cs, t)" and now: "now = clock_at s (clock_n s)"
    and a: "a = (now, now + timedelta_seconds (of_int (st_claim_timeout_seconds st)))"
  shows "length cs = min (st_batch_size st) (rowcount (outbox_due now) (approval_decision_outbox s))"
    and "distinct (map cd_claim_token cs)" and "distinct (map cd_id cs)"
    and "set (map cd_claim_token cs) \<inter> uuid_at s ` {..<uuid_n s} = {}"
    and "\<forall>c \<in> set cs. \<exists>r \<in> set (approval_decision_outbox s). ob_id r = cd_id c \<and> outbox_due now r
        \<and> c = claimed_of_row (claim_row a (cd_claim_token c) r) (cd_claim_token c)
        \<and> claim_row a (cd_claim_token c) r \<in> set (approval_decision_outbox t)"
    and "\<forall>r \<in> set (approval_decision_outbox s). ob_id r \<in> cd_id ` set cs \<or> r \<in> set (approval_decision_outbox t)"
proof -
  let ?rows = "approval_decision_outbox s"
  let ?batch = "outbox_batch now (st_batch_size st) ?rows"
  let ?cl = "stamped a (uuid_at s) (uuid_n s) ?batch"
  have cs: "cs = claimed_of_rows ?cl" and t: "approval_decision_outbox t = merge_claimed ?cl ?rows"
    using claim_spec(1) [OF inv now a refl] run by auto
  note batch = outbox_batch_spec [OF inv refl, of now "st_batch_size st"]
  have len: "length cs = length ?batch" by (metis cs claimed_of_rows_ids length_map)
  then show "length cs = min (st_batch_size st) (rowcount (outbox_due now) ?rows)"
    by (simp add: outbox_batch_def rowcount_def select_where_def min.commute)
  have inj: "inj (uuid_at s)" using inv by (simp add: outbox_inv_def)
  have toks: "map cd_claim_token cs = map (uuid_at s) [uuid_n s..<uuid_n s + length ?batch]"
    by (simp add: cs claimed_of_rows_tokens)
  show "distinct (map cd_claim_token cs)" unfolding toks using inj by (simp add: distinct_map inj_on_def)
  show "distinct (map cd_id cs)" using batch(1) by (simp add: cs claimed_of_rows_ids)
  show "set (map cd_claim_token cs) \<inter> uuid_at s ` {..<uuid_n s} = {}"
    unfolding toks using inj by (auto simp: inj_eq)
  show "\<forall>c \<in> set cs. \<exists>r \<in> set ?rows. ob_id r = cd_id c \<and> outbox_due now r
      \<and> c = claimed_of_row (claim_row a (cd_claim_token c) r) (cd_claim_token c)
      \<and> claim_row a (cd_claim_token c) r \<in> set (approval_decision_outbox t)"
  proof
    fix c assume "c \<in> set cs"
    then obtain x where x: "x \<in> set ?cl" "ob_claim_token x = Some (cd_claim_token c)" "c = claimed_of_row x (cd_claim_token c)"
      using claimed_of_rows_mem cs by blast
    then obtain i where i: "i < length ?batch" "x = claim_row a (uuid_at s (uuid_n s + i)) (?batch ! i)"
      using stamped_mem by blast
    let ?r = "?batch ! i"
    have r: "?r \<in> set ?rows" "outbox_due now ?r" using batch(2) nth_mem [OF i(1)] by auto
    have xr: "x = claim_row a (cd_claim_token c) ?r" using i(2) x(2) by simp
    have "x \<in> set (approval_decision_outbox t)"
      unfolding t using x(1) r(1) batch(1) xr by (intro merge_claimed_claimed) auto
    moreover have "cd_id c = ob_id ?r" using arg_cong [OF x(3), of cd_id] xr by (simp add: claimed_of_row_def)
    ultimately show "\<exists>r \<in> set ?rows. ob_id r = cd_id c \<and> outbox_due now r
      \<and> c = claimed_of_row (claim_row a (cd_claim_token c) r) (cd_claim_token c)
      \<and> claim_row a (cd_claim_token c) r \<in> set (approval_decision_outbox t)"
      using r x(3) xr by auto
  qed
  have "cd_id ` set cs = ob_id ` set ?cl" by (metis cs claimed_of_rows_ids list.set_map stamped_ids)
  then show "\<forall>r \<in> set ?rows. ob_id r \<in> cd_id ` set cs \<or> r \<in> set (approval_decision_outbox t)"
    using merge_claimed_other t by auto
qed


lemma claimed_fence_open:
  assumes "outbox_inv s" "claim st s = (Inr cs, t)" "c \<in> set cs"
  shows "fence_open (cd_id c) (cd_claim_token c) t"
proof -
  have inv: "outbox_inv t" using claim_spec(2) [OF assms(1) refl refl refl, of st] assms(2) by simp
  obtain r a where "claim_row a (cd_claim_token c) r \<in> set (approval_decision_outbox t)" "ob_id r = cd_id c"
    using claim_claims(5) [OF assms(1,2) refl refl] assms(3) by metis
  then show ?thesis unfolding fence_open_iff [OF inv] by (metis claim_row_sel(1,4,6))
qed

lemma claim_returns: "outbox_inv s \<Longrightarrow> \<exists>cs t. claim st s = (Inr cs, t) \<and> outbox_inv t \<and> outbox_step s t"
proof -
  assume inv: "outbox_inv s"
  obtain cs t where "claim st s = (Inr cs, t)" using claim_spec(1) [OF inv refl refl refl] by blast
  then show ?thesis
    using claim_spec(2) [OF inv refl refl refl, of st] outbox_step.claimed by auto
qed

lemma run_once_spec:
  assumes inv: "outbox_inv s" and perm: "\<And>xs. mset (schedule xs) = mset xs"
  shows "\<exists>res t. run_once st rt schedule s = (Inr res, t) \<and> outbox_step\<^sup>*\<^sup>* s t
    \<and> rr_claimed res = min (st_batch_size st) (rowcount (outbox_due (clock_at s (clock_n s))) (approval_decision_outbox s))
    \<and> rr_claimed res = rr_delivered res + rr_retried res + rr_dead_lettered res \<and> rr_fenced res = 0"
proof -
  obtain cs t where c: "claim st s = (Inr cs, t)" "outbox_inv t" "outbox_step s t" using claim_returns [OF inv] by blast
  note cl = claim_claims [OF inv c(1) refl refl]
  show ?thesis
  proof (cases "cs = []")
    case True
    then show ?thesis using c cl(1) by (auto simp: run_once_def bind_op_def)
  next
    case False
    have "set (schedule cs) = set cs" "length (schedule cs) = length cs"
      using perm [of cs] by (metis set_mset_mset, metis size_mset)
    moreover have "distinct (map cd_id (schedule cs))"
      using cl(3) perm [of cs] by (metis mset_eq_imp_distinct_iff mset_map)
    ultimately obtain outs u where d: "deliver_batch st rt (schedule cs) t = (Inr outs, u)"
      "length outs = length cs" "Fenced \<notin> set outs" "outbox_step\<^sup>*\<^sup>* t u"
      using deliver_batch_spec [OF c(2), of "schedule cs" st rt] claimed_fence_open [OF inv c(1)] by auto
    then have "count_list outs Fenced = 0" by (simp add: count_list_0_iff)
    with d outcome_counts [of outs] cl(1) False c show ?thesis
      by (auto simp: run_once_def bind_op_def intro: converse_rtranclp_into_rtranclp)
  qed
qed

subsection \<open>Retry delays\<close>

lemma retry_maximum_bounds:
  assumes "outbox_settings_valid st timeout"
  shows "1 \<le> retry_maximum st n" "retry_maximum st n \<le> st_retry_max_seconds st"
proof -
  have base: "1 \<le> st_retry_base_seconds st" "1 \<le> st_retry_max_seconds st"
    using assms by (auto simp: outbox_settings_valid_def)
  have pow: "(1::int) \<le> 2 ^ k" for k by simp
  show "1 \<le> retry_maximum st n"
    using base mult_mono [of 1 "st_retry_base_seconds st" 1 "2 ^ nat (max 0 (n - 1))"] by (simp add: retry_maximum_def)
  show "retry_maximum st n \<le> st_retry_max_seconds st" by (simp add: retry_maximum_def)
qed

lemma retry_delay_bounds:
  assumes "outbox_settings_valid st timeout" "\<And>row hi. 0 \<le> hi \<Longrightarrow> 0 \<le> rt_uniform rt row 0 hi \<and> rt_uniform rt row 0 hi \<le> hi"
  shows "0 \<le> retry_delay st rt row" "retry_delay st rt row \<le> retry_maximum st (cd_attempt_count row) * 1000000"
proof -
  let ?m = "retry_maximum st (cd_attempt_count row)"
  have "0 \<le> (of_int ?m :: rat)" using retry_maximum_bounds(1) [OF assms(1), of "cd_attempt_count row"] by simp
  from assms(2) [OF this, of row] show "0 \<le> retry_delay st rt row" "retry_delay st rt row \<le> ?m * 1000000"
    by (simp_all add: retry_delay_def timedelta_seconds_nonneg timedelta_seconds_le)
qed


section \<open>A concrete outbox\<close>

definition example_outbox_create :: outbox_create where
  "example_outbox_create =
     \<lparr>oc_id = 7, oc_tenant_id = ''acme'', oc_approval_id = ''appr-1'', oc_workflow_id = ''wf-1'',
      oc_signal_name = APPROVAL_DECISION_SIGNAL_NAME, oc_schema_version = APPROVAL_DECISION_SCHEMA_VERSION,
      oc_decision = ''approve'', oc_decision_actor_id = ''bob'', oc_payload = [], oc_available_at = 0\<rparr>"

definition example_outbox_settings :: outbox_settings where
  "example_outbox_settings =
     \<lparr>st_batch_size = 10, st_claim_timeout_seconds = 60, st_max_attempts = 3, st_retry_base_seconds = 1,
      st_retry_max_seconds = 300\<rparr>"

definition example_outbox_runtime :: outbox_runtime where
  "example_outbox_runtime =
     \<lparr>rt_decode = (\<lambda>d. Inl ''missing''), rt_signal = (\<lambda>c r. Signalled), rt_reader = None,
      rt_uniform = (\<lambda>c lo hi. (lo + hi) / 2)\<rparr>"

text \<open>A decision is enqueued, and a dispatcher claims it.\<close>

definition example_enqueued_db :: db where
  "example_enqueued_db =
     (empty_db int (\<lambda>n. n))\<lparr>clock_n := 2, approval_decision_outbox := [new_outbox_row example_outbox_create 0 1]\<rparr>"

definition example_claim_times :: "timestamp \<times> timestamp" where
  "example_claim_times = (2, 60000002)"

definition example_claimed_row :: outbox_row where
  "example_claimed_row = claim_row example_claim_times 0 (new_outbox_row example_outbox_create 0 1)"

definition example_claimed :: claimed_decision where
  "example_claimed = claimed_of_row example_claimed_row 0"

definition example_claimed_db :: db where
  "example_claimed_db =
     (empty_db int (\<lambda>n. n))\<lparr>clock_n := 3, uuid_n := 1, approval_decision_outbox := [example_claimed_row]\<rparr>"

lemma example_enqueued: "outbox_step (empty_db int (\<lambda>n. n)) example_enqueued_db"
  by (rule outbox_step.enqueued [of example_outbox_create])
    (simp_all add: create_outbox_apply Let_def empty_db_def example_enqueued_db_def get_approval_decision_outbox_def)

lemma example_reachable: "outbox_reachable example_enqueued_db"
  unfolding outbox_reachable_def using example_enqueued by (intro exI [of _ int] exI [of _ "\<lambda>n. n"]) auto

lemma example_claim: "claim example_outbox_settings example_enqueued_db = (Inr [example_claimed], example_claimed_db)"
proof -
  let ?row = "new_outbox_row example_outbox_create 0 1"
  have inv: "outbox_inv example_enqueued_db" using example_reachable by (rule outbox_reachable_inv)
  have db: "approval_decision_outbox example_enqueued_db = [?row]" "clock_n example_enqueued_db = 2"
    "clock_at example_enqueued_db = int" "uuid_at example_enqueued_db = (\<lambda>n. n)" "uuid_n example_enqueued_db = 0"
    by (simp_all add: example_enqueued_db_def empty_db_def)
  have batch: "outbox_batch 2 10 [?row] = [?row]"
    by (simp add: outbox_batch_def outbox_due_def new_outbox_row_def example_outbox_create_def)
  have a: "(2, 2 + timedelta_seconds (of_int (st_claim_timeout_seconds example_outbox_settings))) = example_claim_times"
    using timedelta_seconds_le [of 60 60]
    by (simp add: example_outbox_settings_def example_claim_times_def timedelta_seconds_def round_half_even_def)
  show ?thesis
    using claim_spec(1) [OF inv refl refl refl, of example_outbox_settings]
    by (simp add: db batch a example_claimed_def example_claimed_row_def merge_claimed_def example_claimed_db_def
        example_enqueued_db_def empty_db_def) (simp add: example_outbox_settings_def batch)
qed

lemma example_claimed_reachable: "outbox_reachable example_claimed_db"
  using example_reachable outbox_step.claimed [OF example_claim]
  unfolding outbox_reachable_def by (meson rtranclp.rtrancl_into_rtrancl)


lemma example_claimed_fence: "fence_open (cd_id example_claimed) (cd_claim_token example_claimed) example_claimed_db"
  by (rule claimed_fence_open [OF outbox_reachable_inv [OF example_reachable] example_claim]) simp

lemma deliver_unchanged:
  assumes "stale (cd_claim_token row) s"
  shows "deliver st rt row s = (Inr Fenced, s\<lparr>clock_n := Suc (clock_n s)\<rparr>)"
proof -
  let ?s = "s\<lparr>clock_n := Suc (clock_n s)\<rparr>"
  have st: "cd_claim_token row \<notin> set (row_tokens ob_claim_token (approval_decision_outbox ?s))"
    using assms by (simp add: stale_def)
  note closed = fence_closed_stale [OF st, of "cd_id row"]
  from deliver_cases [of st rt row s] closed show ?thesis
    by (auto simp: finalize_success_eq finalize_failure_eq Let_def)
qed

text \<open>After a successful finalization its token is stale.\<close>

lemma finalized_stale:
  assumes inv: "outbox_inv s" and run: "deliver st rt row s = (Inr out, t)" and "out \<noteq> Fenced"
  shows "stale (cd_claim_token row) t" "outbox_inv t"
proof -
  let ?k = "cd_id row" and ?tok = "cd_claim_token row"
  have fence: "fence_open ?k ?tok s" and "outbox_inv t"
    using deliver_spec [OF inv, of st rt row] run assms(3) by auto
  then show "outbox_inv t" by simp
  have tok: "?tok \<in> set (row_tokens ob_claim_token (approval_decision_outbox s))"
    using fence by (auto simp: fence_open_iff [OF inv] set_row_tokens)
  obtain f where t: "approval_decision_outbox t = approval_decision_outbox (with_finalized ?k ?tok f s)"
    "uuid_at t = uuid_at s" "uuid_n s \<le> uuid_n t"
    using deliver_cases [of st rt row s] run finalize_success_outbox finalize_failure_outbox by (metis snd_conv)
  have "?tok \<notin> set (row_tokens ob_claim_token (approval_decision_outbox t))"
    unfolding t(1) with_finalized_sel
    using outbox_lease.release_drops [OF outbox_inv_distinct(2) [OF inv], of ?k ?tok f] fence
    by (simp add: fence_rowcount [OF inv] del: rowcount_zero)
  moreover have "?tok \<in> uuid_at t ` {..<uuid_n t}"
    using tok inv drawn_mono [OF t(2,3)] by (auto simp: outbox_inv_def ids_drawn_def)
  ultimately show "stale ?tok t" by (simp add: stale_def)
qed

text \<open>A claim that takes a row over from an expired lease makes the old token stale.\<close>

lemma takeover_stale:
  assumes inv: "outbox_inv s" and run: "claim st s = (Inr cs, t)"
    and r: "r \<in> set (approval_decision_outbox s)" "ob_claim_token r = Some tok" "ob_id r \<in> cd_id ` set cs"
  shows "stale tok t" "outbox_inv t"
proof -
  let ?now = "clock_at s (clock_n s)"
  let ?a = "(?now, ?now + timedelta_seconds (of_int (st_claim_timeout_seconds st)))"
  let ?batch = "outbox_batch ?now (st_batch_size st) (approval_decision_outbox s)"
  let ?cl = "stamped ?a (uuid_at s) (uuid_n s) ?batch"
  have cs: "cs = claimed_of_rows ?cl" and t: "approval_decision_outbox t = merge_claimed ?cl (approval_decision_outbox s)"
    and eq: "uuid_at t = uuid_at s" "uuid_n s \<le> uuid_n t"
    using claim_spec(1) [OF inv refl refl refl, of st] run by auto
  show "outbox_inv t" using claim_spec(2) [OF inv refl refl refl, of st] run by simp
  have "tok \<in> set (row_tokens ob_claim_token (approval_decision_outbox s))"
    using r(1,2) by (auto simp: set_row_tokens)
  then have drawn: "tok \<in> uuid_at s ` {..<uuid_n s}" using inv by (auto simp: outbox_inv_def ids_drawn_def)
  have "tok \<notin> set (row_tokens ob_claim_token (approval_decision_outbox t))"
  proof
    assume "tok \<in> set (row_tokens ob_claim_token (approval_decision_outbox t))"
    then obtain y where y: "y \<in> set (merge_claimed ?cl (approval_decision_outbox s))" "ob_claim_token y = Some tok"
      by (auto simp: set_row_tokens t)
    from merge_claimed_mem [OF y(1)] show False
    proof
      assume "y \<in> set ?cl"
      then obtain i where "tok = uuid_at s (uuid_n s + i)" using stamped_mem y(2) by fastforce
      moreover have "inj (uuid_at s)" using inv by (simp add: outbox_inv_def)
      ultimately show False using drawn by (auto simp: inj_eq)
    next
      assume old: "y \<in> set (approval_decision_outbox s) \<and> ob_id y \<notin> ob_id ` set ?cl"
      then have "y = r" using row_tokens_unique [OF outbox_inv_distinct(2) [OF inv]] r y(2) by blast
      moreover have "cd_id ` set cs = ob_id ` set ?cl" by (metis cs claimed_of_rows_ids list.set_map stamped_ids)
      ultimately show False using old r(3) by simp
    qed
  qed
  then show "stale tok t" using drawn_mono [OF eq drawn] by (simp add: stale_def)
qed

text \<open>The claim of the example fails for good: its payload does not decode.\<close>

definition example_dead_db :: db where
  "example_dead_db = snd (deliver example_outbox_settings example_outbox_runtime example_claimed example_claimed_db)"

lemma example_deliver:
  "deliver example_outbox_settings example_outbox_runtime example_claimed example_claimed_db =
     (Inr DeadLettered, example_dead_db)"
  "deliver example_outbox_settings example_outbox_runtime example_claimed example_claimed_db =
     finalize_failure example_outbox_settings example_outbox_runtime example_claimed (value_error_code ''missing'') True
       example_claimed_db"
proof -
  have "request_of example_outbox_runtime example_claimed = Inl ''missing''"
    by (simp add: request_of_def example_claimed_def example_claimed_row_def claimed_of_row_def claim_row_def
        new_outbox_row_def example_outbox_create_def example_outbox_runtime_def example_claim_times_def)
  then show *: "deliver example_outbox_settings example_outbox_runtime example_claimed example_claimed_db =
     finalize_failure example_outbox_settings example_outbox_runtime example_claimed (value_error_code ''missing'') True
       example_claimed_db"
    by (simp add: deliver_def)
  show "deliver example_outbox_settings example_outbox_runtime example_claimed example_claimed_db =
     (Inr DeadLettered, example_dead_db)"
    using example_claimed_fence
    by (simp add: example_dead_db_def * finalize_failure_eq dead_letters_def Let_def)
qed

lemma example_dead_reachable: "outbox_reachable example_dead_db"
  using example_claimed_reachable outbox_step.failed [OF example_deliver(1) [unfolded example_deliver(2)]]
  unfolding outbox_reachable_def by (meson rtranclp.rtrancl_into_rtrancl)

lemma example_dead_row:
  obtains r where "r \<in> set (approval_decision_outbox example_dead_db)" "ob_status r = ''dead_letter''"
proof -
  have "finalize_row f example_claimed_row \<in> set (approval_decision_outbox (with_finalized 7 0 f example_claimed_db))" for f
    by (simp add: example_claimed_db_def example_claimed_row_def fenced_match_def example_outbox_create_def)
  moreover have "cd_id example_claimed = 7" "cd_claim_token example_claimed = 0"
    by (simp_all add: example_claimed_def claimed_of_row_def example_claimed_row_def example_outbox_create_def)
  ultimately show thesis
    using finalize_failure_outbox(1) [of example_outbox_settings example_outbox_runtime example_claimed
        "value_error_code ''missing''" True example_claimed_db]
    by (intro that) (auto simp: example_dead_db_def example_deliver(2) failure_of_def dead_letters_def)
qed

section \<open>Properties\<close>

text \<open>In every database that an interleaving of transactions produces from an empty one, the outbox
  table satisfies all of its declared constraints: unique ids and approvals, known statuses, claim columns set exactly
  while a row is dispatching, and delivery and dead-letter times set exactly in their states.\<close>

lemma outbox_constraints_hold:
  assumes "outbox_reachable s"
  shows "outbox_constraints (approval_decision_outbox s)"
  using outbox_reachable_inv [OF assms] by (simp add: outbox_inv_def)

theorem outbox_constraints_hold_example:
  "outbox_reachable example_claimed_db \<and> approval_decision_outbox example_claimed_db \<noteq> []
   \<and> outbox_constraints (approval_decision_outbox example_claimed_db)"
  using outbox_constraints_hold [OF example_claimed_reachable] example_claimed_reachable
  by (simp add: example_claimed_db_def)

text \<open>A delivered or dead-lettered row is final: no later transaction of any dispatcher, with
  whatever token it holds, changes a column of it.\<close>

lemma outbox_terminal_final:
  assumes "outbox_reachable s" "outbox_step\<^sup>*\<^sup>* s t"
    and "r \<in> set (approval_decision_outbox s)" "outbox_terminal r"
  shows "r \<in> set (approval_decision_outbox t)"
  using terminal_steps [OF assms(2) outbox_reachable_inv [OF assms(1)] assms(3,4)] .

lemma outbox_terminal_final_example:
  "\<exists>r cs t. outbox_reachable example_dead_db \<and> r \<in> set (approval_decision_outbox example_dead_db)
     \<and> outbox_terminal r \<and> claim example_outbox_settings example_dead_db = (Inr cs, t)
     \<and> r \<in> set (approval_decision_outbox t)"
proof -
  obtain r where r: "r \<in> set (approval_decision_outbox example_dead_db)" "outbox_terminal r"
    using example_dead_row by (auto simp: outbox_terminal_def)
  obtain cs t where c: "claim example_outbox_settings example_dead_db = (Inr cs, t)" "outbox_step example_dead_db t"
    using claim_returns [OF outbox_reachable_inv [OF example_dead_reachable]] by blast
  from outbox_terminal_final [OF example_dead_reachable r_into_rtranclp [of outbox_step, OF c(2)] r] r c(1) example_dead_reachable
  show ?thesis by blast
qed

text \<open>A claim is finalized once: after a delivery has finalized its claim, by success or
  failure, every later attempt to finalize with the same token, by whichever dispatcher and after whatever
  other transactions, is fenced off and writes nothing.\<close>

lemma outbox_finalized_once:
  assumes "outbox_reachable s" "deliver st rt row s = (Inr out, t)" "out \<noteq> Fenced"
    and "outbox_step\<^sup>*\<^sup>* t u" "cd_claim_token row' = cd_claim_token row"
  shows "deliver st' rt' row' u = (Inr Fenced, u\<lparr>clock_n := Suc (clock_n u)\<rparr>)"
  using stale_steps [OF assms(4)] finalized_stale [OF outbox_reachable_inv [OF assms(1)] assms(2,3)] assms(5)
  by (intro deliver_unchanged) simp

lemma outbox_finalized_once_example:
  "outbox_reachable example_claimed_db
   \<and> deliver example_outbox_settings example_outbox_runtime example_claimed example_claimed_db = (Inr DeadLettered, example_dead_db)
   \<and> deliver example_outbox_settings example_outbox_runtime example_claimed example_dead_db =
       (Inr Fenced, example_dead_db\<lparr>clock_n := Suc (clock_n example_dead_db)\<rparr>)"
  using outbox_finalized_once [OF example_claimed_reachable example_deliver(1) _ rtranclp.rtrancl_refl refl]
    example_claimed_reachable example_deliver(1) by simp

text \<open>C5. A worker that lost its lease cannot finalize: once a claim takes over a row from an expired
  lease, every later attempt to finalize with the old token is fenced off and writes nothing.\<close>

theorem outbox_takeover_fences:
  assumes "outbox_reachable s" "claim st s = (Inr cs, t)"
    and "r \<in> set (approval_decision_outbox s)" "ob_claim_token r = Some (cd_claim_token old)" "ob_id r \<in> cd_id ` set cs"
    and "outbox_step\<^sup>*\<^sup>* t u"
  shows "deliver st' rt' old u = (Inr Fenced, u\<lparr>clock_n := Suc (clock_n u)\<rparr>)"
  using stale_steps [OF assms(6)] takeover_stale [OF outbox_reachable_inv [OF assms(1)] assms(2-5)]
  by (intro deliver_unchanged) simp

theorem outbox_takeover_fences_witness:
  "\<exists>s cs t. outbox_reachable s \<and> claim example_outbox_settings s = (Inr cs, t) \<and> cs \<noteq> []
     \<and> example_claimed_row \<in> set (approval_decision_outbox s)
     \<and> deliver example_outbox_settings example_outbox_runtime example_claimed t =
         (Inr Fenced, t\<lparr>clock_n := Suc (clock_n t)\<rparr>)"
proof -
  let ?s = "example_claimed_db\<lparr>clock_n := 60000002\<rparr>"
  have "outbox_step example_claimed_db ?s" by (rule outbox_step.elsewhere [of _ _ "[]"]) simp_all
  then have reach: "outbox_reachable ?s"
    using example_claimed_reachable unfolding outbox_reachable_def by (meson rtranclp.rtrancl_into_rtrancl)
  obtain cs t where run: "claim example_outbox_settings ?s = (Inr cs, t)"
    using claim_returns [OF outbox_reachable_inv [OF reach]] by blast
  have row: "approval_decision_outbox ?s = [example_claimed_row]" by (simp add: example_claimed_db_def)
  have now: "clock_at ?s (clock_n ?s) = 60000002" by (simp add: example_claimed_db_def empty_db_def)
  have due: "outbox_due 60000002 example_claimed_row"
    by (simp add: outbox_due_def example_claimed_row_def example_claim_times_def)
  note cl = claim_claims [OF outbox_reachable_inv [OF reach] run refl refl, unfolded row now]
  have "length cs = 1" using cl(1) due by (simp add: example_outbox_settings_def)
  then obtain c where c: "cs = [c]" by (auto simp: length_Suc_conv)
  then have "ob_id example_claimed_row \<in> cd_id ` set cs" using cl(5) by auto
  moreover have "ob_claim_token example_claimed_row = Some (cd_claim_token example_claimed)"
    by (simp add: example_claimed_def claimed_of_row_def example_claimed_row_def)
  ultimately have "deliver example_outbox_settings example_outbox_runtime example_claimed t =
      (Inr Fenced, t\<lparr>clock_n := Suc (clock_n t)\<rparr>)"
    using outbox_takeover_fences [OF reach run _ _ _ rtranclp.rtrancl_refl, of example_claimed_row] row by simp
  with reach run c row show ?thesis by (intro exI [of _ ?s] exI [of _ cs] exI [of _ t]) simp
qed

text \<open>A claim takes as many due rows as fit in a batch and no row that another dispatcher still
  holds: each claimed row was pending and available, or dispatching with an expired lease; it is stamped with a
  token that was never used before, with the lease and one more attempt; and every other row is left as it was.\<close>

lemma claim_takes_due_rows:
  assumes "outbox_reachable s" "claim st s = (Inr cs, t)" "now = clock_at s (clock_n s)"
    and "a = (now, now + timedelta_seconds (of_int (st_claim_timeout_seconds st)))"
  shows "length cs = min (st_batch_size st) (rowcount (outbox_due now) (approval_decision_outbox s))
    \<and> distinct (map cd_claim_token cs) \<and> set (map cd_claim_token cs) \<inter> uuid_at s ` {..<uuid_n s} = {}
    \<and> (\<forall>c \<in> set cs. \<exists>r \<in> set (approval_decision_outbox s). ob_id r = cd_id c \<and> outbox_due now r
        \<and> claim_row a (cd_claim_token c) r \<in> set (approval_decision_outbox t))
    \<and> (\<forall>r \<in> set (approval_decision_outbox s). ob_id r \<in> cd_id ` set cs \<or> r \<in> set (approval_decision_outbox t))"
  using claim_claims [OF outbox_reachable_inv [OF assms(1)] assms(2-4)] by blast

lemma claim_takes_due_rows_example:
  "outbox_reachable example_enqueued_db
   \<and> claim example_outbox_settings example_enqueued_db = (Inr [example_claimed], example_claimed_db)
   \<and> rowcount (outbox_due 2) (approval_decision_outbox example_enqueued_db) = 1"
proof -
  have now: "2 = clock_at example_enqueued_db (clock_n example_enqueued_db)"
    by (simp add: example_enqueued_db_def empty_db_def)
  from claim_takes_due_rows [OF example_reachable example_claim now refl]
  have "1 = min (st_batch_size example_outbox_settings) (rowcount (outbox_due 2) (approval_decision_outbox example_enqueued_db))"
    by (metis length_Cons list.size(3) One_nat_def)
  then have "rowcount (outbox_due 2) (approval_decision_outbox example_enqueued_db) = 1"
    by (simp add: example_outbox_settings_def min_def split: if_splits)
  then show ?thesis using example_reachable example_claim by simp
qed

text \<open>A failed delivery whose claim is still current is disposed of by the retry policy: it is
  dead-lettered when the failure is permanent or the attempts are used up, and otherwise it becomes pending
  again, available after a delay that is not negative, at most the doubled base delay and at most the
  configured maximum.\<close>

lemma finalize_failure_policy:
  assumes "outbox_reachable s" "fence_open (cd_id row) (cd_claim_token row) s"
    and "outbox_settings_valid st timeout"
    and "\<And>c hi. 0 \<le> hi \<Longrightarrow> 0 \<le> rt_uniform rt c 0 hi \<and> rt_uniform rt c 0 hi \<le> hi"
    and "now = clock_at s (clock_n s)"
  shows "\<exists>out t r. finalize_failure st rt row code permanent s = (Inr out, t)
    \<and> r \<in> set (approval_decision_outbox t) \<and> ob_id r = cd_id row \<and> ob_claim_token r = None
    \<and> (if permanent \<or> st_max_attempts st \<le> cd_attempt_count row
       then out = DeadLettered \<and> ob_status r = ''dead_letter'' \<and> ob_dead_lettered_at r = Some now
       else out = Retried \<and> ob_status r = ''pending'' \<and> now \<le> ob_available_at r
         \<and> ob_available_at r \<le> now + min (st_retry_max_seconds st)
             (st_retry_base_seconds st * 2 ^ nat (max 0 (cd_attempt_count row - 1))) * 1000000)"
proof -
  have inv: "outbox_inv s" using assms(1) by (rule outbox_reachable_inv)
  let ?f = "failure_of st rt row code permanent now"
  obtain x where x: "x \<in> set (approval_decision_outbox s)" "outbox_fence (cd_id row) (cd_claim_token row) x"
    using assms(2) by (auto simp: fence_open_iff [OF inv] fenced_match_def)
  obtain out t where run: "finalize_failure st rt row code permanent s = (Inr out, t)" using finalize_returns(2) by blast
  then have "finalize_row ?f x \<in> set (approval_decision_outbox t)"
    using x finalize_failure_outbox(1) [of st rt row code permanent s] assms(5) by (auto simp: set_update_where)
  moreover have "ob_id (finalize_row ?f x) = cd_id row" using x by (simp add: fenced_match_def)
  moreover have "out = (if dead_letters st row permanent then DeadLettered else Retried)"
    using run assms(2) by (auto simp: finalize_failure_eq Let_def split: if_splits)
  moreover have "0 \<le> retry_delay st rt row \<and> retry_delay st rt row \<le> min (st_retry_max_seconds st)
      (st_retry_base_seconds st * 2 ^ nat (max 0 (cd_attempt_count row - 1))) * 1000000"
    using retry_delay_bounds [OF assms(3,4), of row] by (simp add: retry_maximum_def)
  ultimately show ?thesis
    using run by (intro exI [of _ out] exI [of _ t] exI [of _ "finalize_row ?f x"])
      (auto simp: failure_of_def dead_letters_def)
qed

theorem finalize_failure_policy_example:
  "outbox_reachable example_claimed_db
   \<and> fence_open (cd_id example_claimed) (cd_claim_token example_claimed) example_claimed_db
   \<and> outbox_settings_valid example_outbox_settings 2
   \<and> (\<exists>t r. finalize_failure example_outbox_settings example_outbox_runtime example_claimed ''TimeoutError'' False
         example_claimed_db = (Inr Retried, t) \<and> r \<in> set (approval_decision_outbox t) \<and> ob_status r = ''pending''
         \<and> ob_available_at r \<le> 1000003)"
proof -
  have valid: "outbox_settings_valid example_outbox_settings 2"
    by (simp add: outbox_settings_valid_def example_outbox_settings_def)
  have uni: "0 \<le> rt_uniform example_outbox_runtime c 0 hi \<and> rt_uniform example_outbox_runtime c 0 hi \<le> hi" if "0 \<le> hi" for c hi
    using that by (simp add: example_outbox_runtime_def)
  have now: "3 = clock_at example_claimed_db (clock_n example_claimed_db)" by (simp add: example_claimed_db_def empty_db_def)
  have st: "st_max_attempts example_outbox_settings = 3" "st_retry_max_seconds example_outbox_settings = 300"
    "st_retry_base_seconds example_outbox_settings = 1" "cd_attempt_count example_claimed = 1"
    by (simp_all add: example_outbox_settings_def example_claimed_def claimed_of_row_def example_claimed_row_def new_outbox_row_def)
  from finalize_failure_policy [OF example_claimed_reachable example_claimed_fence valid uni now, of "''TimeoutError''" False]
  have "\<exists>t r. finalize_failure example_outbox_settings example_outbox_runtime example_claimed ''TimeoutError'' False
         example_claimed_db = (Inr Retried, t) \<and> r \<in> set (approval_decision_outbox t) \<and> ob_status r = ''pending''
         \<and> ob_available_at r \<le> 1000003"
    by (auto simp: st)
  then show ?thesis using example_claimed_reachable example_claimed_fence valid by blast
qed

text \<open>One round of a dispatcher that no other dispatcher interrupts claims as many due rows as fit in a
  batch and accounts for each of them: whatever the engine answers and in whatever order the
  deliveries finish, every claimed row is delivered, retried or dead-lettered, and none is fenced.\<close>

lemma run_once_accounts:
  assumes "outbox_reachable s" "\<And>xs. mset (schedule xs) = mset xs"
  shows "\<exists>res t. run_once st rt schedule s = (Inr res, t) \<and> outbox_reachable t
    \<and> rr_claimed res = min (st_batch_size st) (rowcount (outbox_due (clock_at s (clock_n s))) (approval_decision_outbox s))
    \<and> rr_claimed res = rr_delivered res + rr_retried res + rr_dead_lettered res \<and> rr_fenced res = 0"
proof -
  obtain res t where "run_once st rt schedule s = (Inr res, t)" "outbox_step\<^sup>*\<^sup>* s t"
    "rr_claimed res = min (st_batch_size st) (rowcount (outbox_due (clock_at s (clock_n s))) (approval_decision_outbox s))"
    "rr_claimed res = rr_delivered res + rr_retried res + rr_dead_lettered res" "rr_fenced res = 0"
    using run_once_spec [OF outbox_reachable_inv [OF assms(1)] assms(2)] by blast
  moreover have "outbox_reachable t"
    using assms(1) \<open>outbox_step\<^sup>*\<^sup>* s t\<close> unfolding outbox_reachable_def by (meson rtranclp_trans)
  ultimately show ?thesis by blast
qed

lemma run_once_accounts_example:
  "outbox_reachable example_enqueued_db \<and>
   (\<exists>res t. run_once example_outbox_settings example_outbox_runtime rev example_enqueued_db = (Inr res, t)
      \<and> rr_claimed res = 1 \<and> rr_fenced res = 0)"
proof -
  have "rowcount (outbox_due (clock_at example_enqueued_db (clock_n example_enqueued_db)))
      (approval_decision_outbox example_enqueued_db) = 1"
    by (simp add: example_enqueued_db_def empty_db_def outbox_due_def new_outbox_row_def example_outbox_create_def)
  then show ?thesis
    using run_once_accounts [OF example_reachable, of rev example_outbox_settings example_outbox_runtime]
      example_reachable by (auto simp: example_outbox_settings_def)
qed



end
