(* ===== verification/Identity.thy ===== *)
theory Identity
  imports Permissions
begin

text \<open>
  Who is calling (\<^verbatim>\<open>axis_api/identity.py\<close>): the bearer token of a request, the claims that it must carry and the
  scopes that it grants, the checks on an ID token, the cache of the provider's signing keys with its
  stale-if-error window and its limit on forced refreshes, and the binding of a governed write to the verified
  principal. Decoding and verifying a token is the JOSE library's and fetching the keys is the network's: both
  are parameters.
\<close>

section \<open>Data\<close>

record oidc_principal = scope_principal +
  op_expires_at :: "int option"
  op_subject_id :: "string option"
  op_session_source :: string

text \<open>\<open>JwtError\<close> is the error class of the JOSE library; \<open>AttributeError\<close> is what \<^verbatim>\<open>.get\<close> raises when the
  provider's document is not an object.\<close>

datatype oidc_error = OidcAuthenticationError string | JwtError | AttributeError

datatype binding_error = ActorBindingError (binding_reason: string) (binding_message: string)

record oidc_config =
  oi_audience :: string
  oi_actor_claim :: string
  oi_tenant_claim :: string

text \<open>The JOSE library: the header of a token, and the claims of a token under a key, for an audience and with
  the access token to compare (\<open>None\<close> is its error); and \<^verbatim>\<open>str\<close> of a JSON value.\<close>

record jose =
  js_header :: "string \<Rightarrow> dict option"
  js_decode :: "string \<Rightarrow> json \<Rightarrow> string \<Rightarrow> string option \<Rightarrow> dict option"
  js_str :: "json \<Rightarrow> string"

definition PUBLIC_DEMO_ACTOR_ID :: string where
  "PUBLIC_DEMO_ACTOR_ID = ''public-demo-steward''"

definition TENANT_MISMATCH_MESSAGE :: string where
  "TENANT_MISMATCH_MESSAGE = ''The authenticated OIDC tenant cannot access this tenant scope.''"

definition ACTOR_MISMATCH_MESSAGE :: string where
  "ACTOR_MISMATCH_MESSAGE = ''The request actor does not match the authenticated OIDC actor.''"

section \<open>Tokens and claims\<close>

definition resolve_declared_actor :: "string option \<Rightarrow> string option \<Rightarrow> string" where
  "resolve_declared_actor request_actor principal_actor_id =
     (case principal_actor_id of
        Some a \<Rightarrow> a
      | None \<Rightarrow> (case request_actor of Some a \<Rightarrow> a | None \<Rightarrow> PUBLIC_DEMO_ACTOR_ID))"

definition authorization_token :: "string option \<Rightarrow> oidc_error + string" where
  "authorization_token authorization =
     (case authorization of
        None \<Rightarrow> Inl (OidcAuthenticationError ''missing_authorization'')
      | Some header \<Rightarrow>
          if header = [] then Inl (OidcAuthenticationError ''missing_authorization'')
          else let scheme = takeWhile (\<lambda>c. c \<noteq> CHR '' '') header;
                   token = drop 1 (dropWhile (\<lambda>c. c \<noteq> CHR '' '') header)
               in if casefold scheme \<noteq> ''bearer'' \<or> token = []
                  then Inl (OidcAuthenticationError ''invalid_authorization_header'') else Inr token)"

text \<open>\<^verbatim>\<open>text.split()\<close>.\<close>

fun split_words :: "string \<Rightarrow> string \<Rightarrow> string list" where
  "split_words word [] = (if word = [] then [] else [word])"
| "split_words word (c # cs) =
     (if is_space c then (if word = [] then split_words [] cs else word # split_words [] cs)
      else split_words (word @ [c]) cs)"

definition truthy_strs :: "(json \<Rightarrow> string) \<Rightarrow> json \<Rightarrow> string list" where
  "truthy_strs py_str j = (case j of JList xs \<Rightarrow> map py_str (filter truthy xs) | _ \<Rightarrow> [])"

text \<open>\<^verbatim>\<open>d.get(key, default)\<close>.\<close>

definition dget_default :: "dict \<Rightarrow> string \<Rightarrow> json \<Rightarrow> json" where
  "dget_default d k v = (case map_of d k of None \<Rightarrow> v | Some w \<Rightarrow> w)"

definition roles_of :: "(json \<Rightarrow> string) \<Rightarrow> json \<Rightarrow> string list" where
  "roles_of py_str access =
     (case access of JObj d \<Rightarrow> truthy_strs py_str (dget_default d ''roles'' (JList [])) | _ \<Rightarrow> [])"

definition claim_scopes :: "(json \<Rightarrow> string) \<Rightarrow> dict \<Rightarrow> string \<Rightarrow> string list" where
  "claim_scopes py_str claims audience =
     (let from_scope = (case dget claims ''scope'' of JStr t \<Rightarrow> split_words [] t | _ \<Rightarrow> []);
          from_scp = (case dget claims ''scp'' of JStr t \<Rightarrow> split_words [] t | j \<Rightarrow> truthy_strs py_str j);
          from_realm = roles_of py_str (dget claims ''realm_access'');
          from_client = (case dget claims ''resource_access'' of
              JObj d \<Rightarrow> roles_of py_str (dget_default d audience (JObj [])) | _ \<Rightarrow> [])
      in sort (remdups (from_scope @ from_scp @ from_realm @ from_client)))"

section \<open>Signing keys\<close>

definition static_key_for_token :: "jose \<Rightarrow> json \<Rightarrow> string \<Rightarrow> oidc_error + json" where
  "static_key_for_token jo jwks token =
     (case jwks of
        JObj d \<Rightarrow>
          (case dget_default d ''keys'' (JList []) of
             JList (key0 # rest) \<Rightarrow>
               (case js_header jo token of
                  None \<Rightarrow> Inl JwtError
                | Some header \<Rightarrow>
                    let kid = dget header ''kid''; keys = key0 # rest in
                    if truthy kid
                    then (case first_row (select_where
                              (\<lambda>key. case key of JObj k \<Rightarrow> json_eq (dget k ''kid'') kid | _ \<Rightarrow> False) keys) of
                            Some key \<Rightarrow> Inr key
                          | None \<Rightarrow> Inl (OidcAuthenticationError ''jwks_key_not_found''))
                    else (case (key0, rest) of
                            (JObj _, []) \<Rightarrow> Inr key0
                          | _ \<Rightarrow> Inl (OidcAuthenticationError ''jwks_key_not_found'')))
           | _ \<Rightarrow> Inl (OidcAuthenticationError ''jwks_empty''))
      | _ \<Rightarrow> Inl AttributeError)"

text \<open>The cache of \<^verbatim>\<open>RemoteJwksOidcVerifier\<close>; times are readings of \<^verbatim>\<open>time.time()\<close> in seconds.\<close>

record jwks_cache =
  jc_jwks :: json
  jc_cache_expires_at :: pyfloat
  jc_last_forced_refresh_at :: pyfloat
  jc_last_success_at :: pyfloat

definition new_jwks_cache :: jwks_cache where
  "new_jwks_cache =
     \<lparr>jc_jwks = JObj [(''keys'', JList [])], jc_cache_expires_at = 0, jc_last_forced_refresh_at = 0,
      jc_last_success_at = 0\<rparr>"

definition forced_refresh_cooldown :: "int \<Rightarrow> pyfloat" where
  "forced_refresh_cooldown cache_seconds = min 5 (max 1 (of_int cache_seconds / 10))"

definition stale_retry_seconds :: "int \<Rightarrow> pyfloat" where
  "stale_retry_seconds cache_seconds = min 30 (max 1 (of_int cache_seconds / 10))"

definition can_serve_stale :: "int \<Rightarrow> pyfloat \<Rightarrow> jwks_cache \<Rightarrow> oidc_error + bool" where
  "can_serve_stale cache_seconds now c =
     (if \<not> 0 < jc_last_success_at c then Inr False
      else case jc_jwks c of
             JObj d \<Rightarrow> Inr (truthy (dget d ''keys'') \<and> now - jc_last_success_at c \<le> 2 * of_int cache_seconds)
           | _ \<Rightarrow> Inl AttributeError)"

text \<open>\<^verbatim>\<open>_fetch_jwks\<close>: the document, or \<open>None\<close> for a failure that the code converts.\<close>

definition fetch_jwks :: "json option \<Rightarrow> oidc_error + json" where
  "fetch_jwks response =
     (case response of None \<Rightarrow> Inl (OidcAuthenticationError ''jwks_fetch_failed'') | Some j \<Rightarrow> Inr j)"

text \<open>The refresh of an expired cache, and the whole lookup. \<open>asked_at\<close> is the reading before the lock and \<open>now\<close>
  the one under it; \<open>fetch\<close> and \<open>forced\<close> are what the two possible fetches come to.\<close>

definition refresh_expired :: "int \<Rightarrow> pyfloat \<Rightarrow> json option \<Rightarrow> (jwks_cache, oidc_error, unit) op" where
  "refresh_expired cache_seconds now fetch c =
     (case fetch_jwks fetch of
        Inr jwks \<Rightarrow> (Inr (), c\<lparr>jc_jwks := jwks, jc_last_success_at := now,
                          jc_cache_expires_at := now + of_int cache_seconds\<rparr>)
      | Inl e \<Rightarrow>
          (case can_serve_stale cache_seconds now c of
             Inl e' \<Rightarrow> (Inl e', c)
           | Inr False \<Rightarrow> (Inl e, c)
           | Inr True \<Rightarrow> (Inr (), c\<lparr>jc_cache_expires_at := now + stale_retry_seconds cache_seconds\<rparr>)))"

definition force_refresh :: "jose \<Rightarrow> int \<Rightarrow> pyfloat \<Rightarrow> json option \<Rightarrow> string \<Rightarrow> (jwks_cache, oidc_error, json) op" where
  "force_refresh jo cache_seconds now forced token c =
     (let c1 = c\<lparr>jc_last_forced_refresh_at := now\<rparr>
      in case fetch_jwks forced of
           Inl e \<Rightarrow> (Inl e, c1)
         | Inr jwks \<Rightarrow>
             let c2 = c1\<lparr>jc_jwks := jwks, jc_last_success_at := now, jc_cache_expires_at := now + of_int cache_seconds\<rparr>
             in (static_key_for_token jo (jc_jwks c2) token, c2))"

definition locked_key_for_token ::
  "jose \<Rightarrow> int \<Rightarrow> pyfloat \<Rightarrow> json option \<Rightarrow> json option \<Rightarrow> string \<Rightarrow> (jwks_cache, oidc_error, json) op"
where
  "locked_key_for_token jo cache_seconds now fetch forced token c =
     (let cache_was_valid = now < jc_cache_expires_at c in
      bind_op (if cache_was_valid then return_op () else refresh_expired cache_seconds now fetch) (\<lambda>_ c1.
        case static_key_for_token jo (jc_jwks c1) token of
          Inr key \<Rightarrow> (Inr key, c1)
        | Inl e \<Rightarrow>
            if e \<noteq> OidcAuthenticationError ''jwks_key_not_found'' \<or> \<not> cache_was_valid then (Inl e, c1)
            else if now - jc_last_forced_refresh_at c1 < forced_refresh_cooldown cache_seconds then (Inl e, c1)
            else force_refresh jo cache_seconds now forced token c1) c)"

definition remote_key_for_token ::
  "jose \<Rightarrow> int \<Rightarrow> pyfloat \<Rightarrow> pyfloat \<Rightarrow> json option \<Rightarrow> json option \<Rightarrow> string \<Rightarrow> (jwks_cache, oidc_error, json) op"
where
  "remote_key_for_token jo cache_seconds asked_at now fetch forced token c =
     (if asked_at < jc_cache_expires_at c
      then (case static_key_for_token jo (jc_jwks c) token of
              Inr key \<Rightarrow> (Inr key, c)
            | Inl e \<Rightarrow>
                if e \<noteq> OidcAuthenticationError ''jwks_key_not_found'' then (Inl e, c)
                else locked_key_for_token jo cache_seconds now fetch forced token c)
      else locked_key_for_token jo cache_seconds now fetch forced token c)"

section \<open>Verification\<close>

text \<open>\<^verbatim>\<open>except JWTError\<close> around the key lookup and the decoder; the lookup is an operation on the cache.\<close>

definition decode_token ::
  "jose \<Rightarrow> (string \<Rightarrow> ('c, oidc_error, json) op) \<Rightarrow> string \<Rightarrow> string \<Rightarrow> string option \<Rightarrow> string \<Rightarrow> ('c, oidc_error, dict) op"
where
  "decode_token jo key_for_token token audience access_token invalid =
     lift_error (\<lambda>e. case e of JwtError \<Rightarrow> OidcAuthenticationError invalid | _ \<Rightarrow> e)
       (bind_op (key_for_token token) (\<lambda>key.
        case js_decode jo token key audience access_token of
          None \<Rightarrow> raise_op JwtError
        | Some claims \<Rightarrow> return_op claims))"

definition text_claim :: "dict \<Rightarrow> string \<Rightarrow> string option" where
  "text_claim claims name = (case dget claims name of JStr t \<Rightarrow> if t = [] then None else Some t | _ \<Rightarrow> None)"

text \<open>\<^verbatim>\<open>isinstance(value, int)\<close>: a boolean is one too.\<close>

definition int_claim :: "dict \<Rightarrow> string \<Rightarrow> int option" where
  "int_claim claims name = (case dget claims name of JInt n \<Rightarrow> Some n | JBool b \<Rightarrow> Some (if b then 1 else 0) | _ \<Rightarrow> None)"

text \<open>Pydantic refuses an empty subject and a negative expiry: \<open>Inl\<close> with the library's class of error.\<close>

definition principal_of_claims :: "jose \<Rightarrow> oidc_config \<Rightarrow> dict \<Rightarrow> oidc_error + oidc_principal" where
  "principal_of_claims jo cfg claims =
     (case text_claim claims (oi_actor_claim cfg) of
        None \<Rightarrow> Inl (OidcAuthenticationError ''missing_actor_claim'')
      | Some actor_id \<Rightarrow>
          (case text_claim claims (oi_tenant_claim cfg) of
             None \<Rightarrow> Inl (OidcAuthenticationError ''missing_tenant_claim'')
           | Some tenant_id \<Rightarrow>
               let subject = (case dget claims ''sub'' of JStr t \<Rightarrow> Some t | _ \<Rightarrow> None);
                   expires_at = int_claim claims ''exp''
               in if subject = Some [] \<or> (case expires_at of None \<Rightarrow> False | Some n \<Rightarrow> n < 0)
                  then Inl (OidcAuthenticationError ''ValidationError'')
                  else Inr
                    \<lparr>sp_tenant_id = tenant_id, sp_actor_id = actor_id,
                     sp_scopes = claim_scopes (js_str jo) claims (oi_audience cfg),
                     op_expires_at = expires_at, op_subject_id = subject,
                     op_session_source = ''bearer_token''\<rparr>))"

definition verify_authorization_header ::
  "jose \<Rightarrow> oidc_config \<Rightarrow> (string \<Rightarrow> ('c, oidc_error, json) op) \<Rightarrow> string option \<Rightarrow> ('c, oidc_error, oidc_principal) op"
where
  "verify_authorization_header jo cfg key_for_token authorization =
     bind_op (of_result (authorization_token authorization)) (\<lambda>token.
     bind_op (decode_token jo key_for_token token (oi_audience cfg) None ''invalid_token'') (\<lambda>claims.
     of_result (principal_of_claims jo cfg claims)))"

definition check_id_token :: "string \<Rightarrow> string \<Rightarrow> dict \<Rightarrow> oidc_error + dict" where
  "check_id_token client_id nonce claims =
     (if text_claim claims ''sub'' = None then Inl (OidcAuthenticationError ''missing_id_token_subject'')
      else if dget claims ''nonce'' \<noteq> JStr nonce then Inl (OidcAuthenticationError ''id_token_nonce_mismatch'')
      else if int_claim claims ''exp'' = None then Inl (OidcAuthenticationError ''missing_id_token_expiry'')
      else if dget claims ''azp'' \<noteq> JNull \<and> dget claims ''azp'' \<noteq> JStr client_id
      then Inl (OidcAuthenticationError ''invalid_id_token_authorized_party'')
      else if (case dget claims ''aud'' of JList xs \<Rightarrow> 1 < length xs | _ \<Rightarrow> False) \<and> dget claims ''azp'' \<noteq> JStr client_id
      then Inl (OidcAuthenticationError ''invalid_id_token_authorized_party'')
      else Inr claims)"

definition verify_id_token ::
  "jose \<Rightarrow> (string \<Rightarrow> ('c, oidc_error, json) op) \<Rightarrow> string \<Rightarrow> string \<Rightarrow> string \<Rightarrow> string option \<Rightarrow> ('c, oidc_error, dict) op"
where
  "verify_id_token jo key_for_token token client_id nonce access_token =
     bind_op (decode_token jo key_for_token token client_id access_token ''invalid_id_token'') (\<lambda>claims.
     of_result (check_id_token client_id nonce claims))"

section \<open>Binding a write to its principal\<close>

text \<open>\<^verbatim>\<open>bind_request_actor\<close> for a request model with an actor and scopes: how the model reads and copies them are
  its first two arguments. \<open>governing\<close> is the expected tenant, or the tenant of the request.\<close>

definition bind_request_actor ::
  "('r \<Rightarrow> string option) \<Rightarrow> (string \<Rightarrow> string list \<Rightarrow> 'r \<Rightarrow> 'r) \<Rightarrow> 'r \<Rightarrow> 'p scope_principal_scheme option \<Rightarrow>
   string option \<Rightarrow> string \<Rightarrow> binding_error + 'r"
where
  "bind_request_actor actor_of with_actor request the_principal governing tenant_mismatch_message =
     (case the_principal of
        None \<Rightarrow> Inr request
      | Some p \<Rightarrow>
          if governing \<noteq> Some (sp_tenant_id p)
          then Inl (ActorBindingError ''tenant_mismatch'' tenant_mismatch_message)
          else if (case actor_of request of None \<Rightarrow> False | Some a \<Rightarrow> a \<noteq> [] \<and> a \<noteq> sp_actor_id p)
          then Inl (ActorBindingError ''actor_mismatch'' ACTOR_MISMATCH_MESSAGE)
          else Inr (with_actor (sp_actor_id p) (sp_scopes p) request))"

section \<open>Lemmas\<close>

definition jwks_keys :: "json \<Rightarrow> json list" where
  "jwks_keys j = (case j of JObj d \<Rightarrow> (case dget_default d ''keys'' (JList []) of JList ks \<Rightarrow> ks | _ \<Rightarrow> []) | _ \<Rightarrow> [])"

lemma static_key_in: "static_key_for_token jo j token = Inr key \<Longrightarrow> key \<in> set (jwks_keys j)"
  by (auto simp: static_key_for_token_def jwks_keys_def Let_def split: json.splits list.splits option.splits if_splits
      dest!: first_row_filter_SomeD)

text \<open>The cache after lookups whose clock readings go up to \<open>t\<close>.\<close>

inductive jwks_run :: "int \<Rightarrow> jwks_cache \<Rightarrow> pyfloat \<Rightarrow> bool" for cache_seconds where
  started: "0 < t \<Longrightarrow> jwks_run cache_seconds new_jwks_cache t"
| looked_up: "jwks_run cache_seconds c t \<Longrightarrow> t \<le> asked_at \<Longrightarrow> asked_at \<le> now \<Longrightarrow>
     remote_key_for_token jo cache_seconds asked_at now fetch forced token c = (r, c') \<Longrightarrow>
     jwks_run cache_seconds c' now"

definition jwks_inv :: "int \<Rightarrow> jwks_cache \<Rightarrow> pyfloat \<Rightarrow> bool" where
  "jwks_inv cache_seconds c t \<longleftrightarrow> 0 < t \<and> jc_last_success_at c \<le> t \<and> jc_last_forced_refresh_at c \<le> t
     \<and> (jc_cache_expires_at c \<le> 0
        \<or> jc_cache_expires_at c \<le> jc_last_success_at c + 2 * of_int cache_seconds + stale_retry_seconds cache_seconds)"

lemma stale_retry_pos: "0 < stale_retry_seconds n"
  by (simp add: stale_retry_seconds_def min_def max_def)

lemma refresh_expired_inv:
  assumes "jwks_inv n c t" "0 \<le> n" "t \<le> now" "refresh_expired n now fetch c = (r, c')"
  shows "jwks_inv n c' now"
  using assms stale_retry_pos [of n]
  by (auto simp: jwks_inv_def refresh_expired_def can_serve_stale_def split: sum.splits bool.splits json.splits if_splits)

lemma force_refresh_inv:
  assumes "jwks_inv n c t" "0 \<le> n" "t \<le> now" "force_refresh jo n now forced token c = (r, c')"
  shows "jwks_inv n c' now"
  using assms stale_retry_pos [of n]
  by (auto simp: jwks_inv_def force_refresh_def Let_def split: sum.splits)

lemma jwks_inv_later: "jwks_inv n c t \<Longrightarrow> t \<le> now \<Longrightarrow> jwks_inv n c now"
  by (auto simp: jwks_inv_def)

lemma locked_inv:
  assumes "jwks_inv n c t" "0 \<le> n" "t \<le> now" "locked_key_for_token jo n now fetch forced token c = (r, c')"
  shows "jwks_inv n c' now"
proof -
  obtain r1 c1 where first: "(if now < jc_cache_expires_at c then return_op () else refresh_expired n now fetch) c = (r1, c1)"
    by fastforce
  have inv: "jwks_inv n c1 now"
    using first refresh_expired_inv [OF assms(1-3)] jwks_inv_later [OF assms(1,3)] by (auto split: if_splits)
  show ?thesis
    using assms(4) first inv force_refresh_inv [OF inv assms(2) order.refl]
    by (auto simp: locked_key_for_token_def bind_op_def Let_def split: sum.splits if_splits)
qed

lemma remote_inv:
  assumes "jwks_inv n c t" "0 \<le> n" "t \<le> asked" "asked \<le> now"
    "remote_key_for_token jo n asked now fetch forced token c = (r, c')"
  shows "jwks_inv n c' now"
proof -
  have "t \<le> now" using assms(3,4) by simp
  with assms(1,2,5) show ?thesis
    by (auto simp: remote_key_for_token_def split: sum.splits if_splits intro: jwks_inv_later locked_inv)
qed

lemma jwks_run_inv: "jwks_run n c t \<Longrightarrow> 0 \<le> n \<Longrightarrow> jwks_inv n c t"
proof (induction rule: jwks_run.induct)
  case (started t)
  then show ?case by (simp add: jwks_inv_def new_jwks_cache_def)
qed (blast intro: remote_inv)

lemma locked_key_in:
  assumes "locked_key_for_token jo n now fetch forced token c = (Inr key, c')"
  shows "key \<in> set (jwks_keys (jc_jwks c'))" "now < jc_cache_expires_at c \<and> jc_last_success_at c' = jc_last_success_at c \<or>
    now - jc_last_success_at c' \<le> 2 * of_int n \<or> n < 0"
  using assms
  by (auto simp: locked_key_for_token_def bind_op_def Let_def force_refresh_def refresh_expired_def can_serve_stale_def
      split: prod.splits sum.splits if_splits bool.splits json.splits intro: static_key_in)


lemma locked_within_cooldown:
  assumes "now < jc_cache_expires_at c" "now - jc_last_forced_refresh_at c < forced_refresh_cooldown n"
  shows "locked_key_for_token jo n now fetch forced token c = (static_key_for_token jo (jc_jwks c) token, c)"
  using assms by (simp add: locked_key_for_token_def Let_def bind_op_def split: sum.split)

lemma remote_within_cooldown:
  assumes "asked < jc_cache_expires_at c" "now < jc_cache_expires_at c"
    "now - jc_last_forced_refresh_at c < forced_refresh_cooldown n"
  shows "remote_key_for_token jo n asked now fetch forced token c = (static_key_for_token jo (jc_jwks c) token, c)"
  using assms by (simp add: remote_key_for_token_def locked_within_cooldown split: sum.split)

lemma refresh_expired_forced [simp]:
  "jc_last_forced_refresh_at (snd (refresh_expired n now fetch c)) = jc_last_forced_refresh_at c"
  by (simp add: refresh_expired_def split: sum.split bool.split)

lemma remote_forced_at:
  assumes "remote_key_for_token jo n asked now fetch forced token c = (r, c')"
  shows "jc_last_forced_refresh_at c' = jc_last_forced_refresh_at c \<or> jc_last_forced_refresh_at c' = now"
  using assms refresh_expired_forced [of n now fetch c]
  by (auto simp: remote_key_for_token_def locked_key_for_token_def Let_def bind_op_def force_refresh_def
      simp del: refresh_expired_forced split: sum.splits prod.splits if_splits)

lemma decode_token_Inr:
  "decode_token jo key_for_token token audience access invalid c = (Inr claims, c') \<longleftrightarrow>
     (\<exists>key. key_for_token token c = (Inr key, c') \<and> js_decode jo token key audience access = Some claims)"
  by (auto simp: decode_token_def bind_op_Inr_iff split: option.splits)

lemma text_claim_Some: "text_claim claims name = Some t \<longleftrightarrow> dget claims name = JStr t \<and> t \<noteq> []"
  by (auto simp: text_claim_def split: json.splits)

lemma text_claim_None: "text_claim claims name = None \<longleftrightarrow> (\<forall>t. dget claims name = JStr t \<longrightarrow> t = [])"
  by (auto simp: text_claim_def split: json.splits)

section \<open>Properties\<close>

text \<open>C7. The keys that a token is checked against are never older than two cache periods and one retry
  interval: when a lookup returns a key, the key is one of the current key set, and that set was fetched at most that
  long before the lookup, whatever the provider answered in between. Past that the lookup fails closed.\<close>

theorem jwks_keys_fresh:
  assumes "jwks_run n c t" and "0 \<le> n" and "t \<le> asked" and "asked \<le> now"
    and "remote_key_for_token jo n asked now fetch forced token c = (Inr key, c')"
  shows "key \<in> set (jwks_keys (jc_jwks c'))
    \<and> asked \<le> jc_last_success_at c' + 2 * of_int n + stale_retry_seconds n"
proof -
  have inv: "jwks_inv n c t" using assms(1,2) by (rule jwks_run_inv)
  have fresh: "asked \<le> jc_last_success_at c + 2 * of_int n + stale_retry_seconds n" if "asked < jc_cache_expires_at c"
    using inv that assms(3) by (auto simp: jwks_inv_def)
  show ?thesis
  proof (cases "c' = c \<and> asked < jc_cache_expires_at c \<and> static_key_for_token jo (jc_jwks c) token = Inr key")
    case True
    with fresh show ?thesis by (auto intro: static_key_in)
  next
    case False
    with assms(5) have "locked_key_for_token jo n now fetch forced token c = (Inr key, c')"
      by (auto simp: remote_key_for_token_def split: sum.splits if_splits)
    from locked_key_in [OF this] fresh assms(2,4) stale_retry_pos [of n] show ?thesis by force
  qed
qed

definition example_jose :: jose where
  "example_jose =
     \<lparr>js_header = (\<lambda>_. Some []), js_decode = (\<lambda>_ _ _ _. Some [(''sub'', JStr ''bob''), (''axis_tenant'', JStr ''acme''),
        (''scope'', JStr ''b a''), (''nonce'', JStr ''n''), (''exp'', JInt 10)]), js_str = (\<lambda>_. [])\<rparr>"

definition example_jwks :: json where
  "example_jwks = JObj [(''keys'', JList [JObj [(''kty'', JStr ''RSA'')]])]"

definition example_fetched :: jwks_cache where
  "example_fetched = \<lparr>jc_jwks = example_jwks, jc_cache_expires_at = 301, jc_last_forced_refresh_at = 0,
     jc_last_success_at = 1\<rparr>"

lemma example_key: "static_key_for_token example_jose example_jwks token = Inr (JObj [(''kty'', JStr ''RSA'')])"
  by (simp add: static_key_for_token_def example_jose_def example_jwks_def dget_default_def dget_def truthy_def)

lemma example_first_lookup:
  "remote_key_for_token example_jose 300 1 1 (Some example_jwks) None token new_jwks_cache =
     (Inr (JObj [(''kty'', JStr ''RSA'')]), example_fetched)"
  by (simp add: remote_key_for_token_def locked_key_for_token_def new_jwks_cache_def refresh_expired_def fetch_jwks_def
      bind_op_def example_key example_fetched_def)

theorem jwks_keys_fresh_witness:
  "jwks_run 300 new_jwks_cache 1 \<and> (0::int) \<le> 300 \<and>
   remote_key_for_token example_jose 300 1 1 (Some example_jwks) None ''token'' new_jwks_cache =
     (Inr (JObj [(''kty'', JStr ''RSA'')]), example_fetched) \<and>
   1 \<le> jc_last_success_at example_fetched + 2 * of_int 300 + stale_retry_seconds 300"
proof -
  have "jwks_run 300 new_jwks_cache 1" by (rule jwks_run.started) simp
  with jwks_keys_fresh [OF this _ _ _ example_first_lookup] show ?thesis
    by (simp add: example_first_lookup)
qed

text \<open>The bound of two cache periods alone does not hold: a refresh that fails at the end of the window starts
  another retry interval in which the old keys are served without a look at their age.\<close>

theorem jwks_keys_served_past_window:
  "\<exists>c t. jwks_run 300 c t \<and> t \<le> 620 \<and>
     remote_key_for_token example_jose 300 620 620 None None ''token'' c = (Inr (JObj [(''kty'', JStr ''RSA'')]), c) \<and>
     \<not> 620 - jc_last_success_at c \<le> 2 * of_int 300"
proof -
  let ?c = "example_fetched\<lparr>jc_cache_expires_at := 630\<rparr>"
  have "jwks_run 300 new_jwks_cache 1" by (rule jwks_run.started) simp
  then have "jwks_run 300 example_fetched 1"
    by (rule jwks_run.looked_up [OF _ _ _ example_first_lookup]) simp_all
  moreover have "remote_key_for_token example_jose 300 600 600 None None ''token'' example_fetched =
      (Inr (JObj [(''kty'', JStr ''RSA'')]), ?c)"
    by (simp add: remote_key_for_token_def locked_key_for_token_def example_fetched_def refresh_expired_def fetch_jwks_def
        can_serve_stale_def bind_op_def example_key stale_retry_seconds_def)
      (simp add: example_jwks_def dget_def truthy_def example_key [unfolded example_jwks_def] stale_retry_seconds_def)
  ultimately have "jwks_run 300 ?c 600"
    using jwks_run.looked_up [of 300 example_fetched 1 600 600] by simp
  moreover have "remote_key_for_token example_jose 300 620 620 None None ''token'' ?c =
      (Inr (JObj [(''kty'', JStr ''RSA'')]), ?c)"
    by (simp add: remote_key_for_token_def example_fetched_def example_key)
  ultimately show ?thesis
    by (intro exI [of _ ?c] exI [of _ 600]) (simp add: example_fetched_def)
qed

text \<open>Unknown keys cannot be used to flood the provider: once a lookup has forced a refresh, no token at all, known
  or unknown, causes another fetch while the cache is valid and the cooldown lasts. Every lookup in that time is
  answered from the cached keys and leaves the cache as it is.\<close>

lemma jwks_forced_refresh_limited:
  assumes "remote_key_for_token jo n asked now fetch forced token c = (r, c1)"
    and "jc_last_forced_refresh_at c1 \<noteq> jc_last_forced_refresh_at c"
  shows "\<forall>asked' now' fetch' forced' token'.
    now' < now + forced_refresh_cooldown n \<and> asked' < jc_cache_expires_at c1 \<and> now' < jc_cache_expires_at c1 \<longrightarrow>
    remote_key_for_token jo n asked' now' fetch' forced' token' c1 = (static_key_for_token jo (jc_jwks c1) token', c1)"
proof -
  have "jc_last_forced_refresh_at c1 = now" using remote_forced_at [OF assms(1)] assms(2) by simp
  then show ?thesis by (auto intro: remote_within_cooldown)
qed

definition example_kid_jose :: jose where
  "example_kid_jose = example_jose\<lparr>js_header := (\<lambda>_. Some [(''kid'', JStr ''k'')])\<rparr>"

theorem jwks_forced_refresh_limited_example:
  "let c1 = \<lparr>jc_jwks = example_jwks, jc_cache_expires_at = 410, jc_last_forced_refresh_at = 110, jc_last_success_at = 110\<rparr>
   in remote_key_for_token example_kid_jose 300 110 110 None (Some example_jwks) ''token'' example_fetched =
        (Inl (OidcAuthenticationError ''jwks_key_not_found''), c1)
    \<and> remote_key_for_token example_kid_jose 300 112 112 (Some JNull) (Some JNull) ''other'' c1 =
        (Inl (OidcAuthenticationError ''jwks_key_not_found''), c1)"
proof -
  let ?c1 = "\<lparr>jc_jwks = example_jwks, jc_cache_expires_at = 410, jc_last_forced_refresh_at = 110, jc_last_success_at = 110\<rparr>"
  have key: "static_key_for_token example_kid_jose example_jwks token = Inl (OidcAuthenticationError ''jwks_key_not_found'')" for token
    by (simp add: static_key_for_token_def example_kid_jose_def example_jwks_def dget_default_def dget_def truthy_def json_num_def)
  have first: "remote_key_for_token example_kid_jose 300 110 110 None (Some example_jwks) ''token'' example_fetched =
      (Inl (OidcAuthenticationError ''jwks_key_not_found''), ?c1)"
    by (simp add: remote_key_for_token_def locked_key_for_token_def example_fetched_def fetch_jwks_def
        force_refresh_def forced_refresh_cooldown_def bind_op_def key)
  have "remote_key_for_token example_kid_jose 300 112 112 (Some JNull) (Some JNull) ''other'' ?c1 =
      (static_key_for_token example_kid_jose (jc_jwks ?c1) ''other'', ?c1)"
    using jwks_forced_refresh_limited [OF first] by (simp add: forced_refresh_cooldown_def example_fetched_def)
  with first show ?thesis by (simp add: key)
qed


definition example_oidc_config :: oidc_config where
  "example_oidc_config = \<lparr>oi_audience = ''axis'', oi_actor_claim = ''sub'', oi_tenant_claim = ''axis_tenant''\<rparr>"

definition example_principal :: oidc_principal where
  "example_principal = \<lparr>sp_tenant_id = ''acme'', sp_actor_id = ''bob'', sp_scopes = [''a'', ''b''],
     op_expires_at = Some 10, op_subject_id = Some ''bob'', op_session_source = ''bearer_token''\<rparr>"

lemma example_verified:
  "verify_authorization_header example_jose example_oidc_config
     (remote_key_for_token example_jose 300 1 1 (Some example_jwks) None) (Some ''Bearer xyz'') new_jwks_cache =
     (Inr example_principal, example_fetched)"
proof -
  have "authorization_token (Some ''Bearer xyz'') = Inr ''xyz''" by code_simp
  moreover have "js_decode example_jose ''xyz'' (JObj [(''kty'', JStr ''RSA'')]) ''axis'' None =
      Some [(''sub'', JStr ''bob''), (''axis_tenant'', JStr ''acme''), (''scope'', JStr ''b a''), (''nonce'', JStr ''n''), (''exp'', JInt 10)]"
    by (simp add: example_jose_def)
  moreover have "principal_of_claims example_jose example_oidc_config
      [(''sub'', JStr ''bob''), (''axis_tenant'', JStr ''acme''), (''scope'', JStr ''b a''), (''nonce'', JStr ''n''), (''exp'', JInt 10)] =
      Inr example_principal"
    by code_simp
  ultimately show ?thesis
    by (simp add: verify_authorization_header_def decode_token_def bind_op_def lift_error_def example_first_lookup)
      (simp add: example_oidc_config_def)
qed


text \<open>An ID token is accepted exactly when it decodes for the client under a key of the provider, names a subject,
  carries the nonce of the login, has an integer expiry, and was issued to this client: an authorized party, where
  there is one, is the client, and with several audiences there is one.\<close>

lemma verify_id_token_iff:
  "verify_id_token jo key_for_token token client_id nonce access c = (Inr claims, c') \<longleftrightarrow>
     (\<exists>key. key_for_token token c = (Inr key, c') \<and> js_decode jo token key client_id access = Some claims)
     \<and> (\<exists>subject. dget claims ''sub'' = JStr subject \<and> subject \<noteq> [])
     \<and> dget claims ''nonce'' = JStr nonce
     \<and> ((\<exists>n. dget claims ''exp'' = JInt n) \<or> (\<exists>b. dget claims ''exp'' = JBool b))
     \<and> (dget claims ''azp'' = JStr client_id
        \<or> dget claims ''azp'' = JNull \<and> \<not> (\<exists>xs. dget claims ''aud'' = JList xs \<and> 1 < length xs))"
proof -
  have exp: "int_claim claims ''exp'' = None \<longleftrightarrow>
      \<not> ((\<exists>n. dget claims ''exp'' = JInt n) \<or> (\<exists>b. dget claims ''exp'' = JBool b))"
    by (auto simp: int_claim_def split: json.splits)
  have aud: "(case dget claims ''aud'' of JList xs \<Rightarrow> 1 < length xs | _ \<Rightarrow> False) \<longleftrightarrow>
      (\<exists>xs. dget claims ''aud'' = JList xs \<and> 1 < length xs)"
    by (auto split: json.splits)
  have "check_id_token client_id nonce claims = Inr claims \<longleftrightarrow>
      (\<exists>subject. dget claims ''sub'' = JStr subject \<and> subject \<noteq> []) \<and> dget claims ''nonce'' = JStr nonce
      \<and> ((\<exists>n. dget claims ''exp'' = JInt n) \<or> (\<exists>b. dget claims ''exp'' = JBool b))
      \<and> (dget claims ''azp'' = JStr client_id
         \<or> dget claims ''azp'' = JNull \<and> \<not> (\<exists>xs. dget claims ''aud'' = JList xs \<and> 1 < length xs))"
    by (auto simp: check_id_token_def text_claim_None exp aud)
  moreover have "check_id_token client_id nonce d = Inr claims \<Longrightarrow> d = claims" for d
    by (auto simp: check_id_token_def split: if_splits)
  ultimately show ?thesis
    by (auto simp: verify_id_token_def bind_op_Inr_iff decode_token_Inr)
qed

end
