(* ===== verification/Approval_Decisions.thy ===== *)
theory Approval_Decisions
  imports Approval_Reference Platform_Policies Approval_Outbox Identity
begin

text \<open>
  Recording the decision on an approval (\<^verbatim>\<open>axis_api/approval_decisions.py\<close>, the workflow bootstrap of
  \<^verbatim>\<open>axis_api/workflow_history.py\<close> and the approval, action-run and workflow methods of
  \<^verbatim>\<open>axis_api/persistence.py\<close>): one transaction that checks the permission and the separation of duties,
  takes the approval's lock, replays or refuses a second decision, enforces the tenant's deny policies, and then
  writes the approval record, the outbox row or the direct signal, the workflow run, the action run and the
  audit event.
\<close>

section \<open>Data\<close>

record decision_request =
  dq_decision :: approval_decision
  dq_actor_id :: string
  dq_actor_scopes :: "string list"
  dq_note :: "string option"

record decision_result =
  res_tenant_id :: string
  res_approval_id :: string
  res_workflow_id :: string
  res_action_id :: string
  res_decision :: approval_decision
  res_status :: string
  res_actor_id :: string
  res_audit_event_id :: uuid
  res_audit_event_type :: string
  res_persisted :: bool
  res_idempotent_replay :: bool
  res_permission_decision :: permission_decision
  res_workflow_signal :: signal_result
  res_workflow_signal_status :: string
  res_workflow_state_updated :: bool
  res_workflow_state :: "string option"
  res_workflow_status :: "string option"
  res_action_run_recorded :: bool
  res_action_run_id :: "uuid option"
  res_action_run_status :: "string option"
  res_action_run_idempotency_key :: "string option"
  res_action_run_idempotent_replay :: bool
  res_platform_policy_decision :: "policy_decision option"
  res_decision_event_id :: "uuid option"

record action_transition =
  tx_recorded :: bool
  tx_action_run_id :: "uuid option"
  tx_status :: "string option"
  tx_idempotency_key :: "string option"
  tx_execution_mode :: "string option"
  tx_idempotent_replay :: bool

datatype approval_error =
    DemoApprovalNotFound string
  | ApprovalPermissionDenied string permission_decision
  | ApprovalDecisionConflict string string
  | ReferenceError reference_error
  | PolicyError policy_error
  | AmountOverflow
  | IntegrityError string
  | PersistenceRecordNotFound string
  | ValidationError
  | WorkflowHistoryBootstrapError

text \<open>What is decoded or encoded outside of the code: the reference records, the run of a workflow in the
  console record (with its \<^verbatim>\<open>started_at\<close> parsed: \<open>Inl\<close> is an unparsable time), the stored snapshot of a result, and
  \<^verbatim>\<open>float\<close> of a text and \<^verbatim>\<open>uuid5\<close>.\<close>

record decision_codecs = reference_codecs +
  dc_console_run :: "json \<Rightarrow> string \<Rightarrow> (unit + workflow_run) option"
  dc_result :: "dict \<Rightarrow> decision_result option"
  dc_float :: "string \<Rightarrow> pyfloat option option"
  dc_uuid5 :: "uuid \<Rightarrow> string \<Rightarrow> uuid"

abbreviation refs :: "decision_codecs \<Rightarrow> reference_codecs" where
  "refs cx \<equiv> reference_codecs.truncate cx"

section \<open>Names\<close>

definition APPROVAL_ACTION_IDS :: "(string \<times> string) list" where
  "APPROVAL_ACTION_IDS =
     [(''appr_expedite_supplier_batch'', ''request_supplier_expedite''),
      (''appr_quality_hold_batch'', ''place_quality_hold''),
      (''appr_shift_maintenance_window'', ''shift_maintenance_window'')]"

definition DEMO_TENANT :: string where
  "DEMO_TENANT = ''tenant_demo_manufacturing''"

definition fallback_action_id :: "string \<Rightarrow> string" where
  "fallback_action_id approval_id =
     (case map_of APPROVAL_ACTION_IDS approval_id of Some a \<Rightarrow> a | None \<Rightarrow> approval_id)"

definition approval_action_id :: "reference_codecs \<Rightarrow> string \<Rightarrow> string \<Rightarrow> db \<Rightarrow> approval_error + string" where
  "approval_action_id cx tenant_id approval_id s =
     (case require_persisted_manufacturing_action_registry cx tenant_id s of
        Inl _ \<Rightarrow>
          if tenant_id = DEMO_TENANT then Inr (fallback_action_id approval_id)
          else Inl (DemoApprovalNotFound ''Approval action registry not found'')
      | Inr registry \<Rightarrow>
          (case map ax_action_id (filter (\<lambda>a. approval_id \<in> set (ax_approval_refs a)) (xr_actions registry)) of
             [action_id] \<Rightarrow> Inr action_id
           | _ \<Rightarrow>
               if tenant_id = DEMO_TENANT then Inr (fallback_action_id approval_id)
               else Inl (DemoApprovalNotFound ''Approval action binding is missing or ambiguous'')))"

fun approval_action_status :: "approval_decision \<Rightarrow> string" where
  "approval_action_status APPROVE = ''approved_for_execution''"
| "approval_action_status REJECT = ''blocked_by_rejection''"
| "approval_action_status REQUEST_CHANGES = ''changes_requested''"

definition approval_gate_idempotency_key :: "string \<Rightarrow> string \<Rightarrow> string \<Rightarrow> string" where
  "approval_gate_idempotency_key tenant_id action_id approval_id =
     tenant_id @ '':'' @ action_id @ '':'' @ approval_id @ '':approval-gate''"

definition approval_gate_payload :: "inbox_item \<Rightarrow> string \<Rightarrow> dict" where
  "approval_gate_payload approval action_id =
     [(''source'', JStr ''approval_decision_gate''), (''approval_id'', JStr (ai_approval_id approval)),
      (''workflow_id'', JStr (ai_workflow_id approval)), (''action_id'', JStr action_id),
      (''action'', JStr (ai_action approval)), (''summary'', JStr (ai_summary approval)),
      (''risk_level'', JStr (ai_risk_level approval)), (''requested_by'', JStr (ai_requested_by approval)),
      (''owner_role'', JStr (ai_owner_role approval)),
      (''required_permission'', JStr (ai_required_permission approval)),
      (''model_policy'', JStr (ai_model_policy approval)), (''evidence'', jstrs (ai_evidence approval)),
      (''data_accessed'', jstrs (ai_data_accessed approval))]"

definition bool_text :: "bool \<Rightarrow> string" where
  "bool_text b = (if b then ''true'' else ''false'')"

definition approval_action_result_payload ::
  "inbox_item \<Rightarrow> string \<Rightarrow> decision_request \<Rightarrow> signal_result \<Rightarrow> workflow_run option \<Rightarrow> dict"
where
  "approval_action_result_payload approval action_id request workflow_signal workflow_run =
     [(''source'', JStr ''approval_decision''), (''approval_id'', JStr (ai_approval_id approval)),
      (''workflow_id'', JStr (ai_workflow_id approval)), (''action_id'', JStr action_id),
      (''decision'', JStr (decision_value (dq_decision request))),
      (''decision_actor_id'', JStr (dq_actor_id request)),
      (''decision_note_recorded'', JStr (bool_text (dq_note request \<noteq> None))),
      (''workflow_signal_status'', JStr (wsr_status workflow_signal)),
      (''workflow_state_updated'', JBool (workflow_run \<noteq> None)),
      (''workflow_state'', jopt (\<lambda>r. JStr (wr_state r)) workflow_run),
      (''workflow_status'', jopt (\<lambda>r. JStr (wr_status r)) workflow_run)]"

section \<open>Writes of the repository\<close>

text \<open>The unique constraint on tenant, action and idempotency key refuses a second row.\<close>

definition create_action_run :: "action_run \<Rightarrow> (db, approval_error, action_run) op" where
  "create_action_run new =
     bind_op (get_op (\<lambda>s. \<exists>r \<in> set (action_runs s). rn_tenant_id r = rn_tenant_id new
         \<and> rn_action_id r = rn_action_id new \<and> rn_idempotency_key r = rn_idempotency_key new)) (\<lambda>taken.
     if taken then raise_op (IntegrityError ''uq_action_runs_tenant_action_idempotency'')
     else
       bind_op uuid4 (\<lambda>new_id.
       bind_op utc_now (\<lambda>created.
       bind_op utc_now (\<lambda>updated.
         let row = new\<lparr>rn_id := new_id, rn_result_payload := None, rn_created_at := created, rn_updated_at := updated\<rparr>
         in bind_op (put_op (\<lambda>s. s\<lparr>action_runs := action_runs s @ [row]\<rparr>)) (\<lambda>_. return_op row)))))"

definition record_action_run_result ::
  "string \<Rightarrow> uuid \<Rightarrow> string \<Rightarrow> dict \<Rightarrow> (db, approval_error, action_run) op"
where
  "record_action_run_result tenant_id action_run_id status result_payload =
     bind_op (get_op (\<lambda>s. first_row (select_where
         (\<lambda>r. rn_tenant_id r = tenant_id \<and> rn_id r = action_run_id) (action_runs s)))) (\<lambda>found.
     case found of
       None \<Rightarrow> raise_op (PersistenceRecordNotFound ''Action run not found'')
     | Some run \<Rightarrow>
         bind_op utc_now (\<lambda>now.
         let row = run\<lparr>rn_status := status, rn_result_payload := Some result_payload, rn_updated_at := now\<rparr>
         in bind_op (put_op (\<lambda>s. s\<lparr>action_runs :=
              update_where (\<lambda>r. rn_id r = rn_id run) (\<lambda>_. row) (action_runs s)\<rparr>)) (\<lambda>_.
            return_op row)))"

definition create_approval_record :: "approval_record \<Rightarrow> (db, approval_error, approval_record) op" where
  "create_approval_record new =
     bind_op (get_op (\<lambda>s. \<exists>r \<in> set (approval_records s). ar_tenant_id r = ar_tenant_id new
         \<and> ar_approval_id r = ar_approval_id new)) (\<lambda>taken.
     if taken then raise_op (IntegrityError ''uq_approval_records_tenant_approval'')
     else
       bind_op uuid4 (\<lambda>new_id.
       bind_op utc_now (\<lambda>created.
       bind_op utc_now (\<lambda>updated.
         let row = new\<lparr>ar_id := new_id, ar_created_at := created, ar_updated_at := updated\<rparr>
         in bind_op (put_op (\<lambda>s. s\<lparr>approval_records := approval_records s @ [row]\<rparr>)) (\<lambda>_. return_op row)))))"

definition decide_record :: "approval_decision \<Rightarrow> string \<Rightarrow> string option \<Rightarrow> timestamp \<Rightarrow> approval_record \<Rightarrow> approval_record" where
  "decide_record decision actor note now r =
     r\<lparr>ar_status := decision_value decision, ar_decision := Some (decision_value decision),
       ar_decision_actor_id := Some actor, ar_decision_note := note, ar_decided_at := Some now,
       ar_updated_at := now\<rparr>"

definition record_approval_decision ::
  "string \<Rightarrow> string \<Rightarrow> approval_decision \<Rightarrow> string \<Rightarrow> string option \<Rightarrow> (db, approval_error, approval_record) op"
where
  "record_approval_decision tenant_id approval_id decision actor note =
     bind_op (get_op (get_approval_record tenant_id approval_id)) (\<lambda>found.
     case found of
       None \<Rightarrow> raise_op (PersistenceRecordNotFound ''Approval record not found'')
     | Some record \<Rightarrow>
         bind_op utc_now (\<lambda>now.
         bind_op (put_op (\<lambda>s. s\<lparr>approval_records :=
             update_where (\<lambda>r. ar_id r = ar_id record) (decide_record decision actor note now) (approval_records s)\<rparr>)) (\<lambda>_.
         return_op (decide_record decision actor note now record))))"

definition get_workflow_run :: "string \<Rightarrow> string \<Rightarrow> db \<Rightarrow> workflow_run option" where
  "get_workflow_run tenant_id workflow_id s =
     first_row (select_where (\<lambda>r. wr_tenant_id r = tenant_id \<and> wr_workflow_id r = workflow_id) (workflow_runs s))"

definition create_workflow_run :: "workflow_run \<Rightarrow> (db, 'e, workflow_run) op" where
  "create_workflow_run new =
     bind_op uuid4 (\<lambda>new_id.
     bind_op utc_now (\<lambda>created.
     bind_op utc_now (\<lambda>updated.
       let row = new\<lparr>wr_id := new_id, wr_created_at := created, wr_updated_at := updated\<rparr>
       in bind_op (put_op (\<lambda>s. s\<lparr>workflow_runs := workflow_runs s @ [row]\<rparr>)) (\<lambda>_. return_op row))))"

definition append_workflow_timeline_event :: "timeline_event \<Rightarrow> (db, 'e, timeline_event) op" where
  "append_workflow_timeline_event new =
     bind_op uuid4 (\<lambda>new_id.
     bind_op utc_now (\<lambda>created.
       let row = new\<lparr>te_id := new_id, te_created_at := created\<rparr>
       in bind_op (put_op (\<lambda>s. s\<lparr>workflow_timeline := workflow_timeline s @ [row]\<rparr>)) (\<lambda>_. return_op row)))"

definition pending_status :: "approval_decision \<Rightarrow> string" where
  "pending_status d = (case d of APPROVE \<Rightarrow> ''approved'' | REJECT \<Rightarrow> ''rejected'' | REQUEST_CHANGES \<Rightarrow> ''changes_requested'')"

definition decide_signal :: "string \<Rightarrow> approval_decision \<Rightarrow> string \<Rightarrow> dict \<Rightarrow> dict" where
  "decide_signal approval_id decision actor signal =
     (if dget signal ''approval_id'' = JStr approval_id
      then dset ''decided_by'' (JStr actor) (dset ''decision'' (JStr (decision_value decision))
             (dset ''status'' (JStr (pending_status decision)) signal))
      else signal)"

definition decide_signals :: "string \<Rightarrow> string \<Rightarrow> approval_decision \<Rightarrow> string \<Rightarrow> dict list \<Rightarrow> dict list" where
  "decide_signals owner_role approval_id decision actor signals =
     (let next_signals = map (decide_signal approval_id decision actor) signals
      in if \<exists>s \<in> set signals. dget s ''approval_id'' = JStr approval_id then next_signals
         else next_signals @
           [[(''signal'', JStr ''approval.decision''), (''required_role'', JStr owner_role),
             (''status'', JStr (pending_status decision)), (''approval_id'', JStr approval_id),
             (''decision'', JStr (decision_value decision)), (''decided_by'', JStr actor)]])"

definition decide_workflow_run :: "string \<Rightarrow> approval_decision \<Rightarrow> string \<Rightarrow> timestamp \<Rightarrow> workflow_run \<Rightarrow> workflow_run" where
  "decide_workflow_run approval_id decision actor now run =
     (let decided = (case decision of
            APPROVE \<Rightarrow> run\<lparr>wr_state := ''approval_approved'', wr_status := ''ready'',
              wr_current_step := ''Approval approved'', wr_blocker := None, wr_replay_ready := True\<rparr>
          | REJECT \<Rightarrow> run\<lparr>wr_state := ''approval_rejected'', wr_status := ''watch'',
              wr_current_step := ''Approval rejected'',
              wr_blocker := Some ''Approval rejected; action execution is blocked.'', wr_replay_ready := True\<rparr>
          | REQUEST_CHANGES \<Rightarrow> run\<lparr>wr_state := ''changes_requested'', wr_status := ''action_required'',
              wr_current_step := ''Approval changes requested'',
              wr_blocker := Some ''Approval reviewer requested changes before execution.'', wr_replay_ready := True\<rparr>)
      in decided\<lparr>wr_pending_signals :=
             decide_signals (wr_owner_role run) approval_id decision actor (wr_pending_signals run),
           wr_updated_at := now\<rparr>)"

definition latest_sequence :: "string \<Rightarrow> string \<Rightarrow> db \<Rightarrow> int" where
  "latest_sequence tenant_id workflow_id s =
     (case first_row (sort_key (\<lambda>q. - q) (map te_sequence (select_where
             (\<lambda>e. te_tenant_id e = tenant_id \<and> te_workflow_id e = workflow_id) (workflow_timeline s)))) of
        None \<Rightarrow> 0 | Some q \<Rightarrow> q)"

definition record_workflow_approval_decision ::
  "string \<Rightarrow> string \<Rightarrow> string \<Rightarrow> approval_decision \<Rightarrow> string \<Rightarrow> (db, 'e, workflow_run option) op"
where
  "record_workflow_approval_decision tenant_id workflow_id approval_id decision actor =
     bind_op (get_op (get_workflow_run tenant_id workflow_id)) (\<lambda>found.
     case found of
       None \<Rightarrow> return_op None
     | Some run \<Rightarrow>
         bind_op utc_now (\<lambda>now.
         let row = decide_workflow_run approval_id decision actor now run in
         bind_op (put_op (\<lambda>s. s\<lparr>workflow_runs :=
             update_where (\<lambda>r. wr_id r = wr_id run) (\<lambda>_. row) (workflow_runs s)\<rparr>)) (\<lambda>_.
         bind_op (get_op (latest_sequence tenant_id workflow_id)) (\<lambda>latest.
         bind_op (append_workflow_timeline_event
             \<lparr>te_id = 0, te_tenant_id = tenant_id, te_workflow_id = workflow_id, te_sequence = latest + 1,
              te_event = ''workflow.approval_decision.recorded'', te_occurred_at = now, te_actor = actor,
              te_result = pending_status decision,
              te_summary = ''Approval '' @ approval_id @ '' recorded decision '' @ decision_value decision @
                '' and updated persisted workflow state.'',
              te_created_at = 0\<rparr>) (\<lambda>_.
         return_op (Some row))))))"

section \<open>Workflow history\<close>

definition MANUFACTURING_WORKFLOW_CONSOLE_REFERENCE_ID :: string where
  "MANUFACTURING_WORKFLOW_CONSOLE_REFERENCE_ID = ''manufacturing-workflow-console''"

definition WORKFLOW_CONSOLE_SURFACE :: string where
  "WORKFLOW_CONSOLE_SURFACE = ''workflows''"

text \<open>\<^verbatim>\<open>_reference_workflow_run\<close> and \<^verbatim>\<open>_bootstrap_workflow_run\<close>: the decoder finds the run of the workflow in the
  console record of the tenant; a missing or invalid record reads as \<^verbatim>\<open>None\<close>.\<close>

definition reference_workflow_run ::
  "(json \<Rightarrow> string \<Rightarrow> (unit + workflow_run) option) \<Rightarrow> string \<Rightarrow> string \<Rightarrow> db \<Rightarrow> (unit + workflow_run) option"
where
  "reference_workflow_run decode tenant_id workflow_id s =
     (case manufacturing_tenant_known tenant_id s of
        Inl _ \<Rightarrow> None
      | Inr _ \<Rightarrow>
          (case get_demo_reference_record tenant_id WORKFLOW_CONSOLE_SURFACE
                  MANUFACTURING_WORKFLOW_CONSOLE_REFERENCE_ID s of
             None \<Rightarrow> None
           | Some record \<Rightarrow> decode (dr_payload record) workflow_id))"

definition ensure_workflow_run ::
  "(json \<Rightarrow> string \<Rightarrow> (unit + workflow_run) option) \<Rightarrow> string \<Rightarrow> string \<Rightarrow> (db, approval_error, workflow_run option) op"
where
  "ensure_workflow_run decode tenant_id workflow_id =
     bind_op (get_op (get_workflow_run tenant_id workflow_id)) (\<lambda>existing.
     case existing of
       Some run \<Rightarrow> return_op (Some run)
     | None \<Rightarrow>
         bind_op (get_op (reference_workflow_run decode tenant_id workflow_id)) (\<lambda>found.
         case found of
           None \<Rightarrow> return_op None
         | Some (Inl _) \<Rightarrow> raise_op WorkflowHistoryBootstrapError
         | Some (Inr run) \<Rightarrow>
             bind_op (create_workflow_run (run\<lparr>wr_tenant_id := tenant_id\<rparr>)) (\<lambda>row. return_op (Some row))))"

section \<open>Approval decisions\<close>

definition new_gate_run :: "string \<Rightarrow> inbox_item \<Rightarrow> string \<Rightarrow> string \<Rightarrow> action_run" where
  "new_gate_run tenant_id approval action_id status =
     \<lparr>rn_id = 0, rn_tenant_id = tenant_id, rn_action_id = action_id,
      rn_idempotency_key = approval_gate_idempotency_key tenant_id action_id (ai_approval_id approval),
      rn_status = status, rn_execution_mode = ''approval_decision_gate'',
      rn_requested_by = ai_requested_by approval, rn_approval_id = Some (ai_approval_id approval),
      rn_workflow_id = Some (ai_workflow_id approval), rn_payload = approval_gate_payload approval action_id,
      rn_result_payload = None, rn_created_at = 0, rn_updated_at = 0\<rparr>"

definition transition_of :: "action_run \<Rightarrow> bool \<Rightarrow> action_transition" where
  "transition_of run replay =
     \<lparr>tx_recorded = True, tx_action_run_id = Some (rn_id run), tx_status = Some (rn_status run),
      tx_idempotency_key = Some (rn_idempotency_key run), tx_execution_mode = Some (rn_execution_mode run),
      tx_idempotent_replay = replay\<rparr>"

definition record_approval_action_transition ::
  "string \<Rightarrow> inbox_item \<Rightarrow> string \<Rightarrow> decision_request \<Rightarrow> signal_result \<Rightarrow> workflow_run option \<Rightarrow>
   (db, approval_error, action_transition) op"
where
  "record_approval_action_transition tenant_id approval action_id request workflow_signal workflow_run =
     (let status = approval_action_status (dq_decision request);
          result_payload = approval_action_result_payload approval action_id request workflow_signal workflow_run;
          record_result = (\<lambda>run.
            bind_op (record_action_run_result tenant_id (rn_id run) status result_payload) (\<lambda>recorded.
            return_op (transition_of recorded False)))
      in bind_op (get_op (\<lambda>s. first_row
             (list_action_runs_for_approval tenant_id action_id (ai_approval_id approval) s))) (\<lambda>existing.
         case existing of
           None \<Rightarrow> bind_op (create_action_run (new_gate_run tenant_id approval action_id status)) record_result
         | Some run \<Rightarrow>
             if rn_status run = status
                \<and> (case rn_result_payload run of
                     None \<Rightarrow> False | Some p \<Rightarrow> json_eq (JObj p) (JObj result_payload))
             then return_op (transition_of run True)
             else record_result run))"

text \<open>The field constraints of \<^verbatim>\<open>PlatformPolicyEvaluationContext\<close>.\<close>

definition policy_context_valid :: "policy_context \<Rightarrow> bool" where
  "policy_context_valid c \<longleftrightarrow>
     (case px_action_id c of None \<Rightarrow> True | Some v \<Rightarrow> 1 \<le> length v \<and> length v \<le> 180)
     \<and> (case px_action_domain c of None \<Rightarrow> True | Some v \<Rightarrow> 1 \<le> length v \<and> length v \<le> 160)
     \<and> (case px_risk_level c of None \<Rightarrow> True | Some v \<Rightarrow> 1 \<le> length v \<and> length v \<le> 40)
     \<and> (case px_autonomy_level c of None \<Rightarrow> True | Some v \<Rightarrow> v \<in> set SUPPORTED_AUTONOMY_LEVELS)
     \<and> (case px_requested_amount c of None \<Rightarrow> True | Some x \<Rightarrow> 0 \<le> x)"

definition approval_platform_policy_context ::
  "decision_codecs \<Rightarrow> string \<Rightarrow> inbox_item \<Rightarrow> string \<Rightarrow> db \<Rightarrow> approval_error + policy_context"
where
  "approval_platform_policy_context cx tenant_id approval action_id s =
     (let action = registry_action_entry (refs cx) action_id tenant_id s;
          linked_runs = list_action_runs_for_approval tenant_id action_id (ai_approval_id approval) s;
          requested = (case linked_runs of
              [] \<Rightarrow> Inr (None, False)
            | run # _ \<Rightarrow> payload_requested_amount (dc_float cx)
                (case dget (rn_payload run) ''input'' of JObj input_payload \<Rightarrow> input_payload | _ \<Rightarrow> []))
      in case requested of
           Inl OverflowError \<Rightarrow> Inl AmountOverflow
         | Inr (requested_amount, requested_amount_malformed) \<Rightarrow>
             let c = \<lparr>px_action_id = Some action_id,
                  px_action_domain = Some (case action of Some a \<Rightarrow> ax_domain a | None \<Rightarrow> ai_domain approval),
                  px_risk_level = Some (case action of Some a \<Rightarrow> ax_risk_level a | None \<Rightarrow> ai_risk_level approval),
                  px_autonomy_level = map_option ax_autonomy_ceiling action,
                  px_requested_amount = requested_amount,
                  px_requested_amount_malformed = requested_amount_malformed\<rparr>
             in if policy_context_valid c then Inr c else Inl ValidationError)"

definition approval_policy_audit :: "inbox_item \<Rightarrow> string \<Rightarrow> decision_request \<Rightarrow> dict" where
  "approval_policy_audit approval action_id request =
     [(''approval_id'', JStr (ai_approval_id approval)), (''workflow_id'', JStr (ai_workflow_id approval)),
      (''action_id'', JStr action_id), (''decision'', JStr (decision_value (dq_decision request)))]"

definition enforce_approval_platform_policies ::
  "decision_codecs \<Rightarrow> string \<Rightarrow> inbox_item \<Rightarrow> string \<Rightarrow> decision_request \<Rightarrow>
   (db, approval_error, policy_decision option) op"
where
  "enforce_approval_platform_policies cx tenant_id approval action_id request =
     (if dq_decision request \<noteq> APPROVE then return_op None
      else
        bind_op (get_op (approval_platform_policy_context cx tenant_id approval action_id)) (\<lambda>built.
        bind_op (of_result built) (\<lambda>policy_context.
        bind_op (lift_error PolicyError (enforce_platform_policy_deny tenant_id (dq_actor_id request)
            ACTION_EXECUTION policy_context ''approval_decision_transition''
            (approval_policy_audit approval action_id request) False)) (\<lambda>decision.
        return_op (Some decision)))))"

definition find_approval ::
  "decision_codecs \<Rightarrow> string \<Rightarrow> string \<Rightarrow> db \<Rightarrow> approval_error + string \<times> inbox_item"
where
  "find_approval cx approval_id tenant_id s =
     (case require_persisted_manufacturing_approval_inbox (refs cx) tenant_id s of
        Inl e \<Rightarrow> Inl (ReferenceError e)
      | Inr inbox \<Rightarrow>
          (case first_row (select_where (\<lambda>i. ai_approval_id i = approval_id) (ix_approvals inbox)) of
             Some approval \<Rightarrow> Inr (ix_tenant_id inbox, approval)
           | None \<Rightarrow> Inl (DemoApprovalNotFound ''Approval not found'')))"

definition new_approval_record :: "string \<Rightarrow> inbox_item \<Rightarrow> string \<Rightarrow> approval_record" where
  "new_approval_record tenant_id approval action_id =
     \<lparr>ar_id = 0, ar_tenant_id = tenant_id, ar_approval_id = ai_approval_id approval,
      ar_workflow_id = Some (ai_workflow_id approval), ar_action_id = action_id,
      ar_requested_by = ai_requested_by approval, ar_owner_role = ai_owner_role approval,
      ar_status = ''pending'', ar_risk_level = ai_risk_level approval, ar_decision = None,
      ar_decision_actor_id = None, ar_decision_note = None,
      ar_payload =
        [(''action'', JStr (ai_action approval)), (''summary'', JStr (ai_summary approval)),
         (''required_permission'', JStr (ai_required_permission approval)),
         (''model_policy'', JStr (ai_model_policy approval)),
         (''estimated_cost'', JStr (ai_estimated_cost approval)),
         (''audit_event_preview'', audit_preview_dump (ai_audit_event_preview approval))],
      ar_created_at = 0, ar_updated_at = 0, ar_decided_at = None\<rparr>"

definition ensure_approval_record :: "string \<Rightarrow> inbox_item \<Rightarrow> string \<Rightarrow> (db, approval_error, unit) op" where
  "ensure_approval_record tenant_id approval action_id =
     bind_op (get_op (get_approval_record tenant_id (ai_approval_id approval))) (\<lambda>existing.
     if existing \<noteq> None then return_op ()
     else bind_op (create_approval_record (new_approval_record tenant_id approval action_id)) (\<lambda>_. return_op ()))"

definition evaluate_approval_decision_permission ::
  "string \<Rightarrow> inbox_item \<Rightarrow> decision_request \<Rightarrow> approval_error + permission_decision"
where
  "evaluate_approval_decision_permission tenant_id approval request =
     (let permission_request =
            \<lparr>pq_tenant_id = tenant_id, pq_actor_id = dq_actor_id request,
             pq_actor_scopes = dq_actor_scopes request,
             pq_required_scopes = [ai_required_permission approval], pq_relationship_scopes = [],
             pq_attributes =
               [(''approval_id'', JStr (ai_approval_id approval)), (''workflow_id'', JStr (ai_workflow_id approval)),
                (''domain'', JStr (ai_domain approval)), (''owner_role'', JStr (ai_owner_role approval)),
                (''risk_level'', JStr (ai_risk_level approval))]\<rparr>;
          decision = evaluate_permission permission_request
      in if \<not> permission_request_valid permission_request then Inl ValidationError
         else if \<not> allowed decision then Inl (ApprovalPermissionDenied (ai_required_permission approval) decision)
         else case separation_of_duties_denial (dq_actor_id request) (Some (ai_requested_by approval)) of
                Some self_decision \<Rightarrow> Inl (ApprovalPermissionDenied (ai_required_permission approval) self_decision)
              | None \<Rightarrow> Inr decision)"

text \<open>The configuration of a call: whether workflow history and the outbox are enabled, and what signalling the
  engine directly comes to (\<open>None\<close> is no runtime, for which the deferred one is used).\<close>

record decision_runtime =
  dn_history_enabled :: bool
  dn_outbox_enabled :: bool
  dn_signal :: "(signal_request \<Rightarrow> signal_error + signal_result) option"

definition direct_signal :: "decision_runtime \<Rightarrow> signal_request \<Rightarrow> signal_error + signal_result" where
  "direct_signal rt request =
     (case dn_signal rt of None \<Rightarrow> Inr (deferred_signal_approval_decision request) | Some signal \<Rightarrow> signal request)"

definition decision_signal :: "string \<Rightarrow> inbox_item \<Rightarrow> decision_request \<Rightarrow> uuid option \<Rightarrow> timestamp \<Rightarrow> signal_request" where
  "decision_signal tenant_id approval request event_id decided_at =
     \<lparr>sg_tenant_id = tenant_id, sg_workflow_id = ai_workflow_id approval,
      sg_approval_id = ai_approval_id approval, sg_decision = dq_decision request,
      sg_decision_event_id = event_id, sg_actor_id = Some (dq_actor_id request), sg_note = dq_note request,
      sg_decided_at = Some decided_at, sg_signal_name = APPROVAL_DECISION_SIGNAL_NAME\<rparr>"

definition signal_approval_workflow ::
  "decision_codecs \<Rightarrow> decision_runtime \<Rightarrow> string \<Rightarrow> inbox_item \<Rightarrow> decision_request \<Rightarrow>
   (db, approval_error, signal_result) op"
where
  "signal_approval_workflow cx rt tenant_id approval request =
     bind_op utc_now (\<lambda>now.
     case make_signal_request (dc_uuid5 cx) (decision_signal tenant_id approval request None now) of
       None \<Rightarrow> raise_op ValidationError
     | Some signal_request \<Rightarrow>
         (case direct_signal rt signal_request of
            Inr result \<Rightarrow> return_op result
          | Inl e \<Rightarrow> return_op (workflow_signal_failure_result signal_request (signal_reason e))))"

text \<open>The outbox branch of the handler: the row and the result that says it is queued.\<close>

definition outbox_create_of :: "signal_request \<Rightarrow> uuid \<Rightarrow> timestamp \<Rightarrow> string \<Rightarrow> outbox_create" where
  "outbox_create_of signal event_id decided_at actor =
     \<lparr>oc_id = event_id, oc_tenant_id = sg_tenant_id signal, oc_approval_id = sg_approval_id signal,
      oc_workflow_id = sg_workflow_id signal, oc_signal_name = APPROVAL_DECISION_SIGNAL_NAME,
      oc_schema_version = APPROVAL_DECISION_SCHEMA_VERSION, oc_decision = decision_value (sg_decision signal),
      oc_decision_actor_id = actor, oc_payload = runtime_payload signal, oc_available_at = decided_at\<rparr>"

definition queued_result :: "inbox_item \<Rightarrow> decision_request \<Rightarrow> outbox_row \<Rightarrow> signal_result" where
  "queued_result approval request row =
     \<lparr>wsr_workflow_id = ai_workflow_id approval, wsr_status = ''approval_signal_queued'',
      wsr_adapter = ''axis-transactional-outbox'', wsr_signal_name = APPROVAL_DECISION_SIGNAL_NAME,
      wsr_payload =
        [(''approval_id'', JStr (ai_approval_id approval)), (''approved'', JBool (dq_decision request = APPROVE)),
         (''decision'', JStr (decision_value (dq_decision request))),
         (''decision_event_id'', JStr (uuid_text (ob_id row)))]\<rparr>"

definition queue_decision ::
  "decision_codecs \<Rightarrow> string \<Rightarrow> inbox_item \<Rightarrow> decision_request \<Rightarrow> (db, approval_error, uuid option \<times> signal_result) op"
where
  "queue_decision cx tenant_id approval request =
     bind_op uuid4 (\<lambda>decision_event_id.
     bind_op utc_now (\<lambda>decided_at.
     case make_signal_request (dc_uuid5 cx)
            (decision_signal tenant_id approval request (Some decision_event_id) decided_at) of
       None \<Rightarrow> raise_op ValidationError
     | Some signal_request \<Rightarrow>
         bind_op (lift_error IntegrityError (create_approval_decision_outbox
             (outbox_create_of signal_request decision_event_id decided_at (dq_actor_id request)))) (\<lambda>row.
         return_op (Some (ob_id row), queued_result approval request row))))"

definition signal_decision ::
  "decision_codecs \<Rightarrow> decision_runtime \<Rightarrow> string \<Rightarrow> inbox_item \<Rightarrow> decision_request \<Rightarrow>
   (db, approval_error, uuid option \<times> signal_result) op"
where
  "signal_decision cx rt tenant_id approval request =
     (if dn_outbox_enabled rt then queue_decision cx tenant_id approval request
      else bind_op (signal_approval_workflow cx rt tenant_id approval request) (\<lambda>result. return_op (None, result)))"

definition decision_recorded_event ::
  "string \<Rightarrow> inbox_item \<Rightarrow> string \<Rightarrow> decision_request \<Rightarrow> permission_decision \<Rightarrow> signal_result \<Rightarrow>
   workflow_run option \<Rightarrow> action_transition \<Rightarrow> policy_decision option \<Rightarrow> audit_event_create"
where
  "decision_recorded_event tenant_id approval action_id request permission workflow_signal workflow_run
     transition policy =
     \<lparr>ac_event_tenant_id = tenant_id, ac_event_actor_id = dq_actor_id request,
      ac_event_type = ''approval.decision.recorded'',
      ac_event_payload =
        [(''approval_id'', JStr (ai_approval_id approval)), (''workflow_id'', JStr (ai_workflow_id approval)),
         (''action_id'', JStr action_id), (''decision'', JStr (decision_value (dq_decision request))),
         (''required_permission'', JStr (ai_required_permission approval)),
         (''permission_decision'', permission_decision_dump permission),
         (''workflow_signal'', signal_result_dump workflow_signal),
         (''workflow_state_updated'', JBool (workflow_run \<noteq> None)),
         (''workflow_state'', jopt (\<lambda>r. JStr (wr_state r)) workflow_run),
         (''workflow_status'', jopt (\<lambda>r. JStr (wr_status r)) workflow_run),
         (''action_run'', JObj
            [(''action_run_id'', jopt (\<lambda>u. JStr (uuid_text u)) (tx_action_run_id transition)),
             (''idempotency_key'', jopt JStr (tx_idempotency_key transition)),
             (''status'', jopt JStr (tx_status transition)),
             (''execution_mode'', jopt JStr (tx_execution_mode transition)),
             (''recorded'', JBool (tx_recorded transition)),
             (''idempotent_replay'', JBool (tx_idempotent_replay transition))]),
         (''result'', JStr (av_result (ai_audit_event_preview approval))),
         (''decision_note_recorded'', JStr (bool_text (dq_note request \<noteq> None))),
         (''platform_policy_decision'',
            (case policy of None \<Rightarrow> JNull
             | Some d \<Rightarrow> if pd_matched d then policy_decision_dump d else JNull))]\<rparr>"

definition decision_result_of ::
  "string \<Rightarrow> inbox_item \<Rightarrow> string \<Rightarrow> decision_request \<Rightarrow> approval_record \<Rightarrow> audit_event \<Rightarrow> permission_decision \<Rightarrow>
   uuid option \<times> signal_result \<Rightarrow> workflow_run option \<Rightarrow> action_transition \<Rightarrow> policy_decision option \<Rightarrow> decision_result"
where
  "decision_result_of tenant_id approval action_id request record audit_event permission signalled workflow_run
     transition policy =
     \<lparr>res_tenant_id = tenant_id, res_approval_id = ai_approval_id approval,
      res_workflow_id = ai_workflow_id approval, res_action_id = action_id,
      res_decision = dq_decision request, res_status = ar_status record, res_actor_id = dq_actor_id request,
      res_audit_event_id = ae_id audit_event, res_audit_event_type = ae_event_type audit_event,
      res_persisted = True, res_idempotent_replay = False, res_permission_decision = permission,
      res_workflow_signal = snd signalled, res_workflow_signal_status = wsr_status (snd signalled),
      res_workflow_state_updated = (workflow_run \<noteq> None), res_workflow_state = map_option wr_state workflow_run,
      res_workflow_status = map_option wr_status workflow_run, res_action_run_recorded = tx_recorded transition,
      res_action_run_id = tx_action_run_id transition, res_action_run_status = tx_status transition,
      res_action_run_idempotency_key = tx_idempotency_key transition,
      res_action_run_idempotent_replay = tx_idempotent_replay transition,
      res_platform_policy_decision = policy, res_decision_event_id = fst signalled\<rparr>"

text \<open>\<^verbatim>\<open>result.model_dump(mode="json")\<close>.\<close>

definition decision_result_dump :: "decision_result \<Rightarrow> dict" where
  "decision_result_dump r =
     [(''tenant_id'', JStr (res_tenant_id r)), (''approval_id'', JStr (res_approval_id r)),
      (''workflow_id'', JStr (res_workflow_id r)), (''action_id'', JStr (res_action_id r)),
      (''decision'', JStr (decision_value (res_decision r))), (''status'', JStr (res_status r)),
      (''actor_id'', JStr (res_actor_id r)), (''audit_event_id'', JStr (uuid_text (res_audit_event_id r))),
      (''audit_event_type'', JStr (res_audit_event_type r)), (''persisted'', JBool (res_persisted r)),
      (''idempotent_replay'', JBool (res_idempotent_replay r)),
      (''permission_decision'', permission_decision_dump (res_permission_decision r)),
      (''workflow_signal'', signal_result_dump (res_workflow_signal r)),
      (''workflow_signal_status'', JStr (res_workflow_signal_status r)),
      (''workflow_state_updated'', JBool (res_workflow_state_updated r)),
      (''workflow_state'', jopt JStr (res_workflow_state r)),
      (''workflow_status'', jopt JStr (res_workflow_status r)),
      (''action_run_recorded'', JBool (res_action_run_recorded r)),
      (''action_run_id'', jopt (\<lambda>u. JStr (uuid_text u)) (res_action_run_id r)),
      (''action_run_status'', jopt JStr (res_action_run_status r)),
      (''action_run_idempotency_key'', jopt JStr (res_action_run_idempotency_key r)),
      (''action_run_idempotent_replay'', JBool (res_action_run_idempotent_replay r)),
      (''platform_policy_decision'', jopt policy_decision_dump (res_platform_policy_decision r)),
      (''decision_event_id'', jopt (\<lambda>u. JStr (uuid_text u)) (res_decision_event_id r))]"

text \<open>A second decision on a decided approval: the stored result for the same request, and a conflict
  otherwise.\<close>

definition same_request :: "decision_request \<Rightarrow> approval_record \<Rightarrow> bool" where
  "same_request request existing \<longleftrightarrow>
     ar_decision existing = Some (decision_value (dq_decision request))
     \<and> ar_decision_actor_id existing = Some (dq_actor_id request) \<and> ar_decision_note existing = dq_note request"

definition replay_decision ::
  "decision_codecs \<Rightarrow> decision_request \<Rightarrow> approval_record \<Rightarrow> string \<Rightarrow> approval_error + decision_result"
where
  "replay_decision cx request existing approval_id =
     (if same_request request existing
      then (case dget (ar_payload existing) ''decision_result'' of
              JObj snapshot \<Rightarrow>
                (case dc_result cx snapshot of
                   None \<Rightarrow> Inl (ApprovalDecisionConflict approval_id ''approval_replay_unavailable'')
                 | Some result \<Rightarrow> Inr (result\<lparr>res_idempotent_replay := True\<rparr>))
            | _ \<Rightarrow> Inl (ApprovalDecisionConflict approval_id ''approval_replay_unavailable''))
      else Inl (ApprovalDecisionConflict approval_id ''approval_decision_conflict''))"

text \<open>The last write of the handler: the snapshot in the payload of the record; the flush stamps the row.\<close>

definition store_decision_result :: "approval_record \<Rightarrow> decision_result \<Rightarrow> (db, approval_error, unit) op" where
  "store_decision_result record result =
     bind_op utc_now (\<lambda>now.
     put_op (\<lambda>s. s\<lparr>approval_records :=
         update_where (\<lambda>r. ar_id r = ar_id record)
           (\<lambda>r. r\<lparr>ar_payload := dset ''decision_result'' (JObj (decision_result_dump result)) (ar_payload record),
                  ar_updated_at := now\<rparr>) (approval_records s)\<rparr>))"

text \<open>What follows the checks of the handler: every write of a new decision.\<close>

definition apply_decision ::
  "decision_codecs \<Rightarrow> decision_runtime \<Rightarrow> string \<Rightarrow> inbox_item \<Rightarrow> string \<Rightarrow> decision_request \<Rightarrow> permission_decision \<Rightarrow>
   policy_decision option \<Rightarrow> (db, approval_error, decision_result) op"
where
  "apply_decision cx rt tenant_id approval action_id request permission policy =
     bind_op (ensure_approval_record tenant_id approval action_id) (\<lambda>_.
     bind_op (record_approval_decision tenant_id (ai_approval_id approval) (dq_decision request)
         (dq_actor_id request) (dq_note request)) (\<lambda>record.
     bind_op (signal_decision cx rt tenant_id approval request) (\<lambda>signalled.
     bind_op (if dn_history_enabled rt then ensure_workflow_run (dc_console_run cx) tenant_id (ai_workflow_id approval)
         else return_op None) (\<lambda>_.
     bind_op (record_workflow_approval_decision tenant_id (ai_workflow_id approval) (ai_approval_id approval)
         (dq_decision request) (dq_actor_id request)) (\<lambda>workflow_run.
     bind_op (record_approval_action_transition tenant_id approval action_id request (snd signalled) workflow_run) (\<lambda>transition.
     bind_op (append_audit_event (decision_recorded_event tenant_id approval action_id request permission
         (snd signalled) workflow_run transition policy)) (\<lambda>audit_event.
     let result = decision_result_of tenant_id approval action_id request record audit_event permission signalled
           workflow_run transition policy
     in bind_op (store_decision_result record result) (\<lambda>_. return_op result))))))))"

text \<open>\<^verbatim>\<open>record_demo_approval_decision\<close>. The lock that it takes serializes the decisions on one approval; here
  transactions are atomic, and it is the identity.\<close>

definition record_demo_approval_decision ::
  "decision_codecs \<Rightarrow> decision_runtime \<Rightarrow> string \<Rightarrow> decision_request \<Rightarrow> string \<Rightarrow> (db, approval_error, decision_result) op"
where
  "record_demo_approval_decision cx rt approval_id request asked_tenant =
     bind_op (get_op (find_approval cx approval_id asked_tenant)) (\<lambda>found.
     bind_op (of_result found) (\<lambda>(tenant_id, approval).
     bind_op (get_op (approval_action_id (refs cx) tenant_id (ai_approval_id approval))) (\<lambda>bound.
     bind_op (of_result bound) (\<lambda>action_id.
     bind_op (of_result (evaluate_approval_decision_permission tenant_id approval request)) (\<lambda>permission.
     bind_op (get_op (get_approval_record tenant_id (ai_approval_id approval))) (\<lambda>existing.
     case existing of
       Some record \<Rightarrow>
         if ar_decision record \<noteq> None then of_result (replay_decision cx request record (ai_approval_id approval))
         else bind_op (enforce_approval_platform_policies cx tenant_id approval action_id request) (\<lambda>policy.
              apply_decision cx rt tenant_id approval action_id request permission policy)
     | None \<Rightarrow>
         bind_op (enforce_approval_platform_policies cx tenant_id approval action_id request) (\<lambda>policy.
         apply_decision cx rt tenant_id approval action_id request permission policy)))))))"

section \<open>The endpoint\<close>

text \<open>\<^verbatim>\<open>_bind_tenant_actor\<close> and \<^verbatim>\<open>manufacturing_approval_decision\<close> of \<^verbatim>\<open>axis_api/main.py\<close>: the request is bound to the
  verified principal, the handler runs in the session of the request, and only a denial by a policy is committed, with
  its audit event; every other error rolls back.\<close>

datatype 'e endpoint_error =
    AuthenticationRequired
  | BindingRefused binding_error
  | Refused 'e

definition with_decision_actor :: "string \<Rightarrow> string list \<Rightarrow> decision_request \<Rightarrow> decision_request" where
  "with_decision_actor actor scopes request = request\<lparr>dq_actor_id := actor, dq_actor_scopes := scopes\<rparr>"

text \<open>How the request model is read and copied are the first two arguments.\<close>

definition bind_tenant_request ::
  "('r \<Rightarrow> string) \<Rightarrow> (string \<Rightarrow> string list \<Rightarrow> 'r \<Rightarrow> 'r) \<Rightarrow> 'r \<Rightarrow> oidc_principal option \<Rightarrow> string \<Rightarrow>
   'e endpoint_error + 'r"
where
  "bind_tenant_request actor_of with_actor request the_principal tenant_id =
     (if the_principal = None \<and> tenant_id \<noteq> DEMO_TENANT then Inl AuthenticationRequired
      else case bind_request_actor (\<lambda>r. Some (actor_of r)) with_actor request the_principal (Some tenant_id)
                  TENANT_MISMATCH_MESSAGE of
             Inl e \<Rightarrow> Inl (BindingRefused e)
           | Inr bound \<Rightarrow> Inr bound)"

abbreviation bind_tenant_actor ::
  "decision_request \<Rightarrow> oidc_principal option \<Rightarrow> string \<Rightarrow> approval_error endpoint_error + decision_request"
where
  "bind_tenant_actor \<equiv> bind_tenant_request dq_actor_id with_decision_actor"

definition commits_on :: "approval_error \<Rightarrow> bool" where
  "commits_on e \<longleftrightarrow> (case e of PolicyError (PlatformPolicyEnforcementDenied _ _ _) \<Rightarrow> True | _ \<Rightarrow> False)"

definition manufacturing_approval_decision ::
  "decision_codecs \<Rightarrow> decision_runtime \<Rightarrow> string \<Rightarrow> decision_request \<Rightarrow> oidc_principal option \<Rightarrow> string \<Rightarrow>
   (db, approval_error endpoint_error, decision_result) op"
where
  "manufacturing_approval_decision cx rt approval_id request the_principal tenant_id s =
     (case bind_tenant_actor request the_principal tenant_id of
        Inl e \<Rightarrow> (Inl e, s)
      | Inr bound \<Rightarrow>
          (case record_demo_approval_decision cx rt approval_id bound tenant_id s of
             (Inr result, t) \<Rightarrow> (Inr result, t)
           | (Inl e, t) \<Rightarrow> (Inl (Refused e), if commits_on e then t else rollback s t)))"

end
