(* ===== verification/Approval_History.thy ===== *)
theory Approval_History
  imports Approval_Decisions
begin

text \<open>
  What the decisions of \<^verbatim>\<open>axis_api/approval_decisions.py\<close> guarantee. The table of approval records is read as a map
  from tenant and approval to a record; each write of the handler is an update of this map or leaves it alone, and
  the handler as a whole is one update or none. Histories interleave decisions through the endpoint with everything else
  that the control plane does; the invariant of a history is that the ledger and the map agree.
\<close>

section \<open>Lemmas: the approvals as a map\<close>

lemma update_by_id:
  "distinct (map i rows) \<Longrightarrow> r0 \<in> set rows \<Longrightarrow>
   update_where (\<lambda>x. i x = i r0) f rows = map (\<lambda>x. if x = r0 then f r0 else x) rows"
  by (auto simp: update_where_def distinct_map inj_on_def)

lemma first_row_map_key:
  assumes "distinct (map k rows)" "r0 \<in> set rows" "k (f r0) = k r0"
  shows "first_row (select_where (\<lambda>x. k x = a) (map (\<lambda>x. if x = r0 then f r0 else x) rows)) =
    (if k r0 = a then Some (f r0) else first_row (select_where (\<lambda>x. k x = a) rows))"
  using assms
proof (induction rows)
  case (Cons x xs)
  have rest: "map (\<lambda>x. if x = r0 then f r0 else x) xs = xs" if "x = r0"
    using Cons.prems(1) that by (auto intro!: map_idI)
  show ?case
  proof (cases "x = r0")
    case True
    with rest Cons.prems(3) show ?thesis by simp
  next
    case False
    with Cons.prems have "r0 \<in> set xs" "k x \<noteq> k r0" "distinct (map k xs)" by auto
    with False Cons.IH Cons.prems(3) show ?thesis by auto
  qed
qed simp

abbreviation approval_key :: "approval_record \<Rightarrow> string \<times> string" where
  "approval_key r \<equiv> (ar_tenant_id r, ar_approval_id r)"

definition approval_of :: "db \<Rightarrow> string \<times> string \<Rightarrow> approval_record option" where
  "approval_of s = (\<lambda>(tenant_id, approval_id). get_approval_record tenant_id approval_id s)"

lemma approval_of_first: "approval_of s k = first_row (select_where (\<lambda>r. approval_key r = k) (approval_records s))"
  by (cases k) (simp add: approval_of_def get_approval_record_def)

definition approvals_inv :: "db \<Rightarrow> bool" where
  "approvals_inv s \<longleftrightarrow> inj (uuid_at s) \<and> ids_drawn s (map ar_id (approval_records s))
     \<and> distinct (map approval_key (approval_records s)) \<and> ids_drawn s (map rn_id (action_runs s))"

lemma approvals_invD:
  assumes "approvals_inv s"
  shows "distinct (map ar_id (approval_records s))" "distinct (map approval_key (approval_records s))"
    "distinct (map rn_id (action_runs s))" "inj (uuid_at s)"
  using assms by (simp_all add: approvals_inv_def ids_drawn_def)

lemma approval_of_SomeD: "approval_of s k = Some r \<Longrightarrow> r \<in> set (approval_records s) \<and> approval_key r = k"
  unfolding approval_of_first by (drule first_row_filter_SomeD) simp

text \<open>Rewriting one row by its id is an update of the map at its key.\<close>

lemma approval_of_update:
  assumes "approvals_inv s" "approval_of s k = Some r0" "approval_key (f r0) = k" "ar_id (f r0) = ar_id r0"
    and "approval_records t = update_where (\<lambda>r. ar_id r = ar_id r0) f (approval_records s)"
    and "uuid_at t = uuid_at s" "uuid_n s \<le> uuid_n t" "action_runs t = action_runs s"
  shows "approval_of t = (approval_of s)(k \<mapsto> f r0)" "approvals_inv t"
proof -
  have r0: "r0 \<in> set (approval_records s)" "approval_key r0 = k" using approval_of_SomeD [OF assms(2)] by auto
  have rows: "approval_records t = map (\<lambda>x. if x = r0 then f r0 else x) (approval_records s)"
    using update_by_id [OF approvals_invD(1) [OF assms(1)] r0(1)] assms(5) by simp
  show "approval_of t = (approval_of s)(k \<mapsto> f r0)"
    using first_row_map_key [OF approvals_invD(2) [OF assms(1)] r0(1), of f] assms(3) r0(2)
    by (auto simp: fun_eq_iff approval_of_first rows)
  have same: "map ar_id (approval_records t) = map ar_id (approval_records s)"
    "map approval_key (approval_records t) = map approval_key (approval_records s)"
    using assms(3,4) r0(2) by (auto simp: rows)
  show "approvals_inv t"
    using assms(1,6,7,8) ids_drawn_mono [of s _ t] by (auto simp: approvals_inv_def same)
qed

lemma approval_of_append:
  assumes "approvals_inv s" "approval_of s (approval_key r) = None"
    and "approval_records t = approval_records s @ [r]" "ar_id r = uuid_at s (uuid_n s)"
    and "uuid_at t = uuid_at s" "uuid_n s < uuid_n t" "action_runs t = action_runs s"
  shows "approval_of t = (approval_of s)(approval_key r \<mapsto> r)" "approvals_inv t"
proof -
  have new: "approval_key r \<notin> approval_key ` set (approval_records s)"
    using assms(2) unfolding approval_of_first by auto
  show "approval_of t = (approval_of s)(approval_key r \<mapsto> r)"
  proof
    fix k
    show "approval_of t k = ((approval_of s)(approval_key r \<mapsto> r)) k"
    proof (cases "k = approval_key r")
      case True
      then have nil: "select_where (\<lambda>x. approval_key x = k) (approval_records s) = []"
        using new by (metis (mono_tags, lifting) image_eqI select_where_Nil)
      show ?thesis
        by (simp only: approval_of_first assms(3) select_where_append nil) (simp add: True)
    next
      case False
      then show ?thesis by (simp add: approval_of_first assms(3))
    qed
  qed
  show "approvals_inv t"
    using assms(1,3-7) new ids_drawn_snoc [of s "map ar_id (approval_records s)" t] ids_drawn_mono [of s _ t]
    by (auto simp: approvals_inv_def)
qed

section \<open>Lemmas: what each write touches\<close>

text \<open>No write of a decision touches the policies, the tenants or the reference records, and draws only go up.\<close>

definition frame :: "db \<Rightarrow> db \<Rightarrow> bool" where
  "frame s t \<longleftrightarrow> uuid_at t = uuid_at s \<and> uuid_n s \<le> uuid_n t \<and> tenants t = tenants s
     \<and> platform_policies t = platform_policies s \<and> reference_records t = reference_records s"

definition quiet :: "db \<Rightarrow> db \<Rightarrow> bool" where
  "quiet s t \<longleftrightarrow> frame s t \<and> audit_events t = audit_events s \<and> approval_records t = approval_records s
     \<and> action_runs t = action_runs s \<and> approval_decision_outbox t = approval_decision_outbox s"

lemma frame_refl [simp]: "frame s s" by (simp add: frame_def)

lemma frame_trans: "frame s t \<Longrightarrow> frame t u \<Longrightarrow> frame s u" by (simp add: frame_def)

lemma quiet_trans: "quiet s t \<Longrightarrow> quiet t u \<Longrightarrow> quiet s u" by (simp add: quiet_def frame_def)

lemma quiet_refl [simp]: "quiet s s" by (simp add: quiet_def)

lemma approval_of_cong: "approval_records t = approval_records s \<Longrightarrow> approval_of t = approval_of s"
  by (simp add: fun_eq_iff approval_of_first)

lemma approvals_inv_cong:
  "approvals_inv s \<Longrightarrow> frame s t \<Longrightarrow> approval_records t = approval_records s \<Longrightarrow> action_runs t = action_runs s \<Longrightarrow>
   approvals_inv t"
  using ids_drawn_mono [of s _ t] by (auto simp: approvals_inv_def frame_def)

lemma ensure_approval_record_effect:
  assumes "ensure_approval_record tid ap aid s = (Inr u, t)" "approvals_inv s"
  shows "frame s t" "audit_events t = audit_events s" "action_runs t = action_runs s"
    "approval_decision_outbox t = approval_decision_outbox s" "approvals_inv t"
    "\<exists>r. approval_of t = (approval_of s)((tid, ai_approval_id ap) \<mapsto> r)
       \<and> (case approval_of s (tid, ai_approval_id ap) of Some r0 \<Rightarrow> r = r0 | None \<Rightarrow> ar_decision r = None)"
proof -
  let ?k = "(tid, ai_approval_id ap)"
  have main: "frame s t \<and> audit_events t = audit_events s \<and> action_runs t = action_runs s
    \<and> approval_decision_outbox t = approval_decision_outbox s \<and> approvals_inv t
    \<and> (\<exists>r. approval_of t = (approval_of s)(?k \<mapsto> r)
       \<and> (case approval_of s ?k of Some r0 \<Rightarrow> r = r0 | None \<Rightarrow> ar_decision r = None))"
  proof (cases "approval_of s ?k")
    case (Some r0)
    then have "t = s" using assms(1) by (simp add: ensure_approval_record_def approval_of_def)
    with Some assms(2) show ?thesis by (auto simp: map_upd_triv)
  next
    case None
    let ?r = "(new_approval_record tid ap aid)\<lparr>ar_id := uuid_at s (uuid_n s), ar_created_at := clock_at s (clock_n s),
      ar_updated_at := clock_at s (Suc (clock_n s))\<rparr>"
    have "t = s\<lparr>uuid_n := Suc (uuid_n s), clock_n := Suc (Suc (clock_n s)),
        approval_records := approval_records s @ [?r]\<rparr>"
      using None assms(1)
      by (auto simp: ensure_approval_record_def approval_of_def create_approval_record_def bind_op_def Let_def
          split: if_splits)
    moreover have "approval_key ?r = ?k" "ar_decision ?r = None" by (simp_all add: new_approval_record_def)
    ultimately show ?thesis
      using approval_of_append [OF assms(2), of ?r t] None by (auto simp: frame_def)
  qed
  then show "frame s t" "audit_events t = audit_events s" "action_runs t = action_runs s"
    "approval_decision_outbox t = approval_decision_outbox s" "approvals_inv t"
    "\<exists>r. approval_of t = (approval_of s)(?k \<mapsto> r)
       \<and> (case approval_of s ?k of Some r0 \<Rightarrow> r = r0 | None \<Rightarrow> ar_decision r = None)"
    by blast+
qed

lemma record_approval_decision_effect:
  assumes "record_approval_decision tid a d actor note s = (Inr record, t)" "approvals_inv s"
  shows "\<exists>r now. approval_of s (tid, a) = Some r \<and> record = decide_record d actor note now r
    \<and> approval_of t = (approval_of s)((tid, a) \<mapsto> record) \<and> approvals_inv t
    \<and> frame s t \<and> audit_events t = audit_events s \<and> action_runs t = action_runs s
    \<and> approval_decision_outbox t = approval_decision_outbox s"
proof -
  obtain r where r: "approval_of s (tid, a) = Some r"
    using assms(1) by (auto simp: record_approval_decision_def approval_of_def split: option.splits)
  let ?now = "clock_at s (clock_n s)"
  have t: "record = decide_record d actor note ?now r"
    "t = s\<lparr>clock_n := Suc (clock_n s), approval_records :=
       update_where (\<lambda>x. ar_id x = ar_id r) (decide_record d actor note ?now) (approval_records s)\<rparr>"
    using assms(1) r by (auto simp: record_approval_decision_def approval_of_def)
  have "approval_key r = (tid, a)" using approval_of_SomeD [OF r] by simp
  then have "approval_of t = (approval_of s)((tid, a) \<mapsto> record)" "approvals_inv t"
    using approval_of_update [OF assms(2) r, of "decide_record d actor note ?now" t] t
    by (simp_all add: decide_record_def)
  with r t show ?thesis by (auto simp: frame_def)
qed

lemma make_signal_request_event:
  "make_signal_request u5 (decision_signal tid ap req (Some ev) now) = Some sg \<longleftrightarrow>
     sg = decision_signal tid ap req (Some ev) now \<and> signal_request_valid sg"
  by (auto simp: make_signal_request_def populate_stable_decision_event_id_def decision_signal_def)

text \<open>The row that the handler queues in a given state.\<close>

definition queued_row :: "string \<Rightarrow> inbox_item \<Rightarrow> decision_request \<Rightarrow> db \<Rightarrow> outbox_row" where
  "queued_row tid ap req s =
     (let ev = uuid_at s (uuid_n s); now = clock_at s (clock_n s)
      in new_outbox_row (outbox_create_of (decision_signal tid ap req (Some ev) now) ev now (dq_actor_id req))
           (clock_at s (Suc (clock_n s))) (clock_at s (Suc (Suc (clock_n s)))))"

lemma signal_decision_effect:
  assumes "signal_decision cx rt tid ap req s = (Inr sg, t)"
  shows "frame s t" "audit_events t = audit_events s" "approval_records t = approval_records s"
    "action_runs t = action_runs s"
    "approval_decision_outbox t = approval_decision_outbox s @ (if dn_outbox_enabled rt then [queued_row tid ap req s] else [])"
    "fst sg = (if dn_outbox_enabled rt then Some (uuid_at s (uuid_n s)) else None)"
    "dn_outbox_enabled rt \<Longrightarrow> signal_request_valid (decision_signal tid ap req (Some (uuid_at s (uuid_n s))) (clock_at s (clock_n s)))"
proof -
  have "frame s t \<and> audit_events t = audit_events s \<and> approval_records t = approval_records s
    \<and> action_runs t = action_runs s
    \<and> approval_decision_outbox t = approval_decision_outbox s @ (if dn_outbox_enabled rt then [queued_row tid ap req s] else [])
    \<and> fst sg = (if dn_outbox_enabled rt then Some (uuid_at s (uuid_n s)) else None)
    \<and> (dn_outbox_enabled rt \<longrightarrow>
         signal_request_valid (decision_signal tid ap req (Some (uuid_at s (uuid_n s))) (clock_at s (clock_n s))))"
  proof (cases "dn_outbox_enabled rt")
    case True
    then show ?thesis
      using assms
      by (auto simp: signal_decision_def queue_decision_def bind_op_Inr_iff create_outbox_apply Let_def queued_row_def
          make_signal_request_event frame_def outbox_create_of_def split: option.splits if_splits)
  next
    case False
    then show ?thesis
      using assms
      by (auto simp: signal_decision_def signal_approval_workflow_def bind_op_Inr_iff frame_def
          split: option.splits sum.splits)
  qed
  then show "frame s t" "audit_events t = audit_events s" "approval_records t = approval_records s"
    "action_runs t = action_runs s"
    "approval_decision_outbox t = approval_decision_outbox s @ (if dn_outbox_enabled rt then [queued_row tid ap req s] else [])"
    "fst sg = (if dn_outbox_enabled rt then Some (uuid_at s (uuid_n s)) else None)"
    "dn_outbox_enabled rt \<Longrightarrow> signal_request_valid (decision_signal tid ap req (Some (uuid_at s (uuid_n s))) (clock_at s (clock_n s)))"
    by auto
qed

lemma ensure_workflow_run_quiet: "ensure_workflow_run decode tid wid s = (Inr r, t) \<Longrightarrow> quiet s t"
  by (auto simp: ensure_workflow_run_def create_workflow_run_def bind_op_Inr_iff quiet_def frame_def Let_def
      split: option.splits sum.splits)

lemma record_workflow_approval_decision_quiet:
  "record_workflow_approval_decision tid wid a d actor s = ((Inr r :: approval_error + workflow_run option), t) \<Longrightarrow> quiet s t"
  by (auto simp: record_workflow_approval_decision_def append_workflow_timeline_event_def bind_op_Inr_iff quiet_def
      frame_def Let_def split: option.splits)

definition gate_run :: "string \<Rightarrow> string \<Rightarrow> string \<Rightarrow> string \<Rightarrow> action_run \<Rightarrow> bool" where
  "gate_run tid aid a status r \<longleftrightarrow> rn_tenant_id r = tid \<and> rn_action_id r = aid \<and> rn_approval_id r = Some a
     \<and> rn_status r = status"

lemma record_action_run_result_effect:
  assumes "record_action_run_result tid rid status payload s = (Inr run, t)" "approvals_inv s"
    "old \<in> set (action_runs s)" "rn_id old = rid"
  shows "frame s t" "audit_events t = audit_events s" "approval_records t = approval_records s"
    "approval_decision_outbox t = approval_decision_outbox s" "approvals_inv t" "run \<in> set (action_runs t)"
    "rn_action_id run = rn_action_id old" "rn_approval_id run = rn_approval_id old" "rn_tenant_id run = tid"
    "rn_status run = status" "rn_id run = rid"
proof -
  obtain r where r: "r \<in> set (action_runs s)" "rn_tenant_id r = tid" "rn_id r = rid"
    and run: "run = r\<lparr>rn_status := status, rn_result_payload := Some payload, rn_updated_at := clock_at s (clock_n s)\<rparr>"
    and t: "t = s\<lparr>clock_n := Suc (clock_n s), action_runs := update_where (\<lambda>x. rn_id x = rn_id r) (\<lambda>_. run) (action_runs s)\<rparr>"
    using assms(1) by (auto simp: record_action_run_result_def Let_def split: option.splits dest!: first_row_filter_SomeD)
  have old: "old = r" using assms(2-4) r approvals_invD(3) by (metis distinct_key_unique)
  have rows: "action_runs t = map (\<lambda>x. if x = r then run else x) (action_runs s)"
    using update_by_id [OF approvals_invD(3) [OF assms(2)] r(1), of "\<lambda>_. run"] t by simp
  have "map rn_id (action_runs t) = map rn_id (action_runs s)"
    by (auto simp: rows run)
  then show "approvals_inv t"
    using assms(2) ids_drawn_mono [of s _ t] by (auto simp: approvals_inv_def t)
  show "run \<in> set (action_runs t)" using r(1) by (auto simp: rows image_iff)
  show "frame s t" "audit_events t = audit_events s" "approval_records t = approval_records s"
    "approval_decision_outbox t = approval_decision_outbox s" by (simp_all add: t frame_def)
  show "rn_action_id run = rn_action_id old" "rn_approval_id run = rn_approval_id old" "rn_tenant_id run = tid"
    "rn_status run = status" "rn_id run = rid" using old r by (simp_all add: run)
qed

lemma create_action_run_effect:
  assumes "create_action_run new s = (Inr run, t)" "approvals_inv s"
  shows "frame s t" "audit_events t = audit_events s" "approval_records t = approval_records s"
    "approval_decision_outbox t = approval_decision_outbox s" "approvals_inv t" "run \<in> set (action_runs t)"
    "rn_action_id run = rn_action_id new" "rn_approval_id run = rn_approval_id new"
proof -
  have run: "run = new\<lparr>rn_id := uuid_at s (uuid_n s), rn_result_payload := None, rn_created_at := clock_at s (clock_n s),
        rn_updated_at := clock_at s (Suc (clock_n s))\<rparr>"
    and t: "t = s\<lparr>uuid_n := Suc (uuid_n s), clock_n := Suc (Suc (clock_n s)), action_runs := action_runs s @ [run]\<rparr>"
    using assms(1) by (auto simp: create_action_run_def bind_op_def Let_def split: if_splits)
  show "approvals_inv t"
    using assms(2) ids_drawn_snoc [of s "map rn_id (action_runs s)" t] ids_drawn_mono [of s _ t]
    by (auto simp: approvals_inv_def t run)
  show "frame s t" "audit_events t = audit_events s" "approval_records t = approval_records s"
    "approval_decision_outbox t = approval_decision_outbox s" "run \<in> set (action_runs t)"
    "rn_action_id run = rn_action_id new" "rn_approval_id run = rn_approval_id new"
    by (simp_all add: t run frame_def)
qed


lemma transition_of_sel [simp]: "tx_action_run_id (transition_of run b) = Some (rn_id run)"
  by (simp add: transition_of_def)

lemma transition_effect:
  assumes "record_approval_action_transition tid ap aid req sg wrun s = (Inr tx, t)" "approvals_inv s"
  shows "frame s t" "audit_events t = audit_events s" "approval_records t = approval_records s"
    "approval_decision_outbox t = approval_decision_outbox s" "approvals_inv t"
    "\<exists>run \<in> set (action_runs t). gate_run tid aid (ai_approval_id ap) (approval_action_status (dq_decision req)) run
       \<and> tx_action_run_id tx = Some (rn_id run)"
proof -
  let ?st = "approval_action_status (dq_decision req)" and ?p = "approval_action_result_payload ap aid req sg wrun"
  let ?first = "first_row (list_action_runs_for_approval tid aid (ai_approval_id ap) s)"
  have result: "frame s t \<and> audit_events t = audit_events s \<and> approval_records t = approval_records s
    \<and> approval_decision_outbox t = approval_decision_outbox s \<and> approvals_inv t
    \<and> (\<exists>run \<in> set (action_runs t). gate_run tid aid (ai_approval_id ap) ?st run \<and> tx_action_run_id tx = Some (rn_id run))"
    if u: "frame s u" "audit_events u = audit_events s" "approval_records u = approval_records s"
      "approval_decision_outbox u = approval_decision_outbox s" "approvals_inv u"
      and old: "old \<in> set (action_runs u)" "rn_action_id old = aid" "rn_approval_id old = Some (ai_approval_id ap)"
      and rest: "record_action_run_result tid (rn_id old) ?st ?p u = (Inr run, t)" "tx = transition_of run False" for u old run
    using record_action_run_result_effect [OF rest(1) u(5) old(1) refl] u old rest(2) frame_trans [OF u(1)]
    by (auto simp: gate_run_def)
  have "frame s t \<and> audit_events t = audit_events s \<and> approval_records t = approval_records s
    \<and> approval_decision_outbox t = approval_decision_outbox s \<and> approvals_inv t
    \<and> (\<exists>run \<in> set (action_runs t). gate_run tid aid (ai_approval_id ap) ?st run \<and> tx_action_run_id tx = Some (rn_id run))"
  proof (cases ?first)
    case None
    then obtain u run0 run where c: "create_action_run (new_gate_run tid ap aid ?st) s = (Inr run0, u)"
      and rest: "record_action_run_result tid (rn_id run0) ?st ?p u = (Inr run, t)" "tx = transition_of run False"
      using assms(1) by (auto simp: record_approval_action_transition_def Let_def bind_op_Inr_iff split: option.splits)
    show ?thesis
      using result [OF create_action_run_effect(1-6) [OF c assms(2)] _ _ rest] create_action_run_effect(7,8) [OF c assms(2)]
      by (simp add: new_gate_run_def)
  next
    case (Some old)
    then have old: "old \<in> set (action_runs s)" "rn_action_id old = aid" "rn_approval_id old = Some (ai_approval_id ap)"
      "rn_tenant_id old = tid"
      by (auto simp: list_action_runs_for_approval_def dest!: first_row_SomeD)
    consider "rn_status old = ?st" "t = s" "tx = transition_of old True"
      | run where "record_action_run_result tid (rn_id old) ?st ?p s = (Inr run, t)" "tx = transition_of run False"
      using assms(1) Some
      by (auto simp: record_approval_action_transition_def Let_def bind_op_Inr_iff split: option.splits if_splits)
    then show ?thesis
    proof cases
      case 1
      with old assms(2) show ?thesis by (auto simp: gate_run_def)
    next
      case 2
      then show ?thesis using result [OF frame_refl refl refl refl assms(2) old(1-3)] by simp
    qed
  qed
  then show "frame s t" "audit_events t = audit_events s" "approval_records t = approval_records s"
    "approval_decision_outbox t = approval_decision_outbox s" "approvals_inv t"
    "\<exists>run \<in> set (action_runs t). gate_run tid aid (ai_approval_id ap) ?st run \<and> tx_action_run_id tx = Some (rn_id run)"
    by blast+
qed

lemma store_decision_result_effect:
  assumes "store_decision_result record res s = (Inr u, t)" "approvals_inv s" "approval_of s k = Some record"
  shows "frame s t" "audit_events t = audit_events s" "action_runs t = action_runs s"
    "approval_decision_outbox t = approval_decision_outbox s" "approvals_inv t"
    "\<exists>now. approval_of t = (approval_of s)(k \<mapsto> record
       \<lparr>ar_payload := dset ''decision_result'' (JObj (decision_result_dump res)) (ar_payload record), ar_updated_at := now\<rparr>)"
proof -
  let ?f = "\<lambda>r. r\<lparr>ar_payload := dset ''decision_result'' (JObj (decision_result_dump res)) (ar_payload record),
    ar_updated_at := clock_at s (clock_n s)\<rparr>"
  have t: "t = s\<lparr>clock_n := Suc (clock_n s), approval_records := update_where (\<lambda>r. ar_id r = ar_id record) ?f (approval_records s)\<rparr>"
    using assms(1) by (simp add: store_decision_result_def)
  have "approval_key record = k" using approval_of_SomeD [OF assms(3)] by simp
  then have "approval_of t = (approval_of s)(k \<mapsto> ?f record)" "approvals_inv t"
    using approval_of_update [OF assms(2,3), of ?f t] by (simp_all add: t)
  then show "approvals_inv t" "\<exists>now. approval_of t = (approval_of s)(k \<mapsto> record
       \<lparr>ar_payload := dset ''decision_result'' (JObj (decision_result_dump res)) (ar_payload record), ar_updated_at := now\<rparr>)"
    by blast+
  show "frame s t" "audit_events t = audit_events s" "action_runs t = action_runs s"
    "approval_decision_outbox t = approval_decision_outbox s" by (simp_all add: t frame_def)
qed

text \<open>An outbox row that carries the decision on an approval.\<close>

definition carries_decision :: "string \<Rightarrow> inbox_item \<Rightarrow> decision_request \<Rightarrow> outbox_row \<Rightarrow> bool" where
  "carries_decision tid ap req row \<longleftrightarrow>
     (\<exists>now created updated. let sg = decision_signal tid ap req (Some (ob_id row)) now in
        signal_request_valid sg \<and> row = new_outbox_row (outbox_create_of sg (ob_id row) now (dq_actor_id req)) created updated)"

lemma queued_row_carries:
  assumes "signal_request_valid (decision_signal tid ap req (Some (uuid_at s (uuid_n s))) (clock_at s (clock_n s)))"
  shows "carries_decision tid ap req (queued_row tid ap req s)" "ob_id (queued_row tid ap req s) = uuid_at s (uuid_n s)"
proof -
  show id: "ob_id (queued_row tid ap req s) = uuid_at s (uuid_n s)"
    by (simp add: queued_row_def Let_def outbox_create_of_def)
  show "carries_decision tid ap req (queued_row tid ap req s)"
    unfolding carries_decision_def id Let_def
    using assms
    by (intro exI [of _ "clock_at s (clock_n s)"] exI [of _ "clock_at s (Suc (clock_n s))"]
        exI [of _ "clock_at s (Suc (Suc (clock_n s)))"]) (simp add: queued_row_def Let_def)
qed

text \<open>What a recorded decision leaves in the tables, as a relation between the two states.\<close>

definition decided :: "decision_runtime \<Rightarrow> string \<Rightarrow> inbox_item \<Rightarrow> string \<Rightarrow> decision_request \<Rightarrow> db \<Rightarrow> decision_result \<Rightarrow> db \<Rightarrow> bool" where
  "decided rt tid ap aid req s res t \<longleftrightarrow>
     (\<exists>final. approval_of t = (approval_of s)((tid, ai_approval_id ap) \<mapsto> final)
        \<and> ar_decision final = Some (decision_value (dq_decision req)) \<and> ar_decision_actor_id final = Some (dq_actor_id req)
        \<and> ar_decision_note final = dq_note req
        \<and> dget (ar_payload final) ''decision_result'' = JObj (decision_result_dump res))
     \<and> (\<exists>ev. audit_events t = audit_events s @ [ev] \<and> ae_event_type ev = ''approval.decision.recorded''
        \<and> ae_tenant_id ev = tid \<and> ae_actor_id ev = dq_actor_id req \<and> ae_id ev = res_audit_event_id res
        \<and> dget (ae_payload ev) ''approval_id'' = JStr (ai_approval_id ap))
     \<and> (if dn_outbox_enabled rt
        then \<exists>row. approval_decision_outbox t = approval_decision_outbox s @ [row] \<and> carries_decision tid ap req row
               \<and> res_decision_event_id res = Some (ob_id row)
        else approval_decision_outbox t = approval_decision_outbox s \<and> res_decision_event_id res = None)
     \<and> (\<exists>run \<in> set (action_runs t).
          gate_run tid aid (ai_approval_id ap) (approval_action_status (dq_decision req)) run
          \<and> res_action_run_id res = Some (rn_id run))"

lemma decision_result_of_sel [simp]:
  "res_tenant_id (decision_result_of tid ap aid req rc ev pm sg wr tx pol) = tid"
  "res_approval_id (decision_result_of tid ap aid req rc ev pm sg wr tx pol) = ai_approval_id ap"
  "res_decision (decision_result_of tid ap aid req rc ev pm sg wr tx pol) = dq_decision req"
  "res_actor_id (decision_result_of tid ap aid req rc ev pm sg wr tx pol) = dq_actor_id req"
  "res_audit_event_id (decision_result_of tid ap aid req rc ev pm sg wr tx pol) = ae_id ev"
  "res_action_run_id (decision_result_of tid ap aid req rc ev pm sg wr tx pol) = tx_action_run_id tx"
  "res_decision_event_id (decision_result_of tid ap aid req rc ev pm sg wr tx pol) = fst sg"
  "res_idempotent_replay (decision_result_of tid ap aid req rc ev pm sg wr tx pol) = False"
  by (simp_all add: decision_result_of_def)

lemma decide_record_sel [simp]:
  "ar_decision (decide_record d a n now r) = Some (decision_value d)"
  "ar_decision_actor_id (decide_record d a n now r) = Some a" "ar_decision_note (decide_record d a n now r) = n"
  "ar_payload (decide_record d a n now r) = ar_payload r"
  by (simp_all add: decide_record_def)

lemma apply_decision_effect:
  assumes run: "apply_decision cx rt tid ap aid req perm pol s = (Inr res, t)" and inv: "approvals_inv s"
  shows "decided rt tid ap aid req s res t" "frame s t" "approvals_inv t" "res_idempotent_replay res = False"
    "res_tenant_id res = tid" "res_actor_id res = dq_actor_id req"
proof -
  let ?a = "ai_approval_id ap"
  let ?k = "(tid, ?a)"
  from run obtain s1 s2 s3 s4 s5 s6 u1 rec sg u4 wr tx
    where 1: "ensure_approval_record tid ap aid s = (Inr u1, s1)"
      and 2: "record_approval_decision tid ?a (dq_decision req) (dq_actor_id req) (dq_note req) s1 = (Inr rec, s2)"
      and 3: "signal_decision cx rt tid ap req s2 = (Inr sg, s3)"
      and 4: "(if dn_history_enabled rt then ensure_workflow_run (dc_console_run cx) tid (ai_workflow_id ap)
               else return_op None) s3 = (Inr u4, s4)"
      and 5: "record_workflow_approval_decision tid (ai_workflow_id ap) ?a (dq_decision req) (dq_actor_id req) s4 =
          ((Inr wr :: approval_error + workflow_run option), s5)"
      and 6: "record_approval_action_transition tid ap aid req (snd sg) wr s5 = (Inr tx, s6)"
      and res': "decision_result_of tid ap aid req rec
         (new_audit_event s6 (decision_recorded_event tid ap aid req perm (snd sg) wr tx pol)) perm sg wr tx pol = res"
      and 7: "store_decision_result rec (decision_result_of tid ap aid req rec
         (new_audit_event s6 (decision_recorded_event tid ap aid req perm (snd sg) wr tx pol)) perm sg wr tx pol)
         (with_audit_event s6 (decision_recorded_event tid ap aid req perm (snd sg) wr tx pol)) = (Inr (), t)"
    by (simp add: apply_decision_def bind_op_Inr_iff Let_def del: split_paired_Ex) blast
  note res = res' [symmetric] and 8 = 7 [unfolded res']
  let ?ev = "decision_recorded_event tid ap aid req perm (snd sg) wr tx pol"
  note e1 = ensure_approval_record_effect [OF 1 inv]
  obtain r0 now where e2: "approval_of s1 ?k = Some r0" "rec = decide_record (dq_decision req) (dq_actor_id req) (dq_note req) now r0"
    "approval_of s2 = (approval_of s1)(?k \<mapsto> rec)" "approvals_inv s2" "frame s1 s2" "audit_events s2 = audit_events s1"
    "action_runs s2 = action_runs s1" "approval_decision_outbox s2 = approval_decision_outbox s1"
    using record_approval_decision_effect [OF 2 e1(5)] by blast
  note e3 = signal_decision_effect [OF 3]
  have e4: "quiet s3 s4" using 4 by (auto split: if_splits intro: ensure_workflow_run_quiet)
  have e5: "quiet s4 s5" using 5 by (rule record_workflow_approval_decision_quiet)
  have e35: "quiet s3 s5" using e4 e5 by (rule quiet_trans)
  have inv5: "approvals_inv s5"
    using approvals_inv_cong [OF e2(4), of s5] e3 e35 frame_trans [OF e3(1)] by (auto simp: quiet_def)
  note e6 = transition_effect [OF 6 inv5]
  have f06: "frame s s6"
    using e1(1) e2(5) e3(1) e35 e6(1) by (simp add: quiet_def frame_def)
  have f67: "frame s6 (with_audit_event s6 ?ev)" by (simp add: frame_def)
  have inv7: "approvals_inv (with_audit_event s6 ?ev)"
    using e6(5) f67 by (rule approvals_inv_cong) simp_all
  have map7: "approval_of (with_audit_event s6 ?ev) = (approval_of s)(?k \<mapsto> rec)"
  proof -
    have "approval_of (with_audit_event s6 ?ev) = approval_of s2"
      using e3(3) e35 e6(3) by (intro approval_of_cong) (simp add: quiet_def)
    then show ?thesis using e2(3) e1(6) by auto
  qed
  then have rec7: "approval_of (with_audit_event s6 ?ev) ?k = Some rec" by simp
  note e8 = store_decision_result_effect [OF 8 inv7 rec7]
  show "frame s t" using f06 f67 e8(1) by (blast intro: frame_trans)
  show "approvals_inv t" by (rule e8(5))
  show "res_idempotent_replay res = False" "res_tenant_id res = tid" "res_actor_id res = dq_actor_id req"
    by (simp_all add: res)
  have audit: "audit_events t = audit_events s @ [new_audit_event s6 ?ev]"
    using e8(2) e6(2) e35 e3(2) e2(6) e1(2) by (simp add: quiet_def)
  have runs: "action_runs t = action_runs s6" using e8(3) by simp
  have outbox: "approval_decision_outbox t = approval_decision_outbox s3"
    using e8(4) e6(4) e35 by (simp add: quiet_def)
  show "decided rt tid ap aid req s res t"
    unfolding decided_def
  proof (intro conjI)
    show "\<exists>final. approval_of t = (approval_of s)(?k \<mapsto> final)
        \<and> ar_decision final = Some (decision_value (dq_decision req)) \<and> ar_decision_actor_id final = Some (dq_actor_id req)
        \<and> ar_decision_note final = dq_note req
        \<and> dget (ar_payload final) ''decision_result'' = JObj (decision_result_dump res)"
      using e8(6) map7 e2(2) by auto
    show "\<exists>ev. audit_events t = audit_events s @ [ev] \<and> ae_event_type ev = ''approval.decision.recorded''
        \<and> ae_tenant_id ev = tid \<and> ae_actor_id ev = dq_actor_id req \<and> ae_id ev = res_audit_event_id res
        \<and> dget (ae_payload ev) ''approval_id'' = JStr ?a"
      using audit by (auto simp: res decision_recorded_event_def dget_def)
    show "\<exists>run \<in> set (action_runs t). gate_run tid aid ?a (approval_action_status (dq_decision req)) run
        \<and> res_action_run_id res = Some (rn_id run)"
      using e6(6) runs by (simp add: res)
    show "if dn_outbox_enabled rt
        then \<exists>row. approval_decision_outbox t = approval_decision_outbox s @ [row] \<and> carries_decision tid ap req row
               \<and> res_decision_event_id res = Some (ob_id row)
        else approval_decision_outbox t = approval_decision_outbox s \<and> res_decision_event_id res = None"
      using outbox e3(5-7) e2(8) e1(4) queued_row_carries [of tid ap req s2] by (auto simp: res)
  qed
qed

section \<open>Lemmas: the handler\<close>

lemma find_approval_key:
  assumes "find_approval cx a tid s = Inr (tid', ap)"
  shows "tid' = tid" "ai_approval_id ap = a"
  using assms
  by (auto simp: find_approval_def require_persisted_manufacturing_approval_inbox_def
      get_persisted_manufacturing_approval_inbox_def reconcile_inbox_with_decision_records_def Let_def
      split: sum.splits option.splits reference_error.splits if_splits dest!: first_row_filter_SomeD)

lemma evaluate_approval_permission_Inr:
  "evaluate_approval_decision_permission tid ap req = Inr perm \<longleftrightarrow>
     tid \<noteq> [] \<and> dq_actor_id req \<noteq> [] \<and> ai_required_permission ap \<in> set (dq_actor_scopes req)
     \<and> (ai_requested_by ap = [] \<or> dq_actor_id req \<noteq> ai_requested_by ap)
     \<and> perm = \<lparr>allowed = True, reason = ''allowed''\<rparr>"
  by (auto simp: evaluate_approval_decision_permission_def Let_def permission_request_valid_def
      separation_of_duties_denial_def evaluate_permission_def split: option.splits if_splits
      dest: first_missing_SomeD)

lemma enforce_approval_policies_eq:
  "enforce_approval_platform_policies cx tid ap aid req s =
     (if dq_decision req \<noteq> APPROVE then (Inr None, s)
      else case approval_platform_policy_context cx tid ap aid s of
             Inl e \<Rightarrow> (Inl e, s)
           | Inr c \<Rightarrow>
               (case enforced_decision tid ACTION_EXECUTION c False s of
                  Inl e \<Rightarrow> (Inl (PolicyError e), s)
                | Inr d \<Rightarrow>
                    if pd_effect d \<noteq> effect_value DENY then (Inr (Some d), s)
                    else (Inl (PolicyError (PlatformPolicyEnforcementDenied d (uuid_at s (uuid_n s)) ENFORCEMENT_DENIED_AUDIT_EVENT_TYPE)),
                      with_audit_event s (enforcement_denied_event tid (dq_actor_id req) ''approval_decision_transition''
                        (approval_policy_audit ap aid req) d))))"
  by (simp add: enforce_approval_platform_policies_def bind_op_def lift_error_def enforce_platform_policy_deny_eq Let_def
      split: sum.splits)

lemma enforce_approval_policies_Inr:
  "enforce_approval_platform_policies cx tid ap aid req s = (Inr pol, t) \<Longrightarrow> t = s"
  by (auto simp: enforce_approval_policies_eq split: if_splits sum.splits)

lemma enforce_approval_policies_Inl:
  assumes "enforce_approval_platform_policies cx tid ap aid req s = (Inl e, t)"
  shows "t = s \<or> commits_on e \<and> (\<exists>d. t = with_audit_event s
    (enforcement_denied_event tid (dq_actor_id req) ''approval_decision_transition'' (approval_policy_audit ap aid req) d))"
  using assms by (auto simp: enforce_approval_policies_eq commits_on_def split: if_splits sum.splits)

definition undecided :: "db \<Rightarrow> string \<times> string \<Rightarrow> bool" where
  "undecided s k \<longleftrightarrow> (case approval_of s k of None \<Rightarrow> True | Some r \<Rightarrow> ar_decision r = None)"

text \<open>The handler after its checks, on an undecided and on a decided approval.\<close>

lemma handler_undecided:
  assumes "find_approval cx a tid s = Inr (tid, ap)" "approval_action_id (refs cx) tid a s = Inr aid"
    "evaluate_approval_decision_permission tid ap req = Inr perm" "undecided s (tid, a)"
  shows "record_demo_approval_decision cx rt a req tid s =
    bind_op (enforce_approval_platform_policies cx tid ap aid req) (\<lambda>pol. apply_decision cx rt tid ap aid req perm pol) s"
proof -
  have "ai_approval_id ap = a" using find_approval_key [OF assms(1)] by simp
  then show ?thesis
    using assms by (auto simp: record_demo_approval_decision_def undecided_def approval_of_def split: option.splits)
qed

lemma handler_decided:
  assumes "find_approval cx a tid s = Inr (tid, ap)" "approval_action_id (refs cx) tid a s = Inr aid"
    "evaluate_approval_decision_permission tid ap req = Inr perm" "approval_of s (tid, a) = Some r" "ar_decision r \<noteq> None"
  shows "record_demo_approval_decision cx rt a req tid s = (replay_decision cx req r a, s)"
proof -
  have "ai_approval_id ap = a" using find_approval_key [OF assms(1)] by simp
  then show ?thesis using assms by (simp add: record_demo_approval_decision_def approval_of_def)
qed

lemma handler_refused:
  assumes "find_approval cx a tid s = Inl e \<or>
      (\<exists>ap. find_approval cx a tid s = Inr (tid, ap) \<and> (approval_action_id (refs cx) tid a s = Inl e \<or>
        (\<exists>aid. approval_action_id (refs cx) tid a s = Inr aid) \<and> evaluate_approval_decision_permission tid ap req = Inl e))"
  shows "record_demo_approval_decision cx rt a req tid s = (Inl e, s)"
proof -
  have "ai_approval_id ap = a" if "find_approval cx a tid s = Inr (tid, ap)" for ap
    using find_approval_key [OF that] by simp
  with assms show ?thesis by (auto simp: record_demo_approval_decision_def)
qed

lemma handler_cases:
  obtains (refused) e where "record_demo_approval_decision cx rt a req tid s = (Inl e, s)"
  | (replayed) ap aid perm r where "find_approval cx a tid s = Inr (tid, ap)"
      "approval_action_id (refs cx) tid a s = Inr aid" "evaluate_approval_decision_permission tid ap req = Inr perm"
      "approval_of s (tid, a) = Some r" "ar_decision r \<noteq> None"
      "record_demo_approval_decision cx rt a req tid s = (replay_decision cx req r a, s)"
  | (fresh) ap aid perm where "find_approval cx a tid s = Inr (tid, ap)"
      "approval_action_id (refs cx) tid a s = Inr aid" "evaluate_approval_decision_permission tid ap req = Inr perm"
      "undecided s (tid, a)" "ai_approval_id ap = a"
      "record_demo_approval_decision cx rt a req tid s =
         bind_op (enforce_approval_platform_policies cx tid ap aid req) (\<lambda>pol. apply_decision cx rt tid ap aid req perm pol) s"
proof (cases "find_approval cx a tid s")
  case (Inl e)
  then show ?thesis using handler_refused [of cx a tid s e req rt] refused by blast
next
  case (Inr p)
  obtain ap where ap: "find_approval cx a tid s = Inr (tid, ap)"
    using Inr find_approval_key(1) [of cx a tid s] by (cases p) auto
  note key = find_approval_key [OF ap]
  show ?thesis
  proof (cases "approval_action_id (refs cx) tid a s")
    case (Inl e)
    then show ?thesis using ap handler_refused [of cx a tid s e req rt] refused by blast
  next
    case aid: (Inr aid)
    show ?thesis
    proof (cases "evaluate_approval_decision_permission tid ap req")
      case (Inl e)
      then show ?thesis using ap aid handler_refused [of cx a tid s e req rt] refused by blast
    next
      case perm: (Inr perm)
      show ?thesis
      proof (cases "undecided s (tid, a)")
        case True
        then show ?thesis using fresh [OF ap aid perm] handler_undecided [OF ap aid perm] key by blast
      next
        case False
        then obtain r where "approval_of s (tid, a) = Some r" "ar_decision r \<noteq> None"
          by (auto simp: undecided_def split: option.splits)
        then show ?thesis using replayed [OF ap aid perm] handler_decided [OF ap aid perm] by blast
      qed
    qed
  qed
qed

text \<open>A result that is not a replay is a decision that was written.\<close>

lemma replay_flag: "replay_decision cx req r a = Inr res \<Longrightarrow> res_idempotent_replay res"
  by (auto simp: replay_decision_def split: if_splits json.splits option.splits)

lemma fresh_result:
  assumes "record_demo_approval_decision cx rt a req tid s = (Inr res, t)" "\<not> res_idempotent_replay res" "approvals_inv s"
  obtains ap aid perm where "find_approval cx a tid s = Inr (tid, ap)" "ai_approval_id ap = a"
    "approval_action_id (refs cx) tid a s = Inr aid" "evaluate_approval_decision_permission tid ap req = Inr perm"
    "undecided s (tid, a)" "decided rt tid ap aid req s res t" "frame s t" "approvals_inv t"
proof (cases rule: handler_cases [of cx rt a req tid s])
  case (refused e)
  with assms show ?thesis by simp
next
  case (replayed ap aid perm r)
  with assms(1,2) replay_flag show ?thesis by fastforce
next
  case (fresh ap aid perm)
  have "bind_op (enforce_approval_platform_policies cx tid ap aid req) (\<lambda>pol. apply_decision cx rt tid ap aid req perm pol) s =
      (Inr res, t)" using fresh(6) assms(1) by simp
  then obtain pol where "apply_decision cx rt tid ap aid req perm pol s = (Inr res, t)"
    by (auto simp: bind_op_Inr_iff dest: enforce_approval_policies_Inr)
  with fresh that apply_decision_effect [OF this assms(3)] show ?thesis by blast
qed

section \<open>Lemmas: histories of decisions\<close>

text \<open>Draws only go up, also on the paths that raise.\<close>

definition draws_from :: "(nat \<Rightarrow> uuid) \<Rightarrow> nat \<Rightarrow> db \<Rightarrow> bool" where
  "draws_from ids n s \<longleftrightarrow> uuid_at s = ids \<and> n \<le> uuid_n s"

lemma draws_basic [op_keeps]:
  "keeps (draws_from ids n) utc_now" "keeps (draws_from ids n) uuid4" "keeps (draws_from ids n) (append_audit_event ev)"
  by (simp_all add: keeps_def draws_from_def)

lemma draws_put: "(\<And>s. uuid_at (f s) = uuid_at s \<and> uuid_n (f s) = uuid_n s) \<Longrightarrow> keeps (draws_from ids n) (put_op f)"
  by (simp add: keeps_def draws_from_def)

lemma draws_writes [op_keeps]:
  "keeps (draws_from ids n) (create_action_run new)"
  "keeps (draws_from ids n) (record_action_run_result tid rid status payload)"
  "keeps (draws_from ids n) (create_approval_record rec)"
  "keeps (draws_from ids n) (record_approval_decision tid a d actor note)"
  "keeps (draws_from ids n) (create_workflow_run wr)"
  "keeps (draws_from ids n) (append_workflow_timeline_event te)"
  "keeps (draws_from ids n) (create_approval_decision_outbox c)"
  "keeps (draws_from ids n) (store_decision_result rec res)"
  unfolding create_action_run_def record_action_run_result_def create_approval_record_def record_approval_decision_def
    create_workflow_run_def append_workflow_timeline_event_def create_approval_decision_outbox_def store_decision_result_def
    Let_def
  by (intro op_keeps draws_put; simp)+

lemma draws_steps [op_keeps]:
  "keeps (draws_from ids n) (record_workflow_approval_decision tid wid a d actor)"
  "keeps (draws_from ids n) (ensure_workflow_run decode tid wid)"
  "keeps (draws_from ids n) (record_approval_action_transition tid ap aid req sg wr)"
  "keeps (draws_from ids n) (ensure_approval_record tid ap aid)"
  "keeps (draws_from ids n) (signal_decision cx rt tid ap req)"
  unfolding record_workflow_approval_decision_def ensure_workflow_run_def record_approval_action_transition_def
    ensure_approval_record_def signal_decision_def queue_decision_def signal_approval_workflow_def Let_def
  by (intro op_keeps draws_put; simp)+

lemma draws_enforce [op_keeps]: "keeps (draws_from ids n) (enforce_approval_platform_policies cx tid ap aid req)"
  by (rule keepsI) (auto simp: enforce_approval_policies_eq draws_from_def split: sum.splits)

lemma draws_handler [op_keeps]: "keeps (draws_from ids n) (record_demo_approval_decision cx rt a req tid)"
  unfolding record_demo_approval_decision_def apply_decision_def Let_def by (intro op_keeps)

lemma handler_draws:
  assumes "record_demo_approval_decision cx rt a req tid s = (r, t)"
  shows "uuid_at t = uuid_at s" "uuid_n s \<le> uuid_n t"
  using keepsD [OF draws_handler _ assms, of "uuid_at s" "uuid_n s"] by (simp_all add: draws_from_def)

text \<open>Only the policies raise an error that is committed.\<close>

definition raises_only :: "('e \<Rightarrow> bool) \<Rightarrow> ('s, 'e, 'a) op \<Rightarrow> bool" where
  "raises_only Q m \<longleftrightarrow> (\<forall>s e t. m s = (Inl e, t) \<longrightarrow> Q e)"

named_theorems op_raises \<open>rules that bound the errors of an operation\<close>

lemma raises_basic [op_raises]:
  "raises_only Q (return_op x)" "raises_only Q (get_op f)" "raises_only Q (put_op g)" "raises_only Q utc_now"
  "raises_only Q uuid4" "raises_only Q (append_audit_event ev)"
  by (simp_all add: raises_only_def)

lemma raises_raise: "Q e \<Longrightarrow> raises_only Q (raise_op e)"
  by (simp add: raises_only_def)

lemma raises_bind [op_raises]: "raises_only Q m \<Longrightarrow> (\<And>x. raises_only Q (f x)) \<Longrightarrow> raises_only Q (bind_op m f)"
  unfolding raises_only_def bind_op_Inl_iff by blast

lemma raises_if [op_raises]: "raises_only Q m \<Longrightarrow> raises_only Q n \<Longrightarrow> raises_only Q (if b then m else n)"
  by simp

lemma raises_option [op_raises]:
  "raises_only Q m \<Longrightarrow> (\<And>x. raises_only Q (f x)) \<Longrightarrow> raises_only Q (case z of None \<Rightarrow> m | Some x \<Rightarrow> f x)"
  by (cases z) simp_all

lemma raises_sum [op_raises]:
  "(\<And>x. raises_only Q (f x)) \<Longrightarrow> (\<And>y. raises_only Q (g y)) \<Longrightarrow> raises_only Q (case z of Inl x \<Rightarrow> f x | Inr y \<Rightarrow> g y)"
  by (cases z) simp_all

lemma raises_lift [op_raises]: "(\<And>e. Q (g e)) \<Longrightarrow> raises_only Q (lift_error g m)"
  by (auto simp: raises_only_def)

abbreviation rolls_back :: "approval_error \<Rightarrow> bool" where
  "rolls_back e \<equiv> \<not> commits_on e"

lemma rolls_back_simps [simp]:
  "\<not> commits_on (IntegrityError m)" "\<not> commits_on (PersistenceRecordNotFound m)" "\<not> commits_on ValidationError"
  "\<not> commits_on WorkflowHistoryBootstrapError"
  by (simp_all add: commits_on_def)

lemma raises_writes [op_raises]:
  "raises_only rolls_back (create_action_run new)"
  "raises_only rolls_back (record_action_run_result tid rid status payload)"
  "raises_only rolls_back (create_approval_record rec)"
  "raises_only rolls_back (record_approval_decision tid a d actor note)"
  "raises_only rolls_back (create_workflow_run wr)"
  "raises_only rolls_back (append_workflow_timeline_event te)"
  "raises_only rolls_back (store_decision_result rec res)"
  unfolding create_action_run_def record_action_run_result_def create_approval_record_def record_approval_decision_def
    create_workflow_run_def append_workflow_timeline_event_def store_decision_result_def Let_def
  by (intro op_raises raises_raise rolls_back_simps)+

lemma raises_apply: "raises_only rolls_back (apply_decision cx rt tid ap aid req perm pol)"
  unfolding apply_decision_def ensure_approval_record_def signal_decision_def queue_decision_def
    signal_approval_workflow_def ensure_workflow_run_def record_workflow_approval_decision_def
    record_approval_action_transition_def Let_def
  by (intro op_raises raises_raise rolls_back_simps)

lemma apply_not_commits: "apply_decision cx rt tid ap aid req perm pol s = (Inl e, t) \<Longrightarrow> \<not> commits_on e"
  using raises_apply [unfolded raises_only_def] by blast

definition recorded_for :: "string \<times> string \<Rightarrow> audit_event \<Rightarrow> bool" where
  "recorded_for k ev \<longleftrightarrow> ae_event_type ev = ''approval.decision.recorded'' \<and> ae_tenant_id ev = fst k
     \<and> dget (ae_payload ev) ''approval_id'' = JStr (snd k)"

text \<open>A history: a database without approvals, decisions through the endpoint, and anything else that leaves the
  approval records alone, adds action runs under drawn ids and audits no decision.\<close>

inductive approval_history :: "db \<Rightarrow> bool" where
  start: "inj (uuid_at s) \<Longrightarrow> approval_records s = [] \<Longrightarrow> action_runs s = [] \<Longrightarrow>
     \<forall>ev \<in> set (audit_events s). ae_event_type ev \<noteq> ''approval.decision.recorded'' \<Longrightarrow> approval_history s"
| decision: "approval_history s \<Longrightarrow> manufacturing_approval_decision cx rt a req p tid s = (r, t) \<Longrightarrow> approval_history t"
| elsewhere: "approval_history s \<Longrightarrow> uuid_at t = uuid_at s \<Longrightarrow> uuid_n s \<le> uuid_n t \<Longrightarrow>
     approval_records t = approval_records s \<Longrightarrow> ids_drawn t (map rn_id (action_runs t)) \<Longrightarrow>
     audit_events t = audit_events s @ new \<Longrightarrow>
     \<forall>ev \<in> set new. ae_event_type ev \<noteq> ''approval.decision.recorded'' \<Longrightarrow> approval_history t"

definition decisions_inv :: "db \<Rightarrow> bool" where
  "decisions_inv s \<longleftrightarrow> approvals_inv s \<and>
     (\<forall>k. rowcount (recorded_for k) (audit_events s) = (if undecided s k then 0 else 1))"

lemma decided_step:
  assumes "decided rt tid ap aid req s res t" "undecided s (tid, ai_approval_id ap)" "decisions_inv s" "approvals_inv t"
  shows "decisions_inv t"
proof -
  let ?k = "(tid, ai_approval_id ap)"
  from assms(1) obtain final ev where m: "approval_of t = (approval_of s)(?k \<mapsto> final)" "ar_decision final \<noteq> None"
    and ev: "audit_events t = audit_events s @ [ev]" "ae_event_type ev = ''approval.decision.recorded''"
      "ae_tenant_id ev = tid" "dget (ae_payload ev) ''approval_id'' = JStr (ai_approval_id ap)"
    by (auto simp: decided_def)
  have "recorded_for k ev \<longleftrightarrow> k = ?k" for k using ev by (cases k) (auto simp: recorded_for_def)
  moreover have "undecided t k \<longleftrightarrow> k \<noteq> ?k \<and> undecided s k" for k using m by (simp add: undecided_def)
  ultimately show ?thesis using assms(2-4) ev(1) by (auto simp: decisions_inv_def)
qed

lemma endpoint_cases:
  assumes "manufacturing_approval_decision cx rt a req p tid s = (r, t)" "approvals_inv s"
  obtains (unchanged) "approval_records t = approval_records s" "action_runs t = action_runs s"
      "uuid_at t = uuid_at s" "uuid_n s \<le> uuid_n t"
      "\<exists>new. audit_events t = audit_events s @ new \<and> (\<forall>ev \<in> set new. ae_event_type ev \<noteq> ''approval.decision.recorded'')"
  | (fresh) bound ap aid res where "r = Inr res" "bind_tenant_actor req p tid = Inr bound" "ai_approval_id ap = a"
      "find_approval cx a tid s = Inr (tid, ap)"
      "undecided s (tid, a)" "decided rt tid ap aid bound s res t" "frame s t" "approvals_inv t"
proof (cases "bind_tenant_actor req p tid")
  case (Inl e)
  with assms(1) show ?thesis by (intro unchanged) (auto simp: manufacturing_approval_decision_def)
next
  case (Inr bound)
  obtain r' t' where run: "record_demo_approval_decision cx rt a bound tid s = (r', t')" by fastforce
  note draws = handler_draws [OF run]
  have same: thesis if "t = s" using that unchanged by auto
  show ?thesis
  proof (cases rule: handler_cases [of cx rt a bound tid s])
    case (refused e)
    then have "t = s \<or> t = rollback s s" using assms(1) Inr by (auto simp: manufacturing_approval_decision_def split: if_splits)
    then show ?thesis using same by (auto simp: rollback_def)
  next
    case (replayed ap aid perm rr)
    then have "t = s \<or> t = rollback s s"
      using assms(1) Inr by (auto simp: manufacturing_approval_decision_def split: if_splits sum.splits)
    then show ?thesis using same by (auto simp: rollback_def)
  next
    case (fresh ap aid perm)
    show ?thesis
    proof (cases r')
      case (Inl e)
      then have t: "t = (if commits_on e then t' else rollback s t')"
        using assms(1) Inr run by (simp add: manufacturing_approval_decision_def)
      show ?thesis
      proof (cases "enforce_approval_platform_policies cx tid ap aid bound s = (Inl e, t')")
        case True
        then have "t = s \<or> t = rollback s s \<or> (\<exists>d. t = with_audit_event s
            (enforcement_denied_event tid (dq_actor_id bound) ''approval_decision_transition'' (approval_policy_audit ap aid bound) d))"
          using enforce_approval_policies_Inl [OF True] t by (auto split: if_splits)
        then show ?thesis
          using same by (auto simp: rollback_def enforcement_denied_event_def ENFORCEMENT_DENIED_AUDIT_EVENT_TYPE_def
              intro!: unchanged)
      next
        case False
        have "bind_op (enforce_approval_platform_policies cx tid ap aid bound)
            (\<lambda>pol. apply_decision cx rt tid ap aid bound perm pol) s = (Inl e, t')" using fresh(6) run Inl by simp
        with False have "\<not> commits_on e" by (auto simp: bind_op_Inl_iff dest: apply_not_commits)
        then show ?thesis using t draws by (intro unchanged) (auto simp: rollback_def)
      qed
    next
      case (Inr res)
      then have t: "r = Inr res" "t = t'"
        using assms(1) \<open>bind_tenant_actor req p tid = Inr bound\<close> run by (simp_all add: manufacturing_approval_decision_def)
      have "bind_op (enforce_approval_platform_policies cx tid ap aid bound)
          (\<lambda>pol. apply_decision cx rt tid ap aid bound perm pol) s = (Inr res, t)" using fresh(6) run Inr t(2) by simp
      then obtain pol where "apply_decision cx rt tid ap aid bound perm pol s = (Inr res, t)"
        by (auto simp: bind_op_Inr_iff dest: enforce_approval_policies_Inr)
      with apply_decision_effect [OF this assms(2)] show ?thesis
        using that(2) [OF t(1) \<open>bind_tenant_actor req p tid = Inr bound\<close> fresh(5,1,4)] by blast
    qed
  qed
qed


lemma approval_history_inv: "approval_history s \<Longrightarrow> decisions_inv s"
proof (induction rule: approval_history.induct)
  case (start s)
  have "rowcount (recorded_for k) (audit_events s) = 0" for k using start(4) by (auto simp: recorded_for_def)
  then show ?case
    using start by (simp add: decisions_inv_def approvals_inv_def ids_drawn_def undecided_def approval_of_first)
next
  case (decision s cx rt a req p tid r t)
  have inv: "approvals_inv s" using decision.IH by (simp add: decisions_inv_def)
  show ?case
    using decision.hyps(2) inv
  proof (cases rule: endpoint_cases)
    case unchanged
    have same: "rowcount (recorded_for k) (audit_events t) = rowcount (recorded_for k) (audit_events s)" for k
      using unchanged(5) by (auto simp: recorded_for_def)
    have "approval_of t = approval_of s" using unchanged(1) by (rule approval_of_cong)
    moreover have "approvals_inv t"
      using inv unchanged(1-4) ids_drawn_mono [of s _ t] by (auto simp: approvals_inv_def)
    ultimately show ?thesis using decision.IH by (simp add: decisions_inv_def same undecided_def)
  next
    case (fresh bound ap aid res)
    then show ?thesis using decided_step decision.IH by blast
  qed
next
  case (elsewhere s t new)
  have same: "rowcount (recorded_for k) (audit_events t) = rowcount (recorded_for k) (audit_events s)" for k
    using elsewhere.hyps(6,7) by (auto simp: recorded_for_def)
  have "approval_of t = approval_of s" using elsewhere.hyps(4) by (rule approval_of_cong)
  moreover have "approvals_inv t"
    using elsewhere.IH elsewhere.hyps ids_drawn_mono [of s _ t] by (auto simp: approvals_inv_def decisions_inv_def)
  ultimately show ?case using elsewhere.IH by (simp add: decisions_inv_def same undecided_def)
qed

section \<open>A concrete approval\<close>

definition example_item :: inbox_item where
  "example_item =
     \<lparr>ai_approval_id = ''appr-1'', ai_action = ''Pay supplier'', ai_risk_level = ''high'', ai_status = ''pending'',
      ai_requested_by = ''alice'', ai_owner_role = ''controller'', ai_due = ''today'', ai_workflow_id = ''wf-1'',
      ai_domain = ''finance'', ai_summary = ''Pay'', ai_evidence = [], ai_data_accessed = [], ai_risks = [],
      ai_alternatives = [], ai_estimated_cost = ''10'', ai_model_policy = ''none'',
      ai_required_permission = ''approvals:decide'',
      ai_audit_event_preview = \<lparr>av_event = ''e'', av_actor_role = ''r'', av_scope = ''s'', av_result = ''ok''\<rparr>,
      ai_decision_options = []\<rparr>"

definition example_inbox :: approval_inbox where
  "example_inbox =
     \<lparr>ix_tenant_id = ''acme'', ix_provenance = LIVE, ix_queue_status = READY, ix_policy_notes = [],
      ix_approvals = [example_item], ix_decision_history = []\<rparr>"

definition example_action_entry :: action_entry where
  "example_action_entry =
     \<lparr>ax_action_id = ''pay'', ax_domain = ''finance'', ax_risk_level = ''high'', ax_approval_mode = ''required'',
      ax_input_schema =
        [(''properties'', JObj [(''supplier'', JObj [(''type'', JStr ''string'')]),
           (''requested_amount'', JObj [(''type'', JStr ''number'')])]),
         (''required'', JList [JStr ''supplier''])],
      ax_required_permissions = [''actions:pay''], ax_owner_role = ''controller'', ax_autonomy_ceiling = ''L2'',
      ax_execution_mode = ''governed'', ax_runtime_adapter = ''axis-temporal-adapter'',
      ax_audit_event_type = ''action.pay.requested'', ax_idempotency_required = True, ax_dry_run_supported = True,
      ax_workflow_bindings = [''wf-1''], ax_approval_refs = [''appr-1'']\<rparr>"

definition example_registry :: action_registry where
  "example_registry =
     \<lparr>xr_tenant_id = ''acme'', xr_provenance = LIVE, xr_schema_version = ''1'', xr_actions = [example_action_entry]\<rparr>"

definition example_codecs :: "(dict \<Rightarrow> decision_result option) \<Rightarrow> decision_codecs" where
  "example_codecs decode =
     \<lparr>dc_inbox = (\<lambda>_. Some example_inbox), dc_registry = (\<lambda>_. Some example_registry), dc_str = (\<lambda>_. []),
      dc_console_run = (\<lambda>_ _. None), dc_result = decode, dc_float = (\<lambda>_. None), dc_uuid5 = (\<lambda>_ _. 0)\<rparr>"

definition example_reference :: "string \<Rightarrow> string \<Rightarrow> reference_record" where
  "example_reference surface reference_id =
     \<lparr>dr_id = 1, dr_tenant_id = ''acme'', dr_surface = surface, dr_reference_id = reference_id, dr_status = ''active'',
      dr_source = ''seed'', dr_version = ''1'', dr_payload = JNull, dr_created_at = 0, dr_updated_at = 0\<rparr>"

definition example_deny_policy :: platform_policy where
  "example_deny_policy =
     \<lparr>pp_id = 2, pp_tenant_id = ''acme'', pp_policy_id = ''no-finance'', pp_revision_number = 1, pp_policy_version = ''1'',
      pp_display_name = ''No finance'', pp_description = ''No finance'', pp_scope = scope_value ACTION_EXECUTION,
      pp_effect = effect_value DENY,
      pp_conditions = \<lparr>rc_action_domains = [''finance''], rc_risk_levels = [], rc_autonomy_levels = [],
        rc_requested_amount_at_least = None\<rparr>,
      pp_status = ''active'', pp_created_by = ''alice'', pp_required_authoring_scope = REQUIRED_AUTHORING_SCOPE,
      pp_permission_decision = \<lparr>allowed = True, reason = ''allowed''\<rparr>, pp_audit_event_id = None,
      pp_audit_event_type = AUTHORED_AUDIT_EVENT_TYPE, pp_revises_revision_number = None,
      pp_replaced_by_revision_number = None, pp_revision_idempotency_key = None, pp_notes = [], pp_created_at = 0,
      pp_updated_at = 0\<rparr>"

definition example_approval_db :: db where
  "example_approval_db = (empty_db int (\<lambda>n. n))
     \<lparr>platform_policies := [example_deny_policy],
      reference_records := [example_reference APPROVAL_INBOX_SURFACE MANUFACTURING_APPROVAL_INBOX_REFERENCE_ID,
        example_reference ACTION_REGISTRY_SURFACE MANUFACTURING_ACTION_REGISTRY_REFERENCE_ID]\<rparr>"

definition example_request :: "approval_decision \<Rightarrow> decision_request" where
  "example_request d =
     \<lparr>dq_decision = d, dq_actor_id = ''bob'', dq_actor_scopes = [''approvals:decide''], dq_note = None\<rparr>"

definition example_runtime :: decision_runtime where
  "example_runtime = \<lparr>dn_history_enabled = False, dn_outbox_enabled = True, dn_signal = None\<rparr>"

definition example_approver :: oidc_principal where
  "example_approver =
     \<lparr>sp_tenant_id = ''acme'', sp_actor_id = ''bob'', sp_scopes = [''approvals:decide''], op_expires_at = None,
      op_subject_id = None, op_session_source = ''bearer_token''\<rparr>"

lemma example_history: "approval_history example_approval_db"
  by (rule approval_history.start) (simp_all add: example_approval_db_def empty_db_def)

lemma example_inv: "approvals_inv example_approval_db"
  using approval_history_inv [OF example_history] by (simp add: decisions_inv_def)

lemma example_bound: "bind_tenant_actor (example_request d) (Some example_approver) ''acme'' = Inr (example_request d)"
  by (simp add: bind_tenant_request_def bind_request_actor_def example_approver_def example_request_def with_decision_actor_def)

lemma example_refs [simp]:
  "dc_inbox (refs (example_codecs f)) j = Some example_inbox" "dc_registry (refs (example_codecs f)) j = Some example_registry"
  by (simp_all add: example_codecs_def reference_codecs.defs)

lemma example_records:
  "get_demo_reference_record ''acme'' APPROVAL_INBOX_SURFACE MANUFACTURING_APPROVAL_INBOX_REFERENCE_ID example_approval_db =
     Some (example_reference APPROVAL_INBOX_SURFACE MANUFACTURING_APPROVAL_INBOX_REFERENCE_ID)"
  "get_demo_reference_record ''acme'' ACTION_REGISTRY_SURFACE MANUFACTURING_ACTION_REGISTRY_REFERENCE_ID example_approval_db =
     Some (example_reference ACTION_REGISTRY_SURFACE MANUFACTURING_ACTION_REGISTRY_REFERENCE_ID)"
  "manufacturing_tenant_known ''acme'' example_approval_db = Inr ()"
  by (simp_all add: get_demo_reference_record_def example_approval_db_def example_reference_def manufacturing_tenant_known_def
      has_demo_reference_records_def get_tenant_def empty_db_def APPROVAL_INBOX_SURFACE_def ACTION_REGISTRY_SURFACE_def
      MANUFACTURING_APPROVAL_INBOX_REFERENCE_ID_def MANUFACTURING_ACTION_REGISTRY_REFERENCE_ID_def)

lemma example_found: "find_approval (example_codecs f) ''appr-1'' ''acme'' example_approval_db = Inr (''acme'', example_item)"
proof -
  have "list_approval_records ''acme'' None 100 example_approval_db = []"
    by (simp add: list_approval_records_def example_approval_db_def empty_db_def)
  then show ?thesis
    by (simp add: find_approval_def require_persisted_manufacturing_approval_inbox_def
        get_persisted_manufacturing_approval_inbox_def example_records reconcile_inbox_with_decision_records_def
        example_inbox_def Let_def) (simp add: example_item_def)
qed

lemma example_action: "approval_action_id (refs (example_codecs f)) ''acme'' ''appr-1'' example_approval_db = Inr ''pay''"
  by (simp add: approval_action_id_def require_persisted_manufacturing_action_registry_def
      get_persisted_manufacturing_action_registry_def example_records example_registry_def example_action_entry_def)

lemma example_permitted:
  "evaluate_approval_decision_permission ''acme'' example_item (example_request d) = Inr \<lparr>allowed = True, reason = ''allowed''\<rparr>"
  by (simp add: evaluate_approval_permission_Inr example_item_def example_request_def)

lemma example_undecided: "undecided example_approval_db (''acme'', ''appr-1'')"
  by (simp add: undecided_def approval_of_first example_approval_db_def empty_db_def)

lemma example_reject:
  "record_demo_approval_decision (example_codecs f) example_runtime ''appr-1'' (example_request REJECT) ''acme'' example_approval_db =
     apply_decision (example_codecs g) example_runtime ''acme'' example_item ''pay'' (example_request REJECT)
       \<lparr>allowed = True, reason = ''allowed''\<rparr> None example_approval_db"
proof -
  have "apply_decision (example_codecs f) = apply_decision (example_codecs g)"
    by (simp add: fun_eq_iff apply_decision_def signal_decision_def queue_decision_def signal_approval_workflow_def
        example_codecs_def)
  moreover have "enforce_approval_platform_policies (example_codecs f) ''acme'' example_item ''pay'' (example_request REJECT)
      example_approval_db = (Inr None, example_approval_db)"
    by (simp add: enforce_approval_platform_policies_def example_request_def)
  ultimately show ?thesis
    using handler_undecided [OF example_found example_action example_permitted example_undecided] by (simp add: bind_op_def)
qed

lemma example_item_sel [simp]:
  "ai_approval_id example_item = ''appr-1''" "ai_workflow_id example_item = ''wf-1''"
  by (simp_all add: example_item_def)

lemma example_apply:
  "\<exists>res t. apply_decision (example_codecs g) example_runtime ''acme'' example_item ''pay'' (example_request REJECT)
     \<lparr>allowed = True, reason = ''allowed''\<rparr> None example_approval_db = (Inr res, t)"
  apply (simp add: apply_decision_def bind_op_def ensure_approval_record_def create_approval_record_def
      record_approval_decision_def get_approval_record_def example_approval_db_def empty_db_def new_approval_record_def
      decide_record_def Let_def signal_decision_def example_runtime_def queue_decision_def make_signal_request_event
      record_workflow_approval_decision_def get_workflow_run_def record_approval_action_transition_def
      list_action_runs_for_approval_def create_action_run_def new_gate_run_def record_action_run_result_def
      store_decision_result_def lift_error_def create_outbox_apply outbox_create_of_def signal_request_valid_def
      decision_signal_def make_signal_request_def APPROVAL_DECISION_SIGNAL_NAME_def example_request_def)
  done

lemma endpoint_Inr:
  "manufacturing_approval_decision cx rt a req p tid s = (Inr res, t) \<longleftrightarrow>
     (\<exists>bound. bind_tenant_actor req p tid = Inr bound \<and> record_demo_approval_decision cx rt a bound tid s = (Inr res, t))"
  by (auto simp: manufacturing_approval_decision_def split: sum.splits prod.splits if_splits)

lemma bind_tenant_request_Inr:
  "bind_tenant_request actor_of with_actor req p tid = Inr bound \<longleftrightarrow>
     (case p of
        None \<Rightarrow> tid = DEMO_TENANT \<and> bound = req
      | Some q \<Rightarrow> tid = sp_tenant_id q \<and> (actor_of req = [] \<or> actor_of req = sp_actor_id q)
          \<and> bound = with_actor (sp_actor_id q) (sp_scopes q) req)"
  by (auto simp: bind_tenant_request_def bind_request_actor_def split: option.splits if_splits sum.splits)

lemma bind_tenant_actor_Inr:
  "bind_tenant_actor req p tid = Inr bound \<longleftrightarrow>
     (case p of
        None \<Rightarrow> tid = DEMO_TENANT \<and> bound = req
      | Some q \<Rightarrow> sp_tenant_id q = tid \<and> (dq_actor_id req = [] \<or> dq_actor_id req = sp_actor_id q)
          \<and> bound = with_decision_actor (sp_actor_id q) (sp_scopes q) req)"
  by (auto simp: bind_tenant_request_Inr split: option.splits)

lemma with_decision_actor_sel [simp]:
  "dq_actor_id (with_decision_actor a sc req) = a" "dq_actor_scopes (with_decision_actor a sc req) = sc"
  "dq_decision (with_decision_actor a sc req) = dq_decision req" "dq_note (with_decision_actor a sc req) = dq_note req"
  by (simp_all add: with_decision_actor_def)

text \<open>The item that is found for an approval changes in its status only while the reference records stay.\<close>

definition same_item :: "inbox_item \<Rightarrow> inbox_item \<Rightarrow> bool" where
  "same_item i j \<longleftrightarrow> (\<exists>st. j = i\<lparr>ai_status := st\<rparr>)"

lemma first_row_map_same:
  "(\<And>x. x \<in> set rows \<Longrightarrow> p (g x) = p x) \<Longrightarrow>
   first_row (select_where p (map g rows)) = map_option g (first_row (select_where p rows))"
  by (induction rows) auto

lemma frame_reads:
  assumes "frame s t"
  shows "manufacturing_tenant_known tid t = manufacturing_tenant_known tid s"
    "get_demo_reference_record tid surface rid t = get_demo_reference_record tid surface rid s"
proof -
  have eqs: "tenants t = tenants s" "reference_records t = reference_records s" using assms by (simp_all add: frame_def)
  show "manufacturing_tenant_known tid t = manufacturing_tenant_known tid s"
    "get_demo_reference_record tid surface rid t = get_demo_reference_record tid surface rid s"
    by (simp_all only: manufacturing_tenant_known_def get_tenant_def has_demo_reference_records_def
        get_demo_reference_record_def eqs)
qed

definition overlay_item :: "string \<Rightarrow> db \<Rightarrow> inbox_item \<Rightarrow> inbox_item" where
  "overlay_item tid s i =
     (if ai_approval_id i \<in> set (map ar_approval_id (filter (\<lambda>r. ar_decision r \<noteq> None) (list_approval_records tid None 100 s)))
      then i\<lparr>ai_status := DECIDED_STATUS\<rparr> else i)"

lemma overlay_item_id [simp]: "ai_approval_id (overlay_item tid s i) = ai_approval_id i"
  by (simp add: overlay_item_def)

lemma overlay_same: "same_item (overlay_item tid s i) (overlay_item tid t i)"
  unfolding same_item_def by (rule exI [of _ "ai_status (overlay_item tid t i)"]) (simp add: overlay_item_def)

lemma reconciled_items:
  "ix_approvals (reconcile_inbox_with_decision_records f tid inbox s) = map (overlay_item tid s) (ix_approvals inbox)"
  by (simp add: reconcile_inbox_with_decision_records_def overlay_item_def Let_def)

lemma find_approval_Inr:
  "find_approval cx a tid s = Inr (tid, ap) \<longleftrightarrow>
     manufacturing_tenant_known tid s = Inr () \<and>
     (\<exists>record inbox i. get_demo_reference_record tid APPROVAL_INBOX_SURFACE MANUFACTURING_APPROVAL_INBOX_REFERENCE_ID s = Some record
        \<and> dc_inbox (refs cx) (dr_payload record) = Some inbox \<and> ix_tenant_id inbox = tid
        \<and> first_row (select_where (\<lambda>i. ai_approval_id i = a) (ix_approvals inbox)) = Some i \<and> ap = overlay_item tid s i)"
proof -
  have tenant: "ix_tenant_id (reconcile_inbox_with_decision_records f tid inbox s) = ix_tenant_id inbox" for f inbox
    by (simp add: reconcile_inbox_with_decision_records_def Let_def)
  show ?thesis
    by (auto simp: find_approval_def require_persisted_manufacturing_approval_inbox_def
        get_persisted_manufacturing_approval_inbox_def reconciled_items tenant first_row_map_same
        split: sum.splits option.splits reference_error.splits if_splits dest!: first_row_filter_SomeD)
qed

lemma find_approval_frame:
  assumes "find_approval cx a tid s = Inr (tid, ap)" "frame s t"
  shows "\<exists>ap'. find_approval cx a tid t = Inr (tid, ap') \<and> same_item ap ap'"
  using assms(1) overlay_same unfolding find_approval_Inr frame_reads [OF assms(2)] by blast

lemma same_item_permission:
  "same_item ap ap' \<Longrightarrow> evaluate_approval_decision_permission tid ap' req = evaluate_approval_decision_permission tid ap req"
  by (auto simp: same_item_def evaluate_approval_decision_permission_def Let_def split: option.split)

lemma approval_action_frame: "frame s t \<Longrightarrow> approval_action_id rx tid a t = approval_action_id rx tid a s"
  by (simp only: approval_action_id_def require_persisted_manufacturing_action_registry_def
      get_persisted_manufacturing_action_registry_def frame_reads)

section \<open>Properties\<close>


lemma example_decided:
  obtains res t where "\<And>f. record_demo_approval_decision (example_codecs f) example_runtime ''appr-1''
      (example_request REJECT) ''acme'' example_approval_db = (Inr res, t)"
    "\<And>f. manufacturing_approval_decision (example_codecs f) example_runtime ''appr-1'' (example_request REJECT)
      (Some example_approver) ''acme'' example_approval_db = (Inr res, t)"
    "\<not> res_idempotent_replay res" "decided example_runtime ''acme'' example_item ''pay'' (example_request REJECT) example_approval_db res t"
proof -
  obtain res t where app: "apply_decision (example_codecs (\<lambda>_. None)) example_runtime ''acme'' example_item ''pay''
      (example_request REJECT) \<lparr>allowed = True, reason = ''allowed''\<rparr> None example_approval_db = (Inr res, t)"
    using example_apply by blast
  have run: "record_demo_approval_decision (example_codecs f) example_runtime ''appr-1''
      (example_request REJECT) ''acme'' example_approval_db = (Inr res, t)" for f
    using example_reject [of f "\<lambda>_. None"] app by simp
  moreover have "manufacturing_approval_decision (example_codecs f) example_runtime ''appr-1'' (example_request REJECT)
      (Some example_approver) ''acme'' example_approval_db = (Inr res, t)" for f
    using run example_bound by (auto simp: endpoint_Inr)
  moreover have "\<not> res_idempotent_replay res"
    "decided example_runtime ''acme'' example_item ''pay'' (example_request REJECT) example_approval_db res t"
    using apply_decision_effect(1,4) [OF app example_inv] by simp_all
  ultimately show ?thesis using that by blast
qed


text \<open>What a new decision writes, in one transaction: the approvals change at this approval only, to a record
  that carries the decision, the actor, the note and a snapshot of the result; exactly one event is appended to the ledger,
  for the tenant and the actor, with the id that the result names; with the outbox enabled exactly one row is
  queued, pending, under the event id that the result names, and without it none; and the action run that the result names
  is of the bound action and has the status of the decision.\<close>

lemma decision_writes:
  assumes "approval_history s" and "manufacturing_approval_decision cx rt a req p tid s = (Inr res, t)"
    and "\<not> res_idempotent_replay res"
  shows "\<exists>actor final ev aid run.
    (case p of None \<Rightarrow> actor = dq_actor_id req | Some q \<Rightarrow> actor = sp_actor_id q)
    \<and> approval_of t = (approval_of s)((tid, a) \<mapsto> final)
    \<and> ar_decision final = Some (decision_value (dq_decision req)) \<and> ar_decision_actor_id final = Some actor
    \<and> ar_decision_note final = dq_note req \<and> dget (ar_payload final) ''decision_result'' = JObj (decision_result_dump res)
    \<and> audit_events t = audit_events s @ [ev] \<and> ae_event_type ev = ''approval.decision.recorded'' \<and> ae_tenant_id ev = tid
    \<and> ae_actor_id ev = actor \<and> ae_id ev = res_audit_event_id res
    \<and> (if dn_outbox_enabled rt
       then \<exists>row. approval_decision_outbox t = approval_decision_outbox s @ [row] \<and> ob_status row = ''pending''
              \<and> ob_tenant_id row = tid \<and> ob_approval_id row = a \<and> res_decision_event_id res = Some (ob_id row)
       else approval_decision_outbox t = approval_decision_outbox s \<and> res_decision_event_id res = None)
    \<and> approval_action_id (refs cx) tid a s = Inr aid \<and> run \<in> set (action_runs t) \<and> rn_action_id run = aid
    \<and> rn_approval_id run = Some a \<and> rn_status run = approval_action_status (dq_decision req)
    \<and> res_action_run_id res = Some (rn_id run)"
proof -
  obtain bound where b: "bind_tenant_actor req p tid = Inr bound"
    and run: "record_demo_approval_decision cx rt a bound tid s = (Inr res, t)"
    using assms(2) by (auto simp: endpoint_Inr)
  have inv: "approvals_inv s" using approval_history_inv [OF assms(1)] by (simp add: decisions_inv_def)
  obtain ap aid perm where a: "ai_approval_id ap = a" and aid: "approval_action_id (refs cx) tid a s = Inr aid"
    and d: "decided rt tid ap aid bound s res t"
    using fresh_result [OF run assms(3) inv] by blast
  have row: "ob_status row = ''pending'' \<and> ob_tenant_id row = tid \<and> ob_approval_id row = a" if "carries_decision tid ap bound row" for row
    using that a by (auto simp: carries_decision_def Let_def) (metis new_outbox_row_sel(5), metis new_outbox_row_sel(2)
      outbox_create_of_def outbox_create.select_convs(2) decision_signal_def signal_request.select_convs(1),
      metis new_outbox_row_sel(3) outbox_create_of_def outbox_create.select_convs(3) decision_signal_def
        signal_request.select_convs(3))
  have bound: "dq_decision bound = dq_decision req" "dq_note bound = dq_note req"
    "case p of None \<Rightarrow> dq_actor_id bound = dq_actor_id req | Some q \<Rightarrow> dq_actor_id bound = sp_actor_id q"
    using b by (auto simp: bind_tenant_actor_Inr split: option.splits)
  from d obtain final ev where
    1: "approval_of t = (approval_of s)((tid, a) \<mapsto> final)" "ar_decision final = Some (decision_value (dq_decision req))"
      "ar_decision_actor_id final = Some (dq_actor_id bound)" "ar_decision_note final = dq_note req"
      "dget (ar_payload final) ''decision_result'' = JObj (decision_result_dump res)"
    and 2: "audit_events t = audit_events s @ [ev]" "ae_event_type ev = ''approval.decision.recorded''" "ae_tenant_id ev = tid"
      "ae_actor_id ev = dq_actor_id bound" "ae_id ev = res_audit_event_id res"
    by (auto simp: decided_def a bound)
  from d obtain arun where 3: "arun \<in> set (action_runs t)" "rn_action_id arun = aid" "rn_approval_id arun = Some a"
      "rn_status arun = approval_action_status (dq_decision req)" "res_action_run_id res = Some (rn_id arun)"
    by (auto simp: decided_def a bound gate_run_def)
  from d row have 4: "if dn_outbox_enabled rt
       then \<exists>row. approval_decision_outbox t = approval_decision_outbox s @ [row] \<and> ob_status row = ''pending''
              \<and> ob_tenant_id row = tid \<and> ob_approval_id row = a \<and> res_decision_event_id res = Some (ob_id row)
       else approval_decision_outbox t = approval_decision_outbox s \<and> res_decision_event_id res = None"
    by (auto simp: decided_def split: if_splits)
  show ?thesis
    using 1 2 3 4 aid bound(3) by (intro exI [of _ "dq_actor_id bound"] exI [of _ final] exI [of _ ev] exI [of _ aid] exI [of _ arun]) simp
qed

lemma decision_writes_example:
  "\<exists>res t. approval_history example_approval_db
   \<and> manufacturing_approval_decision (example_codecs (\<lambda>_. None)) example_runtime ''appr-1'' (example_request REJECT)
       (Some example_approver) ''acme'' example_approval_db = (Inr res, t) \<and> \<not> res_idempotent_replay res
   \<and> (\<exists>row. approval_decision_outbox t = approval_decision_outbox example_approval_db @ [row] \<and> ob_status row = ''pending'')"
proof (rule example_decided)
  fix res t
  assume run: "\<And>f. manufacturing_approval_decision (example_codecs f) example_runtime ''appr-1'' (example_request REJECT)
      (Some example_approver) ''acme'' example_approval_db = (Inr res, t)" and r: "\<not> res_idempotent_replay res"
  have "dn_outbox_enabled example_runtime" by (simp add: example_runtime_def)
  with decision_writes [OF example_history run r, of "\<lambda>_. None"] run r example_history show ?thesis by auto
qed



text \<open>The first decision is final: once an approval has a decision, no call of the endpoint, by anyone and for
  any approval, changes its record, and a call for this approval changes no table at all; it returns the stored result as a
  replay or fails.\<close>

lemma decision_final:
  assumes "approval_history s" and "approval_of s (tid, a) = Some r" and "ar_decision r \<noteq> None"
  shows "approval_of (snd (manufacturing_approval_decision cx rt b req p tid' s)) (tid, a) = Some r
    \<and> same_tables s (snd (manufacturing_approval_decision cx rt a req p tid s))
    \<and> (case fst (manufacturing_approval_decision cx rt a req p tid s) of
         Inl e \<Rightarrow> True | Inr res \<Rightarrow> res_idempotent_replay res)"
proof -
  have inv: "approvals_inv s" using approval_history_inv [OF assms(1)] by (simp add: decisions_inv_def)
  have dec: "\<not> undecided s (tid, a)" using assms(2,3) by (simp add: undecided_def)
  have "approval_of t (tid, a) = Some r" if "manufacturing_approval_decision cx rt b req p tid' s = (x, t)" for x t
    using that inv
  proof (cases rule: endpoint_cases)
    case unchanged
    then show ?thesis using assms(2) approval_of_cong [of t s] by simp
  next
    case (fresh bound ap aid res)
    then have "(tid', b) \<noteq> (tid, a)" using dec by auto
    with fresh(6) assms(2) fresh(3) show ?thesis by (auto simp: decided_def)
  qed
  then have 1: "approval_of (snd (manufacturing_approval_decision cx rt b req p tid' s)) (tid, a) = Some r"
    by (metis prod.collapse)
  have "same_tables s t \<and> (case x of Inl e \<Rightarrow> True | Inr res \<Rightarrow> res_idempotent_replay res)"
    if e: "manufacturing_approval_decision cx rt a req p tid s = (x, t)" for x t
  proof (cases "bind_tenant_actor req p tid")
    case (Inl err)
    with e show ?thesis by (auto simp: manufacturing_approval_decision_def)
  next
    case (Inr bound)
    have "\<exists>y. record_demo_approval_decision cx rt a bound tid s = (y, s) \<and>
        (case y of Inl e \<Rightarrow> True | Inr res \<Rightarrow> res_idempotent_replay res)"
    proof (cases rule: handler_cases [of cx rt a bound tid s])
      case (replayed ap aid perm rr)
      then show ?thesis using replay_flag by (auto split: sum.splits)
    qed (use dec in auto)
    then obtain y where "record_demo_approval_decision cx rt a bound tid s = (y, s)"
      "case y of Inl e \<Rightarrow> True | Inr res \<Rightarrow> res_idempotent_replay res" by blast
    then show ?thesis
      using e Inr by (cases y) (auto simp: manufacturing_approval_decision_def same_tables_def rollback_def split: if_splits)
  qed
  with 1 show ?thesis by (metis prod.collapse)
qed

lemma decision_final_example:
  "\<exists>s r. approval_history s \<and> approval_of s (''acme'', ''appr-1'') = Some r \<and> ar_decision r \<noteq> None
   \<and> same_tables s (snd (manufacturing_approval_decision (example_codecs (\<lambda>_. None)) example_runtime ''appr-1''
       (example_request APPROVE) (Some example_approver) ''acme'' s))"
proof (rule example_decided)
  fix res t
  assume run: "\<And>f. manufacturing_approval_decision (example_codecs f) example_runtime ''appr-1'' (example_request REJECT)
      (Some example_approver) ''acme'' example_approval_db = (Inr res, t)"
    and d: "decided example_runtime ''acme'' example_item ''pay'' (example_request REJECT) example_approval_db res t"
  have h: "approval_history t" using approval_history.decision [OF example_history run] .
  obtain r where r: "approval_of t (''acme'', ''appr-1'') = Some r" "ar_decision r \<noteq> None"
    using d by (auto simp: decided_def)
  from decision_final [OF h r] h r show ?thesis by blast
qed

text \<open>C11. A decision that is sent again is answered with the first result: after a new decision the same request, under
  any configuration of the runtime, returns the same result with the replay flag and writes nothing, and a request
  for the same approval that differs in the decision, the actor or the note fails and writes nothing. The stored snapshot of
  the result has to decode to the result that it is the dump of.\<close>

theorem decision_replay:
  assumes "approval_history s" and "record_demo_approval_decision cx rt a req tid s = (Inr res, t)"
    and "\<not> res_idempotent_replay res" and "dc_result cx (decision_result_dump res) = Some res"
  shows "record_demo_approval_decision cx rt' a req tid t = (Inr (res\<lparr>res_idempotent_replay := True\<rparr>), t)
    \<and> (\<forall>other. dq_decision other \<noteq> dq_decision req \<or> dq_actor_id other \<noteq> dq_actor_id req \<or> dq_note other \<noteq> dq_note req \<longrightarrow>
         (\<exists>e. record_demo_approval_decision cx rt' a other tid t = (Inl e, t)))"
proof -
  have inv: "approvals_inv s" using approval_history_inv [OF assms(1)] by (simp add: decisions_inv_def)
  obtain ap aid perm where ap: "find_approval cx a tid s = Inr (tid, ap)" "ai_approval_id ap = a"
    and aid: "approval_action_id (refs cx) tid a s = Inr aid"
    and perm: "evaluate_approval_decision_permission tid ap req = Inr perm"
    and d: "decided rt tid ap aid req s res t" and f: "frame s t"
    using fresh_result [OF assms(2,3) inv] by blast
  obtain final where final: "approval_of t (tid, a) = Some final" "ar_decision final = Some (decision_value (dq_decision req))"
    "ar_decision_actor_id final = Some (dq_actor_id req)" "ar_decision_note final = dq_note req"
    "dget (ar_payload final) ''decision_result'' = JObj (decision_result_dump res)"
    using d ap(2) by (auto simp: decided_def)
  obtain ap' where ap': "find_approval cx a tid t = Inr (tid, ap')" "same_item ap ap'"
    using find_approval_frame [OF ap(1) f] by blast
  have aid': "approval_action_id (refs cx) tid a t = Inr aid" using aid approval_action_frame [OF f] by simp
  have perm': "evaluate_approval_decision_permission tid ap' req = Inr perm" using perm same_item_permission [OF ap'(2)] by simp
  have "record_demo_approval_decision cx rt' a req tid t = (replay_decision cx req final a, t)"
    using handler_decided [OF ap'(1) aid' perm' final(1)] final(2) by simp
  moreover have "replay_decision cx req final a = Inr (res\<lparr>res_idempotent_replay := True\<rparr>)"
    using final assms(4) by (simp add: replay_decision_def same_request_def)
  moreover have "\<exists>e. record_demo_approval_decision cx rt' a other tid t = (Inl e, t)"
    if "dq_decision other \<noteq> dq_decision req \<or> dq_actor_id other \<noteq> dq_actor_id req \<or> dq_note other \<noteq> dq_note req" for other
  proof (cases rule: handler_cases [of cx rt' a other tid t])
    case (replayed ap2 aid2 perm2 r2)
    then have "r2 = final" using final(1) by simp
    then have "\<not> same_request other r2" using that final by (auto simp: same_request_def)
    with replayed(6) show ?thesis by (simp add: replay_decision_def)
  qed (use final in \<open>auto simp: undecided_def\<close>)
  ultimately show ?thesis by simp
qed

theorem decision_replay_witness:
  "\<exists>res t. let cx = example_codecs (\<lambda>d. Some res) in
     approval_history example_approval_db
     \<and> record_demo_approval_decision cx example_runtime ''appr-1'' (example_request REJECT) ''acme'' example_approval_db = (Inr res, t)
     \<and> record_demo_approval_decision cx example_runtime ''appr-1'' (example_request REJECT) ''acme'' t =
         (Inr (res\<lparr>res_idempotent_replay := True\<rparr>), t)"
proof (rule example_decided)
  fix res t
  assume run: "\<And>f. record_demo_approval_decision (example_codecs f) example_runtime ''appr-1''
      (example_request REJECT) ''acme'' example_approval_db = (Inr res, t)" and r: "\<not> res_idempotent_replay res"
  have "dc_result (example_codecs (\<lambda>d. Some res)) (decision_result_dump res) = Some res" by (simp add: example_codecs_def)
  from decision_replay [OF example_history run r this, of example_runtime] run example_history show ?thesis
    by (intro exI [of _ res] exI [of _ t]) (simp add: Let_def)
qed

text \<open>A deny policy cannot be approved around: when the policies of the tenant are readable and an active deny policy
  for action execution applies to the action of an undecided approval, an authorized approve is refused, the refusal is
  committed as exactly one audit event, and nothing else changes.\<close>

lemma approve_denied_by_policy:
  assumes "policies_readable s" and "bind_tenant_actor req p tid = Inr bound" and "dq_decision bound = APPROVE"
    and "find_approval cx a tid s = Inr (tid, ap)" and "approval_action_id (refs cx) tid a s = Inr aid"
    and "evaluate_approval_decision_permission tid ap bound = Inr perm" and "undecided s (tid, a)"
    and "approval_platform_policy_context cx tid ap aid s = Inr c"
    and "pol \<in> set (active_policies tid ACTION_EXECUTION s)" and "pp_effect pol = effect_value DENY" and "policy_applies c pol"
  shows "\<exists>d. manufacturing_approval_decision cx rt a req p tid s =
    (Inl (Refused (PolicyError (PlatformPolicyEnforcementDenied d (uuid_at s (uuid_n s)) ENFORCEMENT_DENIED_AUDIT_EVENT_TYPE))),
     with_audit_event s (enforcement_denied_event tid (dq_actor_id bound) ''approval_decision_transition''
       (approval_policy_audit ap aid bound) d))"
proof -
  obtain d where d: "enforced_decision tid ACTION_EXECUTION c False s = Inr d" "pd_effect d = effect_value DENY"
    using enforced_deny_iff [OF assms(1), of tid ACTION_EXECUTION c False] assms(9-11) by metis
  then have "enforce_approval_platform_policies cx tid ap aid bound s =
      (Inl (PolicyError (PlatformPolicyEnforcementDenied d (uuid_at s (uuid_n s)) ENFORCEMENT_DENIED_AUDIT_EVENT_TYPE)),
       with_audit_event s (enforcement_denied_event tid (dq_actor_id bound) ''approval_decision_transition''
         (approval_policy_audit ap aid bound) d))"
    using assms(3,8) by (simp add: enforce_approval_policies_eq)
  then show ?thesis
    using handler_undecided [OF assms(4-7), of rt] assms(2)
    by (auto simp: manufacturing_approval_decision_def commits_on_def bind_op_def)
qed

lemma example_context:
  "approval_platform_policy_context (example_codecs f) ''acme'' example_item ''pay'' example_approval_db =
     Inr \<lparr>px_action_id = Some ''pay'', px_action_domain = Some ''finance'', px_risk_level = Some ''high'',
       px_autonomy_level = Some ''L2'', px_requested_amount = None, px_requested_amount_malformed = False\<rparr>"
proof -
  have "registry_action_entry (refs (example_codecs f)) ''pay'' ''acme'' example_approval_db =
      Some example_action_entry"
    by (simp add: registry_action_entry_def require_persisted_manufacturing_action_registry_def
        get_persisted_manufacturing_action_registry_def example_records example_registry_def example_action_entry_def)
  moreover have "list_action_runs_for_approval ''acme'' ''pay'' ''appr-1'' example_approval_db = []"
    by (simp add: list_action_runs_for_approval_def example_approval_db_def empty_db_def)
  ultimately show ?thesis
    by (simp add: approval_platform_policy_context_def policy_context_valid_def SUPPORTED_AUTONOMY_LEVELS_def
        example_action_entry_def)
qed

lemma approve_denied_by_policy_example:
  "policies_readable example_approval_db \<and>
   (\<exists>d. manufacturing_approval_decision (example_codecs (\<lambda>_. None)) example_runtime ''appr-1'' (example_request APPROVE)
      (Some example_approver) ''acme'' example_approval_db =
        (Inl (Refused (PolicyError (PlatformPolicyEnforcementDenied d (uuid_at example_approval_db (uuid_n example_approval_db))
           ENFORCEMENT_DENIED_AUDIT_EVENT_TYPE))),
         with_audit_event example_approval_db (enforcement_denied_event ''acme'' ''bob'' ''approval_decision_transition''
           (approval_policy_audit example_item ''pay'' (example_request APPROVE)) d)))"
proof -
  have readable: "policies_readable example_approval_db"
    by (simp add: policies_readable_def policy_readable_def example_approval_db_def empty_db_def example_deny_policy_def
        rule_conditions_valid_def strip_def is_space_def)
  have active: "example_deny_policy \<in> set (active_policies ''acme'' ACTION_EXECUTION example_approval_db)"
    unfolding set_active_policies by (simp add: example_approval_db_def example_deny_policy_def)
  have effect: "pp_effect example_deny_policy = effect_value DENY" by (simp add: example_deny_policy_def)
  have applies: "policy_applies \<lparr>px_action_id = Some ''pay'', px_action_domain = Some ''finance'', px_risk_level = Some ''high'',
       px_autonomy_level = Some ''L2'', px_requested_amount = None, px_requested_amount_malformed = False\<rparr> example_deny_policy"
    unfolding policy_applies_iff by (simp add: example_deny_policy_def)
  have "dq_decision (example_request APPROVE) = APPROVE" "dq_actor_id (example_request APPROVE) = ''bob''"
    by (simp_all add: example_request_def)
  with approve_denied_by_policy [OF readable example_bound _ example_found example_action example_permitted example_undecided
      example_context active effect applies, of APPROVE] readable
  show ?thesis by simp
qed

end
