(* ===== verification/Action_Runs.thy ===== *)
theory Action_Runs
  imports Approval_History
begin

text \<open>
  Runs of governed actions (\<^verbatim>\<open>axis_api/action_runs.py\<close>, \<^verbatim>\<open>axis_api/ontology_reference.py\<close>, the workflow
  methods for action runs of \<^verbatim>\<open>axis_api/persistence.py\<close> and the three endpoints of \<^verbatim>\<open>axis_api/main.py\<close>): a
  request is checked against the typed schema of its action, the scopes of the actor and the deny policies of the
  tenant, is recorded once for its idempotency key, and later gets one outcome. Creating a run is modelled as the two
  parts that the code separates by its savepoint, the checks with the lookup of the key and the insert, because the
  code handles a second request that wins the unique constraint in between.
\<close>

section \<open>Data\<close>

record ontology_relationship =
  ol_source_id :: string
  ol_target_id :: string
  ol_permission_scope :: string

record ontology =
  on_tenant_id :: string
  on_provenance :: provenance
  on_relationships :: "ontology_relationship list"

datatype ontology_error =
    OntologyTenantNotFound string
  | OntologyReferenceRecordNotFound
  | OntologyReferenceRecordInvalid

text \<open>What is decoded outside of the code, and the order in which a Python set of the required fields is iterated.\<close>

record action_codecs = decision_codecs +
  dc_ontology :: "json \<Rightarrow> ontology option"
  dc_set_order :: "json list \<Rightarrow> json list"

abbreviation arefs :: "action_codecs \<Rightarrow> reference_codecs" where
  "arefs cx \<equiv> reference_codecs.truncate cx"

datatype action_error =
    DemoActionNotFound
  | DemoActionRunNotFound
  | ActionReferenceError reference_error
  | OntologyError ontology_error
  | ActionPayloadValidationError "string list"
  | SchemaShapeError
  | ActionPermissionDenied "string list" permission_decision
  | ActionRunIdempotencyConflict uuid
  | ActionRunOutcomeValidationError "string list"
  | ActionRunOutcomePermissionDenied string permission_decision
  | ActionRunOutcomeConflict uuid string
  | ActionPolicyError policy_error
  | ActionAmountOverflow
  | ActionModelInvalid
  | ActionStoreError approval_error

record action_run_request =
  aq_actor_id :: string
  aq_actor_scopes :: "string list"
  aq_idempotency_key :: "string option"
  aq_payload :: dict

record action_run_result =
  nr_tenant_id :: string
  nr_action_run_id :: uuid
  nr_action_id :: string
  nr_idempotency_key :: string
  nr_status :: string
  nr_execution_mode :: string
  nr_requested_by :: string
  nr_approval_required :: bool
  nr_approval_id :: "string option"
  nr_workflow_id :: "string option"
  nr_persisted :: bool
  nr_idempotent_replay :: bool
  nr_permission_decision :: permission_decision
  nr_audit_event_id :: "uuid option"
  nr_audit_event_type :: "string option"
  nr_workflow_signal :: "signal_result option"
  nr_workflow_signal_status :: string
  nr_workflow_state_updated :: bool
  nr_workflow_state :: "string option"
  nr_workflow_status :: "string option"
  nr_platform_policy_decision :: "policy_decision option"

record action_run_outcome_request =
  oq_actor_id :: string
  oq_actor_scopes :: "string list"
  oq_idempotency_key :: string
  oq_status :: string
  oq_result_summary :: string
  oq_evidence_refs :: "string list"
  oq_metrics :: dict
  oq_external_mutation_started :: bool

record action_run_outcome_result =
  or_tenant_id :: string
  or_action_run_id :: uuid
  or_action_id :: string
  or_idempotency_key :: string
  or_status :: string
  or_execution_mode :: string
  or_requested_by :: string
  or_approval_id :: "string option"
  or_workflow_id :: "string option"
  or_result_summary :: string
  or_evidence_refs :: "string list"
  or_persisted :: bool
  or_idempotent_replay :: bool
  or_permission_decision :: permission_decision
  or_audit_event_id :: "uuid option"
  or_audit_event_type :: "string option"
  or_workflow_state_updated :: bool
  or_workflow_state :: "string option"
  or_workflow_status :: "string option"

record action_run_outcome_record =
  oo_result_summary :: string
  oo_evidence_refs :: "string list"

record action_run_record =
  nv_action_run_id :: uuid
  nv_action_id :: string
  nv_status :: string
  nv_approval_id :: "string option"
  nv_workflow_id :: "string option"
  nv_created_at :: timestamp
  nv_updated_at :: timestamp
  nv_waiting_duration_seconds :: int
  nv_outcome :: "action_run_outcome_record option"

definition ACTION_RUN_OUTCOME_RECORD_SCOPE :: string where
  "ACTION_RUN_OUTCOME_RECORD_SCOPE = ''actions:result:record''"

definition ACTION_RUN_OUTCOME_STATUSES :: "string list" where
  "ACTION_RUN_OUTCOME_STATUSES =
     [''dry_run_completed'', ''execution_completed'', ''execution_failed'', ''execution_blocked'']"

definition EXECUTION_ADVANCING_OUTCOME_STATUSES :: "string list" where
  "EXECUTION_ADVANCING_OUTCOME_STATUSES = [''dry_run_completed'', ''execution_completed'']"

section \<open>The ontology reference\<close>

definition MANUFACTURING_ONTOLOGY_REFERENCE_ID :: string where
  "MANUFACTURING_ONTOLOGY_REFERENCE_ID = ''manufacturing-ontology''"

definition ONTOLOGY_SURFACE :: string where
  "ONTOLOGY_SURFACE = ''ontology''"

text \<open>\<open>Inr None\<close> is the empty ontology that is shown for a tenant without a reference record.\<close>

definition get_persisted_manufacturing_ontology ::
  "(json \<Rightarrow> ontology option) \<Rightarrow> string \<Rightarrow> db \<Rightarrow> ontology_error + ontology option"
where
  "get_persisted_manufacturing_ontology decode tenant_id s =
     (case manufacturing_tenant_known tenant_id s of
        Inl _ \<Rightarrow> Inl (OntologyTenantNotFound tenant_id)
      | Inr _ \<Rightarrow>
          (case get_demo_reference_record tenant_id ONTOLOGY_SURFACE MANUFACTURING_ONTOLOGY_REFERENCE_ID s of
             None \<Rightarrow> Inr None
           | Some record \<Rightarrow>
               (case decode (dr_payload record) of
                  None \<Rightarrow> Inl OntologyReferenceRecordInvalid
                | Some ontology \<Rightarrow>
                    if on_tenant_id ontology \<noteq> tenant_id then Inl OntologyReferenceRecordInvalid
                    else Inr (Some (ontology\<lparr>on_provenance := REFERENCE_SCENARIO\<rparr>)))))"

definition require_persisted_manufacturing_ontology ::
  "(json \<Rightarrow> ontology option) \<Rightarrow> string \<Rightarrow> db \<Rightarrow> ontology_error + ontology"
where
  "require_persisted_manufacturing_ontology decode tenant_id s =
     (case get_persisted_manufacturing_ontology decode tenant_id s of
        Inl (OntologyTenantNotFound _) \<Rightarrow> Inl OntologyReferenceRecordNotFound
      | Inl e \<Rightarrow> Inl e
      | Inr None \<Rightarrow> Inl OntologyReferenceRecordNotFound
      | Inr (Some ontology) \<Rightarrow> Inr ontology)"

section \<open>The typed payload\<close>

definition find_action :: "action_codecs \<Rightarrow> string \<Rightarrow> string \<Rightarrow> db \<Rightarrow> action_error + string \<times> action_entry \<times> string" where
  "find_action cx action_id tenant_id s =
     (case require_persisted_manufacturing_action_registry (arefs cx) tenant_id s of
        Inl e \<Rightarrow> Inl (ActionReferenceError e)
      | Inr registry \<Rightarrow>
          (case first_row (select_where (\<lambda>a. ax_action_id a = action_id) (xr_actions registry)) of
             Some action \<Rightarrow> Inr (xr_tenant_id registry, action, xr_schema_version registry)
           | None \<Rightarrow> Inl DemoActionNotFound))"

text \<open>The value is matched against the name of a type; every other name, and a type that is no string, accepts it.
  \<^verbatim>\<open>math.isfinite\<close> of an integer beyond the range of a double raises \<^verbatim>\<open>OverflowError\<close>.\<close>

definition is_jstr :: "json \<Rightarrow> bool" where
  "is_jstr v \<longleftrightarrow> (case v of JStr _ \<Rightarrow> True | _ \<Rightarrow> False)"

definition field_type_matches :: "json \<Rightarrow> json \<Rightarrow> action_error + bool" where
  "field_type_matches value expected_type =
     (if expected_type = JStr ''string'' then Inr (case value of JStr t \<Rightarrow> t \<noteq> [] | _ \<Rightarrow> False)
      else if expected_type = JStr ''array'' then Inr (case value of JList xs \<Rightarrow> list_all is_jstr xs | _ \<Rightarrow> False)
      else if expected_type = JStr ''boolean'' then Inr (case value of JBool _ \<Rightarrow> True | _ \<Rightarrow> False)
      else if expected_type = JStr ''integer'' then Inr (case value of JInt _ \<Rightarrow> True | _ \<Rightarrow> False)
      else if expected_type = JStr ''number''
      then (case value of JInt n \<Rightarrow> if float_of_int n = None then Inl ActionAmountOverflow else Inr True
                        | JFloat _ \<Rightarrow> Inr True | _ \<Rightarrow> Inr False)
      else if expected_type = JStr ''object'' then Inr (case value of JObj _ \<Rightarrow> True | _ \<Rightarrow> False)
      else Inr True)"

definition schema_get :: "dict \<Rightarrow> string \<Rightarrow> json \<Rightarrow> json" where
  "schema_get d k fallback = (case map_of d k of None \<Rightarrow> fallback | Some v \<Rightarrow> v)"

text \<open>\<^verbatim>\<open>set(value)\<close>: the elements of a list that are hashable, the characters of a string, the keys of a dictionary; any
  other value, and a list with a list or a dictionary in it, raises \<^verbatim>\<open>TypeError\<close>.\<close>

fun set_of_json :: "json \<Rightarrow> action_error + json list" where
  "set_of_json (JList xs) =
     (if \<exists>x \<in> set xs. (case x of JList _ \<Rightarrow> True | JObj _ \<Rightarrow> True | _ \<Rightarrow> False) then Inl SchemaShapeError else Inr xs)"
| "set_of_json (JStr t) = Inr (map (\<lambda>c. JStr [c]) t)"
| "set_of_json (JObj d) = Inr (map (\<lambda>(k, _). JStr k) d)"
| "set_of_json _ = Inl SchemaShapeError"

definition field_text :: "action_codecs \<Rightarrow> json \<Rightarrow> string" where
  "field_text cx v = (case v of JStr t \<Rightarrow> t | _ \<Rightarrow> dc_str cx v)"

definition has_field :: "dict \<Rightarrow> json \<Rightarrow> bool" where
  "has_field payload v \<longleftrightarrow> (case v of JStr t \<Rightarrow> map_of payload t \<noteq> None | _ \<Rightarrow> False)"

definition missing_issues :: "action_codecs \<Rightarrow> dict \<Rightarrow> json list \<Rightarrow> string list" where
  "missing_issues cx payload required =
     map (\<lambda>v. ''missing_required:'' @ field_text cx v)
       (filter (\<lambda>v. \<not> has_field payload v) (dc_set_order cx required))"

text \<open>One field of the payload against the properties: its issue, or none. \<^verbatim>\<open>.get\<close> of a value that is no dictionary
  raises \<^verbatim>\<open>AttributeError\<close>.\<close>

definition field_issue :: "json \<Rightarrow> string \<Rightarrow> json \<Rightarrow> action_error + string option" where
  "field_issue properties field_name value =
     (case properties of
        JObj field_list \<Rightarrow>
          (case dget field_list field_name of
             JNull \<Rightarrow> Inr (Some (''unknown_field:'' @ field_name))
           | JObj field_schema \<Rightarrow>
               let expected = dget field_schema ''type'' in
               if \<not> truthy expected then Inr None
               else (case field_type_matches value expected of
                       Inl e \<Rightarrow> Inl e
                     | Inr matches \<Rightarrow>
                         Inr (if matches then None
                              else Some (''invalid_type:'' @ field_name @ '':'' @
                                (case expected of JStr t \<Rightarrow> t | _ \<Rightarrow> []))))
           | _ \<Rightarrow> Inl SchemaShapeError)
      | _ \<Rightarrow> Inl SchemaShapeError)"

fun field_issues :: "json \<Rightarrow> dict \<Rightarrow> action_error + string list" where
  "field_issues properties [] = Inr []"
| "field_issues properties ((field_name, value) # rest) =
     (case field_issue properties field_name value of
        Inl e \<Rightarrow> Inl e
      | Inr issue \<Rightarrow>
          (case field_issues properties rest of
             Inl e \<Rightarrow> Inl e
           | Inr issues \<Rightarrow> Inr ((case issue of None \<Rightarrow> [] | Some i \<Rightarrow> [i]) @ issues)))"

definition validate_payload :: "action_codecs \<Rightarrow> action_entry \<Rightarrow> dict \<Rightarrow> action_error + unit" where
  "validate_payload cx action payload =
     (let schema = ax_input_schema action; properties = schema_get schema ''properties'' (JObj []) in
      case set_of_json (schema_get schema ''required'' (JList [])) of
        Inl e \<Rightarrow> Inl e
      | Inr required \<Rightarrow>
          (case field_issues properties payload of
             Inl e \<Rightarrow> Inl e
           | Inr issues \<Rightarrow>
               (case missing_issues cx payload required @ issues of
                  [] \<Rightarrow> Inr ()
                | all_issues \<Rightarrow> Inl (ActionPayloadValidationError all_issues))))"

section \<open>Permission\<close>

text \<open>The references that one field of the payload makes to the ontology.\<close>

definition field_refs :: "dict \<Rightarrow> string \<times> json \<Rightarrow> string list" where
  "field_refs payload field =
     (case snd field of
        JObj field_schema \<Rightarrow>
          if \<not> truthy (dget field_schema ''x-axis-ontology-ref'') then []
          else (case dget payload (fst field) of
                  JStr t \<Rightarrow> if t \<noteq> [] then [t] else []
                | JList xs \<Rightarrow> [t. JStr t \<leftarrow> xs, t \<noteq> []]
                | _ \<Rightarrow> [])
      | _ \<Rightarrow> [])"

definition payload_ontology_refs :: "action_entry \<Rightarrow> dict \<Rightarrow> action_error + string list" where
  "payload_ontology_refs action payload =
     (case schema_get (ax_input_schema action) ''properties'' (JObj []) of
        JObj field_list \<Rightarrow> Inr (sort (remdups (concat (map (field_refs payload) field_list))))
      | _ \<Rightarrow> Inl SchemaShapeError)"

definition relationship_scopes_for_refs ::
  "action_codecs \<Rightarrow> string \<Rightarrow> string list \<Rightarrow> db \<Rightarrow> action_error + string list"
where
  "relationship_scopes_for_refs cx tenant_id resource_refs s =
     (if resource_refs = [] then Inr []
      else case require_persisted_manufacturing_ontology (dc_ontology cx) tenant_id s of
             Inl e \<Rightarrow> Inl (OntologyError e)
           | Inr ontology \<Rightarrow>
               Inr (sort (remdups (map ol_permission_scope
                 (filter (\<lambda>l. ol_source_id l \<in> set resource_refs \<or> ol_target_id l \<in> set resource_refs)
                   (on_relationships ontology))))))"

definition evaluate_action_permission ::
  "action_codecs \<Rightarrow> string \<Rightarrow> action_entry \<Rightarrow> action_run_request \<Rightarrow> db \<Rightarrow>
   action_error + permission_decision \<times> string list"
where
  "evaluate_action_permission cx tenant_id action request s =
     (case payload_ontology_refs action (aq_payload request) of
        Inl e \<Rightarrow> Inl e
      | Inr resource_refs \<Rightarrow>
          (case relationship_scopes_for_refs cx tenant_id resource_refs s of
             Inl e \<Rightarrow> Inl e
           | Inr relationship_scopes \<Rightarrow>
               let permission_request =
                     \<lparr>pq_tenant_id = tenant_id, pq_actor_id = aq_actor_id request,
                      pq_actor_scopes = aq_actor_scopes request,
                      pq_required_scopes = ax_required_permissions action,
                      pq_relationship_scopes = relationship_scopes,
                      pq_attributes =
                        [(''action_id'', JStr (ax_action_id action)), (''domain'', JStr (ax_domain action)),
                         (''risk_level'', JStr (ax_risk_level action)),
                         (''approval_mode'', JStr (ax_approval_mode action)),
                         (''owner_role'', JStr (ax_owner_role action)),
                         (''execution_mode'', JStr (ax_execution_mode action)),
                         (''resource_refs'', jstrs resource_refs),
                         (''relationship_scopes'', jstrs relationship_scopes)]\<rparr>;
                   decision = evaluate_permission permission_request
               in if \<not> permission_request_valid permission_request then Inl ActionModelInvalid
                  else if \<not> allowed decision
                  then Inl (ActionPermissionDenied
                         (sort (remdups (ax_required_permissions action @ relationship_scopes))) decision)
                  else Inr (decision, relationship_scopes)))"

definition action_status :: "bool \<Rightarrow> string" where
  "action_status approval_required = (if approval_required then ''approval_required'' else ''preview_generated'')"

section \<open>Platform policies\<close>

definition checked_context :: "policy_context \<Rightarrow> action_error + policy_context" where
  "checked_context c = (if policy_context_valid c then Inr c else Inl ActionModelInvalid)"

definition platform_policy_context ::
  "action_codecs \<Rightarrow> action_entry \<Rightarrow> action_run_request \<Rightarrow> action_error + policy_context"
where
  "platform_policy_context cx action request =
     (case payload_requested_amount (dc_float cx) (aq_payload request) of
        Inl OverflowError \<Rightarrow> Inl ActionAmountOverflow
      | Inr (requested_amount, requested_amount_malformed) \<Rightarrow>
          checked_context
            \<lparr>px_action_id = Some (ax_action_id action), px_action_domain = Some (ax_domain action),
             px_risk_level = Some (ax_risk_level action), px_autonomy_level = Some (ax_autonomy_ceiling action),
             px_requested_amount = requested_amount,
             px_requested_amount_malformed = requested_amount_malformed\<rparr>)"

definition enforce_creation_policies ::
  "action_codecs \<Rightarrow> string \<Rightarrow> action_entry \<Rightarrow> action_run_request \<Rightarrow> string \<Rightarrow> (db, action_error, policy_decision) op"
where
  "enforce_creation_policies cx tenant_id action request idempotency_key =
     bind_op (of_result (platform_policy_context cx action request)) (\<lambda>c.
     lift_error ActionPolicyError (enforce_platform_policy_deny tenant_id (aq_actor_id request) ACTION_EXECUTION c
       ''action_run_creation''
       [(''action_id'', JStr (ax_action_id action)), (''idempotency_key'', JStr idempotency_key)] False))"

definition outcome_platform_policy_context ::
  "action_codecs \<Rightarrow> string \<Rightarrow> action_run \<Rightarrow> db \<Rightarrow> action_error + policy_context \<times> bool"
where
  "outcome_platform_policy_context cx tenant_id run s =
     (let action = registry_action_entry (arefs cx) (rn_action_id run) tenant_id s;
          context_degraded = (action = None);
          input_payload = (case dget (rn_payload run) ''input'' of JObj d \<Rightarrow> d | _ \<Rightarrow> [])
      in case payload_requested_amount (dc_float cx) input_payload of
           Inl OverflowError \<Rightarrow> Inl ActionAmountOverflow
         | Inr (requested_amount, requested_amount_malformed) \<Rightarrow>
             (case checked_context
                 \<lparr>px_action_id = Some (rn_action_id run), px_action_domain = map_option ax_domain action,
                  px_risk_level = map_option ax_risk_level action,
                  px_autonomy_level = map_option ax_autonomy_ceiling action,
                  px_requested_amount = requested_amount,
                  px_requested_amount_malformed = requested_amount_malformed\<rparr> of
                Inl e \<Rightarrow> Inl e
              | Inr c \<Rightarrow> Inr (c, context_degraded)))"

definition outcome_policy_audit :: "action_run \<Rightarrow> action_run_outcome_request \<Rightarrow> bool \<Rightarrow> dict" where
  "outcome_policy_audit run request context_degraded =
     [(''action_id'', JStr (rn_action_id run)), (''action_run_id'', JStr (uuid_text (rn_id run))),
      (''idempotency_key'', JStr (oq_idempotency_key request)), (''outcome_status'', JStr (oq_status request)),
      (''context_degraded'', JBool context_degraded)]"

definition enforce_outcome_platform_policies ::
  "action_codecs \<Rightarrow> string \<Rightarrow> action_run \<Rightarrow> action_run_outcome_request \<Rightarrow> (db, action_error, bool) op"
where
  "enforce_outcome_platform_policies cx tenant_id run request =
     (if oq_status request \<notin> set EXECUTION_ADVANCING_OUTCOME_STATUSES then return_op False
      else
        bind_op (get_op (outcome_platform_policy_context cx tenant_id run)) (\<lambda>built.
        bind_op (of_result built) (\<lambda>(c, context_degraded).
        bind_op (lift_error ActionPolicyError (enforce_platform_policy_deny tenant_id (oq_actor_id request)
            ACTION_EXECUTION c ''action_run_outcome'' (outcome_policy_audit run request context_degraded)
            context_degraded)) (\<lambda>_.
        return_op context_degraded))))"

section \<open>Creating a run\<close>

definition run_idempotency_key :: "string \<Rightarrow> action_entry \<Rightarrow> action_run_request \<Rightarrow> action_error + string" where
  "run_idempotency_key tenant_id action request =
     (case aq_idempotency_key request of
        Some (c # k) \<Rightarrow> Inr (c # k)
      | _ \<Rightarrow>
          if ax_idempotency_required action then Inl (ActionPayloadValidationError [''missing_idempotency_key''])
          else Inr (tenant_id @ '':'' @ ax_action_id action @ '':'' @ aq_actor_id request @ '':preview''))"

definition stored_payload :: "action_entry \<Rightarrow> action_run_request \<Rightarrow> string \<Rightarrow> dict" where
  "stored_payload action request schema_version =
     [(''input'', JObj (aq_payload request)), (''schema_version'', JStr schema_version),
      (''dry_run'', JBool (ax_dry_run_supported action))]"

definition get_action_run_by_idempotency_key :: "string \<Rightarrow> string \<Rightarrow> string \<Rightarrow> db \<Rightarrow> action_run option" where
  "get_action_run_by_idempotency_key tenant_id action_id idempotency_key s =
     first_row (select_where (\<lambda>r. rn_tenant_id r = tenant_id \<and> rn_action_id r = action_id
        \<and> rn_idempotency_key r = idempotency_key) (action_runs s))"

definition get_action_run :: "string \<Rightarrow> uuid \<Rightarrow> db \<Rightarrow> action_run option" where
  "get_action_run tenant_id action_run_id s =
     first_row (select_where (\<lambda>r. rn_tenant_id r = tenant_id \<and> rn_id r = action_run_id) (action_runs s))"

text \<open>What the first part of a creation has computed.\<close>

record action_plan =
  pl_tenant_id :: string
  pl_action :: action_entry
  pl_request :: action_run_request
  pl_permission :: permission_decision
  pl_relationship_scopes :: "string list"
  pl_key :: string
  pl_payload :: dict
  pl_policy :: policy_decision

definition pl_approval_required :: "action_plan \<Rightarrow> bool" where
  "pl_approval_required plan \<longleftrightarrow>
     requires_approval (pl_action plan) \<or> pd_effect (pl_policy plan) = effect_value REQUIRE_APPROVAL"

text \<open>\<^verbatim>\<open>_idempotent_replay\<close>.\<close>

definition replayed_result :: "string \<Rightarrow> action_entry \<Rightarrow> string \<Rightarrow> permission_decision \<Rightarrow> action_run \<Rightarrow> action_run_result" where
  "replayed_result tenant_id action idempotency_key permission existing =
     \<lparr>nr_tenant_id = tenant_id, nr_action_run_id = rn_id existing, nr_action_id = ax_action_id action,
      nr_idempotency_key = idempotency_key, nr_status = rn_status existing,
      nr_execution_mode = ax_execution_mode action, nr_requested_by = rn_requested_by existing,
      nr_approval_required = requires_approval action, nr_approval_id = first_row (ax_approval_refs action),
      nr_workflow_id = first_row (ax_workflow_bindings action), nr_persisted = True, nr_idempotent_replay = True,
      nr_permission_decision = permission, nr_audit_event_id = None, nr_audit_event_type = None,
      nr_workflow_signal = None, nr_workflow_signal_status = ''idempotent_replay'',
      nr_workflow_state_updated = False, nr_workflow_state = None, nr_workflow_status = None,
      nr_platform_policy_decision = None\<rparr>"

definition idempotent_replay ::
  "string \<Rightarrow> action_entry \<Rightarrow> string \<Rightarrow> permission_decision \<Rightarrow> dict \<Rightarrow> action_run \<Rightarrow> action_error + action_run_result"
where
  "idempotent_replay tenant_id action idempotency_key permission payload existing =
     (if \<not> json_eq (JObj (rn_payload existing)) (JObj payload) then Inl (ActionRunIdempotencyConflict (rn_id existing))
      else Inr (replayed_result tenant_id action idempotency_key permission existing))"

definition payload_tenant_ok :: "string \<Rightarrow> dict \<Rightarrow> bool" where
  "payload_tenant_ok tenant_id payload \<longleftrightarrow> dget payload ''tenant_id'' \<in> {JNull, JStr tenant_id}"

text \<open>The checks that read only: the action, the payload, the permission and the key.\<close>

definition checked_request ::
  "action_codecs \<Rightarrow> string \<Rightarrow> action_run_request \<Rightarrow> string \<Rightarrow> db \<Rightarrow>
   action_error + string \<times> action_entry \<times> permission_decision \<times> string list \<times> string \<times> dict"
where
  "checked_request cx action_id request asked_tenant s =
     (case find_action cx action_id asked_tenant s of
        Inl e \<Rightarrow> Inl e
      | Inr (tenant_id, action, schema_version) \<Rightarrow>
          if \<not> payload_tenant_ok tenant_id (aq_payload request)
          then Inl (ActionPayloadValidationError [''tenant_mismatch:tenant_id''])
          else (case validate_payload cx action (aq_payload request) of
             Inl e \<Rightarrow> Inl e
           | Inr _ \<Rightarrow>
               (case evaluate_action_permission cx tenant_id action request s of
                  Inl e \<Rightarrow> Inl e
                | Inr (permission, relationship_scopes) \<Rightarrow>
                    (case run_idempotency_key tenant_id action request of
                       Inl e \<Rightarrow> Inl e
                     | Inr key \<Rightarrow>
                         Inr (tenant_id, action, permission, relationship_scopes, key,
                           stored_payload action request schema_version)))))"

definition prepare_action_run ::
  "action_codecs \<Rightarrow> string \<Rightarrow> action_run_request \<Rightarrow> string \<Rightarrow> (db, action_error, action_run_result + action_plan) op"
where
  "prepare_action_run cx action_id request asked_tenant =
     bind_op (get_op (checked_request cx action_id request asked_tenant)) (\<lambda>checked.
     bind_op (of_result checked) (\<lambda>(tenant_id, action, permission, relationship_scopes, key, payload).
     bind_op (get_op (get_action_run_by_idempotency_key tenant_id (ax_action_id action) key)) (\<lambda>existing.
     case existing of
       Some run \<Rightarrow>
         bind_op (of_result (idempotent_replay tenant_id action key permission payload run)) (\<lambda>result.
         return_op (Inl result))
     | None \<Rightarrow>
         bind_op (enforce_creation_policies cx tenant_id action request key) (\<lambda>policy.
         return_op (Inr \<lparr>pl_tenant_id = tenant_id, pl_action = action, pl_request = request,
           pl_permission = permission, pl_relationship_scopes = relationship_scopes, pl_key = key,
           pl_payload = payload, pl_policy = policy\<rparr>)))))"

definition new_action_run :: "action_plan \<Rightarrow> action_run" where
  "new_action_run plan =
     \<lparr>rn_id = 0, rn_tenant_id = pl_tenant_id plan, rn_action_id = ax_action_id (pl_action plan),
      rn_idempotency_key = pl_key plan, rn_status = action_status (pl_approval_required plan),
      rn_execution_mode = ax_execution_mode (pl_action plan), rn_requested_by = aq_actor_id (pl_request plan),
      rn_approval_id = first_row (ax_approval_refs (pl_action plan)),
      rn_workflow_id = first_row (ax_workflow_bindings (pl_action plan)), rn_payload = pl_payload plan,
      rn_result_payload = None, rn_created_at = 0, rn_updated_at = 0\<rparr>"

record action_runtime =
  an_history_enabled :: bool
  an_signal :: "(action_signal_request \<Rightarrow> signal_error + signal_result) option"

definition action_signal_failure_result :: "action_signal_request \<Rightarrow> string \<Rightarrow> signal_result" where
  "action_signal_failure_result r why =
     \<lparr>wsr_workflow_id = as_workflow_id r, wsr_status = ''runtime_signal_unavailable'',
      wsr_adapter = temporal_adapter_name, wsr_signal_name = as_signal_name r,
      wsr_payload = dset ''reason'' (JStr why) (action_audit_payload r)\<rparr>"

definition action_signal_of :: "action_plan \<Rightarrow> uuid \<Rightarrow> string \<Rightarrow> action_signal_request" where
  "action_signal_of plan action_run_id workflow_id =
     \<lparr>as_tenant_id = pl_tenant_id plan, as_workflow_id = workflow_id,
      as_action_id = ax_action_id (pl_action plan), as_action_run_id = action_run_id,
      as_idempotency_key = pl_key plan, as_approval_id = first_row (ax_approval_refs (pl_action plan)),
      as_execution_mode = ax_execution_mode (pl_action plan), as_signal_name = ''action_requested'',
      as_payload = aq_payload (pl_request plan)\<rparr>"

text \<open>The signal is sent for actions of the Temporal adapter with a workflow; a failure is a result. The request
  model refuses an empty workflow id.\<close>

definition signal_action_workflow ::
  "action_runtime \<Rightarrow> action_plan \<Rightarrow> uuid \<Rightarrow> action_error + signal_result option"
where
  "signal_action_workflow rt plan action_run_id =
     (case ax_workflow_bindings (pl_action plan) of
        [] \<Rightarrow> Inr None
      | workflow_id # _ \<Rightarrow>
          if ax_runtime_adapter (pl_action plan) \<noteq> ''axis-temporal-adapter'' then Inr None
          else if workflow_id = [] then Inl ActionModelInvalid
          else let r = action_signal_of plan action_run_id workflow_id in
            (case an_signal rt of
               None \<Rightarrow> Inr (Some (deferred_signal_action_run r))
             | Some signal \<Rightarrow>
                 (case signal r of
                    Inr result \<Rightarrow> Inr (Some result)
                  | Inl e \<Rightarrow> Inr (Some (action_signal_failure_result r (signal_reason e))))))"

definition workflow_signal_status :: "signal_result option \<Rightarrow> string" where
  "workflow_signal_status result = (case result of None \<Rightarrow> ''not_required'' | Some r \<Rightarrow> wsr_status r)"

definition run_created_event :: "action_plan \<Rightarrow> action_run \<Rightarrow> signal_result option \<Rightarrow> audit_event_create" where
  "run_created_event plan run workflow_signal =
     (let action = pl_action plan in
     \<lparr>ac_event_tenant_id = pl_tenant_id plan, ac_event_actor_id = aq_actor_id (pl_request plan),
      ac_event_type = ax_audit_event_type action,
      ac_event_payload =
        [(''action_id'', JStr (ax_action_id action)), (''action_run_id'', JStr (uuid_text (rn_id run))),
         (''idempotency_key'', JStr (pl_key plan)), (''status'', JStr (action_status (pl_approval_required plan))),
         (''execution_mode'', JStr (ax_execution_mode action)),
         (''approval_required'', JBool (pl_approval_required plan)),
         (''approval_id'', jopt JStr (first_row (ax_approval_refs action))),
         (''workflow_id'', jopt JStr (first_row (ax_workflow_bindings action))),
         (''risk_level'', JStr (ax_risk_level action)), (''approval_mode'', JStr (ax_approval_mode action)),
         (''permission_decision'', permission_decision_dump (pl_permission plan)),
         (''relationship_scopes'', jstrs (pl_relationship_scopes plan)),
         (''payload_field_names'', jstrs (sort (map fst (aq_payload (pl_request plan))))),
         (''payload_recorded'', JStr ''true''),
         (''workflow_signal_status'', JStr (workflow_signal_status workflow_signal)),
         (''workflow_signal'', jopt signal_result_dump workflow_signal),
         (''platform_policy_decision'',
            (if pd_matched (pl_policy plan) then policy_decision_dump (pl_policy plan) else JNull))]\<rparr>)"

text \<open>Both workflow methods of the repository: rewrite the run of the workflow, stamp it, and append the next event of
  its timeline.\<close>

definition advance_workflow_run ::
  "string \<Rightarrow> string \<Rightarrow> (workflow_run \<Rightarrow> workflow_run) \<Rightarrow> dict \<Rightarrow> string \<Rightarrow> string \<Rightarrow> string \<Rightarrow> string \<Rightarrow>
   (db, 'e, workflow_run option) op"
where
  "advance_workflow_run tenant_id workflow_id change pending_signal event the_actor result summary =
     bind_op (get_op (get_workflow_run tenant_id workflow_id)) (\<lambda>found.
     case found of
       None \<Rightarrow> return_op None
     | Some run \<Rightarrow>
         bind_op utc_now (\<lambda>now.
         let row = (change run)\<lparr>wr_pending_signals := wr_pending_signals run @ [pending_signal],
                     wr_replay_ready := True, wr_updated_at := now\<rparr> in
         bind_op (put_op (\<lambda>s. s\<lparr>workflow_runs :=
             update_where (\<lambda>r. wr_id r = wr_id run) (\<lambda>_. row) (workflow_runs s)\<rparr>)) (\<lambda>_.
         bind_op (get_op (latest_sequence tenant_id workflow_id)) (\<lambda>latest.
         bind_op (append_workflow_timeline_event
             \<lparr>te_id = 0, te_tenant_id = tenant_id, te_workflow_id = workflow_id, te_sequence = latest + 1,
              te_event = event, te_occurred_at = now, te_actor = the_actor, te_result = result,
              te_summary = summary, te_created_at = 0\<rparr>) (\<lambda>_.
         return_op (Some row))))))"

definition requested_workflow_run :: "bool \<Rightarrow> workflow_run \<Rightarrow> workflow_run" where
  "requested_workflow_run approval_required run =
     (if approval_required
      then run\<lparr>wr_state := ''action_proposed'', wr_status := ''action_required'',
             wr_current_step := ''Action proposal recorded'',
             wr_blocker := Some ''Approval required before governed action execution.''\<rparr>
      else run\<lparr>wr_state := ''action_requested'', wr_status := ''running'',
             wr_current_step := ''Action requested'', wr_blocker := None\<rparr>)"

definition record_workflow_action_run ::
  "action_plan \<Rightarrow> uuid \<Rightarrow> string \<Rightarrow> string \<Rightarrow> (db, action_error, workflow_run option) op"
where
  "record_workflow_action_run plan action_run_id workflow_id signal_status =
     (if workflow_id = [] then raise_op ActionModelInvalid
      else advance_workflow_run (pl_tenant_id plan) workflow_id (requested_workflow_run (pl_approval_required plan))
        [(''signal'', JStr ''action.requested''), (''status'', JStr signal_status),
         (''action_id'', JStr (ax_action_id (pl_action plan))),
         (''action_run_id'', JStr (uuid_text action_run_id)),
         (''approval_id'', jopt JStr (first_row (ax_approval_refs (pl_action plan)))),
         (''idempotency_key'', JStr (pl_key plan))]
        ''workflow.action_run.recorded'' (aq_actor_id (pl_request plan)) signal_status
        (''Action run '' @ uuid_text action_run_id @ '' for '' @ ax_action_id (pl_action plan) @
         '' was persisted and signaled through the workflow boundary.''))"

definition created_result ::
  "action_plan \<Rightarrow> action_run \<Rightarrow> signal_result option \<Rightarrow> audit_event \<Rightarrow> workflow_run option \<Rightarrow> action_run_result"
where
  "created_result plan run workflow_signal audit_event workflow_run =
     (let action = pl_action plan in
     \<lparr>nr_tenant_id = pl_tenant_id plan, nr_action_run_id = rn_id run, nr_action_id = ax_action_id action,
      nr_idempotency_key = pl_key plan, nr_status = rn_status run, nr_execution_mode = ax_execution_mode action,
      nr_requested_by = rn_requested_by run, nr_approval_required = pl_approval_required plan,
      nr_approval_id = first_row (ax_approval_refs action),
      nr_workflow_id = first_row (ax_workflow_bindings action), nr_persisted = True, nr_idempotent_replay = False,
      nr_permission_decision = pl_permission plan, nr_audit_event_id = Some (ae_id audit_event),
      nr_audit_event_type = Some (ae_event_type audit_event), nr_workflow_signal = workflow_signal,
      nr_workflow_signal_status = workflow_signal_status workflow_signal,
      nr_workflow_state_updated = (workflow_run \<noteq> None), nr_workflow_state = map_option wr_state workflow_run,
      nr_workflow_status = map_option wr_status workflow_run,
      nr_platform_policy_decision = Some (pl_policy plan)\<rparr>)"

text \<open>What follows a successful insert.\<close>

definition follow_creation ::
  "action_codecs \<Rightarrow> action_runtime \<Rightarrow> action_plan \<Rightarrow> action_run \<Rightarrow> (db, action_error, action_run_result) op"
where
  "follow_creation cx rt plan run =
     bind_op (of_result (signal_action_workflow rt plan (rn_id run))) (\<lambda>workflow_signal.
     bind_op (append_audit_event (run_created_event plan run workflow_signal)) (\<lambda>audit_event.
     bind_op
       (case ax_workflow_bindings (pl_action plan) of
          [] \<Rightarrow> return_op None
        | workflow_id # _ \<Rightarrow>
            bind_op (if an_history_enabled rt
                then lift_error ActionStoreError (ensure_workflow_run (dc_console_run cx) (pl_tenant_id plan) workflow_id)
                else return_op None) (\<lambda>_.
            record_workflow_action_run plan (rn_id run) workflow_id (workflow_signal_status workflow_signal)))
       (\<lambda>workflow_run.
     return_op (created_result plan run workflow_signal audit_event workflow_run))))"

text \<open>The second part: the insert in its savepoint, which loses to a row that another transaction committed in between,
  and what follows.\<close>

definition commit_action_run ::
  "action_codecs \<Rightarrow> action_runtime \<Rightarrow> action_plan \<Rightarrow> (db, action_error, action_run_result) op"
where
  "commit_action_run cx rt plan s =
     (case create_action_run (new_action_run plan) s of
        (Inr run, t) \<Rightarrow> follow_creation cx rt plan run t
      | (Inl (IntegrityError constraint), t) \<Rightarrow>
          let u = rollback s t in
          (case get_action_run_by_idempotency_key (pl_tenant_id plan) (ax_action_id (pl_action plan)) (pl_key plan) u of
             None \<Rightarrow> (Inl (ActionStoreError (IntegrityError constraint)), u)
           | Some winner \<Rightarrow>
               (idempotent_replay (pl_tenant_id plan) (pl_action plan) (pl_key plan) (pl_permission plan)
                  (pl_payload plan) winner, u))
      | (Inl e, t) \<Rightarrow> (Inl (ActionStoreError e), t))"

definition record_demo_action_run ::
  "action_codecs \<Rightarrow> action_runtime \<Rightarrow> string \<Rightarrow> action_run_request \<Rightarrow> string \<Rightarrow> (db, action_error, action_run_result) op"
where
  "record_demo_action_run cx rt action_id request asked_tenant =
     bind_op (prepare_action_run cx action_id request asked_tenant) (\<lambda>prepared.
     case prepared of
       Inl replayed \<Rightarrow> return_op replayed
     | Inr plan \<Rightarrow> commit_action_run cx rt plan)"

section \<open>Recording an outcome\<close>

definition outcome_permission_decision :: "string \<Rightarrow> action_run_outcome_request \<Rightarrow> action_error + permission_decision" where
  "outcome_permission_decision tenant_id request =
     (let permission_request =
            \<lparr>pq_tenant_id = tenant_id, pq_actor_id = oq_actor_id request, pq_actor_scopes = oq_actor_scopes request,
             pq_required_scopes = [ACTION_RUN_OUTCOME_RECORD_SCOPE], pq_relationship_scopes = [],
             pq_attributes = [(''operation'', JStr ''record_action_run_outcome'')]\<rparr>;
          decision = evaluate_permission permission_request
      in if \<not> permission_request_valid permission_request then Inl ActionModelInvalid
         else if \<not> allowed decision
         then Inl (ActionRunOutcomePermissionDenied ACTION_RUN_OUTCOME_RECORD_SCOPE decision)
         else Inr decision)"

definition outcome_issues :: "string \<Rightarrow> action_run_outcome_request \<Rightarrow> string list" where
  "outcome_issues current_status request =
     (if oq_status request \<notin> set ACTION_RUN_OUTCOME_STATUSES then [''invalid_status:'' @ oq_status request] else []) @
     (if oq_external_mutation_started request then [''external_mutation_not_enabled''] else []) @
     (if current_status = ''approval_required'' then [''approval_required_before_outcome''] else [])"

definition validate_outcome_request :: "string \<Rightarrow> action_run_outcome_request \<Rightarrow> action_error + unit" where
  "validate_outcome_request current_status request =
     (case outcome_issues current_status request of
        [] \<Rightarrow> Inr ()
      | issues \<Rightarrow> Inl (ActionRunOutcomeValidationError issues))"

definition outcome_payload :: "action_run_outcome_request \<Rightarrow> dict" where
  "outcome_payload request =
     [(''source'', JStr ''action_run_outcome''), (''outcome_idempotency_key'', JStr (oq_idempotency_key request)),
      (''status'', JStr (oq_status request)), (''result_summary'', JStr (oq_result_summary request)),
      (''evidence_refs'', jstrs (oq_evidence_refs request)), (''metrics'', JObj (oq_metrics request)),
      (''external_mutation_started'', JBool (oq_external_mutation_started request)),
      (''recorded_by'', JStr (oq_actor_id request))]"

definition outcome_result ::
  "string \<Rightarrow> action_run_outcome_request \<Rightarrow> permission_decision \<Rightarrow> action_run \<Rightarrow> audit_event option \<Rightarrow>
   workflow_run option \<Rightarrow> action_run_outcome_result"
where
  "outcome_result tenant_id request permission run audit_event workflow_run =
     \<lparr>or_tenant_id = tenant_id, or_action_run_id = rn_id run, or_action_id = rn_action_id run,
      or_idempotency_key = oq_idempotency_key request, or_status = rn_status run,
      or_execution_mode = rn_execution_mode run, or_requested_by = rn_requested_by run,
      or_approval_id = rn_approval_id run, or_workflow_id = rn_workflow_id run,
      or_result_summary = oq_result_summary request, or_evidence_refs = oq_evidence_refs request,
      or_persisted = True, or_idempotent_replay = (audit_event = None), or_permission_decision = permission,
      or_audit_event_id = map_option ae_id audit_event, or_audit_event_type = map_option ae_event_type audit_event,
      or_workflow_state_updated = (workflow_run \<noteq> None), or_workflow_state = map_option wr_state workflow_run,
      or_workflow_status = map_option wr_status workflow_run\<rparr>"

text \<open>The answer to a request whose run has an outcome already, or \<^verbatim>\<open>None\<close> where the code goes on to record one.\<close>

definition earlier_outcome ::
  "string \<Rightarrow> action_run_outcome_request \<Rightarrow> permission_decision \<Rightarrow> action_run \<Rightarrow>
   (action_error + action_run_outcome_result) option"
where
  "earlier_outcome tenant_id request permission run =
     (let existing_payload = (case rn_result_payload run of None \<Rightarrow> [] | Some p \<Rightarrow> p);
          existing_key = dget existing_payload ''outcome_idempotency_key''
      in if existing_key = JStr (oq_idempotency_key request)
         then (if \<not> json_eq (JObj existing_payload) (JObj (outcome_payload request))
               then Some (Inl (ActionRunOutcomeConflict (rn_id run) ''outcome_idempotency_conflict''))
               else Some (Inr (outcome_result tenant_id request permission run None None)))
         else if existing_key \<noteq> JNull \<or> rn_status run \<in> set ACTION_RUN_OUTCOME_STATUSES
         then Some (Inl (ActionRunOutcomeConflict (rn_id run) ''action_run_outcome_already_recorded''))
         else None)"

definition OUTCOME_RECORDED_EVENT_TYPE :: string where
  "OUTCOME_RECORDED_EVENT_TYPE = ''action.run.outcome.recorded''"

definition outcome_recorded_event ::
  "string \<Rightarrow> action_run_outcome_request \<Rightarrow> permission_decision \<Rightarrow> bool \<Rightarrow> action_run \<Rightarrow> audit_event_create"
where
  "outcome_recorded_event tenant_id request permission context_degraded run =
     \<lparr>ac_event_tenant_id = tenant_id, ac_event_actor_id = oq_actor_id request,
      ac_event_type = OUTCOME_RECORDED_EVENT_TYPE,
      ac_event_payload =
        [(''action_run_id'', JStr (uuid_text (rn_id run))), (''action_id'', JStr (rn_action_id run)),
         (''idempotency_key'', JStr (oq_idempotency_key request)), (''status'', JStr (oq_status request)),
         (''execution_mode'', JStr (rn_execution_mode run)), (''approval_id'', jopt JStr (rn_approval_id run)),
         (''workflow_id'', jopt JStr (rn_workflow_id run)),
         (''result_summary'', JStr (oq_result_summary request)),
         (''evidence_refs'', jstrs (oq_evidence_refs request)),
         (''metric_names'', jstrs (sort (map fst (oq_metrics request)))),
         (''external_mutation_started'', JBool (oq_external_mutation_started request)),
         (''permission_decision'', permission_decision_dump permission),
         (''platform_policy_context_degraded'', JBool context_degraded)]\<rparr>"

definition finished_workflow_run :: "string \<Rightarrow> workflow_run \<Rightarrow> workflow_run" where
  "finished_workflow_run outcome run =
     (if outcome \<in> {''dry_run_completed'', ''execution_completed''}
      then run\<lparr>wr_state := ''action_completed'', wr_status := ''ready'',
             wr_current_step := ''Action outcome recorded'', wr_blocker := None\<rparr>
      else if outcome = ''execution_failed''
      then run\<lparr>wr_state := ''action_failed'', wr_status := ''watch'', wr_current_step := ''Action outcome failed'',
             wr_blocker := Some ''Action run outcome recorded a failure.''\<rparr>
      else run\<lparr>wr_state := ''action_blocked'', wr_status := ''action_required'',
             wr_current_step := ''Action outcome blocked'',
             wr_blocker := Some ''Action run outcome requires operator follow-up.''\<rparr>)"

definition record_workflow_action_run_outcome ::
  "string \<Rightarrow> action_run_outcome_request \<Rightarrow> action_run \<Rightarrow> string \<Rightarrow> (db, action_error, workflow_run option) op"
where
  "record_workflow_action_run_outcome tenant_id request run workflow_id =
     (if workflow_id = [] then raise_op ActionModelInvalid
      else advance_workflow_run tenant_id workflow_id (finished_workflow_run (oq_status request))
        [(''signal'', JStr ''action.outcome''), (''status'', JStr (oq_status request)),
         (''action_id'', JStr (rn_action_id run)), (''action_run_id'', JStr (uuid_text (rn_id run))),
         (''idempotency_key'', JStr (oq_idempotency_key request))]
        ''workflow.action_run.completed'' (oq_actor_id request) (oq_status request)
        (''Action run '' @ uuid_text (rn_id run) @ '' recorded outcome '' @ oq_status request @ '': '' @
         oq_result_summary request))"

text \<open>The writes of a new outcome.\<close>

definition apply_outcome ::
  "action_codecs \<Rightarrow> bool \<Rightarrow> string \<Rightarrow> action_run_outcome_request \<Rightarrow> permission_decision \<Rightarrow> bool \<Rightarrow> action_run \<Rightarrow>
   (db, action_error, action_run_outcome_result) op"
where
  "apply_outcome cx history_enabled tenant_id request permission context_degraded old_run =
     bind_op (lift_error ActionStoreError (record_action_run_result tenant_id (rn_id old_run) (oq_status request)
         (outcome_payload request))) (\<lambda>run.
     bind_op (append_audit_event (outcome_recorded_event tenant_id request permission context_degraded run)) (\<lambda>audit_event.
     bind_op
       (case rn_workflow_id run of
          None \<Rightarrow> return_op None
        | Some workflow_id \<Rightarrow>
            bind_op (if history_enabled
                then lift_error ActionStoreError (ensure_workflow_run (dc_console_run cx) tenant_id workflow_id)
                else return_op None) (\<lambda>_.
            record_workflow_action_run_outcome tenant_id request run workflow_id)) (\<lambda>workflow_run.
     return_op (outcome_result tenant_id request permission run (Some audit_event) workflow_run))))"

definition record_demo_action_run_outcome ::
  "action_codecs \<Rightarrow> bool \<Rightarrow> uuid \<Rightarrow> action_run_outcome_request \<Rightarrow> string \<Rightarrow>
   (db, action_error, action_run_outcome_result) op"
where
  "record_demo_action_run_outcome cx history_enabled action_run_id request tenant_id =
     bind_op (get_op (get_action_run tenant_id action_run_id)) (\<lambda>found.
     case found of
       None \<Rightarrow> raise_op DemoActionRunNotFound
     | Some run \<Rightarrow>
         bind_op (of_result (outcome_permission_decision tenant_id request)) (\<lambda>permission.
         bind_op (of_result (validate_outcome_request (rn_status run) request)) (\<lambda>_.
         case earlier_outcome tenant_id request permission run of
           Some answer \<Rightarrow> of_result answer
         | None \<Rightarrow>
             bind_op (enforce_outcome_platform_policies cx tenant_id run request) (\<lambda>context_degraded.
             apply_outcome cx history_enabled tenant_id request permission context_degraded run))))"

section \<open>Listing runs\<close>

definition list_action_runs :: "string \<Rightarrow> string option \<Rightarrow> string option \<Rightarrow> nat \<Rightarrow> db \<Rightarrow> action_run list" where
  "list_action_runs tenant_id action_id status limit s =
     take limit (sort_key (\<lambda>r. (- rn_created_at r, - int (rn_id r)))
       (select_where (\<lambda>r. rn_tenant_id r = tenant_id
          \<and> (case action_id of None \<Rightarrow> True | Some a \<Rightarrow> rn_action_id r = a)
          \<and> (case status of None \<Rightarrow> True | Some st \<Rightarrow> rn_status r = st)) (action_runs s)))"

fun str_items :: "json list \<Rightarrow> string list option" where
  "str_items [] = Some []"
| "str_items (JStr t # rest) = map_option ((#) t) (str_items rest)"
| "str_items (_ # rest) = None"

definition listed_outcome :: "dict option \<Rightarrow> action_run_outcome_record option" where
  "listed_outcome result_payload =
     (case result_payload of
        None \<Rightarrow> None
      | Some p \<Rightarrow>
          if dget p ''source'' \<noteq> JStr ''action_run_outcome'' then None
          else (case (dget p ''result_summary'', dget p ''evidence_refs'') of
                  (JStr summary, JList xs) \<Rightarrow>
                    if summary = [] then None
                    else map_option (\<lambda>evidence. \<lparr>oo_result_summary = summary, oo_evidence_refs = evidence\<rparr>) (str_items xs)
                | _ \<Rightarrow> None))"

definition action_run_record_of :: "timestamp \<Rightarrow> action_run \<Rightarrow> action_run_record" where
  "action_run_record_of now r =
     \<lparr>nv_action_run_id = rn_id r, nv_action_id = rn_action_id r, nv_status = rn_status r,
      nv_approval_id = rn_approval_id r, nv_workflow_id = rn_workflow_id r, nv_created_at = rn_created_at r,
      nv_updated_at = rn_updated_at r,
      nv_waiting_duration_seconds = max 0 ((now - rn_created_at r) div 1000000),
      nv_outcome = listed_outcome (rn_result_payload r)\<rparr>"

definition list_action_run_records ::
  "string \<Rightarrow> string option \<Rightarrow> string option \<Rightarrow> nat \<Rightarrow> (db, 'e, action_run_record list) op"
where
  "list_action_run_records tenant_id action_id status limit =
     bind_op (get_op (list_action_runs tenant_id action_id status limit)) (\<lambda>records.
     bind_op utc_now (\<lambda>now.
     return_op (map (action_run_record_of now) records)))"

section \<open>The endpoints\<close>

text \<open>Only a denial by a policy is committed, with its audit event.\<close>

definition commits_action_error :: "action_error \<Rightarrow> bool" where
  "commits_action_error e \<longleftrightarrow>
     (case e of ActionPolicyError (PlatformPolicyEnforcementDenied _ _ _) \<Rightarrow> True | _ \<Rightarrow> False)"

definition request_scope :: "(db, action_error, 'a) op \<Rightarrow> (db, action_error endpoint_error, 'a) op" where
  "request_scope m s =
     (case m s of
        (Inr result, t) \<Rightarrow> (Inr result, t)
      | (Inl e, t) \<Rightarrow> (Inl (Refused e), if commits_action_error e then t else rollback s t))"

definition with_run_actor :: "string \<Rightarrow> string list \<Rightarrow> action_run_request \<Rightarrow> action_run_request" where
  "with_run_actor the_actor scopes request = request\<lparr>aq_actor_id := the_actor, aq_actor_scopes := scopes\<rparr>"

definition with_outcome_actor :: "string \<Rightarrow> string list \<Rightarrow> action_run_outcome_request \<Rightarrow> action_run_outcome_request" where
  "with_outcome_actor the_actor scopes request = request\<lparr>oq_actor_id := the_actor, oq_actor_scopes := scopes\<rparr>"

abbreviation bind_run_actor ::
  "action_run_request \<Rightarrow> oidc_principal option \<Rightarrow> string \<Rightarrow> action_error endpoint_error + action_run_request"
where
  "bind_run_actor \<equiv> bind_tenant_request aq_actor_id with_run_actor"

abbreviation bind_outcome_actor ::
  "action_run_outcome_request \<Rightarrow> oidc_principal option \<Rightarrow> string \<Rightarrow>
   action_error endpoint_error + action_run_outcome_request"
where
  "bind_outcome_actor \<equiv> bind_tenant_request oq_actor_id with_outcome_actor"

definition manufacturing_action_run ::
  "action_codecs \<Rightarrow> action_runtime \<Rightarrow> string \<Rightarrow> action_run_request \<Rightarrow> oidc_principal option \<Rightarrow> string \<Rightarrow>
   (db, action_error endpoint_error, action_run_result) op"
where
  "manufacturing_action_run cx rt action_id request the_principal tenant_id =
     (case bind_run_actor request the_principal tenant_id of
        Inl e \<Rightarrow> raise_op e
      | Inr bound \<Rightarrow> request_scope (record_demo_action_run cx rt action_id bound tenant_id))"

definition manufacturing_action_run_outcome ::
  "action_codecs \<Rightarrow> bool \<Rightarrow> uuid \<Rightarrow> action_run_outcome_request \<Rightarrow> oidc_principal option \<Rightarrow> string \<Rightarrow>
   (db, action_error endpoint_error, action_run_outcome_result) op"
where
  "manufacturing_action_run_outcome cx history_enabled action_run_id request the_principal tenant_id =
     (case bind_outcome_actor request the_principal tenant_id of
        Inl e \<Rightarrow> raise_op e
      | Inr bound \<Rightarrow>
          request_scope (record_demo_action_run_outcome cx history_enabled action_run_id bound tenant_id))"

text \<open>\<^verbatim>\<open>_authorize_tenant_read\<close>: a verified principal reads its own tenant only.\<close>

definition authorize_tenant_read :: "string \<Rightarrow> 'p scope_principal_scheme option \<Rightarrow> string + unit" where
  "authorize_tenant_read tenant_id the_principal =
     (case the_principal of
        Some p \<Rightarrow> if sp_tenant_id p \<noteq> tenant_id then Inl TENANT_MISMATCH_REASON else Inr ()
      | None \<Rightarrow> Inr ())"

definition manufacturing_action_run_list ::
  "string \<Rightarrow> string option \<Rightarrow> string option \<Rightarrow> nat \<Rightarrow> oidc_principal option \<Rightarrow> (db, string, action_run_record list) op"
where
  "manufacturing_action_run_list tenant_id action_id status limit the_principal =
     bind_op (of_result (authorize_tenant_read tenant_id the_principal)) (\<lambda>_.
     list_action_run_records tenant_id action_id status limit)"

text \<open>The status code of each error of the two writing endpoints; \<open>None\<close> is an error that no handler names.\<close>

definition action_run_error_status :: "action_error \<Rightarrow> int option" where
  "action_run_error_status e =
     (case e of
        DemoActionNotFound \<Rightarrow> Some 404
      | ActionReferenceError ActionReferenceRecordNotFound \<Rightarrow> Some 404
      | ActionReferenceError ActionReferenceRecordInvalid \<Rightarrow> Some 422
      | OntologyError OntologyReferenceRecordNotFound \<Rightarrow> Some 404
      | OntologyError OntologyReferenceRecordInvalid \<Rightarrow> Some 422
      | ActionPermissionDenied _ _ \<Rightarrow> Some 403
      | ActionPolicyError (PlatformPolicyEnforcementDenied _ _ _) \<Rightarrow> Some 403
      | ActionRunIdempotencyConflict _ \<Rightarrow> Some 409
      | ActionPayloadValidationError _ \<Rightarrow> Some 422
      | _ \<Rightarrow> None)"

definition action_outcome_error_status :: "action_error \<Rightarrow> int option" where
  "action_outcome_error_status e =
     (case e of
        DemoActionRunNotFound \<Rightarrow> Some 404
      | ActionRunOutcomePermissionDenied _ _ \<Rightarrow> Some 403
      | ActionPolicyError (PlatformPolicyEnforcementDenied _ _ _) \<Rightarrow> Some 403
      | ActionRunOutcomeConflict _ _ \<Rightarrow> Some 409
      | ActionRunOutcomeValidationError _ \<Rightarrow> Some 422
      | _ \<Rightarrow> None)"

end
