(* ===== verification/Action_History.thy ===== *)
theory Action_History
  imports Action_Runs
begin

text \<open>
  What the histories of action runs keep: the effect of the endpoints of \<open>Action_Runs\<close> and of a decision on the table
  of runs, the interleavings of creations, outcomes and decisions as a step relation, its invariants, the life of a run
  as an abstract state machine that the steps refine, and the properties of the two writing endpoints.
\<close>

section \<open>Lemmas: the rows that the writes leave\<close>

abbreviation run_key :: "action_run \<Rightarrow> string \<times> string \<times> string" where
  "run_key r \<equiv> (rn_tenant_id r, rn_action_id r, rn_idempotency_key r)"

definition replace_run :: "action_run \<Rightarrow> action_run \<Rightarrow> action_run list \<Rightarrow> action_run list" where
  "replace_run old new rows = map (\<lambda>x. if x = old then new else x) rows"

definition recorded_run :: "string \<Rightarrow> dict \<Rightarrow> timestamp \<Rightarrow> action_run \<Rightarrow> action_run" where
  "recorded_run st p now r = r\<lparr>rn_status := st, rn_result_payload := Some p, rn_updated_at := now\<rparr>"

lemma recorded_run_sel [row_simps, simp]:
  "rn_id (recorded_run st p now r) = rn_id r" "rn_tenant_id (recorded_run st p now r) = rn_tenant_id r"
  "rn_action_id (recorded_run st p now r) = rn_action_id r"
  "rn_idempotency_key (recorded_run st p now r) = rn_idempotency_key r"
  "rn_status (recorded_run st p now r) = st" "rn_result_payload (recorded_run st p now r) = Some p"
  "rn_execution_mode (recorded_run st p now r) = rn_execution_mode r"
  "rn_requested_by (recorded_run st p now r) = rn_requested_by r"
  "rn_approval_id (recorded_run st p now r) = rn_approval_id r"
  "rn_workflow_id (recorded_run st p now r) = rn_workflow_id r"
  "rn_payload (recorded_run st p now r) = rn_payload r" "rn_created_at (recorded_run st p now r) = rn_created_at r"
  "rn_updated_at (recorded_run st p now r) = now"
  by (simp_all add: recorded_run_def)

lemma record_result_rows:
  assumes "record_action_run_result tid rid st p s = (Inr run, t)" "distinct (map rn_id (action_runs s))"
  obtains old where "old \<in> set (action_runs s)" "rn_tenant_id old = tid" "rn_id old = rid"
    "run = recorded_run st p (clock_at s (clock_n s)) old"
    "t = s\<lparr>clock_n := Suc (clock_n s), action_runs := replace_run old run (action_runs s)\<rparr>"
proof -
  obtain r where r: "r \<in> set (action_runs s)" "rn_tenant_id r = tid" "rn_id r = rid"
    "run = recorded_run st p (clock_at s (clock_n s)) r"
    "t = s\<lparr>clock_n := Suc (clock_n s), action_runs := update_where (\<lambda>x. rn_id x = rn_id r) (\<lambda>_. run) (action_runs s)\<rparr>"
    using assms(1)
    by (auto simp: record_action_run_result_def recorded_run_def Let_def split: option.splits dest!: first_row_filter_SomeD)
  then show thesis
    using that [OF r(1-4)] update_by_id [OF assms(2) r(1), of "\<lambda>_. run"] by (simp add: replace_run_def)
qed

definition inserted_run :: "db \<Rightarrow> action_run \<Rightarrow> action_run" where
  "inserted_run s new = new\<lparr>rn_id := uuid_at s (uuid_n s), rn_result_payload := None,
     rn_created_at := clock_at s (clock_n s), rn_updated_at := clock_at s (Suc (clock_n s))\<rparr>"

definition with_run :: "db \<Rightarrow> action_run \<Rightarrow> db" where
  "with_run s new = s\<lparr>uuid_n := Suc (uuid_n s), clock_n := Suc (Suc (clock_n s)),
     action_runs := action_runs s @ [inserted_run s new]\<rparr>"

lemma inserted_run_sel [row_simps, simp]:
  "rn_id (inserted_run s new) = uuid_at s (uuid_n s)" "rn_tenant_id (inserted_run s new) = rn_tenant_id new"
  "rn_action_id (inserted_run s new) = rn_action_id new"
  "rn_idempotency_key (inserted_run s new) = rn_idempotency_key new"
  "rn_status (inserted_run s new) = rn_status new" "rn_result_payload (inserted_run s new) = None"
  "rn_execution_mode (inserted_run s new) = rn_execution_mode new"
  "rn_requested_by (inserted_run s new) = rn_requested_by new"
  "rn_approval_id (inserted_run s new) = rn_approval_id new"
  "rn_workflow_id (inserted_run s new) = rn_workflow_id new" "rn_payload (inserted_run s new) = rn_payload new"
  by (simp_all add: inserted_run_def)

lemma with_run_sel [row_simps, simp]:
  "action_runs (with_run s new) = action_runs s @ [inserted_run s new]"
  "uuid_at (with_run s new) = uuid_at s" "uuid_n (with_run s new) = Suc (uuid_n s)"
  "audit_events (with_run s new) = audit_events s" "platform_policies (with_run s new) = platform_policies s"
  "clock_at (with_run s new) = clock_at s"
  by (simp_all add: with_run_def)

lemma create_action_run_eq:
  "create_action_run new s =
     (if run_key new \<in> run_key ` set (action_runs s)
      then (Inl (IntegrityError ''uq_action_runs_tenant_action_idempotency''), s)
      else (Inr (inserted_run s new), with_run s new))"
proof -
  have "(\<exists>r \<in> set (action_runs s). rn_tenant_id r = rn_tenant_id new \<and> rn_action_id r = rn_action_id new
      \<and> rn_idempotency_key r = rn_idempotency_key new) \<longleftrightarrow> run_key new \<in> run_key ` set (action_runs s)"
    by (simp add: image_iff) metis
  then show ?thesis
    by (simp add: create_action_run_def bind_op_def inserted_run_def with_run_def Let_def)
qed

lemma replace_run_ids [simp]: "rn_id new = rn_id old \<Longrightarrow> map rn_id (replace_run old new rows) = map rn_id rows"
  by (auto simp: replace_run_def)

lemma replace_run_keys: "run_key new = run_key old \<Longrightarrow> map run_key (replace_run old new rows) = map run_key rows"
  by (auto simp: replace_run_def)

lemma set_replace_run: "old \<in> set rows \<Longrightarrow> set (replace_run old new rows) = insert new (set rows - {old})"
  by (auto simp: replace_run_def image_iff)

lemma replace_last: "x \<notin> set xs \<Longrightarrow> replace_run x y (xs @ [x]) = xs @ [y]"
  by (auto simp: replace_run_def intro: map_idI)

section \<open>Lemmas: how the table of runs changes\<close>

definition OPEN_STATUSES :: "string list" where
  "OPEN_STATUSES = [''approval_required'', ''preview_generated'']"

definition from_decision :: "dict \<Rightarrow> bool" where
  "from_decision p \<longleftrightarrow> dget p ''source'' = JStr ''approval_decision'' \<and> dget p ''outcome_idempotency_key'' = JNull"

definition from_outcome :: "string \<Rightarrow> dict \<Rightarrow> bool" where
  "from_outcome st p \<longleftrightarrow> dget p ''source'' = JStr ''action_run_outcome'' \<and> dget p ''status'' = JStr st"

text \<open>A run with an outcome has an audit event that records it.\<close>

definition outcome_documented :: "audit_event list \<Rightarrow> action_run \<Rightarrow> bool" where
  "outcome_documented evs r \<longleftrightarrow>
     (\<exists>ev \<in> set evs. ae_event_type ev = OUTCOME_RECORDED_EVENT_TYPE \<and> ae_tenant_id ev = rn_tenant_id r
        \<and> dget (ae_payload ev) ''action_run_id'' = JStr (uuid_text (rn_id r))
        \<and> dget (ae_payload ev) ''status'' = JStr (rn_status r))"

lemma outcome_documented_mono: "outcome_documented evs r \<Longrightarrow> outcome_documented (evs @ new) r"
  by (auto simp: outcome_documented_def)

text \<open>One transaction inserts at most one row, or replaces at most one by the result of a decision or of an outcome that
  the ledger after it documents.\<close>

inductive run_change :: "audit_event list \<Rightarrow> action_run list \<Rightarrow> action_run list \<Rightarrow> bool" for evs where
  same: "run_change evs rows rows"
| created: "rn_status r \<in> set OPEN_STATUSES \<Longrightarrow> rn_result_payload r = None \<Longrightarrow>
     rn_id r \<notin> rn_id ` set rows \<Longrightarrow> run_key r \<notin> run_key ` set rows \<Longrightarrow> run_change evs rows (rows @ [r])"
| gated: "rn_status r = approval_action_status d \<Longrightarrow> rn_result_payload r = Some p \<Longrightarrow> from_decision p \<Longrightarrow>
     rn_id r \<notin> rn_id ` set rows \<Longrightarrow> run_key r \<notin> run_key ` set rows \<Longrightarrow> run_change evs rows (rows @ [r])"
| decided: "old \<in> set rows \<Longrightarrow> from_decision p \<Longrightarrow>
     run_change evs rows (replace_run old (recorded_run (approval_action_status d) p now old) rows)"
| finished: "old \<in> set rows \<Longrightarrow> rn_status old \<noteq> ''approval_required'' \<Longrightarrow>
     rn_status old \<notin> set ACTION_RUN_OUTCOME_STATUSES \<Longrightarrow> st \<in> set ACTION_RUN_OUTCOME_STATUSES \<Longrightarrow> from_outcome st p \<Longrightarrow>
     outcome_documented evs (recorded_run st p now old) \<Longrightarrow>
     run_change evs rows (replace_run old (recorded_run st p now old) rows)"

lemma run_change_mono: "run_change evs rows rows' \<Longrightarrow> run_change (evs @ new) rows rows'"
  by (induction rule: run_change.induct) (auto intro: run_change.intros outcome_documented_mono)

definition drawn_ok :: "db \<Rightarrow> bool" where
  "drawn_ok s \<longleftrightarrow> inj (uuid_at s) \<and> ids_drawn s (map rn_id (action_runs s))"

lemma drawn_okD: "drawn_ok s \<Longrightarrow> distinct (map rn_id (action_runs s))" "drawn_ok s \<Longrightarrow> inj (uuid_at s)"
  by (simp_all add: drawn_ok_def ids_drawn_def)

lemma fresh_id: "drawn_ok s \<Longrightarrow> uuid_at s (uuid_n s) \<notin> rn_id ` set (action_runs s)"
  by (fastforce simp: drawn_ok_def ids_drawn_def inj_eq subset_iff)

lemma drawn_ok_mono:
  "drawn_ok s \<Longrightarrow> uuid_at t = uuid_at s \<Longrightarrow> uuid_n s \<le> uuid_n t \<Longrightarrow> map rn_id (action_runs t) = map rn_id (action_runs s) \<Longrightarrow>
   drawn_ok t"
  using ids_drawn_mono [of s "map rn_id (action_runs s)" t] by (simp add: drawn_ok_def)

lemma drawn_ok_with_run: "drawn_ok s \<Longrightarrow> drawn_ok (with_run s new)"
  using ids_drawn_snoc [of s "map rn_id (action_runs s)" "with_run s new"] by (simp add: drawn_ok_def)

text \<open>Steps that leave the runs alone, draw upwards and only append to the ledger.\<close>

definition calm :: "action_run list \<Rightarrow> (nat \<Rightarrow> uuid) \<Rightarrow> nat \<Rightarrow> audit_event list \<Rightarrow> db \<Rightarrow> bool" where
  "calm rows ids n evs s \<longleftrightarrow> action_runs s = rows \<and> uuid_at s = ids \<and> n \<le> uuid_n s \<and> (\<exists>new. audit_events s = evs @ new)"

lemma calm_basic [op_keeps]:
  "keeps (calm rows ids n evs) utc_now" "keeps (calm rows ids n evs) uuid4"
  "keeps (calm rows ids n evs) (append_audit_event ev)"
  by (auto simp: keeps_def calm_def)

lemma calm_put:
  "(\<And>s. action_runs (f s) = action_runs s \<and> uuid_at (f s) = uuid_at s \<and> uuid_n (f s) = uuid_n s
      \<and> audit_events (f s) = audit_events s) \<Longrightarrow> keeps (calm rows ids n evs) (put_op f)"
  by (simp add: keeps_def calm_def)

lemma calm_writes [op_keeps]:
  "keeps (calm rows ids n evs) (create_approval_record rec)"
  "keeps (calm rows ids n evs) (record_approval_decision tid a d actor note)"
  "keeps (calm rows ids n evs) (create_workflow_run wr)"
  "keeps (calm rows ids n evs) (append_workflow_timeline_event te)"
  "keeps (calm rows ids n evs) (create_approval_decision_outbox c)"
  "keeps (calm rows ids n evs) (store_decision_result rec res)"
  unfolding create_approval_record_def record_approval_decision_def
    create_workflow_run_def append_workflow_timeline_event_def create_approval_decision_outbox_def store_decision_result_def
    Let_def
  by (intro op_keeps calm_put; simp)+

lemma calm_steps [op_keeps]:
  "keeps (calm rows ids n evs) (record_workflow_approval_decision tid wid a d actor)"
  "keeps (calm rows ids n evs) (ensure_workflow_run decode tid wid)"
  "keeps (calm rows ids n evs) (ensure_approval_record tid ap aid)"
  "keeps (calm rows ids n evs) (signal_decision cx rt tid ap req)"
  "keeps (calm rows ids n evs) (advance_workflow_run tid wid f sg e a r m)"
  unfolding record_workflow_approval_decision_def ensure_workflow_run_def advance_workflow_run_def
    ensure_approval_record_def signal_decision_def queue_decision_def signal_approval_workflow_def Let_def
  by (intro op_keeps calm_put; simp)+

lemma calm_workflow [op_keeps]:
  "keeps (calm rows ids n evs) (record_workflow_action_run plan rid wid st)"
  "keeps (calm rows ids n evs) (record_workflow_action_run_outcome tid req run wid)"
  unfolding record_workflow_action_run_def record_workflow_action_run_outcome_def by (intro op_keeps)+

lemma calm_enforce [op_keeps]: "keeps (calm rows ids n evs) (enforce_platform_policy_deny tid a sc c pt pl dg)"
  by (rule keepsI) (auto simp: enforce_platform_policy_deny_eq calm_def Let_def split: sum.splits)

lemma keeps_list [op_keeps]:
  "keeps I m \<Longrightarrow> (\<And>x xs. keeps I (f x xs)) \<Longrightarrow> keeps I (case z of [] \<Rightarrow> m | x # xs \<Rightarrow> f x xs)"
  by (cases z) simp_all

lemma calm_follow [op_keeps]: "keeps (calm rows ids n evs) (follow_creation cx rt plan run)"
  unfolding follow_creation_def by (intro op_keeps)

lemma calm_refl: "calm (action_runs s) (uuid_at s) (uuid_n s) (audit_events s) s"
  by (simp add: calm_def)

lemma calm_step: "keeps (calm (action_runs s) (uuid_at s) (uuid_n s) (audit_events s)) m \<Longrightarrow> m s = (r, t) \<Longrightarrow>
   calm (action_runs s) (uuid_at s) (uuid_n s) (audit_events s) t"
  using keepsD calm_refl by metis

lemma from_decision_payload [simp]: "from_decision (approval_action_result_payload ap aid req sg wr)"
  by (simp add: from_decision_def approval_action_result_payload_def dget_def)

lemma from_outcome_payload [simp]: "from_outcome (oq_status req) (outcome_payload req)"
  by (simp add: from_outcome_def outcome_payload_def dget_def)

lemma transition_change:
  assumes "record_approval_action_transition tid ap aid req sg wr s = (Inr tx, t)" "drawn_ok s"
  shows "run_change evs (action_runs s) (action_runs t) \<and> drawn_ok t \<and> uuid_at t = uuid_at s \<and> uuid_n s \<le> uuid_n t
    \<and> audit_events t = audit_events s"
proof -
  let ?st = "approval_action_status (dq_decision req)" and ?p = "approval_action_result_payload ap aid req sg wr"
  let ?first = "first_row (list_action_runs_for_approval tid aid (ai_approval_id ap) s)"
  show ?thesis
  proof (cases ?first)
    case None
    let ?new = "new_gate_run tid ap aid ?st"
    let ?r0 = "inserted_run s ?new"
    obtain run where new: "run_key ?new \<notin> run_key ` set (action_runs s)"
      and rec: "record_action_run_result tid (rn_id ?r0) ?st ?p (with_run s ?new) = (Inr run, t)"
      using assms(1) None
      by (auto simp: record_approval_action_transition_def Let_def bind_op_Inr_iff create_action_run_eq split: if_splits)
    have ok: "drawn_ok (with_run s ?new)" using assms(2) by (rule drawn_ok_with_run)
    obtain old where old: "old \<in> set (action_runs s @ [?r0])" "rn_id old = rn_id ?r0"
      and run: "run = recorded_run ?st ?p (clock_at (with_run s ?new) (clock_n (with_run s ?new))) old"
      and t: "t = (with_run s ?new)\<lparr>clock_n := Suc (clock_n (with_run s ?new)),
        action_runs := replace_run old run (action_runs (with_run s ?new))\<rparr>"
      using record_result_rows [OF rec drawn_okD(1) [OF ok]] by auto
    have fresh: "rn_id ?r0 \<notin> rn_id ` set (action_runs s)" using fresh_id [OF assms(2)] by simp
    then have "?r0 \<notin> set (action_runs s)" "old \<notin> set (action_runs s)" using old(2) by (metis imageI)+
    then have "old = ?r0" using old(1) by simp
    then have rows: "action_runs t = action_runs s @ [run]" using t \<open>?r0 \<notin> set (action_runs s)\<close> by (simp add: replace_last)
    have key: "run_key run \<notin> run_key ` set (action_runs s)" using new \<open>old = ?r0\<close> run by (simp add: new_gate_run_def)
    have "run_change evs (action_runs s) (action_runs t)"
      unfolding rows using run_change.gated [of run "dq_decision req" ?p "action_runs s" evs] fresh key run \<open>old = ?r0\<close>
      by simp
    moreover have "drawn_ok t" using drawn_ok_mono [OF ok, of t] t run by simp
    ultimately show ?thesis using t by simp
  next
    case (Some old)
    then consider "t = s" | run where "record_action_run_result tid (rn_id old) ?st ?p s = (Inr run, t)"
      using assms(1)
      by (auto simp: record_approval_action_transition_def Let_def bind_op_Inr_iff split: option.splits if_splits)
    then show ?thesis
    proof cases
      case 1
      then show ?thesis using assms(2) by (simp add: run_change.same)
    next
      case 2
      obtain r where r: "r \<in> set (action_runs s)" "run = recorded_run ?st ?p (clock_at s (clock_n s)) r"
        and t: "t = s\<lparr>clock_n := Suc (clock_n s), action_runs := replace_run r run (action_runs s)\<rparr>"
        using record_result_rows [OF 2 drawn_okD(1) [OF assms(2)]] by metis
      have "drawn_ok t" using drawn_ok_mono [OF assms(2), of t] t r by simp
      then show ?thesis using run_change.decided [OF r(1), of ?p _ "dq_decision req"] t r(2) by simp
    qed
  qed
qed

text \<open>What a transaction leaves: its change of the runs, drawn identifiers, and a ledger that was only appended to.\<close>

definition run_step :: "db \<Rightarrow> db \<Rightarrow> bool" where
  "run_step s t \<longleftrightarrow> run_change (audit_events t) (action_runs s) (action_runs t) \<and> drawn_ok t \<and> uuid_at t = uuid_at s
     \<and> uuid_n s \<le> uuid_n t \<and> (\<exists>new. audit_events t = audit_events s @ new)"

lemma run_step_calm:
  assumes "calm (action_runs s) (uuid_at s) (uuid_n s) (audit_events s) t" "drawn_ok s"
  shows "run_step s t"
  using assms drawn_ok_mono [of s t] by (auto simp: run_step_def calm_def run_change.same)

lemma run_step_same: "drawn_ok s \<Longrightarrow> run_step s s"
  using run_step_calm calm_refl by blast

lemma run_step_rollback: "drawn_ok s \<Longrightarrow> uuid_at t = uuid_at s \<Longrightarrow> uuid_n s \<le> uuid_n t \<Longrightarrow> run_step s (rollback s t)"
  by (rule run_step_calm) (simp_all add: calm_def rollback_def)

lemma run_step_then_calm:
  assumes "run_step s t" "calm (action_runs t) (uuid_at t) (uuid_n t) (audit_events t) u"
  shows "run_step s u"
proof -
  obtain new where u: "audit_events u = audit_events t @ new" "action_runs u = action_runs t" "uuid_at u = uuid_at t"
    "uuid_n t \<le> uuid_n u"
    using assms(2) by (auto simp: calm_def)
  then show ?thesis
    using assms(1) drawn_ok_mono [of t u] run_change_mono [of "audit_events t" _ _ new] by (auto simp: run_step_def)
qed

lemma calm_then_run_step:
  assumes "calm (action_runs s) (uuid_at s) (uuid_n s) (audit_events s) t" "run_step t u"
  shows "run_step s u"
  using assms by (auto simp: run_step_def calm_def)

lemma apply_decision_step:
  assumes "apply_decision cx rt tid ap aid req perm pol s = (Inr res, t)" "drawn_ok s"
  shows "run_step s t"
proof -
  obtain tx w1 w2 sg wr where u: "calm (action_runs s) (uuid_at s) (uuid_n s) (audit_events s) w1"
    and tr: "record_approval_action_transition tid ap aid req sg wr w1 = (Inr tx, w2)"
    and v: "calm (action_runs w2) (uuid_at w2) (uuid_n w2) (audit_events w2) t"
  proof -
    obtain x1 s1 rec s2 sgd s3 x3 s4 wr s5 tx s6 where
      run: "ensure_approval_record tid ap aid s = (Inr x1, s1)"
        "record_approval_decision tid (ai_approval_id ap) (dq_decision req) (dq_actor_id req) (dq_note req) s1 = (Inr rec, s2)"
        "signal_decision cx rt tid ap req s2 = (Inr sgd, s3)"
        "(if dn_history_enabled rt then ensure_workflow_run (dc_console_run cx) tid (ai_workflow_id ap)
          else return_op None) s3 = (Inr x3, s4)"
        "record_workflow_approval_decision tid (ai_workflow_id ap) (ai_approval_id ap) (dq_decision req) (dq_actor_id req) s4
          = ((Inr wr :: approval_error + workflow_run option), s5)"
        "record_approval_action_transition tid ap aid req (snd sgd) wr s5 = (Inr tx, s6)"
      and rest: "\<exists>ev res'. store_decision_result rec res' (with_audit_event s6 ev) = (Inr (), t)"
      using assms(1) by (auto simp: apply_decision_def bind_op_Inr_iff Let_def) blast
    let ?I = "calm (action_runs s) (uuid_at s) (uuid_n s) (audit_events s)"
    have k3: "keeps ?I (if dn_history_enabled rt then ensure_workflow_run (dc_console_run cx) tid (ai_workflow_id ap)
          else return_op None)" by (intro op_keeps)
    have "?I s1" by (rule keepsD [OF calm_steps(3) calm_refl run(1)])
    then have "?I s2" by (rule keepsD [OF calm_writes(2) _ run(2)])
    then have "?I s3" by (rule keepsD [OF calm_steps(4) _ run(3)])
    then have "?I s4" by (rule keepsD [OF k3 _ run(4)])
    then have "?I s5" by (rule keepsD [OF calm_steps(1) _ run(5)])
    moreover obtain ev res' where st: "store_decision_result rec res' (with_audit_event s6 ev) = (Inr (), t)"
      using rest by blast
    let ?J = "calm (action_runs s6) (uuid_at s6) (uuid_n s6) (audit_events s6)"
    have "?J (with_audit_event s6 ev)" by (simp add: calm_def)
    then have "?J t" by (rule keepsD [OF calm_writes(6) _ st])
    ultimately show ?thesis using that run(6) by blast
  qed
  have ok: "drawn_ok w1" using u assms(2) drawn_ok_mono [of s w1] by (simp add: calm_def)
  have "run_step w1 w2" using transition_change [OF tr ok] by (simp add: run_step_def)
  then show ?thesis using run_step_then_calm [OF _ v] calm_then_run_step [OF u] by blast
qed

lemma decision_step:
  assumes "manufacturing_approval_decision cx rt a req p tid s = (r, t)" "drawn_ok s"
  shows "run_step s t"
proof (cases "bind_tenant_actor req p tid")
  case (Inl e)
  with assms show ?thesis by (simp add: manufacturing_approval_decision_def run_step_same)
next
  case (Inr bound)
  obtain r' t' where run: "record_demo_approval_decision cx rt a bound tid s = (r', t')" by fastforce
  note draws = handler_draws [OF run]
  have step: "run_step s t'" if "(\<exists>res. r' = Inr res) \<or> (\<exists>e. r' = Inl e \<and> commits_on e)"
  proof (cases rule: handler_cases [of cx rt a bound tid s])
    case (refused e)
    with run assms(2) show ?thesis by (simp add: run_step_same)
  next
    case (replayed ap aid perm rr)
    with run assms(2) show ?thesis by (simp add: run_step_same)
  next
    case (fresh ap aid perm)
    then have both: "bind_op (enforce_approval_platform_policies cx tid ap aid bound)
        (\<lambda>pol. apply_decision cx rt tid ap aid bound perm pol) s = (r', t')" using run by simp
    show ?thesis
    proof (cases r')
      case (Inl e)
      then have "enforce_approval_platform_policies cx tid ap aid bound s = (Inl e, t')"
        using both that by (auto simp: bind_op_Inl_iff dest: apply_not_commits)
      from enforce_approval_policies_Inl [OF this] show ?thesis
        using assms(2) by (auto intro!: run_step_calm simp: calm_def)
    next
      case (Inr res)
      then show ?thesis using both apply_decision_step assms(2)
        by (auto simp: bind_op_Inr_iff dest!: enforce_approval_policies_Inr)
    qed
  qed
  then show ?thesis
    using assms(1) Inr run run_step_rollback [OF assms(2) draws]
    by (cases r') (auto simp: manufacturing_approval_decision_def split: if_splits)
qed

lemma enforce_creation_eq:
  "enforce_creation_policies cx tid action req key s =
     (case platform_policy_context cx action req of
        Inl e \<Rightarrow> (Inl e, s)
      | Inr c \<Rightarrow>
          (case enforced_decision tid ACTION_EXECUTION c False s of
             Inl e \<Rightarrow> (Inl (ActionPolicyError e), s)
           | Inr d \<Rightarrow>
               if pd_effect d \<noteq> effect_value DENY then (Inr d, s)
               else (Inl (ActionPolicyError (PlatformPolicyEnforcementDenied d (uuid_at s (uuid_n s)) ENFORCEMENT_DENIED_AUDIT_EVENT_TYPE)),
                 with_audit_event s (enforcement_denied_event tid (aq_actor_id req) ''action_run_creation''
                   [(''action_id'', JStr (ax_action_id action)), (''idempotency_key'', JStr key)] d))))"
  by (simp add: enforce_creation_policies_def bind_op_def lift_error_def enforce_platform_policy_deny_eq Let_def
      split: sum.splits)

text \<open>The first part of a creation writes nothing, unless a policy denies it: then it audits the denial.\<close>

lemma prepare_cases:
  assumes "prepare_action_run cx a req tid s = (r, t)"
  shows "t = s \<or> (\<exists>e ev. r = Inl e \<and> commits_action_error e \<and> t = with_audit_event s ev)"
  using assms
  by (auto simp: prepare_action_run_def bind_op_def enforce_creation_eq commits_action_error_def
      split: sum.splits option.splits prod.splits if_splits)

lemma rollback_self [simp]: "rollback s s = s"
  by (simp add: rollback_def)

lemma prepare_step:
  assumes "request_scope (prepare_action_run cx a req tid) s = (r, t)" "drawn_ok s"
  shows "run_step s t" "r = Inr x \<Longrightarrow> t = s"
proof -
  obtain r' t' where run: "prepare_action_run cx a req tid s = (r', t')" by fastforce
  from prepare_cases [OF run] have "t' = s \<and> t = s \<or> (\<exists>e ev. r' = Inl e \<and> r = Inl (Refused e) \<and> t = with_audit_event s ev)"
    using assms(1) run by (auto simp: request_scope_def split: sum.splits if_splits)
  then show "run_step s t" using assms(2) by (auto intro!: run_step_calm simp: calm_def)
  show "r = Inr x \<Longrightarrow> t = s"
    using \<open>t' = s \<and> t = s \<or> (\<exists>e ev. r' = Inl e \<and> r = Inl (Refused e) \<and> t = with_audit_event s ev)\<close> by auto
qed

text \<open>Nothing after the insert raises an error that is committed.\<close>

abbreviation action_rolls_back :: "action_error \<Rightarrow> bool" where
  "action_rolls_back e \<equiv> \<not> commits_action_error e"

lemma action_rolls_back_simps [simp]:
  "\<not> commits_action_error ActionModelInvalid" "\<not> commits_action_error (ActionStoreError e)"
  by (simp_all add: commits_action_error_def)

lemma raises_advance [op_raises]: "raises_only Q (advance_workflow_run tid wid f sg e a r m)"
  unfolding advance_workflow_run_def append_workflow_timeline_event_def Let_def by (intro op_raises)

lemma raises_workflow_run [op_raises]:
  "raises_only action_rolls_back (record_workflow_action_run plan rid wid st)"
  "raises_only action_rolls_back (record_workflow_action_run_outcome tid req run wid)"
  unfolding record_workflow_action_run_def record_workflow_action_run_outcome_def
  by (intro op_raises raises_raise action_rolls_back_simps)+

lemma raises_ensure [op_raises]: "raises_only action_rolls_back (lift_error ActionStoreError m)"
  by (rule raises_lift) simp

lemma raises_signal [op_raises]: "raises_only action_rolls_back (of_result (signal_action_workflow rt plan rid))"
  by (auto simp: raises_only_def signal_action_workflow_def Let_def split: list.splits if_splits option.splits sum.splits)

lemma raises_list [op_raises]:
  "raises_only Q m \<Longrightarrow> (\<And>x xs. raises_only Q (f x xs)) \<Longrightarrow> raises_only Q (case z of [] \<Rightarrow> m | x # xs \<Rightarrow> f x xs)"
  by (cases z) simp_all

lemma raises_follow: "raises_only action_rolls_back (follow_creation cx rt plan run)"
  unfolding follow_creation_def by (intro op_raises)

lemma commit_scope_eq:
  "request_scope (commit_action_run cx rt plan) s =
     (case get_action_run_by_idempotency_key (pl_tenant_id plan) (ax_action_id (pl_action plan)) (pl_key plan) s of
        Some winner \<Rightarrow>
          (case idempotent_replay (pl_tenant_id plan) (pl_action plan) (pl_key plan) (pl_permission plan)
                  (pl_payload plan) winner of
             Inl e \<Rightarrow> (Inl (Refused e), s)
           | Inr result \<Rightarrow> (Inr result, s))
      | None \<Rightarrow>
          (case follow_creation cx rt plan (inserted_run s (new_action_run plan)) (with_run s (new_action_run plan)) of
             (Inl e, t) \<Rightarrow> (Inl (Refused e), rollback s t)
           | (Inr result, t) \<Rightarrow> (Inr result, t)))"
proof -
  let ?new = "new_action_run plan"
  let ?found = "get_action_run_by_idempotency_key (pl_tenant_id plan) (ax_action_id (pl_action plan)) (pl_key plan) s"
  have taken: "?found = None \<longleftrightarrow> run_key ?new \<notin> run_key ` set (action_runs s)"
    by (simp add: get_action_run_by_idempotency_key_def new_action_run_def image_iff) metis
  show ?thesis
  proof (cases ?found)
    case None
    then have create: "create_action_run ?new s = (Inr (inserted_run s ?new), with_run s ?new)"
      using taken by (simp add: create_action_run_eq)
    obtain r t where f: "follow_creation cx rt plan (inserted_run s ?new) (with_run s ?new) = (r, t)" by fastforce
    show ?thesis
      using None create f raises_follow [of cx rt plan, unfolded raises_only_def]
      by (cases r) (auto simp: request_scope_def commit_action_run_def)
  next
    case (Some winner)
    then have create: "create_action_run ?new s = (Inl (IntegrityError ''uq_action_runs_tenant_action_idempotency''), s)"
      using taken by (simp add: create_action_run_eq)
    show ?thesis
      using Some create
      by (auto simp: request_scope_def commit_action_run_def Let_def idempotent_replay_def commits_action_error_def)
  qed
qed

lemma new_action_run_sel [row_simps, simp]:
  "rn_tenant_id (new_action_run plan) = pl_tenant_id plan"
  "rn_action_id (new_action_run plan) = ax_action_id (pl_action plan)"
  "rn_idempotency_key (new_action_run plan) = pl_key plan"
  "rn_status (new_action_run plan) = action_status (pl_approval_required plan)"
  "rn_requested_by (new_action_run plan) = aq_actor_id (pl_request plan)"
  "rn_payload (new_action_run plan) = pl_payload plan"
  "rn_execution_mode (new_action_run plan) = ax_execution_mode (pl_action plan)"
  "rn_approval_id (new_action_run plan) = first_row (ax_approval_refs (pl_action plan))"
  "rn_workflow_id (new_action_run plan) = first_row (ax_workflow_bindings (pl_action plan))"
  by (simp_all add: new_action_run_def)

lemma run_key_free:
  "get_action_run_by_idempotency_key (pl_tenant_id plan) (ax_action_id (pl_action plan)) (pl_key plan) s = None \<longleftrightarrow>
     run_key (new_action_run plan) \<notin> run_key ` set (action_runs s)"
  by (simp add: get_action_run_by_idempotency_key_def image_iff) metis

lemma with_run_step:
  assumes "drawn_ok s" "run_key (new_action_run plan) \<notin> run_key ` set (action_runs s)"
  shows "run_step s (with_run s (new_action_run plan))"
proof -
  have "action_status b \<in> set OPEN_STATUSES" for b by (simp add: action_status_def OPEN_STATUSES_def)
  then have "run_change (audit_events s) (action_runs s) (action_runs s @ [inserted_run s (new_action_run plan)])"
    using assms(2) fresh_id [OF assms(1)] by (intro run_change.created) simp_all
  then show ?thesis using drawn_ok_with_run [OF assms(1)] by (simp add: run_step_def)
qed

lemma follow_draws:
  assumes "follow_creation cx rt plan run s = (r, t)"
  shows "calm (action_runs s) (uuid_at s) (uuid_n s) (audit_events s) t"
  using calm_step [OF calm_follow assms] .

lemma commit_step:
  assumes "request_scope (commit_action_run cx rt plan) s = (r, t)" "drawn_ok s"
  shows "run_step s t"
proof (cases "get_action_run_by_idempotency_key (pl_tenant_id plan) (ax_action_id (pl_action plan)) (pl_key plan) s")
  case (Some winner)
  then have "t = s" using assms(1) by (auto simp: commit_scope_eq split: sum.splits)
  then show ?thesis using assms(2) by (simp add: run_step_same)
next
  case None
  let ?new = "new_action_run plan"
  obtain r' t' where f: "follow_creation cx rt plan (inserted_run s ?new) (with_run s ?new) = (r', t')" by fastforce
  have step: "run_step s t'"
    using with_run_step [OF assms(2)] None run_key_free follow_draws [OF f] run_step_then_calm by blast
  then have "uuid_at t' = uuid_at s" "uuid_n s \<le> uuid_n t'" by (simp_all add: run_step_def)
  then show ?thesis
    using assms None f step run_step_rollback [OF assms(2), of t'] by (cases r') (auto simp: commit_scope_eq)
qed

text \<open>Recording an outcome, after its checks.\<close>

lemma apply_outcome_cases:
  assumes "apply_outcome cx he tid req perm dg old s = (r, t)" "drawn_ok s"
    and "old \<in> set (action_runs s)" "rn_tenant_id old = tid"
  obtains run w where "run = recorded_run (oq_status req) (outcome_payload req) (clock_at s (clock_n s)) old"
    "w = s\<lparr>clock_n := Suc (clock_n s), action_runs := replace_run old run (action_runs s)\<rparr>"
    "calm (action_runs w) (uuid_at w) (uuid_n w) (audit_events w @ [new_audit_event w (outcome_recorded_event tid req perm dg run)]) t"
    "\<And>e. r = Inl e \<Longrightarrow> \<not> commits_action_error e"
    "\<And>res. r = Inr res \<Longrightarrow> \<exists>ev wr. res = outcome_result tid req perm run (Some ev) wr"
proof -
  have "first_row (select_where (\<lambda>r. rn_tenant_id r = tid \<and> rn_id r = rn_id old) (action_runs s)) \<noteq> None"
    using assms(3,4) by auto
  then obtain r0 where "first_row (select_where (\<lambda>r. rn_tenant_id r = tid \<and> rn_id r = rn_id old) (action_runs s)) = Some r0"
    by blast
  then obtain run0 w0 where rec: "record_action_run_result tid (rn_id old) (oq_status req) (outcome_payload req) s = (Inr run0, w0)"
    by (simp add: record_action_run_result_def Let_def)
  obtain old' where old': "old' \<in> set (action_runs s)" "rn_id old' = rn_id old"
    and run0: "run0 = recorded_run (oq_status req) (outcome_payload req) (clock_at s (clock_n s)) old'"
    and w0: "w0 = s\<lparr>clock_n := Suc (clock_n s), action_runs := replace_run old' run0 (action_runs s)\<rparr>"
    using record_result_rows [OF rec drawn_okD(1) [OF assms(2)]] by metis
  have same: "old' = old" using distinct_key_unique [OF drawn_okD(1) [OF assms(2)] old'(1) assms(3) old'(2)] .
  let ?w = "with_audit_event w0 (outcome_recorded_event tid req perm dg run0)"
  let ?rest = "bind_op
       (case rn_workflow_id run0 of
          None \<Rightarrow> return_op None
        | Some workflow_id \<Rightarrow>
            bind_op (if he then lift_error ActionStoreError (ensure_workflow_run (dc_console_run cx) tid workflow_id)
                else return_op None) (\<lambda>_.
            record_workflow_action_run_outcome tid req run0 workflow_id)) (\<lambda>workflow_run.
     return_op (outcome_result tid req perm run0 (Some (new_audit_event w0 (outcome_recorded_event tid req perm dg run0))) workflow_run))"
  have rest: "?rest ?w = (r, t)"
    using assms(1) rec by (simp add: apply_outcome_def bind_op_def lift_error_def)
  have "keeps (calm rows ids n evs) ?rest" for rows ids n evs by (intro op_keeps)
  then have "calm (action_runs ?w) (uuid_at ?w) (uuid_n ?w) (audit_events ?w) t" using rest by (rule calm_step)
  then have c: "calm (action_runs w0) (uuid_at w0) (uuid_n w0)
      (audit_events w0 @ [new_audit_event w0 (outcome_recorded_event tid req perm dg run0)]) t"
    by (simp add: calm_def)
  have "raises_only action_rolls_back ?rest" by (intro op_raises)
  then have "\<And>e. r = Inl e \<Longrightarrow> \<not> commits_action_error e" using rest unfolding raises_only_def by blast
  moreover have "\<exists>ev wr. res = outcome_result tid req perm run0 (Some ev) wr" if "r = Inr res" for res
    using rest that by (auto simp: bind_op_Inr_iff)
  ultimately show thesis using that [OF run0 [unfolded same] w0 [unfolded same] c] by blast
qed

definition outcome_open :: "action_run \<Rightarrow> bool" where
  "outcome_open run \<longleftrightarrow> rn_status run \<noteq> ''approval_required'' \<and> rn_status run \<notin> set ACTION_RUN_OUTCOME_STATUSES"

lemma enforce_outcome_cases:
  assumes "enforce_outcome_platform_policies cx tid run req s = (r, t)"
  shows "t = s \<or> (\<exists>e ev. r = Inl e \<and> commits_action_error e \<and> t = with_audit_event s ev)" "r = Inr x \<Longrightarrow> t = s"
proof -
  have "t = s \<or> (\<exists>e ev. r = Inl e \<and> commits_action_error e \<and> t = with_audit_event s ev)"
    using assms
    by (auto simp: enforce_outcome_platform_policies_def bind_op_def lift_error_def enforce_platform_policy_deny_eq Let_def
        commits_action_error_def split: if_splits sum.splits prod.splits)
  then show "t = s \<or> (\<exists>e ev. r = Inl e \<and> commits_action_error e \<and> t = with_audit_event s ev)" "r = Inr x \<Longrightarrow> t = s"
    by auto
qed

text \<open>What the outcome handler comes to.\<close>

lemma outcome_cases:
  assumes "record_demo_action_run_outcome cx he rid req tid s = (r, t)"
  obtains (refused) e where "r = Inl e" "t = s"
  | (denied) e ev where "r = Inl e" "commits_action_error e" "t = with_audit_event s ev"
  | (replayed) run perm where "get_action_run tid rid s = Some run"
      "r = Inr (outcome_result tid req perm run None None)" "t = s"
      "outcome_permission_decision tid req = Inr perm"
      "json_eq (JObj (the (rn_result_payload run))) (JObj (outcome_payload req))"
  | (fresh) run perm dg where "get_action_run tid rid s = Some run" "outcome_permission_decision tid req = Inr perm"
      "outcome_issues (rn_status run) req = []" "earlier_outcome tid req perm run = None"
      "enforce_outcome_platform_policies cx tid run req s = (Inr dg, s)"
      "apply_outcome cx he tid req perm dg run s = (r, t)"
proof (cases "get_action_run tid rid s")
  case None
  then show ?thesis using assms that(1) [of DemoActionRunNotFound] by (auto simp: record_demo_action_run_outcome_def)
next
  case found: (Some run)
  show ?thesis
  proof (cases "outcome_permission_decision tid req")
    case (Inl e)
    then show ?thesis using assms found that(1) [of e] by (auto simp: record_demo_action_run_outcome_def bind_op_def)
  next
    case perm: (Inr perm)
    show ?thesis
    proof (cases "outcome_issues (rn_status run) req")
      case (Cons i more_issues)
      then show ?thesis
        using assms found perm that(1) [of "ActionRunOutcomeValidationError (i # more_issues)"]
        by (auto simp: record_demo_action_run_outcome_def bind_op_def validate_outcome_request_def)
    next
      case Nil
      then have valid: "validate_outcome_request (rn_status run) req = Inr ()" by (simp add: validate_outcome_request_def)
      show ?thesis
      proof (cases "earlier_outcome tid req perm run")
        case (Some answer)
        then have rt: "r = answer" "t = s"
          using assms found perm valid by (simp_all add: record_demo_action_run_outcome_def bind_op_def)
        show ?thesis
        proof (cases answer)
          case (Inl e)
          then show ?thesis using rt that(1) by blast
        next
          case (Inr res)
          then have "res = outcome_result tid req perm run None None"
            "json_eq (JObj (the (rn_result_payload run))) (JObj (outcome_payload req))"
            using Some by (auto simp: earlier_outcome_def Let_def dget_def split: if_splits option.splits)
          then show ?thesis using that(3) [OF found] rt Inr perm by blast
        qed
      next
        case None
        obtain r1 t1 where enf: "enforce_outcome_platform_policies cx tid run req s = (r1, t1)" by fastforce
        have run_eq: "(case r1 of Inl e \<Rightarrow> (Inl e, t1) | Inr dg \<Rightarrow> apply_outcome cx he tid req perm dg run t1) = (r, t)"
          using assms found perm valid None enf by (simp add: record_demo_action_run_outcome_def bind_op_def)
        show ?thesis
        proof (cases r1)
          case (Inl e)
          then have "r = Inl e" "t = t1" using run_eq by simp_all
          then show ?thesis using enforce_outcome_cases(1) [OF enf] Inl that(1,2) by blast
        next
          case (Inr dg)
          then have "t1 = s" using enforce_outcome_cases(2) [OF enf] by blast
          then show ?thesis using that(4) [OF found perm Nil None] enf Inr run_eq by simp
        qed
      qed
    qed
  qed
qed

lemma get_action_run_SomeD:
  "get_action_run tid rid s = Some run \<Longrightarrow> run \<in> set (action_runs s) \<and> rn_tenant_id run = tid \<and> rn_id run = rid"
  by (auto simp: get_action_run_def dest!: first_row_filter_SomeD)

lemma outcome_issues_Nil:
  "outcome_issues st req = [] \<longleftrightarrow> oq_status req \<in> set ACTION_RUN_OUTCOME_STATUSES
     \<and> \<not> oq_external_mutation_started req \<and> st \<noteq> ''approval_required''"
  by (simp add: outcome_issues_def)

lemma earlier_outcome_None:
  "earlier_outcome tid req perm run = None \<Longrightarrow>
     rn_status run \<notin> set ACTION_RUN_OUTCOME_STATUSES
     \<and> dget (case rn_result_payload run of None \<Rightarrow> [] | Some p \<Rightarrow> p) ''outcome_idempotency_key'' = JNull"
  by (auto simp: earlier_outcome_def Let_def split: if_splits)

lemma outcome_step:
  assumes "manufacturing_action_run_outcome cx he rid req p tid s = (r, t)" "drawn_ok s"
  shows "run_step s t"
proof (cases "bind_outcome_actor req p tid")
    case (Inl e)
    with assms show ?thesis
      by (simp add: manufacturing_action_run_outcome_def run_step_same)
  next
    case (Inr bound)
    obtain r' t' where run: "record_demo_action_run_outcome cx he rid bound tid s = (r', t')" by fastforce
    have t: "t = (case r' of Inr _ \<Rightarrow> t' | Inl e \<Rightarrow> if commits_action_error e then t' else rollback s t')"
      using assms(1) Inr run
      by (auto simp: manufacturing_action_run_outcome_def request_scope_def split: sum.splits)
    from run show ?thesis
    proof (cases rule: outcome_cases)
      case (refused e)
      then show ?thesis using t assms(2) by (simp add: run_step_same)
    next
      case (denied e ev)
      then show ?thesis using t assms(2)
        by (auto intro!: run_step_calm simp: calm_def)
    next
      case (replayed run perm)
      then show ?thesis using t assms(2) by (simp add: run_step_same)
    next
      case (fresh old perm dg)
      note old = get_action_run_SomeD [OF fresh(1)]
      show ?thesis
      proof (rule apply_outcome_cases [OF fresh(6) assms(2) conjunct1 [OF old]])
        show "rn_tenant_id old = tid" using old by simp
      next
        fix run w
        assume new: "run = recorded_run (oq_status bound) (outcome_payload bound) (clock_at s (clock_n s)) old"
          "w = s\<lparr>clock_n := Suc (clock_n s), action_runs := replace_run old run (action_runs s)\<rparr>"
          and c: "calm (action_runs w) (uuid_at w) (uuid_n w)
            (audit_events w @ [new_audit_event w (outcome_recorded_event tid bound perm dg run)]) t'"
          and rb: "\<And>e. r' = Inl e \<Longrightarrow> \<not> commits_action_error e"
        let ?ev = "new_audit_event w (outcome_recorded_event tid bound perm dg run)"
        let ?w = "w\<lparr>audit_events := audit_events w @ [?ev]\<rparr>"
        have "outcome_documented (audit_events ?w) run"
          unfolding outcome_documented_def using new old
          by (intro bexI [of _ ?ev]) (simp_all add: outcome_recorded_event_def dget_def)
        then have "run_change (audit_events ?w) (action_runs s) (action_runs ?w)"
          using run_change.finished [of old "action_runs s" "oq_status bound" "outcome_payload bound"] fresh(3) old new
            earlier_outcome_None [OF fresh(4)]
          by (simp add: outcome_issues_Nil)
        moreover have "drawn_ok ?w" using drawn_ok_mono [OF assms(2), of ?w] new by simp
        ultimately have step: "run_step s ?w" using new by (simp add: run_step_def)
        have step': "run_step s t'" using run_step_then_calm [OF step] c by simp
        then have "uuid_at t' = uuid_at s" "uuid_n s \<le> uuid_n t'" by (simp_all add: run_step_def)
        then show ?thesis using t rb step' run_step_rollback [OF assms(2)] by (cases r') simp_all
      qed
    qed
  qed

section \<open>Histories\<close>

text \<open>What the plans of creations in flight are known to satisfy.\<close>

definition authorized_plan :: "action_plan \<Rightarrow> bool" where
  "authorized_plan plan \<longleftrightarrow>
     set (ax_required_permissions (pl_action plan)) \<union> set (pl_relationship_scopes plan)
       \<subseteq> set (aq_actor_scopes (pl_request plan))
     \<and> aq_actor_id (pl_request plan) \<noteq> [] \<and> pd_effect (pl_policy plan) \<noteq> effect_value DENY"

text \<open>Transactions that touch the runs, one after the other: the two parts of a creation (with any other transaction in
  between), an outcome, a decision on an approval, and anything else, which leaves the runs alone and only appends to the
  ledger.\<close>

type_synonym action_world = "db \<times> action_plan list"

inductive action_step :: "action_codecs \<Rightarrow> action_world \<Rightarrow> action_world \<Rightarrow> bool" for cx where
  asked: "bind_run_actor req p tid = Inr bound \<Longrightarrow> request_scope (prepare_action_run cx a bound tid) s = (r, t) \<Longrightarrow>
     action_step cx (s, plans) (t, (case r of Inr (Inr plan) \<Rightarrow> plan # plans | _ \<Rightarrow> plans))"
| committed: "plan \<in> set plans \<Longrightarrow> request_scope (commit_action_run cx rt plan) s = (r, t) \<Longrightarrow>
     action_step cx (s, plans) (t, remove1 plan plans)"
| outcome: "manufacturing_action_run_outcome cx he rid oreq p tid s = (r, t) \<Longrightarrow> action_step cx (s, plans) (t, plans)"
| decision: "manufacturing_approval_decision dcx drt aid dreq p tid s = (r, t) \<Longrightarrow> action_step cx (s, plans) (t, plans)"
| elsewhere: "action_runs t = action_runs s \<Longrightarrow> uuid_at t = uuid_at s \<Longrightarrow> uuid_n s \<le> uuid_n t \<Longrightarrow>
     audit_events t = audit_events s @ new \<Longrightarrow> action_step cx (s, plans) (t, plans)"

definition action_steps :: "action_codecs \<Rightarrow> action_world \<Rightarrow> action_world \<Rightarrow> bool" where
  "action_steps cx = (action_step cx)\<^sup>*\<^sup>*"

inductive action_reachable :: "action_codecs \<Rightarrow> action_world \<Rightarrow> bool" for cx where
  start: "inj (uuid_at s) \<Longrightarrow> action_runs s = [] \<Longrightarrow> action_reachable cx (s, [])"
| step: "action_reachable cx w \<Longrightarrow> action_step cx w w' \<Longrightarrow> action_reachable cx w'"

lemma action_step_run_step: "action_step cx w w' \<Longrightarrow> drawn_ok (fst w) \<Longrightarrow> run_step (fst w) (fst w')"
proof (induction rule: action_step.induct)
  case (elsewhere t s new plans)
  then show ?case by (auto intro!: run_step_calm simp: calm_def)
qed (auto intro: prepare_step(1) commit_step outcome_step decision_step)

text \<open>The shape of a run: no result while it is open, the result of the decision while it carries one, and the result of
  the outcome, which the ledger documents, once it has one.\<close>

definition run_shape :: "audit_event list \<Rightarrow> action_run \<Rightarrow> bool" where
  "run_shape evs r \<longleftrightarrow>
     rn_status r \<in> set OPEN_STATUSES \<and> rn_result_payload r = None
     \<or> (\<exists>d p. rn_status r = approval_action_status d \<and> rn_result_payload r = Some p \<and> from_decision p)
     \<or> rn_status r \<in> set ACTION_RUN_OUTCOME_STATUSES \<and> outcome_documented evs r
       \<and> (\<exists>p. rn_result_payload r = Some p \<and> from_outcome (rn_status r) p)"

definition runs_inv :: "db \<Rightarrow> bool" where
  "runs_inv s \<longleftrightarrow> drawn_ok s \<and> distinct (map run_key (action_runs s)) \<and> (\<forall>r \<in> set (action_runs s). run_shape (audit_events s) r)"

lemma run_shape_mono: "run_shape evs r \<Longrightarrow> run_shape (evs @ new) r"
  by (auto simp: run_shape_def outcome_documented_mono)

lemma run_change_keys:
  "run_change evs rows rows' \<Longrightarrow> distinct (map run_key rows) \<Longrightarrow> distinct (map run_key rows')"
  by (induction rule: run_change.induct) (simp_all add: replace_run_keys)

lemma run_change_shape:
  "run_change evs rows rows' \<Longrightarrow> \<forall>r \<in> set rows. run_shape evs r \<Longrightarrow> \<forall>r \<in> set rows'. run_shape evs r"
proof (induction rule: run_change.induct)
  case (decided old rows p d now)
  then have "run_shape evs (recorded_run (approval_action_status d) p now old)" by (auto simp: run_shape_def)
  with decided show ?case by (simp add: set_replace_run)
next
  case (finished old rows st p now)
  then have "run_shape evs (recorded_run st p now old)" by (simp add: run_shape_def)
  with finished show ?case by (simp add: set_replace_run)
qed (auto simp: run_shape_def)

lemma run_step_inv: "run_step s t \<Longrightarrow> runs_inv s \<Longrightarrow> runs_inv t"
proof -
  assume step: "run_step s t" and inv: "runs_inv s"
  obtain new where evs: "audit_events t = audit_events s @ new" using step by (auto simp: run_step_def)
  have "\<forall>r \<in> set (action_runs s). run_shape (audit_events t) r"
    using inv run_shape_mono by (auto simp: runs_inv_def evs)
  then show ?thesis
    using step inv run_change_keys [of "audit_events t"] run_change_shape [of "audit_events t"]
    by (auto simp: run_step_def runs_inv_def)
qed

lemma action_step_inv: "action_step cx w w' \<Longrightarrow> runs_inv (fst w) \<Longrightarrow> runs_inv (fst w')"
  by (rule run_step_inv [OF action_step_run_step]) (simp_all add: runs_inv_def)

lemma action_reachable_inv: "action_reachable cx w \<Longrightarrow> runs_inv (fst w)"
proof (induction rule: action_reachable.induct)
  case (start s)
  then show ?case by (simp add: runs_inv_def drawn_ok_def ids_drawn_def)
qed (rule action_step_inv)

lemma action_steps_reachable: "action_steps cx w w' \<Longrightarrow> action_reachable cx w \<Longrightarrow> action_reachable cx w'"
  unfolding action_steps_def by (induction rule: rtranclp_induct) (auto intro: action_reachable.step)

section \<open>The life of a run\<close>

text \<open>The abstract view: a run awaits a decision or is requested, may be decided any number of times, and may be finished
  once it no longer awaits its decision.\<close>

datatype run_phase = Awaiting | Requested | DecidedAs approval_decision | Finished string

definition phase_of :: "string \<Rightarrow> run_phase" where
  "phase_of st =
     (if st = ''approval_required'' then Awaiting else if st = ''preview_generated'' then Requested
      else if st = ''approved_for_execution'' then DecidedAs APPROVE
      else if st = ''blocked_by_rejection'' then DecidedAs REJECT
      else if st = ''changes_requested'' then DecidedAs REQUEST_CHANGES else Finished st)"

definition lives :: "action_run list \<Rightarrow> uuid \<Rightarrow> run_phase option" where
  "lives rows = map_of (map (\<lambda>r. (rn_id r, phase_of (rn_status r))) rows)"

inductive life_step :: "(uuid \<Rightarrow> run_phase option) \<Rightarrow> (uuid \<Rightarrow> run_phase option) \<Rightarrow> bool" where
  stay: "life_step m m"
| propose: "m i = None \<Longrightarrow> \<forall>st. ph \<noteq> Finished st \<Longrightarrow> life_step m (m(i \<mapsto> ph))"
| decide: "m i = Some ph \<Longrightarrow> life_step m (m(i \<mapsto> DecidedAs d))"
| finish: "m i = Some ph \<Longrightarrow> ph \<noteq> Awaiting \<Longrightarrow> \<forall>st. ph \<noteq> Finished st \<Longrightarrow> st \<in> set ACTION_RUN_OUTCOME_STATUSES \<Longrightarrow>
     life_step m (m(i \<mapsto> Finished st))"

text \<open>What never changes in a row.\<close>

definition run_identity ::
  "action_run \<Rightarrow> uuid \<times> (string \<times> string \<times> string) \<times> string \<times> string \<times> string option \<times> string option \<times> dict \<times> timestamp"
where
  "run_identity r = (rn_id r, run_key r, rn_execution_mode r, rn_requested_by r, rn_approval_id r, rn_workflow_id r,
     rn_payload r, rn_created_at r)"

lemma phase_of_decision [simp]: "phase_of (approval_action_status d) = DecidedAs d"
  by (cases d) (simp_all add: phase_of_def)

lemma phase_of_preview: "phase_of ''preview_generated'' = Requested"
  by (simp add: phase_of_def)

lemma phase_of_outcome: "st \<in> set ACTION_RUN_OUTCOME_STATUSES \<Longrightarrow> phase_of st = Finished st"
  by (auto simp: ACTION_RUN_OUTCOME_STATUSES_def phase_of_def)

lemma phase_of_open: "st \<in> set OPEN_STATUSES \<Longrightarrow> phase_of st \<in> {Awaiting, Requested}"
  by (auto simp: OPEN_STATUSES_def phase_of_def)

lemma lives_append: "rn_id r \<notin> rn_id ` set rows \<Longrightarrow> lives (rows @ [r]) = (lives rows)(rn_id r \<mapsto> phase_of (rn_status r))"
  by (auto simp: lives_def fun_eq_iff map_add_def split: option.splits dest!: map_of_SomeD)

lemma lives_fresh: "rn_id r \<notin> rn_id ` set rows \<Longrightarrow> lives rows (rn_id r) = None"
  by (force simp: lives_def map_of_eq_None_iff)

lemma lives_known: "distinct (map rn_id rows) \<Longrightarrow> r \<in> set rows \<Longrightarrow> lives rows (rn_id r) = Some (phase_of (rn_status r))"
  unfolding lives_def by (rule map_of_is_SomeI) (auto simp: comp_def)

lemma lives_replace:
  assumes "distinct (map rn_id rows)" "old \<in> set rows" "rn_id new = rn_id old"
  shows "lives (replace_run old new rows) = (lives rows)(rn_id old \<mapsto> phase_of (rn_status new))"
  using assms
proof (induction rows)
  case (Cons x xs)
  show ?case
  proof (cases "x = old")
    case True
    with Cons.prems have "replace_run old new xs = xs" by (auto simp: replace_run_def intro!: map_idI)
    with True Cons.prems(3) show ?thesis by (simp add: lives_def replace_run_def fun_eq_iff)
  next
    case False
    with Cons show ?thesis by (auto simp: lives_def replace_run_def fun_eq_iff)
  qed
qed simp

lemma run_change_life:
  assumes "run_change evs rows rows'" "distinct (map rn_id rows)" "\<forall>r \<in> set rows. run_shape evs r"
  shows "life_step (lives rows) (lives rows')"
  using assms
proof (induction rule: run_change.induct)
  case (created r rows)
  then have "\<forall>st. phase_of (rn_status r) \<noteq> Finished st" using phase_of_open [of "rn_status r"] by auto
  then show ?case
    using life_step.propose [where m = "lives rows" and i = "rn_id r", OF lives_fresh [OF created.hyps(3)]] by (simp only: lives_append [OF created.hyps(3)])
next
  case (gated r d p rows)
  then have "\<forall>st. phase_of (rn_status r) \<noteq> Finished st" by simp
  then show ?case
    using life_step.propose [where m = "lives rows" and i = "rn_id r", OF lives_fresh [OF gated.hyps(4)]] by (simp only: lives_append [OF gated.hyps(4)])
next
  case (decided old rows p d now)
  note old = lives_known [OF decided.prems(1) decided.hyps(1)]
  have "lives (replace_run old (recorded_run (approval_action_status d) p now old) rows) =
      (lives rows)(rn_id old \<mapsto> DecidedAs d)"
    by (subst lives_replace [OF decided.prems(1) decided.hyps(1)]) simp_all
  then show ?case using life_step.decide [where m = "lives rows" and i = "rn_id old", OF old] by (simp only:)
next
  case (finished old rows st p now)
  note old = lives_known [OF finished.prems(1) finished.hyps(1)]
  have "rn_status old \<in> set OPEN_STATUSES \<and> rn_status old \<noteq> ''approval_required'' \<or> (\<exists>d. rn_status old = approval_action_status d)"
    using finished by (auto simp: run_shape_def)
  then have "phase_of (rn_status old) = Requested \<or> (\<exists>d. phase_of (rn_status old) = DecidedAs d)"
    by (auto simp: OPEN_STATUSES_def phase_of_preview)
  then have "phase_of (rn_status old) \<noteq> Awaiting" "\<forall>x. phase_of (rn_status old) \<noteq> Finished x" by auto
  moreover have "lives (replace_run old (recorded_run st p now old) rows) = (lives rows)(rn_id old \<mapsto> Finished st)"
    by (subst lives_replace [OF finished.prems(1) finished.hyps(1)]) (simp_all add: phase_of_outcome finished.hyps(4))
  ultimately show ?case
    using life_step.finish [where m = "lives rows" and i = "rn_id old", OF old _ _ finished.hyps(4)] by presburger
qed (rule life_step.stay)

lemma run_change_identity:
  "run_change evs rows rows' \<Longrightarrow> \<exists>new. map run_identity rows' = map run_identity rows @ new"
proof (induction rule: run_change.induct)
  case (decided old rows p d now)
  show ?case by (intro exI [of _ "[]"]) (simp add: replace_run_def run_identity_def)
next
  case (finished old rows st p now)
  show ?case by (intro exI [of _ "[]"]) (simp add: replace_run_def run_identity_def)
qed auto

section \<open>Lemmas: what a checked request satisfies\<close>

text \<open>The declarative reading of the typed schema.\<close>

definition value_has_type :: "json \<Rightarrow> string \<Rightarrow> bool" where
  "value_has_type value expected \<longleftrightarrow>
     (expected = ''string'' \<longrightarrow> (\<exists>t. value = JStr t \<and> t \<noteq> []))
     \<and> (expected = ''array'' \<longrightarrow> (\<exists>ts. value = jstrs ts))
     \<and> (expected = ''boolean'' \<longrightarrow> (\<exists>b. value = JBool b))
     \<and> (expected = ''integer'' \<longrightarrow> (\<exists>n. value = JInt n))
     \<and> (expected = ''number'' \<longrightarrow> (\<exists>n. value = JInt n \<and> float_of_int n \<noteq> None) \<or> (\<exists>x. value = JFloat x))
     \<and> (expected = ''object'' \<longrightarrow> (\<exists>d. value = JObj d))"

definition payload_conforms :: "dict \<Rightarrow> dict \<Rightarrow> bool" where
  "payload_conforms schema payload \<longleftrightarrow>
     (\<exists>required. set_of_json (schema_get schema ''required'' (JList [])) = Inr required
        \<and> (\<forall>v \<in> set required. \<exists>k \<in> fst ` set payload. v = JStr k))
     \<and> (\<forall>(k, value) \<in> set payload.
          \<exists>declared field_schema. schema_get schema ''properties'' (JObj []) = JObj declared
            \<and> dget declared k = JObj field_schema
            \<and> (\<forall>expected. dget field_schema ''type'' = JStr expected \<longrightarrow> value_has_type value expected))"

lemma all_strings_iff: "list_all is_jstr xs \<longleftrightarrow> (\<exists>ts. xs = map JStr ts)"
proof
  assume "list_all is_jstr xs"
  then have "xs = map JStr (map (\<lambda>v. case v of JStr t \<Rightarrow> t | _ \<Rightarrow> []) xs)"
    by (induction xs) (auto simp: is_jstr_def split: json.splits)
  then show "\<exists>ts. xs = map JStr ts" by blast
qed (auto simp: is_jstr_def list_all_iff)

lemma field_type_matches_str: "field_type_matches value (JStr expected) = Inr True \<longleftrightarrow> value_has_type value expected"
  by (cases "value") (auto simp: field_type_matches_def value_has_type_def all_strings_iff jstrs_def)

lemma field_type_matches_other: "\<forall>t. expected \<noteq> JStr t \<Longrightarrow> field_type_matches value expected = Inr True"
  by (simp add: field_type_matches_def)

lemma value_has_empty_type [simp]: "value_has_type value []"
  by (simp add: value_has_type_def)

lemma field_issue_None:
  "field_issue properties k value = Inr None \<longleftrightarrow>
     (\<exists>declared field_schema. properties = JObj declared \<and> dget declared k = JObj field_schema
        \<and> (\<forall>expected. dget field_schema ''type'' = JStr expected \<longrightarrow> value_has_type value expected))"
proof (cases "\<exists>declared field_schema. properties = JObj declared \<and> dget declared k = JObj field_schema")
  case True
  then obtain declared field_schema where p: "properties = JObj declared" "dget declared k = JObj field_schema" by blast
  let ?expected = "dget field_schema ''type''"
  have "field_issue properties k value = Inr None \<longleftrightarrow> \<not> truthy ?expected \<or> field_type_matches value ?expected = Inr True"
    by (auto simp: field_issue_def p Let_def split: sum.splits)
  also have "\<dots> \<longleftrightarrow> (\<forall>expected. ?expected = JStr expected \<longrightarrow> value_has_type value expected)"
    by (cases "\<exists>t. ?expected = JStr t") (auto simp: field_type_matches_str field_type_matches_other truthy_def)
  finally show ?thesis by (simp add: p)
next
  case False
  then show ?thesis by (auto simp: field_issue_def Let_def split: json.splits)
qed

lemma field_issues_Nil:
  "field_issues properties payload = Inr [] \<longleftrightarrow> (\<forall>(k, value) \<in> set payload. field_issue properties k value = Inr None)"
  by (induction properties payload rule: field_issues.induct) (auto split: sum.splits option.splits)

lemma has_field_iff: "has_field payload v \<longleftrightarrow> (\<exists>k \<in> fst ` set payload. v = JStr k)"
  by (cases v) (auto simp: has_field_def map_of_eq_None_iff)

lemma missing_issues_Nil:
  assumes "set (dc_set_order cx required) = set required"
  shows "missing_issues cx payload required = [] \<longleftrightarrow> (\<forall>v \<in> set required. has_field payload v)"
  using assms by (auto simp: missing_issues_def filter_empty_conv)

lemma checked_request_Inr:
  "checked_request cx a req asked s = Inr (tid, action, perm, scopes, key, payload) \<longleftrightarrow>
     (\<exists>version. find_action cx a asked s = Inr (tid, action, version) \<and> payload_tenant_ok tid (aq_payload req)
        \<and> validate_payload cx action (aq_payload req) = Inr ()
        \<and> evaluate_action_permission cx tid action req s = Inr (perm, scopes)
        \<and> run_idempotency_key tid action req = Inr key \<and> payload = stored_payload action req version)"
  by (auto simp: checked_request_def split: sum.splits prod.splits if_splits)

lemma find_action_Inr:
  "find_action cx a asked s = Inr (tid, action, version) \<Longrightarrow> tid = asked \<and> ax_action_id action = a"
  by (auto simp: find_action_def require_persisted_manufacturing_action_registry_def
      get_persisted_manufacturing_action_registry_def
      split: sum.splits option.splits if_splits reference_error.splits dest!: first_row_filter_SomeD)

lemma relationship_scopes_cover:
  assumes "relationship_scopes_for_refs cx tid touched s = Inr scopes" "touched \<noteq> []"
  obtains ontology where "require_persisted_manufacturing_ontology (dc_ontology cx) tid s = Inr ontology"
    "set scopes = ol_permission_scope ` {l \<in> set (on_relationships ontology). ol_source_id l \<in> set touched \<or> ol_target_id l \<in> set touched}"
  using assms by (auto simp: relationship_scopes_for_refs_def split: sum.splits)

lemma evaluate_action_permission_Inr:
  "evaluate_action_permission cx tid action req s = Inr (perm, scopes) \<longleftrightarrow>
     (\<exists>touched. payload_ontology_refs action (aq_payload req) = Inr touched
        \<and> relationship_scopes_for_refs cx tid touched s = Inr scopes
        \<and> tid \<noteq> [] \<and> aq_actor_id req \<noteq> []
        \<and> set (ax_required_permissions action) \<union> set scopes \<subseteq> set (aq_actor_scopes req)
        \<and> perm = \<lparr>allowed = True, reason = ''allowed''\<rparr>)"
  by (auto simp: evaluate_action_permission_def permission_request_valid_def Let_def
      split: sum.splits dest: evaluate_permission_reason_allowed intro: evaluate_permission_reason_allowed)

section \<open>Lemmas: the exact writes\<close>

lemma advance_workflow_quiet:
  "advance_workflow_run tid wid f sg e a m u s = ((Inr r :: action_error + workflow_run option), t) \<Longrightarrow> quiet s t"
  by (auto simp: advance_workflow_run_def append_workflow_timeline_event_def bind_op_Inr_iff quiet_def
      frame_def Let_def split: option.splits)

lemma workflow_records_quiet:
  "record_workflow_action_run plan rid wid st s = (Inr r, t) \<Longrightarrow> quiet s t"
  "record_workflow_action_run_outcome tid req run wid s = (Inr r, t) \<Longrightarrow> quiet s t"
  by (auto simp: record_workflow_action_run_def record_workflow_action_run_outcome_def split: if_splits
      dest: advance_workflow_quiet)

lemma ensure_then_quiet:
  assumes "bind_op (if he then lift_error ActionStoreError (ensure_workflow_run decode tid wid) else return_op None) (\<lambda>_. m) s =
    (Inr r, t)" and "\<And>u. m u = (Inr r, t) \<Longrightarrow> quiet u t"
  shows "quiet s t"
  using assms by (auto simp: bind_op_Inr_iff split: if_splits intro: quiet_trans dest!: ensure_workflow_run_quiet)

lemma follow_creation_Inr:
  assumes "follow_creation cx rt plan run s = (Inr res, t)"
  obtains sg wr where "signal_action_workflow rt plan (rn_id run) = Inr sg"
    "res = created_result plan run sg (new_audit_event s (run_created_event plan run sg)) wr"
    "quiet (with_audit_event s (run_created_event plan run sg)) t"
proof -
  obtain sg where sg: "signal_action_workflow rt plan (rn_id run) = Inr sg"
    using assms by (auto simp: follow_creation_def bind_op_Inr_iff)
  let ?w = "with_audit_event s (run_created_event plan run sg)"
  let ?m = "case ax_workflow_bindings (pl_action plan) of
          [] \<Rightarrow> return_op None
        | workflow_id # _ \<Rightarrow>
            bind_op (if an_history_enabled rt
                then lift_error ActionStoreError (ensure_workflow_run (dc_console_run cx) (pl_tenant_id plan) workflow_id)
                else return_op None) (\<lambda>_.
            record_workflow_action_run plan (rn_id run) workflow_id (workflow_signal_status sg))"
  obtain wr where m: "?m ?w = (Inr wr, t)"
    and res: "res = created_result plan run sg (new_audit_event s (run_created_event plan run sg)) wr"
    using assms sg by (auto simp: follow_creation_def bind_op_Inr_iff)
  have "quiet ?w t"
  proof (cases "ax_workflow_bindings (pl_action plan)")
    case Nil
    with m show ?thesis by simp
  next
    case (Cons wid rest)
    with m have "bind_op (if an_history_enabled rt
          then lift_error ActionStoreError (ensure_workflow_run (dc_console_run cx) (pl_tenant_id plan) wid)
          else return_op None) (\<lambda>_. record_workflow_action_run plan (rn_id run) wid (workflow_signal_status sg)) ?w = (Inr wr, t)"
      by simp
    then show ?thesis by (rule ensure_then_quiet) (rule workflow_records_quiet(1))
  qed
  with that sg res show thesis by blast
qed

lemma apply_outcome_Inr:
  assumes "apply_outcome cx he tid req perm dg old s = (Inr res, t)" "drawn_ok s"
    and "old \<in> set (action_runs s)" "rn_tenant_id old = tid"
  obtains run w wr where "run = recorded_run (oq_status req) (outcome_payload req) (clock_at s (clock_n s)) old"
    "w = s\<lparr>clock_n := Suc (clock_n s), action_runs := replace_run old run (action_runs s)\<rparr>"
    "res = outcome_result tid req perm run (Some (new_audit_event w (outcome_recorded_event tid req perm dg run))) wr"
    "quiet (with_audit_event w (outcome_recorded_event tid req perm dg run)) t"
proof -
  obtain run w1 wr where rec: "record_action_run_result tid (rn_id old) (oq_status req) (outcome_payload req) s = (Inr run, w1)"
    and rest: "(case rn_workflow_id run of
          None \<Rightarrow> return_op None
        | Some workflow_id \<Rightarrow>
            bind_op (if he then lift_error ActionStoreError (ensure_workflow_run (dc_console_run cx) tid workflow_id)
                else return_op None) (\<lambda>_.
            record_workflow_action_run_outcome tid req run workflow_id)) (with_audit_event w1 (outcome_recorded_event tid req perm dg run))
        = (Inr wr, t)"
    and res: "res = outcome_result tid req perm run (Some (new_audit_event w1 (outcome_recorded_event tid req perm dg run))) wr"
    using assms(1) by (auto simp: apply_outcome_def bind_op_Inr_iff)
  obtain old' where old': "old' \<in> set (action_runs s)" "rn_id old' = rn_id old"
    and run: "run = recorded_run (oq_status req) (outcome_payload req) (clock_at s (clock_n s)) old'"
    and w1: "w1 = s\<lparr>clock_n := Suc (clock_n s), action_runs := replace_run old' run (action_runs s)\<rparr>"
    using record_result_rows [OF rec drawn_okD(1) [OF assms(2)]] by metis
  have same: "old' = old" using distinct_key_unique [OF drawn_okD(1) [OF assms(2)] old'(1) assms(3) old'(2)] .
  have "quiet (with_audit_event w1 (outcome_recorded_event tid req perm dg run)) t"
  proof (cases "rn_workflow_id run")
    case None
    with rest show ?thesis by simp
  next
    case (Some wid)
    with rest have "bind_op (if he then lift_error ActionStoreError (ensure_workflow_run (dc_console_run cx) tid wid)
          else return_op None) (\<lambda>_. record_workflow_action_run_outcome tid req run wid)
        (with_audit_event w1 (outcome_recorded_event tid req perm dg run)) = (Inr wr, t)" by simp
    then show ?thesis by (rule ensure_then_quiet) (rule workflow_records_quiet(2))
  qed
  then show thesis using that run w1 res same by blast
qed

text \<open>The first part of a creation, on its way to a new run and to a replay.\<close>

lemma prepare_Inr:
  assumes "prepare_action_run cx a req asked s = (Inr x, t)"
  obtains (replay) action perm scopes key payload existing where "t = s"
      "checked_request cx a req asked s = Inr (asked, action, perm, scopes, key, payload)"
      "get_action_run_by_idempotency_key asked (ax_action_id action) key s = Some existing"
      "json_eq (JObj (rn_payload existing)) (JObj payload)" "x = Inl (replayed_result asked action key perm existing)"
  | (plan) action perm scopes key payload c pol where "t = s"
      "checked_request cx a req asked s = Inr (asked, action, perm, scopes, key, payload)"
      "get_action_run_by_idempotency_key asked (ax_action_id action) key s = None"
      "platform_policy_context cx action req = Inr c" "enforced_decision asked ACTION_EXECUTION c False s = Inr pol"
      "pd_effect pol \<noteq> effect_value DENY"
      "x = Inr \<lparr>pl_tenant_id = asked, pl_action = action, pl_request = req, pl_permission = perm,
         pl_relationship_scopes = scopes, pl_key = key, pl_payload = payload, pl_policy = pol\<rparr>"
proof -
  obtain tid action perm scopes key payload where
    chk: "checked_request cx a req asked s = Inr (tid, action, perm, scopes, key, payload)"
    using assms by (auto simp: prepare_action_run_def bind_op_Inr_iff)
  have tid: "tid = asked" using chk find_action_Inr by (auto simp: checked_request_Inr)
  show thesis
  proof (cases "get_action_run_by_idempotency_key tid (ax_action_id action) key s")
    case (Some existing)
    then show thesis
      using assms chk tid that(1) [of action perm scopes key payload existing]
      by (auto simp: prepare_action_run_def bind_op_Inr_iff idempotent_replay_def split: if_splits)
  next
    case None
    then obtain pol where enf: "enforce_creation_policies cx tid action req key s = (Inr pol, t)"
      and x: "x = Inr \<lparr>pl_tenant_id = asked, pl_action = action, pl_request = req, pl_permission = perm,
         pl_relationship_scopes = scopes, pl_key = key, pl_payload = payload, pl_policy = pol\<rparr>"
      using assms chk tid by (auto simp: prepare_action_run_def bind_op_Inr_iff)
    then obtain c where "t = s" "platform_policy_context cx action req = Inr c"
      "enforced_decision tid ACTION_EXECUTION c False s = Inr pol" "pd_effect pol \<noteq> effect_value DENY"
      by (auto simp: enforce_creation_eq split: sum.splits if_splits)
    then show thesis using that(2) [OF _ chk [unfolded tid]] None tid x by simp
  qed
qed

lemma request_scope_Inr [simp]: "request_scope m s = (Inr x, t) \<longleftrightarrow> m s = (Inr x, t)"
  by (auto simp: request_scope_def split: prod.splits sum.splits)

lemma run_endpoint_Inr:
  assumes "manufacturing_action_run cx rt a req p tid s = (Inr res, t)"
  obtains bound x where "bind_run_actor req p tid = Inr bound" "prepare_action_run cx a bound tid s = (Inr x, s)"
    "case x of Inl replayed \<Rightarrow> res = replayed \<and> t = s
     | Inr plan \<Rightarrow> run_key (new_action_run plan) \<notin> run_key ` set (action_runs s)
         \<and> follow_creation cx rt plan (inserted_run s (new_action_run plan)) (with_run s (new_action_run plan)) = (Inr res, t)"
proof -
  obtain bound where b: "bind_run_actor req p tid = Inr bound"
    and run: "record_demo_action_run cx rt a bound tid s = (Inr res, t)"
    using assms by (auto simp: manufacturing_action_run_def split: sum.splits)
  obtain x u where pr: "prepare_action_run cx a bound tid s = (Inr x, u)"
    and rest: "(case x of Inl replayed \<Rightarrow> return_op replayed | Inr plan \<Rightarrow> commit_action_run cx rt plan) u = (Inr res, t)"
    using run unfolding record_demo_action_run_def bind_op_Inr_iff by blast
  have u: "u = s" using prepare_cases [OF pr] by auto
  from pr show thesis
  proof (cases rule: prepare_Inr)
    case (replay action perm scopes key payload existing)
    with b pr rest u that show ?thesis by auto
  next
    case (plan action perm scopes key payload c pol)
    let ?plan = "\<lparr>pl_tenant_id = tid, pl_action = action, pl_request = bound, pl_permission = perm,
         pl_relationship_scopes = scopes, pl_key = key, pl_payload = payload, pl_policy = pol\<rparr>"
    have free: "get_action_run_by_idempotency_key (pl_tenant_id ?plan) (ax_action_id (pl_action ?plan)) (pl_key ?plan) s = None"
      using plan(3) by simp
    have "request_scope (commit_action_run cx rt ?plan) s = (Inr res, t)" using rest plan(7) u by simp
    then have f: "follow_creation cx rt ?plan (inserted_run s (new_action_run ?plan)) (with_run s (new_action_run ?plan)) = (Inr res, t)"
      using free by (auto simp: commit_scope_eq simp del: request_scope_Inr split: prod.splits sum.splits)
    have "run_key (new_action_run ?plan) \<notin> run_key ` set (action_runs s)" using free run_key_free by blast
    with f b pr u plan(7) that [of bound x] show ?thesis by simp
  qed
qed

lemma validate_payload_iff:
  assumes "\<And>xs. set (dc_set_order cx xs) = set xs"
  shows "validate_payload cx action payload = Inr () \<longleftrightarrow> payload_conforms (ax_input_schema action) payload"
proof -
  have "validate_payload cx action payload = Inr () \<longleftrightarrow>
      (\<exists>required. set_of_json (schema_get (ax_input_schema action) ''required'' (JList [])) = Inr required
         \<and> missing_issues cx payload required = [])
      \<and> field_issues (schema_get (ax_input_schema action) ''properties'' (JObj [])) payload = Inr []"
    by (auto simp: validate_payload_def Let_def split: sum.splits list.splits)
  then show ?thesis
    unfolding payload_conforms_def field_issues_Nil field_issue_None missing_issues_Nil [OF assms] has_field_iff by auto
qed

section \<open>Properties\<close>

text \<open>The payload check accepts a payload exactly when it conforms to the schema of its action: every required field is
  present, every field is declared, and every value has the type that its declaration names, where a number must
  also convert to a finite double.\<close>

lemma validate_payload_conforms:
  assumes "\<And>xs. set (dc_set_order cx xs) = set xs"
  shows "validate_payload cx action payload = Inr () \<longleftrightarrow> payload_conforms (ax_input_schema action) payload"
  using assms by (rule validate_payload_iff)

text \<open>C21. A run is created, or replayed, only for a caller with the authority for it. The caller is bound to the tenant (no
  verified principal is needed for the demonstration tenant only) and acts as itself; the payload names no other tenant
  and conforms to the schema of the action; the caller holds every scope that the action requires and the scope of every
  relationship of the ontology that touches a resource the payload names; and for a new run no active deny policy
  applies.\<close>

theorem action_run_requires_authority:
  assumes "manufacturing_action_run cx rt a req p tid s = (Inr res, t)" and "\<And>xs. set (dc_set_order cx xs) = set xs"
  shows "\<exists>bound action version touched.
     (case p of None \<Rightarrow> tid = DEMO_TENANT \<and> bound = req
      | Some q \<Rightarrow> sp_tenant_id q = tid \<and> aq_actor_id bound = sp_actor_id q \<and> aq_actor_scopes bound = sp_scopes q
          \<and> aq_actor_id req \<in> {[], sp_actor_id q} \<and> aq_payload bound = aq_payload req)
     \<and> find_action cx a tid s = Inr (tid, action, version)
     \<and> dget (aq_payload bound) ''tenant_id'' \<in> {JNull, JStr tid}
     \<and> payload_conforms (ax_input_schema action) (aq_payload bound)
     \<and> set (ax_required_permissions action) \<subseteq> set (aq_actor_scopes bound)
     \<and> payload_ontology_refs action (aq_payload bound) = Inr touched
     \<and> (touched = [] \<or> (\<exists>ontology. require_persisted_manufacturing_ontology (dc_ontology cx) tid s = Inr ontology
          \<and> ol_permission_scope ` {l \<in> set (on_relationships ontology). ol_source_id l \<in> set touched \<or> ol_target_id l \<in> set touched}
              \<subseteq> set (aq_actor_scopes bound)))
     \<and> (nr_idempotent_replay res \<or> (\<exists>c. platform_policy_context cx action bound = Inr c
          \<and> (policies_readable s \<longrightarrow> (\<forall>pol \<in> set (active_policies tid ACTION_EXECUTION s).
               pp_effect pol = effect_value DENY \<longrightarrow> \<not> policy_applies c pol))))"
proof -
  obtain bound x where b: "bind_run_actor req p tid = Inr bound" and pr: "prepare_action_run cx a bound tid s = (Inr x, s)"
    and x: "case x of Inl replayed \<Rightarrow> res = replayed \<and> t = s
     | Inr plan \<Rightarrow> run_key (new_action_run plan) \<notin> run_key ` set (action_runs s)
         \<and> follow_creation cx rt plan (inserted_run s (new_action_run plan)) (with_run s (new_action_run plan)) = (Inr res, t)"
    using assms(1) by (rule run_endpoint_Inr)
  have bound: "case p of None \<Rightarrow> tid = DEMO_TENANT \<and> bound = req
      | Some q \<Rightarrow> sp_tenant_id q = tid \<and> aq_actor_id bound = sp_actor_id q \<and> aq_actor_scopes bound = sp_scopes q
          \<and> aq_actor_id req \<in> {[], sp_actor_id q} \<and> aq_payload bound = aq_payload req"
    using b by (auto simp: bind_tenant_request_Inr with_run_actor_def split: option.splits)
  obtain action perm scopes key payload where
    chk: "checked_request cx a bound tid s = Inr (tid, action, perm, scopes, key, payload)"
    and pol: "(\<exists>e. x = Inl e \<and> nr_idempotent_replay e) \<or> (\<exists>c d. platform_policy_context cx action bound = Inr c
      \<and> enforced_decision tid ACTION_EXECUTION c False s = Inr d \<and> pd_effect d \<noteq> effect_value DENY)"
    using pr by (cases rule: prepare_Inr) (auto simp: replayed_result_def)
  obtain version touched where v: "find_action cx a tid s = Inr (tid, action, version)"
    "payload_tenant_ok tid (aq_payload bound)" "validate_payload cx action (aq_payload bound) = Inr ()"
    and tc: "payload_ontology_refs action (aq_payload bound) = Inr touched"
      "relationship_scopes_for_refs cx tid touched s = Inr scopes"
    and sc: "set (ax_required_permissions action) \<union> set scopes \<subseteq> set (aq_actor_scopes bound)"
    using chk by (auto simp: checked_request_Inr evaluate_action_permission_Inr)
  have rel: "touched = [] \<or> (\<exists>ontology. require_persisted_manufacturing_ontology (dc_ontology cx) tid s = Inr ontology
          \<and> ol_permission_scope ` {l \<in> set (on_relationships ontology). ol_source_id l \<in> set touched \<or> ol_target_id l \<in> set touched}
              \<subseteq> set (aq_actor_scopes bound))"
  proof (cases "touched = []")
    case False
    obtain ontology where o: "require_persisted_manufacturing_ontology (dc_ontology cx) tid s = Inr ontology"
      "set scopes = ol_permission_scope ` {l \<in> set (on_relationships ontology). ol_source_id l \<in> set touched \<or> ol_target_id l \<in> set touched}"
      using relationship_scopes_cover [OF tc(2) False] .
    have "set scopes \<subseteq> set (aq_actor_scopes bound)" using sc by simp
    then show ?thesis using o(1) unfolding o(2) by blast
  qed simp
  have deny: "nr_idempotent_replay res \<or> (\<exists>c. platform_policy_context cx action bound = Inr c
          \<and> (policies_readable s \<longrightarrow> (\<forall>pol \<in> set (active_policies tid ACTION_EXECUTION s).
               pp_effect pol = effect_value DENY \<longrightarrow> \<not> policy_applies c pol)))"
    using pol
  proof
    assume "\<exists>e. x = Inl e \<and> nr_idempotent_replay e"
    then show ?thesis using x by auto
  next
    assume "\<exists>c d. platform_policy_context cx action bound = Inr c
      \<and> enforced_decision tid ACTION_EXECUTION c False s = Inr d \<and> pd_effect d \<noteq> effect_value DENY"
    then obtain c d where c: "platform_policy_context cx action bound = Inr c"
      "enforced_decision tid ACTION_EXECUTION c False s = Inr d" "pd_effect d \<noteq> effect_value DENY" by blast
    have "\<not> policy_applies c pol" if "policies_readable s" "pol \<in> set (active_policies tid ACTION_EXECUTION s)"
      "pp_effect pol = effect_value DENY" for pol
      using enforced_deny_iff [OF that(1), of tid ACTION_EXECUTION c False] c(2,3) that(2,3) by (metis Inr_inject)
    with c(1) show ?thesis by blast
  qed
  have tenant: "dget (aq_payload bound) ''tenant_id'' \<in> {JNull, JStr tid}" using v(2) by (simp add: payload_tenant_ok_def)
  have conf: "payload_conforms (ax_input_schema action) (aq_payload bound)"
    using validate_payload_iff [OF assms(2)] v(3) by blast
  have required: "set (ax_required_permissions action) \<subseteq> set (aq_actor_scopes bound)" using sc by blast
  show ?thesis
    by (intro exI [of _ bound] exI [of _ action] exI [of _ version] exI [of _ touched] conjI)
      (rule bound v(1) tenant conf required tc(1) rel deny)+
qed

text \<open>What a creation writes. A replay writes nothing. A new run is one row, under a key that was free, with the
  identity of the caller and of its action, which awaits approval exactly when the action or the deciding policy asks for
  it; beside it exactly one audit event of the action's type names the run. Approvals, policies and the outbox are as
  before.\<close>

lemma action_run_writes:
  assumes "manufacturing_action_run cx rt a req p tid s = (Inr res, t)"
  shows "if nr_idempotent_replay res then t = s
    else \<exists>run ev action version d.
      find_action cx a tid s = Inr (tid, action, version) \<and> nr_platform_policy_decision res = Some d
      \<and> action_runs t = action_runs s @ [run] \<and> run_key run \<notin> run_key ` set (action_runs s)
      \<and> rn_id run = nr_action_run_id res \<and> rn_tenant_id run = tid \<and> rn_action_id run = a
      \<and> rn_idempotency_key run = nr_idempotency_key res \<and> rn_requested_by run = nr_requested_by res
      \<and> (case p of None \<Rightarrow> True | Some q \<Rightarrow> nr_requested_by res = sp_actor_id q)
      \<and> dget (rn_payload run) ''input'' = JObj (aq_payload req) \<and> rn_result_payload run = None
      \<and> nr_approval_required res = (requires_approval action \<or> pd_effect d = effect_value REQUIRE_APPROVAL)
      \<and> rn_status run = (if nr_approval_required res then ''approval_required'' else ''preview_generated'')
      \<and> audit_events t = audit_events s @ [ev] \<and> ae_id ev = the (nr_audit_event_id res)
      \<and> ae_event_type ev = ax_audit_event_type action \<and> ae_tenant_id ev = tid \<and> ae_actor_id ev = nr_requested_by res
      \<and> dget (ae_payload ev) ''action_run_id'' = JStr (uuid_text (rn_id run))
      \<and> approval_records t = approval_records s \<and> platform_policies t = platform_policies s
      \<and> approval_decision_outbox t = approval_decision_outbox s"
proof -
  obtain bound x where b: "bind_run_actor req p tid = Inr bound" and pr: "prepare_action_run cx a bound tid s = (Inr x, s)"
    and x: "case x of Inl replayed \<Rightarrow> res = replayed \<and> t = s
     | Inr plan \<Rightarrow> run_key (new_action_run plan) \<notin> run_key ` set (action_runs s)
         \<and> follow_creation cx rt plan (inserted_run s (new_action_run plan)) (with_run s (new_action_run plan)) = (Inr res, t)"
    using assms(1) by (rule run_endpoint_Inr)
  have bound: "aq_payload bound = aq_payload req" "case p of None \<Rightarrow> True | Some q \<Rightarrow> aq_actor_id bound = sp_actor_id q"
    using b by (auto simp: bind_tenant_request_Inr with_run_actor_def split: option.splits)
  from pr show ?thesis
  proof (cases rule: prepare_Inr)
    case (replay action perm scopes key payload existing)
    then show ?thesis using x by (simp add: replayed_result_def)
  next
    case (plan action perm scopes key payload c pol)
    let ?plan = "\<lparr>pl_tenant_id = tid, pl_action = action, pl_request = bound, pl_permission = perm,
         pl_relationship_scopes = scopes, pl_key = key, pl_payload = payload, pl_policy = pol\<rparr>"
    let ?new = "new_action_run ?plan"
    obtain version where v: "find_action cx a tid s = Inr (tid, action, version)" "payload = stored_payload action bound version"
      using plan(2) by (auto simp: checked_request_Inr)
    have aid: "ax_action_id action = a" using find_action_Inr [OF v(1)] by simp
    have free: "run_key ?new \<notin> run_key ` set (action_runs s)"
      and f: "follow_creation cx rt ?plan (inserted_run s ?new) (with_run s ?new) = (Inr res, t)"
      using x plan(7) by simp_all
    from f obtain sg wr where res: "res = created_result ?plan (inserted_run s ?new) sg
          (new_audit_event (with_run s ?new) (run_created_event ?plan (inserted_run s ?new) sg)) wr"
      and q: "quiet (with_audit_event (with_run s ?new) (run_created_event ?plan (inserted_run s ?new) sg)) t"
      by (rule follow_creation_Inr)
    define run where "run = inserted_run s ?new"
    define ev where "ev = new_audit_event (with_run s ?new) (run_created_event ?plan run sg)"
    have row: "rn_tenant_id run = tid" "rn_action_id run = a" "rn_idempotency_key run = key"
      "rn_requested_by run = aq_actor_id bound" "dget (rn_payload run) ''input'' = JObj (aq_payload req)"
      "rn_result_payload run = None" "run_key run \<notin> run_key ` set (action_runs s)"
      "rn_status run = (if requires_approval action \<or> pd_effect pol = effect_value REQUIRE_APPROVAL
         then ''approval_required'' else ''preview_generated'')"
      using free by (simp_all add: run_def aid v(2) stored_payload_def dget_def bound action_status_def pl_approval_required_def)
    have fields: "\<not> nr_idempotent_replay res" "nr_platform_policy_decision res = Some pol"
      "nr_action_run_id res = rn_id run" "nr_idempotency_key res = key"
      "nr_requested_by res = aq_actor_id bound" "nr_audit_event_id res = Some (ae_id ev)"
      "nr_approval_required res = (requires_approval action \<or> pd_effect pol = effect_value REQUIRE_APPROVAL)"
      by (simp_all add: res created_result_def pl_approval_required_def run_def ev_def)
    have event: "ae_event_type ev = ax_audit_event_type action" "ae_tenant_id ev = tid" "ae_actor_id ev = aq_actor_id bound"
      "dget (ae_payload ev) ''action_run_id'' = JStr (uuid_text (rn_id run))"
      by (simp_all add: ev_def run_created_event_def Let_def dget_def)
    have tables: "action_runs t = action_runs s @ [run]" "audit_events t = audit_events s @ [ev]"
      "approval_records t = approval_records s" "platform_policies t = platform_policies s"
      "approval_decision_outbox t = approval_decision_outbox s"
      using q by (simp_all add: quiet_def frame_def run_def ev_def with_run_def)
    show ?thesis
      using fields row event tables v(1) bound(2)
      by (simp only: if_False option.sel simp_thms) (intro exI conjI; (assumption | simp))
  qed
qed

lemma run_step_identity:
  "run_step s t \<Longrightarrow> r \<in> set (action_runs s) \<Longrightarrow> \<exists>r' \<in> set (action_runs t). run_identity r' = run_identity r"
proof -
  assume "run_step s t" and r: "r \<in> set (action_runs s)"
  then obtain new where "map run_identity (action_runs t) = map run_identity (action_runs s) @ new"
    using run_change_identity unfolding run_step_def by blast
  then have "run_identity r \<in> set (map run_identity (action_runs t))" using r by simp
  then show ?thesis by auto
qed

lemma action_steps_identity:
  assumes "action_steps cx w w'" "action_reachable cx w" "r \<in> set (action_runs (fst w))"
  shows "\<exists>r' \<in> set (action_runs (fst w')). run_identity r' = run_identity r"
  using assms(1) unfolding action_steps_def
proof (induction rule: rtranclp_induct)
  case base
  then show ?case using assms(3) by blast
next
  case (step v w')
  then obtain r1 where r1: "r1 \<in> set (action_runs (fst v))" "run_identity r1 = run_identity r" by blast
  have "action_reachable cx v" using step.hyps(1) assms(2) action_steps_reachable unfolding action_steps_def by blast
  then have "drawn_ok (fst v)" using action_reachable_inv by (auto simp: runs_inv_def)
  then show ?case using run_step_identity [OF action_step_run_step [OF step.hyps(2)] r1(1)] r1(2) by auto
qed

lemma run_by_key:
  assumes "runs_inv s" "r \<in> set (action_runs s)" "run_key r = (tid, aid, key)"
  shows "get_action_run_by_idempotency_key tid aid key s = Some r"
proof -
  have "(\<lambda>x. rn_tenant_id x = tid \<and> rn_action_id x = aid \<and> rn_idempotency_key x = key) = (\<lambda>x. run_key x = run_key r)"
    using assms(3) by (simp add: fun_eq_iff)
  then show ?thesis
    using first_row_key [of run_key "action_runs s" r] assms(1,2) by (simp add: get_action_run_by_idempotency_key_def runs_inv_def)
qed

lemma run_identity_fields:
  "run_identity r' = run_identity r \<Longrightarrow> run_key r' = run_key r \<and> rn_payload r' = rn_payload r \<and> rn_id r' = rn_id r
     \<and> rn_requested_by r' = rn_requested_by r"
  by (simp add: run_identity_def)

text \<open>C22. A key creates one run. Once a run exists, whatever transactions come after, the run is still there with its
  identity, and any later creation under its key writes nothing, whether it meets the row at its lookup or only loses
  the insert to it: it is answered by a replay of this very run, with its present status, when the stored payload is the
  same, and by a conflict that names the run otherwise.\<close>

theorem action_run_created_once:
  assumes "action_reachable cx w" and "action_steps cx w w'" and "r \<in> set (action_runs (fst w))"
  shows "\<exists>r' \<in> set (action_runs (fst w')). run_identity r' = run_identity r
    \<and> (\<forall>rt plan. run_key (new_action_run plan) = run_key r \<longrightarrow>
         request_scope (commit_action_run cx rt plan) (fst w') =
           (if json_eq (JObj (rn_payload r)) (JObj (pl_payload plan))
            then Inr (replayed_result (pl_tenant_id plan) (pl_action plan) (pl_key plan) (pl_permission plan) r')
            else Inl (Refused (ActionRunIdempotencyConflict (rn_id r))), fst w'))
    \<and> (\<forall>a req tid action perm scopes key payload.
         checked_request cx a req tid (fst w') = Inr (tid, action, perm, scopes, key, payload) \<and> (tid, ax_action_id action, key) = run_key r \<longrightarrow>
         request_scope (prepare_action_run cx a req tid) (fst w') =
           (if json_eq (JObj (rn_payload r)) (JObj payload) then Inr (Inl (replayed_result tid action key perm r'))
            else Inl (Refused (ActionRunIdempotencyConflict (rn_id r))), fst w'))"
proof -
  obtain r' where r': "r' \<in> set (action_runs (fst w'))" "run_identity r' = run_identity r"
    using action_steps_identity [OF assms(2,1,3)] by blast
  note same = run_identity_fields [OF r'(2)]
  have inv: "runs_inv (fst w')" using action_reachable_inv [OF action_steps_reachable [OF assms(2,1)]] .
  have commit: "request_scope (commit_action_run cx rt plan) (fst w') =
           (if json_eq (JObj (rn_payload r)) (JObj (pl_payload plan))
            then Inr (replayed_result (pl_tenant_id plan) (pl_action plan) (pl_key plan) (pl_permission plan) r')
            else Inl (Refused (ActionRunIdempotencyConflict (rn_id r))), fst w')"
    if "run_key (new_action_run plan) = run_key r" for rt plan
  proof -
    have "run_key r' = (pl_tenant_id plan, ax_action_id (pl_action plan), pl_key plan)" using that same by simp
    from run_by_key [OF inv r'(1) this] show ?thesis
      using same by (simp add: commit_scope_eq idempotent_replay_def del: json_eq.simps)
  qed
  have prepare: "request_scope (prepare_action_run cx a req tid) (fst w') =
           (if json_eq (JObj (rn_payload r)) (JObj payload) then Inr (Inl (replayed_result tid action key perm r'))
            else Inl (Refused (ActionRunIdempotencyConflict (rn_id r))), fst w')"
    if "checked_request cx a req tid (fst w') = Inr (tid, action, perm, scopes, key, payload)"
      "(tid, ax_action_id action, key) = run_key r" for a req tid action perm scopes key payload
  proof -
    have "run_key r' = (tid, ax_action_id action, key)" using that(2) same by simp
    from run_by_key [OF inv r'(1) this] show ?thesis
      using same that(1)
      by (simp add: request_scope_def prepare_action_run_def bind_op_def idempotent_replay_def commits_action_error_def
          del: json_eq.simps bind_op_Inr bind_op_Inl)
  qed
  show ?thesis
    using r' commit prepare by blast
qed



lemma enforce_outcome_Inr:
  assumes "enforce_outcome_platform_policies cx tid run req s = (Inr dg, u)"
    and "oq_status req \<in> set EXECUTION_ADVANCING_OUTCOME_STATUSES"
  obtains c d where "outcome_platform_policy_context cx tid run s = Inr (c, dg)"
    "enforced_decision tid ACTION_EXECUTION c dg s = Inr d" "pd_effect d \<noteq> effect_value DENY"
proof (cases "outcome_platform_policy_context cx tid run s")
  case (Inr built)
  obtain c g where built: "built = (c, g)" by fastforce
  show thesis
  proof (cases "enforced_decision tid ACTION_EXECUTION c g s")
    case (Inr d)
    then show thesis
      using assms \<open>outcome_platform_policy_context cx tid run s = Inr built\<close> built that [of c d]
      by (simp add: enforce_outcome_platform_policies_def bind_op_def lift_error_def enforce_platform_policy_deny_eq Let_def
          split: if_splits)
  qed (use assms Inr built in \<open>simp add: enforce_outcome_platform_policies_def bind_op_def lift_error_def
          enforce_platform_policy_deny_eq\<close>)
qed (use assms in \<open>simp add: enforce_outcome_platform_policies_def bind_op_def\<close>)

lemma replayed_status:
  assumes "run_shape evs run" "earlier_outcome tid req perm run = Some (Inr res)"
  shows "rn_status run = oq_status req" "res = outcome_result tid req perm run None None"
proof -
  from assms(2) obtain p where p: "rn_result_payload run = Some p"
    "dget p ''outcome_idempotency_key'' = JStr (oq_idempotency_key req)" "json_eq (JObj p) (JObj (outcome_payload req))"
    and res: "res = outcome_result tid req perm run None None"
    by (auto simp: earlier_outcome_def Let_def dget_def split: if_splits option.splits simp del: json_eq.simps)
  have st: "from_outcome (rn_status run) p" using assms(1) p(1,2) by (auto simp: run_shape_def from_decision_def)
  then have "map_of p ''status'' = Some (JStr (rn_status run))"
    by (auto simp: from_outcome_def dget_def split: option.splits)
  then have "(''status'', JStr (rn_status run)) \<in> set p" by (rule map_of_SomeD)
  then have "json_eq (JStr (rn_status run)) (JStr (oq_status req))"
    using p(3) unfolding json_eq.simps(2) list_all_iff by (force simp: outcome_payload_def)
  then show "rn_status run = oq_status req" by (simp add: json_num_def)
  show "res = outcome_result tid req perm run None None" by (rule res)
qed

text \<open>What recording an outcome takes and writes. The run is one of the tenant's, the caller holds the scope for outcomes,
  and the outcome is one of the four, without an external mutation. A replay reports the run as it is, which has the
  status asked for, and writes nothing. Otherwise the run neither awaits approval nor has an outcome; it gets the asked
  status and result, no other run changes, and exactly one audit event records it. An outcome that reports execution is
  refused by every active deny policy that applies, and by every active deny policy at all when the registry no
  longer has the action.\<close>

lemma action_run_outcome_writes:
  assumes "action_reachable cx (s, plans)" and "manufacturing_action_run_outcome cx he rid req p tid s = (Inr res, t)"
  shows "\<exists>bound old. bind_outcome_actor req p tid = Inr bound
    \<and> old \<in> set (action_runs s) \<and> rn_id old = rid \<and> rn_tenant_id old = tid
    \<and> ACTION_RUN_OUTCOME_RECORD_SCOPE \<in> set (oq_actor_scopes bound)
    \<and> oq_status req \<in> set ACTION_RUN_OUTCOME_STATUSES \<and> \<not> oq_external_mutation_started req
    \<and> or_status res = oq_status req
    \<and> (if or_idempotent_replay res then t = s \<and> rn_status old = oq_status req
       else rn_status old \<noteq> ''approval_required'' \<and> rn_status old \<notin> set ACTION_RUN_OUTCOME_STATUSES
         \<and> action_runs t = replace_run old (recorded_run (oq_status req) (outcome_payload bound) (clock_at s (clock_n s)) old) (action_runs s)
         \<and> (\<exists>ev. audit_events t = audit_events s @ [ev] \<and> ae_event_type ev = OUTCOME_RECORDED_EVENT_TYPE
              \<and> ae_tenant_id ev = tid \<and> ae_actor_id ev = oq_actor_id bound \<and> or_audit_event_id res = Some (ae_id ev)
              \<and> dget (ae_payload ev) ''action_run_id'' = JStr (uuid_text rid) \<and> dget (ae_payload ev) ''status'' = JStr (oq_status req))
         \<and> (oq_status req \<in> set EXECUTION_ADVANCING_OUTCOME_STATUSES \<and> policies_readable s \<longrightarrow>
              (\<exists>c degraded. outcome_platform_policy_context cx tid old s = Inr (c, degraded)
                \<and> (degraded \<longleftrightarrow> registry_action_entry (arefs cx) (rn_action_id old) tid s = None)
                \<and> (\<forall>pol \<in> set (active_policies tid ACTION_EXECUTION s). pp_effect pol = effect_value DENY \<longrightarrow>
                     \<not> degraded \<and> \<not> policy_applies c pol))))"
proof -
  have inv: "runs_inv s" using action_reachable_inv [OF assms(1)] by simp
  have drawn: "drawn_ok s" using inv by (simp add: runs_inv_def)
  obtain bound where b: "bind_outcome_actor req p tid = Inr bound"
    and run: "record_demo_action_run_outcome cx he rid bound tid s = (Inr res, t)"
    using assms(2) by (auto simp: manufacturing_action_run_outcome_def split: sum.splits)
  have bound: "oq_status bound = oq_status req" "oq_external_mutation_started bound = oq_external_mutation_started req"
    using b by (auto simp: bind_tenant_request_Inr with_outcome_actor_def split: option.splits)
  have scope: "ACTION_RUN_OUTCOME_RECORD_SCOPE \<in> set (oq_actor_scopes bound)"
    if "outcome_permission_decision tid bound = Inr perm" for perm
    using that by (auto simp: outcome_permission_decision_def Let_def split: if_splits)
  obtain old perm where old: "get_action_run tid rid s = Some old" "outcome_permission_decision tid bound = Inr perm"
    "outcome_issues (rn_status old) bound = []"
    and rest: "(case earlier_outcome tid bound perm old of
           Some answer \<Rightarrow> of_result answer
         | None \<Rightarrow>
             bind_op (enforce_outcome_platform_policies cx tid old bound) (\<lambda>context_degraded.
             apply_outcome cx he tid bound perm context_degraded old)) s = (Inr res, t)"
    using run
    by (auto simp: record_demo_action_run_outcome_def bind_op_Inr_iff validate_outcome_request_def split: option.splits list.splits)
  note found = get_action_run_SomeD [OF old(1)] and issues = old(3) [unfolded outcome_issues_Nil bound]
  show ?thesis
  proof (cases "earlier_outcome tid bound perm old")
    case (Some answer)
    then have "answer = Inr res" "t = s" using rest by simp_all
    moreover have "run_shape (audit_events s) old" using inv found by (simp add: runs_inv_def)
    ultimately have "rn_status old = oq_status req" "res = outcome_result tid bound perm old None None"
      using replayed_status [OF _ Some [unfolded \<open>answer = Inr res\<close>]] bound by simp_all
    then show ?thesis
      using b found issues scope [OF old(2)] \<open>t = s\<close>
      by (intro exI [of _ bound] exI [of _ old]) (simp add: outcome_result_def)
  next
    case None
    then obtain dg u where enf: "enforce_outcome_platform_policies cx tid old bound s = (Inr dg, u)"
      and ap: "apply_outcome cx he tid bound perm dg old u = (Inr res, t)"
      using rest by (auto simp: bind_op_Inr_iff)
    have u: "u = s" using enforce_outcome_cases(2) [OF enf] by blast
    obtain row w wr where row: "row = recorded_run (oq_status bound) (outcome_payload bound) (clock_at s (clock_n s)) old"
      and w: "w = s\<lparr>clock_n := Suc (clock_n s), action_runs := replace_run old row (action_runs s)\<rparr>"
      and res: "res = outcome_result tid bound perm row (Some (new_audit_event w (outcome_recorded_event tid bound perm dg row))) wr"
      and q: "quiet (with_audit_event w (outcome_recorded_event tid bound perm dg row)) t"
      using apply_outcome_Inr [OF ap [unfolded u] drawn conjunct1 [OF found]] found by blast
    define ev where "ev = new_audit_event w (outcome_recorded_event tid bound perm dg row)"
    have event: "ae_event_type ev = OUTCOME_RECORDED_EVENT_TYPE" "ae_tenant_id ev = tid" "ae_actor_id ev = oq_actor_id bound"
      "or_audit_event_id res = Some (ae_id ev)" "dget (ae_payload ev) ''action_run_id'' = JStr (uuid_text rid)"
      "dget (ae_payload ev) ''status'' = JStr (oq_status req)"
      using found by (simp_all add: ev_def res outcome_recorded_event_def dget_def outcome_result_def row bound)
    have tables: "action_runs t = replace_run old (recorded_run (oq_status req) (outcome_payload bound) (clock_at s (clock_n s)) old) (action_runs s)"
      "audit_events t = audit_events s @ [ev]"
      using q by (simp_all add: quiet_def w row ev_def bound)
    have flags: "\<not> or_idempotent_replay res" "or_status res = oq_status req"
      by (simp_all add: res outcome_result_def row bound)
    have policies: "\<exists>c degraded. outcome_platform_policy_context cx tid old s = Inr (c, degraded)
                \<and> (degraded \<longleftrightarrow> registry_action_entry (arefs cx) (rn_action_id old) tid s = None)
                \<and> (\<forall>pol \<in> set (active_policies tid ACTION_EXECUTION s). pp_effect pol = effect_value DENY \<longrightarrow>
                     \<not> degraded \<and> \<not> policy_applies c pol)"
      if adv: "oq_status req \<in> set EXECUTION_ADVANCING_OUTCOME_STATUSES \<and> policies_readable s"
    proof -
      obtain c d where c: "outcome_platform_policy_context cx tid old s = Inr (c, dg)"
        "enforced_decision tid ACTION_EXECUTION c dg s = Inr d" "pd_effect d \<noteq> effect_value DENY"
        using enforce_outcome_Inr [OF enf] adv bound by auto
      moreover have "dg \<longleftrightarrow> registry_action_entry (arefs cx) (rn_action_id old) tid s = None"
        using c(1) by (auto simp: outcome_platform_policy_context_def Let_def split: sum.splits amount_error.splits)
      moreover have "\<not> dg \<and> \<not> policy_applies c pol"
        if "pol \<in> set (active_policies tid ACTION_EXECUTION s)" "pp_effect pol = effect_value DENY" for pol
        using enforced_deny_iff [OF conjunct2 [OF adv], of tid ACTION_EXECUTION c dg] c(2,3) that by (metis Inr_inject)
      ultimately show ?thesis by blast
    qed
    show ?thesis
      using b found issues scope [OF old(2)] flags tables event policies earlier_outcome_None [OF None]
      by (intro exI [of _ bound] exI [of _ old]) simp
  qed
qed

text \<open>A refused request: the error that is committed comes with the one audit event of the denial.\<close>

definition denial :: "string \<Rightarrow> action_error \<Rightarrow> audit_event_create \<Rightarrow> bool" where
  "denial tid e ev \<longleftrightarrow>
     (\<exists>d i ty. e = ActionPolicyError (PlatformPolicyEnforcementDenied d i ty) \<and> pd_effect d = effect_value DENY)
     \<and> ac_event_type ev = ENFORCEMENT_DENIED_AUDIT_EVENT_TYPE \<and> ac_event_tenant_id ev = tid"

lemma denial_commits: "denial tid e ev \<Longrightarrow> commits_action_error e"
  by (auto simp: denial_def commits_action_error_def)

lemma action_rolls_back_errors [simp]:
  "\<not> commits_action_error DemoActionNotFound" "\<not> commits_action_error (ActionReferenceError x)"
  "\<not> commits_action_error (OntologyError y)" "\<not> commits_action_error (ActionPayloadValidationError issues)"
  "\<not> commits_action_error SchemaShapeError" "\<not> commits_action_error (ActionPermissionDenied ps d)"
  "\<not> commits_action_error ActionAmountOverflow" "\<not> commits_action_error (ActionRunIdempotencyConflict i)"
  by (simp_all add: commits_action_error_def)

lemma schema_errors:
  "field_type_matches v ty = Inl e \<Longrightarrow> \<not> commits_action_error e"
  "set_of_json v = Inl e \<Longrightarrow> \<not> commits_action_error e"
  "payload_ontology_refs action payload = Inl e \<Longrightarrow> \<not> commits_action_error e"
  "relationship_scopes_for_refs cx tid touched s = Inl e \<Longrightarrow> \<not> commits_action_error e"
  "find_action cx a tid s = Inl e \<Longrightarrow> \<not> commits_action_error e"
  "run_idempotency_key tid action req = Inl e \<Longrightarrow> \<not> commits_action_error e"
proof -
  show "field_type_matches v ty = Inl e \<Longrightarrow> \<not> commits_action_error e"
    by (cases v) (auto simp: field_type_matches_def split: if_splits)
  show "set_of_json v = Inl e \<Longrightarrow> \<not> commits_action_error e"
    by (cases v rule: set_of_json.cases) (auto split: if_splits)
  show "payload_ontology_refs action payload = Inl e \<Longrightarrow> \<not> commits_action_error e"
    by (auto simp: payload_ontology_refs_def split: json.splits)
  show "relationship_scopes_for_refs cx tid touched s = Inl e \<Longrightarrow> \<not> commits_action_error e"
    by (auto simp: relationship_scopes_for_refs_def split: if_splits sum.splits)
  show "find_action cx a tid s = Inl e \<Longrightarrow> \<not> commits_action_error e"
    by (auto simp: find_action_def split: sum.splits option.splits)
  show "run_idempotency_key tid action req = Inl e \<Longrightarrow> \<not> commits_action_error e"
    by (auto simp: run_idempotency_key_def split: option.splits list.splits if_splits)
qed

lemma field_issue_error: "field_issue properties k v = Inl e \<Longrightarrow> \<not> commits_action_error e"
  by (auto simp: field_issue_def Let_def split: json.splits sum.splits if_splits dest: schema_errors(1))

lemma field_issues_error: "field_issues properties payload = Inl e \<Longrightarrow> \<not> commits_action_error e"
  by (induction properties payload rule: field_issues.induct) (auto split: sum.splits dest: field_issue_error)

lemma validate_payload_error: "validate_payload cx action payload = Inl e \<Longrightarrow> \<not> commits_action_error e"
  by (auto simp: validate_payload_def Let_def split: sum.splits list.splits dest: schema_errors(2) field_issues_error)

lemma evaluate_action_permission_error: "evaluate_action_permission cx tid action req s = Inl e \<Longrightarrow> \<not> commits_action_error e"
  by (auto simp: evaluate_action_permission_def Let_def split: sum.splits if_splits dest: schema_errors(3,4))

lemma checked_request_error: "checked_request cx a req tid s = Inl e \<Longrightarrow> \<not> commits_action_error e"
  by (auto simp: checked_request_def split: sum.splits prod.splits if_splits
      dest: schema_errors(5,6) validate_payload_error evaluate_action_permission_error)

lemma policy_matches_error: "policy_matches c rows = Inl e \<Longrightarrow> e = StoredPolicyInvalid"
  by (induction c rows rule: policy_matches.induct) (auto split: if_splits option.splits sum.splits)

lemma enforced_decision_error: "enforced_decision tid sc c dg s = Inl e \<Longrightarrow> e = StoredPolicyInvalid"
  by (auto simp: enforced_decision_def evaluate_platform_policies_def Let_def split: sum.splits if_splits option.splits
      dest: policy_matches_error)

lemma enforce_denied:
  assumes "lift_error ActionPolicyError (enforce_platform_policy_deny tid a sc c pt pl dg) s = (Inl e, t)"
  shows "t = s \<and> \<not> commits_action_error e \<or> (\<exists>ev. denial tid e ev \<and> t = with_audit_event s ev)"
proof (cases "enforced_decision tid sc c dg s")
  case (Inl e')
  then show ?thesis
    using assms enforced_decision_error [OF Inl] by (simp add: enforce_platform_policy_deny_eq commits_action_error_def)
next
  case (Inr d)
  let ?ev = "enforcement_denied_event tid a pt pl d"
  have "pd_effect d = effect_value DENY" "t = with_audit_event s ?ev"
    "e = ActionPolicyError (PlatformPolicyEnforcementDenied d (uuid_at s (uuid_n s)) ENFORCEMENT_DENIED_AUDIT_EVENT_TYPE)"
    using assms Inr by (simp_all add: enforce_platform_policy_deny_eq Let_def split: if_splits)
  then have "denial tid e ?ev \<and> t = with_audit_event s ?ev" by (simp add: denial_def enforcement_denied_event_def)
  then show ?thesis by blast
qed

lemma prepare_denied:
  assumes "prepare_action_run cx a req tid s = (Inl e, t)"
  shows "t = s \<and> \<not> commits_action_error e \<or> (\<exists>ev. denial tid e ev \<and> t = with_audit_event s ev)"
proof (cases "checked_request cx a req tid s")
  case (Inl e')
  then have "\<not> commits_action_error e'" by (rule checked_request_error)
  with assms Inl show ?thesis by (simp add: prepare_action_run_def bind_op_def)
next
  case (Inr c)
  obtain tid' action perm scopes key payload where c: "c = (tid', action, perm, scopes, key, payload)" by (cases c) auto
  then have tid: "tid' = tid" using Inr find_action_Inr by (auto simp: checked_request_Inr)
  show ?thesis
  proof (cases "get_action_run_by_idempotency_key tid (ax_action_id action) key s")
    case (Some existing)
    then show ?thesis
      using assms Inr c tid
      by (auto simp: prepare_action_run_def bind_op_def idempotent_replay_def
          simp del: json_eq.simps bind_op_Inr bind_op_Inl split: if_splits)
  next
    case None
    then have enf: "enforce_creation_policies cx tid action req key s = (Inl e, t)"
      using assms Inr c tid by (auto simp: prepare_action_run_def bind_op_def split: prod.splits sum.splits)
    show ?thesis
    proof (cases "platform_policy_context cx action req")
      case (Inl e')
      then have "t = s" "e = e'" using enf by (simp_all add: enforce_creation_policies_def bind_op_def)
      moreover have "\<not> commits_action_error e'"
        using Inl by (auto simp: platform_policy_context_def checked_context_def
            split: sum.splits if_splits amount_error.splits prod.splits)
      ultimately show ?thesis by simp
    next
      case (Inr pc)
      then show ?thesis using enf by (intro enforce_denied) (simp add: enforce_creation_policies_def bind_op_def)
    qed
  qed
qed

lemma outcome_context_error: "outcome_platform_policy_context cx tid run s = Inl e \<Longrightarrow> \<not> commits_action_error e"
  by (auto simp: outcome_platform_policy_context_def checked_context_def Let_def
      split: sum.splits if_splits amount_error.splits prod.splits)

lemma enforce_outcome_denied:
  assumes "enforce_outcome_platform_policies cx tid run req s = (Inl e, t)"
  shows "t = s \<and> \<not> commits_action_error e \<or> (\<exists>ev. denial tid e ev \<and> t = with_audit_event s ev)"
proof (cases "outcome_platform_policy_context cx tid run s")
  case (Inl e')
  then show ?thesis
    using assms outcome_context_error [OF Inl] by (auto simp: enforce_outcome_platform_policies_def bind_op_def split: if_splits)
next
  case (Inr built)
  obtain c g where built: "built = (c, g)" by fastforce
  let ?enforce = "lift_error ActionPolicyError (enforce_platform_policy_deny tid (oq_actor_id req) ACTION_EXECUTION c
      ''action_run_outcome'' (outcome_policy_audit run req g) g)"
  have "bind_op ?enforce (\<lambda>_. return_op g) s = (Inl e, t)"
    using assms Inr built by (auto simp: enforce_outcome_platform_policies_def split: if_splits)
  then have "?enforce s = (Inl e, t)" by (auto simp: bind_op_Inl_iff)
  then show ?thesis by (rule enforce_denied)
qed

lemma raises_apply_outcome: "raises_only action_rolls_back (apply_outcome cx he tid req perm dg old)"
  unfolding apply_outcome_def by (intro op_raises)

lemma outcome_denied:
  assumes "record_demo_action_run_outcome cx he rid req tid s = (Inl e, t)"
  shows "\<not> commits_action_error e \<or> (\<exists>ev. denial tid e ev \<and> t = with_audit_event s ev)"
proof (cases "get_action_run tid rid s")
  case None
  then have "e = DemoActionRunNotFound" using assms by (simp add: record_demo_action_run_outcome_def)
  then show ?thesis by (simp add: commits_action_error_def)
next
  case found: (Some run)
  show ?thesis
  proof (cases "outcome_permission_decision tid req")
    case (Inl e')
    then have "e = e'" using assms found by (simp add: record_demo_action_run_outcome_def bind_op_def)
    then show ?thesis using Inl
      by (auto simp: outcome_permission_decision_def commits_action_error_def Let_def split: if_splits)
  next
    case perm: (Inr perm)
    show ?thesis
    proof (cases "validate_outcome_request (rn_status run) req")
      case (Inl e')
      then have "e = e'" using assms found perm by (simp add: record_demo_action_run_outcome_def bind_op_def)
      then show ?thesis using Inl
        by (auto simp: validate_outcome_request_def commits_action_error_def split: list.splits)
    next
      case valid: (Inr u)
      show ?thesis
      proof (cases "earlier_outcome tid req perm run")
        case (Some answer)
        then have "answer = Inl e" using assms found perm valid by (simp add: record_demo_action_run_outcome_def bind_op_def)
        with Some show ?thesis
          by (auto simp: earlier_outcome_def commits_action_error_def Let_def simp del: json_eq.simps split: if_splits)
      next
        case None
        then have "bind_op (enforce_outcome_platform_policies cx tid run req)
            (\<lambda>dg. apply_outcome cx he tid req perm dg run) s = (Inl e, t)"
          using assms found perm valid by (simp add: record_demo_action_run_outcome_def bind_op_def)
        then consider "enforce_outcome_platform_policies cx tid run req s = (Inl e, t)"
          | dg u where "apply_outcome cx he tid req perm dg run u = (Inl e, t)"
          unfolding bind_op_Inl_iff by blast
        then show ?thesis
        proof cases
          case 1
          then show ?thesis using enforce_outcome_denied by blast
        next
          case 2
          then show ?thesis using raises_apply_outcome unfolding raises_only_def by blast
        qed
      qed
    qed
  qed
qed

lemma request_scope_refused:
  assumes "request_scope m s = (Inl e, t)" and "\<And>e' t'. m s = (Inl e', t') \<Longrightarrow>
      \<not> commits_action_error e' \<or> (\<exists>ev. denial tid e' ev \<and> t' = with_audit_event s ev)"
  shows "same_tables s t \<or> (\<exists>e' ev. e = Refused e' \<and> denial tid e' ev \<and> t = with_audit_event s ev)"
proof -
  obtain e' t' where m: "m s = (Inl e', t')" "e = Refused e'" "t = (if commits_action_error e' then t' else rollback s t')"
    using assms(1) by (auto simp: request_scope_def split: prod.splits sum.splits)
  then show ?thesis using assms(2) [OF m(1)] by (auto simp: same_tables_def rollback_def)
qed

text \<open>C25. A refused creation or outcome leaves no trace in the tables, with one exception: a denial by a policy, which is
  committed, and leaves exactly the one audit event of the denial.\<close>

theorem refused_action_requests:
  assumes "manufacturing_action_run cx rt a req p tid s = (Inl e, t)
    \<or> manufacturing_action_run_outcome cx he rid oreq p tid s = (Inl e, t)"
  shows "same_tables s t
    \<or> (\<exists>d i ty ev. e = Refused (ActionPolicyError (PlatformPolicyEnforcementDenied d i ty)) \<and> pd_effect d = effect_value DENY
         \<and> t = with_audit_event s ev \<and> ac_event_type ev = ENFORCEMENT_DENIED_AUDIT_EVENT_TYPE \<and> ac_event_tenant_id ev = tid)"
proof -
  have create: "\<not> commits_action_error e' \<or> (\<exists>ev. denial tid e' ev \<and> t' = with_audit_event s ev)"
    if run: "record_demo_action_run cx rt a bound tid s = (Inl e', t')" for bound e' t'
  proof -
    have "prepare_action_run cx a bound tid s = (Inl e', t')
        \<or> (\<exists>plan u. commit_action_run cx rt plan u = (Inl e', t'))"
    proof -
      have "prepare_action_run cx a bound tid s = (Inl e', t')
          \<or> (\<exists>x u. (case x of Inl replayed \<Rightarrow> return_op replayed | Inr plan \<Rightarrow> commit_action_run cx rt plan) u = (Inl e', t'))"
        using run unfolding record_demo_action_run_def bind_op_Inl_iff by blast
      then show ?thesis
      proof
        assume "\<exists>x u. (case x of Inl replayed \<Rightarrow> return_op replayed | Inr plan \<Rightarrow> commit_action_run cx rt plan) u = (Inl e', t')"
        then obtain x u where "(case x of Inl replayed \<Rightarrow> return_op replayed | Inr plan \<Rightarrow> commit_action_run cx rt plan) u = (Inl e', t')"
          by blast
        then show ?thesis by (cases x) auto
      qed blast
    qed
    moreover have "\<not> commits_action_error e'" if c: "commit_action_run cx rt plan u = (Inl e', t')" for plan u
      using c raises_follow [of cx rt plan, unfolded raises_only_def]
      by (auto simp: commit_action_run_def Let_def idempotent_replay_def split: prod.splits sum.splits option.splits approval_error.splits if_splits
          simp del: json_eq.simps)
    ultimately show ?thesis using prepare_denied by blast
  qed
  have "same_tables s t \<or> (\<exists>e' ev. e = Refused e' \<and> denial tid e' ev \<and> t = with_audit_event s ev)"
    using assms
  proof
    assume "manufacturing_action_run cx rt a req p tid s = (Inl e, t)"
    then show ?thesis
      using request_scope_refused [of "record_demo_action_run cx rt a _ tid"] create
      by (auto simp: manufacturing_action_run_def split: sum.splits)
  next
    assume "manufacturing_action_run_outcome cx he rid oreq p tid s = (Inl e, t)"
    then show ?thesis
      using request_scope_refused [of "record_demo_action_run_outcome cx he rid _ tid"] outcome_denied
      by (auto simp: manufacturing_action_run_outcome_def split: sum.splits)
  qed
  then show ?thesis by (auto simp: denial_def)
qed

section \<open>A concrete run\<close>

definition example_open_action :: action_entry where
  "example_open_action = example_action_entry\<lparr>ax_approval_mode := ''not_required'', ax_risk_level := ''low''\<rparr>"

definition example_action_codecs :: action_codecs where
  "example_action_codecs =
     \<lparr>dc_inbox = (\<lambda>_. Some example_inbox),
      dc_registry = (\<lambda>_. Some (example_registry\<lparr>xr_actions := [example_open_action]\<rparr>)), dc_str = (\<lambda>_. []),
      dc_console_run = (\<lambda>_ _. None), dc_result = (\<lambda>_. None), dc_float = (\<lambda>_. None), dc_uuid5 = (\<lambda>_ _. 0),
      dc_ontology = (\<lambda>_. None), dc_set_order = (\<lambda>xs. xs)\<rparr>"

definition example_action_db :: db where
  "example_action_db = example_approval_db\<lparr>platform_policies := []\<rparr>"

definition example_operator :: oidc_principal where
  "example_operator =
     \<lparr>sp_tenant_id = ''acme'', sp_actor_id = ''olga'', sp_scopes = [''actions:pay'', ''actions:result:record''],
      op_expires_at = None, op_subject_id = None, op_session_source = ''bearer_token''\<rparr>"

definition example_run_request :: action_run_request where
  "example_run_request =
     \<lparr>aq_actor_id = ''olga'', aq_actor_scopes = [''actions:pay'', ''actions:result:record''],
      aq_idempotency_key = Some ''k-1'', aq_payload = [(''supplier'', JStr ''s-1'')]\<rparr>"

definition example_action_runtime :: action_runtime where
  "example_action_runtime = \<lparr>an_history_enabled = False, an_signal = None\<rparr>"

lemma example_run_bound: "bind_run_actor example_run_request (Some example_operator) ''acme'' = Inr example_run_request"
  by (simp add: bind_tenant_request_def bind_request_actor_def example_operator_def example_run_request_def with_run_actor_def)

lemma example_arefs [simp]:
  "dc_registry (arefs example_action_codecs) j = Some (example_registry\<lparr>xr_actions := [example_open_action]\<rparr>)"
  by (simp add: example_action_codecs_def reference_codecs.defs)

lemma example_find_action:
  "find_action example_action_codecs ''pay'' ''acme'' example_action_db = Inr (''acme'', example_open_action, ''1'')"
proof -
  have "get_demo_reference_record ''acme'' ACTION_REGISTRY_SURFACE MANUFACTURING_ACTION_REGISTRY_REFERENCE_ID example_action_db =
     Some (example_reference ACTION_REGISTRY_SURFACE MANUFACTURING_ACTION_REGISTRY_REFERENCE_ID)"
    "manufacturing_tenant_known ''acme'' example_action_db = Inr ()"
    by (simp_all add: example_action_db_def get_demo_reference_record_def manufacturing_tenant_known_def get_tenant_def
        has_demo_reference_records_def example_approval_db_def example_reference_def empty_db_def APPROVAL_INBOX_SURFACE_def
        ACTION_REGISTRY_SURFACE_def MANUFACTURING_APPROVAL_INBOX_REFERENCE_ID_def
        MANUFACTURING_ACTION_REGISTRY_REFERENCE_ID_def)
  then show ?thesis
    by (simp add: find_action_def require_persisted_manufacturing_action_registry_def
        get_persisted_manufacturing_action_registry_def example_registry_def example_open_action_def example_action_entry_def)
qed

lemma example_open_action_sel [simp]:
  "ax_action_id example_open_action = ''pay''" "ax_required_permissions example_open_action = [''actions:pay'']"
  "ax_domain example_open_action = ''finance''" "ax_risk_level example_open_action = ''low''"
  "ax_autonomy_ceiling example_open_action = ''L2''" "ax_execution_mode example_open_action = ''governed''"
  "ax_runtime_adapter example_open_action = ''axis-temporal-adapter''" "ax_workflow_bindings example_open_action = [''wf-1'']"
  "ax_approval_refs example_open_action = [''appr-1'']" "ax_idempotency_required example_open_action"
  "\<not> requires_approval example_open_action" "ax_audit_event_type example_open_action = ''action.pay.requested''"
  "ax_input_schema example_open_action = 
        [(''properties'', JObj [(''supplier'', JObj [(''type'', JStr ''string'')]),
           (''requested_amount'', JObj [(''type'', JStr ''number'')])]),
         (''required'', JList [JStr ''supplier''])]"
  by (simp_all add: example_open_action_def example_action_entry_def requires_approval_def)

lemma example_checked:
  "checked_request example_action_codecs ''pay'' example_run_request ''acme'' example_action_db =
     Inr (''acme'', example_open_action, \<lparr>allowed = True, reason = ''allowed''\<rparr>, [], ''k-1'',
       stored_payload example_open_action example_run_request ''1'')"
proof -
  have payload: "aq_payload example_run_request = [(''supplier'', JStr ''s-1'')]"
    "aq_idempotency_key example_run_request = Some ''k-1''" "aq_actor_id example_run_request = ''olga''"
    "aq_actor_scopes example_run_request = [''actions:pay'', ''actions:result:record'']"
    by (simp_all add: example_run_request_def)
  have valid: "validate_payload example_action_codecs example_open_action (aq_payload example_run_request) = Inr ()"
    by (simp add: validate_payload_def payload schema_get_def missing_issues_def has_field_def field_issue_def
        field_type_matches_def dget_def truthy_def example_action_codecs_def Let_def)
  have perm: "evaluate_action_permission example_action_codecs ''acme'' example_open_action example_run_request example_action_db =
      Inr (\<lparr>allowed = True, reason = ''allowed''\<rparr>, [])"
    unfolding evaluate_action_permission_Inr
    by (intro exI [of _ "[]"])
      (simp add: payload_ontology_refs_def schema_get_def field_refs_def dget_def truthy_def payload relationship_scopes_for_refs_def)
  show ?thesis
    unfolding checked_request_Inr
    using example_find_action valid perm
    by (intro exI [of _ "''1''"]) (simp add: payload_tenant_ok_def payload dget_def run_idempotency_key_def)
qed

definition example_policy_verdict :: policy_decision where
  "example_policy_verdict =
     (case evaluate_platform_policies ''acme'' ACTION_EXECUTION
        \<lparr>px_action_id = Some ''pay'', px_action_domain = Some ''finance'', px_risk_level = Some ''low'',
         px_autonomy_level = Some ''L2'', px_requested_amount = None, px_requested_amount_malformed = False\<rparr> example_action_db of
        Inr d \<Rightarrow> d)"

definition example_plan :: action_plan where
  "example_plan =
     \<lparr>pl_tenant_id = ''acme'', pl_action = example_open_action, pl_request = example_run_request,
      pl_permission = \<lparr>allowed = True, reason = ''allowed''\<rparr>, pl_relationship_scopes = [], pl_key = ''k-1'',
      pl_payload = stored_payload example_open_action example_run_request ''1'', pl_policy = example_policy_verdict\<rparr>"

lemma example_prepared:
  "prepare_action_run example_action_codecs ''pay'' example_run_request ''acme'' example_action_db =
     (Inr (Inr example_plan), example_action_db)"
proof -
  let ?c = "\<lparr>px_action_id = Some ''pay'', px_action_domain = Some ''finance'', px_risk_level = Some ''low'',
         px_autonomy_level = Some ''L2'', px_requested_amount = None, px_requested_amount_malformed = False\<rparr>"
  have none: "get_action_run_by_idempotency_key ''acme'' ''pay'' ''k-1'' example_action_db = None"
    by (simp add: get_action_run_by_idempotency_key_def example_action_db_def example_approval_db_def empty_db_def)
  have c: "platform_policy_context example_action_codecs example_open_action example_run_request = Inr ?c"
    by (simp add: platform_policy_context_def payload_requested_amount_def example_run_request_def checked_context_def
        policy_context_valid_def SUPPORTED_AUTONOMY_LEVELS_def)
  obtain d where d: "evaluate_platform_policies ''acme'' ACTION_EXECUTION ?c example_action_db = Inr d"
      "pd_effect d = DEFAULT_ALLOW_EFFECT"
    by (auto simp: evaluate_platform_policies_def list_active_platform_policies_for_scope_def example_action_db_def Let_def)
  then have e: "enforced_decision ''acme'' ACTION_EXECUTION ?c False example_action_db = Inr d"
    by (simp add: enforced_decision_def)
  have "enforce_creation_policies example_action_codecs ''acme'' example_open_action example_run_request ''k-1'' example_action_db
      = (Inr d, example_action_db)"
    using c e d(2) by (simp add: enforce_creation_eq)
  moreover have "example_policy_verdict = d" using d(1) by (simp add: example_policy_verdict_def)
  ultimately show ?thesis
    using example_checked none by (simp add: prepare_action_run_def bind_op_def example_plan_def)
qed

lemma example_created:
  obtains res t where
    "manufacturing_action_run example_action_codecs example_action_runtime ''pay'' example_run_request (Some example_operator) ''acme''
       example_action_db = (Inr res, t)" "\<not> nr_idempotent_replay res"
    "action_runs t = [inserted_run example_action_db (new_action_run example_plan)]"
    "action_step example_action_codecs (example_action_db, [example_plan]) (t, [])"
    "workflow_runs t = []"
proof -
  let ?w = "with_run example_action_db (new_action_run example_plan)"
  let ?run = "inserted_run example_action_db (new_action_run example_plan)"
  have none: "get_action_run_by_idempotency_key (pl_tenant_id example_plan) (ax_action_id (pl_action example_plan))
      (pl_key example_plan) example_action_db = None"
    by (simp add: get_action_run_by_idempotency_key_def example_action_db_def example_approval_db_def empty_db_def)
  have plan: "pl_tenant_id example_plan = ''acme''" "pl_action example_plan = example_open_action"
    by (simp_all add: example_plan_def)
  obtain res t where f: "follow_creation example_action_codecs example_action_runtime example_plan ?run ?w = (Inr res, t)"
    and wf: "workflow_runs t = []"
  proof -
    have sg: "signal_action_workflow example_action_runtime example_plan u =
        Inr (Some (deferred_signal_action_run (action_signal_of example_plan u ''wf-1'')))" for u
      by (simp add: signal_action_workflow_def plan example_action_runtime_def Let_def)
    have off: "\<not> an_history_enabled example_action_runtime" by (simp add: example_action_runtime_def)
    have nowf: "get_workflow_run ''acme'' ''wf-1'' (with_audit_event ?w ev) = None" for ev
      by (simp add: get_workflow_run_def with_run_def example_action_db_def example_approval_db_def empty_db_def)
    show thesis
      by (rule that, simp add: follow_creation_def bind_op_def sg plan off record_workflow_action_run_def
          advance_workflow_run_def nowf del: bind_op_Inr bind_op_Inl)
        (simp add: with_run_def example_action_db_def example_approval_db_def empty_db_def)
  qed
  have commit: "request_scope (commit_action_run example_action_codecs example_action_runtime example_plan) example_action_db = (Inr res, t)"
    using none f by (simp add: commit_scope_eq del: request_scope_Inr)
  have run: "manufacturing_action_run example_action_codecs example_action_runtime ''pay'' example_run_request (Some example_operator) ''acme''
       example_action_db = (Inr res, t)"
    using commit example_prepared by (simp add: manufacturing_action_run_def example_run_bound record_demo_action_run_def bind_op_def)
  have step: "action_step example_action_codecs (example_action_db, [example_plan]) (t, [])"
    using action_step.committed [OF _ commit, of "[example_plan]"] by simp
  from f show thesis
  proof (rule follow_creation_Inr)
    fix sg wr
    assume res: "res = created_result example_plan ?run sg (new_audit_event ?w (run_created_event example_plan ?run sg)) wr"
      and q: "quiet (with_audit_event ?w (run_created_event example_plan ?run sg)) t"
    have "\<not> nr_idempotent_replay res" by (simp add: res created_result_def Let_def)
    moreover have "action_runs t = [?run]"
      using q by (simp_all add: quiet_def frame_def with_run_def example_action_db_def example_approval_db_def empty_db_def)
    ultimately show thesis using that run step wf by blast
  qed
qed

lemma example_action_start: "action_reachable example_action_codecs (example_action_db, [])"
  by (rule action_reachable.start) (simp_all add: example_action_db_def example_approval_db_def empty_db_def)

lemma example_action_planned:
  "action_reachable example_action_codecs (example_action_db, [example_plan])"
  using action_reachable.step [OF example_action_start
      action_step.asked [OF example_run_bound, of example_action_codecs "''pay''" example_action_db _ example_action_db]]
  by (simp add: request_scope_def example_prepared)

lemma example_set_order: "set (dc_set_order example_action_codecs xs) = set xs"
  by (simp add: example_action_codecs_def)

definition example_outcome_request :: action_run_outcome_request where
  "example_outcome_request =
     \<lparr>oq_actor_id = ''olga'', oq_actor_scopes = [''actions:pay'', ''actions:result:record''], oq_idempotency_key = ''o-1'',
      oq_status = ''execution_failed'', oq_result_summary = ''refused by the bank'', oq_evidence_refs = [''doc-1''],
      oq_metrics = [], oq_external_mutation_started = False\<rparr>"

lemma example_outcome_bound:
  "bind_outcome_actor example_outcome_request (Some example_operator) ''acme'' = Inr example_outcome_request"
  by (simp add: bind_tenant_request_def bind_request_actor_def example_operator_def example_outcome_request_def with_outcome_actor_def)

text \<open>An outcome for the run of the example.\<close>

lemma example_finished:
  assumes "action_runs s = [inserted_run example_action_db (new_action_run example_plan)]"
    and "rn_workflow_id (inserted_run example_action_db (new_action_run example_plan)) = Some ''wf-1''"
    and "workflow_runs s = []"
  obtains res t where
    "manufacturing_action_run_outcome example_action_codecs False (uuid_at example_action_db (uuid_n example_action_db))
       example_outcome_request (Some example_operator) ''acme'' s = (Inr res, t)" "\<not> or_idempotent_replay res"
proof -
  let ?run = "inserted_run example_action_db (new_action_run example_plan)"
  have plan: "pl_tenant_id example_plan = ''acme''" "pl_approval_required example_plan = False"
  proof -
    show "pl_tenant_id example_plan = ''acme''" by (simp add: example_plan_def)
    have "pd_effect example_policy_verdict = DEFAULT_ALLOW_EFFECT"
      by (simp add: example_policy_verdict_def evaluate_platform_policies_def list_active_platform_policies_for_scope_def
          example_action_db_def Let_def)
    then show "pl_approval_required example_plan = False" by (simp add: pl_approval_required_def example_plan_def)
  qed
  have found: "get_action_run ''acme'' (uuid_at example_action_db (uuid_n example_action_db)) s = Some ?run"
    by (simp add: get_action_run_def assms(1) plan)
  have st: "action_status (pl_approval_required example_plan) = ''preview_generated''" by (simp add: action_status_def plan)
  have perm: "outcome_permission_decision ''acme'' example_outcome_request = Inr \<lparr>allowed = True, reason = ''allowed''\<rparr>"
    by (auto simp: outcome_permission_decision_def permission_request_valid_def example_outcome_request_def Let_def
        ACTION_RUN_OUTCOME_RECORD_SCOPE_def evaluate_permission_def split: option.splits)
  have fields: "oq_status example_outcome_request = ''execution_failed''"
    "\<not> oq_external_mutation_started example_outcome_request" by (simp_all add: example_outcome_request_def)
  have valid: "validate_outcome_request (rn_status ?run) example_outcome_request = Inr ()"
    by (simp add: validate_outcome_request_def outcome_issues_def st fields ACTION_RUN_OUTCOME_STATUSES_def)
  have none: "earlier_outcome ''acme'' example_outcome_request perm ?run = None" for perm
    by (simp add: earlier_outcome_def st dget_def ACTION_RUN_OUTCOME_STATUSES_def)
  have enf: "enforce_outcome_platform_policies example_action_codecs ''acme'' ?run example_outcome_request s = (Inr False, s)"
    by (simp add: enforce_outcome_platform_policies_def fields EXECUTION_ADVANCING_OUTCOME_STATUSES_def)
  let ?rec = "record_action_run_result ''acme'' (rn_id ?run) (oq_status example_outcome_request) (outcome_payload example_outcome_request)"
  obtain run w where rec: "?rec s = (Inr run, w)" "rn_workflow_id run = Some ''wf-1''" "workflow_runs w = []"
    using assms by (auto simp: record_action_run_result_def plan Let_def bind_op_def)
  have nowf: "get_workflow_run ''acme'' ''wf-1'' (with_audit_event w ev) = None" for ev
    by (simp add: get_workflow_run_def rec(3))
  obtain res t where ap: "apply_outcome example_action_codecs False ''acme'' example_outcome_request \<lparr>allowed = True, reason = ''allowed''\<rparr>
      False ?run s = (Inr res, t)" "\<not> or_idempotent_replay res"
    using rec by (simp add: apply_outcome_def bind_op_def lift_error_def record_workflow_action_run_outcome_def
        advance_workflow_run_def nowf outcome_result_def del: bind_op_Inr bind_op_Inl)
  have "record_demo_action_run_outcome example_action_codecs False (uuid_at example_action_db (uuid_n example_action_db))
      example_outcome_request ''acme'' s = (Inr res, t)"
    using found perm valid none enf ap(1) by (simp add: record_demo_action_run_outcome_def bind_op_def del: bind_op_Inr bind_op_Inl)
  then show thesis
    using that [of res t] ap(2) by (simp add: manufacturing_action_run_outcome_def example_outcome_bound)
qed

lemma example_created_reachable:
  "action_step example_action_codecs (example_action_db, [example_plan]) (t, []) \<Longrightarrow> action_reachable example_action_codecs (t, [])"
  by (rule action_reachable.step [OF example_action_planned])

lemma validate_payload_conforms_example:
  "payload_conforms (ax_input_schema example_open_action) (aq_payload example_run_request)
   \<and> \<not> payload_conforms (ax_input_schema example_open_action) [(''supplier'', JInt 7)]"
proof -
  note iff = validate_payload_conforms [of example_action_codecs example_open_action, OF example_set_order]
  have "validate_payload example_action_codecs example_open_action (aq_payload example_run_request) = Inr ()"
    "validate_payload example_action_codecs example_open_action [(''supplier'', JInt 7)] \<noteq> Inr ()"
    by (simp_all add: validate_payload_def example_run_request_def schema_get_def missing_issues_def has_field_def field_issue_def
        field_type_matches_def dget_def truthy_def example_action_codecs_def Let_def)
  with iff show ?thesis by blast
qed

theorem action_run_requires_authority_witness:
  "\<exists>res t action version.
     manufacturing_action_run example_action_codecs example_action_runtime ''pay'' example_run_request (Some example_operator) ''acme''
       example_action_db = (Inr res, t)
     \<and> find_action example_action_codecs ''pay'' ''acme'' example_action_db = Inr (''acme'', action, version)
     \<and> set (ax_required_permissions action) \<subseteq> set (sp_scopes example_operator)
     \<and> payload_conforms (ax_input_schema action) (aq_payload example_run_request)"
proof (rule example_created)
  fix res t
  assume run: "manufacturing_action_run example_action_codecs example_action_runtime ''pay'' example_run_request (Some example_operator)
      ''acme'' example_action_db = (Inr res, t)"
  from action_run_requires_authority [OF run example_set_order] run show ?thesis by auto
qed

lemma action_run_writes_example:
  "\<exists>res t run ev.
     manufacturing_action_run example_action_codecs example_action_runtime ''pay'' example_run_request (Some example_operator) ''acme''
       example_action_db = (Inr res, t)
     \<and> action_runs t = action_runs example_action_db @ [run] \<and> rn_requested_by run = ''olga''
     \<and> audit_events t = audit_events example_action_db @ [ev] \<and> ae_event_type ev = ''action.pay.requested''"
proof (rule example_created)
  fix res t
  assume run: "manufacturing_action_run example_action_codecs example_action_runtime ''pay'' example_run_request (Some example_operator)
      ''acme'' example_action_db = (Inr res, t)" and fresh: "\<not> nr_idempotent_replay res"
  have "sp_actor_id example_operator = ''olga''" by (simp add: example_operator_def)
  with action_run_writes [OF run] run fresh show ?thesis by (auto simp: example_find_action)
qed

theorem action_run_created_once_witness:
  "\<exists>t run. action_reachable example_action_codecs (t, []) \<and> action_runs t = [run]
     \<and> request_scope (commit_action_run example_action_codecs example_action_runtime example_plan) t =
        (Inr (replayed_result ''acme'' example_open_action ''k-1'' (pl_permission example_plan) run), t)"
proof (rule example_created)
  fix res t
  assume rows: "action_runs t = [inserted_run example_action_db (new_action_run example_plan)]"
    and step: "action_step example_action_codecs (example_action_db, [example_plan]) (t, [])"
  note reach = example_created_reachable [OF step]
  let ?run = "inserted_run example_action_db (new_action_run example_plan)"
  have same: "json_eq (JObj (rn_payload ?run)) (JObj (pl_payload example_plan))"
    by (simp add: example_plan_def stored_payload_def example_run_request_def json_num_def)
  have "\<exists>r' \<in> set (action_runs t). request_scope (commit_action_run example_action_codecs example_action_runtime example_plan) t =
      (Inr (replayed_result (pl_tenant_id example_plan) (pl_action example_plan) (pl_key example_plan) (pl_permission example_plan) r'), t)"
    using action_run_created_once [OF reach, of "(t, [])" ?run] rows same by (auto simp: action_steps_def simp del: json_eq.simps request_scope_Inr)
  then show ?thesis
    using reach rows by (intro exI [of _ t] exI [of _ ?run]) (simp add: example_plan_def del: request_scope_Inr)
qed



lemma action_run_outcome_writes_example:
  "\<exists>s res t old. action_reachable example_action_codecs (s, []) \<and> action_runs s = [old]
     \<and> manufacturing_action_run_outcome example_action_codecs False (rn_id old) example_outcome_request (Some example_operator) ''acme'' s
         = (Inr res, t)
     \<and> or_status res = ''execution_failed'' \<and> map rn_status (action_runs t) = [''execution_failed'']"
proof (rule example_created)
  fix res0 s
  assume rows: "action_runs s = [inserted_run example_action_db (new_action_run example_plan)]"
    and step: "action_step example_action_codecs (example_action_db, [example_plan]) (s, [])" and wf: "workflow_runs s = []"
  note reach = example_created_reachable [OF step]
  let ?run = "inserted_run example_action_db (new_action_run example_plan)"
  have "rn_workflow_id ?run = Some ''wf-1''" by (simp add: example_plan_def)
  then obtain res t where out: "manufacturing_action_run_outcome example_action_codecs False (rn_id ?run)
       example_outcome_request (Some example_operator) ''acme'' s = (Inr res, t)" and fresh: "\<not> or_idempotent_replay res"
    using example_finished [OF rows _ wf] by auto
  have st: "oq_status example_outcome_request = ''execution_failed''" by (simp add: example_outcome_request_def)
  have "or_status res = ''execution_failed'' \<and> map rn_status (action_runs t) = [''execution_failed'']"
    using action_run_outcome_writes [OF reach out] fresh rows by (auto simp: st replace_run_def)
  with reach rows out show ?thesis by (intro exI [of _ s] exI [of _ res] exI [of _ t] exI [of _ ?run]) simp
qed

theorem refused_action_requests_witness:
  "\<exists>t. manufacturing_action_run example_action_codecs example_action_runtime ''refund'' example_run_request (Some example_operator)
       ''acme'' example_action_db = (Inl (Refused DemoActionNotFound), t)
     \<and> same_tables example_action_db t"
proof -
  obtain t where run: "manufacturing_action_run example_action_codecs example_action_runtime ''refund'' example_run_request
      (Some example_operator) ''acme'' example_action_db = (Inl (Refused DemoActionNotFound), t)"
  proof -
    have "find_action example_action_codecs ''refund'' ''acme'' example_action_db = Inl DemoActionNotFound"
      using example_find_action
      by (auto simp: find_action_def example_registry_def
          require_persisted_manufacturing_action_registry_def get_persisted_manufacturing_action_registry_def
          split: sum.splits option.splits if_splits reference_error.splits)
    then show thesis
      by (intro that) (simp add: manufacturing_action_run_def example_run_bound request_scope_def record_demo_action_run_def
          prepare_action_run_def checked_request_def bind_op_def del: bind_op_Inr bind_op_Inl)
  qed
  with refused_action_requests [OF disjI1 [OF run]] show ?thesis by auto
qed

end
