(* ===== verification/Audit_Ledger.thy ===== *)
theory Audit_Ledger
  imports Approval_Reference Identity
begin

text \<open>
  Retention of the audit ledger and the legal holds that suspend it (\<^verbatim>\<open>axis_api/audit_queries.py\<close> from line 139 on, the
  ledger and hold methods of \<^verbatim>\<open>axis_api/persistence.py\<close> and their endpoints in \<^verbatim>\<open>axis_api/main.py\<close>): physical deletion
  of expired events with its evidence, holds on the events of a tenant, and holds on objects of the export store. The
  digest, the canonical JSON text and the object store are parameters.
\<close>

section \<open>Data\<close>

datatype ledger_error =
    LegalHoldPermissionDenied permission_decision
  | RetentionDeletionPermissionDenied permission_decision
  | LegalHoldNotFound
  | LegalHoldConflict string string
  | ObjectLegalHoldKeyOutOfScope
  | ExportWormEnforcementError string
  | ObjectStoreFailure
  | LedgerIntegrityError string
  | LedgerRecordNotFound
  | LedgerModelInvalid
  | LedgerActorRefused binding_error
  | LedgerPathMismatch
  | LedgerScopeRefused scope_error
  | LedgerTenantUnknown reference_error
  | LedgerDatabaseError string

text \<open>\<^verbatim>\<open>hashlib.sha256(text.encode()).hexdigest()\<close>, \<^verbatim>\<open>json.dumps(.., sort_keys=True, separators=(",", ":"))\<close>, the keyed
  digest and \<^verbatim>\<open>str\<close> of a number.\<close>

record ledger_codecs =
  lc_sha256 :: "string \<Rightarrow> string"
  lc_dumps :: "json \<Rightarrow> string"
  lc_hmac :: "string \<Rightarrow> string \<Rightarrow> string"
  lc_str :: "json \<Rightarrow> string"

definition RETENTION_DELETION_REQUIRED_SCOPE :: string where
  "RETENTION_DELETION_REQUIRED_SCOPE = ''audit:retention:delete''"

definition RETENTION_DELETION_EVENT_TYPE :: string where
  "RETENTION_DELETION_EVENT_TYPE = ''audit.retention_deletion.executed''"

definition LEGAL_HOLD_REQUIRED_SCOPE :: string where
  "LEGAL_HOLD_REQUIRED_SCOPE = ''audit:legal_hold:write''"

definition LEGAL_HOLD_ACTIVATED_EVENT_TYPE :: string where
  "LEGAL_HOLD_ACTIVATED_EVENT_TYPE = ''audit.legal_hold.activated''"

definition LEGAL_HOLD_RELEASED_EVENT_TYPE :: string where
  "LEGAL_HOLD_RELEASED_EVENT_TYPE = ''audit.legal_hold.released''"

definition OBJECT_LEGAL_HOLD_APPLIED_EVENT_TYPE :: string where
  "OBJECT_LEGAL_HOLD_APPLIED_EVENT_TYPE = ''audit.object_legal_hold.applied''"

definition OBJECT_LEGAL_HOLD_RELEASED_EVENT_TYPE :: string where
  "OBJECT_LEGAL_HOLD_RELEASED_EVENT_TYPE = ''audit.object_legal_hold.released''"

record legal_hold_create_request =
  hc_tenant_id :: string
  hc_hold_id :: string
  hc_actor_id :: string
  hc_actor_scopes :: "string list"
  hc_reason :: string
  hc_event_type :: "string option"
  hc_actor_filter :: "string option"
  hc_approved_by :: string
  hc_notes :: "string list"

record legal_hold_release_request =
  hl_tenant_id :: string
  hl_hold_id :: string
  hl_actor_id :: string
  hl_actor_scopes :: "string list"
  hl_release_reason :: string

record legal_hold_record =
  hv_tenant_id :: string
  hv_hold_id :: string
  hv_status :: string
  hv_reason :: string
  hv_event_type :: "string option"
  hv_actor_filter :: "string option"
  hv_requested_by :: string
  hv_approved_by :: string
  hv_released_by :: "string option"
  hv_release_reason :: "string option"
  hv_audit_event_id :: "uuid option"
  hv_audit_event_type :: "string option"
  hv_release_audit_event_id :: "uuid option"
  hv_release_audit_event_type :: "string option"
  hv_permission_decision :: "permission_decision option"
  hv_notes :: "string list"
  hv_created_at :: timestamp
  hv_released_at :: "timestamp option"

record object_hold_request =
  oh_tenant_id :: string
  oh_actor_id :: string
  oh_actor_scopes :: "string list"
  oh_storage_key :: string
  oh_reason :: string
  oh_hold_id :: "string option"

record object_hold_record =
  ov_tenant_id :: string
  ov_storage_key :: string
  ov_storage_adapter :: string
  ov_status :: string
  ov_reason :: string
  ov_hold_id :: "string option"
  ov_actor_id :: string
  ov_audit_event_id :: uuid
  ov_audit_event_type :: string
  ov_permission_decision :: permission_decision

record retention_request =
  dn_tenant_id :: string
  dn_actor_id :: string
  dn_actor_scopes :: "string list"
  dn_retention_days :: int
  dn_legal_hold :: bool
  dn_dry_run :: bool
  dn_event_type :: "string option"
  dn_actor_filter :: "string option"
  dn_limit :: nat
  dn_reason :: string

record retention_result =
  dt_tenant_id :: string
  dt_retention_days :: int
  dt_cutoff :: string
  dt_dry_run :: bool
  dt_legal_hold :: bool
  dt_status :: string
  dt_candidate_count :: nat
  dt_deleted_count :: nat
  dt_retained_count :: nat
  dt_deleted_event_hashes :: "string list"
  dt_permission_decision :: permission_decision
  dt_audit_event_id :: "uuid option"
  dt_audit_event_type :: "string option"
  dt_notes :: "string list"

section \<open>The repository\<close>

definition list_audit_events_before ::
  "string \<Rightarrow> timestamp \<Rightarrow> string option \<Rightarrow> string option \<Rightarrow> nat \<Rightarrow> db \<Rightarrow> audit_event list"
where
  "list_audit_events_before tenant_id cutoff event_type actor_id limit s =
     take limit (sort_key (\<lambda>e. (ae_created_at e, ae_id e))
       (select_where (\<lambda>e. ae_tenant_id e = tenant_id \<and> ae_created_at e < cutoff
          \<and> ae_event_type e \<noteq> ''audit.retention_deletion.executed''
          \<and> (case event_type of None \<Rightarrow> True | Some t \<Rightarrow> ae_event_type e = t)
          \<and> (case actor_id of None \<Rightarrow> True | Some a \<Rightarrow> ae_actor_id e = a)) (audit_events s)))"

definition delete_audit_events :: "audit_event list \<Rightarrow> (db, 'e, nat) op" where
  "delete_audit_events records =
     bind_op (put_op (\<lambda>s. s\<lparr>audit_events :=
         select_where (\<lambda>e. ae_id e \<notin> ae_id ` set records) (audit_events s)\<rparr>)) (\<lambda>_.
     return_op (length records))"

definition get_audit_legal_hold :: "string \<Rightarrow> string \<Rightarrow> db \<Rightarrow> audit_legal_hold option" where
  "get_audit_legal_hold tenant_id hold_id s =
     first_row (select_where (\<lambda>h. ah_tenant_id h = tenant_id \<and> ah_hold_id h = hold_id) (audit_legal_holds s))"

definition list_active_audit_legal_holds :: "string \<Rightarrow> db \<Rightarrow> audit_legal_hold list" where
  "list_active_audit_legal_holds tenant_id s =
     sort_key (\<lambda>h. (ah_created_at h, ah_id h))
       (select_where (\<lambda>h. ah_tenant_id h = tenant_id \<and> ah_status h = ''active'') (audit_legal_holds s))"

text \<open>The insert fills in the identifier and both times, and the unique constraint of the table refuses it for a hold
  identifier that the tenant has used before.\<close>

definition insert_audit_legal_hold :: "audit_legal_hold \<Rightarrow> (db, ledger_error, audit_legal_hold) op" where
  "insert_audit_legal_hold new =
     bind_op (get_op (get_audit_legal_hold (ah_tenant_id new) (ah_hold_id new))) (\<lambda>taken.
     if taken \<noteq> None then raise_op (LedgerIntegrityError ''uq_audit_legal_holds_tenant_hold'')
     else
       bind_op uuid4 (\<lambda>new_id.
       bind_op utc_now (\<lambda>created.
       bind_op utc_now (\<lambda>updated.
       let row = new\<lparr>ah_id := new_id, ah_status := ''active'', ah_created_at := created, ah_updated_at := updated\<rparr>
       in bind_op (put_op (\<lambda>s. s\<lparr>audit_legal_holds := audit_legal_holds s @ [row]\<rparr>)) (\<lambda>_. return_op row)))))"

definition released_hold :: "string \<Rightarrow> string \<Rightarrow> uuid \<Rightarrow> timestamp \<Rightarrow> audit_legal_hold \<Rightarrow> audit_legal_hold" where
  "released_hold released_by release_reason release_audit_event_id now h =
     h\<lparr>ah_status := ''released'', ah_released_by := Some released_by, ah_release_reason := Some release_reason,
       ah_release_audit_event_id := Some release_audit_event_id, ah_released_at := Some now, ah_updated_at := now\<rparr>"

definition release_hold_row ::
  "string \<Rightarrow> string \<Rightarrow> string \<Rightarrow> string \<Rightarrow> uuid \<Rightarrow> (db, ledger_error, audit_legal_hold) op"
where
  "release_hold_row tenant_id hold_id released_by release_reason release_audit_event_id =
     bind_op (get_op (get_audit_legal_hold tenant_id hold_id)) (\<lambda>found.
     case found of
       None \<Rightarrow> raise_op LedgerRecordNotFound
     | Some h \<Rightarrow>
         bind_op utc_now (\<lambda>now.
         let row = released_hold released_by release_reason release_audit_event_id now h in
         bind_op (put_op (\<lambda>s. s\<lparr>audit_legal_holds :=
             update_where (\<lambda>r. ah_id r = ah_id h) (\<lambda>_. row) (audit_legal_holds s)\<rparr>)) (\<lambda>_.
         return_op row)))"

section \<open>Legal holds\<close>

definition evaluate_legal_hold_permission ::
  "string \<Rightarrow> string \<Rightarrow> string list \<Rightarrow> string \<Rightarrow> ledger_error + permission_decision"
where
  "evaluate_legal_hold_permission tenant_id actor_id actor_scopes operation =
     (let request = \<lparr>pq_tenant_id = tenant_id, pq_actor_id = actor_id, pq_actor_scopes = actor_scopes,
                     pq_required_scopes = [LEGAL_HOLD_REQUIRED_SCOPE], pq_relationship_scopes = [],
                     pq_attributes = [(''operation'', JStr operation)]\<rparr>;
          decision = evaluate_permission request
      in if \<not> permission_request_valid request then Inl LedgerModelInvalid
         else if \<not> allowed decision then Inl (LegalHoldPermissionDenied decision) else Inr decision)"

definition legal_hold_to_record :: "audit_legal_hold \<Rightarrow> permission_decision option \<Rightarrow> legal_hold_record" where
  "legal_hold_to_record h decision =
     \<lparr>hv_tenant_id = ah_tenant_id h, hv_hold_id = ah_hold_id h, hv_status = ah_status h, hv_reason = ah_reason h,
      hv_event_type = ah_event_type h, hv_actor_filter = ah_actor_id h, hv_requested_by = ah_requested_by h,
      hv_approved_by = ah_approved_by h, hv_released_by = ah_released_by h,
      hv_release_reason = ah_release_reason h, hv_audit_event_id = ah_audit_event_id h,
      hv_audit_event_type = map_option (\<lambda>_. LEGAL_HOLD_ACTIVATED_EVENT_TYPE) (ah_audit_event_id h),
      hv_release_audit_event_id = ah_release_audit_event_id h,
      hv_release_audit_event_type = map_option (\<lambda>_. LEGAL_HOLD_RELEASED_EVENT_TYPE) (ah_release_audit_event_id h),
      hv_permission_decision = decision, hv_notes = ah_notes h, hv_created_at = ah_created_at h,
      hv_released_at = ah_released_at h\<rparr>"

definition hold_activated_event :: "legal_hold_create_request \<Rightarrow> permission_decision \<Rightarrow> audit_event_create" where
  "hold_activated_event request decision =
     \<lparr>ac_event_tenant_id = hc_tenant_id request, ac_event_actor_id = hc_actor_id request,
      ac_event_type = LEGAL_HOLD_ACTIVATED_EVENT_TYPE,
      ac_event_payload =
        [(''category'', JStr ''audit''), (''status'', JStr ''active''), (''hold_id'', JStr (hc_hold_id request)),
         (''reason'', JStr (hc_reason request)), (''event_type_filter'', jopt JStr (hc_event_type request)),
         (''actor_filter'', jopt JStr (hc_actor_filter request)), (''approved_by'', JStr (hc_approved_by request)),
         (''permission_decision'', permission_decision_dump decision), (''raw_payload_exported'', JBool False)]\<rparr>"

definition hold_released_event :: "legal_hold_release_request \<Rightarrow> permission_decision \<Rightarrow> audit_event_create" where
  "hold_released_event request decision =
     \<lparr>ac_event_tenant_id = hl_tenant_id request, ac_event_actor_id = hl_actor_id request,
      ac_event_type = LEGAL_HOLD_RELEASED_EVENT_TYPE,
      ac_event_payload =
        [(''category'', JStr ''audit''), (''status'', JStr ''released''), (''hold_id'', JStr (hl_hold_id request)),
         (''release_reason'', JStr (hl_release_reason request)),
         (''permission_decision'', permission_decision_dump decision), (''raw_payload_exported'', JBool False)]\<rparr>"

definition new_legal_hold :: "legal_hold_create_request \<Rightarrow> uuid \<Rightarrow> audit_legal_hold" where
  "new_legal_hold request audit_event_id =
     \<lparr>ah_id = 0, ah_tenant_id = hc_tenant_id request, ah_hold_id = hc_hold_id request, ah_status = ''active'',
      ah_reason = hc_reason request, ah_event_type = hc_event_type request, ah_actor_id = hc_actor_filter request,
      ah_requested_by = hc_actor_id request, ah_approved_by = hc_approved_by request, ah_released_by = None,
      ah_release_reason = None, ah_audit_event_id = Some audit_event_id, ah_release_audit_event_id = None,
      ah_notes = hc_notes request, ah_created_at = 0, ah_updated_at = 0, ah_released_at = None\<rparr>"

definition create_audit_legal_hold :: "legal_hold_create_request \<Rightarrow> (db, ledger_error, legal_hold_record) op" where
  "create_audit_legal_hold request =
     bind_op (of_result (evaluate_legal_hold_permission (hc_tenant_id request) (hc_actor_id request)
         (hc_actor_scopes request) ''audit.legal_hold.activate'')) (\<lambda>decision.
     bind_op (get_op (get_audit_legal_hold (hc_tenant_id request) (hc_hold_id request))) (\<lambda>existing.
     if (case existing of None \<Rightarrow> False | Some h \<Rightarrow> ah_status h = ''active'')
     then raise_op (LegalHoldConflict (hc_hold_id request) ''active_hold_exists'')
     else
       bind_op (append_audit_event (hold_activated_event request decision)) (\<lambda>audit_event.
       bind_op (insert_audit_legal_hold (new_legal_hold request (ae_id audit_event))) (\<lambda>row.
       return_op (legal_hold_to_record row (Some decision))))))"

definition release_audit_legal_hold :: "legal_hold_release_request \<Rightarrow> (db, ledger_error, legal_hold_record) op" where
  "release_audit_legal_hold request =
     bind_op (of_result (evaluate_legal_hold_permission (hl_tenant_id request) (hl_actor_id request)
         (hl_actor_scopes request) ''audit.legal_hold.release'')) (\<lambda>decision.
     bind_op (get_op (get_audit_legal_hold (hl_tenant_id request) (hl_hold_id request))) (\<lambda>existing.
     case existing of
       None \<Rightarrow> raise_op LegalHoldNotFound
     | Some h \<Rightarrow>
         if ah_status h \<noteq> ''active'' then raise_op (LegalHoldConflict (hl_hold_id request) ''hold_not_active'')
         else
           bind_op (append_audit_event (hold_released_event request decision)) (\<lambda>audit_event.
           bind_op (release_hold_row (hl_tenant_id request) (hl_hold_id request) (hl_actor_id request)
               (hl_release_reason request) (ae_id audit_event)) (\<lambda>row.
           return_op (legal_hold_to_record row (Some decision))))))"

definition list_audit_legal_holds :: "string \<Rightarrow> db \<Rightarrow> legal_hold_record list" where
  "list_audit_legal_holds tenant_id s =
     map (\<lambda>h. legal_hold_to_record h None) (list_active_audit_legal_holds tenant_id s)"

section \<open>Retention deletion\<close>

definition legal_hold_matches_event :: "audit_legal_hold \<Rightarrow> audit_event \<Rightarrow> bool" where
  "legal_hold_matches_event h e \<longleftrightarrow>
     (case ah_event_type h of None \<Rightarrow> True | Some t \<Rightarrow> t = ae_event_type e)
     \<and> (case ah_actor_id h of None \<Rightarrow> True | Some a \<Rightarrow> a = ae_actor_id e)"

text \<open>The dictionary of the matched holds by their identifier, whose values keep the order of their first insertion.\<close>

definition matching_legal_holds :: "audit_legal_hold list \<Rightarrow> audit_event list \<Rightarrow> audit_legal_hold list" where
  "matching_legal_holds legal_holds candidates =
     map snd (fold (\<lambda>h matched.
         if \<exists>e \<in> set candidates. legal_hold_matches_event h e then AList.update (ah_hold_id h) h matched else matched)
       legal_holds [])"

definition evaluate_retention_deletion_permission :: "retention_request \<Rightarrow> ledger_error + permission_decision" where
  "evaluate_retention_deletion_permission request =
     (let permission_request =
            \<lparr>pq_tenant_id = dn_tenant_id request, pq_actor_id = dn_actor_id request,
             pq_actor_scopes = dn_actor_scopes request, pq_required_scopes = [RETENTION_DELETION_REQUIRED_SCOPE],
             pq_relationship_scopes = [],
             pq_attributes = [(''operation'', JStr ''audit.retention_deletion.execute''),
               (''retention_days'', JInt (dn_retention_days request)), (''dry_run'', JBool (dn_dry_run request)),
               (''legal_hold'', JBool (dn_legal_hold request))]\<rparr>;
          decision = evaluate_permission permission_request
      in if \<not> permission_request_valid permission_request then Inl LedgerModelInvalid
         else if \<not> allowed decision then Inl (RetentionDeletionPermissionDenied decision) else Inr decision)"

text \<open>\<^verbatim>\<open>timedelta(days=n)\<close>.\<close>

definition timedelta_days :: "int \<Rightarrow> int" where
  "timedelta_days n = n * 86400000000"

definition event_deletion_hash :: "ledger_codecs \<Rightarrow> audit_event \<Rightarrow> string" where
  "event_deletion_hash lx e =
     lc_sha256 lx (lc_dumps lx (JObj
       [(''id'', JStr (uuid_text (ae_id e))), (''tenant_id'', JStr (ae_tenant_id e)),
        (''actor_id'', JStr (ae_actor_id e)), (''event_type'', JStr (ae_event_type e)),
        (''created_at'', JStr (isoformat (ae_created_at e)))]))"

definition retention_result_of ::
  "retention_request \<Rightarrow> timestamp \<Rightarrow> permission_decision \<Rightarrow> audit_event list \<Rightarrow> bool \<Rightarrow> string \<Rightarrow> string list \<Rightarrow> retention_result"
where
  "retention_result_of request cutoff decision candidates held status result_notes =
     \<lparr>dt_tenant_id = dn_tenant_id request, dt_retention_days = dn_retention_days request,
      dt_cutoff = isoformat cutoff, dt_dry_run = dn_dry_run request, dt_legal_hold = held, dt_status = status,
      dt_candidate_count = length candidates, dt_deleted_count = 0, dt_retained_count = length candidates,
      dt_deleted_event_hashes = [], dt_permission_decision = decision, dt_audit_event_id = None,
      dt_audit_event_type = None, dt_notes = result_notes\<rparr>"

definition deletion_event ::
  "retention_request \<Rightarrow> timestamp \<Rightarrow> permission_decision \<Rightarrow> nat \<Rightarrow> nat \<Rightarrow> string list \<Rightarrow> audit_event_create"
where
  "deletion_event request cutoff decision candidate_count deleted_count hashes =
     \<lparr>ac_event_tenant_id = dn_tenant_id request, ac_event_actor_id = dn_actor_id request,
      ac_event_type = RETENTION_DELETION_EVENT_TYPE,
      ac_event_payload =
        [(''category'', JStr ''audit''), (''status'', JStr ''executed''), (''reason'', JStr (dn_reason request)),
         (''retention_days'', JInt (dn_retention_days request)), (''cutoff'', JStr (isoformat cutoff)),
         (''candidate_count'', JInt (int candidate_count)), (''deleted_count'', JInt (int deleted_count)),
         (''event_type_filter'', jopt JStr (dn_event_type request)),
         (''actor_filter'', jopt JStr (dn_actor_filter request)), (''deleted_event_hashes'', jstrs hashes),
         (''permission_decision'', permission_decision_dump decision), (''raw_payload_exported'', JBool False)]\<rparr>"

definition execute_audit_retention_deletion ::
  "ledger_codecs \<Rightarrow> retention_request \<Rightarrow> (db, ledger_error, retention_result) op"
where
  "execute_audit_retention_deletion lx request =
     bind_op (of_result (evaluate_retention_deletion_permission request)) (\<lambda>decision.
     bind_op utc_now (\<lambda>now.
     let cutoff = now - timedelta_days (dn_retention_days request) in
     bind_op (get_op (list_audit_events_before (dn_tenant_id request) cutoff (dn_event_type request)
         (dn_actor_filter request) (dn_limit request))) (\<lambda>candidates.
     bind_op (get_op (\<lambda>s. matching_legal_holds (list_active_audit_legal_holds (dn_tenant_id request) s) candidates))
       (\<lambda>holds.
     if dn_legal_hold request \<or> holds \<noteq> []
     then return_op ((retention_result_of request cutoff decision candidates True ''blocked_legal_hold''
         ([''Legal hold is active; physical retention deletion is blocked.'',
           ''Candidate records were counted but no rows were deleted.''] @
          map (\<lambda>h. ''Active legal hold '' @ ah_hold_id h @ '' blocks matching candidate records.'') holds)))
     else if dn_dry_run request
     then return_op ((retention_result_of request cutoff decision candidates False ''dry_run''
         [''Dry run completed; no audit rows were deleted.'',
          ''Run with dry_run=false to execute physical retention deletion.'']))
     else
       let hashes = map (event_deletion_hash lx) candidates in
       bind_op (delete_audit_events candidates) (\<lambda>deleted_count.
       bind_op (append_audit_event
           (deletion_event request cutoff decision (length candidates) deleted_count hashes)) (\<lambda>audit_event.
       return_op ((retention_result_of request cutoff decision candidates False ''executed''
         [''Physical retention deletion executed for eligible tenant-scoped audit rows.'',
          ''Deletion evidence stores event hashes, counts and filters, not raw payloads.'',
          ''Retention deletion evidence events are excluded from future candidate scans.''])
         \<lparr>dt_deleted_count := deleted_count, dt_retained_count := 0, dt_deleted_event_hashes := hashes,
          dt_audit_event_id := Some (ae_id audit_event),
          dt_audit_event_type := Some (ae_event_type audit_event)\<rparr>)))))))"

section \<open>Holds on stored objects\<close>

fun split_slash :: "string \<Rightarrow> string list" where
  "split_slash [] = [[]]"
| "split_slash (c # t) =
     (if c = CHR ''/'' then [] # split_slash t
      else (case split_slash t of [] \<Rightarrow> [[c]] | part # parts \<Rightarrow> (c # part) # parts))"

definition TENANT_NAMESPACE_ROOT :: string where
  "TENANT_NAMESPACE_ROOT = ''tenants''"

definition control_char :: "char \<Rightarrow> bool" where
  "control_char c \<longleftrightarrow> (let n = of_char c :: nat in n < 32 \<or> n = 127)"

definition require_tenant_scoped_storage_key :: "string \<Rightarrow> string \<Rightarrow> ledger_error + string" where
  "require_tenant_scoped_storage_key tenant_id storage_key =
     (if storage_key = [] \<or> CHR 0x5C \<in> set storage_key \<or> (\<exists>c \<in> set storage_key. control_char c)
         \<or> hd storage_key = CHR ''/''
      then Inl ObjectLegalHoldKeyOutOfScope
      else let parts = split_slash storage_key in
        if \<exists>part \<in> set parts. part \<in> {[], ''.'', ''..''} then Inl ObjectLegalHoldKeyOutOfScope
        else if tenant_id \<in> {[], ''.'', ''..'', TENANT_NAMESPACE_ROOT} \<or> CHR ''/'' \<in> set tenant_id
        then Inl ObjectLegalHoldKeyOutOfScope
        else if length parts \<ge> 2 \<and> parts ! 0 = tenant_id then Inr storage_key
        else if length parts \<ge> 3 \<and> parts ! 0 = TENANT_NAMESPACE_ROOT \<and> parts ! 1 = tenant_id then Inr storage_key
        else Inl ObjectLegalHoldKeyOutOfScope)"

text \<open>An object store: its name, whether it has the two hold methods, and whether a call for a key returns.\<close>

record hold_store =
  hs_adapter_name :: string
  hs_supported :: bool
  hs_apply :: "string \<Rightarrow> bool"
  hs_release :: "string \<Rightarrow> bool"

definition object_hold_event :: "hold_store \<Rightarrow> object_hold_request \<Rightarrow> permission_decision \<Rightarrow> string \<Rightarrow> string \<Rightarrow> audit_event_create" where
  "object_hold_event store request decision event_type status =
     \<lparr>ac_event_tenant_id = oh_tenant_id request, ac_event_actor_id = oh_actor_id request, ac_event_type = event_type,
      ac_event_payload =
        [(''category'', JStr ''audit''), (''status'', JStr status), (''storage_key'', JStr (oh_storage_key request)),
         (''storage_adapter'', JStr (hs_adapter_name store)), (''hold_id'', jopt JStr (oh_hold_id request)),
         (''reason'', JStr (oh_reason request)), (''permission_decision'', permission_decision_dump decision),
         (''raw_payload_exported'', JBool False)]\<rparr>"

definition object_legal_hold ::
  "string \<Rightarrow> (string \<Rightarrow> bool) \<Rightarrow> string \<Rightarrow> string \<Rightarrow> hold_store \<Rightarrow> object_hold_request \<Rightarrow>
   (db, ledger_error, object_hold_record) op"
where
  "object_legal_hold operation call event_type status store request =
     bind_op (of_result (evaluate_legal_hold_permission (oh_tenant_id request) (oh_actor_id request)
         (oh_actor_scopes request) operation)) (\<lambda>decision.
     bind_op (of_result (require_tenant_scoped_storage_key (oh_tenant_id request) (oh_storage_key request))) (\<lambda>key.
     if \<not> hs_supported store
     then raise_op (ExportWormEnforcementError
       ''object_store_cannot_hold: the configured object store does not support S3 object-lock legal holds.'')
     else if \<not> call (oh_storage_key request) then raise_op ObjectStoreFailure
     else
       bind_op (append_audit_event (object_hold_event store request decision event_type status)) (\<lambda>audit_event.
       return_op
         \<lparr>ov_tenant_id = oh_tenant_id request, ov_storage_key = oh_storage_key request,
          ov_storage_adapter = hs_adapter_name store, ov_status = status, ov_reason = oh_reason request,
          ov_hold_id = oh_hold_id request, ov_actor_id = oh_actor_id request,
          ov_audit_event_id = ae_id audit_event, ov_audit_event_type = event_type,
          ov_permission_decision = decision\<rparr>)))"

definition apply_object_legal_hold :: "hold_store \<Rightarrow> object_hold_request \<Rightarrow> (db, ledger_error, object_hold_record) op" where
  "apply_object_legal_hold store =
     object_legal_hold ''audit.object_legal_hold.apply'' (hs_apply store) OBJECT_LEGAL_HOLD_APPLIED_EVENT_TYPE ''applied'' store"

definition release_object_legal_hold :: "hold_store \<Rightarrow> object_hold_request \<Rightarrow> (db, ledger_error, object_hold_record) op" where
  "release_object_legal_hold store =
     object_legal_hold ''audit.object_legal_hold.release'' (hs_release store) OBJECT_LEGAL_HOLD_RELEASED_EVENT_TYPE ''released'' store"

section \<open>The endpoints\<close>

definition with_create_actor :: "string \<Rightarrow> string list \<Rightarrow> legal_hold_create_request \<Rightarrow> legal_hold_create_request" where
  "with_create_actor the_actor scopes request = request\<lparr>hc_actor_id := the_actor, hc_actor_scopes := scopes\<rparr>"

definition with_release_actor :: "string \<Rightarrow> string list \<Rightarrow> legal_hold_release_request \<Rightarrow> legal_hold_release_request" where
  "with_release_actor the_actor scopes request = request\<lparr>hl_actor_id := the_actor, hl_actor_scopes := scopes\<rparr>"

definition with_object_actor :: "string \<Rightarrow> string list \<Rightarrow> object_hold_request \<Rightarrow> object_hold_request" where
  "with_object_actor the_actor scopes request = request\<lparr>oh_actor_id := the_actor, oh_actor_scopes := scopes\<rparr>"

definition with_deletion_actor :: "string \<Rightarrow> string list \<Rightarrow> retention_request \<Rightarrow> retention_request" where
  "with_deletion_actor the_actor scopes request = request\<lparr>dn_actor_id := the_actor, dn_actor_scopes := scopes\<rparr>"

text \<open>\<^verbatim>\<open>_bind_audit_actor\<close>: the tenant of the request governs.\<close>

definition bind_audit_actor ::
  "('r \<Rightarrow> string) \<Rightarrow> ('r \<Rightarrow> string) \<Rightarrow> (string \<Rightarrow> string list \<Rightarrow> 'r \<Rightarrow> 'r) \<Rightarrow> 'r \<Rightarrow> oidc_principal option \<Rightarrow> ledger_error + 'r"
where
  "bind_audit_actor tenant_of actor_of with_actor request the_principal =
     (case bind_request_actor (\<lambda>r. Some (actor_of r)) with_actor request the_principal (Some (tenant_of request))
         TENANT_MISMATCH_MESSAGE of
        Inl e \<Rightarrow> Inl (LedgerActorRefused e)
      | Inr bound \<Rightarrow> Inr bound)"

definition manufacturing_audit_retention_delete ::
  "ledger_codecs \<Rightarrow> retention_request \<Rightarrow> oidc_principal option \<Rightarrow> (db, ledger_error, retention_result) op"
where
  "manufacturing_audit_retention_delete lx request the_principal =
     session_scope (bind_op (of_result
         (bind_audit_actor dn_tenant_id dn_actor_id with_deletion_actor request the_principal))
       (execute_audit_retention_deletion lx))"

definition manufacturing_audit_legal_hold_create ::
  "legal_hold_create_request \<Rightarrow> oidc_principal option \<Rightarrow> (db, ledger_error, legal_hold_record) op"
where
  "manufacturing_audit_legal_hold_create request the_principal =
     session_scope (bind_op (of_result
         (bind_audit_actor hc_tenant_id hc_actor_id with_create_actor request the_principal))
       create_audit_legal_hold)"

definition manufacturing_audit_legal_hold_release ::
  "string \<Rightarrow> legal_hold_release_request \<Rightarrow> oidc_principal option \<Rightarrow> (db, ledger_error, legal_hold_record) op"
where
  "manufacturing_audit_legal_hold_release hold_id request the_principal =
     session_scope (if hl_hold_id request \<noteq> hold_id then raise_op LedgerPathMismatch
       else bind_op (of_result
           (bind_audit_actor hl_tenant_id hl_actor_id with_release_actor request the_principal))
         release_audit_legal_hold)"

definition manufacturing_audit_object_legal_hold_apply ::
  "hold_store \<Rightarrow> object_hold_request \<Rightarrow> oidc_principal option \<Rightarrow> (db, ledger_error, object_hold_record) op"
where
  "manufacturing_audit_object_legal_hold_apply store request the_principal =
     session_scope (bind_op (of_result
         (bind_audit_actor oh_tenant_id oh_actor_id with_object_actor request the_principal))
       (apply_object_legal_hold store))"

definition manufacturing_audit_object_legal_hold_release ::
  "hold_store \<Rightarrow> object_hold_request \<Rightarrow> oidc_principal option \<Rightarrow> (db, ledger_error, object_hold_record) op"
where
  "manufacturing_audit_object_legal_hold_release store request the_principal =
     session_scope (bind_op (of_result
         (bind_audit_actor oh_tenant_id oh_actor_id with_object_actor request the_principal))
       (release_object_legal_hold store))"

definition authorize_audit_scope ::
  "string \<Rightarrow> scope_principal option \<Rightarrow> string \<Rightarrow> string \<Rightarrow> string \<Rightarrow> scope_error + permission_decision"
where
  "authorize_audit_scope tenant_id the_principal required_scope message resource =
     authorize_principal_scopes tenant_id the_principal [required_scope]
       [(''surface'', JStr ''audit''), (''resource'', JStr resource)] message TENANT_MISMATCH_MESSAGE None None True"

definition manufacturing_audit_legal_holds ::
  "scope_principal option \<Rightarrow> string \<Rightarrow> (db, ledger_error, legal_hold_record list) op"
where
  "manufacturing_audit_legal_holds the_principal tenant_id s =
     (case authorize_audit_scope tenant_id the_principal LEGAL_HOLD_REQUIRED_SCOPE
             ''The actor cannot read audit legal holds.'' ''audit_legal_holds'' of
        Inl e \<Rightarrow> (Inl (LedgerScopeRefused e), s)
      | Inr _ \<Rightarrow> (Inr (list_audit_legal_holds tenant_id s), s))"

text \<open>The status codes; \<open>None\<close> is an error that no handler names.\<close>

definition ledger_error_status :: "ledger_error \<Rightarrow> int option" where
  "ledger_error_status e =
     (case e of
        LegalHoldPermissionDenied _ \<Rightarrow> Some 403
      | RetentionDeletionPermissionDenied _ \<Rightarrow> Some 403
      | ObjectLegalHoldKeyOutOfScope \<Rightarrow> Some 403
      | LedgerActorRefused _ \<Rightarrow> Some 403
      | LedgerScopeRefused (ScopeAuthorizationError _ _ _) \<Rightarrow> Some 403
      | LegalHoldNotFound \<Rightarrow> Some 404
      | LegalHoldConflict _ _ \<Rightarrow> Some 409
      | LedgerPathMismatch \<Rightarrow> Some 422
      | ExportWormEnforcementError _ \<Rightarrow> Some 503
      | _ \<Rightarrow> None)"

end
