(* ===== verification/Audit_Export.thy ===== *)
theory Audit_Export
  imports Audit_Ledger
begin

text \<open>
  Reading and exporting the audit ledger (\<^verbatim>\<open>axis_api/audit_queries.py\<close>, lines 300 to 746, and
  \<^verbatim>\<open>axis_api/audit_signing.py\<close>): the redacted view of an event, the query of a tenant's ledger, the export bundle with its
  hash chain and signature, and the two endpoints. The time of a view is kept as an instant; its text is made where the
  view is encoded, and the code that reads the text back gets the instant.
\<close>

section \<open>The view of an event\<close>

fun is_infix :: "string \<Rightarrow> string \<Rightarrow> bool" where
  "is_infix part [] \<longleftrightarrow> part = []"
| "is_infix part (c # t) \<longleftrightarrow> take (length part) (c # t) = part \<or> is_infix part t"

fun join_text :: "string \<Rightarrow> string list \<Rightarrow> string" where
  "join_text separator [] = []"
| "join_text separator [t] = t"
| "join_text separator (t # u # rest) = t @ separator @ join_text separator (u # rest)"

text \<open>\<^verbatim>\<open>_string_value\<close>.\<close>

function string_value :: "ledger_codecs \<Rightarrow> json \<Rightarrow> string" where
  "string_value lx JNull = ''none''"
| "string_value lx (JBool b) = (if b then ''true'' else ''false'')"
| "string_value lx (JInt n) = int_text n"
| "string_value lx (JFloat x) = lc_str lx (JFloat x)"
| "string_value lx (JStr t) = t"
| "string_value lx (JList xs) = join_text '','' (map (string_value lx) (take 4 xs))"
| "string_value lx (JObj d) =
     (let keys = join_text '','' (take 4 (sort (map fst d))) in if keys = [] then ''object'' else keys)"
  by pat_completeness auto
termination
proof (relation "measure (size \<circ> snd)", goal_cases)
  case (2 lx xs x)
  then have "x \<in> set xs" by (meson in_set_takeD)
  then show ?case using size_list_estimation' [of x xs "size x" size] by simp
qed simp

fun first_payload_value :: "ledger_codecs \<Rightarrow> dict \<Rightarrow> string list \<Rightarrow> string \<Rightarrow> string" where
  "first_payload_value lx payload [] fallback = fallback"
| "first_payload_value lx payload (k # keys) fallback =
     (if truthy (dget payload k) then string_value lx (dget payload k)
      else first_payload_value lx payload keys fallback)"

definition actor_type_of :: "string \<Rightarrow> string" where
  "actor_type_of actor_id =
     (if take 6 actor_id = ''agent_'' \<or> drop (length actor_id - 6) actor_id = ''-agent'' then ''agent''
      else if is_infix ''role'' actor_id then ''role'' else ''service'')"

definition category_of :: "string \<Rightarrow> dict \<Rightarrow> string" where
  "category_of event_type payload =
     (case dget payload ''category'' of
        JStr t \<Rightarrow> if t \<noteq> [] then t else takeWhile (\<lambda>c. c \<noteq> CHR ''.'') event_type
      | _ \<Rightarrow> takeWhile (\<lambda>c. c \<noteq> CHR ''.'') event_type)"

definition scope_of :: "ledger_codecs \<Rightarrow> audit_event \<Rightarrow> string" where
  "scope_of lx e = first_payload_value lx (ae_payload e)
     [''scope'', ''workflow_id'', ''approval_id'', ''action_id'', ''idempotency_key''] (ae_event_type e)"

definition result_of :: "ledger_codecs \<Rightarrow> dict \<Rightarrow> string" where
  "result_of lx payload = first_payload_value lx payload
     [''status'', ''decision'', ''result'', ''workflow_signal_status''] ''recorded''"

definition severity_of :: "dict \<Rightarrow> string \<Rightarrow> overview_status" where
  "severity_of payload result =
     (if dget payload ''approval_required'' = JBool True then ACTION_REQUIRED
      else if result \<in> {''approval_required'', ''pending'', ''runtime_signal_unavailable'', ''waiting_for_approval''}
      then ACTION_REQUIRED
      else if is_infix ''unavailable'' result \<or> is_infix ''failed'' result \<or> is_infix ''request_changes'' result
      then WATCH else READY)"

definition summary_of :: "string \<Rightarrow> string \<Rightarrow> string \<Rightarrow> string" where
  "summary_of event_type scope result =
     ''Persisted '' @ event_type @ '' for '' @ scope @ '' with result '' @ result @ ''.''"

definition evidence_refs_of :: "ledger_codecs \<Rightarrow> dict \<Rightarrow> string \<Rightarrow> string list" where
  "evidence_refs_of lx payload fallback =
     (let refs = [string_value lx (dget payload k).
            k \<leftarrow> [''workflow_id'', ''approval_id'', ''action_id'', ''action_run_id'', ''idempotency_key'',
                  ''required_permission''], truthy (dget payload k)]
      in if refs = [] then [fallback] else refs)"

definition PREVIEW_KEYS :: "string list" where
  "PREVIEW_KEYS =
     [''action_id'', ''approval_id'', ''workflow_id'', ''decision'', ''status'', ''execution_mode'',
      ''idempotency_key'', ''snapshot_id'', ''connector_id'', ''policy_id'', ''workflow_signal_status'',
      ''permission_decision'', ''payload_field_names'']"

definition payload_preview_of :: "ledger_codecs \<Rightarrow> dict \<Rightarrow> (string \<times> string) list" where
  "payload_preview_of lx payload =
     (let preview = [(k, string_value lx (dget payload k)). k \<leftarrow> PREVIEW_KEYS, dget payload k \<noteq> JNull]
      in if preview \<noteq> [] then preview
         else let keys = join_text '','' (take 6 (sort (map fst payload)))
              in [(''payload_keys'', if keys = [] then ''none'' else keys)])"

record ledger_event =
  xe_audit_event_id :: string
  xe_occurred_at :: timestamp
  xe_tenant_id :: string
  xe_actor_id :: string
  xe_actor_type :: string
  xe_event_type :: string
  xe_category :: string
  xe_domain :: string
  xe_scope :: string
  xe_result :: string
  xe_severity :: overview_status
  xe_source :: string
  xe_summary :: string
  xe_permission_scope :: string
  xe_data_classification :: string
  xe_related_workflow_id :: "string option"
  xe_related_approval_id :: "string option"
  xe_related_agent_id :: "string option"
  xe_evidence_refs :: "string list"
  xe_payload_preview :: "(string \<times> string) list"

text \<open>An optional text field accepts a string and \<^verbatim>\<open>None\<close> only.\<close>

definition optional_text :: "json \<Rightarrow> ledger_error + string option" where
  "optional_text v = (case v of JNull \<Rightarrow> Inr None | JStr t \<Rightarrow> Inr (Some t) | _ \<Rightarrow> Inl LedgerModelInvalid)"

definition ledger_event_valid :: "ledger_event \<Rightarrow> bool" where
  "ledger_event_valid e \<longleftrightarrow>
     (\<forall>t \<in> {xe_audit_event_id e, xe_tenant_id e, xe_actor_id e, xe_actor_type e, xe_event_type e, xe_category e,
            xe_domain e, xe_scope e, xe_result e, xe_source e, xe_summary e, xe_permission_scope e,
            xe_data_classification e}. t \<noteq> [])
     \<and> xe_evidence_refs e \<noteq> [] \<and> xe_payload_preview e \<noteq> []"

definition audit_event_to_ledger_event :: "ledger_codecs \<Rightarrow> audit_event \<Rightarrow> ledger_error + ledger_event" where
  "audit_event_to_ledger_event lx e =
     (let payload = ae_payload e; scope = scope_of lx e; result = result_of lx payload in
      case (optional_text (dget payload ''workflow_id''), optional_text (dget payload ''approval_id''),
            optional_text (dget payload ''agent_id'')) of
        (Inr workflow_id, Inr approval_id, Inr agent_id) \<Rightarrow>
          let view =
            \<lparr>xe_audit_event_id = uuid_text (ae_id e), xe_occurred_at = ae_created_at e,
             xe_tenant_id = ae_tenant_id e, xe_actor_id = ae_actor_id e,
             xe_actor_type = actor_type_of (ae_actor_id e), xe_event_type = ae_event_type e,
             xe_category = category_of (ae_event_type e) payload,
             xe_domain = first_payload_value lx payload [''domain'', ''risk_level''] ''Operations'',
             xe_scope = scope, xe_result = result, xe_severity = severity_of payload result,
             xe_source = first_payload_value lx payload [''source''] ''Axis API'',
             xe_summary = summary_of (ae_event_type e) scope result,
             xe_permission_scope =
               first_payload_value lx payload [''required_permission'', ''permission_scope''] ''audit:read'',
             xe_data_classification = ''public-demo'', xe_related_workflow_id = workflow_id,
             xe_related_approval_id = approval_id, xe_related_agent_id = agent_id,
             xe_evidence_refs = evidence_refs_of lx payload (ae_event_type e),
             xe_payload_preview = payload_preview_of lx payload\<rparr>
          in if ledger_event_valid view then Inr view else Inl LedgerModelInvalid
      | _ \<Rightarrow> Inl LedgerModelInvalid)"

fun to_ledger_events :: "ledger_codecs \<Rightarrow> audit_event list \<Rightarrow> ledger_error + ledger_event list" where
  "to_ledger_events lx [] = Inr []"
| "to_ledger_events lx (e # es) =
     (case audit_event_to_ledger_event lx e of
        Inl err \<Rightarrow> Inl err
      | Inr view \<Rightarrow> (case to_ledger_events lx es of Inl err \<Rightarrow> Inl err | Inr views \<Rightarrow> Inr (view # views)))"

section \<open>The query\<close>

record audit_query =
  yq_tenant_id :: string
  yq_event_type :: "string option"
  yq_actor_id :: "string option"
  yq_scope :: "string option"
  yq_limit :: nat

record filter_options =
  yf_tenants :: "string list"
  yf_event_types :: "string list"
  yf_scopes :: "string list"
  yf_actors :: "string list"
  yf_categories :: "string list"

record overview_metric =
  om_label :: string
  om_value :: string
  om_detail :: string
  om_status :: overview_status

record audit_explorer =
  yx_tenant_id :: string
  yx_plant_name :: "string option"
  yx_scenario :: "string option"
  yx_provenance :: provenance
  yx_as_of :: timestamp
  yx_ledger_status :: overview_status
  yx_metrics :: "overview_metric list"
  yx_filter_options :: filter_options
  yx_events :: "ledger_event list"
  yx_retention_notes :: "string list"

record tenant_metadata =
  tm_plant_name :: "string option"
  tm_scenario :: "string option"
  tm_as_of :: timestamp

definition stripped :: "string \<Rightarrow> string option" where
  "stripped t = (if strip t = [] then None else Some (strip t))"

definition get_manufacturing_tenant_metadata :: "string \<Rightarrow> (db, ledger_error, tenant_metadata) op" where
  "get_manufacturing_tenant_metadata tenant_id =
     bind_op (get_op (get_tenant tenant_id)) (\<lambda>found.
     case found of
       None \<Rightarrow>
         bind_op (get_op (has_demo_reference_records tenant_id)) (\<lambda>known.
         if known
         then bind_op utc_now (\<lambda>now. return_op \<lparr>tm_plant_name = None, tm_scenario = None, tm_as_of = now\<rparr>)
         else raise_op (LedgerTenantUnknown (ManufacturingTenantNotFound tenant_id)))
     | Some t \<Rightarrow>
         return_op \<lparr>tm_plant_name = stripped (tn_name t), tm_scenario = stripped (tn_description t),
           tm_as_of = tn_updated_at t\<rparr>)"

definition operational_provenance :: "bool \<Rightarrow> provenance" where
  "operational_provenance has_records = (if has_records then LIVE else EMPTY)"

text \<open>\<^verbatim>\<open>sorted({..})\<close>.\<close>

definition sorted_set :: "string list \<Rightarrow> string list" where
  "sorted_set xs = sort (remdups xs)"

definition filter_options_of :: "ledger_event list \<Rightarrow> string \<Rightarrow> filter_options" where
  "filter_options_of events tenant_id =
     \<lparr>yf_tenants = (let ts = sorted_set (map xe_tenant_id events) in if ts = [] then [tenant_id] else ts),
      yf_event_types = sorted_set (map xe_event_type events), yf_scopes = sorted_set (map xe_scope events),
      yf_actors = sorted_set (map xe_actor_id events), yf_categories = sorted_set (map xe_category events)\<rparr>"

definition metrics_of :: "ledger_event list \<Rightarrow> overview_metric list" where
  "metrics_of events =
     (let action_required_count = length (filter (\<lambda>e. xe_severity e = ACTION_REQUIRED) events) in
      [\<lparr>om_label = ''Persisted Events'', om_value = nat_text (length events),
        om_detail = ''Append-only audit events read from Postgres'',
        om_status = (if events \<noteq> [] then READY else WATCH)\<rparr>,
       \<lparr>om_label = ''Action Required'', om_value = nat_text action_required_count,
        om_detail = ''Persisted events currently marked as requiring attention'',
        om_status = (if action_required_count \<noteq> 0 then ACTION_REQUIRED else READY)\<rparr>,
       \<lparr>om_label = ''Query Source'', om_value = ''Postgres'', om_detail = ''Tenant-scoped query over audit_events'',
        om_status = READY\<rparr>,
       \<lparr>om_label = ''Replay'', om_value = ''Preview'',
        om_detail = ''Redacted audit events can feed replay preview artifacts'', om_status = WATCH\<rparr>])"

definition query_persisted_audit_events ::
  "ledger_codecs \<Rightarrow> audit_query \<Rightarrow> (db, ledger_error, audit_explorer) op"
where
  "query_persisted_audit_events lx query =
     bind_op (get_manufacturing_tenant_metadata (yq_tenant_id query)) (\<lambda>metadata.
     bind_op (get_op (list_audit_events (yq_tenant_id query) (yq_event_type query) (yq_actor_id query) (yq_limit query)))
       (\<lambda>records.
     bind_op (of_result (to_ledger_events lx records)) (\<lambda>views.
     let events = (case yq_scope query of None \<Rightarrow> views | Some sc \<Rightarrow> filter (\<lambda>e. xe_scope e = sc) views) in
     bind_op (get_op (\<lambda>s. if records = []
           \<and> (yq_event_type query \<noteq> None \<or> yq_actor_id query \<noteq> None \<or> yq_scope query \<noteq> None)
         then list_audit_events (yq_tenant_id query) None None 1 s \<noteq> [] else records \<noteq> [])) (\<lambda>has_persisted_records.
     return_op
       \<lparr>yx_tenant_id = yq_tenant_id query, yx_plant_name = tm_plant_name metadata,
        yx_scenario = tm_scenario metadata, yx_provenance = operational_provenance has_persisted_records,
        yx_as_of = (case events of e # _ \<Rightarrow> xe_occurred_at e | [] \<Rightarrow> tm_as_of metadata),
        yx_ledger_status = (if events \<noteq> [] then READY else WATCH), yx_metrics = metrics_of events,
        yx_filter_options = filter_options_of events (yq_tenant_id query), yx_events = events,
        yx_retention_notes =
          [''This view is backed by persisted append-only audit events.'',
           ''Payload previews expose governed field summaries, not raw sensitive payloads.'',
           ''Queries are tenant-scoped before optional event, actor and scope filters.'',
           ''Export manifests are available through the retention/export endpoint; deterministic replay remains Platform work.'']\<rparr>))))"

section \<open>Signing\<close>

record signature_proof =
  sg2_algorithm :: string
  sg2_key_id :: "string option"
  sg2_signing_mode :: string
  sg2_verification_status :: string
  sg2_signed_payload_sha256 :: string
  sg2_signature :: "string option"
  sg2_notes :: "string list"

record ledger_signer =
  ls_key_id :: string
  ls_secret_key :: string

definition SIGNER_ALGORITHM :: string where
  "SIGNER_ALGORITHM = ''hmac-sha256''"

text \<open>The constructor refuses an empty key id or secret.\<close>

definition new_ledger_signer :: "string \<Rightarrow> string \<Rightarrow> ledger_error + ledger_signer" where
  "new_ledger_signer key_id secret_key =
     (if key_id = [] \<or> secret_key = [] then Inl LedgerModelInvalid
      else Inr \<lparr>ls_key_id = key_id, ls_secret_key = secret_key\<rparr>)"

definition audit_ledger_signer_from_settings :: "string \<Rightarrow> string option \<Rightarrow> ledger_error + ledger_signer option" where
  "audit_ledger_signer_from_settings key_id secret =
     (case secret of
        None \<Rightarrow> Inr None
      | Some k \<Rightarrow> (case new_ledger_signer key_id k of Inl e \<Rightarrow> Inl e | Inr signer \<Rightarrow> Inr (Some signer)))"

definition sign_payload :: "ledger_codecs \<Rightarrow> ledger_signer \<Rightarrow> json \<Rightarrow> signature_proof" where
  "sign_payload lx signer payload =
     \<lparr>sg2_algorithm = SIGNER_ALGORITHM, sg2_key_id = Some (ls_key_id signer), sg2_signing_mode = ''self_hosted_hmac'',
      sg2_verification_status = ''verified'', sg2_signed_payload_sha256 = lc_sha256 lx (lc_dumps lx payload),
      sg2_signature = Some (lc_hmac lx (ls_secret_key signer) (lc_dumps lx payload)),
      sg2_notes = [''Ledger signature covers the export manifest and hash-chain integrity proof.'',
        ''Secret material is not exported with the proof.'']\<rparr>"

definition unsigned_audit_ledger_signature :: "ledger_codecs \<Rightarrow> json \<Rightarrow> signature_proof" where
  "unsigned_audit_ledger_signature lx payload =
     \<lparr>sg2_algorithm = ''unsigned'', sg2_key_id = None, sg2_signing_mode = ''not_configured'',
      sg2_verification_status = ''unsigned'', sg2_signed_payload_sha256 = lc_sha256 lx (lc_dumps lx payload),
      sg2_signature = None,
      sg2_notes = [''Audit ledger signing key is not configured.'',
        ''Hash-chain integrity proof is present, but no KMS/self-hosted signature was produced.'']\<rparr>"

section \<open>The export\<close>

record export_query = audit_query +
  yq_export_reason :: string
  yq_retention_days :: int
  yq_legal_hold :: bool
  yq_format :: string

record retention_policy =
  xp_policy_id :: string
  xp_retention_days :: int
  xp_retention_basis :: string
  xp_disposal_action :: string
  xp_legal_hold :: bool
  xp_export_requires_review :: bool
  xp_notes :: "string list"

record integrity_proof =
  xi_algorithm :: string
  xi_verification_status :: string
  xi_record_count :: nat
  xi_chain_tip_sha256 :: string
  xi_event_hashes :: "string list"

record export_manifest =
  xf_export_id :: string
  xf_generated_at :: timestamp
  xf_tenant_id :: string
  xf_record_count :: nat
  xf_format :: string
  xf_redaction_policy :: string
  xf_retention_policy_id :: string
  xf_checksum_sha256 :: string
  xf_integrity_chain_tip_sha256 :: string
  xf_retention_enforced :: bool
  xf_retention_window_start :: timestamp
  xf_excluded_record_count :: nat
  xf_worm_status :: string
  xf_worm_retention_mode :: string
  xf_worm_retention_enforced :: bool
  xf_worm_retain_until :: "timestamp option"

record export_bundle =
  xb_tenant_id :: string
  xb_scenario :: "string option"
  xb_format :: string
  xb_export_reason :: string
  xb_filters :: audit_query
  xb_retention_policy :: retention_policy
  xb_manifest :: export_manifest
  xb_integrity_proof :: integrity_proof
  xb_ledger_signature :: signature_proof
  xb_events :: "ledger_event list"
  xb_retention_notes :: "string list"

record object_lock_capability =
  ol2_compliance_enforceable :: bool
  ol2_reason :: string

definition retention_policy_of :: "export_query \<Rightarrow> retention_policy" where
  "retention_policy_of query =
     \<lparr>xp_policy_id = ''axis-demo-audit-standard'', xp_retention_days = yq_retention_days query,
      xp_retention_basis = ''tenant-scoped operational audit ledger'',
      xp_disposal_action = (if yq_legal_hold query then ''retain_legal_hold'' else ''enforced_exclusion''),
      xp_legal_hold = yq_legal_hold query, xp_export_requires_review = True,
      xp_notes =
        [''Demo exports are payload-preview-only and require governance review before sharing.'',
         (if yq_legal_hold query then ''Legal hold suspends retention exclusion for matching records.''
          else ''Retention windows are enforced before records enter the export bundle.''),
         ''Immutable storage hardening is represented by a deterministic export hash chain.'']\<rparr>"

definition apply_retention_policy ::
  "ledger_event list \<Rightarrow> export_query \<Rightarrow> timestamp \<Rightarrow> ledger_event list \<times> timestamp \<times> nat \<times> bool"
where
  "apply_retention_policy events query generated_at =
     (let window_start = generated_at - timedelta_days (yq_retention_days query) in
      if yq_legal_hold query then (events, window_start, 0, False)
      else let retained = filter (\<lambda>e. window_start \<le> xe_occurred_at e) events
           in (retained, window_start, length events - length retained, True))"

fun overview_status_value :: "overview_status \<Rightarrow> string" where
  "overview_status_value READY = ''ready''"
| "overview_status_value WATCH = ''watch''"
| "overview_status_value ACTION_REQUIRED = ''action_required''"

definition ledger_event_dump :: "ledger_event \<Rightarrow> json" where
  "ledger_event_dump e = JObj
     [(''audit_event_id'', JStr (xe_audit_event_id e)), (''occurred_at'', JStr (isoformat (xe_occurred_at e))),
      (''tenant_id'', JStr (xe_tenant_id e)), (''actor_id'', JStr (xe_actor_id e)),
      (''actor_type'', JStr (xe_actor_type e)), (''event_type'', JStr (xe_event_type e)),
      (''category'', JStr (xe_category e)), (''domain'', JStr (xe_domain e)), (''scope'', JStr (xe_scope e)),
      (''result'', JStr (xe_result e)), (''severity'', JStr (overview_status_value (xe_severity e))),
      (''source'', JStr (xe_source e)), (''summary'', JStr (xe_summary e)),
      (''permission_scope'', JStr (xe_permission_scope e)),
      (''data_classification'', JStr (xe_data_classification e)),
      (''related_workflow_id'', jopt JStr (xe_related_workflow_id e)),
      (''related_approval_id'', jopt JStr (xe_related_approval_id e)),
      (''related_agent_id'', jopt JStr (xe_related_agent_id e)),
      (''evidence_refs'', jstrs (xe_evidence_refs e)),
      (''payload_preview'', JObj (map (\<lambda>(k, v). (k, JStr v)) (xe_payload_preview e)))]"

definition event_text :: "ledger_codecs \<Rightarrow> ledger_event \<Rightarrow> string" where
  "event_text lx e = lc_dumps lx (ledger_event_dump e)"

definition events_checksum :: "ledger_codecs \<Rightarrow> ledger_event list \<Rightarrow> string" where
  "events_checksum lx events = lc_sha256 lx (lc_dumps lx (JList (map ledger_event_dump events)))"

definition CHAIN_START :: string where
  "CHAIN_START = replicate 64 CHR ''0''"

text \<open>One link: the digest of the tip so far and the digest of the next event.\<close>

definition chain_link :: "ledger_codecs \<Rightarrow> string \<Rightarrow> string \<Rightarrow> string" where
  "chain_link lx tip event_hash = lc_sha256 lx (tip @ '':'' @ event_hash)"

fun hash_chain :: "ledger_codecs \<Rightarrow> string \<Rightarrow> string list \<Rightarrow> string" where
  "hash_chain lx tip [] = tip"
| "hash_chain lx tip (h # hashes) = hash_chain lx (chain_link lx tip h) hashes"

definition integrity_proof_of :: "ledger_codecs \<Rightarrow> ledger_event list \<Rightarrow> integrity_proof" where
  "integrity_proof_of lx events =
     (let hashes = map (\<lambda>e. lc_sha256 lx (event_text lx e)) events in
      \<lparr>xi_algorithm = ''sha256-hash-chain-v1'', xi_verification_status = ''verified'', xi_record_count = length events,
       xi_chain_tip_sha256 = hash_chain lx CHAIN_START hashes, xi_event_hashes = hashes\<rparr>)"

definition resolve_worm_enforcement ::
  "object_lock_capability option \<Rightarrow> int \<Rightarrow> timestamp \<Rightarrow> string \<times> string \<times> bool \<times> timestamp option"
where
  "resolve_worm_enforcement capability retention_days generated_at =
     (case capability of
        Some c \<Rightarrow>
          if ol2_compliance_enforceable c
          then (''capability_attested'', ''COMPLIANCE'', True, Some (generated_at + timedelta_days retention_days))
          else (''none'', ''none'', False, None)
      | None \<Rightarrow> (''none'', ''none'', False, None))"

definition manifest_dump :: "export_manifest \<Rightarrow> json" where
  "manifest_dump mf = JObj
     [(''export_id'', JStr (xf_export_id mf)), (''generated_at'', JStr (isoformat (xf_generated_at mf))),
      (''tenant_id'', JStr (xf_tenant_id mf)), (''record_count'', JInt (int (xf_record_count mf))),
      (''format'', JStr (xf_format mf)), (''redaction_policy'', JStr (xf_redaction_policy mf)),
      (''retention_policy_id'', JStr (xf_retention_policy_id mf)),
      (''checksum_sha256'', JStr (xf_checksum_sha256 mf)),
      (''integrity_chain_tip_sha256'', JStr (xf_integrity_chain_tip_sha256 mf)),
      (''retention_enforced'', JBool (xf_retention_enforced mf)),
      (''retention_window_start'', JStr (isoformat (xf_retention_window_start mf))),
      (''excluded_record_count'', JInt (int (xf_excluded_record_count mf))),
      (''worm_status'', JStr (xf_worm_status mf)), (''worm_retention_mode'', JStr (xf_worm_retention_mode mf)),
      (''worm_retention_enforced'', JBool (xf_worm_retention_enforced mf)),
      (''worm_retain_until'', jopt (\<lambda>t. JStr (isoformat t)) (xf_worm_retain_until mf))]"

definition integrity_proof_dump :: "integrity_proof \<Rightarrow> json" where
  "integrity_proof_dump p = JObj
     [(''algorithm'', JStr (xi_algorithm p)), (''verification_status'', JStr (xi_verification_status p)),
      (''record_count'', JInt (int (xi_record_count p))), (''chain_tip_sha256'', JStr (xi_chain_tip_sha256 p)),
      (''event_hashes'', jstrs (xi_event_hashes p))]"

definition canonical_ledger_signature_payload :: "export_manifest \<Rightarrow> integrity_proof \<Rightarrow> json" where
  "canonical_ledger_signature_payload mf p =
     JObj [(''manifest'', manifest_dump mf), (''integrity_proof'', integrity_proof_dump p)]"

text \<open>\<^verbatim>\<open>hmac.compare_digest\<close> of texts raises for a text that is not ASCII; the expected digests are hexadecimal.\<close>

definition verify_audit_ledger_signature ::
  "ledger_codecs \<Rightarrow> export_manifest \<Rightarrow> integrity_proof \<Rightarrow> signature_proof \<Rightarrow> string \<Rightarrow> ledger_error + bool"
where
  "verify_audit_ledger_signature lx mf p proof_of_signature secret_key =
     (case sg2_signature proof_of_signature of
        None \<Rightarrow> Inr False
      | Some signature \<Rightarrow>
          if sg2_algorithm proof_of_signature \<noteq> SIGNER_ALGORITHM \<or> secret_key = [] then Inr False
          else let text = lc_dumps lx (canonical_ledger_signature_payload mf p) in
            if \<exists>c \<in> set signature. 128 \<le> (of_char c :: nat) then Inl LedgerModelInvalid
            else if signature \<noteq> lc_hmac lx secret_key text then Inr False
            else if \<exists>c \<in> set (sg2_signed_payload_sha256 proof_of_signature). 128 \<le> (of_char c :: nat)
            then Inl LedgerModelInvalid
            else Inr (sg2_signed_payload_sha256 proof_of_signature = lc_sha256 lx text))"

definition query_filters :: "export_query \<Rightarrow> audit_query" where
  "query_filters query =
     \<lparr>yq_tenant_id = yq_tenant_id query, yq_event_type = yq_event_type query, yq_actor_id = yq_actor_id query,
      yq_scope = yq_scope query, yq_limit = yq_limit query\<rparr>"

definition export_manifest_of ::
  "export_query \<Rightarrow> timestamp \<Rightarrow> ledger_event list \<Rightarrow> timestamp \<Rightarrow> nat \<Rightarrow> bool \<Rightarrow> string \<Rightarrow> integrity_proof \<Rightarrow>
   object_lock_capability option \<Rightarrow> export_manifest"
where
  "export_manifest_of query generated_at retained window_start excluded_count enforced checksum p capability =
     (let (worm_status, worm_mode, worm_enforced, worm_until) =
            resolve_worm_enforcement capability (yq_retention_days query) generated_at
      in \<lparr>xf_export_id = ''audit-export-'' @ take 16 checksum, xf_generated_at = generated_at,
          xf_tenant_id = yq_tenant_id query, xf_record_count = length retained, xf_format = yq_format query,
          xf_redaction_policy = ''payload-preview-only'',
          xf_retention_policy_id = xp_policy_id (retention_policy_of query), xf_checksum_sha256 = checksum,
          xf_integrity_chain_tip_sha256 = xi_chain_tip_sha256 p, xf_retention_enforced = enforced,
          xf_retention_window_start = window_start, xf_excluded_record_count = excluded_count,
          xf_worm_status = worm_status, xf_worm_retention_mode = worm_mode,
          xf_worm_retention_enforced = worm_enforced, xf_worm_retain_until = worm_until\<rparr>)"

definition retention_summary :: "export_query \<Rightarrow> nat \<Rightarrow> string" where
  "retention_summary query excluded_count =
     (if yq_legal_hold query then ''Legal hold is active; retention exclusion is suspended for this export.''
      else ''Retention enforcement excluded '' @ nat_text excluded_count @ '' expired event'' @
           (if excluded_count = 1 then [] else ''s'') @ '' from this export.'')"

definition worm_summary :: "export_manifest \<Rightarrow> string" where
  "worm_summary mf =
     (if xf_worm_retention_enforced mf
      then ''Object-store WORM capability is attested: the backing bucket enforces S3 object-lock in '' @
           xf_worm_retention_mode mf @ '' mode and a stored copy would be retained until '' @
           (case xf_worm_retain_until mf of Some t \<Rightarrow> isoformat t | None \<Rightarrow> ''None'') @
           ''. This response payload is NOT itself object-locked; its integrity here rests on the hash-chain proof and ledger signature. A stored, object-locked artifact is produced by the connector-evidence materialization path.''
      else ''Object-store WORM is not enforced for this export; the bundle relies on the deterministic hash-chain integrity proof only.'')"

definition export_bundle_of ::
  "ledger_codecs \<Rightarrow> export_query \<Rightarrow> ledger_signer option \<Rightarrow> object_lock_capability option \<Rightarrow> audit_explorer \<Rightarrow>
   timestamp \<Rightarrow> export_bundle"
where
  "export_bundle_of lx query signer capability explorer generated_at =
     (let (retained, window_start, excluded_count, enforced) =
            apply_retention_policy (yx_events explorer) query generated_at;
          p = integrity_proof_of lx retained;
          mf = export_manifest_of query generated_at retained window_start excluded_count enforced
                 (events_checksum lx retained) p capability;
          payload = canonical_ledger_signature_payload mf p
      in \<lparr>xb_tenant_id = yq_tenant_id query, xb_scenario = yx_scenario explorer, xb_format = yq_format query,
          xb_export_reason = yq_export_reason query, xb_filters = query_filters query,
          xb_retention_policy = retention_policy_of query, xb_manifest = mf, xb_integrity_proof = p,
          xb_ledger_signature =
            (case signer of Some k \<Rightarrow> sign_payload lx k payload | None \<Rightarrow> unsigned_audit_ledger_signature lx payload),
          xb_events = retained,
          xb_retention_notes =
            [''Export bundle is tenant-scoped before optional filters are applied.'',
             ''Events include ledger metadata and redacted payload previews only.'',
             ''Manifest checksum covers the exported event payload previews and metadata.'',
             retention_summary query excluded_count,
             ''Integrity proof links exported records with a deterministic SHA-256 hash chain.'',
             worm_summary mf]\<rparr>)"

definition export_persisted_audit_events ::
  "ledger_codecs \<Rightarrow> export_query \<Rightarrow> ledger_signer option \<Rightarrow> object_lock_capability option \<Rightarrow> bool \<Rightarrow>
   (db, ledger_error, export_bundle) op"
where
  "export_persisted_audit_events lx query signer capability require_worm_compliance =
     (if require_worm_compliance \<and> (case capability of None \<Rightarrow> True | Some c \<Rightarrow> \<not> ol2_compliance_enforceable c)
      then raise_op (ExportWormEnforcementError
        (case capability of Some c \<Rightarrow> ol2_reason c | None \<Rightarrow> ''object_lock_capability_not_probed''))
      else
        bind_op (query_persisted_audit_events lx (query_filters query)) (\<lambda>explorer.
        bind_op utc_now (\<lambda>generated_at.
        return_op (export_bundle_of lx query signer capability explorer generated_at))))"

section \<open>The endpoints\<close>

definition AUDIT_READ_SCOPE :: string where
  "AUDIT_READ_SCOPE = ''audit:read''"

definition manufacturing_persisted_audit_events ::
  "ledger_codecs \<Rightarrow> audit_query \<Rightarrow> scope_principal option \<Rightarrow> (db, ledger_error, audit_explorer) op"
where
  "manufacturing_persisted_audit_events lx query the_principal s =
     (case authorize_audit_scope (yq_tenant_id query) the_principal AUDIT_READ_SCOPE
             ''The actor cannot read persisted audit events.'' ''audit_events'' of
        Inl e \<Rightarrow> (Inl (LedgerScopeRefused e), s)
      | Inr _ \<Rightarrow> session_scope (query_persisted_audit_events lx query) s)"

text \<open>The settings that the export reads: the retention mode of the export bucket and the signing key, and what a probe
  of the bucket reports.\<close>

record export_settings =
  es_retention_mode :: string
  es_signing_key_id :: string
  es_signing_secret :: "string option"
  es_probed_capability :: object_lock_capability

definition upper_char :: "char \<Rightarrow> char" where
  "upper_char c = (let n = of_char c :: nat in if 97 \<le> n \<and> n \<le> 122 then char_of (n - 32) else c)"

definition audit_export_worm_settings :: "export_settings \<Rightarrow> bool" where
  "audit_export_worm_settings st \<longleftrightarrow> map upper_char (strip (es_retention_mode st)) = ''COMPLIANCE''"

definition manufacturing_persisted_audit_export ::
  "ledger_codecs \<Rightarrow> export_settings \<Rightarrow> export_query \<Rightarrow> scope_principal option \<Rightarrow> (db, ledger_error, export_bundle) op"
where
  "manufacturing_persisted_audit_export lx st query the_principal s =
     (case authorize_audit_scope (yq_tenant_id query) the_principal AUDIT_READ_SCOPE
             ''The actor cannot export persisted audit events.'' ''audit_export'' of
        Inl e \<Rightarrow> (Inl (LedgerScopeRefused e), s)
      | Inr _ \<Rightarrow>
          let require_worm_compliance = audit_export_worm_settings st;
              capability = (if require_worm_compliance then Some (es_probed_capability st) else None)
          in (case audit_ledger_signer_from_settings (es_signing_key_id st) (es_signing_secret st) of
                Inl e \<Rightarrow> (Inl e, s)
              | Inr signer \<Rightarrow>
                  session_scope (export_persisted_audit_events lx query signer capability require_worm_compliance) s))"

end
