(* ===== verification/Audit_History.thy ===== *)
theory Audit_History
  imports Audit_Export
begin

text \<open>
  The histories of the audit ledger (\<open>ledger_step\<close>): holds and deletions by their endpoints, and any other transaction,
  which only appends events under fresh identifiers. Every reachable ledger satisfies \<open>ledger_inv\<close>; events that an
  active hold covers are not deleted, and deleted events are accounted for by evidence that is never deleted.
  The properties of holds on objects and of exports follow.
\<close>

section \<open>Execution\<close>

lemma evaluate_legal_hold_permission_Inr:
  "evaluate_legal_hold_permission tid a scopes operation = Inr d \<longleftrightarrow>
     tid \<noteq> [] \<and> a \<noteq> [] \<and> LEGAL_HOLD_REQUIRED_SCOPE \<in> set scopes \<and> d = \<lparr>allowed = True, reason = ''allowed''\<rparr>"
  by (auto simp: evaluate_legal_hold_permission_def Let_def permission_request_valid_def
      evaluate_permission_reason_allowed)

lemma evaluate_retention_deletion_permission_Inr:
  "evaluate_retention_deletion_permission rq = Inr d \<longleftrightarrow>
     dn_tenant_id rq \<noteq> [] \<and> dn_actor_id rq \<noteq> [] \<and> RETENTION_DELETION_REQUIRED_SCOPE \<in> set (dn_actor_scopes rq)
     \<and> d = \<lparr>allowed = True, reason = ''allowed''\<rparr>"
  by (auto simp: evaluate_retention_deletion_permission_def Let_def permission_request_valid_def
      evaluate_permission_reason_allowed)

lemma AList_update_not_Nil [simp]: "AList.update k v d \<noteq> []"
  by (cases d) auto

lemma matched_fold_Nil:
  "fold (\<lambda>h matched. if P h then AList.update (k h) h matched else matched) hs m = [] \<longleftrightarrow>
     m = [] \<and> (\<forall>h \<in> set hs. \<not> P h)"
  by (induction hs arbitrary: m) auto

lemma matching_legal_holds_Nil [simp]:
  "matching_legal_holds hs cs = [] \<longleftrightarrow> (\<forall>h \<in> set hs. \<forall>e \<in> set cs. \<not> legal_hold_matches_event h e)"
  by (simp add: matching_legal_holds_def matched_fold_Nil)

definition active_hold_on :: "audit_event \<Rightarrow> audit_legal_hold \<Rightarrow> bool" where
  "active_hold_on e h \<longleftrightarrow> ah_tenant_id h = ae_tenant_id e \<and> ah_status h = ''active'' \<and> legal_hold_matches_event h e"

lemma set_list_active_holds [simp]:
  "set (list_active_audit_legal_holds tid s) = {h \<in> set (audit_legal_holds s). ah_tenant_id h = tid \<and> ah_status h = ''active''}"
  by (auto simp: list_active_audit_legal_holds_def)

text \<open>The events that a deletion would remove: the oldest of those that it may remove, up to its limit.\<close>

definition expired_event :: "retention_request \<Rightarrow> timestamp \<Rightarrow> audit_event \<Rightarrow> bool" where
  "expired_event rq cutoff e \<longleftrightarrow> ae_tenant_id e = dn_tenant_id rq \<and> ae_created_at e < cutoff
     \<and> ae_event_type e \<noteq> RETENTION_DELETION_EVENT_TYPE
     \<and> (case dn_event_type rq of None \<Rightarrow> True | Some t \<Rightarrow> ae_event_type e = t)
     \<and> (case dn_actor_filter rq of None \<Rightarrow> True | Some a \<Rightarrow> ae_actor_id e = a)"

definition deletion_batch :: "retention_request \<Rightarrow> timestamp \<Rightarrow> audit_event list \<Rightarrow> audit_event list" where
  "deletion_batch rq cutoff es = take (dn_limit rq) (sort_key (\<lambda>e. (ae_created_at e, ae_id e)) (filter (expired_event rq cutoff) es))"

lemma list_audit_events_before_eq:
  "list_audit_events_before (dn_tenant_id rq) cutoff (dn_event_type rq) (dn_actor_filter rq) (dn_limit rq) s
     = deletion_batch rq cutoff (audit_events s)"
  unfolding list_audit_events_before_def deletion_batch_def select_where_def expired_event_def RETENTION_DELETION_EVENT_TYPE_def
  by simp

lemma deletion_batch_subset: "set (deletion_batch rq cutoff es) \<subseteq> {e \<in> set es. expired_event rq cutoff e}"
  by (auto simp: deletion_batch_def dest!: in_set_takeD)

definition deletion_cutoff :: "retention_request \<Rightarrow> db \<Rightarrow> timestamp" where
  "deletion_cutoff rq s = clock_at s (clock_n s) - timedelta_days (dn_retention_days rq)"

definition without_events :: "audit_event list \<Rightarrow> db \<Rightarrow> db" where
  "without_events gone s = s\<lparr>audit_events := select_where (\<lambda>e. ae_id e \<notin> ae_id ` set gone) (audit_events s)\<rparr>"

lemma without_events_sel [simp]:
  "audit_events (without_events gone s) = select_where (\<lambda>e. ae_id e \<notin> ae_id ` set gone) (audit_events s)"
  "audit_legal_holds (without_events gone s) = audit_legal_holds s" "uuid_at (without_events gone s) = uuid_at s"
  "uuid_n (without_events gone s) = uuid_n s" "clock_at (without_events gone s) = clock_at s"
  "clock_n (without_events gone s) = clock_n s"
  by (simp_all add: without_events_def)

definition tick :: "db \<Rightarrow> db" where
  "tick s = s\<lparr>clock_n := Suc (clock_n s)\<rparr>"

lemma tick_sel [simp]:
  "audit_events (tick s) = audit_events s" "audit_legal_holds (tick s) = audit_legal_holds s" "uuid_at (tick s) = uuid_at s"
  "uuid_n (tick s) = uuid_n s" "clock_at (tick s) = clock_at s" "clock_n (tick s) = Suc (clock_n s)"
  "browser_sessions (tick s) = browser_sessions s" "tenants (tick s) = tenants s"
  by (simp_all add: tick_def)

text \<open>What a returned deletion has done, by its three outcomes.\<close>

definition deletion_outcome ::
  "ledger_codecs \<Rightarrow> retention_request \<Rightarrow> db \<Rightarrow> retention_result \<Rightarrow> db \<Rightarrow> bool"
where
  "deletion_outcome lx rq s res t \<longleftrightarrow>
     (let cutoff = deletion_cutoff rq s; cs = deletion_batch rq cutoff (audit_events s);
          held = (\<exists>h \<in> set (audit_legal_holds s). \<exists>e \<in> set cs. active_hold_on e h)
      in dt_candidate_count res = length cs \<and>
        (if dn_legal_hold rq \<or> held
         then dt_status res = ''blocked_legal_hold'' \<and> dt_deleted_count res = 0 \<and> t = tick s
         else if dn_dry_run rq then dt_status res = ''dry_run'' \<and> dt_deleted_count res = 0 \<and> t = tick s
         else dt_status res = ''executed'' \<and> dt_deleted_count res = length cs
           \<and> dt_deleted_event_hashes res = map (event_deletion_hash lx) cs
           \<and> t = with_audit_event (without_events cs (tick s))
                (deletion_event rq cutoff \<lparr>allowed = True, reason = ''allowed''\<rparr> (length cs) (length cs)
                   (map (event_deletion_hash lx) cs))
           \<and> dt_audit_event_id res = Some (uuid_at s (uuid_n s))))"

text \<open>A deletion that has its permission runs the rest of the operation.\<close>

lemma execute_retention_permitted:
  assumes "execute_audit_retention_deletion lx rq s = (Inr res, t)"
  shows "RETENTION_DELETION_REQUIRED_SCOPE \<in> set (dn_actor_scopes rq)"
    "evaluate_retention_deletion_permission rq = Inr \<lparr>allowed = True, reason = ''allowed''\<rparr>"
  using assms by (cases "evaluate_retention_deletion_permission rq";
      auto simp: execute_audit_retention_deletion_def bind_op_def evaluate_retention_deletion_permission_Inr)+

lemma batch_held_iff:
  "(\<exists>h \<in> set (list_active_audit_legal_holds (dn_tenant_id rq) s). \<exists>e \<in> set (deletion_batch rq c es). legal_hold_matches_event h e)
     \<longleftrightarrow> (\<exists>h \<in> set (audit_legal_holds s). \<exists>e \<in> set (deletion_batch rq c es). active_hold_on e h)"
  using deletion_batch_subset [of rq c es] by (force simp: active_hold_on_def expired_event_def)

lemma execute_retention_Inr:
  assumes run: "execute_audit_retention_deletion lx rq s = (Inr res, t)"
  shows "deletion_outcome lx rq s res t"
proof -
  let ?c = "deletion_cutoff rq s"
  let ?cs = "deletion_batch rq ?c (audit_events s)"
  let ?hs = "matching_legal_holds (list_active_audit_legal_holds (dn_tenant_id rq) (tick s)) ?cs"
  have held: "?hs \<noteq> [] \<longleftrightarrow> (\<exists>h \<in> set (audit_legal_holds s). \<exists>e \<in> set ?cs. active_hold_on e h)"
    using batch_held_iff [of rq "tick s" ?c "audit_events s"] by simp
  have tick: "s\<lparr>clock_n := Suc (clock_n s)\<rparr> = tick s" and cutoff: "clock_at s (clock_n s) - timedelta_days (dn_retention_days rq) = ?c"
    by (simp_all add: tick_def deletion_cutoff_def)
  note body = execute_retention_permitted(2) [OF run] run [unfolded execute_audit_retention_deletion_def]
    and eval = bind_op_def Let_def list_audit_events_before_eq tick cutoff
  show ?thesis
  proof (cases "dn_legal_hold rq \<or> ?hs \<noteq> []")
    case True
    then show ?thesis using body unfolding deletion_outcome_def Let_def held [symmetric]
      by (auto simp: eval retention_result_of_def simp del: matching_legal_holds_Nil)
  next
    case False
    then have no: "?hs = []" "\<not> dn_legal_hold rq" by auto
    show ?thesis
    proof (cases "dn_dry_run rq")
      case True
      with no body show ?thesis unfolding deletion_outcome_def Let_def held [symmetric]
        by (simp add: eval retention_result_of_def del: matching_legal_holds_Nil) auto
    next
      case False
      with no body show ?thesis unfolding deletion_outcome_def Let_def held [symmetric]
        by (simp add: eval retention_result_of_def delete_audit_events_def without_events_def [symmetric] del: matching_legal_holds_Nil) auto
    qed
  qed
qed

section \<open>Holds\<close>

definition hold_key :: "audit_legal_hold \<Rightarrow> string \<times> string" where
  "hold_key h = (ah_tenant_id h, ah_hold_id h)"

lemma get_audit_legal_hold_None:
  "get_audit_legal_hold tid hid s = None \<longleftrightarrow> (tid, hid) \<notin> hold_key ` set (audit_legal_holds s)"
  by (auto simp: get_audit_legal_hold_def hold_key_def)

lemma get_audit_legal_hold_SomeD:
  "get_audit_legal_hold tid hid s = Some h \<Longrightarrow> h \<in> set (audit_legal_holds s) \<and> hold_key h = (tid, hid)"
  by (auto simp: get_audit_legal_hold_def hold_key_def dest!: first_row_filter_SomeD)

lemma get_audit_legal_hold_cong:
  "audit_legal_holds t = audit_legal_holds s \<Longrightarrow> get_audit_legal_hold tid hid t = get_audit_legal_hold tid hid s"
  by (simp add: get_audit_legal_hold_def)

abbreviation permitted :: permission_decision where
  "permitted \<equiv> \<lparr>allowed = True, reason = ''allowed''\<rparr>"

definition inserted_hold :: "legal_hold_create_request \<Rightarrow> db \<Rightarrow> audit_legal_hold" where
  "inserted_hold rq s = (new_legal_hold rq (uuid_at s (uuid_n s)))
     \<lparr>ah_id := uuid_at s (Suc (uuid_n s)), ah_created_at := clock_at s (Suc (clock_n s)),
      ah_updated_at := clock_at s (Suc (Suc (clock_n s)))\<rparr>"

lemma create_audit_legal_hold_Inr:
  assumes "create_audit_legal_hold rq s = (Inr v, t)"
  shows "hc_tenant_id rq \<noteq> []" "LEGAL_HOLD_REQUIRED_SCOPE \<in> set (hc_actor_scopes rq)"
    "(hc_tenant_id rq, hc_hold_id rq) \<notin> hold_key ` set (audit_legal_holds s)"
    "v = legal_hold_to_record (inserted_hold rq s) (Some permitted)"
    "audit_events t = audit_events s @ [new_audit_event s (hold_activated_event rq permitted)]"
    "audit_legal_holds t = audit_legal_holds s @ [inserted_hold rq s]"
    "uuid_at t = uuid_at s" "clock_at t = clock_at s" "uuid_n t = Suc (Suc (uuid_n s))"
proof -
  obtain d where d: "evaluate_legal_hold_permission (hc_tenant_id rq) (hc_actor_id rq) (hc_actor_scopes rq)
      ''audit.legal_hold.activate'' = Inr d"
    using assms by (auto simp: create_audit_legal_hold_def bind_op_Inr_iff)
  then have dd: "d = permitted" "hc_tenant_id rq \<noteq> []" "LEGAL_HOLD_REQUIRED_SCOPE \<in> set (hc_actor_scopes rq)"
    by (simp_all add: evaluate_legal_hold_permission_Inr)
  let ?u = "with_audit_event s (hold_activated_event rq permitted)"
  have get: "get_audit_legal_hold a b (with_audit_event s ev) = get_audit_legal_hold a b s" for a b ev
    by (rule get_audit_legal_hold_cong) simp
  have free: "get_audit_legal_hold (hc_tenant_id rq) (hc_hold_id rq) s = None"
    using assms d
    by (auto simp: create_audit_legal_hold_def insert_audit_legal_hold_def bind_op_def new_legal_hold_def get
        split: option.splits if_splits)
  have run: "v = legal_hold_to_record (inserted_hold rq s) (Some permitted)
     \<and> t = ?u\<lparr>uuid_n := Suc (uuid_n ?u), clock_n := Suc (Suc (clock_n ?u)),
              audit_legal_holds := audit_legal_holds s @ [inserted_hold rq s]\<rparr>"
    using assms d dd(1) free
    by (simp add: create_audit_legal_hold_def insert_audit_legal_hold_def bind_op_def get new_legal_hold_def inserted_hold_def Let_def)
  show "hc_tenant_id rq \<noteq> []" "LEGAL_HOLD_REQUIRED_SCOPE \<in> set (hc_actor_scopes rq)" by (fact dd)+
  show "(hc_tenant_id rq, hc_hold_id rq) \<notin> hold_key ` set (audit_legal_holds s)"
    using free by (simp add: get_audit_legal_hold_None)
  show "v = legal_hold_to_record (inserted_hold rq s) (Some permitted)"
    "audit_events t = audit_events s @ [new_audit_event s (hold_activated_event rq permitted)]"
    "audit_legal_holds t = audit_legal_holds s @ [inserted_hold rq s]"
    "uuid_at t = uuid_at s" "clock_at t = clock_at s" "uuid_n t = Suc (Suc (uuid_n s))"
    using run by simp_all
qed

lemma release_audit_legal_hold_Inr:
  assumes "release_audit_legal_hold rq s = (Inr v, t)"
  obtains h where "LEGAL_HOLD_REQUIRED_SCOPE \<in> set (hl_actor_scopes rq)"
    "get_audit_legal_hold (hl_tenant_id rq) (hl_hold_id rq) s = Some h" "ah_status h = ''active''"
    "audit_events t = audit_events s @ [new_audit_event s (hold_released_event rq permitted)]"
    "audit_legal_holds t = update_where (\<lambda>r. ah_id r = ah_id h)
       (\<lambda>_. released_hold (hl_actor_id rq) (hl_release_reason rq) (uuid_at s (uuid_n s)) (clock_at s (Suc (clock_n s))) h)
       (audit_legal_holds s)"
    "uuid_at t = uuid_at s" "clock_at t = clock_at s" "uuid_n t = Suc (uuid_n s)"
proof -
  obtain d where d: "evaluate_legal_hold_permission (hl_tenant_id rq) (hl_actor_id rq) (hl_actor_scopes rq)
      ''audit.legal_hold.release'' = Inr d"
    using assms by (auto simp: release_audit_legal_hold_def bind_op_Inr_iff)
  then have dd: "d = permitted" "LEGAL_HOLD_REQUIRED_SCOPE \<in> set (hl_actor_scopes rq)"
    by (simp_all add: evaluate_legal_hold_permission_Inr)
  let ?u = "with_audit_event s (hold_released_event rq permitted)"
  have get: "get_audit_legal_hold a b (with_audit_event s ev) = get_audit_legal_hold a b s" for a b ev
    by (rule get_audit_legal_hold_cong) simp
  obtain h where h: "get_audit_legal_hold (hl_tenant_id rq) (hl_hold_id rq) s = Some h" "ah_status h = ''active''"
    using assms d by (auto simp: release_audit_legal_hold_def bind_op_def split: option.splits if_splits)
  show thesis
  proof (rule that [OF dd(2) h])
    show "audit_events t = audit_events s @ [new_audit_event s (hold_released_event rq permitted)]"
      "audit_legal_holds t = update_where (\<lambda>r. ah_id r = ah_id h)
       (\<lambda>_. released_hold (hl_actor_id rq) (hl_release_reason rq) (uuid_at s (uuid_n s)) (clock_at s (Suc (clock_n s))) h)
       (audit_legal_holds s)"
      "uuid_at t = uuid_at s" "clock_at t = clock_at s" "uuid_n t = Suc (uuid_n s)"
      using assms d dd(1) h
      by (auto simp: release_audit_legal_hold_def release_hold_row_def bind_op_def get Let_def)
  qed
qed

section \<open>Histories\<close>

text \<open>Every transaction of another service: it touches no hold, rewrites no event, and appends events under identifiers
  that it draws itself.\<close>

definition only_appends :: "db \<Rightarrow> db \<Rightarrow> bool" where
  "only_appends s t \<longleftrightarrow> audit_legal_holds t = audit_legal_holds s \<and> uuid_at t = uuid_at s \<and> uuid_n s \<le> uuid_n t
     \<and> (\<exists>new. audit_events t = audit_events s @ new \<and> distinct (map ae_id new)
          \<and> ae_id ` set new \<subseteq> uuid_at s ` {uuid_n s..<uuid_n t})"

inductive ledger_step :: "ledger_codecs \<Rightarrow> db \<Rightarrow> db \<Rightarrow> bool" for lx where
  hold_created: "manufacturing_audit_legal_hold_create crq p s = (cr, t) \<Longrightarrow> ledger_step lx s t"
| hold_released: "manufacturing_audit_legal_hold_release hid rrq p s = (rr, t) \<Longrightarrow> ledger_step lx s t"
| deleted: "manufacturing_audit_retention_delete lx drq p s = (dr, t) \<Longrightarrow> ledger_step lx s t"
| object_held: "manufacturing_audit_object_legal_hold_apply store orq p s = (orec, t) \<Longrightarrow> ledger_step lx s t"
| object_released: "manufacturing_audit_object_legal_hold_release store orq p s = (orec, t) \<Longrightarrow> ledger_step lx s t"
| appended: "only_appends s t \<Longrightarrow> ledger_step lx s t"

inductive ledger_steps :: "ledger_codecs \<Rightarrow> db \<Rightarrow> db \<Rightarrow> bool" for lx where
  none: "ledger_steps lx s s"
| more: "ledger_steps lx s u \<Longrightarrow> ledger_step lx u t \<Longrightarrow> ledger_steps lx s t"

text \<open>A ledger starts with no event and no hold; the stream of identifiers does not repeat.\<close>

definition ledger_reachable :: "ledger_codecs \<Rightarrow> db \<Rightarrow> bool" where
  "ledger_reachable lx t \<longleftrightarrow> (\<exists>s. inj (uuid_at s) \<and> audit_events s = [] \<and> audit_legal_holds s = [] \<and> ledger_steps lx s t)"

text \<open>The evidence of a deletion names the digest of the event, for its tenant.\<close>

definition deletion_evidence :: "ledger_codecs \<Rightarrow> audit_event \<Rightarrow> audit_event \<Rightarrow> bool" where
  "deletion_evidence lx e ev \<longleftrightarrow> ae_event_type ev = RETENTION_DELETION_EVENT_TYPE \<and> ae_tenant_id ev = ae_tenant_id e
     \<and> (\<exists>hashes. dget (ae_payload ev) ''deleted_event_hashes'' = jstrs hashes \<and> event_deletion_hash lx e \<in> set hashes)"

definition accounted :: "ledger_codecs \<Rightarrow> db \<Rightarrow> audit_event \<Rightarrow> bool" where
  "accounted lx s e \<longleftrightarrow> e \<in> set (audit_events s) \<or> (\<exists>ev \<in> set (audit_events s). deletion_evidence lx e ev)"

definition hold_released_later :: "audit_legal_hold \<Rightarrow> audit_legal_hold \<Rightarrow> bool" where
  "hold_released_later h h' \<longleftrightarrow> ah_status h = ''active'' \<and> ah_status h' = ''released'' \<and> hold_key h' = hold_key h"

text \<open>What a transaction does to events and holds: an event leaves only without a hold and with evidence, evidence never
  leaves, and a hold stays as it is or is released.\<close>

definition ledger_change :: "ledger_codecs \<Rightarrow> db \<Rightarrow> db \<Rightarrow> bool" where
  "ledger_change lx s t \<longleftrightarrow>
     (\<forall>e \<in> set (audit_events s). e \<in> set (audit_events t)
        \<or> ae_event_type e \<noteq> RETENTION_DELETION_EVENT_TYPE \<and> \<not> (\<exists>h \<in> set (audit_legal_holds s). active_hold_on e h)
          \<and> (\<exists>ev \<in> set (audit_events t). deletion_evidence lx e ev))
     \<and> (\<forall>h \<in> set (audit_legal_holds s). \<exists>h' \<in> set (audit_legal_holds t). ah_id h' = ah_id h \<and> (h' = h \<or> hold_released_later h h'))"

text \<open>A hold is active without a release or released with all of it, and its events are in the ledger or accounted for.\<close>

definition hold_ok :: "ledger_codecs \<Rightarrow> db \<Rightarrow> audit_legal_hold \<Rightarrow> bool" where
  "hold_ok lx s h \<longleftrightarrow>
     (\<exists>e. ah_audit_event_id h = Some (ae_id e) \<and> ae_event_type e = LEGAL_HOLD_ACTIVATED_EVENT_TYPE
        \<and> ae_tenant_id e = ah_tenant_id h \<and> ae_actor_id e = ah_requested_by h \<and> accounted lx s e)
     \<and> (ah_status h = ''active'' \<and> ah_released_by h = None \<and> ah_release_reason h = None
          \<and> ah_release_audit_event_id h = None \<and> ah_released_at h = None
        \<or> ah_status h = ''released'' \<and> ah_released_at h \<noteq> None \<and> ah_release_reason h \<noteq> None
          \<and> (\<exists>e. ah_release_audit_event_id h = Some (ae_id e) \<and> ae_event_type e = LEGAL_HOLD_RELEASED_EVENT_TYPE
               \<and> ae_tenant_id e = ah_tenant_id h \<and> ah_released_by h = Some (ae_actor_id e) \<and> accounted lx s e))"

definition ledger_inv :: "ledger_codecs \<Rightarrow> db \<Rightarrow> bool" where
  "ledger_inv lx s \<longleftrightarrow> inj (uuid_at s) \<and> ids_drawn s (map ae_id (audit_events s)) \<and> ids_drawn s (map ah_id (audit_legal_holds s))
     \<and> distinct (map hold_key (audit_legal_holds s)) \<and> (\<forall>h \<in> set (audit_legal_holds s). hold_ok lx s h)"

subsection \<open>Every step keeps the invariant\<close>

lemma accounted_mono: "ledger_change lx s t \<Longrightarrow> accounted lx s e \<Longrightarrow> accounted lx t e"
  unfolding ledger_change_def accounted_def deletion_evidence_def by blast

lemma hold_ok_mono: "(\<And>e. accounted lx s e \<Longrightarrow> accounted lx t e) \<Longrightarrow> hold_ok lx s h \<Longrightarrow> hold_ok lx t h"
  unfolding hold_ok_def by blast

lemma ledger_change_same_holds:
  assumes "audit_legal_holds t = audit_legal_holds s" "set (audit_events s) \<subseteq> set (audit_events t)"
  shows "ledger_change lx s t"
  using assms by (auto simp: ledger_change_def)

lemma ids_drawn_append:
  assumes "inj (uuid_at s)" "ids_drawn s xs" "uuid_at t = uuid_at s" "uuid_n s \<le> uuid_n t" "distinct ys"
    "set ys \<subseteq> uuid_at s ` {uuid_n s..<uuid_n t}"
  shows "ids_drawn t (xs @ ys)"
proof -
  have "uuid_at s ` {..<uuid_n s} \<inter> uuid_at s ` {uuid_n s..<uuid_n t} = {}"
    using assms(1) by (auto simp: inj_eq)
  then have "set xs \<inter> set ys = {}" using assms(2,6) unfolding ids_drawn_def by blast
  moreover have "set ys \<subseteq> uuid_at s ` {..<uuid_n t}" using assms(6) by force
  moreover have "set xs \<subseteq> uuid_at s ` {..<uuid_n t}" using assms(2,4) unfolding ids_drawn_def by force
  ultimately show ?thesis using assms(2,3,5) by (simp add: ids_drawn_def)
qed

lemma only_appends_step:
  assumes "only_appends s t" "ledger_inv lx s"
  shows "ledger_inv lx t \<and> ledger_change lx s t"
proof -
  obtain new where new: "audit_events t = audit_events s @ new" "distinct (map ae_id new)"
      "ae_id ` set new \<subseteq> uuid_at s ` {uuid_n s..<uuid_n t}"
    and same: "audit_legal_holds t = audit_legal_holds s" "uuid_at t = uuid_at s" "uuid_n s \<le> uuid_n t"
    using assms(1) by (auto simp: only_appends_def)
  have change: "ledger_change lx s t" by (rule ledger_change_same_holds) (simp_all add: new same)
  have "ids_drawn t (map ae_id (audit_events t))"
    using ids_drawn_append [of s "map ae_id (audit_events s)" t "map ae_id new"] assms(2) new same by (simp add: ledger_inv_def)
  then show ?thesis
    using assms(2) change same ids_drawn_mono [of s _ t] hold_ok_mono [OF accounted_mono [OF change]]
    by (auto simp: ledger_inv_def)
qed

lemma only_appends_rollback: "uuid_at t = uuid_at s \<Longrightarrow> uuid_n s \<le> uuid_n t \<Longrightarrow> only_appends s (rollback s t)"
  by (simp add: only_appends_def rollback_def)

lemma only_appends_event: "only_appends s (with_audit_event s ev)"
  by (auto simp: only_appends_def intro!: exI [of _ "[new_audit_event s ev]"])

lemma only_appends_tick: "only_appends s (tick s)"
  by (simp add: only_appends_def)

lemma only_appends_refl: "only_appends s s"
  by (simp add: only_appends_def)

lemma created_step:
  assumes "create_audit_legal_hold rq s = (Inr v, t)" "ledger_inv lx s"
  shows "ledger_inv lx t \<and> ledger_change lx s t"
proof -
  note c = create_audit_legal_hold_Inr [OF assms(1)]
  note inv = assms(2) [unfolded ledger_inv_def]
  let ?e = "new_audit_event s (hold_activated_event rq permitted)" and ?h = "inserted_hold rq s"
  have change: "ledger_change lx s t" using c(5,6) by (auto simp: ledger_change_def)
  have events: "ids_drawn t (map ae_id (audit_events t))"
    using ids_drawn_append [of s "map ae_id (audit_events s)" t "[uuid_at s (uuid_n s)]"] inv c by simp
  have holds: "ids_drawn t (map ah_id (audit_legal_holds t))"
    using ids_drawn_append [of s "map ah_id (audit_legal_holds s)" t "[uuid_at s (Suc (uuid_n s))]"] inv c
    by (simp add: inserted_hold_def)
  have key: "hold_key ?h = (hc_tenant_id rq, hc_hold_id rq)"
    by (simp add: hold_key_def inserted_hold_def new_legal_hold_def)
  have "accounted lx t ?e" by (simp add: accounted_def c(5))
  then have "hold_ok lx t ?h"
    unfolding hold_ok_def
    by (intro conjI exI [of _ ?e] disjI1)
      (simp_all add: inserted_hold_def new_legal_hold_def new_audit_event_def hold_activated_event_def)
  then show ?thesis
    using inv c(3,6,7) events holds key change hold_ok_mono [OF accounted_mono [OF change]]
    by (auto simp: ledger_inv_def)
qed

lemma released_step:
  assumes "release_audit_legal_hold rq s = (Inr v, t)" "ledger_inv lx s"
  shows "ledger_inv lx t \<and> ledger_change lx s t"
proof -
  obtain h where "get_audit_legal_hold (hl_tenant_id rq) (hl_hold_id rq) s = Some h" and active: "ah_status h = ''active''"
    and events: "audit_events t = audit_events s @ [new_audit_event s (hold_released_event rq permitted)]"
    and holds: "audit_legal_holds t = update_where (\<lambda>r. ah_id r = ah_id h)
       (\<lambda>_. released_hold (hl_actor_id rq) (hl_release_reason rq) (uuid_at s (uuid_n s)) (clock_at s (Suc (clock_n s))) h)
       (audit_legal_holds s)"
    and draws: "uuid_at t = uuid_at s" "uuid_n t = Suc (uuid_n s)"
    using release_audit_legal_hold_Inr [OF assms(1)] by metis
  then have h: "h \<in> set (audit_legal_holds s)" "hold_key h = (hl_tenant_id rq, hl_hold_id rq)"
    by (auto dest: get_audit_legal_hold_SomeD)
  let ?h = "released_hold (hl_actor_id rq) (hl_release_reason rq) (uuid_at s (uuid_n s)) (clock_at s (Suc (clock_n s))) h"
  let ?e = "new_audit_event s (hold_released_event rq permitted)"
  note inv = assms(2) [unfolded ledger_inv_def]
  have same: "r = h" if "r \<in> set (audit_legal_holds s)" "ah_id r = ah_id h" for r
    using that h(1) inv distinct_key_unique [of ah_id "audit_legal_holds s" r h] by (auto simp: ids_drawn_def)
  have h': "ah_id ?h = ah_id h" "hold_key ?h = hold_key h" by (simp_all add: released_hold_def hold_key_def)
  have change: "ledger_change lx s t"
    unfolding ledger_change_def
  proof (intro conjI ballI)
    fix r assume r: "r \<in> set (audit_legal_holds s)"
    show "\<exists>r' \<in> set (audit_legal_holds t). ah_id r' = ah_id r \<and> (r' = r \<or> hold_released_later r r')"
    proof (cases "ah_id r = ah_id h")
      case True
      then have "r = h" using same r by blast
      then show ?thesis using r h' active
        by (intro bexI [of _ ?h]) (auto simp: holds set_update_where hold_released_later_def released_hold_def)
    next
      case False
      then show ?thesis using r by (intro bexI [of _ r]) (auto simp: holds set_update_where)
    qed
  qed (simp add: events)
  have "ids_drawn t (map ae_id (audit_events t))"
    using ids_drawn_append [of s "map ae_id (audit_events s)" t "[uuid_at s (uuid_n s)]"] inv draws events by simp
  moreover have "map ah_id (audit_legal_holds t) = map ah_id (audit_legal_holds s)"
    "map hold_key (audit_legal_holds t) = map hold_key (audit_legal_holds s)"
    using same h' unfolding holds by (auto intro!: map_update_where_same)
  moreover have "hold_ok lx t r" if "r \<in> set (audit_legal_holds t)" for r
  proof (cases "r = ?h")
    case True
    have "ah_tenant_id h = hl_tenant_id rq" using h(2) by (simp add: hold_key_def)
    moreover have "accounted lx t ?e" by (simp add: accounted_def events)
    moreover have "hold_ok lx t h" using inv h(1) hold_ok_mono [OF accounted_mono [OF change]] by blast
    ultimately show ?thesis
      unfolding True hold_ok_def
      by (intro conjI disjI2; force simp: released_hold_def hold_released_event_def new_audit_event_def intro: exI [of _ ?e])
  next
    case False
    then have "r \<in> set (audit_legal_holds s)" using that by (auto simp: holds set_update_where)
    then show ?thesis using inv hold_ok_mono [OF accounted_mono [OF change]] by blast
  qed
  ultimately show ?thesis
    using inv draws change ids_drawn_mono [of s _ t] by (auto simp: ledger_inv_def)
qed

lemma deletion_evidence_of_batch:
  assumes "e \<in> set cs" "ae_tenant_id e = dn_tenant_id rq"
  shows "deletion_evidence lx e (new_audit_event s
    (deletion_event rq cutoff d n m (map (event_deletion_hash lx) cs)))"
  using assms by (auto simp: deletion_evidence_def deletion_event_def dget_def intro!: exI [of _ "map (event_deletion_hash lx) cs"])

lemma deleted_step:
  assumes "execute_audit_retention_deletion lx rq s = (Inr res, t)" "ledger_inv lx s"
  shows "ledger_inv lx t \<and> ledger_change lx s t"
proof -
  let ?c = "deletion_cutoff rq s"
  let ?cs = "deletion_batch rq ?c (audit_events s)"
  note out = execute_retention_Inr [OF assms(1), unfolded deletion_outcome_def Let_def]
  show ?thesis
  proof (cases "t = tick s")
    case True
    then show ?thesis using only_appends_step [OF only_appends_tick assms(2)] by simp
  next
    case False
    let ?ev = "deletion_event rq ?c permitted (length ?cs) (length ?cs) (map (event_deletion_hash lx) ?cs)"
    from False out have t: "t = with_audit_event (without_events ?cs (tick s)) ?ev"
      and free: "\<And>h e. h \<in> set (audit_legal_holds s) \<Longrightarrow> e \<in> set ?cs \<Longrightarrow> \<not> active_hold_on e h"
      by (auto split: if_splits)
    note inv = assms(2) [unfolded ledger_inv_def]
    have gone: "e \<in> set ?cs" if "e \<in> set (audit_events s)" "ae_id e \<in> ae_id ` set ?cs" for e
    proof -
      from that obtain e' where e: "e \<in> set (audit_events s)" and e': "e' \<in> set ?cs" "ae_id e' = ae_id e" by auto
      then have "e' \<in> set (audit_events s)" using deletion_batch_subset by blast
      then have "e' = e" using e e'(2) inv distinct_key_unique [of ae_id "audit_events s" e' e] by (auto simp: ids_drawn_def)
      with e' show ?thesis by simp
    qed
    have events: "audit_events t = select_where (\<lambda>e. ae_id e \<notin> ae_id ` set ?cs) (audit_events s)
        @ [new_audit_event (without_events ?cs (tick s)) ?ev]"
      by (simp add: t)
    have change: "ledger_change lx s t"
      unfolding ledger_change_def
    proof (intro conjI ballI)
      fix e assume e: "e \<in> set (audit_events s)"
      show "e \<in> set (audit_events t)
        \<or> ae_event_type e \<noteq> RETENTION_DELETION_EVENT_TYPE \<and> \<not> (\<exists>h \<in> set (audit_legal_holds s). active_hold_on e h)
          \<and> (\<exists>ev \<in> set (audit_events t). deletion_evidence lx e ev)"
      proof (cases "ae_id e \<in> ae_id ` set ?cs")
        case True
        then have mem: "e \<in> set ?cs" using gone e by blast
        then have exp: "expired_event rq ?c e" using deletion_batch_subset by blast
        then have "deletion_evidence lx e (new_audit_event (without_events ?cs (tick s)) ?ev)"
          using deletion_evidence_of_batch [OF mem] by (simp add: expired_event_def)
        then show ?thesis using exp free mem by (auto simp: events expired_event_def)
      qed (simp add: events e)
    qed (auto simp: t)
    have "distinct (map ae_id (select_where P (audit_events s)))" for P
      using inv by (simp add: ids_drawn_def select_where_def distinct_map_filter)
    then have kept: "ids_drawn s (map ae_id (select_where P (audit_events s)))" for P
      using inv by (auto simp: ids_drawn_def)
    have "ids_drawn t (map ae_id (audit_events t))"
      using ids_drawn_append [OF _ kept, of t "[uuid_at s (uuid_n s)]"] inv by (simp add: events) (simp add: t)
    then show ?thesis
      using inv change ids_drawn_mono [of s _ t] hold_ok_mono [OF accounted_mono [OF change]] by (auto simp: ledger_inv_def t)
  qed
qed

subsection \<open>The endpoints\<close>

definition grown :: "db \<Rightarrow> db \<Rightarrow> bool" where
  "grown s t \<longleftrightarrow> uuid_at t = uuid_at s \<and> uuid_n s \<le> uuid_n t"

lemma keeps_grown [op_keeps]:
  "keeps (grown s) utc_now" "keeps (grown s) uuid4" "keeps (grown s) (append_audit_event ev)"
  "keeps (grown s) (put_op (\<lambda>t. t\<lparr>audit_legal_holds := f t\<rparr>))" "keeps (grown s) (delete_audit_events cs)"
  by (simp_all add: keeps_def grown_def delete_audit_events_def bind_op_def)

lemma create_grown: "keeps (grown s) (create_audit_legal_hold rq)"
  unfolding create_audit_legal_hold_def insert_audit_legal_hold_def Let_def by (intro op_keeps)

lemma release_grown: "keeps (grown s) (release_audit_legal_hold rq)"
  unfolding release_audit_legal_hold_def release_hold_row_def Let_def by (intro op_keeps)

lemma delete_grown: "keeps (grown s) (execute_audit_retention_deletion lx rq)"
  unfolding execute_audit_retention_deletion_def Let_def by (intro op_keeps)

lemma object_grown: "keeps (grown s) (object_legal_hold operation call event_type status store rq)"
  unfolding object_legal_hold_def by (intro op_keeps)

text \<open>A transaction of the ledger: what its body does when it returns, and nothing but draws when it raises.\<close>

lemma scoped_step:
  assumes run: "session_scope m s = (r, t)" and grown: "keeps (grown s) m" and inv: "ledger_inv lx s"
    and body: "\<And>v u. m s = (Inr v, u) \<Longrightarrow> ledger_inv lx u \<and> ledger_change lx s u"
  shows "ledger_inv lx t \<and> ledger_change lx s t"
proof -
  obtain x u where m: "m s = (x, u)" by fastforce
  have "grown s u" using keepsD [OF grown _ m] by (simp add: grown_def)
  show ?thesis
  proof (cases x)
    case (Inl e)
    then have "t = rollback s u" using run m by (simp add: session_scope_def)
    then show ?thesis
      using only_appends_step [OF only_appends_rollback inv] \<open>grown s u\<close> by (simp add: grown_def)
  next
    case (Inr v)
    then have "m s = (Inr v, t)" using run m by (simp add: session_scope_def)
    then show ?thesis by (rule body)
  qed
qed

lemma bound_Inr: "bind_op (of_result b) f s = (Inr v, u) \<longleftrightarrow> (\<exists>bound. b = Inr bound \<and> f bound s = (Inr v, u))"
  by (auto simp: bind_op_Inr_iff)

lemma object_legal_hold_Inr:
  assumes "object_legal_hold operation call event_type status store rq s = (Inr v, t)"
  shows "LEGAL_HOLD_REQUIRED_SCOPE \<in> set (oh_actor_scopes rq)"
    "require_tenant_scoped_storage_key (oh_tenant_id rq) (oh_storage_key rq) = Inr (oh_storage_key rq)"
    "hs_supported store" "call (oh_storage_key rq)"
    "t = with_audit_event s (object_hold_event store rq permitted event_type status)"
proof -
  have same: "k = key" if "require_tenant_scoped_storage_key tid key = Inr k" for tid key k
    using that by (auto simp: require_tenant_scoped_storage_key_def Let_def split: if_splits)
  show "LEGAL_HOLD_REQUIRED_SCOPE \<in> set (oh_actor_scopes rq)"
    "require_tenant_scoped_storage_key (oh_tenant_id rq) (oh_storage_key rq) = Inr (oh_storage_key rq)"
    "hs_supported store" "call (oh_storage_key rq)"
    "t = with_audit_event s (object_hold_event store rq permitted event_type status)"
    using assms
    by (auto simp: object_legal_hold_def bind_op_Inr_iff evaluate_legal_hold_permission_Inr split: if_splits dest: same)
qed

lemma ledger_step_keeps:
  assumes "ledger_step lx s t" "ledger_inv lx s"
  shows "ledger_inv lx t \<and> ledger_change lx s t"
  using assms
proof cases
  case (hold_created crq p cr)
  show ?thesis
    by (rule scoped_step [OF hold_created [unfolded manufacturing_audit_legal_hold_create_def] _ assms(2)])
      (auto simp: bound_Inr dest: created_step [OF _ assms(2)] intro!: op_keeps create_grown)
next
  case (hold_released hid rrq p rr)
  show ?thesis
    by (rule scoped_step [OF hold_released [unfolded manufacturing_audit_legal_hold_release_def] _ assms(2)])
      (auto simp: bound_Inr dest: released_step [OF _ assms(2)] intro!: op_keeps release_grown split: if_splits)
next
  case (deleted drq p dr)
  show ?thesis
    by (rule scoped_step [OF deleted [unfolded manufacturing_audit_retention_delete_def] _ assms(2)])
      (auto simp: bound_Inr dest: deleted_step [OF _ assms(2)] intro!: op_keeps delete_grown)
next
  case (object_held store orq p orec)
  show ?thesis
    by (rule scoped_step [OF object_held [unfolded manufacturing_audit_object_legal_hold_apply_def apply_object_legal_hold_def] _ assms(2)])
      (auto simp: bound_Inr dest!: object_legal_hold_Inr(5) intro!: op_keeps object_grown only_appends_step [OF only_appends_event] assms(2))
next
  case (object_released store orq p orec)
  show ?thesis
    by (rule scoped_step [OF object_released [unfolded manufacturing_audit_object_legal_hold_release_def release_object_legal_hold_def] _ assms(2)])
      (auto simp: bound_Inr dest!: object_legal_hold_Inr(5) intro!: op_keeps object_grown only_appends_step [OF only_appends_event] assms(2))
next
  case appended
  then show ?thesis using only_appends_step assms(2) by blast
qed

lemma ledger_steps_inv: "ledger_steps lx s t \<Longrightarrow> ledger_inv lx s \<Longrightarrow> ledger_inv lx t"
  by (induction rule: ledger_steps.induct) (auto dest: ledger_step_keeps)

lemma ledger_reachable_inv: "ledger_reachable lx s \<Longrightarrow> ledger_inv lx s"
  unfolding ledger_reachable_def
proof (elim exE conjE)
  fix start assume "inj (uuid_at start)" "audit_events start = []" "audit_legal_holds start = []" and run: "ledger_steps lx start s"
  then have "ledger_inv lx start" by (simp add: ledger_inv_def ids_drawn_def)
  with run show "ledger_inv lx s" by (rule ledger_steps_inv)
qed

subsection \<open>Along a history\<close>

lemma evidence_stays:
  assumes "ledger_steps lx s t" "ledger_inv lx s" "ev \<in> set (audit_events s)" "ae_event_type ev = RETENTION_DELETION_EVENT_TYPE"
  shows "ev \<in> set (audit_events t)"
  using assms
proof (induction rule: ledger_steps.induct)
  case (more s u t)
  then have "ledger_change lx u t" using ledger_step_keeps ledger_steps_inv by blast
  with more show ?case unfolding ledger_change_def by blast
qed simp

lemma accounted_steps:
  assumes "ledger_steps lx s t" "ledger_inv lx s" "accounted lx s e"
  shows "accounted lx t e"
  using assms
proof (induction rule: ledger_steps.induct)
  case (more s u t)
  then have "ledger_change lx u t" using ledger_step_keeps ledger_steps_inv by blast
  with more show ?case using accounted_mono by blast
qed simp

lemma hold_steps:
  assumes "ledger_steps lx s t" "ledger_inv lx s" "h \<in> set (audit_legal_holds s)"
  shows "\<exists>h' \<in> set (audit_legal_holds t). ah_id h' = ah_id h \<and> (h' = h \<or> hold_released_later h h')"
  using assms
proof (induction rule: ledger_steps.induct)
  case (more s u t)
  obtain h1 where h1: "h1 \<in> set (audit_legal_holds u)" "ah_id h1 = ah_id h" "h1 = h \<or> hold_released_later h h1"
    using more.IH more.prems by blast
  have "ledger_change lx u t" using more ledger_step_keeps ledger_steps_inv by blast
  then obtain h2 where "h2 \<in> set (audit_legal_holds t)" "ah_id h2 = ah_id h1" "h2 = h1 \<or> hold_released_later h1 h2"
    using h1(1) unfolding ledger_change_def by blast
  with h1 show ?case by (intro bexI [of _ h2]) (auto simp: hold_released_later_def)
qed auto

lemma held_event_stays:
  assumes "ledger_steps lx s t" "ledger_inv lx s" "e \<in> set (audit_events s)" "h \<in> set (audit_legal_holds s)"
    "active_hold_on e h" "h' \<in> set (audit_legal_holds t)" "ah_id h' = ah_id h" "ah_status h' = ''active''"
  shows "e \<in> set (audit_events t)"
  using assms
proof (induction arbitrary: h' rule: ledger_steps.induct)
  case (more s u t)
  obtain h1 where h1: "h1 \<in> set (audit_legal_holds u)" "ah_id h1 = ah_id h" "h1 = h \<or> hold_released_later h h1"
    using hold_steps [OF more.hyps(1) more.prems(1) more.prems(3)] by blast
  have step: "ledger_inv lx t \<and> ledger_change lx u t" using more ledger_step_keeps ledger_steps_inv by blast
  then obtain h2 where h2: "h2 \<in> set (audit_legal_holds t)" "ah_id h2 = ah_id h1" "h2 = h1 \<or> hold_released_later h1 h2"
    using h1(1) unfolding ledger_change_def by blast
  have "h2 = h'"
    using step h1(2) h2(1,2) more.prems(5,6) distinct_key_unique [of ah_id "audit_legal_holds t" h2 h']
    by (auto simp: ledger_inv_def ids_drawn_def)
  then have "h1 = h" using h1(3) h2(3) more.prems(7) by (auto simp: hold_released_later_def)
  then have "e \<in> set (audit_events u)" using more.IH more.prems h1(1) by (auto simp: active_hold_on_def)
  then show ?case using step \<open>h1 = h\<close> h1(1) more.prems(4) unfolding ledger_change_def by blast
qed simp

section \<open>Storage keys\<close>

definition clean_segment :: "string \<Rightarrow> bool" where
  "clean_segment part \<longleftrightarrow> part \<notin> {[], ''.'', ''..''} \<and> CHR ''/'' \<notin> set part \<and> CHR 0x5C \<notin> set part
     \<and> \<not> (\<exists>c \<in> set part. control_char c)"

text \<open>A key in the namespace of a tenant: the tenant's name, or the root of the ingested artifacts and the tenant's name,
  and at least one more segment.\<close>

definition in_namespace :: "string \<Rightarrow> string \<Rightarrow> bool" where
  "in_namespace tid key \<longleftrightarrow> clean_segment tid \<and> tid \<noteq> TENANT_NAMESPACE_ROOT
     \<and> (\<exists>segments. segments \<noteq> [] \<and> list_all clean_segment segments
          \<and> (key = join_text ''/'' (tid # segments) \<or> key = join_text ''/'' (TENANT_NAMESPACE_ROOT # tid # segments)))"

lemma split_slash_not_Nil [simp]: "split_slash t \<noteq> []"
  by (induction t) (auto split: list.splits)

lemma split_slash_word: "CHR ''/'' \<notin> set w \<Longrightarrow> split_slash (w @ t) = (w @ hd (split_slash t)) # tl (split_slash t)"
  by (induction w) (auto split: list.splits)

lemma split_join: "ps \<noteq> [] \<Longrightarrow> \<forall>p \<in> set ps. CHR ''/'' \<notin> set p \<Longrightarrow> split_slash (join_text ''/'' ps) = ps"
proof (induction "''/''" ps rule: join_text.induct)
  case (2 t)
  then show ?case using split_slash_word [of t "[]"] by simp
next
  case (3 t u rest)
  then show ?case using split_slash_word [of t "''/'' @ join_text ''/'' (u # rest)"] by simp
qed simp

lemma join_split: "join_text ''/'' (split_slash t) = t"
proof (induction t)
  case (Cons c t)
  obtain p ps where p: "split_slash t = p # ps" using split_slash_not_Nil by (metis list.exhaust)
  with Cons.IH show ?case by (cases ps) auto
qed simp

lemma split_parts: "p \<in> set (split_slash t) \<Longrightarrow> CHR ''/'' \<notin> set p \<and> set p \<subseteq> set t"
proof (induction t arbitrary: p)
  case (Cons c t)
  obtain q qs where q: "split_slash t = q # qs" using split_slash_not_Nil by (metis list.exhaust)
  with Cons show ?case by (fastforce split: if_splits)
qed simp

lemma set_join: "set (join_text ''/'' ps) \<subseteq> (\<Union>p \<in> set ps. set p) \<union> {CHR ''/''}"
  by (induction "''/''" ps rule: join_text.induct) auto

lemma hd_join: "ps \<noteq> [] \<Longrightarrow> hd ps \<noteq> [] \<Longrightarrow> join_text ''/'' ps \<noteq> [] \<and> hd (join_text ''/'' ps) = hd (hd ps)"
  by (induction "''/''" ps rule: join_text.induct) auto

lemma clean_join:
  assumes "ps \<noteq> []" "list_all clean_segment ps"
  shows "join_text ''/'' ps \<noteq> []" "CHR 0x5C \<notin> set (join_text ''/'' ps)" "\<not> (\<exists>c \<in> set (join_text ''/'' ps). control_char c)"
    "hd (join_text ''/'' ps) \<noteq> CHR ''/''" "split_slash (join_text ''/'' ps) = ps"
proof -
  have ps: "clean_segment p" if "p \<in> set ps" for p using assms(2) that by (auto simp: list_all_iff)
  have first: "clean_segment (hd ps)" using ps assms(1) by simp
  then show "join_text ''/'' ps \<noteq> []" using hd_join [OF assms(1)] by (auto simp: clean_segment_def)
  show "CHR 0x5C \<notin> set (join_text ''/'' ps)" using set_join [of ps] ps by (fastforce simp: clean_segment_def)
  have "\<not> control_char CHR ''/''" by (simp add: control_char_def)
  then show "\<not> (\<exists>c \<in> set (join_text ''/'' ps). control_char c)" using set_join [of ps] ps by (fastforce simp: clean_segment_def)
  have ne: "hd ps \<noteq> []" and "CHR ''/'' \<notin> set (hd ps)" using first by (simp_all add: clean_segment_def)
  then have "hd (hd ps) \<noteq> CHR ''/''" using hd_in_set [OF ne] by metis
  then show "hd (join_text ''/'' ps) \<noteq> CHR ''/''" using hd_join [OF assms(1) ne] by simp
  show "split_slash (join_text ''/'' ps) = ps" using split_join assms(1) ps by (simp add: clean_segment_def)
qed

lemma root_clean: "clean_segment TENANT_NAMESPACE_ROOT"
  by (simp add: clean_segment_def TENANT_NAMESPACE_ROOT_def control_char_def)

lemma in_namespace_parts:
  "in_namespace tid key \<longleftrightarrow> clean_segment tid \<and> tid \<noteq> TENANT_NAMESPACE_ROOT \<and> list_all clean_segment (split_slash key)
     \<and> (length (split_slash key) \<ge> 2 \<and> split_slash key ! 0 = tid
        \<or> length (split_slash key) \<ge> 3 \<and> split_slash key ! 0 = TENANT_NAMESPACE_ROOT \<and> split_slash key ! 1 = tid)"
  (is "_ \<longleftrightarrow> ?parts")
proof
  assume "in_namespace tid key"
  then obtain segs where tid: "clean_segment tid" "tid \<noteq> TENANT_NAMESPACE_ROOT" and segs: "segs \<noteq> []" "list_all clean_segment segs"
    and key: "key = join_text ''/'' (tid # segs) \<or> key = join_text ''/'' (TENANT_NAMESPACE_ROOT # tid # segs)"
    unfolding in_namespace_def by blast
  have n: "Suc 0 \<le> length segs" using segs(1) by (simp add: Suc_le_eq)
  from key show ?parts
  proof
    assume "key = join_text ''/'' (tid # segs)"
    then have "split_slash key = tid # segs" using clean_join(5) [of "tid # segs"] tid segs by simp
    then show ?parts using tid segs n by simp
  next
    assume "key = join_text ''/'' (TENANT_NAMESPACE_ROOT # tid # segs)"
    then have "split_slash key = TENANT_NAMESPACE_ROOT # tid # segs"
      using clean_join(5) [of "TENANT_NAMESPACE_ROOT # tid # segs"] root_clean tid segs by simp
    then show ?parts using root_clean tid segs n by simp
  qed
next
  assume r: ?parts
  then consider segs where "split_slash key = tid # segs" "segs \<noteq> []"
    | segs where "split_slash key = TENANT_NAMESPACE_ROOT # tid # segs" "segs \<noteq> []"
    by (cases "split_slash key" rule: remdups_adj.cases) (auto simp: neq_Nil_conv Suc_le_eq nth_Cons' split: if_splits)
  then show "in_namespace tid key"
  proof cases
    case (1 segs)
    then show ?thesis using r join_split [of key] by (auto simp: in_namespace_def intro!: exI [of _ segs])
  next
    case (2 segs)
    then show ?thesis using r join_split [of key] by (auto simp: in_namespace_def intro!: exI [of _ segs])
  qed
qed

lemma storage_key_iff:
  "require_tenant_scoped_storage_key tid key = Inr v \<longleftrightarrow> v = key \<and> in_namespace tid key"
proof -
  let ?bad = "key = [] \<or> CHR 0x5C \<in> set key \<or> (\<exists>c \<in> set key. control_char c) \<or> hd key = CHR ''/''"
  have clean: "list_all clean_segment (split_slash key) \<longleftrightarrow> \<not> ?bad \<and> (\<forall>p \<in> set (split_slash key). p \<notin> {[], ''.'', ''..''})"
  proof
    assume "list_all clean_segment (split_slash key)"
    then show "\<not> ?bad \<and> (\<forall>p \<in> set (split_slash key). p \<notin> {[], ''.'', ''..''})"
      using clean_join [of "split_slash key"] join_split [of key] by (auto simp: list_all_iff clean_segment_def)
  next
    assume "\<not> ?bad \<and> (\<forall>p \<in> set (split_slash key). p \<notin> {[], ''.'', ''..''})"
    then show "list_all clean_segment (split_slash key)"
      using split_parts [of _ key] unfolding list_all_iff clean_segment_def by blast
  qed
  have tenant: "clean_segment tid \<and> tid \<noteq> TENANT_NAMESPACE_ROOT
      \<longleftrightarrow> tid \<notin> {[], ''.'', ''..'', TENANT_NAMESPACE_ROOT} \<and> CHR ''/'' \<notin> set tid"
    if "list_all clean_segment (split_slash key)" "tid \<in> set (split_slash key)"
    using that by (auto simp: list_all_iff clean_segment_def)
  show ?thesis
  proof (cases "list_all clean_segment (split_slash key)")
    case False
    then have "require_tenant_scoped_storage_key tid key = Inl ObjectLegalHoldKeyOutOfScope"
      using clean by (auto simp: require_tenant_scoped_storage_key_def Let_def)
    with False show ?thesis by (simp add: in_namespace_parts)
  next
    case True
    with clean have "\<not> ?bad" "\<not> (\<exists>part \<in> set (split_slash key). part \<in> {[], ''.'', ''..''})" by auto
    then have "require_tenant_scoped_storage_key tid key = Inr v \<longleftrightarrow> v = key
        \<and> tid \<notin> {[], ''.'', ''..'', TENANT_NAMESPACE_ROOT} \<and> CHR ''/'' \<notin> set tid
        \<and> (length (split_slash key) \<ge> 2 \<and> split_slash key ! 0 = tid
          \<or> length (split_slash key) \<ge> 3 \<and> split_slash key ! 0 = TENANT_NAMESPACE_ROOT \<and> split_slash key ! 1 = tid)"
      unfolding require_tenant_scoped_storage_key_def Let_def by (simp only: if_False) auto
    moreover have "tid \<in> set (split_slash key)"
      if "length (split_slash key) \<ge> 2 \<and> split_slash key ! 0 = tid
          \<or> length (split_slash key) \<ge> 3 \<and> split_slash key ! 0 = TENANT_NAMESPACE_ROOT \<and> split_slash key ! 1 = tid"
      using that nth_mem [of 0 "split_slash key"] nth_mem [of 1 "split_slash key"] by auto
    ultimately show ?thesis using True tenant unfolding in_namespace_parts by blast
  qed
qed

lemma in_namespace_unique: "in_namespace tid key \<Longrightarrow> in_namespace tid' key \<Longrightarrow> tid' = tid"
  by (auto simp: in_namespace_parts)

section \<open>Views and exports\<close>

lemma to_ledger_events_Inr:
  "to_ledger_events lx es = Inr vs \<longleftrightarrow> list_all2 (\<lambda>e v. audit_event_to_ledger_event lx e = Inr v) es vs"
proof (induction es arbitrary: vs)
  case (Cons e es)
  show ?case using Cons.IH by (cases vs) (auto split: sum.splits, metis Inr_inject)
qed auto

lemma view_Inr:
  assumes "audit_event_to_ledger_event lx e = Inr v"
  shows "xe_tenant_id v = ae_tenant_id e" "xe_occurred_at v = ae_created_at e" "xe_event_type v = ae_event_type e"
    "xe_actor_id v = ae_actor_id e" "xe_audit_event_id v = uuid_text (ae_id e)" "xe_scope v = scope_of lx e"
    "xe_payload_preview v = payload_preview_of lx (ae_payload e)" "ledger_event_valid v"
  using assms by (auto simp: audit_event_to_ledger_event_def Let_def split: sum.splits if_splits)

definition shown_in_scope :: "string option \<Rightarrow> ledger_event list \<Rightarrow> ledger_event list" where
  "shown_in_scope scope views = (case scope of None \<Rightarrow> views | Some sc \<Rightarrow> filter (\<lambda>v. xe_scope v = sc) views)"

lemma metadata_Inr:
  "get_manufacturing_tenant_metadata tid s = (Inr m, t) \<Longrightarrow> t = s \<or> t = tick s"
  by (auto simp: get_manufacturing_tenant_metadata_def bind_op_Inr_iff tick_def split: option.splits if_splits)

lemma list_audit_events_tick [simp]: "list_audit_events a b c n (tick s) = list_audit_events a b c n s"
  by (simp add: list_audit_events_def)

lemma query_Inr:
  assumes "query_persisted_audit_events lx q s = (Inr x, t)"
  obtains views where "to_ledger_events lx (list_audit_events (yq_tenant_id q) (yq_event_type q) (yq_actor_id q) (yq_limit q) s) = Inr views"
    "yx_events x = shown_in_scope (yq_scope q) views" "t = s \<or> t = tick s"
proof -
  obtain m u where m: "get_manufacturing_tenant_metadata (yq_tenant_id q) s = (Inr m, u)"
    using assms by (auto simp: query_persisted_audit_events_def bind_op_Inr_iff)
  have u: "u = s \<or> u = tick s" by (rule metadata_Inr [OF m])
  then have same: "list_audit_events a b c n u = list_audit_events a b c n s" for a b c n by auto
  obtain views where views: "to_ledger_events lx (list_audit_events (yq_tenant_id q) (yq_event_type q) (yq_actor_id q) (yq_limit q) s) = Inr views"
    using assms m same by (auto simp: query_persisted_audit_events_def bind_op_Inr_iff)
  show thesis
  proof (rule that [OF views])
    show "yx_events x = shown_in_scope (yq_scope q) views" "t = s \<or> t = tick s"
      using assms m views u unfolding query_persisted_audit_events_def shown_in_scope_def
      by (simp_all add: bind_op_def same Let_def split: option.splits) auto
  qed
qed

lemma list_audit_events_tenant: "e \<in> set (list_audit_events tid b c n s) \<Longrightarrow> e \<in> set (audit_events s) \<and> ae_tenant_id e = tid"
  by (auto simp: list_audit_events_def dest!: in_set_takeD)

text \<open>What an export of the views \<open>views\<close> made at \<open>now\<close> keeps.\<close>

definition exported :: "export_query \<Rightarrow> timestamp \<Rightarrow> ledger_event list \<Rightarrow> ledger_event list" where
  "exported q now views =
     (if yq_legal_hold q then views
      else filter (\<lambda>v. now - timedelta_days (yq_retention_days q) \<le> xe_occurred_at v) views)"

lemma apply_retention_policy_exported:
  "apply_retention_policy views q now = (exported q now views, now - timedelta_days (yq_retention_days q),
     length views - length (exported q now views), \<not> yq_legal_hold q)"
  by (simp add: apply_retention_policy_def exported_def Let_def)

definition export_payload :: "export_bundle \<Rightarrow> json" where
  "export_payload b = canonical_ledger_signature_payload (xb_manifest b) (xb_integrity_proof b)"

lemma export_Inr:
  assumes "export_persisted_audit_events lx q signer capability compliance s = (Inr b, t)"
  obtains views u where "to_ledger_events lx (list_audit_events (yq_tenant_id q) (yq_event_type q) (yq_actor_id q) (yq_limit q) s) = Inr views"
    "u = s \<or> u = tick s" "t = tick u"
    "xb_events b = exported q (clock_at s (clock_n u)) (shown_in_scope (yq_scope q) views)"
    "xb_tenant_id b = yq_tenant_id q" "xb_integrity_proof b = integrity_proof_of lx (xb_events b)"
    "xb_manifest b = export_manifest_of q (clock_at s (clock_n u)) (xb_events b)
       (clock_at s (clock_n u) - timedelta_days (yq_retention_days q))
       (length (shown_in_scope (yq_scope q) views) - length (xb_events b)) (\<not> yq_legal_hold q)
       (events_checksum lx (xb_events b)) (integrity_proof_of lx (xb_events b)) capability"
    "xb_ledger_signature b = (case signer of Some k \<Rightarrow> sign_payload lx k (export_payload b)
       | None \<Rightarrow> unsigned_audit_ledger_signature lx (export_payload b))"
    "compliance \<longrightarrow> (\<exists>c. capability = Some c \<and> ol2_compliance_enforceable c)"
proof -
  have ok: "\<not> (compliance \<and> (case capability of None \<Rightarrow> True | Some c \<Rightarrow> \<not> ol2_compliance_enforceable c))"
    using assms by (auto simp: export_persisted_audit_events_def)
  obtain x u where x: "query_persisted_audit_events lx (query_filters q) s = (Inr x, u)"
    and run: "t = tick u" "b = export_bundle_of lx q signer capability x (clock_at u (clock_n u))"
    using assms ok by (auto simp: export_persisted_audit_events_def bind_op_Inr_iff tick_def split: if_splits)
  obtain views where views: "to_ledger_events lx (list_audit_events (yq_tenant_id q) (yq_event_type q) (yq_actor_id q) (yq_limit q) s) = Inr views"
    "yx_events x = shown_in_scope (yq_scope q) views" "u = s \<or> u = tick s"
    using query_Inr [OF x] unfolding query_filters_def by (metis audit_query.select_convs)
  have clock: "clock_at u = clock_at s" using views(3) by auto
  have t: "t = tick u" and b: "xb_events b = exported q (clock_at s (clock_n u)) (shown_in_scope (yq_scope q) views)"
    "xb_tenant_id b = yq_tenant_id q" "xb_integrity_proof b = integrity_proof_of lx (xb_events b)"
    "xb_manifest b = export_manifest_of q (clock_at s (clock_n u)) (xb_events b)
       (clock_at s (clock_n u) - timedelta_days (yq_retention_days q))
       (length (shown_in_scope (yq_scope q) views) - length (xb_events b)) (\<not> yq_legal_hold q)
       (events_checksum lx (xb_events b)) (integrity_proof_of lx (xb_events b)) capability"
    "xb_ledger_signature b = (case signer of Some k \<Rightarrow> sign_payload lx k (export_payload b)
       | None \<Rightarrow> unsigned_audit_ledger_signature lx (export_payload b))"
    by (simp_all add: run export_bundle_of_def apply_retention_policy_exported views(2) clock export_payload_def Let_def split: option.split)
  show thesis
    by (rule that [OF views(1,3) t b]) (use ok in \<open>auto split: option.splits\<close>)
qed

subsection \<open>The hash chain\<close>

text \<open>The texts that are hashed for the links of a chain.\<close>

fun link_texts :: "ledger_codecs \<Rightarrow> string \<Rightarrow> string list \<Rightarrow> string set" where
  "link_texts lx tip [] = {}"
| "link_texts lx tip (h # hashes) = insert (tip @ '':'' @ h) (link_texts lx (chain_link lx tip h) hashes)"

lemma hash_chain_snoc: "hash_chain lx tip (hs @ [h]) = chain_link lx (hash_chain lx tip hs) h"
  by (induction hs arbitrary: tip) auto

lemma link_texts_snoc: "link_texts lx tip (hs @ [h]) = insert (hash_chain lx tip hs @ '':'' @ h) (link_texts lx tip hs)"
  by (induction hs arbitrary: tip) auto

definition collision :: "ledger_codecs \<Rightarrow> string set \<Rightarrow> bool" where
  "collision lx texts \<longleftrightarrow> (\<exists>x \<in> texts. \<exists>y \<in> texts. x \<noteq> y \<and> lc_sha256 lx x = lc_sha256 lx y)"

lemma collision_mono: "collision lx A \<Longrightarrow> A \<subseteq> B \<Longrightarrow> collision lx B"
  unfolding collision_def by blast

lemma hash_chain_length:
  "(\<And>x. length (lc_sha256 lx x) = n) \<Longrightarrow> length tip = n \<Longrightarrow> length (hash_chain lx tip hs) = n"
  by (induction hs arbitrary: tip) (simp_all add: chain_link_def)

lemma hash_chain_inj:
  assumes len: "\<And>x. length (lc_sha256 lx x) = n" and tip: "length tip = n"
    and "hash_chain lx tip hs = hash_chain lx tip gs"
  shows "hs = gs \<or> collision lx (link_texts lx tip hs \<union> link_texts lx tip gs)
    \<or> (\<exists>x \<in> link_texts lx tip hs \<union> link_texts lx tip gs. lc_sha256 lx x = tip)"
  using assms(3)
proof (induction hs arbitrary: gs rule: rev_induct)
  case Nil
  show ?case
  proof (cases gs rule: rev_cases)
    case (snoc gs' g)
    with Nil show ?thesis by (auto simp: hash_chain_snoc link_texts_snoc chain_link_def)
  qed simp
next
  case (snoc h hs)
  show ?case
  proof (cases gs rule: rev_cases)
    case Nil
    with snoc.prems show ?thesis by (auto simp: hash_chain_snoc link_texts_snoc chain_link_def)
  next
    case gs: (snoc gs' g)
    let ?x = "hash_chain lx tip hs @ '':'' @ h" and ?y = "hash_chain lx tip gs' @ '':'' @ g"
    have eq: "lc_sha256 lx ?x = lc_sha256 lx ?y"
      using snoc.prems by (simp add: gs hash_chain_snoc chain_link_def)
    show ?thesis
    proof (cases "?x = ?y")
      case False
      then show ?thesis using eq by (auto simp: gs link_texts_snoc collision_def)
    next
      case True
      then have "hash_chain lx tip hs = hash_chain lx tip gs'" "h = g"
        using hash_chain_length [of lx n tip hs, OF len tip] hash_chain_length [of lx n tip gs', OF len tip] by auto
      moreover have "link_texts lx tip hs \<union> link_texts lx tip gs' \<subseteq> link_texts lx tip (hs @ [h]) \<union> link_texts lx tip gs"
        by (auto simp: gs link_texts_snoc)
      ultimately show ?thesis
        using snoc.IH [of gs'] collision_mono [of lx "link_texts lx tip hs \<union> link_texts lx tip gs'"] unfolding gs by blast
    qed
  qed
qed

text \<open>All texts that are hashed for the proof of an export.\<close>

definition proof_texts :: "ledger_codecs \<Rightarrow> ledger_event list \<Rightarrow> string set" where
  "proof_texts lx events = event_text lx ` set events
     \<union> link_texts lx CHAIN_START (map (\<lambda>e. lc_sha256 lx (event_text lx e)) events)"

lemma map_sha_inj:
  "map (lc_sha256 lx) xs = map (lc_sha256 lx) ys \<Longrightarrow> xs = ys \<or> collision lx (set xs \<union> set ys)"
proof (induction xs arbitrary: ys)
  case (Cons x xs)
  then obtain y ys' where ys: "ys = y # ys'" "lc_sha256 lx x = lc_sha256 lx y" "map (lc_sha256 lx) xs = map (lc_sha256 lx) ys'"
    by (auto simp: Cons_eq_map_conv)
  show ?case
  proof (cases "x = y")
    case True
    then show ?thesis
      using Cons.IH [OF ys(3)] collision_mono [of lx "set xs \<union> set ys'" "set (x # xs) \<union> set ys"] by (auto simp: ys(1))
  next
    case False
    then show ?thesis using ys(2) by (auto simp: ys(1) collision_def)
  qed
qed simp

subsection \<open>What a view shows\<close>

text \<open>The keys of a payload whose values a view may show.\<close>

definition GOVERNED_KEYS :: "string list" where
  "GOVERNED_KEYS = PREVIEW_KEYS @
     [''category'', ''domain'', ''risk_level'', ''scope'', ''result'', ''approval_required'', ''source'',
      ''required_permission'', ''permission_scope'', ''agent_id'', ''action_run_id'']"

lemma first_payload_value_cong:
  "(\<And>k. k \<in> set keys \<Longrightarrow> dget p k = dget p' k) \<Longrightarrow> first_payload_value lx p keys d = first_payload_value lx p' keys d"
  by (induction keys) auto

lemma payload_preview_cong:
  assumes "\<And>k. k \<in> set PREVIEW_KEYS \<Longrightarrow> dget p k = dget p' k" "sort (map fst p) = sort (map fst p')"
  shows "payload_preview_of lx p = payload_preview_of lx p'"
proof -
  have "concat (map (\<lambda>k. if dget p k \<noteq> JNull then [(k, string_value lx (dget p k))] else []) PREVIEW_KEYS)
      = concat (map (\<lambda>k. if dget p' k \<noteq> JNull then [(k, string_value lx (dget p' k))] else []) PREVIEW_KEYS)"
    using assms(1) by (intro arg_cong [where f = concat] map_cong) auto
  then show ?thesis using assms(2) by (simp add: payload_preview_of_def)
qed

section \<open>Properties\<close>

text \<open>C33. A deletion removes exactly what it may. The caller acts for its own tenant with the scope for retention deletion.
  The candidates are the oldest events of the tenant that are past the cutoff, pass the filters and are no evidence of
  a deletion, up to the limit. If one of them is covered by an active hold, or the request is a rehearsal or claims a
  hold, nothing is removed; otherwise exactly the candidates are, and one event that lists their digests is appended.\<close>

theorem retention_deletion_exact:
  assumes "ledger_reachable lx s" and "manufacturing_audit_retention_delete lx rq p s = (Inr res, t)"
  shows "let cs = deletion_batch rq (deletion_cutoff rq s) (audit_events s) in
    (case p of None \<Rightarrow> RETENTION_DELETION_REQUIRED_SCOPE \<in> set (dn_actor_scopes rq)
       | Some q \<Rightarrow> sp_tenant_id q = dn_tenant_id rq \<and> RETENTION_DELETION_REQUIRED_SCOPE \<in> set (sp_scopes q))
    \<and> dt_candidate_count res = length cs \<and> audit_legal_holds t = audit_legal_holds s
    \<and> (if dn_legal_hold rq \<or> dn_dry_run rq \<or> (\<exists>h \<in> set (audit_legal_holds s). \<exists>e \<in> set cs. active_hold_on e h)
       then dt_deleted_count res = 0 \<and> audit_events t = audit_events s
       else dt_deleted_count res = length cs
         \<and> (\<exists>ev. audit_events t = filter (\<lambda>e. e \<notin> set cs) (audit_events s) @ [ev]
              \<and> ae_event_type ev = RETENTION_DELETION_EVENT_TYPE \<and> ae_tenant_id ev = dn_tenant_id rq
              \<and> (case p of None \<Rightarrow> ae_actor_id ev = dn_actor_id rq | Some q \<Rightarrow> ae_actor_id ev = sp_actor_id q)
              \<and> dget (ae_payload ev) ''deleted_event_hashes'' = jstrs (map (event_deletion_hash lx) cs)))"
proof -
  obtain bound where b: "bind_audit_actor dn_tenant_id dn_actor_id with_deletion_actor rq p = Inr bound"
    and run: "execute_audit_retention_deletion lx bound s = (Inr res, t)"
    using assms(2) by (auto simp: manufacturing_audit_retention_delete_def session_scope_def bind_op_def split: prod.splits sum.splits)
  have bound: "dn_legal_hold bound = dn_legal_hold rq" "dn_dry_run bound = dn_dry_run rq"
    "dn_tenant_id bound = dn_tenant_id rq" "deletion_cutoff bound s = deletion_cutoff rq s"
    "deletion_batch bound c es = deletion_batch rq c es" for c es
    using b by (auto simp: bind_audit_actor_def bind_request_actor_def with_deletion_actor_def deletion_cutoff_def deletion_batch_def
        expired_event_def [abs_def] split: option.splits if_splits)
  have who: "case p of None \<Rightarrow> dn_actor_scopes bound = dn_actor_scopes rq \<and> dn_actor_id bound = dn_actor_id rq
      | Some q \<Rightarrow> sp_tenant_id q = dn_tenant_id rq \<and> dn_actor_scopes bound = sp_scopes q \<and> dn_actor_id bound = sp_actor_id q"
    using b by (auto simp: bind_audit_actor_def bind_request_actor_def with_deletion_actor_def split: option.splits if_splits)
  let ?cs = "deletion_batch rq (deletion_cutoff rq s) (audit_events s)"
  have scope: "RETENTION_DELETION_REQUIRED_SCOPE \<in> set (dn_actor_scopes bound)"
    by (rule execute_retention_permitted(1) [OF run])
  have ids: "distinct (map ae_id (audit_events s))"
    using ledger_reachable_inv [OF assms(1)] by (simp add: ledger_inv_def ids_drawn_def)
  have "set ?cs \<subseteq> set (audit_events s)" using deletion_batch_subset by blast
  then have same: "select_where (\<lambda>e. ae_id e \<notin> ae_id ` set ?cs) (audit_events s) = filter (\<lambda>e. e \<notin> set ?cs) (audit_events s)"
    using distinct_key_unique [OF ids] unfolding select_where_def by (intro filter_cong) (auto simp: image_iff)
  note out = execute_retention_Inr [OF run, unfolded deletion_outcome_def Let_def bound]
  show ?thesis
    using out who scope by (auto simp: Let_def same deletion_event_def dget_def bound split: if_splits option.splits)
qed

text \<open>C31. A hold keeps its events. In every history, an event that an active hold of its tenant covers is in the ledger
  as long as that hold is active, whoever deletes what meanwhile.\<close>

theorem held_events_kept:
  assumes "ledger_reachable lx s" and "ledger_steps lx s t" and "e \<in> set (audit_events s)"
    and "h \<in> set (audit_legal_holds s)" "active_hold_on e h"
    and "h' \<in> set (audit_legal_holds t)" "ah_id h' = ah_id h" "ah_status h' = ''active''"
  shows "e \<in> set (audit_events t)"
  using held_event_stays [OF assms(2) ledger_reachable_inv [OF assms(1)] assms(3-8)] .

text \<open>C32. Nothing disappears without a trace: in every history, an event that was ever in the ledger still is, or an event
  of the same tenant that is itself never deleted lists its digest.\<close>

theorem deletions_accounted:
  assumes "ledger_reachable lx s" and "ledger_steps lx s t" and "e \<in> set (audit_events s)"
  shows "e \<in> set (audit_events t)
    \<or> (\<exists>ev \<in> set (audit_events t). deletion_evidence lx e ev \<and> (\<forall>u. ledger_steps lx t u \<longrightarrow> ev \<in> set (audit_events u)))"
proof -
  have inv: "ledger_inv lx s" "ledger_inv lx t"
    using ledger_reachable_inv [OF assms(1)] ledger_steps_inv [OF assms(2)] by blast+
  have "accounted lx t e" using accounted_steps [OF assms(2) inv(1)] assms(3) by (simp add: accounted_def)
  then show ?thesis
    using evidence_stays [OF _ inv(2)] unfolding accounted_def deletion_evidence_def by blast
qed

text \<open>Every reachable table of holds is well formed: a tenant uses a hold identifier once, each hold is active without
  a release or released with who, why and when, and the events of its activation and its release were recorded for its
  tenant and are in the ledger or accounted for by the evidence of a deletion.\<close>

lemma legal_holds_documented:
  assumes "ledger_reachable lx s"
  shows "distinct (map hold_key (audit_legal_holds s)) \<and> distinct (map ah_id (audit_legal_holds s))
    \<and> (\<forall>h \<in> set (audit_legal_holds s). hold_ok lx s h)"
  using ledger_reachable_inv [OF assms] by (simp add: ledger_inv_def ids_drawn_def)


text \<open>What an export holds. It is given to a caller of the tenant with the scope to read its audit events; with compliance
  retention configured, only when the probe of the store shows that it can enforce it. Its events are the views of the
  events that the query selects, of this tenant only, without those before the retention window unless a hold is claimed;
  the counts of the manifest add up, its checksum and its chain tip are those of the events; and the ledger is not changed.\<close>

lemma export_contents:
  assumes "manufacturing_persisted_audit_export lx st q p s = (Inr b, t)"
  shows "(case p of None \<Rightarrow> True | Some pr \<Rightarrow> sp_tenant_id pr = yq_tenant_id q \<and> AUDIT_READ_SCOPE \<in> set (sp_scopes pr))
    \<and> (audit_export_worm_settings st \<longrightarrow> ol2_compliance_enforceable (es_probed_capability st))
    \<and> (\<exists>views. to_ledger_events lx (list_audit_events (yq_tenant_id q) (yq_event_type q) (yq_actor_id q) (yq_limit q) s) = Inr views
         \<and> xb_events b = exported q (xf_generated_at (xb_manifest b)) (shown_in_scope (yq_scope q) views)
         \<and> xf_record_count (xb_manifest b) + xf_excluded_record_count (xb_manifest b) = length (shown_in_scope (yq_scope q) views))
    \<and> (\<forall>v \<in> set (xb_events b). xe_tenant_id v = yq_tenant_id q)
    \<and> xb_integrity_proof b = integrity_proof_of lx (xb_events b)
    \<and> xf_integrity_chain_tip_sha256 (xb_manifest b) = xi_chain_tip_sha256 (xb_integrity_proof b)
    \<and> xf_checksum_sha256 (xb_manifest b) = events_checksum lx (xb_events b)
    \<and> xf_record_count (xb_manifest b) = length (xb_events b)
    \<and> audit_events t = audit_events s"
proof -
  obtain signer d where auth: "authorize_audit_scope (yq_tenant_id q) p AUDIT_READ_SCOPE
      ''The actor cannot export persisted audit events.'' ''audit_export'' = Inr d"
    and run: "export_persisted_audit_events lx q signer
      (if audit_export_worm_settings st then Some (es_probed_capability st) else None) (audit_export_worm_settings st) s = (Inr b, t)"
    using assms by (auto simp: manufacturing_persisted_audit_export_def session_scope_def Let_def split: sum.splits prod.splits)
  obtain views u where views: "to_ledger_events lx (list_audit_events (yq_tenant_id q) (yq_event_type q) (yq_actor_id q) (yq_limit q) s) = Inr views"
    and u: "u = s \<or> u = tick s" "t = tick u"
    and events: "xb_events b = exported q (clock_at s (clock_n u)) (shown_in_scope (yq_scope q) views)"
    and tenant: "xb_tenant_id b = yq_tenant_id q"
    and proof_of: "xb_integrity_proof b = integrity_proof_of lx (xb_events b)"
    and mf: "xb_manifest b = export_manifest_of q (clock_at s (clock_n u)) (xb_events b)
       (clock_at s (clock_n u) - timedelta_days (yq_retention_days q))
       (length (shown_in_scope (yq_scope q) views) - length (xb_events b)) (\<not> yq_legal_hold q)
       (events_checksum lx (xb_events b)) (integrity_proof_of lx (xb_events b))
       (if audit_export_worm_settings st then Some (es_probed_capability st) else None)"
    and signature: "xb_ledger_signature b = (case signer of Some k \<Rightarrow> sign_payload lx k (export_payload b)
       | None \<Rightarrow> unsigned_audit_ledger_signature lx (export_payload b))"
    and worm: "audit_export_worm_settings st \<longrightarrow> (\<exists>c. (if audit_export_worm_settings st then Some (es_probed_capability st) else None) = Some c
        \<and> ol2_compliance_enforceable c)"
    by (rule export_Inr [OF run])
  have fields: "xf_generated_at (xb_manifest b) = clock_at s (clock_n u)" "xf_record_count (xb_manifest b) = length (xb_events b)"
    "xf_excluded_record_count (xb_manifest b) = length (shown_in_scope (yq_scope q) views) - length (xb_events b)"
    "xf_checksum_sha256 (xb_manifest b) = events_checksum lx (xb_events b)"
    "xf_integrity_chain_tip_sha256 (xb_manifest b) = xi_chain_tip_sha256 (xb_integrity_proof b)"
    by (simp_all add: mf export_manifest_of_def proof_of split: prod.splits)
  have "length (xb_events b) \<le> length (shown_in_scope (yq_scope q) views)"
    by (simp add: events exported_def)
  moreover have "set (xb_events b) \<subseteq> set views"
    by (auto simp: events exported_def shown_in_scope_def split: option.splits if_splits)
  moreover have "xe_tenant_id v = yq_tenant_id q" if "v \<in> set views" for v
    using views that view_Inr(1) list_audit_events_tenant
    by (auto simp: to_ledger_events_Inr list_all2_conv_all_nth in_set_conv_nth) metis
  moreover have "case p of None \<Rightarrow> True | Some pr \<Rightarrow> sp_tenant_id pr = yq_tenant_id q \<and> AUDIT_READ_SCOPE \<in> set (sp_scopes pr)"
    using auth by (auto simp: authorize_audit_scope_def authorize_principal_scopes_def evaluate_principal_def Let_def
        split: option.splits if_splits)
  moreover have "audit_events t = audit_events s" using u by auto
  ultimately show ?thesis
    using views events fields proof_of worm by (auto simp del: authorize_principal_scopes_def)
qed

text \<open>C35. The signature of an export verifies under the configured secret, and under this secret it verifies for another
  manifest and proof exactly when the keyed digest and the digest of their canonical text are the same.\<close>

theorem export_signature_verifies:
  assumes "manufacturing_persisted_audit_export lx st q p s = (Inr b, t)" and "es_signing_secret st = Some k"
    and hexadecimal: "\<And>key x. \<forall>c \<in> set (lc_hmac lx key x) \<union> set (lc_sha256 lx x). (of_char c :: nat) < 128"
  shows "verify_audit_ledger_signature lx (xb_manifest b) (xb_integrity_proof b) (xb_ledger_signature b) k = Inr True
    \<and> (\<forall>mf pf. verify_audit_ledger_signature lx mf pf (xb_ledger_signature b) k =
         Inr (lc_hmac lx k (lc_dumps lx (canonical_ledger_signature_payload mf pf)) = lc_hmac lx k (lc_dumps lx (export_payload b))
            \<and> lc_sha256 lx (lc_dumps lx (canonical_ledger_signature_payload mf pf)) = lc_sha256 lx (lc_dumps lx (export_payload b))))"
proof -
  obtain signer where signer: "audit_ledger_signer_from_settings (es_signing_key_id st) (es_signing_secret st) = Inr signer"
    and run: "export_persisted_audit_events lx q signer
      (if audit_export_worm_settings st then Some (es_probed_capability st) else None) (audit_export_worm_settings st) s = (Inr b, t)"
    using assms(1) by (auto simp: manufacturing_persisted_audit_export_def session_scope_def Let_def split: sum.splits prod.splits)
  have k: "k \<noteq> []" "signer = Some \<lparr>ls_key_id = es_signing_key_id st, ls_secret_key = k\<rparr>"
    using signer assms(2) by (auto simp: audit_ledger_signer_from_settings_def new_ledger_signer_def split: if_splits)
  have signature: "xb_ledger_signature b = sign_payload lx \<lparr>ls_key_id = es_signing_key_id st, ls_secret_key = k\<rparr> (export_payload b)"
    using export_Inr [OF run] k(2) by (metis option.simps(5))
  have ascii: "\<not> (\<exists>c \<in> set (lc_hmac lx key x). 128 \<le> (of_char c :: nat)) \<and> \<not> (\<exists>c \<in> set (lc_sha256 lx x). 128 \<le> (of_char c :: nat))"
    for key x using hexadecimal [where key = key and x = x] by (metis Un_iff not_le)
  have "verify_audit_ledger_signature lx mf pf (xb_ledger_signature b) k =
         Inr (lc_hmac lx k (lc_dumps lx (canonical_ledger_signature_payload mf pf)) = lc_hmac lx k (lc_dumps lx (export_payload b))
            \<and> lc_sha256 lx (lc_dumps lx (canonical_ledger_signature_payload mf pf)) = lc_sha256 lx (lc_dumps lx (export_payload b)))"
    for mf pf
    using k(1) ascii by (auto simp: verify_audit_ledger_signature_def signature sign_payload_def Let_def)
  then show ?thesis by (simp add: export_payload_def)
qed

text \<open>C36. The chain of an export fixes its events: two lists of events with the same chain tip have the same canonical
  texts in the same order, or two of the texts that were hashed for them collide, or the digest of one of these is the
  string of zeros that starts every chain.\<close>

theorem hash_chain_binds:
  assumes "\<And>x. length (lc_sha256 lx x) = 64"
    and "xi_chain_tip_sha256 (integrity_proof_of lx es) = xi_chain_tip_sha256 (integrity_proof_of lx fs)"
  shows "map (event_text lx) es = map (event_text lx) fs \<or> collision lx (proof_texts lx es \<union> proof_texts lx fs)
    \<or> (\<exists>x \<in> proof_texts lx es \<union> proof_texts lx fs. lc_sha256 lx x = CHAIN_START)"
proof -
  let ?hs = "\<lambda>es. map (\<lambda>e. lc_sha256 lx (event_text lx e)) es"
  have "hash_chain lx CHAIN_START (?hs es) = hash_chain lx CHAIN_START (?hs fs)"
    using assms(2) by (simp add: integrity_proof_of_def Let_def)
  then have "?hs es = ?hs fs \<or> collision lx (link_texts lx CHAIN_START (?hs es) \<union> link_texts lx CHAIN_START (?hs fs))
      \<or> (\<exists>x \<in> link_texts lx CHAIN_START (?hs es) \<union> link_texts lx CHAIN_START (?hs fs). lc_sha256 lx x = CHAIN_START)"
    by (rule hash_chain_inj [of lx 64, OF assms(1), rotated]) (simp add: CHAIN_START_def)
  moreover have "map (event_text lx) es = map (event_text lx) fs \<or> collision lx (event_text lx ` set es \<union> event_text lx ` set fs)"
    if "?hs es = ?hs fs"
    using map_sha_inj [of lx "map (event_text lx) es" "map (event_text lx) fs"] that by (simp add: comp_def)
  moreover have "collision lx A \<Longrightarrow> A \<subseteq> proof_texts lx es \<union> proof_texts lx fs \<Longrightarrow> collision lx (proof_texts lx es \<union> proof_texts lx fs)" for A
    by (rule collision_mono)
  ultimately show ?thesis
    unfolding proof_texts_def by blast
qed


section \<open>A concrete ledger\<close>

text \<open>Two old events, a hold on the first, and a deletion that removes the second a year later.\<close>

definition example_ledger_codecs :: ledger_codecs where
  "example_ledger_codecs =
     \<lparr>lc_sha256 = (\<lambda>t. replicate 63 CHR ''a'' @ (if length t = 1 then ''b'' else ''c'')), lc_dumps = (\<lambda>_. ''x''),
      lc_hmac = (\<lambda>_ _. ''d''), lc_str = (\<lambda>_. ''0'')\<rparr>"

definition example_reference_row :: reference_record where
  "example_reference_row =
     \<lparr>dr_id = 90, dr_tenant_id = ''acme'', dr_surface = ''audit'', dr_reference_id = ''r'', dr_status = ''active'',
      dr_source = ''seed'', dr_version = ''1'', dr_payload = JNull, dr_created_at = 0, dr_updated_at = 0\<rparr>"

definition example_ledger_start :: db where
  "example_ledger_start =
     (empty_db (\<lambda>n. if n < 5 then int n else 40000000000000) id)\<lparr>reference_records := [example_reference_row]\<rparr>"

definition example_ledger_event :: "string \<Rightarrow> audit_event_create" where
  "example_ledger_event ty = \<lparr>ac_event_tenant_id = ''acme'', ac_event_actor_id = ''olga'', ac_event_type = ty, ac_event_payload = []\<rparr>"

definition example_ledger_events :: db where
  "example_ledger_events = with_audit_event (with_audit_event example_ledger_start (example_ledger_event ''login'')) (example_ledger_event ''export'')"

definition example_hold_request :: legal_hold_create_request where
  "example_hold_request =
     \<lparr>hc_tenant_id = ''acme'', hc_hold_id = ''h1'', hc_actor_id = ''olga'', hc_actor_scopes = [''audit:legal_hold:write''],
      hc_reason = ''case'', hc_event_type = Some ''login'', hc_actor_filter = None, hc_approved_by = ''paul'', hc_notes = []\<rparr>"

definition example_held_ledger :: db where
  "example_held_ledger = snd (manufacturing_audit_legal_hold_create example_hold_request None example_ledger_events)"

definition example_deletion_request :: retention_request where
  "example_deletion_request =
     \<lparr>dn_tenant_id = ''acme'', dn_actor_id = ''olga'', dn_actor_scopes = [''audit:retention:delete''], dn_retention_days = 30,
      dn_legal_hold = False, dn_dry_run = False, dn_event_type = Some ''export'', dn_actor_filter = None, dn_limit = 10,
      dn_reason = ''retention''\<rparr>"

definition example_deleted_ledger :: db where
  "example_deleted_ledger = snd (manufacturing_audit_retention_delete example_ledger_codecs example_deletion_request None example_held_ledger)"

definition example_old_event :: "nat \<Rightarrow> string \<Rightarrow> audit_event" where
  "example_old_event n ty =
     \<lparr>ae_id = n, ae_tenant_id = ''acme'', ae_actor_id = ''olga'', ae_event_type = ty, ae_payload = [], ae_created_at = int n\<rparr>"

lemma example_ledger_two:
  "audit_events example_ledger_events = [example_old_event 0 ''login'', example_old_event 1 ''export'']"
  "audit_legal_holds example_ledger_events = []" "uuid_at example_ledger_events = id" "uuid_n example_ledger_events = 2"
  "clock_n example_ledger_events = 2" "clock_at example_ledger_events n = (if n < 5 then int n else 40000000000000)"
  by (simp_all add: example_ledger_events_def example_ledger_start_def empty_db_def example_ledger_event_def new_audit_event_def
      example_old_event_def)

lemma example_hold_created:
  "\<exists>v. manufacturing_audit_legal_hold_create example_hold_request None example_ledger_events = (Inr v, example_held_ledger)"
proof -
  have "fst (manufacturing_audit_legal_hold_create example_hold_request None example_ledger_events) \<in> range Inr"
    by (simp add: manufacturing_audit_legal_hold_create_def session_scope_def bind_op_def bind_audit_actor_def bind_request_actor_def
        create_audit_legal_hold_def insert_audit_legal_hold_def evaluate_legal_hold_permission_def permission_request_valid_def
        get_audit_legal_hold_def example_ledger_two LEGAL_HOLD_REQUIRED_SCOPE_def example_hold_request_def Let_def)
  then show ?thesis by (metis example_held_ledger_def imageE prod.collapse)
qed

lemma example_held:
  "audit_events example_held_ledger = audit_events example_ledger_events
     @ [new_audit_event example_ledger_events (hold_activated_event example_hold_request permitted)]"
  "audit_legal_holds example_held_ledger = [inserted_hold example_hold_request example_ledger_events]"
  "clock_at example_held_ledger = clock_at example_ledger_events" "uuid_at example_held_ledger = id"
proof -
  obtain v where "create_audit_legal_hold example_hold_request example_ledger_events = (Inr v, example_held_ledger)"
    using example_hold_created
    by (auto simp: manufacturing_audit_legal_hold_create_def session_scope_def bind_op_def bind_audit_actor_def bind_request_actor_def
        split: prod.splits sum.splits)
  note c = create_audit_legal_hold_Inr [OF this]
  show "audit_events example_held_ledger = audit_events example_ledger_events
     @ [new_audit_event example_ledger_events (hold_activated_event example_hold_request permitted)]"
    "audit_legal_holds example_held_ledger = [inserted_hold example_hold_request example_ledger_events]"
    "clock_at example_held_ledger = clock_at example_ledger_events" "uuid_at example_held_ledger = id"
    using c(5-8) by (simp_all add: example_ledger_two)
qed

lemma example_hold_on_login:
  "audit_legal_holds example_held_ledger = [inserted_hold example_hold_request example_ledger_events]"
  "active_hold_on (example_old_event 0 ''login'') (inserted_hold example_hold_request example_ledger_events)"
  "\<not> active_hold_on (example_old_event (Suc 0) ''export'') (inserted_hold example_hold_request example_ledger_events)"
  by (simp_all add: example_held active_hold_on_def inserted_hold_def new_legal_hold_def example_hold_request_def
      example_old_event_def legal_hold_matches_event_def)

lemma example_cutoff: "deletion_cutoff example_deletion_request example_held_ledger = 37408000000000"
proof -
  have "clock_n example_held_ledger = 5"
    by (simp add: example_held_ledger_def manufacturing_audit_legal_hold_create_def session_scope_def bind_op_def bind_audit_actor_def
        bind_request_actor_def create_audit_legal_hold_def insert_audit_legal_hold_def evaluate_legal_hold_permission_def
        permission_request_valid_def get_audit_legal_hold_def example_ledger_two LEGAL_HOLD_REQUIRED_SCOPE_def
        example_hold_request_def Let_def)
  then show ?thesis
    by (simp add: deletion_cutoff_def example_held example_ledger_two timedelta_days_def example_deletion_request_def)
qed

lemma example_expired:
  "expired_event example_deletion_request 37408000000000 (example_old_event 1 ''export'')"
  "\<not> expired_event example_deletion_request c (example_old_event 0 ''login'')"
  "\<not> expired_event example_deletion_request c (new_audit_event s (hold_activated_event rq permitted))"
  by (simp_all add: expired_event_def example_deletion_request_def example_old_event_def RETENTION_DELETION_EVENT_TYPE_def
      hold_activated_event_def new_audit_event_def LEGAL_HOLD_ACTIVATED_EVENT_TYPE_def)

lemma example_batch:
  "deletion_batch example_deletion_request 37408000000000 (audit_events example_held_ledger) = [example_old_event (Suc 0) ''export'']"
proof -
  have "filter (expired_event example_deletion_request 37408000000000) (audit_events example_held_ledger) = [example_old_event 1 ''export'']"
    using example_expired by (simp add: example_held(1) example_ledger_two(1))
  moreover have "dn_limit example_deletion_request = Suc 9" by (simp add: example_deletion_request_def)
  ultimately show ?thesis by (simp add: deletion_batch_def)
qed

lemma example_ledger_steps: "ledger_steps lx example_ledger_start example_held_ledger"
proof (rule ledger_steps.more)
  let ?u = "with_audit_event example_ledger_start (example_ledger_event ''login'')"
  have "ledger_steps lx example_ledger_start ?u"
    by (rule ledger_steps.more [OF ledger_steps.none ledger_step.appended [OF only_appends_event]])
  then show "ledger_steps lx example_ledger_start example_ledger_events"
    unfolding example_ledger_events_def by (rule ledger_steps.more [OF _ ledger_step.appended [OF only_appends_event]])
  show "ledger_step lx example_ledger_events example_held_ledger"
    using example_hold_created ledger_step.hold_created by blast
qed

lemma example_ledger_reachable: "ledger_reachable lx example_held_ledger"
  unfolding ledger_reachable_def
  by (rule exI [of _ example_ledger_start], intro conjI example_ledger_steps)
    (simp_all add: example_ledger_start_def empty_db_def)

lemma execute_retention_returns:
  "evaluate_retention_deletion_permission rq = Inr d \<Longrightarrow> \<exists>res. fst (execute_audit_retention_deletion lx rq s) = Inr res"
  by (simp add: execute_audit_retention_deletion_def bind_op_def delete_audit_events_def Let_def)

lemma deletion_outcome_holds: "deletion_outcome lx rq s res t \<Longrightarrow> audit_legal_holds t = audit_legal_holds s"
  by (auto simp: deletion_outcome_def Let_def split: if_splits)

lemma example_deletion_run:
  "\<exists>res. manufacturing_audit_retention_delete example_ledger_codecs example_deletion_request None example_held_ledger
     = (Inr res, example_deleted_ledger)"
proof -
  have "evaluate_retention_deletion_permission example_deletion_request = Inr permitted"
    by (simp add: evaluate_retention_deletion_permission_Inr example_deletion_request_def RETENTION_DELETION_REQUIRED_SCOPE_def)
  then obtain res t where "execute_audit_retention_deletion example_ledger_codecs example_deletion_request example_held_ledger = (Inr res, t)"
    using execute_retention_returns by (metis prod.collapse)
  then have "fst (manufacturing_audit_retention_delete example_ledger_codecs example_deletion_request None example_held_ledger) = Inr res"
    by (simp add: manufacturing_audit_retention_delete_def session_scope_def bind_op_def bind_audit_actor_def bind_request_actor_def)
  then show ?thesis by (metis example_deleted_ledger_def prod.collapse)
qed

theorem retention_deletion_exact_witness:
  "\<exists>res ev. manufacturing_audit_retention_delete example_ledger_codecs example_deletion_request None example_held_ledger
       = (Inr res, example_deleted_ledger) \<and> dt_deleted_count res = 1
     \<and> audit_events example_deleted_ledger = filter (\<lambda>e. e \<noteq> example_old_event 1 ''export'') (audit_events example_held_ledger) @ [ev]"
proof -
  obtain res where run: "manufacturing_audit_retention_delete example_ledger_codecs example_deletion_request None example_held_ledger
      = (Inr res, example_deleted_ledger)"
    using example_deletion_run by blast
  have plain: "dn_legal_hold example_deletion_request = False" "dn_dry_run example_deletion_request = False"
    by (simp_all add: example_deletion_request_def)
  obtain ev where "dt_deleted_count res = 1"
      "audit_events example_deleted_ledger = filter (\<lambda>e. e \<noteq> example_old_event 1 ''export'') (audit_events example_held_ledger) @ [ev]"
    using retention_deletion_exact [OF example_ledger_reachable run]
    by (auto simp: example_cutoff example_batch Let_def example_hold_on_login plain)
  then show ?thesis using run by blast
qed

lemma example_deletion_steps: "ledger_steps example_ledger_codecs example_held_ledger example_deleted_ledger"
proof -
  obtain res where "manufacturing_audit_retention_delete example_ledger_codecs example_deletion_request None example_held_ledger
      = (Inr res, example_deleted_ledger)"
    using example_deletion_run by blast
  then show ?thesis by (blast intro: ledger_steps.intros ledger_step.deleted)
qed

lemma example_both_events:
  "example_old_event 0 ''login'' \<in> set (audit_events example_held_ledger)" "example_old_event 1 ''export'' \<in> set (audit_events example_held_ledger)"
  by (simp_all add: example_held example_ledger_two)

theorem held_events_kept_witness: "example_old_event 0 ''login'' \<in> set (audit_events example_deleted_ledger)"
proof (rule held_events_kept [OF example_ledger_reachable example_deletion_steps example_both_events(1) _ example_hold_on_login(2)])
  let ?h = "inserted_hold example_hold_request example_ledger_events"
  show "?h \<in> set (audit_legal_holds example_held_ledger)" by (simp add: example_hold_on_login)
  show "?h \<in> set (audit_legal_holds example_deleted_ledger)"
  proof -
    obtain res where "manufacturing_audit_retention_delete example_ledger_codecs example_deletion_request None example_held_ledger
        = (Inr res, example_deleted_ledger)"
      using example_deletion_run by blast
    then obtain p where "execute_audit_retention_deletion example_ledger_codecs p example_held_ledger = (Inr res, example_deleted_ledger)"
      by (auto simp: manufacturing_audit_retention_delete_def session_scope_def bind_op_def split: prod.splits sum.splits)
    from deletion_outcome_holds [OF execute_retention_Inr [OF this]] show ?thesis by (simp add: example_hold_on_login)
  qed
  show "ah_id ?h = ah_id ?h" ..
  show "ah_status ?h = ''active''" by (simp add: inserted_hold_def new_legal_hold_def)
qed

theorem deletions_accounted_witness:
  "example_old_event 1 ''export'' \<in> set (audit_events example_deleted_ledger)
    \<or> (\<exists>ev \<in> set (audit_events example_deleted_ledger). deletion_evidence example_ledger_codecs (example_old_event 1 ''export'') ev)"
  using deletions_accounted [OF example_ledger_reachable example_deletion_steps example_both_events(2)] by blast

lemma legal_holds_documented_example:
  "hold_ok example_ledger_codecs example_held_ledger (inserted_hold example_hold_request example_ledger_events)"
  using legal_holds_documented [OF example_ledger_reachable [of example_ledger_codecs]] by (simp add: example_hold_on_login)

definition example_hold_store :: hold_store where
  "example_hold_store = \<lparr>hs_adapter_name = ''s3'', hs_supported = True, hs_apply = (\<lambda>_. True), hs_release = (\<lambda>_. True)\<rparr>"

definition example_object_request :: object_hold_request where
  "example_object_request =
     \<lparr>oh_tenant_id = ''acme'', oh_actor_id = ''olga'', oh_actor_scopes = [''audit:legal_hold:write''], oh_storage_key = ''acme/x'',
      oh_reason = ''case'', oh_hold_id = None\<rparr>"


definition example_export_settings :: export_settings where
  "example_export_settings =
     \<lparr>es_retention_mode = '''', es_signing_key_id = ''key'', es_signing_secret = Some ''secret'',
      es_probed_capability = \<lparr>ol2_compliance_enforceable = False, ol2_reason = ''none''\<rparr>\<rparr>"

definition example_export_query :: export_query where
  "example_export_query =
     \<lparr>yq_tenant_id = ''acme'', yq_event_type = Some ''login'', yq_actor_id = None, yq_scope = None, yq_limit = 10,
      yq_export_reason = ''review'', yq_retention_days = 30, yq_legal_hold = False, yq_format = ''json''\<rparr>"

lemma example_view: "\<exists>v. audit_event_to_ledger_event example_ledger_codecs (example_old_event 0 ''login'') = Inr v"
  by (simp add: audit_event_to_ledger_event_def example_old_event_def optional_text_def ledger_event_valid_def scope_of_def
      result_of_def category_of_def actor_type_of_def summary_of_def evidence_refs_of_def payload_preview_of_def PREVIEW_KEYS_def uuid_text_def dget_def Let_def)

lemma example_listed:
  "list_audit_events ''acme'' (Some ''login'') None 10 example_ledger_events = [example_old_event 0 ''login'']"
  by (simp add: list_audit_events_def example_ledger_two example_old_event_def)

lemma example_known: "get_tenant ''acme'' example_ledger_events = None" "has_demo_reference_records ''acme'' example_ledger_events"
  by (simp_all add: get_tenant_def has_demo_reference_records_def example_ledger_events_def example_ledger_start_def empty_db_def
      example_reference_row_def)

lemma example_export_run:
  "\<exists>b t. manufacturing_persisted_audit_export example_ledger_codecs example_export_settings example_export_query None
     example_ledger_events = (Inr b, t)"
proof -
  obtain v where v: "audit_event_to_ledger_event example_ledger_codecs (example_old_event 0 ''login'') = Inr v"
    using example_view by blast
  let ?run = "manufacturing_persisted_audit_export example_ledger_codecs example_export_settings example_export_query None
     example_ledger_events"
  have listed: "list_audit_events ''acme'' (Some ''login'') None 10 (example_ledger_events\<lparr>clock_n := c\<rparr>) = [example_old_event 0 ''login'']" for c
    using example_listed by (simp add: list_audit_events_def)
  have "fst ?run \<in> range Inr"
    by (simp add: manufacturing_persisted_audit_export_def authorize_audit_scope_def authorize_principal_scopes_def
        audit_export_worm_settings_def example_export_settings_def strip_def audit_ledger_signer_from_settings_def new_ledger_signer_def
        export_persisted_audit_events_def session_scope_def bind_op_def query_persisted_audit_events_def query_filters_def
        get_manufacturing_tenant_metadata_def example_export_query_def example_known listed v Let_def)
  then show ?thesis by (metis imageE prod.collapse)
qed

lemma export_contents_example:
  "\<exists>b t. manufacturing_persisted_audit_export example_ledger_codecs example_export_settings example_export_query None
     example_ledger_events = (Inr b, t) \<and> xf_record_count (xb_manifest b) + xf_excluded_record_count (xb_manifest b) = 1"
proof -
  obtain b t where run: "manufacturing_persisted_audit_export example_ledger_codecs example_export_settings example_export_query None
      example_ledger_events = (Inr b, t)"
    using example_export_run by blast
  have q: "yq_tenant_id example_export_query = ''acme''" "yq_event_type example_export_query = Some ''login''"
    "yq_actor_id example_export_query = None" "yq_limit example_export_query = 10" "yq_scope example_export_query = None"
    by (simp_all add: example_export_query_def)
  obtain v where "audit_event_to_ledger_event example_ledger_codecs (example_old_event 0 ''login'') = Inr v"
    using example_view by blast
  then show ?thesis
    using export_contents [OF run] run by (auto simp: q example_listed shown_in_scope_def)
qed

theorem export_signature_verifies_witness:
  "\<exists>b t. manufacturing_persisted_audit_export example_ledger_codecs example_export_settings example_export_query None
     example_ledger_events = (Inr b, t)
     \<and> verify_audit_ledger_signature example_ledger_codecs (xb_manifest b) (xb_integrity_proof b) (xb_ledger_signature b) ''secret'' = Inr True"
proof -
  obtain b t where run: "manufacturing_persisted_audit_export example_ledger_codecs example_export_settings example_export_query None
      example_ledger_events = (Inr b, t)"
    using example_export_run by blast
  have secret: "es_signing_secret example_export_settings = Some ''secret''" by (simp add: example_export_settings_def)
  have hexadecimal: "\<forall>c \<in> set (lc_hmac example_ledger_codecs key x) \<union> set (lc_sha256 example_ledger_codecs x). (of_char c :: nat) < 128"
    for key x
    by (simp add: example_ledger_codecs_def)
  show ?thesis using export_signature_verifies [OF run secret hexadecimal] run by blast
qed

definition example_ledger_view :: ledger_event where
  "example_ledger_view =
     \<lparr>xe_audit_event_id = ''0'', xe_occurred_at = 0, xe_tenant_id = ''acme'', xe_actor_id = ''olga'', xe_actor_type = ''service'',
      xe_event_type = ''login'', xe_category = ''login'', xe_domain = ''Operations'', xe_scope = ''login'', xe_result = ''recorded'',
      xe_severity = READY, xe_source = ''Axis API'', xe_summary = ''login'', xe_permission_scope = ''audit:read'',
      xe_data_classification = ''public-demo'', xe_related_workflow_id = None, xe_related_approval_id = None,
      xe_related_agent_id = None, xe_evidence_refs = [''login''], xe_payload_preview = [(''payload_keys'', ''none'')]\<rparr>"

theorem hash_chain_binds_witness:
  "map (event_text example_ledger_codecs) [example_ledger_view] = map (event_text example_ledger_codecs) [example_ledger_view\<lparr>xe_summary := ''other''\<rparr>]
    \<or> collision example_ledger_codecs (proof_texts example_ledger_codecs [example_ledger_view]
        \<union> proof_texts example_ledger_codecs [example_ledger_view\<lparr>xe_summary := ''other''\<rparr>])
    \<or> CHAIN_START \<in> lc_sha256 example_ledger_codecs ` (proof_texts example_ledger_codecs [example_ledger_view]
        \<union> proof_texts example_ledger_codecs [example_ledger_view\<lparr>xe_summary := ''other''\<rparr>])"
proof -
  have len: "length (lc_sha256 example_ledger_codecs x) = 64" for x by (simp add: example_ledger_codecs_def)
  have tip: "xi_chain_tip_sha256 (integrity_proof_of example_ledger_codecs [example_ledger_view])
    = xi_chain_tip_sha256 (integrity_proof_of example_ledger_codecs [example_ledger_view\<lparr>xe_summary := ''other''\<rparr>])"
    by (simp add: integrity_proof_of_def Let_def chain_link_def event_text_def example_ledger_codecs_def)
  show ?thesis using hash_chain_binds [OF len tip] by (elim disjE bexE) (simp, simp, metis imageI)
qed


end
