(* ===== verification/Tenants.thy ===== *)
theory Tenants
  imports Store Identity
begin

text \<open>
  Tenants of the platform (\<^verbatim>\<open>axis_api/platform_tenants.py\<close>, \<^verbatim>\<open>tenant_admission.py\<close>, \<^verbatim>\<open>bootstrap_tenant.py\<close>, the
  repository methods on the tables of tenants, quotas and actors, and the tenant routes of \<^verbatim>\<open>main.py\<close>): an operator
  provisions, suspends and reactivates tenants and sets their quotas and vocabulary; every change leaves an audit
  event in the ledger of the tenant. A process keeps a cache of the status and quotas of tenants, which the
  admission of requests reads.
\<close>

section \<open>Data\<close>

datatype tenant_lifecycle_status = ACTIVE | SUSPENDED | PENDING_DELETION

fun lifecycle_value :: "tenant_lifecycle_status \<Rightarrow> string" where
  "lifecycle_value ACTIVE = ''active''"
| "lifecycle_value SUSPENDED = ''suspended''"
| "lifecycle_value PENDING_DELETION = ''pending_deletion''"

text \<open>\<^verbatim>\<open>TenantLifecycleStatus(value)\<close>: \<open>None\<close> is the \<^verbatim>\<open>ValueError\<close> of an unknown value.\<close>

definition lifecycle_of :: "string \<Rightarrow> tenant_lifecycle_status option" where
  "lifecycle_of v = find (\<lambda>x. lifecycle_value x = v) [ACTIVE, SUSPENDED, PENDING_DELETION]"

datatype tenant_quota_key = API_REQUESTS_PER_WINDOW | MAX_CONCURRENT_SESSIONS | MAX_CONNECTOR_SYNC_ROWS_PER_RUN

fun quota_key_value :: "tenant_quota_key \<Rightarrow> string" where
  "quota_key_value API_REQUESTS_PER_WINDOW = ''api_requests_per_window''"
| "quota_key_value MAX_CONCURRENT_SESSIONS = ''max_concurrent_sessions''"
| "quota_key_value MAX_CONNECTOR_SYNC_ROWS_PER_RUN = ''max_connector_sync_rows_per_run''"

text \<open>What the operations raise. \<open>TenantValueError\<close> is the refusal of a value by an enumeration or a response model,
  \<open>TenantIntegrityError\<close> a violated unique constraint, \<open>LockNotSupported\<close> the \<^verbatim>\<open>NotImplementedError\<close> of the bootstrap lock.\<close>

datatype tenant_error =
    TenantPermissionDenied string permission_decision
  | TenantProvisionConflict string string
  | TenantLifecycleConflict string string
  | TenantNotFound
  | TenantRecordNotFound
  | TenantValueError
  | TenantIntegrityError
  | LockNotSupported

definition REQUIRED_OPERATOR_SCOPE :: string where "REQUIRED_OPERATOR_SCOPE = ''platform:tenant:operator''"

definition REQUIRED_PROVISION_SCOPE :: string where "REQUIRED_PROVISION_SCOPE = ''platform:tenant:provision''"

definition REQUIRED_SUSPEND_SCOPE :: string where "REQUIRED_SUSPEND_SCOPE = ''platform:tenant:suspend''"

definition REQUIRED_TENANT_READ_SCOPE :: string where "REQUIRED_TENANT_READ_SCOPE = ''platform:tenant:read''"

definition REQUIRED_QUOTA_SCOPE :: string where "REQUIRED_QUOTA_SCOPE = ''platform:tenant:quota''"

definition REQUIRED_CONFIGURE_SCOPE :: string where "REQUIRED_CONFIGURE_SCOPE = ''platform:tenant:configure''"

definition AUDIT_ACTOR_ID_MAX_LENGTH :: nat where "AUDIT_ACTOR_ID_MAX_LENGTH = 120"

definition PROVISIONED_AUDIT_EVENT_TYPE :: string where
  "PROVISIONED_AUDIT_EVENT_TYPE = ''platform.tenant.provisioned''"

definition FIRST_TENANT_BOOTSTRAPPED_AUDIT_EVENT_TYPE :: string where
  "FIRST_TENANT_BOOTSTRAPPED_AUDIT_EVENT_TYPE = ''platform.tenant.first_bootstrap.completed''"

definition SUSPENDED_AUDIT_EVENT_TYPE :: string where
  "SUSPENDED_AUDIT_EVENT_TYPE = ''platform.tenant.suspended''"

definition REACTIVATED_AUDIT_EVENT_TYPE :: string where
  "REACTIVATED_AUDIT_EVENT_TYPE = ''platform.tenant.reactivated''"

definition QUOTA_UPDATED_AUDIT_EVENT_TYPE :: string where
  "QUOTA_UPDATED_AUDIT_EVENT_TYPE = ''platform.tenant.quota.updated''"

definition VOCABULARY_UPDATED_AUDIT_EVENT_TYPE :: string where
  "VOCABULARY_UPDATED_AUDIT_EVENT_TYPE = ''platform.tenant.vocabulary.updated''"

definition TENANT_VOCABULARY_LABEL_MAX_LENGTH :: nat where "TENANT_VOCABULARY_LABEL_MAX_LENGTH = 100"

definition TENANT_VOCABULARY_MAX_DOMAIN_LABELS :: nat where "TENANT_VOCABULARY_MAX_DOMAIN_LABELS = 50"

record tenant_bootstrap_admin =
  ba_actor_id :: string
  ba_display_name :: string
  ba_scopes :: "string list"

record tenant_provision_request =
  tp_tenant_id :: string
  tp_display_name :: string
  tp_description :: string
  tp_requested_by :: string
  tp_actor_scopes :: "string list"
  tp_idempotency_key :: string
  tp_bootstrap_admin :: "tenant_bootstrap_admin option"
  tp_notes :: "string list"

record tenant_suspend_request =
  tu_requested_by :: string
  tu_actor_scopes :: "string list"
  tu_reason :: string
  tu_notes :: "string list"

record tenant_reactivate_request =
  tr_requested_by :: string
  tr_actor_scopes :: "string list"
  tr_reason :: string
  tr_notes :: "string list"

record tenant_quota_values =
  qv_api_requests_per_window :: "int option"
  qv_max_concurrent_sessions :: "int option"
  qv_max_connector_sync_rows_per_run :: "int option"

definition as_mapping :: "tenant_quota_values \<Rightarrow> (string \<times> int option) list" where
  "as_mapping v =
     [(quota_key_value API_REQUESTS_PER_WINDOW, qv_api_requests_per_window v),
      (quota_key_value MAX_CONCURRENT_SESSIONS, qv_max_concurrent_sessions v),
      (quota_key_value MAX_CONNECTOR_SYNC_ROWS_PER_RUN, qv_max_connector_sync_rows_per_run v)]"

record tenant_quota_update_request =
  qu_requested_by :: string
  qu_actor_scopes :: "string list"
  qu_quotas :: tenant_quota_values
  qu_notes :: "string list"

record tenant_vocabulary =
  tv_site_singular :: string
  tv_site_plural :: string
  tv_workspace_label :: string
  tv_domain_labels :: "(string \<times> string) list"

record tenant_vocabulary_update_request =
  vu_requested_by :: string
  vu_actor_scopes :: "string list"
  vu_vocabulary :: tenant_vocabulary
  vu_notes :: "string list"

section \<open>Validation of the request bodies\<close>

definition length_between :: "nat \<Rightarrow> nat \<Rightarrow> string \<Rightarrow> bool" where
  "length_between lo hi s \<longleftrightarrow> lo \<le> length s \<and> length s \<le> hi"

text \<open>\<^verbatim>\<open>^[a-z0-9][a-z0-9_-]*$\<close>.\<close>

definition slug_char :: "char \<Rightarrow> bool" where
  "slug_char c \<longleftrightarrow> (let n = of_char c :: nat in (97 \<le> n \<and> n \<le> 122) \<or> (48 \<le> n \<and> n \<le> 57))"

definition tenant_id_pattern :: "string \<Rightarrow> bool" where
  "tenant_id_pattern s \<longleftrightarrow>
     (case s of [] \<Rightarrow> False | c # cs \<Rightarrow> slug_char c \<and> list_all (\<lambda>d. slug_char d \<or> d = CHR ''_'' \<or> d = CHR ''-'') cs)"

definition bootstrap_admin_valid :: "tenant_bootstrap_admin \<Rightarrow> bool" where
  "bootstrap_admin_valid a \<longleftrightarrow> length_between 1 AUDIT_ACTOR_ID_MAX_LENGTH (ba_actor_id a)
     \<and> length_between 1 200 (ba_display_name a)"

definition provision_request_valid :: "tenant_provision_request \<Rightarrow> bool" where
  "provision_request_valid r \<longleftrightarrow>
     length_between 1 80 (tp_tenant_id r) \<and> tenant_id_pattern (tp_tenant_id r)
     \<and> length_between 1 200 (tp_display_name r) \<and> length_between 0 600 (tp_description r)
     \<and> length_between 1 AUDIT_ACTOR_ID_MAX_LENGTH (tp_requested_by r)
     \<and> length_between 1 200 (tp_idempotency_key r)
     \<and> (case tp_bootstrap_admin r of None \<Rightarrow> True | Some a \<Rightarrow> bootstrap_admin_valid a)"

definition suspend_request_valid :: "tenant_suspend_request \<Rightarrow> bool" where
  "suspend_request_valid r \<longleftrightarrow> length_between 1 AUDIT_ACTOR_ID_MAX_LENGTH (tu_requested_by r)
     \<and> length_between 1 600 (tu_reason r)"

definition reactivate_request_valid :: "tenant_reactivate_request \<Rightarrow> bool" where
  "reactivate_request_valid r \<longleftrightarrow> length_between 1 AUDIT_ACTOR_ID_MAX_LENGTH (tr_requested_by r)
     \<and> length_between 0 600 (tr_reason r)"

definition opt_between :: "int \<Rightarrow> int \<Rightarrow> int option \<Rightarrow> bool" where
  "opt_between lo hi x \<longleftrightarrow> (case x of None \<Rightarrow> True | Some n \<Rightarrow> lo \<le> n \<and> n \<le> hi)"

definition quota_values_valid :: "tenant_quota_values \<Rightarrow> bool" where
  "quota_values_valid v \<longleftrightarrow> opt_between 1 1000000 (qv_api_requests_per_window v)
     \<and> opt_between 0 10000 (qv_max_concurrent_sessions v)
     \<and> opt_between 1 1000000 (qv_max_connector_sync_rows_per_run v)"

definition quota_request_valid :: "tenant_quota_update_request \<Rightarrow> bool" where
  "quota_request_valid r \<longleftrightarrow> length_between 1 AUDIT_ACTOR_ID_MAX_LENGTH (qu_requested_by r)
     \<and> quota_values_valid (qu_quotas r)"

text \<open>\<^verbatim>\<open>validate_label\<close> and \<^verbatim>\<open>validate_domain_labels\<close>, behind the length limits of the fields.\<close>

definition validate_label :: "string \<Rightarrow> string option" where
  "validate_label label =
     (if TENANT_VOCABULARY_LABEL_MAX_LENGTH < length label then None
      else let stripped = strip label in if stripped = [] then None else Some stripped)"

fun normalize_labels :: "(string \<times> string) list \<Rightarrow> (string \<times> string) list \<Rightarrow> (string \<times> string) list option" where
  "normalize_labels normalized [] = Some normalized"
| "normalize_labels normalized ((key, value) # rest) =
     (let normalized_key = strip key; normalized_value = strip value in
      if normalized_key = [] \<or> normalized_value = [] then None
      else if TENANT_VOCABULARY_LABEL_MAX_LENGTH < length normalized_key
              \<or> TENANT_VOCABULARY_LABEL_MAX_LENGTH < length normalized_value then None
      else if normalized_key \<in> fst ` set normalized then None
      else normalize_labels (normalized @ [(normalized_key, normalized_value)]) rest)"

definition validate_domain_labels :: "(string \<times> string) list \<Rightarrow> (string \<times> string) list option" where
  "validate_domain_labels domain_labels =
     (if TENANT_VOCABULARY_MAX_DOMAIN_LABELS < length domain_labels then None else normalize_labels [] domain_labels)"

definition vocabulary_field :: "dict \<Rightarrow> string \<Rightarrow> string \<Rightarrow> string option" where
  "vocabulary_field d name fallback =
     (case map_of d name of None \<Rightarrow> Some fallback | Some (JStr t) \<Rightarrow> validate_label t | Some _ \<Rightarrow> None)"

text \<open>A JSON object of strings.\<close>

fun string_items :: "dict \<Rightarrow> (string \<times> string) list option" where
  "string_items [] = Some []"
| "string_items ((k, JStr v) # rest) = map_option (Cons (k, v)) (string_items rest)"
| "string_items (_ # rest) = None"

definition domain_labels_field :: "dict \<Rightarrow> (string \<times> string) list option" where
  "domain_labels_field d =
     (case map_of d ''domain_labels'' of
        None \<Rightarrow> Some []
      | Some (JObj labels) \<Rightarrow> Option.bind (string_items labels) validate_domain_labels
      | Some _ \<Rightarrow> None)"

text \<open>\<^verbatim>\<open>TenantVocabulary.model_validate\<close>: defaults are not validated, unknown keys are refused.\<close>

definition vocabulary_of_json :: "json \<Rightarrow> tenant_vocabulary option" where
  "vocabulary_of_json j =
     (case j of
        JObj d \<Rightarrow>
          if \<not> fst ` set d \<subseteq> {''site_singular'', ''site_plural'', ''workspace_label'', ''domain_labels''} then None
          else (case (vocabulary_field d ''site_singular'' ''Site'', vocabulary_field d ''site_plural'' ''Sites'',
                      vocabulary_field d ''workspace_label'' ''Operations'', domain_labels_field d) of
                  (Some singular, Some plural, Some workspace, Some labels) \<Rightarrow>
                    Some \<lparr>tv_site_singular = singular, tv_site_plural = plural, tv_workspace_label = workspace,
                          tv_domain_labels = labels\<rparr>
                | _ \<Rightarrow> None)
      | _ \<Rightarrow> None)"

definition default_vocabulary :: tenant_vocabulary where
  "default_vocabulary = \<lparr>tv_site_singular = ''Site'', tv_site_plural = ''Sites'', tv_workspace_label = ''Operations'',
     tv_domain_labels = []\<rparr>"

definition vocabulary_dump :: "tenant_vocabulary \<Rightarrow> json" where
  "vocabulary_dump v = JObj
     [(''site_singular'', JStr (tv_site_singular v)), (''site_plural'', JStr (tv_site_plural v)),
      (''workspace_label'', JStr (tv_workspace_label v)),
      (''domain_labels'', JObj (map (\<lambda>(k, t). (k, JStr t)) (tv_domain_labels v)))]"

text \<open>\<^verbatim>\<open>==\<close> of two vocabularies: dictionaries compare without regard to order.\<close>

definition vocabulary_eq :: "tenant_vocabulary \<Rightarrow> tenant_vocabulary \<Rightarrow> bool" where
  "vocabulary_eq v w \<longleftrightarrow> tv_site_singular v = tv_site_singular w \<and> tv_site_plural v = tv_site_plural w
     \<and> tv_workspace_label v = tv_workspace_label w
     \<and> set (tv_domain_labels v) = set (tv_domain_labels w)"

section \<open>The repository\<close>

text \<open>The primary key and the unique constraint on the idempotency key, for a row that is to be inserted.\<close>

definition tenant_key_taken :: "tenant \<Rightarrow> db \<Rightarrow> bool" where
  "tenant_key_taken new s \<longleftrightarrow> (\<exists>t \<in> set (tenants s). tn_id t = tn_id new
     \<or> (tn_provision_idempotency_key t \<noteq> None \<and> tn_provision_idempotency_key t = tn_provision_idempotency_key new))"

definition create_tenant :: "tenant \<Rightarrow> (db, tenant_error, tenant) op" where
  "create_tenant new =
     bind_op (get_op (tenant_key_taken new)) (\<lambda>taken.
     if taken then raise_op TenantIntegrityError
     else
       bind_op utc_now (\<lambda>created.
       bind_op utc_now (\<lambda>updated.
         let row = new\<lparr>tn_created_at := created, tn_updated_at := updated\<rparr>
         in bind_op (put_op (\<lambda>s. s\<lparr>tenants := tenants s @ [row]\<rparr>)) (\<lambda>_. return_op row))))"

text \<open>The lock has no effect on the tables: on SQLite it writes a row that does not exist.\<close>

definition acquire_first_tenant_bootstrap_lock :: "string \<Rightarrow> (db, tenant_error, unit) op" where
  "acquire_first_tenant_bootstrap_lock dialect_name =
     (if dialect_name = ''postgresql'' then return_op ()
      else if dialect_name = ''sqlite''
      then put_op (\<lambda>s. s\<lparr>tenants := update_where (\<lambda>t. tn_id t = ''__axis_first_tenant_bootstrap_lock__'')
             (\<lambda>t. t\<lparr>tn_updated_at := tn_updated_at t\<rparr>) (tenants s)\<rparr>)
      else raise_op LockNotSupported)"

definition get_tenant :: "string \<Rightarrow> db \<Rightarrow> tenant option" where
  "get_tenant tenant_id s = first_row (select_where (\<lambda>t. tn_id t = tenant_id) (tenants s))"

definition get_tenant_by_provision_idempotency_key :: "string \<Rightarrow> db \<Rightarrow> tenant option" where
  "get_tenant_by_provision_idempotency_key idempotency_key s =
     first_row (select_where (\<lambda>t. tn_provision_idempotency_key t = Some idempotency_key) (tenants s))"

definition list_tenants :: "string option \<Rightarrow> nat \<Rightarrow> string option \<Rightarrow> db \<Rightarrow> tenant list" where
  "list_tenants status limit cursor_tenant_id s =
     take limit (sort_key tn_id (select_where
       (\<lambda>t. (case status of None \<Rightarrow> True | Some st \<Rightarrow> tn_status t = st)
          \<and> (case cursor_tenant_id of None \<Rightarrow> True | Some c \<Rightarrow> c < tn_id t)) (tenants s)))"

definition list_tenants_after :: "string option \<Rightarrow> nat \<Rightarrow> db \<Rightarrow> tenant list" where
  "list_tenants_after cursor_tenant_id limit s =
     take limit (sort_key tn_id (select_where
       (\<lambda>t. case cursor_tenant_id of None \<Rightarrow> True | Some c \<Rightarrow> c < tn_id t) (tenants s)))"

record tenant_transition =
  tt_tenant_id :: string
  tt_status :: string
  tt_actor_id :: string
  tt_reason :: "string option"
  tt_audit_event_id :: "uuid option"
  tt_audit_event_type :: string
  tt_notes :: "string list"

definition lifecycle_row :: "tenant_transition \<Rightarrow> timestamp \<Rightarrow> tenant \<Rightarrow> tenant" where
  "lifecycle_row transition occurred_at t =
     (let t1 = (if tt_status transition = ''active''
                then t\<lparr>tn_status := tt_status transition, tn_suspended_at := None, tn_suspended_by := None,
                       tn_suspension_reason := None, tn_reactivated_at := Some occurred_at,
                       tn_reactivated_by := Some (tt_actor_id transition)\<rparr>
                else t\<lparr>tn_status := tt_status transition, tn_suspended_at := Some occurred_at,
                       tn_suspended_by := Some (tt_actor_id transition),
                       tn_suspension_reason := tt_reason transition, tn_reactivated_at := None,
                       tn_reactivated_by := None\<rparr>)
      in t1\<lparr>tn_audit_event_id := tt_audit_event_id transition, tn_audit_event_type := tt_audit_event_type transition,
            tn_notes := tn_notes t @ tt_notes transition, tn_updated_at := occurred_at\<rparr>)"

definition update_tenant_row :: "string \<Rightarrow> (tenant \<Rightarrow> tenant) \<Rightarrow> db \<Rightarrow> db" where
  "update_tenant_row tenant_id f s = s\<lparr>tenants := update_where (\<lambda>t. tn_id t = tenant_id) f (tenants s)\<rparr>"

definition update_tenant_lifecycle :: "tenant_transition \<Rightarrow> (db, tenant_error, tenant) op" where
  "update_tenant_lifecycle transition =
     bind_op (get_op (get_tenant (tt_tenant_id transition))) (\<lambda>found.
     case found of
       None \<Rightarrow> raise_op TenantRecordNotFound
     | Some t \<Rightarrow>
         bind_op utc_now (\<lambda>occurred_at.
         bind_op (put_op (update_tenant_row (tt_tenant_id transition) (lifecycle_row transition occurred_at))) (\<lambda>_.
         return_op (lifecycle_row transition occurred_at t))))"

definition get_tenant_quota :: "string \<Rightarrow> string \<Rightarrow> db \<Rightarrow> tenant_quota option" where
  "get_tenant_quota tenant_id quota_key s =
     first_row (select_where (\<lambda>q. tq_tenant_id q = tenant_id \<and> tq_quota_key q = quota_key) (tenant_quotas s))"

definition list_tenant_quotas :: "string \<Rightarrow> db \<Rightarrow> tenant_quota list" where
  "list_tenant_quotas tenant_id s =
     sort_key tq_quota_key (select_where (\<lambda>q. tq_tenant_id q = tenant_id) (tenant_quotas s))"

record quota_upsert =
  qx_tenant_id :: string
  qx_quota_key :: string
  qx_quota_value :: int
  qx_updated_by :: string
  qx_audit_event_id :: "uuid option"
  qx_audit_event_type :: string
  qx_notes :: "string list"

definition upsert_tenant_quota :: "quota_upsert \<Rightarrow> (db, tenant_error, tenant_quota) op" where
  "upsert_tenant_quota record =
     bind_op (get_op (get_tenant_quota (qx_tenant_id record) (qx_quota_key record))) (\<lambda>found.
     case found of
       None \<Rightarrow>
         bind_op uuid4 (\<lambda>new_id.
         bind_op utc_now (\<lambda>created.
         bind_op utc_now (\<lambda>updated.
           let quota = \<lparr>tq_id = new_id, tq_tenant_id = qx_tenant_id record, tq_quota_key = qx_quota_key record,
                 tq_quota_value = qx_quota_value record, tq_updated_by = qx_updated_by record,
                 tq_audit_event_id = qx_audit_event_id record, tq_audit_event_type = qx_audit_event_type record,
                 tq_notes = qx_notes record, tq_created_at = created, tq_updated_at = updated\<rparr>
           in bind_op (put_op (\<lambda>s. s\<lparr>tenant_quotas := tenant_quotas s @ [quota]\<rparr>)) (\<lambda>_. return_op quota))))
     | Some quota \<Rightarrow>
         bind_op utc_now (\<lambda>updated.
           let f = (\<lambda>q. q\<lparr>tq_quota_value := qx_quota_value record, tq_updated_by := qx_updated_by record,
                 tq_audit_event_id := qx_audit_event_id record, tq_audit_event_type := qx_audit_event_type record,
                 tq_notes := qx_notes record, tq_updated_at := updated\<rparr>)
           in bind_op (put_op (\<lambda>s. s\<lparr>tenant_quotas := update_where (\<lambda>q. tq_id q = tq_id quota) f
                  (tenant_quotas s)\<rparr>)) (\<lambda>_. return_op (f quota))))"

definition delete_tenant_quota :: "string \<Rightarrow> string \<Rightarrow> (db, tenant_error, bool) op" where
  "delete_tenant_quota tenant_id quota_key =
     bind_op (get_op (get_tenant_quota tenant_id quota_key)) (\<lambda>found.
     case found of
       None \<Rightarrow> return_op False
     | Some quota \<Rightarrow>
         bind_op (put_op (\<lambda>s. s\<lparr>tenant_quotas := select_where (\<lambda>q. tq_id q \<noteq> tq_id quota) (tenant_quotas s)\<rparr>)) (\<lambda>_.
         return_op True))"

definition update_vocabulary_column :: "string \<Rightarrow> json \<Rightarrow> (db, tenant_error, tenant) op" where
  "update_vocabulary_column tenant_id vocabulary =
     bind_op (get_op (get_tenant tenant_id)) (\<lambda>found.
     case found of
       None \<Rightarrow> raise_op TenantRecordNotFound
     | Some t \<Rightarrow>
         bind_op utc_now (\<lambda>updated.
           let f = (\<lambda>t. t\<lparr>tn_vocabulary := Some vocabulary, tn_updated_at := updated\<rparr>)
           in bind_op (put_op (update_tenant_row tenant_id f)) (\<lambda>_. return_op (f t))))"

definition get_actor :: "string \<Rightarrow> db \<Rightarrow> actor option" where
  "get_actor actor_id s = first_row (select_where (\<lambda>a. ac_id a = actor_id) (actors s))"

definition create_actor :: "string \<Rightarrow> string \<Rightarrow> string \<Rightarrow> string \<Rightarrow> (db, tenant_error, actor) op" where
  "create_actor actor_id tenant_id display_name actor_type =
     bind_op (get_op (get_actor actor_id)) (\<lambda>taken.
     if taken \<noteq> None then raise_op TenantIntegrityError
     else
       bind_op utc_now (\<lambda>created.
         let row = \<lparr>ac_id = actor_id, ac_tenant_id = tenant_id, ac_display_name = display_name,
                    ac_actor_type = actor_type, ac_created_at = created\<rparr>
         in bind_op (put_op (\<lambda>s. s\<lparr>actors := actors s @ [row]\<rparr>)) (\<lambda>_. return_op row)))"

section \<open>The service\<close>

text \<open>\<^verbatim>\<open>text.removeprefix(prefix)\<close>.\<close>

definition removeprefix :: "string \<Rightarrow> string \<Rightarrow> string" where
  "removeprefix pre text = (if take (length pre) text = pre then drop (length pre) text else text)"

definition evaluate_operator_permission ::
  "string \<Rightarrow> string \<Rightarrow> string list \<Rightarrow> string \<Rightarrow> dict \<Rightarrow> tenant_error + permission_decision"
where
  "evaluate_operator_permission tenant_id actor_id actor_scopes action_scope attributes =
     (let request = \<lparr>pq_tenant_id = tenant_id, pq_actor_id = actor_id, pq_actor_scopes = actor_scopes,
                     pq_required_scopes = [REQUIRED_OPERATOR_SCOPE, action_scope], pq_relationship_scopes = [],
                     pq_attributes = dmerge [(''surface'', JStr ''platform_tenants'')] attributes\<rparr>;
          decision = evaluate_permission request
      in if \<not> permission_request_valid request then Inl TenantValueError
         else if \<not> allowed decision
         then let required_permission = removeprefix ''missing_scope:'' (reason decision)
              in Inl (TenantPermissionDenied
                   (if required_permission = reason decision then action_scope else required_permission) decision)
         else Inr decision)"

text \<open>\<^verbatim>\<open>TenantRecord\<close>, the response model.\<close>

record tenant_view =
  vw_tenant_id :: string
  vw_display_name :: string
  vw_description :: string
  vw_status :: tenant_lifecycle_status
  vw_created_by :: string
  vw_bootstrap_admin_actor_id :: "string option"
  vw_provision_idempotency_key :: "string option"
  vw_suspended_at :: "timestamp option"
  vw_suspended_by :: "string option"
  vw_suspension_reason :: "string option"
  vw_reactivated_at :: "timestamp option"
  vw_reactivated_by :: "string option"
  vw_permission_decision :: "permission_decision option"
  vw_audit_event_id :: "uuid option"
  vw_audit_event_type :: string
  vw_idempotent_replay :: bool
  vw_notes :: "string list"
  vw_created_at :: timestamp
  vw_updated_at :: timestamp

definition tenant_from_record :: "tenant \<Rightarrow> permission_decision option \<Rightarrow> bool \<Rightarrow> tenant_error + tenant_view" where
  "tenant_from_record record permission_decision idempotent_replay =
     (case lifecycle_of (tn_status record) of
        None \<Rightarrow> Inl TenantValueError
      | Some status \<Rightarrow>
          if tn_id record = [] \<or> tn_name record = [] \<or> tn_created_by record = [] \<or> tn_audit_event_type record = []
          then Inl TenantValueError
          else Inr
            \<lparr>vw_tenant_id = tn_id record, vw_display_name = tn_name record, vw_description = tn_description record,
             vw_status = status, vw_created_by = tn_created_by record,
             vw_bootstrap_admin_actor_id = tn_bootstrap_admin_actor_id record,
             vw_provision_idempotency_key = tn_provision_idempotency_key record,
             vw_suspended_at = tn_suspended_at record, vw_suspended_by = tn_suspended_by record,
             vw_suspension_reason = tn_suspension_reason record, vw_reactivated_at = tn_reactivated_at record,
             vw_reactivated_by = tn_reactivated_by record, vw_permission_decision = permission_decision,
             vw_audit_event_id = tn_audit_event_id record, vw_audit_event_type = tn_audit_event_type record,
             vw_idempotent_replay = idempotent_replay, vw_notes = tn_notes record,
             vw_created_at = tn_created_at record, vw_updated_at = tn_updated_at record\<rparr>)"

text \<open>The evidence of a provisioning in the ledger.\<close>

definition valid_provision_audit_event :: "tenant \<Rightarrow> db \<Rightarrow> audit_event option" where
  "valid_provision_audit_event record s =
     (case list_audit_events (tn_id record) (Some PROVISIONED_AUDIT_EVENT_TYPE) None 2 s of
        [audit_event] \<Rightarrow>
          let payload = ae_payload audit_event;
              audited_description = dget_default payload ''description'' (JStr (tn_description record));
              notes_refused = (case map_of payload ''provision_notes'' of
                  None \<Rightarrow> False
                | Some (JList audited_notes) \<Rightarrow> take (length audited_notes) (map JStr (tn_notes record)) \<noteq> audited_notes
                | Some _ \<Rightarrow> True)
          in if notes_refused then None
             else if ae_actor_id audit_event = tn_created_by record
                \<and> dget payload ''tenant_id'' = JStr (tn_id record)
                \<and> dget payload ''display_name'' = JStr (tn_name record)
                \<and> audited_description = JStr (tn_description record)
                \<and> dget payload ''status'' = JStr (lifecycle_value ACTIVE)
                \<and> dget payload ''idempotency_key'' = jopt JStr (tn_provision_idempotency_key record)
                \<and> dget payload ''bootstrap_admin_actor_id'' = jopt JStr (tn_bootstrap_admin_actor_id record)
             then Some audit_event else None
      | _ \<Rightarrow> None)"

definition audited_provision_notes :: "tenant \<Rightarrow> audit_event \<Rightarrow> bool \<times> json list" where
  "audited_provision_notes record audit_event =
     (case map_of (ae_payload audit_event) ''provision_notes'' of
        Some (JList notes) \<Rightarrow> (True, notes)
      | Some _ \<Rightarrow> (False, [])
      | None \<Rightarrow>
          if tn_audit_event_id record = Some (ae_id audit_event)
             \<and> tn_audit_event_type record = PROVISIONED_AUDIT_EVENT_TYPE
          then (True, map JStr (tn_notes record)) else (False, []))"

definition provision_matches_request :: "tenant \<Rightarrow> tenant_provision_request \<Rightarrow> db \<Rightarrow> bool" where
  "provision_matches_request record request s =
     (if \<not> (tn_id record = tp_tenant_id request \<and> tn_name record = tp_display_name request
            \<and> tn_description record = tp_description request
            \<and> tn_bootstrap_admin_actor_id record = map_option ba_actor_id (tp_bootstrap_admin request)
            \<and> tn_created_by record = tp_requested_by request) then False
      else case valid_provision_audit_event record s of
             None \<Rightarrow> False
           | Some audit_event \<Rightarrow>
               let payload = ae_payload audit_event;
                   audited_description = dget_default payload ''description'' (JStr (tn_description record));
                   (notes_are_verifiable, audited_notes) = audited_provision_notes record audit_event
               in if audited_description \<noteq> JStr (tp_description request) then False
                  else if \<not> notes_are_verifiable \<or> audited_notes \<noteq> map JStr (tp_notes request) then False
                  else case tp_bootstrap_admin request of
                         None \<Rightarrow> True
                       | Some admin \<Rightarrow>
                           let named = dget payload ''bootstrap_admin_display_name'';
                               audited_admin_name =
                                 (if named = JNull
                                  then jopt (JStr \<circ> ac_display_name) (get_actor (ba_actor_id admin) s) else named)
                           in audited_admin_name = JStr (ba_display_name admin)
                              \<and> dget payload ''bootstrap_admin_requested_scopes'' = jstrs (ba_scopes admin))"

definition has_valid_direct_bootstrap_evidence :: "tenant \<Rightarrow> db \<Rightarrow> bool" where
  "has_valid_direct_bootstrap_evidence record s =
     (case valid_provision_audit_event record s of
        None \<Rightarrow> False
      | Some provision_event \<Rightarrow>
          (case list_audit_events (tn_id record) (Some FIRST_TENANT_BOOTSTRAPPED_AUDIT_EVENT_TYPE) None 2 s of
             [bootstrap_event] \<Rightarrow>
               let payload = ae_payload bootstrap_event in
               ae_actor_id bootstrap_event = ae_actor_id provision_event
               \<and> dget payload ''tenant_id'' = JStr (tn_id record)
               \<and> dget payload ''authority'' = JStr ''direct_database''
               \<and> dget payload ''provision_audit_event_id'' = JStr (uuid_text (ae_id provision_event))
               \<and> dget payload ''idempotency_key'' = jopt JStr (tn_provision_idempotency_key record)
           | _ \<Rightarrow> False))"

definition provisioned_event :: "tenant_provision_request \<Rightarrow> permission_decision \<Rightarrow> audit_event_create" where
  "provisioned_event request permission_decision =
     (let admin = tp_bootstrap_admin request in
      \<lparr>ac_event_tenant_id = tp_tenant_id request, ac_event_actor_id = tp_requested_by request,
       ac_event_type = PROVISIONED_AUDIT_EVENT_TYPE,
       ac_event_payload =
         [(''tenant_id'', JStr (tp_tenant_id request)), (''display_name'', JStr (tp_display_name request)),
          (''description'', JStr (tp_description request)), (''status'', JStr (lifecycle_value ACTIVE)),
          (''idempotency_key'', JStr (tp_idempotency_key request)), (''provision_notes'', jstrs (tp_notes request)),
          (''bootstrap_admin_actor_id'', jopt (JStr \<circ> ba_actor_id) admin),
          (''bootstrap_admin_display_name'', jopt (JStr \<circ> ba_display_name) admin),
          (''bootstrap_admin_requested_scopes'', jstrs (case admin of None \<Rightarrow> [] | Some a \<Rightarrow> ba_scopes a)),
          (''required_operator_scope'', JStr REQUIRED_OPERATOR_SCOPE),
          (''required_provision_scope'', JStr REQUIRED_PROVISION_SCOPE),
          (''permission_decision'', permission_decision_dump permission_decision)]\<rparr>)"

definition provisioned_tenant :: "tenant_provision_request \<Rightarrow> audit_event \<Rightarrow> tenant" where
  "provisioned_tenant request audit_event =
     \<lparr>tn_id = tp_tenant_id request, tn_name = tp_display_name request, tn_description = tp_description request,
      tn_status = lifecycle_value ACTIVE, tn_created_by = tp_requested_by request,
      tn_bootstrap_admin_actor_id = map_option ba_actor_id (tp_bootstrap_admin request),
      tn_provision_idempotency_key = Some (tp_idempotency_key request), tn_suspended_at = None,
      tn_suspended_by = None, tn_suspension_reason = None, tn_reactivated_at = None, tn_reactivated_by = None,
      tn_audit_event_id = Some (ae_id audit_event), tn_audit_event_type = ae_event_type audit_event,
      tn_notes = tp_notes request, tn_vocabulary = None, tn_created_at = 0, tn_updated_at = 0\<rparr>"

definition provision_new :: "tenant_provision_request \<Rightarrow> permission_decision \<Rightarrow> (db, tenant_error, tenant_view) op" where
  "provision_new request permission_decision =
     bind_op (append_audit_event (provisioned_event request permission_decision)) (\<lambda>audit_event.
     bind_op (case tp_bootstrap_admin request of
                None \<Rightarrow> return_op ()
              | Some admin \<Rightarrow>
                  bind_op (create_actor (ba_actor_id admin) (tp_tenant_id request) (ba_display_name admin) ''human'')
                    (\<lambda>_. return_op ())) (\<lambda>_.
     bind_op (create_tenant (provisioned_tenant request audit_event)) (\<lambda>tenant.
     of_result (tenant_from_record tenant (Some permission_decision) False))))"

definition provision_tenant :: "tenant_provision_request \<Rightarrow> (db, tenant_error, tenant_view) op" where
  "provision_tenant request =
     bind_op (of_result (evaluate_operator_permission (tp_tenant_id request) (tp_requested_by request)
         (tp_actor_scopes request) REQUIRED_PROVISION_SCOPE
         [(''operation'', JStr ''provision_tenant''), (''idempotency_key'', JStr (tp_idempotency_key request))]))
       (\<lambda>permission_decision.
     bind_op (get_op (get_tenant_by_provision_idempotency_key (tp_idempotency_key request))) (\<lambda>existing_replay.
     case existing_replay of
       Some existing \<Rightarrow>
         bind_op (get_op (provision_matches_request existing request)) (\<lambda>matches.
         if \<not> matches
         then raise_op (TenantProvisionConflict (tp_tenant_id request) ''provision_idempotency_conflict'')
         else of_result (tenant_from_record existing None True))
     | None \<Rightarrow>
         bind_op (get_op (get_tenant (tp_tenant_id request))) (\<lambda>existing.
         if existing \<noteq> None
         then raise_op (TenantProvisionConflict (tp_tenant_id request) ''tenant_already_exists'')
         else
           bind_op (get_op (\<lambda>s. case tp_bootstrap_admin request of
               None \<Rightarrow> False | Some admin \<Rightarrow> get_actor (ba_actor_id admin) s \<noteq> None)) (\<lambda>admin_exists.
           if admin_exists
           then raise_op (TenantProvisionConflict (tp_tenant_id request) ''bootstrap_admin_actor_exists'')
           else provision_new request permission_decision))))"

definition first_bootstrap_event :: "tenant_provision_request \<Rightarrow> tenant_view \<Rightarrow> audit_event_create" where
  "first_bootstrap_event request result =
     \<lparr>ac_event_tenant_id = vw_tenant_id result, ac_event_actor_id = tp_requested_by request,
      ac_event_type = FIRST_TENANT_BOOTSTRAPPED_AUDIT_EVENT_TYPE,
      ac_event_payload =
        [(''tenant_id'', JStr (vw_tenant_id result)), (''authority'', JStr ''direct_database''),
         (''provision_audit_event_id'',
            JStr (case vw_audit_event_id result of None \<Rightarrow> ''None'' | Some u \<Rightarrow> uuid_text u)),
         (''idempotency_key'', JStr (tp_idempotency_key request))]\<rparr>"

definition bootstrap_first_tenant :: "string \<Rightarrow> tenant_provision_request \<Rightarrow> (db, tenant_error, tenant_view) op" where
  "bootstrap_first_tenant dialect_name request =
     bind_op (acquire_first_tenant_bootstrap_lock dialect_name) (\<lambda>_.
     bind_op (get_op (list_tenants None 2 None)) (\<lambda>existing.
     bind_op (get_op (\<lambda>s. case existing of
         [] \<Rightarrow> False
       | [only] \<Rightarrow> \<not> (tn_id only = tp_tenant_id request
                      \<and> tn_provision_idempotency_key only = Some (tp_idempotency_key request))
                   \<or> \<not> has_valid_direct_bootstrap_evidence only s
       | _ \<Rightarrow> True)) (\<lambda>initialized.
     if initialized
     then raise_op (TenantProvisionConflict (tp_tenant_id request) ''tenant_registry_already_initialized'')
     else
       bind_op (provision_tenant request) (\<lambda>result.
       if vw_idempotent_replay result then return_op result
       else bind_op (append_audit_event (first_bootstrap_event request result)) (\<lambda>_. return_op result)))))"

definition get_tenant_detail :: "string \<Rightarrow> (db, tenant_error, tenant_view) op" where
  "get_tenant_detail tenant_id =
     bind_op (get_op (get_tenant tenant_id)) (\<lambda>found.
     case found of None \<Rightarrow> raise_op TenantNotFound | Some t \<Rightarrow> of_result (tenant_from_record t None False))"

definition transition_event ::
  "string \<Rightarrow> string \<Rightarrow> string \<Rightarrow> string \<Rightarrow> tenant_lifecycle_status \<Rightarrow> string \<Rightarrow> permission_decision \<Rightarrow> audit_event_create"
where
  "transition_event tenant_id actor_id event_type previous_status status reason_text permission_decision =
     \<lparr>ac_event_tenant_id = tenant_id, ac_event_actor_id = actor_id, ac_event_type = event_type,
      ac_event_payload =
        [(''tenant_id'', JStr tenant_id), (''previous_status'', JStr previous_status),
         (''status'', JStr (lifecycle_value status)), (''reason'', JStr reason_text),
         (''required_operator_scope'', JStr REQUIRED_OPERATOR_SCOPE),
         (''required_suspend_scope'', JStr REQUIRED_SUSPEND_SCOPE),
         (''permission_decision'', permission_decision_dump permission_decision)]\<rparr>"

definition suspend_tenant :: "string \<Rightarrow> tenant_suspend_request \<Rightarrow> (db, tenant_error, tenant_view) op" where
  "suspend_tenant tenant_id request =
     bind_op (of_result (evaluate_operator_permission tenant_id (tu_requested_by request) (tu_actor_scopes request)
         REQUIRED_SUSPEND_SCOPE [(''operation'', JStr ''suspend_tenant''), (''reason'', JStr (tu_reason request))]))
       (\<lambda>permission_decision.
     bind_op (get_op (get_tenant tenant_id)) (\<lambda>found.
     case found of
       None \<Rightarrow> raise_op TenantNotFound
     | Some t \<Rightarrow>
         if tn_status t \<noteq> lifecycle_value ACTIVE
         then raise_op (TenantLifecycleConflict tenant_id ''tenant_not_active'')
         else
           bind_op (append_audit_event (transition_event tenant_id (tu_requested_by request)
               SUSPENDED_AUDIT_EVENT_TYPE (tn_status t) SUSPENDED (tu_reason request) permission_decision)) (\<lambda>audit_event.
           bind_op (update_tenant_lifecycle
               \<lparr>tt_tenant_id = tenant_id, tt_status = lifecycle_value SUSPENDED, tt_actor_id = tu_requested_by request,
                tt_reason = Some (tu_reason request), tt_audit_event_id = Some (ae_id audit_event),
                tt_audit_event_type = ae_event_type audit_event, tt_notes = tu_notes request\<rparr>) (\<lambda>updated.
           of_result (tenant_from_record updated (Some permission_decision) False)))))"

definition reactivate_tenant :: "string \<Rightarrow> tenant_reactivate_request \<Rightarrow> (db, tenant_error, tenant_view) op" where
  "reactivate_tenant tenant_id request =
     bind_op (of_result (evaluate_operator_permission tenant_id (tr_requested_by request) (tr_actor_scopes request)
         REQUIRED_SUSPEND_SCOPE [(''operation'', JStr ''reactivate_tenant''), (''reason'', JStr (tr_reason request))]))
       (\<lambda>permission_decision.
     bind_op (get_op (get_tenant tenant_id)) (\<lambda>found.
     case found of
       None \<Rightarrow> raise_op TenantNotFound
     | Some t \<Rightarrow>
         if tn_status t = lifecycle_value ACTIVE
         then raise_op (TenantLifecycleConflict tenant_id ''tenant_already_active'')
         else
           bind_op (append_audit_event (transition_event tenant_id (tr_requested_by request)
               REACTIVATED_AUDIT_EVENT_TYPE (tn_status t) ACTIVE (tr_reason request) permission_decision)) (\<lambda>audit_event.
           bind_op (update_tenant_lifecycle
               \<lparr>tt_tenant_id = tenant_id, tt_status = lifecycle_value ACTIVE, tt_actor_id = tr_requested_by request,
                tt_reason = (if tr_reason request = [] then None else Some (tr_reason request)),
                tt_audit_event_id = Some (ae_id audit_event), tt_audit_event_type = ae_event_type audit_event,
                tt_notes = tr_notes request\<rparr>) (\<lambda>updated.
           of_result (tenant_from_record updated (Some permission_decision) False)))))"

record tenant_registry =
  rg_tenant_count :: nat
  rg_active_tenant_count :: nat
  rg_tenants :: "tenant_view list"
  rg_has_more :: bool
  rg_next_cursor_tenant_id :: "string option"

text \<open>\<^verbatim>\<open>[f(x) for x in xs]\<close> for an \<open>f\<close> that may raise.\<close>

fun map_result :: "('a \<Rightarrow> 'e + 'b) \<Rightarrow> 'a list \<Rightarrow> 'e + 'b list" where
  "map_result f [] = Inr []"
| "map_result f (x # xs) =
     (case f x of Inl e \<Rightarrow> Inl e
      | Inr y \<Rightarrow> (case map_result f xs of Inl e \<Rightarrow> Inl e | Inr ys \<Rightarrow> Inr (y # ys)))"

text \<open>\<^verbatim>\<open>build_tenant_registry\<close>. A cursor is the identifier of the tenant that its opaque text names.\<close>

definition build_tenant_registry ::
  "tenant_lifecycle_status option \<Rightarrow> nat \<Rightarrow> string option \<Rightarrow> (db, tenant_error, tenant_registry) op"
where
  "build_tenant_registry status limit cursor_tenant_id =
     bind_op (get_op (list_tenants (map_option lifecycle_value status) (limit + 1) cursor_tenant_id)) (\<lambda>records.
     let has_more = limit < length records; page_records = take limit records in
     bind_op (of_result (map_result (\<lambda>record. tenant_from_record record None False) page_records)) (\<lambda>views.
     return_op
       \<lparr>rg_tenant_count = length views, rg_active_tenant_count = rowcount (\<lambda>v. vw_status v = ACTIVE) views,
        rg_tenants = views, rg_has_more = has_more,
        rg_next_cursor_tenant_id =
          (if has_more \<and> page_records \<noteq> [] then Some (tn_id (last page_records)) else None)\<rparr>))"

record tenant_quota_change =
  qc_quota_key :: string
  qc_previous_value :: "int option"
  qc_new_value :: "int option"
  qc_audit_event_id :: "uuid option"
  qc_audit_event_type :: string

record tenant_quota_set =
  qs_tenant_id :: string
  qs_quotas :: "(string \<times> int) list"
  qs_changes :: "tenant_quota_change list"

text \<open>\<^verbatim>\<open>{quota.quota_key: quota.quota_value for quota in list_tenant_quotas(tenant_id)}\<close>.\<close>

definition quota_dict :: "string \<Rightarrow> db \<Rightarrow> (string \<times> int) list" where
  "quota_dict tenant_id s =
     fold (\<lambda>q. AList.update (tq_quota_key q) (tq_quota_value q)) (list_tenant_quotas tenant_id s) []"

definition get_tenant_quota_set :: "string \<Rightarrow> (db, tenant_error, tenant_quota_set) op" where
  "get_tenant_quota_set tenant_id =
     bind_op (get_op (get_tenant tenant_id)) (\<lambda>found.
     if found = None then raise_op TenantNotFound
     else bind_op (get_op (quota_dict tenant_id)) (\<lambda>quotas.
       return_op \<lparr>qs_tenant_id = tenant_id, qs_quotas = quotas, qs_changes = []\<rparr>))"

definition quota_updated_event ::
  "string \<Rightarrow> string \<Rightarrow> string \<Rightarrow> int option \<Rightarrow> int option \<Rightarrow> permission_decision \<Rightarrow> audit_event_create"
where
  "quota_updated_event tenant_id actor_id quota_key previous_value new_value permission_decision =
     \<lparr>ac_event_tenant_id = tenant_id, ac_event_actor_id = actor_id, ac_event_type = QUOTA_UPDATED_AUDIT_EVENT_TYPE,
      ac_event_payload =
        [(''tenant_id'', JStr tenant_id), (''quota_key'', JStr quota_key), (''previous_value'', jopt JInt previous_value),
         (''new_value'', jopt JInt new_value), (''required_operator_scope'', JStr REQUIRED_OPERATOR_SCOPE),
         (''required_quota_scope'', JStr REQUIRED_QUOTA_SCOPE),
         (''permission_decision'', permission_decision_dump permission_decision)]\<rparr>"

text \<open>One turn of the loop over the typed keys, and the loop.\<close>

definition update_one_quota ::
  "string \<Rightarrow> tenant_quota_update_request \<Rightarrow> permission_decision \<Rightarrow> string \<Rightarrow> int option \<Rightarrow>
   (db, tenant_error, tenant_quota_change list) op"
where
  "update_one_quota tenant_id request permission_decision quota_key new_value =
     bind_op (get_op (get_tenant_quota tenant_id quota_key)) (\<lambda>existing.
     let previous_value = map_option tq_quota_value existing in
     if new_value = previous_value then return_op []
     else
       bind_op (append_audit_event (quota_updated_event tenant_id (qu_requested_by request) quota_key previous_value
           new_value permission_decision)) (\<lambda>audit_event.
       bind_op (case new_value of
                  None \<Rightarrow> bind_op (delete_tenant_quota tenant_id quota_key) (\<lambda>_. return_op ())
                | Some v \<Rightarrow>
                    bind_op (upsert_tenant_quota
                        \<lparr>qx_tenant_id = tenant_id, qx_quota_key = quota_key, qx_quota_value = v,
                         qx_updated_by = qu_requested_by request, qx_audit_event_id = Some (ae_id audit_event),
                         qx_audit_event_type = ae_event_type audit_event, qx_notes = qu_notes request\<rparr>)
                      (\<lambda>_. return_op ())) (\<lambda>_.
       return_op [\<lparr>qc_quota_key = quota_key, qc_previous_value = previous_value, qc_new_value = new_value,
                   qc_audit_event_id = Some (ae_id audit_event), qc_audit_event_type = ae_event_type audit_event\<rparr>])))"

fun update_quota_loop ::
  "string \<Rightarrow> tenant_quota_update_request \<Rightarrow> permission_decision \<Rightarrow> (string \<times> int option) list \<Rightarrow>
   (db, tenant_error, tenant_quota_change list) op"
where
  "update_quota_loop tenant_id request permission_decision [] = return_op []"
| "update_quota_loop tenant_id request permission_decision ((quota_key, new_value) # rest) =
     bind_op (update_one_quota tenant_id request permission_decision quota_key new_value) (\<lambda>changes.
     bind_op (update_quota_loop tenant_id request permission_decision rest) (\<lambda>more.
     return_op (changes @ more)))"

definition update_tenant_quotas :: "string \<Rightarrow> tenant_quota_update_request \<Rightarrow> (db, tenant_error, tenant_quota_set) op" where
  "update_tenant_quotas tenant_id request =
     bind_op (of_result (evaluate_operator_permission tenant_id (qu_requested_by request) (qu_actor_scopes request)
         REQUIRED_QUOTA_SCOPE [(''operation'', JStr ''update_tenant_quotas'')])) (\<lambda>permission_decision.
     bind_op (get_op (get_tenant tenant_id)) (\<lambda>found.
     if found = None then raise_op TenantNotFound
     else
       bind_op (update_quota_loop tenant_id request permission_decision (as_mapping (qu_quotas request))) (\<lambda>changes.
       bind_op (get_op (quota_dict tenant_id)) (\<lambda>quotas.
       return_op \<lparr>qs_tenant_id = tenant_id, qs_quotas = quotas, qs_changes = changes\<rparr>))))"

record tenant_vocabulary_change =
  vc_previous_value :: "tenant_vocabulary option"
  vc_new_value :: tenant_vocabulary
  vc_audit_event_id :: "uuid option"
  vc_audit_event_type :: string

record tenant_vocabulary_set =
  vs_tenant_id :: string
  vs_vocabulary :: tenant_vocabulary
  vs_configured :: bool
  vs_changes :: "tenant_vocabulary_change list"

text \<open>The stored vocabulary of a tenant, if it has one; a stored value that the model refuses raises.\<close>

definition stored_vocabulary :: "tenant \<Rightarrow> tenant_error + tenant_vocabulary option" where
  "stored_vocabulary t =
     (case tn_vocabulary t of
        None \<Rightarrow> Inr None
      | Some j \<Rightarrow> (case vocabulary_of_json j of None \<Rightarrow> Inl TenantValueError | Some v \<Rightarrow> Inr (Some v)))"

definition get_tenant_vocabulary :: "string \<Rightarrow> (db, tenant_error, tenant_vocabulary_set) op" where
  "get_tenant_vocabulary tenant_id =
     bind_op (get_op (get_tenant tenant_id)) (\<lambda>found.
     case found of
       None \<Rightarrow> raise_op TenantNotFound
     | Some t \<Rightarrow>
         bind_op (of_result (stored_vocabulary t)) (\<lambda>stored.
         return_op
           \<lparr>vs_tenant_id = tenant_id,
            vs_vocabulary = (case stored of None \<Rightarrow> default_vocabulary | Some v \<Rightarrow> v),
            vs_configured = (tn_vocabulary t \<noteq> None), vs_changes = []\<rparr>))"

definition vocabulary_updated_event ::
  "string \<Rightarrow> tenant_vocabulary_update_request \<Rightarrow> tenant_vocabulary option \<Rightarrow> permission_decision \<Rightarrow> audit_event_create"
where
  "vocabulary_updated_event tenant_id request previous_value permission_decision =
     \<lparr>ac_event_tenant_id = tenant_id, ac_event_actor_id = vu_requested_by request,
      ac_event_type = VOCABULARY_UPDATED_AUDIT_EVENT_TYPE,
      ac_event_payload =
        [(''tenant_id'', JStr tenant_id), (''previous_value'', jopt vocabulary_dump previous_value),
         (''new_value'', vocabulary_dump (vu_vocabulary request)),
         (''required_operator_scope'', JStr REQUIRED_OPERATOR_SCOPE),
         (''required_configure_scope'', JStr REQUIRED_CONFIGURE_SCOPE),
         (''permission_decision'', permission_decision_dump permission_decision)]\<rparr>"

definition update_tenant_vocabulary ::
  "string \<Rightarrow> tenant_vocabulary_update_request \<Rightarrow> (db, tenant_error, tenant_vocabulary_set) op"
where
  "update_tenant_vocabulary tenant_id request =
     bind_op (of_result (evaluate_operator_permission tenant_id (vu_requested_by request) (vu_actor_scopes request)
         REQUIRED_CONFIGURE_SCOPE [(''operation'', JStr ''update_tenant_vocabulary'')])) (\<lambda>permission_decision.
     bind_op (get_op (get_tenant tenant_id)) (\<lambda>found.
     case found of
       None \<Rightarrow> raise_op TenantNotFound
     | Some t \<Rightarrow>
         bind_op (of_result (stored_vocabulary t)) (\<lambda>previous_value.
         if (case previous_value of None \<Rightarrow> False | Some v \<Rightarrow> vocabulary_eq v (vu_vocabulary request))
         then return_op \<lparr>vs_tenant_id = tenant_id, vs_vocabulary = vu_vocabulary request, vs_configured = True,
                         vs_changes = []\<rparr>
         else
           bind_op (append_audit_event
               (vocabulary_updated_event tenant_id request previous_value permission_decision)) (\<lambda>audit_event.
           bind_op (update_vocabulary_column tenant_id (vocabulary_dump (vu_vocabulary request))) (\<lambda>_.
           return_op
             \<lparr>vs_tenant_id = tenant_id, vs_vocabulary = vu_vocabulary request, vs_configured = True,
              vs_changes = [\<lparr>vc_previous_value = previous_value, vc_new_value = vu_vocabulary request,
                             vc_audit_event_id = Some (ae_id audit_event),
                             vc_audit_event_type = ae_event_type audit_event\<rparr>]\<rparr>)))))"

section \<open>The bootstrap command\<close>

record bootstrap_arguments =
  bg_tenant_id :: string
  bg_display_name :: string
  bg_description :: string
  bg_operator_id :: string
  bg_idempotency_key :: string
  bg_bootstrap_admin_id :: "string option"
  bg_bootstrap_admin_display_name :: "string option"
  bg_bootstrap_admin_scope :: "string list"
  bg_note :: "string list"

definition BOOTSTRAP_AUDIT_NOTE :: string where
  "BOOTSTRAP_AUDIT_NOTE = ''First tenant bootstrapped out of band with direct database authority.''"

text \<open>\<open>UsageError\<close> is \<^verbatim>\<open>parser.error\<close>, which exits with status 2, and \<open>InvalidInput\<close> the \<^verbatim>\<open>ValidationError\<close>.\<close>

datatype bootstrap_error = UsageError | InvalidInput

definition given :: "string option \<Rightarrow> bool" where
  "given x \<longleftrightarrow> x \<noteq> None \<and> x \<noteq> Some []"

definition request_from_arguments :: "bootstrap_arguments \<Rightarrow> bootstrap_error + tenant_provision_request" where
  "request_from_arguments a =
     (let admin_id = bg_bootstrap_admin_id a; admin_name = bg_bootstrap_admin_display_name a in
      if given admin_id \<noteq> given admin_name then Inl UsageError
      else if bg_bootstrap_admin_scope a \<noteq> [] \<and> \<not> given admin_id then Inl UsageError
      else let bootstrap_admin =
                 (if given admin_id \<and> given admin_name
                  then Some \<lparr>ba_actor_id = the admin_id, ba_display_name = the admin_name,
                             ba_scopes = bg_bootstrap_admin_scope a\<rparr>
                  else None);
               request = \<lparr>tp_tenant_id = bg_tenant_id a, tp_display_name = bg_display_name a,
                 tp_description = bg_description a, tp_requested_by = bg_operator_id a,
                 tp_actor_scopes = [REQUIRED_OPERATOR_SCOPE, REQUIRED_PROVISION_SCOPE],
                 tp_idempotency_key = bg_idempotency_key a, tp_bootstrap_admin = bootstrap_admin,
                 tp_notes = BOOTSTRAP_AUDIT_NOTE # bg_note a\<rparr>
           in if provision_request_valid request then Inr request else Inl InvalidInput)"

text \<open>The exit status of the command, with the tables it leaves; \<open>Inl\<close> is an exception that ends the process.\<close>

definition run_cli :: "string \<Rightarrow> bootstrap_arguments \<Rightarrow> (db, tenant_error, nat) op" where
  "run_cli dialect_name arguments =
     (case request_from_arguments arguments of
        Inl _ \<Rightarrow> return_op 2
      | Inr request \<Rightarrow>
          (\<lambda>s. case session_scope (bootstrap_first_tenant dialect_name request) s of
                 (Inr _, t) \<Rightarrow> (Inr 0, t)
               | (Inl (TenantProvisionConflict _ _), t) \<Rightarrow> (Inr 2, t)
               | (Inl LockNotSupported, t) \<Rightarrow> (Inr 1, t)
               | (Inl TenantIntegrityError, t) \<Rightarrow> (Inr 1, t)
               | (Inl e, t) \<Rightarrow> (Inl e, t)))"

section \<open>The tenant state cache\<close>

record tenant_snapshot =
  sn_status :: "string option"
  sn_quotas :: "(string \<times> int) list"

text \<open>An entry is a snapshot with its expiry; the entries are in the order of their insertion.\<close>

type_synonym tenant_cache = "(string \<times> tenant_snapshot \<times> pyfloat) list"

definition cached_snapshot :: "pyfloat \<Rightarrow> string \<Rightarrow> tenant_cache \<Rightarrow> tenant_snapshot option" where
  "cached_snapshot observed_at tenant_id c =
     (case map_of c tenant_id of
        Some (snapshot, expires_at) \<Rightarrow> if observed_at < expires_at then Some snapshot else None
      | None \<Rightarrow> None)"

definition read_snapshot :: "string \<Rightarrow> db \<Rightarrow> tenant_snapshot" where
  "read_snapshot tenant_id s =
     \<lparr>sn_status = map_option tn_status (get_tenant tenant_id s), sn_quotas = quota_dict tenant_id s\<rparr>"

text \<open>\<^verbatim>\<open>while len(entries) >= max_entries: entries.pop(next(iter(entries)))\<close>.\<close>

function evict :: "nat \<Rightarrow> tenant_cache \<Rightarrow> tenant_cache" where
  "evict max_entries c = (if max_entries \<le> length c \<and> c \<noteq> [] then evict max_entries (tl c) else c)"
  by pat_completeness auto
termination by (relation "measure (length \<circ> snd)") auto

declare evict.simps [simp del]

text \<open>The bounds of \<^verbatim>\<open>TenantStateCache.__init__\<close> are applied where the values are used.\<close>

definition store_snapshot ::
  "pyfloat \<Rightarrow> int \<Rightarrow> pyfloat \<Rightarrow> string \<Rightarrow> tenant_snapshot \<Rightarrow> tenant_cache \<Rightarrow> tenant_cache"
where
  "store_snapshot ttl_seconds max_entries observed_at tenant_id snapshot c =
     (let ttl = max 0 ttl_seconds in
      if 0 < ttl
      then AList.update tenant_id (snapshot, observed_at + ttl) (evict (nat (max 1 max_entries)) c)
      else c)"

definition invalidate :: "string \<Rightarrow> tenant_cache \<Rightarrow> tenant_cache" where
  "invalidate tenant_id c = AList.delete tenant_id c"

section \<open>The application\<close>

text \<open>The database and the cache of a process; what of the settings the code below reads; and whether the database
  answers (otherwise its driver raises \<^verbatim>\<open>SQLAlchemyError\<close>).\<close>

record app =
  app_db :: db
  app_cache :: tenant_cache

record tenant_settings =
  ts_tenant_admission_mode :: string
  ts_tenant_state_cache_ttl_seconds :: pyfloat
  ts_max_entries :: int
  ts_db_available :: bool

datatype route_error =
    HTTPException nat dict
  | DatabaseUnavailable
  | Unhandled tenant_error

definition cache_snapshot :: "tenant_settings \<Rightarrow> pyfloat \<Rightarrow> string \<Rightarrow> (app, route_error, tenant_snapshot) op" where
  "cache_snapshot cfg observed_at tenant_id a =
     (case cached_snapshot observed_at tenant_id (app_cache a) of
        Some snapshot \<Rightarrow> (Inr snapshot, a)
      | None \<Rightarrow>
          if \<not> ts_db_available cfg then (Inl DatabaseUnavailable, a)
          else let snapshot = read_snapshot tenant_id (app_db a)
               in (Inr snapshot, a\<lparr>app_cache := store_snapshot (ts_tenant_state_cache_ttl_seconds cfg) (ts_max_entries cfg)
                     observed_at tenant_id snapshot (app_cache a)\<rparr>))"

text \<open>\<^verbatim>\<open>with session_scope(factory)\<close> around an operation, and the request-scoped repository of \<^verbatim>\<open>main.py\<close> with a
  callback that runs after the commit.\<close>

definition app_session :: "tenant_settings \<Rightarrow> (db, tenant_error, 'a) op \<Rightarrow> (app, route_error, 'a) op" where
  "app_session cfg m a =
     (if \<not> ts_db_available cfg then (Inl DatabaseUnavailable, a)
      else case session_scope m (app_db a) of
             (Inl e, t) \<Rightarrow> (Inl (Unhandled e), a\<lparr>app_db := t\<rparr>)
           | (Inr x, t) \<Rightarrow> (Inr x, a\<lparr>app_db := t\<rparr>))"

definition after_commit :: "('a \<Rightarrow> tenant_cache \<Rightarrow> tenant_cache) \<Rightarrow> (app, 'e, 'a) op \<Rightarrow> (app, 'e, 'a) op" where
  "after_commit callback m = bind_op m (\<lambda>x a. (Inr x, a\<lparr>app_cache := callback x (app_cache a)\<rparr>))"

section \<open>Admission\<close>

definition TENANT_ADMISSION_CLAIMS_ONLY :: string where "TENANT_ADMISSION_CLAIMS_ONLY = ''claims_only''"

definition TENANT_ADMISSION_REGISTERED_ONLY :: string where "TENANT_ADMISSION_REGISTERED_ONLY = ''registered_only''"

definition TENANT_NOT_REGISTERED_REASON :: string where "TENANT_NOT_REGISTERED_REASON = ''tenant_not_registered''"

definition TENANT_STATUS_NOT_ACTIVE_REASON :: string where
  "TENANT_STATUS_NOT_ACTIVE_REASON = ''tenant_status_not_active''"

definition SUSPENDED_REQUEST_DENIED_AUDIT_EVENT_TYPE :: string where
  "SUSPENDED_REQUEST_DENIED_AUDIT_EVENT_TYPE = ''platform.tenant.suspended_request.denied''"

definition UNREGISTERED_REQUEST_DENIED_AUDIT_EVENT_TYPE :: string where
  "UNREGISTERED_REQUEST_DENIED_AUDIT_EVENT_TYPE = ''platform.tenant.unregistered_request.denied''"

definition BLOCKED_STATUS_REASONS :: "(string \<times> string) list" where
  "BLOCKED_STATUS_REASONS = [(''suspended'', ''tenant_suspended''), (''pending_deletion'', ''tenant_pending_deletion'')]"

text \<open>\<open>Inl\<close> is the \<^verbatim>\<open>ValueError\<close> of an unsupported mode, \<open>Inr None\<close> an admission.\<close>

definition tenant_admission_denial_reason :: "string option \<Rightarrow> string \<Rightarrow> tenant_error + string option" where
  "tenant_admission_denial_reason status admission_mode =
     (let normalized_mode = casefold (strip admission_mode) in
      if normalized_mode \<notin> {TENANT_ADMISSION_CLAIMS_ONLY, TENANT_ADMISSION_REGISTERED_ONLY} then Inl TenantValueError
      else case status of
             None \<Rightarrow> Inr (if normalized_mode = TENANT_ADMISSION_REGISTERED_ONLY then Some TENANT_NOT_REGISTERED_REASON else None)
           | Some st \<Rightarrow>
               if st = ''active'' then Inr None
               else Inr (Some (case map_of BLOCKED_STATUS_REASONS st of
                                 Some reason_text \<Rightarrow> reason_text | None \<Rightarrow> TENANT_STATUS_NOT_ACTIVE_REASON)))"

definition tenant_admission_denial_audit_event_type :: "string \<Rightarrow> string" where
  "tenant_admission_denial_audit_event_type reason_text =
     (if reason_text = TENANT_NOT_REGISTERED_REASON then UNREGISTERED_REQUEST_DENIED_AUDIT_EVENT_TYPE
      else SUSPENDED_REQUEST_DENIED_AUDIT_EVENT_TYPE)"

definition blocked_tenant_reason :: "string option \<Rightarrow> tenant_error + string option" where
  "blocked_tenant_reason status = tenant_admission_denial_reason status TENANT_ADMISSION_CLAIMS_ONLY"

record http_request =
  hr_method :: string
  hr_path :: string

definition admission_denied_event :: "http_request \<Rightarrow> oidc_principal \<Rightarrow> string \<Rightarrow> string \<Rightarrow> audit_event_create" where
  "admission_denied_event request p tenant_status reason_text =
     \<lparr>ac_event_tenant_id = sp_tenant_id p, ac_event_actor_id = sp_actor_id p,
      ac_event_type = tenant_admission_denial_audit_event_type reason_text,
      ac_event_payload =
        [(''tenant_id'', JStr (sp_tenant_id p)), (''tenant_status'', JStr tenant_status), (''reason'', JStr reason_text),
         (''method'', JStr (hr_method request)), (''path'', JStr (hr_path request)),
         (''session_source'', JStr (op_session_source p))]\<rparr>"

text \<open>\<^verbatim>\<open>snapshot.status or "unregistered"\<close>.\<close>

definition shown_status :: "string option \<Rightarrow> string" where
  "shown_status status = (case status of None \<Rightarrow> ''unregistered'' | Some st \<Rightarrow> if st = [] then ''unregistered'' else st)"

definition enforce_tenant_admission ::
  "tenant_settings \<Rightarrow> pyfloat \<Rightarrow> http_request \<Rightarrow> oidc_principal \<Rightarrow> (app, route_error, unit) op"
where
  "enforce_tenant_admission cfg observed_at request p =
     bind_op (lift_error (\<lambda>e. case e of
         DatabaseUnavailable \<Rightarrow> HTTPException 503
           [(''code'', JStr ''CONTROL_PLANE_UNAVAILABLE''),
            (''message'', JStr ''Tenant admission state is temporarily unavailable.''),
            (''reason'', JStr ''tenant_state_unavailable'')]
       | _ \<Rightarrow> e) (cache_snapshot cfg observed_at (sp_tenant_id p))) (\<lambda>snapshot.
     case tenant_admission_denial_reason (sn_status snapshot) (ts_tenant_admission_mode cfg) of
       Inl e \<Rightarrow> raise_op (Unhandled e)
     | Inr None \<Rightarrow> return_op ()
     | Inr (Some reason_text) \<Rightarrow>
         let tenant_status = shown_status (sn_status snapshot) in
         bind_op (app_session cfg (append_audit_event (admission_denied_event request p tenant_status reason_text))) (\<lambda>_.
         raise_op (HTTPException 403
           [(''code'', JStr ''PERMISSION_DENIED''),
            (''message'', JStr ''The tenant for this request is not active.''),
            (''reason'', JStr reason_text), (''tenant_status'', JStr tenant_status)])))"

definition fresh_tenant_admission_denial_reason :: "string \<Rightarrow> string \<Rightarrow> db \<Rightarrow> tenant_error + string option" where
  "fresh_tenant_admission_denial_reason tenant_id admission_mode s =
     tenant_admission_denial_reason (map_option tn_status (get_tenant tenant_id s)) admission_mode"

section \<open>The routes\<close>

text \<open>\<^verbatim>\<open>_bind_platform_tenant_actor\<close>, for a request with the given actor and a function that copies it.\<close>

definition bind_platform_tenant_actor ::
  "('r \<Rightarrow> string) \<Rightarrow> (string \<Rightarrow> string list \<Rightarrow> 'r \<Rightarrow> 'r) \<Rightarrow> 'r \<Rightarrow> oidc_principal option \<Rightarrow> route_error + 'r"
where
  "bind_platform_tenant_actor requested_by with_actor request the_principal =
     (case the_principal of
        None \<Rightarrow> Inr request
      | Some p \<Rightarrow>
          if requested_by request \<noteq> [] \<and> requested_by request \<noteq> sp_actor_id p
          then Inl (HTTPException 403
            [(''code'', JStr ''PERMISSION_DENIED''), (''message'', JStr ACTOR_MISMATCH_MESSAGE),
             (''reason'', JStr ''actor_mismatch'')])
          else Inr (with_actor (sp_actor_id p) (sp_scopes p) request))"

definition platform_tenant_denied_http_exception :: "string \<Rightarrow> permission_decision \<Rightarrow> string \<Rightarrow> route_error" where
  "platform_tenant_denied_http_exception required_permission decision message =
     HTTPException 403
       [(''code'', JStr ''PERMISSION_DENIED''), (''message'', JStr message),
        (''required_permission'', JStr required_permission),
        (''reason'', JStr (if take 14 (reason decision) = ''missing_scope:'' then ''missing_required_scope''
                           else reason decision)),
        (''permission_reason'', JStr (reason decision))]"

definition platform_tenant_not_found_http_exception :: "string \<Rightarrow> route_error" where
  "platform_tenant_not_found_http_exception tenant_id =
     HTTPException 404
       [(''code'', JStr ''NOT_FOUND''), (''message'', JStr ''The tenant was not found.''), (''tenant_id'', JStr tenant_id)]"

definition platform_tenant_lifecycle_conflict_http_exception :: "string \<Rightarrow> string \<Rightarrow> route_error" where
  "platform_tenant_lifecycle_conflict_http_exception tenant_id reason_text =
     HTTPException 409
       [(''code'', JStr ''CONFLICT''),
        (''message'', JStr ''The tenant lifecycle transition conflicts with the current status.''),
        (''reason'', JStr reason_text), (''tenant_id'', JStr tenant_id)]"

text \<open>The \<^verbatim>\<open>except\<close> clauses of the routes, for the message of a denial and the tenant of the path.\<close>

definition tenant_http_error :: "string \<Rightarrow> string \<Rightarrow> route_error \<Rightarrow> route_error" where
  "tenant_http_error denied_message tenant_id e =
     (case e of
        Unhandled (TenantPermissionDenied required_permission decision) \<Rightarrow>
          platform_tenant_denied_http_exception required_permission decision denied_message
      | Unhandled TenantNotFound \<Rightarrow> platform_tenant_not_found_http_exception tenant_id
      | Unhandled (TenantLifecycleConflict tid reason_text) \<Rightarrow>
          platform_tenant_lifecycle_conflict_http_exception tid reason_text
      | Unhandled (TenantProvisionConflict tid reason_text) \<Rightarrow>
          HTTPException 409
            [(''code'', JStr ''CONFLICT''),
             (''message'', JStr ''The tenant provisioning request conflicts with persisted state.''),
             (''reason'', JStr reason_text), (''tenant_id'', JStr tid)]
      | _ \<Rightarrow> e)"

definition unprocessable :: route_error where "unprocessable = HTTPException 422 []"

text \<open>What the four routes that write status or quotas have in common: the body is validated, its actor bound to
  the principal, the operation runs in the transaction of the request, and the cached state of the tenant is dropped
  after the commit.\<close>

definition tenant_write_route ::
  "tenant_settings \<Rightarrow> bool \<Rightarrow> route_error + 'r \<Rightarrow> ('r \<Rightarrow> (db, tenant_error, 'a) op) \<Rightarrow> string \<Rightarrow> string \<Rightarrow>
   ('a \<Rightarrow> string) \<Rightarrow> (app, route_error, 'a) op"
where
  "tenant_write_route cfg body_valid bound operation denied_message tenant_id written_tenant =
     (if \<not> body_valid then raise_op unprocessable
      else bind_op (of_result bound) (\<lambda>request.
        after_commit (\<lambda>result. invalidate (written_tenant result))
          (lift_error (tenant_http_error denied_message tenant_id) (app_session cfg (operation request)))))"

definition platform_tenant_provision ::
  "tenant_settings \<Rightarrow> tenant_provision_request \<Rightarrow> oidc_principal option \<Rightarrow> (app, route_error, tenant_view) op"
where
  "platform_tenant_provision cfg request the_principal =
     tenant_write_route cfg (provision_request_valid request)
       (bind_platform_tenant_actor tp_requested_by
          (\<lambda>actor_id scopes r. r\<lparr>tp_requested_by := actor_id, tp_actor_scopes := scopes\<rparr>) request the_principal)
       provision_tenant ''The actor cannot provision tenants.'' (tp_tenant_id request) vw_tenant_id"

definition platform_tenant_suspend ::
  "tenant_settings \<Rightarrow> string \<Rightarrow> tenant_suspend_request \<Rightarrow> oidc_principal option \<Rightarrow> (app, route_error, tenant_view) op"
where
  "platform_tenant_suspend cfg tenant_id request the_principal =
     tenant_write_route cfg (suspend_request_valid request)
       (bind_platform_tenant_actor tu_requested_by
          (\<lambda>actor_id scopes r. r\<lparr>tu_requested_by := actor_id, tu_actor_scopes := scopes\<rparr>) request the_principal)
       (suspend_tenant tenant_id) ''The actor cannot suspend tenants.'' tenant_id (\<lambda>_. tenant_id)"

definition platform_tenant_reactivate ::
  "tenant_settings \<Rightarrow> string \<Rightarrow> tenant_reactivate_request \<Rightarrow> oidc_principal option \<Rightarrow> (app, route_error, tenant_view) op"
where
  "platform_tenant_reactivate cfg tenant_id request the_principal =
     tenant_write_route cfg (reactivate_request_valid request)
       (bind_platform_tenant_actor tr_requested_by
          (\<lambda>actor_id scopes r. r\<lparr>tr_requested_by := actor_id, tr_actor_scopes := scopes\<rparr>) request the_principal)
       (reactivate_tenant tenant_id) ''The actor cannot reactivate tenants.'' tenant_id (\<lambda>_. tenant_id)"

definition platform_tenant_quotas_update ::
  "tenant_settings \<Rightarrow> string \<Rightarrow> tenant_quota_update_request \<Rightarrow> oidc_principal option \<Rightarrow>
   (app, route_error, tenant_quota_set) op"
where
  "platform_tenant_quotas_update cfg tenant_id request the_principal =
     tenant_write_route cfg (quota_request_valid request)
       (bind_platform_tenant_actor qu_requested_by
          (\<lambda>actor_id scopes r. r\<lparr>qu_requested_by := actor_id, qu_actor_scopes := scopes\<rparr>) request the_principal)
       (update_tenant_quotas tenant_id) ''The actor cannot update tenant quotas.'' tenant_id (\<lambda>_. tenant_id)"

text \<open>The vocabulary is not in the cache, so this route has no callback. Its body holds the vocabulary as JSON.\<close>

record vocabulary_body =
  vb_requested_by :: string
  vb_actor_scopes :: "string list"
  vb_vocabulary :: json
  vb_notes :: "string list"

definition vocabulary_request_of :: "vocabulary_body \<Rightarrow> tenant_vocabulary_update_request option" where
  "vocabulary_request_of b =
     (if \<not> length_between 1 AUDIT_ACTOR_ID_MAX_LENGTH (vb_requested_by b) then None
      else map_option (\<lambda>v. \<lparr>vu_requested_by = vb_requested_by b, vu_actor_scopes = vb_actor_scopes b,
             vu_vocabulary = v, vu_notes = vb_notes b\<rparr>) (vocabulary_of_json (vb_vocabulary b)))"

definition platform_tenant_vocabulary_update ::
  "tenant_settings \<Rightarrow> string \<Rightarrow> vocabulary_body \<Rightarrow> oidc_principal option \<Rightarrow> (app, route_error, tenant_vocabulary_set) op"
where
  "platform_tenant_vocabulary_update cfg tenant_id body the_principal =
     (case vocabulary_request_of body of
        None \<Rightarrow> raise_op unprocessable
      | Some request \<Rightarrow>
          bind_op (of_result (bind_platform_tenant_actor vu_requested_by
            (\<lambda>actor_id scopes r. r\<lparr>vu_requested_by := actor_id, vu_actor_scopes := scopes\<rparr>) request the_principal)) (\<lambda>bound.
          lift_error (tenant_http_error ''The actor cannot update tenant vocabulary.'' tenant_id)
            (app_session cfg (update_tenant_vocabulary tenant_id bound))))"

section \<open>The read routes\<close>

definition scope_denial_http_exception :: "permission_decision \<Rightarrow> string list \<Rightarrow> string \<Rightarrow> string option \<Rightarrow> route_error" where
  "scope_denial_http_exception decision required_scopes message default_required_permission =
     (let decision_reason = reason decision;
          tenant_mismatch = (decision_reason = TENANT_MISMATCH_REASON);
          missing = (take 14 decision_reason = ''missing_scope:'');
          required_permission =
            (if missing then removeprefix ''missing_scope:'' decision_reason
             else case default_required_permission of
                    Some scope \<Rightarrow> if scope = [] then hd required_scopes else scope
                  | None \<Rightarrow> hd required_scopes);
          shown_reason =
            (if missing \<or> take 27 decision_reason = ''missing_relationship_scope:'' then ''missing_required_scope''
             else decision_reason)
      in HTTPException 403
           ([(''code'', JStr ''PERMISSION_DENIED''), (''message'', JStr message),
             (''required_permission'', JStr required_permission), (''reason'', JStr shown_reason)]
            @ (if tenant_mismatch then [] else [(''permission_reason'', JStr decision_reason)])))"

definition authorize_cross_tenant_operator_scopes ::
  "oidc_principal option \<Rightarrow> string list \<Rightarrow> string \<Rightarrow> string \<Rightarrow> string \<Rightarrow> string \<Rightarrow> route_error + unit"
where
  "authorize_cross_tenant_operator_scopes the_principal required_scopes surface resource message fallback_required_scope =
     (case the_principal of
        None \<Rightarrow> Inr ()
      | Some p \<Rightarrow>
          (case authorize_principal_scopes (sp_tenant_id p) (Some (scope_principal.truncate p)) required_scopes
                  [(''surface'', JStr surface), (''resource'', JStr resource)] message TENANT_MISMATCH_MESSAGE None None False of
             Inl (ScopeAuthorizationError decision scopes denied_message) \<Rightarrow>
               Inl (scope_denial_http_exception decision scopes denied_message (Some fallback_required_scope))
           | Inl PermissionRequestInvalid \<Rightarrow> Inl (Unhandled TenantValueError)
           | Inr _ \<Rightarrow> Inr ()))"

definition authorize_platform_tenant_read :: "oidc_principal option \<Rightarrow> string \<Rightarrow> route_error + unit" where
  "authorize_platform_tenant_read the_principal resource =
     authorize_cross_tenant_operator_scopes the_principal [REQUIRED_OPERATOR_SCOPE, REQUIRED_TENANT_READ_SCOPE]
       ''platform_tenants'' resource ''The actor cannot read platform tenants.'' REQUIRED_TENANT_READ_SCOPE"

definition tenant_read_route ::
  "tenant_settings \<Rightarrow> oidc_principal option \<Rightarrow> string \<Rightarrow> string \<Rightarrow> (db, tenant_error, 'a) op \<Rightarrow> (app, route_error, 'a) op"
where
  "tenant_read_route cfg the_principal resource tenant_id operation =
     bind_op (of_result (authorize_platform_tenant_read the_principal resource)) (\<lambda>_.
     lift_error (tenant_http_error [] tenant_id) (app_session cfg operation))"

definition platform_tenant_registry ::
  "tenant_settings \<Rightarrow> oidc_principal option \<Rightarrow> tenant_lifecycle_status option \<Rightarrow> nat \<Rightarrow> string option \<Rightarrow>
   (app, route_error, tenant_registry) op"
where
  "platform_tenant_registry cfg the_principal status_filter limit cursor_tenant_id =
     tenant_read_route cfg the_principal ''platform_tenants'' [] (build_tenant_registry status_filter limit cursor_tenant_id)"

definition platform_tenant_detail ::
  "tenant_settings \<Rightarrow> oidc_principal option \<Rightarrow> string \<Rightarrow> (app, route_error, tenant_view) op"
where
  "platform_tenant_detail cfg the_principal tenant_id =
     tenant_read_route cfg the_principal ''platform_tenant'' tenant_id (get_tenant_detail tenant_id)"

definition platform_tenant_quotas ::
  "tenant_settings \<Rightarrow> oidc_principal option \<Rightarrow> string \<Rightarrow> (app, route_error, tenant_quota_set) op"
where
  "platform_tenant_quotas cfg the_principal tenant_id =
     tenant_read_route cfg the_principal ''platform_tenant_quotas'' tenant_id (get_tenant_quota_set tenant_id)"

definition platform_tenant_vocabulary ::
  "tenant_settings \<Rightarrow> oidc_principal option \<Rightarrow> string \<Rightarrow> (app, route_error, tenant_vocabulary_set) op"
where
  "platform_tenant_vocabulary cfg the_principal tenant_id =
     tenant_read_route cfg the_principal ''platform_tenant_vocabulary'' tenant_id (get_tenant_vocabulary tenant_id)"

end
