(* ===== verification/Browser_Cookies.thy ===== *)
theory Browser_Cookies
  imports Tenants "HOL-Library.Sublist"
begin

text \<open>
  The cookies of the authorization-code flow (\<^verbatim>\<open>axis_api/oidc_code_flow.py\<close>), the double-submit check of mutations that
  a cookie authenticates (\<^verbatim>\<open>csrf.py\<close>) and what is recorded of a client (\<^verbatim>\<open>session_metadata.py\<close>). The keyed hash, the
  authenticated encryption, the encoding of a JSON payload as cookie text and the random tokens are parameters.
\<close>

section \<open>Parameters and settings\<close>

datatype session_error =
    OidcCodeFlowConfigurationError string
  | OidcCookieValidationError string
  | OidcTokenExchangeError string
  | OidcVerifierError oidc_error
  | SessionKeyError
  | SessionValueError
  | SessionTypeError
  | SessionIntegrityError
  | SessionLockUnsupported
  | SessionTenantError tenant_error
  | SessionUsageError
  | SessionRoute route_error

text \<open>\<open>cy_mac secret text\<close> is the keyed hash that signs a cookie, \<open>cy_hex\<close> the one that names a session or a CSRF token;
  \<open>cy_encode\<close> is the base64url text of the compact JSON of a payload, \<open>cy_decode\<close> its inverse, which fails with \<open>None\<close>;
  \<open>cy_encrypt key nonce text\<close> and \<open>cy_decrypt key text\<close> are the authenticated encryption under a derived key;
  \<open>cy_str\<close> is \<^verbatim>\<open>str\<close> of a value that is not a string and \<open>cy_is_ip\<close> says which text \<^verbatim>\<open>ipaddress\<close> accepts.\<close>

record crypto =
  cy_mac :: "string \<Rightarrow> string \<Rightarrow> string"
  cy_hex :: "string \<Rightarrow> string \<Rightarrow> string"
  cy_encode :: "json \<Rightarrow> string"
  cy_decode :: "string \<Rightarrow> json option"
  cy_encrypt :: "string \<Rightarrow> string \<Rightarrow> string \<Rightarrow> string"
  cy_decrypt :: "string \<Rightarrow> string \<Rightarrow> string option"
  cy_str :: "json \<Rightarrow> string"
  cy_is_ip :: "string \<Rightarrow> bool"

record session_settings =
  ss_issuer :: string
  ss_authorization_url :: "string option"
  ss_token_url :: "string option"
  ss_end_session_url :: "string option"
  ss_redirect_uri :: "string option"
  ss_post_logout_redirect_uri :: "string option"
  ss_api_base_url :: string
  ss_public_base_url :: string
  ss_client_id :: "string option"
  ss_client_secret :: "string option"
  ss_signing_secret :: "string option"
  ss_refresh_token_encryption_key :: "string option"
  ss_login_state_ttl_seconds :: int
  ss_cookie_ttl_seconds :: int
  ss_idle_timeout_seconds :: int
  ss_absolute_timeout_seconds :: int
  ss_max_concurrent :: int
  ss_refresh_claim_staleness_seconds :: int
  ss_trusted_proxy_enabled :: bool
  ss_auth_required :: bool
  ss_usage_metering_enabled :: bool
  ss_usage_metering_aggregation_window_seconds :: int
  ss_sweep_batch_limit :: nat

definition nonempty :: "string option \<Rightarrow> string option" where
  "nonempty x = (case x of Some (c # cs) \<Rightarrow> Some (c # cs) | _ \<Rightarrow> None)"

definition py_str :: "crypto \<Rightarrow> json \<Rightarrow> string" where
  "py_str cy j = (case j of JStr t \<Rightarrow> t | _ \<Rightarrow> cy_str cy j)"

section \<open>Endpoints and redirects\<close>

text \<open>\<^verbatim>\<open>value.rstrip('/')\<close>.\<close>

definition rstrip_slash :: "string \<Rightarrow> string" where
  "rstrip_slash v = rev (dropWhile (\<lambda>c. c = CHR ''/'') (rev v))"

definition authorization_endpoint :: "session_settings \<Rightarrow> string" where
  "authorization_endpoint st = (case nonempty (ss_authorization_url st) of Some u \<Rightarrow> u
     | None \<Rightarrow> rstrip_slash (ss_issuer st) @ ''/protocol/openid-connect/auth'')"

definition token_endpoint :: "session_settings \<Rightarrow> string" where
  "token_endpoint st = (case nonempty (ss_token_url st) of Some u \<Rightarrow> u
     | None \<Rightarrow> rstrip_slash (ss_issuer st) @ ''/protocol/openid-connect/token'')"

definition end_session_endpoint :: "session_settings \<Rightarrow> string" where
  "end_session_endpoint st = (case nonempty (ss_end_session_url st) of Some u \<Rightarrow> u
     | None \<Rightarrow> rstrip_slash (ss_issuer st) @ ''/protocol/openid-connect/logout'')"

definition redirect_uri :: "session_settings \<Rightarrow> string" where
  "redirect_uri st = (case nonempty (ss_redirect_uri st) of Some u \<Rightarrow> u
     | None \<Rightarrow> rstrip_slash (ss_api_base_url st) @ ''/identity/oidc/callback'')"

definition safe_return_to :: "string \<Rightarrow> string" where
  "safe_return_to v =
     (if \<not> prefix ''/'' v \<or> prefix ''//'' v \<or> CHR 0x5C \<in> set v then ''/'' else v)"

definition public_redirect :: "session_settings \<Rightarrow> string \<Rightarrow> string" where
  "public_redirect st return_to = rstrip_slash (ss_public_base_url st) @ safe_return_to return_to"

definition post_logout_redirect_uri :: "session_settings \<Rightarrow> string \<Rightarrow> string" where
  "post_logout_redirect_uri st return_to =
     (case nonempty (ss_post_logout_redirect_uri st) of Some u \<Rightarrow> u | None \<Rightarrow> public_redirect st return_to)"

text \<open>The pairs of the query of the logout redirect, and the endpoint it is appended to.\<close>

definition build_end_session_redirect :: "session_settings \<Rightarrow> string \<Rightarrow> session_error + (string \<times> (string \<times> string) list)" where
  "build_end_session_redirect st return_to =
     (case nonempty (ss_client_id st) of
        None \<Rightarrow> Inl (OidcCodeFlowConfigurationError ''missing_oidc_client_id'')
      | Some client_id \<Rightarrow>
          let endpoint = end_session_endpoint st
          in Inr (endpoint @ (if CHR ''?'' \<in> set endpoint then ''&'' else ''?''),
               [(''client_id'', client_id), (''post_logout_redirect_uri'', post_logout_redirect_uri st return_to)]))"

section \<open>Signed cookies\<close>

definition cookie_secret :: "session_settings \<Rightarrow> session_error + string" where
  "cookie_secret st = (case nonempty (ss_signing_secret st) of
     None \<Rightarrow> Inl (OidcCodeFlowConfigurationError ''missing_session_cookie_signing_secret'') | Some v \<Rightarrow> Inr v)"

definition sign_cookie :: "crypto \<Rightarrow> session_settings \<Rightarrow> json \<Rightarrow> session_error + string" where
  "sign_cookie cy st payload =
     (case cookie_secret st of
        Inl e \<Rightarrow> Inl e
      | Inr secret \<Rightarrow>
          let encoded_payload = cy_encode cy payload
          in Inr (encoded_payload @ ''.'' @ cy_mac cy secret encoded_payload))"

text \<open>\<^verbatim>\<open>value.partition('.')\<close> as the text before the first dot and, when there is a dot, the text after it.\<close>

definition partition_dot :: "string \<Rightarrow> string \<times> string option" where
  "partition_dot v =
     (takeWhile (\<lambda>c. c \<noteq> CHR ''.'') v,
      case dropWhile (\<lambda>c. c \<noteq> CHR ''.'') v of [] \<Rightarrow> None | _ # rest \<Rightarrow> Some rest)"

definition is_ascii :: "string \<Rightarrow> bool" where
  "is_ascii v \<longleftrightarrow> list_all (\<lambda>c. (of_char c :: nat) < 128) v"

text \<open>The checks of a cookie in their order; \<open>now\<close> is \<^verbatim>\<open>int(time.time())\<close>, read only by the last one. Comparing a
  signature that is not ASCII raises a \<^verbatim>\<open>TypeError\<close>, which no caller catches.\<close>

definition cookie_payload :: "crypto \<Rightarrow> session_settings \<Rightarrow> string \<Rightarrow> string option \<Rightarrow> session_error + dict" where
  "cookie_payload cy st expected_kind cookie =
     (case nonempty cookie of
        None \<Rightarrow> Inl (OidcCookieValidationError ''missing_cookie'')
      | Some v \<Rightarrow>
          (case cookie_secret st of
             Inl e \<Rightarrow> Inl e
           | Inr secret \<Rightarrow>
               (case partition_dot v of
                  (encoded_payload, Some encoded_signature) \<Rightarrow>
                    if encoded_payload = [] \<or> encoded_signature = [] \<or> \<not> is_ascii encoded_payload
                    then Inl (OidcCookieValidationError ''invalid_cookie'')
                    else if \<not> is_ascii encoded_signature then Inl SessionTypeError
                    else if encoded_signature \<noteq> cy_mac cy secret encoded_payload
                    then Inl (OidcCookieValidationError ''invalid_cookie_signature'')
                    else
                      (case cy_decode cy encoded_payload of
                         None \<Rightarrow> Inl (OidcCookieValidationError ''invalid_cookie_payload'')
                       | Some (JObj payload) \<Rightarrow>
                           if dget payload ''kind'' \<noteq> JStr expected_kind
                           then Inl (OidcCookieValidationError ''invalid_cookie_kind'') else Inr payload
                       | Some _ \<Rightarrow> Inl (OidcCookieValidationError ''invalid_cookie_kind''))
                | (_, None) \<Rightarrow> Inl (OidcCookieValidationError ''invalid_cookie''))))"

definition verify_cookie :: "crypto \<Rightarrow> session_settings \<Rightarrow> string \<Rightarrow> string option \<Rightarrow> (db, session_error, dict) op" where
  "verify_cookie cy st expected_kind cookie =
     bind_op (of_result (cookie_payload cy st expected_kind cookie)) (\<lambda>payload.
     case int_claim payload ''expires_at'' of
       None \<Rightarrow> raise_op (OidcCookieValidationError ''expired_cookie'')
     | Some expires_at \<Rightarrow>
         bind_op utc_now (\<lambda>now.
         if expires_at \<le> now div 1000000 then raise_op (OidcCookieValidationError ''expired_cookie'')
         else return_op payload))"

lemma non_ascii_signature_raises:
  assumes "nonempty cookie = Some v" "cookie_secret st = Inr secret" "partition_dot v = (p, Some signature)" "p \<noteq> []" "is_ascii p"
    "\<not> is_ascii signature"
  shows "verify_cookie cy st kind cookie s = (Inl SessionTypeError, s)"
  using assms by (auto simp: verify_cookie_def cookie_payload_def bind_op_def is_ascii_def)

record oidc_session_cookie =
  ok_session_id :: string
  ok_actor_id :: string
  ok_tenant_id :: string
  ok_scopes :: "string list"
  ok_expires_at :: int

definition read_session_cookie :: "crypto \<Rightarrow> session_settings \<Rightarrow> string option \<Rightarrow> (db, session_error, oidc_session_cookie) op" where
  "read_session_cookie cy st cookie =
     bind_op (verify_cookie cy st ''oidc_session'' cookie) (\<lambda>payload.
     case dget_default payload ''scopes'' (JList []) of
       JList scopes \<Rightarrow>
         (case dget payload ''session_id'' of
            JStr session_id \<Rightarrow>
              if length session_id < 32 then raise_op (OidcCookieValidationError ''invalid_session_id'')
              else
                (case (map_of payload ''actor_id'', map_of payload ''tenant_id'', int_claim payload ''expires_at'') of
                   (Some actor_id, Some tenant_id, Some expires_at) \<Rightarrow>
                     return_op \<lparr>ok_session_id = session_id, ok_actor_id = py_str cy actor_id,
                       ok_tenant_id = py_str cy tenant_id,
                       ok_scopes = map (py_str cy) (filter truthy scopes), ok_expires_at = expires_at\<rparr>
                 | _ \<Rightarrow> raise_op SessionKeyError)
          | _ \<Rightarrow> raise_op (OidcCookieValidationError ''invalid_session_id''))
     | _ \<Rightarrow> raise_op (OidcCookieValidationError ''invalid_session_scopes''))"

record oidc_login_state =
  ol_state :: string
  ol_nonce :: string
  ol_code_verifier :: string
  ol_return_to :: string

definition read_login_state :: "crypto \<Rightarrow> session_settings \<Rightarrow> string option \<Rightarrow> (db, session_error, oidc_login_state) op" where
  "read_login_state cy st cookie =
     bind_op (verify_cookie cy st ''oidc_login'' cookie) (\<lambda>payload.
     case (map_of payload ''state'', map_of payload ''nonce'', map_of payload ''code_verifier'', map_of payload ''return_to'') of
       (Some state, Some nonce, Some code_verifier, Some return_to) \<Rightarrow>
         return_op \<lparr>ol_state = py_str cy state, ol_nonce = py_str cy nonce, ol_code_verifier = py_str cy code_verifier,
           ol_return_to = safe_return_to (py_str cy return_to)\<rparr>
     | _ \<Rightarrow> raise_op SessionKeyError)"

definition session_id_hash :: "crypto \<Rightarrow> session_settings \<Rightarrow> string \<Rightarrow> session_error + string" where
  "session_id_hash cy st session_id =
     (case cookie_secret st of Inl e \<Rightarrow> Inl e | Inr secret \<Rightarrow> Inr (cy_hex cy secret (''oidc-session:'' @ session_id)))"

definition csrf_token_for_session :: "crypto \<Rightarrow> session_settings \<Rightarrow> string \<Rightarrow> session_error + string" where
  "csrf_token_for_session cy st session_id =
     (case cookie_secret st of Inl e \<Rightarrow> Inl e | Inr secret \<Rightarrow> Inr (cy_hex cy secret (''oidc-csrf:'' @ session_id)))"

section \<open>The flow\<close>

text \<open>What the authorization request sends and keeps: \<open>state\<close>, \<open>nonce\<close> and \<open>code_verifier\<close> are fresh random tokens and
  \<open>challenge\<close> is the hash of the verifier.\<close>

definition build_authorization_request ::
  "crypto \<Rightarrow> session_settings \<Rightarrow> string \<times> string \<times> string \<Rightarrow> (string \<Rightarrow> string) \<Rightarrow> string list \<Rightarrow> string \<Rightarrow>
   (db, session_error, string \<times> (string \<times> string) list \<times> string \<times> int) op"
where
  "build_authorization_request cy st tokens challenge scope_text return_to =
     (case nonempty (ss_client_id st) of
        None \<Rightarrow> raise_op (OidcCodeFlowConfigurationError ''missing_oidc_client_id'')
      | Some client_id \<Rightarrow>
          bind_op (of_result (cookie_secret st)) (\<lambda>_.
          bind_op utc_now (\<lambda>now.
          case tokens of (state, nonce, code_verifier) \<Rightarrow>
          bind_op (of_result (sign_cookie cy st (JObj
              [(''kind'', JStr ''oidc_login''), (''state'', JStr state), (''nonce'', JStr nonce),
               (''code_verifier'', JStr code_verifier), (''return_to'', JStr (safe_return_to return_to)),
               (''expires_at'', JInt (now div 1000000 + ss_login_state_ttl_seconds st))]))) (\<lambda>cookie.
            return_op (authorization_endpoint st,
              [(''response_type'', ''code''), (''client_id'', client_id), (''redirect_uri'', redirect_uri st),
               (''scope'', concat (map (\<lambda>(i, sc). (if i = 0 then sc else '' '' @ sc)) (enumerate (0::nat) scope_text))),
               (''state'', state), (''nonce'', nonce),
               (''code_challenge'', challenge code_verifier), (''code_challenge_method'', ''S256'')],
              cookie, ss_login_state_ttl_seconds st)))))"

definition opt_text :: "string option \<Rightarrow> string" where
  "opt_text x = (case x of None \<Rightarrow> [] | Some t \<Rightarrow> t)"

definition secret_field :: "session_settings \<Rightarrow> (string \<times> string) list" where
  "secret_field st = (case nonempty (ss_client_secret st) of None \<Rightarrow> [] | Some v \<Rightarrow> [(''client_secret'', v)])"

definition build_token_exchange_form ::
  "session_settings \<Rightarrow> string \<Rightarrow> oidc_login_state \<Rightarrow> session_error + (string \<times> string) list"
where
  "build_token_exchange_form st code login_state =
     (if code = [] then Inl (OidcTokenExchangeError ''missing_code'')
      else Inr ([(''grant_type'', ''authorization_code''), (''code'', code), (''redirect_uri'', redirect_uri st),
             (''client_id'', opt_text (ss_client_id st)), (''code_verifier'', ol_code_verifier login_state)] @ secret_field st))"

definition build_refresh_token_form :: "session_settings \<Rightarrow> string \<Rightarrow> session_error + (string \<times> string) list" where
  "build_refresh_token_form st refresh_token =
     (if refresh_token = [] then Inl (OidcTokenExchangeError ''missing_refresh_token'')
      else Inr ([(''grant_type'', ''refresh_token''), (''refresh_token'', refresh_token),
             (''client_id'', opt_text (ss_client_id st))] @ secret_field st))"

definition refresh_token_key :: "session_settings \<Rightarrow> session_error + string" where
  "refresh_token_key st =
     (case nonempty (ss_refresh_token_encryption_key st) of
        None \<Rightarrow> Inl (OidcCodeFlowConfigurationError ''missing_refresh_token_encryption_key'')
      | Some v \<Rightarrow> if length v < 32 then Inl (OidcCodeFlowConfigurationError ''weak_refresh_token_encryption_key'') else Inr v)"

definition encrypt_refresh_token :: "crypto \<Rightarrow> session_settings \<Rightarrow> string \<Rightarrow> string \<Rightarrow> session_error + string" where
  "encrypt_refresh_token cy st nonce refresh_token =
     (if refresh_token = [] then Inl (OidcTokenExchangeError ''missing_refresh_token'')
      else case refresh_token_key st of Inl e \<Rightarrow> Inl e | Inr key \<Rightarrow> Inr (cy_encrypt cy key nonce refresh_token))"

definition decrypt_refresh_token :: "crypto \<Rightarrow> session_settings \<Rightarrow> string \<Rightarrow> session_error + string" where
  "decrypt_refresh_token cy st ciphertext =
     (case refresh_token_key st of
        Inl e \<Rightarrow> Inl e
      | Inr key \<Rightarrow>
          (case cy_decrypt cy key ciphertext of
             None \<Rightarrow> Inl (OidcTokenExchangeError ''refresh_token_unreadable'') | Some t \<Rightarrow> Inr t))"

text \<open>\<^verbatim>\<open>session_cookie_from_principal\<close>: the lifetime is the least of the configured one, what the token response says,
  what is left of the access token and the ceiling.\<close>

definition session_cookie_from_principal ::
  "crypto \<Rightarrow> session_settings \<Rightarrow> dict \<Rightarrow> oidc_principal \<Rightarrow> string \<Rightarrow> int option \<Rightarrow> (db, session_error, string \<times> int \<times> string) op"
where
  "session_cookie_from_principal cy st token_response p session_id max_age_ceiling =
     bind_op utc_now (\<lambda>clock.
     let now = clock div 1000000;
         age0 = (case int_claim token_response ''expires_in'' of
                   Some n \<Rightarrow> if 0 < n then min (ss_cookie_ttl_seconds st) n else ss_cookie_ttl_seconds st
                 | None \<Rightarrow> ss_cookie_ttl_seconds st)
     in if (case op_expires_at p of Some n \<Rightarrow> n - now \<le> 0 | None \<Rightarrow> False)
        then raise_op (OidcTokenExchangeError ''expired_access_token'')
        else
          let age1 = (case op_expires_at p of Some n \<Rightarrow> min age0 (n - now) | None \<Rightarrow> age0)
          in if (case max_age_ceiling of Some c \<Rightarrow> c \<le> 0 | None \<Rightarrow> False)
             then raise_op (OidcTokenExchangeError ''expired_session_absolute_lifetime'')
             else
               let max_age = (case max_age_ceiling of Some c \<Rightarrow> min age1 c | None \<Rightarrow> age1)
               in if max_age \<le> 0 then raise_op (OidcTokenExchangeError ''invalid_session_ttl'')
                  else
                    bind_op (of_result (sign_cookie cy st (JObj
                       [(''kind'', JStr ''oidc_session''), (''session_id'', JStr session_id),
                        (''actor_id'', JStr (sp_actor_id p)), (''tenant_id'', JStr (sp_tenant_id p)),
                        (''scopes'', jstrs (sp_scopes p)), (''expires_at'', JInt (now + max_age))]))) (\<lambda>cookie.
                      return_op (cookie, max_age, session_id)))"

section \<open>Cross-site request forgery\<close>

record browser_request = http_request +
  br_authorization :: "string option"
  br_session_cookie :: "string option"
  br_login_cookie :: "string option"
  br_csrf_header :: "string option"
  br_user_agent :: "string option"
  br_forwarded_for :: "string option"
  br_client_host :: "string option"

definition upper_char :: "char \<Rightarrow> char" where
  "upper_char c = (let n = of_char c :: nat in if 97 \<le> n \<and> n \<le> 122 then char_of (n - 32) else c)"

definition SAFE_METHODS :: "string list" where
  "SAFE_METHODS = [''GET'', ''HEAD'', ''OPTIONS'', ''TRACE'']"

definition csrf_error :: "string \<Rightarrow> string \<Rightarrow> route_error" where
  "csrf_error message reason_text =
     HTTPException 403 [(''code'', JStr ''PERMISSION_DENIED''), (''message'', JStr message), (''reason'', JStr reason_text)]"

definition csrf_rejection :: "crypto \<Rightarrow> session_settings \<Rightarrow> browser_request \<Rightarrow> (db, session_error, route_error option) op" where
  "csrf_rejection cy st request =
     (if map upper_char (hr_method request) \<in> set SAFE_METHODS then return_op None
      else if nonempty (br_authorization request) \<noteq> None then return_op None
      else case nonempty (br_session_cookie request) of
        None \<Rightarrow> return_op None
      | Some cookie \<Rightarrow>
          (\<lambda>s. case read_session_cookie cy st (Some cookie) s of
             (Inl (OidcCodeFlowConfigurationError _), t) \<Rightarrow> (Inr None, t)
           | (Inl (OidcCookieValidationError _), t) \<Rightarrow> (Inr None, t)
           | (Inl e, t) \<Rightarrow> (Inl e, t)
           | (Inr oidc_session, t) \<Rightarrow>
               (case nonempty (br_csrf_header request) of
                  None \<Rightarrow> (Inr (Some (csrf_error ''A CSRF token header is required for browser session mutations.''
                      ''csrf_token_required'')), t)
                | Some provided \<Rightarrow>
                    (case csrf_token_for_session cy st (ok_session_id oidc_session) of
                       Inl e \<Rightarrow> (Inl e, t)
                     | Inr expected \<Rightarrow>
                         if provided \<noteq> expected
                         then (Inr (Some (csrf_error ''The CSRF token does not match the browser session.''
                           ''csrf_token_mismatch'')), t)
                         else (Inr None, t)))))"

section \<open>Client metadata\<close>

definition BROWSER_FAMILIES :: "(string \<times> string) list" where
  "BROWSER_FAMILIES = [(''Edg'', ''Edge''), (''OPR'', ''Opera''), (''Opera'', ''Opera''), (''Firefox'', ''Firefox''),
     (''FxiOS'', ''Firefox''), (''CriOS'', ''Chrome''), (''Chrome'', ''Chrome''), (''Safari'', ''Safari'')]"

definition OS_FAMILIES :: "(string \<times> string) list" where
  "OS_FAMILIES = [(''Windows'', ''Windows''), (''iPhone'', ''iOS''), (''iPad'', ''iOS''), (''iPod'', ''iOS''),
     (''Mac OS X'', ''macOS''), (''Macintosh'', ''macOS''), (''Android'', ''Android''), (''CrOS'', ''ChromeOS''),
     (''Linux'', ''Linux''), (''X11'', ''Linux'')]"

definition match_family :: "string \<Rightarrow> (string \<times> string) list \<Rightarrow> string option" where
  "match_family user_agent families = map_option snd (find (\<lambda>(token, family). sublist token user_agent) families)"

definition derive_device_label :: "string option \<Rightarrow> string" where
  "derive_device_label user_agent =
     (case nonempty user_agent of
        None \<Rightarrow> ''Unknown device''
      | Some ua \<Rightarrow>
          (case match_family ua BROWSER_FAMILIES of
             None \<Rightarrow> ''Unknown device''
           | Some browser \<Rightarrow>
               (case match_family ua OS_FAMILIES of None \<Rightarrow> browser | Some os \<Rightarrow> browser @ '' on '' @ os)))"

definition bounded_user_agent :: "string option \<Rightarrow> string option" where
  "bounded_user_agent raw = (case raw of None \<Rightarrow> None | Some v \<Rightarrow> if strip v = [] then None else Some (take 256 (strip v)))"

definition last_forwarded_hop :: "crypto \<Rightarrow> string option \<Rightarrow> string option" where
  "last_forwarded_hop cy header =
     (case nonempty header of
        None \<Rightarrow> None
      | Some v \<Rightarrow>
          let last_hop = strip (rev (takeWhile (\<lambda>c. c \<noteq> CHR '','') (rev v)))
          in if last_hop = [] \<or> 64 < length last_hop then None
             else
               let candidate =
                 (if prefix ''['' last_hop \<and> CHR '']'' \<in> set last_hop
                  then tl (takeWhile (\<lambda>c. c \<noteq> CHR '']'') last_hop)
                  else if length (filter (\<lambda>c. c = CHR '':'') last_hop) = 1
                  then takeWhile (\<lambda>c. c \<noteq> CHR '':'') last_hop
                  else last_hop)
               in if cy_is_ip cy candidate then Some candidate else None)"

definition resolve_client_ip :: "crypto \<Rightarrow> session_settings \<Rightarrow> browser_request \<Rightarrow> string option" where
  "resolve_client_ip cy st request =
     (case (if ss_trusted_proxy_enabled st then last_forwarded_hop cy (br_forwarded_for request) else None) of
        Some ip \<Rightarrow> Some ip
      | None \<Rightarrow> map_option (take 64) (nonempty (br_client_host request)))"

record session_client_metadata =
  sm_user_agent :: "string option"
  sm_client_ip :: "string option"
  sm_device_label :: "string option"

definition extract_session_client_metadata :: "crypto \<Rightarrow> session_settings \<Rightarrow> browser_request \<Rightarrow> session_client_metadata" where
  "extract_session_client_metadata cy st request =
     (let user_agent = bounded_user_agent (br_user_agent request)
      in \<lparr>sm_user_agent = user_agent, sm_client_ip = resolve_client_ip cy st request,
          sm_device_label = Some (derive_device_label user_agent)\<rparr>)"

end
