(* ===== verification/Browser_Sessions.thy ===== *)
theory Browser_Sessions
  imports Browser_Cookies Usage_Metering Workflow_Signals
begin

text \<open>
  Browser sessions: their rows (the session methods of \<^verbatim>\<open>axis_api/persistence.py\<close>), the checks of their lifecycle
  (\<^verbatim>\<open>session_lifecycle.py\<close>), the endpoints of \<^verbatim>\<open>main.py\<close> that create, present, refresh, list and revoke them, and the
  scheduled sweep (\<^verbatim>\<open>maintenance_jobs.py\<close>). The identity provider, the cryptography and the random tokens are parameters.
  Each \<^verbatim>\<open>with session_scope\<close> of the code is one transaction here, a definition of its own: an endpoint composes them, and
  Session_Lifecycle interleaves those of different requests. Datetimes have no range and text columns no length.
\<close>

section \<open>Repository\<close>

record session_create =
  sc_session_id_hash :: string
  sc_tenant_id :: string
  sc_actor_id :: string
  sc_scopes :: "string list"
  sc_expires_at :: timestamp
  sc_absolute_expires_at :: "timestamp option"
  sc_refresh_token_ciphertext :: "string option"
  sc_refresh_count :: int
  sc_user_agent :: "string option"
  sc_client_ip :: "string option"
  sc_device_label :: "string option"
  sc_created_audit_event_id :: "uuid option"

definition at_most :: "nat \<Rightarrow> string option \<Rightarrow> bool" where
  "at_most n t \<longleftrightarrow> (case t of None \<Rightarrow> True | Some v \<Rightarrow> length v \<le> n)"

definition session_create_valid :: "session_create \<Rightarrow> bool" where
  "session_create_valid c \<longleftrightarrow> length_between 32 128 (sc_session_id_hash c) \<and> sc_tenant_id c \<noteq> [] \<and> sc_actor_id c \<noteq> []
     \<and> 0 \<le> sc_refresh_count c \<and> at_most 256 (sc_user_agent c) \<and> at_most 64 (sc_client_ip c) \<and> at_most 80 (sc_device_label c)"

definition session_revocation_valid :: "string \<Rightarrow> string \<Rightarrow> string \<Rightarrow> bool" where
  "session_revocation_valid session_hash revoked_by revocation_reason \<longleftrightarrow>
     length_between 32 128 session_hash \<and> revoked_by \<noteq> [] \<and> revocation_reason \<noteq> []"

definition new_browser_session :: "session_create \<Rightarrow> uuid \<Rightarrow> timestamp \<Rightarrow> timestamp \<Rightarrow> browser_session" where
  "new_browser_session c new_id created_at updated_at =
     \<lparr>bs_id = new_id, bs_session_id_hash = sc_session_id_hash c, bs_tenant_id = sc_tenant_id c,
      bs_actor_id = sc_actor_id c, bs_status = ''active'', bs_scopes = sc_scopes c, bs_expires_at = sc_expires_at c,
      bs_absolute_expires_at = sc_absolute_expires_at c, bs_last_seen_at = None,
      bs_refresh_token_ciphertext = sc_refresh_token_ciphertext c, bs_refresh_count = sc_refresh_count c,
      bs_rotated_to_session_id_hash = None, bs_user_agent = sc_user_agent c, bs_client_ip = sc_client_ip c,
      bs_device_label = sc_device_label c, bs_created_audit_event_id = sc_created_audit_event_id c,
      bs_revoked_at = None, bs_revoked_by = None, bs_revocation_reason = None, bs_revoke_audit_event_id = None,
      bs_created_at = created_at, bs_updated_at = updated_at\<rparr>"

text \<open>The flush of a new row: the primary key and the unique hash are checked by the database.\<close>

definition insert_browser_session :: "browser_session \<Rightarrow> (db, session_error, browser_session) op" where
  "insert_browser_session row s =
     (if bs_session_id_hash row \<in> bs_session_id_hash ` set (browser_sessions s) \<or> bs_id row \<in> bs_id ` set (browser_sessions s)
      then (Inl SessionIntegrityError, s)
      else (Inr row, s\<lparr>browser_sessions := browser_sessions s @ [row]\<rparr>))"

definition create_oidc_browser_session :: "session_create \<Rightarrow> (db, session_error, browser_session) op" where
  "create_oidc_browser_session c =
     (if \<not> session_create_valid c then raise_op SessionValueError
      else
        bind_op uuid4 (\<lambda>new_id.
        bind_op utc_now (\<lambda>created_at.
        bind_op utc_now (\<lambda>updated_at.
          insert_browser_session (new_browser_session c new_id created_at updated_at)))))"

text \<open>The advisory lock of PostgreSQL serializes the admissions of one principal; the transactions of the model are serial.\<close>

definition acquire_oidc_session_admission_lock :: "string \<Rightarrow> (db, session_error, unit) op" where
  "acquire_oidc_session_admission_lock dialect =
     (if dialect = ''sqlite'' \<or> dialect = ''postgresql'' then return_op () else raise_op SessionLockUnsupported)"

definition get_oidc_browser_session_by_hash :: "string \<Rightarrow> db \<Rightarrow> browser_session option" where
  "get_oidc_browser_session_by_hash session_hash s =
     first_row (select_where (\<lambda>r. bs_session_id_hash r = session_hash) (browser_sessions s))"

definition get_oidc_browser_session :: "string \<Rightarrow> uuid \<Rightarrow> db \<Rightarrow> browser_session option" where
  "get_oidc_browser_session tenant_id session_ref s =
     first_row (select_where (\<lambda>r. bs_tenant_id r = tenant_id \<and> bs_id r = session_ref) (browser_sessions s))"

definition get_oidc_browser_session_by_row_id :: "uuid \<Rightarrow> db \<Rightarrow> browser_session option" where
  "get_oidc_browser_session_by_row_id session_row_id s =
     first_row (select_where (\<lambda>r. bs_id r = session_row_id) (browser_sessions s))"

definition list_oidc_browser_sessions ::
  "string \<Rightarrow> string option \<Rightarrow> (timestamp \<times> uuid) option \<Rightarrow> nat \<Rightarrow> db \<Rightarrow> browser_session list"
where
  "list_oidc_browser_sessions tenant_id actor_id cursor limit s =
     take limit (sort_key (\<lambda>r. (- bs_created_at r, - int (bs_id r)))
       (select_where (\<lambda>r. bs_tenant_id r = tenant_id
          \<and> (case actor_id of None \<Rightarrow> True | Some a \<Rightarrow> bs_actor_id r = a)
          \<and> (case cursor of None \<Rightarrow> True
             | Some (created_at, row_id) \<Rightarrow>
                 bs_created_at r < created_at \<or> bs_created_at r = created_at \<and> bs_id r < row_id)) (browser_sessions s)))"

definition list_active_oidc_browser_sessions :: "string \<Rightarrow> string \<Rightarrow> db \<Rightarrow> browser_session list" where
  "list_active_oidc_browser_sessions tenant_id actor_id s =
     sort_key (\<lambda>r. (bs_created_at r, bs_id r))
       (select_where (\<lambda>r. bs_tenant_id r = tenant_id \<and> bs_actor_id r = actor_id \<and> bs_status r = ''active'')
          (browser_sessions s))"

text \<open>The columns that the updates write.\<close>

definition touched_row :: "timestamp \<Rightarrow> browser_session \<Rightarrow> browser_session" where
  "touched_row seen_at r = r\<lparr>bs_last_seen_at := Some seen_at, bs_updated_at := seen_at\<rparr>"

definition claimed_row :: "timestamp \<Rightarrow> browser_session \<Rightarrow> browser_session" where
  "claimed_row now r = r\<lparr>bs_status := ''refreshing'', bs_updated_at := now\<rparr>"

definition released_row :: "timestamp \<Rightarrow> browser_session \<Rightarrow> browser_session" where
  "released_row now r = r\<lparr>bs_status := ''active'', bs_updated_at := now\<rparr>"

definition rotated_row :: "string \<Rightarrow> timestamp \<Rightarrow> browser_session \<Rightarrow> browser_session" where
  "rotated_row new_hash now r =
     r\<lparr>bs_status := ''rotated'', bs_rotated_to_session_id_hash := Some new_hash, bs_refresh_token_ciphertext := None,
       bs_updated_at := now\<rparr>"

definition revoked_row :: "string \<Rightarrow> string \<Rightarrow> uuid \<Rightarrow> timestamp \<Rightarrow> browser_session \<Rightarrow> browser_session" where
  "revoked_row revoked_by revocation_reason event_id now r =
     r\<lparr>bs_status := ''revoked'', bs_revoked_at := Some now, bs_revoked_by := Some revoked_by,
       bs_revocation_reason := Some revocation_reason, bs_revoke_audit_event_id := Some event_id,
       bs_refresh_token_ciphertext := None, bs_updated_at := now\<rparr>"

text \<open>The flush of a changed row: an update by its primary key.\<close>

definition flush_session :: "uuid \<Rightarrow> (browser_session \<Rightarrow> browser_session) \<Rightarrow> db \<Rightarrow> db" where
  "flush_session row_id f s = s\<lparr>browser_sessions := update_where (\<lambda>r. bs_id r = row_id) f (browser_sessions s)\<rparr>"

definition touch_oidc_browser_session :: "string \<Rightarrow> timestamp \<Rightarrow> (db, session_error, browser_session option) op" where
  "touch_oidc_browser_session session_hash seen_at =
     bind_op (get_op (get_oidc_browser_session_by_hash session_hash)) (\<lambda>stored.
     case stored of
       None \<Rightarrow> return_op None
     | Some row \<Rightarrow>
         bind_op (put_op (flush_session (bs_id row) (touched_row seen_at))) (\<lambda>_.
         return_op (Some (touched_row seen_at row))))"

definition active_with_hash :: "string \<Rightarrow> browser_session \<Rightarrow> bool" where
  "active_with_hash session_hash r \<longleftrightarrow> bs_session_id_hash r = session_hash \<and> bs_status r = ''active''"

definition refreshing_with_hash :: "string \<Rightarrow> browser_session \<Rightarrow> bool" where
  "refreshing_with_hash session_hash r \<longleftrightarrow> bs_session_id_hash r = session_hash \<and> bs_status r = ''refreshing''"

definition claim_oidc_browser_session_refresh :: "string \<Rightarrow> (db, session_error, bool) op" where
  "claim_oidc_browser_session_refresh session_hash =
     bind_op utc_now (\<lambda>now.
     bind_op (get_op (\<lambda>s. rowcount (active_with_hash session_hash) (browser_sessions s))) (\<lambda>count.
     bind_op (put_op (\<lambda>s. s\<lparr>browser_sessions :=
         update_where (active_with_hash session_hash) (claimed_row now) (browser_sessions s)\<rparr>)) (\<lambda>_.
     return_op (count \<noteq> 0))))"

definition release_oidc_browser_session_refresh :: "string \<Rightarrow> (db, session_error, browser_session option) op" where
  "release_oidc_browser_session_refresh session_hash =
     bind_op (get_op (get_oidc_browser_session_by_hash session_hash)) (\<lambda>stored.
     case stored of
       None \<Rightarrow> return_op None
     | Some row \<Rightarrow>
         if bs_status row \<noteq> ''refreshing'' then return_op (Some row)
         else
           bind_op utc_now (\<lambda>now.
           bind_op (put_op (flush_session (bs_id row) (released_row now))) (\<lambda>_.
           return_op (Some (released_row now row)))))"

definition finalize_oidc_browser_session_refresh :: "string \<Rightarrow> string \<Rightarrow> (db, session_error, bool) op" where
  "finalize_oidc_browser_session_refresh session_hash new_hash =
     bind_op utc_now (\<lambda>now.
     bind_op (get_op (\<lambda>s. rowcount (refreshing_with_hash session_hash) (browser_sessions s))) (\<lambda>count.
     bind_op (put_op (\<lambda>s. s\<lparr>browser_sessions :=
         update_where (refreshing_with_hash session_hash) (rotated_row new_hash now) (browser_sessions s)\<rparr>)) (\<lambda>_.
     return_op (count \<noteq> 0))))"

definition revoke_oidc_browser_session ::
  "string \<Rightarrow> string \<Rightarrow> string \<Rightarrow> uuid \<Rightarrow> (db, session_error, browser_session option) op"
where
  "revoke_oidc_browser_session session_hash revoked_by revocation_reason event_id =
     (if \<not> session_revocation_valid session_hash revoked_by revocation_reason then raise_op SessionValueError
      else
        bind_op (get_op (get_oidc_browser_session_by_hash session_hash)) (\<lambda>stored.
        case stored of
          None \<Rightarrow> return_op None
        | Some row \<Rightarrow>
            if bs_status row = ''revoked'' then return_op (Some row)
            else
              bind_op utc_now (\<lambda>now.
              bind_op (put_op (flush_session (bs_id row) (revoked_row revoked_by revocation_reason event_id now))) (\<lambda>_.
              return_op (Some (revoked_row revoked_by revocation_reason event_id now row))))))"

definition list_orphaned_refreshing_oidc_browser_sessions ::
  "timestamp \<Rightarrow> string option \<Rightarrow> nat \<Rightarrow> db \<Rightarrow> browser_session list"
where
  "list_orphaned_refreshing_oidc_browser_sessions claim_deadline tenant_id limit s =
     take limit (sort_key (\<lambda>r. (bs_updated_at r, bs_id r))
       (select_where (\<lambda>r. bs_status r = ''refreshing'' \<and> bs_updated_at r \<le> claim_deadline
          \<and> (case tenant_id of None \<Rightarrow> True | Some t \<Rightarrow> bs_tenant_id r = t)) (browser_sessions s)))"

definition last_activity :: "browser_session \<Rightarrow> timestamp" where
  "last_activity r = (case bs_last_seen_at r of Some t \<Rightarrow> t | None \<Rightarrow> bs_created_at r)"

definition session_past_expiry :: "timestamp \<Rightarrow> timestamp option \<Rightarrow> browser_session \<Rightarrow> bool" where
  "session_past_expiry now idle_deadline r \<longleftrightarrow> bs_expires_at r \<le> now
     \<or> (case bs_absolute_expires_at r of None \<Rightarrow> False | Some t \<Rightarrow> t \<le> now)
     \<or> (case idle_deadline of None \<Rightarrow> False | Some t \<Rightarrow> last_activity r \<le> t)"

definition list_expired_active_oidc_browser_sessions ::
  "timestamp \<Rightarrow> timestamp option \<Rightarrow> string option \<Rightarrow> nat \<Rightarrow> db \<Rightarrow> browser_session list"
where
  "list_expired_active_oidc_browser_sessions now idle_deadline tenant_id limit s =
     take limit (sort_key (\<lambda>r. (bs_created_at r, bs_id r))
       (select_where (\<lambda>r. bs_status r = ''active'' \<and> session_past_expiry now idle_deadline r
          \<and> (case tenant_id of None \<Rightarrow> True | Some t \<Rightarrow> bs_tenant_id r = t)) (browser_sessions s)))"

section \<open>Lifecycle\<close>

text \<open>\<^verbatim>\<open>timedelta(seconds=n)\<close>.\<close>

definition seconds :: "int \<Rightarrow> int" where
  "seconds n = n * 1000000"

text \<open>\<^verbatim>\<open>browser_session_lifecycle_failure\<close> at the instant \<open>now\<close>: the reason that is shown and the one that is recorded.\<close>

definition lifecycle_failure_at :: "session_settings \<Rightarrow> timestamp \<Rightarrow> browser_session \<Rightarrow> (string \<times> string) option" where
  "lifecycle_failure_at st now r =
     (if bs_status r = ''refreshing'' then
        if bs_updated_at r + seconds (ss_refresh_claim_staleness_seconds st) \<le> now
        then Some (''revoked_session_cookie'', ''refresh_claim_orphaned'')
        else Some (''revoked_session_cookie'', '''')
      else if bs_status r \<noteq> ''active'' then Some (''revoked_session_cookie'', '''')
      else if bs_expires_at r \<le> now then Some (''expired_session_cookie'', ''session_expired'')
      else if (case bs_absolute_expires_at r of None \<Rightarrow> False | Some t \<Rightarrow> t \<le> now)
      then Some (''expired_session_cookie'', ''absolute_timeout'')
      else if 0 < ss_idle_timeout_seconds st \<and> last_activity r + seconds (ss_idle_timeout_seconds st) \<le> now
      then Some (''idle_session_timeout'', ''idle_timeout'')
      else None)"

definition browser_session_lifecycle_failure ::
  "session_settings \<Rightarrow> browser_session \<Rightarrow> (db, session_error, (string \<times> string) option) op"
where
  "browser_session_lifecycle_failure st r = bind_op utc_now (\<lambda>now. return_op (lifecycle_failure_at st now r))"

definition BROWSER_SESSION_TOUCH_INTERVAL_SECONDS :: pyfloat where
  "BROWSER_SESSION_TOUCH_INTERVAL_SECONDS = 60"

definition browser_session_touch_due :: "session_settings \<Rightarrow> timestamp \<Rightarrow> browser_session \<Rightarrow> bool" where
  "browser_session_touch_due st now r =
     (let interval = (if 0 < ss_idle_timeout_seconds st
            then min BROWSER_SESSION_TOUCH_INTERVAL_SECONDS (of_int (ss_idle_timeout_seconds st) / 10)
            else BROWSER_SESSION_TOUCH_INTERVAL_SECONDS)
      in case bs_last_seen_at r of None \<Rightarrow> True | Some t \<Rightarrow> timedelta_seconds interval \<le> now - t)"

definition browser_session_is_active :: "session_settings \<Rightarrow> browser_session \<Rightarrow> (db, session_error, bool) op" where
  "browser_session_is_active st r = bind_op (browser_session_lifecycle_failure st r) (\<lambda>failure. return_op (failure = None))"

section \<open>Transactions on sessions\<close>

definition OIDC_SESSION_BOUNDARY :: string where
  "OIDC_SESSION_BOUNDARY = ''http_only_cookie_verified_by_axis_api''"

definition OIDC_SESSION_LIFECYCLE_ACTOR :: string where
  "OIDC_SESSION_LIFECYCLE_ACTOR = ''axis-session-lifecycle''"

definition IDENTITY_SESSION_ADMIN_SCOPE :: string where
  "IDENTITY_SESSION_ADMIN_SCOPE = ''identity:sessions:admin''"

definition OIDC_SESSION_REVOKED_EVENT_TYPE :: string where
  "OIDC_SESSION_REVOKED_EVENT_TYPE = ''identity.oidc_session.revoked''"

definition session_event :: "string \<Rightarrow> string \<Rightarrow> string \<Rightarrow> dict \<Rightarrow> audit_event_create" where
  "session_event tenant_id actor_id event_type payload =
     \<lparr>ac_event_tenant_id = tenant_id, ac_event_actor_id = actor_id, ac_event_type = event_type,
      ac_event_payload = payload\<rparr>"

definition revocation_payload :: "string \<Rightarrow> string \<Rightarrow> bool \<Rightarrow> dict" where
  "revocation_payload session_hash revocation_reason federated_logout =
     [(''session_id_hash'', JStr session_hash), (''revocation_reason'', JStr revocation_reason),
      (''session_boundary'', JStr OIDC_SESSION_BOUNDARY), (''federated_logout'', JBool federated_logout)]"

text \<open>Every revocation appends its audit event first and writes its identifier to the row; \<open>extra\<close> is what else the event says.\<close>

definition revoke_with_event ::
  "browser_session \<Rightarrow> string \<Rightarrow> string \<Rightarrow> bool \<Rightarrow> dict \<Rightarrow> (db, session_error, unit) op"
where
  "revoke_with_event stored revocation_reason revoked_by federated_logout extra =
     bind_op (append_audit_event (session_event (bs_tenant_id stored) (bs_actor_id stored) OIDC_SESSION_REVOKED_EVENT_TYPE
        (revocation_payload (bs_session_id_hash stored) revocation_reason federated_logout @ extra))) (\<lambda>event.
     bind_op (revoke_oidc_browser_session (bs_session_id_hash stored) revoked_by revocation_reason (ae_id event)) (\<lambda>_.
     return_op ()))"

definition expire_stored_session :: "browser_session \<Rightarrow> string \<Rightarrow> string \<Rightarrow> (db, session_error, unit) op" where
  "expire_stored_session stored revocation_reason revoked_by =
     revoke_with_event stored revocation_reason revoked_by False []"

definition live_status :: "browser_session \<Rightarrow> bool" where
  "live_status r \<longleftrightarrow> bs_status r = ''active'' \<or> bs_status r = ''refreshing''"

fun expire_all :: "browser_session list \<Rightarrow> string \<Rightarrow> (db, session_error, unit) op" where
  "expire_all [] revocation_reason = return_op ()"
| "expire_all (r # rs) revocation_reason =
     bind_op (expire_stored_session r revocation_reason OIDC_SESSION_LIFECYCLE_ACTOR) (\<lambda>_. expire_all rs revocation_reason)"

subsection \<open>Presenting a cookie\<close>

text \<open>What the transaction of a cookie request comes to: the reason of a refusal, or the principal.\<close>

definition principal_of_session :: "browser_session \<Rightarrow> oidc_principal" where
  "principal_of_session r =
     \<lparr>sp_tenant_id = bs_tenant_id r, sp_actor_id = bs_actor_id r, sp_scopes = bs_scopes r,
      op_expires_at = Some (epoch_seconds (bs_expires_at r)), op_subject_id = None, op_session_source = ''secure_cookie''\<rparr>"

definition expire_if_recorded :: "browser_session \<Rightarrow> string \<Rightarrow> (db, session_error, unit) op" where
  "expire_if_recorded stored revocation_reason =
     (if revocation_reason \<noteq> [] \<and> live_status stored
      then expire_stored_session stored revocation_reason OIDC_SESSION_LIFECYCLE_ACTOR else return_op ())"

definition present_session ::
  "session_settings \<Rightarrow> oidc_session_cookie \<Rightarrow> string \<Rightarrow> (db, session_error, string + oidc_principal) op"
where
  "present_session st cookie session_hash =
     bind_op (get_op (get_oidc_browser_session_by_hash session_hash)) (\<lambda>stored.
     case stored of
       None \<Rightarrow> return_op (Inl ''invalid_session_cookie'')
     | Some row \<Rightarrow>
         bind_op (browser_session_lifecycle_failure st row) (\<lambda>failure.
         case failure of
           Some (public_reason, revocation_reason) \<Rightarrow>
             bind_op (expire_if_recorded row revocation_reason) (\<lambda>_. return_op (Inl public_reason))
         | None \<Rightarrow>
             if bs_actor_id row \<noteq> ok_actor_id cookie \<or> bs_tenant_id row \<noteq> ok_tenant_id cookie
             then return_op (Inl ''invalid_session_cookie'')
             else
               bind_op utc_now (\<lambda>seen_at.
               bind_op (if browser_session_touch_due st seen_at row
                        then bind_op (touch_oidc_browser_session session_hash seen_at) (\<lambda>_. return_op ())
                        else return_op ()) (\<lambda>_.
               return_op (Inr (principal_of_session row))))))"

subsection \<open>Login\<close>

record session_login =
  lg_principal :: oidc_principal
  lg_session_hash :: string
  lg_expires_at :: timestamp
  lg_absolute_expires_at :: "timestamp option"
  lg_refresh_token_ciphertext :: "string option"
  lg_metadata :: session_client_metadata

definition fresh_denial_reason :: "string \<Rightarrow> string \<Rightarrow> (db, session_error, string option) op" where
  "fresh_denial_reason tenant_id admission_mode s =
     (case fresh_tenant_admission_denial_reason tenant_id admission_mode s of
        Inl e \<Rightarrow> (Inl (SessionTenantError e), s) | Inr x \<Rightarrow> (Inr x, s))"

definition login_guard :: "string \<Rightarrow> oidc_principal \<Rightarrow> (db, session_error, string option) op" where
  "login_guard admission_mode p =
     bind_op (fresh_denial_reason (sp_tenant_id p) admission_mode) (\<lambda>block_reason.
     case block_reason of
       None \<Rightarrow> return_op None
     | Some denial \<Rightarrow>
         bind_op (append_audit_event (session_event (sp_tenant_id p) (sp_actor_id p)
            (tenant_admission_denial_audit_event_type denial)
            [(''tenant_id'', JStr (sp_tenant_id p)), (''reason'', JStr denial),
             (''operation'', JStr ''oidc_login_callback''), (''session_source'', JStr ''secure_cookie'')])) (\<lambda>_.
         return_op (Some denial)))"

definition created_event :: "session_login \<Rightarrow> audit_event_create" where
  "created_event l =
     session_event (sp_tenant_id (lg_principal l)) (sp_actor_id (lg_principal l)) ''identity.oidc_session.created''
       [(''session_id_hash'', JStr (lg_session_hash l)), (''session_boundary'', JStr OIDC_SESSION_BOUNDARY),
        (''expires_at'', JStr (isoformat (lg_expires_at l))),
        (''absolute_expires_at'', jopt (\<lambda>t. JStr (isoformat t)) (lg_absolute_expires_at l)),
        (''refresh_token_stored'', JBool (nonempty (lg_refresh_token_ciphertext l) \<noteq> None)),
        (''scopes'', jstrs (sp_scopes (lg_principal l)))]"

definition login_create :: "session_login \<Rightarrow> uuid \<Rightarrow> session_create" where
  "login_create l event_id =
     \<lparr>sc_session_id_hash = lg_session_hash l, sc_tenant_id = sp_tenant_id (lg_principal l),
      sc_actor_id = sp_actor_id (lg_principal l), sc_scopes = sp_scopes (lg_principal l),
      sc_expires_at = lg_expires_at l, sc_absolute_expires_at = lg_absolute_expires_at l,
      sc_refresh_token_ciphertext = lg_refresh_token_ciphertext l, sc_refresh_count = 0,
      sc_user_agent = sm_user_agent (lg_metadata l), sc_client_ip = sm_client_ip (lg_metadata l),
      sc_device_label = sm_device_label (lg_metadata l), sc_created_audit_event_id = Some event_id\<rparr>"

definition meter_session :: "session_settings \<Rightarrow> browser_session \<Rightarrow> (db, session_error, unit) op" where
  "meter_session st row =
     (if ss_usage_metering_enabled st
      then bind_op (lift_error (\<lambda>_. SessionUsageError)
             (record_tenant_usage_event (Some (bs_tenant_id row)) (usage_metric_value SESSION_CREATED) 1
                ''oidc_browser_session'' (uuid_text (bs_id row)) (ss_usage_metering_aggregation_window_seconds st)
                (Some (bs_created_at row)) [])) (\<lambda>_. return_op ())
      else return_op ())"

definition max_concurrent_sessions :: "session_settings \<Rightarrow> string \<Rightarrow> db \<Rightarrow> int" where
  "max_concurrent_sessions st tenant_id s =
     (case get_tenant_quota tenant_id (quota_key_value MAX_CONCURRENT_SESSIONS) s of
        Some quota \<Rightarrow> tq_quota_value quota | None \<Rightarrow> ss_max_concurrent st)"

definition stale_sessions :: "int \<Rightarrow> string \<Rightarrow> browser_session list \<Rightarrow> browser_session list" where
  "stale_sessions max_concurrent session_hash active_sessions =
     (let excess_count = int (length active_sessions) - max_concurrent
      in if 0 < excess_count
         then take (nat excess_count) (filter (\<lambda>r. bs_session_id_hash r \<noteq> session_hash) active_sessions) else [])"

definition enforce_session_cap :: "session_settings \<Rightarrow> session_login \<Rightarrow> (db, session_error, unit) op" where
  "enforce_session_cap st l =
     bind_op (get_op (max_concurrent_sessions st (sp_tenant_id (lg_principal l)))) (\<lambda>max_concurrent.
     if 0 < max_concurrent then
       bind_op (get_op (list_active_oidc_browser_sessions (sp_tenant_id (lg_principal l)) (sp_actor_id (lg_principal l))))
         (\<lambda>active_sessions.
         expire_all (stale_sessions max_concurrent (lg_session_hash l) active_sessions) ''concurrent_session_limit'')
     else return_op ())"

definition admit_login :: "session_settings \<Rightarrow> string \<Rightarrow> session_login \<Rightarrow> (db, session_error, browser_session) op" where
  "admit_login st dialect l =
     bind_op (acquire_oidc_session_admission_lock dialect) (\<lambda>_.
     bind_op (append_audit_event (created_event l)) (\<lambda>event.
     bind_op (create_oidc_browser_session (login_create l (ae_id event))) (\<lambda>row.
     bind_op (meter_session st row) (\<lambda>_.
     bind_op (enforce_session_cap st l) (\<lambda>_.
     return_op row)))))"

definition record_oidc_login_failure :: "string \<Rightarrow> oidc_principal option \<Rightarrow> (db, session_error, unit) op" where
  "record_oidc_login_failure failure the_principal =
     bind_op (append_audit_event (session_event
        (case the_principal of Some p \<Rightarrow> sp_tenant_id p | None \<Rightarrow> ''tenant_unattributed'')
        (case the_principal of Some p \<Rightarrow> sp_actor_id p | None \<Rightarrow> ''browser_unauthenticated'')
        ''identity.oidc_login.failed''
        [(''reason'', JStr failure), (''flow'', JStr ''authorization_code_pkce''),
         (''session_boundary'', JStr OIDC_SESSION_BOUNDARY)])) (\<lambda>_. return_op ())"

subsection \<open>Refresh\<close>

record session_refresh_claim =
  rf_tenant_id :: string
  rf_actor_id :: string
  rf_refresh_token :: string
  rf_refresh_count :: int
  rf_absolute_expires_at :: "timestamp option"

definition refresh_precondition_error :: "nat \<Rightarrow> string \<Rightarrow> string \<Rightarrow> string \<Rightarrow> route_error" where
  "refresh_precondition_error status_code error_code message reason_text =
     HTTPException status_code
       [(''code'', JStr error_code), (''message'', JStr message), (''reason'', JStr reason_text)]"

definition unverified_cookie :: route_error where
  "unverified_cookie = refresh_precondition_error 401 ''AUTH_REQUIRED'' ''The OIDC session cookie could not be verified.''
     ''invalid_session_cookie''"

definition claim_of_row :: "browser_session \<Rightarrow> string \<Rightarrow> session_refresh_claim" where
  "claim_of_row r refresh_token =
     \<lparr>rf_tenant_id = bs_tenant_id r, rf_actor_id = bs_actor_id r, rf_refresh_token = refresh_token,
      rf_refresh_count = bs_refresh_count r, rf_absolute_expires_at = bs_absolute_expires_at r\<rparr>"

text \<open>The part of the claim after the preconditions: the credential is read before the row is claimed.\<close>

definition claim_live_session ::
  "crypto \<Rightarrow> session_settings \<Rightarrow> browser_session \<Rightarrow> (db, session_error, route_error + session_refresh_claim) op"
where
  "claim_live_session cy st row =
     (case nonempty (bs_refresh_token_ciphertext row) of
        None \<Rightarrow>
          return_op (Inl (refresh_precondition_error 409 ''CONFLICT''
            ''No refresh token is stored for this session; sign in again to extend it.'' ''refresh_not_available''))
      | Some ciphertext \<Rightarrow>
          (case decrypt_refresh_token cy st ciphertext of
             Inl (OidcTokenExchangeError _) \<Rightarrow>
               bind_op (expire_stored_session row ''refresh_failed'' OIDC_SESSION_LIFECYCLE_ACTOR) (\<lambda>_.
               return_op (Inl (refresh_precondition_error 401 ''AUTH_REQUIRED''
                 ''The stored OIDC refresh credential could not be read.'' ''refresh_token_unreadable'')))
           | Inl e \<Rightarrow> raise_op e
           | Inr refresh_token \<Rightarrow>
               bind_op (claim_oidc_browser_session_refresh (bs_session_id_hash row)) (\<lambda>won.
               if won then return_op (Inr (claim_of_row row refresh_token)) else return_op (Inl unverified_cookie))))"

definition claim_session_refresh ::
  "crypto \<Rightarrow> session_settings \<Rightarrow> string \<Rightarrow> string \<Rightarrow> (db, session_error, route_error + session_refresh_claim) op"
where
  "claim_session_refresh cy st admission_mode session_hash =
     bind_op (get_op (get_oidc_browser_session_by_hash session_hash)) (\<lambda>stored.
     case stored of
       None \<Rightarrow> return_op (Inl unverified_cookie)
     | Some row \<Rightarrow>
         bind_op (fresh_denial_reason (bs_tenant_id row) admission_mode) (\<lambda>block_reason.
         case block_reason of
           Some denial \<Rightarrow>
             bind_op (if live_status row then expire_stored_session row denial OIDC_SESSION_LIFECYCLE_ACTOR else return_op ()) (\<lambda>_.
             return_op (Inl (refresh_precondition_error 403 ''PERMISSION_DENIED''
               ''The tenant for this session is not active.'' denial)))
         | None \<Rightarrow>
             bind_op (browser_session_lifecycle_failure st row) (\<lambda>failure.
             case failure of
               Some (public_reason, revocation_reason) \<Rightarrow>
                 bind_op (expire_if_recorded row revocation_reason) (\<lambda>_.
                 return_op (Inl (refresh_precondition_error 401 ''AUTH_REQUIRED''
                   ''The OIDC browser session can no longer be refreshed.'' public_reason)))
             | None \<Rightarrow> claim_live_session cy st row)))"

definition fail_refresh :: "string \<Rightarrow> session_refresh_claim \<Rightarrow> string \<Rightarrow> (db, session_error, unit) op" where
  "fail_refresh session_hash claim failure_reason =
     bind_op (append_audit_event (session_event (rf_tenant_id claim) (rf_actor_id claim) ''identity.oidc_session.refresh_failed''
        [(''session_id_hash'', JStr session_hash), (''reason'', JStr failure_reason),
         (''session_boundary'', JStr OIDC_SESSION_BOUNDARY)])) (\<lambda>_.
     bind_op (append_audit_event (session_event (rf_tenant_id claim) (rf_actor_id claim) OIDC_SESSION_REVOKED_EVENT_TYPE
        (revocation_payload session_hash ''refresh_failed'' False))) (\<lambda>event.
     bind_op (revoke_oidc_browser_session session_hash OIDC_SESSION_LIFECYCLE_ACTOR ''refresh_failed'' (ae_id event)) (\<lambda>_.
     return_op ())))"

text \<open>What the exchange at the provider gives: the response, the verified principal, and the new cookie with its age and
  session identifier.\<close>

record refresh_grant =
  rg_token_response :: dict
  rg_principal :: oidc_principal
  rg_cookie :: string
  rg_max_age :: int
  rg_session_id :: string

definition text_token :: "dict \<Rightarrow> string \<Rightarrow> string option" where
  "text_token token_response name = (case dget token_response name of JStr t \<Rightarrow> nonempty (Some t) | _ \<Rightarrow> None)"

definition refreshed_event ::
  "string \<Rightarrow> string \<Rightarrow> timestamp \<Rightarrow> session_refresh_claim \<Rightarrow> oidc_principal \<Rightarrow> bool \<Rightarrow> audit_event_create"
where
  "refreshed_event old_hash new_hash expires_at claim p token_rotated =
     session_event (sp_tenant_id p) (sp_actor_id p) ''identity.oidc_session.refreshed''
       [(''previous_session_id_hash'', JStr old_hash), (''session_id_hash'', JStr new_hash),
        (''session_boundary'', JStr OIDC_SESSION_BOUNDARY), (''expires_at'', JStr (isoformat expires_at)),
        (''absolute_expires_at'', jopt (\<lambda>t. JStr (isoformat t)) (rf_absolute_expires_at claim)),
        (''refresh_count'', JInt (rf_refresh_count claim + 1)), (''refresh_token_rotated'', JBool token_rotated)]"

definition refresh_create ::
  "string \<Rightarrow> timestamp \<Rightarrow> session_refresh_claim \<Rightarrow> oidc_principal \<Rightarrow> string \<Rightarrow> session_client_metadata \<Rightarrow> uuid \<Rightarrow> session_create"
where
  "refresh_create new_hash expires_at claim p ciphertext metadata event_id =
     \<lparr>sc_session_id_hash = new_hash, sc_tenant_id = sp_tenant_id p, sc_actor_id = sp_actor_id p,
      sc_scopes = sp_scopes p, sc_expires_at = expires_at, sc_absolute_expires_at = rf_absolute_expires_at claim,
      sc_refresh_token_ciphertext = Some ciphertext, sc_refresh_count = rf_refresh_count claim + 1,
      sc_user_agent = sm_user_agent metadata, sc_client_ip = sm_client_ip metadata,
      sc_device_label = sm_device_label metadata, sc_created_audit_event_id = Some event_id\<rparr>"

text \<open>The session that replaces a rotated one, with its audit event.\<close>

definition create_rotated_session ::
  "crypto \<Rightarrow> session_settings \<Rightarrow> browser_request \<Rightarrow> string \<Rightarrow> string \<Rightarrow> string \<Rightarrow> timestamp \<Rightarrow> session_refresh_claim \<Rightarrow>
   refresh_grant \<Rightarrow> (db, session_error, browser_session) op"
where
  "create_rotated_session cy st request nonce session_hash new_hash expires_at claim grant =
     (let rotated_token = text_token (rg_token_response grant) ''refresh_token'';
          next_token = (case rotated_token of Some t \<Rightarrow> t | None \<Rightarrow> rf_refresh_token claim);
          metadata = extract_session_client_metadata cy st request
      in bind_op (append_audit_event (refreshed_event session_hash new_hash expires_at claim (rg_principal grant)
            (rotated_token \<noteq> None))) (\<lambda>event.
         bind_op (of_result (encrypt_refresh_token cy st nonce next_token)) (\<lambda>ciphertext.
         create_oidc_browser_session
           (refresh_create new_hash expires_at claim (rg_principal grant) ciphertext metadata (ae_id event)))))"

text \<open>The terminal transaction of a refresh whose exchange succeeded: \<open>True\<close> when the session was rotated, \<open>False\<close> when it
  was no longer claimed.\<close>

definition rotate_session ::
  "crypto \<Rightarrow> session_settings \<Rightarrow> browser_request \<Rightarrow> string \<Rightarrow> string \<Rightarrow> session_refresh_claim \<Rightarrow> refresh_grant \<Rightarrow>
   (db, session_error, bool) op"
where
  "rotate_session cy st request nonce session_hash claim grant =
     bind_op (of_result (session_id_hash cy st (rg_session_id grant))) (\<lambda>new_hash.
     bind_op (read_session_cookie cy st (Some (rg_cookie grant))) (\<lambda>claims.
     bind_op (finalize_oidc_browser_session_refresh session_hash new_hash) (\<lambda>finalized.
     if \<not> finalized then return_op False
     else
       bind_op (create_rotated_session cy st request nonce session_hash new_hash (seconds (ok_expires_at claims)) claim grant)
         (\<lambda>_. return_op True))))"

section \<open>Responses\<close>

datatype cookie_name = SessionCookie | CsrfCookie | LoginCookie

text \<open>A cookie that is set has its value, its age and whether scripts cannot read it; names, paths and the other attributes
  come from the settings.\<close>

datatype cookie_write = SetCookie cookie_name string int bool | DeleteCookie cookie_name

record http_response =
  rp_status :: nat
  rp_location :: "(string \<times> (string \<times> string) list) option"
  rp_detail :: dict
  rp_cookies :: "cookie_write list"

definition delete_oidc_session_cookie :: "cookie_write list" where
  "delete_oidc_session_cookie = [DeleteCookie SessionCookie, DeleteCookie CsrfCookie]"

definition set_oidc_session_cookies ::
  "crypto \<Rightarrow> session_settings \<Rightarrow> string \<Rightarrow> string \<Rightarrow> int \<Rightarrow> (db, session_error, cookie_write list) op"
where
  "set_oidc_session_cookies cy st cookie_value session_id max_age =
     bind_op (of_result (csrf_token_for_session cy st session_id)) (\<lambda>csrf_token.
     return_op [SetCookie SessionCookie cookie_value max_age True, SetCookie CsrfCookie csrf_token max_age False])"

text \<open>\<^verbatim>\<open>try .. except\<close>: the handler gets the error and raises again what it does not handle.\<close>

definition catch_op :: "('s, 'e, 'a) op \<Rightarrow> ('e \<Rightarrow> ('s, 'e, 'a) op) \<Rightarrow> ('s, 'e, 'a) op" where
  "catch_op m handler s = (case m s of (Inl e, t) \<Rightarrow> handler e t | (Inr x, t) \<Rightarrow> (Inr x, t))"

definition not_configured :: "string \<Rightarrow> string \<Rightarrow> route_error" where
  "not_configured message reason_text =
     HTTPException 503 [(''code'', JStr ''AUTH_REQUIRED''), (''message'', JStr message), (''reason'', JStr reason_text)]"

section \<open>Login\<close>

text \<open>The identity provider and the verifier of its tokens: the token endpoint for a form, the principal of an authorization
  header, and the claims of an ID token for a client, a nonce and an access token.\<close>

record identity_provider =
  ip_exchange :: "(string \<times> string) list \<Rightarrow> session_error + dict"
  ip_verify :: "string \<Rightarrow> oidc_error + oidc_principal"
  ip_verify_id :: "string \<Rightarrow> string \<Rightarrow> string \<Rightarrow> string \<Rightarrow> oidc_error + dict"

definition verified :: "oidc_error + 'a \<Rightarrow> (db, session_error, 'a) op" where
  "verified r = of_result (case r of Inl e \<Rightarrow> Inl (OidcVerifierError e) | Inr x \<Rightarrow> Inr x)"

definition required_token :: "dict \<Rightarrow> string \<Rightarrow> string \<Rightarrow> (db, session_error, string) op" where
  "required_token token_response name missing =
     (case text_token token_response name of None \<Rightarrow> raise_op (OidcTokenExchangeError missing) | Some t \<Rightarrow> return_op t)"

definition oidc_authorize ::
  "crypto \<Rightarrow> session_settings \<Rightarrow> string \<times> string \<times> string \<Rightarrow> (string \<Rightarrow> string) \<Rightarrow> string list \<Rightarrow> string \<Rightarrow>
   (db, session_error, http_response) op"
where
  "oidc_authorize cy st tokens challenge scope_text return_to =
     catch_op
       (bind_op (build_authorization_request cy st tokens challenge scope_text return_to)
          (\<lambda>(endpoint, query, cookie, max_age).
          return_op \<lparr>rp_status = 307, rp_location = Some (endpoint, query), rp_detail = [],
            rp_cookies = [SetCookie LoginCookie cookie max_age True]\<rparr>))
       (\<lambda>e. case e of
          OidcCodeFlowConfigurationError r \<Rightarrow>
            raise_op (SessionRoute (not_configured ''OIDC authorization-code login is not configured.'' r))
        | _ \<Rightarrow> raise_op e)"

text \<open>The callback up to the verified principal, the rest up to the cookie and the session to store, and the handler of what
  both raise, which knows the principal when there is one.\<close>

definition callback_exchange ::
  "crypto \<Rightarrow> session_settings \<Rightarrow> identity_provider \<Rightarrow> browser_request \<Rightarrow> string \<Rightarrow> string \<Rightarrow>
   (db, session_error, oidc_login_state \<times> dict \<times> string \<times> string \<times> oidc_principal) op"
where
  "callback_exchange cy st ip request code state =
     bind_op (read_login_state cy st (br_login_cookie request)) (\<lambda>login_state.
     if ol_state login_state \<noteq> state then raise_op (OidcCookieValidationError ''oidc_state_mismatch'')
     else
       bind_op (of_result (build_token_exchange_form st code login_state)) (\<lambda>form.
       bind_op (of_result (ip_exchange ip form)) (\<lambda>token_response.
       bind_op (required_token token_response ''access_token'' ''missing_access_token'') (\<lambda>access_token.
       bind_op (required_token token_response ''id_token'' ''missing_id_token'') (\<lambda>id_token.
       bind_op (verified (ip_verify ip (''Bearer '' @ access_token))) (\<lambda>p.
       return_op (login_state, token_response, access_token, id_token, p)))))))"

definition absolute_deadline :: "session_settings \<Rightarrow> (db, session_error, timestamp option) op" where
  "absolute_deadline st =
     (if 0 < ss_absolute_timeout_seconds st
      then bind_op utc_now (\<lambda>now. return_op (Some (now + seconds (ss_absolute_timeout_seconds st)))) else return_op None)"

definition stored_refresh_token ::
  "crypto \<Rightarrow> session_settings \<Rightarrow> string \<Rightarrow> dict \<Rightarrow> (db, session_error, string option) op"
where
  "stored_refresh_token cy st nonce token_response =
     (case (text_token token_response ''refresh_token'', nonempty (ss_refresh_token_encryption_key st)) of
        (Some refresh_token, Some _) \<Rightarrow>
          bind_op (of_result (encrypt_refresh_token cy st nonce refresh_token)) (\<lambda>ciphertext. return_op (Some ciphertext))
      | _ \<Rightarrow> return_op None)"

definition callback_session ::
  "crypto \<Rightarrow> session_settings \<Rightarrow> identity_provider \<Rightarrow> string \<Rightarrow> string \<Rightarrow> browser_request \<Rightarrow>
   oidc_login_state \<times> dict \<times> string \<times> string \<times> oidc_principal \<Rightarrow>
   (db, session_error, string \<times> int \<times> session_login) op"
where
  "callback_session cy st ip new_session_id nonce request exchanged =
     (case exchanged of (login_state, token_response, access_token, id_token, p) \<Rightarrow>
     bind_op (verified (ip_verify_id ip id_token (opt_text (ss_client_id st)) (ol_nonce login_state) access_token)) (\<lambda>id_claims.
     if dget id_claims ''sub'' \<noteq> jopt JStr (op_subject_id p)
     then raise_op (OidcVerifierError (OidcAuthenticationError ''id_token_subject_mismatch''))
     else
       bind_op (session_cookie_from_principal cy st token_response p new_session_id
          (if 0 < ss_absolute_timeout_seconds st then Some (ss_absolute_timeout_seconds st) else None))
         (\<lambda>(cookie, max_age, session_id).
       bind_op (read_session_cookie cy st (Some cookie)) (\<lambda>claims.
       bind_op (of_result (session_id_hash cy st session_id)) (\<lambda>session_hash.
       bind_op (absolute_deadline st) (\<lambda>absolute_expires_at.
       bind_op (stored_refresh_token cy st nonce token_response) (\<lambda>ciphertext.
       return_op (cookie, max_age,
         \<lparr>lg_principal = p, lg_session_hash = session_hash, lg_expires_at = seconds (ok_expires_at claims),
          lg_absolute_expires_at = absolute_expires_at, lg_refresh_token_ciphertext = ciphertext,
          lg_metadata = extract_session_client_metadata cy st request\<rparr>))))))))"

definition callback_store ::
  "session_settings \<Rightarrow> string \<Rightarrow> string \<Rightarrow> session_login \<Rightarrow> (db, session_error, browser_session) op"
where
  "callback_store st admission_mode dialect l =
     bind_op (session_scope (login_guard admission_mode (lg_principal l))) (\<lambda>block_reason.
     case block_reason of
       Some denial \<Rightarrow>
         raise_op (SessionRoute (HTTPException 403
           [(''code'', JStr ''PERMISSION_DENIED''), (''message'', JStr ''The tenant for this login is not active.''),
            (''reason'', JStr denial)]))
     | None \<Rightarrow> session_scope (admit_login st dialect l))"

definition callback_error :: "oidc_principal option \<Rightarrow> session_error \<Rightarrow> (db, session_error, 'a) op" where
  "callback_error the_principal e =
     (case e of
        OidcCookieValidationError r \<Rightarrow>
          raise_op (SessionRoute (refresh_precondition_error 401 ''AUTH_REQUIRED''
            ''OIDC login state could not be verified.'' r))
      | OidcCodeFlowConfigurationError r \<Rightarrow>
          raise_op (SessionRoute (not_configured ''OIDC authorization-code login is not configured.'' r))
      | OidcTokenExchangeError r \<Rightarrow>
          bind_op (session_scope (record_oidc_login_failure r the_principal)) (\<lambda>_.
          raise_op (SessionRoute (refresh_precondition_error 401 ''AUTH_REQUIRED''
            ''OIDC authorization-code exchange could not be completed.'' r)))
      | OidcVerifierError (OidcAuthenticationError r) \<Rightarrow>
          bind_op (session_scope (record_oidc_login_failure r the_principal)) (\<lambda>_.
          raise_op (SessionRoute (refresh_precondition_error 401 ''AUTH_REQUIRED''
            ''OIDC authorization-code exchange could not be completed.'' r)))
      | _ \<Rightarrow> raise_op e)"

definition oidc_callback ::
  "crypto \<Rightarrow> session_settings \<Rightarrow> string \<Rightarrow> string \<Rightarrow> identity_provider \<Rightarrow> string \<Rightarrow> string \<Rightarrow> browser_request \<Rightarrow> string \<Rightarrow>
   string \<Rightarrow> (db, session_error, http_response) op"
where
  "oidc_callback cy st admission_mode dialect ip new_session_id nonce request code state =
     bind_op (catch_op (callback_exchange cy st ip request code state) (callback_error None)) (\<lambda>exchanged.
     case exchanged of (login_state, token_response, access_token, id_token, p) \<Rightarrow>
     bind_op (catch_op
         (bind_op (callback_session cy st ip new_session_id nonce request exchanged) (\<lambda>(cookie, max_age, l).
          bind_op (callback_store st admission_mode dialect l) (\<lambda>_. return_op (cookie, max_age))))
         (callback_error (Some p))) (\<lambda>(cookie, max_age).
     bind_op (set_oidc_session_cookies cy st cookie new_session_id max_age) (\<lambda>cookies.
     return_op \<lparr>rp_status = 307, rp_location = Some (public_redirect st (ol_return_to login_state), []), rp_detail = [],
       rp_cookies = cookies @ [DeleteCookie LoginCookie]\<rparr>)))"

section \<open>Logout\<close>

definition logout_session :: "string \<Rightarrow> string \<Rightarrow> bool \<Rightarrow> (db, session_error, unit) op" where
  "logout_session session_hash revocation_reason federated_logout =
     bind_op (get_op (get_oidc_browser_session_by_hash session_hash)) (\<lambda>stored.
     case stored of
       None \<Rightarrow> return_op ()
     | Some row \<Rightarrow>
         if bs_status row = ''revoked'' then return_op ()
         else revoke_with_event row revocation_reason (bs_actor_id row) federated_logout [])"

definition cookie_session_hash ::
  "crypto \<Rightarrow> session_settings \<Rightarrow> string option \<Rightarrow> (db, session_error, oidc_session_cookie \<times> string) op"
where
  "cookie_session_hash cy st cookie =
     bind_op (read_session_cookie cy st cookie) (\<lambda>oidc_session.
     bind_op (of_result (session_id_hash cy st (ok_session_id oidc_session))) (\<lambda>session_hash.
     return_op (oidc_session, session_hash)))"

definition revoke_oidc_session_from_cookie ::
  "crypto \<Rightarrow> session_settings \<Rightarrow> browser_request \<Rightarrow> string \<Rightarrow> bool \<Rightarrow> (db, session_error, unit) op"
where
  "revoke_oidc_session_from_cookie cy st request revocation_reason federated_logout =
     (case nonempty (br_session_cookie request) of
        None \<Rightarrow> return_op ()
      | Some cookie \<Rightarrow>
          bind_op (catch_op
              (bind_op (cookie_session_hash cy st (Some cookie)) (\<lambda>(_, session_hash). return_op (Some session_hash)))
              (\<lambda>e. case e of
                 OidcCodeFlowConfigurationError _ \<Rightarrow> return_op None
               | OidcCookieValidationError _ \<Rightarrow> return_op None
               | _ \<Rightarrow> raise_op e)) (\<lambda>found.
          case found of
            None \<Rightarrow> return_op ()
          | Some session_hash \<Rightarrow> session_scope (logout_session session_hash revocation_reason federated_logout)))"

definition oidc_federated_logout ::
  "crypto \<Rightarrow> session_settings \<Rightarrow> browser_request \<Rightarrow> string \<Rightarrow> (db, session_error, http_response) op"
where
  "oidc_federated_logout cy st request return_to =
     (case build_end_session_redirect st return_to of
        Inl (OidcCodeFlowConfigurationError r) \<Rightarrow>
          raise_op (SessionRoute (not_configured ''OIDC federated logout is not configured.'' r))
      | Inl e \<Rightarrow> raise_op e
      | Inr redirect \<Rightarrow>
          bind_op (revoke_oidc_session_from_cookie cy st request ''federated_logout'' True) (\<lambda>_.
          return_op \<lparr>rp_status = 307, rp_location = Some redirect, rp_detail = [],
            rp_cookies = delete_oidc_session_cookie\<rparr>))"

definition identity_session_logout ::
  "crypto \<Rightarrow> session_settings \<Rightarrow> browser_request \<Rightarrow> (db, session_error, http_response) op"
where
  "identity_session_logout cy st request =
     bind_op (revoke_oidc_session_from_cookie cy st request ''user_logout'' False) (\<lambda>_.
     return_op \<lparr>rp_status = 204, rp_location = None, rp_detail = [], rp_cookies = delete_oidc_session_cookie\<rparr>)"

section \<open>Refresh\<close>

definition refresh_exchange ::
  "crypto \<Rightarrow> session_settings \<Rightarrow> identity_provider \<Rightarrow> string \<Rightarrow> session_refresh_claim \<Rightarrow> (db, session_error, refresh_grant) op"
where
  "refresh_exchange cy st ip new_session_id claim =
     bind_op (of_result (build_refresh_token_form st (rf_refresh_token claim))) (\<lambda>form.
     bind_op (of_result (ip_exchange ip form)) (\<lambda>token_response.
     bind_op (required_token token_response ''access_token'' ''missing_access_token'') (\<lambda>access_token.
     bind_op (verified (ip_verify ip (''Bearer '' @ access_token))) (\<lambda>p.
     if sp_actor_id p \<noteq> rf_actor_id claim \<or> sp_tenant_id p \<noteq> rf_tenant_id claim
     then raise_op (OidcVerifierError (OidcAuthenticationError ''refresh_principal_mismatch''))
     else
       bind_op (case rf_absolute_expires_at claim of
            None \<Rightarrow> return_op None
          | Some t \<Rightarrow> bind_op utc_now (\<lambda>now. return_op (Some (epoch_seconds (t - now))))) (\<lambda>max_age_ceiling.
       bind_op (session_cookie_from_principal cy st token_response p new_session_id max_age_ceiling)
         (\<lambda>(cookie, max_age, session_id).
       return_op \<lparr>rg_token_response = token_response, rg_principal = p, rg_cookie = cookie, rg_max_age = max_age,
         rg_session_id = session_id\<rparr>))))))"

definition refresh_rejected :: "string \<Rightarrow> http_response" where
  "refresh_rejected failure_reason =
     \<lparr>rp_status = 401, rp_location = None,
      rp_detail = [(''code'', JStr ''AUTH_REQUIRED''),
        (''message'', JStr ''The OIDC session refresh failed and the session was revoked.''), (''reason'', JStr failure_reason)],
      rp_cookies = delete_oidc_session_cookie\<rparr>"

text \<open>The third phase, from what the exchange came to.\<close>

definition finish_refresh ::
  "crypto \<Rightarrow> session_settings \<Rightarrow> browser_request \<Rightarrow> string \<Rightarrow> string \<Rightarrow> session_refresh_claim \<Rightarrow> session_error + refresh_grant \<Rightarrow>
   (db, session_error, http_response) op"
where
  "finish_refresh cy st request nonce session_hash claim exchanged =
     (let failed = (\<lambda>r. bind_op (session_scope (fail_refresh session_hash claim r)) (\<lambda>_. return_op (refresh_rejected r)))
      in case exchanged of
           Inl (OidcCodeFlowConfigurationError r) \<Rightarrow>
             bind_op (session_scope (release_oidc_browser_session_refresh session_hash)) (\<lambda>_.
             raise_op (SessionRoute (not_configured ''OIDC session refresh is not configured.'' r)))
         | Inl (OidcTokenExchangeError r) \<Rightarrow> failed r
         | Inl (OidcVerifierError (OidcAuthenticationError r)) \<Rightarrow> failed r
         | Inl e \<Rightarrow> raise_op e
         | Inr grant \<Rightarrow>
             bind_op (session_scope (rotate_session cy st request nonce session_hash claim grant)) (\<lambda>rotated.
             if \<not> rotated then return_op (refresh_rejected ''invalid_session_cookie'')
             else
               bind_op (set_oidc_session_cookies cy st (rg_cookie grant) (rg_session_id grant) (rg_max_age grant)) (\<lambda>cookies.
               return_op \<lparr>rp_status = 204, rp_location = None, rp_detail = [], rp_cookies = cookies\<rparr>)))"

definition identity_session_refresh ::
  "crypto \<Rightarrow> session_settings \<Rightarrow> string \<Rightarrow> identity_provider \<Rightarrow> string \<Rightarrow> string \<Rightarrow> browser_request \<Rightarrow>
   (db, session_error, http_response) op"
where
  "identity_session_refresh cy st admission_mode ip new_session_id nonce request =
     (case nonempty (br_session_cookie request) of
        None \<Rightarrow>
          raise_op (SessionRoute (refresh_precondition_error 401 ''AUTH_REQUIRED''
            ''An Axis browser session cookie is required to refresh.'' ''missing_session_cookie''))
      | Some cookie \<Rightarrow>
          bind_op (catch_op (cookie_session_hash cy st (Some cookie))
              (\<lambda>e. case e of
                 OidcCodeFlowConfigurationError r \<Rightarrow>
                   raise_op (SessionRoute (not_configured ''OIDC browser sessions are not configured.'' r))
               | OidcCookieValidationError _ \<Rightarrow> raise_op (SessionRoute unverified_cookie)
               | _ \<Rightarrow> raise_op e)) (\<lambda>(_, session_hash).
          bind_op (session_scope (claim_session_refresh cy st admission_mode session_hash)) (\<lambda>claimed.
          case claimed of
            Inl refusal \<Rightarrow> raise_op (SessionRoute refusal)
          | Inr claim \<Rightarrow>
              (\<lambda>s. case refresh_exchange cy st ip new_session_id claim s of
                 (exchanged, t) \<Rightarrow> finish_refresh cy st request nonce session_hash claim exchanged t))))"

section \<open>The principal of a request\<close>

text \<open>The state of one request: the process, \<^verbatim>\<open>request.state.axis_principal\<close>, and what metering keeps of the request.\<close>

record request_world =
  rw_app :: app
  rw_principal :: "oidc_principal option"
  rw_metered :: metered_request

definition on_db :: "(db, session_error, 'a) op \<Rightarrow> (request_world, session_error, 'a) op" where
  "on_db m w = (case m (app_db (rw_app w)) of (r, t) \<Rightarrow> (r, w\<lparr>rw_app := (rw_app w)\<lparr>app_db := t\<rparr>\<rparr>))"

definition in_session :: "tenant_settings \<Rightarrow> (db, session_error, 'a) op \<Rightarrow> (request_world, session_error, 'a) op" where
  "in_session cfg m = (if ts_db_available cfg then on_db (session_scope m) else raise_op (SessionRoute DatabaseUnavailable))"

definition admit_principal ::
  "tenant_settings \<Rightarrow> pyfloat \<Rightarrow> browser_request \<Rightarrow> oidc_principal \<Rightarrow> (request_world, session_error, unit) op"
where
  "admit_principal cfg observed_at request p w =
     (case enforce_tenant_admission cfg observed_at (http_request.truncate request) p (rw_app w) of
        (Inl e, a) \<Rightarrow> (Inl (SessionRoute e), w\<lparr>rw_app := a\<rparr>)
      | (Inr _, a) \<Rightarrow> (Inr (), w\<lparr>rw_app := a\<rparr>))"

definition COOKIE_FAILURE_CLASSES :: "string list" where
  "COOKIE_FAILURE_CLASSES =
     [''invalid_session_cookie'', ''revoked_session_cookie'', ''expired_session_cookie'', ''idle_session_timeout'']"

definition public_cookie_reason :: "string \<Rightarrow> string" where
  "public_cookie_reason r = (if r \<in> set COOKIE_FAILURE_CLASSES then r else ''invalid_session_cookie'')"

text \<open>The principal is remembered for the rest of the request.\<close>

definition resolve_admitted ::
  "tenant_settings \<Rightarrow> pyfloat \<Rightarrow> browser_request \<Rightarrow> oidc_principal \<Rightarrow>
   (request_world, session_error, string + oidc_principal option) op"
where
  "resolve_admitted cfg observed_at request p =
     bind_op (admit_principal cfg observed_at request p) (\<lambda>_.
     bind_op (put_op (\<lambda>w. w\<lparr>rw_principal := Some p\<rparr>)) (\<lambda>_.
     return_op (Inr (Some p))))"

definition resolve_cookie ::
  "crypto \<Rightarrow> session_settings \<Rightarrow> tenant_settings \<Rightarrow> pyfloat \<Rightarrow> browser_request \<Rightarrow> string \<Rightarrow>
   (request_world, session_error, string + oidc_principal option) op"
where
  "resolve_cookie cy st cfg observed_at request cookie =
     catch_op
       (bind_op (on_db (cookie_session_hash cy st (Some cookie))) (\<lambda>(oidc_session, session_hash).
        bind_op (in_session cfg (present_session st oidc_session session_hash)) (\<lambda>presented.
        case presented of
          Inl failure \<Rightarrow> return_op (Inl failure)
        | Inr p \<Rightarrow> resolve_admitted cfg observed_at request p)))
       (\<lambda>e. case e of
          OidcCodeFlowConfigurationError r \<Rightarrow> return_op (Inl (public_cookie_reason r))
        | OidcCookieValidationError r \<Rightarrow> return_op (Inl (public_cookie_reason r))
        | _ \<Rightarrow> raise_op e)"

text \<open>\<^verbatim>\<open>_resolve_request_principal\<close>: the reason of a refusal, or the principal, or nothing for an anonymous request.\<close>

definition resolve_request_principal ::
  "crypto \<Rightarrow> session_settings \<Rightarrow> tenant_settings \<Rightarrow> identity_provider \<Rightarrow> pyfloat \<Rightarrow> browser_request \<Rightarrow>
   (request_world, session_error, string + oidc_principal option) op"
where
  "resolve_request_principal cy st cfg ip observed_at request =
     bind_op (get_op rw_principal) (\<lambda>cached_principal.
     case nonempty (br_authorization request) of
       Some authorization \<Rightarrow>
         (case cached_principal of
            Some p \<Rightarrow> bind_op (admit_principal cfg observed_at request p) (\<lambda>_. return_op (Inr (Some p)))
          | None \<Rightarrow>
              (case ip_verify ip authorization of
                 Inl (OidcAuthenticationError r) \<Rightarrow> return_op (Inl r)
               | Inl e \<Rightarrow> raise_op (OidcVerifierError e)
               | Inr p \<Rightarrow> resolve_admitted cfg observed_at request p))
     | None \<Rightarrow>
         (case nonempty (br_session_cookie request) of
            Some cookie \<Rightarrow> resolve_cookie cy st cfg observed_at request cookie
          | None \<Rightarrow>
              if ss_auth_required st then return_op (Inl ''missing_authorization'')
              else bind_op (put_op (\<lambda>w. w\<lparr>rw_principal := None\<rparr>)) (\<lambda>_. return_op (Inr None))))"

definition authentication_refused :: "string \<Rightarrow> route_error" where
  "authentication_refused failure_reason =
     HTTPException 401
       [(''code'', JStr ''AUTH_REQUIRED''),
        (''message'', JStr (if failure_reason \<in> set COOKIE_FAILURE_CLASSES
           then ''The OIDC session cookie could not be verified.'' else ''A valid OIDC bearer token is required.'')),
        (''reason'', JStr failure_reason)]"

text \<open>\<^verbatim>\<open>_record_request_usage_admission\<close> on the process of the request.\<close>

definition record_usage ::
  "admission_recorder option \<Rightarrow> string \<Rightarrow> commit_outcome \<Rightarrow> bool \<Rightarrow> oidc_principal \<Rightarrow> (request_world, session_error, unit) op"
where
  "record_usage recorder failure_mode outcome read_ok p w =
     (case record_request_usage_admission recorder failure_mode outcome read_ok p
             \<lparr>am_db = app_db (rw_app w), am_request = rw_metered w\<rparr> of
        (r, a) \<Rightarrow>
          (case r of Inl e \<Rightarrow> Inl (SessionRoute e) | Inr _ \<Rightarrow> Inr (),
           w\<lparr>rw_app := (rw_app w)\<lparr>app_db := am_db a\<rparr>, rw_metered := am_request a\<rparr>))"

definition oidc_principal_of_request ::
  "crypto \<Rightarrow> session_settings \<Rightarrow> tenant_settings \<Rightarrow> identity_provider \<Rightarrow> pyfloat \<Rightarrow> admission_recorder option \<Rightarrow> string \<Rightarrow>
   commit_outcome \<Rightarrow> bool \<Rightarrow> browser_request \<Rightarrow> (request_world, session_error, oidc_principal option) op"
where
  "oidc_principal_of_request cy st cfg ip observed_at recorder failure_mode outcome read_ok request =
     bind_op (resolve_request_principal cy st cfg ip observed_at request) (\<lambda>resolved.
     case resolved of
       Inr (Some p) \<Rightarrow> bind_op (record_usage recorder failure_mode outcome read_ok p) (\<lambda>_. return_op (Some p))
     | Inr None \<Rightarrow> return_op None
     | Inl failure_reason \<Rightarrow> raise_op (SessionRoute (authentication_refused failure_reason)))"

section \<open>The inventory of sessions\<close>

definition require_identity_principal :: "oidc_principal option \<Rightarrow> route_error + oidc_principal" where
  "require_identity_principal the_principal =
     (case the_principal of
        None \<Rightarrow> Inl (refresh_precondition_error 401 ''AUTH_REQUIRED'' ''An authenticated OIDC actor is required.''
                 ''missing_authorization'')
      | Some p \<Rightarrow> Inr p)"

definition require_session_admin_scope :: "oidc_principal \<Rightarrow> string \<Rightarrow> route_error + unit" where
  "require_session_admin_scope p resource =
     (case authorize_principal_scopes (sp_tenant_id p) (Some (scope_principal.truncate p)) [IDENTITY_SESSION_ADMIN_SCOPE]
             [(''surface'', JStr ''identity''), (''resource'', JStr resource)]
             ''Managing other actors' sessions requires the admin scope.'' TENANT_MISMATCH_MESSAGE None None False of
        Inl (ScopeAuthorizationError decision scopes denied_message) \<Rightarrow>
          Inl (scope_denial_http_exception decision scopes denied_message None)
      | Inl PermissionRequestInvalid \<Rightarrow> Inl (Unhandled TenantValueError)
      | Inr _ \<Rightarrow> Inr ())"

definition route_result :: "route_error + 'a \<Rightarrow> (db, session_error, 'a) op" where
  "route_result r = of_result (case r of Inl e \<Rightarrow> Inl (SessionRoute e) | Inr x \<Rightarrow> Inr x)"

definition current_session_hash ::
  "crypto \<Rightarrow> session_settings \<Rightarrow> browser_request \<Rightarrow> (db, session_error, string option) op"
where
  "current_session_hash cy st request =
     (case nonempty (br_session_cookie request) of
        None \<Rightarrow> return_op None
      | Some cookie \<Rightarrow>
          bind_op (catch_op (bind_op (read_session_cookie cy st (Some cookie)) (\<lambda>c. return_op (Some c)))
            (\<lambda>e. case e of
               OidcCodeFlowConfigurationError _ \<Rightarrow> return_op None
             | OidcCookieValidationError _ \<Rightarrow> return_op None
             | _ \<Rightarrow> raise_op e)) (\<lambda>found.
          case found of
            None \<Rightarrow> return_op None
          | Some oidc_session \<Rightarrow>
              bind_op (of_result (session_id_hash cy st (ok_session_id oidc_session))) (\<lambda>session_hash.
              return_op (Some session_hash))))"

record session_record =
  sv_session_ref :: string
  sv_actor_id :: string
  sv_status :: string
  sv_current :: bool
  sv_created_at :: timestamp
  sv_expires_at :: timestamp
  sv_absolute_expires_at :: "timestamp option"
  sv_last_seen_at :: "timestamp option"
  sv_refresh_count :: int
  sv_user_agent :: "string option"
  sv_client_ip :: "string option"
  sv_device_label :: "string option"
  sv_revoked_at :: "timestamp option"
  sv_revocation_reason :: "string option"

definition session_record_of :: "string option \<Rightarrow> browser_session \<Rightarrow> session_record" where
  "session_record_of current_hash r =
     \<lparr>sv_session_ref = uuid_text (bs_id r), sv_actor_id = bs_actor_id r, sv_status = bs_status r,
      sv_current = (Some (bs_session_id_hash r) = current_hash), sv_created_at = bs_created_at r,
      sv_expires_at = bs_expires_at r, sv_absolute_expires_at = bs_absolute_expires_at r,
      sv_last_seen_at = bs_last_seen_at r, sv_refresh_count = bs_refresh_count r, sv_user_agent = bs_user_agent r,
      sv_client_ip = bs_client_ip r, sv_device_label = bs_device_label r, sv_revoked_at = bs_revoked_at r,
      sv_revocation_reason = bs_revocation_reason r\<rparr>"

record session_page =
  sl_tenant_id :: string
  sl_actor_id :: string
  sl_tenant_wide :: bool
  sl_sessions :: "session_record list"
  sl_has_more :: bool
  sl_next_cursor :: "(timestamp \<times> uuid) option"

text \<open>A cursor is kept as the pair it encodes; \<open>Inl\<close> is the reason for which \<^verbatim>\<open>decode_session_cursor\<close> refuses a text.\<close>

definition page_of_sessions ::
  "oidc_principal \<Rightarrow> bool \<Rightarrow> nat \<Rightarrow> string option \<Rightarrow> browser_session list \<Rightarrow> session_page"
where
  "page_of_sessions p tenant_wide page_size current_hash stored =
     (let has_more = page_size < length stored; page = take page_size stored
      in \<lparr>sl_tenant_id = sp_tenant_id p, sl_actor_id = sp_actor_id p, sl_tenant_wide = tenant_wide,
          sl_sessions = map (session_record_of current_hash) page, sl_has_more = has_more,
          sl_next_cursor = (if has_more \<and> page \<noteq> [] then Some (bs_created_at (last page), bs_id (last page)) else None)\<rparr>)"

definition identity_sessions ::
  "crypto \<Rightarrow> session_settings \<Rightarrow> browser_request \<Rightarrow> oidc_principal option \<Rightarrow> bool \<Rightarrow> nat \<Rightarrow>
   string + (timestamp \<times> uuid) option \<Rightarrow> (db, session_error, session_page) op"
where
  "identity_sessions cy st request the_principal tenant_wide page_size cursor =
     (if \<not> (1 \<le> page_size \<and> page_size \<le> 100) then raise_op (SessionRoute unprocessable)
      else
        bind_op (route_result (require_identity_principal the_principal)) (\<lambda>p.
        bind_op (if tenant_wide then route_result (require_session_admin_scope p ''session_listing'') else return_op ()) (\<lambda>_.
        case cursor of
          Inl r \<Rightarrow>
            raise_op (SessionRoute (refresh_precondition_error 422 ''VALIDATION_FAILED''
              ''The session listing cursor is invalid.'' r))
        | Inr position \<Rightarrow>
            bind_op (current_session_hash cy st request) (\<lambda>current_hash.
            bind_op (get_op (list_oidc_browser_sessions (sp_tenant_id p)
               (if tenant_wide then None else Some (sp_actor_id p)) position (page_size + 1))) (\<lambda>stored.
            return_op (page_of_sessions p tenant_wide page_size current_hash stored))))))"

text \<open>The transaction of \<^verbatim>\<open>identity_session_revoke\<close>, which reads the row under a lock.\<close>

definition revoke_by_reference :: "oidc_principal \<Rightarrow> uuid \<Rightarrow> (db, session_error, unit) op" where
  "revoke_by_reference p session_ref =
     bind_op (get_op (get_oidc_browser_session (sp_tenant_id p) session_ref)) (\<lambda>stored.
     case stored of
       None \<Rightarrow>
         raise_op (SessionRoute (refresh_precondition_error 404 ''NOT_FOUND''
           ''The browser session was not found in this tenant.'' ''session_not_found''))
     | Some row \<Rightarrow>
         bind_op (if bs_actor_id row \<noteq> sp_actor_id p
                  then bind_op (route_result (require_session_admin_scope p ''session_revocation'')) (\<lambda>_.
                       return_op ''admin_revocation'')
                  else return_op ''self_revocation'') (\<lambda>revocation_reason.
         if live_status row then expire_stored_session row revocation_reason (sp_actor_id p) else return_op ()))"

definition identity_session_revoke :: "oidc_principal option \<Rightarrow> uuid \<Rightarrow> (db, session_error, nat) op" where
  "identity_session_revoke the_principal session_ref =
     bind_op (route_result (require_identity_principal the_principal)) (\<lambda>p.
     bind_op (session_scope (revoke_by_reference p session_ref)) (\<lambda>_. return_op 204))"

section \<open>The scheduled sweep\<close>

definition SCHEDULED_JOBS_ACTOR :: string where "SCHEDULED_JOBS_ACTOR = ''axis-scheduled-jobs''"

definition load_active_or_refreshing_session :: "uuid \<Rightarrow> db \<Rightarrow> browser_session option" where
  "load_active_or_refreshing_session session_row_id s =
     (case get_oidc_browser_session_by_row_id session_row_id s of
        Some row \<Rightarrow> if live_status row then Some row else None
      | None \<Rightarrow> None)"

definition revoke_session_via_sweep :: "browser_session \<Rightarrow> string \<Rightarrow> (db, session_error, unit) op" where
  "revoke_session_via_sweep row revocation_reason =
     revoke_with_event row revocation_reason OIDC_SESSION_LIFECYCLE_ACTOR False
       [(''swept_by'', JStr SCHEDULED_JOBS_ACTOR)]"

definition sweep_row :: "string \<Rightarrow> uuid \<Rightarrow> (db, session_error, nat) op" where
  "sweep_row revocation_reason session_row_id =
     bind_op (get_op (load_active_or_refreshing_session session_row_id)) (\<lambda>found.
     case found of
       None \<Rightarrow> return_op 0
     | Some row \<Rightarrow> bind_op (revoke_session_via_sweep row revocation_reason) (\<lambda>_. return_op 1))"

fun sweep_rows :: "string \<Rightarrow> uuid list \<Rightarrow> (db, session_error, nat) op" where
  "sweep_rows revocation_reason [] = return_op 0"
| "sweep_rows revocation_reason (i # ids) =
     bind_op (sweep_row revocation_reason i) (\<lambda>n. bind_op (sweep_rows revocation_reason ids) (\<lambda>m. return_op (n + m)))"

text \<open>After a failed batch every row gets a transaction of its own, and the rows that fail are listed.\<close>

fun sweep_each :: "string \<Rightarrow> string \<Rightarrow> uuid list \<Rightarrow> (db, session_error, nat \<times> (string \<times> uuid) list) op" where
  "sweep_each revocation_reason error_prefix [] = return_op (0, [])"
| "sweep_each revocation_reason error_prefix (i # ids) =
     bind_op (catch_op (bind_op (session_scope (sweep_row revocation_reason i)) (\<lambda>n. return_op (n, [])))
        (\<lambda>_. return_op (0, [(error_prefix, i)]))) (\<lambda>(n, errors).
     bind_op (sweep_each revocation_reason error_prefix ids) (\<lambda>(m, more_errors).
     return_op (n + m, errors @ more_errors)))"

definition sweep_session_batch ::
  "string \<Rightarrow> string \<Rightarrow> uuid list \<Rightarrow> (db, session_error, nat \<times> (string \<times> uuid) list) op"
where
  "sweep_session_batch revocation_reason error_prefix ids =
     catch_op (bind_op (session_scope (sweep_rows revocation_reason ids)) (\<lambda>n. return_op (n, [])))
       (\<lambda>_. sweep_each revocation_reason error_prefix ids)"

definition TENANT_PAGE_SIZE :: nat where "TENANT_PAGE_SIZE = 500"

function iter_batches :: "nat \<Rightarrow> 'a list \<Rightarrow> 'a list list" where
  "iter_batches n xs = (if n = 0 \<or> xs = [] then [] else take n xs # iter_batches n (drop n xs))"
  by pat_completeness auto
termination by (relation "measure (length \<circ> snd)") auto

declare iter_batches.simps [simp del]

fun sweep_batches ::
  "string \<Rightarrow> string \<Rightarrow> uuid list list \<Rightarrow> (db, session_error, nat \<times> (string \<times> uuid) list) op"
where
  "sweep_batches revocation_reason error_prefix [] = return_op (0, [])"
| "sweep_batches revocation_reason error_prefix (b # batches) =
     bind_op (sweep_session_batch revocation_reason error_prefix b) (\<lambda>(n, errors).
     bind_op (sweep_batches revocation_reason error_prefix batches) (\<lambda>(m, more_errors).
     return_op (n + m, errors @ more_errors)))"

record job_run_result =
  jr_status :: string
  jr_tenants_scanned :: nat
  jr_items_scanned :: nat
  jr_items_affected :: nat
  jr_orphaned_revoked :: nat
  jr_expired_revoked :: nat
  jr_audit_event_ids :: "uuid list"
  jr_errors :: "(string \<times> uuid) list"

definition sweep_status :: "'a list \<Rightarrow> string" where
  "sweep_status errors = (if errors = [] then ''completed'' else ''partial_failure'')"

text \<open>\<^verbatim>\<open>tenant_id or default\<close>.\<close>

definition text_or :: "string option \<Rightarrow> string \<Rightarrow> string" where
  "text_or t fallback = (case nonempty t of Some v \<Rightarrow> v | None \<Rightarrow> fallback)"

definition sweep_summary_event :: "string option \<Rightarrow> string \<Rightarrow> nat \<Rightarrow> nat \<Rightarrow> nat \<Rightarrow> nat \<Rightarrow> nat \<Rightarrow> audit_event_create" where
  "sweep_summary_event tenant_id status orphaned_scanned orphaned_revoked expired_scanned expired_revoked error_count =
     session_event (text_or tenant_id ''platform'') SCHEDULED_JOBS_ACTOR ''platform.scheduled_job.session_sweep.completed''
       [(''category'', JStr ''scheduled_job''), (''job'', JStr ''orphaned_session_sweep''), (''status'', JStr status),
        (''tenant_scope'', JStr (text_or tenant_id ''all_tenants'')), (''orphaned_scanned'', JInt (int orphaned_scanned)),
        (''orphaned_revoked'', JInt (int orphaned_revoked)), (''expired_scanned'', JInt (int expired_scanned)),
        (''expired_revoked'', JInt (int expired_revoked)), (''error_count'', JInt (int error_count)),
        (''raw_payload_exported'', JBool False)]"

definition run_orphaned_session_sweep_job ::
  "session_settings \<Rightarrow> string option \<Rightarrow> timestamp option \<Rightarrow> (db, session_error, job_run_result) op"
where
  "run_orphaned_session_sweep_job st tenant_id now_arg =
     bind_op (case now_arg of Some t \<Rightarrow> return_op t | None \<Rightarrow> utc_now) (\<lambda>now.
     let claim_deadline = now - seconds (ss_refresh_claim_staleness_seconds st);
         idle_deadline = (if 0 < ss_idle_timeout_seconds st then Some (now - seconds (ss_idle_timeout_seconds st)) else None);
         limit = ss_sweep_batch_limit st
     in bind_op (get_op (\<lambda>s.
          (map bs_id (list_orphaned_refreshing_oidc_browser_sessions claim_deadline tenant_id limit s),
           map bs_id (list_expired_active_oidc_browser_sessions now idle_deadline tenant_id limit s))))
          (\<lambda>(orphaned_ids, expired_ids).
        bind_op (sweep_batches ''refresh_claim_orphaned_sweep'' ''orphaned'' (iter_batches TENANT_PAGE_SIZE orphaned_ids))
          (\<lambda>(orphaned_revoked, orphaned_errors).
        bind_op (sweep_batches ''session_expired_sweep'' ''expired'' (iter_batches TENANT_PAGE_SIZE expired_ids))
          (\<lambda>(expired_revoked, expired_errors).
        let errors = orphaned_errors @ expired_errors; status = sweep_status errors
        in bind_op (session_scope (append_audit_event (sweep_summary_event tenant_id status
              (length orphaned_ids) orphaned_revoked (length expired_ids) expired_revoked (length errors)))) (\<lambda>event.
           return_op
             \<lparr>jr_status = status, jr_tenants_scanned = (if tenant_id = None then 0 else 1),
              jr_items_scanned = length orphaned_ids + length expired_ids,
              jr_items_affected = orphaned_revoked + expired_revoked, jr_orphaned_revoked = orphaned_revoked,
              jr_expired_revoked = expired_revoked, jr_audit_event_ids = [ae_id event], jr_errors = errors\<rparr>)))))"

end
