(* ===== verification/Session_Lifecycle.thy ===== *)
theory Session_Lifecycle
  imports Browser_Sessions
begin

text \<open>
  What holds of the table of browser sessions in every history. The first part states what holds of a single row and how a
  row may change (\<open>session_row_ok\<close>, \<open>row_later\<close>, \<open>row_kept\<close>), the second shows that every operation of
  \<^theory_text>\<open>Browser_Sessions\<close> keeps it, and the third has the histories: \<open>session_step\<close> is one transaction of
  any request in any process, so that a \<open>session_run\<close> interleaves logins, refreshes, logouts, revocations and sweeps in
  any order, with the claims of the refreshes under way beside the database.
\<close>

section \<open>What holds of every row\<close>

text \<open>The columns that no transaction changes.\<close>

definition session_identity ::
  "browser_session \<Rightarrow> uuid \<times> string \<times> string \<times> string \<times> string list \<times> timestamp \<times> timestamp option \<times> int \<times> uuid option"
where
  "session_identity r = (bs_id r, bs_session_id_hash r, bs_tenant_id r, bs_actor_id r, bs_scopes r, bs_expires_at r,
     bs_absolute_expires_at r, bs_refresh_count r, bs_created_audit_event_id r)"

text \<open>The events that document a row: the one that created it and the one that revoked it.\<close>

definition documents_creation :: "browser_session \<Rightarrow> audit_event \<Rightarrow> bool" where
  "documents_creation r e \<longleftrightarrow> Some (ae_id e) = bs_created_audit_event_id r \<and> ae_tenant_id e = bs_tenant_id r
     \<and> ae_actor_id e = bs_actor_id r \<and> dget (ae_payload e) ''session_id_hash'' = JStr (bs_session_id_hash r)
     \<and> ae_event_type e = (if bs_refresh_count r = 0 then ''identity.oidc_session.created'' else ''identity.oidc_session.refreshed'')"

definition documents_revocation :: "browser_session \<Rightarrow> audit_event \<Rightarrow> bool" where
  "documents_revocation r e \<longleftrightarrow> Some (ae_id e) = bs_revoke_audit_event_id r \<and> ae_tenant_id e = bs_tenant_id r
     \<and> ae_actor_id e = bs_actor_id r \<and> ae_event_type e = OIDC_SESSION_REVOKED_EVENT_TYPE
     \<and> dget (ae_payload e) ''session_id_hash'' = JStr (bs_session_id_hash r)
     \<and> dget (ae_payload e) ''revocation_reason'' = jopt JStr (bs_revocation_reason r)"

definition unrevoked :: "browser_session \<Rightarrow> bool" where
  "unrevoked r \<longleftrightarrow> bs_revoked_at r = None \<and> bs_revoked_by r = None \<and> bs_revocation_reason r = None
     \<and> bs_revoke_audit_event_id r = None"

definition session_row_ok :: "audit_event list \<Rightarrow> browser_session \<Rightarrow> bool" where
  "session_row_ok events r \<longleftrightarrow>
     0 \<le> bs_refresh_count r \<and> (\<exists>e \<in> set events. documents_creation r e)
     \<and> (if bs_status r = ''revoked''
        then bs_refresh_token_ciphertext r = None \<and> bs_revoked_at r \<noteq> None \<and> bs_revoked_by r \<noteq> None
          \<and> bs_revocation_reason r \<noteq> None \<and> (\<exists>e \<in> set events. documents_revocation r e)
        else if bs_status r = ''rotated''
        then bs_refresh_token_ciphertext r = None \<and> bs_rotated_to_session_id_hash r \<noteq> None \<and> unrevoked r
        else live_status r \<and> bs_rotated_to_session_id_hash r = None \<and> unrevoked r)"

definition refreshed_into :: "browser_session \<Rightarrow> browser_session \<Rightarrow> bool" where
  "refreshed_into r c \<longleftrightarrow> bs_rotated_to_session_id_hash r = Some (bs_session_id_hash c) \<and> bs_tenant_id c = bs_tenant_id r
     \<and> bs_actor_id c = bs_actor_id r \<and> bs_absolute_expires_at c = bs_absolute_expires_at r
     \<and> bs_refresh_count c = bs_refresh_count r + 1"

definition sessions_ok :: "db \<Rightarrow> bool" where
  "sessions_ok s \<longleftrightarrow>
     distinct (map bs_session_id_hash (browser_sessions s)) \<and> distinct (map bs_id (browser_sessions s))
     \<and> (\<forall>r \<in> set (browser_sessions s). session_row_ok (audit_events s) r
          \<and> (bs_rotated_to_session_id_hash r \<noteq> None \<longrightarrow> (\<exists>c \<in> set (browser_sessions s). refreshed_into r c))
          \<and> (bs_refresh_count r \<noteq> 0 \<longrightarrow> (\<exists>q \<in> set (browser_sessions s). refreshed_into q r)))
     \<and> (\<forall>r \<in> set (browser_sessions s). \<forall>q \<in> set (browser_sessions s).
          bs_rotated_to_session_id_hash r \<noteq> None \<and> bs_rotated_to_session_id_hash q = bs_rotated_to_session_id_hash r \<longrightarrow> q = r)"

section \<open>How a table may change\<close>

text \<open>A row of an earlier table and the same row later: \<open>row_later\<close> is what every transaction respects, \<open>row_kept\<close> what
  those respect that neither release nor rotate a claimed row.\<close>

definition row_later :: "browser_session \<Rightarrow> browser_session \<Rightarrow> bool" where
  "row_later r r' \<longleftrightarrow> session_identity r' = session_identity r \<and> (bs_status r = ''revoked'' \<longrightarrow> r' = r)
     \<and> (bs_rotated_to_session_id_hash r \<noteq> None \<longrightarrow> bs_rotated_to_session_id_hash r' = bs_rotated_to_session_id_hash r
          \<and> bs_status r' \<in> {''rotated'', ''revoked''})"

definition row_kept :: "browser_session \<Rightarrow> browser_session \<Rightarrow> bool" where
  "row_kept r r' \<longleftrightarrow> row_later r r' \<and> bs_rotated_to_session_id_hash r' = bs_rotated_to_session_id_hash r
     \<and> (bs_status r = ''refreshing'' \<longrightarrow> bs_status r' \<in> {''refreshing'', ''revoked''})"

definition sessions_later :: "db \<Rightarrow> db \<Rightarrow> bool" where
  "sessions_later s t \<longleftrightarrow> (\<forall>r \<in> set (browser_sessions s). \<exists>r' \<in> set (browser_sessions t). row_later r r')"

definition sessions_kept :: "db \<Rightarrow> db \<Rightarrow> bool" where
  "sessions_kept s t \<longleftrightarrow> (\<forall>r \<in> set (browser_sessions s). \<exists>r' \<in> set (browser_sessions t). row_kept r r')"

lemma row_later_refl: "session_row_ok es r \<Longrightarrow> row_later r r"
  by (auto simp: row_later_def session_row_ok_def split: if_splits)

lemma row_kept_refl: "session_row_ok es r \<Longrightarrow> row_kept r r"
  by (auto simp: row_kept_def intro: row_later_refl)

lemma row_later_trans: "row_later a b \<Longrightarrow> row_later b c \<Longrightarrow> row_later a c"
  unfolding row_later_def by metis

lemma row_kept_trans: "row_kept a b \<Longrightarrow> row_kept b c \<Longrightarrow> row_kept a c"
  unfolding row_kept_def
proof (elim conjE, intro conjI impI)
  assume *: "row_later a b" "row_later b c"
    "bs_status a = ''refreshing'' \<longrightarrow> bs_status b \<in> {''refreshing'', ''revoked''}"
    "bs_status b = ''refreshing'' \<longrightarrow> bs_status c \<in> {''refreshing'', ''revoked''}" "bs_status a = ''refreshing''"
  then have "bs_status b = ''refreshing'' \<or> bs_status b = ''revoked''" by simp
  then show "bs_status c \<in> {''refreshing'', ''revoked''}"
  proof
    assume "bs_status b = ''revoked''"
    with *(2) have "c = b" by (simp add: row_later_def)
    with \<open>bs_status b = ''revoked''\<close> show ?thesis by simp
  qed (use * in simp)
qed (auto intro: row_later_trans)

lemma row_kept_later: "row_kept a b \<Longrightarrow> row_later a b"
  by (simp add: row_kept_def)

lemma sessions_later_trans: "sessions_later s t \<Longrightarrow> sessions_later t u \<Longrightarrow> sessions_later s u"
  unfolding sessions_later_def by (meson row_later_trans)

lemma sessions_kept_trans: "sessions_kept s t \<Longrightarrow> sessions_kept t u \<Longrightarrow> sessions_kept s u"
  unfolding sessions_kept_def by (meson row_kept_trans)

lemma sessions_kept_later: "sessions_kept s t \<Longrightarrow> sessions_later s t"
  unfolding sessions_kept_def sessions_later_def by (meson row_kept_later)

lemma sessions_ok_rowD: "sessions_ok s \<Longrightarrow> r \<in> set (browser_sessions s) \<Longrightarrow> session_row_ok (audit_events s) r"
  by (simp add: sessions_ok_def)

text \<open>A transaction, or a part of one, that keeps the table well-formed and every row.\<close>

definition evolves :: "db \<Rightarrow> db \<Rightarrow> bool" where
  "evolves s t \<longleftrightarrow> (sessions_ok s \<longrightarrow> sessions_ok t \<and> sessions_kept s t)"

lemma sessions_kept_refl: "sessions_ok s \<Longrightarrow> sessions_kept s s"
  unfolding sessions_kept_def using row_kept_refl sessions_ok_rowD by blast

lemma evolves_refl [simp]: "evolves s s"
  by (simp add: evolves_def sessions_kept_refl)

lemma evolves_trans: "evolves s t \<Longrightarrow> evolves t u \<Longrightarrow> evolves s u"
  by (auto simp: evolves_def intro: sessions_kept_trans)

lemma session_row_ok_mono: "set es \<subseteq> set es' \<Longrightarrow> session_row_ok es r \<Longrightarrow> session_row_ok es' r"
  by (auto simp: session_row_ok_def split: if_splits)

lemma evolves_events:
  assumes "browser_sessions t = browser_sessions s" "set (audit_events s) \<subseteq> set (audit_events t)"
  shows "evolves s t"
  unfolding evolves_def
proof
  assume ok: "sessions_ok s"
  have "sessions_ok t"
    using ok assms(1) unfolding sessions_ok_def by (metis assms(2) session_row_ok_mono)
  moreover have "sessions_kept s t"
    using sessions_kept_refl [OF ok] assms(1) by (simp add: sessions_kept_def)
  ultimately show "sessions_ok t \<and> sessions_kept s t" by simp
qed

text \<open>An update of one row.\<close>

lemma refreshed_into_cong:
  "session_identity q' = session_identity q \<Longrightarrow> session_identity r' = session_identity r \<Longrightarrow>
   bs_rotated_to_session_id_hash q' = bs_rotated_to_session_id_hash q \<Longrightarrow> refreshed_into q' r' = refreshed_into q r"
  by (simp add: refreshed_into_def session_identity_def)

lemma mapped_table_ok:
  assumes ok: "sessions_ok s"
    and rows: "browser_sessions t = map f (browser_sessions s)"
    and ident: "\<And>r. r \<in> set (browser_sessions s) \<Longrightarrow> session_identity (f r) = session_identity r"
    and to: "\<And>r. r \<in> set (browser_sessions s) \<Longrightarrow> bs_rotated_to_session_id_hash (f r) = bs_rotated_to_session_id_hash r"
    and rowok: "\<And>r. r \<in> set (browser_sessions s) \<Longrightarrow> session_row_ok (audit_events t) (f r)"
  shows "sessions_ok t"
proof -
  have cols: "bs_session_id_hash (f r) = bs_session_id_hash r" "bs_id (f r) = bs_id r" "bs_refresh_count (f r) = bs_refresh_count r"
    if "r \<in> set (browser_sessions s)" for r
    using ident [OF that] by (auto simp: session_identity_def)
  have maps: "map (bs_session_id_hash \<circ> f) (browser_sessions s) = map bs_session_id_hash (browser_sessions s)"
    "map (bs_id \<circ> f) (browser_sessions s) = map bs_id (browser_sessions s)"
    using cols by (auto)
  have into: "refreshed_into (f q) (f r) = refreshed_into q r"
    if "q \<in> set (browser_sessions s)" "r \<in> set (browser_sessions s)" for q r
    using ident to that by (intro refreshed_into_cong) auto
  have fwd: "\<exists>c \<in> set (browser_sessions s). refreshed_into (f r) (f c)"
    if "r \<in> set (browser_sessions s)" "bs_rotated_to_session_id_hash (f r) \<noteq> None" for r
    using ok that to into unfolding sessions_ok_def by metis
  have bwd: "\<exists>q \<in> set (browser_sessions s). refreshed_into (f q) (f r)"
    if "r \<in> set (browser_sessions s)" "bs_refresh_count (f r) \<noteq> 0" for r
    using ok that cols(3) into unfolding sessions_ok_def by metis
  have inj: "f q = f r" if "q \<in> set (browser_sessions s)" "r \<in> set (browser_sessions s)" "bs_rotated_to_session_id_hash (f r) \<noteq> None"
    "bs_rotated_to_session_id_hash (f q) = bs_rotated_to_session_id_hash (f r)" for q r
    using ok that to unfolding sessions_ok_def by metis
  show ?thesis
    using ok rowok fwd bwd inj unfolding sessions_ok_def rows map_map set_map maps by (simp add: ball_simps del: not_None_eq)
qed

lemma mapped_table_evolves:
  assumes rows: "browser_sessions t = map f (browser_sessions s)"
    and f: "\<And>r. sessions_ok s \<Longrightarrow> r \<in> set (browser_sessions s) \<Longrightarrow> row_kept r (f r) \<and> session_row_ok (audit_events t) (f r)"
  shows "evolves s t"
  unfolding evolves_def
proof
  assume ok: "sessions_ok s"
  have "sessions_ok t"
    by (rule mapped_table_ok [OF ok rows]) (use f [OF ok] in \<open>auto simp: row_kept_def row_later_def\<close>)
  moreover have "sessions_kept s t"
    using f [OF ok] by (auto simp: sessions_kept_def rows)
  ultimately show "sessions_ok t \<and> sessions_kept s t" by simp
qed

section \<open>Operations that keep the table\<close>

definition evolving :: "(db, 'e, 'a) op \<Rightarrow> bool" where
  "evolving m \<longleftrightarrow> (\<forall>s. evolves s (snd (m s)))"

text \<open>What writes neither sessions nor past events.\<close>

definition sessions_untouched :: "(db, 'e, 'a) op \<Rightarrow> bool" where
  "sessions_untouched m \<longleftrightarrow> (\<forall>s. browser_sessions (snd (m s)) = browser_sessions s
     \<and> set (audit_events s) \<subseteq> set (audit_events (snd (m s))))"

lemma sessions_untouchedI:
  "(\<And>rows es. keeps (\<lambda>s. browser_sessions s = rows \<and> es \<subseteq> set (audit_events s)) m) \<Longrightarrow> sessions_untouched m"
  unfolding sessions_untouched_def keeps_def by blast

lemma keeps_untouched:
  "sessions_untouched m \<Longrightarrow> keeps (\<lambda>s. browser_sessions s = rows \<and> es \<subseteq> set (audit_events s)) m"
  unfolding sessions_untouched_def keeps_def by auto

lemma untouched_evolving: "sessions_untouched m \<Longrightarrow> evolving m"
  by (simp add: evolving_def sessions_untouched_def evolves_events)

lemma untouched_basic [op_keeps]:
  "sessions_untouched (return_op x)" "sessions_untouched (raise_op e)" "sessions_untouched (get_op f)"
  "sessions_untouched (of_result r)" "sessions_untouched utc_now" "sessions_untouched uuid4"
  "sessions_untouched (append_audit_event event)"
  by (auto simp: sessions_untouched_def)

lemma untouched_bind [op_keeps]:
  "sessions_untouched m \<Longrightarrow> (\<And>x. sessions_untouched (f x)) \<Longrightarrow> sessions_untouched (bind_op m f)"
  by (rule sessions_untouchedI, rule keeps_bind) (simp_all add: keeps_untouched)

lemma untouched_cases [op_keeps]:
  "sessions_untouched m \<Longrightarrow> sessions_untouched n \<Longrightarrow> sessions_untouched (if b then m else n)"
  "sessions_untouched m \<Longrightarrow> (\<And>x. sessions_untouched (f x)) \<Longrightarrow> sessions_untouched (case z of None \<Rightarrow> m | Some x \<Rightarrow> f x)"
  by (simp_all split: option.split)

lemma untouched_lift_error [op_keeps]: "sessions_untouched m \<Longrightarrow> sessions_untouched (lift_error g m)"
  
  by (rule sessions_untouchedI, rule keeps_lift_error) (simp add: keeps_untouched)

lemma evolving_basic [op_keeps]:
  "evolving (return_op x)" "evolving (raise_op e)" "evolving (get_op f)" "evolving (of_result r)" "evolving utc_now"
  "evolving uuid4" "evolving (append_audit_event event)"
  by (auto intro: untouched_evolving untouched_basic)

lemma evolves_bind:
  assumes "evolves s (snd (m s))" and "\<And>x t. m s = (Inr x, t) \<Longrightarrow> evolves t (snd (f x t))"
  shows "evolves s (snd (bind_op m f s))"
  using assms by (auto simp: bind_op_def intro: evolves_trans split: prod.splits sum.splits)

lemma evolves_bind_ok:
  assumes "evolves s (snd (m s))"
    and "\<And>x t. sessions_ok s \<Longrightarrow> sessions_ok t \<Longrightarrow> sessions_kept s t \<Longrightarrow> m s = (Inr x, t) \<Longrightarrow> evolves t (snd (f x t))"
  shows "evolves s (snd (bind_op m f s))"
proof (cases "sessions_ok s")
  case True
  then show ?thesis using assms by (intro evolves_bind) (auto simp: evolves_def)
qed (simp add: evolves_def)

lemma evolving_bind [op_keeps]: "evolving m \<Longrightarrow> (\<And>x. evolving (f x)) \<Longrightarrow> evolving (bind_op m f)"
  by (simp add: evolving_def evolves_bind)

lemma evolving_cases [op_keeps]:
  "evolving m \<Longrightarrow> evolving n \<Longrightarrow> evolving (if b then m else n)"
  "evolving m \<Longrightarrow> (\<And>x. evolving (f x)) \<Longrightarrow> evolving (case z of None \<Rightarrow> m | Some x \<Rightarrow> f x)"
  by (simp_all split: option.split)

lemma evolves_session_scope: "evolves s (snd (m s)) \<Longrightarrow> evolves s (snd (session_scope m s))"
  by (auto simp: session_scope_def intro: evolves_events split: prod.splits sum.splits)

text \<open>Metering a session writes to the usage tables only.\<close>

lemma untouched_upsert_usage [op_keeps]: "sessions_untouched (upsert_usage a i t)"
  by (auto simp: sessions_untouched_def upsert_usage_def split: option.split)

lemma untouched_insert_usage_event [op_keeps]: "sessions_untouched (insert_usage_event e)"
  by (auto simp: sessions_untouched_def insert_usage_event_def)

lemma untouched_record_usage [op_keeps]: "sessions_untouched (record_tenant_usage_event a b c d e f g h)"
  unfolding record_tenant_usage_event_def append_tenant_usage_event_def add_tenant_usage_def
  by (intro op_keeps)

lemma untouched_meter_session [op_keeps]: "sessions_untouched (meter_session st row)"
  unfolding meter_session_def by (intro op_keeps)

section \<open>Lookups\<close>

lemma hash_lookup_SomeD:
  "get_oidc_browser_session_by_hash h s = Some r \<Longrightarrow> r \<in> set (browser_sessions s) \<and> bs_session_id_hash r = h"
  unfolding get_oidc_browser_session_by_hash_def by (auto dest: first_row_filter_SomeD)

lemma hash_lookup_Some_iff:
  assumes "sessions_ok s"
  shows "get_oidc_browser_session_by_hash h s = Some r \<longleftrightarrow> r \<in> set (browser_sessions s) \<and> bs_session_id_hash r = h"
  using first_row_key [of bs_session_id_hash "browser_sessions s" r] assms
  by (auto simp: get_oidc_browser_session_by_hash_def sessions_ok_def dest: first_row_filter_SomeD)

text \<open>A row that was read from the table, now or before.\<close>

definition known_session :: "db \<Rightarrow> browser_session \<Rightarrow> bool" where
  "known_session s stored \<longleftrightarrow> (\<exists>r \<in> set (browser_sessions s). session_identity r = session_identity stored)"

lemma known_stored [intro]: "stored \<in> set (browser_sessions s) \<Longrightarrow> known_session s stored"
  by (auto simp: known_session_def)

lemma known_later: "known_session s stored \<Longrightarrow> sessions_kept s t \<Longrightarrow> known_session t stored"
  by (fastforce simp: known_session_def sessions_kept_def row_kept_def row_later_def)

lemma known_same: "known_session s stored \<Longrightarrow> browser_sessions t = browser_sessions s \<Longrightarrow> known_session t stored"
  by (simp add: known_session_def)

section \<open>Updates of one row\<close>

lemma flush_evolves:
  assumes row: "row \<in> set (browser_sessions s)"
    and rows: "browser_sessions t = update_where (\<lambda>r. bs_id r = bs_id row) f (browser_sessions s)"
    and events: "set (audit_events s) \<subseteq> set (audit_events t)"
    and f: "sessions_ok s \<Longrightarrow> row_kept row (f row) \<and> session_row_ok (audit_events t) (f row)"
  shows "evolves s t"
proof (rule mapped_table_evolves)
  show "browser_sessions t = map (\<lambda>r. if bs_id r = bs_id row then f r else r) (browser_sessions s)"
    using rows by (simp add: update_where_def)
  fix r assume ok: "sessions_ok s" and r: "r \<in> set (browser_sessions s)"
  have same: "r = row" if "bs_id r = bs_id row"
    using ok r row that distinct_key_unique [of bs_id] unfolding sessions_ok_def by blast
  have "row_kept r r" "session_row_ok (audit_events t) r"
    using sessions_ok_rowD [OF ok r] session_row_ok_mono [OF events] by (auto intro: row_kept_refl)
  then show "row_kept r (if bs_id r = bs_id row then f r else r) \<and>
      session_row_ok (audit_events t) (if bs_id r = bs_id row then f r else r)"
    using f [OF ok] same by auto
qed

lemma identity_simps [simp]:
  "session_identity (touched_row t r) = session_identity r" "session_identity (claimed_row t r) = session_identity r"
  "session_identity (released_row t r) = session_identity r" "session_identity (rotated_row h t r) = session_identity r"
  "session_identity (revoked_row a b i t r) = session_identity r"
  by (simp_all add: session_identity_def touched_row_def claimed_row_def released_row_def rotated_row_def revoked_row_def)

lemma documents_creation_cong: "session_identity r' = session_identity r \<Longrightarrow> documents_creation r' e = documents_creation r e"
  by (simp add: session_identity_def documents_creation_def)

lemma documents_creation_row [simp]:
  "documents_creation (touched_row t r) = documents_creation r" "documents_creation (claimed_row t r) = documents_creation r"
  "documents_creation (released_row t r) = documents_creation r" "documents_creation (rotated_row h t r) = documents_creation r"
  "documents_creation (revoked_row a b i t r) = documents_creation r"
  by (auto intro!: ext documents_creation_cong)

lemma touched_row_sel [row_simps]:
  "bs_status (touched_row t r) = bs_status r" "bs_rotated_to_session_id_hash (touched_row t r) = bs_rotated_to_session_id_hash r"
  "bs_refresh_count (touched_row t r) = bs_refresh_count r" "unrevoked (touched_row t r) = unrevoked r"
  by (simp_all add: touched_row_def unrevoked_def)

lemma claimed_row_sel [row_simps]:
  "bs_status (claimed_row t r) = ''refreshing''" "bs_rotated_to_session_id_hash (claimed_row t r) = bs_rotated_to_session_id_hash r"
  "bs_refresh_count (claimed_row t r) = bs_refresh_count r" "unrevoked (claimed_row t r) = unrevoked r"
  by (simp_all add: claimed_row_def unrevoked_def)

lemma released_row_sel [row_simps]:
  "bs_status (released_row t r) = ''active''" "bs_rotated_to_session_id_hash (released_row t r) = bs_rotated_to_session_id_hash r"
  "bs_refresh_count (released_row t r) = bs_refresh_count r" "unrevoked (released_row t r) = unrevoked r"
  by (simp_all add: released_row_def unrevoked_def)

lemma rotated_row_sel [row_simps]:
  "bs_status (rotated_row h t r) = ''rotated''" "bs_rotated_to_session_id_hash (rotated_row h t r) = Some h"
  "bs_refresh_count (rotated_row h t r) = bs_refresh_count r" "bs_refresh_token_ciphertext (rotated_row h t r) = None"
  "unrevoked (rotated_row h t r) = unrevoked r"
  by (simp_all add: rotated_row_def unrevoked_def)

lemma revoked_row_sel [row_simps]:
  "bs_status (revoked_row a b i t r) = ''revoked''"
  "bs_rotated_to_session_id_hash (revoked_row a b i t r) = bs_rotated_to_session_id_hash r"
  "bs_refresh_count (revoked_row a b i t r) = bs_refresh_count r" "bs_refresh_token_ciphertext (revoked_row a b i t r) = None"
  "bs_revoked_at (revoked_row a b i t r) = Some t" "bs_revoked_by (revoked_row a b i t r) = Some a"
  "bs_revocation_reason (revoked_row a b i t r) = Some b"
  by (simp_all add: revoked_row_def)

lemma touched_ok:
  "session_row_ok es r \<Longrightarrow> bs_status r = ''active'' \<Longrightarrow> row_kept r (touched_row t r) \<and> session_row_ok es (touched_row t r)"
  by (simp add: session_row_ok_def row_kept_def row_later_def live_status_def row_simps)

lemma claimed_ok:
  "session_row_ok es r \<Longrightarrow> bs_status r = ''active'' \<Longrightarrow> row_kept r (claimed_row t r) \<and> session_row_ok es (claimed_row t r)"
  by (simp add: session_row_ok_def row_kept_def row_later_def live_status_def row_simps)

lemma released_ok:
  "session_row_ok es r \<Longrightarrow> bs_status r = ''refreshing'' \<Longrightarrow> row_later r (released_row t r) \<and> session_row_ok es (released_row t r)"
  by (simp add: session_row_ok_def row_later_def live_status_def row_simps)

lemma revoked_ok:
  assumes "session_row_ok es r" "bs_status r \<noteq> ''revoked''" "e \<in> set es" "ae_id e = i" "ae_tenant_id e = bs_tenant_id r"
    "ae_actor_id e = bs_actor_id r" "ae_event_type e = OIDC_SESSION_REVOKED_EVENT_TYPE"
    "dget (ae_payload e) ''session_id_hash'' = JStr (bs_session_id_hash r)"
    "dget (ae_payload e) ''revocation_reason'' = JStr revocation_reason"
  shows "row_kept r (revoked_row a revocation_reason i t r) \<and> session_row_ok es (revoked_row a revocation_reason i t r)"
proof -
  have "documents_revocation (revoked_row a revocation_reason i t r) e"
    using assms by (simp add: documents_revocation_def revoked_row_def jopt_def)
  then show ?thesis
    using assms(1-3) by (auto simp: session_row_ok_def row_kept_def row_later_def row_simps split: if_splits)
qed

lemma revoke_evolves:
  assumes e: "e \<in> set (audit_events s)" "ae_event_type e = OIDC_SESSION_REVOKED_EVENT_TYPE"
    "dget (ae_payload e) ''session_id_hash'' = JStr h" "dget (ae_payload e) ''revocation_reason'' = JStr revocation_reason"
    and owner: "\<And>r. sessions_ok s \<Longrightarrow> r \<in> set (browser_sessions s) \<Longrightarrow> bs_session_id_hash r = h \<Longrightarrow>
       ae_tenant_id e = bs_tenant_id r \<and> ae_actor_id e = bs_actor_id r"
  shows "evolves s (snd (revoke_oidc_browser_session h a revocation_reason (ae_id e) s))"
proof (cases "\<exists>row. get_oidc_browser_session_by_hash h s = Some row \<and> bs_status row \<noteq> ''revoked''")
  case True
  then obtain row where row: "get_oidc_browser_session_by_hash h s = Some row" "bs_status row \<noteq> ''revoked''" by blast
  have mem: "row \<in> set (browser_sessions s)" "bs_session_id_hash row = h" using hash_lookup_SomeD [OF row(1)] by auto
  let ?u = "flush_session (bs_id row) (revoked_row a revocation_reason (ae_id e) (clock_at s (clock_n s))) (s\<lparr>clock_n := Suc (clock_n s)\<rparr>)"
  have "evolves s ?u"
  proof (rule flush_evolves [OF mem(1)])
    assume ok: "sessions_ok s"
    show "row_kept row (revoked_row a revocation_reason (ae_id e) (clock_at s (clock_n s)) row) \<and>
      session_row_ok (audit_events ?u) (revoked_row a revocation_reason (ae_id e) (clock_at s (clock_n s)) row)"
      using owner [OF ok mem] e mem row(2) sessions_ok_rowD [OF ok mem(1)]
      by (intro revoked_ok [where e = e]) (simp_all add: flush_session_def)
  qed (simp_all add: flush_session_def)
  then show ?thesis using row by (simp add: revoke_oidc_browser_session_def)
next
  case False
  then show ?thesis
    by (auto simp: revoke_oidc_browser_session_def split: option.split)
qed

lemma revocation_payload_dget [simp]:
  "dget (revocation_payload h r b @ extra) ''session_id_hash'' = JStr h"
  "dget (revocation_payload h r b @ extra) ''revocation_reason'' = JStr r"
  "dget (revocation_payload h r b) ''session_id_hash'' = JStr h"
  "dget (revocation_payload h r b) ''revocation_reason'' = JStr r"
  by (simp_all add: revocation_payload_def dget_def)

lemma session_event_sel [simp]:
  "ac_event_tenant_id (session_event t a y p) = t" "ac_event_actor_id (session_event t a y p) = a"
  "ac_event_type (session_event t a y p) = y" "ac_event_payload (session_event t a y p) = p"
  by (simp_all add: session_event_def)

lemma revoke_with_event_evolves:
  assumes "known_session s stored"
  shows "evolves s (snd (revoke_with_event stored revocation_reason a b extra s))"
  unfolding revoke_with_event_def
proof (intro evolves_bind)
  show "evolves s (snd (append_audit_event event s))" for event by (auto intro: evolves_events)
  show "evolves t (snd (return_op () t))" for t :: db by simp
  fix event t
  let ?create = "session_event (bs_tenant_id stored) (bs_actor_id stored) OIDC_SESSION_REVOKED_EVENT_TYPE
     (revocation_payload (bs_session_id_hash stored) revocation_reason b @ extra)"
  assume "append_audit_event ?create s = (Inr event, t)"
  then have ev: "event = new_audit_event s ?create" and t: "t = with_audit_event s ?create" by auto
  show "evolves t (snd (revoke_oidc_browser_session (bs_session_id_hash stored) a revocation_reason (ae_id event) t))"
  proof (rule revoke_evolves)
    fix r assume ok: "sessions_ok t" and r: "r \<in> set (browser_sessions t)" "bs_session_id_hash r = bs_session_id_hash stored"
    from assms obtain q where q: "q \<in> set (browser_sessions t)" "session_identity q = session_identity stored"
      by (auto simp: known_session_def t)
    then have "q = r"
      using ok r distinct_key_unique [of bs_session_id_hash "browser_sessions t" q r]
      by (auto simp: sessions_ok_def session_identity_def)
    then show "ae_tenant_id event = bs_tenant_id r \<and> ae_actor_id event = bs_actor_id r"
      using q(2) by (auto simp: ev session_identity_def)
  qed (simp_all add: ev t)
qed

lemma expire_evolves: "known_session s stored \<Longrightarrow> evolves s (snd (expire_stored_session stored revocation_reason a s))"
  unfolding expire_stored_session_def by (rule revoke_with_event_evolves)

lemma expire_if_recorded_evolves: "known_session s stored \<Longrightarrow> evolves s (snd (expire_if_recorded stored revocation_reason s))"
  by (simp add: expire_if_recorded_def expire_evolves)

lemma expire_all_evolves: "(\<And>r. r \<in> set rs \<Longrightarrow> known_session s r) \<Longrightarrow> evolves s (snd (expire_all rs revocation_reason s))"
proof (induction rs arbitrary: s)
  case (Cons r rs)
  then show ?case
    unfolding expire_all.simps by (intro evolves_bind_ok) (auto intro: expire_evolves known_later)
qed simp

section \<open>The transactions\<close>

lemma evolving_lifecycle_failure [op_keeps]: "evolving (browser_session_lifecycle_failure st r)"
  unfolding browser_session_lifecycle_failure_def by (intro op_keeps)

lemma lifecycle_failure_apply [simp]:
  "browser_session_lifecycle_failure st r s = (Inr (lifecycle_failure_at st (clock_at s (clock_n s)) r), s\<lparr>clock_n := Suc (clock_n s)\<rparr>)"
  by (simp add: browser_session_lifecycle_failure_def)

lemma lifecycle_failure_None:
  "lifecycle_failure_at st now r = None \<longleftrightarrow> bs_status r = ''active'' \<and> now < bs_expires_at r
     \<and> (\<forall>t. bs_absolute_expires_at r = Some t \<longrightarrow> now < t)
     \<and> (0 < ss_idle_timeout_seconds st \<longrightarrow> now < last_activity r + seconds (ss_idle_timeout_seconds st))"
  by (auto simp: lifecycle_failure_at_def split: option.split)

lemma lifecycle_failure_active: "lifecycle_failure_at st now r = None \<Longrightarrow> bs_status r = ''active''"
  by (simp add: lifecycle_failure_None)

lemma hash_lookup_clock [simp]:
  "get_oidc_browser_session_by_hash h (s\<lparr>clock_n := n\<rparr>) = get_oidc_browser_session_by_hash h s"
  by (simp add: get_oidc_browser_session_by_hash_def)

lemma touch_evolves:
  assumes "get_oidc_browser_session_by_hash h s = Some r" "bs_status r = ''active''"
  shows "evolves s (snd (touch_oidc_browser_session h t s))"
proof -
  have r: "r \<in> set (browser_sessions s)" using hash_lookup_SomeD [OF assms(1)] by simp
  have "evolves s (flush_session (bs_id r) (touched_row t) s)"
    by (rule flush_evolves [OF r]) (use touched_ok [OF sessions_ok_rowD [OF _ r] assms(2)] in \<open>simp_all add: flush_session_def\<close>)
  then show ?thesis using assms(1) by (simp add: touch_oidc_browser_session_def)
qed

lemma present_evolves: "evolves s (snd (present_session st cookie h s))"
proof (cases "get_oidc_browser_session_by_hash h s")
  case None
  then show ?thesis by (simp add: present_session_def)
next
  case (Some row)
  let ?s = "s\<lparr>clock_n := Suc (clock_n s)\<rparr>"
  have row: "row \<in> set (browser_sessions s)" using hash_lookup_SomeD [OF Some] by simp
  have tick: "evolves s ?s" by (rule evolves_events) simp_all
  have tick2: "evolves s (s\<lparr>clock_n := n\<rparr>)" for n by (rule evolves_events) simp_all
  show ?thesis
  proof (cases "lifecycle_failure_at st (clock_at s (clock_n s)) row")
    case None
    then have active: "bs_status row = ''active''" by (rule lifecycle_failure_active)
    have "evolves s (snd (touch_oidc_browser_session h t (s\<lparr>clock_n := n\<rparr>)))" for t n
      by (rule evolves_trans [OF tick2 touch_evolves [where r = row]]) (simp_all add: Some active)
    then show ?thesis
      using None Some tick2 by (auto simp: present_session_def bind_op_def split: prod.splits sum.splits) (metis snd_conv)+
  next
    case (Some failure)
    have "evolves s (snd (expire_if_recorded row r ?s))" for r
      by (rule evolves_trans [OF tick expire_if_recorded_evolves]) (auto simp: row)
    then show ?thesis
      using Some \<open>get_oidc_browser_session_by_hash h s = Some row\<close>
      by (auto simp: present_session_def bind_op_def split: prod.splits sum.splits) (metis snd_conv)+
  qed
qed

lemma insert_evolves:
  assumes e: "e \<in> set (audit_events s)" "documents_creation row e" and new: "bs_refresh_count row = 0" "bs_status row = ''active''"
    "bs_rotated_to_session_id_hash row = None" "unrevoked row"
  shows "evolves s (snd (insert_browser_session row s))"
proof (cases "bs_session_id_hash row \<in> bs_session_id_hash ` set (browser_sessions s) \<or> bs_id row \<in> bs_id ` set (browser_sessions s)")
  case True
  then show ?thesis by (auto simp: insert_browser_session_def)
next
  case False
  let ?t = "s\<lparr>browser_sessions := browser_sessions s @ [row]\<rparr>"
  have "evolves s ?t"
    unfolding evolves_def
  proof
    assume ok: "sessions_ok s"
    have "session_row_ok (audit_events s) row"
      using e new by (auto simp: session_row_ok_def live_status_def)
    then have "sessions_ok ?t"
      using ok False new unfolding sessions_ok_def by auto
    moreover have "sessions_kept s ?t"
      using sessions_kept_refl [OF ok] by (auto simp: sessions_kept_def)
    ultimately show "sessions_ok ?t \<and> sessions_kept s ?t" by simp
  qed
  then show ?thesis using False by (simp add: insert_browser_session_def)
qed

lemma evolves_bind_get: "evolves s (snd (f (g s) s)) \<Longrightarrow> evolves s (snd (bind_op (get_op g) f s))"
  by (simp add: bind_op_def)

lemma evolves_option:
  "(z = None \<Longrightarrow> evolves s (snd (m s))) \<Longrightarrow> (\<And>x. z = Some x \<Longrightarrow> evolves s (snd (f x s))) \<Longrightarrow>
   evolves s (snd ((case z of None \<Rightarrow> m | Some x \<Rightarrow> f x) s))"
  by (simp split: option.split)

lemma evolves_prod: "(\<And>a b. evolves s (snd (f a b s))) \<Longrightarrow> evolves s (snd ((case z of (a, b) \<Rightarrow> f a b) s))"
  by (simp split: prod.split)

lemma evolves_if:
  "(b \<Longrightarrow> evolves s (snd (m s))) \<Longrightarrow> (\<not> b \<Longrightarrow> evolves s (snd (n s))) \<Longrightarrow> evolves s (snd ((if b then m else n) s))"
  by simp

lemma evolving_at: "evolving m \<Longrightarrow> evolves s (snd (m s))"
  by (simp add: evolving_def)

lemma new_browser_session_sel [row_simps]:
  "bs_refresh_count (new_browser_session c i a b) = sc_refresh_count c" "bs_status (new_browser_session c i a b) = ''active''"
  "bs_rotated_to_session_id_hash (new_browser_session c i a b) = None" "unrevoked (new_browser_session c i a b)"
  "bs_session_id_hash (new_browser_session c i a b) = sc_session_id_hash c" "bs_tenant_id (new_browser_session c i a b) = sc_tenant_id c"
  "bs_actor_id (new_browser_session c i a b) = sc_actor_id c" "bs_absolute_expires_at (new_browser_session c i a b) = sc_absolute_expires_at c"
  "bs_created_audit_event_id (new_browser_session c i a b) = sc_created_audit_event_id c"
  "bs_id (new_browser_session c i a b) = i"
  by (simp_all add: new_browser_session_def unrevoked_def)

definition documents_create :: "session_create \<Rightarrow> audit_event \<Rightarrow> bool" where
  "documents_create c e \<longleftrightarrow> Some (ae_id e) = sc_created_audit_event_id c \<and> ae_tenant_id e = sc_tenant_id c
     \<and> ae_actor_id e = sc_actor_id c \<and> dget (ae_payload e) ''session_id_hash'' = JStr (sc_session_id_hash c)
     \<and> ae_event_type e = (if sc_refresh_count c = 0 then ''identity.oidc_session.created'' else ''identity.oidc_session.refreshed'')"

lemma documents_new_session [simp]: "documents_creation (new_browser_session c i a b) e = documents_create c e"
  by (simp add: documents_creation_def documents_create_def row_simps)

text \<open>The state in which a new row is flushed, and what a creation does.\<close>

definition session_drawn :: "db \<Rightarrow> db" where
  "session_drawn s = s\<lparr>uuid_n := Suc (uuid_n s), clock_n := Suc (Suc (clock_n s))\<rparr>"

definition drawn_session :: "session_create \<Rightarrow> db \<Rightarrow> browser_session" where
  "drawn_session c s = new_browser_session c (uuid_at s (uuid_n s)) (clock_at s (clock_n s)) (clock_at s (Suc (clock_n s)))"

lemma session_drawn_sel [simp]:
  "browser_sessions (session_drawn s) = browser_sessions s" "audit_events (session_drawn s) = audit_events s"
  by (simp_all add: session_drawn_def)

lemma create_session_eq:
  "create_oidc_browser_session c s =
     (if session_create_valid c then insert_browser_session (drawn_session c s) (session_drawn s) else (Inl SessionValueError, s))"
  by (simp add: create_oidc_browser_session_def drawn_session_def session_drawn_def)

lemma create_evolves:
  assumes "e \<in> set (audit_events s)" "documents_create c e" "sc_refresh_count c = 0"
  shows "evolves s (snd (create_oidc_browser_session c s))"
proof -
  have "evolves s (snd (insert_browser_session (drawn_session c s) (session_drawn s)))"
    by (rule evolves_trans [OF evolves_events insert_evolves [of e]])
      (use assms in \<open>simp_all add: drawn_session_def row_simps\<close>)
  then show ?thesis by (simp add: create_session_eq)
qed

subsection \<open>Login\<close>

lemma created_event_documents:
  "documents_create (login_create l (ae_id (new_audit_event s (created_event l)))) (new_audit_event s (created_event l))"
  by (simp add: documents_create_def login_create_def created_event_def dget_def)

lemma expire_listed_evolves:
  "set rs \<subseteq> set (browser_sessions s) \<Longrightarrow> evolves s (snd (expire_all rs revocation_reason s))"
  by (rule expire_all_evolves) auto

lemma set_stale_sessions: "set (stale_sessions n h rs) \<subseteq> set rs"
  by (auto simp: stale_sessions_def Let_def dest: in_set_takeD)

lemma set_active_sessions: "set (list_active_oidc_browser_sessions t a s) \<subseteq> set (browser_sessions s)"
  by (auto simp: list_active_oidc_browser_sessions_def)

lemma enforce_session_cap_evolving [op_keeps]: "evolving (enforce_session_cap st l)"
  unfolding evolving_def enforce_session_cap_def
proof (intro allI evolves_bind_get evolves_if)
  show "evolves s (snd (return_op () s))" for s :: db by simp
qed (rule expire_listed_evolves [OF order.trans [OF set_stale_sessions set_active_sessions]])

lemma admit_login_evolving: "evolving (admit_login st dialect l)"
  unfolding evolving_def admit_login_def
proof (intro allI evolves_bind, goal_cases)
  case (1 s)
  then show ?case by (simp add: acquire_oidc_session_admission_lock_def)
next
  case (2 s x t)
  show ?case by (intro evolving_at op_keeps)
next
  case (3 s x t event u)
  then have u: "u = with_audit_event t (created_event l)" and event: "event = new_audit_event t (created_event l)" by auto
  show ?case
    unfolding u event by (rule create_evolves [OF _ created_event_documents]) (simp_all add: login_create_def)
qed (auto intro!: evolving_at op_keeps untouched_evolving)

subsection \<open>Refresh\<close>

lemma fresh_denial_reason_state [simp]: "snd (fresh_denial_reason t m s) = s"
  by (simp add: fresh_denial_reason_def split: sum.split)

lemma claim_refresh_evolving [op_keeps]: "evolving (claim_oidc_browser_session_refresh h)"
  unfolding evolving_def
proof
  fix s :: db
  let ?now = "clock_at s (clock_n s)"
  let ?t = "s\<lparr>clock_n := Suc (clock_n s),
      browser_sessions := update_where (active_with_hash h) (claimed_row ?now) (browser_sessions s)\<rparr>"
  have "evolves s ?t"
  proof (rule mapped_table_evolves)
    fix r assume "sessions_ok s" "r \<in> set (browser_sessions s)"
    then have "session_row_ok (audit_events s) r" by (rule sessions_ok_rowD)
    then show "row_kept r (if active_with_hash h r then claimed_row ?now r else r) \<and>
      session_row_ok (audit_events ?t) (if active_with_hash h r then claimed_row ?now r else r)"
      using claimed_ok by (auto simp: active_with_hash_def intro: row_kept_refl)
  qed (simp_all add: update_where_def)
  then show "evolves s (snd (claim_oidc_browser_session_refresh h s))"
    by (simp add: claim_oidc_browser_session_refresh_def)
qed

lemma expire_return_evolves:
  "known_session s row \<Longrightarrow> evolves s (snd (bind_op (expire_stored_session row r a) (\<lambda>_. return_op x) s))"
  by (rule evolves_bind) (simp_all add: expire_evolves)

lemma recorded_return_evolves:
  "known_session s row \<Longrightarrow> evolves s (snd (bind_op (expire_if_recorded row r) (\<lambda>_. return_op x) s))"
  by (rule evolves_bind) (simp_all add: expire_if_recorded_evolves)

lemma claim_return_evolving:
  "evolving (bind_op (claim_oidc_browser_session_refresh h) (\<lambda>won. if won then return_op x else return_op y))"
  by (intro op_keeps)

lemma claim_live_session_evolves: "known_session s row \<Longrightarrow> evolves s (snd (claim_live_session cy st row s))"
  unfolding claim_live_session_def
proof (rule evolves_option, goal_cases)
  case (2 ciphertext)
  note expire = expire_return_evolves [OF 2(1)] and claim = evolving_at [OF claim_return_evolving]
  show ?case
  proof (cases "decrypt_refresh_token cy st ciphertext")
    case (Inl e)
    then show ?thesis using expire by (cases e) (simp_all only: sum.case session_error.case, simp_all)
  next
    case (Inr a)
    then show ?thesis using claim by (simp only: sum.case)
  qed
qed simp

lemma fresh_denial_same: "fresh_denial_reason a m s = (x, t) \<Longrightarrow> t = s"
  by (metis fresh_denial_reason_state snd_conv)

lemma known_lookup: "get_oidc_browser_session_by_hash h s = Some row \<Longrightarrow> known_session s row"
  by (auto dest: hash_lookup_SomeD)

lemma known_clock [simp]: "known_session (s\<lparr>clock_n := n\<rparr>) row = known_session s row"
  by (simp add: known_session_def)

lemma claim_session_refresh_evolving: "evolving (claim_session_refresh cy st mode h)"
  unfolding evolving_def claim_session_refresh_def
  by (intro allI evolves_bind_get evolves_option evolves_bind evolves_prod)
    (auto dest!: fresh_denial_same known_lookup
      intro: expire_if_recorded_evolves claim_live_session_evolves expire_evolves evolves_events)

lemma logout_evolving: "evolving (logout_session h r b)"
  unfolding evolving_def logout_session_def
  by (intro allI evolves_bind_get evolves_option evolves_if) (auto dest!: known_lookup intro: revoke_with_event_evolves)

lemma reference_lookup_SomeD: "get_oidc_browser_session t i s = Some row \<Longrightarrow> row \<in> set (browser_sessions s)"
  unfolding get_oidc_browser_session_def by (auto dest: first_row_filter_SomeD)

lemma row_id_lookup_SomeD: "load_active_or_refreshing_session i s = Some row \<Longrightarrow> row \<in> set (browser_sessions s)"
  unfolding load_active_or_refreshing_session_def get_oidc_browser_session_by_row_id_def
  by (auto dest: first_row_filter_SomeD split: option.splits if_splits)

lemma route_result_state: "route_result r s = (x, t) \<Longrightarrow> t = s"
  by (simp add: route_result_def)

lemma revoke_by_reference_evolving: "evolving (revoke_by_reference p i)"
  unfolding evolving_def revoke_by_reference_def
proof (intro allI evolves_bind_get evolves_option, goal_cases)
  case (2 s row)
  then have known: "known_session s row" by (auto dest: reference_lookup_SomeD)
  let ?gate = "if bs_actor_id row \<noteq> sp_actor_id p
     then bind_op (route_result (require_session_admin_scope p ''session_revocation'')) (\<lambda>_. return_op ''admin_revocation'')
     else return_op ''self_revocation''"
  have same: "snd (?gate s) = s"
    by (simp add: bind_op_def route_result_def split: sum.split)
  show ?case
  proof (rule evolves_bind)
    show "evolves s (snd (?gate s))" by (simp only: same evolves_refl)
    fix x t assume "?gate s = (Inr x, t)"
    then have "t = s" using same by (metis snd_conv)
    then show "evolves t (snd ((if live_status row then expire_stored_session row x (sp_actor_id p) else return_op ()) t))"
      using known by (simp add: expire_evolves)
  qed
qed simp

lemma sweep_row_evolving [op_keeps]: "evolving (sweep_row r i)"
  unfolding evolving_def sweep_row_def revoke_session_via_sweep_def
  by (intro allI evolves_bind_get evolves_option evolves_bind)
    (auto dest!: row_id_lookup_SomeD intro: revoke_with_event_evolves)

lemma sweep_rows_evolving: "evolving (sweep_rows r ids)"
  by (induction ids) (simp_all only: sweep_rows.simps, intro op_keeps, intro op_keeps)

text \<open>A claim that a refresh holds, and the row it was made on.\<close>

definition claim_fits :: "session_refresh_claim \<Rightarrow> browser_session \<Rightarrow> bool" where
  "claim_fits c r \<longleftrightarrow> rf_tenant_id c = bs_tenant_id r \<and> rf_actor_id c = bs_actor_id r
     \<and> rf_refresh_count c = bs_refresh_count r \<and> rf_absolute_expires_at c = bs_absolute_expires_at r"

lemma claim_fits_cong: "session_identity r' = session_identity r \<Longrightarrow> claim_fits c r' = claim_fits c r"
  by (simp add: claim_fits_def session_identity_def)

lemma fail_refresh_evolves:
  assumes fits: "\<And>r. sessions_ok s \<Longrightarrow> r \<in> set (browser_sessions s) \<Longrightarrow> bs_session_id_hash r = h \<Longrightarrow> claim_fits c r"
  shows "evolves s (snd (fail_refresh h c reason_text s))"
  unfolding fail_refresh_def
proof (intro evolves_bind_ok, goal_cases)
  case (3 a s1 e s2)
  then have s1: "browser_sessions s1 = browser_sessions s" "set (audit_events s) \<subseteq> set (audit_events s1)" by auto
  let ?e = "session_event (rf_tenant_id c) (rf_actor_id c) OIDC_SESSION_REVOKED_EVENT_TYPE (revocation_payload h ''refresh_failed'' False)"
  have e: "e = new_audit_event s1 ?e" and s2: "s2 = with_audit_event s1 ?e" using 3 by auto
  show ?case
  proof (rule revoke_evolves)
    fix r assume r: "sessions_ok s2" "r \<in> set (browser_sessions s2)" "bs_session_id_hash r = h"
    then have "claim_fits c r"
      using fits [OF 3(1)] by (simp add: s1(1) s2)
    then show "ae_tenant_id e = bs_tenant_id r \<and> ae_actor_id e = bs_actor_id r"
      by (simp add: e claim_fits_def)
  qed (simp_all add: e s2)
qed (auto intro: evolves_events)

subsection \<open>Release and rotation\<close>

text \<open>The two transactions that take a row out of a claim: the other rows stay.\<close>

definition others_kept :: "string \<Rightarrow> db \<Rightarrow> db \<Rightarrow> bool" where
  "others_kept h s t \<longleftrightarrow> (\<forall>r \<in> set (browser_sessions s). bs_session_id_hash r \<noteq> h \<longrightarrow> r \<in> set (browser_sessions t))"

lemma sessions_laterI:
  "(\<And>r. r \<in> set (browser_sessions s) \<Longrightarrow> row_later r (f r) \<and> f r \<in> set (browser_sessions t)) \<Longrightarrow> sessions_later s t"
  unfolding sessions_later_def by blast

lemma kept_release:
  assumes ok: "sessions_ok s"
  shows "sessions_ok (snd (release_oidc_browser_session_refresh h s)) \<and> sessions_later s (snd (release_oidc_browser_session_refresh h s))
    \<and> others_kept h s (snd (release_oidc_browser_session_refresh h s))"
proof (cases "\<exists>row. get_oidc_browser_session_by_hash h s = Some row \<and> bs_status row = ''refreshing''")
  case False
  then have "snd (release_oidc_browser_session_refresh h s) = s"
    by (auto simp: release_oidc_browser_session_refresh_def split: option.split)
  then show ?thesis
    using ok sessions_kept_later [OF sessions_kept_refl [OF ok]] by (simp add: others_kept_def)
next
  case True
  then obtain row where row: "get_oidc_browser_session_by_hash h s = Some row" "bs_status row = ''refreshing''" by blast
  then have mem: "row \<in> set (browser_sessions s)" "bs_session_id_hash row = h" using hash_lookup_SomeD by auto
  let ?now = "clock_at s (clock_n s)"
  let ?f = "\<lambda>r. if bs_id r = bs_id row then released_row ?now r else r"
  let ?t = "flush_session (bs_id row) (released_row ?now) (s\<lparr>clock_n := Suc (clock_n s)\<rparr>)"
  have t: "snd (release_oidc_browser_session_refresh h s) = ?t"
    using row by (simp add: release_oidc_browser_session_refresh_def)
  have rows: "browser_sessions ?t = map ?f (browser_sessions s)" "audit_events ?t = audit_events s"
    by (simp_all add: flush_session_def update_where_def)
  have same: "r = row" if "r \<in> set (browser_sessions s)" "bs_id r = bs_id row" for r
    using ok mem that distinct_key_unique [of bs_id] unfolding sessions_ok_def by blast
  have rowok: "row_later r (?f r) \<and> session_row_ok (audit_events s) (?f r)" if "r \<in> set (browser_sessions s)" for r
    using released_ok [OF sessions_ok_rowD [OF ok mem(1)] row(2)] row_later_refl [OF sessions_ok_rowD [OF ok that]]
      sessions_ok_rowD [OF ok that] same [OF that] by auto
  have "sessions_ok ?t"
    by (rule mapped_table_ok [OF ok rows(1)]) (use rowok in \<open>auto simp: rows row_simps\<close>)
  moreover have "sessions_later s ?t"
    by (rule sessions_laterI [of s ?f]) (use rowok rows(1) in auto)
  moreover have "others_kept h s ?t"
    using same mem(2) unfolding others_kept_def rows by force
  ultimately show ?thesis unfolding t by simp
qed

lemma sessions_ok_child:
  assumes "sessions_ok s" "r \<in> set (browser_sessions s)" "bs_rotated_to_session_id_hash r = Some h"
  shows "\<exists>k \<in> set (browser_sessions s). refreshed_into r k \<and> bs_session_id_hash k = h"
proof -
  have "bs_rotated_to_session_id_hash r \<noteq> None" using assms(3) by simp
  then obtain k where "k \<in> set (browser_sessions s)" "refreshed_into r k"
    using assms(1,2) unfolding sessions_ok_def by blast
  then show ?thesis using assms(3) by (auto simp: refreshed_into_def)
qed

lemma rotated_table_ok:
  assumes ok: "sessions_ok s" and p: "p \<in> set (browser_sessions s)" "bs_status p = ''refreshing''"
    and rows: "browser_sessions t = map (\<lambda>r. if r = p then rotated_row nh now r else r) (browser_sessions s) @ [c]"
    and events: "set (audit_events s) \<subseteq> set (audit_events t)" "e \<in> set (audit_events t)" "documents_creation c e"
    and fresh: "nh \<notin> bs_session_id_hash ` set (browser_sessions s)" "bs_id c \<notin> bs_id ` set (browser_sessions s)"
    and c: "bs_session_id_hash c = nh" "bs_status c = ''active''" "bs_rotated_to_session_id_hash c = None" "unrevoked c"
      "bs_tenant_id c = bs_tenant_id p" "bs_actor_id c = bs_actor_id p"
      "bs_absolute_expires_at c = bs_absolute_expires_at p" "bs_refresh_count c = bs_refresh_count p + 1"
  shows "sessions_ok t \<and> sessions_later s t \<and> others_kept (bs_session_id_hash p) s t"
proof -
  let ?f = "\<lambda>r. if r = p then rotated_row nh now r else r"
  have pok: "session_row_ok (audit_events s) p" by (rule sessions_ok_rowD [OF ok p(1)])
  then have pto: "bs_rotated_to_session_id_hash p = None" and pcount: "0 \<le> bs_refresh_count p"
    using p(2) by (auto simp: session_row_ok_def)
  have ident: "session_identity (?f r) = session_identity r" for r by simp
  have cols: "bs_session_id_hash (?f r) = bs_session_id_hash r" "bs_id (?f r) = bs_id r" for r
    using ident [of r] by (auto simp: session_identity_def)
  have later: "row_later r (?f r)" if "r \<in> set (browser_sessions s)" for r
    using p(2) pto row_later_refl [OF sessions_ok_rowD [OF ok that]] by (auto simp: row_later_def row_simps)
  have pok': "session_row_ok (audit_events t) (rotated_row nh now p)"
    using session_row_ok_mono [OF events(1) pok] p(2) by (auto simp: session_row_ok_def row_simps)
  have cok: "session_row_ok (audit_events t) c"
    using events(2,3) c pcount by (auto simp: session_row_ok_def live_status_def)
  have rowok: "session_row_ok (audit_events t) r" if "r \<in> set (browser_sessions t)" for r
    using that pok' cok session_row_ok_mono [OF events(1) sessions_ok_rowD [OF ok]] by (auto simp: rows)
  have pc: "refreshed_into (rotated_row nh now p) c"
    using c by (simp add: refreshed_into_def row_simps rotated_row_def)
  have into: "refreshed_into q (?f r) = refreshed_into q r" for q r
    by (rule refreshed_into_cong) (simp_all)
  have mem: "x \<in> set (browser_sessions t) \<longleftrightarrow> x = rotated_row nh now p \<or> x = c \<or> x \<in> set (browser_sessions s) \<and> x \<noteq> p" for x
    using p(1) by (auto simp: rows)
  have fmem: "?f r \<in> set (browser_sessions t)" if "r \<in> set (browser_sessions s)" for r
    using that by (auto simp: rows)
  have fwd: "\<exists>k \<in> set (browser_sessions t). refreshed_into r k"
    if "r \<in> set (browser_sessions t)" "bs_rotated_to_session_id_hash r \<noteq> None" for r
  proof (cases "r = rotated_row nh now p")
    case False
    with that c(3) have "r \<in> set (browser_sessions s)" by (auto simp: mem)
    with ok that(2) obtain k where "k \<in> set (browser_sessions s)" "refreshed_into r k" unfolding sessions_ok_def by blast
    then show ?thesis using into fmem by blast
  qed (use pc mem in blast)
  have bwd: "\<exists>q \<in> set (browser_sessions t). refreshed_into q r"
    if "r \<in> set (browser_sessions t)" "bs_refresh_count r \<noteq> 0" for r
  proof (cases "r = c")
    case False
    with that obtain r0 where r0: "r0 \<in> set (browser_sessions s)" "r = ?f r0" "bs_refresh_count r0 \<noteq> 0"
      using p(1) by (auto simp: mem row_simps)
    with ok obtain q where q: "q \<in> set (browser_sessions s)" "refreshed_into q r0" unfolding sessions_ok_def by blast
    then have "q \<noteq> p" using pto by (auto simp: refreshed_into_def)
    with q r0(2) show ?thesis using into mem by blast
  qed (use pc mem in blast)
  have unused: "bs_rotated_to_session_id_hash r \<noteq> Some nh" if "r \<in> set (browser_sessions s)" for r
  proof
    assume "bs_rotated_to_session_id_hash r = Some nh"
    with sessions_ok_child [OF ok that] obtain k where "k \<in> set (browser_sessions s)" "bs_session_id_hash k = nh" by blast
    with fresh(1) show False by blast
  qed
  have inj: "q = r" if "r \<in> set (browser_sessions t)" "q \<in> set (browser_sessions t)" "bs_rotated_to_session_id_hash r \<noteq> None"
    "bs_rotated_to_session_id_hash q = bs_rotated_to_session_id_hash r" for q r
  proof (cases "bs_rotated_to_session_id_hash r = Some nh")
    case True
    then have "x = rotated_row nh now p" if "x = r \<or> x = q" for x
      using that \<open>r \<in> set (browser_sessions t)\<close> \<open>q \<in> set (browser_sessions t)\<close> unused [of x] c(3) \<open>bs_rotated_to_session_id_hash q = _\<close>
      by (auto simp: mem)
    then show ?thesis by blast
  next
    case False
    then have "x \<in> set (browser_sessions s)" if "x = r \<or> x = q" for x
      using that \<open>r \<in> set (browser_sessions t)\<close> \<open>q \<in> set (browser_sessions t)\<close> c(3)
        \<open>bs_rotated_to_session_id_hash q = _\<close> \<open>bs_rotated_to_session_id_hash r \<noteq> None\<close>
      by (auto simp: mem row_simps)
    then show ?thesis using ok that(3,4) unfolding sessions_ok_def by blast
  qed
  have "sessions_ok t"
    unfolding sessions_ok_def
  proof (intro conjI ballI impI)
    show "distinct (map bs_session_id_hash (browser_sessions t))" "distinct (map bs_id (browser_sessions t))"
      using ok fresh c(1) cols by (simp_all add: rows sessions_ok_def comp_def del: if_image_distrib)
  qed (use rowok fwd bwd inj in \<open>blast+\<close>)
  moreover have "sessions_later s t"
    by (rule sessions_laterI) (use later fmem in blast)
  moreover have "others_kept (bs_session_id_hash p) s t"
    by (auto simp: others_kept_def mem)
  ultimately show ?thesis by simp
qed

lemma untouched_sum [op_keeps]:
  "(\<And>x. sessions_untouched (f x)) \<Longrightarrow> (\<And>y. sessions_untouched (g y)) \<Longrightarrow> sessions_untouched (case z of Inl x \<Rightarrow> f x | Inr y \<Rightarrow> g y)"
  by (simp split: sum.split)

lemma untouched_verify_cookie [op_keeps]: "sessions_untouched (verify_cookie cy st k c)"
  unfolding verify_cookie_def by (intro op_keeps)

lemma untouched_json [op_keeps]:
  "sessions_untouched m \<Longrightarrow> (\<And>x. sessions_untouched (f x)) \<Longrightarrow> sessions_untouched (case z of JList x \<Rightarrow> f x | _ \<Rightarrow> m)"
  "sessions_untouched m \<Longrightarrow> (\<And>x. sessions_untouched (g x)) \<Longrightarrow> sessions_untouched (case z of JStr x \<Rightarrow> g x | _ \<Rightarrow> m)"
  by (simp_all split: json.split)

lemma untouched_prod [op_keeps]: "(\<And>x y. sessions_untouched (f x y)) \<Longrightarrow> sessions_untouched (case z of (x, y) \<Rightarrow> f x y)"
  by (simp split: prod.split)

lemma untouched_read_session_cookie [op_keeps]: "sessions_untouched (read_session_cookie cy st c)"
  unfolding read_session_cookie_def by (intro op_keeps)

lemma untouchedD:
  "sessions_untouched m \<Longrightarrow> m s = (r, t) \<Longrightarrow> browser_sessions t = browser_sessions s \<and> set (audit_events s) \<subseteq> set (audit_events t)"
  unfolding sessions_untouched_def by (metis snd_conv)

lemma update_refreshing_row:
  assumes ok: "sessions_ok s" and p: "p \<in> set (browser_sessions s)" "refreshing_with_hash h p"
  shows "update_where (refreshing_with_hash h) f (browser_sessions s) = map (\<lambda>r. if r = p then f r else r) (browser_sessions s)"
  unfolding update_where_def
proof (rule map_cong [OF refl])
  fix r assume "r \<in> set (browser_sessions s)"
  then have "refreshing_with_hash h r \<longleftrightarrow> r = p"
    using ok p distinct_key_unique [of bs_session_id_hash "browser_sessions s" r p]
    by (auto simp: sessions_ok_def refreshing_with_hash_def)
  then show "(if refreshing_with_hash h r then f r else r) = (if r = p then f r else r)" by simp
qed

lemma finalize_apply:
  "finalize_oidc_browser_session_refresh h nh s =
     (Inr (rowcount (refreshing_with_hash h) (browser_sessions s) \<noteq> 0),
      s\<lparr>clock_n := Suc (clock_n s), browser_sessions :=
        update_where (refreshing_with_hash h) (rotated_row nh (clock_at s (clock_n s))) (browser_sessions s)\<rparr>)"
  by (simp add: finalize_oidc_browser_session_refresh_def del: rowcount_zero)

lemma create_Inr:
  assumes "create_oidc_browser_session c s = (Inr row, t)"
  shows "row = drawn_session c s \<and> sc_session_id_hash c \<notin> bs_session_id_hash ` set (browser_sessions s)
    \<and> bs_id row \<notin> bs_id ` set (browser_sessions s)
    \<and> browser_sessions t = browser_sessions s @ [row] \<and> audit_events t = audit_events s"
  using assms by (auto simp: create_session_eq insert_browser_session_def drawn_session_def row_simps split: if_splits)

lemma refreshed_event_documents:
  assumes "0 \<le> rf_refresh_count claim"
  shows "documents_create (refresh_create nh x claim p ct md (ae_id (new_audit_event s (refreshed_event oh nh x claim p b))))
    (new_audit_event s (refreshed_event oh nh x claim p b))"
  using assms by (simp add: documents_create_def refresh_create_def refreshed_event_def dget_def)

lemma rotate_session_Inr:
  assumes "rotate_session cy st request nonce h claim grant s = (Inr b, t)"
  shows "\<exists>nh cookie s1 s2. read_session_cookie cy st (Some (rg_cookie grant)) s = (Inr cookie, s1)
    \<and> finalize_oidc_browser_session_refresh h nh s1 = (Inr b, s2)
    \<and> (if b then \<exists>row. create_rotated_session cy st request nonce h nh (seconds (ok_expires_at cookie)) claim grant s2 = (Inr row, t)
       else t = s2)"
  using assms by (cases b; fastforce simp: rotate_session_def bind_op_Inr_iff split: if_splits)

lemma browser_sessions_tick: "browser_sessions (s\<lparr>clock_n := n, uuid_n := m\<rparr>) = browser_sessions s"
  and audit_events_tick: "audit_events (s\<lparr>clock_n := n, uuid_n := m\<rparr>) = audit_events s"
  by simp_all

lemma same_tables_sessions: "same_tables s t \<Longrightarrow> browser_sessions t = browser_sessions s \<and> audit_events t = audit_events s"
  unfolding same_tables_def by (metis browser_sessions_tick audit_events_tick)

lemma rotate_session_later:
  assumes ok: "sessions_ok s"
    and parent: "q \<in> set (browser_sessions s)" "bs_session_id_hash q = h" "claim_fits claim q"
    and owner: "sp_tenant_id (rg_principal grant) = rf_tenant_id claim" "sp_actor_id (rg_principal grant) = rf_actor_id claim"
    and run: "session_scope (rotate_session cy st request nonce h claim grant) s = (r, t)"
  shows "sessions_ok t \<and> sessions_later s t \<and> others_kept h s t"
proof -
  have unchanged: ?thesis if "browser_sessions t = browser_sessions s" "set (audit_events s) \<subseteq> set (audit_events t)"
    using evolves_events [OF that] ok that by (simp add: evolves_def sessions_kept_later others_kept_def)
  show ?thesis
  proof (cases r)
    case (Inl e)
    have "same_tables s t" by (rule session_scope_error_rolls_back [OF run [unfolded Inl]])
    then have "browser_sessions t = browser_sessions s \<and> audit_events t = audit_events s"
      by (simp add: same_tables_sessions)
    then show ?thesis by (intro unchanged) auto
  next
    case (Inr b)
    with run have "rotate_session cy st request nonce h claim grant s = (Inr b, t)"
      by (auto simp: session_scope_def split: prod.splits sum.splits)
    from rotate_session_Inr [OF this]
    obtain nh cookie s1 s2 where s1: "read_session_cookie cy st (Some (rg_cookie grant)) s = (Inr cookie, s1)"
      and fin: "finalize_oidc_browser_session_refresh h nh s1 = (Inr b, s2)"
      and rest: "if b then \<exists>row. create_rotated_session cy st request nonce h nh (seconds (ok_expires_at cookie)) claim grant s2 = (Inr row, t)
         else t = s2" by blast
    have same: "browser_sessions s1 = browser_sessions s" "set (audit_events s) \<subseteq> set (audit_events s1)"
      using untouchedD [OF untouched_read_session_cookie s1] by auto
    show ?thesis
    proof (cases "rowcount (refreshing_with_hash h) (browser_sessions s) = 0")
      case True
      then have "\<not> b" using fin same by (simp add: finalize_apply)
      then have "t = s1\<lparr>clock_n := Suc (clock_n s1), browser_sessions := browser_sessions s\<rparr>"
        using rest fin True same by (simp add: finalize_apply update_where_none)
      then show ?thesis using same by (intro unchanged) auto
    next
      case False
      then obtain p where p: "p \<in> set (browser_sessions s)" "refreshing_with_hash h p" by auto
      then have "p = q" using ok parent distinct_key_unique [of bs_session_id_hash "browser_sessions s" p q]
        by (auto simp: sessions_ok_def refreshing_with_hash_def)
      let ?rows = "map (\<lambda>r. if r = p then rotated_row nh (clock_at s1 (clock_n s1)) r else r) (browser_sessions s)"
      have s2: "browser_sessions s2 = ?rows" "audit_events s2 = audit_events s1" and "b"
        using fin False update_refreshing_row [OF ok p] by (auto simp: finalize_apply same)
      let ?ev = "refreshed_event h nh (seconds (ok_expires_at cookie)) claim (rg_principal grant)
          (text_token (rg_token_response grant) ''refresh_token'' \<noteq> None)"
      let ?c = "\<lambda>ciphertext. refresh_create nh (seconds (ok_expires_at cookie)) claim
          (rg_principal grant) ciphertext (extract_session_client_metadata cy st request) (ae_id (new_audit_event s2 ?ev))"
      from rest \<open>b\<close> obtain ciphertext row
        where create: "create_oidc_browser_session (?c ciphertext) (with_audit_event s2 ?ev) = (Inr row, t)"
        by (auto simp: create_rotated_session_def Let_def bind_op_Inr_iff)
      note made = create_Inr [OF create]
      have count: "0 \<le> rf_refresh_count claim"
        using sessions_ok_rowD [OF ok parent(1)] parent(3) by (simp add: session_row_ok_def claim_fits_def)
      have cols: "bs_session_id_hash (if r = p then rotated_row a b r else r) = bs_session_id_hash r"
        "bs_id (if r = p then rotated_row a b r else r) = bs_id r" for r a b by (simp_all add: rotated_row_def)
      have hashes: "bs_session_id_hash ` set (browser_sessions s2) = bs_session_id_hash ` set (browser_sessions s)"
        and ids: "bs_id ` set (browser_sessions s2) = bs_id ` set (browser_sessions s)"
        unfolding s2(1) set_map image_image cols by (rule refl)+
      have "sessions_ok t \<and> sessions_later s t \<and> others_kept (bs_session_id_hash p) s t"
      proof (rule rotated_table_ok [OF ok p(1)])
        show "bs_status p = ''refreshing''" using p(2) by (simp add: refreshing_with_hash_def)
        show "browser_sessions t = map (\<lambda>r. if r = p then rotated_row nh (clock_at s1 (clock_n s1)) r else r) (browser_sessions s) @ [row]"
          using made by (simp add: s2)
        show "set (audit_events s) \<subseteq> set (audit_events t)" "new_audit_event s2 ?ev \<in> set (audit_events t)"
          using made same(2) by (auto simp: s2)
        show "documents_creation row (new_audit_event s2 ?ev)"
          using made refreshed_event_documents [OF count] by (simp add: drawn_session_def)
        show "nh \<notin> bs_session_id_hash ` set (browser_sessions s)"
          using made hashes by (simp add: refresh_create_def)
        show "bs_id row \<notin> bs_id ` set (browser_sessions s)"
          using made unfolding ids [symmetric] with_audit_event_sel by blast
      qed (use made parent(3) owner \<open>p = q\<close> in \<open>simp_all add: drawn_session_def row_simps refresh_create_def claim_fits_def\<close>)
      then show ?thesis using p(2) by (simp add: refreshing_with_hash_def)
    qed
  qed
qed

lemma claim_session_refresh_Inr:
  assumes ok: "sessions_ok s" and run: "claim_session_refresh cy st mode h s = (Inr (Inr c), t)"
  shows "(\<exists>r \<in> set (browser_sessions s). bs_session_id_hash r = h \<and> bs_status r = ''active'')
    \<and> (\<exists>r \<in> set (browser_sessions t). bs_session_id_hash r = h \<and> bs_status r = ''refreshing'' \<and> claim_fits c r)"
proof -
  from run obtain row where row: "get_oidc_browser_session_by_hash h s = Some row"
    by (auto simp: claim_session_refresh_def split: option.splits)
  have "bs_status row = ''active'' \<and> claim_live_session cy st row (s\<lparr>clock_n := Suc (clock_n s)\<rparr>) = (Inr (Inr c), t)"
  proof (cases "lifecycle_failure_at st (clock_at s (clock_n s)) row")
    case None
    then have "bs_status row = ''active''" by (rule lifecycle_failure_active)
    moreover have "claim_live_session cy st row (s\<lparr>clock_n := Suc (clock_n s)\<rparr>) = (Inr (Inr c), t)"
      using run row None by (auto simp: claim_session_refresh_def bind_op_Inr_iff dest!: fresh_denial_same split: option.splits if_splits)
    ultimately show ?thesis by simp
  next
    case (Some f)
    obtain a b where "f = (a, b)" by (cases f)
    then show ?thesis
      using run row Some by (auto simp: claim_session_refresh_def bind_op_Inr_iff dest!: fresh_denial_same split: option.splits if_splits prod.splits)
  qed
  then have active: "bs_status row = ''active''" and live: "claim_live_session cy st row (s\<lparr>clock_n := Suc (clock_n s)\<rparr>) = (Inr (Inr c), t)" by auto
  have mem: "row \<in> set (browser_sessions s)" "bs_session_id_hash row = h" using hash_lookup_SomeD [OF row] by auto
  from live obtain tok where c: "c = claim_of_row row tok"
    and t: "browser_sessions t = update_where (active_with_hash h) (claimed_row (clock_at s (Suc (clock_n s)))) (browser_sessions s)"
    by (auto simp: claim_live_session_def claim_oidc_browser_session_refresh_def bind_op_Inr_iff mem(2)
        split: option.splits sum.splits session_error.splits if_splits)
  have "claimed_row (clock_at s (Suc (clock_n s))) row \<in> set (browser_sessions t)"
    using mem active by (force simp: t set_update_where active_with_hash_def)
  then show ?thesis
    using mem active by (intro conjI bexI [of _ row] bexI [of _ "claimed_row (clock_at s (Suc (clock_n s))) row"])
      (auto simp: c claim_of_row_def claim_fits_def claimed_row_def)
qed

section \<open>Histories\<close>

text \<open>The database and the claims of refreshes that are under way. A step is one transaction of one request, of any process
  and with any settings; a claim that a crashed process holds is never taken up again.\<close>

record session_world =
  sw_db :: db
  sw_claims :: "(string \<times> session_refresh_claim) list"

definition claims_after ::
  "string \<Rightarrow> session_error + (route_error + session_refresh_claim) \<Rightarrow> (string \<times> session_refresh_claim) list \<Rightarrow>
   (string \<times> session_refresh_claim) list"
where
  "claims_after h r claims = (case r of Inr (Inr c) \<Rightarrow> (h, c) # claims | _ \<Rightarrow> claims)"

inductive session_step :: "session_world \<Rightarrow> session_world \<Rightarrow> bool" where
  logged_in: "session_scope (admit_login st dialect l) (sw_db w) = (r, t) \<Longrightarrow> session_step w (w\<lparr>sw_db := t\<rparr>)"
| presented: "session_scope (present_session st cookie h) (sw_db w) = (r, t) \<Longrightarrow> session_step w (w\<lparr>sw_db := t\<rparr>)"
| claimed: "session_scope (claim_session_refresh cy st mode h) (sw_db w) = (r, t) \<Longrightarrow>
    session_step w \<lparr>sw_db = t, sw_claims = claims_after h r (sw_claims w)\<rparr>"
| rotated: "(h, c) \<in> set (sw_claims w) \<Longrightarrow> sp_actor_id (rg_principal g) = rf_actor_id c \<Longrightarrow>
    sp_tenant_id (rg_principal g) = rf_tenant_id c \<Longrightarrow>
    session_scope (rotate_session cy st request nonce h c g) (sw_db w) = (r, t) \<Longrightarrow>
    session_step w \<lparr>sw_db = t, sw_claims = remove1 (h, c) (sw_claims w)\<rparr>"
| refresh_failed: "(h, c) \<in> set (sw_claims w) \<Longrightarrow> session_scope (fail_refresh h c failure) (sw_db w) = (r, t) \<Longrightarrow>
    session_step w \<lparr>sw_db = t, sw_claims = remove1 (h, c) (sw_claims w)\<rparr>"
| released: "(h, c) \<in> set (sw_claims w) \<Longrightarrow> session_scope (release_oidc_browser_session_refresh h) (sw_db w) = (r', t) \<Longrightarrow>
    session_step w \<lparr>sw_db = t, sw_claims = remove1 (h, c) (sw_claims w)\<rparr>"
| logged_out: "session_scope (logout_session h revocation_reason federated) (sw_db w) = (u, t) \<Longrightarrow>
    session_step w (w\<lparr>sw_db := t\<rparr>)"
| revoked: "session_scope (revoke_by_reference p i) (sw_db w) = (u, t) \<Longrightarrow> session_step w (w\<lparr>sw_db := t\<rparr>)"
| swept: "session_scope (sweep_rows revocation_reason ids) (sw_db w) = (n, t) \<Longrightarrow> session_step w (w\<lparr>sw_db := t\<rparr>)"
| elsewhere: "browser_sessions t = browser_sessions (sw_db w) \<Longrightarrow>
    set (audit_events (sw_db w)) \<subseteq> set (audit_events t) \<Longrightarrow> session_step w (w\<lparr>sw_db := t\<rparr>)"

abbreviation session_run :: "session_world \<Rightarrow> session_world \<Rightarrow> bool" where
  "session_run \<equiv> session_step\<^sup>*\<^sup>*"

definition sessions_start :: "session_world \<Rightarrow> bool" where
  "sessions_start w \<longleftrightarrow> browser_sessions (sw_db w) = [] \<and> sw_claims w = []"

text \<open>At most one refresh holds a session, and the row it claimed is still claimed or was revoked meanwhile.\<close>

definition claims_ok :: "(string \<times> session_refresh_claim) list \<Rightarrow> db \<Rightarrow> bool" where
  "claims_ok claims s \<longleftrightarrow> distinct (map fst claims)
     \<and> (\<forall>(h, c) \<in> set claims. \<exists>r \<in> set (browser_sessions s). bs_session_id_hash r = h \<and> claim_fits c r
          \<and> bs_status r \<in> {''refreshing'', ''revoked''})"

definition session_inv :: "session_world \<Rightarrow> bool" where
  "session_inv w \<longleftrightarrow> sessions_ok (sw_db w) \<and> claims_ok (sw_claims w) (sw_db w)"

lemma row_later_hash: "row_later r r' \<Longrightarrow> bs_session_id_hash r' = bs_session_id_hash r"
  by (simp add: row_later_def session_identity_def)

lemma claims_okD:
  assumes "claims_ok claims s" "(h, c) \<in> set claims"
  shows "\<exists>r \<in> set (browser_sessions s). bs_session_id_hash r = h \<and> claim_fits c r \<and> bs_status r \<in> {''refreshing'', ''revoked''}"
  using assms unfolding claims_ok_def by (auto dest!: bspec)

lemma claims_okI:
  assumes "distinct (map fst claims)"
    and "\<And>h c. (h, c) \<in> set claims \<Longrightarrow> \<exists>r \<in> set (browser_sessions s). bs_session_id_hash r = h \<and> claim_fits c r
      \<and> bs_status r \<in> {''refreshing'', ''revoked''}"
  shows "claims_ok claims s"
  using assms unfolding claims_ok_def by auto

lemma claims_ok_distinct: "claims_ok claims s \<Longrightarrow> distinct (map fst claims)"
  by (simp add: claims_ok_def)

lemma claims_ok_kept:
  assumes "claims_ok claims s" "sessions_kept s t"
  shows "claims_ok claims t"
proof (rule claims_okI [OF claims_ok_distinct [OF assms(1)]])
  fix h c assume "(h, c) \<in> set claims"
  from claims_okD [OF assms(1) this] obtain r where r: "r \<in> set (browser_sessions s)" "bs_session_id_hash r = h" "claim_fits c r"
    "bs_status r \<in> {''refreshing'', ''revoked''}" by blast
  from assms(2) r(1) obtain r' where r': "r' \<in> set (browser_sessions t)" "row_kept r r'" unfolding sessions_kept_def by blast
  have "session_identity r' = session_identity r" using r'(2) by (simp add: row_kept_def row_later_def)
  then have "bs_session_id_hash r' = h" "claim_fits c r'"
    using r(2,3) claim_fits_cong by (auto simp: session_identity_def)
  moreover have "bs_status r' \<in> {''refreshing'', ''revoked''}"
    using r(4) r'(2) by (auto simp: row_kept_def row_later_def)
  ultimately show "\<exists>r \<in> set (browser_sessions t). bs_session_id_hash r = h \<and> claim_fits c r
      \<and> bs_status r \<in> {''refreshing'', ''revoked''}"
    using r'(1) by blast
qed

lemma distinct_fst_remove1: "distinct (map fst xs) \<Longrightarrow> distinct (map fst (remove1 x xs))"
  by (metis distinct_map distinct_remove1 inj_on_subset set_remove1_subset)

lemma claims_ok_others:
  assumes "claims_ok claims s" "others_kept h s t" "(h, c) \<in> set claims"
  shows "claims_ok (remove1 (h, c) claims) t"
proof (rule claims_okI [OF distinct_fst_remove1 [OF claims_ok_distinct [OF assms(1)]]])
  fix h' c' assume mem: "(h', c') \<in> set (remove1 (h, c) claims)"
  then have "(h', c') \<in> set claims" "h' \<noteq> h"
    using claims_ok_distinct [OF assms(1)] assms(3) notin_set_remove1 by (fastforce simp: distinct_map inj_on_def)+
  from claims_okD [OF assms(1) this(1)] this(2) assms(2)
  show "\<exists>r \<in> set (browser_sessions t). bs_session_id_hash r = h' \<and> claim_fits c' r \<and> bs_status r \<in> {''refreshing'', ''revoked''}"
    unfolding others_kept_def by blast
qed

lemma claims_ok_remove1: "claims_ok claims s \<Longrightarrow> claims_ok (remove1 x claims) s"
  by (rule claims_okI [OF distinct_fst_remove1 [OF claims_ok_distinct]])
    (assumption, rule claims_okD, assumption, erule set_remove1_subset [THEN subsetD])

lemma session_scope_evolving: "evolving m \<Longrightarrow> session_scope m s = (r, t) \<Longrightarrow> evolves s t"
  using evolves_session_scope [of s m] by (simp add: evolving_def)

lemma session_scope_Inr: "session_scope m s = (Inr x, t) \<longleftrightarrow> m s = (Inr x, t)"
  by (auto simp: session_scope_def split: prod.splits sum.splits)

lemma claims_after_ok:
  assumes inv: "sessions_ok s" "claims_ok claims s" and run: "session_scope (claim_session_refresh cy st mode h) s = (r, t)"
  shows "claims_ok (claims_after h r claims) t"
proof -
  have kept: "sessions_ok t \<and> sessions_kept s t"
    using session_scope_evolving [OF claim_session_refresh_evolving run] inv(1) by (simp add: evolves_def)
  have old: "claims_ok claims t" by (rule claims_ok_kept [OF inv(2)]) (simp add: kept)
  show ?thesis
  proof (cases "\<exists>c. r = Inr (Inr c)")
    case False
    then show ?thesis using old by (auto simp: claims_after_def split: sum.split)
  next
    case True
    then obtain c where r: "r = Inr (Inr c)" by blast
    with run have "claim_session_refresh cy st mode h s = (Inr (Inr c), t)" by (simp add: session_scope_Inr)
    note won = claim_session_refresh_Inr [OF inv(1) this]
    from won obtain a where a: "a \<in> set (browser_sessions s)" "bs_session_id_hash a = h" "bs_status a = ''active''" by blast
    have "h \<notin> fst ` set claims"
    proof
      assume "h \<in> fst ` set claims"
      then obtain q where "q \<in> set (browser_sessions s)" "bs_session_id_hash q = h" "bs_status q \<in> {''refreshing'', ''revoked''}"
        using claims_okD [OF inv(2)] by fastforce
      moreover from this a have "q = a"
        using inv(1) distinct_key_unique [of bs_session_id_hash "browser_sessions s" q a] by (auto simp: sessions_ok_def)
      ultimately show False using a(3) by simp
    qed
    then show ?thesis
      using won claims_okD [OF old] claims_ok_distinct [OF old] unfolding claims_after_def r sum.case
      by (intro claims_okI) auto
  qed
qed

lemma claims_ok_parent:
  assumes "claims_ok claims s" "(h, c) \<in> set claims"
  shows "\<exists>r \<in> set (browser_sessions s). bs_session_id_hash r = h \<and> claim_fits c r"
  using claims_okD [OF assms] by blast

lemma claims_ok_fits:
  assumes "sessions_ok s" "claims_ok claims s" "(h, c) \<in> set claims" "r \<in> set (browser_sessions s)" "bs_session_id_hash r = h"
  shows "claim_fits c r"
proof -
  obtain q where "q \<in> set (browser_sessions s)" "bs_session_id_hash q = h" "claim_fits c q"
    using claims_ok_parent [OF assms(2,3)] by blast
  then show ?thesis
    using assms(1,4,5) distinct_key_unique [of bs_session_id_hash "browser_sessions s" q r] by (auto simp: sessions_ok_def)
qed

text \<open>One step.\<close>

lemma session_inv_evolves:
  "session_inv w \<Longrightarrow> evolves (sw_db w) t \<Longrightarrow> session_inv (w\<lparr>sw_db := t\<rparr>) \<and> sessions_later (sw_db w) t"
  by (auto simp: session_inv_def evolves_def intro: claims_ok_kept sessions_kept_later)

lemma session_step_inv: "session_step w w' \<Longrightarrow> session_inv w \<Longrightarrow> session_inv w' \<and> sessions_later (sw_db w) (sw_db w')"
proof (induction rule: session_step.induct)
  case (logged_in st dialect l w r t)
  then show ?case using session_inv_evolves session_scope_evolving [OF admit_login_evolving] by fastforce
next
  case (presented st cookie h w r t)
  have "evolving (present_session st cookie h)" by (simp add: evolving_def present_evolves)
  with presented show ?case using session_inv_evolves session_scope_evolving by fastforce
next
  case (claimed cy st mode h w r t)
  then have "evolves (sw_db w) t" by (intro session_scope_evolving [OF claim_session_refresh_evolving])
  then show ?case using claimed claims_after_ok by (auto simp: session_inv_def evolves_def intro: sessions_kept_later)
next
  case (rotated h c w g cy st request nonce r t)
  from rotated(5) have inv: "sessions_ok (sw_db w)" "claims_ok (sw_claims w) (sw_db w)" by (simp_all add: session_inv_def)
  obtain q where q: "q \<in> set (browser_sessions (sw_db w))" "bs_session_id_hash q = h" "claim_fits c q"
    using claims_ok_parent [OF inv(2) rotated(1)] by blast
  show ?case
    using rotate_session_later [OF inv(1) q rotated(3,2,4)] claims_ok_others [OF inv(2) _ rotated(1)]
    by (auto simp: session_inv_def)
next
  case (refresh_failed h c w failure r t)
  then have inv: "sessions_ok (sw_db w)" "claims_ok (sw_claims w) (sw_db w)" by (simp_all add: session_inv_def)
  have "evolves (sw_db w) (snd (fail_refresh h c failure (sw_db w)))"
    by (rule fail_refresh_evolves) (rule claims_ok_fits [OF inv refresh_failed(1)])
  then have "evolves (sw_db w) t" using evolves_session_scope refresh_failed(2) by (metis snd_conv)
  then show ?case using inv by (auto simp: session_inv_def evolves_def intro: sessions_kept_later claims_ok_remove1 claims_ok_kept)
next
  case (released h c w r' t)
  then have inv: "sessions_ok (sw_db w)" "claims_ok (sw_claims w) (sw_db w)" by (simp_all add: session_inv_def)
  show ?case
  proof (cases r')
    case (Inl e)
    have "same_tables (sw_db w) t" by (rule session_scope_error_rolls_back [OF released(2) [unfolded Inl]])
    then have "evolves (sw_db w) t" using same_tables_sessions by (intro evolves_events) auto
    then show ?thesis using inv by (auto simp: session_inv_def evolves_def intro: sessions_kept_later claims_ok_remove1 claims_ok_kept)
  next
    case (Inr x)
    then have "t = snd (release_oidc_browser_session_refresh h (sw_db w))" using released(2) by (simp add: session_scope_Inr)
    then show ?thesis using kept_release [OF inv(1), of h] claims_ok_others [OF inv(2) _ released(1)] by (auto simp: session_inv_def)
  qed
next
  case (logged_out h revocation_reason federated w u t)
  then show ?case using session_inv_evolves session_scope_evolving [OF logout_evolving] by fastforce
next
  case (revoked p i w u t)
  then show ?case using session_inv_evolves session_scope_evolving [OF revoke_by_reference_evolving] by fastforce
next
  case (swept revocation_reason ids w n t)
  then show ?case using session_inv_evolves session_scope_evolving [OF sweep_rows_evolving] by fastforce
next
  case (elsewhere t w)
  then show ?case using session_inv_evolves evolves_events by fastforce
qed

lemma session_run_inv: "session_run w w' \<Longrightarrow> session_inv w \<Longrightarrow> session_inv w' \<and> sessions_later (sw_db w) (sw_db w')"
proof (induction rule: rtranclp_induct)
  case base
  then show ?case by (simp add: session_inv_def sessions_kept_later sessions_kept_refl)
next
  case (step y z)
  then show ?case using session_step_inv sessions_later_trans by blast
qed

lemma session_start_inv: "sessions_start w \<Longrightarrow> session_inv w"
  by (simp add: sessions_start_def session_inv_def sessions_ok_def claims_ok_def)

section \<open>Who a cookie stands for\<close>

lemma present_session_principal:
  assumes "present_session st c h s = (Inr (Inr p), t)"
  shows "\<exists>r \<in> set (browser_sessions s). bs_session_id_hash r = h \<and> p = principal_of_session r
    \<and> bs_actor_id r = ok_actor_id c \<and> bs_tenant_id r = ok_tenant_id c
    \<and> lifecycle_failure_at st (clock_at s (clock_n s)) r = None"
proof -
  from assms obtain r where r: "get_oidc_browser_session_by_hash h s = Some r"
    by (auto simp: present_session_def split: option.splits)
  have "lifecycle_failure_at st (clock_at s (clock_n s)) r = None \<and> bs_actor_id r = ok_actor_id c \<and> bs_tenant_id r = ok_tenant_id c
      \<and> p = principal_of_session r"
    using assms r by (auto simp: present_session_def bind_op_Inr_iff split: option.splits if_splits prod.splits)
  then show ?thesis using hash_lookup_SomeD [OF r] by blast
qed

lemma verify_cookie_state: "snd (verify_cookie cy st k c s) \<in> {s, s\<lparr>clock_n := Suc (clock_n s)\<rparr>}"
  by (auto simp: verify_cookie_def bind_op_def split: sum.split option.split)

lemma bind_op_pure_state: "(\<And>x t. snd (f x t) = t) \<Longrightarrow> snd (bind_op m f s) = snd (m s)"
  by (simp add: bind_op_def split: prod.split sum.split)

lemma read_session_cookie_state: "snd (read_session_cookie cy st c s) = snd (verify_cookie cy st ''oidc_session'' c s)"
  unfolding read_session_cookie_def by (rule bind_op_pure_state) (simp split: json.split option.split)

lemma cookie_session_hash_Inr:
  assumes "cookie_session_hash cy st cookie s = (Inr (c, h), t)"
  shows "read_session_cookie cy st cookie s = (Inr c, t) \<and> session_id_hash cy st (ok_session_id c) = Inr h
    \<and> t \<in> {s, s\<lparr>clock_n := Suc (clock_n s)\<rparr>}"
proof -
  from assms have read: "read_session_cookie cy st cookie s = (Inr c, t)" and "session_id_hash cy st (ok_session_id c) = Inr h"
    by (auto simp: cookie_session_hash_def bind_op_Inr_iff)
  moreover have "t \<in> {s, s\<lparr>clock_n := Suc (clock_n s)\<rparr>}"
    using verify_cookie_state read_session_cookie_state read by (metis snd_conv)
  ultimately show ?thesis by simp
qed

lemma catch_op_InrD: "catch_op m g s = (Inr y, t) \<Longrightarrow> (\<And>e u. g e u \<noteq> (Inr y, t)) \<Longrightarrow> m s = (Inr y, t)"
  by (auto simp: catch_op_def split: prod.splits sum.splits)

lemma in_session_Inr: "in_session cfg m q = (Inr x, q') \<Longrightarrow> \<exists>t. m (app_db (rw_app q)) = (Inr x, t)"
  by (auto simp: in_session_def on_db_def session_scope_Inr split: if_splits prod.splits)

lemma cookie_handler_refuses:
  "(case e of OidcCodeFlowConfigurationError r \<Rightarrow> return_op (Inl (f r)) | OidcCookieValidationError r \<Rightarrow> return_op (Inl (g r))
     | _ \<Rightarrow> raise_op e) u \<noteq> (Inr (Inr x), v)"
  by (cases e) simp_all

lemma resolve_cookie_principal:
  assumes "resolve_cookie cy st cfg observed_at request cookie q = (Inr (Inr (Some p)), q')"
  shows "\<exists>c h s t. cookie_session_hash cy st (Some cookie) (app_db (rw_app q)) = (Inr (c, h), s)
    \<and> present_session st c h s = (Inr (Inr p), t)"
proof -
  from assms have "bind_op (on_db (cookie_session_hash cy st (Some cookie))) (\<lambda>(oidc_session, session_hash).
        bind_op (in_session cfg (present_session st oidc_session session_hash)) (\<lambda>presented.
        case presented of Inl failure \<Rightarrow> return_op (Inl failure) | Inr p \<Rightarrow> resolve_admitted cfg observed_at request p)) q = (Inr (Inr (Some p)), q')"
    unfolding resolve_cookie_def by (rule catch_op_InrD) (rule cookie_handler_refuses)
  then obtain c h q1 presented q2 where read: "on_db (cookie_session_hash cy st (Some cookie)) q = (Inr (c, h), q1)"
    and present: "in_session cfg (present_session st c h) q1 = (Inr presented, q2)"
    and last: "(case presented of Inl failure \<Rightarrow> return_op (Inl failure) | Inr p \<Rightarrow> resolve_admitted cfg observed_at request p) q2 = (Inr (Inr (Some p)), q')"
    by (auto simp: bind_op_Inr_iff)
  have "presented = Inr p" using last by (auto simp: resolve_admitted_def bind_op_Inr_iff split: sum.splits)
  moreover obtain s where "cookie_session_hash cy st (Some cookie) (app_db (rw_app q)) = (Inr (c, h), s)" "app_db (rw_app q1) = s"
    using read by (auto simp: on_db_def split: prod.splits)
  ultimately show ?thesis using in_session_Inr [OF present] by auto
qed

lemma principal_resolved:
  assumes "oidc_principal_of_request cy st cfg ip observed_at recorder failure_mode outcome read_ok request q = (Inr (Some p), q')"
  shows "\<exists>q1. resolve_request_principal cy st cfg ip observed_at request q = (Inr (Inr (Some p)), q1)"
proof -
  from assms obtain z q1 where z: "resolve_request_principal cy st cfg ip observed_at request q = (Inr z, q1)"
    and rest: "(case z of Inr (Some p) \<Rightarrow> bind_op (record_usage recorder failure_mode outcome read_ok p) (\<lambda>_. return_op (Some p))
      | Inr None \<Rightarrow> return_op None | Inl failure_reason \<Rightarrow> raise_op (SessionRoute (authentication_refused failure_reason))) q1 = (Inr (Some p), q')"
    by (auto simp: oidc_principal_of_request_def bind_op_Inr_iff)
  from rest have "z = Inr (Some p)" by (auto simp: bind_op_Inr_iff split: sum.splits option.splits)
  with z show ?thesis by blast
qed

lemma resolve_request_cookie:
  assumes "nonempty (br_authorization request) = None"
    "resolve_request_principal cy st cfg ip observed_at request q = (Inr (Inr (Some p)), q')"
  shows "\<exists>cookie. nonempty (br_session_cookie request) = Some cookie
    \<and> resolve_cookie cy st cfg observed_at request cookie q = (Inr (Inr (Some p)), q')"
  using assms by (auto simp: resolve_request_principal_def bind_op_Inr_iff split: option.splits if_splits)

text \<open>What it takes for a row to stand for the bearer of its cookie at an instant.\<close>

definition session_live :: "session_settings \<Rightarrow> timestamp \<Rightarrow> browser_session \<Rightarrow> bool" where
  "session_live st now r \<longleftrightarrow> bs_status r = ''active'' \<and> now < bs_expires_at r
     \<and> (\<forall>t. bs_absolute_expires_at r = Some t \<longrightarrow> now < t)
     \<and> (0 < ss_idle_timeout_seconds st \<longrightarrow> now < last_activity r + seconds (ss_idle_timeout_seconds st))"

lemma revoked_stays:
  assumes "session_inv w1" "session_run w1 w" "r1 \<in> set (browser_sessions (sw_db w1))" "bs_status r1 \<in> {''revoked'', ''rotated''}"
    "r \<in> set (browser_sessions (sw_db w))" "bs_session_id_hash r = bs_session_id_hash r1"
  shows "bs_status r \<in> {''revoked'', ''rotated''}"
proof -
  have ok1: "session_row_ok (audit_events (sw_db w1)) r1" using assms(1,3) by (simp add: session_inv_def sessions_ok_rowD)
  have later: "session_inv w" "sessions_later (sw_db w1) (sw_db w)" using session_run_inv [OF assms(2,1)] by auto
  then obtain r2 where r2: "r2 \<in> set (browser_sessions (sw_db w))" "row_later r1 r2" using assms(3) unfolding sessions_later_def by blast
  then have "r2 = r"
    using later(1) assms(5,6) row_later_hash [OF r2(2)] distinct_key_unique [of bs_session_id_hash "browser_sessions (sw_db w)" r2 r]
    by (simp add: session_inv_def sessions_ok_def)
  moreover have "bs_status r2 \<in> {''revoked'', ''rotated''}"
    using r2(2) assms(4) ok1 by (auto simp: row_later_def session_row_ok_def)
  ultimately show ?thesis by simp
qed

end
