(* ===== verification/Session_Endpoints.thy ===== *)
theory Session_Endpoints
  imports Session_Lifecycle
begin

text \<open>
  The endpoints and the sweep as sequences of the steps of \<^theory_text>\<open>Session_Lifecycle\<close> (\<open>runs_via\<close>), the limit
  on concurrent sessions that a login enforces, and the properties of browser sessions.
\<close>

section \<open>Endpoints are runs\<close>

definition runs_via :: "('s \<Rightarrow> db) \<Rightarrow> ('s, 'e, 'a) op \<Rightarrow> bool" where
  "runs_via f m \<longleftrightarrow> (\<forall>x claims. \<exists>claims'.
     session_run \<lparr>sw_db = f x, sw_claims = claims\<rparr> \<lparr>sw_db = f (snd (m x)), sw_claims = claims'\<rparr>)"

lemma run_elsewhere:
  assumes "browser_sessions t = browser_sessions s" "set (audit_events s) \<subseteq> set (audit_events t)"
  shows "session_run \<lparr>sw_db = s, sw_claims = claims\<rparr> \<lparr>sw_db = t, sw_claims = claims\<rparr>"
  using session_step.elsewhere [of t "\<lparr>sw_db = s, sw_claims = claims\<rparr>"] assms by auto

lemma run_step:
  assumes "\<And>w r t. m (sw_db w) = (r, t) \<Longrightarrow> session_step w (w\<lparr>sw_db := t\<rparr>)"
  shows "runs_via id m"
  unfolding runs_via_def
proof (intro allI exI)
  fix s claims
  show "session_run \<lparr>sw_db = id s, sw_claims = claims\<rparr> \<lparr>sw_db = id (snd (m s)), sw_claims = claims\<rparr>"
    using assms [of "\<lparr>sw_db = s, sw_claims = claims\<rparr>" "fst (m s)" "snd (m s)"] by auto
qed

lemma runs_untouched: "sessions_untouched m \<Longrightarrow> runs_via id m"
  unfolding runs_via_def sessions_untouched_def by (metis id_apply run_elsewhere)

lemma runs_basic [op_keeps]: "runs_via f (return_op x)" "runs_via f (raise_op e)" "runs_via f (get_op g)" "runs_via f (of_result r)"
  by (auto simp: runs_via_def)

lemma runs_bind [op_keeps]:
  assumes "runs_via f m" and "\<And>x. runs_via f (g x)"
  shows "runs_via f (bind_op m g)"
  unfolding runs_via_def
proof (intro allI)
  fix x claims
  obtain r y where m: "m x = (r, y)" by (cases "m x")
  with assms(1) obtain c1 where c1: "session_run \<lparr>sw_db = f x, sw_claims = claims\<rparr> \<lparr>sw_db = f y, sw_claims = c1\<rparr>"
    unfolding runs_via_def by (metis snd_conv)
  show "\<exists>claims'. session_run \<lparr>sw_db = f x, sw_claims = claims\<rparr> \<lparr>sw_db = f (snd (bind_op m g x)), sw_claims = claims'\<rparr>"
  proof (cases r)
    case (Inl e)
    then show ?thesis using c1 m by auto
  next
    case (Inr z)
    from assms(2) [of z] obtain c2
      where "session_run \<lparr>sw_db = f y, sw_claims = c1\<rparr> \<lparr>sw_db = f (snd (g z y)), sw_claims = c2\<rparr>"
      unfolding runs_via_def by blast
    then show ?thesis using c1 m Inr by (auto intro: rtranclp_trans)
  qed
qed

lemma runs_catch [op_keeps]:
  assumes "runs_via f m" and "\<And>e. runs_via f (g e)"
  shows "runs_via f (catch_op m g)"
proof -
  have "runs_via f (bind_op (\<lambda>s. case m s of (Inl e, t) \<Rightarrow> (Inr (Inl e), t) | (Inr x, t) \<Rightarrow> (Inr (Inr x), t))
      (\<lambda>r. case r of Inl e \<Rightarrow> g e | Inr x \<Rightarrow> return_op x))"
  proof (rule runs_bind)
    show "runs_via f (\<lambda>s. case m s of (Inl e, t) \<Rightarrow> (Inr (Inl e), t) | (Inr x, t) \<Rightarrow> (Inr (Inr x), t))"
      using assms(1) by (simp add: runs_via_def split: prod.split sum.split) (metis snd_conv)
  qed (use assms(2) runs_basic in \<open>auto split: sum.split\<close>)
  moreover have "bind_op (\<lambda>s. case m s of (Inl e, t) \<Rightarrow> (Inr (Inl e), t) | (Inr x, t) \<Rightarrow> (Inr (Inr x), t))
      (\<lambda>r. case r of Inl e \<Rightarrow> g e | Inr x \<Rightarrow> return_op x) = catch_op m g"
    by (rule ext) (simp add: bind_op_def catch_op_def split: prod.split sum.split)
  ultimately show ?thesis by simp
qed

lemma runs_cases [op_keeps]:
  "runs_via f m \<Longrightarrow> runs_via f n \<Longrightarrow> runs_via f (if b then m else n)"
  "runs_via f m \<Longrightarrow> (\<And>x. runs_via f (g x)) \<Longrightarrow> runs_via f (case z of None \<Rightarrow> m | Some x \<Rightarrow> g x)"
  "(\<And>x y. runs_via f (k x y)) \<Longrightarrow> runs_via f (case p of (x, y) \<Rightarrow> k x y)"
  "(\<And>x. runs_via f (g x)) \<Longrightarrow> (\<And>x. runs_via f (h x)) \<Longrightarrow> runs_via f (case s of Inl x \<Rightarrow> g x | Inr x \<Rightarrow> h x)"
  by (simp_all split: option.split prod.split sum.split)

lemma untouched_session_scope [op_keeps]: "sessions_untouched m \<Longrightarrow> sessions_untouched (session_scope m)"
  by (simp add: sessions_untouched_def session_scope_def split: prod.split sum.split) (metis snd_conv)

lemma untouched_catch [op_keeps]: "sessions_untouched m \<Longrightarrow> (\<And>e. sessions_untouched (g e)) \<Longrightarrow> sessions_untouched (catch_op m g)"
  by (simp add: sessions_untouched_def catch_op_def split: prod.split sum.split) (metis order_trans snd_conv)

lemma untouched_verified [op_keeps]: "sessions_untouched (verified r)"
  unfolding verified_def by (intro op_keeps)

lemma untouched_required_token [op_keeps]: "sessions_untouched (required_token d n e)"
  unfolding required_token_def by (intro op_keeps)

lemma untouched_read_login_state [op_keeps]: "sessions_untouched (read_login_state cy st c)"
  unfolding read_login_state_def by (intro op_keeps)

lemma untouched_session_cookie [op_keeps]: "sessions_untouched (session_cookie_from_principal cy st d p i c)"
  unfolding session_cookie_from_principal_def Let_def by (intro op_keeps)

lemma untouched_cookie_session_hash [op_keeps]: "sessions_untouched (cookie_session_hash cy st c)"
  unfolding cookie_session_hash_def by (intro op_keeps)

lemma untouched_fresh_denial [op_keeps]: "sessions_untouched (fresh_denial_reason t m)"
  by (simp add: sessions_untouched_def)

lemma untouched_login_guard [op_keeps]: "sessions_untouched (login_guard m p)"
  unfolding login_guard_def by (intro op_keeps)

lemma untouched_callback_exchange [op_keeps]: "sessions_untouched (callback_exchange cy st ip request code state)"
  unfolding callback_exchange_def by (intro op_keeps)

lemma untouched_callback_session [op_keeps]: "sessions_untouched (callback_session cy st ip i n request x)"
  unfolding callback_session_def absolute_deadline_def stored_refresh_token_def by (intro op_keeps)

lemma untouched_callback_error [op_keeps]: "sessions_untouched (callback_error p e)"
  unfolding callback_error_def record_oidc_login_failure_def
  by (cases e) (auto split: oidc_error.split intro!: op_keeps)

lemma untouched_set_cookies [op_keeps]: "sessions_untouched (set_oidc_session_cookies cy st c i a)"
  unfolding set_oidc_session_cookies_def by (intro op_keeps)

lemma runs_admit_login [op_keeps]: "runs_via id (session_scope (admit_login st dialect l))"
  by (rule run_step) (rule session_step.logged_in)

lemma callback_runs: "runs_via id (oidc_callback cy st mode dialect ip i n request code state)"
  unfolding oidc_callback_def callback_store_def
  by (intro op_keeps runs_untouched)

lemma runs_logout_session [op_keeps]: "runs_via id (session_scope (logout_session h r b))"
  by (rule run_step) (rule session_step.logged_out)

lemma runs_revoke_from_cookie [op_keeps]: "runs_via id (revoke_oidc_session_from_cookie cy st request r b)"
  unfolding revoke_oidc_session_from_cookie_def
proof (intro op_keeps runs_untouched)
  show "sessions_untouched (case e of OidcCodeFlowConfigurationError _ \<Rightarrow> return_op None
      | OidcCookieValidationError _ \<Rightarrow> return_op None | _ \<Rightarrow> raise_op e)" for e
    by (cases e) (simp_all add: op_keeps)
qed

lemma runs_route_error [op_keeps]: "runs_via f (case r of Inl (OidcCodeFlowConfigurationError x) \<Rightarrow> raise_op (g x)
   | Inl e \<Rightarrow> raise_op e | Inr y \<Rightarrow> m y)" if "\<And>y. runs_via f (m y)"
  using that by (auto split: sum.split session_error.split intro: runs_basic)

lemma logout_runs: "runs_via id (identity_session_logout cy st request)" "runs_via id (oidc_federated_logout cy st request return_to)"
  unfolding identity_session_logout_def oidc_federated_logout_def by (intro op_keeps)+

subsection \<open>Refresh\<close>

lemma untouched_refresh_exchange: "sessions_untouched (refresh_exchange cy st ip i c)"
  unfolding refresh_exchange_def by (intro op_keeps)

lemma refresh_exchange_owner:
  "refresh_exchange cy st ip i c s = (Inr g, t) \<Longrightarrow>
   sp_actor_id (rg_principal g) = rf_actor_id c \<and> sp_tenant_id (rg_principal g) = rf_tenant_id c"
  by (auto simp: refresh_exchange_def bind_op_Inr_iff split: if_splits)

lemma finish_refresh_run:
  assumes claim: "(h, c) \<in> set claims"
    and grant: "\<And>g. exchanged = Inr g \<Longrightarrow> sp_actor_id (rg_principal g) = rf_actor_id c \<and> sp_tenant_id (rg_principal g) = rf_tenant_id c"
  shows "\<exists>claims'. session_run \<lparr>sw_db = s, sw_claims = claims\<rparr>
    \<lparr>sw_db = snd (finish_refresh cy st request nonce h c exchanged s), sw_claims = claims'\<rparr>"
proof -
  let ?w = "\<lparr>sw_db = s, sw_claims = claims\<rparr>" and ?done = "remove1 (h, c) claims"
  have failed: "session_run ?w \<lparr>sw_db = snd (session_scope (fail_refresh h c r) s), sw_claims = ?done\<rparr>" for r
    using session_step.refresh_failed [of h c ?w r "fst (session_scope (fail_refresh h c r) s)" "snd (session_scope (fail_refresh h c r) s)"]
      claim by auto
  have released: "session_run ?w \<lparr>sw_db = snd (session_scope (release_oidc_browser_session_refresh h) s :: (session_error + _) \<times> _), sw_claims = ?done\<rparr>"
    using session_step.released [of h c ?w "fst (session_scope (release_oidc_browser_session_refresh h) s)"
        "snd (session_scope (release_oidc_browser_session_refresh h) s :: (session_error + _) \<times> _)"] claim by auto
  show ?thesis
  proof (cases exchanged)
    case (Inl e)
    show ?thesis
    proof (cases e)
      case (OidcCodeFlowConfigurationError r)
      have "snd (finish_refresh cy st request nonce h c exchanged s) = snd (session_scope (release_oidc_browser_session_refresh h) s :: (session_error + _) \<times> _)"
        by (simp add: finish_refresh_def Let_def Inl OidcCodeFlowConfigurationError bind_op_pure_state)
      then show ?thesis using released by auto
    next
      case (OidcTokenExchangeError r)
      have "snd (finish_refresh cy st request nonce h c exchanged s) = snd (session_scope (fail_refresh h c r) s)"
        by (simp add: finish_refresh_def Let_def Inl OidcTokenExchangeError bind_op_pure_state)
      then show ?thesis using failed by auto
    next
      case (OidcVerifierError v)
      show ?thesis
      proof (cases v)
        case (OidcAuthenticationError r)
        have "snd (finish_refresh cy st request nonce h c exchanged s) = snd (session_scope (fail_refresh h c r) s)"
          by (simp add: finish_refresh_def Let_def Inl OidcVerifierError OidcAuthenticationError bind_op_pure_state)
        then show ?thesis using failed by auto
      qed (auto simp: finish_refresh_def Let_def Inl OidcVerifierError)
    qed (auto simp: finish_refresh_def Let_def Inl)
  next
    case (Inr g)
    obtain r t where run: "session_scope (rotate_session cy st request nonce h c g) s = (r, t)" by fastforce
    have step: "session_run ?w \<lparr>sw_db = t, sw_claims = ?done\<rparr>"
      using session_step.rotated [of h c ?w g cy st request nonce r t] claim grant [OF Inr] run by auto
    have "snd (finish_refresh cy st request nonce h c exchanged s) = t"
      using run by (simp add: finish_refresh_def Let_def Inr bind_op_def set_oidc_session_cookies_def of_result_def split: sum.split)
    then show ?thesis using step by auto
  qed
qed

lemma claim_and_refresh_runs:
  "runs_via id (bind_op (session_scope (claim_session_refresh cy st mode h)) (\<lambda>claimed.
     case claimed of Inl refusal \<Rightarrow> raise_op (SessionRoute refusal)
     | Inr c \<Rightarrow> (\<lambda>s. case refresh_exchange cy st ip i c s of (exchanged, t) \<Rightarrow> finish_refresh cy st request nonce h c exchanged t)))"
  (is "runs_via id (bind_op ?claim ?rest)")
  unfolding runs_via_def
proof (intro allI)
  fix s claims
  obtain r t where claim: "?claim s = (r, t)" by (cases "?claim s")
  let ?w = "\<lparr>sw_db = s, sw_claims = claims\<rparr>"
  have one: "session_run ?w \<lparr>sw_db = t, sw_claims = claims_after h r claims\<rparr>"
    using session_step.claimed [of cy st mode h ?w r t] claim by auto
  show "\<exists>claims'. session_run \<lparr>sw_db = id s, sw_claims = claims\<rparr> \<lparr>sw_db = id (snd (bind_op ?claim ?rest s)), sw_claims = claims'\<rparr>"
  proof (cases "\<exists>c. r = Inr (Inr c)")
    case False
    then have "snd (bind_op ?claim ?rest s) = t"
      using claim by (auto simp: bind_op_def split: sum.split)
    then show ?thesis using one by auto
  next
    case True
    then obtain c where r: "r = Inr (Inr c)" by blast
    obtain exchanged u where ex: "refresh_exchange cy st ip i c t = (exchanged, u)" by fastforce
    have two: "session_run \<lparr>sw_db = t, sw_claims = (h, c) # claims\<rparr> \<lparr>sw_db = u, sw_claims = (h, c) # claims\<rparr>"
      using untouchedD [OF untouched_refresh_exchange ex] by (intro run_elsewhere) auto
    obtain claims' where three: "session_run \<lparr>sw_db = u, sw_claims = (h, c) # claims\<rparr>
        \<lparr>sw_db = snd (finish_refresh cy st request nonce h c exchanged u), sw_claims = claims'\<rparr>"
      using finish_refresh_run [of h c "(h, c) # claims" exchanged u] refresh_exchange_owner ex by fastforce
    have same: "snd (bind_op ?claim ?rest s) = snd (finish_refresh cy st request nonce h c exchanged u)"
      using claim ex by (simp add: r bind_op_def)
    have "session_run ?w \<lparr>sw_db = t, sw_claims = (h, c) # claims\<rparr>" using one by (simp add: r claims_after_def)
    from rtranclp_trans [OF rtranclp_trans [OF this two] three] show ?thesis using same by auto
  qed
qed

lemma refresh_runs: "runs_via id (identity_session_refresh cy st mode ip i nonce request)"
  unfolding identity_session_refresh_def
proof (intro claim_and_refresh_runs runs_cases runs_bind runs_catch runs_basic)
  show "runs_via id (cookie_session_hash cy st c)" for c by (intro runs_untouched op_keeps)
  show "runs_via id (case e of OidcCodeFlowConfigurationError r \<Rightarrow>
       raise_op (SessionRoute (not_configured ''OIDC browser sessions are not configured.'' r))
     | OidcCookieValidationError _ \<Rightarrow> raise_op (SessionRoute unverified_cookie) | _ \<Rightarrow> raise_op e)" for e
    by (cases e) (simp_all add: runs_basic)
qed

subsection \<open>Inventory and sweep\<close>

lemma revoke_runs: "runs_via id (identity_session_revoke p i)"
  unfolding identity_session_revoke_def route_result_def
  by (intro op_keeps run_step [of "session_scope (revoke_by_reference _ _)"]) (rule session_step.revoked)

lemma sweep_row_rows: "session_scope (sweep_rows r [i]) s = (x, t) \<Longrightarrow> snd (session_scope (sweep_row r i) s) = t"
  by (auto simp: session_scope_def bind_op_def split: prod.splits sum.splits)

lemma runs_sweep_row [op_keeps]: "runs_via id (session_scope (sweep_row r i))"
  unfolding runs_via_def
proof (intro allI exI)
  fix s claims
  obtain x t where run: "session_scope (sweep_rows r [i]) s = (x, t)" by fastforce
  then show "session_run \<lparr>sw_db = id s, sw_claims = claims\<rparr> \<lparr>sw_db = id (snd (session_scope (sweep_row r i) s)), sw_claims = claims\<rparr>"
    using session_step.swept [of r "[i]" "\<lparr>sw_db = s, sw_claims = claims\<rparr>"] sweep_row_rows [OF run] by auto
qed

lemma runs_sweep_rows [op_keeps]: "runs_via id (session_scope (sweep_rows r ids))"
  by (rule run_step) (rule session_step.swept)

lemma runs_sweep_each [op_keeps]: "runs_via id (sweep_each r p ids)"
proof (induction ids)
  case (Cons i ids)
  show ?case unfolding sweep_each.simps by (intro op_keeps Cons.IH)
qed (simp only: sweep_each.simps runs_basic)

lemma runs_sweep_batches [op_keeps]: "runs_via id (sweep_batches r p batches)"
proof (induction batches)
  case (Cons b batches)
  show ?case unfolding sweep_batches.simps sweep_session_batch_def by (intro op_keeps Cons.IH)
qed (simp only: sweep_batches.simps runs_basic)

lemma sweep_runs: "runs_via id (run_orphaned_session_sweep_job st tenant_id now_arg)"
  unfolding run_orphaned_session_sweep_job_def Let_def
  by (intro op_keeps runs_untouched [of utc_now] runs_untouched [of "session_scope (append_audit_event _)"])

subsection \<open>The principal of a request\<close>

definition request_db :: "request_world \<Rightarrow> db" where
  "request_db q = app_db (rw_app q)"

lemma runs_on_db [op_keeps]: "runs_via id m \<Longrightarrow> runs_via request_db (on_db m)"
  by (simp add: runs_via_def on_db_def request_db_def split: prod.split) (metis snd_conv)

lemma runs_present [op_keeps]: "runs_via id (session_scope (present_session st c h))"
  by (rule run_step) (rule session_step.presented)

lemma runs_unrelated:
  assumes "\<And>q. browser_sessions (request_db (snd (m q))) = browser_sessions (request_db q)"
    and "\<And>q. set (audit_events (request_db q)) \<subseteq> set (audit_events (request_db (snd (m q))))"
  shows "runs_via request_db m"
  unfolding runs_via_def using assms by (blast intro: run_elsewhere)

lemma cache_snapshot_db: "app_db (snd (cache_snapshot cfg at_time t a)) = app_db a"
  by (simp add: cache_snapshot_def Let_def split: option.split)

lemma enforce_admission_sessions:
  "browser_sessions (app_db (snd (enforce_tenant_admission cfg at_time request p a))) = browser_sessions (app_db a)"
  "set (audit_events (app_db a)) \<subseteq> set (audit_events (app_db (snd (enforce_tenant_admission cfg at_time request p a))))"
  using cache_snapshot_db [of cfg at_time "sp_tenant_id p" a]
  by (auto simp: enforce_tenant_admission_def bind_op_def lift_error_def app_session_def session_scope_def Let_def
      split: prod.split sum.split option.split)

lemma admit_principal_db:
  "request_db (snd (admit_principal cfg at_time request p q)) =
     app_db (snd (enforce_tenant_admission cfg at_time (http_request.truncate request) p (rw_app q)))"
  by (simp add: admit_principal_def request_db_def split: prod.split sum.split)

lemma runs_admit_principal [op_keeps]: "runs_via request_db (admit_principal cfg at_time request p)"
  by (rule runs_unrelated; unfold admit_principal_db; unfold request_db_def; rule enforce_admission_sessions)

lemma untouched_append_usage [op_keeps]: "sessions_untouched (append_tenant_usage_event e b)"
  unfolding append_tenant_usage_event_def add_tenant_usage_def by (intro op_keeps)

lemma db_transaction_sessions:
  assumes "sessions_untouched m" "db_transaction outcome m s = (r, t)"
  shows "browser_sessions t = browser_sessions s \<and> set (audit_events s) \<subseteq> set (audit_events t)"
  using assms(2) untouchedD [OF untouched_session_scope [OF assms(1)], of s]
  by (auto simp: db_transaction_def split: prod.splits sum.splits commit_outcome.splits)

lemma record_admission_sessions:
  assumes "record_admission rc outcome read_ok p a = (r, b)"
  shows "browser_sessions (am_db b) = browser_sessions (am_db a) \<and> set (audit_events (am_db a)) \<subseteq> set (audit_events (am_db b))"
proof -
  obtain x a1 where prep: "prepare_admission_event rc p a = (x, a1)" by fastforce
  then have same: "browser_sessions (am_db a1) = browser_sessions (am_db a)" "audit_events (am_db a1) = audit_events (am_db a)"
    by (auto simp: prepare_admission_event_def Let_def split: option.splits sum.splits)
  show ?thesis
  proof (cases x)
    case (Inl e)
    then show ?thesis using assms prep same by (auto simp: record_admission_def split: if_splits)
  next
    case (Inr e)
    obtain y t where run: "db_transaction outcome (append_tenant_usage_event e False) (am_db a1) = (y, t)" by fastforce
    have "am_db b \<in> {am_db a, t}"
      using assms prep run Inr by (auto simp: record_admission_def Let_def split: if_splits sum.splits usage_error.splits)
    then show ?thesis using db_transaction_sessions [OF untouched_append_usage run] same by auto
  qed
qed

lemma runs_record_usage [op_keeps]: "runs_via request_db (record_usage rc mode outcome read_ok p)"
proof (rule runs_unrelated)
  fix q
  obtain r b where run: "record_request_usage_admission rc mode outcome read_ok p \<lparr>am_db = request_db q, am_request = rw_metered q\<rparr> = (r, b)"
    by fastforce
  have "browser_sessions (am_db b) = browser_sessions (request_db q) \<and> set (audit_events (request_db q)) \<subseteq> set (audit_events (am_db b))"
    using run record_admission_sessions
    by (fastforce simp: record_request_usage_admission_def split: option.splits prod.splits sum.splits if_splits)
  moreover have "request_db (snd (record_usage rc mode outcome read_ok p q)) = am_db b"
    using run by (simp add: record_usage_def request_db_def)
  ultimately show "browser_sessions (request_db (snd (record_usage rc mode outcome read_ok p q))) = browser_sessions (request_db q)"
    "set (audit_events (request_db q)) \<subseteq> set (audit_events (request_db (snd (record_usage rc mode outcome read_ok p q))))" by simp_all
qed

lemma runs_put_principal [op_keeps]: "runs_via request_db (put_op (\<lambda>w. w\<lparr>rw_principal := x\<rparr>))"
  by (rule runs_unrelated) (simp_all add: request_db_def)

lemma runs_resolve_cookie [op_keeps]: "runs_via request_db (resolve_cookie cy st cfg at_time request cookie)"
  unfolding resolve_cookie_def in_session_def resolve_admitted_def
proof (intro op_keeps)
  show "runs_via id (cookie_session_hash cy st (Some cookie))" by (intro runs_untouched op_keeps)
  show "runs_via request_db (case e of OidcCodeFlowConfigurationError r \<Rightarrow> return_op (Inl (public_cookie_reason r))
     | OidcCookieValidationError r \<Rightarrow> return_op (Inl (public_cookie_reason r)) | _ \<Rightarrow> raise_op e)" for e
    by (cases e) (simp_all add: runs_basic)
qed

lemma runs_oidc_error [op_keeps]:
  "(\<And>r. runs_via f (g r)) \<Longrightarrow> runs_via f a \<Longrightarrow> runs_via f b \<Longrightarrow>
   runs_via f (case e of OidcAuthenticationError r \<Rightarrow> g r | JwtError \<Rightarrow> a | AttributeError \<Rightarrow> b)"
  by (cases e) simp_all

lemma principal_runs: "runs_via request_db (oidc_principal_of_request cy st cfg ip at_time rc mode outcome read_ok request)"
  unfolding oidc_principal_of_request_def resolve_request_principal_def resolve_admitted_def
  by (intro op_keeps)

section \<open>The limit of concurrent sessions\<close>

definition active_of :: "string \<Rightarrow> string \<Rightarrow> browser_session \<Rightarrow> bool" where
  "active_of t a r \<longleftrightarrow> bs_tenant_id r = t \<and> bs_actor_id r = a \<and> bs_status r = ''active''"

lemma list_active_eq:
  "list_active_oidc_browser_sessions t a s = sort_key (\<lambda>r. (bs_created_at r, bs_id r)) (filter (active_of t a) (browser_sessions s))"
  unfolding list_active_oidc_browser_sessions_def select_where_def
  by (rule arg_cong [where f = "sort_key _"]) (auto simp: active_of_def intro!: filter_cong)

lemma revoke_with_event_apply:
  assumes ok: "sessions_ok s" and r: "r \<in> set (browser_sessions s)" "bs_status r \<noteq> ''revoked''"
    and run: "revoke_with_event r why a b extra s = (Inr u, t)"
  shows "browser_sessions t = update_where (\<lambda>q. bs_id q = bs_id r)
    (revoked_row a why (uuid_at s (uuid_n s)) (clock_at s (Suc (clock_n s)))) (browser_sessions s)"
proof -
  let ?ev = "session_event (bs_tenant_id r) (bs_actor_id r) OIDC_SESSION_REVOKED_EVENT_TYPE
     (revocation_payload (bs_session_id_hash r) why b @ extra)"
  have "get_oidc_browser_session_by_hash (bs_session_id_hash r) (with_audit_event s ?ev) = Some r"
    using hash_lookup_Some_iff [OF ok] r(1) by (simp add: get_oidc_browser_session_by_hash_def)
  then show ?thesis
    using run r(2)
    by (auto simp: revoke_with_event_def bind_op_Inr_iff revoke_oidc_browser_session_def flush_session_def split: if_splits)
qed

lemma expire_all_active:
  assumes "sessions_ok s" "set rs \<subseteq> set (browser_sessions s)" "distinct rs" "\<And>r. r \<in> set rs \<Longrightarrow> bs_status r = ''active''"
    and "expire_all rs why s = (Inr u, v)"
  shows "filter (active_of t a) (browser_sessions v) = filter (\<lambda>r. active_of t a r \<and> r \<notin> set rs) (browser_sessions s)"
  using assms
proof (induction rs arbitrary: s)
  case (Cons r rs)
  from Cons.prems(5) obtain s1 where one: "expire_stored_session r why OIDC_SESSION_LIFECYCLE_ACTOR s = (Inr (), s1)"
    and rest: "expire_all rs why s1 = (Inr u, v)"
    by (auto simp: bind_op_Inr_iff)
  have r: "r \<in> set (browser_sessions s)" "bs_status r = ''active''" using Cons.prems(2,4) by auto
  then have s1: "browser_sessions s1 = update_where (\<lambda>q. bs_id q = bs_id r)
      (revoked_row OIDC_SESSION_LIFECYCLE_ACTOR why (uuid_at s (uuid_n s)) (clock_at s (Suc (clock_n s)))) (browser_sessions s)"
    using revoke_with_event_apply [OF Cons.prems(1) r(1) _ one [unfolded expire_stored_session_def]] by simp
  have same: "bs_id q = bs_id r \<longleftrightarrow> q = r" if "q \<in> set (browser_sessions s)" for q
    using that r(1) Cons.prems(1) distinct_key_unique [of bs_id "browser_sessions s" q r] by (auto simp: sessions_ok_def)
  have ok1: "sessions_ok s1"
    using expire_evolves [of s r why OIDC_SESSION_LIFECYCLE_ACTOR] one Cons.prems(1) r(1) by (auto simp: evolves_def)
  have "set rs \<subseteq> set (browser_sessions s1)"
    using Cons.prems(2,3) same by (force simp: s1 set_update_where)
  then have "filter (active_of t a) (browser_sessions v) = filter (\<lambda>q. active_of t a q \<and> q \<notin> set rs) (browser_sessions s1)"
    using Cons.IH [OF ok1 _ _ _ rest] Cons.prems(3,4) by simp
  also have "\<dots> = filter (\<lambda>q. active_of t a q \<and> q \<notin> set (r # rs)) (browser_sessions s)"
  proof -
    have "filter (\<lambda>q. active_of t a q \<and> q \<notin> set rs) (update_where (\<lambda>q. bs_id q = bs_id r) f xs)
        = filter (\<lambda>q. active_of t a q \<and> q \<notin> set (r # rs)) xs"
      if "set xs \<subseteq> set (browser_sessions s)" "\<And>q. \<not> active_of t a (f q)" for xs f
      using that(1) by (induction xs) (auto simp: same that(2))
    then show ?thesis unfolding s1 by (simp add: active_of_def revoked_row_sel)
  qed
  finally show ?case .
qed simp

lemma keeps_quotas_usage [op_keeps]:
  "keeps (\<lambda>s. tenant_quotas s = Q) (upsert_usage a i t)" "keeps (\<lambda>s. tenant_quotas s = Q) (insert_usage_event e)"
  "keeps (\<lambda>s. tenant_quotas s = Q) utc_now" "keeps (\<lambda>s. tenant_quotas s = Q) uuid4"
  by (auto simp: keeps_def upsert_usage_def insert_usage_event_def split: option.split)

lemma keeps_quotas_meter: "keeps (\<lambda>s. tenant_quotas s = Q) (meter_session st row)"
  unfolding meter_session_def record_tenant_usage_event_def append_tenant_usage_event_def add_tenant_usage_def
  by (intro op_keeps)

lemma admit_login_parts:
  assumes ok: "sessions_ok s" and run: "admit_login st dialect l s = (Inr row, t)"
  shows "\<exists>s3 v. sessions_ok s3 \<and> browser_sessions s3 = browser_sessions s @ [row] \<and> tenant_quotas s3 = tenant_quotas s
    \<and> row \<notin> set (browser_sessions s) \<and> bs_session_id_hash row = lg_session_hash l
    \<and> lg_session_hash l \<notin> bs_session_id_hash ` set (browser_sessions s)
    \<and> active_of (sp_tenant_id (lg_principal l)) (sp_actor_id (lg_principal l)) row
    \<and> enforce_session_cap st l s3 = (Inr v, t)"
proof -
  let ?s1 = "with_audit_event s (created_event l)" and ?e = "new_audit_event s (created_event l)"
  from run obtain s2 s3 v where create: "create_oidc_browser_session (login_create l (ae_id ?e)) ?s1 = (Inr row, s2)"
    and meter: "meter_session st row s2 = (Inr (), s3)" and cap: "enforce_session_cap st l s3 = (Inr v, t)"
    by (auto simp: admit_login_def acquire_oidc_session_admission_lock_def bind_op_Inr_iff split: if_splits)
  have "evolves s ?s1" by (rule evolves_events) auto
  moreover have "evolves ?s1 s2"
    using create_evolves [OF _ created_event_documents, of s l ?s1] create by (simp add: login_create_def)
  moreover have "evolves s2 s3" using untouchedD [OF untouched_meter_session meter] by (simp add: evolves_events)
  ultimately have "sessions_ok s3" using ok by (auto simp: evolves_def)
  moreover have "browser_sessions s3 = browser_sessions s @ [row]"
    using untouchedD [OF untouched_meter_session meter] create_Inr [OF create] by simp
  moreover have "tenant_quotas s2 = tenant_quotas s"
    using create by (auto simp: create_session_eq insert_browser_session_def session_drawn_def split: if_splits)
  then have "tenant_quotas s3 = tenant_quotas s"
    using keepsD [OF keeps_quotas_meter [of "tenant_quotas s2"] refl meter] by simp
  moreover have "active_of (sp_tenant_id (lg_principal l)) (sp_actor_id (lg_principal l)) row"
      "bs_session_id_hash row = lg_session_hash l"
      "lg_session_hash l \<notin> bs_session_id_hash ` set (browser_sessions s)"
    using create_Inr [OF create] by (simp_all add: drawn_session_def active_of_def row_simps login_create_def)
  ultimately show ?thesis using cap by (metis image_eqI)
qed

lemma login_cap:
  assumes ok: "sessions_ok s" and run: "admit_login st dialect l s = (Inr row, t)"
    and tenant: "tid = sp_tenant_id (lg_principal l)" and actor: "aid = sp_actor_id (lg_principal l)"
    and n: "n = max_concurrent_sessions st tid s" "0 < n"
    and k: "k = nat (int (length (list_active_oidc_browser_sessions tid aid s)) + 1 - n)"
  shows "set (list_active_oidc_browser_sessions tid aid t) = insert row (set (drop k (list_active_oidc_browser_sessions tid aid s)))"
    and "int (length (list_active_oidc_browser_sessions tid aid t)) \<le> n"
proof -
  from admit_login_parts [OF ok run] obtain s3 v where s3: "sessions_ok s3" "browser_sessions s3 = browser_sessions s @ [row]"
    "tenant_quotas s3 = tenant_quotas s" "row \<notin> set (browser_sessions s)" "bs_session_id_hash row = lg_session_hash l"
    "lg_session_hash l \<notin> bs_session_id_hash ` set (browser_sessions s)" "active_of tid aid row"
    "enforce_session_cap st l s3 = (Inr v, t)"
    unfolding tenant actor by blast
  let ?f = "\<lambda>r. (bs_created_at r, bs_id r)" and ?A = "list_active_oidc_browser_sessions tid aid s"
  have dist: "distinct (browser_sessions s3)" using s3(1) by (simp add: sessions_ok_def distinct_map)
  then have distA: "distinct ?A" using s3(2) by (simp add: list_active_eq)
  have A3: "filter (\<lambda>r. bs_session_id_hash r \<noteq> lg_session_hash l) (list_active_oidc_browser_sessions tid aid s3) = ?A"
    using s3(2,5-7) by (auto simp: list_active_eq filter_sort image_iff intro!: arg_cong [where f = "sort_key ?f"] filter_cong)
  have len3: "length (list_active_oidc_browser_sessions tid aid s3) = Suc (length ?A)"
    using s3(2,7) by (simp add: list_active_eq)
  have cap: "max_concurrent_sessions st tid s3 = n"
    using s3(3) n(1) by (simp add: max_concurrent_sessions_def get_tenant_quota_def)
  have stale: "stale_sessions n (lg_session_hash l) (list_active_oidc_browser_sessions tid aid s3) = take k ?A"
    unfolding stale_sessions_def Let_def A3 len3 k by (auto simp: algebra_simps)
  have expire: "expire_all (take k ?A) ''concurrent_session_limit'' s3 = (Inr v, t)"
    using s3(8) n(2) cap stale by (simp add: enforce_session_cap_def bind_op_def tenant actor)
  have sub: "set (take k ?A) \<subseteq> set (browser_sessions s)"
    using set_take_subset [of k ?A] set_active_sessions [of tid aid s] by blast
  have "filter (active_of tid aid) (browser_sessions t) = filter (\<lambda>r. active_of tid aid r \<and> r \<notin> set (take k ?A)) (browser_sessions s3)"
  proof (rule expire_all_active [OF s3(1) _ _ _ expire])
    show "set (take k ?A) \<subseteq> set (browser_sessions s3)" using sub s3(2) by auto
    show "distinct (take k ?A)" using distA by simp
    show "bs_status r = ''active''" if "r \<in> set (take k ?A)" for r
      using in_set_takeD [OF that] by (simp add: list_active_eq active_of_def)
  qed
  then have rows: "filter (active_of tid aid) (browser_sessions t) = filter (\<lambda>r. active_of tid aid r \<and> r \<notin> set (take k ?A)) (browser_sessions s) @ [row]"
    using s3(2,4,7) sub by auto
  have split: "r \<in> set ?A \<and> r \<notin> set (take k ?A) \<longleftrightarrow> r \<in> set (drop k ?A)" for r
    using distA by (metis Un_iff append_take_drop_id distinct_append disjoint_iff set_append)
  have dropped: "set (filter (\<lambda>r. active_of tid aid r \<and> r \<notin> set (take k ?A)) (browser_sessions s)) = set (drop k ?A)"
    using split by (auto simp: list_active_eq)
  show "set (list_active_oidc_browser_sessions tid aid t) = insert row (set (drop k ?A))"
    using rows dropped by (simp add: list_active_eq)
  have "distinct (filter (\<lambda>r. active_of tid aid r \<and> r \<notin> set (take k ?A)) (browser_sessions s))"
    using dist s3(2) by simp
  then have "length (filter (\<lambda>r. active_of tid aid r \<and> r \<notin> set (take k ?A)) (browser_sessions s)) = length (drop k ?A)"
    using dropped distA by (metis distinct_card distinct_drop)
  then have "length (list_active_oidc_browser_sessions tid aid t) = length (drop k ?A) + 1"
    using rows by (simp add: list_active_eq)
  then show "int (length (list_active_oidc_browser_sessions tid aid t)) \<le> n"
    using n(2) k by auto
qed

section \<open>An example\<close>

definition example_session_settings :: session_settings where
  "example_session_settings =
     \<lparr>ss_issuer = ''https://idp'', ss_authorization_url = None, ss_token_url = None, ss_end_session_url = None,
      ss_redirect_uri = None, ss_post_logout_redirect_uri = None, ss_api_base_url = ''https://api'',
      ss_public_base_url = ''https://app'', ss_client_id = Some ''axis'', ss_client_secret = None,
      ss_signing_secret = Some ''secret'', ss_refresh_token_encryption_key = None, ss_login_state_ttl_seconds = 300,
      ss_cookie_ttl_seconds = 3600, ss_idle_timeout_seconds = 900, ss_absolute_timeout_seconds = 0, ss_max_concurrent = 1,
      ss_refresh_claim_staleness_seconds = 60, ss_trusted_proxy_enabled = False, ss_auth_required = True,
      ss_usage_metering_enabled = False, ss_usage_metering_aggregation_window_seconds = 86400, ss_sweep_batch_limit = 100\<rparr>"

definition example_user :: oidc_principal where
  "example_user = \<lparr>sp_tenant_id = ''acme'', sp_actor_id = ''olga'', sp_scopes = [], op_expires_at = None,
     op_subject_id = None, op_session_source = ''bearer''\<rparr>"

definition example_login :: "string \<Rightarrow> session_login" where
  "example_login h =
     \<lparr>lg_principal = example_user, lg_session_hash = h, lg_expires_at = 3600000000, lg_absolute_expires_at = None,
      lg_refresh_token_ciphertext = None,
      lg_metadata = \<lparr>sm_user_agent = None, sm_client_ip = None, sm_device_label = None\<rparr>\<rparr>"

definition example_world :: "db \<Rightarrow> session_world" where
  "example_world s = \<lparr>sw_db = s, sw_claims = []\<rparr>"

definition example_start :: db where "example_start = empty_db int id"

definition example_hash :: string where "example_hash = ''oidc-session:'' @ replicate 64 CHR ''a''"

definition example_logged_in :: db where
  "example_logged_in = snd (session_scope (admit_login example_session_settings ''postgresql'' (example_login example_hash)) example_start)"

definition example_logged_out :: db where
  "example_logged_out = snd (session_scope (logout_session example_hash ''user_logout'' False) example_logged_in)"

lemma example_runs:
  "sessions_start (example_world example_start)"
  "session_run (example_world example_start) (example_world example_logged_in)"
  "session_run (example_world example_logged_in) (example_world example_logged_out)"
proof -
  show "sessions_start (example_world example_start)"
    by (simp add: sessions_start_def example_world_def example_start_def empty_db_def)
  show "session_run (example_world example_start) (example_world example_logged_in)"
    using session_step.logged_in [of example_session_settings "''postgresql''" "example_login example_hash" "example_world example_start"]
    by (auto simp: example_world_def example_logged_in_def intro: surjective_pairing)
  show "session_run (example_world example_logged_in) (example_world example_logged_out)"
    using session_step.logged_out [of example_hash "''user_logout''" False "example_world example_logged_in"]
    by (auto simp: example_world_def example_logged_out_def intro: surjective_pairing)
qed

lemmas execute_sessions = session_scope_def admit_login_def acquire_oidc_session_admission_lock_def append_audit_event_def
  create_oidc_browser_session_def session_create_valid_def insert_browser_session_def new_browser_session_def login_create_def
  meter_session_def enforce_session_cap_def max_concurrent_sessions_def get_tenant_quota_def first_row_def
  list_active_oidc_browser_sessions_def select_where_def stale_sessions_def Let_def length_between_def at_most_def
  uuid4_def utc_now_def example_session_settings_def example_login_def example_user_def example_hash_def empty_db_def bind_op_def

lemma example_logged_in_row:
  "map (\<lambda>r. (bs_session_id_hash r, bs_status r)) (browser_sessions example_logged_in) = [(example_hash, ''active'')]"
  by (simp add: example_logged_in_def example_start_def execute_sessions del: bind_op_Inr bind_op_Inl)

definition example_crypto :: crypto where
  "example_crypto =
     \<lparr>cy_mac = \<lambda>_ _. ''mac'', cy_hex = \<lambda>_ t. t, cy_encode = \<lambda>_. ''payload'',
      cy_decode = \<lambda>_. Some (JObj [(''kind'', JStr ''oidc_session''), (''session_id'', JStr (replicate 64 CHR ''a'')),
        (''actor_id'', JStr ''olga''), (''tenant_id'', JStr ''acme''), (''scopes'', JList []), (''expires_at'', JInt 3600)]),
      cy_encrypt = \<lambda>_ _ t. t, cy_decrypt = \<lambda>_ t. Some t, cy_str = \<lambda>_. '''', cy_is_ip = \<lambda>_. False\<rparr>"

definition example_cookie_request :: browser_request where
  "example_cookie_request = \<lparr>hr_method = ''GET'', hr_path = ''/identity/sessions'', br_authorization = None,
     br_session_cookie = Some ''payload.mac'', br_login_cookie = None, br_csrf_header = None, br_user_agent = None,
     br_forwarded_for = None, br_client_host = None\<rparr>"

definition example_process :: request_world where
  "example_process =
     \<lparr>rw_app = \<lparr>app_db = example_logged_in, app_cache = []\<rparr>, rw_principal = None,
      rw_metered = \<lparr>hr_method = ''GET'', hr_path = ''/identity/sessions'', mr_route = None, mr_rate_limit_admitted = True,
        mr_usage_admission_recorded = False, mr_usage_admission_event = None\<rparr>\<rparr>"

definition example_tenancy :: tenant_settings where
  "example_tenancy = \<lparr>ts_tenant_admission_mode = ''claims_only'', ts_tenant_state_cache_ttl_seconds = 5, ts_max_entries = 100,
     ts_db_available = True\<rparr>"

definition example_provider :: identity_provider where
  "example_provider = \<lparr>ip_exchange = \<lambda>_. Inl (OidcTokenExchangeError ''offline''),
     ip_verify = \<lambda>_. Inl JwtError, ip_verify_id = \<lambda>_ _ _ _. Inl JwtError\<rparr>"

lemmas execute_principal = oidc_principal_of_request_def resolve_request_principal_def resolve_cookie_def cookie_session_hash_def
  read_session_cookie_def verify_cookie_def cookie_payload_def cookie_secret_def partition_dot_def is_ascii_def nonempty_def
  session_id_hash_def on_db_def in_session_def present_session_def get_oidc_browser_session_by_hash_def
  browser_session_lifecycle_failure_def lifecycle_failure_at_def seconds_def last_activity_def
  get_tenant_def store_snapshot_def strip_def is_space_def casefold_def lower_char_def TENANT_ADMISSION_CLAIMS_ONLY_def
  TENANT_ADMISSION_REGISTERED_ONLY_def browser_session_touch_due_def touch_oidc_browser_session_def resolve_admitted_def admit_principal_def
  enforce_tenant_admission_def cache_snapshot_def cached_snapshot_def read_snapshot_def tenant_admission_denial_reason_def
  dget_def dget_default_def int_claim_def py_str_def touched_row_def flush_session_def update_where_def epoch_seconds_def
  timedelta_seconds_def BROWSER_SESSION_TOUCH_INTERVAL_SECONDS_def quota_dict_def list_tenant_quotas_def truthy_def lift_error_def record_usage_def record_request_usage_admission_def principal_of_session_def catch_op_def

lemma example_cookie_principal:
  "fst (oidc_principal_of_request example_crypto example_session_settings example_tenancy example_provider 0 None ''closed''
     Commits True example_cookie_request example_process)
   = Inr (Some \<lparr>sp_tenant_id = ''acme'', sp_actor_id = ''olga'', sp_scopes = [], op_expires_at = Some 3600,
       op_subject_id = None, op_session_source = ''secure_cookie''\<rparr>)"
  by (simp add: example_process_def example_cookie_request_def example_provider_def example_tenancy_def example_crypto_def example_logged_in_def example_start_def
      execute_principal execute_sessions del: bind_op_Inr bind_op_Inl)

text \<open>One database is reached from another by steps on sessions, whatever claims are held.\<close>

definition session_reaches :: "db \<Rightarrow> db \<Rightarrow> bool" where
  "session_reaches a b \<longleftrightarrow> (\<forall>claims. \<exists>claims'.
     session_run \<lparr>sw_db = a, sw_claims = claims\<rparr> \<lparr>sw_db = b, sw_claims = claims'\<rparr>)"

definition example_hash_2 :: string where "example_hash_2 = ''second-session:'' @ replicate 64 CHR ''b''"

lemma example_active:
  "map bs_status (list_active_oidc_browser_sessions ''acme'' ''olga'' example_logged_in) = [''active'']"
  "max_concurrent_sessions example_session_settings ''acme'' example_logged_in = 1"
  by (simp_all add: example_logged_in_def example_start_def execute_sessions del: bind_op_Inr bind_op_Inl)

lemma example_second_login:
  "\<exists>row. fst (session_scope (admit_login example_session_settings ''postgresql'' (example_login example_hash_2)) example_logged_in)
     = Inr row"
  by (simp add: example_logged_in_def example_start_def execute_sessions expire_stored_session_def revoke_with_event_def
      revoke_oidc_browser_session_def session_revocation_valid_def get_oidc_browser_session_by_hash_def flush_session_def
      update_where_def example_hash_2_def OIDC_SESSION_LIFECYCLE_ACTOR_def del: bind_op_Inr bind_op_Inl)

section \<open>Properties\<close>

text \<open>C26. The table of browser sessions is well formed in every history of logins, requests, refreshes, logouts, revocations
  and sweeps, whichever processes run them, however they interleave and with any settings, as long as no audit event is
  deleted. In every reachable state identifiers and hashes are unique; every row has the ledger event that created it;
  a revoked row has lost its refresh token and has who, when and why with the matching event, a rotated row has lost its
  token and names its successor, and an active or refreshing row has neither; every refreshed session has exactly one
  parent, with the same tenant, actor and absolute deadline and a counter one lower. At most one refresh holds a session,
  and what it holds is still claimed or was revoked meanwhile. And between any two moments of a history no row disappears
  or changes its identity, its scopes or its deadlines, a revoked row never changes again, and a rotated one keeps its
  successor and never becomes active.\<close>

theorem browser_sessions_consistent:
  assumes "sessions_start w0" and "session_run w0 w1" and "session_run w1 w"
  shows "sessions_ok (sw_db w) \<and> claims_ok (sw_claims w) (sw_db w) \<and> sessions_later (sw_db w1) (sw_db w)"
  using session_run_inv [OF assms(3)] session_run_inv [OF assms(2) session_start_inv [OF assms(1)]]
  by (simp add: session_inv_def)

theorem browser_sessions_consistent_witness:
  "sessions_ok example_logged_out \<and> sessions_later example_logged_in example_logged_out
    \<and> map (\<lambda>r. (bs_session_id_hash r, bs_status r)) (browser_sessions example_logged_in) = [(example_hash, ''active'')]"
  using browser_sessions_consistent [OF example_runs] example_logged_in_row by (simp add: example_world_def)

text \<open>C27. A request that a session cookie authenticates is only ever let through for the owner of a live session. When a
  request without an authorization header gets a principal, in whatever history and under whatever settings, its cookie
  verifies and names, by the hash of its session identifier, a stored row of the cookie's actor and tenant which is active
  and neither past its expiry, its absolute deadline nor its idle timeout at the moment it is looked at; the principal is
  that row's, with the scopes stored at login or refresh. And the row was not revoked or rotated at any earlier moment:
  a logout, a revocation or a refresh of the session is final for its cookie.\<close>

theorem cookie_principal_live:
  assumes "sessions_start w0" and "session_run w0 w1" and "session_run w1 w"
    and "app_db (rw_app q) = sw_db w" and "nonempty (br_authorization request) = None"
    and "oidc_principal_of_request cy st cfg ip observed_at recorder failure_mode outcome read_ok request q = (Inr (Some p), q')"
  shows "\<exists>cookie c s. \<exists>r \<in> set (browser_sessions (sw_db w)).
      nonempty (br_session_cookie request) = Some cookie
    \<and> read_session_cookie cy st (Some cookie) (sw_db w) = (Inr c, s)
    \<and> session_id_hash cy st (ok_session_id c) = Inr (bs_session_id_hash r)
    \<and> ok_actor_id c = bs_actor_id r \<and> ok_tenant_id c = bs_tenant_id r
    \<and> session_live st (clock_at (sw_db w) (clock_n s)) r \<and> p = principal_of_session r
    \<and> (\<forall>r1 \<in> set (browser_sessions (sw_db w1)). bs_session_id_hash r1 = bs_session_id_hash r \<longrightarrow>
          bs_status r1 \<in> {''active'', ''refreshing''})"
proof -
  have inv1: "session_inv w1" using assms(1,2) session_run_inv session_start_inv by blast
  from assms(6) obtain q1 where "resolve_request_principal cy st cfg ip observed_at request q = (Inr (Inr (Some p)), q1)"
    using principal_resolved by blast
  from resolve_request_cookie [OF assms(5) this] obtain cookie where cookie: "nonempty (br_session_cookie request) = Some cookie"
    "resolve_cookie cy st cfg observed_at request cookie q = (Inr (Inr (Some p)), q1)" by blast
  from resolve_cookie_principal [OF cookie(2)] obtain c h s t where
    hash: "cookie_session_hash cy st (Some cookie) (sw_db w) = (Inr (c, h), s)" and present: "present_session st c h s = (Inr (Inr p), t)"
    by (auto simp: assms(4))
  note read = cookie_session_hash_Inr [OF hash]
  then have same: "browser_sessions s = browser_sessions (sw_db w)" "clock_at s = clock_at (sw_db w)" by auto
  from present_session_principal [OF present] obtain r where
    r: "r \<in> set (browser_sessions (sw_db w))" "bs_session_id_hash r = h" "p = principal_of_session r" "bs_actor_id r = ok_actor_id c"
      "bs_tenant_id r = ok_tenant_id c" "lifecycle_failure_at st (clock_at (sw_db w) (clock_n s)) r = None"
    by (auto simp: same)
  have live: "session_live st (clock_at (sw_db w) (clock_n s)) r"
    using r(6) unfolding lifecycle_failure_None session_live_def .
  have "bs_status r1 \<in> {''active'', ''refreshing''}"
    if "r1 \<in> set (browser_sessions (sw_db w1))" "bs_session_id_hash r1 = bs_session_id_hash r" for r1
  proof -
    have "bs_status r1 \<notin> {''revoked'', ''rotated''}"
      using revoked_stays [OF inv1 assms(3) that(1) _ r(1)] that(2) live by (auto simp: session_live_def)
    then show ?thesis
      using inv1 that(1) sessions_ok_rowD [of "sw_db w1" r1] by (auto simp: session_inv_def session_row_ok_def live_status_def)
  qed
  then show ?thesis using cookie(1) read r live by metis
qed

theorem cookie_principal_live_witness:
  "\<exists>cookie c s. \<exists>r \<in> set (browser_sessions example_logged_in).
      read_session_cookie example_crypto example_session_settings (Some cookie) example_logged_in = (Inr c, s)
    \<and> session_live example_session_settings (clock_at example_logged_in (clock_n s)) r \<and> bs_actor_id r = ''olga''"
proof -
  obtain p q' where "oidc_principal_of_request example_crypto example_session_settings example_tenancy example_provider 0 None
      ''closed'' Commits True example_cookie_request example_process = (Inr (Some p), q')" "sp_actor_id p = ''olga''"
    using example_cookie_principal by (auto simp: prod_eq_iff)
  with cookie_principal_live [OF example_runs(1,2) rtranclp.rtrancl_refl, of example_process example_cookie_request example_crypto
      example_session_settings example_tenancy example_provider 0 None "''closed''" Commits True p q']
  show ?thesis
    by (fastforce simp: example_world_def example_process_def example_cookie_request_def nonempty_def principal_of_session_def)
qed

text \<open>C28. The limit on concurrent sessions is kept by every login of every history: when a login commits under a positive
  limit (the quota of the tenant, or the setting where it has none), the active sessions of that principal are the new one
  and the newest of the earlier ones, as many as the limit leaves room for, and never more than the limit; the oldest ones
  beyond it are no longer active.\<close>

theorem login_within_cap:
  assumes "sessions_start w0" and "session_run w0 w" and "session_scope (admit_login st dialect l) (sw_db w) = (Inr row, t)"
    and "n = max_concurrent_sessions st (sp_tenant_id (lg_principal l)) (sw_db w)" and "0 < n"
    and "olds = list_active_oidc_browser_sessions (sp_tenant_id (lg_principal l)) (sp_actor_id (lg_principal l)) (sw_db w)"
    and "news = list_active_oidc_browser_sessions (sp_tenant_id (lg_principal l)) (sp_actor_id (lg_principal l)) t"
  shows "set news = insert row (set (drop (nat (int (length olds) + 1 - n)) olds)) \<and> int (length news) \<le> n"
proof -
  have "sessions_ok (sw_db w)"
    using session_run_inv [OF assms(2) session_start_inv [OF assms(1)]] by (simp add: session_inv_def)
  moreover have "admit_login st dialect l (sw_db w) = (Inr row, t)" using assms(3) by (simp add: session_scope_Inr)
  ultimately show ?thesis using login_cap [OF _ _ refl refl assms(4,5) refl] unfolding assms(6,7) by blast
qed

theorem login_within_cap_witness:
  "\<exists>row t. session_scope (admit_login example_session_settings ''postgresql'' (example_login example_hash_2)) example_logged_in
      = (Inr row, t)
    \<and> set (list_active_oidc_browser_sessions ''acme'' ''olga'' t) = {row}"
proof -
  let ?m = "session_scope (admit_login example_session_settings ''postgresql'' (example_login example_hash_2)) example_logged_in"
  obtain row t where run: "?m = (Inr row, t)" using example_second_login by (auto simp: prod_eq_iff)
  moreover obtain r where "list_active_oidc_browser_sessions ''acme'' ''olga'' example_logged_in = [r]"
    "max_concurrent_sessions example_session_settings ''acme'' example_logged_in = 1"
    using example_active by auto
  ultimately show ?thesis
    using login_within_cap [OF example_runs(1,2), of example_session_settings "''postgresql''" "example_login example_hash_2" row t]
    by (simp add: example_world_def example_login_def example_user_def)
qed

text \<open>C29. The endpoints do nothing to sessions beyond these steps: the login callback, both logouts, the refresh with its
  claim, its exchange outside the transaction and its outcome, the revocation by reference, the sweep of the scheduled
  jobs and the authentication of a request each take the database from where they found it to where they leave it by a
  run of the steps, whatever the identity provider answers and on success and on every error. So the histories of the
  other properties are all that these entry points, one after the other or interleaved between their transactions, can do.\<close>

theorem session_endpoints_are_runs:
  fixes s :: db and q :: request_world
  shows "session_reaches s (snd (oidc_callback cy st mode dialect ip new_session_id nonce request code state s))
    \<and> session_reaches s (snd (identity_session_logout cy st request s))
    \<and> session_reaches s (snd (oidc_federated_logout cy st request return_to s))
    \<and> session_reaches s (snd (identity_session_refresh cy st mode ip new_session_id nonce request s))
    \<and> session_reaches s (snd (identity_session_revoke the_principal session_ref s))
    \<and> session_reaches s (snd (run_orphaned_session_sweep_job st tenant_id at_time s))
    \<and> session_reaches (app_db (rw_app q)) (app_db (rw_app (snd
        (oidc_principal_of_request cy st cfg ip observed_at recorder failure_mode outcome read_ok request q))))"
  using callback_runs logout_runs refresh_runs revoke_runs sweep_runs principal_runs
  by (simp add: session_reaches_def runs_via_def request_db_def)

end
