(* ===== verification/Maintenance_Jobs.thy ===== *)
theory Maintenance_Jobs
  imports Audit_History Session_Endpoints
begin

text \<open>
  The scheduled jobs of \<^verbatim>\<open>axis_api/maintenance_jobs.py\<close> that run over all tenants: the paging through the tenants, the
  retention of the audit ledger, and the reconciliation of tenant state. (The sweep of sessions is in \<open>Browser_Sessions\<close>.)
  A transaction of a tenant can fail in the database: \<open>fails\<close> gives the class of the exception then.
\<close>

section \<open>The tenants of a run\<close>

definition MAX_TENANTS_PER_RUN :: nat where "MAX_TENANTS_PER_RUN = 100000"

text \<open>The inner loop: the identifiers of a page, until the cap.\<close>

fun take_page :: "nat \<Rightarrow> string list \<Rightarrow> tenant list \<Rightarrow> string list \<times> bool" where
  "take_page cap tenant_ids [] = (tenant_ids, False)"
| "take_page cap tenant_ids (t # page) =
     (let ids = tenant_ids @ [tn_id t] in if cap \<le> length ids then (ids, True) else take_page cap ids page)"

definition after_cursor :: "string option \<Rightarrow> tenant \<Rightarrow> bool" where
  "after_cursor cursor t \<longleftrightarrow> (case cursor of None \<Rightarrow> True | Some c \<Rightarrow> c < tn_id t)"

lemma list_tenants_after_eq:
  "list_tenants_after cursor n s = take n (sort_key tn_id (filter (after_cursor cursor) (tenants s)))"
  by (simp add: list_tenants_after_def select_where_def after_cursor_def [abs_def])

text \<open>Every further page starts behind the last tenant of the one before, so fewer tenants are left.\<close>

lemma next_page_smaller:
  assumes "list_tenants_after cursor n s \<noteq> []"
  shows "length (filter (after_cursor (Some (tn_id (last (list_tenants_after cursor n s))))) (tenants s))
    < length (filter (after_cursor cursor) (tenants s))"
proof -
  let ?t = "last (list_tenants_after cursor n s)"
  have "?t \<in> set (list_tenants_after cursor n s)" using assms by simp
  then have t: "?t \<in> set (tenants s)" "after_cursor cursor ?t"
    by (auto simp: list_tenants_after_eq dest!: in_set_takeD)
  have narrower: "after_cursor cursor r" if "after_cursor (Some (tn_id ?t)) r" for r
    using that t(2) by (auto simp: after_cursor_def split: option.splits)
  have "filter (after_cursor (Some (tn_id ?t))) (tenants s)
      = filter (after_cursor (Some (tn_id ?t))) (filter (after_cursor cursor) (tenants s))"
    using narrower by (simp add: filter_filter) (rule filter_cong, auto)
  also have "length \<dots> < length (filter (after_cursor cursor) (tenants s))"
    by (rule length_filter_less [of ?t]) (use t in \<open>auto simp: after_cursor_def\<close>)
  finally show ?thesis .
qed

function iter_tenant_pages :: "string option \<Rightarrow> string list \<Rightarrow> db \<Rightarrow> string list \<times> bool" where
  "iter_tenant_pages cursor tenant_ids s =
     (let page = list_tenants_after cursor TENANT_PAGE_SIZE s in
      if page = [] then (tenant_ids, False)
      else let (ids, cap_reached) = take_page MAX_TENANTS_PER_RUN tenant_ids page in
        if cap_reached \<or> length page < TENANT_PAGE_SIZE then (ids, cap_reached)
        else iter_tenant_pages (Some (tn_id (last page))) ids s)"
  by pat_completeness auto
termination
  by (relation "measure (\<lambda>(cursor, tenant_ids, s). length (filter (after_cursor cursor) (tenants s)))")
    (auto intro: next_page_smaller)

declare iter_tenant_pages.simps [simp del]

definition iter_all_tenant_ids :: "(db, 'e, string list \<times> bool) op" where
  "iter_all_tenant_ids = session_scope (get_op (iter_tenant_pages None []))"

section \<open>One transaction for each tenant\<close>

text \<open>\<^verbatim>\<open>try: with session_scope(factory) .. except Exception as exc\<close>: the class of the exception, or the result.\<close>

definition tenant_transaction ::
  "(string \<Rightarrow> string option) \<Rightarrow> ('e \<Rightarrow> string) \<Rightarrow> string \<Rightarrow> (db, 'e, 'a) op \<Rightarrow> (db, 'e, string + 'a) op"
where
  "tenant_transaction fails class_of tenant_id work s =
     (case work s of
        (Inl e, t) \<Rightarrow> (Inr (Inl (class_of e)), rollback s t)
      | (Inr x, t) \<Rightarrow>
          (case fails tenant_id of
             Some exception_class \<Rightarrow> (Inr (Inl exception_class), rollback s t)
           | None \<Rightarrow> (Inr (Inr x), t)))"

text \<open>What a run adds up, and what it reports; the details of a tenant are of the type \<open>'d\<close>.\<close>

record 'd job_totals =
  jt_tenants_scanned :: nat
  jt_found :: nat
  jt_done :: nat
  jt_audit_event_ids :: "uuid list"
  jt_errors :: "string list"
  jt_details :: "(string \<times> (string + 'd)) list"

record 'd job_report =
  jp_job :: string
  jp_status :: string
  jp_tenants_scanned :: nat
  jp_items_scanned :: nat
  jp_items_affected :: nat
  jp_audit_event_ids :: "uuid list"
  jp_tenant_cap_reached :: bool
  jp_tenants :: "(string \<times> (string + 'd)) list"
  jp_errors :: "string list"

definition no_totals :: "'d job_totals" where
  "no_totals = \<lparr>jt_tenants_scanned = 0, jt_found = 0, jt_done = 0, jt_audit_event_ids = [], jt_errors = [], jt_details = []\<rparr>"

definition add_failure :: "string \<Rightarrow> string \<Rightarrow> 'd job_totals \<Rightarrow> 'd job_totals" where
  "add_failure tenant_id exception_class totals =
     totals\<lparr>jt_tenants_scanned := Suc (jt_tenants_scanned totals),
       jt_errors := jt_errors totals @ [tenant_id @ '':'' @ exception_class],
       jt_details := AList.update tenant_id (Inl exception_class) (jt_details totals)\<rparr>"

definition add_success :: "string \<Rightarrow> nat \<Rightarrow> nat \<Rightarrow> uuid option \<Rightarrow> 'd \<Rightarrow> 'd job_totals \<Rightarrow> 'd job_totals" where
  "add_success tenant_id found completed event_id detail totals =
     totals\<lparr>jt_tenants_scanned := Suc (jt_tenants_scanned totals), jt_found := jt_found totals + found,
       jt_done := jt_done totals + completed,
       jt_audit_event_ids := jt_audit_event_ids totals @ (case event_id of None \<Rightarrow> [] | Some u \<Rightarrow> [u]),
       jt_details := AList.update tenant_id (Inr detail) (jt_details totals)\<rparr>"

definition with_cap_error :: "bool \<Rightarrow> 'd job_totals \<Rightarrow> 'd job_totals" where
  "with_cap_error cap_reached totals =
     (if cap_reached
      then totals\<lparr>jt_errors := jt_errors totals @ [''jobs_tenant_cap_reached:'' @ nat_text (jt_tenants_scanned totals)]\<rparr>
      else totals)"

text \<open>\<^verbatim>\<open>_append_summary_event\<close>, in a transaction of its own.\<close>

definition append_summary_event :: "string \<Rightarrow> string \<Rightarrow> dict \<Rightarrow> (db, 'e, uuid) op" where
  "append_summary_event tenant_id event_type payload =
     session_scope (bind_op (append_audit_event
         \<lparr>ac_event_tenant_id = tenant_id, ac_event_actor_id = SCHEDULED_JOBS_ACTOR, ac_event_type = event_type,
          ac_event_payload = payload\<rparr>) (\<lambda>event. return_op (ae_id event)))"

section \<open>Retention of the audit ledger\<close>

record retention_job_settings =
  rj_retention_days :: int
  rj_dry_run :: bool
  rj_batch_limit :: nat

definition AUDIT_RETENTION_JOB_EVENT_TYPE :: string where
  "AUDIT_RETENTION_JOB_EVENT_TYPE = ''platform.scheduled_job.audit_retention.completed''"

definition scheduled_retention_request :: "retention_job_settings \<Rightarrow> string \<Rightarrow> retention_request" where
  "scheduled_retention_request st tenant_id =
     \<lparr>dn_tenant_id = tenant_id, dn_actor_id = SCHEDULED_JOBS_ACTOR, dn_actor_scopes = [RETENTION_DELETION_REQUIRED_SCOPE],
      dn_retention_days = rj_retention_days st, dn_legal_hold = False, dn_dry_run = rj_dry_run st, dn_event_type = None,
      dn_actor_filter = None, dn_limit = rj_batch_limit st, dn_reason = ''scheduled-audit-retention-deletion''\<rparr>"

text \<open>The bounds of the request model.\<close>

definition retention_request_valid :: "retention_request \<Rightarrow> bool" where
  "retention_request_valid request \<longleftrightarrow>
     dn_tenant_id request \<noteq> [] \<and> dn_actor_id request \<noteq> [] \<and> 30 \<le> dn_retention_days request \<and> dn_retention_days request \<le> 3650
     \<and> 1 \<le> dn_limit request \<and> dn_limit request \<le> 1000 \<and> length_between 1 160 (dn_reason request)"

definition ledger_error_class :: "ledger_error \<Rightarrow> string" where
  "ledger_error_class e =
     (case e of
        RetentionDeletionPermissionDenied _ \<Rightarrow> ''AuditRetentionDeletionPermissionDenied''
      | LedgerModelInvalid \<Rightarrow> ''ValidationError''
      | LedgerDatabaseError exception_class \<Rightarrow> exception_class
      | _ \<Rightarrow> ''Exception'')"

definition retention_of_tenant ::
  "ledger_codecs \<Rightarrow> retention_job_settings \<Rightarrow> string \<Rightarrow> (db, ledger_error, retention_result) op"
where
  "retention_of_tenant lx st tenant_id =
     (let request = scheduled_retention_request st tenant_id in
      if retention_request_valid request then execute_audit_retention_deletion lx request else raise_op LedgerModelInvalid)"

fun retention_tenants ::
  "ledger_codecs \<Rightarrow> retention_job_settings \<Rightarrow> (string \<Rightarrow> string option) \<Rightarrow> string list \<Rightarrow> (string \<times> nat \<times> nat) job_totals \<Rightarrow>
   (db, ledger_error, (string \<times> nat \<times> nat) job_totals) op"
where
  "retention_tenants lx st fails [] totals = return_op totals"
| "retention_tenants lx st fails (tenant_id # tenant_ids) totals =
     bind_op (tenant_transaction fails ledger_error_class tenant_id (retention_of_tenant lx st tenant_id)) (\<lambda>outcome.
     retention_tenants lx st fails tenant_ids
       (case outcome of
          Inl exception_class \<Rightarrow> add_failure tenant_id exception_class totals
        | Inr result \<Rightarrow>
            add_success tenant_id (dt_candidate_count result) (dt_deleted_count result) (dt_audit_event_id result)
              (dt_status result, dt_candidate_count result, dt_deleted_count result) totals))"

definition retention_summary_payload :: "retention_job_settings \<Rightarrow> bool \<Rightarrow> 'd job_totals \<Rightarrow> dict" where
  "retention_summary_payload st cap_reached totals =
     [(''category'', JStr ''scheduled_job''), (''job'', JStr ''audit_retention_deletion''),
      (''status'', JStr (sweep_status (jt_errors totals))), (''retention_days'', JInt (rj_retention_days st)),
      (''dry_run'', JBool (rj_dry_run st)), (''tenants_scanned'', JInt (int (jt_tenants_scanned totals))),
      (''candidate_count'', JInt (int (jt_found totals))), (''deleted_count'', JInt (int (jt_done totals))),
      (''error_count'', JInt (int (length (jt_errors totals)))), (''tenant_cap_reached'', JBool cap_reached),
      (''raw_payload_exported'', JBool False)]"

definition run_audit_retention_deletion_job ::
  "ledger_codecs \<Rightarrow> retention_job_settings \<Rightarrow> (string \<Rightarrow> string option) \<Rightarrow> string list option \<Rightarrow>
   (db, ledger_error, (string \<times> nat \<times> nat) job_report) op"
where
  "run_audit_retention_deletion_job lx st fails requested =
     bind_op (case requested of Some ids \<Rightarrow> return_op (ids, False) | None \<Rightarrow> iter_all_tenant_ids) (\<lambda>(tenant_ids, cap_reached).
     bind_op (retention_tenants lx st fails tenant_ids no_totals) (\<lambda>tally.
     let totals = with_cap_error cap_reached tally in
     bind_op (append_summary_event ''platform'' AUDIT_RETENTION_JOB_EVENT_TYPE (retention_summary_payload st cap_reached totals))
       (\<lambda>event_id.
     return_op
       \<lparr>jp_job = ''audit_retention_deletion'', jp_status = sweep_status (jt_errors totals),
        jp_tenants_scanned = jt_tenants_scanned totals, jp_items_scanned = jt_found totals,
        jp_items_affected = jt_done totals, jp_audit_event_ids = jt_audit_event_ids totals @ [event_id],
        jp_tenant_cap_reached = cap_reached, jp_tenants = jt_details totals, jp_errors = jt_errors totals\<rparr>)))"

section \<open>Reconciliation of tenant state\<close>

definition TENANT_RECONCILIATION_JOB_EVENT_TYPE :: string where
  "TENANT_RECONCILIATION_JOB_EVENT_TYPE = ''platform.scheduled_job.tenant_reconciliation.completed''"

definition SESSION_SWEEP_BLOCKED_TENANT_REASON :: string where
  "SESSION_SWEEP_BLOCKED_TENANT_REASON = ''tenant_state_reconciliation_sweep''"

definition VALID_TENANT_STATUSES :: "string list" where
  "VALID_TENANT_STATUSES = map lifecycle_value [ACTIVE, SUSPENDED, PENDING_DELETION]"

definition VALID_QUOTA_KEYS :: "string list" where
  "VALID_QUOTA_KEYS = map quota_key_value [API_REQUESTS_PER_WINDOW, MAX_CONCURRENT_SESSIONS, MAX_CONNECTOR_SYNC_ROWS_PER_RUN]"

record reconcile_detail =
  rl_lifecycle_status :: string
  rl_findings :: "string list"
  rl_sessions_revoked :: nat

definition quota_findings :: "tenant_quota \<Rightarrow> string list" where
  "quota_findings q =
     (if tq_quota_key q \<in> set VALID_QUOTA_KEYS then [] else [''unknown_quota_key:'' @ tq_quota_key q]) @
     (if tq_quota_value q < 0 then [''negative_quota_value:'' @ tq_quota_key q] else [])"

definition state_findings :: "tenant \<Rightarrow> tenant_quota list \<Rightarrow> string list" where
  "state_findings t quotas =
     (if tn_status t \<in> set VALID_TENANT_STATUSES then [] else [''unknown_lifecycle_status:'' @ tn_status t]) @
     concat (map quota_findings quotas)"

fun revoke_lingering :: "browser_session list \<Rightarrow> (db, session_error, nat) op" where
  "revoke_lingering [] = return_op 0"
| "revoke_lingering (r # rows) =
     bind_op (revoke_session_via_sweep r SESSION_SWEEP_BLOCKED_TENANT_REASON) (\<lambda>_.
     bind_op (revoke_lingering rows) (\<lambda>n. return_op (Suc n)))"

definition reconciliation_payload :: "tenant \<Rightarrow> string list \<Rightarrow> nat \<Rightarrow> dict" where
  "reconciliation_payload t findings sessions_revoked =
     [(''category'', JStr ''scheduled_job''), (''job'', JStr ''tenant_state_reconciliation''), (''status'', JStr ''finding''),
      (''lifecycle_status'', JStr (tn_status t)), (''findings'', jstrs findings),
      (''sessions_revoked'', JInt (int sessions_revoked)), (''raw_payload_exported'', JBool False)]"

definition tenant_is_blocked :: "tenant \<Rightarrow> session_error + bool" where
  "tenant_is_blocked t =
     (case blocked_tenant_reason (Some (tn_status t)) of
        Inl e \<Rightarrow> Inl (SessionTenantError e) | Inr found \<Rightarrow> Inr (found \<noteq> None))"

text \<open>The body of the transaction of a tenant; \<open>None\<close> when the tenant does not exist.\<close>

definition reconcile_one_tenant ::
  "session_settings \<Rightarrow> timestamp \<Rightarrow> string \<Rightarrow> (db, session_error, (reconcile_detail \<times> uuid option) option) op"
where
  "reconcile_one_tenant st now tenant_id =
     bind_op (get_op (get_tenant tenant_id)) (\<lambda>found.
     case found of
       None \<Rightarrow> return_op None
     | Some t \<Rightarrow>
         bind_op (get_op (list_tenant_quotas (tn_id t))) (\<lambda>quotas.
         bind_op (of_result (tenant_is_blocked t)) (\<lambda>blocked.
         bind_op (if blocked
             then bind_op (get_op (list_expired_active_oidc_browser_sessions (now + timedelta_days 3650) None (Some (tn_id t))
                    (ss_sweep_batch_limit st))) revoke_lingering
             else return_op 0) (\<lambda>sessions_revoked.
         let findings = state_findings t quotas @
               (if sessions_revoked \<noteq> 0 then [''revoked_sessions_on_blocked_tenant:'' @ nat_text sessions_revoked] else []);
             detail = \<lparr>rl_lifecycle_status = tn_status t, rl_findings = findings, rl_sessions_revoked = sessions_revoked\<rparr>
         in if findings \<noteq> [] \<or> sessions_revoked \<noteq> 0
            then bind_op (append_audit_event
                \<lparr>ac_event_tenant_id = tn_id t, ac_event_actor_id = SCHEDULED_JOBS_ACTOR,
                 ac_event_type = TENANT_RECONCILIATION_JOB_EVENT_TYPE,
                 ac_event_payload = reconciliation_payload t findings sessions_revoked\<rparr>) (\<lambda>event.
              return_op (Some (detail, Some (ae_id event))))
            else return_op (Some (detail, None))))))"

text \<open>The error classes of the routes of a revocation that the transaction can raise.\<close>

definition session_error_class :: "session_error \<Rightarrow> string" where
  "session_error_class e = (case e of SessionValueError \<Rightarrow> ''ValidationError'' | SessionTenantError _ \<Rightarrow> ''ValueError'' | _ \<Rightarrow> ''Exception'')"

fun reconcile_tenants ::
  "session_settings \<Rightarrow> timestamp \<Rightarrow> (string \<Rightarrow> string option) \<Rightarrow> string list \<Rightarrow> reconcile_detail job_totals \<Rightarrow>
   (db, session_error, reconcile_detail job_totals) op"
where
  "reconcile_tenants st now fails [] totals = return_op totals"
| "reconcile_tenants st now fails (tenant_id # tenant_ids) totals =
     bind_op (tenant_transaction fails session_error_class tenant_id (reconcile_one_tenant st now tenant_id)) (\<lambda>outcome.
     reconcile_tenants st now fails tenant_ids
       (case outcome of
          Inl exception_class \<Rightarrow> add_failure tenant_id exception_class totals
        | Inr None \<Rightarrow> totals
        | Inr (Some (detail, event_id)) \<Rightarrow>
            add_success tenant_id (length (rl_findings detail)) (rl_sessions_revoked detail) event_id detail totals))"

definition reconciliation_summary_payload :: "bool \<Rightarrow> 'd job_totals \<Rightarrow> dict" where
  "reconciliation_summary_payload cap_reached totals =
     [(''category'', JStr ''scheduled_job''), (''job'', JStr ''tenant_state_reconciliation''),
      (''status'', JStr (sweep_status (jt_errors totals))), (''tenants_scanned'', JInt (int (jt_tenants_scanned totals))),
      (''finding_count'', JInt (int (jt_found totals))), (''sessions_revoked'', JInt (int (jt_done totals))),
      (''error_count'', JInt (int (length (jt_errors totals)))), (''tenant_cap_reached'', JBool cap_reached),
      (''raw_payload_exported'', JBool False)]"

definition run_tenant_state_reconciliation_job ::
  "session_settings \<Rightarrow> (string \<Rightarrow> string option) \<Rightarrow> string list option \<Rightarrow> timestamp option \<Rightarrow>
   (db, session_error, reconcile_detail job_report) op"
where
  "run_tenant_state_reconciliation_job st fails requested now_arg =
     bind_op (case now_arg of Some t \<Rightarrow> return_op t | None \<Rightarrow> utc_now) (\<lambda>now.
     bind_op (case requested of Some ids \<Rightarrow> return_op (ids, False) | None \<Rightarrow> iter_all_tenant_ids) (\<lambda>(tenant_ids, cap_reached).
     bind_op (reconcile_tenants st now fails tenant_ids no_totals) (\<lambda>tally.
     let totals = with_cap_error cap_reached tally in
     bind_op (append_summary_event ''platform'' TENANT_RECONCILIATION_JOB_EVENT_TYPE
         (reconciliation_summary_payload cap_reached totals)) (\<lambda>event_id.
     return_op
       \<lparr>jp_job = ''tenant_state_reconciliation'', jp_status = sweep_status (jt_errors totals),
        jp_tenants_scanned = jt_tenants_scanned totals, jp_items_scanned = jt_tenants_scanned totals,
        jp_items_affected = jt_found totals + jt_done totals, jp_audit_event_ids = jt_audit_event_ids totals @ [event_id],
        jp_tenant_cap_reached = cap_reached, jp_tenants = jt_details totals, jp_errors = jt_errors totals\<rparr>))))"

section \<open>The paging is complete\<close>

lemma take_page_eq:
  "length ids < cap \<Longrightarrow> take_page cap ids page = (take cap (ids @ map tn_id page), cap \<le> length ids + length page)"
proof (induction page arbitrary: ids)
  case (Cons t page)
  show ?case
  proof (cases "cap \<le> Suc (length ids)")
    case True
    then have "cap = Suc (length ids)" using Cons.prems by simp
    then show ?thesis by simp
  next
    case False
    then show ?thesis using Cons.IH [of "ids @ [tn_id t]"] by simp
  qed
qed simp

lemma map_insort_key: "map f (insort_key f x xs) = insort (f x) (map f xs)"
  by (induction xs) simp_all

lemma map_sort_key: "map f (sort_key f xs) = sort (map f xs)"
  by (induction xs) (simp_all add: map_insort_key)

lemma sorted_le_last: "sorted xs \<Longrightarrow> x \<in> set xs \<Longrightarrow> x \<le> last xs"
  by (induction xs) auto

text \<open>A page is the next piece of the sorted identifiers.\<close>

lemma page_ids:
  assumes ids: "sort (map tn_id (tenants s)) = earlier @ later" and distinct: "distinct (map tn_id (tenants s))"
    and cursor: "cursor = (if earlier = [] then None else Some (last earlier))"
  shows "map tn_id (list_tenants_after cursor n s) = take n later"
proof -
  let ?after = "\<lambda>i. case cursor of None \<Rightarrow> True | Some c \<Rightarrow> c < i"
  have strict: "sorted (earlier @ later)" "distinct (earlier @ later)" using distinct by (simp_all flip: ids)
  have "map tn_id (sort_key tn_id (filter (after_cursor cursor) (tenants s)))
      = map tn_id (filter (after_cursor cursor) (sort_key tn_id (tenants s)))"
    by (simp only: filter_sort)
  also have "\<dots> = filter ?after (earlier @ later)"
    by (simp add: filter_map after_cursor_def [abs_def] comp_def flip: ids map_sort_key)
  also have "\<dots> = later"
  proof (cases "earlier = []")
    case False
    have "i \<le> last earlier" if "i \<in> set earlier" for i
      using that strict(1) sorted_le_last by (auto simp: sorted_append)
    then have "filter ?after earlier = []" using cursor False by (auto simp: filter_empty_conv leD)
    moreover have "last earlier < i" if "i \<in> set later" for i
      using that strict False last_in_set [OF False] by (force simp: sorted_append order_less_le)
    then have "filter ?after later = later" using cursor False by (auto simp: filter_id_conv)
    ultimately show ?thesis by simp
  qed (simp add: cursor)
  finally show ?thesis by (simp add: list_tenants_after_eq flip: take_map)
qed

lemma iter_tenant_pages_eq:
  assumes "sort (map tn_id (tenants s)) = earlier @ later" "distinct (map tn_id (tenants s))"
    and "cursor = (if earlier = [] then None else Some (last earlier))" "length earlier < MAX_TENANTS_PER_RUN"
  shows "iter_tenant_pages cursor earlier s
    = (take MAX_TENANTS_PER_RUN (earlier @ later), MAX_TENANTS_PER_RUN \<le> length (earlier @ later))"
  using assms
proof (induction "length later" arbitrary: cursor earlier later rule: less_induct)
  case less
  let ?page = "list_tenants_after cursor TENANT_PAGE_SIZE s"
  have page: "map tn_id ?page = take TENANT_PAGE_SIZE later" by (rule page_ids [OF less.prems(1-3)])
  then have len: "length ?page = min (length later) TENANT_PAGE_SIZE" by (metis length_map length_take)
  have got: "take_page MAX_TENANTS_PER_RUN earlier ?page
      = (take MAX_TENANTS_PER_RUN (earlier @ take TENANT_PAGE_SIZE later), MAX_TENANTS_PER_RUN \<le> length earlier + length ?page)"
    using take_page_eq [OF less.prems(4), of ?page] by (simp add: page)
  consider "?page = []" | "?page \<noteq> []" "length later < TENANT_PAGE_SIZE"
    | "?page \<noteq> []" "TENANT_PAGE_SIZE \<le> length later" "MAX_TENANTS_PER_RUN \<le> length earlier + length ?page"
    | "?page \<noteq> []" "TENANT_PAGE_SIZE \<le> length later" "length earlier + length ?page < MAX_TENANTS_PER_RUN"
    by linarith
  then show ?case
  proof cases
    case 1
    then have "later = []" using page len by (auto simp: TENANT_PAGE_SIZE_def)
    then show ?thesis using less.prems(4) 1 by (subst iter_tenant_pages.simps) simp
  next
    case 2
    then show ?thesis using got len by (subst iter_tenant_pages.simps) (simp add: Let_def)
  next
    case 3
    then have "MAX_TENANTS_PER_RUN - length earlier \<le> TENANT_PAGE_SIZE" "MAX_TENANTS_PER_RUN \<le> length earlier + length later"
      using len by linarith+
    then show ?thesis using 3 got by (subst iter_tenant_pages.simps) (simp add: Let_def min_absorb1)
  next
    case 4
    let ?earlier = "earlier @ take TENANT_PAGE_SIZE later" and ?later = "drop TENANT_PAGE_SIZE later"
    have full: "length ?page = TENANT_PAGE_SIZE" using 4 len by simp
    have "tn_id (last ?page) = last (take TENANT_PAGE_SIZE later)" using 4(1) by (simp flip: page add: last_map)
    moreover have ne: "take TENANT_PAGE_SIZE later \<noteq> []" using 4(1) page by (metis map_is_Nil_conv)
    ultimately have cursor: "Some (tn_id (last ?page)) = (if ?earlier = [] then None else Some (last ?earlier))" by simp
    have "iter_tenant_pages (Some (tn_id (last ?page))) ?earlier s
        = (take MAX_TENANTS_PER_RUN (?earlier @ ?later), MAX_TENANTS_PER_RUN \<le> length (?earlier @ ?later))"
      by (rule less.hyps [OF _ _ less.prems(2) cursor]) (use 4 full ne less.prems(1) in \<open>auto simp: TENANT_PAGE_SIZE_def\<close>)
    moreover have "iter_tenant_pages cursor earlier s = iter_tenant_pages (Some (tn_id (last ?page))) ?earlier s"
      using 4 got full by (subst iter_tenant_pages.simps) (simp add: Let_def)
    ultimately show ?thesis by simp
  qed
qed

text \<open>C38. The paging through the tenants ends, whatever the number of pages, with every tenant exactly once in the order
  of the identifiers, up to the cap of a run; the cap is reported as reached exactly when there are at least as many tenants.\<close>

theorem tenant_pages_complete:
  assumes "distinct (map tn_id (tenants s))"
  shows "iter_tenant_pages None [] s
    = (take MAX_TENANTS_PER_RUN (sort (map tn_id (tenants s))), MAX_TENANTS_PER_RUN \<le> length (tenants s))"
  using iter_tenant_pages_eq [of s "[]" "sort (map tn_id (tenants s))" None] assms by (simp add: MAX_TENANTS_PER_RUN_def)

section \<open>The retention job as a history of the ledger\<close>

lemma ledger_steps_trans:
  assumes "ledger_steps lx s u" "ledger_steps lx u t"
  shows "ledger_steps lx s t"
  using assms(2,1) by (induction rule: ledger_steps.induct) (blast intro: ledger_steps.more)+

lemma ledger_steps_one: "ledger_step lx s t \<Longrightarrow> ledger_steps lx s t"
  by (rule ledger_steps.more [OF ledger_steps.none])

lemma retention_transaction_step:
  "\<exists>outcome t. tenant_transaction fails ledger_error_class tenant_id (retention_of_tenant lx st tenant_id) s = (Inr outcome, t)
     \<and> ledger_step lx s t"
proof -
  let ?rq = "scheduled_retention_request st tenant_id"
  obtain r t where run: "retention_of_tenant lx st tenant_id s = (r, t)" by fastforce
  have grown: "uuid_at t = uuid_at s \<and> uuid_n s \<le> uuid_n t"
    using run keepsD [OF delete_grown, of s s lx ?rq]
    by (auto simp: retention_of_tenant_def Let_def grown_def split: if_splits)
  then have undone: "ledger_step lx s (rollback s t)" by (intro ledger_step.appended only_appends_rollback) auto
  show ?thesis
  proof (cases r)
    case (Inl e)
    then show ?thesis using run undone by (simp add: tenant_transaction_def)
  next
    case (Inr res)
    have "retention_request_valid ?rq" using run Inr by (auto simp: retention_of_tenant_def Let_def split: if_splits)
    then have "manufacturing_audit_retention_delete lx ?rq None s = (Inr res, t)"
      using run Inr
      by (simp add: retention_of_tenant_def Let_def manufacturing_audit_retention_delete_def session_scope_def bind_op_def
          bind_audit_actor_def bind_request_actor_def)
    then have "ledger_step lx s t" by (rule ledger_step.deleted)
    then show ?thesis using run Inr undone by (cases "fails tenant_id") (simp_all add: tenant_transaction_def)
  qed
qed

lemma retention_tenants_run:
  "\<exists>tally t. retention_tenants lx st fails ids totals s = (Inr tally, t) \<and> ledger_steps lx s t
     \<and> jt_tenants_scanned tally = jt_tenants_scanned totals + length ids"
proof (induction ids arbitrary: totals s)
  case (Cons tenant_id ids)
  obtain outcome u where one: "tenant_transaction fails ledger_error_class tenant_id (retention_of_tenant lx st tenant_id) s = (Inr outcome, u)"
      "ledger_step lx s u"
    using retention_transaction_step by blast
  let ?tally = "case outcome of
      Inl exception_class \<Rightarrow> add_failure tenant_id exception_class totals
    | Inr result \<Rightarrow> add_success tenant_id (dt_candidate_count result) (dt_deleted_count result) (dt_audit_event_id result)
        (dt_status result, dt_candidate_count result, dt_deleted_count result) totals"
  have "jt_tenants_scanned ?tally = Suc (jt_tenants_scanned totals)"
    by (simp add: add_failure_def add_success_def split: sum.split)
  moreover obtain tally t where "retention_tenants lx st fails ids ?tally u = (Inr tally, t)" "ledger_steps lx u t"
      "jt_tenants_scanned tally = jt_tenants_scanned ?tally + length ids"
    using Cons.IH [of ?tally u] by blast
  ultimately show ?case
    using one ledger_steps_trans [OF ledger_steps_one [OF one(2)]] by (auto simp: bind_op_def)
qed (auto intro: ledger_steps.none)

lemma iter_all_tenant_ids_apply: "iter_all_tenant_ids s = (Inr (iter_tenant_pages None [] s), s)"
  by (simp add: iter_all_tenant_ids_def session_scope_def)

lemma requested_ids:
  "\<exists>ids cap. (case requested of Some ids \<Rightarrow> return_op (ids, False) | None \<Rightarrow> iter_all_tenant_ids) s = (Inr (ids, cap), s)
     \<and> (case requested of Some rs \<Rightarrow> ids = rs | None \<Rightarrow> True)"
  by (cases requested; cases "iter_tenant_pages None [] s") (auto simp: iter_all_tenant_ids_apply)


section \<open>Sessions of a blocked tenant\<close>

lemma revoke_lingering_effect:
  assumes "sessions_ok s" "set rows \<subseteq> set (browser_sessions s)" "distinct rows" "\<And>r. r \<in> set rows \<Longrightarrow> bs_status r = ''active''"
    and "revoke_lingering rows s = (Inr n, v)"
  shows "n = length rows \<and> (\<forall>q \<in> set (browser_sessions s). q \<notin> set rows \<longrightarrow> q \<in> set (browser_sessions v))
    \<and> (\<forall>q \<in> set (browser_sessions v). bs_status q = ''active'' \<longrightarrow> q \<in> set (browser_sessions s) \<and> q \<notin> set rows)"
  using assms
proof (induction rows arbitrary: s n)
  case (Cons r rows)
  let ?why = SESSION_SWEEP_BLOCKED_TENANT_REASON and ?extra = "[(''swept_by'', JStr SCHEDULED_JOBS_ACTOR)]"
  from Cons.prems(5) obtain s1 m where one: "revoke_with_event r ?why OIDC_SESSION_LIFECYCLE_ACTOR False ?extra s = (Inr (), s1)"
    and rest: "revoke_lingering rows s1 = (Inr m, v)" and n: "n = Suc m"
    by (auto simp: bind_op_Inr_iff revoke_session_via_sweep_def)
  have r: "r \<in> set (browser_sessions s)" "bs_status r = ''active''" using Cons.prems(2,4) by auto
  let ?f = "revoked_row OIDC_SESSION_LIFECYCLE_ACTOR ?why (uuid_at s (uuid_n s)) (clock_at s (Suc (clock_n s)))"
  have s1: "browser_sessions s1 = update_where (\<lambda>q. bs_id q = bs_id r) ?f (browser_sessions s)"
    using revoke_with_event_apply [OF Cons.prems(1) r(1) _ one] r(2) by simp
  have same: "bs_id q = bs_id r \<longleftrightarrow> q = r" if "q \<in> set (browser_sessions s)" for q
    using that r(1) Cons.prems(1) distinct_key_unique [of bs_id "browser_sessions s" q r] by (auto simp: sessions_ok_def)
  then have mem: "q \<in> set (browser_sessions s1) \<longleftrightarrow> q \<in> set (browser_sessions s) \<and> q \<noteq> r \<or> q = ?f r" for q
    using r(1) by (auto simp: s1 set_update_where)
  have "sessions_ok s1"
    using revoke_with_event_evolves [OF known_stored [OF r(1)], of ?why OIDC_SESSION_LIFECYCLE_ACTOR False ?extra] one Cons.prems(1)
    by (simp add: evolves_def)
  moreover have "set rows \<subseteq> set (browser_sessions s1)" using Cons.prems(2,3) by (auto simp: mem)
  ultimately have "m = length rows \<and> (\<forall>q \<in> set (browser_sessions s1). q \<notin> set rows \<longrightarrow> q \<in> set (browser_sessions v))
    \<and> (\<forall>q \<in> set (browser_sessions v). bs_status q = ''active'' \<longrightarrow> q \<in> set (browser_sessions s1) \<and> q \<notin> set rows)"
    using Cons.IH [OF _ _ _ _ rest] Cons.prems(3,4) by simp
  moreover have "bs_status (?f r) \<noteq> ''active''" by (simp add: revoked_row_sel)
  ultimately show ?case by (auto simp: n mem)
qed simp

definition lingering_sessions :: "session_settings \<Rightarrow> timestamp \<Rightarrow> string \<Rightarrow> db \<Rightarrow> browser_session list" where
  "lingering_sessions st now tenant_id s =
     list_expired_active_oidc_browser_sessions (now + timedelta_days 3650) None (Some tenant_id) (ss_sweep_batch_limit st) s"

lemma set_lingering:
  "set (lingering_sessions st now tid s) \<subseteq> {r \<in> set (browser_sessions s). bs_tenant_id r = tid \<and> bs_status r = ''active''
      \<and> session_past_expiry (now + timedelta_days 3650) None r}"
  by (auto simp: lingering_sessions_def list_expired_active_oidc_browser_sessions_def dest!: in_set_takeD)

lemma lingering_all:
  assumes "length (lingering_sessions st now tid s) < ss_sweep_batch_limit st" "r \<in> set (browser_sessions s)"
    "bs_tenant_id r = tid" "bs_status r = ''active''" "session_past_expiry (now + timedelta_days 3650) None r"
  shows "r \<in> set (lingering_sessions st now tid s)"
  using assms by (auto simp: lingering_sessions_def list_expired_active_oidc_browser_sessions_def)

lemma distinct_lingering: "sessions_ok s \<Longrightarrow> distinct (lingering_sessions st now tid s)"
proof -
  assume "sessions_ok s"
  then have "distinct (browser_sessions s)" by (simp add: sessions_ok_def distinct_map)
  then show ?thesis
    by (simp add: lingering_sessions_def list_expired_active_oidc_browser_sessions_def select_where_def)
qed

definition blocked_tenant :: "string \<Rightarrow> db \<Rightarrow> bool" where
  "blocked_tenant tid s \<longleftrightarrow> (case Tenants.get_tenant tid s of None \<Rightarrow> False | Some tn \<Rightarrow> tn_status tn \<noteq> ''active'')"

lemma tenant_is_blocked_eq: "tenant_is_blocked tn = Inr (tn_status tn \<noteq> ''active'')"
proof -
  have "casefold (strip TENANT_ADMISSION_CLAIMS_ONLY) = TENANT_ADMISSION_CLAIMS_ONLY"
    by (simp add: TENANT_ADMISSION_CLAIMS_ONLY_def) code_simp
  then show ?thesis
    by (simp add: tenant_is_blocked_def blocked_tenant_reason_def tenant_admission_denial_reason_def Let_def)
qed

lemma get_tenant_id: "Tenants.get_tenant tid s = Some tn \<Longrightarrow> tn_id tn = tid"
  by (auto simp: Tenants.get_tenant_def dest!: first_row_filter_SomeD)

lemma reconcile_runs:
  assumes "reconcile_one_tenant st now tid s = (Inr (Some (d, ev)), t)"
  obtains tn u where "Tenants.get_tenant tid s = Some tn"
    "if blocked_tenant tid s then revoke_lingering (lingering_sessions st now tid s) s = (Inr (rl_sessions_revoked d), u)
     else rl_sessions_revoked d = 0 \<and> u = s"
    "rl_findings d = state_findings tn (list_tenant_quotas tid s) @ (if rl_sessions_revoked d \<noteq> 0
        then [''revoked_sessions_on_blocked_tenant:'' @ nat_text (rl_sessions_revoked d)] else [])"
    "if rl_findings d = [] then ev = None \<and> t = u
     else ev = Some (uuid_at u (uuid_n u)) \<and> browser_sessions t = browser_sessions u
       \<and> (\<exists>e. audit_events t = audit_events u @ [e] \<and> ae_event_type e = TENANT_RECONCILIATION_JOB_EVENT_TYPE \<and> ae_tenant_id e = tid
            \<and> dget (ae_payload e) ''findings'' = jstrs (rl_findings d))"
proof -
  obtain tn where tn: "Tenants.get_tenant tid s = Some tn"
    using assms by (auto simp: reconcile_one_tenant_def bind_op_def split: option.splits)
  then have tid: "tn_id tn = tid" by (rule get_tenant_id)
  let ?rev = "if blocked_tenant tid s then revoke_lingering (lingering_sessions st now tid s) else return_op 0"
  obtain x u where rev: "?rev s = (x, u)" by fastforce
  note eval = reconcile_one_tenant_def tenant_is_blocked_eq tid tn blocked_tenant_def lingering_sessions_def bind_op_def Let_def
  obtain n where n: "x = Inr n"
    using assms rev by (cases x) (auto simp: eval split: if_splits)
  let ?findings = "state_findings tn (list_tenant_quotas tid s) @
      (if n \<noteq> 0 then [''revoked_sessions_on_blocked_tenant:'' @ nat_text n] else [])"
  let ?detail = "\<lparr>rl_lifecycle_status = tn_status tn, rl_findings = ?findings, rl_sessions_revoked = n\<rparr>"
  let ?create = "\<lparr>ac_event_tenant_id = tid, ac_event_actor_id = SCHEDULED_JOBS_ACTOR,
      ac_event_type = TENANT_RECONCILIATION_JOB_EVENT_TYPE, ac_event_payload = reconciliation_payload tn ?findings n\<rparr>"
  have result: "(d, ev, t) = (if ?findings \<noteq> [] then (?detail, Some (uuid_at u (uuid_n u)), with_audit_event u ?create)
      else (?detail, None, u))"
    using assms rev n by (cases "tn_status tn = ''active''"; cases "n = 0") (auto simp: eval new_audit_event_def split: if_splits)
  then have d: "d = ?detail" by (auto split: if_splits)
  show thesis
  proof (rule that [of tn u, OF tn])
    show "if blocked_tenant tid s then revoke_lingering (lingering_sessions st now tid s) s = (Inr (rl_sessions_revoked d), u)
      else rl_sessions_revoked d = 0 \<and> u = s"
      using rev n by (auto simp: d)
    show "rl_findings d = state_findings tn (list_tenant_quotas tid s) @ (if rl_sessions_revoked d \<noteq> 0
        then [''revoked_sessions_on_blocked_tenant:'' @ nat_text (rl_sessions_revoked d)] else [])"
      by (simp add: d)
    have "dget (reconciliation_payload tn fs m) ''findings'' = jstrs fs" for fs m
      by (simp add: reconciliation_payload_def dget_def)
    then show "if rl_findings d = [] then ev = None \<and> t = u
     else ev = Some (uuid_at u (uuid_n u)) \<and> browser_sessions t = browser_sessions u
       \<and> (\<exists>e. audit_events t = audit_events u @ [e] \<and> ae_event_type e = TENANT_RECONCILIATION_JOB_EVENT_TYPE \<and> ae_tenant_id e = tid
            \<and> dget (ae_payload e) ''findings'' = jstrs (rl_findings d))"
      using result d by (simp add: new_audit_event_def split: if_splits)
  qed
qed


section \<open>Examples\<close>

definition example_scanned_tenant :: "string \<Rightarrow> string \<Rightarrow> tenant" where
  "example_scanned_tenant tid status =
     \<lparr>tn_id = tid, tn_name = tid, tn_description = '''', tn_status = status, tn_created_by = ''root'',
      tn_bootstrap_admin_actor_id = None, tn_provision_idempotency_key = None, tn_suspended_at = None, tn_suspended_by = None,
      tn_suspension_reason = None, tn_reactivated_at = None, tn_reactivated_by = None, tn_audit_event_id = None,
      tn_audit_event_type = '''', tn_notes = [], tn_vocabulary = None, tn_created_at = 0, tn_updated_at = 0\<rparr>"

definition example_scanned :: db where
  "example_scanned = example_logged_in
     \<lparr>tenants := [example_scanned_tenant ''globex'' ''active'', example_scanned_tenant ''acme'' ''suspended'']\<rparr>"

theorem tenant_pages_complete_witness:
  "iter_tenant_pages None [] example_scanned = (sort [''globex'', ''acme''], False)"
proof -
  have ids: "map tn_id (tenants example_scanned) = [''globex'', ''acme'']"
    by (simp add: example_scanned_def example_scanned_tenant_def)
  then have distinct: "distinct (map tn_id (tenants example_scanned))" by simp
  have few: "length (tenants example_scanned) = 2" by (simp add: example_scanned_def)
  have "take MAX_TENANTS_PER_RUN (sort [''globex'', ''acme'']) = sort [''globex'', ''acme'']"
    by (rule take_all) (simp add: MAX_TENANTS_PER_RUN_def)
  moreover have "\<not> MAX_TENANTS_PER_RUN \<le> 2" by (simp add: MAX_TENANTS_PER_RUN_def)
  ultimately show ?thesis using tenant_pages_complete [OF distinct] unfolding ids few by (simp only:)
qed

lemma example_scanned_ok: "sessions_ok example_scanned"
proof -
  have "sessions_ok example_logged_in"
    using session_run_inv [OF example_runs(2) session_start_inv [OF example_runs(1)]] by (simp add: session_inv_def example_world_def)
  then show ?thesis by (simp add: sessions_ok_def example_scanned_def)
qed

lemma example_reconciled:
  "\<exists>d ev. fst (reconcile_one_tenant example_session_settings 0 ''acme'' example_scanned) = Inr (Some (d, ev)) \<and> rl_sessions_revoked d = 1"
  by (simp add: reconcile_one_tenant_def example_scanned_def example_scanned_tenant_def tenant_is_blocked_eq Tenants.get_tenant_def
      list_tenant_quotas_def list_expired_active_oidc_browser_sessions_def session_past_expiry_def timedelta_days_def
      revoke_session_via_sweep_def state_findings_def example_logged_in_def example_start_def execute_sessions revoke_with_event_def
      revoke_oidc_browser_session_def session_revocation_valid_def get_oidc_browser_session_by_hash_def flush_session_def
      update_where_def OIDC_SESSION_LIFECYCLE_ACTOR_def SESSION_SWEEP_BLOCKED_TENANT_REASON_def VALID_TENANT_STATUSES_def
      del: bind_op_Inr bind_op_Inl)


end
