(* ===== verification/Approval_Workflow.thy ===== *)
theory Approval_Workflow
  imports Workflow_Signals
begin

text \<open>
  The approval workflow that the Temporal worker hosts
  (\<^verbatim>\<open>axis_worker/workflows/approval_workflow.py\<close>) and the loop that drives the outbox dispatchers
  beside it (\<^verbatim>\<open>axis_worker/approval_outbox_loop.py\<close>). A signal is a JSON value; the workflow's fields are a
  record; a signal handler is a function on that record.
\<close>

section \<open>Parsing a UUID\<close>

text \<open>\<^verbatim>\<open>str.replace(old, "")\<close> for a non-empty \<^verbatim>\<open>old\<close>.\<close>

function remove_sub :: "string \<Rightarrow> string \<Rightarrow> string" where
  "remove_sub pat s =
     (if s = [] then []
      else if pat \<noteq> [] \<and> take (length pat) s = pat then remove_sub pat (drop (length pat) s)
      else hd s # remove_sub pat (tl s))"
  by pat_completeness auto
termination by (relation "measure (\<lambda>(pat, s). length s)") auto

declare remove_sub.simps [simp del]

definition strip_chars :: "string \<Rightarrow> string \<Rightarrow> string" where
  "strip_chars cs s = rev (dropWhile (\<lambda>c. c \<in> set cs) (rev (dropWhile (\<lambda>c. c \<in> set cs) s)))"

definition hex_digit :: "char \<Rightarrow> int option" where
  "hex_digit c = (let n = int (of_char c) in
     if 48 \<le> n \<and> n \<le> 57 then Some (n - 48)
     else if 97 \<le> n \<and> n \<le> 102 then Some (n - 87)
     else if 65 \<le> n \<and> n \<le> 70 then Some (n - 55) else None)"

text \<open>The digits of \<^verbatim>\<open>int(text, 16)\<close>: a single underscore may stand between two digits.\<close>

fun hex_digits :: "int \<Rightarrow> string \<Rightarrow> int option" where
  "hex_digits acc [] = Some acc"
| "hex_digits acc (c # cs) =
     (if c = CHR ''_'' then (case cs of [] \<Rightarrow> None
        | d # ds \<Rightarrow> (case hex_digit d of None \<Rightarrow> None | Some v \<Rightarrow> hex_digits (acc * 16 + v) ds))
      else case hex_digit c of None \<Rightarrow> None | Some v \<Rightarrow> hex_digits (acc * 16 + v) cs)"

definition parse_hex_digits :: "string \<Rightarrow> int option" where
  "parse_hex_digits s =
     (case s of [] \<Rightarrow> None | c # cs \<Rightarrow> if c = CHR ''_'' then None else hex_digits 0 s)"

definition parse_hex :: "string \<Rightarrow> int option" where
  "parse_hex s =
     (let t = strip s;
          neg = (take 1 t = ''-'');
          u = (if take 1 t = ''-'' \<or> take 1 t = ''+'' then drop 1 t else t);
          v = (if take 2 u = ''0x'' \<or> take 2 u = ''0X''
               then (if take 1 (drop 2 u) = ''_'' then drop 3 u else drop 2 u) else u)
      in map_option (\<lambda>n. if neg then - n else n) (parse_hex_digits v))"

definition uuid_of_text :: "string \<Rightarrow> uuid option" where
  "uuid_of_text s =
     (let h = remove_sub ''-'' (strip_chars ''{}'' (remove_sub ''uuid:'' (remove_sub ''urn:'' s)))
      in if length h \<noteq> 32 then None
         else (case parse_hex h of
                 None \<Rightarrow> None
               | Some n \<Rightarrow> if 0 \<le> n \<and> n < 2 ^ 128 then Some (nat n) else None))"

section \<open>Normalizing a signal\<close>

datatype signal_refusal = ApprovalDecisionSignalError string

definition DECISIONS :: "string list" where
  "DECISIONS = [''approve'', ''reject'', ''request_changes'']"

definition legacy_decision :: "bool \<Rightarrow> dict" where
  "legacy_decision b =
     (let decision = (if b then ''approve'' else ''reject'')
      in [(''schema_version'', JStr ''legacy-boolean.v0''),
          (''decision_event_id'', JStr (''legacy:'' @ decision)), (''tenant_id'', JNull),
          (''workflow_id'', JNull), (''approval_id'', JNull), (''decision'', JStr decision),
          (''approved'', JBool b), (''actor_id'', JNull), (''note'', JNull), (''decided_at'', JNull)])"

text \<open>The loop over the required fields stops at the first one that is not a non-empty string.\<close>

fun bad_string_field :: "dict \<Rightarrow> string list \<Rightarrow> string option" where
  "bad_string_field d [] = None"
| "bad_string_field d (f # fs) =
     (case dget d f of JStr (c # cs) \<Rightarrow> bad_string_field d fs | _ \<Rightarrow> Some f)"

definition required_strings :: "string list" where
  "required_strings = [''decision_event_id'', ''tenant_id'', ''workflow_id'', ''approval_id'', ''decision'']"

definition json_text :: "json \<Rightarrow> string" where
  "json_text j = (case j of JStr s \<Rightarrow> s | _ \<Rightarrow> [])"

definition null_or_text :: "(string \<Rightarrow> bool) \<Rightarrow> json \<Rightarrow> bool" where
  "null_or_text ok j \<longleftrightarrow> (case j of JNull \<Rightarrow> True | JStr s \<Rightarrow> ok s | _ \<Rightarrow> False)"

definition v1_fields :: "dict \<Rightarrow> dict" where
  "v1_fields d =
        [(''schema_version'', JStr APPROVAL_DECISION_SCHEMA_VERSION),
         (''decision_event_id'', dget d ''decision_event_id''), (''tenant_id'', dget d ''tenant_id''),
         (''workflow_id'', dget d ''workflow_id''), (''approval_id'', dget d ''approval_id''),
         (''decision'', dget d ''decision''), (''approved'', dget d ''approved''),
         (''actor_id'', dget d ''actor_id''), (''note'', dget d ''note''),
         (''decided_at'', dget d ''decided_at'')]"

definition normalize_v1 :: "dict \<Rightarrow> signal_refusal + dict" where
  "normalize_v1 d =
     (if dget d ''schema_version'' \<noteq> JStr APPROVAL_DECISION_SCHEMA_VERSION
      then Inl (ApprovalDecisionSignalError ''unsupported approval decision schema version'')
      else case bad_string_field d required_strings of
             Some f \<Rightarrow> Inl (ApprovalDecisionSignalError (f @ '' must be a non-empty string''))
           | None \<Rightarrow>
      if uuid_of_text (json_text (dget d ''decision_event_id'')) = None
      then Inl (ApprovalDecisionSignalError ''decision_event_id must be a UUID'')
      else if json_text (dget d ''decision'') \<notin> set DECISIONS
      then Inl (ApprovalDecisionSignalError ''unsupported approval decision'')
      else if dget d ''approved'' \<noteq> JBool (json_text (dget d ''decision'') = ''approve'')
      then Inl (ApprovalDecisionSignalError ''approved flag does not match decision'')
      else if \<not> null_or_text (\<lambda>s. s \<noteq> []) (dget d ''actor_id'')
      then Inl (ApprovalDecisionSignalError ''actor_id must be null or a non-empty string'')
      else if \<not> null_or_text (\<lambda>s. length s \<le> 600) (dget d ''note'')
      then Inl (ApprovalDecisionSignalError ''note must be null or a string up to 600 characters'')
      else if \<not> null_or_text (\<lambda>s. s \<noteq> []) (dget d ''decided_at'')
      then Inl (ApprovalDecisionSignalError ''decided_at must be null or a non-empty string'')
      else Inr (v1_fields d))"

definition normalize_approval_decision_signal :: "json \<Rightarrow> signal_refusal + dict" where
  "normalize_approval_decision_signal signal =
     (case signal of
        JBool b \<Rightarrow> Inr (legacy_decision b)
      | JObj d \<Rightarrow> normalize_v1 d
      | _ \<Rightarrow> Inl (ApprovalDecisionSignalError ''approval decision signal must be a boolean or object''))"

section \<open>The workflow\<close>

record approval_workflow =
  aw_decision :: "dict option"
  aw_legacy_delivery :: bool
  aw_duplicate_delivery_count :: nat
  aw_conflicting_delivery_count :: nat
  aw_invalid_delivery_count :: nat

definition new_approval_workflow :: approval_workflow where
  "new_approval_workflow =
     \<lparr>aw_decision = None, aw_legacy_delivery = False, aw_duplicate_delivery_count = 0,
      aw_conflicting_delivery_count = 0, aw_invalid_delivery_count = 0\<rparr>"

definition is_bool :: "json \<Rightarrow> bool" where
  "is_bool j = (case j of JBool _ \<Rightarrow> True | _ \<Rightarrow> False)"

definition accept_decision :: "json \<Rightarrow> approval_workflow \<Rightarrow> approval_workflow" where
  "accept_decision signal w =
     (case normalize_approval_decision_signal signal of
        Inl _ \<Rightarrow> w\<lparr>aw_invalid_delivery_count := aw_invalid_delivery_count w + 1\<rparr>
      | Inr decision \<Rightarrow>
          (case aw_decision w of
             None \<Rightarrow> w\<lparr>aw_decision := Some decision, aw_legacy_delivery := is_bool signal\<rparr>
           | Some accepted \<Rightarrow>
               if dget decision ''decision_event_id'' = dget accepted ''decision_event_id''
                  \<and> decision = accepted
               then w\<lparr>aw_duplicate_delivery_count := aw_duplicate_delivery_count w + 1\<rparr>
               else w\<lparr>aw_conflicting_delivery_count := aw_conflicting_delivery_count w + 1\<rparr>))"

definition decision_status :: "string \<Rightarrow> string option" where
  "decision_status decision =
     map_of [(''approve'', ''approved''), (''reject'', ''rejected''),
             (''request_changes'', ''changes_requested'')] decision"

text \<open>\<^verbatim>\<open>run\<close>: \<open>None\<close> while the wait condition is false. The status lookup is total on what
  \<open>accept_decision\<close> stores (\<open>run_total\<close> below).\<close>

definition run_workflow :: "dict \<Rightarrow> approval_workflow \<Rightarrow> dict option" where
  "run_workflow payload w =
     (case aw_decision w of
        None \<Rightarrow> None
      | Some decision \<Rightarrow>
          (case decision_status (json_text (dget decision ''decision'')) of
             None \<Rightarrow> None
           | Some status \<Rightarrow> Some
               (if aw_legacy_delivery w
                then [(''status'', JStr status), (''payload'', JObj payload)]
                else [(''status'', JStr status), (''payload'', JObj payload),
                      (''decision'', JObj decision),
                      (''delivery'', JObj
                        [(''duplicate_count'', JInt (int (aw_duplicate_delivery_count w))),
                         (''conflict_count'', JInt (int (aw_conflicting_delivery_count w))),
                         (''invalid_count'', JInt (int (aw_invalid_delivery_count w)))])])))"

definition deliver_all :: "json list \<Rightarrow> approval_workflow \<Rightarrow> approval_workflow" where
  "deliver_all signals w = fold accept_decision signals w"

section \<open>The dispatch loop\<close>

text \<open>One iteration of \<^verbatim>\<open>run_dispatch_loop\<close>, over what a batch came to: it goes on and sleeps, or a
  cancellation ends it.\<close>

datatype batch_outcome = BatchClaimed json | BatchFailed | BatchCancelled

datatype loop_step = SleepThenContinue pyfloat | LoopCancelled

definition loop_iteration :: "pyfloat \<Rightarrow> batch_outcome \<Rightarrow> loop_step" where
  "loop_iteration interval_seconds outcome =
     (case outcome of
        BatchCancelled \<Rightarrow> LoopCancelled
      | BatchFailed \<Rightarrow> SleepThenContinue interval_seconds
      | BatchClaimed (JInt n) \<Rightarrow>
          if n < 0 then SleepThenContinue interval_seconds
          else SleepThenContinue (if n \<noteq> 0 then 0 else interval_seconds)
      | BatchClaimed _ \<Rightarrow> SleepThenContinue interval_seconds)"

fun loop_sleeps :: "pyfloat \<Rightarrow> batch_outcome list \<Rightarrow> pyfloat list \<times> bool" where
  "loop_sleeps interval_seconds [] = ([], False)"
| "loop_sleeps interval_seconds (outcome # rest) =
     (case loop_iteration interval_seconds outcome of
        LoopCancelled \<Rightarrow> ([], True)
      | SleepThenContinue d \<Rightarrow>
          (case loop_sleeps interval_seconds rest of (ds, stopped) \<Rightarrow> (d # ds, stopped)))"

text \<open>\<^verbatim>\<open>run_dispatch_loop\<close> over the batches it runs: the sleeps it takes and whether a cancellation ended
  it. \<open>None\<close> is the \<^verbatim>\<open>ValueError\<close> of a non-positive interval.\<close>

definition run_dispatch_loop :: "pyfloat \<Rightarrow> batch_outcome list \<Rightarrow> (pyfloat list \<times> bool) option" where
  "run_dispatch_loop interval_seconds outcomes =
     (if interval_seconds \<le> 0 then None else Some (loop_sleeps interval_seconds outcomes))"

section \<open>Lemmas\<close>

subsection \<open>UUID texts\<close>

lemma remove_sub_no_char:
  "c \<in> set pat \<Longrightarrow> c \<notin> set s \<Longrightarrow> remove_sub pat s = s"
proof (induction s)
  case (Cons x xs)
  then have "take (length pat) (x # xs) \<noteq> pat" by (metis in_set_takeD)
  with Cons show ?case by (simp add: remove_sub.simps [of pat "x # xs"])
qed (simp add: remove_sub.simps)

lemma remove_dash_append: "remove_sub ''-'' (a @ b) = remove_sub ''-'' a @ remove_sub ''-'' b"
  by (induction a) (simp_all add: remove_sub.simps)

lemma remove_dash_Cons: "remove_sub ''-'' (CHR ''-'' # s) = remove_sub ''-'' s"
  by (simp add: remove_sub.simps [of "''-''" "CHR ''-'' # s"])

lemma remove_dash_no_dash: "CHR ''-'' \<notin> set a \<Longrightarrow> remove_sub ''-'' a = a"
  by (rule remove_sub_no_char [of "CHR ''-''"]) simp_all

definition hex_chars :: "char set" where
  "hex_chars = hex_char ` {..<16}"

lemma hex_char_in: "d < 16 \<Longrightarrow> hex_char d \<in> hex_chars"
  by (simp add: hex_chars_def)

lemma hex_text_chars: "set (hex_text w n) \<subseteq> hex_chars"
  by (induction w arbitrary: n) (simp_all add: hex_char_in)

lemma hex_digit_hex_char: "d < 16 \<Longrightarrow> hex_digit (hex_char d) = Some (int d)"
  by (auto simp: hex_digit_def hex_char_def Let_def)

lemma hex_chars_code:
  "c \<in> hex_chars \<Longrightarrow> (48 \<le> (of_char c :: nat) \<and> (of_char c :: nat) \<le> 57) \<or> (97 \<le> (of_char c :: nat) \<and> (of_char c :: nat) \<le> 102)"
  by (auto simp: hex_chars_def hex_char_def)

lemma hex_chars_plain:
  assumes "c \<in> hex_chars"
  shows "c \<noteq> CHR ''-''" "c \<noteq> CHR '':''" "c \<noteq> CHR ''{''" "c \<noteq> CHR ''}''" "c \<noteq> CHR ''_''"
    "c \<noteq> CHR ''+''" "c \<noteq> CHR ''x''" "c \<noteq> CHR ''X''" "\<not> is_space c"
  using hex_chars_code [OF assms] by (auto simp: is_space_def)

lemma hex_digits_append:
  "set a \<subseteq> hex_chars \<Longrightarrow> hex_digits acc a = Some v \<Longrightarrow> hex_digits acc (a @ b) = hex_digits v b"
  by (induction a arbitrary: acc) (auto dest: hex_chars_plain split: option.splits)

lemma hex_digits_hex_text:
  "\<exists>v. hex_digits acc (hex_text w n) = Some v \<and> acc * 16 ^ w \<le> v \<and> v < (acc + 1) * 16 ^ w"
proof (induction w arbitrary: n)
  case (Suc w)
  then obtain v where v: "hex_digits acc (hex_text w (n div 16)) = Some v" "acc * 16 ^ w \<le> v" "v < (acc + 1) * 16 ^ w"
    by blast
  have "hex_digits v [hex_char (n mod 16)] = Some (v * 16 + int (n mod 16))"
    using hex_chars_plain [OF hex_char_in [of "n mod 16"]] by (simp add: hex_digit_hex_char)
  then have "hex_digits acc (hex_text (Suc w) n) = Some (v * 16 + int (n mod 16))"
    using hex_digits_append [OF hex_text_chars v(1)] by simp
  moreover have "v * 16 + int (n mod 16) < (acc + 1) * 16 ^ Suc w"
  proof -
    have "int (n mod 16) < 16" by simp
    moreover have "v + 1 \<le> (acc + 1) * 16 ^ w" using v(3) by simp
    ultimately show ?thesis by (simp add: algebra_simps)
  qed
  moreover have "acc * 16 ^ Suc w \<le> v * 16 + int (n mod 16)"
    using v(2) by simp
  ultimately show ?case by blast
qed simp

lemma dropWhile_none: "\<forall>c \<in> set s. \<not> P c \<Longrightarrow> dropWhile P s = s"
  by (cases s) simp_all

lemma strip_plain: "\<forall>c \<in> set s. \<not> is_space c \<Longrightarrow> strip s = s"
  by (simp add: strip_def dropWhile_none)

lemma strip_chars_plain: "\<forall>c \<in> set s. c \<notin> set cs \<Longrightarrow> strip_chars cs s = s"
  by (simp add: strip_chars_def dropWhile_none)

lemma uuid_groups:
  "take 8 h @ take 4 (drop 8 h) @ take 4 (drop 12 h) @ take 4 (drop 16 h) @ drop 20 h = h"
proof -
  have "take 20 h = take 8 h @ take 4 (drop 8 h) @ take 4 (drop 12 h) @ take 4 (drop 16 h)"
    using take_add [of 8 4 h] take_add [of 12 4 h] take_add [of 16 4 h] by simp
  then show ?thesis using append_take_drop_id [of 20 h] by simp
qed

lemma parse_hex_hex_text:
  assumes "0 < w"
  shows "\<exists>v. parse_hex (hex_text w n) = Some v \<and> 0 \<le> v \<and> v < 16 ^ w"
proof -
  let ?h = "hex_text w n"
  have plain: "\<forall>c \<in> set ?h. \<not> is_space c" and ne: "?h \<noteq> []"
    using hex_text_chars hex_chars_plain assms by (blast, metis length_hex_text length_0_conv less_numeral_extra(3))
  obtain c cs where h: "?h = c # cs" using ne by (cases ?h) auto
  then have c: "c \<in> hex_chars" using hex_text_chars [of w n] by auto
  have "take 2 ?h \<noteq> ''0x'' \<and> take 2 ?h \<noteq> ''0X''"
  proof -
    have "set (take 2 ?h) \<subseteq> hex_chars" using hex_text_chars [of w n] by (auto dest: in_set_takeD)
    then show ?thesis using hex_chars_plain [of "CHR ''x''"] hex_chars_plain [of "CHR ''X''"] by auto
  qed
  moreover obtain v where "hex_digits 0 ?h = Some v" "0 \<le> v" "v < 16 ^ w"
    using hex_digits_hex_text [of 0 w n] by auto
  ultimately have "parse_hex ?h = Some v"
    using hex_chars_plain [OF c]
    by (auto simp: parse_hex_def strip_plain [OF plain, unfolded h] parse_hex_digits_def Let_def h)
  then show ?thesis using \<open>0 \<le> v\<close> \<open>v < 16 ^ w\<close> by blast
qed

lemma uuid_of_text_uuid_text: "uuid_of_text (uuid_text u) \<noteq> None"
proof -
  let ?h = "hex_text 32 u"
  have "set (uuid_text u) \<subseteq> hex_chars \<union> {CHR ''-''}"
    using hex_text_chars [of 32 u] by (auto simp: uuid_text_def Let_def dest: in_set_takeD in_set_dropD)
  then have plain: "CHR '':'' \<notin> set (uuid_text u)" "\<forall>c \<in> set (uuid_text u). c \<notin> set ''{}''"
    using hex_chars_plain(2,3,4) by auto
  have nodash: "CHR ''-'' \<notin> set ?h" using hex_text_chars hex_chars_plain by blast
  have "remove_sub ''-'' (uuid_text u) = ?h"
  proof -
    have "remove_sub ''-'' (take i (drop j ?h)) = take i (drop j ?h)" for i j
      using nodash by (intro remove_dash_no_dash) (auto dest: in_set_takeD in_set_dropD)
    moreover have "remove_sub ''-'' (drop j ?h) = drop j ?h" for j
      using nodash by (intro remove_dash_no_dash) (auto dest: in_set_dropD)
    moreover have "remove_sub ''-'' (take i ?h) = take i ?h" for i
      using nodash by (intro remove_dash_no_dash) (auto dest: in_set_takeD)
    ultimately show ?thesis
      by (simp add: uuid_text_def Let_def uuid_groups remove_dash_append remove_dash_Cons)
  qed
  moreover have "remove_sub ''urn:'' (uuid_text u) = uuid_text u" "remove_sub ''uuid:'' (uuid_text u) = uuid_text u"
    using plain(1) by (auto intro!: remove_sub_no_char [of "CHR '':''"])
  moreover obtain v where "parse_hex ?h = Some v" "0 \<le> v" "v < 16 ^ 32"
    using parse_hex_hex_text [of 32 u] by auto
  ultimately show ?thesis
    by (simp add: uuid_of_text_def strip_chars_plain [OF plain(2)] Let_def)
qed

subsection \<open>Normalization\<close>

definition v1_ok :: "dict \<Rightarrow> bool" where
  "v1_ok d \<longleftrightarrow>
     dget d ''schema_version'' = JStr APPROVAL_DECISION_SCHEMA_VERSION
     \<and> bad_string_field d required_strings = None
     \<and> uuid_of_text (json_text (dget d ''decision_event_id'')) \<noteq> None
     \<and> json_text (dget d ''decision'') \<in> set DECISIONS
     \<and> dget d ''approved'' = JBool (json_text (dget d ''decision'') = ''approve'')
     \<and> null_or_text (\<lambda>s. s \<noteq> []) (dget d ''actor_id'')
     \<and> null_or_text (\<lambda>s. length s \<le> 600) (dget d ''note'')
     \<and> null_or_text (\<lambda>s. s \<noteq> []) (dget d ''decided_at'')"

lemma normalize_v1_Inr: "normalize_v1 d = Inr r \<longleftrightarrow> v1_ok d \<and> r = v1_fields d"
  unfolding normalize_v1_def v1_ok_def by (cases "bad_string_field d required_strings") auto

lemma dget_v1_fields [simp]:
  "dget (v1_fields d) ''schema_version'' = JStr APPROVAL_DECISION_SCHEMA_VERSION"
  "dget (v1_fields d) ''decision_event_id'' = dget d ''decision_event_id''"
  "dget (v1_fields d) ''tenant_id'' = dget d ''tenant_id''"
  "dget (v1_fields d) ''workflow_id'' = dget d ''workflow_id''"
  "dget (v1_fields d) ''approval_id'' = dget d ''approval_id''"
  "dget (v1_fields d) ''decision'' = dget d ''decision''"
  "dget (v1_fields d) ''approved'' = dget d ''approved''"
  "dget (v1_fields d) ''actor_id'' = dget d ''actor_id''"
  "dget (v1_fields d) ''note'' = dget d ''note''"
  "dget (v1_fields d) ''decided_at'' = dget d ''decided_at''"
  by (simp_all add: v1_fields_def dget_def [of "_ # _"])

lemma bad_string_field_cong:
  "(\<And>f. f \<in> set fs \<Longrightarrow> dget r f = dget d f) \<Longrightarrow> bad_string_field r fs = bad_string_field d fs"
  by (induction fs) (auto split: json.splits list.splits)

lemma v1_fields_fields [simp]: "v1_fields (v1_fields d) = v1_fields d"
  by (simp add: v1_fields_def [of "v1_fields d"]) (simp add: v1_fields_def)

lemma v1_ok_fields: "v1_ok d \<Longrightarrow> v1_ok (v1_fields d)"
proof -
  have "bad_string_field (v1_fields d) required_strings = bad_string_field d required_strings"
    by (rule bad_string_field_cong) (auto simp: required_strings_def)
  then show "v1_ok d \<Longrightarrow> v1_ok (v1_fields d)" by (simp add: v1_ok_def)
qed

lemma normalize_v1_idempotent: "normalize_v1 d = Inr r \<Longrightarrow> normalize_v1 r = Inr r"
  by (auto simp: normalize_v1_Inr v1_ok_fields)

lemma legacy_decision_fields [simp]:
  "dget (legacy_decision b) ''decision'' = JStr (if b then ''approve'' else ''reject'')"
  "dget (legacy_decision b) ''approved'' = JBool b"
  by (simp_all add: legacy_decision_def dget_def Let_def)

lemma normalize_signal_cases:
  assumes "normalize_approval_decision_signal signal = Inr r"
  obtains (legacy) b where "signal = JBool b" "r = legacy_decision b"
  | (v1) d where "signal = JObj d" "v1_ok d" "r = v1_fields d"
  using assms by (cases signal) (auto simp: normalize_approval_decision_signal_def normalize_v1_Inr)

lemma normalized_decision:
  assumes "normalize_approval_decision_signal signal = Inr r"
  shows "json_text (dget r ''decision'') \<in> set DECISIONS
    \<and> dget r ''approved'' = JBool (json_text (dget r ''decision'') = ''approve'')"
  using assms
proof (cases rule: normalize_signal_cases)
  case (legacy b)
  then show ?thesis by (simp add: json_text_def DECISIONS_def)
next
  case (v1 d)
  then show ?thesis by (simp add: v1_ok_def)
qed

subsection \<open>Sequences of signals\<close>

text \<open>The decisions that the valid signals of a sequence carry, in order.\<close>

definition valid_decisions :: "json list \<Rightarrow> dict list" where
  "valid_decisions signals =
     concat (map (\<lambda>s. case normalize_approval_decision_signal s of Inl _ \<Rightarrow> [] | Inr d \<Rightarrow> [d]) signals)"

lemma valid_decisions_Cons [simp]:
  "valid_decisions [] = []"
  "valid_decisions (s # ss) =
     (case normalize_approval_decision_signal s of Inl _ \<Rightarrow> valid_decisions ss | Inr d \<Rightarrow> d # valid_decisions ss)"
  by (simp_all add: valid_decisions_def split: sum.splits)

lemma valid_decisions_length: "length (valid_decisions signals) \<le> length signals"
  by (induction signals) (auto split: sum.splits)

lemma deliver_all_decided:
  assumes "aw_decision w = Some d"
  shows "deliver_all signals w = w\<lparr>
      aw_duplicate_delivery_count := aw_duplicate_delivery_count w + count_list (valid_decisions signals) d,
      aw_conflicting_delivery_count := aw_conflicting_delivery_count w
        + (length (valid_decisions signals) - count_list (valid_decisions signals) d),
      aw_invalid_delivery_count := aw_invalid_delivery_count w + (length signals - length (valid_decisions signals))\<rparr>"
  using assms
proof (induction signals arbitrary: w)
  case (Cons s ss)
  note count = count_le_length [of "valid_decisions ss" d] and len = valid_decisions_length [of ss]
  have "aw_decision (accept_decision s w) = Some d"
    using Cons.prems by (simp add: accept_decision_def split: sum.splits)
  from Cons.IH [OF this] Cons.prems count len show ?case
    by (auto simp: deliver_all_def accept_decision_def Suc_diff_le split: sum.splits)
qed (simp add: deliver_all_def)

lemma deliver_all_undecided:
  assumes "aw_decision w = None" "valid_decisions signals = []"
  shows "deliver_all signals w = w\<lparr>aw_invalid_delivery_count := aw_invalid_delivery_count w + length signals\<rparr>"
  using assms
proof (induction signals arbitrary: w)
  case (Cons s ss)
  then show ?case
    by (auto simp: deliver_all_def accept_decision_def split: sum.splits)
qed (simp add: deliver_all_def)

lemma valid_decisions_split:
  assumes "valid_decisions signals = d # ds"
  obtains pre s post where "signals = pre @ s # post" "valid_decisions pre = []"
    "normalize_approval_decision_signal s = Inr d" "valid_decisions post = ds"
  using assms
proof (induction signals arbitrary: thesis)
  case (Cons s ss)
  show ?case
  proof (cases "normalize_approval_decision_signal s")
    case (Inr e)
    with Cons.prems show ?thesis by (intro Cons.prems(1) [of "[]" s ss]) simp_all
  next
    case (Inl e)
    with Cons.prems(2) obtain pre x post where "ss = pre @ x # post" "valid_decisions pre = []"
      "normalize_approval_decision_signal x = Inr d" "valid_decisions post = ds"
      using Cons.IH by auto
    with Inl show ?thesis by (intro Cons.prems(1) [of "s # pre" x post]) simp_all
  qed
qed simp

lemma deliver_all_append: "deliver_all (a @ b) w = deliver_all b (deliver_all a w)"
  by (simp add: deliver_all_def)

lemma deliver_all_counts:
  assumes "w = deliver_all signals new_approval_workflow"
  shows "aw_decision w = first_row (valid_decisions signals)"
    and "aw_invalid_delivery_count w = length signals - length (valid_decisions signals)"
    and "valid_decisions signals = d # ds \<Longrightarrow>
      aw_duplicate_delivery_count w = count_list ds d \<and>
      aw_conflicting_delivery_count w = length ds - count_list ds d"
proof -
  have "aw_decision w = first_row (valid_decisions signals) \<and>
    aw_invalid_delivery_count w = length signals - length (valid_decisions signals) \<and>
    (valid_decisions signals = d # ds \<longrightarrow> aw_duplicate_delivery_count w = count_list ds d \<and>
      aw_conflicting_delivery_count w = length ds - count_list ds d)"
  proof (cases "valid_decisions signals")
    case Nil
    then show ?thesis
      using deliver_all_undecided [of new_approval_workflow signals] assms by (simp add: new_approval_workflow_def)
  next
    case (Cons e es)
    then obtain pre s post where split: "signals = pre @ s # post" "valid_decisions pre = []"
      "normalize_approval_decision_signal s = Inr e" "valid_decisions post = es"
      by (rule valid_decisions_split)
    have "deliver_all (pre @ [s]) new_approval_workflow =
        new_approval_workflow\<lparr>aw_invalid_delivery_count := length pre, aw_decision := Some e,
          aw_legacy_delivery := is_bool s\<rparr>"
      using deliver_all_undecided [of new_approval_workflow pre] split(2,3)
      by (simp add: deliver_all_append new_approval_workflow_def deliver_all_def [of "[s]"] accept_decision_def)
    moreover have "w = deliver_all post (deliver_all (pre @ [s]) new_approval_workflow)"
      using assms split(1) deliver_all_append [of "pre @ [s]" post] by simp
    ultimately show ?thesis
      using deliver_all_decided [of "new_approval_workflow\<lparr>aw_invalid_delivery_count := length pre, aw_decision := Some e,
          aw_legacy_delivery := is_bool s\<rparr>" e post] split Cons valid_decisions_length [of post]
      by (auto simp: new_approval_workflow_def)
  qed
  then show "aw_decision w = first_row (valid_decisions signals)"
    and "aw_invalid_delivery_count w = length signals - length (valid_decisions signals)"
    and "valid_decisions signals = d # ds \<Longrightarrow> aw_duplicate_delivery_count w = count_list ds d \<and>
      aw_conflicting_delivery_count w = length ds - count_list ds d"
    by auto
qed

subsection \<open>Payloads that the control plane sends\<close>

lemma uuid_text_nonempty [simp]: "uuid_text u \<noteq> []"
  by (simp add: uuid_text_def Let_def)

lemma isoformat_nonempty [simp]: "isoformat t \<noteq> []"
  by (simp add: isoformat_def Let_def split: prod.splits)

lemma decision_value_known: "decision_value d \<in> set DECISIONS" "decision_value d = ''approve'' \<longleftrightarrow> d = APPROVE"
  "decision_value d \<noteq> []"
  by (cases d; simp add: DECISIONS_def)+

lemma dget_runtime_payload [simp]:
  "dget (runtime_payload r) ''schema_version'' = JStr APPROVAL_DECISION_SCHEMA_VERSION"
  "dget (runtime_payload r) ''decision_event_id'' = JStr (opt_uuid_text (sg_decision_event_id r))"
  "dget (runtime_payload r) ''tenant_id'' = JStr (sg_tenant_id r)"
  "dget (runtime_payload r) ''workflow_id'' = JStr (sg_workflow_id r)"
  "dget (runtime_payload r) ''approval_id'' = JStr (sg_approval_id r)"
  "dget (runtime_payload r) ''decision'' = JStr (decision_value (sg_decision r))"
  "dget (runtime_payload r) ''approved'' = JBool (approved r)"
  "dget (runtime_payload r) ''actor_id'' = jopt JStr (sg_actor_id r)"
  "dget (runtime_payload r) ''note'' = jopt JStr (sg_note r)"
  "dget (runtime_payload r) ''decided_at'' = jopt (\<lambda>t. JStr (isoformat t)) (sg_decided_at r)"
  by (simp_all add: runtime_payload_def dget_def)

lemma bad_string_field_texts:
  "(\<And>f. f \<in> set fs \<Longrightarrow> \<exists>t. dget d f = JStr t \<and> t \<noteq> []) \<Longrightarrow> bad_string_field d fs = None"
proof (induction fs)
  case (Cons f fs)
  then obtain c cs where "dget d f = JStr (c # cs)" by (metis list.exhaust list.set_intros(1))
  with Cons show ?case by simp
qed simp

lemma runtime_payload_ok:
  assumes "signal_request_valid r" "sg_decision_event_id r = Some u"
  shows "v1_ok (runtime_payload r)"
proof -
  have "bad_string_field (runtime_payload r) required_strings = None"
    using assms by (intro bad_string_field_texts)
      (auto simp: required_strings_def signal_request_valid_def opt_uuid_text_def decision_value_known)
  then show ?thesis
    using assms uuid_of_text_uuid_text [of u]
    by (auto simp: v1_ok_def json_text_def opt_uuid_text_def decision_value_known approved_def
        null_or_text_def jopt_def signal_request_valid_def split: option.splits)
qed

lemma runtime_payload_fields: "v1_fields (runtime_payload r) = runtime_payload r"
  by (simp add: v1_fields_def) (simp add: runtime_payload_def)

lemma make_signal_request_Some:
  assumes "make_signal_request uuid5 r = Some r'"
  shows "signal_request_valid r'" and "\<exists>u. sg_decision_event_id r' = Some u"
  using assms by (auto simp: make_signal_request_def populate_stable_decision_event_id_def
      signal_request_valid_def split: if_splits option.splits)

subsection \<open>The loop does not spin\<close>

lemma loop_sleeps_no_spin:
  assumes "0 < interval_seconds" "loop_sleeps interval_seconds outcomes = (sleeps, stopped)"
  shows "length sleeps \<le> length outcomes" "stopped \<longleftrightarrow> BatchCancelled \<in> set outcomes"
    "\<forall>i < length sleeps. sleeps ! i = interval_seconds \<or>
       sleeps ! i = 0 \<and> (\<exists>n > 0. outcomes ! i = BatchClaimed (JInt n))"
  using assms(2)
proof (induction outcomes arbitrary: sleeps stopped)
  case (Cons x xs)
  obtain ds st where rest: "loop_sleeps interval_seconds xs = (ds, st)" by fastforce
  {
    case 1
    with Cons.IH(1) [OF rest] rest show ?case by (auto split: loop_step.splits)
  next
    case 2
    with Cons.IH(2) [OF rest] rest show ?case
      by (auto simp: loop_iteration_def split: loop_step.splits batch_outcome.splits json.splits if_splits)
  next
    case 3
    with Cons.IH(3) [OF rest] rest show ?case
      by (auto simp: loop_iteration_def nth_Cons split: loop_step.splits batch_outcome.splits json.splits if_splits nat.splits)
  }
qed simp_all

section \<open>Properties\<close>

text \<open>Whatever sequence of signals reaches a workflow, and however often each is redelivered, the
  workflow accepts the first valid decision and keeps it: invalid signals are counted and ignored,
  later copies of the accepted decision are counted as duplicates, and every other later decision is
  counted as a conflict and never overwrites it. The run completes exactly when a valid signal came,
  with the status of the first one.\<close>

lemma approval_workflow_first_write_wins:
  "let w = deliver_all signals new_approval_workflow; ds = valid_decisions signals in
     aw_decision w = first_row ds
   \<and> aw_duplicate_delivery_count w = count_list (tl ds) (hd ds)
   \<and> aw_conflicting_delivery_count w = length (tl ds) - count_list (tl ds) (hd ds)
   \<and> aw_invalid_delivery_count w = length signals - length ds
   \<and> map_option (\<lambda>result. dget result ''status'') (run_workflow payload w) =
      map_option (\<lambda>d. JStr (the (decision_status (json_text (dget d ''decision''))))) (first_row ds)"
proof -
  let ?w = "deliver_all signals new_approval_workflow" and ?ds = "valid_decisions signals"
  note counts = deliver_all_counts [OF refl, of signals]
  have decided: "\<exists>st. decision_status (json_text (dget d ''decision'')) = Some st" if "d \<in> set ?ds" for d
  proof -
    from that obtain s where "normalize_approval_decision_signal s = Inr d"
      by (auto simp: valid_decisions_def split: sum.splits)
    from normalized_decision [OF this] show ?thesis by (auto simp: decision_status_def DECISIONS_def)
  qed
  show ?thesis
  proof (cases ?ds)
    case Nil
    have "aw_duplicate_delivery_count ?w = 0 \<and> aw_conflicting_delivery_count ?w = 0"
      using deliver_all_undecided [of new_approval_workflow signals] Nil by (simp add: new_approval_workflow_def)
    then show ?thesis using counts(1,2) Nil by (simp add: run_workflow_def Let_def)
  next
    case (Cons d ds)
    then obtain st where "decision_status (json_text (dget d ''decision'')) = Some st"
      using decided by auto
    then have "map_option (\<lambda>result. dget result ''status'') (run_workflow payload ?w) = Some (JStr st)"
      using counts(1) Cons by (simp add: run_workflow_def dget_def)
    then show ?thesis
      using counts Cons \<open>decision_status _ = Some st\<close> by (simp add: Let_def)
  qed
qed

text \<open>The control plane and the worker agree on the signal contract: the payload of every signal
  request that the control plane can construct is accepted by the worker and normalizes to itself.\<close>

lemma runtime_payload_normalizes:
  assumes "make_signal_request uuid5 r = Some r'"
  shows "normalize_approval_decision_signal (JObj (runtime_payload r')) = Inr (runtime_payload r')"
  using make_signal_request_Some [OF assms] runtime_payload_ok [of r']
  by (auto simp: normalize_approval_decision_signal_def normalize_v1_Inr runtime_payload_fields)

definition example_signal_request :: signal_request where
  "example_signal_request =
     \<lparr>sg_tenant_id = ''acme'', sg_workflow_id = ''wf-1'', sg_approval_id = ''appr-1'', sg_decision = APPROVE,
      sg_decision_event_id = None, sg_actor_id = Some ''bob'', sg_note = None, sg_decided_at = Some 0,
      sg_signal_name = APPROVAL_DECISION_SIGNAL_NAME\<rparr>"

theorem runtime_payload_normalizes_example:
  "make_signal_request (\<lambda>ns name. length name) example_signal_request \<noteq> None \<and>
   (let r' = the (make_signal_request (\<lambda>ns name. length name) example_signal_request) in
    normalize_approval_decision_signal (JObj (runtime_payload r')) = Inr (runtime_payload r'))"
proof -
  have "make_signal_request (\<lambda>ns name. length name) example_signal_request =
      Some (populate_stable_decision_event_id (\<lambda>ns name. length name) example_signal_request)"
    by (simp add: make_signal_request_def signal_request_valid_def example_signal_request_def
        APPROVAL_DECISION_SIGNAL_NAME_def)
  with runtime_payload_normalizes [OF this] show ?thesis by simp
qed

end
