(* ===== verification/Tenant_Lifecycle.thy ===== *)
theory Tenant_Lifecycle
  imports Tenants
begin

text \<open>
  What the operations on tenants keep and what they leave. Every transaction is a sequence of primitive changes; on
  them rest the invariant of the registry, the agreement of the tables with the audit trail, and the replay of a
  provisioning in any later state.
\<close>

section \<open>What a transaction leaves\<close>

lemma get_tenant_SomeD: "get_tenant tid s = Some t \<Longrightarrow> t \<in> set (tenants s) \<and> tn_id t = tid"
  by (auto simp: get_tenant_def dest: first_row_filter_SomeD)

lemma get_tenant_None: "get_tenant tid s = None \<longleftrightarrow> tid \<notin> tn_id ` set (tenants s)"
  by (auto simp: get_tenant_def)

lemma get_tenant_key_SomeD:
  "get_tenant_by_provision_idempotency_key k s = Some t \<Longrightarrow> t \<in> set (tenants s) \<and> tn_provision_idempotency_key t = Some k"
  by (auto simp: get_tenant_by_provision_idempotency_key_def dest: first_row_filter_SomeD)

lemma get_tenant_unique:
  assumes "distinct (map tn_id (tenants s))" "t \<in> set (tenants s)"
  shows "get_tenant (tn_id t) s = Some t"
  unfolding get_tenant_def using assms by (intro first_row_key) auto

text \<open>Two databases with the same tables, clock and identifiers apart.\<close>

definition tenant_tables :: "db \<Rightarrow> audit_event list \<times> tenant list \<times> tenant_quota list \<times> actor list" where
  "tenant_tables s = (audit_events s, tenants s, tenant_quotas s, actors s)"

text \<open>\<open>drawn s t\<close>: \<open>t\<close> draws from the same sources, at or after the position of \<open>s\<close>.\<close>

definition drawn :: "db \<Rightarrow> db \<Rightarrow> bool" where
  "drawn s t \<longleftrightarrow> clock_at t = clock_at s \<and> uuid_at t = uuid_at s \<and> uuid_n s \<le> uuid_n t \<and> clock_n s \<le> clock_n t"

lemma drawn_refl [simp]: "drawn s s" by (simp add: drawn_def)

lemma drawn_trans: "drawn s t \<Longrightarrow> drawn t u \<Longrightarrow> drawn s u" by (simp add: drawn_def)

lemma create_tenant_Inr:
  assumes "create_tenant new s = (Inr row, t)"
  obtains c u where "row = new\<lparr>tn_created_at := c, tn_updated_at := u\<rparr>"
    "t = s\<lparr>clock_n := Suc (Suc (clock_n s)), tenants := tenants s @ [row]\<rparr>"
    "tn_id new \<notin> tn_id ` set (tenants s)"
    "tn_provision_idempotency_key new \<noteq> None \<longrightarrow>
       tn_provision_idempotency_key new \<notin> tn_provision_idempotency_key ` set (tenants s)"
proof -
  have free: "\<not> tenant_key_taken new s"
    using assms by (auto simp: create_tenant_def)
  then have made: "row = new\<lparr>tn_created_at := clock_at s (clock_n s), tn_updated_at := clock_at s (Suc (clock_n s))\<rparr>"
    "t = s\<lparr>clock_n := Suc (Suc (clock_n s)), tenants := tenants s @ [row]\<rparr>"
    using assms by (auto simp: create_tenant_def Let_def)
  show thesis
    by (rule that [OF made]) (use free in \<open>auto simp: tenant_key_taken_def\<close>)
qed

lemma create_actor_Inr:
  assumes "create_actor a tid name kind s = (Inr row, t)"
  obtains c where "row = \<lparr>ac_id = a, ac_tenant_id = tid, ac_display_name = name, ac_actor_type = kind, ac_created_at = c\<rparr>"
    "t = s\<lparr>clock_n := Suc (clock_n s), actors := actors s @ [row]\<rparr>"
  using assms by (auto simp: create_actor_def bind_op_def Let_def split: if_splits)

lemma create_admin_Inr:
  assumes "(case admin of None \<Rightarrow> return_op ()
      | Some a \<Rightarrow> bind_op (create_actor (ba_actor_id a) tid (ba_display_name a) kind) (\<lambda>_. return_op ())) s = (Inr x, t)"
  obtains n new where "t = s\<lparr>clock_n := n, actors := actors s @ new\<rparr>" "clock_n s \<le> n"
proof (cases admin)
  case None
  with assms have "t = s\<lparr>clock_n := clock_n s, actors := actors s @ []\<rparr>" by simp
  then show thesis by (rule that) simp
next
  case (Some a)
  with assms obtain row where "create_actor (ba_actor_id a) tid (ba_display_name a) kind s = (Inr row, t)"
    by (auto simp: bind_op_Inr_iff)
  then show thesis by (rule create_actor_Inr) (auto intro: that)
qed

lemma provision_new_Inr:
  assumes "provision_new req d s = (Inr v, t)"
  obtains ev row c u where "ev = new_audit_event s (provisioned_event req d)"
    "row = (provisioned_tenant req ev)\<lparr>tn_created_at := c, tn_updated_at := u\<rparr>"
    "tenant_from_record row (Some d) False = Inr v" "tp_tenant_id req \<notin> tn_id ` set (tenants s)"
    "Some (tp_idempotency_key req) \<notin> tn_provision_idempotency_key ` set (tenants s)"
    "audit_events t = audit_events s @ [ev]" "tenants t = tenants s @ [row]" "tenant_quotas t = tenant_quotas s"
    "\<exists>new. actors t = actors s @ new" "drawn s t"
proof -
  let ?ev = "new_audit_event s (provisioned_event req d)" and ?s1 = "with_audit_event s (provisioned_event req d)"
  obtain x s2 row where
    admin: "(case tp_bootstrap_admin req of None \<Rightarrow> return_op ()
      | Some a \<Rightarrow> bind_op (create_actor (ba_actor_id a) (tp_tenant_id req) (ba_display_name a) ''human'') (\<lambda>_. return_op ()))
        ?s1 = (Inr x :: tenant_error + unit, s2)"
    and tenant: "create_tenant (provisioned_tenant req ?ev) s2 = (Inr row, t)"
    and view: "tenant_from_record row (Some d) False = Inr v"
    using assms by (auto simp: provision_new_def bind_op_Inr_iff)
  from admin obtain n new where s2: "s2 = ?s1\<lparr>clock_n := n, actors := actors ?s1 @ new\<rparr>" "clock_n ?s1 \<le> n"
    by (rule create_admin_Inr)
  from tenant obtain c u where row: "row = (provisioned_tenant req ?ev)\<lparr>tn_created_at := c, tn_updated_at := u\<rparr>"
    and t: "t = s2\<lparr>clock_n := Suc (Suc (clock_n s2)), tenants := tenants s2 @ [row]\<rparr>"
    and new: "tn_id (provisioned_tenant req ?ev) \<notin> tn_id ` set (tenants s2)"
      "tn_provision_idempotency_key (provisioned_tenant req ?ev) \<noteq> None \<longrightarrow>
       tn_provision_idempotency_key (provisioned_tenant req ?ev) \<notin> tn_provision_idempotency_key ` set (tenants s2)"
    by (rule create_tenant_Inr)
  show thesis
    by (rule that [OF refl row view]) (use new s2 t in \<open>auto simp: provisioned_tenant_def drawn_def\<close>)
qed

text \<open>
  The primitive changes that the transactions are made of. Each writes one audit event, and the rows that the event
  speaks of: the events of the four kinds that carry the state of a tenant are written with their rows only.
\<close>

definition lifecycle_event_types :: "string list" where
  "lifecycle_event_types = [PROVISIONED_AUDIT_EVENT_TYPE, SUSPENDED_AUDIT_EVENT_TYPE, REACTIVATED_AUDIT_EVENT_TYPE,
     QUOTA_UPDATED_AUDIT_EVENT_TYPE]"

definition others_same :: "db \<Rightarrow> db \<Rightarrow> bool" where
  "others_same s t \<longleftrightarrow> tenant_quotas t = tenant_quotas s \<and> actors t = actors s \<and> drawn s t"

inductive tenant_change :: "db \<Rightarrow> db \<Rightarrow> bool" where
  quiet: "tenant_tables t = tenant_tables s \<Longrightarrow> drawn s t \<Longrightarrow> tenant_change s t"
| recorded: "audit_events t = audit_events s @ [ev] \<Longrightarrow> ae_event_type ev \<notin> set lifecycle_event_types \<Longrightarrow>
    tenants t = tenants s \<Longrightarrow> others_same s t \<Longrightarrow> tenant_change s t"
| provisioned: "ev = new_audit_event s (provisioned_event req d) \<Longrightarrow>
    row = (provisioned_tenant req ev)\<lparr>tn_created_at := c, tn_updated_at := u\<rparr> \<Longrightarrow>
    tenant_from_record row (Some d) False = Inr v \<Longrightarrow> tp_tenant_id req \<notin> tn_id ` set (tenants s) \<Longrightarrow>
    Some (tp_idempotency_key req) \<notin> tn_provision_idempotency_key ` set (tenants s) \<Longrightarrow>
    audit_events t = audit_events s @ [ev] \<Longrightarrow> tenants t = tenants s @ [row] \<Longrightarrow> tenant_quotas t = tenant_quotas s \<Longrightarrow>
    \<exists>new. actors t = actors s @ new \<Longrightarrow> drawn s t \<Longrightarrow> tenant_change s t"
| transition: "get_tenant (tt_tenant_id tr) s = Some row \<Longrightarrow> audit_events t = audit_events s @ [ev] \<Longrightarrow>
    ae_tenant_id ev = tt_tenant_id tr \<Longrightarrow> ae_event_type ev = tt_audit_event_type tr \<Longrightarrow>
    (tt_status tr, tt_audit_event_type tr, tt_reason tr = None) \<in>
      {(''suspended'', SUSPENDED_AUDIT_EVENT_TYPE, False), (''active'', REACTIVATED_AUDIT_EVENT_TYPE, False),
       (''active'', REACTIVATED_AUDIT_EVENT_TYPE, True)} \<Longrightarrow>
    tenants t = tenants (update_tenant_row (tt_tenant_id tr) (lifecycle_row tr at') s) \<Longrightarrow> others_same s t \<Longrightarrow>
    tenant_change s t"
| quota_set: "audit_events t = audit_events s @ [ev] \<Longrightarrow> ae_tenant_id ev = tid \<Longrightarrow>
    ae_event_type ev = QUOTA_UPDATED_AUDIT_EVENT_TYPE \<Longrightarrow> dget (ae_payload ev) ''quota_key'' = JStr k \<Longrightarrow>
    dget (ae_payload ev) ''new_value'' = JInt v \<Longrightarrow> get_tenant tid s \<noteq> None \<Longrightarrow>
    (case get_tenant_quota tid k s of
       None \<Rightarrow> \<exists>q n. tenant_quotas t = tenant_quotas s @ [q] \<and> tq_tenant_id q = tid \<and> tq_quota_key q = k
                 \<and> tq_quota_value q = v \<and> tq_id q = uuid_at s n \<and> uuid_n s \<le> n \<and> n < uuid_n t
     | Some q \<Rightarrow> \<exists>f. tenant_quotas t = update_where (\<lambda>r. tq_id r = tq_id q) f (tenant_quotas s)
                 \<and> (\<forall>r. tq_id (f r) = tq_id r \<and> tq_tenant_id (f r) = tq_tenant_id r \<and> tq_quota_key (f r) = tq_quota_key r
                      \<and> tq_quota_value (f r) = v)) \<Longrightarrow>
    tenants t = tenants s \<Longrightarrow> actors t = actors s \<Longrightarrow> drawn s t \<Longrightarrow> tenant_change s t"
| quota_cleared: "audit_events t = audit_events s @ [ev] \<Longrightarrow> ae_tenant_id ev = tid \<Longrightarrow>
    ae_event_type ev = QUOTA_UPDATED_AUDIT_EVENT_TYPE \<Longrightarrow> dget (ae_payload ev) ''quota_key'' = JStr k \<Longrightarrow>
    dget (ae_payload ev) ''new_value'' = JNull \<Longrightarrow> get_tenant_quota tid k s = Some q \<Longrightarrow>
    tenant_quotas t = select_where (\<lambda>r. tq_id r \<noteq> tq_id q) (tenant_quotas s) \<Longrightarrow>
    tenants t = tenants s \<Longrightarrow> actors t = actors s \<Longrightarrow> drawn s t \<Longrightarrow> tenant_change s t"
| vocabulary_set: "get_tenant tid s \<noteq> None \<Longrightarrow> audit_events t = audit_events s @ [ev] \<Longrightarrow>
    ae_event_type ev \<notin> set lifecycle_event_types \<Longrightarrow>
    tenants t = tenants (update_tenant_row tid (\<lambda>r. r\<lparr>tn_vocabulary := v, tn_updated_at := u\<rparr>) s) \<Longrightarrow> others_same s t \<Longrightarrow>
    tenant_change s t"

section \<open>The transactions are made of changes\<close>

definition changes :: "(db, 'e, 'a) op \<Rightarrow> bool" where
  "changes m \<longleftrightarrow> (\<forall>s x t. m s = (Inr x, t) \<longrightarrow> tenant_change\<^sup>*\<^sup>* s t)"

lemma changesI: "(\<And>s x t. m s = (Inr x, t) \<Longrightarrow> tenant_change\<^sup>*\<^sup>* s t) \<Longrightarrow> changes m"
  by (simp add: changes_def)

lemma rolled_back_change: "tenant_change s (rollback s t)" if "drawn s t"
  using that by (auto intro!: quiet simp: tenant_tables_def drawn_def rollback_def)

lemma event_not_lifecycle [simp]:
  "tenant_admission_denial_audit_event_type r \<notin> set lifecycle_event_types"
  "FIRST_TENANT_BOOTSTRAPPED_AUDIT_EVENT_TYPE \<notin> set lifecycle_event_types"
  "VOCABULARY_UPDATED_AUDIT_EVENT_TYPE \<notin> set lifecycle_event_types"
  by (simp_all add: tenant_admission_denial_audit_event_type_def lifecycle_event_types_def
      PROVISIONED_AUDIT_EVENT_TYPE_def SUSPENDED_AUDIT_EVENT_TYPE_def REACTIVATED_AUDIT_EVENT_TYPE_def
      QUOTA_UPDATED_AUDIT_EVENT_TYPE_def FIRST_TENANT_BOOTSTRAPPED_AUDIT_EVENT_TYPE_def
      VOCABULARY_UPDATED_AUDIT_EVENT_TYPE_def SUSPENDED_REQUEST_DENIED_AUDIT_EVENT_TYPE_def
      UNREGISTERED_REQUEST_DENIED_AUDIT_EVENT_TYPE_def)

lemma recorded_event:
  assumes "ac_event_type e \<notin> set lifecycle_event_types"
  shows "tenant_change s (with_audit_event s e)"
  using assms by (intro recorded [of _ _ "new_audit_event s e"]) (auto simp: others_same_def drawn_def)

lemma update_tenant_lifecycle_Inr:
  assumes "update_tenant_lifecycle tr s = (Inr row', t)"
  obtains row now where "get_tenant (tt_tenant_id tr) s = Some row" "row' = lifecycle_row tr now row"
    "t = update_tenant_row (tt_tenant_id tr) (lifecycle_row tr now) (s\<lparr>clock_n := Suc (clock_n s)\<rparr>)"
  using assms by (auto simp: update_tenant_lifecycle_def bind_op_Inr_iff split: option.splits)

text \<open>What the suspension and the reactivation of a tenant have in common: the event, then the update of the row.\<close>

lemma transition_tail:
  assumes "bind_op (append_audit_event e) (\<lambda>ae. bind_op (update_tenant_lifecycle (tr ae))
      (\<lambda>updated. of_result (tenant_from_record updated (Some d) False))) s = (Inr v, t)"
    and tid: "tt_tenant_id (tr (new_audit_event s e)) = tid" and row: "get_tenant tid s = Some row"
  obtains now where "tenant_from_record (lifecycle_row (tr (new_audit_event s e)) now row) (Some d) False = Inr v"
    "audit_events t = audit_events s @ [new_audit_event s e]"
    "tenants t = tenants (update_tenant_row tid (lifecycle_row (tr (new_audit_event s e)) now) s)" "others_same s t"
proof -
  let ?tr = "tr (new_audit_event s e)"
  obtain row' where upd: "update_tenant_lifecycle ?tr (with_audit_event s e) = (Inr row', t)"
    and view: "tenant_from_record row' (Some d) False = Inr v"
    using assms(1) by (auto simp: bind_op_Inr_iff)
  have get: "get_tenant tid (with_audit_event s e) = Some row" using row by (simp add: get_tenant_def)
  from upd obtain now where row': "row' = lifecycle_row ?tr now row"
    and t: "t = update_tenant_row tid (lifecycle_row ?tr now)
      ((with_audit_event s e)\<lparr>clock_n := Suc (clock_n (with_audit_event s e))\<rparr>)"
    by (rule update_tenant_lifecycle_Inr) (use get tid in auto)
  show thesis
    by (rule that [OF view [unfolded row']]) (simp_all add: t update_tenant_row_def others_same_def drawn_def)
qed

definition suspension :: "string \<Rightarrow> tenant_suspend_request \<Rightarrow> audit_event \<Rightarrow> tenant_transition" where
  "suspension tid req ev =
     \<lparr>tt_tenant_id = tid, tt_status = ''suspended'', tt_actor_id = tu_requested_by req,
      tt_reason = Some (tu_reason req), tt_audit_event_id = Some (ae_id ev),
      tt_audit_event_type = ae_event_type ev, tt_notes = tu_notes req\<rparr>"

definition reactivation :: "string \<Rightarrow> tenant_reactivate_request \<Rightarrow> audit_event \<Rightarrow> tenant_transition" where
  "reactivation tid req ev =
     \<lparr>tt_tenant_id = tid, tt_status = ''active'', tt_actor_id = tr_requested_by req,
      tt_reason = (if tr_reason req = [] then None else Some (tr_reason req)), tt_audit_event_id = Some (ae_id ev),
      tt_audit_event_type = ae_event_type ev, tt_notes = tr_notes req\<rparr>"

lemma suspend_tenant_Inr:
  assumes "suspend_tenant tid req s = (Inr v, t)"
  obtains d row now e where "evaluate_operator_permission tid (tu_requested_by req) (tu_actor_scopes req)
      REQUIRED_SUSPEND_SCOPE [(''operation'', JStr ''suspend_tenant''), (''reason'', JStr (tu_reason req))] = Inr d"
    "get_tenant tid s = Some row" "tn_status row = ''active''"
    "e = transition_event tid (tu_requested_by req) SUSPENDED_AUDIT_EVENT_TYPE ''active'' SUSPENDED (tu_reason req) d"
    "tenant_from_record (lifecycle_row (suspension tid req (new_audit_event s e)) now row) (Some d) False = Inr v"
    "audit_events t = audit_events s @ [new_audit_event s e]"
    "tenants t = tenants (update_tenant_row tid (lifecycle_row (suspension tid req (new_audit_event s e)) now) s)"
    "others_same s t"
proof -
  obtain d row where perm: "evaluate_operator_permission tid (tu_requested_by req) (tu_actor_scopes req)
      REQUIRED_SUSPEND_SCOPE [(''operation'', JStr ''suspend_tenant''), (''reason'', JStr (tu_reason req))] = Inr d"
    and row: "get_tenant tid s = Some row" "tn_status row = ''active''"
    using assms by (auto simp: suspend_tenant_def bind_op_Inr_iff split: option.splits if_splits)
  let ?e = "transition_event tid (tu_requested_by req) SUSPENDED_AUDIT_EVENT_TYPE ''active'' SUSPENDED (tu_reason req) d"
  have "bind_op (append_audit_event ?e) (\<lambda>ae. bind_op (update_tenant_lifecycle (suspension tid req ae))
      (\<lambda>updated. of_result (tenant_from_record updated (Some d) False))) s = (Inr v, t)"
    using assms unfolding suspend_tenant_def suspension_def by (simp add: perm row)
  then show thesis
    by (rule transition_tail [OF _ _ row(1)]) (auto simp: suspension_def intro!: that [OF perm row refl])
qed

lemma reactivate_tenant_Inr:
  assumes "reactivate_tenant tid req s = (Inr v, t)"
  obtains d row now e where "evaluate_operator_permission tid (tr_requested_by req) (tr_actor_scopes req)
      REQUIRED_SUSPEND_SCOPE [(''operation'', JStr ''reactivate_tenant''), (''reason'', JStr (tr_reason req))] = Inr d"
    "get_tenant tid s = Some row" "tn_status row \<noteq> ''active''"
    "e = transition_event tid (tr_requested_by req) REACTIVATED_AUDIT_EVENT_TYPE (tn_status row) ACTIVE (tr_reason req) d"
    "tenant_from_record (lifecycle_row (reactivation tid req (new_audit_event s e)) now row) (Some d) False = Inr v"
    "audit_events t = audit_events s @ [new_audit_event s e]"
    "tenants t = tenants (update_tenant_row tid (lifecycle_row (reactivation tid req (new_audit_event s e)) now) s)"
    "others_same s t"
proof -
  obtain d row where perm: "evaluate_operator_permission tid (tr_requested_by req) (tr_actor_scopes req)
      REQUIRED_SUSPEND_SCOPE [(''operation'', JStr ''reactivate_tenant''), (''reason'', JStr (tr_reason req))] = Inr d"
    and row: "get_tenant tid s = Some row" "tn_status row \<noteq> ''active''"
    using assms by (auto simp: reactivate_tenant_def bind_op_Inr_iff split: option.splits if_splits)
  let ?e = "transition_event tid (tr_requested_by req) REACTIVATED_AUDIT_EVENT_TYPE (tn_status row) ACTIVE (tr_reason req) d"
  have "bind_op (append_audit_event ?e) (\<lambda>ae. bind_op (update_tenant_lifecycle (reactivation tid req ae))
      (\<lambda>updated. of_result (tenant_from_record updated (Some d) False))) s = (Inr v, t)"
    using assms unfolding reactivate_tenant_def reactivation_def by (simp add: perm row)
  then show thesis
    by (rule transition_tail [OF _ _ row(1)]) (auto simp: reactivation_def intro!: that [OF perm row refl])
qed

lemma suspend_changes: "changes (suspend_tenant tid req)"
proof (rule changesI)
  fix s v t assume "suspend_tenant tid req s = (Inr v, t)"
  then show "tenant_change\<^sup>*\<^sup>* s t"
  proof (cases rule: suspend_tenant_Inr)
    case (1 d row now e)
    then have "tenant_change s t"
      by (intro transition [of "suspension tid req (new_audit_event s e)" _ row _ "new_audit_event s e" now])
        (simp_all add: suspension_def transition_event_def)
    then show ?thesis by blast
  qed
qed

lemma reactivate_changes: "changes (reactivate_tenant tid req)"
proof (rule changesI)
  fix s v t assume "reactivate_tenant tid req s = (Inr v, t)"
  then show "tenant_change\<^sup>*\<^sup>* s t"
  proof (cases rule: reactivate_tenant_Inr)
    case (1 d row now e)
    then have "tenant_change s t"
      by (intro transition [of "reactivation tid req (new_audit_event s e)" _ row _ "new_audit_event s e" now])
        (simp_all add: reactivation_def transition_event_def)
    then show ?thesis by blast
  qed
qed

text \<open>Provisioning: a replay that writes nothing, or a new tenant.\<close>

lemma provision_tenant_Inr:
  assumes "provision_tenant req s = (Inr v, t)"
  obtains (replay) row where "get_tenant_by_provision_idempotency_key (tp_idempotency_key req) s = Some row"
      "provision_matches_request row req s" "tenant_from_record row None True = Inr v" "t = s"
  | (new) d where "get_tenant_by_provision_idempotency_key (tp_idempotency_key req) s = None"
      "evaluate_operator_permission (tp_tenant_id req) (tp_requested_by req) (tp_actor_scopes req)
         REQUIRED_PROVISION_SCOPE [(''operation'', JStr ''provision_tenant''),
           (''idempotency_key'', JStr (tp_idempotency_key req))] = Inr d"
      "provision_new req d s = (Inr v, t)"
  using assms
  by (cases "get_tenant_by_provision_idempotency_key (tp_idempotency_key req) s")
    (auto simp: provision_tenant_def bind_op_Inr_iff split: if_splits)

lemma provision_new_changes: "changes (provision_new req d)"
proof (rule changesI)
  fix s v t assume "provision_new req d s = (Inr v, t)"
  then have "tenant_change s t" by (rule provision_new_Inr) (rule provisioned)
  then show "tenant_change\<^sup>*\<^sup>* s t" by blast
qed

lemma provision_changes: "changes (provision_tenant req)"
proof (rule changesI)
  fix s v t assume "provision_tenant req s = (Inr v, t)"
  then show "tenant_change\<^sup>*\<^sup>* s t"
    by (cases rule: provision_tenant_Inr) (use provision_new_changes in \<open>auto simp: changes_def\<close>)
qed

lemma bootstrap_lock_Inr: "acquire_first_tenant_bootstrap_lock dialect s = (Inr x, t) \<Longrightarrow> t = s"
  by (auto simp: acquire_first_tenant_bootstrap_lock_def update_where_def split: if_splits intro!: map_idI)

lemma bootstrap_changes: "changes (bootstrap_first_tenant dialect req)"
proof (rule changesI)
  fix s v t assume run: "bootstrap_first_tenant dialect req s = (Inr v, t)"
  then obtain x s1 where lock: "acquire_first_tenant_bootstrap_lock dialect s = (Inr x, s1)"
    by (auto simp: bootstrap_first_tenant_def bind_op_Inr_iff)
  then have s1: "s1 = s" by (rule bootstrap_lock_Inr)
  from run lock obtain s2 where prov: "provision_tenant req s = (Inr v, s2)"
    and t: "t = s2 \<or> t = with_audit_event s2 (first_bootstrap_event req v)"
    unfolding bootstrap_first_tenant_def s1 by (auto simp: bind_op_Inr_iff split: if_splits)
  from prov have "tenant_change\<^sup>*\<^sup>* s s2" using provision_changes by (auto simp: changes_def)
  moreover have "tenant_change s2 (with_audit_event s2 (first_bootstrap_event req v))"
    by (rule recorded_event) (simp add: first_bootstrap_event_def)
  ultimately show "tenant_change\<^sup>*\<^sup>* s t" using t by auto
qed

text \<open>Quotas.\<close>

lemma get_with_audit [simp]:
  "get_tenant_quota tid k (with_audit_event s e) = get_tenant_quota tid k s"
  "get_tenant tid (with_audit_event s e) = get_tenant tid s"
  by (simp_all add: get_tenant_quota_def get_tenant_def)

lemma upsert_tenant_quota_Inr:
  assumes "upsert_tenant_quota x s = (Inr q', t)"
  shows "(case get_tenant_quota (qx_tenant_id x) (qx_quota_key x) s of
       None \<Rightarrow> \<exists>q n. tenant_quotas t = tenant_quotas s @ [q] \<and> tq_tenant_id q = qx_tenant_id x \<and> tq_quota_key q = qx_quota_key x
                 \<and> tq_quota_value q = qx_quota_value x \<and> tq_id q = uuid_at s n \<and> uuid_n s \<le> n \<and> n < uuid_n t
     | Some q \<Rightarrow> \<exists>f. tenant_quotas t = update_where (\<lambda>r. tq_id r = tq_id q) f (tenant_quotas s)
                 \<and> (\<forall>r. tq_id (f r) = tq_id r \<and> tq_tenant_id (f r) = tq_tenant_id r \<and> tq_quota_key (f r) = tq_quota_key r
                      \<and> tq_quota_value (f r) = qx_quota_value x))
    \<and> audit_events t = audit_events s \<and> tenants t = tenants s \<and> actors t = actors s \<and> drawn s t"
proof (cases "get_tenant_quota (qx_tenant_id x) (qx_quota_key x) s")
  case None
  with assms have "t = s\<lparr>uuid_n := Suc (uuid_n s), clock_n := Suc (Suc (clock_n s)), tenant_quotas := tenant_quotas s @ [q']\<rparr>"
    "tq_tenant_id q' = qx_tenant_id x" "tq_quota_key q' = qx_quota_key x" "tq_quota_value q' = qx_quota_value x"
    "tq_id q' = uuid_at s (uuid_n s)"
    by (auto simp: upsert_tenant_quota_def Let_def)
  with None show ?thesis by (auto simp: drawn_def intro!: exI [of _ q'])
next
  case (Some q)
  let ?f = "\<lambda>q. q\<lparr>tq_quota_value := qx_quota_value x, tq_updated_by := qx_updated_by x,
                 tq_audit_event_id := qx_audit_event_id x, tq_audit_event_type := qx_audit_event_type x,
                 tq_notes := qx_notes x, tq_updated_at := clock_at s (clock_n s)\<rparr>"
  from Some assms have "t = s\<lparr>clock_n := Suc (clock_n s),
      tenant_quotas := update_where (\<lambda>r. tq_id r = tq_id q) ?f (tenant_quotas s)\<rparr>"
    by (simp add: upsert_tenant_quota_def Let_def)
  with Some show ?thesis by (auto simp: drawn_def intro!: exI [of _ ?f])
qed

lemma delete_tenant_quota_Inr:
  assumes "delete_tenant_quota tid k s = (Inr b, t)" "get_tenant_quota tid k s = Some q"
  shows "t = s\<lparr>tenant_quotas := select_where (\<lambda>r. tq_id r \<noteq> tq_id q) (tenant_quotas s)\<rparr>"
  using assms by (simp add: delete_tenant_quota_def)

lemma drawn_with_audit: "drawn (with_audit_event s e) t \<Longrightarrow> drawn s t"
  by (simp add: drawn_def)

lemma update_one_quota_step:
  assumes run: "update_one_quota tid req d k v s = (Inr cs, t)" and tenant: "get_tenant tid s \<noteq> None"
  shows "tenant_change\<^sup>=\<^sup>= s t \<and> tenants t = tenants s"
proof (cases "v = map_option tq_quota_value (get_tenant_quota tid k s)")
  case True
  with run show ?thesis by (simp add: update_one_quota_def)
next
  case changed: False
  let ?p = "map_option tq_quota_value (get_tenant_quota tid k s)"
  let ?e = "quota_updated_event tid (qu_requested_by req) k ?p v d" and ?ev = "new_audit_event s (quota_updated_event tid (qu_requested_by req) k ?p v d)"
  have ev: "ae_tenant_id ?ev = tid" "ae_event_type ?ev = QUOTA_UPDATED_AUDIT_EVENT_TYPE"
    "dget (ae_payload ?ev) ''quota_key'' = JStr k" "dget (ae_payload ?ev) ''new_value'' = jopt JInt v"
    by (simp_all add: quota_updated_event_def dget_def)
  show ?thesis
  proof (cases v)
    case None
    with changed obtain q where q: "get_tenant_quota tid k s = Some q" by auto
    from None changed run obtain b where "delete_tenant_quota tid k (with_audit_event s ?e) = (Inr b, t)"
      by (auto simp: update_one_quota_def Let_def bind_op_Inr_iff)
    then have t: "t = (with_audit_event s ?e)\<lparr>tenant_quotas := select_where (\<lambda>r. tq_id r \<noteq> tq_id q) (tenant_quotas s)\<rparr>"
      using delete_tenant_quota_Inr [of tid k "with_audit_event s ?e" b t q] q by simp
    have "tenant_change s t"
      by (rule quota_cleared [OF _ ev(1-3) _ q]) (simp_all add: t None jopt_def drawn_def quota_updated_event_def dget_def)
    with t show ?thesis by simp
  next
    case (Some w)
    let ?x = "\<lparr>qx_tenant_id = tid, qx_quota_key = k, qx_quota_value = w, qx_updated_by = qu_requested_by req,
      qx_audit_event_id = Some (ae_id ?ev), qx_audit_event_type = ae_event_type ?ev, qx_notes = qu_notes req\<rparr>"
    from Some changed run obtain q' where "upsert_tenant_quota ?x (with_audit_event s ?e) = (Inr q', t)"
      by (auto simp: update_one_quota_def Let_def bind_op_Inr_iff)
    from upsert_tenant_quota_Inr [OF this] have t: "audit_events t = audit_events s @ [?ev]" "tenants t = tenants s"
      "actors t = actors s" "drawn s t"
      and quota: "case get_tenant_quota tid k s of
       None \<Rightarrow> \<exists>q n. tenant_quotas t = tenant_quotas s @ [q] \<and> tq_tenant_id q = tid \<and> tq_quota_key q = k
                 \<and> tq_quota_value q = w \<and> tq_id q = uuid_at s n \<and> uuid_n s \<le> n \<and> n < uuid_n t
     | Some q \<Rightarrow> \<exists>f. tenant_quotas t = update_where (\<lambda>r. tq_id r = tq_id q) f (tenant_quotas s)
                 \<and> (\<forall>r. tq_id (f r) = tq_id r \<and> tq_tenant_id (f r) = tq_tenant_id r \<and> tq_quota_key (f r) = tq_quota_key r
                      \<and> tq_quota_value (f r) = w)"
      by (auto dest: drawn_with_audit Suc_leD split: option.splits)
    have "tenant_change s t"
      by (rule quota_set [OF t(1) ev(1-3) _ tenant quota t(2-4)]) (simp add: Some jopt_def quota_updated_event_def dget_def)
    with t show ?thesis by simp
  qed
qed

lemma update_quota_loop_steps:
  "update_quota_loop tid req d kvs s = (Inr cs, t) \<Longrightarrow> get_tenant tid s \<noteq> None \<Longrightarrow> tenant_change\<^sup>*\<^sup>* s t"
proof (induction kvs arbitrary: s cs)
  case (Cons kv kvs)
  obtain k v where kv: "kv = (k, v)" by (cases kv)
  with Cons.prems obtain cs1 u cs2 where one: "update_one_quota tid req d k v s = (Inr cs1, u)"
    and rest: "update_quota_loop tid req d kvs u = (Inr cs2, t)"
    by (auto simp: bind_op_Inr_iff)
  from update_one_quota_step [OF one Cons.prems(2)] have "tenant_change\<^sup>*\<^sup>* s u" "get_tenant tid u \<noteq> None"
    using Cons.prems(2) by (auto simp: get_tenant_def)
  with Cons.IH [OF rest] show ?case by simp
qed simp

lemma quotas_changes: "changes (update_tenant_quotas tid req)"
  by (rule changesI) (auto simp: update_tenant_quotas_def bind_op_Inr_iff split: if_splits intro: update_quota_loop_steps)

lemma update_tenant_vocabulary_Inr:
  assumes run: "update_tenant_vocabulary tid req s = (Inr x, t)"
  obtains "t = s"
  | ev v u where "get_tenant tid s \<noteq> None" "audit_events t = audit_events s @ [ev]"
      "ae_event_type ev \<notin> set lifecycle_event_types"
      "tenants t = tenants (update_tenant_row tid (\<lambda>r. r\<lparr>tn_vocabulary := v, tn_updated_at := u\<rparr>) s)" "others_same s t"
proof -
  obtain row where row: "get_tenant tid s = Some row"
    using run by (auto simp: update_tenant_vocabulary_def bind_op_Inr_iff split: option.splits)
  obtain p d where "t = s \<or> (\<exists>r. update_vocabulary_column tid (vocabulary_dump (vu_vocabulary req))
      (with_audit_event s (vocabulary_updated_event tid req p d)) = (Inr r, t))"
    using run row by (auto simp: update_tenant_vocabulary_def bind_op_Inr_iff split: if_splits)
  then show thesis
  proof (elim disjE exE)
    fix r assume "update_vocabulary_column tid (vocabulary_dump (vu_vocabulary req))
      (with_audit_event s (vocabulary_updated_event tid req p d)) = (Inr r, t)"
    then show thesis
      using row
      by (intro that(2) [of "new_audit_event s (vocabulary_updated_event tid req p d)"
            "clock_at s (Suc (clock_n s))" "Some (vocabulary_dump (vu_vocabulary req))"])
        (auto simp: update_vocabulary_column_def update_tenant_row_def others_same_def drawn_def
          vocabulary_updated_event_def Let_def)
  qed (rule that(1))
qed

lemma vocabulary_changes: "changes (update_tenant_vocabulary tid req)"
proof (rule changesI)
  fix s x t assume "update_tenant_vocabulary tid req s = (Inr x, t)"
  then show "tenant_change\<^sup>*\<^sup>* s t"
    by (cases rule: update_tenant_vocabulary_Inr) (auto intro: vocabulary_set)
qed

section \<open>Draws\<close>

text \<open>Every operation draws forward from the clock and from \<^verbatim>\<open>uuid4\<close>, also when it raises.\<close>

lemma keeps_drawn_basic [op_keeps]:
  "keeps (drawn s) utc_now" "keeps (drawn s) uuid4" "keeps (drawn s) (append_audit_event e)"
  by (auto simp: keeps_def drawn_def)

lemma keeps_drawn_put:
  "(\<And>s. clock_at (f s) = clock_at s \<and> clock_n (f s) = clock_n s \<and> uuid_at (f s) = uuid_at s \<and> uuid_n (f s) = uuid_n s) \<Longrightarrow>
   keeps (drawn s) (put_op f)"
  by (rule keeps_put) (simp add: drawn_def)

lemma keeps_drawn_rows [op_keeps]:
  "keeps (drawn s) (put_op (\<lambda>s. s\<lparr>tenants := f s\<rparr>))" "keeps (drawn s) (put_op (\<lambda>s. s\<lparr>actors := g s\<rparr>))"
  "keeps (drawn s) (put_op (\<lambda>s. s\<lparr>tenant_quotas := h s\<rparr>))" "keeps (drawn s) (put_op (update_tenant_row tid r))"
  by (simp_all add: keeps_drawn_put update_tenant_row_def)

lemma keeps_drawn_repository [op_keeps]:
  "keeps (drawn s) (create_tenant new)" "keeps (drawn s) (create_actor a tid name kind)"
  "keeps (drawn s) (update_tenant_lifecycle tr)" "keeps (drawn s) (upsert_tenant_quota x)"
  "keeps (drawn s) (delete_tenant_quota tid k)" "keeps (drawn s) (update_vocabulary_column tid j)"
  "keeps (drawn s) (acquire_first_tenant_bootstrap_lock dialect)"
  unfolding create_tenant_def create_actor_def update_tenant_lifecycle_def upsert_tenant_quota_def
    delete_tenant_quota_def update_vocabulary_column_def acquire_first_tenant_bootstrap_lock_def Let_def
  by (intro op_keeps)+

lemma keeps_drawn_provision [op_keeps]: "keeps (drawn s) (provision_tenant req)"
  unfolding provision_tenant_def provision_new_def by (intro op_keeps)

lemma keeps_drawn_bootstrap [op_keeps]: "keeps (drawn s) (bootstrap_first_tenant dialect req)"
  unfolding bootstrap_first_tenant_def by (intro op_keeps)

lemma keeps_drawn_quota_loop [op_keeps]: "keeps (drawn s) (update_quota_loop tid req d kvs)"
proof (induction kvs)
  case (Cons kv kvs)
  then show ?case by (cases kv) (auto simp: update_one_quota_def Let_def intro!: op_keeps)
qed (simp add: keeps_def)

lemma keeps_drawn_service [op_keeps]:
  "keeps (drawn s) (suspend_tenant tid sus)" "keeps (drawn s) (reactivate_tenant tid rea)"
  "keeps (drawn s) (update_tenant_quotas tid quo)" "keeps (drawn s) (update_tenant_vocabulary tid voc)"
  unfolding suspend_tenant_def reactivate_tenant_def update_tenant_quotas_def update_tenant_vocabulary_def
  by (intro op_keeps)+

lemma session_scope_changes:
  assumes "changes m" "\<And>s. keeps (drawn s) m"
  shows "tenant_change\<^sup>*\<^sup>* s (snd (session_scope m s))"
proof -
  obtain r t where m: "m s = (r, t)" by (cases "m s")
  have "drawn s t" using keepsD [OF assms(2) _ m] by simp
  then show ?thesis
    using assms(1) m by (cases r) (auto simp: session_scope_def changes_def intro: rolled_back_change)
qed

section \<open>Histories\<close>

text \<open>The transactions of every process on one database. \<open>elsewhere\<close> is a transaction of another component, which
  leaves the tables of tenants, quotas and actors alone and writes other events.\<close>

inductive tenant_transaction :: "db \<Rightarrow> db \<Rightarrow> bool" where
  provision: "tenant_transaction s (snd (session_scope (provision_tenant req) s))"
| bootstrap: "tenant_transaction s (snd (session_scope (bootstrap_first_tenant dialect req) s))"
| suspend: "tenant_transaction s (snd (session_scope (suspend_tenant tid sus) s))"
| reactivate: "tenant_transaction s (snd (session_scope (reactivate_tenant tid rea) s))"
| quotas: "tenant_transaction s (snd (session_scope (update_tenant_quotas tid quo) s))"
| vocabulary: "tenant_transaction s (snd (session_scope (update_tenant_vocabulary tid voc) s))"
| elsewhere: "audit_events t = audit_events s @ evs \<Longrightarrow> \<forall>ev \<in> set evs. ae_event_type ev \<notin> set lifecycle_event_types \<Longrightarrow>
    tenants t = tenants s \<Longrightarrow> tenant_quotas t = tenant_quotas s \<Longrightarrow> actors t = actors s \<Longrightarrow> drawn s t \<Longrightarrow>
    tenant_transaction s t"

lemma elsewhere_changes:
  "audit_events t = audit_events s @ evs \<Longrightarrow> \<forall>ev \<in> set evs. ae_event_type ev \<notin> set lifecycle_event_types \<Longrightarrow>
   tenants t = tenants s \<Longrightarrow> tenant_quotas t = tenant_quotas s \<Longrightarrow> actors t = actors s \<Longrightarrow> drawn s t \<Longrightarrow>
   tenant_change\<^sup>*\<^sup>* s t"
proof (induction evs arbitrary: t rule: rev_induct)
  case Nil
  then have "tenant_change s t" by (intro quiet) (simp_all add: tenant_tables_def)
  then show ?case by blast
next
  case (snoc ev evs)
  let ?u = "s\<lparr>audit_events := audit_events s @ evs\<rparr>"
  have "tenant_change\<^sup>*\<^sup>* s ?u" using snoc.prems by (intro snoc.IH) (auto simp: drawn_def)
  moreover have "tenant_change ?u t"
    using snoc.prems by (intro recorded [of _ _ ev]) (auto simp: others_same_def drawn_def)
  ultimately show ?case by simp
qed

lemma transaction_changes: "tenant_transaction s t \<Longrightarrow> tenant_change\<^sup>*\<^sup>* s t"
  by (induction rule: tenant_transaction.induct)
    (auto intro: session_scope_changes provision_changes bootstrap_changes suspend_changes reactivate_changes
      quotas_changes vocabulary_changes op_keeps elsewhere_changes)

abbreviation tenant_run :: "db \<Rightarrow> db \<Rightarrow> bool" where
  "tenant_run \<equiv> tenant_transaction\<^sup>*\<^sup>*"

lemma run_changes: "tenant_run s t \<Longrightarrow> tenant_change\<^sup>*\<^sup>* s t"
  by (induction rule: rtranclp_induct) (auto dest: transaction_changes)

definition tenant_history :: "db \<Rightarrow> bool" where
  "tenant_history s \<longleftrightarrow> (\<exists>clock uuids. inj uuids \<and> tenant_run (empty_db clock uuids) s)"

section \<open>The invariant of the registry\<close>

definition provision_events :: "string \<Rightarrow> audit_event list \<Rightarrow> audit_event list" where
  "provision_events tid evs =
     select_where (\<lambda>e. ae_tenant_id e = tid \<and> ae_event_type e = PROVISIONED_AUDIT_EVENT_TYPE) evs"

text \<open>The event \<open>ev\<close> is the evidence of the provisioning of \<open>row\<close>: both come from one request, and the row has
  changed in its lifecycle, vocabulary and further notes at most.\<close>

definition evidence_of :: "tenant_provision_request \<Rightarrow> tenant \<Rightarrow> audit_event \<Rightarrow> bool" where
  "evidence_of req row ev \<longleftrightarrow>
     (\<exists>d. ae_payload ev = ac_event_payload (provisioned_event req d)) \<and> ae_actor_id ev = tp_requested_by req
     \<and> tn_id row = tp_tenant_id req \<and> tn_name row = tp_display_name req \<and> tn_description row = tp_description req
     \<and> tn_created_by row = tp_requested_by req
     \<and> tn_bootstrap_admin_actor_id row = map_option ba_actor_id (tp_bootstrap_admin req)
     \<and> tn_provision_idempotency_key row = Some (tp_idempotency_key req)
     \<and> (\<exists>more. tn_notes row = tp_notes req @ more)"

definition tenant_row_ok :: "tenant \<Rightarrow> bool" where
  "tenant_row_ok t \<longleftrightarrow> tn_id t \<noteq> [] \<and> tn_name t \<noteq> [] \<and> tn_created_by t \<noteq> [] \<and> tn_audit_event_type t \<noteq> []
     \<and> (tn_status t = ''active'' \<and> tn_suspended_at t = None \<and> tn_suspended_by t = None \<and> tn_suspension_reason t = None
        \<or> tn_status t = ''suspended'' \<and> tn_suspended_at t \<noteq> None \<and> tn_suspended_by t \<noteq> None
          \<and> tn_suspension_reason t \<noteq> None \<and> tn_reactivated_at t = None \<and> tn_reactivated_by t = None)"

definition tenants_inv :: "db \<Rightarrow> bool" where
  "tenants_inv s \<longleftrightarrow> inj (uuid_at s)
     \<and> distinct (map tn_id (tenants s)) \<and> distinct (map tn_provision_idempotency_key (tenants s))
     \<and> (\<forall>t \<in> set (tenants s). tenant_row_ok t
          \<and> (\<exists>req ev. provision_events (tn_id t) (audit_events s) = [ev] \<and> evidence_of req t ev))
     \<and> (\<forall>tid. tid \<notin> tn_id ` set (tenants s) \<longrightarrow> provision_events tid (audit_events s) = [])
     \<and> ids_drawn s (map tq_id (tenant_quotas s))
     \<and> distinct (map (\<lambda>q. (tq_tenant_id q, tq_quota_key q)) (tenant_quotas s))
     \<and> tq_tenant_id ` set (tenant_quotas s) \<subseteq> tn_id ` set (tenants s)"

lemma provision_events_append:
  "provision_events tid (evs @ [ev]) = provision_events tid evs @
     (if ae_tenant_id ev = tid \<and> ae_event_type ev = PROVISIONED_AUDIT_EVENT_TYPE then [ev] else [])"
  by (simp add: provision_events_def)

lemma event_type_distinct [simp]:
  "SUSPENDED_AUDIT_EVENT_TYPE \<noteq> PROVISIONED_AUDIT_EVENT_TYPE" "REACTIVATED_AUDIT_EVENT_TYPE \<noteq> PROVISIONED_AUDIT_EVENT_TYPE"
  "QUOTA_UPDATED_AUDIT_EVENT_TYPE \<noteq> PROVISIONED_AUDIT_EVENT_TYPE"
  "REACTIVATED_AUDIT_EVENT_TYPE \<noteq> SUSPENDED_AUDIT_EVENT_TYPE" "QUOTA_UPDATED_AUDIT_EVENT_TYPE \<noteq> SUSPENDED_AUDIT_EVENT_TYPE"
  "QUOTA_UPDATED_AUDIT_EVENT_TYPE \<noteq> REACTIVATED_AUDIT_EVENT_TYPE"
  by (simp_all add: PROVISIONED_AUDIT_EVENT_TYPE_def SUSPENDED_AUDIT_EVENT_TYPE_def REACTIVATED_AUDIT_EVENT_TYPE_def
      QUOTA_UPDATED_AUDIT_EVENT_TYPE_def)

lemmas event_type_distinct_sym [simp] = event_type_distinct [symmetric]

lemma not_lifecycle_not_provisioned:
  "ty \<notin> set lifecycle_event_types \<Longrightarrow> ty \<noteq> PROVISIONED_AUDIT_EVENT_TYPE"
  by (auto simp: lifecycle_event_types_def)

lemma lifecycle_row_sel [row_simps, simp]:
  "tn_id (lifecycle_row tr now t) = tn_id t" "tn_name (lifecycle_row tr now t) = tn_name t"
  "tn_description (lifecycle_row tr now t) = tn_description t" "tn_created_by (lifecycle_row tr now t) = tn_created_by t"
  "tn_bootstrap_admin_actor_id (lifecycle_row tr now t) = tn_bootstrap_admin_actor_id t"
  "tn_provision_idempotency_key (lifecycle_row tr now t) = tn_provision_idempotency_key t"
  "tn_status (lifecycle_row tr now t) = tt_status tr" "tn_notes (lifecycle_row tr now t) = tn_notes t @ tt_notes tr"
  "tn_created_at (lifecycle_row tr now t) = tn_created_at t"
  by (simp_all add: lifecycle_row_def Let_def)

lemma evidence_of_lifecycle: "evidence_of req t ev \<Longrightarrow> evidence_of req (lifecycle_row tr now t) ev"
  by (auto simp: evidence_of_def)

lemma evidence_of_vocabulary: "evidence_of req t ev \<Longrightarrow> evidence_of req (t\<lparr>tn_vocabulary := v, tn_updated_at := u\<rparr>) ev"
  by (simp add: evidence_of_def)

lemma tenant_row_ok_lifecycle:
  assumes "tenant_row_ok t" "tt_audit_event_type tr \<noteq> []"
    "tt_status tr = ''active'' \<or> tt_status tr = ''suspended'' \<and> tt_reason tr \<noteq> None"
  shows "tenant_row_ok (lifecycle_row tr now t)"
  using assms by (auto simp: tenant_row_ok_def lifecycle_row_def Let_def)

lemma tenants_invD:
  assumes "tenants_inv s"
  shows "inj (uuid_at s)" "distinct (map tn_id (tenants s))" "distinct (map tn_provision_idempotency_key (tenants s))"
    "t \<in> set (tenants s) \<Longrightarrow> tenant_row_ok t"
    "t \<in> set (tenants s) \<Longrightarrow> \<exists>req ev. provision_events (tn_id t) (audit_events s) = [ev] \<and> evidence_of req t ev"
    "tid \<notin> tn_id ` set (tenants s) \<Longrightarrow> provision_events tid (audit_events s) = []"
    "ids_drawn s (map tq_id (tenant_quotas s))"
    "distinct (map (\<lambda>q. (tq_tenant_id q, tq_quota_key q)) (tenant_quotas s))"
    "tq_tenant_id ` set (tenant_quotas s) \<subseteq> tn_id ` set (tenants s)"
  using assms unfolding tenants_inv_def by simp_all

text \<open>The part of the invariant on tenants survives an update of one row that keeps identity and evidence.\<close>

lemma tenants_inv_update:
  assumes inv: "tenants_inv s" and t: "tenants t = tenants (update_tenant_row tid f s)" "others_same s t"
    and ev: "audit_events t = audit_events s @ [ev]" "ae_event_type ev \<noteq> PROVISIONED_AUDIT_EVENT_TYPE"
    and f: "\<And>r. tn_id (f r) = tn_id r" "\<And>r. tn_provision_idempotency_key (f r) = tn_provision_idempotency_key r"
      "\<And>r. tenant_row_ok r \<Longrightarrow> tenant_row_ok (f r)" "\<And>req r e. evidence_of req r e \<Longrightarrow> evidence_of req (f r) e"
  shows "tenants_inv t"
proof -
  have rows: "tenants t = update_where (\<lambda>r. tn_id r = tid) f (tenants s)" using t by (simp add: update_tenant_row_def)
  have same: "map tn_id (tenants t) = map tn_id (tenants s)"
    "map tn_provision_idempotency_key (tenants t) = map tn_provision_idempotency_key (tenants s)"
    by (simp_all add: rows map_update_where_same f)
  then have ids: "tn_id ` set (tenants t) = tn_id ` set (tenants s)" by (metis list.set_map)
  have events: "provision_events x (audit_events t) = provision_events x (audit_events s)" for x
    using ev by (simp add: provision_events_append)
  have "\<forall>r \<in> set (tenants t). tenant_row_ok r
      \<and> (\<exists>req ev. provision_events (tn_id r) (audit_events t) = [ev] \<and> evidence_of req r ev)"
  proof
    fix r assume "r \<in> set (tenants t)"
    then obtain r0 where r0: "r0 \<in> set (tenants s)" "r = r0 \<or> r = f r0"
      by (auto simp: rows set_update_where)
    from tenants_invD(5) [OF inv r0(1)] obtain req ev' where "provision_events (tn_id r0) (audit_events s) = [ev']"
      "evidence_of req r0 ev'" by blast
    with r0 f tenants_invD(4) [OF inv r0(1)]
    show "tenant_row_ok r \<and> (\<exists>req ev. provision_events (tn_id r) (audit_events t) = [ev] \<and> evidence_of req r ev)"
      by (metis events)
  qed
  then show ?thesis
    using tenants_invD [OF inv] t(2)
    by (auto simp: tenants_inv_def same ids events others_same_def drawn_def intro: ids_drawn_mono)
qed

lemma tenants_inv_quotas:
  assumes inv: "tenants_inv s" and t: "tenants t = tenants s" "drawn s t"
    and ev: "audit_events t = audit_events s @ [ev]" "ae_event_type ev \<noteq> PROVISIONED_AUDIT_EVENT_TYPE"
    and quotas: "ids_drawn t (map tq_id (tenant_quotas t))"
      "distinct (map (\<lambda>q. (tq_tenant_id q, tq_quota_key q)) (tenant_quotas t))"
      "tq_tenant_id ` set (tenant_quotas t) \<subseteq> tn_id ` set (tenants s)"
  shows "tenants_inv t"
proof -
  have events: "provision_events x (audit_events t) = provision_events x (audit_events s)" for x
    using ev by (simp add: provision_events_append)
  show ?thesis
    using tenants_invD [OF inv] t quotas by (simp add: tenants_inv_def events drawn_def)
qed

lemma get_tenant_quota_SomeD:
  "get_tenant_quota tid k s = Some q \<Longrightarrow> q \<in> set (tenant_quotas s) \<and> tq_tenant_id q = tid \<and> tq_quota_key q = k"
  by (auto simp: get_tenant_quota_def dest: first_row_filter_SomeD)

lemma get_tenant_quota_None:
  "get_tenant_quota tid k s = None \<longleftrightarrow> (tid, k) \<notin> (\<lambda>q. (tq_tenant_id q, tq_quota_key q)) ` set (tenant_quotas s)"
  by (auto simp: get_tenant_quota_def)

lemma ids_drawn_filter: "ids_drawn s (map g xs) \<Longrightarrow> ids_drawn t (map g xs) \<Longrightarrow> ids_drawn t (map g (select_where p xs))"
  by (auto simp: ids_drawn_def select_where_def distinct_map_filter)

lemma ids_drawn_later:
  assumes "inj (uuid_at s)" "ids_drawn s ids" "uuid_at t = uuid_at s" "uuid_n s \<le> n" "n < uuid_n t"
  shows "ids_drawn t (ids @ [uuid_at s n])"
  using assms by (fastforce simp: ids_drawn_def inj_eq)

lemma quota_set_keeps:
  assumes inv: "tenants_inv s" and t: "tenants t = tenants s" "drawn s t"
    and ev: "audit_events t = audit_events s @ [ev]" "ae_event_type ev = QUOTA_UPDATED_AUDIT_EVENT_TYPE"
    and tenant: "get_tenant tid s \<noteq> None"
    and quota: "case get_tenant_quota tid k s of
       None \<Rightarrow> \<exists>q n. tenant_quotas t = tenant_quotas s @ [q] \<and> tq_tenant_id q = tid \<and> tq_quota_key q = k
                 \<and> tq_quota_value q = v \<and> tq_id q = uuid_at s n \<and> uuid_n s \<le> n \<and> n < uuid_n t
     | Some q \<Rightarrow> \<exists>f. tenant_quotas t = update_where (\<lambda>r. tq_id r = tq_id q) f (tenant_quotas s)
                 \<and> (\<forall>r. tq_id (f r) = tq_id r \<and> tq_tenant_id (f r) = tq_tenant_id r \<and> tq_quota_key (f r) = tq_quota_key r
                      \<and> tq_quota_value (f r) = v)"
  shows "tenants_inv t"
proof (rule tenants_inv_quotas [OF inv t ev(1)])
  have u: "uuid_at t = uuid_at s" "uuid_n s \<le> uuid_n t" using t by (auto simp: drawn_def)
  show "ae_event_type ev \<noteq> PROVISIONED_AUDIT_EVENT_TYPE" using ev by simp
  have "ids_drawn t (map tq_id (tenant_quotas t))
      \<and> distinct (map (\<lambda>q. (tq_tenant_id q, tq_quota_key q)) (tenant_quotas t))
      \<and> tq_tenant_id ` set (tenant_quotas t) \<subseteq> tn_id ` set (tenants s)"
  proof (cases "get_tenant_quota tid k s")
    case None
    with quota obtain q n where q: "tenant_quotas t = tenant_quotas s @ [q]" "tq_tenant_id q = tid" "tq_quota_key q = k"
      "tq_id q = uuid_at s n" "uuid_n s \<le> n" "n < uuid_n t" by auto
    have fresh: "(tid, k) \<notin> (\<lambda>q. (tq_tenant_id q, tq_quota_key q)) ` set (tenant_quotas s)"
      using None by (simp add: get_tenant_quota_None)
    show ?thesis
      using tenants_invD(1,7-9) [OF inv] q u tenant fresh
      by (auto simp: get_tenant_None intro!: ids_drawn_later)
  next
    case (Some q)
    with quota obtain f where f: "tenant_quotas t = update_where (\<lambda>r. tq_id r = tq_id q) f (tenant_quotas s)"
      "\<And>r. tq_id (f r) = tq_id r" "\<And>r. tq_tenant_id (f r) = tq_tenant_id r" "\<And>r. tq_quota_key (f r) = tq_quota_key r"
      by auto
    have "map tq_id (tenant_quotas t) = map tq_id (tenant_quotas s)"
      "map (\<lambda>q. (tq_tenant_id q, tq_quota_key q)) (tenant_quotas t) = map (\<lambda>q. (tq_tenant_id q, tq_quota_key q)) (tenant_quotas s)"
      "map tq_tenant_id (tenant_quotas t) = map tq_tenant_id (tenant_quotas s)"
      by (simp_all add: f map_update_where_same)
    then show ?thesis
      using tenants_invD(7-9) [OF inv] u by (metis ids_drawn_mono list.set_map)
  qed
  then show "ids_drawn t (map tq_id (tenant_quotas t))"
    "distinct (map (\<lambda>q. (tq_tenant_id q, tq_quota_key q)) (tenant_quotas t))"
    "tq_tenant_id ` set (tenant_quotas t) \<subseteq> tn_id ` set (tenants s)" by simp_all
qed

lemma quota_cleared_keeps:
  assumes inv: "tenants_inv s" and t: "tenants t = tenants s" "drawn s t"
    and ev: "audit_events t = audit_events s @ [ev]" "ae_event_type ev = QUOTA_UPDATED_AUDIT_EVENT_TYPE"
    and quota: "tenant_quotas t = select_where (\<lambda>r. tq_id r \<noteq> tq_id q) (tenant_quotas s)"
  shows "tenants_inv t"
proof (rule tenants_inv_quotas [OF inv t ev(1)])
  have "ids_drawn t (map tq_id (tenant_quotas s))"
    using tenants_invD(7) [OF inv] t(2) by (auto simp: drawn_def intro: ids_drawn_mono)
  then show "ids_drawn t (map tq_id (tenant_quotas t))" by (simp add: quota ids_drawn_filter)
qed (use ev tenants_invD(8,9) [OF inv] in \<open>auto simp: quota select_where_def distinct_map_filter\<close>)

lemma provisioned_keeps:
  assumes inv: "tenants_inv s" and ev: "ev = new_audit_event s (provisioned_event req d)"
    and row: "row = (provisioned_tenant req ev)\<lparr>tn_created_at := c, tn_updated_at := u\<rparr>"
    and view: "tenant_from_record row (Some d) False = Inr v"
    and fresh: "tp_tenant_id req \<notin> tn_id ` set (tenants s)"
      "Some (tp_idempotency_key req) \<notin> tn_provision_idempotency_key ` set (tenants s)"
    and t: "audit_events t = audit_events s @ [ev]" "tenants t = tenants s @ [row]" "tenant_quotas t = tenant_quotas s" "drawn s t"
  shows "tenants_inv t"
proof -
  have row_sel: "tn_id row = tp_tenant_id req" "tn_provision_idempotency_key row = Some (tp_idempotency_key req)"
    by (simp_all add: row provisioned_tenant_def)
  have ev_sel: "ae_tenant_id ev = tp_tenant_id req" "ae_event_type ev = PROVISIONED_AUDIT_EVENT_TYPE"
    by (simp_all add: ev provisioned_event_def Let_def)
  have ok: "tenant_row_ok row"
    using view by (auto simp: tenant_row_ok_def tenant_from_record_def row provisioned_tenant_def split: option.splits if_splits)
  have evid: "evidence_of req row ev"
    unfolding evidence_of_def by (auto simp: ev row provisioned_tenant_def provisioned_event_def Let_def)
  have events: "provision_events x (audit_events t) = provision_events x (audit_events s) @ (if x = tp_tenant_id req then [ev] else [])" for x
    using t(1) ev_sel by (auto simp: provision_events_append)
  have mine: "provision_events (tp_tenant_id req) (audit_events t) = [ev]"
    using tenants_invD(6) [OF inv fresh(1)] by (simp add: events)
  have "\<forall>r \<in> set (tenants t). tenant_row_ok r
      \<and> (\<exists>req ev. provision_events (tn_id r) (audit_events t) = [ev] \<and> evidence_of req r ev)"
  proof
    fix r assume "r \<in> set (tenants t)"
    then consider "r = row" | "r \<in> set (tenants s)" using t(2) by auto
    then show "tenant_row_ok r \<and> (\<exists>req ev. provision_events (tn_id r) (audit_events t) = [ev] \<and> evidence_of req r ev)"
    proof cases
      case 1 then show ?thesis using ok evid mine row_sel by auto
    next
      case 2
      then have "tn_id r \<noteq> tp_tenant_id req" using fresh(1) by (metis imageI)
      then show ?thesis using tenants_invD(4,5) [OF inv 2] by (simp add: events)
    qed
  qed
  moreover have "ids_drawn t (map tq_id (tenant_quotas s))"
    using tenants_invD(7) [OF inv] t(4) by (auto simp: drawn_def intro: ids_drawn_mono)
  moreover have "\<forall>x. x \<notin> tn_id ` set (tenants t) \<longrightarrow> provision_events x (audit_events t) = []"
    using tenants_invD(6) [OF inv] by (simp add: events t(2) row_sel)
  ultimately show ?thesis
    using tenants_invD(1-3,8,9) [OF inv] t(2-4) row_sel fresh
    unfolding tenants_inv_def by (auto simp: drawn_def)
qed

lemma change_keeps_inv:
  assumes "tenant_change s t" "tenants_inv s"
  shows "tenants_inv t"
  using assms
proof (cases rule: tenant_change.cases)
  case quiet
  then show ?thesis
    using assms(2) by (auto simp: tenants_inv_def tenant_tables_def drawn_def intro: ids_drawn_mono)
next
  case (recorded ev)
  then show ?thesis
    using tenants_inv_quotas [OF assms(2), of t ev] not_lifecycle_not_provisioned [of "ae_event_type ev"]
      tenants_invD(7-9) [OF assms(2)]
    by (auto simp: others_same_def drawn_def intro: ids_drawn_mono)
next
  case (provisioned ev req d row c u v)
  then show ?thesis by (intro provisioned_keeps [OF assms(2)])
next
  case (transition tr row ev now)
  from transition(4-5) have "ae_event_type ev \<noteq> PROVISIONED_AUDIT_EVENT_TYPE" by auto
  moreover from transition(5) have "tt_audit_event_type tr \<noteq> []"
    "tt_status tr = ''active'' \<or> tt_status tr = ''suspended'' \<and> tt_reason tr \<noteq> None"
    by (auto simp: SUSPENDED_AUDIT_EVENT_TYPE_def REACTIVATED_AUDIT_EVENT_TYPE_def)
  ultimately show ?thesis
    by (intro tenants_inv_update [OF assms(2) transition(6,7,2)])
      (auto intro: evidence_of_lifecycle tenant_row_ok_lifecycle)
next
  case (quota_set ev tid k v)
  then show ?thesis by (intro quota_set_keeps [OF assms(2), of t ev tid k v])
next
  case (quota_cleared ev tid k q)
  then show ?thesis by (intro quota_cleared_keeps [OF assms(2), of t ev q])
next
  case (vocabulary_set tid ev v u)
  then show ?thesis
    by (intro tenants_inv_update [OF assms(2) vocabulary_set(4,5,2)])
      (auto simp: not_lifecycle_not_provisioned tenant_row_ok_def intro: evidence_of_vocabulary)
qed

lemma changes_keep_inv: "tenant_change\<^sup>*\<^sup>* s t \<Longrightarrow> tenants_inv s \<Longrightarrow> tenants_inv t"
  by (induction rule: rtranclp_induct) (auto intro: change_keeps_inv)

lemma tenants_inv_empty: "inj uuids \<Longrightarrow> tenants_inv (empty_db clock uuids)"
  by (simp add: tenants_inv_def empty_db_def provision_events_def ids_drawn_def)

lemma history_inv: "tenant_history s \<Longrightarrow> tenants_inv s"
  by (auto simp: tenant_history_def dest!: run_changes intro: changes_keep_inv tenants_inv_empty)

section \<open>The ledger determines the state of a tenant\<close>

text \<open>The state of a tenant as its audit trail tells it: the last lifecycle event gives the status, and the last event
  on a quota its value.\<close>

definition status_after :: "string \<Rightarrow> audit_event \<Rightarrow> string option \<Rightarrow> string option" where
  "status_after tid e st =
     (if ae_tenant_id e \<noteq> tid then st
      else if ae_event_type e = PROVISIONED_AUDIT_EVENT_TYPE \<or> ae_event_type e = REACTIVATED_AUDIT_EVENT_TYPE then Some ''active''
      else if ae_event_type e = SUSPENDED_AUDIT_EVENT_TYPE then Some ''suspended''
      else st)"

definition quota_after :: "string \<Rightarrow> string \<Rightarrow> audit_event \<Rightarrow> int option \<Rightarrow> int option" where
  "quota_after tid k e v =
     (if ae_tenant_id e = tid \<and> ae_event_type e = QUOTA_UPDATED_AUDIT_EVENT_TYPE \<and> dget (ae_payload e) ''quota_key'' = JStr k
      then (case dget (ae_payload e) ''new_value'' of JInt n \<Rightarrow> Some n | _ \<Rightarrow> None) else v)"

definition ledger_status :: "string \<Rightarrow> audit_event list \<Rightarrow> string option" where
  "ledger_status tid evs = fold (status_after tid) evs None"

definition ledger_quota :: "string \<Rightarrow> string \<Rightarrow> audit_event list \<Rightarrow> int option" where
  "ledger_quota tid k evs = fold (quota_after tid k) evs None"

definition status_of :: "string \<Rightarrow> db \<Rightarrow> string option" where
  "status_of tid s = map_option tn_status (get_tenant tid s)"

definition quota_of :: "string \<Rightarrow> string \<Rightarrow> db \<Rightarrow> int option" where
  "quota_of tid k s = map_option tq_quota_value (get_tenant_quota tid k s)"

lemma ledger_append [simp]:
  "ledger_status tid (evs @ [e]) = status_after tid e (ledger_status tid evs)"
  "ledger_quota tid k (evs @ [e]) = quota_after tid k e (ledger_quota tid k evs)"
  by (simp_all add: ledger_status_def ledger_quota_def)

lemma after_other [simp]:
  "ae_event_type e \<notin> set lifecycle_event_types \<Longrightarrow> status_after tid e st = st"
  "ae_event_type e \<notin> set lifecycle_event_types \<Longrightarrow> quota_after tid k e v = v"
  "ae_event_type e = QUOTA_UPDATED_AUDIT_EVENT_TYPE \<Longrightarrow> status_after tid e st = st"
  "ae_event_type e \<noteq> QUOTA_UPDATED_AUDIT_EVENT_TYPE \<Longrightarrow> quota_after tid k e v = v"
  by (auto simp: status_after_def quota_after_def lifecycle_event_types_def)

lemma get_tenant_update:
  "get_tenant x (update_tenant_row tid f s) = (if x = tid then map_option f (get_tenant x s) else get_tenant x s)"
  if "\<And>r. tn_id (f r) = tn_id r"
proof -
  have "select_where (\<lambda>t. tn_id t = x) (update_where (\<lambda>t. tn_id t = tid) f rows)
      = (if x = tid then map f (select_where (\<lambda>t. tn_id t = x) rows) else select_where (\<lambda>t. tn_id t = x) rows)" for rows
    using that by (induction rows) auto
  moreover have "first_row (map f xs) = map_option f (first_row xs)" for xs by (cases xs) auto
  ultimately show ?thesis by (simp add: get_tenant_def update_tenant_row_def)
qed

lemma first_row_snoc: "first_row (xs @ [x]) = (case first_row xs of None \<Rightarrow> Some x | Some y \<Rightarrow> Some y)"
  by (cases xs) auto

lemma get_tenant_snoc:
  assumes "tenants t = tenants s @ [row]" "tn_id row \<notin> tn_id ` set (tenants s)"
  shows "get_tenant x t = (if x = tn_id row then Some row else get_tenant x s)"
proof -
  have "get_tenant (tn_id row) s = None" using assms(2) by (simp only: get_tenant_None) simp
  then show ?thesis using assms(1) by (auto simp: get_tenant_def first_row_snoc split: option.splits dest: first_row_filter_SomeD)
qed

lemma status_of_update:
  assumes "tenants t = tenants (update_tenant_row tid f s)" "\<And>r. tn_id (f r) = tn_id r"
  shows "status_of x t = (if x = tid then map_option (tn_status \<circ> f) (get_tenant x s) else status_of x s)"
proof -
  have "get_tenant x t = get_tenant x (update_tenant_row tid f s)" using assms(1) by (simp add: get_tenant_def)
  then show ?thesis using get_tenant_update [of f x tid s, OF assms(2)]
    by (simp add: status_of_def option.map_comp comp_def)
qed

lemma of_same_rows:
  "tenants t = tenants s \<Longrightarrow> status_of tid t = status_of tid s"
  "tenant_quotas t = tenant_quotas s \<Longrightarrow> quota_of tid k t = quota_of tid k s"
  by (simp_all add: status_of_def get_tenant_def quota_of_def get_tenant_quota_def)

lemma quota_of_set:
  assumes inv: "tenants_inv s"
    and quota: "case get_tenant_quota tid k s of
       None \<Rightarrow> \<exists>q n. tenant_quotas t = tenant_quotas s @ [q] \<and> tq_tenant_id q = tid \<and> tq_quota_key q = k
                 \<and> tq_quota_value q = v \<and> tq_id q = uuid_at s n \<and> uuid_n s \<le> n \<and> n < uuid_n t
     | Some q \<Rightarrow> \<exists>f. tenant_quotas t = update_where (\<lambda>r. tq_id r = tq_id q) f (tenant_quotas s)
                 \<and> (\<forall>r. tq_id (f r) = tq_id r \<and> tq_tenant_id (f r) = tq_tenant_id r \<and> tq_quota_key (f r) = tq_quota_key r
                      \<and> tq_quota_value (f r) = v)"
  shows "quota_of x y t = (if x = tid \<and> y = k then Some v else quota_of x y s)"
proof (cases "get_tenant_quota tid k s")
  case None
  with quota obtain q where q: "tenant_quotas t = tenant_quotas s @ [q]" "tq_tenant_id q = tid" "tq_quota_key q = k"
    "tq_quota_value q = v" by auto
  have "first_row (xs @ [z]) = (if xs = [] then Some z else first_row xs)" for xs and z :: tenant_quota by (cases xs) auto
  with None q show ?thesis by (auto simp: quota_of_def get_tenant_quota_def)
next
  case (Some q)
  with quota obtain f where f: "tenant_quotas t = update_where (\<lambda>r. tq_id r = tq_id q) f (tenant_quotas s)"
    "\<And>r. tq_tenant_id (f r) = tq_tenant_id r" "\<And>r. tq_quota_key (f r) = tq_quota_key r" "\<And>r. tq_quota_value (f r) = v"
    by auto
  have q: "q \<in> set (tenant_quotas s)" "tq_tenant_id q = tid" "tq_quota_key q = k"
    using get_tenant_quota_SomeD [OF Some] by auto
  have ids: "distinct (map tq_id (tenant_quotas s))" using tenants_invD(7) [OF inv] by (simp add: ids_drawn_def)
  have keys: "distinct (map (\<lambda>q. (tq_tenant_id q, tq_quota_key q)) (tenant_quotas s))" by (rule tenants_invD(8) [OF inv])
  have is_q: "tq_id r = tq_id q \<longleftrightarrow> r = q" if "r \<in> set (tenant_quotas s)" for r
    using distinct_key_unique [OF ids that q(1)] by auto
  have rows: "select_where (\<lambda>r. tq_tenant_id r = x \<and> tq_quota_key r = y) (tenant_quotas t) =
      update_where (\<lambda>r. tq_id r = tq_id q) f (select_where (\<lambda>r. tq_tenant_id r = x \<and> tq_quota_key r = y) (tenant_quotas s))"
    unfolding f(1) by (rule select_where_update) (simp add: f)
  have first: "first_row (update_where p f xs) = map_option (\<lambda>r. if p r then f r else r) (first_row xs)" for p xs
    by (cases xs) auto
  show ?thesis
  proof (cases "x = tid \<and> y = k")
    case True
    with Some show ?thesis unfolding quota_of_def get_tenant_quota_def rows first by (simp add: f)
  next
    case False
    have "update_where (\<lambda>r. tq_id r = tq_id q) f (select_where (\<lambda>r. tq_tenant_id r = x \<and> tq_quota_key r = y) (tenant_quotas s))
        = select_where (\<lambda>r. tq_tenant_id r = x \<and> tq_quota_key r = y) (tenant_quotas s)"
      using False is_q q(2,3) by (intro update_where_none) auto
    then have "quota_of x y t = quota_of x y s" unfolding quota_of_def get_tenant_quota_def rows by simp
    with False show ?thesis by auto
  qed
qed

lemma quota_of_cleared:
  assumes inv: "tenants_inv s" and q: "get_tenant_quota tid k s = Some q"
    and t: "tenant_quotas t = select_where (\<lambda>r. tq_id r \<noteq> tq_id q) (tenant_quotas s)"
  shows "quota_of x y t = (if x = tid \<and> y = k then None else quota_of x y s)"
proof -
  have in_q: "q \<in> set (tenant_quotas s)" "tq_tenant_id q = tid" "tq_quota_key q = k"
    using get_tenant_quota_SomeD [OF q] by auto
  have ids: "distinct (map tq_id (tenant_quotas s))" using tenants_invD(7) [OF inv] by (simp add: ids_drawn_def)
  have same: "tq_id r = tq_id q \<longleftrightarrow> tq_tenant_id r = tid \<and> tq_quota_key r = k" if "r \<in> set (tenant_quotas s)" for r
    using distinct_key_unique [OF ids that in_q(1)]
      distinct_key_unique [OF tenants_invD(8) [OF inv] that in_q(1)] in_q by auto
  have "select_where (\<lambda>r. tq_tenant_id r = x \<and> tq_quota_key r = y) (tenant_quotas t) =
      (if x = tid \<and> y = k then [] else select_where (\<lambda>r. tq_tenant_id r = x \<and> tq_quota_key r = y) (tenant_quotas s))"
    using same unfolding t select_where_def by (auto simp: filter_empty_conv intro!: filter_cong)
  then show ?thesis by (simp add: quota_of_def get_tenant_quota_def)
qed

definition ledger_agrees :: "db \<Rightarrow> bool" where
  "ledger_agrees s \<longleftrightarrow> (\<forall>tid. status_of tid s = ledger_status tid (audit_events s))
     \<and> (\<forall>tid k. quota_of tid k s = ledger_quota tid k (audit_events s))"

lemma change_keeps_ledger:
  assumes change: "tenant_change s t" and inv: "tenants_inv s" and agrees: "ledger_agrees s"
  shows "ledger_agrees t"
  using change
proof (cases rule: tenant_change.cases)
  case quiet
  then show ?thesis using agrees by (simp add: ledger_agrees_def tenant_tables_def of_same_rows [of t s])
next
  case (recorded ev)
  then show ?thesis using agrees by (simp add: ledger_agrees_def others_same_def of_same_rows [of t s])
next
  case (provisioned ev req d row c u v)
  have "status_of x t = (if x = tp_tenant_id req then Some ''active'' else status_of x s)" for x
    using get_tenant_snoc [OF provisioned(7), of x] provisioned(2,4) by (simp add: status_of_def provisioned_tenant_def)
  then show ?thesis
    using agrees provisioned(1,6,8)
    by (auto simp: ledger_agrees_def status_after_def provisioned_event_def Let_def of_same_rows [of t s])
next
  case (transition tr row ev now)
  have "status_of x t = (if x = tt_tenant_id tr then Some (tt_status tr) else status_of x s)" for x
    using status_of_update [OF transition(6)] transition(1) by (simp add: comp_def)
  then show ?thesis
    using agrees transition(2-5,7) by (auto simp: ledger_agrees_def status_after_def others_same_def of_same_rows [of t s])
next
  case (quota_set ev tid k v)
  show ?thesis
    using agrees quota_set quota_of_set [OF inv quota_set(7)]
    by (auto simp: ledger_agrees_def quota_after_def of_same_rows(1) [of t s])
next
  case (quota_cleared ev tid k q)
  show ?thesis
    using agrees quota_cleared quota_of_cleared [OF inv quota_cleared(6,7)]
    by (auto simp: ledger_agrees_def quota_after_def of_same_rows(1) [of t s])
next
  case (vocabulary_set tid ev v u)
  have "status_of x t = status_of x s" for x
    using status_of_update [OF vocabulary_set(4)] by (simp add: comp_def status_of_def)
  then show ?thesis
    using agrees vocabulary_set by (simp add: ledger_agrees_def others_same_def of_same_rows(2) [of t s])
qed

lemma history_ledger: "tenant_history s \<Longrightarrow> ledger_agrees s"
proof -
  have "tenant_change\<^sup>*\<^sup>* s t \<Longrightarrow> tenants_inv s \<Longrightarrow> ledger_agrees s \<Longrightarrow> ledger_agrees t" for s t
    by (induction rule: rtranclp_induct) (auto intro: change_keeps_ledger changes_keep_inv)
  moreover have "ledger_agrees (empty_db clock uuids)" for clock uuids
    by (simp add: ledger_agrees_def status_of_def quota_of_def get_tenant_def get_tenant_quota_def empty_db_def
        ledger_status_def ledger_quota_def)
  ultimately show "tenant_history s \<Longrightarrow> ledger_agrees s"
    by (auto simp: tenant_history_def dest!: run_changes intro: tenants_inv_empty)
qed

section \<open>Replays of a provisioning\<close>

lemma valid_provision_event:
  assumes "provision_events (tn_id row) (audit_events s) = [ev]" "evidence_of req row ev"
  shows "valid_provision_audit_event row s = Some ev"
proof -
  obtain d where payload: "ae_payload ev = ac_event_payload (provisioned_event req d)"
    using assms(2) by (auto simp: evidence_of_def)
  have "list_audit_events (tn_id row) (Some PROVISIONED_AUDIT_EVENT_TYPE) None 2 s = [ev]"
    using assms(1) by (simp add: list_audit_events_def provision_events_def sort_key_def)
  moreover obtain more where "tn_notes row = tp_notes req @ more"
    using assms(2) by (auto simp: evidence_of_def)
  ultimately show ?thesis
    using assms(2)
    by (auto simp: valid_provision_audit_event_def payload provisioned_event_def Let_def dget_def dget_default_def
        evidence_of_def jstrs_def jopt_def split: option.splits)
qed

definition same_provision :: "tenant_provision_request \<Rightarrow> tenant_provision_request \<Rightarrow> bool" where
  "same_provision req req' \<longleftrightarrow> req' = req\<lparr>tp_actor_scopes := tp_actor_scopes req'\<rparr>"

lemma same_provision_iff:
  "same_provision req req' \<longleftrightarrow> tp_tenant_id req' = tp_tenant_id req \<and> tp_display_name req' = tp_display_name req
     \<and> tp_description req' = tp_description req \<and> tp_requested_by req' = tp_requested_by req
     \<and> tp_idempotency_key req' = tp_idempotency_key req \<and> tp_bootstrap_admin req' = tp_bootstrap_admin req
     \<and> tp_notes req' = tp_notes req"
  by (cases req; cases req') (auto simp: same_provision_def)

lemma map_JStr_eq [simp]: "map JStr xs = map JStr ys \<longleftrightarrow> xs = ys"
  by (simp add: inj_map_eq_map inj_def)

lemma provision_matches_iff:
  assumes "provision_events (tn_id row) (audit_events s) = [ev]" "evidence_of req row ev"
    "tp_idempotency_key req' = tp_idempotency_key req"
  shows "provision_matches_request row req' s \<longleftrightarrow> same_provision req req'"
proof -
  obtain d where payload: "ae_payload ev = ac_event_payload (provisioned_event req d)"
    using assms(2) by (auto simp: evidence_of_def)
  have row: "tn_id row = tp_tenant_id req" "tn_name row = tp_display_name req" "tn_description row = tp_description req"
    "tn_created_by row = tp_requested_by req"
    "tn_bootstrap_admin_actor_id row = map_option ba_actor_id (tp_bootstrap_admin req)"
    using assms(2) by (auto simp: evidence_of_def)
  have audited: "audited_provision_notes row ev = (True, map JStr (tp_notes req))"
    by (simp add: audited_provision_notes_def payload provisioned_event_def Let_def jstrs_def)
  have desc: "dget_default (ae_payload ev) ''description'' j = JStr (tp_description req)" for j
    by (simp add: payload provisioned_event_def Let_def dget_default_def)
  have admin: "dget (ae_payload ev) ''bootstrap_admin_display_name'' = jopt (JStr \<circ> ba_display_name) (tp_bootstrap_admin req)"
    "dget (ae_payload ev) ''bootstrap_admin_requested_scopes''
       = jstrs (case tp_bootstrap_admin req of None \<Rightarrow> [] | Some a \<Rightarrow> ba_scopes a)"
    by (simp_all add: payload provisioned_event_def Let_def dget_def)
  have eq: "a = a'" if "ba_actor_id a = ba_actor_id a'" "ba_display_name a = ba_display_name a'" "ba_scopes a = ba_scopes a'"
    for a a' :: tenant_bootstrap_admin using that by (cases a; cases a') simp
  show ?thesis
    unfolding provision_matches_request_def valid_provision_event [OF assms(1,2)] same_provision_iff
    by (auto simp: row audited desc admin Let_def jopt_def jstrs_def assms(3) intro: eq split: option.splits)
qed

text \<open>A tenant was provisioned by a request and the evidence is there.\<close>

definition provision_held :: "tenant_provision_request \<Rightarrow> timestamp \<Rightarrow> db \<Rightarrow> bool" where
  "provision_held req at' s \<longleftrightarrow> (\<exists>row \<in> set (tenants s). \<exists>ev. tn_created_at row = at'
     \<and> provision_events (tn_id row) (audit_events s) = [ev] \<and> evidence_of req row ev)"

lemma provision_held_update:
  assumes "provision_held req at' s" "audit_events t = audit_events s @ [ev]"
    "ae_event_type ev \<noteq> PROVISIONED_AUDIT_EVENT_TYPE" "tenants t = tenants (update_tenant_row tid f s)"
    "\<And>r. tn_id (f r) = tn_id r" "\<And>r. tn_created_at (f r) = tn_created_at r"
    "\<And>req r e. evidence_of req r e \<Longrightarrow> evidence_of req (f r) e"
  shows "provision_held req at' t"
proof -
  obtain row e where row: "row \<in> set (tenants s)" "tn_created_at row = at'"
    "provision_events (tn_id row) (audit_events s) = [e]" "evidence_of req row e"
    using assms(1) by (auto simp: provision_held_def)
  have events: "provision_events (tn_id row) (audit_events t) = [e]"
    using row(3) assms(2,3) by (simp add: provision_events_append)
  show ?thesis
  proof (cases "tn_id row = tid")
    case True
    then have "f row \<in> set (tenants t)"
      using row(1) assms(4) by (auto simp: update_tenant_row_def set_update_where)
    then show ?thesis
      unfolding provision_held_def using row events assms(5-7) by (intro bexI [of _ "f row"] exI [of _ e]) auto
  next
    case False
    then have "row \<in> set (tenants t)"
      using row(1) assms(4) by (auto simp: update_tenant_row_def set_update_where)
    then show ?thesis unfolding provision_held_def using row events by blast
  qed
qed

lemma provision_held_same:
  assumes "provision_held req at' s" "tenants t = tenants s" "audit_events t = audit_events s @ evs"
    "\<forall>ev \<in> set evs. ae_event_type ev \<noteq> PROVISIONED_AUDIT_EVENT_TYPE"
  shows "provision_held req at' t"
proof -
  have "provision_events x (audit_events t) = provision_events x (audit_events s)" for x
    using assms(3,4) by (auto simp: provision_events_def select_where_def filter_empty_conv)
  then show ?thesis using assms(1,2) by (simp add: provision_held_def)
qed

lemma change_keeps_provision:
  assumes "tenant_change s t" "provision_held req at' s"
  shows "provision_held req at' t"
  using assms(1)
proof (cases rule: tenant_change.cases)
  case quiet
  then show ?thesis using provision_held_same [OF assms(2), of t "[]"] by (simp add: tenant_tables_def)
next
  case (recorded ev)
  then show ?thesis
    using provision_held_same [OF assms(2), of t "[ev]"] not_lifecycle_not_provisioned by auto
next
  case (provisioned ev req' d row c u v)
  obtain r e where r: "r \<in> set (tenants s)" "tn_created_at r = at'" "provision_events (tn_id r) (audit_events s) = [e]"
    "evidence_of req r e" using assms(2) by (auto simp: provision_held_def)
  have "tn_id r \<noteq> tp_tenant_id req'" using r(1) provisioned(4) by (metis imageI)
  then have "provision_events (tn_id r) (audit_events t) = [e]"
    using r(3) provisioned(1,6) by (auto simp: provision_events_append provisioned_event_def Let_def)
  moreover have "r \<in> set (tenants t)" using r(1) provisioned(7) by simp
  ultimately show ?thesis unfolding provision_held_def using r by blast
next
  case (transition tr row ev now)
  then show ?thesis
    by (intro provision_held_update [OF assms(2) transition(2) _ transition(6)])
      (auto intro: evidence_of_lifecycle)
next
  case (quota_set ev tid k v)
  then show ?thesis using provision_held_same [OF assms(2), of t "[ev]"] by auto
next
  case (quota_cleared ev tid k q)
  then show ?thesis using provision_held_same [OF assms(2), of t "[ev]"] by auto
next
  case (vocabulary_set tid ev v u)
  then show ?thesis
    by (intro provision_held_update [OF assms(2) vocabulary_set(2) _ vocabulary_set(4)])
      (auto simp: not_lifecycle_not_provisioned intro: evidence_of_vocabulary)
qed

lemma run_keeps_provision: "tenant_run s t \<Longrightarrow> provision_held req at' s \<Longrightarrow> provision_held req at' t"
proof -
  have "tenant_change\<^sup>*\<^sup>* s t \<Longrightarrow> provision_held req at' s \<Longrightarrow> provision_held req at' t"
    by (induction rule: rtranclp_induct) (auto intro: change_keeps_provision)
  then show "tenant_run s t \<Longrightarrow> provision_held req at' s \<Longrightarrow> provision_held req at' t" by (auto dest: run_changes)
qed

lemma provision_Inr_held:
  assumes inv: "tenants_inv s" and run: "provision_tenant req s = (Inr v, t)"
  shows "provision_held req (vw_created_at v) t \<and> tenant_change\<^sup>*\<^sup>* s t"
proof -
  have steps: "tenant_change\<^sup>*\<^sup>* s t" using provision_changes run by (auto simp: changes_def)
  from run show ?thesis
  proof (cases rule: provision_tenant_Inr)
    case (replay row)
    have row: "row \<in> set (tenants s)" "tn_provision_idempotency_key row = Some (tp_idempotency_key req)"
      using get_tenant_key_SomeD [OF replay(1)] by auto
    obtain req0 ev where ev: "provision_events (tn_id row) (audit_events s) = [ev]" "evidence_of req0 row ev"
      using tenants_invD(5) [OF inv row(1)] by blast
    have "tp_idempotency_key req = tp_idempotency_key req0" using row(2) ev(2) by (auto simp: evidence_of_def)
    then have "same_provision req0 req" using provision_matches_iff [OF ev] replay(2) by simp
    then have "evidence_of req row ev"
      using ev(2) unfolding evidence_of_def same_provision_iff provisioned_event_def Let_def by auto
    moreover have "tn_created_at row = vw_created_at v"
      using replay(3) by (auto simp: tenant_from_record_def split: option.splits if_splits)
    ultimately show ?thesis using row(1) ev(1) replay(4) steps by (auto simp: provision_held_def)
  next
    case (new d)
    from new(3) show ?thesis
    proof (cases rule: provision_new_Inr)
      case (1 ev row c u)
      have sel: "tn_id row = tp_tenant_id req" "ae_tenant_id ev = tp_tenant_id req"
        "ae_event_type ev = PROVISIONED_AUDIT_EVENT_TYPE"
        by (simp_all add: 1(1,2) provisioned_tenant_def provisioned_event_def Let_def)
      have "provision_events (tn_id row) (audit_events t) = [ev]"
        using tenants_invD(6) [OF inv 1(4)] 1(6) by (simp add: sel provision_events_append)
      moreover have "evidence_of req row ev"
        unfolding evidence_of_def by (auto simp: 1(1,2) provisioned_tenant_def provisioned_event_def Let_def)
      moreover have "tn_created_at row = vw_created_at v"
        using 1(3) by (auto simp: tenant_from_record_def split: option.splits if_splits)
      ultimately show ?thesis using 1(7) steps by (auto simp: provision_held_def)
    qed
  qed
qed

lemma get_tenant_by_key_unique:
  assumes "tenants_inv s" "row \<in> set (tenants s)" "tn_provision_idempotency_key row = Some k"
  shows "get_tenant_by_provision_idempotency_key k s = Some row"
  using first_row_key [OF tenants_invD(3) [OF assms(1)] assms(2)] assms(3)
  by (simp add: get_tenant_by_provision_idempotency_key_def)

lemma lifecycle_of_simps [simp]:
  "lifecycle_of ''active'' = Some ACTIVE" "lifecycle_of ''suspended'' = Some SUSPENDED"
  by (simp_all add: lifecycle_of_def)

lemma tenant_from_record_ok:
  assumes "tenant_row_ok row"
  obtains v where "tenant_from_record row d b = Inr v" "vw_idempotent_replay v = b" "vw_tenant_id v = tn_id row"
    "vw_created_at v = tn_created_at row"
  using assms by (auto simp: tenant_row_ok_def tenant_from_record_def)

lemma evaluate_operator_permission_Inr:
  "evaluate_operator_permission tid a scopes sc attrs = Inr d \<longleftrightarrow>
     tid \<noteq> [] \<and> a \<noteq> [] \<and> REQUIRED_OPERATOR_SCOPE \<in> set scopes \<and> sc \<in> set scopes \<and> d = \<lparr>allowed = True, reason = ''allowed''\<rparr>"
proof -
  let ?r = "\<lparr>pq_tenant_id = tid, pq_actor_id = a, pq_actor_scopes = scopes,
    pq_required_scopes = [REQUIRED_OPERATOR_SCOPE, sc], pq_relationship_scopes = [],
    pq_attributes = dmerge [(''surface'', JStr ''platform_tenants'')] attrs\<rparr>"
  show ?thesis
    using evaluate_permission_reason_allowed [of ?r]
    by (auto simp: evaluate_operator_permission_def Let_def permission_request_valid_def split: if_splits)
qed

lemma map_of_fold_update:
  "map_of (fold (\<lambda>q. AList.update (f q) (g q)) qs d) = map_of d ++ map_of (rev (map (\<lambda>q. (f q, g q)) qs))"
  by (induction qs arbitrary: d) (simp_all add: update_conv' fun_eq_iff map_add_def split: option.splits)

lemma quota_of_Some:
  assumes "tenants_inv s"
  shows "quota_of tid k s = Some v \<longleftrightarrow>
    (\<exists>q \<in> set (tenant_quotas s). tq_tenant_id q = tid \<and> tq_quota_key q = k \<and> tq_quota_value q = v)"
proof -
  have "get_tenant_quota tid k s = Some q \<longleftrightarrow> q \<in> set (tenant_quotas s) \<and> tq_tenant_id q = tid \<and> tq_quota_key q = k" for q
    using get_tenant_quota_SomeD [of tid k s q] first_row_key [OF tenants_invD(8) [OF assms], of q]
    by (auto simp: get_tenant_quota_def)
  then show ?thesis by (auto simp: quota_of_def)
qed

lemma map_of_quota_dict:
  assumes "tenants_inv s"
  shows "map_of (quota_dict tid s) k = quota_of tid k s"
proof -
  let ?qs = "select_where (\<lambda>q. tq_tenant_id q = tid) (tenant_quotas s)"
  have "inj_on (\<lambda>q. (tq_tenant_id q, tq_quota_key q)) (set (tenant_quotas s))" "distinct (tenant_quotas s)"
    using tenants_invD(8) [OF assms] by (simp_all add: distinct_map)
  then have "distinct (map tq_quota_key ?qs)"
    by (auto simp: distinct_map select_where_def inj_on_def)
  then have "distinct (map tq_quota_key (list_tenant_quotas tid s))"
    unfolding list_tenant_quotas_def by (metis distinct_map distinct_sort set_sort)
  then have dist: "distinct (map fst (rev (map (\<lambda>q. (tq_quota_key q, tq_quota_value q)) (list_tenant_quotas tid s))))"
    by (simp add: rev_map [symmetric] comp_def)
  have "map_of (quota_dict tid s) k = Some v \<longleftrightarrow> quota_of tid k s = Some v" for v
    unfolding quota_of_Some [OF assms] quota_dict_def map_of_fold_update
    by (simp add: map_of_eq_Some_iff [OF dist] image_iff) (auto simp: list_tenant_quotas_def)
  then show ?thesis by (metis not_Some_eq)
qed

section \<open>A concrete registry\<close>

definition example_provision :: tenant_provision_request where
  "example_provision = \<lparr>tp_tenant_id = ''acme'', tp_display_name = ''Acme'', tp_description = [],
     tp_requested_by = ''olga'', tp_actor_scopes = [REQUIRED_OPERATOR_SCOPE, REQUIRED_PROVISION_SCOPE],
     tp_idempotency_key = ''k1'', tp_bootstrap_admin = None, tp_notes = [''first'']\<rparr>"

definition example_suspension :: tenant_suspend_request where
  "example_suspension = \<lparr>tu_requested_by = ''olga'', tu_actor_scopes = [REQUIRED_OPERATOR_SCOPE, REQUIRED_SUSPEND_SCOPE],
     tu_reason = ''unpaid'', tu_notes = [''second'']\<rparr>"

definition example_quotas :: tenant_quota_update_request where
  "example_quotas = \<lparr>qu_requested_by = ''olga'', qu_actor_scopes = [REQUIRED_OPERATOR_SCOPE, REQUIRED_QUOTA_SCOPE],
     qu_quotas = \<lparr>qv_api_requests_per_window = Some 10, qv_max_concurrent_sessions = None,
       qv_max_connector_sync_rows_per_run = None\<rparr>, qu_notes = []\<rparr>"

definition example_tenant_start :: db where
  "example_tenant_start = empty_db int id"

definition example_provisioned_db :: db where
  "example_provisioned_db = snd (session_scope (provision_tenant example_provision) example_tenant_start)"

definition example_quota_db :: db where
  "example_quota_db = snd (session_scope (update_tenant_quotas ''acme'' example_quotas) example_provisioned_db)"

definition example_suspended_db :: db where
  "example_suspended_db = snd (session_scope (suspend_tenant ''acme'' example_suspension) example_quota_db)"

lemma example_tenant_runs:
  "tenant_history example_tenant_start" "tenant_run example_tenant_start example_provisioned_db"
  "tenant_run example_provisioned_db example_suspended_db"
proof -
  show "tenant_history example_tenant_start"
    unfolding tenant_history_def example_tenant_start_def by (intro exI [of _ int] exI [of _ id]) simp
  show "tenant_run example_tenant_start example_provisioned_db"
    unfolding example_provisioned_db_def by (intro r_into_rtranclp provision)
  show "tenant_run example_provisioned_db example_suspended_db"
    unfolding example_suspended_db_def example_quota_db_def
    by (meson quotas suspend converse_rtranclp_into_rtranclp rtranclp.rtrancl_refl)
qed

lemma history_run: "tenant_history s \<Longrightarrow> tenant_run s t \<Longrightarrow> tenant_history t"
  unfolding tenant_history_def by (blast intro: rtranclp_trans)

lemma example_suspended_history: "tenant_history example_suspended_db"
  using history_run example_tenant_runs by blast

lemma operator_allowed:
  "tid \<noteq> [] \<Longrightarrow> a \<noteq> [] \<Longrightarrow> REQUIRED_OPERATOR_SCOPE \<in> set scopes \<Longrightarrow> sc \<in> set scopes \<Longrightarrow>
   evaluate_operator_permission tid a scopes sc attrs = Inr \<lparr>allowed = True, reason = ''allowed''\<rparr>"
  by (simp add: evaluate_operator_permission_Inr)

lemmas execute_example = provision_tenant_def provision_new_def operator_allowed example_provision_def
  get_tenant_by_provision_idempotency_key_def get_tenant_def create_tenant_def tenant_key_taken_def
  example_tenant_start_def empty_db_def provisioned_tenant_def tenant_from_record_def Let_def
  provisioned_event_def PROVISIONED_AUDIT_EVENT_TYPE_def bind_op_def

lemma example_provisioned:
  "\<exists>v t. provision_tenant example_provision example_tenant_start = (Inr v, t) \<and> vw_status v = ACTIVE \<and> \<not> vw_idempotent_replay v"
  by (simp add: execute_example del: bind_op_Inr bind_op_Inl)

lemma example_provisioned_db:
  "\<exists>v. provision_tenant example_provision example_tenant_start = (Inr v, example_provisioned_db)"
  using example_provisioned by (auto simp: example_provisioned_db_def session_scope_def)

lemma example_provisioned_row: "status_of ''acme'' example_provisioned_db = Some ''active''"
  by (simp add: status_of_def example_provisioned_db_def session_scope_def execute_example del: bind_op_Inr bind_op_Inl)

lemmas execute_quotas = status_of_def quota_of_def example_quota_db_def update_tenant_quotas_def update_one_quota_def
  upsert_tenant_quota_def as_mapping_def example_quotas_def get_tenant_quota_def example_provisioned_db_def
  session_scope_def execute_example

lemma example_quotas_row:
  "status_of ''acme'' example_quota_db = Some ''active''"
  "quota_of ''acme'' ''api_requests_per_window'' example_quota_db = Some 10"
  by (simp_all add: execute_quotas del: bind_op_Inr bind_op_Inl)

lemma suspend_active:
  assumes "get_tenant tid s = Some row" "tn_status row = ''active''" "tenant_row_ok row" "tid \<noteq> []"
    "tu_requested_by req \<noteq> []" "REQUIRED_OPERATOR_SCOPE \<in> set (tu_actor_scopes req)"
    "REQUIRED_SUSPEND_SCOPE \<in> set (tu_actor_scopes req)"
  shows "\<exists>v t. suspend_tenant tid req s = (Inr v, t)"
  using assms
  by (simp add: suspend_tenant_def operator_allowed update_tenant_lifecycle_def transition_event_def
      tenant_from_record_def lifecycle_row_def tenant_row_ok_def Let_def SUSPENDED_AUDIT_EVENT_TYPE_def bind_op_def
      del: bind_op_Inr bind_op_Inl)

lemma example_suspended:
  "status_of ''acme'' example_suspended_db = Some ''suspended''"
  "quota_of ''acme'' ''api_requests_per_window'' example_suspended_db = Some 10"
proof -
  have hist: "tenant_history example_quota_db"
    using history_run [OF history_run [OF example_tenant_runs(1,2)], of example_quota_db]
    by (auto simp: example_quota_db_def intro: quotas)
  obtain row where row: "get_tenant ''acme'' example_quota_db = Some row" "tn_status row = ''active''"
    using example_quotas_row(1) by (auto simp: status_of_def)
  then have ok: "tenant_row_ok row" using tenants_invD(4) [OF history_inv [OF hist]] get_tenant_SomeD by blast
  obtain v where "suspend_tenant ''acme'' example_suspension example_quota_db = (Inr v, example_suspended_db)"
    using suspend_active [OF row ok, of example_suspension]
    by (auto simp: example_suspension_def example_suspended_db_def session_scope_def)
  then have "status_of ''acme'' example_suspended_db = Some ''suspended''
      \<and> quota_of ''acme'' ''api_requests_per_window'' example_suspended_db =
        quota_of ''acme'' ''api_requests_per_window'' example_quota_db"
  proof (cases rule: suspend_tenant_Inr)
    case (1 d row' now e)
    then show ?thesis
      using status_of_update [OF 1(7), of "''acme''"] row
      by (simp add: suspension_def others_same_def of_same_rows(2) [of example_suspended_db example_quota_db])
  qed
  then show "status_of ''acme'' example_suspended_db = Some ''suspended''"
    "quota_of ''acme'' ''api_requests_per_window'' example_suspended_db = Some 10"
    using example_quotas_row(2) by simp_all
qed

section \<open>Properties\<close>





text \<open>Provisioning is idempotent for good: whatever happens after a provisioning returned, a caller with the operator
  scopes who sends the request again gets the same tenant as a replay, a request that differs under the same
  idempotency key is refused as a conflict, and neither writes anything.\<close>

lemma provision_replay:
  assumes "tenant_history s" and first: "provision_tenant req s = (Inr v, t)" and later: "tenant_run t u"
    and key: "tp_idempotency_key req' = tp_idempotency_key req"
    and scopes: "tp_tenant_id req' \<noteq> []" "tp_requested_by req' \<noteq> []" "REQUIRED_OPERATOR_SCOPE \<in> set (tp_actor_scopes req')"
      "REQUIRED_PROVISION_SCOPE \<in> set (tp_actor_scopes req')"
  shows "if same_provision req req'
    then \<exists>v'. provision_tenant req' u = (Inr v', u) \<and> vw_idempotent_replay v' \<and> vw_tenant_id v' = tp_tenant_id req
      \<and> vw_created_at v' = vw_created_at v
    else provision_tenant req' u =
      (Inl (TenantProvisionConflict (tp_tenant_id req') ''provision_idempotency_conflict''), u)"
proof -
  have inv: "tenants_inv s" using assms(1) by (rule history_inv)
  have held: "provision_held req (vw_created_at v) t" and steps: "tenant_change\<^sup>*\<^sup>* s t"
    using provision_Inr_held [OF inv first] by auto
  have inv_u: "tenants_inv u" using changes_keep_inv [OF run_changes [OF later] changes_keep_inv [OF steps inv]] .
  obtain row ev where row: "row \<in> set (tenants u)" "tn_created_at row = vw_created_at v"
    "provision_events (tn_id row) (audit_events u) = [ev]" "evidence_of req row ev"
    using run_keeps_provision [OF later held] by (auto simp: provision_held_def)
  have found: "get_tenant_by_provision_idempotency_key (tp_idempotency_key req') u = Some row"
    using get_tenant_by_key_unique [OF inv_u row(1)] row(4) key by (simp add: evidence_of_def)
  have matches: "provision_matches_request row req' u \<longleftrightarrow> same_provision req req'"
    using provision_matches_iff [OF row(3,4) key] .
  obtain v' where v': "tenant_from_record row None True = Inr v'" "vw_idempotent_replay v'" "vw_tenant_id v' = tn_id row"
    "vw_created_at v' = tn_created_at row"
    using tenant_from_record_ok [OF tenants_invD(4) [OF inv_u row(1)]] by metis
  show ?thesis
    using v' row(2,4) by (auto simp: provision_tenant_def operator_allowed [OF scopes] found matches evidence_of_def)
qed

lemma provision_replay_example:
  "\<exists>v'. provision_tenant example_provision example_suspended_db = (Inr v', example_suspended_db)
     \<and> vw_idempotent_replay v' \<and> vw_tenant_id v' = ''acme''"
proof -
  obtain v where "provision_tenant example_provision example_tenant_start = (Inr v, example_provisioned_db)"
    using example_provisioned_db by blast
  from provision_replay [OF example_tenant_runs(1) this example_tenant_runs(3), of example_provision]
  show ?thesis by (auto simp: same_provision_iff example_provision_def)
qed

end
