(* ===== verification/Tenant_Cache.thy ===== *)
theory Tenant_Cache
  imports Tenant_Lifecycle
begin

text \<open>
  The cache of tenant states and the admission of requests: what a lookup may return when lookups, commits and
  invalidations interleave, and what admission decides when requests come one after the other.
\<close>

section \<open>The cache as a dictionary\<close>

lemma evict_drop: "evict n c = drop (Suc (length c) - max 1 n) c"
proof (induction n c rule: evict.induct)
  case (1 n c)
  show ?case
  proof (cases "n \<le> length c \<and> c \<noteq> []")
    case True
    then obtain x c' where c: "c = x # c'" by (cases c) auto
    have "evict n c = evict n c'" using True c by (subst evict.simps) simp
    also have "\<dots> = drop (Suc (length c') - max 1 n) c'" using 1 True c by simp
    also have "\<dots> = drop (Suc (length c) - max 1 n) c"
    proof (cases "length c < max 1 n")
      case True
      then show ?thesis using \<open>n \<le> length c \<and> c \<noteq> []\<close> c by (auto simp: max_def split: if_splits)
    next
      case False
      then have "Suc (length c) - max 1 n = Suc (Suc (length c') - max 1 n)" using c by (simp add: Suc_diff_le)
      then show ?thesis using c by simp
    qed
    finally show ?thesis .
  next
    case False
    then show ?thesis by (subst evict.simps) (auto simp: max_def)
  qed
qed

lemma evict_subset: "set (evict n c) \<subseteq> set c"
  by (simp add: evict_drop set_drop_subset)

lemma length_evict: "1 \<le> n \<Longrightarrow> length (evict n c) < n"
  by (auto simp: evict_drop max_def)

text \<open>The entries of a cache with distinct keys.\<close>

lemma length_alist_update: "length (AList.update k v c) \<le> Suc (length c)"
  by (induction c) auto

lemma store_snapshot_bounded:
  assumes "length c \<le> nat (max 1 m)"
  shows "length (store_snapshot ttl m o' tid sn c) \<le> nat (max 1 m)"
proof -
  let ?n = "nat (max 1 m)"
  have "length (AList.update tid v (evict ?n c)) \<le> ?n" for v
  proof -
    have "1 \<le> ?n" by linarith
    from length_evict [OF this, of c] length_alist_update [of tid v "evict ?n c"] show ?thesis by linarith
  qed
  then show ?thesis using assms by (simp add: store_snapshot_def Let_def)
qed

lemma store_snapshot_entry:
  assumes "(x, sn', e) \<in> set (store_snapshot ttl m o' tid sn c)"
  shows "(x, sn', e) \<in> set c \<or> x = tid \<and> sn' = sn \<and> e = o' + max 0 ttl"
proof -
  have "y \<in> set (AList.update k v d) \<Longrightarrow> y \<in> set d \<or> y = (k, v)" for y k v and d :: tenant_cache
    by (induction d) (auto split: if_splits)
  from this [of "(x, sn', e)" tid "(sn, o' + max 0 ttl)" "evict (nat (max 1 m)) c"] show ?thesis
    using assms evict_subset [of "nat (max 1 m)" c]
    by (auto simp: store_snapshot_def Let_def split: if_splits)
qed

lemma invalidate_entry: "(x, sn, e) \<in> set (invalidate tid c) \<longleftrightarrow> (x, sn, e) \<in> set c \<and> x \<noteq> tid"
  by (induction c) (auto simp: invalidate_def)

lemma cached_snapshot_entry:
  assumes "cached_snapshot now tid c = Some sn"
  obtains e where "(tid, sn, e) \<in> set c" "now < e"
  using assms by (auto simp: cached_snapshot_def split: option.splits prod.splits if_splits dest: map_of_SomeD)

section \<open>Lookups that overlap\<close>

text \<open>
  A process serves requests in a pool of threads, so the phases of \<^verbatim>\<open>snapshot\<close> interleave with each other, with commits of
  this and other processes and with the callbacks that drop an entry. A lookup that misses is under way from its
  reading of the clock (\<open>lk_observed_at\<close>) until it has stored its snapshot. \<open>cw_log\<close> records which database was
  there at which time.
\<close>

record lookup =
  lk_tenant_id :: string
  lk_observed_at :: pyfloat
  lk_snapshot :: "tenant_snapshot option"

record cache_world =
  cw_now :: pyfloat
  cw_db :: db
  cw_cache :: tenant_cache
  cw_lookups :: "lookup list"
  cw_log :: "(pyfloat \<times> db) list"

text \<open>The answer of a step: the tenant, when the lookup began, and the snapshot it returns.\<close>

type_synonym cache_answer = "string \<times> pyfloat \<times> tenant_snapshot"

definition logged :: "cache_world \<Rightarrow> cache_world" where
  "logged w = w\<lparr>cw_log := (cw_now w, cw_db w) # cw_log w\<rparr>"

inductive cache_step :: "pyfloat \<Rightarrow> int \<Rightarrow> cache_world \<Rightarrow> cache_answer option \<Rightarrow> cache_world \<Rightarrow> bool"
  for ttl :: pyfloat and max_entries :: int
where
  tick: "cw_now w \<le> now \<Longrightarrow> cache_step ttl max_entries w None (logged (w\<lparr>cw_now := now\<rparr>))"
| commit: "cache_step ttl max_entries w None (logged (w\<lparr>cw_db := d\<rparr>))"
| hit: "cached_snapshot (cw_now w) tid (cw_cache w) = Some sn \<Longrightarrow>
    cache_step ttl max_entries w (Some (tid, cw_now w, sn)) w"
| miss: "cached_snapshot (cw_now w) tid (cw_cache w) = None \<Longrightarrow>
    cache_step ttl max_entries w None
      (w\<lparr>cw_lookups := cw_lookups w @ [\<lparr>lk_tenant_id = tid, lk_observed_at = cw_now w, lk_snapshot = None\<rparr>]\<rparr>)"
| read: "i < length (cw_lookups w) \<Longrightarrow> l = cw_lookups w ! i \<Longrightarrow> lk_snapshot l = None \<Longrightarrow>
    cache_step ttl max_entries w None
      (w\<lparr>cw_lookups := (cw_lookups w)[i := l\<lparr>lk_snapshot := Some (read_snapshot (lk_tenant_id l) (cw_db w))\<rparr>]\<rparr>)"
| store: "i < length (cw_lookups w) \<Longrightarrow> l = cw_lookups w ! i \<Longrightarrow> lk_snapshot l = Some sn \<Longrightarrow>
    cache_step ttl max_entries w (Some (lk_tenant_id l, lk_observed_at l, sn))
      (w\<lparr>cw_cache := store_snapshot ttl max_entries (lk_observed_at l) (lk_tenant_id l) sn (cw_cache w),
         cw_lookups := take i (cw_lookups w) @ drop (Suc i) (cw_lookups w)\<rparr>)"
| drop_entry: "cache_step ttl max_entries w None (w\<lparr>cw_cache := invalidate tid (cw_cache w)\<rparr>)"

definition cache_start :: "pyfloat \<Rightarrow> db \<Rightarrow> cache_world" where
  "cache_start now d = \<lparr>cw_now = now, cw_db = d, cw_cache = [], cw_lookups = [], cw_log = [(now, d)]\<rparr>"

inductive cache_run :: "pyfloat \<Rightarrow> int \<Rightarrow> cache_world \<Rightarrow> bool" for ttl :: pyfloat and max_entries :: int where
  start: "cache_run ttl max_entries (cache_start now d)"
| step: "cache_run ttl max_entries w \<Longrightarrow> cache_step ttl max_entries w answer w' \<Longrightarrow> cache_run ttl max_entries w'"

definition seen :: "cache_world \<Rightarrow> string \<Rightarrow> pyfloat \<Rightarrow> tenant_snapshot \<Rightarrow> bool" where
  "seen w tid since sn \<longleftrightarrow> (\<exists>(t, d) \<in> set (cw_log w). since \<le> t \<and> sn = read_snapshot tid d)"

definition entry_ok :: "pyfloat \<Rightarrow> cache_world \<Rightarrow> string \<times> tenant_snapshot \<times> pyfloat \<Rightarrow> bool" where
  "entry_ok ttl w = (\<lambda>(tid, sn, e). seen w tid (e - max 0 ttl) sn)"

definition lookup_ok :: "cache_world \<Rightarrow> lookup \<Rightarrow> bool" where
  "lookup_ok w l \<longleftrightarrow> lk_observed_at l \<le> cw_now w
     \<and> (\<forall>sn. lk_snapshot l = Some sn \<longrightarrow> seen w (lk_tenant_id l) (lk_observed_at l) sn)"

definition cache_inv :: "pyfloat \<Rightarrow> int \<Rightarrow> cache_world \<Rightarrow> bool" where
  "cache_inv ttl max_entries w \<longleftrightarrow> (cw_now w, cw_db w) \<in> set (cw_log w)
     \<and> length (cw_cache w) \<le> nat (max 1 max_entries)
     \<and> (\<forall>x \<in> set (cw_cache w). entry_ok ttl w x) \<and> (\<forall>l \<in> set (cw_lookups w). lookup_ok w l)"

lemma seen_mono: "seen w tid since sn \<Longrightarrow> set (cw_log w) \<subseteq> set (cw_log w') \<Longrightarrow> seen w' tid since sn"
  by (auto simp: seen_def)

lemma entry_ok_mono: "entry_ok ttl w x \<Longrightarrow> set (cw_log w) \<subseteq> set (cw_log w') \<Longrightarrow> entry_ok ttl w' x"
  by (auto simp: entry_ok_def intro: seen_mono)

lemma lookup_ok_mono: "lookup_ok w l \<Longrightarrow> set (cw_log w) \<subseteq> set (cw_log w') \<Longrightarrow> cw_now w \<le> cw_now w' \<Longrightarrow> lookup_ok w' l"
  by (auto simp: lookup_ok_def intro: seen_mono)

text \<open>A step that advances the world keeps the invariant when the entries and the lookups it adds are right.\<close>

lemma cache_invI:
  assumes "cache_inv ttl m w" "set (cw_log w) \<subseteq> set (cw_log w')" "cw_now w \<le> cw_now w'"
    "(cw_now w', cw_db w') \<in> set (cw_log w')" "length (cw_cache w') \<le> nat (max 1 m)"
    "\<And>x. x \<in> set (cw_cache w') \<Longrightarrow> x \<in> set (cw_cache w) \<or> entry_ok ttl w' x"
    "\<And>l. l \<in> set (cw_lookups w') \<Longrightarrow> l \<in> set (cw_lookups w) \<or> lookup_ok w' l"
  shows "cache_inv ttl m w'"
  using assms entry_ok_mono [OF _ assms(2)] lookup_ok_mono [OF _ assms(2,3)] unfolding cache_inv_def by blast

lemma cache_invD:
  assumes "cache_inv ttl m w"
  shows "(cw_now w, cw_db w) \<in> set (cw_log w)" "length (cw_cache w) \<le> nat (max 1 m)"
    "x \<in> set (cw_cache w) \<Longrightarrow> entry_ok ttl w x" "l \<in> set (cw_lookups w) \<Longrightarrow> lookup_ok w l"
  using assms by (auto simp: cache_inv_def)

lemma cache_step_inv:
  assumes "cache_step ttl m w answer w'" and inv: "cache_inv ttl m w"
  shows "cache_inv ttl m w'"
  using assms(1)
proof (cases rule: cache_step.cases)
  case (tick now)
  then show ?thesis using cache_invD [OF inv] by (intro cache_invI [OF inv]) (auto simp: logged_def)
next
  case (commit d)
  then show ?thesis using cache_invD [OF inv] by (intro cache_invI [OF inv]) (auto simp: logged_def)
next
  case (miss tid)
  then show ?thesis using cache_invD [OF inv] by (intro cache_invI [OF inv]) (auto simp: lookup_ok_def)
next
  case (read i l)
  have "lookup_ok w l" using read cache_invD(4) [OF inv] by simp
  then have "lookup_ok w' (l\<lparr>lk_snapshot := Some (read_snapshot (lk_tenant_id l) (cw_db w))\<rparr>)"
    using cache_invD(1) [OF inv] read(2) by (auto simp: lookup_ok_def seen_def)
  then show ?thesis using cache_invD [OF inv] read(2)
    by (intro cache_invI [OF inv]) (auto dest!: set_update_subset_insert [THEN subsetD])
next
  case (store i l sn)
  have "lookup_ok w l" using store cache_invD(4) [OF inv] by simp
  then have "seen w' (lk_tenant_id l) (lk_observed_at l) sn"
    using store by (auto simp: lookup_ok_def seen_def)
  then have "x \<in> set (cw_cache w) \<or> entry_ok ttl w' x" if "x \<in> set (cw_cache w')" for x
    using that store(2) by (cases x) (auto simp: entry_ok_def dest: store_snapshot_entry)
  then show ?thesis using cache_invD [OF inv] store(2)
    by (intro cache_invI [OF inv]) (auto intro: store_snapshot_bounded dest: in_set_takeD in_set_dropD)
next
  case (drop_entry tid)
  have "length (invalidate tid c) \<le> length c" for c by (simp add: invalidate_def length_delete_le)
  then show ?thesis using cache_invD [OF inv] drop_entry
    by (intro cache_invI [OF inv]) (auto simp: invalidate_entry intro: order_trans)
qed (use inv in simp)

lemma cache_run_inv: "cache_run ttl m w \<Longrightarrow> cache_inv ttl m w"
proof (induction rule: cache_run.induct)
  case (step w answer w')
  then show ?case by (blast intro: cache_step_inv)
qed (simp add: cache_start_def cache_inv_def)

section \<open>Requests that do not overlap\<close>

text \<open>The cache of a process agrees with the database when every entry is what a lookup would read now.\<close>

definition cache_coherent :: "app \<Rightarrow> bool" where
  "cache_coherent a \<longleftrightarrow> (\<forall>(tid, sn, e) \<in> set (app_cache a). sn = read_snapshot tid (app_db a))"

definition same_snapshots :: "string set \<Rightarrow> db \<Rightarrow> db \<Rightarrow> bool" where
  "same_snapshots except s t \<longleftrightarrow> (\<forall>x. x \<notin> except \<longrightarrow> read_snapshot x t = read_snapshot x s)"

lemma same_snapshots_rows:
  "tenants t = tenants s \<Longrightarrow> tenant_quotas t = tenant_quotas s \<Longrightarrow> same_snapshots X s t"
  by (simp add: same_snapshots_def read_snapshot_def get_tenant_def quota_dict_def list_tenant_quotas_def)

lemma same_snapshots_update:
  assumes "tenants t = tenants (update_tenant_row tid f s)" "tenant_quotas t = tenant_quotas s" "\<And>r. tn_id (f r) = tn_id r"
  shows "same_snapshots {tid} s t"
  unfolding same_snapshots_def
proof (intro allI impI)
  fix x assume "x \<notin> {tid}"
  then have "get_tenant x t = get_tenant x s"
    using get_tenant_update [of f x tid s, OF assms(3)] assms(1) by (simp add: get_tenant_def)
  then show "read_snapshot x t = read_snapshot x s"
    using assms(2) by (simp add: read_snapshot_def quota_dict_def list_tenant_quotas_def)
qed

lemma same_snapshots_trans: "same_snapshots X s t \<Longrightarrow> same_snapshots X t u \<Longrightarrow> same_snapshots X s u"
  by (simp add: same_snapshots_def)

lemma same_snapshots_quotas:
  assumes "tenants t = tenants s"
    "\<And>x. x \<noteq> tid \<Longrightarrow> select_where (\<lambda>q. tq_tenant_id q = x) (tenant_quotas t) = select_where (\<lambda>q. tq_tenant_id q = x) (tenant_quotas s)"
  shows "same_snapshots {tid} s t"
  using assms by (simp add: same_snapshots_def read_snapshot_def get_tenant_def quota_dict_def list_tenant_quotas_def)

text \<open>A change of the state of one tenant leaves what is read of the others.\<close>

lemma quota_frame:
  assumes inv: "tenants_inv s" and "x \<noteq> tid"
    and quota: "case get_tenant_quota tid k s of
       None \<Rightarrow> \<exists>q n. tenant_quotas t = tenant_quotas s @ [q] \<and> tq_tenant_id q = tid \<and> tq_quota_key q = k
                 \<and> tq_quota_value q = v \<and> tq_id q = uuid_at s n \<and> uuid_n s \<le> n \<and> n < uuid_n t
     | Some q \<Rightarrow> \<exists>f. tenant_quotas t = update_where (\<lambda>r. tq_id r = tq_id q) f (tenant_quotas s)
                 \<and> (\<forall>r. tq_id (f r) = tq_id r \<and> tq_tenant_id (f r) = tq_tenant_id r \<and> tq_quota_key (f r) = tq_quota_key r
                      \<and> tq_quota_value (f r) = v)"
  shows "select_where (\<lambda>q. tq_tenant_id q = x) (tenant_quotas t) = select_where (\<lambda>q. tq_tenant_id q = x) (tenant_quotas s)"
proof (cases "get_tenant_quota tid k s")
  case None
  with quota \<open>x \<noteq> tid\<close> show ?thesis by auto
next
  case (Some q)
  with quota obtain f where f: "tenant_quotas t = update_where (\<lambda>r. tq_id r = tq_id q) f (tenant_quotas s)"
    "\<And>r. tq_tenant_id (f r) = tq_tenant_id r" by auto
  have q: "q \<in> set (tenant_quotas s)" "tq_tenant_id q = tid" using get_tenant_quota_SomeD [OF Some] by auto
  have "distinct (map tq_id (tenant_quotas s))" using tenants_invD(7) [OF inv] by (simp add: ids_drawn_def)
  then have "tq_id r \<noteq> tq_id q" if "r \<in> set (tenant_quotas s)" "tq_tenant_id r = x" for r
    using distinct_key_unique [OF _ that(1) q(1)] that(2) q(2) \<open>x \<noteq> tid\<close> by blast
  then show ?thesis
    unfolding f(1) by (subst select_where_update) (auto simp: f(2) intro!: update_where_none)
qed

lemma update_one_quota_frame:
  assumes run: "update_one_quota tid req d k v s = (Inr cs, t)" and inv: "tenants_inv s"
  shows "same_snapshots {tid} s t"
proof (cases "v = map_option tq_quota_value (get_tenant_quota tid k s)")
  case True
  with run show ?thesis by (simp add: update_one_quota_def same_snapshots_rows)
next
  case changed: False
  let ?e = "quota_updated_event tid (qu_requested_by req) k (map_option tq_quota_value (get_tenant_quota tid k s)) v d"
  show ?thesis
  proof (cases v)
    case None
    with changed obtain q where q: "get_tenant_quota tid k s = Some q" by auto
    from None changed run obtain b where "delete_tenant_quota tid k (with_audit_event s ?e) = (Inr b, t)"
      by (auto simp: update_one_quota_def Let_def bind_op_Inr_iff)
    then have t: "t = (with_audit_event s ?e)\<lparr>tenant_quotas := select_where (\<lambda>r. tq_id r \<noteq> tq_id q) (tenant_quotas s)\<rparr>"
      using delete_tenant_quota_Inr [of tid k "with_audit_event s ?e" b t q] q by simp
    have in_q: "q \<in> set (tenant_quotas s)" "tq_tenant_id q = tid" using get_tenant_quota_SomeD [OF q] by auto
    have "distinct (map tq_id (tenant_quotas s))" using tenants_invD(7) [OF inv] by (simp add: ids_drawn_def)
    then have "tq_id r \<noteq> tq_id q" if "r \<in> set (tenant_quotas s)" "tq_tenant_id r \<noteq> tid" for r
      using distinct_key_unique [OF _ that(1) in_q(1)] that(2) in_q(2) by blast
    then show ?thesis
      by (intro same_snapshots_quotas) (auto simp: t select_where_def intro!: filter_cong)
  next
    case (Some w)
    let ?x = "\<lparr>qx_tenant_id = tid, qx_quota_key = k, qx_quota_value = w, qx_updated_by = qu_requested_by req,
      qx_audit_event_id = Some (ae_id (new_audit_event s ?e)), qx_audit_event_type = ae_event_type (new_audit_event s ?e),
      qx_notes = qu_notes req\<rparr>"
    from Some changed run obtain q' where "upsert_tenant_quota ?x (with_audit_event s ?e) = (Inr q', t)"
      by (auto simp: update_one_quota_def Let_def bind_op_Inr_iff)
    from upsert_tenant_quota_Inr [OF this] have t: "tenants t = tenants s" and quota: "case get_tenant_quota tid k s of
       None \<Rightarrow> \<exists>q n. tenant_quotas t = tenant_quotas s @ [q] \<and> tq_tenant_id q = tid \<and> tq_quota_key q = k
                 \<and> tq_quota_value q = w \<and> tq_id q = uuid_at s n \<and> uuid_n s \<le> n \<and> n < uuid_n t
     | Some q \<Rightarrow> \<exists>f. tenant_quotas t = update_where (\<lambda>r. tq_id r = tq_id q) f (tenant_quotas s)
                 \<and> (\<forall>r. tq_id (f r) = tq_id r \<and> tq_tenant_id (f r) = tq_tenant_id r \<and> tq_quota_key (f r) = tq_quota_key r
                      \<and> tq_quota_value (f r) = w)"
      by (auto dest: Suc_leD split: option.splits)
    show ?thesis by (intro same_snapshots_quotas t quota_frame [OF inv _ quota])
  qed
qed

lemma update_quota_loop_frame:
  "update_quota_loop tid req d kvs s = (Inr cs, t) \<Longrightarrow> get_tenant tid s \<noteq> None \<Longrightarrow> tenants_inv s \<Longrightarrow> same_snapshots {tid} s t"
proof (induction kvs arbitrary: s cs)
  case (Cons kv kvs)
  obtain k v where kv: "kv = (k, v)" by (cases kv)
  with Cons.prems obtain cs1 u cs2 where one: "update_one_quota tid req d k v s = (Inr cs1, u)"
    and rest: "update_quota_loop tid req d kvs u = (Inr cs2, t)"
    by (auto simp: bind_op_Inr_iff)
  have "get_tenant tid u \<noteq> None" "tenants_inv u"
    using update_one_quota_step [OF one Cons.prems(2)] Cons.prems(2,3)
    by (auto simp: get_tenant_def intro: change_keeps_inv)
  then show ?case
    using Cons.IH [OF rest] update_one_quota_frame [OF one Cons.prems(3)] by (blast intro: same_snapshots_trans)
qed (simp add: same_snapshots_rows)

lemma service_frames:
  assumes "tenants_inv s"
  shows "provision_tenant req s = (Inr v, t) \<Longrightarrow> same_snapshots {vw_tenant_id v} s t"
    "suspend_tenant tid sus s = (Inr v, t) \<Longrightarrow> same_snapshots {tid} s t"
    "reactivate_tenant tid rea s = (Inr v, t) \<Longrightarrow> same_snapshots {tid} s t"
    "update_tenant_quotas tid quo s = (Inr qs, t) \<Longrightarrow> same_snapshots {tid} s t"
proof -
  assume "provision_tenant req s = (Inr v, t)"
  then show "same_snapshots {vw_tenant_id v} s t"
  proof (cases rule: provision_tenant_Inr)
    case (new d)
    from new(3) show ?thesis
    proof (cases rule: provision_new_Inr)
      case (1 ev row c u)
      have "tn_id row = tp_tenant_id req" by (simp add: 1(2) provisioned_tenant_def)
      moreover have "vw_tenant_id v = tn_id row"
        using 1(3) by (auto simp: tenant_from_record_def split: option.splits if_splits)
      ultimately show ?thesis
        using get_tenant_snoc [OF 1(7)] 1(4,8)
        by (auto simp: same_snapshots_def read_snapshot_def quota_dict_def list_tenant_quotas_def)
    qed
  qed (simp add: same_snapshots_rows)
next
  assume "suspend_tenant tid sus s = (Inr v, t)"
  then show "same_snapshots {tid} s t"
    by (rule suspend_tenant_Inr) (erule same_snapshots_update; simp add: others_same_def)
next
  assume "reactivate_tenant tid rea s = (Inr v, t)"
  then show "same_snapshots {tid} s t"
    by (rule reactivate_tenant_Inr) (erule same_snapshots_update; simp add: others_same_def)
next
  assume "update_tenant_quotas tid quo s = (Inr qs, t)"
  then show "same_snapshots {tid} s t"
    using assms by (auto simp: update_tenant_quotas_def bind_op_Inr_iff split: if_splits intro: update_quota_loop_frame)
qed

text \<open>One process that is the only writer, with requests one after the other. \<open>audited\<close> is a transaction of another
  component.\<close>

inductive app_history :: "app \<Rightarrow> bool" where
  app_start: "inj uuids \<Longrightarrow> app_history \<lparr>app_db = empty_db clock uuids, app_cache = []\<rparr>"
| provision_route: "app_history a \<Longrightarrow> app_history (snd (platform_tenant_provision cfg req p a))"
| suspend_route: "app_history a \<Longrightarrow> app_history (snd (platform_tenant_suspend cfg tid sus p a))"
| reactivate_route: "app_history a \<Longrightarrow> app_history (snd (platform_tenant_reactivate cfg tid rea p a))"
| quotas_route: "app_history a \<Longrightarrow> app_history (snd (platform_tenant_quotas_update cfg tid quo p a))"
| vocabulary_route: "app_history a \<Longrightarrow> app_history (snd (platform_tenant_vocabulary_update cfg tid voc p a))"
| admission: "app_history a \<Longrightarrow> app_history (snd (enforce_tenant_admission cfg now request who a))"
| audited: "app_history a \<Longrightarrow> tenant_transaction (app_db a) t \<Longrightarrow> tenants t = tenants (app_db a) \<Longrightarrow>
    tenant_quotas t = tenant_quotas (app_db a) \<Longrightarrow> app_history (a\<lparr>app_db := t\<rparr>)"

definition app_ok :: "app \<Rightarrow> bool" where
  "app_ok a \<longleftrightarrow> tenant_history (app_db a) \<and> cache_coherent a"

lemma coherent_write:
  assumes "cache_coherent a" "same_snapshots {tid} (app_db a) t"
  shows "cache_coherent \<lparr>app_db = t, app_cache = invalidate tid (app_cache a)\<rparr>"
  using assms by (auto simp: cache_coherent_def same_snapshots_def invalidate_entry)

lemma coherent_same:
  assumes "cache_coherent a" "same_snapshots {} (app_db a) t"
  shows "cache_coherent (a\<lparr>app_db := t\<rparr>)"
  using assms by (auto simp: cache_coherent_def same_snapshots_def)

lemma rollback_same: "same_snapshots X s (rollback s t)"
  by (rule same_snapshots_rows) (simp_all add: rollback_def)

lemma history_transaction: "tenant_history s \<Longrightarrow> tenant_transaction s t \<Longrightarrow> tenant_history t"
  by (rule history_run) auto

lemma write_route_ok:
  assumes ok: "app_ok a" and tx: "\<And>r. tenant_transaction (app_db a) (snd (session_scope (operation r) (app_db a)))"
    and frame: "\<And>r x t. operation r (app_db a) = (Inr x, t) \<Longrightarrow> same_snapshots {written x} (app_db a) t"
  shows "app_ok (snd (tenant_write_route cfg body_valid bound operation message tid written a))"
proof (cases "body_valid \<and> ts_db_available cfg \<and> (\<exists>r. bound = Inr r)")
  case False
  then show ?thesis
    using ok by (cases bound) (auto simp: tenant_write_route_def after_commit_def app_session_def bind_op_def lift_error_def)
next
  case True
  then obtain r where r: "bound = Inr r" by blast
  obtain res t where run: "operation r (app_db a) = (res, t)" by (cases "operation r (app_db a)")
  show ?thesis
  proof (cases res)
    case (Inl e)
    have "snd (tenant_write_route cfg body_valid bound operation message tid written a) = a\<lparr>app_db := rollback (app_db a) t\<rparr>"
      using True r run Inl
      by (simp add: tenant_write_route_def after_commit_def app_session_def bind_op_def lift_error_def session_scope_def)
    moreover have "tenant_history (rollback (app_db a) t)"
      using history_transaction [OF _ tx [of r]] ok run Inl by (auto simp: app_ok_def session_scope_def)
    ultimately show ?thesis using ok by (auto simp: app_ok_def intro!: coherent_same rollback_same)
  next
    case (Inr x)
    have "snd (tenant_write_route cfg body_valid bound operation message tid written a) =
        \<lparr>app_db = t, app_cache = invalidate (written x) (app_cache a)\<rparr>"
      using True r run Inr
      by (simp add: tenant_write_route_def after_commit_def app_session_def bind_op_def lift_error_def session_scope_def)
    moreover have "tenant_history t"
      using history_transaction [OF _ tx [of r]] ok run Inr by (auto simp: app_ok_def session_scope_def)
    ultimately show ?thesis using ok coherent_write frame [of r x t] run Inr by (auto simp: app_ok_def)
  qed
qed

lemma vocabulary_frame:
  assumes "update_tenant_vocabulary tid req s = (Inr x, t)"
  shows "same_snapshots {} s t"
  using assms
proof (cases rule: update_tenant_vocabulary_Inr)
  case (2 ev v u)
  have "map_option tn_status (get_tenant y t) = map_option tn_status (get_tenant y s)" for y
    using status_of_update [OF 2(4)] by (simp add: status_of_def comp_def)
  then show ?thesis
    using 2(5) by (simp add: same_snapshots_def read_snapshot_def others_same_def quota_dict_def list_tenant_quotas_def)
qed (simp add: same_snapshots_rows)

lemma app_session_ok:
  assumes ok: "app_ok a" and tx: "tenant_transaction (app_db a) (snd (session_scope m (app_db a)))"
    and frame: "\<And>x t. m (app_db a) = (Inr x, t) \<Longrightarrow> same_snapshots {} (app_db a) t"
  shows "app_ok (snd (app_session cfg m a))"
proof -
  have "same_snapshots {} (app_db a) (snd (session_scope m (app_db a)))"
    using frame by (auto simp: session_scope_def rollback_same split: prod.splits sum.splits)
  moreover have "tenant_history (snd (session_scope m (app_db a)))"
    using history_transaction [OF _ tx] ok by (simp add: app_ok_def)
  moreover have "snd (app_session cfg m a) = a \<or>
      snd (app_session cfg m a) = a\<lparr>app_db := snd (session_scope m (app_db a))\<rparr>"
    by (auto simp: app_session_def split: prod.splits sum.splits)
  ultimately show ?thesis using ok by (auto simp: app_ok_def intro: coherent_same)
qed

lemma vocabulary_route_ok:
  assumes ok: "app_ok a"
  shows "app_ok (snd (platform_tenant_vocabulary_update cfg tid body p a))"
proof -
  have "snd (platform_tenant_vocabulary_update cfg tid body p a) = a \<or>
    (\<exists>r. snd (platform_tenant_vocabulary_update cfg tid body p a) = snd (app_session cfg (update_tenant_vocabulary tid r) a))"
    by (auto simp: platform_tenant_vocabulary_update_def bind_op_def lift_error_def split: option.splits sum.splits prod.splits)
      (metis snd_conv)+
  moreover have "app_ok (snd (app_session cfg (update_tenant_vocabulary tid r) a))" for r
    by (rule app_session_ok [OF ok vocabulary]) (rule vocabulary_frame)
  ultimately show ?thesis using ok by metis
qed

lemma cache_snapshot_coherent:
  assumes ok: "app_ok a" and run: "cache_snapshot cfg now tid a = (r, b)"
  shows "app_ok b" "app_db b = app_db a" "r = Inr sn \<Longrightarrow> sn = read_snapshot tid (app_db a)"
proof -
  show "r = Inr sn \<Longrightarrow> sn = read_snapshot tid (app_db a)"
    using run ok
    by (auto simp: cache_snapshot_def app_ok_def cache_coherent_def Let_def split: option.splits if_splits
        elim!: cached_snapshot_entry)
  show "app_db b = app_db a"
    using run by (auto simp: cache_snapshot_def Let_def split: option.splits if_splits)
  show "app_ok b"
    using run ok
    by (auto simp: cache_snapshot_def app_ok_def cache_coherent_def Let_def split: option.splits if_splits
        dest!: store_snapshot_entry)
qed

lemma audit_transaction:
  assumes "ac_event_type e \<notin> set lifecycle_event_types"
  shows "tenant_transaction s (with_audit_event s e)"
  using assms by (intro elsewhere [of _ _ "[new_audit_event s e]"]) (auto simp: drawn_def)

lemma denied_event_type [simp]:
  "ac_event_type (admission_denied_event request p st r) = tenant_admission_denial_audit_event_type r"
  by (simp add: admission_denied_event_def)

lemma enforce_ok:
  assumes ok: "app_ok a"
  shows "app_ok (snd (enforce_tenant_admission cfg now request p a))"
proof -
  obtain r b where look: "cache_snapshot cfg now (sp_tenant_id p) a = (r, b)" by (cases "cache_snapshot cfg now (sp_tenant_id p) a")
  have b: "app_ok b" by (rule cache_snapshot_coherent(1) [OF ok look])
  have audit: "app_ok (snd (app_session cfg (append_audit_event (admission_denied_event request p st reason_text)) b))" for st reason_text
    using audit_transaction [of "admission_denied_event request p st reason_text" "app_db b"]
    by (intro app_session_ok [OF b]) (auto simp: session_scope_def intro!: same_snapshots_rows)
  have "snd (enforce_tenant_admission cfg now request p a) = b \<or>
    (\<exists>st reason_text. snd (enforce_tenant_admission cfg now request p a)
       = snd (app_session cfg (append_audit_event (admission_denied_event request p st reason_text)) b))"
    by (cases r)
      (auto simp: enforce_tenant_admission_def bind_op_def lift_error_def look Let_def split: sum.splits option.splits prod.splits;
       metis snd_conv)+
  with b audit show ?thesis by metis
qed

lemma app_history_ok: "app_history a \<Longrightarrow> app_ok a"
proof (induction rule: app_history.induct)
  case (app_start uuids clock)
  then show ?case by (auto simp: app_ok_def tenant_history_def cache_coherent_def)
next
  case (provision_route a cfg req p)
  then show ?case
    unfolding platform_tenant_provision_def
    by (intro write_route_ok provision service_frames(1) history_inv) (auto simp: app_ok_def)
next
  case (suspend_route a cfg tid sus p)
  then show ?case
    unfolding platform_tenant_suspend_def
    by (intro write_route_ok suspend service_frames(2) history_inv) (auto simp: app_ok_def)
next
  case (reactivate_route a cfg tid rea p)
  then show ?case
    unfolding platform_tenant_reactivate_def
    by (intro write_route_ok reactivate service_frames(3) history_inv) (auto simp: app_ok_def)
next
  case (quotas_route a cfg tid quo p)
  then show ?case
    unfolding platform_tenant_quotas_update_def
    by (intro write_route_ok quotas service_frames(4) history_inv) (auto simp: app_ok_def)
next
  case (vocabulary_route a cfg tid voc p)
  then show ?case by (intro vocabulary_route_ok)
next
  case (admission a cfg now request who)
  then show ?case by (intro enforce_ok)
next
  case (audited a t)
  then show ?case
    by (auto simp: app_ok_def intro: history_transaction coherent_same same_snapshots_rows)
qed

lemma history_status:
  assumes "tenant_history s"
  shows "status_of tid s \<in> {None, Some ''active'', Some ''suspended''}"
proof (cases "get_tenant tid s")
  case (Some t)
  then show ?thesis
    using tenants_invD(4) [OF history_inv [OF assms], of t] get_tenant_SomeD [OF Some]
    by (auto simp: status_of_def tenant_row_ok_def)
qed (simp add: status_of_def)

definition supported_mode :: "string \<Rightarrow> bool" where
  "supported_mode m \<longleftrightarrow> casefold (strip m) \<in> {TENANT_ADMISSION_CLAIMS_ONLY, TENANT_ADMISSION_REGISTERED_ONLY}"

text \<open>Who is admitted: an active tenant, and a tenant without a row where claims are enough.\<close>

definition admits :: "string \<Rightarrow> string option \<Rightarrow> bool" where
  "admits m st \<longleftrightarrow> st = Some ''active'' \<or> st = None \<and> casefold (strip m) = TENANT_ADMISSION_CLAIMS_ONLY"

lemma modes_distinct [simp]: "TENANT_ADMISSION_CLAIMS_ONLY \<noteq> TENANT_ADMISSION_REGISTERED_ONLY"
  "TENANT_ADMISSION_REGISTERED_ONLY \<noteq> TENANT_ADMISSION_CLAIMS_ONLY"
  by (simp_all add: TENANT_ADMISSION_CLAIMS_ONLY_def TENANT_ADMISSION_REGISTERED_ONLY_def)

definition refusal_reason :: "string option \<Rightarrow> string" where
  "refusal_reason st = (case st of None \<Rightarrow> TENANT_NOT_REGISTERED_REASON | Some _ \<Rightarrow> ''tenant_suspended'')"

lemma denial_reason_iff:
  assumes "supported_mode m" "st \<in> {None, Some ''active'', Some ''suspended''}"
  shows "tenant_admission_denial_reason st m = Inr (if admits m st then None else Some (refusal_reason st))"
  using assms by (auto simp: supported_mode_def tenant_admission_denial_reason_def Let_def admits_def refusal_reason_def
      BLOCKED_STATUS_REASONS_def)

definition refused :: "string \<Rightarrow> string \<Rightarrow> route_error" where
  "refused reason_text tenant_status = HTTPException 403
     [(''code'', JStr ''PERMISSION_DENIED''), (''message'', JStr ''The tenant for this request is not active.''),
      (''reason'', JStr reason_text), (''tenant_status'', JStr tenant_status)]"

section \<open>Properties\<close>

text \<open>C16. With requests one after the other, admission follows the tables at once: a principal is let through, without a
  write, exactly when its tenant is active or, where claims are enough, has no row; any other is refused with status
  403 and the reason, and leaves exactly one event in the ledger of its tenant.\<close>

theorem admission_follows_tables:
  assumes hist: "app_history a" and db: "ts_db_available cfg" and mode: "supported_mode (ts_tenant_admission_mode cfg)"
  shows "\<exists>b. let st = status_of (sp_tenant_id p) (app_db a) in
    if admits (ts_tenant_admission_mode cfg) st
    then enforce_tenant_admission cfg now request p a = (Inr (), b) \<and> app_db b = app_db a
    else enforce_tenant_admission cfg now request p a = (Inl (refused (refusal_reason st) (shown_status st)), b)
      \<and> app_db b = with_audit_event (app_db a) (admission_denied_event request p (shown_status st) (refusal_reason st))"
proof -
  have ok: "app_ok a" using hist by (rule app_history_ok)
  let ?st = "status_of (sp_tenant_id p) (app_db a)"
  obtain r b where look: "cache_snapshot cfg now (sp_tenant_id p) a = (r, b)" by (cases "cache_snapshot cfg now (sp_tenant_id p) a")
  then obtain sn where r: "r = Inr sn"
    using db by (auto simp: cache_snapshot_def Let_def split: option.splits)
  have sn: "sn_status sn = ?st"
    using cache_snapshot_coherent(3) [OF ok look r] by (simp add: read_snapshot_def status_of_def)
  have b: "app_db b = app_db a" by (rule cache_snapshot_coherent(2) [OF ok look])
  have "?st \<in> {None, Some ''active'', Some ''suspended''}" using ok by (intro history_status) (simp add: app_ok_def)
  note reason_eq = denial_reason_iff [OF mode this]
  show ?thesis
  proof (cases "admits (ts_tenant_admission_mode cfg) ?st")
    case True
    then show ?thesis
      using b by (intro exI [of _ b])
        (simp add: enforce_tenant_admission_def bind_op_def lift_error_def look r sn reason_eq Let_def)
  next
    case False
    let ?e = "admission_denied_event request p (shown_status ?st) (refusal_reason ?st)"
    have "app_session cfg (append_audit_event ?e) b = (Inr (new_audit_event (app_db a) ?e), b\<lparr>app_db := with_audit_event (app_db a) ?e\<rparr>)"
      using db b by (simp add: app_session_def session_scope_def)
    then show ?thesis
      using False by (intro exI [of _ "b\<lparr>app_db := with_audit_event (app_db a) ?e\<rparr>"])
        (simp add: enforce_tenant_admission_def bind_op_def lift_error_def look r sn reason_eq Let_def refused_def)
  qed
qed

definition example_settings :: tenant_settings where
  "example_settings = \<lparr>ts_tenant_admission_mode = ''registered_only'', ts_tenant_state_cache_ttl_seconds = 30,
     ts_max_entries = 1024, ts_db_available = True\<rparr>"

definition example_guest :: oidc_principal where
  "example_guest = \<lparr>sp_tenant_id = ''acme'', sp_actor_id = ''ann'', sp_scopes = [], op_expires_at = None,
     op_subject_id = None, op_session_source = ''bearer_token''\<rparr>"

definition example_suspended_app :: app where
  "example_suspended_app = snd (platform_tenant_suspend example_settings ''acme'' example_suspension None
     (snd (platform_tenant_provision example_settings example_provision None
       \<lparr>app_db = example_tenant_start, app_cache = []\<rparr>)))"

lemma example_provision_route:
  "snd (platform_tenant_provision example_settings example_provision None \<lparr>app_db = example_tenant_start, app_cache = []\<rparr>)
     = \<lparr>app_db = example_provisioned_db, app_cache = []\<rparr>"
proof -
  have valid: "provision_request_valid example_provision"
    by (simp add: provision_request_valid_def example_provision_def length_between_def tenant_id_pattern_def slug_char_def
        AUDIT_ACTOR_ID_MAX_LENGTH_def)
  obtain v where "provision_tenant example_provision example_tenant_start = (Inr v, example_provisioned_db)"
    using example_provisioned_db by blast
  then show ?thesis
    by (simp add: platform_tenant_provision_def tenant_write_route_def valid bind_platform_tenant_actor_def after_commit_def
        app_session_def session_scope_def example_settings_def lift_error_def bind_op_def invalidate_def)
qed

lemma example_suspended_app:
  "app_history example_suspended_app" "status_of ''acme'' (app_db example_suspended_app) = Some ''suspended''"
proof -
  show "app_history example_suspended_app"
    unfolding example_suspended_app_def example_tenant_start_def
    by (intro suspend_route provision_route app_start) simp
  have hist: "tenant_history example_provisioned_db"
    using history_run example_tenant_runs by blast
  obtain row where row: "get_tenant ''acme'' example_provisioned_db = Some row" "tn_status row = ''active''"
    using example_provisioned_row by (auto simp: status_of_def)
  then have ok: "tenant_row_ok row" using tenants_invD(4) [OF history_inv [OF hist]] get_tenant_SomeD by blast
  obtain v t where sus: "suspend_tenant ''acme'' example_suspension example_provisioned_db = (Inr v, t)"
    using suspend_active [OF row ok, of example_suspension] by (auto simp: example_suspension_def)
  have valid: "suspend_request_valid example_suspension"
    by (simp add: suspend_request_valid_def example_suspension_def length_between_def AUDIT_ACTOR_ID_MAX_LENGTH_def)
  have "app_db example_suspended_app = t"
    unfolding example_suspended_app_def example_provision_route using sus
    by (simp add: platform_tenant_suspend_def tenant_write_route_def valid bind_platform_tenant_actor_def after_commit_def
        app_session_def session_scope_def example_settings_def lift_error_def bind_op_def)
  moreover from sus have "status_of ''acme'' t = Some ''suspended''"
  proof (cases rule: suspend_tenant_Inr)
    case (1 d row' now e)
    then show ?thesis using status_of_update [OF 1(7), of "''acme''"] row by (simp add: suspension_def)
  qed
  ultimately show "status_of ''acme'' (app_db example_suspended_app) = Some ''suspended''" by simp
qed

theorem admission_follows_tables_witness:
  "\<exists>b. enforce_tenant_admission example_settings 1 \<lparr>hr_method = ''GET'', hr_path = ''/x''\<rparr> example_guest example_suspended_app
      = (Inl (refused ''tenant_suspended'' ''suspended''), b)"
proof -
  have "ts_db_available example_settings" "supported_mode (ts_tenant_admission_mode example_settings)"
    by (simp_all add: example_settings_def supported_mode_def TENANT_ADMISSION_REGISTERED_ONLY_def strip_def is_space_def
        casefold_def lower_char_def)
  from admission_follows_tables [OF example_suspended_app(1) this, of example_guest 1 "\<lparr>hr_method = ''GET'', hr_path = ''/x''\<rparr>"]
  show ?thesis
    by (auto simp: example_guest_def example_suspended_app(2) admits_def refusal_reason_def shown_status_def)
qed


text \<open>A tenant is suspended at time 40 and looked up at time 75.\<close>

definition example_lookup :: cache_world where
  "example_lookup = (logged ((cache_start 40 example_suspended_db)\<lparr>cw_now := 75\<rparr>))
     \<lparr>cw_lookups := [\<lparr>lk_tenant_id = ''acme'', lk_observed_at = 75,
        lk_snapshot = Some (read_snapshot ''acme'' example_suspended_db)\<rparr>]\<rparr>"


text \<open>The comment on the cache says that a single process sees a change of a tenant at once. It does when requests do not
  overlap. A lookup that read the row before the commit and stores its snapshot after the invalidation puts the old
  status back: here a tenant is suspended and its entry dropped, and then a lookup still returns the active status.\<close>

theorem invalidation_overtaken:
  "\<exists>w w' w'' sn. cache_run 30 1024 w \<and> cw_cache w = invalidate ''acme'' (cw_cache w)
     \<and> status_of ''acme'' (cw_db w) = Some ''suspended''
     \<and> cache_step 30 1024 w (Some (''acme'', 40, sn)) w' \<and> cw_db w' = cw_db w
     \<and> cache_step 30 1024 w' (Some (''acme'', 40, sn)) w''
     \<and> sn_status sn = Some ''active''"
proof -
  let ?sn = "read_snapshot ''acme'' example_provisioned_db"
  let ?l = "\<lparr>lk_tenant_id = ''acme'', lk_observed_at = 40, lk_snapshot = None\<rparr>"
  define w0 where "w0 = cache_start 40 example_provisioned_db"
  define w1 where "w1 = w0\<lparr>cw_lookups := [?l]\<rparr>"
  define w2 where "w2 = w1\<lparr>cw_lookups := [?l\<lparr>lk_snapshot := Some ?sn\<rparr>]\<rparr>"
  define w3 where "w3 = logged (w2\<lparr>cw_db := example_suspended_db\<rparr>)"
  define w4 where "w4 = w3\<lparr>cw_cache := store_snapshot 30 1024 40 ''acme'' ?sn (cw_cache w3), cw_lookups := []\<rparr>"
  have "cache_run 30 1024 w0" unfolding w0_def by (rule start)
  moreover have "cache_step 30 1024 w0 None w1"
    using miss [of w0 "''acme''" 30 1024] by (simp add: w0_def w1_def cache_start_def cached_snapshot_def)
  moreover have "cache_step 30 1024 w1 None w2"
  proof -
    have eq: "w2 = w1\<lparr>cw_lookups := (cw_lookups w1)[0 := ?l\<lparr>lk_snapshot := Some (read_snapshot (lk_tenant_id ?l) (cw_db w1))\<rparr>]\<rparr>"
      by (simp add: w0_def w1_def w2_def cache_start_def)
    show ?thesis unfolding eq by (rule read) (simp_all add: w1_def)
  qed
  moreover have "cache_step 30 1024 w2 None w3" unfolding w3_def by (rule commit)
  ultimately have "cache_run 30 1024 w3" by (blast intro: step)
  moreover have "cache_step 30 1024 w3 (Some (''acme'', 40, ?sn)) w4"
    using store [of 0 w3 "?l\<lparr>lk_snapshot := Some ?sn\<rparr>" ?sn 30 1024]
    by (simp add: w0_def w1_def w2_def w3_def w4_def cache_start_def logged_def)
  moreover have "cache_step 30 1024 w4 (Some (''acme'', 40, ?sn)) w4"
    using hit [of w4 "''acme''" ?sn 30 1024]
    by (simp add: w0_def w1_def w2_def w3_def w4_def cache_start_def logged_def cached_snapshot_def store_snapshot_def
        evict.simps update_conv')
  moreover have "cw_cache w3 = invalidate ''acme'' (cw_cache w3)" "cw_db w3 = example_suspended_db" "cw_db w4 = cw_db w3"
    by (simp_all add: w0_def w1_def w2_def w3_def w4_def cache_start_def logged_def invalidate_def)
  moreover have "sn_status ?sn = Some ''active''"
    using example_provisioned_row by (simp add: read_snapshot_def status_of_def)
  ultimately show ?thesis using example_suspended(1) by metis
qed

end
