(* ===== verification/Usage_Ledger.thy ===== *)
theory Usage_Ledger
  imports Usage_Metering Tenant_Lifecycle
begin

text \<open>
  The usage ledger as the abstraction of its journal: \<open>journal_bucket\<close> says what a list of events holds for a key, and
  \<open>usage_inv\<close> that the rollup table is this function of the projected events. Every append and every projection keeps
  it, in any interleaving and with any outcome of the commits (\<open>usage_history\<close>); the report adds up the rollup and so
  the journal; a projector that can commit drains the journal in a bounded number of batches.
\<close>

section \<open>What the journal says of a bucket\<close>

text \<open>A bucket holds a quantity and the times of its first and last event; an empty bucket is \<open>None\<close>.\<close>

type_synonym bucket = "(int \<times> timestamp \<times> timestamp) option"

fun merge :: "bucket \<Rightarrow> bucket \<Rightarrow> bucket" where
  "merge None y = y"
| "merge x None = x"
| "merge (Some (q, f, l)) (Some (q', f', l')) = Some (q + q', min f f', max l l')"

lemma merge_None [simp]: "merge x None = x"
  by (cases x) auto

lemma merge_commute: "merge x y = merge y x"
  by (cases x; cases y) (auto simp: min.commute max.commute)

lemma merge_assoc: "merge (merge x y) z = merge x (merge y z)"
  by (cases x; cases y; cases z) (auto simp: min.assoc max.assoc)

lemma merge_left_commute: "merge x (merge y z) = merge y (merge x z)"
  by (metis merge_assoc merge_commute)

lemmas merge_ac = merge_assoc merge_commute merge_left_commute

definition journal_bucket :: "usage_event list \<Rightarrow> usage_key \<Rightarrow> bucket" where
  "journal_bucket es k =
     (let bs = filter (\<lambda>e. event_key e = k) es
      in if bs = [] then None
         else Some (sum_list (map ue_quantity bs), Min (ue_occurred_at ` set bs), Max (ue_occurred_at ` set bs)))"

definition event_bucket :: "usage_event \<Rightarrow> usage_key \<Rightarrow> bucket" where
  "event_bucket e k = (if event_key e = k then Some (ue_quantity e, ue_occurred_at e, ue_occurred_at e) else None)"

lemma journal_bucket_Nil [simp]: "journal_bucket [] k = None"
  by (simp add: journal_bucket_def)

lemma journal_bucket_Cons [simp]: "journal_bucket (e # es) k = merge (event_bucket e k) (journal_bucket es k)"
proof (cases "filter (\<lambda>e. event_key e = k) es = []")
  case True
  then show ?thesis by (simp add: journal_bucket_def event_bucket_def)
next
  case False
  then have "ue_occurred_at ` {x \<in> set es. event_key x = k} \<noteq> {}" by (auto simp: filter_empty_conv)
  with False show ?thesis by (simp add: journal_bucket_def event_bucket_def Let_def)
qed

lemma journal_bucket_append [simp]: "journal_bucket (es @ fs) k = merge (journal_bucket es k) (journal_bucket fs k)"
  by (induction es) (simp_all add: merge_assoc)

lemma journal_bucket_None: "journal_bucket es k = None \<longleftrightarrow> (\<forall>e \<in> set es. event_key e \<noteq> k)"
  by (auto simp: journal_bucket_def Let_def filter_empty_conv)

text \<open>Marking some rows moves their buckets from one selection to another.\<close>

lemma journal_bucket_marked:
  assumes "\<And>r. q r \<Longrightarrow> \<not> p r \<and> p (f r) \<and> event_bucket (f r) = event_bucket r"
  shows "journal_bucket (select_where p (update_where q f rows)) k =
    merge (journal_bucket (select_where p rows) k) (journal_bucket (select_where q rows) k)"
  using assms by (induction rows) (auto simp: merge_ac)

section \<open>The buckets of a batch\<close>

lemma map_of_fold_bucket: "map_of (fold_bucket e buckets) k = merge (map_of buckets k) (event_bucket e k)"
  by (auto simp: fold_bucket_def event_bucket_def update_conv' split: option.split)

lemma map_of_fold_buckets: "map_of (fold fold_bucket es buckets) k = merge (map_of buckets k) (journal_bucket es k)"
  by (induction es arbitrary: buckets) (simp_all add: map_of_fold_bucket merge_assoc)

lemma distinct_fold_bucket: "distinct (map fst buckets) \<Longrightarrow> distinct (map fst (fold_bucket e buckets))"
  by (auto simp: fold_bucket_def split: option.split intro: distinct_update)

lemma distinct_fold_buckets: "distinct (map fst buckets) \<Longrightarrow> distinct (map fst (fold fold_bucket es buckets))"
  by (induction es arbitrary: buckets) (simp_all add: distinct_fold_bucket)

lemma map_of_sort_fst:
  fixes xs :: "('k::linorder \<times> 'v) list"
  assumes "distinct (map fst xs)"
  shows "map_of (sort_key fst xs) = map_of xs" "distinct (map fst (sort_key fst xs))"
proof -
  show d: "distinct (map fst (sort_key fst xs))"
    using assms by (metis distinct_map distinct_sort set_sort)
  show "map_of (sort_key fst xs) = map_of xs"
    using map_of_inject_set [OF d assms] by simp
qed

definition batch_buckets :: "usage_event list \<Rightarrow> usage_bucket list" where
  "batch_buckets es = sort_key fst (fold fold_bucket es [])"

lemma batch_buckets: "map_of (batch_buckets es) k = journal_bucket es k" "distinct (map fst (batch_buckets es))"
  using map_of_sort_fst [OF distinct_fold_buckets [of "[]" es]] by (simp_all add: batch_buckets_def map_of_fold_buckets)

section \<open>What the rollup says of a bucket\<close>

definition rolled_up :: "db \<Rightarrow> usage_key \<Rightarrow> bucket" where
  "rolled_up s k = map_option (\<lambda>r. (ur_quantity r, ur_first_recorded_at r, ur_last_recorded_at r))
     (first_row (select_where (\<lambda>r. usage_key r = k) (usage_records s)))"

definition projected_usage :: "db \<Rightarrow> usage_event list" where
  "projected_usage s = select_where (\<lambda>e. ue_projected_at e \<noteq> None) (usage_events s)"

definition usage_event_ok :: "usage_event \<Rightarrow> bool" where
  "usage_event_ok e \<longleftrightarrow> 0 < ue_quantity e \<and> usage_window_ok (ue_period_window_seconds e) \<and> ue_tenant_id e \<noteq> []
     \<and> ue_metric_key e \<noteq> []"

definition usage_inv :: "db \<Rightarrow> bool" where
  "usage_inv s \<longleftrightarrow> inj (uuid_at s) \<and> ids_drawn s (map ur_id (usage_records s)) \<and> distinct (map usage_key (usage_records s))
     \<and> distinct (map ue_id (usage_events s)) \<and> distinct (map event_source (usage_events s))
     \<and> (\<forall>e \<in> set (usage_events s). usage_event_ok e) \<and> rolled_up s = journal_bucket (projected_usage s)"

lemma usage_invD:
  assumes "usage_inv s"
  shows "inj (uuid_at s)" "ids_drawn s (map ur_id (usage_records s))" "distinct (map usage_key (usage_records s))"
    "distinct (map ue_id (usage_events s))" "distinct (map event_source (usage_events s))"
    "e \<in> set (usage_events s) \<Longrightarrow> usage_event_ok e" "rolled_up s = journal_bucket (projected_usage s)"
  using assms by (simp_all add: usage_inv_def)

lemma rolled_up_cong: "usage_records t = usage_records s \<Longrightarrow> rolled_up t = rolled_up s"
  by (rule ext) (simp add: rolled_up_def)

lemma usage_inv_cong:
  assumes "usage_inv s" "usage_records t = usage_records s" "usage_events t = usage_events s" "drawn s t"
  shows "usage_inv t"
proof -
  have "ids_drawn t (map ur_id (usage_records s))"
    using usage_invD(2) [OF assms(1)] assms(4) by (auto simp: drawn_def intro: ids_drawn_mono)
  with assms show ?thesis
    by (simp add: usage_inv_def rolled_up_cong [OF assms(2)] projected_usage_def drawn_def)
qed

text \<open>A successful upsert merges the delta into the bucket of its key.\<close>

definition add_bucket :: "tenant_usage_add \<Rightarrow> usage_key \<Rightarrow> bucket" where
  "add_bucket a k = (if add_key a = k then Some (ud_quantity a, ud_first_occurred_at a, ud_last_occurred_at a) else None)"

lemma fold_usage_record_sel [simp]:
  "usage_key (fold_usage_record a now r) = usage_key r" "ur_id (fold_usage_record a now r) = ur_id r"
  "ur_quantity (fold_usage_record a now r) = ur_quantity r + ud_quantity a"
  "ur_first_recorded_at (fold_usage_record a now r) = min (ur_first_recorded_at r) (ud_first_occurred_at a)"
  "ur_last_recorded_at (fold_usage_record a now r) = max (ur_last_recorded_at r) (ud_last_occurred_at a)"
  by (auto simp: fold_usage_record_def usage_key_def)

lemma new_usage_record_sel [simp]:
  "usage_key (new_usage_record a new_id now) = add_key a" "ur_id (new_usage_record a new_id now) = new_id"
  "ur_quantity (new_usage_record a new_id now) = ud_quantity a"
  "ur_first_recorded_at (new_usage_record a new_id now) = ud_first_occurred_at a"
  "ur_last_recorded_at (new_usage_record a new_id now) = ud_last_occurred_at a"
  by (simp_all add: new_usage_record_def usage_key_def add_key_def)

text \<open>Which rows the rollup holds after a successful upsert.\<close>

definition upserted :: "tenant_usage_add \<Rightarrow> uuid \<Rightarrow> timestamp \<Rightarrow> usage_record list \<Rightarrow> usage_record list" where
  "upserted a new_id now rows =
     (if add_key a \<in> usage_key ` set rows
      then update_where (\<lambda>r. usage_key r = add_key a) (fold_usage_record a now) rows
      else rows @ [new_usage_record a new_id now])"

definition upsert_fits :: "tenant_usage_add \<Rightarrow> db \<Rightarrow> bool" where
  "upsert_fits a s \<longleftrightarrow> (\<forall>q f l. merge (rolled_up s (add_key a)) (add_bucket a (add_key a)) = Some (q, f, l) \<longrightarrow> bigint_ok q)"

lemma known_key:
  "first_row (select_where (\<lambda>r. usage_key r = k) rows) = None \<longleftrightarrow> k \<notin> usage_key ` set rows"
  by (auto simp: image_iff)

lemma upsert_usage_Inr:
  assumes "upsert_usage a new_id now s = (Inr u, t)"
  shows "t = s\<lparr>usage_records := upserted a new_id now (usage_records s)\<rparr>"
    "add_key a \<notin> usage_key ` set (usage_records s) \<Longrightarrow> new_id \<notin> ur_id ` set (usage_records s)"
proof -
  show "t = s\<lparr>usage_records := upserted a new_id now (usage_records s)\<rparr>"
  proof (cases "first_row (select_where (\<lambda>r. usage_key r = add_key a) (usage_records s))")
    case None
    with assms show ?thesis
      using known_key [of "add_key a"] by (simp add: upsert_usage_def upserted_def split: if_splits)
  next
    case (Some r)
    then have "add_key a \<in> usage_key ` set (usage_records s)"
      using first_row_filter_SomeD [OF Some] by (metis imageI)
    with assms Some show ?thesis by (simp add: upsert_usage_def upserted_def split: if_splits)
  qed
  assume "add_key a \<notin> usage_key ` set (usage_records s)"
  then have "first_row (select_where (\<lambda>r. usage_key r = add_key a) (usage_records s)) = None" by (metis known_key)
  with assms show "new_id \<notin> ur_id ` set (usage_records s)"
    by (simp add: upsert_usage_def split: if_splits)
qed

lemma first_row_upserted:
  "first_row (select_where (\<lambda>r. usage_key r = k) (upserted a new_id now rows)) =
     (if add_key a \<noteq> k then first_row (select_where (\<lambda>r. usage_key r = k) rows)
      else Some (case first_row (select_where (\<lambda>r. usage_key r = k) rows) of
          None \<Rightarrow> new_usage_record a new_id now | Some r \<Rightarrow> fold_usage_record a now r))"
proof (cases "add_key a \<in> usage_key ` set rows")
  case True
  let ?same = "select_where (\<lambda>r. usage_key r = k) rows"
  have eq: "select_where (\<lambda>r. usage_key r = k) (upserted a new_id now rows) =
      update_where (\<lambda>r. usage_key r = add_key a) (fold_usage_record a now) ?same"
    using True by (simp add: upserted_def select_where_update)
  show ?thesis
  proof (cases "add_key a = k")
    case same: True
    then have "first_row ?same \<noteq> None" using True by (simp only: known_key not_not)
    then obtain r rs where rs: "?same = r # rs" by (cases ?same) simp_all
    then have "r \<in> set ?same" by simp
    then have "usage_key r = add_key a" using same by simp
    with rs same show ?thesis by (simp add: eq)
  next
    case False
    then show ?thesis by (simp add: eq update_where_none)
  qed
next
  case False
  then have none: "add_key a = k \<Longrightarrow> select_where (\<lambda>r. usage_key r = k) rows = []"
    by (metis first_row_None known_key)
  show ?thesis
    using False none by (cases "add_key a = k") (simp_all add: upserted_def del: select_where_Nil)
qed

lemma rolled_up_upserted:
  "rolled_up (s\<lparr>usage_records := upserted a new_id now (usage_records s)\<rparr>) k = merge (rolled_up s k) (add_bucket a k)"
  by (cases "first_row (select_where (\<lambda>r. usage_key r = k) (usage_records s))")
    (simp_all add: rolled_up_def first_row_upserted add_bucket_def del: first_row_None select_where_Nil)

section \<open>Every operation keeps the ledger exact\<close>

definition rollup_inv :: "db \<Rightarrow> bool" where
  "rollup_inv s \<longleftrightarrow> inj (uuid_at s) \<and> ids_drawn s (map ur_id (usage_records s)) \<and> distinct (map usage_key (usage_records s))"

lemma upserted_keys:
  "map usage_key (upserted a new_id now rows) =
     (if add_key a \<in> usage_key ` set rows then map usage_key rows else map usage_key rows @ [add_key a])"
  "map ur_id (upserted a new_id now rows) =
     (if add_key a \<in> usage_key ` set rows then map ur_id rows else map ur_id rows @ [new_id])"
  by (simp_all add: upserted_def map_update_where_same)

lemma add_tenant_usage_Inr:
  assumes run: "add_tenant_usage a s = (Inr u, t)" and inv: "rollup_inv s"
  shows "rollup_inv t \<and> rolled_up t k = merge (rolled_up s k) (add_bucket a k) \<and> usage_events t = usage_events s \<and> drawn s t"
proof -
  let ?s = "s\<lparr>clock_n := Suc (clock_n s), uuid_n := Suc (uuid_n s)\<rparr>"
  let ?rows = "upserted a (uuid_at s (uuid_n s)) (clock_at s (clock_n s)) (usage_records s)"
  have "upsert_usage a (uuid_at s (uuid_n s)) (clock_at s (clock_n s)) ?s = (Inr u, t)"
    using run by (simp add: add_tenant_usage_def)
  then have t: "t = ?s\<lparr>usage_records := ?rows\<rparr>"
    by (auto dest: upsert_usage_Inr(1))
  have "ids_drawn t (map ur_id (usage_records s))"
    using inv by (auto simp: t rollup_inv_def intro: ids_drawn_mono [of s])
  moreover have "ids_drawn t (map ur_id (usage_records s) @ [uuid_at s (uuid_n s)])"
    using inv by (intro ids_drawn_snoc) (auto simp: t rollup_inv_def)
  ultimately have "rollup_inv t"
    using inv by (auto simp: rollup_inv_def t upserted_keys)
  moreover have "rolled_up t k = merge (rolled_up s k) (add_bucket a k)"
    using rolled_up_upserted [where s = ?s] by (simp add: t) (simp add: rolled_up_def)
  ultimately show ?thesis by (simp add: t drawn_def)
qed

lemma usage_add_of_bucket_key [simp]:
  "add_key (usage_add_of_bucket b) = fst b"
  "add_bucket (usage_add_of_bucket b) k = (if fst b = k then Some (snd b) else None)"
  by (cases b rule: usage_add_of_bucket.cases; simp add: add_key_def add_bucket_def)+

lemma checked_Inr [simp]: "checked p x = Inr y \<longleftrightarrow> p x \<and> y = x"
  by (auto simp: checked_def)

lemma add_buckets_Inr:
  assumes "add_buckets bs s = (Inr u, t)" "rollup_inv s" "distinct (map fst bs)"
  shows "rollup_inv t \<and> rolled_up t k = merge (rolled_up s k) (map_of bs k) \<and> usage_events t = usage_events s \<and> drawn s t"
  using assms
proof (induction bs arbitrary: s)
  case (Cons b bs)
  from Cons.prems(1) obtain s' where first: "add_tenant_usage (usage_add_of_bucket b) s = (Inr (), s')"
    and rest: "add_buckets bs s' = (Inr u, t)"
    by (auto simp: bind_op_Inr_iff)
  note one = add_tenant_usage_Inr [OF first Cons.prems(2), of k]
  have "k = fst b \<Longrightarrow> map_of bs k = None" using Cons.prems(3) by (simp add: map_of_eq_None_iff)
  moreover have "rollup_inv t \<and> rolled_up t k = merge (rolled_up s' k) (map_of bs k) \<and> usage_events t = usage_events s' \<and> drawn s' t"
    using Cons.prems(3) one by (intro Cons.IH [OF rest]) simp_all
  ultimately show ?case
    using one by (cases b) (auto simp: merge_assoc intro: drawn_trans)
qed simp

definition append_usage_event :: "usage_event \<Rightarrow> db \<Rightarrow> db" where
  "append_usage_event e s = s\<lparr>usage_events := usage_events s @ [e]\<rparr>"

lemma new_usage_event_sel [simp]:
  "ue_id (new_usage_event e now p) = ua_event_id e" "event_source (new_usage_event e now p) = append_source e"
  "ue_projected_at (new_usage_event e now p) = (if p then Some now else None)"
  "ue_quantity (new_usage_event e now p) = ua_quantity e" "ue_recorded_at (new_usage_event e now p) = now"
  "event_bucket (new_usage_event e now p) = add_bucket (usage_add_of_append e)"
  "ue_period_window_seconds (new_usage_event e now p) = ua_period_window_seconds e"
  by (auto simp: new_usage_event_def event_source_def append_source_def event_bucket_def add_bucket_def event_key_def
      add_key_def usage_add_of_append_def)

lemma insert_usage_event_Inr:
  assumes "insert_usage_event e s = (Inr r, t)"
  shows "(if event_source e \<in> event_source ` set (usage_events s) then r = None \<and> t = s
    else r = Some (ue_id e) \<and> ue_id e \<notin> ue_id ` set (usage_events s) \<and> t = append_usage_event e s)
    \<and> bigint_ok (ue_quantity e)"
  using assms by (auto simp: insert_usage_event_def append_usage_event_def split: if_splits)

text \<open>What an append that returns has done: an unknown source is new in the journal, and a known one is left alone.\<close>

lemma append_Inr:
  assumes "append_tenant_usage_event e imm s = (Inr b, t)"
  shows "if b then append_source e \<notin> event_source ` set (usage_events s)
      \<and> ua_event_id e \<notin> ue_id ` set (usage_events s) \<and>
      (let s1 = append_usage_event (new_usage_event e (clock_at s (clock_n s)) imm) (s\<lparr>clock_n := Suc (clock_n s)\<rparr>)
       in if imm then add_tenant_usage (usage_add_of_append e) s1 = (Inr (), t) else t = s1)
    else t = s\<lparr>clock_n := Suc (clock_n s)\<rparr> \<and>
      (\<exists>row \<in> set (usage_events s). event_source row = append_source e \<and> same_usage_payload row e)"
proof -
  let ?s = "s\<lparr>clock_n := Suc (clock_n s)\<rparr>" and ?e = "new_usage_event e (clock_at s (clock_n s)) imm"
  obtain r s1 where ins: "insert_usage_event ?e ?s = (Inr r, s1)"
    using assms by (auto simp: append_tenant_usage_event_def bind_op_Inr_iff)
  note known = insert_usage_event_Inr [OF ins]
  show ?thesis
  proof (cases r)
    case None
    with known have s1: "s1 = ?s" by (simp split: if_splits)
    from assms ins None obtain row where
        row: "get_tenant_usage_event_by_source (ua_tenant_id e) (ua_metric_key e) (ua_source_type e) (ua_source_id e) s1 = Some row"
      and t: "same_usage_payload row e" "\<not> b" "t = s1"
      by (auto simp: append_tenant_usage_event_def split: option.splits if_splits)
    then have "row \<in> set (usage_events s)" "event_source row = append_source e"
      by (auto simp: get_tenant_usage_event_by_source_def event_source_def append_source_def s1 dest!: first_row_filter_SomeD)
    with t s1 show ?thesis by auto
  next
    case (Some i)
    with known have fresh: "append_source e \<notin> event_source ` set (usage_events s)"
        "ua_event_id e \<notin> ue_id ` set (usage_events s)" and s1: "s1 = append_usage_event ?e ?s"
      by (simp_all split: if_splits)
    have "b \<and> (if imm then add_tenant_usage (usage_add_of_append e) s1 = (Inr (), t) else t = s1)"
      using assms ins Some by (auto simp: append_tenant_usage_event_def bind_op_Inr_iff split: if_splits)
    with fresh s1 show ?thesis by (cases imm) (simp_all add: Let_def)
  qed
qed

lemma rollup_inv_usage: "usage_inv s \<Longrightarrow> rollup_inv s"
  by (simp add: usage_inv_def rollup_inv_def)

lemma rollup_inv_cong:
  "rollup_inv s \<Longrightarrow> usage_records t = usage_records s \<Longrightarrow> drawn s t \<Longrightarrow> rollup_inv t"
  by (auto simp: rollup_inv_def drawn_def intro: ids_drawn_mono)

lemma append_usage_event_sel [simp]:
  "usage_events (append_usage_event e s) = usage_events s @ [e]" "usage_records (append_usage_event e s) = usage_records s"
  "drawn s (append_usage_event e s)" "projected_usage (append_usage_event e s) =
     projected_usage s @ (if ue_projected_at e = None then [] else [e])"
  by (simp_all add: append_usage_event_def drawn_def projected_usage_def)

lemma drawn_clock [simp]: "drawn s (s\<lparr>clock_n := Suc (clock_n s)\<rparr>)"
  by (simp add: drawn_def)

lemma usage_clock [simp]:
  "projected_usage (s\<lparr>clock_n := n\<rparr>) = projected_usage s" "rolled_up (s\<lparr>clock_n := n\<rparr>) = rolled_up s"
  by (simp_all add: projected_usage_def rolled_up_cong [of "s\<lparr>clock_n := n\<rparr>" s])

text \<open>The journal and the rollup move together.\<close>

lemma usage_invI:
  assumes "rollup_inv t" "distinct (map ue_id (usage_events t))" "distinct (map event_source (usage_events t))"
    "\<And>e. e \<in> set (usage_events t) \<Longrightarrow> usage_event_ok e"
    "\<And>k. rolled_up t k = journal_bucket (projected_usage t) k"
  shows "usage_inv t"
  using assms by (auto simp: usage_inv_def rollup_inv_def)

lemma new_usage_event_ok: "usage_append_valid e \<Longrightarrow> usage_event_ok (new_usage_event e now imm)"
  by (auto simp: usage_append_valid_def usage_event_ok_def length_between_def new_usage_event_def)

lemma append_keeps_inv:
  assumes run: "append_tenant_usage_event e imm s = (Inr b, t)" and inv: "usage_inv s" and valid: "usage_append_valid e"
  shows "usage_inv t \<and> drawn s t"
proof (cases b)
  case False
  with append_Inr [OF run] have "t = s\<lparr>clock_n := Suc (clock_n s)\<rparr>" by simp
  then show ?thesis using usage_inv_cong [OF inv, of t] by simp
next
  case True
  let ?e = "new_usage_event e (clock_at s (clock_n s)) imm"
  let ?s = "append_usage_event ?e (s\<lparr>clock_n := Suc (clock_n s)\<rparr>)"
  from append_Inr [OF run] True have fresh: "append_source e \<notin> event_source ` set (usage_events s)"
      "ua_event_id e \<notin> ue_id ` set (usage_events s)"
    and t: "if imm then add_tenant_usage (usage_add_of_append e) ?s = (Inr (), t) else t = ?s"
    by (cases imm; simp add: Let_def)+
  have s1: "rollup_inv ?s" "drawn s ?s"
    using rollup_inv_cong [OF rollup_inv_usage [OF inv], of ?s] drawn_trans [OF drawn_clock append_usage_event_sel(3)] by auto
  have rolled: "rolled_up ?s k = journal_bucket (projected_usage s) k" for k
    using usage_invD(7) [OF inv] by (simp add: rolled_up_cong [of ?s s])
  have exact: "rollup_inv t \<and> rolled_up t k = journal_bucket (projected_usage ?s) k
      \<and> usage_events t = usage_events ?s \<and> drawn s t" for k
  proof (cases imm)
    case True
    with t have "add_tenant_usage (usage_add_of_append e) ?s = (Inr (), t)" by simp
    from add_tenant_usage_Inr [OF this s1(1), of k, unfolded rolled] show ?thesis
      using True drawn_trans [OF s1(2)] by simp
  next
    case False
    with t s1 show ?thesis using rolled [of k] by simp
  qed
  then have "usage_events t = usage_events ?s" by blast
  then have "projected_usage t = projected_usage ?s" by (simp add: projected_usage_def)
  with exact fresh inv new_usage_event_ok [OF valid] show ?thesis
    by (auto intro!: usage_invI dest: usage_invD)
qed

text \<open>The journal after a batch was claimed.\<close>

definition mark_projected :: "uuid list \<Rightarrow> timestamp \<Rightarrow> usage_event list \<Rightarrow> usage_event list" where
  "mark_projected ids now = update_where (claims_event ids) (\<lambda>e. e\<lparr>ue_projected_at := Some now\<rparr>)"

lemma project_Inr:
  assumes "project_pending_tenant_usage_events dialect locked batch_size s = (Inr r, t)"
  obtains s1 rows where
    "s1 = s\<lparr>clock_n := Suc (clock_n s),
        usage_events := mark_projected (candidate_ids dialect locked batch_size s) (clock_at s (clock_n s)) (usage_events s)\<rparr>"
    "rows = select_where (claims_event (candidate_ids dialect locked batch_size s)) (usage_events s)"
    "add_buckets (batch_buckets rows) s1 = (Inr (), t)"
    "r = \<lparr>pr_events_projected = length rows, pr_quantity_projected = sum_list (map ue_quantity rows)\<rparr>"
  using assms
  by (auto simp: project_pending_tenant_usage_events_def bind_op_Inr_iff Let_def mark_projected_def batch_buckets_def
      candidate_ids_def pending_usage_def)

lemma mark_projected_map:
  assumes "\<And>e v. f (e\<lparr>ue_projected_at := v\<rparr>) = f e"
  shows "map f (mark_projected ids now es) = map f es"
  unfolding mark_projected_def using assms by (intro map_update_where_same) simp

lemma mark_projected_bucket:
  "journal_bucket (select_where (\<lambda>e. ue_projected_at e \<noteq> None) (mark_projected ids now es)) k =
     merge (journal_bucket (select_where (\<lambda>e. ue_projected_at e \<noteq> None) es) k)
       (journal_bucket (select_where (claims_event ids) es) k)"
  unfolding mark_projected_def
  by (rule journal_bucket_marked) (auto simp: claims_event_def event_bucket_def event_key_def)

lemma project_keeps_inv:
  assumes run: "project_pending_tenant_usage_events dialect locked batch_size s = (Inr r, t)" and inv: "usage_inv s"
  shows "usage_inv t \<and> drawn s t"
  using run
proof (rule project_Inr)
  fix s1 rows
  assume s1: "s1 = s\<lparr>clock_n := Suc (clock_n s),
        usage_events := mark_projected (candidate_ids dialect locked batch_size s) (clock_at s (clock_n s)) (usage_events s)\<rparr>"
    and rows: "rows = select_where (claims_event (candidate_ids dialect locked batch_size s)) (usage_events s)"
    and adds: "add_buckets (batch_buckets rows) s1 = (Inr (), t)"
  have d: "drawn s s1" by (simp add: s1 drawn_def)
  have r1: "rollup_inv s1" using rollup_inv_cong [OF rollup_inv_usage [OF inv] _ d] by (simp add: s1)
  note added = add_buckets_Inr [OF adds r1 batch_buckets(2)]
  have events: "usage_events t = usage_events s1" using added by blast
  have "rolled_up t k = journal_bucket (projected_usage t) k" for k
  proof -
    have "rolled_up s1 k = journal_bucket (projected_usage s) k"
      using usage_invD(7) [OF inv] rolled_up_cong [of s1 s] by (simp add: s1)
    then show ?thesis
      using added [of k] by (simp add: batch_buckets projected_usage_def events) (simp add: s1 rows mark_projected_bucket [simplified])
  qed
  moreover have "map ue_id (usage_events t) = map ue_id (usage_events s)"
      "map event_source (usage_events t) = map event_source (usage_events s)"
      "map usage_event_ok (usage_events t) = map usage_event_ok (usage_events s)"
    by (simp_all add: events s1 mark_projected_map event_source_def usage_event_ok_def)
  moreover have "usage_event_ok e" if "e \<in> set (usage_events t)" for e
  proof -
    have "usage_event_ok e \<in> set (map usage_event_ok (usage_events s))" using that calculation(4) by (metis image_eqI set_map)
    then show ?thesis using usage_invD(6) [OF inv] by auto
  qed
  ultimately have "usage_inv t"
    using added usage_invD(4,5) [OF inv] by (intro usage_invI) auto
  with added drawn_trans [OF d] show ?thesis by simp
qed

section \<open>Histories\<close>

lemma keeps_drawn_usage [op_keeps]:
  "keeps (drawn s) (upsert_usage a i now)" "keeps (drawn s) (insert_usage_event e)"
  "keeps (drawn s) (put_op (\<lambda>s. s\<lparr>usage_events := f s\<rparr>))"
  by (auto simp: keeps_def drawn_def upsert_usage_def insert_usage_event_def split: option.split)

lemma keeps_drawn_add [op_keeps]: "keeps (drawn s) (add_tenant_usage a)"
  unfolding add_tenant_usage_def by (intro op_keeps)

lemma keeps_drawn_buckets [op_keeps]: "keeps (drawn s) (add_buckets bs)"
  by (induction bs) (auto intro!: op_keeps simp: keeps_def [where m = "Pair x" for x])

lemma keeps_drawn_journal [op_keeps]:
  "keeps (drawn s) (append_tenant_usage_event e imm)"
  "keeps (drawn s) (record_tenant_usage_event tid m q st si w oc dims)"
  "keeps (drawn s) (project_pending_tenant_usage_events dialect locked n)"
  unfolding append_tenant_usage_event_def record_tenant_usage_event_def project_pending_tenant_usage_events_def Let_def
  by (intro op_keeps)+

lemma drawn_rollback [simp]: "drawn s t \<Longrightarrow> drawn s (rollback s t)"
  by (simp add: drawn_def rollback_def)

lemma usage_inv_rollback: "usage_inv s \<Longrightarrow> drawn s t \<Longrightarrow> usage_inv (rollback s t)"
  by (rule usage_inv_cong) (auto simp: rollback_def drawn_def)

text \<open>A transaction keeps the ledger exact when its body does, whatever the driver makes of the commit.\<close>

lemma transaction_inv:
  assumes "usage_inv s" "keeps (drawn s) m" "\<And>x t. m s = (Inr x, t) \<Longrightarrow> usage_inv t"
  shows "usage_inv (snd (db_transaction outcome m s)) \<and> drawn s (snd (db_transaction outcome m s))"
proof -
  obtain r t where m: "m s = (r, t)" by (cases "m s")
  have d: "drawn s t" using keepsD [OF assms(2) _ m] by simp
  with assms(1) have "usage_inv (rollback s t)" by (rule usage_inv_rollback)
  with d assms(3) m show ?thesis
    by (auto simp: db_transaction_def session_scope_def split: sum.split commit_outcome.split)
qed

lemma record_keeps_inv:
  "record_tenant_usage_event tid m q st si w oc dims s = (Inr b, t) \<Longrightarrow> usage_inv s \<Longrightarrow> usage_inv t"
proof -
  assume run: "record_tenant_usage_event tid m q st si w oc dims s = (Inr b, t)" and inv: "usage_inv s"
  show ?thesis
  proof (cases "\<exists>tenant. tid = Some tenant \<and> tenant \<noteq> [] \<and> 0 < q")
    case False
    with run inv show ?thesis by (auto simp: record_tenant_usage_event_def split: option.splits if_splits)
  next
    case True
    then obtain moment s1 e where moment: "(case oc of Some t \<Rightarrow> return_op t | None \<Rightarrow> utc_now) s = (Inr moment, s1)"
        and rest: "append_tenant_usage_event e True (s1\<lparr>uuid_n := Suc (uuid_n s1)\<rparr>) = (Inr b, t)" "usage_append_valid e"
      using run by (cases oc) (auto simp: record_tenant_usage_event_def bind_op_Inr_iff)
    have "usage_inv (s1\<lparr>uuid_n := Suc (uuid_n s1)\<rparr>)"
      using moment by (intro usage_inv_cong [OF inv]) (auto simp: drawn_def split: option.splits)
    with rest show ?thesis using append_keeps_inv by blast
  qed
qed

text \<open>What happens to the two tables: source events of domain transactions, deferred or immediate appends, batches of
  projectors with whatever rows others have locked, each with any outcome of its commit, and the transactions of
  other components, which leave the tables alone.\<close>

inductive usage_transaction :: "db \<Rightarrow> db \<Rightarrow> bool" where
  recorded: "usage_transaction s (snd (db_transaction outcome (record_tenant_usage_event tid m q st si w oc dims) s))"
| appended: "usage_append_valid e \<Longrightarrow> usage_transaction s (snd (db_transaction outcome (append_tenant_usage_event e imm) s))"
| projected: "usage_transaction s (snd (db_transaction outcome (project_pending_tenant_usage_events dialect locked n) s))"
| elsewhere: "usage_records t = usage_records s \<Longrightarrow> usage_events t = usage_events s \<Longrightarrow> drawn s t \<Longrightarrow> usage_transaction s t"

definition usage_history :: "db \<Rightarrow> bool" where
  "usage_history s \<longleftrightarrow> (\<exists>clock uuids. inj uuids \<and> usage_transaction\<^sup>*\<^sup>* (empty_db clock uuids) s)"

lemma usage_transaction_inv: "usage_transaction s t \<Longrightarrow> usage_inv s \<Longrightarrow> usage_inv t \<and> drawn s t"
proof (induction rule: usage_transaction.induct)
  case (recorded s outcome tid m q st si w oc dims)
  then show ?case by (intro transaction_inv op_keeps) (auto dest: record_keeps_inv)
next
  case (appended e s outcome imm)
  then show ?case by (intro transaction_inv op_keeps) (auto dest: append_keeps_inv)
next
  case (projected s outcome dialect locked n)
  then show ?case by (intro transaction_inv op_keeps) (auto dest: project_keeps_inv)
next
  case (elsewhere t s)
  then show ?case by (blast intro: usage_inv_cong)
qed

lemma usage_inv_empty: "inj uuids \<Longrightarrow> usage_inv (empty_db clock uuids)"
  by (intro usage_invI) (simp_all add: rollup_inv_def empty_db_def ids_drawn_def rolled_up_def projected_usage_def)

lemma usage_history_inv: "usage_history s \<Longrightarrow> usage_inv s"
proof -
  have "usage_transaction\<^sup>*\<^sup>* s t \<Longrightarrow> usage_inv s \<Longrightarrow> usage_inv t" for s t
    by (induction rule: rtranclp_induct) (auto dest: usage_transaction_inv)
  then show "usage_history s \<Longrightarrow> usage_inv s"
    by (auto simp: usage_history_def intro: usage_inv_empty)
qed

section \<open>What the report adds up\<close>

lemma sum_list_group:
  assumes "finite K"
  shows "(\<Sum>k\<in>K. sum_list (map q (filter (\<lambda>r. g r = k) rows))) = sum_list (map (q :: 'a \<Rightarrow> int) (filter (\<lambda>r. g r \<in> K) rows))"
proof (induction rows)
  case (Cons r rows)
  have "(\<Sum>k\<in>K. sum_list (map q (filter (\<lambda>r. g r = k) (r # rows)))) =
      (\<Sum>k\<in>K. (if g r = k then q r else 0) + sum_list (map q (filter (\<lambda>r. g r = k) rows)))"
    by (intro sum.cong) auto
  also have "\<dots> = (if g r \<in> K then q r else 0) + sum_list (map q (filter (\<lambda>r. g r \<in> K) rows))"
    using assms by (simp add: sum.distrib sum.delta' Cons.IH)
  finally show ?case by simp
qed simp

lemma usage_record_bucket:
  assumes inv: "usage_inv s" and r: "r \<in> set (usage_records s)"
  shows "journal_bucket (projected_usage s) (usage_key r) = Some (ur_quantity r, ur_first_recorded_at r, ur_last_recorded_at r)"
  using usage_invD(7) [OF inv, symmetric] first_row_key [OF usage_invD(3) [OF inv] r] by (simp add: rolled_up_def)

lemma projected_has_record:
  assumes inv: "usage_inv s" and e: "e \<in> set (projected_usage s)"
  shows "event_key e \<in> usage_key ` set (usage_records s)"
proof -
  have "journal_bucket (projected_usage s) (event_key e) \<noteq> None" using e by (auto simp: journal_bucket_None)
  then have "rolled_up s (event_key e) \<noteq> None" using usage_invD(7) [OF inv] by simp
  then have "first_row (select_where (\<lambda>r. usage_key r = event_key e) (usage_records s)) \<noteq> None"
    unfolding rolled_up_def by (simp only: option.map_disc_iff not_False_eq_True)
  then show ?thesis unfolding known_key by blast
qed

lemma usage_record_quantity:
  assumes "usage_inv s" "r \<in> set (usage_records s)"
  shows "ur_quantity r = sum_list (map ue_quantity (filter (\<lambda>e. event_key e = usage_key r) (projected_usage s)))"
    "\<exists>e \<in> set (projected_usage s). event_key e = usage_key r"
  using usage_record_bucket [OF assms] by (auto simp: journal_bucket_def Let_def filter_empty_conv split: if_splits)

text \<open>A condition on keys selects the same quantity in the rollup and in the projected journal.\<close>

lemma rollup_sum:
  assumes inv: "usage_inv s"
  shows "sum_list (map ur_quantity (filter (\<lambda>r. C (usage_key r)) (usage_records s))) =
      sum_list (map ue_quantity (filter (\<lambda>e. C (event_key e)) (projected_usage s)))"
    "filter (\<lambda>r. C (usage_key r)) (usage_records s) = [] \<longleftrightarrow> filter (\<lambda>e. C (event_key e)) (projected_usage s) = []"
proof -
  let ?rows = "filter (\<lambda>r. C (usage_key r)) (usage_records s)"
  let ?J = "\<lambda>k. sum_list (map ue_quantity (filter (\<lambda>e. event_key e = k) (projected_usage s)))"
  have d: "distinct (map usage_key ?rows)" by (rule distinct_map_filter [OF usage_invD(3) [OF inv]])
  have "sum_list (map ur_quantity ?rows) = sum_list (map ?J (map usage_key ?rows))"
    unfolding map_map comp_def
    by (intro arg_cong [where f = sum_list] map_cong refl usage_record_quantity(1) [OF inv]) simp
  also have "\<dots> = (\<Sum>k\<in>set (map usage_key ?rows). ?J k)"
    using d by (rule sum_list_distinct_conv_sum_set)
  also have "\<dots> = sum_list (map ue_quantity (filter (\<lambda>e. event_key e \<in> set (map usage_key ?rows)) (projected_usage s)))"
    by (rule sum_list_group) simp
  also have "filter (\<lambda>e. event_key e \<in> set (map usage_key ?rows)) (projected_usage s) = filter (\<lambda>e. C (event_key e)) (projected_usage s)"
    using projected_has_record [OF inv] by (intro filter_cong) fastforce+
  finally show "sum_list (map ur_quantity ?rows) = sum_list (map ue_quantity (filter (\<lambda>e. C (event_key e)) (projected_usage s)))" .
  show "?rows = [] \<longleftrightarrow> filter (\<lambda>e. C (event_key e)) (projected_usage s) = []"
    using projected_has_record [OF inv] usage_record_quantity(2) [OF inv] by (fastforce simp: filter_empty_conv)
qed

text \<open>The keys that a report covers.\<close>

definition in_window :: "string \<Rightarrow> int \<Rightarrow> timestamp \<Rightarrow> timestamp \<Rightarrow> usage_key \<Rightarrow> bool" where
  "in_window tid w period_from period_to k \<longleftrightarrow> (case k of (t, m, w', p) \<Rightarrow> t = tid \<and> w' = w \<and> period_from \<le> p \<and> p < period_to)"

definition key_metric :: "usage_key \<Rightarrow> string" where
  "key_metric k = fst (snd k)"

definition key_period :: "usage_key \<Rightarrow> timestamp" where
  "key_period k = snd (snd (snd k))"

lemma key_parts [simp]:
  "key_metric (usage_key r) = ur_metric_key r" "key_period (usage_key r) = ur_period_start r"
  by (simp_all add: key_metric_def key_period_def usage_key_def)

definition usage_total :: "(usage_key \<Rightarrow> bool) \<Rightarrow> db \<Rightarrow> int option" where
  "usage_total C s = (let es = filter (\<lambda>e. C (event_key e)) (projected_usage s)
     in if es = [] then None else Some (sum_list (map ue_quantity es)))"

lemma usage_total_rows:
  assumes "usage_inv s"
  shows "usage_total C s = (let rows = filter (\<lambda>r. C (usage_key r)) (usage_records s)
    in if rows = [] then None else Some (sum_list (map ur_quantity rows)))"
  unfolding usage_total_def Let_def rollup_sum [OF assms] ..

definition window_rows :: "string \<Rightarrow> int \<Rightarrow> timestamp \<Rightarrow> timestamp \<Rightarrow> db \<Rightarrow> usage_record list" where
  "window_rows tid w period_from period_to s =
     filter (\<lambda>r. in_window tid w period_from period_to (usage_key r)) (usage_records s)"

definition row_group :: "usage_record \<Rightarrow> string \<times> timestamp" where
  "row_group r = (ur_metric_key r, ur_period_start r)"

definition group_total :: "usage_record list \<Rightarrow> string \<times> timestamp \<Rightarrow> tenant_usage_period_total" where
  "group_total rows k = \<lparr>pt_metric_key = fst k, pt_period_start = snd k,
     pt_quantity = sum_list (map ur_quantity (filter (\<lambda>r. row_group r = k) rows))\<rparr>"

lemma aggregate_eq:
  "aggregate_tenant_usage tid w (Some pf) (Some pt) None s =
     map (group_total (window_rows tid w pf pt s)) (sort (remdups (map row_group (window_rows tid w pf pt s))))"
proof -
  have rows: "select_where (\<lambda>r. ur_tenant_id r = tid \<and> ur_period_window_seconds r = w \<and> pf \<le> ur_period_start r \<and> ur_period_start r < pt)
      (usage_records s) = window_rows tid w pf pt s"
    by (simp add: select_where_def window_rows_def in_window_def usage_key_def)
  have group: "(\<lambda>r. (ur_metric_key r, ur_period_start r)) = row_group" by (simp add: fun_eq_iff row_group_def)
  show ?thesis
    by (simp add: aggregate_tenant_usage_def rows group Let_def)
      (simp add: group_total_def row_group_def case_prod_beta fun_eq_iff)
qed

lemma aggregate_metric:
  "sum_list (map pt_quantity (filter (\<lambda>x. pt_metric_key x = m) (map (group_total rows) (sort (remdups (map row_group rows)))))) =
     sum_list (map ur_quantity (filter (\<lambda>r. ur_metric_key r = m) rows))" (is "?sum = _")
proof -
  let ?ks = "filter (\<lambda>k. fst k = m) (sort (remdups (map row_group rows)))"
  have "?sum = sum_list (map (\<lambda>k. sum_list (map ur_quantity (filter (\<lambda>r. row_group r = k) rows))) ?ks)"
    by (simp add: filter_map comp_def group_total_def)
  also have "\<dots> = (\<Sum>k\<in>set ?ks. sum_list (map ur_quantity (filter (\<lambda>r. row_group r = k) rows)))"
    by (rule sum_list_distinct_conv_sum_set) simp
  also have "\<dots> = sum_list (map ur_quantity (filter (\<lambda>r. row_group r \<in> set ?ks) rows))"
    by (rule sum_list_group) simp
  also have "filter (\<lambda>r. row_group r \<in> set ?ks) rows = filter (\<lambda>r. ur_metric_key r = m) rows"
    by (intro filter_cong) (auto simp: row_group_def)
  finally show ?thesis .
qed

lemma aggregate_metric_empty:
  "filter (\<lambda>x. pt_metric_key x = m) (map (group_total rows) (sort (remdups (map row_group rows)))) = [] \<longleftrightarrow>
     filter (\<lambda>r. ur_metric_key r = m) rows = []"
  by (auto simp: filter_empty_conv group_total_def row_group_def)

lemma map_of_metric_totals:
  "map_of (fold add_metric_total totals acc) m =
     (let q = sum_list (map pt_quantity (filter (\<lambda>x. pt_metric_key x = m) totals)) in
      case map_of acc m of
        None \<Rightarrow> if filter (\<lambda>x. pt_metric_key x = m) totals = [] then None else Some q
      | Some q0 \<Rightarrow> Some (q0 + q))"
  by (induction totals arbitrary: acc)
    (auto simp: add_metric_total_def update_conv' Let_def split: option.splits)

lemma distinct_metric_totals: "distinct (map fst acc) \<Longrightarrow> distinct (map fst (fold add_metric_total totals acc))"
  by (induction totals arbitrary: acc) (auto simp: add_metric_total_def intro: distinct_update)


text \<open>A report that is built lists, per metric and per metric and period, what the projected journal holds.\<close>

lemma usage_total_window:
  assumes "usage_inv s"
  shows "usage_total (\<lambda>k. in_window tid w pf pt k \<and> P (key_metric k) (key_period k)) s =
    (let rows = filter (\<lambda>r. P (ur_metric_key r) (ur_period_start r)) (window_rows tid w pf pt s)
     in if rows = [] then None else Some (sum_list (map ur_quantity rows)))"
  unfolding usage_total_rows [OF assms] window_rows_def by (simp add: conj_commute)

lemma metric_totals_exact:
  assumes "usage_inv s"
  shows "map_of (sort_key fst (fold add_metric_total (aggregate_tenant_usage tid w (Some pf) (Some pt) None s) [])) m =
    usage_total (\<lambda>k. in_window tid w pf pt k \<and> key_metric k = m) s"
  unfolding map_of_sort_fst(1) [OF distinct_metric_totals [of "[]", simplified]]
  using usage_total_window [OF assms, of tid w pf pt "\<lambda>m' p. m' = m"]
  by (simp add: map_of_metric_totals aggregate_eq aggregate_metric aggregate_metric_empty)

lemma periods_exact:
  assumes "usage_inv s"
  shows "\<lparr>pt_metric_key = m, pt_period_start = p, pt_quantity = q\<rparr> \<in> set (aggregate_tenant_usage tid w (Some pf) (Some pt) None s) \<longleftrightarrow>
    usage_total (\<lambda>k. in_window tid w pf pt k \<and> key_metric k = m \<and> key_period k = p) s = Some q"
  using usage_total_window [OF assms, of tid w pf pt "\<lambda>m' p'. m' = m \<and> p' = p"]
  by (auto simp: aggregate_eq group_total_def row_group_def Let_def filter_empty_conv image_iff)

lemma usage_total_bounds:
  assumes inv: "usage_inv s" and some: "usage_total C s = Some q"
  shows "0 \<le> q" "\<exists>e \<in> set (projected_usage s). C (event_key e)"
proof -
  let ?es = "filter (\<lambda>e. C (event_key e)) (projected_usage s)"
  have "\<forall>e \<in> set ?es. 0 \<le> ue_quantity e"
    using usage_invD(6) [OF inv] by (fastforce simp: usage_event_ok_def projected_usage_def)
  then have "0 \<le> sum_list (map ue_quantity ?es)" by (intro sum_list_nonneg) auto
  with some show "0 \<le> q" "\<exists>e \<in> set (projected_usage s). C (event_key e)"
    by (auto simp: usage_total_def Let_def filter_empty_conv split: if_splits)
qed

lemma summary_valid:
  assumes inv: "usage_inv s" and args: "tid \<noteq> []" "1 \<le> w"
  shows "usage_summary_valid \<lparr>us_tenant_id = tid, us_window_start = pf, us_window_end = pt, us_period_window_seconds = w,
     us_metric_totals = sort_key fst (fold add_metric_total (aggregate_tenant_usage tid w (Some pf) (Some pt) None s) []),
     us_periods = aggregate_tenant_usage tid w (Some pf) (Some pt) None s, us_usage_notes = notes_list\<rparr>"
proof -
  have metric: "m \<noteq> [] \<and> 0 \<le> q" if "usage_total (\<lambda>k. in_window tid w pf pt k \<and> key_metric k = m \<and> P k) s = Some q" for m q P
    using usage_total_bounds [OF inv that] usage_invD(6) [OF inv]
    by (fastforce simp: usage_event_ok_def projected_usage_def event_key_def key_metric_def)
  have "m \<noteq> [] \<and> 0 \<le> q" if "(m, q) \<in> set (sort_key fst (fold add_metric_total
      (aggregate_tenant_usage tid w (Some pf) (Some pt) None s) []))" for m q
  proof -
    have "map_of (sort_key fst (fold add_metric_total (aggregate_tenant_usage tid w (Some pf) (Some pt) None s) [])) m = Some q"
      using that map_of_sort_fst(2) [OF distinct_metric_totals [of "[]", simplified]] by simp
    then show ?thesis using metric [of m "\<lambda>_. True"] by (simp add: metric_totals_exact [OF inv])
  qed
  moreover have "pt_metric_key x \<noteq> [] \<and> 0 \<le> pt_quantity x" if "x \<in> set (aggregate_tenant_usage tid w (Some pf) (Some pt) None s)" for x
  proof -
    obtain m p q where x: "x = \<lparr>pt_metric_key = m, pt_period_start = p, pt_quantity = q\<rparr>" by (cases x)
    then show ?thesis using that periods_exact [OF inv] metric [of m "\<lambda>k. key_period k = p" q] by simp
  qed
  ultimately show ?thesis using args by (auto simp: usage_summary_valid_def)
qed

section \<open>A projector drains the journal\<close>

text \<open>An upsert that fits its column succeeds.\<close>

definition fits :: "bucket \<Rightarrow> bool" where
  "fits x \<longleftrightarrow> (case x of None \<Rightarrow> True | Some (q, f, l) \<Rightarrow> bigint_ok q)"

lemma add_tenant_usage_returns:
  assumes inv: "rollup_inv s" and window: "usage_window_ok (ud_period_window_seconds a)"
    and fits: "fits (merge (rolled_up s (add_key a)) (add_bucket a (add_key a)))"
  shows "\<exists>t. add_tenant_usage a s = (Inr (), t)"
proof -
  have fresh: "uuid_at s (uuid_n s) \<notin> ur_id ` set (usage_records s)"
    using inv by (fastforce simp: rollup_inv_def ids_drawn_def inj_eq)
  show ?thesis
  proof (cases "first_row (select_where (\<lambda>r. usage_key r = add_key a) (usage_records s))")
    case None
    with fits have "bigint_ok (ud_quantity a)" by (simp add: rolled_up_def fits_def add_bucket_def del: first_row_None)
    with None fresh window show ?thesis
      by (simp add: add_tenant_usage_def upsert_usage_def del: first_row_None)
  next
    case (Some r)
    with fits have "bigint_ok (ur_quantity r + ud_quantity a)" by (simp add: rolled_up_def fits_def add_bucket_def)
    with Some show ?thesis by (simp add: add_tenant_usage_def upsert_usage_def)
  qed
qed

lemma add_buckets_returns:
  assumes "rollup_inv s" "distinct (map fst bs)"
    and "\<And>k v. (k, v) \<in> set bs \<Longrightarrow> usage_add_valid (usage_add_of_bucket (k, v)) \<and> fits (merge (rolled_up s k) (Some v))"
  shows "\<exists>t. add_buckets bs s = (Inr (), t)"
  using assms
proof (induction bs arbitrary: s)
  case (Cons b bs)
  have b: "usage_add_valid (usage_add_of_bucket b)" "fits (merge (rolled_up s (fst b)) (Some (snd b)))"
    using Cons.prems(3) [of "fst b" "snd b"] by simp_all
  obtain s' where s': "add_tenant_usage (usage_add_of_bucket b) s = (Inr (), s')"
    using add_tenant_usage_returns [OF Cons.prems(1), of "usage_add_of_bucket b"] b by (auto simp: usage_add_valid_def)
  note step = add_tenant_usage_Inr [OF s' Cons.prems(1)]
  have "\<exists>t. add_buckets bs s' = (Inr (), t)"
  proof (rule Cons.IH)
    show "rollup_inv s'" using step by blast
    show "distinct (map fst bs)" using Cons.prems(2) by simp
    fix k v assume kv: "(k, v) \<in> set bs"
    then have "k \<in> fst ` set bs" by (rule rev_image_eqI) simp
    then have "fst b \<noteq> k" using Cons.prems(2) by auto
    then have "rolled_up s' k = rolled_up s k" using step [of k] by simp
    then show "usage_add_valid (usage_add_of_bucket (k, v)) \<and> fits (merge (rolled_up s' k) (Some v))"
      using Cons.prems(3) [of k v] kv by simp
  qed
  then show ?case using s' b(1) by (auto simp: checked_def)
qed simp

lemma sum_list_filter_le:
  "(\<And>x. x \<in> set xs \<Longrightarrow> 0 \<le> f x) \<Longrightarrow> sum_list (map f (filter P xs)) \<le> sum_list (map (f :: 'a \<Rightarrow> int) xs)"
  by (induction xs) (auto intro: add_increasing)

lemma sum_list_pos:
  "xs \<noteq> [] \<Longrightarrow> (\<And>x. x \<in> set xs \<Longrightarrow> 0 < f x) \<Longrightarrow> 0 < sum_list (map (f :: 'a \<Rightarrow> int) xs)"
proof (induction xs)
  case (Cons x xs)
  have "0 < f x" "0 \<le> sum_list (map f xs)"
    using Cons.prems(2) by (auto intro!: sum_list_nonneg simp: less_imp_le)
  then show ?case by simp
qed simp

lemma journal_bucket_quantity:
  assumes "journal_bucket es k = Some (q, f, l)" "\<And>e. e \<in> set es \<Longrightarrow> 0 < ue_quantity e"
  shows "0 < q \<and> q \<le> sum_list (map ue_quantity es)"
proof -
  let ?bs = "filter (\<lambda>e. event_key e = k) es"
  have "?bs \<noteq> []" "q = sum_list (map ue_quantity ?bs)"
    using assms(1) by (auto simp: journal_bucket_def Let_def split: if_splits)
  then show ?thesis
    using assms(2) sum_list_pos [of ?bs ue_quantity] sum_list_filter_le [of es ue_quantity] by (auto simp: less_imp_le)
qed

lemma marked_split:
  "map ue_quantity (select_where (\<lambda>e. ue_projected_at e \<noteq> None) (mark_projected ids now es)) =
     map ue_quantity (filter (\<lambda>e. ue_projected_at e \<noteq> None \<or> claims_event ids e) es)"
  "select_where (\<lambda>e. ue_projected_at e = None) (mark_projected ids now es) =
     filter (\<lambda>e. ue_projected_at e = None \<and> \<not> claims_event ids e) es"
  by (induction es) (auto simp: mark_projected_def claims_event_def)

lemma pending_clock [simp]:
  "pending_usage (s\<lparr>clock_n := c\<rparr>) = pending_usage s"
  "candidate_ids dialect locked n (s\<lparr>clock_n := c\<rparr>) = candidate_ids dialect locked n s"
  by (simp_all add: pending_usage_def candidate_ids_def)

text \<open>The batch takes the oldest pending events, as many as it may.\<close>

definition batch_rows :: "string \<Rightarrow> uuid list \<Rightarrow> nat \<Rightarrow> db \<Rightarrow> usage_event list" where
  "batch_rows dialect locked n s = select_where (claims_event (candidate_ids dialect locked n s)) (usage_events s)"

lemma candidate_rows:
  assumes inv: "usage_inv s"
  shows "length (batch_rows dialect [] n s) = min n (length (pending_usage s))"
proof -
  let ?batch = "take n (sort_key (\<lambda>e. (ue_recorded_at e, ue_id e)) (pending_usage s))"
  let ?rows = "select_where (claims_event (candidate_ids dialect [] n s)) (usage_events s)"
  have ids: "candidate_ids dialect [] n s = map ue_id ?batch" by (simp add: candidate_ids_def select_where_def)
  have sub: "set ?batch \<subseteq> set (pending_usage s)" by (metis set_sort set_take_subset)
  have d: "distinct (usage_events s)" using usage_invD(4) [OF inv] by (simp add: distinct_map)
  have "set ?rows = set ?batch"
  proof
    show "set ?rows \<subseteq> set ?batch"
    proof
      fix e assume "e \<in> set ?rows"
      then obtain e' where "e' \<in> set ?batch" "ue_id e = ue_id e'" "e \<in> set (usage_events s)"
        by (auto simp: ids claims_event_def)
      moreover from this sub have "e' \<in> set (usage_events s)" by (auto simp: pending_usage_def)
      ultimately show "e \<in> set ?batch" using distinct_key_unique [OF usage_invD(4) [OF inv]] by blast
    qed
    show "set ?batch \<subseteq> set ?rows" using sub by (auto simp: ids claims_event_def pending_usage_def)
  qed
  moreover have "distinct ?rows" "distinct ?batch"
    using d by (simp_all add: select_where_def pending_usage_def)
  ultimately have "length ?rows = length ?batch" by (metis distinct_card)
  then show ?thesis by (simp add: batch_rows_def)
qed

text \<open>The sum of the whole journal fits the column of the rollup.\<close>

definition journal_fits :: "db \<Rightarrow> bool" where
  "journal_fits s \<longleftrightarrow> sum_list (map ue_quantity (usage_events s)) < 2 ^ 63"

lemma project_returns:
  assumes inv: "usage_inv s" and small: "journal_fits s"
  shows "\<exists>t. project_pending_tenant_usage_events dialect locked n s =
      (Inr \<lparr>pr_events_projected = length (batch_rows dialect locked n s), pr_quantity_projected = sum_list (map ue_quantity (batch_rows dialect locked n s))\<rparr>, t)
    \<and> usage_events t = mark_projected (candidate_ids dialect locked n s) (clock_at s (clock_n s)) (usage_events s)"
proof -
  let ?rows = "batch_rows dialect locked n s"
  let ?ids = "candidate_ids dialect locked n s"
  let ?s = "s\<lparr>clock_n := Suc (clock_n s), usage_events := mark_projected ?ids (clock_at s (clock_n s)) (usage_events s)\<rparr>"
  have r1: "rollup_inv ?s" by (rule rollup_inv_cong [OF rollup_inv_usage [OF inv]]) (simp_all add: drawn_def)
  have rolled: "rolled_up ?s k = journal_bucket (projected_usage s) k" for k
    using usage_invD(7) [OF inv] rolled_up_cong [of ?s s] by simp
  have pos: "0 < ue_quantity e" if "e \<in> set (usage_events s)" for e
    using usage_invD(6) [OF inv that] by (simp add: usage_event_ok_def)
  have "usage_add_valid (usage_add_of_bucket (k, v)) \<and> fits (merge (rolled_up ?s k) (Some v))"
    if "(k, v) \<in> set (batch_buckets ?rows)" for k v
  proof
    have v: "journal_bucket ?rows k = Some v"
      using that batch_buckets [of ?rows] by (metis map_of_eq_Some_iff)
    have sub: "set ?rows \<subseteq> set (usage_events s)" by (auto simp: batch_rows_def)
    obtain e where e: "e \<in> set ?rows" "event_key e = k"
      using v journal_bucket_None [of ?rows k] by fastforce
    obtain q f l where qfl: "v = (q, f, l)" by (cases v)
    have "usage_event_ok e" using e(1) sub usage_invD(6) [OF inv] by blast
    moreover have "0 < q" using journal_bucket_quantity [OF v [unfolded qfl]] pos sub by blast
    ultimately show "usage_add_valid (usage_add_of_bucket (k, v))"
      using e(2) by (cases k) (auto simp: qfl usage_add_valid_def usage_event_ok_def event_key_def)
    let ?moved = "select_where (\<lambda>e. ue_projected_at e \<noteq> None) (mark_projected ?ids (clock_at s (clock_n s)) (usage_events s))"
    have moved: "journal_bucket ?moved k = merge (rolled_up ?s k) (Some v)"
      by (simp only: rolled v [symmetric] batch_rows_def projected_usage_def mark_projected_bucket)
    have mpos: "0 < ue_quantity x" if "x \<in> set ?moved" for x
    proof -
      have "ue_quantity x \<in> set (map ue_quantity ?moved)" using that by simp
      then show ?thesis unfolding marked_split using pos by auto
    qed
    have "sum_list (map ue_quantity ?moved) \<le> sum_list (map ue_quantity (usage_events s))"
      unfolding marked_split using pos by (intro sum_list_filter_le) (simp add: less_imp_le)
    with small show "fits (merge (rolled_up ?s k) (Some v))"
      using journal_bucket_quantity [of ?moved k] mpos
      by (auto simp: moved [symmetric] fits_def journal_fits_def bigint_ok_def split: option.split; fastforce)
  qed
  then obtain t where t: "add_buckets (batch_buckets ?rows) ?s = (Inr (), t)"
    using add_buckets_returns [OF r1 batch_buckets(2)] by blast
  then have "usage_events t = usage_events ?s" using add_buckets_Inr [OF t r1 batch_buckets(2)] by blast
  moreover have "project_pending_tenant_usage_events dialect locked n s =
      (Inr \<lparr>pr_events_projected = length ?rows, pr_quantity_projected = sum_list (map ue_quantity ?rows)\<rparr>, t)"
    using t by (simp add: project_pending_tenant_usage_events_def Let_def batch_rows_def mark_projected_def batch_buckets_def)
  ultimately show ?thesis by simp
qed

text \<open>The identity and the payload of an event, without the mark of its projection.\<close>

definition unmarked :: "usage_event \<Rightarrow> usage_event" where
  "unmarked e = e\<lparr>ue_projected_at := None\<rparr>"

lemma map_unmarked_projected [simp]: "map unmarked (mark_projected ids now es) = map unmarked es"
  by (simp add: mark_projected_map unmarked_def)

lemma unmarked_quantities:
  assumes "map unmarked es = map unmarked fs"
  shows "map ue_quantity es = map ue_quantity fs"
proof -
  have "map ue_quantity es = map (ue_quantity \<circ> unmarked) es" for es by (simp add: unmarked_def)
  then show ?thesis using assms by (metis map_map)
qed

lemma pending_split:
  "length (select_where (claims_event ids) es) + length (filter (\<lambda>e. ue_projected_at e = None \<and> \<not> claims_event ids e) es) =
     length (filter (\<lambda>e. ue_projected_at e = None) es)"
  "sum_list (map ue_quantity (select_where (claims_event ids) es)) +
     sum_list (map ue_quantity (filter (\<lambda>e. ue_projected_at e = None \<and> \<not> claims_event ids e) es)) =
     sum_list (map ue_quantity (filter (\<lambda>e. ue_projected_at e = None) es))"
  by (induction es) (auto simp: claims_event_def)

lemma project_step:
  assumes inv: "usage_inv s" and small: "journal_fits s"
  shows "\<exists>r t. db_transaction Commits (project_pending_tenant_usage_events dialect [] n) s = (Inr r, t)
    \<and> usage_transaction s t \<and> usage_inv t \<and> journal_fits t \<and> map unmarked (usage_events t) = map unmarked (usage_events s)
    \<and> pr_events_projected r = min n (length (pending_usage s))
    \<and> pr_events_projected r + length (pending_usage t) = length (pending_usage s)
    \<and> pr_quantity_projected r + sum_list (map ue_quantity (pending_usage t)) = sum_list (map ue_quantity (pending_usage s))"
proof -
  let ?rows = "batch_rows dialect [] n s"
  let ?r = "\<lparr>pr_events_projected = length ?rows, pr_quantity_projected = sum_list (map ue_quantity ?rows)\<rparr>"
  obtain t where run: "project_pending_tenant_usage_events dialect [] n s = (Inr ?r, t)"
    and events: "usage_events t = mark_projected (candidate_ids dialect [] n s) (clock_at s (clock_n s)) (usage_events s)"
    using project_returns [OF inv small, of dialect "[]" n] by blast
  have tx: "db_transaction Commits (project_pending_tenant_usage_events dialect [] n) s = (Inr ?r, t)"
    by (simp add: db_transaction_def session_scope_def run)
  have "usage_transaction s (snd (db_transaction Commits (project_pending_tenant_usage_events dialect [] n) s))"
    by (rule projected)
  then have step: "usage_transaction s t" by (simp add: tx)
  have same: "map unmarked (usage_events t) = map unmarked (usage_events s)" by (simp add: events)
  have pending: "pending_usage t = filter (\<lambda>e. ue_projected_at e = None \<and> \<not> claims_event (candidate_ids dialect [] n s) e) (usage_events s)"
    by (simp add: pending_usage_def events marked_split)
  have "journal_fits t" using small unmarked_quantities [OF same] by (simp add: journal_fits_def)
  moreover have "length ?rows + length (pending_usage t) = length (pending_usage s)"
    "sum_list (map ue_quantity ?rows) + sum_list (map ue_quantity (pending_usage t)) = sum_list (map ue_quantity (pending_usage s))"
    unfolding pending batch_rows_def using pending_split by (simp_all add: pending_usage_def select_where_def)
  ultimately show ?thesis
    using tx step same usage_transaction_inv [OF step inv] candidate_rows [OF inv, of dialect n] by auto
qed

lemma project_batches_drain:
  assumes "usage_inv s" "journal_fits s" "\<And>i. i < k \<Longrightarrow> env i = (Commits, [])" "0 < n"
    "length (pending_usage s) \<le> n * k"
  shows "\<exists>t. project_batches dialect env n k acc s =
      (Inr \<lparr>pr_events_projected = pr_events_projected acc + length (pending_usage s),
            pr_quantity_projected = pr_quantity_projected acc + sum_list (map ue_quantity (pending_usage s))\<rparr>, t)
    \<and> usage_transaction\<^sup>*\<^sup>* s t \<and> pending_usage t = [] \<and> map unmarked (usage_events t) = map unmarked (usage_events s)"
  using assms
proof (induction k arbitrary: s acc)
  case 0
  then show ?case by simp
next
  case (Suc k)
  obtain r t where tx: "db_transaction Commits (project_pending_tenant_usage_events dialect [] n) s = (Inr r, t)"
    and step: "usage_transaction s t" "usage_inv t" "journal_fits t" "map unmarked (usage_events t) = map unmarked (usage_events s)"
    and r: "pr_events_projected r = min n (length (pending_usage s))"
      "pr_events_projected r + length (pending_usage t) = length (pending_usage s)"
      "pr_quantity_projected r + sum_list (map ue_quantity (pending_usage t)) = sum_list (map ue_quantity (pending_usage s))"
    using project_step [OF Suc.prems(1,2), of dialect n] by blast
  have env: "env k = (Commits, [])" using Suc.prems(3) by simp
  show ?case
  proof (cases "pr_events_projected r < n")
    case True
    then have "length (pending_usage s) < n" using r(1) by (simp add: min_def split: if_splits)
    moreover from this r have "pending_usage t = []" by simp
    ultimately show ?thesis using r tx step by (auto simp: env Let_def intro!: exI [of _ t])
  next
    case False
    let ?acc = "\<lparr>pr_events_projected = pr_events_projected acc + pr_events_projected r,
                 pr_quantity_projected = pr_quantity_projected acc + pr_quantity_projected r\<rparr>"
    have "length (pending_usage t) \<le> n * k" using r False Suc.prems(5) by simp
    from Suc.IH [OF step(2,3) _ Suc.prems(4) this, of ?acc] Suc.prems(3)
    obtain u where u: "project_batches dialect env n k ?acc t =
        (Inr \<lparr>pr_events_projected = pr_events_projected ?acc + length (pending_usage t),
              pr_quantity_projected = pr_quantity_projected ?acc + sum_list (map ue_quantity (pending_usage t))\<rparr>, u)"
      "usage_transaction\<^sup>*\<^sup>* t u" "pending_usage u = []" "map unmarked (usage_events u) = map unmarked (usage_events t)"
      by auto
    have "usage_transaction\<^sup>*\<^sup>* s u" using step(1) u(2) by (rule converse_rtranclp_into_rtranclp)
    moreover have "project_batches dialect env n (Suc k) acc s = project_batches dialect env n k ?acc t"
      using False by (simp add: env tx)
    ultimately show ?thesis using u(1,3,4) step(4) r(2,3) by (intro exI [of _ u]) simp
  qed
qed

end
