(* ===== verification/Usage_Admission.thy ===== *)
theory Usage_Admission
  imports Usage_Ledger
begin

text \<open>
  Metering of a request: no transaction rewrites the journal, and the attempts to record the admission of one request
  write one row at most and one when the handler may run. The properties of the usage ledger and a concrete one.
\<close>

section \<open>The journal is append-only\<close>

definition extends_journal :: "db \<Rightarrow> db \<Rightarrow> bool" where
  "extends_journal s t \<longleftrightarrow> (\<exists>new. map unmarked (usage_events t) = map unmarked (usage_events s) @ map unmarked new)"

lemma extends_journal_same: "usage_events t = usage_events s \<Longrightarrow> extends_journal s t"
  unfolding extends_journal_def by (intro exI [of _ "[]"]) simp

lemma append_extends:
  assumes "append_tenant_usage_event e imm s = (Inr b, t)" "usage_inv s"
  shows "extends_journal s t"
proof (cases b)
  case False
  with append_Inr [OF assms(1)] show ?thesis by (simp add: extends_journal_same)
next
  case True
  let ?e = "new_usage_event e (clock_at s (clock_n s)) imm"
  let ?s = "append_usage_event ?e (s\<lparr>clock_n := Suc (clock_n s)\<rparr>)"
  have "usage_events t = usage_events ?s"
  proof (cases imm)
    case True
    then have "add_tenant_usage (usage_add_of_append e) ?s = (Inr (), t)" using append_Inr [OF assms(1)] \<open>b\<close> by simp
    moreover have "rollup_inv ?s"
      using rollup_inv_cong [OF rollup_inv_usage [OF assms(2)], of ?s] drawn_trans [OF drawn_clock append_usage_event_sel(3)] by auto
    ultimately show ?thesis using add_tenant_usage_Inr by blast
  next
    case False
    then show ?thesis using append_Inr [OF assms(1)] \<open>b\<close> by (simp add: Let_def)
  qed
  then show ?thesis unfolding extends_journal_def by (intro exI [of _ "[?e]"]) simp
qed

lemma record_extends:
  assumes run: "record_tenant_usage_event tid m q st si w oc dims s = (Inr b, t)" and inv: "usage_inv s"
  shows "extends_journal s t"
proof (cases "\<exists>tenant. tid = Some tenant \<and> tenant \<noteq> [] \<and> 0 < q")
  case False
  with run show ?thesis by (auto simp: record_tenant_usage_event_def extends_journal_same split: option.splits if_splits)
next
  case True
  then obtain moment s1 e where moment: "(case oc of Some t \<Rightarrow> return_op t | None \<Rightarrow> utc_now) s = (Inr moment, s1)"
      and rest: "append_tenant_usage_event e True (s1\<lparr>uuid_n := Suc (uuid_n s1)\<rparr>) = (Inr b, t)"
    using run by (cases oc) (auto simp: record_tenant_usage_event_def bind_op_Inr_iff)
  have "usage_inv (s1\<lparr>uuid_n := Suc (uuid_n s1)\<rparr>)"
    using moment by (intro usage_inv_cong [OF inv]) (auto simp: drawn_def split: option.splits)
  from append_extends [OF rest this] moment show ?thesis
    by (auto simp: extends_journal_def split: option.splits)
qed

lemma project_extends:
  assumes "project_pending_tenant_usage_events dialect locked n s = (Inr r, t)" and inv: "usage_inv s"
  shows "extends_journal s t"
  using assms(1)
proof (rule project_Inr)
  fix s1 rows
  assume s1: "s1 = s\<lparr>clock_n := Suc (clock_n s),
        usage_events := mark_projected (candidate_ids dialect locked n s) (clock_at s (clock_n s)) (usage_events s)\<rparr>"
    and adds: "add_buckets (batch_buckets rows) s1 = (Inr (), t)"
  have "rollup_inv s1" using rollup_inv_cong [OF rollup_inv_usage [OF inv], of s1] by (simp add: s1 drawn_def)
  then have "usage_events t = usage_events s1" using add_buckets_Inr [OF adds _ batch_buckets(2)] by blast
  then show ?thesis unfolding extends_journal_def s1 by (intro exI [of _ "[]"]) simp
qed

lemma transaction_extends:
  assumes "\<And>x t. m s = (Inr x, t) \<Longrightarrow> extends_journal s t"
  shows "extends_journal s (snd (db_transaction outcome m s))"
proof -
  obtain r t where m: "m s = (r, t)" by (cases "m s")
  have "extends_journal s (rollback s t)" by (rule extends_journal_same) (simp add: rollback_def)
  with assms m show ?thesis by (auto simp: db_transaction_def session_scope_def split: sum.split commit_outcome.split)
qed

lemma usage_transaction_extends: "usage_transaction s t \<Longrightarrow> usage_inv s \<Longrightarrow> extends_journal s t"
proof (induction rule: usage_transaction.induct)
  case (elsewhere t s)
  then show ?case by (simp add: extends_journal_same)
qed (blast intro: transaction_extends record_extends append_extends project_extends)+

section \<open>One event per request\<close>

definition journaled :: "tenant_usage_event_append \<Rightarrow> db \<Rightarrow> bool" where
  "journaled e s \<longleftrightarrow> (\<exists>r \<in> set (usage_events s). event_source r = append_source e)"

lemma journaled_sources: "journaled e s \<longleftrightarrow> append_source e \<in> set (map event_source (usage_events s))"
  unfolding journaled_def set_map by (metis imageE imageI)

text \<open>What the journal charges under the source of an event.\<close>

definition charged :: "tenant_usage_event_append \<Rightarrow> db \<Rightarrow> int" where
  "charged e s = sum_list (map ue_quantity (filter (\<lambda>r. event_source r = append_source e) (usage_events s)))"

lemma filter_map_same:
  assumes "map f xs = map f ys" "\<And>x. P x = P (f x)" "\<And>x. g x = g (f x)"
  shows "map g (filter P xs) = map g (filter P ys)"
proof -
  have "map g (filter P xs) = map g (filter P (map f xs))" for xs
    using assms(2,3) by (induction xs) auto
  then show ?thesis using assms(1) by metis
qed

lemma charged_extends:
  assumes ext: "extends_journal s t" and d: "distinct (map event_source (usage_events t))"
    and other: "journaled e t \<Longrightarrow> journaled e s"
  shows "charged e t = charged e s \<and> journaled e t = journaled e s"
proof -
  obtain new where new: "map unmarked (usage_events t) = map unmarked (usage_events s @ new)"
    using ext by (auto simp: extends_journal_def)
  have src: "map event_source (usage_events t) = map event_source (usage_events s @ new)"
    using filter_map_same [OF new, of "\<lambda>_. True" event_source] by (simp add: unmarked_def event_source_def)
  have "charged e t = sum_list (map ue_quantity (filter (\<lambda>r. event_source r = append_source e) (usage_events s @ new)))"
    unfolding charged_def
    by (intro arg_cong [where f = sum_list] filter_map_same [OF new]) (simp_all add: unmarked_def event_source_def)
  moreover have "filter (\<lambda>r. event_source r = append_source e) new = []"
  proof (cases "journaled e s")
    case True
    then have "append_source e \<notin> set (map event_source new)" using d unfolding src by (auto simp: journaled_sources)
    then show ?thesis by (force simp: filter_empty_conv)
  next
    case False
    with other have "append_source e \<notin> set (map event_source (usage_events t))" by (auto simp: journaled_sources)
    then show ?thesis unfolding src by (force simp: filter_empty_conv)
  qed
  moreover have "journaled e s \<Longrightarrow> journaled e t"
  proof -
    assume "journaled e s"
    then have "append_source e \<in> set (map event_source (usage_events t))" unfolding src by (auto simp: journaled_sources)
    then show "journaled e t" by (simp add: journaled_sources)
  qed
  ultimately show ?thesis using other by (auto simp: charged_def)
qed

lemma charged_append:
  assumes "\<not> journaled e s" "event_source r = append_source e" "usage_events t = usage_events s @ [r]"
  shows "charged e t = ue_quantity r" "journaled e t"
proof -
  have "filter (\<lambda>r. event_source r = append_source e) (usage_events s) = []"
    using assms(1) by (auto simp: journaled_def filter_empty_conv)
  then show "charged e t = ue_quantity r" "journaled e t"
    using assms(2,3) by (simp_all add: charged_def journaled_def)
qed

lemma not_journaled_charged: "\<not> journaled e s \<Longrightarrow> charged e s = 0"
proof -
  assume "\<not> journaled e s"
  then have "filter (\<lambda>r. event_source r = append_source e) (usage_events s) = []"
    by (auto simp: journaled_def filter_empty_conv)
  then show ?thesis by (simp add: charged_def)
qed

text \<open>An append in a transaction either leaves the journal as it is or adds one row under the source of its event.\<close>

lemma append_transaction:
  assumes inv: "usage_inv s" and valid: "usage_append_valid e"
    and run: "db_transaction outcome (append_tenant_usage_event e False) s = (r, t)"
  shows "usage_inv t \<and> drawn s t \<and> (\<forall>b. r = Inr b \<longrightarrow> journaled e t)
    \<and> (usage_events t = usage_events s \<or>
       \<not> journaled e s \<and> (\<exists>row. event_source row = append_source e \<and> ue_quantity row = ua_quantity e
         \<and> usage_events t = usage_events s @ [row]))"
proof -
  have ok: "usage_inv t \<and> drawn s t"
    using transaction_inv [OF inv keeps_drawn_journal(1), of e False outcome] append_keeps_inv [OF _ inv valid] run
    by (metis snd_conv)
  obtain r' t' where m: "append_tenant_usage_event e False s = (r', t')" by (cases "append_tenant_usage_event e False s")
  have kept: "usage_events (rollback s t') = usage_events s" by (simp add: rollback_def)
  have "(\<forall>b. r = Inr b \<longrightarrow> journaled e t) \<and> (usage_events t = usage_events s \<or>
       \<not> journaled e s \<and> (\<exists>row. event_source row = append_source e \<and> ue_quantity row = ua_quantity e
         \<and> usage_events t = usage_events s @ [row]))"
  proof (cases r')
    case (Inl err)
    with m run kept show ?thesis by (auto simp: db_transaction_def session_scope_def)
  next
    case (Inr b)
    with m have m': "append_tenant_usage_event e False s = (Inr b, t')" by simp
    have body: "journaled e t' \<and> (usage_events t' = usage_events s \<or>
       \<not> journaled e s \<and> (\<exists>row. event_source row = append_source e \<and> ue_quantity row = ua_quantity e
         \<and> usage_events t' = usage_events s @ [row]))"
      using append_Inr [OF m'] by (cases b) (auto simp: journaled_def Let_def image_iff)
    with m' run kept show ?thesis
      by (auto simp: db_transaction_def session_scope_def split: commit_outcome.splits)
  qed
  with ok show ?thesis by blast
qed

text \<open>Attempts to admit one request in failure mode \<open>closed\<close>, interleaved with the transactions of others. \<open>n\<close> counts the
  rows that the attempts wrote, and \<open>ok\<close> says whether an attempt returned, so that the handler may have run. No
  other transaction uses the source that this request has drawn from \<^verbatim>\<open>uuid4\<close>.\<close>

definition drawn_source :: "oidc_principal \<Rightarrow> db \<Rightarrow> usage_source" where
  "drawn_source p s = (sp_tenant_id p, usage_metric_value API_REQUEST, ''api_request_admission'', uuid_text (uuid_at s (uuid_n s)))"

inductive admission_run :: "admission_recorder \<Rightarrow> oidc_principal \<Rightarrow> admission \<Rightarrow> admission \<Rightarrow> nat \<Rightarrow> bool \<Rightarrow> bool"
  for rc p w0
where
  start: "admission_run rc p w0 w0 0 False"
| attempt: "admission_run rc p w0 w n ok \<Longrightarrow>
    (mr_usage_admission_event (am_request w) = None \<Longrightarrow>
       drawn_source p (am_db w) \<notin> set (map event_source (usage_events (am_db w)))) \<Longrightarrow>
    record_request_usage_admission (Some rc) ''closed'' outcome read_ok p w = (r, w') \<Longrightarrow>
    admission_run rc p w0 w' (n + (length (usage_events (am_db w')) - length (usage_events (am_db w)))) (ok \<or> r = Inr ())"
| others: "admission_run rc p w0 w n ok \<Longrightarrow> usage_transaction (am_db w) t \<Longrightarrow>
    (\<And>e. mr_usage_admission_event (am_request w) = Some e \<Longrightarrow> journaled e t \<Longrightarrow> journaled e (am_db w)) \<Longrightarrow>
    admission_run rc p w0 (w\<lparr>am_db := t\<rparr>) n ok"

definition request_event :: "oidc_principal \<Rightarrow> tenant_usage_event_append \<Rightarrow> bool" where
  "request_event p e \<longleftrightarrow> usage_append_valid e \<and> ua_tenant_id e = sp_tenant_id p
     \<and> ua_metric_key e = usage_metric_value API_REQUEST \<and> ua_quantity e = 1"

definition admission_inv :: "admission_recorder \<Rightarrow> oidc_principal \<Rightarrow> admission \<Rightarrow> nat \<Rightarrow> bool \<Rightarrow> bool" where
  "admission_inv rc p w n ok \<longleftrightarrow> usage_inv (am_db w) \<and> admission_metered rc (am_request w) \<and>
     (case mr_usage_admission_event (am_request w) of
        None \<Rightarrow> n = 0 \<and> \<not> mr_usage_admission_recorded (am_request w) \<and> \<not> ok
      | Some e \<Rightarrow> request_event p e \<and> int n = charged e (am_db w) \<and> charged e (am_db w) = (if journaled e (am_db w) then 1 else 0)
          \<and> (mr_usage_admission_recorded (am_request w) \<or> ok \<longrightarrow> journaled e (am_db w)))"

lemma prepare_admission_cases:
  assumes "prepare_admission_event rc p w = (r, w1)"
  shows "drawn (am_db w) (am_db w1) \<and> usage_records (am_db w1) = usage_records (am_db w)
    \<and> usage_events (am_db w1) = usage_events (am_db w)
    \<and> mr_usage_admission_recorded (am_request w1) = mr_usage_admission_recorded (am_request w)
    \<and> (\<forall>rc. admission_metered rc (am_request w1) = admission_metered rc (am_request w))
    \<and> (case mr_usage_admission_event (am_request w) of
        Some e \<Rightarrow> r = Inr e \<and> w1 = w
      | None \<Rightarrow>
          (case r of
            Inl err \<Rightarrow> mr_usage_admission_event (am_request w1) = None
          | Inr e \<Rightarrow> mr_usage_admission_event (am_request w1) = Some e \<and> request_event p e \<and> append_source e = drawn_source p (am_db w)))"
  using assms
  by (auto simp: prepare_admission_event_def Let_def admission_metered_def drawn_def checked_def request_event_def
      admission_event_def append_source_def drawn_source_def split: option.splits if_splits)

text \<open>What one attempt does once the event is prepared.\<close>

lemma attempt_recorded:
  assumes inv: "usage_inv s" and e: "request_event p e" and run: "db_transaction outcome (append_tenant_usage_event e False) s = (r, t)"
    and charge: "charged e s = (if journaled e s then 1 else 0)"
  shows "usage_inv t \<and> drawn s t \<and> (\<forall>b. r = Inr b \<longrightarrow> journaled e t)
    \<and> charged e t = (if journaled e t then 1 else 0) \<and> charged e t = charged e s + int (length (usage_events t) - length (usage_events s))
    \<and> (journaled e s \<longrightarrow> journaled e t)"
proof -
  have valid: "usage_append_valid e" "ua_quantity e = 1" using e by (simp_all add: request_event_def)
  note tx = append_transaction [OF inv valid(1) run]
  from tx consider (same) "usage_events t = usage_events s"
    | (new) row where "\<not> journaled e s" "event_source row = append_source e" "ue_quantity row = 1"
        "usage_events t = usage_events s @ [row]"
    using valid(2) by auto
  then show ?thesis
  proof cases
    case same
    then have "charged e t = charged e s" "journaled e t = journaled e s" by (simp_all add: charged_def journaled_def)
    with tx charge same show ?thesis by simp
  next
    case (new row)
    note row = charged_append [OF new(1,2,4)]
    with tx new charge show ?thesis by (simp add: not_journaled_charged)
  qed
qed

lemma exists_journaled: "event_exists_with_same_payload read_ok e s \<Longrightarrow> journaled e s"
  by (auto simp: event_exists_with_same_payload_def get_tenant_usage_event_by_source_def journaled_def event_source_def
      append_source_def split: option.splits dest!: first_row_filter_SomeD)

lemma attempt_inv:
  assumes inv: "admission_inv rc p w n ok"
    and fresh: "mr_usage_admission_event (am_request w) = None \<Longrightarrow>
       drawn_source p (am_db w) \<notin> set (map event_source (usage_events (am_db w)))"
    and run: "record_request_usage_admission (Some rc) ''closed'' outcome read_ok p w = (r, w')"
  shows "admission_inv rc p w' (n + (length (usage_events (am_db w')) - length (usage_events (am_db w)))) (ok \<or> r = Inr ())"
proof (cases "mr_usage_admission_recorded (am_request w)")
  case True
  then have "w' = w" using run inv by (auto simp: record_request_usage_admission_def record_admission_def admission_inv_def)
  with True inv show ?thesis by (auto simp: admission_inv_def split: option.splits)
next
  case False
  have metered: "admission_metered rc (am_request w)" using inv by (simp add: admission_inv_def)
  obtain r1 w1 where prep: "prepare_admission_event rc p w = (r1, w1)" by (cases "prepare_admission_event rc p w")
  note p1 = prepare_admission_cases [OF prep]
  have inv1: "usage_inv (am_db w1)" using p1 inv by (auto simp: admission_inv_def intro: usage_inv_cong)
  show ?thesis
  proof (cases r1)
    case (Inl err)
    then have "w' = w1" "r \<noteq> Inr ()" using run False metered prep
      by (auto simp: record_request_usage_admission_def record_admission_def)
    with p1 Inl inv inv1 show ?thesis by (auto simp: admission_inv_def split: option.splits)
  next
    case (Inr e)
    have e: "request_event p e" "mr_usage_admission_event (am_request w1) = Some e"
      using p1 inv Inr by (auto simp: admission_inv_def split: option.splits)
    have start: "charged e (am_db w1) = (if journaled e (am_db w1) then 1 else 0)" "int n = charged e (am_db w1)"
        "ok \<Longrightarrow> journaled e (am_db w1)"
    proof -
      have same: "charged e (am_db w1) = charged e (am_db w)" "journaled e (am_db w1) = journaled e (am_db w)"
        using p1 by (simp_all add: charged_def journaled_def)
      have "charged e (am_db w) = (if journaled e (am_db w) then 1 else 0) \<and> int n = charged e (am_db w) \<and> (ok \<longrightarrow> journaled e (am_db w))"
      proof (cases "mr_usage_admission_event (am_request w)")
        case None
        then have "\<not> journaled e (am_db w)" using fresh p1 Inr by (simp add: journaled_sources)
        with None inv show ?thesis by (simp add: admission_inv_def not_journaled_charged)
      next
        case (Some e')
        with p1 Inr inv show ?thesis by (auto simp: admission_inv_def)
      qed
      with same show "charged e (am_db w1) = (if journaled e (am_db w1) then 1 else 0)" "int n = charged e (am_db w1)"
        "ok \<Longrightarrow> journaled e (am_db w1)" by simp_all
    qed
    obtain r2 t where tx: "db_transaction outcome (append_tenant_usage_event e False) (am_db w1) = (r2, t)"
      by (cases "db_transaction outcome (append_tenant_usage_event e False) (am_db w1)")
    note done_ = attempt_recorded [OF inv1 e(1) tx start(1)]
    have w': "am_db w' = t \<and> mr_usage_admission_event (am_request w') = Some e
        \<and> admission_metered rc (am_request w') \<and> (r = Inr () \<or> mr_usage_admission_recorded (am_request w') \<longrightarrow> journaled e t)"
      using run False metered prep Inr tx e(2) done_ p1 exists_journaled [of read_ok e t]
      by (auto simp: record_request_usage_admission_def record_admission_def admission_metered_def Let_def
          split: sum.splits usage_error.splits if_splits)
    have len: "length (usage_events (am_db w1)) = length (usage_events (am_db w))" using p1 by simp
    show ?thesis
      using w' done_ start e(1) len by (auto simp: admission_inv_def)
  qed
qed

lemma admission_run_inv:
  assumes "admission_run rc p w0 w n ok" "admission_inv rc p w0 0 False"
  shows "admission_inv rc p w n ok"
  using assms
proof (induction rule: admission_run.induct)
  case (others w n ok t)
  then have inv: "admission_inv rc p w n ok" by simp
  then have u: "usage_inv (am_db w)" by (simp add: admission_inv_def)
  note step = usage_transaction_inv [OF others.hyps(2) u] usage_transaction_extends [OF others.hyps(2) u]
  have same: "charged e t = charged e (am_db w) \<and> journaled e t = journaled e (am_db w)"
    if "mr_usage_admission_event (am_request w) = Some e" for e
    using step that by (intro charged_extends others.hyps(3)) (auto dest: usage_invD(5))
  show ?case
    using inv step same by (auto simp: admission_inv_def split: option.splits)
qed (auto intro: attempt_inv)

section \<open>A concrete ledger\<close>

definition example_usage_start :: db where
  "example_usage_start = (empty_db int id)\<lparr>tenants := tenants example_provisioned_db\<rparr>"

definition example_usage_db :: db where
  "example_usage_db = snd (db_transaction Commits
     (record_tenant_usage_event (Some ''acme'') ''session_created'' 3 ''oidc_session'' ''s1'' 86400 (Some 90000000000) [])
     example_usage_start)"

definition example_pending_event :: tenant_usage_event_append where
  "example_pending_event = \<lparr>ua_event_id = 77, ua_tenant_id = ''acme'', ua_metric_key = ''session_created'',
     ua_source_type = ''oidc_session'', ua_source_id = ''s2'', ua_period_start = 86400000000,
     ua_period_window_seconds = 86400, ua_quantity = 2, ua_occurred_at = 86400000000, ua_dimensions = []\<rparr>"

definition example_pending_db :: db where
  "example_pending_db = snd (db_transaction CommitUnknown (append_tenant_usage_event example_pending_event False) example_usage_db)"

lemmas execute_usage = db_transaction_def session_scope_def record_tenant_usage_event_def append_tenant_usage_event_def
  insert_usage_event_def add_tenant_usage_def upsert_usage_def usage_append_valid_def usage_add_valid_def checked_def
  length_between_def usage_window_ok_def bigint_ok_def new_usage_event_def usage_add_of_append_def new_usage_record_def
  usage_period_start_def epoch_seconds_def example_usage_start_def empty_db_def event_source_def append_source_def
  usage_key_def add_key_def Let_def bind_op_def

lemma example_pending_valid: "usage_append_valid example_pending_event"
  by (simp add: execute_usage example_pending_event_def)

lemma example_usage_histories: "usage_history example_usage_start" "usage_history example_usage_db" "usage_history example_pending_db"
proof -
  have start: "usage_transaction\<^sup>*\<^sup>* (empty_db int id) example_usage_start"
    unfolding example_usage_start_def by (intro r_into_rtranclp elsewhere) (simp_all add: drawn_def)
  have recorded: "usage_transaction\<^sup>*\<^sup>* (empty_db int id) example_usage_db"
    using start recorded unfolding example_usage_db_def by (rule rtranclp.rtrancl_into_rtrancl)
  have pending: "usage_transaction\<^sup>*\<^sup>* (empty_db int id) example_pending_db"
    using recorded appended [OF example_pending_valid] unfolding example_pending_db_def by (rule rtranclp.rtrancl_into_rtrancl)
  show "usage_history example_usage_start" "usage_history example_usage_db" "usage_history example_pending_db"
    unfolding usage_history_def using start recorded pending inj_on_id by blast+
qed

lemma example_usage_rows:
  "map (\<lambda>r. (usage_key r, ur_quantity r)) (usage_records example_usage_db) = [((''acme'', ''session_created'', 86400, 86400000000), 3)]"
  "map (\<lambda>e. (event_key e, ue_quantity e)) (projected_usage example_usage_db) = [((''acme'', ''session_created'', 86400, 86400000000), 3)]"
  "tenants example_usage_db = tenants example_provisioned_db"
  by (simp_all add: example_usage_db_def execute_usage projected_usage_def event_key_def del: bind_op_Inr bind_op_Inl)

lemma example_pending_rows:
  "map (\<lambda>e. (ue_quantity e, ue_projected_at e = None)) (usage_events example_pending_db) = [(3, False), (2, True)]"
  by (simp add: example_pending_db_def example_pending_event_def example_usage_db_def execute_usage del: bind_op_Inr bind_op_Inl)

lemma example_usage_tenant: "get_tenant ''acme'' example_usage_db \<noteq> None"
  using example_provisioned_row by (auto simp: status_of_def get_tenant_def example_usage_rows(3) dest!: first_row_filter_SomeD)

section \<open>Properties\<close>

text \<open>C18. The rollup is exact at every moment of every history of appends and projections, whatever rows other projectors
  have locked and whatever becomes of a commit: a source is journalled once at most, there is one row per tenant,
  metric, window and period, and the row holds the sum of its projected events and the times of the first and the
  last. The report of a registered tenant is built, and its totals, per metric and per metric and period, are the
  sums of the projected events of the periods from the floored start to the end of the window.\<close>

theorem usage_ledger_exact:
  assumes "usage_history s"
  shows "distinct (map event_source (usage_events s)) \<and> distinct (map usage_key (usage_records s))
    \<and> (\<forall>r \<in> set (usage_records s).
         journal_bucket (projected_usage s) (usage_key r) = Some (ur_quantity r, ur_first_recorded_at r, ur_last_recorded_at r))
    \<and> (\<forall>e \<in> set (projected_usage s). event_key e \<in> usage_key ` set (usage_records s))
    \<and> (get_tenant tid s \<noteq> None \<longrightarrow> tid \<noteq> [] \<longrightarrow> 1 \<le> w \<longrightarrow>
        (\<exists>v. build_tenant_usage_summary tid start_at end_at w s = Inr v
          \<and> (\<forall>m. map_of (us_metric_totals v) m =
               usage_total (\<lambda>k. in_window tid w (usage_period_start start_at w) end_at k \<and> key_metric k = m) s)
          \<and> (\<forall>m p q. \<lparr>pt_metric_key = m, pt_period_start = p, pt_quantity = q\<rparr> \<in> set (us_periods v) \<longleftrightarrow>
               usage_total (\<lambda>k. in_window tid w (usage_period_start start_at w) end_at k \<and> key_metric k = m \<and> key_period k = p) s
                 = Some q)))"
proof -
  have inv: "usage_inv s" using assms by (rule usage_history_inv)
  show ?thesis
    using usage_invD(3,5) [OF inv] usage_record_bucket [OF inv] projected_has_record [OF inv]
    by (auto simp: build_tenant_usage_summary_def Let_def checked_def summary_valid [OF inv] metric_totals_exact [OF inv]
        periods_exact [OF inv])
qed

theorem usage_ledger_exact_witness:
  "\<exists>v. build_tenant_usage_summary ''acme'' 90000000000 172800000000 86400 example_usage_db = Inr v
    \<and> map_of (us_metric_totals v) ''session_created'' = Some 3"
proof -
  obtain e where e: "projected_usage example_usage_db = [e]" "event_key e = (''acme'', ''session_created'', 86400, 86400000000)"
      "ue_quantity e = 3"
    using example_usage_rows(2) by auto
  obtain v where "build_tenant_usage_summary ''acme'' 90000000000 172800000000 86400 example_usage_db = Inr v"
    "map_of (us_metric_totals v) ''session_created'' = usage_total (\<lambda>k. in_window ''acme'' 86400
       (usage_period_start 90000000000 86400) 172800000000 k \<and> key_metric k = ''session_created'') example_usage_db"
    using usage_ledger_exact [OF example_usage_histories(2), of "''acme''" 86400 90000000000 172800000000]
      example_usage_tenant by auto
  then show ?thesis
    by (auto simp: usage_total_def e in_window_def key_metric_def usage_period_start_def epoch_seconds_def Let_def)
qed

text \<open>C19. Nothing is lost: a tick of the projector with enough batches for the backlog, and whose transactions commit,
  projects every pending event and counts each once; the journal keeps every event with its payload, the rollup is
  then the sum of the whole journal, and the projector reports no backlog and no failure.\<close>

theorem projection_drains:
  assumes "usage_history (mt_db w)" and "journal_fits (mt_db w)"
    and "\<forall>i < max_batches. env i = (Commits, [])" and "0 < batch_size"
    and "length (pending_usage (mt_db w)) \<le> batch_size * max_batches"
  shows "\<exists>w'. project_available dialect env True batch_size max_batches w =
      (Inr \<lparr>pr_events_projected = length (pending_usage (mt_db w)),
            pr_quantity_projected = sum_list (map ue_quantity (pending_usage (mt_db w)))\<rparr>, w')
    \<and> usage_history (mt_db w') \<and> pending_usage (mt_db w') = []
    \<and> map unmarked (usage_events (mt_db w')) = map unmarked (usage_events (mt_db w))
    \<and> rolled_up (mt_db w') = journal_bucket (usage_events (mt_db w'))
    \<and> up_oldest_pending_at (mt_projector w') = None \<and> up_consecutive_failures (mt_projector w') = 0"
proof -
  have inv: "usage_inv (mt_db w)" using assms(1) by (rule usage_history_inv)
  obtain t where run: "project_batches dialect env batch_size max_batches \<lparr>pr_events_projected = 0, pr_quantity_projected = 0\<rparr> (mt_db w) =
      (Inr \<lparr>pr_events_projected = length (pending_usage (mt_db w)),
            pr_quantity_projected = sum_list (map ue_quantity (pending_usage (mt_db w)))\<rparr>, t)"
    and t: "usage_transaction\<^sup>*\<^sup>* (mt_db w) t" "pending_usage t = []" "map unmarked (usage_events t) = map unmarked (usage_events (mt_db w))"
    using project_batches_drain [OF inv assms(2) _ assms(4,5), of env dialect "\<lparr>pr_events_projected = 0, pr_quantity_projected = 0\<rparr>"]
      assms(3) by auto
  let ?t = "t\<lparr>clock_n := Suc (clock_n t)\<rparr>"
  have "usage_transaction t ?t" by (intro elsewhere) simp_all
  then have hist: "usage_history ?t"
    using assms(1) t(1) unfolding usage_history_def by (meson rtranclp.rtrancl_into_rtrancl rtranclp_trans)
  have "projected_usage ?t = usage_events ?t"
    using t(2) by (simp add: projected_usage_def pending_usage_def select_where_def filter_empty_conv filter_id_conv)
  then have "rolled_up ?t = journal_bucket (usage_events ?t)"
    using usage_invD(7) [OF usage_history_inv [OF hist]] by simp
  with hist t show ?thesis
    by (simp add: project_available_def run projection_succeeded_def oldest_pending_tenant_usage_event_at_def)
qed

theorem projection_drains_witness:
  "\<exists>w'. project_available ''postgresql'' (\<lambda>_. (Commits, [])) True 500 10
      \<lparr>mt_db = example_pending_db, mt_projector = new_projector 3 60\<rparr> =
      (Inr \<lparr>pr_events_projected = 1, pr_quantity_projected = 2\<rparr>, w')
    \<and> pending_usage (mt_db w') = []"
proof -
  let ?w = "\<lparr>mt_db = example_pending_db, mt_projector = new_projector 3 60\<rparr>"
  obtain e1 e2 where events: "usage_events example_pending_db = [e1, e2]" "ue_quantity e1 = 3" "ue_quantity e2 = 2"
      "ue_projected_at e1 \<noteq> None" "ue_projected_at e2 = None"
    using example_pending_rows by auto
  then have pending: "pending_usage example_pending_db = [e2]" by (simp add: pending_usage_def)
  have "journal_fits example_pending_db" by (simp add: journal_fits_def events)
  then show ?thesis
    using projection_drains [of ?w 10 "\<lambda>_. (Commits, [])" 500 "''postgresql''"] example_usage_histories(3)
    by (auto simp: pending events(3))
qed

definition example_recorder :: admission_recorder where
  "example_recorder = \<lparr>rr_enabled = True, rr_window_seconds = 86400\<rparr>"

definition example_metered_request :: metered_request where
  "example_metered_request = \<lparr>hr_method = ''GET'', hr_path = ''/x'', mr_route = Some ''/x'', mr_rate_limit_admitted = True,
     mr_usage_admission_recorded = False, mr_usage_admission_event = None\<rparr>"

definition example_caller :: oidc_principal where
  "example_caller = \<lparr>sp_tenant_id = ''acme'', sp_actor_id = ''olga'', sp_scopes = [], op_expires_at = None,
     op_subject_id = None, op_session_source = ''bearer''\<rparr>"

definition example_admission :: admission where
  "example_admission = \<lparr>am_db = example_usage_start, am_request = example_metered_request\<rparr>"

lemma length_uuid_text [simp]: "length (uuid_text u) = 36"
  by (simp add: uuid_text_def Let_def)

lemmas execute_admission = record_request_usage_admission_def record_admission_def prepare_admission_event_def
  admission_event_def admission_metered_def METERING_EXCLUDED_PATHS_def event_exists_with_same_payload_def
  get_tenant_usage_event_by_source_def same_usage_payload_def example_recorder_def example_metered_request_def
  example_caller_def example_admission_def json_num_def

lemma example_attempts:
  "drawn_source example_caller (am_db example_admission) \<notin> set (map event_source (usage_events (am_db example_admission)))"
  "mr_usage_admission_event (am_request (snd (record_request_usage_admission (Some example_recorder) ''closed'' CommitUnknown False
     example_caller example_admission))) \<noteq> None"
  "fst (record_request_usage_admission (Some example_recorder) ''closed'' Commits True example_caller
     (snd (record_request_usage_admission (Some example_recorder) ''closed'' CommitUnknown False example_caller example_admission))) = Inr ()"
  "admission_metered example_recorder (am_request example_admission)"
  "\<not> mr_usage_admission_recorded (am_request example_admission)" "mr_usage_admission_event (am_request example_admission) = None"
  by (simp_all add: execute_admission execute_usage del: bind_op_Inr bind_op_Inl)

text \<open>C20. With failure mode closed a request is metered exactly once: over any number of attempts, each with any outcome of
  its commit and of the read that reconciles it, and any transactions of others in between, the attempts write one
  row at most, and when one of them returned, so that the handler may run, the journal charges the tenant of the
  principal one request under the source of this request.\<close>

theorem request_metered_once:
  assumes "usage_history (am_db w0)" and "admission_metered rc (am_request w0)"
    and "\<not> mr_usage_admission_recorded (am_request w0)" and "mr_usage_admission_event (am_request w0) = None"
    and "admission_run rc p w0 w n ok"
  shows "n \<le> 1 \<and> (ok \<longrightarrow> n = 1)
    \<and> (n = 1 \<longrightarrow> (\<exists>e. mr_usage_admission_event (am_request w) = Some e \<and> request_event p e \<and> charged e (am_db w) = 1))"
proof -
  have "admission_inv rc p w0 0 False"
    using usage_history_inv [OF assms(1)] assms(2-4) by (simp add: admission_inv_def)
  then have "admission_inv rc p w n ok" using assms(5) by (rule admission_run_inv [rotated])
  then show ?thesis by (auto simp: admission_inv_def split: option.splits if_splits)
qed

theorem request_metered_once_witness:
  "\<exists>w. admission_run example_recorder example_caller example_admission w 1 True"
proof -
  let ?w1 = "snd (record_request_usage_admission (Some example_recorder) ''closed'' CommitUnknown False example_caller example_admission)"
  let ?w2 = "snd (record_request_usage_admission (Some example_recorder) ''closed'' Commits True example_caller ?w1)"
  have "\<exists>n ok. admission_run example_recorder example_caller example_admission ?w1 n ok"
    using example_attempts(1) by (blast intro: attempt [OF start] surjective_pairing)
  then obtain n ok where one: "admission_run example_recorder example_caller example_admission ?w1 n ok" by blast
  have two: "admission_run example_recorder example_caller example_admission ?w2
      (n + (length (usage_events (am_db ?w2)) - length (usage_events (am_db ?w1)))) (ok \<or> Inr () = (Inr () :: route_error + unit))"
    using example_attempts(2,3) by (intro attempt [OF one]) (simp_all add: prod_eq_iff)
  have "usage_history (am_db example_admission)" by (simp add: example_admission_def example_usage_histories)
  from request_metered_once [OF this example_attempts(4,5,6) two] two show ?thesis by (metis (full_types))
qed

end
