(* ===== verification/Rate_Limit.thy ===== *)
theory Rate_Limit
  imports Browser_Sessions
begin

text \<open>
  The rate limiting of requests (\<^verbatim>\<open>rate_limit.py\<close>): the fixed-window limiter of one process, the decision on the
  reply of the shared one, and the middleware that finds the tenant of a request, its quota and its key. The clock of the
  limiter is the monotonic clock of the process, in seconds, given to each check. The lemmas show that the table of buckets,
  its pruning included, is an independent window counter for each key, and that metering sees exactly the forwarded requests.
\<close>

section \<open>The limiter of one process\<close>

record rate_limit_decision =
  rd_allowed :: bool
  rd_limit :: int
  rd_remaining :: int
  rd_retry_after_seconds :: int
  rd_reset_seconds :: int

record rate_limit_bucket =
  rb_window_started_at :: pyfloat
  rb_request_count :: int

record rate_limiter =
  rl_limit :: int
  rl_window_seconds :: int
  rl_buckets :: "(string \<times> rate_limit_bucket) list"
  rl_checks :: nat

definition new_rate_limiter :: "int \<Rightarrow> int \<Rightarrow> rate_limiter" where
  "new_rate_limiter limit window_seconds =
     \<lparr>rl_limit = max 1 limit, rl_window_seconds = max 1 window_seconds, rl_buckets = [], rl_checks = 0\<rparr>"

definition window_open :: "int \<Rightarrow> pyfloat \<Rightarrow> rate_limit_bucket \<Rightarrow> bool" where
  "window_open window_seconds observed_at b \<longleftrightarrow> observed_at - rb_window_started_at b < of_int window_seconds"

definition prune_buckets :: "pyfloat \<Rightarrow> rate_limiter \<Rightarrow> (string \<times> rate_limit_bucket) list" where
  "prune_buckets observed_at l =
     (if Suc (rl_checks l) mod 256 = 0
      then filter (\<lambda>(key, b). window_open (rl_window_seconds l) observed_at b) (rl_buckets l) else rl_buckets l)"

definition current_bucket :: "int \<Rightarrow> pyfloat \<Rightarrow> rate_limit_bucket option \<Rightarrow> rate_limit_bucket" where
  "current_bucket window_seconds observed_at b =
     (case b of
        Some bucket \<Rightarrow>
          if window_open window_seconds observed_at bucket then bucket
          else \<lparr>rb_window_started_at = observed_at, rb_request_count = 0\<rparr>
      | None \<Rightarrow> \<lparr>rb_window_started_at = observed_at, rb_request_count = 0\<rparr>)"

definition reset_seconds :: "int \<Rightarrow> pyfloat \<Rightarrow> rate_limit_bucket \<Rightarrow> int" where
  "reset_seconds window_seconds observed_at b =
     (let elapsed_seconds = max 0 (observed_at - rb_window_started_at b)
      in max 1 \<lceil>of_int window_seconds - elapsed_seconds\<rceil>)"

text \<open>\<^verbatim>\<open>_check_locked\<close> at the reading \<open>observed_at\<close> of the monotonic clock.\<close>

definition check_locked :: "string \<Rightarrow> int \<Rightarrow> pyfloat \<Rightarrow> (rate_limiter, 'e, rate_limit_decision) op" where
  "check_locked key limit observed_at l =
     (let effective_limit = max 1 limit;
          pruned = prune_buckets observed_at l;
          bucket = current_bucket (rl_window_seconds l) observed_at (map_of pruned key);
          reset = reset_seconds (rl_window_seconds l) observed_at bucket;
          counted = l\<lparr>rl_checks := Suc (rl_checks l)\<rparr>
      in if effective_limit \<le> rb_request_count bucket then
           (Inr \<lparr>rd_allowed = False, rd_limit = effective_limit, rd_remaining = 0, rd_retry_after_seconds = reset,
                 rd_reset_seconds = reset\<rparr>,
            counted\<lparr>rl_buckets := AList.update key bucket pruned\<rparr>)
         else
           let admitted = bucket\<lparr>rb_request_count := rb_request_count bucket + 1\<rparr>
           in (Inr \<lparr>rd_allowed = True, rd_limit = effective_limit,
                 rd_remaining = max 0 (effective_limit - rb_request_count admitted), rd_retry_after_seconds = 0,
                 rd_reset_seconds = reset\<rparr>,
               counted\<lparr>rl_buckets := AList.update key admitted pruned\<rparr>))"

section \<open>The shared limiter\<close>

text \<open>The reply of the script that increments the counter of a window in Redis: the count and the time to live in
  milliseconds. No reply is an error of the client.\<close>

datatype rate_error = RateLimitBackendError | RateSession session_error

definition redis_check :: "(int \<times> int) option \<Rightarrow> int \<Rightarrow> rate_error + rate_limit_decision" where
  "redis_check reply limit =
     (case reply of
        None \<Rightarrow> Inl RateLimitBackendError
      | Some (request_count, ttl) \<Rightarrow>
          let effective_limit = max 1 limit;
              ttl_ms = max 1 ttl;
              reset = max 1 \<lceil>(of_int ttl_ms / 1000 :: pyfloat)\<rceil>;
              allowed = (request_count \<le> effective_limit)
          in Inr \<lparr>rd_allowed = allowed, rd_limit = effective_limit, rd_remaining = max 0 (effective_limit - request_count),
                 rd_retry_after_seconds = (if allowed then 0 else reset), rd_reset_seconds = reset\<rparr>)"

section \<open>The middleware\<close>

record rate_settings =
  rs_enabled :: bool
  rs_requests :: int
  rs_window_seconds :: int
  rs_paths :: "string list"
  rs_failure_mode :: string

text \<open>The backend: the limiter of the process at a reading of the clock, or what Redis replies.\<close>

datatype rate_backend = InMemory pyfloat | Redis "(int \<times> int) option"

record rate_world =
  tw_request :: request_world
  tw_limiter :: rate_limiter

datatype rate_response =
    Forwarded "(string \<times> string) list"
  | Refused nat dict "(string \<times> string) list"

definition RATE_LIMIT_EXCLUDED_PATHS :: "string list" where "RATE_LIMIT_EXCLUDED_PATHS = [''/health'']"

definition should_limit :: "rate_settings \<Rightarrow> browser_request \<Rightarrow> bool" where
  "should_limit rs request \<longleftrightarrow> rs_enabled rs \<and> hr_method request \<noteq> ''OPTIONS''
     \<and> hr_path request \<notin> set RATE_LIMIT_EXCLUDED_PATHS
     \<and> (''*'' \<in> set (rs_paths rs) \<or> hr_path request \<in> set (rs_paths rs))"

definition rate_limit_key :: "browser_request \<Rightarrow> string" where
  "rate_limit_key request =
     (case br_client_host request of None \<Rightarrow> ''unknown'' | Some host \<Rightarrow> host)
       @ '':'' @ hr_method request @ '':'' @ hr_path request"

definition rate_limit_headers :: "rate_limit_decision \<Rightarrow> (string \<times> string) list" where
  "rate_limit_headers d =
     [(''X-RateLimit-Limit'', int_text (rd_limit d)), (''X-RateLimit-Remaining'', int_text (rd_remaining d)),
      (''X-RateLimit-Reset'', int_text (rd_reset_seconds d))]
     @ (if rd_allowed d then [] else [(''Retry-After'', int_text (rd_retry_after_seconds d))])"

definition on_request :: "(request_world, session_error, 'a) op \<Rightarrow> (rate_world, rate_error, 'a) op" where
  "on_request m w =
     (case m (tw_request w) of
        (Inl e, q) \<Rightarrow> (Inl (RateSession e), w\<lparr>tw_request := q\<rparr>)
      | (Inr x, q) \<Rightarrow> (Inr x, w\<lparr>tw_request := q\<rparr>))"

definition persisted_session_tenant ::
  "crypto \<Rightarrow> session_settings \<Rightarrow> tenant_settings \<Rightarrow> oidc_session_cookie \<Rightarrow> (request_world, session_error, string option) op"
where
  "persisted_session_tenant cy st cfg cookie =
     bind_op (on_db (of_result (session_id_hash cy st (ok_session_id cookie)))) (\<lambda>session_hash.
     in_session cfg
       (bind_op (get_op (get_oidc_browser_session_by_hash session_hash)) (\<lambda>stored.
        case stored of
          None \<Rightarrow> return_op None
        | Some row \<Rightarrow>
            if bs_tenant_id row \<noteq> ok_tenant_id cookie \<or> bs_actor_id row \<noteq> ok_actor_id cookie then return_op None
            else
              bind_op (browser_session_is_active st row) (\<lambda>live.
              return_op (if live then Some (ok_tenant_id cookie) else None)))))"

definition verified_tenant ::
  "crypto \<Rightarrow> session_settings \<Rightarrow> tenant_settings \<Rightarrow> identity_provider \<Rightarrow> browser_request \<Rightarrow>
   (request_world, session_error, string option) op"
where
  "verified_tenant cy st cfg ip request =
     (case nonempty (br_authorization request) of
        Some authorization \<Rightarrow>
          (case ip_verify ip authorization of
             Inl (OidcAuthenticationError _) \<Rightarrow> return_op None
           | Inl e \<Rightarrow> raise_op (OidcVerifierError e)
           | Inr p \<Rightarrow> bind_op (put_op (\<lambda>w. w\<lparr>rw_principal := Some p\<rparr>)) (\<lambda>_. return_op (Some (sp_tenant_id p))))
      | None \<Rightarrow>
          (case nonempty (br_session_cookie request) of
             None \<Rightarrow> return_op None
           | Some cookie \<Rightarrow>
               bind_op (catch_op (bind_op (on_db (read_session_cookie cy st (Some cookie))) (\<lambda>c. return_op (Some c)))
                 (\<lambda>e. case e of
                    OidcCodeFlowConfigurationError _ \<Rightarrow> return_op None
                  | OidcCookieValidationError _ \<Rightarrow> return_op None
                  | _ \<Rightarrow> raise_op e)) (\<lambda>found.
               case found of None \<Rightarrow> return_op None | Some c \<Rightarrow> persisted_session_tenant cy st cfg c)))"

text \<open>A failed lookup of the quota falls back to the general limit.\<close>

definition tenant_request_limit :: "tenant_settings \<Rightarrow> pyfloat \<Rightarrow> string option \<Rightarrow> (request_world, session_error, int option) op" where
  "tenant_request_limit cfg observed_at tenant_id w =
     (case tenant_id of
        None \<Rightarrow> (Inr None, w)
      | Some tenant \<Rightarrow>
          (case cache_snapshot cfg observed_at tenant (rw_app w) of
             (Inl DatabaseUnavailable, a) \<Rightarrow> (Inr None, w\<lparr>rw_app := a\<rparr>)
           | (Inl e, a) \<Rightarrow> (Inl (SessionRoute e), w\<lparr>rw_app := a\<rparr>)
           | (Inr snapshot, a) \<Rightarrow>
               (Inr (map_of (sn_quotas snapshot) (quota_key_value API_REQUESTS_PER_WINDOW)), w\<lparr>rw_app := a\<rparr>)))"

definition backend_check :: "rate_backend \<Rightarrow> string \<Rightarrow> int \<Rightarrow> (rate_world, rate_error, rate_limit_decision) op" where
  "backend_check backend key limit w =
     (case backend of
        Redis reply \<Rightarrow> (redis_check reply limit, w)
      | InMemory observed_at \<Rightarrow>
          (case check_locked key limit observed_at (tw_limiter w) of (r, l) \<Rightarrow> (r, w\<lparr>tw_limiter := l\<rparr>)))"

definition mark_admitted :: "(rate_world, rate_error, unit) op" where
  "mark_admitted = put_op (\<lambda>w. w\<lparr>tw_request := (tw_request w)\<lparr>rw_metered :=
     (rw_metered (tw_request w))\<lparr>mr_rate_limit_admitted := True\<rparr>\<rparr>\<rparr>)"

definition rate_limited :: "rate_settings \<Rightarrow> string \<Rightarrow> rate_limit_decision \<Rightarrow> rate_response" where
  "rate_limited rs scope d =
     Refused 429
       [(''code'', JStr ''RATE_LIMITED''),
        (''message'', JStr (if scope = ''tenant_quota'' then ''Tenant request quota exceeded.''
                            else ''Too many requests for this endpoint.'')),
        (''limit'', JInt (rd_limit d)), (''window_seconds'', JInt (max 1 (rs_window_seconds rs))),
        (''retry_after_seconds'', JInt (rd_retry_after_seconds d)), (''scope'', JStr scope)]
       (rate_limit_headers d)"

definition backend_unavailable :: rate_response where
  "backend_unavailable =
     Refused 503
       [(''code'', JStr ''CONTROL_PLANE_UNAVAILABLE''),
        (''message'', JStr ''Request admission control is temporarily unavailable.''),
        (''reason'', JStr ''rate_limit_backend_unavailable'')] []"

text \<open>The key, the limit and the scope that a request is counted under.\<close>

definition rate_scope :: "rate_settings \<Rightarrow> browser_request \<Rightarrow> string option \<Rightarrow> int option \<Rightarrow> string \<times> int \<times> string" where
  "rate_scope rs request tenant_id tenant_limit =
     (case (tenant_id, tenant_limit) of
        (Some tenant, Some limit) \<Rightarrow> (''tenant:'' @ tenant, limit, ''tenant_quota'')
      | _ \<Rightarrow> (rate_limit_key request, rs_requests rs, ''client_endpoint''))"

definition dispatch ::
  "crypto \<Rightarrow> session_settings \<Rightarrow> tenant_settings \<Rightarrow> rate_settings \<Rightarrow> identity_provider \<Rightarrow> rate_backend \<Rightarrow> pyfloat \<Rightarrow>
   browser_request \<Rightarrow> (rate_world, rate_error, rate_response) op"
where
  "dispatch cy st cfg rs ip backend cache_at request =
     (if \<not> should_limit rs request then bind_op mark_admitted (\<lambda>_. return_op (Forwarded []))
      else
        bind_op (on_request (verified_tenant cy st cfg ip request)) (\<lambda>tenant_id.
        bind_op (on_request (tenant_request_limit cfg cache_at tenant_id)) (\<lambda>tenant_limit.
        case rate_scope rs request tenant_id tenant_limit of (key, limit, scope) \<Rightarrow>
        (\<lambda>w. case backend_check backend key limit w of
           (Inl RateLimitBackendError, w') \<Rightarrow>
             if rs_failure_mode rs = ''open'' then bind_op mark_admitted (\<lambda>_. return_op (Forwarded [])) w'
             else (Inr backend_unavailable, w')
         | (Inl e, w') \<Rightarrow> (Inl e, w')
         | (Inr d, w') \<Rightarrow>
             if \<not> rd_allowed d then (Inr (rate_limited rs scope d), w')
             else bind_op mark_admitted (\<lambda>_. return_op (Forwarded (rate_limit_headers d))) w'))))"

section \<open>Fixed windows\<close>

text \<open>A check is its key, its limit and its time. The decisions of the limiter on a list of checks, and the reference: one
  counter for each key, without the table and without pruning.\<close>

type_synonym rate_check = "string \<times> int \<times> pyfloat"

fun decisions :: "rate_limiter \<Rightarrow> rate_check list \<Rightarrow> rate_limit_decision list" where
  "decisions l [] = []"
| "decisions l ((key, limit, t) # checks) =
     (case check_locked key limit t l :: (unit + _) \<times> _ of
        (Inr d, l') \<Rightarrow> d # decisions l' checks
      | (Inl _, _) \<Rightarrow> [])"

definition counted_bucket :: "int \<Rightarrow> int \<Rightarrow> pyfloat \<Rightarrow> rate_limit_bucket option \<Rightarrow> bool \<times> rate_limit_bucket" where
  "counted_bucket window limit t b =
     (let c = current_bucket window t b in
      if max 1 limit \<le> rb_request_count c then (False, c) else (True, c\<lparr>rb_request_count := rb_request_count c + 1\<rparr>))"

fun fixed_window :: "int \<Rightarrow> rate_limit_bucket option \<Rightarrow> (int \<times> pyfloat) list \<Rightarrow> bool list" where
  "fixed_window window b [] = []"
| "fixed_window window b ((limit, t) # checks) =
     (case counted_bucket window limit t b of (v, c) \<Rightarrow> v # fixed_window window (Some c) checks)"

definition verdicts :: "string \<Rightarrow> rate_check list \<Rightarrow> rate_limit_decision list \<Rightarrow> bool list" where
  "verdicts key checks ds = map (\<lambda>(x, d). rd_allowed d) (filter (\<lambda>(x, d). fst x = key) (zip checks ds))"

definition checks_of :: "string \<Rightarrow> rate_check list \<Rightarrow> (int \<times> pyfloat) list" where
  "checks_of key checks = map snd (filter (\<lambda>x. fst x = key) checks)"

text \<open>The bucket of the table stands for the reference counter: it is the same, or it is gone because its window is over.\<close>

definition stands_for :: "int \<Rightarrow> pyfloat \<Rightarrow> rate_limit_bucket option \<Rightarrow> rate_limit_bucket option \<Rightarrow> bool" where
  "stands_for window now stored b \<longleftrightarrow>
     stored = b \<or> stored = None \<and> (\<forall>c. b = Some c \<longrightarrow> of_int window \<le> now - rb_window_started_at c)"

lemma stands_for_later: "stands_for window now stored b \<Longrightarrow> now \<le> t \<Longrightarrow> stands_for window t stored b"
  by (auto simp: stands_for_def intro: order.trans)

lemma stands_for_current:
  "stands_for window now stored b \<Longrightarrow> now \<le> t \<Longrightarrow> current_bucket window t stored = current_bucket window t b"
  by (auto simp: stands_for_def current_bucket_def window_open_def split: option.split)

lemma map_of_prune:
  assumes "stands_for (rl_window_seconds l) now (map_of (rl_buckets l) key) b" "now \<le> t" "distinct (map fst (rl_buckets l))"
  shows "stands_for (rl_window_seconds l) t (map_of (prune_buckets t l) key) b"
proof -
  have "map_of (filter (\<lambda>(key, b). p b) xs) key = (case map_of xs key of Some c \<Rightarrow> if p c then Some c else None | None \<Rightarrow> None)"
    if "distinct (map fst xs)" for p and xs :: "(string \<times> rate_limit_bucket) list"
    using that by (induction xs) (auto split: option.split simp: map_of_eq_None_iff)
  then show ?thesis
    using assms stands_for_later [OF assms(1,2)]
    by (auto simp: prune_buckets_def stands_for_def window_open_def split: option.split)
qed

lemma distinct_prune: "distinct (map fst (rl_buckets l)) \<Longrightarrow> distinct (map fst (prune_buckets t l))"
  by (auto simp: prune_buckets_def distinct_map_filter)

lemma check_locked_bucket:
  "\<exists>d. check_locked key limit t l = (Inr d, l\<lparr>rl_checks := Suc (rl_checks l), rl_buckets := AList.update key
        (snd (counted_bucket (rl_window_seconds l) limit t (map_of (prune_buckets t l) key))) (prune_buckets t l)\<rparr>)
     \<and> rd_allowed d = fst (counted_bucket (rl_window_seconds l) limit t (map_of (prune_buckets t l) key))"
  by (auto simp: check_locked_def counted_bucket_def Let_def)

lemma decisions_fixed_window:
  assumes "distinct (map fst (rl_buckets l))" "rl_window_seconds l = window"
    "stands_for window now (map_of (rl_buckets l) key) b" "sorted (map (snd \<circ> snd) checks)"
    "\<forall>x \<in> set checks. now \<le> snd (snd x)"
  shows "verdicts key checks (decisions l checks) = fixed_window window b (checks_of key checks)"
  using assms
proof (induction checks arbitrary: l now b)
  case Nil
  then show ?case by (simp add: verdicts_def checks_of_def)
next
  case (Cons x checks)
  obtain k limit t where x: "x = (k, limit, t)" by (cases x)
  let ?pruned = "prune_buckets t l"
  let ?c = "counted_bucket window limit t (map_of ?pruned k)"
  let ?l = "l\<lparr>rl_checks := Suc (rl_checks l), rl_buckets := AList.update k (snd ?c) ?pruned\<rparr>"
  obtain d where d: "check_locked k limit t l = (Inr d :: unit + _, ?l)" "rd_allowed d = fst ?c"
    using check_locked_bucket [of k limit t l] Cons.prems(2) by blast
  have now: "now \<le> t" using Cons.prems(5) x by simp
  have pruned: "stands_for window t (map_of ?pruned key) b"
    using map_of_prune [of l now key b t] Cons.prems(1-3) now by simp
  have times: "\<forall>y \<in> set checks. t \<le> snd (snd y)" "sorted (map (snd \<circ> snd) checks)"
    using Cons.prems(4) x by (auto simp: comp_def)
  have dist: "distinct (map fst (rl_buckets ?l))"
    using distinct_prune [OF Cons.prems(1), of t] by (simp add: distinct_update)
  show ?case
  proof (cases "k = key")
    case True
    have "?c = counted_bucket window limit t b"
      using stands_for_current [OF pruned order.refl] True by (simp add: counted_bucket_def)
    moreover have "verdicts key checks (decisions ?l checks) = fixed_window window (Some (snd ?c)) (checks_of key checks)"
      by (rule Cons.IH [OF dist _ _ times(2,1)]) (use True Cons.prems(2) in \<open>simp_all add: update_conv' stands_for_def\<close>)
    ultimately show ?thesis
      using d True by (simp add: x verdicts_def checks_of_def split: prod.split)
  next
    case False
    have "verdicts key checks (decisions ?l checks) = fixed_window window b (checks_of key checks)"
      by (rule Cons.IH [OF dist _ _ times(2,1)]) (use False Cons.prems(2) pruned in \<open>simp_all add: update_conv'\<close>)
    then show ?thesis using d False by (simp add: x verdicts_def checks_of_def)
  qed
qed

text \<open>How many of the checks of a time interval the reference admits.\<close>

definition admitted_within :: "pyfloat \<Rightarrow> pyfloat \<Rightarrow> (int \<times> pyfloat) list \<Rightarrow> bool list \<Rightarrow> nat" where
  "admitted_within a b checks vs = length (filter (\<lambda>((limit, t), v). v \<and> a \<le> t \<and> t < b) (zip checks vs))"

definition still_admitted :: "int \<Rightarrow> pyfloat \<Rightarrow> pyfloat \<Rightarrow> rate_limit_bucket \<Rightarrow> int" where
  "still_admitted m a now b =
     (if a \<le> rb_window_started_at b then m - rb_request_count b
      else if a \<le> now then 2 * m - rb_request_count b else 2 * m)"

lemma admitted_Cons:
  "admitted_within a b ((limit, t) # checks) (v # vs) = (if v \<and> a \<le> t \<and> t < b then 1 else 0) + admitted_within a b checks vs"
  by (simp add: admitted_within_def)

lemma admitted_beyond: "\<forall>x \<in> set checks. b \<le> snd x \<Longrightarrow> admitted_within a b checks vs = 0"
  by (auto simp: admitted_within_def filter_empty_conv dest!: set_zip_leftD)

lemma fixed_window_bound:
  assumes "0 < window" "1 \<le> m" "\<forall>x \<in> set checks. fst x \<le> m \<and> now \<le> snd x" "sorted (map snd checks)"
    "0 \<le> rb_request_count c" "rb_request_count c \<le> m" "rb_window_started_at c \<le> now"
  shows "int (admitted_within a (a + of_int window) checks (fixed_window window (Some c) checks)) \<le> still_admitted m a now c"
  using assms
proof (induction checks arbitrary: c now)
  case Nil
  then show ?case by (auto simp: admitted_within_def still_admitted_def)
next
  case (Cons x checks)
  obtain limit t where x: "x = (limit, t)" by (cases x)
  have t: "now \<le> t" "max 1 limit \<le> m" using Cons.prems(2,3) by (auto simp: x)
  have later: "\<forall>y \<in> set checks. fst y \<le> m \<and> t \<le> snd y" "sorted (map snd checks)" using Cons.prems(3,4) by (auto simp: x)
  obtain v c' where step: "counted_bucket window limit t (Some c) = (v, c')" by fastforce
  show ?case
  proof (cases "window_open window t c")
    case True
    then have c': "rb_window_started_at c' = rb_window_started_at c" "rb_request_count c' = rb_request_count c + (if v then 1 else 0)"
      "rb_request_count c' \<le> m"
      using step t(2) Cons.prems(6) by (auto simp: counted_bucket_def current_bucket_def Let_def split: if_splits)
    have "int (admitted_within a (a + of_int window) checks (fixed_window window (Some c') checks)) \<le> still_admitted m a t c'"
      using Cons.IH [OF Cons.prems(1,2) later, of c'] Cons.prems(5,7) c' t(1) by simp
    then show ?thesis
      using c' t(1) Cons.prems(5,6) unfolding x fixed_window.simps step prod.case admitted_Cons
      by (auto simp: still_admitted_def split: if_splits)
  next
    case False
    then have past: "rb_window_started_at c + of_int window \<le> t" by (simp add: window_open_def)
    have c': "rb_window_started_at c' = t" "rb_request_count c' = (if v then 1 else 0)" "v"
      using step False Cons.prems(2) by (auto simp: counted_bucket_def current_bucket_def Let_def split: if_splits)
    show ?thesis
    proof (cases "a \<le> rb_window_started_at c")
      case True
      then have "a + of_int window \<le> t" using past by linarith
      moreover have "admitted_within a (a + of_int window) checks (fixed_window window (Some c') checks) = 0"
        using calculation later(1) by (intro admitted_beyond) auto
      ultimately show ?thesis
        using True Cons.prems(6) unfolding x fixed_window.simps step prod.case admitted_Cons by (simp add: still_admitted_def)
    next
      case False
      have "int (admitted_within a (a + of_int window) checks (fixed_window window (Some c') checks)) \<le> still_admitted m a t c'"
        using Cons.IH [OF Cons.prems(1,2) later, of c'] Cons.prems(2) c' by simp
      then show ?thesis
        using False c' t(1) Cons.prems(2,6) unfolding x fixed_window.simps step prod.case admitted_Cons
        by (auto simp: still_admitted_def split: if_splits)
    qed
  qed
qed

lemma fixed_window_None:
  assumes "0 < window"
  shows "fixed_window window None ((limit, t) # checks) =
    fixed_window window (Some \<lparr>rb_window_started_at = t, rb_request_count = 0\<rparr>) ((limit, t) # checks)"
  using assms by (simp add: counted_bucket_def current_bucket_def window_open_def)

lemma fixed_window_bound_fresh:
  assumes "0 < window" "1 \<le> m" "\<forall>x \<in> set checks. fst x \<le> m" "sorted (map snd checks)"
  shows "int (admitted_within a (a + of_int window) checks (fixed_window window None checks)) \<le> 2 * m"
proof (cases checks)
  case Nil
  then show ?thesis using assms(2) by (simp add: admitted_within_def)
next
  case (Cons x rest)
  obtain limit t where x: "x = (limit, t)" by (cases x)
  have "int (admitted_within a (a + of_int window) checks
      (fixed_window window (Some \<lparr>rb_window_started_at = t, rb_request_count = 0\<rparr>) checks))
    \<le> still_admitted m a t \<lparr>rb_window_started_at = t, rb_request_count = 0\<rparr>"
    by (rule fixed_window_bound) (use assms in \<open>auto simp: Cons x\<close>)
  also have "\<dots> \<le> 2 * m" using assms(2) by (simp add: still_admitted_def)
  finally show ?thesis unfolding Cons x fixed_window_None [OF assms(1)] .
qed

text \<open>The checks of a key that the limiter admits in a time interval.\<close>

definition admissions :: "string \<Rightarrow> pyfloat \<Rightarrow> pyfloat \<Rightarrow> rate_check list \<Rightarrow> rate_limit_decision list \<Rightarrow> nat" where
  "admissions key a b checks ds =
     length (filter (\<lambda>((k, limit, t), d). k = key \<and> rd_allowed d \<and> a \<le> t \<and> t < b) (zip checks ds))"

lemma length_decisions: "length (decisions l checks) = length checks"
  by (induction l checks rule: decisions.induct) (auto simp: check_locked_def Let_def split: if_splits)

lemma admissions_within:
  assumes "length ds = length checks"
  shows "admissions key a b checks ds = admitted_within a b (checks_of key checks) (verdicts key checks ds)"
  using assms
  by (induction checks ds rule: list_induct2')
     (auto simp: admissions_def admitted_within_def checks_of_def verdicts_def)

lemma sorted_checks_of: "sorted (map (snd \<circ> snd) checks) \<Longrightarrow> sorted (map snd (checks_of key checks))"
  by (auto simp: checks_of_def comp_def intro: sorted_filter)

text \<open>After a refusal the bucket of the key is over at the announced time.\<close>

fun after_checks :: "rate_limiter \<Rightarrow> rate_check list \<Rightarrow> rate_limiter" where
  "after_checks l [] = l"
| "after_checks l ((key, limit, t) # checks) = after_checks (snd (check_locked key limit t l :: (unit + _) \<times> _)) checks"

definition window_over :: "rate_limiter \<Rightarrow> string \<Rightarrow> pyfloat \<Rightarrow> bool" where
  "window_over l key t \<longleftrightarrow> distinct (map fst (rl_buckets l))
     \<and> (\<forall>b. map_of (rl_buckets l) key = Some b \<longrightarrow> \<not> window_open (rl_window_seconds l) t b)"

lemma map_of_pruned:
  "distinct (map fst (rl_buckets l)) \<Longrightarrow> map_of (prune_buckets t l) key = Some b \<Longrightarrow> map_of (rl_buckets l) key = Some b"
  by (auto simp: prune_buckets_def split: if_splits intro: map_of_is_SomeI dest!: map_of_SomeD)

lemma prune_buckets_subset: "x \<in> set (prune_buckets t l) \<Longrightarrow> x \<in> set (rl_buckets l)"
  by (auto simp: prune_buckets_def split: if_splits)

lemma window_over_other:
  assumes "window_over l key t" "k \<noteq> key"
  shows "window_over (snd (check_locked k limit u l :: (unit + _) \<times> _)) key t"
proof -
  obtain d c where "check_locked k limit u l =
      (Inr d :: unit + _, l\<lparr>rl_checks := Suc (rl_checks l), rl_buckets := AList.update k c (prune_buckets u l)\<rparr>)"
    using check_locked_bucket [of k limit u l] by blast
  then show ?thesis
    using assms by (auto simp: window_over_def update_conv' distinct_update distinct_prune dest: prune_buckets_subset)
qed

lemma window_over_after_checks:
  "window_over l key t \<Longrightarrow> \<forall>x \<in> set checks. fst x \<noteq> key \<Longrightarrow> window_over (after_checks l checks) key t"
  by (induction l checks rule: after_checks.induct) (auto intro: window_over_other)

lemma window_over_admits:
  assumes "window_over l key t" "check_locked key limit t l = (Inr d, l')"
  shows "rd_allowed d \<and> rd_limit d = max 1 limit \<and> rd_remaining d = rd_limit d - 1"
proof -
  have "current_bucket (rl_window_seconds l) t (map_of (prune_buckets t l) key) = \<lparr>rb_window_started_at = t, rb_request_count = 0\<rparr>"
    using assms(1) by (auto simp: window_over_def current_bucket_def dest: map_of_pruned split: option.split)
  then show ?thesis using assms(2) by (auto simp: check_locked_def Let_def)
qed

lemma update_member: "x \<in> set (AList.update k v xs) \<Longrightarrow> x = (k, v) \<or> x \<in> set xs"
  by (induction xs) (auto split: if_splits)

text \<open>No bucket of the table starts in the future.\<close>

definition clocked :: "rate_limiter \<Rightarrow> pyfloat \<Rightarrow> bool" where
  "clocked l t \<longleftrightarrow> distinct (map fst (rl_buckets l)) \<and> (\<forall>(k, b) \<in> set (rl_buckets l). rb_window_started_at b \<le> t)"

lemma current_bucket_started:
  assumes "clocked l t"
  shows "rb_window_started_at (current_bucket w t (map_of (prune_buckets t l) k)) \<le> t"
  using assms
  by (auto simp: clocked_def current_bucket_def split: option.split dest!: map_of_SomeD dest: prune_buckets_subset)

lemma clocked_check:
  assumes "clocked l now" "now \<le> t"
  shows "clocked (snd (check_locked k limit t l :: (unit + _) \<times> _)) t"
proof -
  have t: "clocked l t" using assms by (force simp: clocked_def)
  have "rb_window_started_at (snd (counted_bucket (rl_window_seconds l) limit t (map_of (prune_buckets t l) k))) \<le> t"
    using current_bucket_started [OF t] by (simp add: counted_bucket_def Let_def)
  moreover obtain d where "check_locked k limit t l = (Inr d :: unit + _, l\<lparr>rl_checks := Suc (rl_checks l), rl_buckets := AList.update k
        (snd (counted_bucket (rl_window_seconds l) limit t (map_of (prune_buckets t l) k))) (prune_buckets t l)\<rparr>)"
    using check_locked_bucket by blast
  ultimately show ?thesis
    using t by (auto simp: clocked_def distinct_update distinct_prune dest: update_member prune_buckets_subset)
qed

lemma clocked_checked:
  assumes "clocked l now" "sorted (now # map (snd \<circ> snd) checks @ [t])"
  shows "clocked (after_checks l checks) t"
  using assms
proof (induction l checks arbitrary: now rule: after_checks.induct)
  case (1 l)
  then show ?case by (force simp: clocked_def)
next
  case (2 l key limit u checks)
  then show ?case by (auto simp: comp_def intro!: "2.IH" clocked_check [of l now])
qed

lemma refusal_ends:
  assumes "clocked l t" "check_locked key limit t l = (Inr d, l')" "\<not> rd_allowed d"
    "t + of_int (rd_retry_after_seconds d) \<le> u"
  shows "window_over l' key u"
proof -
  let ?c = "current_bucket (rl_window_seconds l) t (map_of (prune_buckets t l) key)"
  have d: "d = \<lparr>rd_allowed = False, rd_limit = max 1 limit, rd_remaining = 0,
      rd_retry_after_seconds = reset_seconds (rl_window_seconds l) t ?c, rd_reset_seconds = reset_seconds (rl_window_seconds l) t ?c\<rparr>"
    "l' = l\<lparr>rl_checks := Suc (rl_checks l), rl_buckets := AList.update key ?c (prune_buckets t l)\<rparr>"
    using assms(2,3) by (auto simp: check_locked_def Let_def split: if_splits)
  let ?left = "of_int (rl_window_seconds l) - max 0 (t - rb_window_started_at ?c)"
  have "?left \<le> of_int \<lceil>?left\<rceil>" by (rule le_of_int_ceiling)
  also have "\<dots> \<le> of_int (reset_seconds (rl_window_seconds l) t ?c)" unfolding reset_seconds_def Let_def of_int_le_iff by simp
  finally have "of_int (rl_window_seconds l) - max 0 (t - rb_window_started_at ?c) \<le> u - t" using assms(4) d(1) by simp
  then have "\<not> window_open (rl_window_seconds l) u ?c" using current_bucket_started [OF assms(1), of "rl_window_seconds l" key]
    by (auto simp: window_open_def max_def split: if_splits)
  moreover have "map_of (rl_buckets l') key = Some ?c" by (simp add: d update_conv' del: map_of_eq_Some_iff)
  ultimately show ?thesis
    using distinct_prune [of l t] assms(1) by (simp add: clocked_def d window_over_def distinct_update del: map_of_eq_Some_iff)
qed

lemma new_rate_limiter_clocked: "clocked (new_rate_limiter limit window) t"
  by (simp add: clocked_def new_rate_limiter_def)

lemma new_rate_limiter_windows:
  assumes "sorted (map (snd \<circ> snd) checks)"
  shows "verdicts key checks (decisions (new_rate_limiter L W) checks) = fixed_window (max 1 W) None (checks_of key checks)"
proof (cases checks)
  case Nil
  then show ?thesis by (simp add: verdicts_def checks_of_def)
next
  case (Cons x rest)
  show ?thesis
    by (rule decisions_fixed_window [where now = "snd (snd x)"])
       (use assms in \<open>auto simp: Cons new_rate_limiter_def stands_for_def\<close>)
qed

section \<open>Requests\<close>

text \<open>Resolving the tenant and its quota does not touch what is recorded for metering.\<close>

definition metering_kept :: "(request_world, 'e, 'a) op \<Rightarrow> bool" where
  "metering_kept m \<longleftrightarrow> (\<forall>w. rw_metered (snd (m w)) = rw_metered w)"

lemma metering_keptD: "metering_kept m \<Longrightarrow> m w = (r, w') \<Longrightarrow> rw_metered w' = rw_metered w"
  unfolding metering_kept_def by (metis snd_conv)

lemma metering_kept_bind [intro]: "metering_kept m \<Longrightarrow> (\<And>x. metering_kept (f x)) \<Longrightarrow> metering_kept (bind_op m f)"
  unfolding metering_kept_def bind_op_def
  by (auto split: sum.split prod.split) (metis snd_conv)+

lemma metering_kept_catch [intro]: "metering_kept m \<Longrightarrow> (\<And>e. metering_kept (h e)) \<Longrightarrow> metering_kept (catch_op m h)"
  unfolding metering_kept_def catch_op_def
  by (auto split: sum.split prod.split) (metis snd_conv)+

lemma metering_kept_simps [simp]:
  "metering_kept (return_op x)" "metering_kept (raise_op e)" "metering_kept (on_db n)" "metering_kept (in_session cfg n)"
  "metering_kept (put_op (\<lambda>w. w\<lparr>rw_principal := p\<rparr>))"
  by (auto simp: metering_kept_def return_op_def raise_op_def on_db_def in_session_def put_op_def split: prod.splits)

lemma metering_kept_quota [simp]: "metering_kept (tenant_request_limit cfg observed_at tenant_id)"
  by (auto simp: metering_kept_def tenant_request_limit_def split: option.splits sum.splits prod.splits route_error.splits)

lemma metering_kept_tenant [simp]: "metering_kept (verified_tenant cy st cfg ip request)"
  unfolding verified_tenant_def persisted_session_tenant_def
  by (auto split: option.split sum.split session_error.split oidc_error.split intro!: metering_kept_bind metering_kept_catch)

lemma on_request_kept:
  "metering_kept m \<Longrightarrow> on_request m w = (r, w') \<Longrightarrow> rw_metered (tw_request w') = rw_metered (tw_request w)"
  by (auto simp: on_request_def dest: metering_keptD split: sum.splits prod.splits)

lemma backend_check_kept: "backend_check backend key limit w = (r, w') \<Longrightarrow> tw_request w' = tw_request w"
  by (auto simp: backend_check_def split: rate_backend.splits prod.splits)

text \<open>Metering counts a request as admitted exactly when the middleware passed it on: the mark is set with every request
  that is forwarded, and a request that is refused leaves it as it was.\<close>

lemma dispatch_marks:
  assumes "dispatch cy st cfg rs ip backend cache_at request w = (Inr response, w')"
  shows "case response of
      Forwarded _ \<Rightarrow> mr_rate_limit_admitted (rw_metered (tw_request w'))
    | Refused _ _ _ \<Rightarrow> rw_metered (tw_request w') = rw_metered (tw_request w) \<and> should_limit rs request"
proof (cases "should_limit rs request")
  case False
  then show ?thesis using assms by (auto simp: dispatch_def mark_admitted_def put_op_def return_op_def bind_op_def)
next
  case True
  obtain tenant_id w1 where t: "on_request (verified_tenant cy st cfg ip request) w = (Inr tenant_id, w1)"
    using assms True by (auto simp: dispatch_def bind_op_def split: sum.splits prod.splits if_splits)
  obtain limit w2 where q: "on_request (tenant_request_limit cfg cache_at tenant_id) w1 = (Inr limit, w2)"
    using assms True t by (auto simp: dispatch_def bind_op_def split: sum.splits prod.splits if_splits)
  have kept: "rw_metered (tw_request w2) = rw_metered (tw_request w)"
    using on_request_kept [OF metering_kept_tenant t] on_request_kept [OF metering_kept_quota q] by simp
  obtain key bound scope where s: "rate_scope rs request tenant_id limit = (key, bound, scope)" by (metis prod_cases3)
  obtain r w3 where c: "backend_check backend key bound w2 = (r, w3)" by fastforce
  show ?thesis
    using assms True t q s c kept backend_check_kept [OF c]
    by (auto simp: dispatch_def bind_op_def mark_admitted_def put_op_def return_op_def rate_limited_def backend_unavailable_def
        split: sum.splits rate_error.splits if_splits rate_response.split)
qed

section \<open>Properties\<close>

text \<open>C30. The limiter of a process counts in fixed windows. For every key, on checks that come in the order of the clock,
  whatever other keys are checked between them and whenever the table is pruned, its verdicts are those of the reference
  \<open>fixed_window\<close>, which has one counter and no table: a window opens with the first check after the last window is over,
  and admits checks as long as fewer than the limit of the check were admitted in it. So in every interval that is one
  window long, wherever it begins, at most twice the largest limit \<open>m\<close> of the key's checks are admitted.\<close>

theorem rate_limit_windows:
  assumes "sorted (map (snd \<circ> snd) checks)" "1 \<le> m" "\<forall>(k, limit, t) \<in> set checks. k = key \<longrightarrow> limit \<le> m"
  shows "verdicts key checks (decisions (new_rate_limiter L W) checks) = fixed_window (max 1 W) None (checks_of key checks)
    \<and> int (admissions key a (a + of_int (max 1 W)) checks (decisions (new_rate_limiter L W) checks)) \<le> 2 * m"
proof
  show eq: "verdicts key checks (decisions (new_rate_limiter L W) checks) = fixed_window (max 1 W) None (checks_of key checks)"
    by (rule new_rate_limiter_windows [OF assms(1)])
  have "\<forall>x \<in> set (checks_of key checks). fst x \<le> m" using assms(3) by (auto simp: checks_of_def)
  then show "int (admissions key a (a + of_int (max 1 W)) checks (decisions (new_rate_limiter L W) checks)) \<le> 2 * m"
    unfolding admissions_within [OF length_decisions] eq
    by (intro fixed_window_bound_fresh sorted_checks_of assms(1,2)) simp_all
qed

theorem rate_limit_windows_witness:
  "verdicts ''a'' [(''a'', 1, 0), (''b'', 1, 1), (''a'', 1, 2), (''a'', 1, 60)]
      (decisions (new_rate_limiter 1 60) [(''a'', 1, 0), (''b'', 1, 1), (''a'', 1, 2), (''a'', 1, 60)]) = [True, False, True]
    \<and> admissions ''a'' 0 60 [(''a'', 1, 0), (''b'', 1, 1), (''a'', 1, 2), (''a'', 1, 60)]
        (decisions (new_rate_limiter 1 60) [(''a'', 1, 0), (''b'', 1, 1), (''a'', 1, 2), (''a'', 1, 60)]) \<le> 2"
  using rate_limit_windows [of "[(''a'', 1, 0), (''b'', 1, 1), (''a'', 1, 2), (''a'', 1, 60)]" 1 "''a''" 1 60 0]
  by (simp add: checks_of_def counted_bucket_def current_bucket_def window_open_def)

text \<open>A refused client is told how long to wait, and waiting is enough. In every state the limiter reaches by checks in
  the order of the clock, when it refuses a check of a key at time \<open>t\<close>, then after at least the announced number of
  seconds, and if the key is not checked in between (other keys may be, at any time), the next check of the key is
  admitted under any limit, as the first one of a new window.\<close>

lemma retry_after_honoured:
  assumes "sorted (map (snd \<circ> snd) checks @ [t])"
    "check_locked key limit t (after_checks (new_rate_limiter L W) checks) = (Inr d, l)" "\<not> rd_allowed d"
    "\<forall>x \<in> set others. fst x \<noteq> key" "t + of_int (rd_retry_after_seconds d) \<le> u"
    "check_locked key limit' u (after_checks l others) = (Inr d', l')"
  shows "rd_allowed d' \<and> rd_limit d' = max 1 limit' \<and> rd_remaining d' = rd_limit d' - 1"
proof -
  have "\<exists>now. sorted (now # map (snd \<circ> snd) checks @ [t])"
    using assms(1) by (intro exI [of _ "hd (map (snd \<circ> snd) checks @ [t])"]) (cases checks, auto)
  then have "clocked (after_checks (new_rate_limiter L W) checks) t"
    using clocked_checked [OF new_rate_limiter_clocked] by blast
  then have "window_over (after_checks l others) key u"
    using refusal_ends assms(2-5) window_over_after_checks by blast
  then show ?thesis by (rule window_over_admits [OF _ assms(6)])
qed

lemma retry_after_honoured_example:
  "\<exists>d l d' l'. check_locked ''a'' 1 2 (after_checks (new_rate_limiter 1 60) [(''a'', 1, 0)]) = (Inr d :: unit + _, l)
      \<and> \<not> rd_allowed d \<and> rd_retry_after_seconds d = 58
      \<and> check_locked ''a'' 1 60 (after_checks l [(''b'', 1, 5)]) = (Inr d' :: unit + _, l') \<and> rd_allowed d'"
proof -
  let ?l = "after_checks (new_rate_limiter 1 60) [(''a'', 1, 0)]"
  obtain d l where d: "check_locked ''a'' 1 2 ?l = (Inr d :: unit + _, l)" "\<not> rd_allowed d" "rd_retry_after_seconds d = 58"
    by (simp add: check_locked_def Let_def new_rate_limiter_def prune_buckets_def current_bucket_def window_open_def
        reset_seconds_def)
  obtain d' l' where d': "check_locked ''a'' 1 60 (after_checks l [(''b'', 1, 5)]) = (Inr d' :: unit + _, l')"
    using check_locked_bucket by blast
  have "rd_allowed d'"
    using retry_after_honoured [OF _ d(1,2) _ _ d'] d(3) by simp
  then show ?thesis using d d' by blast
qed

end
