(* ===== verification/Spec2Isabelle.thy ===== *)
theory Spec2Isabelle
  imports Action_History Maintenance_Jobs Approval_Workflow Tenant_Cache Usage_Admission Rate_Limit
begin

text \<open>
  A verification development of the Axis control plane (\<^verbatim>\<open>services/api/src/axis_api\<close>) and of its approval worker
  (\<^verbatim>\<open>services/worker/src/axis_worker\<close>). Axis is a multi-tenant service: a request is authenticated, admitted for its
  tenant, metered, authorized against scopes and platform policies, and then changes the tables of one relational
  database, with an append-only audit ledger beside every change; decisions on approvals travel through a transactional
  outbox to a workflow engine.

  How the program is modelled. A row of a table is a record with the columns of \<^verbatim>\<open>models.py\<close>, the database is the
  record \<open>db\<close> of its tables (\<open>Store\<close>), and a function that reads and writes a session and may raise is a function from
  the state to a result or an error and the state it leaves (\<open>op\<close>, with \<open>bind_op\<close>, in \<open>Axis_Prelude\<close>). \<open>session_scope\<close>
  commits or rolls back. A clock reading and a \<^verbatim>\<open>uuid4\<close> are the next elements of two streams of the database, which a
  roll back does not rewind; results that need distinct identifiers assume that the stream of identifiers is injective
  (in the definition of a history). Concurrency is the interleaving of transactions, each atomic, as inductive step
  relations with their reachable states; where a routine holds state outside the database (the caches of tenants and
  of signing keys, claims of the outbox, a failed commit) its steps are separate and interleave.

  Theories and the code they model:
  \<^item> \<open>Axis_Prelude\<close>, \<open>Store\<close>: JSON values, operations, reads and writes of tables, the part of the standard library that
    is used; rows, the database, \<^verbatim>\<open>db.py\<close>, the audit ledger of \<^verbatim>\<open>persistence.py\<close>. Their collections \<open>op_simps\<close>,
    \<open>op_keeps\<close> and \<open>row_simps\<close> carry the proofs of the components.
  \<^item> \<open>Permissions\<close>: \<^verbatim>\<open>permissions.py\<close>; what a permission request and the tenant-bound scope gate decide.
  \<^item> \<open>Revision_Chain\<close>, \<open>Platform_Policies\<close>: the contract of a chain of revisions as a locale, and \<^verbatim>\<open>platform_policies.py\<close>
    with its repository methods as an instance: evaluation, authoring, revising, enforcement.
  \<^item> \<open>Workflow_Signals\<close>, \<open>Fenced_Lease\<close>, \<open>Approval_Outbox\<close>: \<^verbatim>\<open>workflow_runtime.py\<close>, the contract of a lease with a fencing
    token as a locale, and the outbox dispatcher \<^verbatim>\<open>approval_outbox.py\<close> as an instance.
  \<^item> \<open>Approval_Workflow\<close>: the worker's workflow that waits for a decision.
  \<^item> \<open>Approval_Reference\<close>, \<open>Approval_Decisions\<close>, \<open>Approval_History\<close>: the approval inbox, the decision endpoint with its
    permission checks, policies and writes, and the histories of decisions.
  \<^item> \<open>Identity\<close>: \<^verbatim>\<open>identity.py\<close>, verification of tokens against the cached signing keys, and the binding of actors.
  \<^item> \<open>Tenants\<close>, \<open>Tenant_Lifecycle\<close>, \<open>Tenant_Cache\<close>: \<^verbatim>\<open>platform_tenants.py\<close>, \<^verbatim>\<open>tenant_admission.py\<close>,
    \<^verbatim>\<open>bootstrap_tenant.py\<close> and their routes; the histories of tenants and the cache of tenant states.
  \<^item> \<open>Usage_Metering\<close>, \<open>Usage_Ledger\<close>, \<open>Usage_Admission\<close>: \<^verbatim>\<open>usage_metering.py\<close>, the journal and the rollup of usage, the
    projector, and the metering of a request.
  \<^item> \<open>Browser_Cookies\<close>, \<open>Browser_Sessions\<close>: \<^verbatim>\<open>oidc_code_flow.py\<close>, \<^verbatim>\<open>csrf.py\<close>, \<^verbatim>\<open>session_metadata.py\<close>,
    \<^verbatim>\<open>session_lifecycle.py\<close>, the session methods of \<^verbatim>\<open>persistence.py\<close>, the session endpoints of \<^verbatim>\<open>main.py\<close> with the
    principal of a request, and the session sweep of \<^verbatim>\<open>maintenance_jobs.py\<close>. \<open>Session_Lifecycle\<close> has the histories of the
    session table and \<open>Session_Endpoints\<close> shows that the endpoints are such histories.
  \<^item> \<open>Action_Runs\<close>, \<open>Action_History\<close>: \<^verbatim>\<open>action_runs.py\<close>, \<^verbatim>\<open>ontology_reference.py\<close>, the methods of \<^verbatim>\<open>persistence.py\<close> for
    runs and the three endpoints. A creation is two parts, the lookup of its key and the insert, between which other
    transactions may come, because the code handles a lost race for the unique constraint; the histories and the abstract
    life of a run (requested, decided, finished) are in \<open>Action_History\<close>.
  \<^item> \<open>Audit_Ledger\<close>, \<open>Audit_Export\<close>, \<open>Audit_History\<close>: \<^verbatim>\<open>audit_queries.py\<close>, \<^verbatim>\<open>audit_signing.py\<close>, the ledger and hold methods
    of \<^verbatim>\<open>persistence.py\<close> and the eight endpoints: retention deletion with its evidence, legal holds on events and on stored
    objects, the redacted view, the query and the signed export. A step of a ledger history is a call of an endpoint or
    any transaction that only appends events under fresh identifiers, as the transactions of the other components do.
  \<^item> \<open>Maintenance_Jobs\<close>: the jobs of \<^verbatim>\<open>maintenance_jobs.py\<close> that run over all tenants (paging, retention, reconciliation). Its
    loop over pages is a \<open>function\<close> whose measure is the number of tenants behind the cursor.
  \<^item> \<open>Rate_Limit\<close>: \<^verbatim>\<open>rate_limit.py\<close>, the fixed-window limiter and its middleware, with the reference counter.
  \<^item> this theory: properties that span the decision endpoint, the outbox and the workflow.

  What the properties show. Per component: the functional behaviour on every branch, errors included (permissions,
  policies, claims of the outbox, ID tokens, provisioning); invariants of every reachable state (constraints of the
  tables, revisions without gaps, terminal rows final, one audit event per change); idempotent replays and refused
  conflicts; bounds (delays of retries, age of keys, staleness of cached tenant states, concurrent sessions, admitted requests);
  safety of cookies (only a live session that was never revoked or rotated stands for its owner); refinements of an abstract
  view (a run by the phases of its life, the tenant registry by its ledger, the usage rollup by its journal, an approval decision by one map update, the
  limiter by a counter for each key); the requests for governed actions (who may create a run, one run for a key, what an
  outcome takes and writes, what a refusal leaves behind); the audit ledger under retention (held events stay, deleted events
  are accounted for by evidence that stays, an export verifies with its key and shows only governed fields); and progress (the projection of usage drains, a client that waits as told is admitted).

  Parameters and abstractions. The SHA-256 digest with its keyed form, the canonical JSON text, the store of exported objects
  and the probe of its bucket, the JOSE library, the encoders and decoders of pydantic models, the keyed hash and the
  encryption of cookies and tokens, the identity provider, the reply of Redis, the iteration order of a set, the workflow engine and the random choice
  of the standard library are arguments. A finite float is the rational it denotes, a datetime an
  unbounded number of microseconds since the epoch, always aware of its zone; strings are ASCII for \<^verbatim>\<open>strip\<close>,
  \<^verbatim>\<open>casefold\<close> and \<^verbatim>\<open>isalnum\<close>. Integers of BigInteger columns are checked against their 64 bits where a sum is
  stored (usage); other integers are bounded by their validation. No definition needs fuel: loops are recursions over
  lists or over the number of batches.

  The histories of the other components contain no retention deletion: what they say of the ledger holds until a deletion
  removes the events that it reads.

  Not modelled: HTTP parsing and response encoding, the text encoding of pagination cursors, thread scheduling inside
  one transaction (transactions take effect one after the other, so the anomalies of READ COMMITTED and the locks against
  them are outside the model), the lengths of text columns and the range of datetimes, database plumbing (pools, time-outs,
  migrations), and the components that \<^verbatim>\<open>PROJECT.json\<close> lists as not modelled, among them agent runs, model invocations, connectors, the graph database of the ontology, search and portability.
\<close>

section \<open>From the decision to the workflow\<close>

lemma json_eq_runtime_payload: "json_eq (JObj (runtime_payload sg)) (JObj (runtime_payload sg))"
  by (simp add: runtime_payload_def json_num_def jopt_def split: option.split)

lemma carried_row:
  assumes "carries_decision tid ap req row"
  obtains sg now where "sg = decision_signal tid ap req (Some (ob_id row)) now" "signal_request_valid sg"
    "ob_payload row = runtime_payload sg" "ob_tenant_id row = tid" "ob_approval_id row = ai_approval_id ap"
    "ob_workflow_id row = ai_workflow_id ap" "ob_signal_name row = APPROVAL_DECISION_SIGNAL_NAME"
    "ob_schema_version row = APPROVAL_DECISION_SCHEMA_VERSION" "ob_decision row = decision_value (dq_decision req)"
    "ob_decision_actor_id row = dq_actor_id req"
proof -
  obtain now created updated where valid: "signal_request_valid (decision_signal tid ap req (Some (ob_id row)) now)"
    and row: "row = new_outbox_row (outbox_create_of (decision_signal tid ap req (Some (ob_id row)) now) (ob_id row) now
      (dq_actor_id req)) created updated"
    using assms by (auto simp: carries_decision_def Let_def)
  let ?sg = "decision_signal tid ap req (Some (ob_id row)) now"
  have "ob_payload row = runtime_payload ?sg" "ob_tenant_id row = tid" "ob_approval_id row = ai_approval_id ap"
    "ob_workflow_id row = ai_workflow_id ap" "ob_signal_name row = APPROVAL_DECISION_SIGNAL_NAME"
    "ob_schema_version row = APPROVAL_DECISION_SCHEMA_VERSION" "ob_decision row = decision_value (dq_decision req)"
    "ob_decision_actor_id row = dq_actor_id req"
    by (subst row, simp add: new_outbox_row_def outbox_create_of_def decision_signal_def)+
  with valid that show ?thesis by blast
qed

lemma request_of_carried:
  assumes "sg = decision_signal tid ap req (Some (ob_id row)) now"
    "ob_payload row = runtime_payload sg" "ob_tenant_id row = tid" "ob_approval_id row = ai_approval_id ap"
    "ob_workflow_id row = ai_workflow_id ap" "ob_signal_name row = APPROVAL_DECISION_SIGNAL_NAME"
    "ob_schema_version row = APPROVAL_DECISION_SCHEMA_VERSION" "ob_decision row = decision_value (dq_decision req)"
    "ob_decision_actor_id row = dq_actor_id req"
    "rt_decode drt (dset ''signal_name'' (JStr APPROVAL_DECISION_SIGNAL_NAME) (ob_payload row)) = Inr sg"
  shows "request_of drt (claimed_of_row (claim_row at_times token row) token) = Inr sg"
  using assms(2-10)
  by (simp add: request_of_def claimed_of_row_def claim_row_def split: prod.splits) (simp add: assms(1) decision_signal_def)

lemma first_signal_wins:
  assumes "signal_request_valid sg" "sg_decision_event_id sg = Some u"
  shows "\<exists>result st. run_workflow payload (deliver_all (JObj (runtime_payload sg) # later) new_approval_workflow) = Some result
    \<and> decision_status (decision_value (sg_decision sg)) = Some st \<and> dget result ''status'' = JStr st
    \<and> dget result ''decision'' = JObj (runtime_payload sg)"
proof -
  have norm: "normalize_approval_decision_signal (JObj (runtime_payload sg)) = Inr (runtime_payload sg)"
    using runtime_payload_ok [OF assms] by (simp add: normalize_approval_decision_signal_def normalize_v1_Inr runtime_payload_fields)
  let ?w1 = "accept_decision (JObj (runtime_payload sg)) new_approval_workflow"
  have w1: "aw_decision ?w1 = Some (runtime_payload sg)" "\<not> aw_legacy_delivery ?w1"
    by (simp_all add: accept_decision_def norm new_approval_workflow_def is_bool_def)
  have w: "deliver_all (JObj (runtime_payload sg) # later) new_approval_workflow = deliver_all later ?w1"
    by (simp add: deliver_all_def)
  obtain st where "decision_status (decision_value (sg_decision sg)) = Some st"
    by (cases "sg_decision sg") (simp_all add: decision_status_def)
  then show ?thesis
    by (simp add: run_workflow_def w deliver_all_decided [OF w1(1)] w1 json_text_def) (simp add: dget_def)
qed

text \<open>C12. A recorded decision reaches its workflow and stays recognizable there. With the outbox enabled, a new
  decision queues a row for the approval under the event id of the result. Whichever dispatcher claims the row accepts it
  (its decoder inverting the payload) and would signal exactly this decision. A workflow that gets the queued payload first
  completes with the status of the decision whatever signals follow, and a dispatcher that later finds the workflow closed
  recognizes the delivery as its own instead of failing it.\<close>

theorem decision_reaches_workflow:
  assumes "approval_history s" and "manufacturing_approval_decision cx rt a req p tid s = (Inr res, t)"
    and "\<not> res_idempotent_replay res" and "dn_outbox_enabled rt"
  shows "\<exists>row sg. approval_decision_outbox t = approval_decision_outbox s @ [row]
    \<and> sg_tenant_id sg = tid \<and> sg_approval_id sg = a \<and> sg_decision sg = dq_decision req
    \<and> sg_decision_event_id sg = res_decision_event_id res \<and> ob_payload row = runtime_payload sg
    \<and> (\<forall>drt at_times token.
         rt_decode drt (dset ''signal_name'' (JStr APPROVAL_DECISION_SIGNAL_NAME) (ob_payload row)) = Inr sg \<longrightarrow>
         request_of drt (claimed_of_row (claim_row at_times token row) token) = Inr sg)
    \<and> (\<forall>payload later. \<exists>result st.
         run_workflow payload (deliver_all (JObj (ob_payload row) # later) new_approval_workflow) = Some result
         \<and> decision_status (decision_value (dq_decision req)) = Some st \<and> dget result ''status'' = JStr st
         \<and> (\<forall>drt claimed. rt_reader drt = Some (\<lambda>_. ReadResult (Some result)) \<longrightarrow>
              reconcile drt claimed sg = Some Matching))"
proof -
  obtain bound where b: "bind_tenant_actor req p tid = Inr bound"
    and run: "record_demo_approval_decision cx rt a bound tid s = (Inr res, t)"
    using assms(2) by (auto simp: endpoint_Inr)
  have inv: "approvals_inv s" using approval_history_inv [OF assms(1)] by (simp add: decisions_inv_def)
  obtain ap aid perm where ap: "ai_approval_id ap = a" and d: "decided rt tid ap aid bound s res t"
    using fresh_result [OF run assms(3) inv] by blast
  from d assms(4) obtain row where row: "approval_decision_outbox t = approval_decision_outbox s @ [row]"
      "carries_decision tid ap bound row" "res_decision_event_id res = Some (ob_id row)"
    by (auto simp: decided_def)
  from row(2) show ?thesis
  proof (rule carried_row)
    fix sg now
    assume sg: "sg = decision_signal tid ap bound (Some (ob_id row)) now" "signal_request_valid sg"
      "ob_payload row = runtime_payload sg" "ob_tenant_id row = tid" "ob_approval_id row = ai_approval_id ap"
      "ob_workflow_id row = ai_workflow_id ap" "ob_signal_name row = APPROVAL_DECISION_SIGNAL_NAME"
      "ob_schema_version row = APPROVAL_DECISION_SCHEMA_VERSION" "ob_decision row = decision_value (dq_decision bound)"
      "ob_decision_actor_id row = dq_actor_id bound"
    have dec: "dq_decision bound = dq_decision req" using b by (auto simp: bind_tenant_actor_Inr split: option.splits)
    have fields: "sg_tenant_id sg = tid" "sg_approval_id sg = a" "sg_decision sg = dq_decision req"
      "sg_decision_event_id sg = Some (ob_id row)"
      by (simp_all add: sg(1) decision_signal_def ap dec)
    have accepted: "request_of drt (claimed_of_row (claim_row at_times token row) token) = Inr sg"
      if "rt_decode drt (dset ''signal_name'' (JStr APPROVAL_DECISION_SIGNAL_NAME) (ob_payload row)) = Inr sg" for drt at_times token
      by (rule request_of_carried [OF sg(1,3-10) that])
    have finished: "\<exists>result st. run_workflow payload (deliver_all (JObj (ob_payload row) # later) new_approval_workflow) = Some result
         \<and> decision_status (decision_value (dq_decision req)) = Some st \<and> dget result ''status'' = JStr st
         \<and> (\<forall>drt claimed. rt_reader drt = Some (\<lambda>_. ReadResult (Some result)) \<longrightarrow> reconcile drt claimed sg = Some Matching)"
      for payload later
      using first_signal_wins [OF sg(2) fields(4), of payload later] json_eq_runtime_payload [of sg]
      by (auto simp: sg(3) fields(3) reconcile_def)
    show ?thesis
      using row(1,3) sg(3) fields accepted finished by (intro exI [of _ row] exI [of _ sg]) simp
  qed
qed

theorem decision_reaches_workflow_witness:
  "\<exists>res t row sg. approval_history example_approval_db
   \<and> manufacturing_approval_decision (example_codecs (\<lambda>_. None)) example_runtime ''appr-1'' (example_request REJECT)
       (Some example_approver) ''acme'' example_approval_db = (Inr res, t)
   \<and> approval_decision_outbox t = approval_decision_outbox example_approval_db @ [row]
   \<and> request_of \<lparr>rt_decode = (\<lambda>_. Inr sg), rt_signal = (\<lambda>_ _. Signalled), rt_reader = None, rt_uniform = (\<lambda>_ _ x. x)\<rparr>
       (claimed_of_row (claim_row (1, 2) 7 row) 7) = Inr sg"
proof (rule example_decided)
  fix res t
  assume run: "\<And>f. manufacturing_approval_decision (example_codecs f) example_runtime ''appr-1'' (example_request REJECT)
      (Some example_approver) ''acme'' example_approval_db = (Inr res, t)" and r: "\<not> res_idempotent_replay res"
  have "dn_outbox_enabled example_runtime" by (simp add: example_runtime_def)
  from decision_reaches_workflow [OF example_history run r this]
  obtain row sg where "approval_decision_outbox t = approval_decision_outbox example_approval_db @ [row]"
    "\<forall>drt at_times token. rt_decode drt (dset ''signal_name'' (JStr APPROVAL_DECISION_SIGNAL_NAME) (ob_payload row)) = Inr sg \<longrightarrow>
         request_of drt (claimed_of_row (claim_row at_times token row) token) = Inr sg"
    by blast
  with run example_history show ?thesis
    by (intro exI [of _ res] exI [of _ t] exI [of _ row] exI [of _ sg]) simp
qed

lemma json_eq_scalar [simp]:
  "json_eq x (JStr t) \<longleftrightarrow> x = JStr t" "json_eq x JNull \<longleftrightarrow> x = JNull" "json_eq (JBool b) (JBool c) \<longleftrightarrow> b = c"
  by (cases x; simp add: json_num_def)+

lemma json_eq_opt_text [simp]: "json_eq x (jopt (\<lambda>v. JStr (f v)) y) \<longleftrightarrow> x = jopt (\<lambda>v. JStr (f v)) y"
  by (cases y) (simp_all add: jopt_def del: json_eq.simps)

lemma json_eq_v1:
  assumes "v1_ok d"
  shows "json_eq (JObj (v1_fields d)) (JObj (runtime_payload sg)) \<longleftrightarrow> v1_fields d = runtime_payload sg"
proof
  obtain b where b: "dget d ''approved'' = JBool b" using assms by (simp add: v1_ok_def)
  assume "json_eq (JObj (v1_fields d)) (JObj (runtime_payload sg))"
  then show "v1_fields d = runtime_payload sg"
    unfolding json_eq.simps(2) v1_fields_def runtime_payload_def by (simp add: b del: json_eq.simps)
next
  assume "v1_fields d = runtime_payload sg"
  then show "json_eq (JObj (v1_fields d)) (JObj (runtime_payload sg))" by (simp only: json_eq_runtime_payload)
qed

lemma legacy_not_v1: "legacy_decision b \<noteq> runtime_payload sg"
  by (simp add: legacy_decision_def runtime_payload_def APPROVAL_DECISION_SCHEMA_VERSION_def Let_def)

lemma accepted_signal:
  assumes "aw_decision (deliver_all signals new_approval_workflow) = Some d"
  shows "d \<in> set (valid_decisions signals)"
    "aw_legacy_delivery (deliver_all signals new_approval_workflow) \<Longrightarrow> \<exists>b. d = legacy_decision b"
    "\<not> aw_legacy_delivery (deliver_all signals new_approval_workflow) \<Longrightarrow> \<exists>d0. v1_ok d0 \<and> d = v1_fields d0"
proof -
  have first: "first_row (valid_decisions signals) = Some d" using deliver_all_counts(1) [OF refl, of signals] assms by simp
  then show "d \<in> set (valid_decisions signals)" by (rule first_row_SomeD)
  obtain ds where "valid_decisions signals = d # ds" using first by (cases "valid_decisions signals") auto
  then obtain pre s post where sig: "signals = pre @ s # post" "valid_decisions pre = []"
      "normalize_approval_decision_signal s = Inr d"
    by (rule valid_decisions_split)
  let ?w = "deliver_all pre new_approval_workflow"
  have none: "aw_decision ?w = None"
    using deliver_all_undecided [OF _ sig(2), of new_approval_workflow] by (simp add: new_approval_workflow_def)
  let ?w1 = "accept_decision s ?w"
  have w1: "aw_decision ?w1 = Some d" "aw_legacy_delivery ?w1 = is_bool s"
    by (simp_all add: accept_decision_def sig(3) none)
  have "deliver_all signals new_approval_workflow = deliver_all post ?w1"
    by (simp add: sig(1) deliver_all_def)
  then have legacy: "aw_legacy_delivery (deliver_all signals new_approval_workflow) = is_bool s"
    by (simp add: deliver_all_decided [OF w1(1)] w1(2))
  from sig(3) show "\<exists>b. d = legacy_decision b" if "aw_legacy_delivery (deliver_all signals new_approval_workflow)"
    using that by (cases rule: normalize_signal_cases) (auto simp: legacy is_bool_def)
  from sig(3) show "\<exists>d0. v1_ok d0 \<and> d = v1_fields d0" if "\<not> aw_legacy_delivery (deliver_all signals new_approval_workflow)"
    using that by (cases rule: normalize_signal_cases) (auto simp: legacy is_bool_def)
qed

text \<open>C13. Reconciliation tells its own delivery from any other: when a dispatcher reads the result of a workflow that
  completed after some sequence of signals, it takes the delivery for its own exactly when the first valid signal of
  the sequence was the payload of its request, and for a conflict otherwise; a legacy boolean is a conflict too.\<close>

theorem reconcile_exact:
  assumes "run_workflow payload (deliver_all signals new_approval_workflow) = Some result"
    and "rt_reader drt = Some (\<lambda>_. ReadResult (Some result))"
  shows "reconcile drt claimed sg =
    Some (if first_row (valid_decisions signals) = Some (runtime_payload sg) then Matching else Conflicting)"
proof -
  let ?w = "deliver_all signals new_approval_workflow"
  obtain d where d: "aw_decision ?w = Some d" using assms(1) by (auto simp: run_workflow_def split: option.splits)
  have first: "first_row (valid_decisions signals) = Some d" using deliver_all_counts(1) [OF refl, of signals] d by simp
  show ?thesis
  proof (cases "aw_legacy_delivery ?w")
    case True
    then obtain b where "d = legacy_decision b" using accepted_signal(2) [OF d] by blast
    moreover have "dget result ''decision'' = JNull"
      using assms(1) d True by (auto simp: run_workflow_def dget_def split: option.splits)
    ultimately show ?thesis
      using assms(2) first legacy_not_v1 by (simp add: reconcile_def)
  next
    case False
    then obtain d0 where d0: "v1_ok d0" "d = v1_fields d0" using accepted_signal(3) [OF d] by blast
    have "dget result ''decision'' = JObj d"
      using assms(1) d False by (auto simp: run_workflow_def dget_def split: option.splits)
    then show ?thesis
      using assms(2) first json_eq_v1 [OF d0(1)] d0(2) by (simp add: reconcile_def)
  qed
qed

theorem reconcile_exact_witness:
  "\<exists>result. run_workflow [] (deliver_all [JBool True] new_approval_workflow) = Some result
   \<and> (\<forall>claimed. reconcile \<lparr>rt_decode = (\<lambda>_. Inl []), rt_signal = (\<lambda>_ _. Signalled),
       rt_reader = Some (\<lambda>_. ReadResult (Some result)), rt_uniform = (\<lambda>_ _ x. x)\<rparr> claimed example_signal_request = Some Conflicting)"
proof -
  let ?result = "[(''status'', JStr ''approved''), (''payload'', JObj [])]"
  let ?drt = "\<lparr>rt_decode = (\<lambda>_. Inl []), rt_signal = (\<lambda>_ _. Signalled),
       rt_reader = Some (\<lambda>_. ReadResult (Some ?result)), rt_uniform = (\<lambda>_ _ x. x)\<rparr>"
  have run: "run_workflow [] (deliver_all [JBool True] new_approval_workflow) = Some ?result"
    by (simp add: run_workflow_def deliver_all_def accept_decision_def normalize_approval_decision_signal_def
        new_approval_workflow_def is_bool_def json_text_def decision_status_def)
  have valid: "valid_decisions [JBool True] = [legacy_decision True]"
    by (simp add: normalize_approval_decision_signal_def)
  have "reconcile ?drt claimed example_signal_request = Some Conflicting" for claimed
    using reconcile_exact [OF run, of ?drt claimed example_signal_request] valid by (simp add: legacy_not_v1)
  with run show ?thesis by blast
qed

end
